(* ===== verification/Prelude.thy ===== *)
theory Prelude
  imports Main "HOL-Library.Word" "HOL-Library.State_Monad"
begin

section \<open>Shared types, byte strings and string operations\<close>

text \<open>
  The vocabulary every component uses: the machine integers and byte strings of
  \<^verbatim>\<open>alloy::primitives\<close>, the Rust string operations the tool calls
  (\<^verbatim>\<open>trim\<close>, \<^verbatim>\<open>strip_prefix\<close>, \<^verbatim>\<open>split\<close>, \<^verbatim>\<open>lines\<close>, \<^verbatim>\<open>parse::<u64>\<close>), the failures
  a run can end with, and the record \<open>ext\<close> of the third-party functions the code calls and
  which are parameters of the model. Strings are ASCII: a character is one byte.
\<close>

named_theorems result_simps \<open>rewrite rules for sequencing fallible computations\<close>
named_theorems codec_laws \<open>round-trip laws of the encoders\<close>

type_synonym byte = "8 word"
type_synonym bytes = "byte list"
type_synonym u32 = "32 word"
type_synonym u64 = "64 word"
type_synonym u256 = "256 word"
type_synonym b256 = "256 word"
type_synonym address = "160 word"
type_synonym selector = bytes

text \<open>
  A run that does not return a value fails: \<open>Bail\<close> is an \<^verbatim>\<open>anyhow\<close> error handed to the
  caller (with the constant part of its message), \<open>Panic\<close> an \<^verbatim>\<open>unwrap\<close>, \<^verbatim>\<open>expect\<close> or
  \<^verbatim>\<open>panic!\<close> that ends the process.
\<close>

datatype failure = Bail string | Panic string

type_synonym 'a res = "failure + 'a"

definition ok_or :: "failure \<Rightarrow> 'a option \<Rightarrow> 'a res" where
  "ok_or e x = (case x of None \<Rightarrow> Inl e | Some a \<Rightarrow> Inr a)"

definition ensure :: "bool \<Rightarrow> failure \<Rightarrow> unit res" where
  "ensure b e = (if b then Inr () else Inl e)"

text \<open>The \<^verbatim>\<open>?\<close> operator on results: go on with the value or return the failure.\<close>

definition bind_res :: "'a res \<Rightarrow> ('a \<Rightarrow> 'b res) \<Rightarrow> 'b res" where
  "bind_res x f = (case x of Inl e \<Rightarrow> Inl e | Inr a \<Rightarrow> f a)"

text \<open>A \<^verbatim>\<open>for\<close> loop whose body may fail: stop at the first failure.\<close>

fun fold_res :: "('a \<Rightarrow> 's \<Rightarrow> 's res) \<Rightarrow> 'a list \<Rightarrow> 's \<Rightarrow> 's res" where
  "fold_res f [] s = Inr s"
| "fold_res f (x # xs) s = bind_res (f x s) (fold_res f xs)"

definition for_res :: "('a \<Rightarrow> unit res) \<Rightarrow> 'a list \<Rightarrow> unit res" where
  "for_res f xs = fold_res (\<lambda>x _. f x) xs ()"

fun map_res :: "('a \<Rightarrow> 'b res) \<Rightarrow> 'a list \<Rightarrow> 'b list res" where
  "map_res f [] = Inr []"
| "map_res f (x # xs) = bind_res (f x) (\<lambda>y. bind_res (map_res f xs) (\<lambda>ys. Inr (y # ys)))"

text \<open>Third-party code: hashing, hex, and address parsing of the \<^verbatim>\<open>alloy\<close> crates, and the
  function selectors \<^verbatim>\<open>evmole\<close> finds in runtime bytecode.\<close>

record ext =
  keccak256 :: "bytes \<Rightarrow> b256"
  hex_decode :: "string \<Rightarrow> bytes option"
  hex_encode :: "bytes \<Rightarrow> string"
  address_from_str :: "string \<Rightarrow> address option"
  address_from_hex :: "string \<Rightarrow> address option"
  address_parse_checksummed :: "string \<Rightarrow> address option"
  u256_checked_shr :: "u256 \<Rightarrow> nat \<Rightarrow> u256 option"
  evmole_selectors :: "bytes \<Rightarrow> selector list option"

section \<open>Big-endian byte strings\<close>

fun nat_of_be :: "bytes \<Rightarrow> nat \<Rightarrow> nat" where
  "nat_of_be [] acc = acc"
| "nat_of_be (b # bs) acc = nat_of_be bs (acc * 256 + unat b)"

fun be_of_nat :: "nat \<Rightarrow> nat \<Rightarrow> bytes" where
  "be_of_nat 0 v = []"
| "be_of_nat (Suc n) v = be_of_nat n (v div 256) @ [of_nat v]"

text \<open>\<^verbatim>\<open>uN::from_be_bytes\<close> and \<^verbatim>\<open>to_be_bytes\<close>; the first argument is the number of bytes.\<close>

definition from_be_bytes :: "bytes \<Rightarrow> 'a::len word" where
  "from_be_bytes bs = of_nat (nat_of_be bs 0)"

definition to_be_bytes :: "nat \<Rightarrow> 'a::len word \<Rightarrow> bytes" where
  "to_be_bytes n w = be_of_nat n (unat w)"

definition address_bytes :: "address \<Rightarrow> bytes" where
  "address_bytes a = to_be_bytes 20 a"

definition b256_bytes :: "b256 \<Rightarrow> bytes" where
  "b256_bytes h = to_be_bytes 32 h"

text \<open>\<^verbatim>\<open>&v[i..j]\<close>; callers keep \<open>i \<le> j \<le> length v\<close>.\<close>

definition slice :: "nat \<Rightarrow> nat \<Rightarrow> 'a list \<Rightarrow> 'a list" where
  "slice i j xs = take (j - i) (drop i xs)"

section \<open>String operations of the Rust standard library\<close>

definition is_ws :: "char \<Rightarrow> bool" where
  "is_ws c \<longleftrightarrow> (of_char c :: nat) \<in> {9, 10, 11, 12, 13, 32}"

definition trim :: "string \<Rightarrow> string" where
  "trim s = rev (dropWhile is_ws (rev (dropWhile is_ws s)))"

definition starts_with :: "string \<Rightarrow> string \<Rightarrow> bool" where
  "starts_with p s \<longleftrightarrow> take (length p) s = p"

definition ends_with :: "string \<Rightarrow> string \<Rightarrow> bool" where
  "ends_with p s \<longleftrightarrow> starts_with (rev p) (rev s)"

definition strip_prefix :: "string \<Rightarrow> string \<Rightarrow> string option" where
  "strip_prefix p s = (if starts_with p s then Some (drop (length p) s) else None)"

text \<open>\<^verbatim>\<open>s.strip_prefix("0x").or_else(|| s.strip_prefix("0X")).unwrap_or(s)\<close>\<close>

definition strip_0x :: "string \<Rightarrow> string" where
  "strip_0x s = (case strip_prefix ''0x'' s of Some t \<Rightarrow> t
     | None \<Rightarrow> (case strip_prefix ''0X'' s of Some t \<Rightarrow> t | None \<Rightarrow> s))"

fun split_char :: "char \<Rightarrow> string \<Rightarrow> string list" where
  "split_char c [] = [[]]"
| "split_char c (x # xs) =
     (if x = c then [] # split_char c xs
      else (case split_char c xs of [] \<Rightarrow> [[x]] | p # ps \<Rightarrow> (x # p) # ps))"

fun join :: "string \<Rightarrow> string list \<Rightarrow> string" where
  "join sep [] = []"
| "join sep [x] = x"
| "join sep (x # y # xs) = x @ sep @ join sep (y # xs)"

definition strip_cr :: "string \<Rightarrow> string" where
  "strip_cr s = (if s \<noteq> [] \<and> last s = CHR 0x0D then butlast s else s)"

text \<open>
  \<^verbatim>\<open>str::lines\<close>: lines end with a line feed, optionally preceded by a carriage return;
  a last line without a line feed counts unless it is empty.
\<close>

definition str_lines :: "string \<Rightarrow> string list" where
  "str_lines s = (let ps = split_char (CHR 0x0A) s
     in map strip_cr (butlast ps) @ (if last ps = [] then [] else [last ps]))"

text \<open>\<^verbatim>\<open>Path::join\<close>: an absolute second part replaces the first.\<close>

definition path_join :: "string \<Rightarrow> string \<Rightarrow> string" where
  "path_join a b = (if starts_with ''/'' b then b
     else if a = [] \<or> last a = CHR ''/'' then a @ b else a @ ''/'' @ b)"

definition is_digit :: "char \<Rightarrow> bool" where
  "is_digit c \<longleftrightarrow> 48 \<le> (of_char c :: nat) \<and> (of_char c :: nat) \<le> 57"

definition digit_val :: "char \<Rightarrow> nat" where
  "digit_val c = of_char c - 48"

fun digits_val :: "string \<Rightarrow> nat \<Rightarrow> nat" where
  "digits_val [] acc = acc"
| "digits_val (c # cs) acc = digits_val cs (acc * 10 + digit_val c)"

text \<open>\<^verbatim>\<open>str::parse::<u64>\<close>: an optional plus sign, at least one digit, no overflow.\<close>

definition parse_u64 :: "string \<Rightarrow> u64 option" where
  "parse_u64 s =
     (let ds = (case s of [] \<Rightarrow> [] | c # cs \<Rightarrow> if c = CHR ''+'' then cs else s)
      in if ds = [] \<or> \<not> list_all is_digit ds then None
         else if digits_val ds 0 < 2 ^ 64 then Some (of_nat (digits_val ds 0)) else None)"

definition show_digit :: "nat \<Rightarrow> char" where
  "show_digit d = char_of (48 + d)"

fun show_nat :: "nat \<Rightarrow> string" where
  "show_nat n = (if n < 10 then [show_digit n] else show_nat (n div 10) @ [show_digit (n mod 10)])"

declare show_nat.simps [simp del]

definition to_ascii_lowercase :: "char \<Rightarrow> char" where
  "to_ascii_lowercase c =
     (if 65 \<le> (of_char c :: nat) \<and> (of_char c :: nat) \<le> 90 then char_of ((of_char c :: nat) + 32) else c)"

definition eq_ignore_ascii_case :: "string \<Rightarrow> string \<Rightarrow> bool" where
  "eq_ignore_ascii_case s t \<longleftrightarrow> map to_ascii_lowercase s = map to_ascii_lowercase t"

section \<open>Interface: an encoder with its decoder\<close>

text \<open>
  A codec decodes what it encoded, on the values \<open>dom_ok\<close> its format can hold; its clients
  get that encodings of different values differ.
\<close>

locale codec =
  fixes enc :: "'a \<Rightarrow> 'b" and dec :: "'b \<Rightarrow> 'a option" and dom_ok :: "'a \<Rightarrow> bool"
  assumes dec_enc: "dom_ok x \<Longrightarrow> dec (enc x) = Some x"
begin

lemma enc_inject: "dom_ok x \<Longrightarrow> dom_ok y \<Longrightarrow> enc x = enc y \<longleftrightarrow> x = y"
  by (metis dec_enc option.inject)

lemma enc_inj_on: "inj_on enc {x. dom_ok x}"
  by (auto intro!: inj_onI simp: enc_inject)

lemma dec_some_enc: "dom_ok x \<Longrightarrow> dec (enc x) = Some y \<longleftrightarrow> y = x"
  by (auto simp: dec_enc)

end

section \<open>Results\<close>

lemma bind_res_simps [simp, result_simps]:
  "bind_res (Inr a) f = f a"
  "bind_res (Inl e) f = Inl e"
  by (simp_all add: bind_res_def)

lemma bind_res_eq_Inr [simp, result_simps]:
  "bind_res x f = Inr b \<longleftrightarrow> (\<exists>a. x = Inr a \<and> f a = Inr b)"
  by (cases x) auto

lemma bind_res_eq_Inl:
  "bind_res x f = Inl e \<longleftrightarrow> x = Inl e \<or> (\<exists>a. x = Inr a \<and> f a = Inl e)"
  by (cases x) auto

lemma ok_or_simps [simp]:
  "ok_or e (Some a) = Inr a"
  "ok_or e None = Inl e"
  by (simp_all add: ok_or_def)

lemma ok_or_eq_Inr [simp, result_simps]: "ok_or e x = Inr a \<longleftrightarrow> x = Some a"
  by (cases x) auto

lemma ensure_eq_Inr [simp, result_simps]: "ensure b e = Inr u \<longleftrightarrow> b"
  by (simp add: ensure_def)

lemma ensure_simps [simp]: "ensure True e = Inr ()" "ensure False e = Inl e"
  by (simp_all add: ensure_def)

lemma for_res_simps [simp]:
  "for_res f [] = Inr ()"
  "for_res f (x # xs) = bind_res (f x) (\<lambda>_. for_res f xs)"
  by (simp_all add: for_res_def bind_res_def split: sum.splits)

lemma for_res_eq_Inr [simp, result_simps]:
  "for_res f xs = Inr u \<longleftrightarrow> (\<forall>x \<in> set xs. f x = Inr ())"
  by (induction xs) auto

lemma map_res_eq_Inr:
  "map_res f xs = Inr ys \<longleftrightarrow> list_all2 (\<lambda>x y. f x = Inr y) xs ys"
  by (induction xs arbitrary: ys) (auto simp: list_all2_Cons1)

lemma bind_res_assoc [result_simps]: "bind_res (bind_res x f) g = bind_res x (\<lambda>a. bind_res (f a) g)"
  by (cases x) auto

lemma map_res_append:
  "map_res f (xs @ ys) = bind_res (map_res f xs) (\<lambda>us. bind_res (map_res f ys) (\<lambda>vs. Inr (us @ vs)))"
  by (induction xs) (auto simp: bind_res_def split: sum.splits)

lemma fold_res_append:
  "fold_res f (xs @ ys) s = bind_res (fold_res f xs s) (fold_res f ys)"
  by (induction xs arbitrary: s) (auto simp: bind_res_def split: sum.splits)

section \<open>Big-endian round trips\<close>

lemma unat_byte_bound [simp]: "unat (b :: byte) < 256"
  using unsigned_less [of b] by simp

lemma nat_of_be_acc: "nat_of_be bs acc = acc * 256 ^ length bs + nat_of_be bs 0"
proof (induction bs arbitrary: acc)
  case (Cons b bs)
  have "nat_of_be (b # bs) acc = (acc * 256 + unat b) * 256 ^ length bs + nat_of_be bs 0"
    by (simp add: Cons [of "acc * 256 + unat b"])
  moreover have "nat_of_be (b # bs) 0 = unat b * 256 ^ length bs + nat_of_be bs 0"
    by (simp add: Cons [of "unat b"])
  ultimately show ?case
    by (simp add: algebra_simps)
qed simp

lemma nat_of_be_append: "nat_of_be (xs @ ys) acc = nat_of_be ys (nat_of_be xs acc)"
  by (induction xs arbitrary: acc) auto

lemma nat_of_be_bound: "nat_of_be bs 0 < 256 ^ length bs"
proof (induction bs)
  case (Cons b bs)
  have "unat b \<le> 255"
    using unat_byte_bound [of b] by linarith
  then have "unat b * 256 ^ length bs \<le> 255 * 256 ^ length bs"
    by (rule mult_le_mono1)
  moreover have "nat_of_be (b # bs) 0 = unat b * 256 ^ length bs + nat_of_be bs 0"
    by (simp add: nat_of_be_acc [of bs "unat b"])
  moreover have "(256::nat) ^ length (b # bs) = 256 * 256 ^ length bs"
    by simp
  ultimately show ?case
    using Cons by linarith
qed simp

lemma length_be_of_nat [simp]: "length (be_of_nat n v) = n"
  by (induction n arbitrary: v) auto

lemma be_of_nat_zero: "be_of_nat n 0 = replicate n 0"
  by (induction n) (simp_all add: replicate_append_same)

lemma unat_of_nat_byte [simp]: "unat (of_nat v :: byte) = v mod 256"
  by (simp add: unat_of_nat)

lemma nat_of_be_be_of_nat: "nat_of_be (be_of_nat n v) 0 = v mod 256 ^ n"
proof (induction n arbitrary: v)
  case (Suc n)
  have "nat_of_be (be_of_nat (Suc n) v) 0 = (v div 256) mod 256 ^ n * 256 + v mod 256"
    by (simp add: nat_of_be_append Suc)
  also have "\<dots> = v mod (256 * 256 ^ n)"
    by (metis add.commute mod_mult2_eq mult.commute)
  finally show ?case by simp
qed simp

lemma be_of_nat_nat_of_be: "be_of_nat (length bs) (nat_of_be bs 0) = bs"
proof (induction bs rule: rev_induct)
  case (snoc b bs)
  have "unat b < 256" by simp
  then have "(nat_of_be bs 0 * 256 + unat b) div 256 = nat_of_be bs 0"
    by simp
  moreover have "(of_nat (nat_of_be bs 0 * 256 + unat b) :: byte) = b"
    by (rule word_unat_eq_iff [THEN iffD2]) (use \<open>unat b < 256\<close> in \<open>simp del: of_nat_add of_nat_mult\<close>)
  ultimately show ?case
    using snoc by (simp add: nat_of_be_append)
qed simp

lemma length_to_be_bytes [simp]: "length (to_be_bytes n w) = n"
  by (simp add: to_be_bytes_def)

lemma from_to_be_bytes [codec_laws]:
  assumes "LENGTH('a) \<le> 8 * n"
  shows "from_be_bytes (to_be_bytes n w) = (w :: 'a::len word)"
proof -
  have "unat w < 2 ^ LENGTH('a)" by simp
  also have "(2::nat) ^ LENGTH('a) \<le> 2 ^ (8 * n)"
    using assms by simp
  also have "(2::nat) ^ (8 * n) = 256 ^ n"
    by (simp add: power_mult)
  finally have "unat w mod 256 ^ n = unat w" by simp
  then show ?thesis
    by (simp add: from_be_bytes_def to_be_bytes_def nat_of_be_be_of_nat)
qed

lemma to_from_be_bytes [codec_laws]:
  assumes "8 * length bs \<le> LENGTH('a)"
  shows "to_be_bytes (length bs) (from_be_bytes bs :: 'a::len word) = bs"
proof -
  have "nat_of_be bs 0 < 256 ^ length bs" by (rule nat_of_be_bound)
  also have "(256::nat) ^ length bs = 2 ^ (8 * length bs)"
    by (simp add: power_mult)
  also have "(2::nat) ^ (8 * length bs) \<le> 2 ^ LENGTH('a)"
    using assms by simp
  finally show ?thesis
    by (simp add: from_be_bytes_def to_be_bytes_def unat_of_nat be_of_nat_nat_of_be)
qed

lemma length_address_bytes [simp]: "length (address_bytes a) = 20"
  by (simp add: address_bytes_def)

lemma length_b256_bytes [simp]: "length (b256_bytes h) = 32"
  by (simp add: b256_bytes_def)

text \<open>The two fixed-size byte types are codecs into byte strings.\<close>

interpretation addr_codec: codec address_bytes "\<lambda>bs. if length bs = 20 then Some (from_be_bytes bs) else None" "\<lambda>_. True"
  by unfold_locales (simp add: address_bytes_def from_to_be_bytes)

interpretation b256_codec: codec b256_bytes "\<lambda>bs. if length bs = 32 then Some (from_be_bytes bs) else None" "\<lambda>_. True"
  by unfold_locales (simp add: b256_bytes_def from_to_be_bytes)

lemma address_bytes_inject [simp]: "address_bytes a = address_bytes b \<longleftrightarrow> a = b"
  by (rule addr_codec.enc_inject) simp_all

lemma b256_bytes_inject [simp]: "b256_bytes a = b256_bytes b \<longleftrightarrow> a = b"
  by (rule b256_codec.enc_inject) simp_all

section \<open>Decimal numbers\<close>

lemma of_char_show_digit [simp]: "d < 10 \<Longrightarrow> (of_char (show_digit d) :: nat) = 48 + d"
  by (simp add: show_digit_def)

lemma show_digit_digit [simp]: "d < 10 \<Longrightarrow> is_digit (show_digit d)"
  by (simp add: is_digit_def)

lemma show_digit_val [simp]: "d < 10 \<Longrightarrow> digit_val (show_digit d) = d"
  by (simp add: digit_val_def)

lemma digits_val_append: "digits_val (xs @ ys) acc = digits_val ys (digits_val xs acc)"
  by (induction xs arbitrary: acc) auto

lemma show_nat_step:
  "n < 10 \<Longrightarrow> show_nat n = [show_digit n]"
  "10 \<le> n \<Longrightarrow> show_nat n = show_nat (n div 10) @ [show_digit (n mod 10)]"
  by (simp_all add: show_nat.simps [of n])

lemma show_nat_nonempty [simp]: "show_nat n \<noteq> []"
  by (subst show_nat.simps) simp

lemma show_nat_digits: "list_all is_digit (show_nat n)"
proof (induction n rule: show_nat.induct)
  case (1 n)
  then show ?case
    by (cases "n < 10") (simp_all add: show_nat.simps [of n])
qed

lemma show_nat_val: "digits_val (show_nat n) 0 = n"
proof (induction n rule: show_nat.induct)
  case (1 n)
  then show ?case
    by (cases "n < 10") (simp_all add: show_nat.simps [of n] digits_val_append)
qed

lemma is_digit_neq [simp]:
  "\<not> is_digit (CHR ''+'')" "\<not> is_digit (CHR ''.'')" "\<not> is_digit (CHR ''v'')"
  by (simp_all add: is_digit_def)

lemma parse_u64_digits:
  assumes "list_all is_digit ds" "ds \<noteq> []"
  shows "parse_u64 ds = (if digits_val ds 0 < 2 ^ 64 then Some (of_nat (digits_val ds 0)) else None)"
proof -
  obtain c cs where ds: "ds = c # cs"
    using assms(2) by (cases ds) auto
  with assms(1) have "c \<noteq> CHR ''+''" by auto
  with assms(1) ds show ?thesis by (simp add: parse_u64_def)
qed

lemma parse_show_u64 [codec_laws]: "parse_u64 (show_nat (unat w)) = Some w"
proof -
  have "unat w < 2 ^ 64" using unsigned_less [of w] by simp
  then show ?thesis
    by (simp add: parse_u64_digits show_nat_digits show_nat_val del: of_nat_numeral)
qed

section \<open>Splitting, joining and trimming\<close>

lemma split_char_nonempty [simp]: "split_char c s \<noteq> []"
  by (induction s) (auto split: list.splits)

lemma split_char_no_sep: "c \<notin> set s \<Longrightarrow> split_char c s = [s]"
  by (induction s) auto

lemma split_char_append_sep: "c \<notin> set s \<Longrightarrow> split_char c (s @ c # t) = s # split_char c t"
  by (induction s) auto

lemma split_join_char:
  assumes "xs \<noteq> []" "\<forall>x \<in> set xs. c \<notin> set x"
  shows "split_char c (join [c] xs) = xs"
  using assms by (induction "[c]" xs rule: join.induct) (auto simp: split_char_no_sep split_char_append_sep)

lemma join_Cons_head: "join sep ((x # p) # ps) = x # join sep (p # ps)"
  by (cases ps) auto

lemma join_Nil_head: "ps \<noteq> [] \<Longrightarrow> join sep ([] # ps) = sep @ join sep ps"
  by (cases ps) auto

lemma join_split_char: "join [c] (split_char c s) = s"
  by (induction s) (auto split: list.splits simp: join_Cons_head join_Nil_head)

lemma split_char_pieces: "p \<in> set (split_char c s) \<Longrightarrow> c \<notin> set p"
  by (induction s arbitrary: p) (auto split: list.splits if_splits)

lemma dropWhile_eq_self_hd: "(xs = [] \<or> \<not> P (hd xs)) \<Longrightarrow> dropWhile P xs = xs"
  by (cases xs) auto

lemma trim_id:
  assumes "s = [] \<or> (\<not> is_ws (hd s) \<and> \<not> is_ws (last s))"
  shows "trim s = s"
  using assms by (auto simp: trim_def dropWhile_eq_self_hd hd_rev)

lemma dropWhile_rev_prefix: "\<exists>zs. xs = rev (dropWhile P (rev xs)) @ zs"
  by (metis rev_append rev_rev_ident takeWhile_dropWhile_id)

lemma trim_ends:
  assumes "trim s \<noteq> []"
  shows "\<not> is_ws (hd (trim s)) \<and> \<not> is_ws (last (trim s))"
proof
  obtain zs where zs: "dropWhile is_ws s = trim s @ zs"
    unfolding trim_def using dropWhile_rev_prefix by blast
  then have "dropWhile is_ws s \<noteq> []" "hd (dropWhile is_ws s) = hd (trim s)"
    using assms by simp_all
  then show "\<not> is_ws (hd (trim s))"
    using hd_dropWhile by metis
  have "dropWhile is_ws (rev (dropWhile is_ws s)) \<noteq> []"
    using assms by (simp add: trim_def)
  then show "\<not> is_ws (last (trim s))"
    unfolding trim_def by (simp only: last_rev hd_dropWhile not_False_eq_True)
qed

lemma trim_trim [simp]: "trim (trim s) = trim s"
  using trim_ends by (intro trim_id) blast

lemma starts_with_Nil [simp]: "starts_with [] s"
  by (simp add: starts_with_def)

lemma starts_with_iff: "starts_with p s \<longleftrightarrow> (\<exists>r. s = p @ r)"
  by (metis append_eq_conv_conj append_take_drop_id starts_with_def)

lemma starts_with_append [simp]: "starts_with p (p @ s)"
  by (simp add: starts_with_def)

lemma starts_with_Cons [simp]:
  "starts_with (c # p) (x # s) \<longleftrightarrow> c = x \<and> starts_with p s"
  "\<not> starts_with (c # p) []"
  by (auto simp: starts_with_def)

lemma strip_prefix_append [simp]: "strip_prefix p (p @ s) = Some s"
  by (simp add: strip_prefix_def)

lemma strip_0x_prefix [simp]:
  "strip_0x (CHR ''0'' # CHR ''x'' # s) = s"
  "strip_0x (CHR ''0'' # CHR ''X'' # s) = s"
  by (simp_all add: strip_0x_def strip_prefix_def)

lemma length_slice [simp]: "i \<le> j \<Longrightarrow> j \<le> length xs \<Longrightarrow> length (slice i j xs) = j - i"
  by (simp add: slice_def)

lemma find_in_list: "find P xs = Some x \<Longrightarrow> x \<in> set xs \<and> P x"
  by (induction xs) (auto split: if_splits)

end
