(* ===== verification/Report.thy ===== *)
theory Report
  imports Prelude
begin

section \<open>The verification report\<close>

text \<open>
  \<^verbatim>\<open>VerificationResult\<close> of \<^verbatim>\<open>upgrade_verification/verifiers.rs\<close>: two counters and the lines
  printed to standard output, of which the model keeps the kind (\<open>[OK]\<close>, \<open>[WARN]\<close>,
  \<open>[ERROR]\<close> or a plain line) and not the text. Every check of the tool takes the report as
  \<^verbatim>\<open>&mut\<close>, so a check is a \<open>state\<close> computation over it. The second half is the
  library the component proofs use: a check only appends lines (\<open>writer\<close>), its value and its
  lines do not depend on what was reported before, and it is \<open>clean\<close> when it appends no error.
  The counters are \<open>nat\<close>: a report never reaches \<^verbatim>\<open>u64::MAX\<close> lines.
\<close>

named_theorems writer_intros \<open>computations that only append lines to the report\<close>

datatype line = Info_line | Ok_line | Warn_line | Error_line

record vresult =
  result :: string
  warnings :: nat
  errors :: nat
  printed :: "line list"

definition vresult_default :: vresult where
  "vresult_default = \<lparr>result = [], warnings = 0, errors = 0, printed = []\<rparr>"

type_synonym 'a vr = "(vresult, 'a) state"

definition print_info :: "unit vr" where
  "print_info = State_Monad.update (\<lambda>s. s\<lparr>printed := printed s @ [Info_line]\<rparr>)"

definition report_ok :: "unit vr" where
  "report_ok = State_Monad.update (\<lambda>s. s\<lparr>printed := printed s @ [Ok_line]\<rparr>)"

definition report_warn :: "unit vr" where
  "report_warn = State_Monad.update
     (\<lambda>s. s\<lparr>warnings := warnings s + 1, printed := printed s @ [Warn_line]\<rparr>)"

definition report_error :: "unit vr" where
  "report_error = State_Monad.update
     (\<lambda>s. s\<lparr>errors := errors s + 1, printed := printed s @ [Error_line]\<rparr>)"

definition ensure_success :: "vresult \<Rightarrow> unit res" where
  "ensure_success s = (if errors s > 0 then Inl (Bail ''verify-upgrade failed'') else Inr ())"

text \<open>The headline of \<^verbatim>\<open>impl Display for VerificationResult\<close>.\<close>

datatype headline = ERROR nat nat | WARN nat | OK

definition display_headline :: "vresult \<Rightarrow> headline" where
  "display_headline s = (if errors s > 0 then ERROR (errors s) (warnings s)
     else if warnings s > 0 then WARN (warnings s) else OK)"

text \<open>
  Sequencing: \<open>tryM\<close> is \<^verbatim>\<open>?\<close> in a function that also writes the report, \<open>okM\<close> and
  \<open>failM\<close> its two ends, \<open>liftM\<close> runs a check that cannot fail and \<open>forM\<close> is a \<^verbatim>\<open>for\<close> loop.
\<close>

definition okM :: "'a \<Rightarrow> 'a res vr" where
  "okM a = State_Monad.return (Inr a)"

definition failM :: "failure \<Rightarrow> 'a res vr" where
  "failM e = State_Monad.return (Inl e)"

definition liftM :: "'a vr \<Rightarrow> 'a res vr" where
  "liftM m = do { a \<leftarrow> m; State_Monad.return (Inr a) }"

definition tryM :: "'a res vr \<Rightarrow> ('a \<Rightarrow> 'b res vr) \<Rightarrow> 'b res vr" where
  "tryM m f = do { x \<leftarrow> m; case x of Inl e \<Rightarrow> failM e | Inr a \<Rightarrow> f a }"

fun forM :: "('a \<Rightarrow> unit vr) \<Rightarrow> 'a list \<Rightarrow> unit vr" where
  "forM f [] = State_Monad.return ()"
| "forM f (x # xs) = do { f x; forM f xs }"

fun foldM :: "('a \<Rightarrow> 's \<Rightarrow> 's vr) \<Rightarrow> 'a list \<Rightarrow> 's \<Rightarrow> 's vr" where
  "foldM f [] s = State_Monad.return s"
| "foldM f (x # xs) s = do { s' \<leftarrow> f x s; foldM f xs s' }"

fun foldTM :: "('a \<Rightarrow> 's \<Rightarrow> 's res vr) \<Rightarrow> 'a list \<Rightarrow> 's \<Rightarrow> 's res vr" where
  "foldTM f [] s = okM s"
| "foldTM f (x # xs) s = tryM (f x s) (foldTM f xs)"

text \<open>\<^verbatim>\<open>let before = result.errors; \<dots>; (result.errors - before)\<close>\<close>

definition errors_during :: "'a vr \<Rightarrow> nat vr" where
  "errors_during m = do {
     s0 \<leftarrow> State_Monad.get;
     m;
     s1 \<leftarrow> State_Monad.get;
     State_Monad.return (errors s1 - errors s0) }"

definition errors_during_res :: "'a res vr \<Rightarrow> nat res vr" where
  "errors_during_res m = do {
     s0 \<leftarrow> State_Monad.get;
     r \<leftarrow> m;
     (case r of Inl e \<Rightarrow> failM e
      | Inr _ \<Rightarrow> do { s1 \<leftarrow> State_Monad.get; okM (errors s1 - errors s0) }) }"

section \<open>Appending lines\<close>

definition append_lines :: "line list \<Rightarrow> vresult \<Rightarrow> vresult" where
  "append_lines l s = s\<lparr>warnings := warnings s + count_list l Warn_line,
     errors := errors s + count_list l Error_line, printed := printed s @ l\<rparr>"

definition writer :: "'a vr \<Rightarrow> bool" where
  "writer m \<longleftrightarrow> (\<exists>a l. \<forall>s. run_state m s = (a, append_lines l s))"

definition val :: "'a vr \<Rightarrow> 'a" where
  "val m = fst (run_state m vresult_default)"

definition out :: "'a vr \<Rightarrow> line list" where
  "out m = printed (snd (run_state m vresult_default))"

definition clean :: "'a vr \<Rightarrow> bool" where
  "clean m \<longleftrightarrow> Error_line \<notin> set (out m)"

text \<open>The counters agree with what was printed.\<close>

definition consistent :: "vresult \<Rightarrow> bool" where
  "consistent s \<longleftrightarrow> errors s = count_list (printed s) Error_line
     \<and> warnings s = count_list (printed s) Warn_line"

lemma append_lines_Nil [simp]: "append_lines [] s = s"
  by (simp add: append_lines_def)

lemma append_lines_append [simp]: "append_lines l' (append_lines l s) = append_lines (l @ l') s"
  by (simp add: append_lines_def)

lemma append_lines_fields [simp]:
  "errors (append_lines l s) = errors s + count_list l Error_line"
  "warnings (append_lines l s) = warnings s + count_list l Warn_line"
  "printed (append_lines l s) = printed s @ l"
  "result (append_lines l s) = result s"
  by (simp_all add: append_lines_def)

lemma vresult_default_fields [simp]:
  "errors vresult_default = 0" "warnings vresult_default = 0" "printed vresult_default = []"
  by (simp_all add: vresult_default_def)

lemma run_update [simp]: "run_state (State_Monad.update f) s = ((), f s)"
  by (simp add: State_Monad.update_def)

lemma run_report:
  "run_state print_info s = ((), append_lines [Info_line] s)"
  "run_state report_ok s = ((), append_lines [Ok_line] s)"
  "run_state report_warn s = ((), append_lines [Warn_line] s)"
  "run_state report_error s = ((), append_lines [Error_line] s)"
  by (simp_all add: print_info_def report_ok_def report_warn_def report_error_def append_lines_def)

lemma writerI: "(\<And>s. run_state m s = (a, append_lines l s)) \<Longrightarrow> writer m"
  by (auto simp: writer_def)

lemma run_writer:
  assumes "writer m"
  shows "run_state m s = (val m, append_lines (out m) s)"
proof -
  obtain a l where m: "\<And>s. run_state m s = (a, append_lines l s)"
    using assms by (auto simp: writer_def)
  then have "val m = a" "out m = l"
    by (simp_all add: val_def out_def)
  with m show ?thesis by simp
qed

lemma val_out_eqI:
  assumes "\<And>s. run_state m s = (a, append_lines l s)"
  shows "val m = a" "out m = l"
  using assms by (simp_all add: val_def out_def)

lemma writer_report [simp, writer_intros]:
  "writer print_info" "writer report_ok" "writer report_warn" "writer report_error"
  by (auto intro: writerI simp: run_report)

lemma out_report [simp]:
  "out print_info = [Info_line]" "out report_ok = [Ok_line]"
  "out report_warn = [Warn_line]" "out report_error = [Error_line]"
  by (simp_all add: out_def run_report)

lemma writer_return [simp, writer_intros]: "writer (State_Monad.return a)"
  by (rule writerI [of _ a "[]"]) simp

lemma val_out_return [simp]: "val (State_Monad.return a) = a" "out (State_Monad.return a) = []"
  by (simp_all add: val_def out_def)

lemma run_bind_writer:
  assumes "writer m" "writer (f (val m))"
  shows "run_state (State_Monad.bind m f) s
    = (val (f (val m)), append_lines (out m @ out (f (val m))) s)"
  by (simp add: run_writer [OF assms(1)] run_writer [OF assms(2)])

lemma writer_bind [simp, writer_intros]:
  assumes "writer m" "\<And>a. writer (f a)"
  shows "writer (State_Monad.bind m f)"
  using run_bind_writer [of m f, OF assms(1) assms(2)] by (rule writerI)

lemma val_bind [simp]:
  assumes "writer m" "writer (f (val m))"
  shows "val (State_Monad.bind m f) = val (f (val m))"
  using run_bind_writer [of m f, OF assms] by (rule val_out_eqI(1))

lemma out_bind [simp]:
  assumes "writer m" "writer (f (val m))"
  shows "out (State_Monad.bind m f) = out m @ out (f (val m))"
  using run_bind_writer [of m f, OF assms] by (rule val_out_eqI(2))

lemma clean_bind [simp]:
  assumes "writer m" "writer (f (val m))"
  shows "clean (State_Monad.bind m f) \<longleftrightarrow> clean m \<and> clean (f (val m))"
  by (simp add: clean_def assms)

lemma clean_simps [simp]:
  "clean (State_Monad.return a)" "clean print_info" "clean report_ok" "clean report_warn"
  "\<not> clean report_error"
  by (simp_all add: clean_def)

lemma clean_errors_unchanged:
  assumes "writer m"
  shows "clean m \<longleftrightarrow> errors (snd (run_state m s)) = errors s"
  using count_list_0_iff [of "out m" Error_line] by (simp add: run_writer [OF assms] clean_def)

lemma writer_consistent:
  assumes "writer m" "consistent s"
  shows "consistent (snd (run_state m s))"
  using assms(2) by (simp add: run_writer [OF assms(1)] consistent_def)

lemma writer_if [simp, writer_intros]: "writer m \<Longrightarrow> writer n \<Longrightarrow> writer (if b then m else n)"
  by simp

section \<open>The failing fragment\<close>

lemma writer_okM [simp, writer_intros]: "writer (okM a)" "writer (failM e)"
  by (simp_all add: okM_def failM_def)

lemma val_out_okM [simp]:
  "val (okM a) = Inr a" "out (okM a) = []" "val (failM e) = Inl e" "out (failM e) = []"
  "clean (okM a)" "clean (failM e)"
  by (simp_all add: okM_def failM_def)

lemma writer_liftM [simp, writer_intros]: "writer m \<Longrightarrow> writer (liftM m)"
  by (simp add: liftM_def)

lemma val_out_liftM [simp]:
  assumes "writer m"
  shows "val (liftM m) = Inr (val m)" "out (liftM m) = out m" "clean (liftM m) \<longleftrightarrow> clean m"
  using assms by (simp_all add: liftM_def clean_def)

lemma writer_tryM [simp, writer_intros]:
  assumes "writer m" "\<And>a. writer (f a)"
  shows "writer (tryM m f)"
  unfolding tryM_def using assms by (intro writer_bind) (auto split: sum.splits)

lemma run_tryM_writer:
  assumes "writer m" "\<And>a. val m = Inr a \<Longrightarrow> writer (f a)"
  shows "run_state (tryM m f) s = (case val m of Inl e \<Rightarrow> (Inl e, append_lines (out m) s)
    | Inr a \<Rightarrow> (val (f a), append_lines (out m @ out (f a)) s))"
  using assms(2) by (cases "val m")
    (simp_all add: tryM_def run_writer [OF assms(1)] run_writer failM_def)

lemma tryM_Inr [simp]:
  assumes "val m = Inr a" "writer m" "writer (f a)"
  shows "val (tryM m f) = val (f a)" "out (tryM m f) = out m @ out (f a)"
    "clean (tryM m f) \<longleftrightarrow> clean m \<and> clean (f a)"
  using run_tryM_writer [of m f] assms by (auto simp: val_def out_def clean_def)

lemma tryM_Inl [simp]:
  assumes "val m = Inl e" "writer m"
  shows "val (tryM m f) = Inl e" "out (tryM m f) = out m" "clean (tryM m f) \<longleftrightarrow> clean m"
  using run_tryM_writer [of m f] assms by (auto simp: val_def out_def clean_def)

lemma val_tryM_eq_Inr:
  assumes "writer m" "\<And>a. writer (f a)"
  shows "val (tryM m f) = Inr b \<longleftrightarrow> (\<exists>a. val m = Inr a \<and> val (f a) = Inr b)"
  using assms by (cases "val m") auto

section \<open>Loops\<close>

lemma writer_forM [simp, writer_intros]: "(\<And>x. writer (f x)) \<Longrightarrow> writer (forM f xs)"
  by (induction xs) auto

lemma clean_forM [simp]:
  assumes "\<And>x. writer (f x)"
  shows "clean (forM f xs) \<longleftrightarrow> (\<forall>x \<in> set xs. clean (f x))"
  using assms by (induction xs) auto

lemma writer_foldM [simp, writer_intros]:
  "(\<And>x s. writer (f x s)) \<Longrightarrow> writer (foldM f xs s)"
  by (induction xs arbitrary: s) auto

lemma val_foldM:
  assumes "\<And>x s. writer (f x s)"
  shows "val (foldM f xs s) = fold (\<lambda>x s. val (f x s)) xs s"
  using assms by (induction xs arbitrary: s) auto

lemma clean_foldM:
  assumes "\<And>x s. writer (f x s)" "\<And>x s. clean (f x s) \<longleftrightarrow> P x"
  shows "clean (foldM f xs s) \<longleftrightarrow> (\<forall>x \<in> set xs. P x)"
  by (induction xs arbitrary: s) (simp_all add: assms)

lemma foldM_append: "foldM f (xs @ ys) s = do { s' \<leftarrow> foldM f xs s; foldM f ys s' }"
  by (induction xs arbitrary: s) (simp_all, metis)

lemma writer_foldTM [simp, writer_intros]:
  "(\<And>x s. writer (f x s)) \<Longrightarrow> writer (foldTM f xs s)"
  by (induction xs arbitrary: s) auto

text \<open>An invariant of the loop state that every completed pass keeps.\<close>

lemma foldTM_invariant:
  assumes "\<And>x s. writer (f x s)" "\<And>x s s'. x \<in> set xs \<Longrightarrow> P s \<Longrightarrow> val (f x s) = Inr s' \<Longrightarrow> P s'"
    and "P s" "val (foldTM f xs s) = Inr s'"
  shows "P s'"
  using assms(2-)
proof (induction xs arbitrary: s)
  case (Cons x xs)
  from Cons.prems(3) obtain s1 where "val (f x s) = Inr s1" "val (foldTM f xs s1) = Inr s'"
    by (auto simp: val_tryM_eq_Inr assms(1))
  with Cons.prems(1,2) show ?case
    by (intro Cons.IH) auto
qed simp

lemma errors_during_simps [simp]:
  assumes "writer m"
  shows "writer (errors_during m)" "val (errors_during m) = count_list (out m) Error_line"
    "out (errors_during m) = out m" "clean (errors_during m) \<longleftrightarrow> clean m"
proof -
  have run: "run_state (errors_during m) s = (count_list (out m) Error_line, append_lines (out m) s)" for s
    by (simp add: errors_during_def run_writer [OF assms])
  show "writer (errors_during m)"
    using run by (rule writerI)
  show "val (errors_during m) = count_list (out m) Error_line" "out (errors_during m) = out m"
    using val_out_eqI [OF run] by simp_all
  then show "clean (errors_during m) \<longleftrightarrow> clean m"
    by (simp add: clean_def)
qed

lemma errors_during_res_simps [simp]:
  assumes "writer m"
  shows "writer (errors_during_res m)"
    "val (errors_during_res m) = (case val m of Inl e \<Rightarrow> Inl e | Inr _ \<Rightarrow> Inr (count_list (out m) Error_line))"
    "out (errors_during_res m) = out m" "clean (errors_during_res m) \<longleftrightarrow> clean m"
proof -
  have run: "run_state (errors_during_res m) s
    = (case val m of Inl e \<Rightarrow> Inl e | Inr _ \<Rightarrow> Inr (count_list (out m) Error_line), append_lines (out m) s)" for s
    by (cases "val m") (simp_all add: errors_during_res_def run_writer [OF assms] okM_def failM_def)
  show "writer (errors_during_res m)"
    using run by (rule writerI)
  show "val (errors_during_res m) = (case val m of Inl e \<Rightarrow> Inl e | Inr _ \<Rightarrow> Inr (count_list (out m) Error_line))"
    "out (errors_during_res m) = out m"
    using val_out_eqI [OF run] by simp_all
  then show "clean (errors_during_res m) \<longleftrightarrow> clean m"
    by (simp add: clean_def)
qed

text \<open>
  Many checks return how many errors they reported. \<open>counts_errors\<close> says the number is right;
  such a check returned zero exactly when it was clean.
\<close>

definition counts_errors :: "nat vr \<Rightarrow> bool" where
  "counts_errors m \<longleftrightarrow> val m = count_list (out m) Error_line"

lemma counts_errors_zero: "counts_errors m \<Longrightarrow> val m = 0 \<longleftrightarrow> clean m"
  by (simp add: counts_errors_def clean_def count_list_0_iff)

lemma clean_count: "clean m \<longleftrightarrow> count_list (out m) Error_line = 0"
  by (simp add: clean_def count_list_0_iff)

lemma count_list_replicate [simp]: "count_list (replicate n x) y = (if x = y then n else 0)"
  by (induction n) auto

text \<open>A loop that collects what its passes find, whatever was collected before.\<close>

lemma foldM_collect:
  assumes "\<And>x. writer (g x)"
  shows "writer (foldM (\<lambda>x s. do { r \<leftarrow> g x; State_Monad.return (h r s) }) xs s)"
    and "val (foldM (\<lambda>x s. do { r \<leftarrow> g x; State_Monad.return (h r s) }) xs s) = fold (\<lambda>x. h (val (g x))) xs s"
    and "clean (foldM (\<lambda>x s. do { r \<leftarrow> g x; State_Monad.return (h r s) }) xs s) \<longleftrightarrow> (\<forall>x \<in> set xs. clean (g x))"
  by (induction xs arbitrary: s) (simp_all add: assms)

lemma count_foldM_collect:
  assumes "\<And>x. writer (g x)"
  shows "count_list (out (foldM (\<lambda>x s. do { r \<leftarrow> g x; State_Monad.return (h r s) }) xs s)) l
    = (\<Sum>x\<leftarrow>xs. count_list (out (g x)) l)"
  by (induction xs arbitrary: s) (simp_all add: assms)

section \<open>Checks that pass\<close>

text \<open>
  A check \<open>yields\<close> a value when it returns it without having reported an error. The rules take
  a sequence of checks apart. \<open>sum_errors\<close> is \<^verbatim>\<open>errors += a; errors += b; \<dots>\<close>: it passes
  (yields zero) exactly when each of the checks does, and \<open>bail_on_errors\<close> is the end of every
  stage, \<^verbatim>\<open>if errors > 0 { bail!(\<dots>) } Ok(())\<close>.
\<close>

definition yields :: "'a res vr \<Rightarrow> 'a \<Rightarrow> bool" where
  "yields m a \<longleftrightarrow> val m = Inr a \<and> clean m"

fun sum_errors :: "nat res vr list \<Rightarrow> nat res vr" where
  "sum_errors [] = okM 0"
| "sum_errors (m # ms) = tryM m (\<lambda>a. tryM (sum_errors ms) (\<lambda>b. okM (a + b)))"

definition bail_on_errors :: "nat res vr \<Rightarrow> unit res vr" where
  "bail_on_errors m = tryM m (\<lambda>errors. if errors > 0 then failM (Bail ''errors'') else okM ())"

lemma yields_tryM [simp]:
  assumes "writer m" "\<And>a. writer (f a)"
  shows "yields (tryM m f) b \<longleftrightarrow> (\<exists>a. yields m a \<and> yields (f a) b)"
  using assms by (cases "val m") (auto simp: yields_def)

lemma yields_unit [simp]: "Ex (yields (m :: unit res vr)) \<longleftrightarrow> yields m ()"
  by auto

lemma yields_simps [simp]:
  "yields (okM a) b \<longleftrightarrow> a = b" "\<not> yields (failM e) b" "yields (State_Monad.return r) b \<longleftrightarrow> r = Inr b"
  "writer n \<Longrightarrow> yields (liftM n) c \<longleftrightarrow> val n = c \<and> clean n"
  by (auto simp: yields_def)

lemma yields_errors_during_res [simp]:
  assumes "writer m"
  shows "yields (errors_during_res m) n \<longleftrightarrow> n = 0 \<and> (\<exists>a. yields m a)"
  using assms by (cases "val m") (auto simp: yields_def clean_def count_list_0_iff)

text \<open>
  A check that returns its error count passes when it returns zero and reported nothing.
  \<open>sum_checks\<close> adds the counts of checks that cannot fail, \<open>ok_if_zero\<close> is
  \<^verbatim>\<open>if errors == 0 { result.report_ok(\<dots>) } errors\<close>.
\<close>

definition passes :: "nat vr \<Rightarrow> bool" where
  "passes m \<longleftrightarrow> val m = 0 \<and> clean m"

fun sum_checks :: "nat vr list \<Rightarrow> nat vr" where
  "sum_checks [] = State_Monad.return 0"
| "sum_checks (m # ms) = do { a \<leftarrow> m; b \<leftarrow> sum_checks ms; State_Monad.return (a + b) }"

definition ok_if_zero :: "nat vr \<Rightarrow> nat vr" where
  "ok_if_zero m = do {
     e \<leftarrow> m;
     (if e = 0 then report_ok else State_Monad.return ());
     State_Monad.return e }"

lemma writer_sum_checks [simp, writer_intros]: "(\<forall>m \<in> set ms. writer m) \<Longrightarrow> writer (sum_checks ms)"
  by (induction ms) auto

lemma passes_sum_checks [simp]:
  assumes "\<forall>m \<in> set ms. writer m"
  shows "passes (sum_checks ms) \<longleftrightarrow> (\<forall>m \<in> set ms. passes m)"
  using assms by (induction ms) (auto simp: passes_def)

declare sum_checks.simps [simp del]

lemma writer_ok_if_zero [simp, writer_intros]: "writer m \<Longrightarrow> writer (ok_if_zero m)"
  by (simp add: ok_if_zero_def)

lemma passes_ok_if_zero [simp]: "writer m \<Longrightarrow> passes (ok_if_zero m) \<longleftrightarrow> passes m"
  by (auto simp: passes_def ok_if_zero_def)

lemma passes_return [simp]: "passes (State_Monad.return n) \<longleftrightarrow> n = 0"
  by (simp add: passes_def)

lemma yields_liftM_passes: "writer m \<Longrightarrow> yields (liftM m) 0 \<longleftrightarrow> passes m"
  by (simp add: passes_def)

lemma yields_unique: "yields m a \<Longrightarrow> yields m b \<Longrightarrow> a = b"
  by (simp add: yields_def)

lemma yields_count:
  "writer m \<Longrightarrow> counts_errors m \<Longrightarrow> yields (liftM m) n \<longleftrightarrow> n = 0 \<and> clean m"
  using counts_errors_zero [of m] by auto

lemma writer_sum_errors [simp, writer_intros]: "(\<forall>m \<in> set ms. writer m) \<Longrightarrow> writer (sum_errors ms)"
  by (induction ms) auto

lemma yields_sum_errors:
  assumes "\<forall>m \<in> set ms. writer m"
  shows "yields (sum_errors ms) 0 \<longleftrightarrow> (\<forall>m \<in> set ms. yields m 0)"
  using assms by (induction ms) auto

lemma writer_bail_on_errors [simp, writer_intros]: "writer m \<Longrightarrow> writer (bail_on_errors m)"
  by (simp add: bail_on_errors_def)

lemma yields_bail_on_errors [simp]: "writer m \<Longrightarrow> yields (bail_on_errors m) u \<longleftrightarrow> yields m 0"
  by (simp add: bail_on_errors_def if_distrib [of "\<lambda>m. yields m u"] cong: if_cong)

text \<open>
  A \<^verbatim>\<open>for\<close> loop whose body uses \<^verbatim>\<open>?\<close> (\<open>forTM\<close>), a batch of checks that only report
  (\<open>run_checks\<close>), and the commonest of them: the value read from a contract is the expected one.
\<close>

fun forTM :: "('a \<Rightarrow> unit res vr) \<Rightarrow> 'a list \<Rightarrow> unit res vr" where
  "forTM f [] = okM ()"
| "forTM f (x # xs) = tryM (f x) (\<lambda>_. forTM f xs)"

fun run_checks :: "unit vr list \<Rightarrow> unit vr" where
  "run_checks [] = State_Monad.return ()"
| "run_checks (m # ms) = do { m; run_checks ms }"

definition report_unless_equal :: "'a \<Rightarrow> 'a \<Rightarrow> unit vr" where
  "report_unless_equal actual expected = (if actual = expected then report_ok else report_error)"

definition expect_read :: "'a option \<Rightarrow> 'a \<Rightarrow> unit vr" where
  "expect_read getter expected = (case getter of
     Some actual \<Rightarrow> report_unless_equal actual expected | None \<Rightarrow> report_error)"

lemma writer_forTM [simp, writer_intros]: "(\<And>x. writer (f x)) \<Longrightarrow> writer (forTM f xs)"
  by (induction xs) auto

lemma yields_forTM [simp]:
  assumes "\<And>x. writer (f x)"
  shows "yields (forTM f xs) () \<longleftrightarrow> (\<forall>x \<in> set xs. yields (f x) ())"
  using assms by (induction xs) auto

lemma writer_run_checks [simp, writer_intros]: "(\<forall>m \<in> set ms. writer m) \<Longrightarrow> writer (run_checks ms)"
  by (induction ms) auto

lemma clean_run_checks [simp]:
  assumes "\<forall>m \<in> set ms. writer m"
  shows "clean (run_checks ms) \<longleftrightarrow> (\<forall>m \<in> set ms. clean m)"
  using assms by (induction ms) auto

declare run_checks.simps [simp del]

lemma expect_read_simps [simp]:
  "writer (report_unless_equal a b)" "clean (report_unless_equal a b) \<longleftrightarrow> a = b"
  "writer (expect_read g e)" "clean (expect_read g e) \<longleftrightarrow> g = Some e"
  by (auto simp: report_unless_equal_def expect_read_def split: option.splits)

section \<open>Interface: a sink of checks\<close>

text \<open>
  What the checks rely on: an operation that passes, one that flags, and a judgement of the
  report that only a flag changes. A batch of checks passes exactly when each of them does,
  whatever was reported before. The report is interpreted for it below.
\<close>

locale check_sink =
  fixes pass flag :: "'r \<Rightarrow> 'r" and count :: "'r \<Rightarrow> nat"
  assumes count_pass: "count (pass r) = count r"
    and count_flag: "count (flag r) = Suc (count r)"
begin

definition check :: "bool \<Rightarrow> 'r \<Rightarrow> 'r" where
  "check b r = (if b then pass r else flag r)"

lemma count_checks: "count (fold check bs r) = count r + length (filter Not bs)"
  by (induction bs arbitrary: r) (auto simp: check_def count_pass count_flag)

lemma checks_pass_iff: "count (fold check bs r) = count r \<longleftrightarrow> list_all (\<lambda>b. b) bs"
  by (simp add: count_checks filter_empty_conv list_all_iff)

lemma checks_mono: "count r \<le> count (fold check bs r)"
  by (simp add: count_checks)

end

interpretation report: check_sink
  "\<lambda>s. snd (run_state report_ok s)" "\<lambda>s. snd (run_state report_error s)" errors
  by unfold_locales (simp_all add: run_report)

end
