(* ===== verification/Rpc.thy ===== *)
theory Rpc
  imports Prelude
begin

section \<open>The chains and the ABI\<close>

text \<open>
  What the verifier asks of an Ethereum node, and the ABI decoders generated by
  \<^verbatim>\<open>alloy::sol!\<close>. Both are outside this repository: they are fields of records that the
  definitions take as arguments. A query answers the same throughout a run (the state of the
  chains does not move under the verifier); \<open>None\<close> is a transport or decoding error.
\<close>

record tx =
  tx_to :: "address option"
  tx_input :: bytes

record current_facet =
  facet_addr :: address
  facet_selectors :: "selector list"

text \<open>\<^verbatim>\<open>ProtocolUpgradeHandler\<close> as \<^verbatim>\<open>governance_stage_calls/mod.rs\<close> reads it, getter by getter.\<close>

record protocol_upgrade_handler =
  L2_PROTOCOL_GOVERNOR :: "address option"
  CHAIN_TYPE_MANAGER :: "address option"
  ERA_CHAIN_TYPE_MANAGER :: "address option"
  ZKSYNC_OS_CHAIN_TYPE_MANAGER :: "address option"
  BRIDGE_HUB :: "address option"
  L1_NULLIFIER :: "address option"
  L1_ASSET_ROUTER :: "address option"
  L1_NATIVE_TOKEN_VAULT :: "address option"
  CHAIN_ASSET_HANDLER :: "address option"
  ERA_CHAIN_ID :: "u256 option"

record l1_rpc =
  get_chain_id :: "u64 option"
  get_code_at :: "address \<Rightarrow> bytes option"
  get_storage_at :: "address \<Rightarrow> u256 \<Rightarrow> u256 option"
  get_transaction_by_hash :: "b256 \<Rightarrow> tx option option"
  get_transaction_receipt :: "b256 \<Rightarrow> bool option option"
  Bridgehub_owner :: "address \<Rightarrow> address option"
  Bridgehub_getHyperchain :: "address \<Rightarrow> u256 \<Rightarrow> address option"
  Bridgehub_getAllZKChainChainIDs :: "address \<Rightarrow> u256 list option"
  Bridgehub_chainTypeManager :: "address \<Rightarrow> u256 \<Rightarrow> address option"
  Bridgehub_getZKChain :: "address \<Rightarrow> u256 \<Rightarrow> address option"
  ChainTypeManager_protocolVersion :: "address \<Rightarrow> u256 option"
  ChainTypeManager_isZKsyncOS :: "address \<Rightarrow> bool option"
  ZKChain_getProtocolVersion :: "address \<Rightarrow> u256 option"
  GettersFacet_facets :: "address \<Rightarrow> current_facet list option"
  ProtocolUpgradeHandler :: "address \<Rightarrow> protocol_upgrade_handler"
  pendingOwner :: "address \<Rightarrow> address option"
  publishingBlock :: "address \<Rightarrow> b256 \<Rightarrow> u256 option"
  evmPublishingBlock :: "address \<Rightarrow> b256 \<Rightarrow> u256 option"

text \<open>The view functions that the live state checks and the provenance checks call on L1.\<close>

record l1_views =
  view_owner :: "address \<Rightarrow> address option"
  Bridgehub_assetRouter :: "address \<Rightarrow> address option"
  Bridgehub_sharedBridge :: "address \<Rightarrow> address option"
  Bridgehub_l1CtmDeployer :: "address \<Rightarrow> address option"
  Bridgehub_chainAssetHandler :: "address \<Rightarrow> address option"
  Bridgehub_messageRoot :: "address \<Rightarrow> address option"
  Bridgehub_settlementLayer :: "address \<Rightarrow> u256 \<Rightarrow> u256 option"
  L1AssetRouter_ERA_CHAIN_ID :: "address \<Rightarrow> u256 option"
  L1AssetRouter_legacyBridge :: "address \<Rightarrow> address option"
  L1AssetRouter_nativeTokenVault :: "address \<Rightarrow> address option"
  L1AssetRouter_L1_WETH_TOKEN :: "address \<Rightarrow> address option"
  L1AssetRouter_L1_NULLIFIER :: "address \<Rightarrow> address option"
  L1NativeTokenVault_bridgedTokenBeacon :: "address \<Rightarrow> address option"
  L1AssetTracker_BRIDGE_HUB :: "address \<Rightarrow> address option"
  L1AssetTracker_chainAssetHandler :: "address \<Rightarrow> address option"
  ChainRegistrationSender_BRIDGE_HUB :: "address \<Rightarrow> address option"
  ChainTypeManager_validatorTimelockPostV29 :: "address \<Rightarrow> address option"
  ChainTypeManager_PERMISSIONLESS_VALIDATOR :: "address \<Rightarrow> address option"
  ValidatorTimelock_executionDelay :: "address \<Rightarrow> u32 option"
  ZKChain_getPriorityTxMaxGasLimit :: "address \<Rightarrow> u256 option"
  PUH_guardians :: "address \<Rightarrow> address option"
  PUH_securityCouncil :: "address \<Rightarrow> address option"
  PUH_emergencyUpgradeBoard :: "address \<Rightarrow> address option"
  Multisig_members :: "address \<Rightarrow> u256 \<Rightarrow> address option"
  EmergencyUpgradeBoard_ZK_FOUNDATION_SAFE :: "address \<Rightarrow> address option"

record gw_rpc =
  gw_get_chain_id :: "u64 option"
  gw_get_storage_at :: "address \<Rightarrow> u256 \<Rightarrow> u256 option"

text \<open>\<^verbatim>\<open>L2TransactionRequestDirect\<close>, the fields in their order.\<close>

record l2_transaction_request_direct =
  req_chainId :: u256
  req_mintValue :: u256
  req_l2Contract :: address
  req_l2Value :: u256
  req_l2Calldata :: bytes
  req_l2GasLimit :: u256
  req_l2GasPerPubdataByteLimit :: u256
  req_factoryDeps :: "bytes list"
  req_refundRecipient :: address

text \<open>\<^verbatim>\<open>Call\<close> and \<^verbatim>\<open>UpgradeProposal\<close> of \<^verbatim>\<open>elements/call_list.rs\<close>; a \<^verbatim>\<open>CallList\<close> is its \<^verbatim>\<open>elems\<close>.\<close>

record call =
  target :: address
  call_value :: u256
  data :: bytes

record upgrade_proposal =
  proposal_calls :: "call list"
  executor :: address
  proposal_salt :: b256

record abi =
  decode_create2AndTransferParams :: "bytes \<Rightarrow> (bytes \<times> b256 \<times> address) option"
  decode_requestL2TransactionDirect :: "bytes \<Rightarrow> l2_transaction_request_direct option"
  decode_create2 :: "bytes \<Rightarrow> (b256 \<times> b256 \<times> bytes) option"
  decode_CallList :: "bytes \<Rightarrow> call list option"
  encode_transparentProxyConstructor :: "address \<Rightarrow> address \<Rightarrow> bytes \<Rightarrow> bytes"
  acceptOwnership_SELECTOR :: selector
  decode_upgradeAndCall :: "bytes \<Rightarrow> (address \<times> address \<times> bytes) option"
  decode_updateSecurityCouncil :: "bytes \<Rightarrow> address option"
  decode_updateGuardians :: "bytes \<Rightarrow> address option"
  decode_updateEmergencyUpgradeBoard :: "bytes \<Rightarrow> address option"

end
