(* ===== verification/Create2.thy ===== *)
theory Create2
  imports Prelude
begin

section \<open>Addresses: constants, CREATE2 derivation, aliasing\<close>

text \<open>
  \<^verbatim>\<open>upgrade_verification/constants.rs\<close> (the builders of the protocol's fixed addresses and the
  table of constants) and the pure functions of \<^verbatim>\<open>v31/utils/mod.rs\<close>: CREATE2 address
  derivation for the EVM and for EraVM, the L1 to L2 alias, function selectors, the
  hash of init code without its constructor arguments. Keccak-256 and hex are library code.
\<close>

definition string_bytes :: "string \<Rightarrow> bytes" where
  "string_bytes s = map (\<lambda>c. of_nat (of_char c)) s"

subsection \<open>Fixed addresses\<close>

definition l2_addr :: "16 word \<Rightarrow> address" where
  "l2_addr offset = from_be_bytes (replicate 17 0
     @ [0x01, ucast (drop_bit 8 offset), ucast (and offset 0xff)])"

definition system_contract_addr :: "16 word \<Rightarrow> address" where
  "system_contract_addr offset =
     (let base = 0x8000 + (ucast offset :: u32)
      in from_be_bytes (replicate 18 0
           @ [ucast (and (drop_bit 8 base) 0xff), ucast (and base 0xff)]))"

definition literal_addr :: "u32 \<Rightarrow> address" where
  "literal_addr v = from_be_bytes (replicate 16 0
     @ [ucast (and (drop_bit 24 v) 0xff), ucast (and (drop_bit 16 v) 0xff),
        ucast (and (drop_bit 8 v) 0xff), ucast (and v 0xff)])"

definition L2_CREATE2_FACTORY_ADDR :: address where
  "L2_CREATE2_FACTORY_ADDR = l2_addr 0x00"

definition ZKSYNC_OS_DETERMINISTIC_CREATE2_ADDR :: address where
  "ZKSYNC_OS_DETERMINISTIC_CREATE2_ADDR = 0x4e59b44847b379578588920ca78fbf26c0b4956c"

definition fixed_addresses :: "(string \<times> address) list" where
  "fixed_addresses =
     [(''L2_CREATE2_FACTORY_ADDR'', l2_addr 0x00),
      (''L2_VERSION_SPECIFIC_UPGRADER_ADDR'', l2_addr 0x01),
      (''L2_BRIDGEHUB_ADDR'', l2_addr 0x02),
      (''L2_ASSET_ROUTER_ADDR'', l2_addr 0x03),
      (''L2_NATIVE_TOKEN_VAULT_ADDR'', l2_addr 0x04),
      (''L2_MESSAGE_ROOT_ADDR'', l2_addr 0x05),
      (''SLOAD_CONTRACT_ADDR'', l2_addr 0x06),
      (''L2_WRAPPED_BASE_TOKEN_IMPL_ADDR'', l2_addr 0x07),
      (''L2_INTEROP_ROOT_STORAGE_ADDR'', l2_addr 0x08),
      (''L2_MESSAGE_VERIFICATION_ADDR'', l2_addr 0x09),
      (''L2_CHAIN_ASSET_HANDLER_ADDR'', l2_addr 0x0a),
      (''L2_SYSTEM_CONTRACT_PROXY_ADMIN_ADDR'', l2_addr 0x0c),
      (''L2_INTEROP_CENTER_ADDR'', l2_addr 0x0d),
      (''L2_INTEROP_HANDLER_ADDR'', l2_addr 0x0e),
      (''L2_ASSET_TRACKER_ADDR'', l2_addr 0x0f),
      (''GW_ASSET_TRACKER_ADDR'', l2_addr 0x10),
      (''L2_BASE_TOKEN_HOLDER_ADDR'', l2_addr 0x11),
      (''L2_BOOTLOADER_ADDRESS'', system_contract_addr 0x01),
      (''L2_ACCOUNT_CODE_STORAGE_ADDR'', system_contract_addr 0x02),
      (''L2_KNOWN_CODE_STORAGE_SYSTEM_CONTRACT_ADDR'', system_contract_addr 0x04),
      (''L2_DEPLOYER_SYSTEM_CONTRACT_ADDR'', system_contract_addr 0x06),
      (''L2_FORCE_DEPLOYER_ADDR'', system_contract_addr 0x07),
      (''L2_TO_L1_MESSENGER_SYSTEM_CONTRACT_ADDR'', system_contract_addr 0x08),
      (''MSG_VALUE_SYSTEM_CONTRACT'', system_contract_addr 0x09),
      (''L2_BASE_TOKEN_SYSTEM_CONTRACT_ADDR'', system_contract_addr 0x0a),
      (''L2_SYSTEM_CONTEXT_SYSTEM_CONTRACT_ADDR'', system_contract_addr 0x0b),
      (''EVENT_WRITER_CONTRACT'', system_contract_addr 0x0d),
      (''L2_COMPRESSOR_ADDR'', system_contract_addr 0x0e),
      (''L2_COMPLEX_UPGRADER_ADDR'', system_contract_addr 0x0f),
      (''L2_PUBDATA_CHUNK_PUBLISHER_ADDR'', system_contract_addr 0x11),
      (''CODE_ORACLE_SYSTEM_CONTRACT'', system_contract_addr 0x12),
      (''EVM_GAS_MANAGER'', system_contract_addr 0x13),
      (''EVM_PREDEPLOYS_MANAGER'', system_contract_addr 0x14),
      (''KECCAK256_SYSTEM_CONTRACT'', literal_addr 0x8010),
      (''ECRECOVER_SYSTEM_CONTRACT'', literal_addr 0x01),
      (''SHA256_SYSTEM_CONTRACT'', literal_addr 0x02),
      (''IDENTITY_SYSTEM_CONTRACT'', literal_addr 0x04),
      (''MODEXP_SYSTEM_CONTRACT'', literal_addr 0x05),
      (''ECADD_SYSTEM_CONTRACT'', literal_addr 0x06),
      (''ECMUL_SYSTEM_CONTRACT'', literal_addr 0x07),
      (''ECPAIRING_SYSTEM_CONTRACT'', literal_addr 0x08)]"

subsection \<open>Derived addresses\<close>

text \<open>\<^verbatim>\<open>Address::from_slice(&hash.0[12..])\<close>\<close>

definition address_of_hash :: "b256 \<Rightarrow> address" where
  "address_of_hash h = from_be_bytes (drop 12 (b256_bytes h))"

definition zk_payload :: "ext \<Rightarrow> address \<Rightarrow> b256 \<Rightarrow> b256 \<Rightarrow> b256 \<Rightarrow> bytes" where
  "zk_payload E sender salt bytecode_hash constructor_input_hash =
     b256_bytes (keccak256 E (string_bytes ''zksyncCreate2'')) @ replicate 12 0
     @ address_bytes sender @ b256_bytes salt @ b256_bytes bytecode_hash
     @ b256_bytes constructor_input_hash"

definition compute_create2_address_zk :: "ext \<Rightarrow> address \<Rightarrow> b256 \<Rightarrow> b256 \<Rightarrow> b256 \<Rightarrow> address" where
  "compute_create2_address_zk E sender salt bytecode_hash constructor_input_hash =
     address_of_hash (keccak256 E (zk_payload E sender salt bytecode_hash constructor_input_hash))"

definition evm_payload :: "address \<Rightarrow> b256 \<Rightarrow> b256 \<Rightarrow> bytes" where
  "evm_payload sender salt bytecode_hash =
     [0xff] @ address_bytes sender @ b256_bytes salt @ b256_bytes bytecode_hash"

definition compute_create2_address_evm :: "ext \<Rightarrow> address \<Rightarrow> b256 \<Rightarrow> b256 \<Rightarrow> address" where
  "compute_create2_address_evm E sender salt bytecode_hash =
     address_of_hash (keccak256 E (evm_payload sender salt bytecode_hash))"

definition compute_hash_with_arguments :: "ext \<Rightarrow> bytes \<Rightarrow> nat \<Rightarrow> b256 option" where
  "compute_hash_with_arguments E input num_arguments =
     (if length input < (num_arguments + 2) * 32 then None
      else Some (keccak256 E (slice 0 (length input - 32 * num_arguments) input)))"

definition alias_offset :: address where
  "alias_offset = 0x1111000000000000000000000000000000001111"

definition apply_l2_to_l1_alias :: "address \<Rightarrow> address" where
  "apply_l2_to_l1_alias addr = alias_offset + addr"

definition compute_selector :: "ext \<Rightarrow> string \<Rightarrow> string" where
  "compute_selector E method_name =
     hex_encode E (take 4 (b256_bytes (keccak256 E (string_bytes method_name))))"

text \<open>\<^verbatim>\<open>format!("{:0>40}", hex)\<close>\<close>

definition left_pad :: "nat \<Rightarrow> char \<Rightarrow> string \<Rightarrow> string" where
  "left_pad n c s = replicate (n - length s) c @ s"

definition address_from_short_hex :: "ext \<Rightarrow> string \<Rightarrow> address res" where
  "address_from_short_hex E hex =
     ok_or (Panic ''Invalid hex address provided'')
       (address_from_hex E (''0x'' @ left_pad 40 (CHR ''0'') hex))"

definition is_ascii_alphanumeric :: "char \<Rightarrow> bool" where
  "is_ascii_alphanumeric c \<longleftrightarrow> (let n = (of_char c :: nat)
     in 48 \<le> n \<and> n \<le> 57 \<or> 65 \<le> n \<and> n \<le> 90 \<or> 97 \<le> n \<and> n \<le> 122)"

definition github_cache_file_name :: "string \<Rightarrow> string \<Rightarrow> string \<Rightarrow> string" where
  "github_cache_file_name repo commit file_path =
     map (\<lambda>ch. if is_ascii_alphanumeric ch \<or> ch \<in> {CHR ''.'', CHR ''-'', CHR ''_''} then ch else CHR ''_'')
       (repo @ ''-'' @ commit @ ''-'' @ file_path)"

section \<open>The builders\<close>

lemma nat_of_be_zeros [simp]: "nat_of_be (replicate n 0 @ bs) 0 = nat_of_be bs 0"
  by (induction n) auto

lemma unat_and_ff: "unat (and (w :: 'a::len word) 0xff) = unat w mod 256"
proof -
  have "(0xff :: 'a word) = mask 8"
    by (simp add: mask_eq_exp_minus_1)
  then have "and w 0xff = take_bit 8 w"
    by (simp only: take_bit_eq_mask)
  then show ?thesis
    by (simp add: unsigned_take_bit_eq take_bit_nat_def)
qed

lemma unat_ucast_byte: "unat (ucast (w :: 'a::len word) :: byte) = unat w mod 256"
  by (simp add: unsigned_ucast_eq take_bit_nat_def)

lemma unat_drop_bit: "unat (drop_bit n (w :: 'a::len word)) = unat w div 2 ^ n"
  by (simp add: unat_drop_bit_eq drop_bit_nat_def)

lemmas byte_simps = unat_ucast_byte unat_and_ff unat_drop_bit

lemma unat_from_be_address:
  assumes "length bs = 20"
  shows "unat (from_be_bytes bs :: address) = nat_of_be bs 0"
proof -
  have "nat_of_be bs 0 < 2 ^ 160"
    using nat_of_be_bound [of bs] assms by simp
  then show ?thesis
    by (simp add: from_be_bytes_def unat_of_nat)
qed

lemma be_bytes4:
  "be_of_nat 4 v = [of_nat (v div 2 ^ 24), of_nat (v div 2 ^ 16), of_nat (v div 2 ^ 8), of_nat v]"
proof -
  have "(4::nat) = Suc (Suc (Suc (Suc 0)))" by simp
  then have "be_of_nat 4 v
    = [of_nat (v div 256 div 256 div 256), of_nat (v div 256 div 256), of_nat (v div 256), of_nat v]"
    by (simp only: be_of_nat.simps append.simps)
  moreover have "v div 256 div 256 div 256 = v div 2 ^ 24" "v div 256 div 256 = v div 2 ^ 16"
    "v div 256 = v div 2 ^ 8"
    by (simp_all flip: div_mult2_eq)
  ultimately show ?thesis
    by (simp only:)
qed

lemma unat_l2_addr: "unat (l2_addr off) = 0x10000 + unat off"
proof -
  have "unat off < 65536"
    using unsigned_less [of off] by simp
  then show ?thesis
    by (simp add: l2_addr_def unat_from_be_address byte_simps)
qed

lemma unat_literal_addr: "unat (literal_addr v) = unat v"
proof -
  have "unat v < 256 ^ 4"
    using unsigned_less [of v] by simp
  moreover have "[ucast (and (drop_bit 24 v) 0xff), ucast (and (drop_bit 16 v) 0xff),
      ucast (and (drop_bit 8 v) 0xff), ucast (and v 0xff)] = be_of_nat 4 (unat v)"
    by (simp only: be_bytes4 list.inject word_unat_eq_iff byte_simps unat_of_nat_byte) simp
  ultimately show ?thesis
    by (simp only: literal_addr_def) (subst unat_from_be_address, simp, simp add: nat_of_be_be_of_nat)
qed

lemma unat_system_contract_addr: "unat (system_contract_addr off) = (0x8000 + unat off) mod 2 ^ 16"
proof -
  have b: "unat off < 65536"
    using unsigned_less [of off] by simp
  have "unat (0x8000 + (ucast off :: u32)) = 0x8000 + unat off"
    using b by (simp add: unat_word_ariths unsigned_ucast_eq take_bit_nat_def)
  then have "unat (system_contract_addr off)
      = (0x8000 + unat off) div 256 mod 256 * 256 + (0x8000 + unat off) mod 256"
    by (simp add: system_contract_addr_def Let_def unat_from_be_address byte_simps)
  also have "\<dots> = (0x8000 + unat off) mod (256 * 256)"
    by (simp only: mod_mult2_eq mult.commute)
  finally show ?thesis by simp
qed

section \<open>Derivation\<close>

lemma drop_be_of_nat: "k \<le> n \<Longrightarrow> drop k (be_of_nat n v) = be_of_nat (n - k) v"
proof (induction n arbitrary: v)
  case (Suc n)
  then show ?case
    by (cases "k = Suc n") (auto simp: Suc_diff_le)
qed simp

lemma address_of_hash_ucast: "address_of_hash h = ucast h"
proof -
  have "address_of_hash h = of_nat (nat_of_be (be_of_nat 20 (unat h)) 0)"
    by (simp add: address_of_hash_def b256_bytes_def to_be_bytes_def from_be_bytes_def drop_be_of_nat)
  also have "\<dots> = of_nat (unat h mod 2 ^ 160)"
    by (simp add: nat_of_be_be_of_nat)
  also have "\<dots> = ucast h"
    by (rule word_unat_eq_iff [THEN iffD2])
       (simp add: unat_of_nat unsigned_ucast_eq take_bit_nat_def)
  finally show ?thesis .
qed

lemma length_evm_payload: "length (evm_payload a s h) = 85"
  by (simp add: evm_payload_def)

lemma length_zk_payload: "length (zk_payload E a s h c) = 160"
  by (simp add: zk_payload_def)

lemma evm_payload_inject:
  "evm_payload a s h = evm_payload a' s' h' \<longleftrightarrow> a = a' \<and> s = s' \<and> h = h'"
  by (auto simp: evm_payload_def)

lemma zk_payload_inject:
  "zk_payload E a s h c = zk_payload E a' s' h' c' \<longleftrightarrow> a = a' \<and> s = s' \<and> h = h' \<and> c = c'"
  by (auto simp: zk_payload_def)

section \<open>Aliasing\<close>

text \<open>\<^verbatim>\<open>AddressAliasHelper.undoL1ToL2Alias\<close>: the inverse the contracts use.\<close>

definition undo_alias :: "address \<Rightarrow> address" where
  "undo_alias a = a - alias_offset"

interpretation alias_codec: codec apply_l2_to_l1_alias "\<lambda>a. Some (undo_alias a)" "\<lambda>_. True"
  by unfold_locales (simp add: apply_l2_to_l1_alias_def undo_alias_def)

lemma unat_alias_offset: "unat alias_offset = 0x1111000000000000000000000000000000001111"
  by (simp add: alias_offset_def)

lemma alias_not_self: "apply_l2_to_l1_alias a \<noteq> a"
  by (simp add: apply_l2_to_l1_alias_def alias_offset_def)

end
