(* ===== verification/Source_Files.thy ===== *)
theory Source_Files
  imports Create2
begin

section \<open>Files of this repository and of GitHub\<close>

text \<open>
  How \<^verbatim>\<open>utils/mod.rs\<close> obtains the JSON files the verifiers are built from: from the working
  tree, or from GitHub through a cache directory. \<open>read_local\<close> is \<^verbatim>\<open>fs::read_to_string\<close> at
  the path \<^verbatim>\<open>repo_relative_path\<close> finds, \<open>fetch\<close> an HTTP request (\<open>None\<close> when it does not
  complete, a panic), \<open>cache\<close> the files under \<^verbatim>\<open>cache/\<close>. The status of a response is not read
  by the code, so \<open>fetch\<close> gives the body alone.
\<close>

record source_files =
  read_local :: "string \<Rightarrow> string option"
  cache :: "string \<Rightarrow> string option"
  fetch :: "string \<Rightarrow> string option"

definition github_url :: "string \<Rightarrow> string \<Rightarrow> string \<Rightarrow> string" where
  "github_url commit repo file_path =
     ''https://raw.githubusercontent.com/'' @ repo @ ''/'' @ commit @ ''/'' @ file_path"

definition get_contents_from_github ::
    "source_files \<Rightarrow> string \<Rightarrow> string \<Rightarrow> string \<Rightarrow> (string \<times> source_files) res" where
  "get_contents_from_github F commit repo file_path =
     (let cache_file_path = github_cache_file_name repo commit file_path in
      case cache F cache_file_path of
        Some data \<Rightarrow> Inr (data, F)
      | None \<Rightarrow> bind_res (ok_or (Panic ''reqwest::get'') (fetch F (github_url commit repo file_path))) (\<lambda>data.
          Inr (data, F\<lparr>cache := (cache F)(cache_file_path \<mapsto> data)\<rparr>)))"

text \<open>
  A JSON file of the repository, parsed by \<open>from_json\<close>: at a commit it comes from GitHub,
  otherwise from the working tree. The cache is threaded.
\<close>

definition ERA_CONTRACTS_REPO :: string where
  "ERA_CONTRACTS_REPO = ''matter-labs/era-contracts''"

definition init_json_from_local ::
    "(string \<Rightarrow> 'a option) \<Rightarrow> source_files \<Rightarrow> string \<Rightarrow> 'a res" where
  "init_json_from_local from_json F path =
     bind_res (ok_or (Bail ''failed to read'') (read_local F path)) (\<lambda>data.
     ok_or (Bail ''failed to parse'') (from_json data))"

definition init_json_from_github ::
    "(string \<Rightarrow> 'a option) \<Rightarrow> source_files \<Rightarrow> string \<Rightarrow> string \<Rightarrow> string \<Rightarrow> ('a \<times> source_files) res" where
  "init_json_from_github from_json F commit repo path =
     bind_res (get_contents_from_github F commit repo path) (\<lambda>(data, F').
     bind_res (ok_or (Bail ''failed to parse'') (from_json data)) (\<lambda>a. Inr (a, F')))"

definition init_json ::
    "(string \<Rightarrow> 'a option) \<Rightarrow> source_files \<Rightarrow> string option \<Rightarrow> string \<Rightarrow> ('a \<times> source_files) res" where
  "init_json from_json F contracts_commit path = (case contracts_commit of
     Some commit \<Rightarrow> init_json_from_github from_json F commit ERA_CONTRACTS_REPO path
   | None \<Rightarrow> bind_res (init_json_from_local from_json F path) (\<lambda>a. Inr (a, F)))"

section \<open>The cache\<close>

text \<open>Once a file was obtained, asking again returns the same contents and leaves the cache.\<close>

lemma get_contents_stable:
  assumes "get_contents_from_github F commit repo path = Inr (data, F')"
  shows "get_contents_from_github F' commit repo path = Inr (data, F')"
  using assms by (auto simp: get_contents_from_github_def Let_def split: option.splits)

text \<open>Only the cache changes, and it only grows.\<close>

lemma get_contents_frame:
  assumes "get_contents_from_github F commit repo path = Inr (data, F')"
  shows "read_local F' = read_local F" "fetch F' = fetch F" "cache F \<subseteq>\<^sub>m cache F'"
  using assms
  by (auto simp: get_contents_from_github_def Let_def map_le_def split: option.splits)

end
