(* ===== verification/Bytecode_Verifier.thy ===== *)
theory Bytecode_Verifier
  imports Source_Files
begin

section \<open>Known bytecode\<close>

text \<open>
  \<^verbatim>\<open>v31/utils/bytecode_verifier.rs\<close>: the maps from bytecode hashes to contract names, filled
  from \<^verbatim>\<open>AllContractsHashes.json\<close>, and the search that recognises init code followed by an
  unknown number of constructor-argument words. The JSON parser is library code, a
  parameter.
\<close>

record bytecode_verifier =
  init_bytecode_file_by_hash :: "b256 \<Rightarrow> string option"
  deployed_bytecode_file_by_hash :: "b256 \<Rightarrow> string option"
  zk_bytecode_file_by_hash :: "b256 \<Rightarrow> string option"
  bytecode_file_to_zkhash :: "string \<Rightarrow> b256 option"
  evm_deployed_blake_and_length_by_file :: "string \<Rightarrow> (b256 \<times> u32) option"

record contract_hash =
  contract_name :: string
  evm_bytecode_hash :: "string option"
  evm_deployed_bytecode_hash :: "string option"
  evm_deployed_bytecode_blake_hash :: "string option"
  evm_deployed_bytecode_length :: "u32 option"
  zk_bytecode_hash :: "string option"

definition ZK_GOVERNANCE_V31_CONTRACTS :: "string list" where
  "ZK_GOVERNANCE_V31_CONTRACTS = [''l1-contracts/ProtocolUpgradeHandler'',
     ''l1-contracts/TestnetProtocolUpgradeHandler'', ''l1-contracts/Guardians'',
     ''l1-contracts/SecurityCouncil'', ''l1-contracts/EmergencyUpgradeBoard'']"

subsection \<open>Lookups\<close>

definition evm_init_bytecode_hash_to_file :: "bytecode_verifier \<Rightarrow> b256 \<Rightarrow> string option" where
  "evm_init_bytecode_hash_to_file bv h = init_bytecode_file_by_hash bv h"

definition evm_deployed_bytecode_hash_to_file :: "bytecode_verifier \<Rightarrow> b256 \<Rightarrow> string option" where
  "evm_deployed_bytecode_hash_to_file bv h = deployed_bytecode_file_by_hash bv h"

definition zk_bytecode_hash_to_file :: "bytecode_verifier \<Rightarrow> b256 \<Rightarrow> string option" where
  "zk_bytecode_hash_to_file bv h = zk_bytecode_file_by_hash bv h"

definition file_to_zk_bytecode_hash :: "bytecode_verifier \<Rightarrow> string \<Rightarrow> b256 option" where
  "file_to_zk_bytecode_hash bv f = bytecode_file_to_zkhash bv f"

definition evm_deployed_blake_and_length :: "bytecode_verifier \<Rightarrow> string \<Rightarrow> (b256 \<times> u32) option" where
  "evm_deployed_blake_and_length bv f = evm_deployed_blake_and_length_by_file bv f"

definition insert_evm_deployed_bytecode_hash :: "b256 \<Rightarrow> string \<Rightarrow> bytecode_verifier \<Rightarrow> bytecode_verifier" where
  "insert_evm_deployed_bytecode_hash h file bv =
     bv\<lparr>deployed_bytecode_file_by_hash := (deployed_bytecode_file_by_hash bv)(h \<mapsto> file)\<rparr>"

definition compute_expected_address_for_file :: "ext \<Rightarrow> bytecode_verifier \<Rightarrow> string \<Rightarrow> address res" where
  "compute_expected_address_for_file E bv file =
     bind_res (ok_or (Panic ''Bytecode not found for file'') (file_to_zk_bytecode_hash bv file)) (\<lambda>code.
     bind_res (address_from_short_hex E ''10000'') (\<lambda>factory.
     Inr (compute_create2_address_zk E factory 0 code (keccak256 E []))))"

subsection \<open>Recognising init code\<close>

fun first_some :: "('a \<Rightarrow> 'b option) \<Rightarrow> 'a list \<Rightarrow> 'b option" where
  "first_some f [] = None"
| "first_some f (x # xs) = (case f x of None \<Rightarrow> first_some f xs | Some y \<Rightarrow> Some y)"

definition try_split :: "ext \<Rightarrow> bytecode_verifier \<Rightarrow> bytes \<Rightarrow> nat \<Rightarrow> (string \<times> bytes) option" where
  "try_split E bv maybe_bytecode i =
     (if length maybe_bytecode < 32 * i then None
      else case compute_hash_with_arguments E maybe_bytecode i of None \<Rightarrow> None
        | Some hash \<Rightarrow> (case evm_init_bytecode_hash_to_file bv hash of None \<Rightarrow> None
            | Some file_name \<Rightarrow>
                let args_start = length maybe_bytecode - 32 * i
                in Some (file_name, drop args_start maybe_bytecode)))"

definition try_parse_bytecode :: "ext \<Rightarrow> bytecode_verifier \<Rightarrow> bytes \<Rightarrow> (string \<times> bytes) option" where
  "try_parse_bytecode E bv maybe_bytecode =
     (let max_args = length maybe_bytecode div 32
      in first_some (try_split E bv maybe_bytecode) [0..<Suc max_args])"

definition CREATE2_AND_TRANSFER_HEX :: string where
  "CREATE2_AND_TRANSFER_HEX = ''60a060405234801561000f575f5ffd5b506040516102ba3803806102ba83398101604081905261002e9161012e565b5f828451602086015ff590506001600160a01b0381166100945760405162461bcd60e51b815260206004820152601960248201527f437265617465323a204661696c6564206f6e206465706c6f7900000000000000604482015260640160405180910390fd5b60405163f2fde38b60e01b81526001600160a01b03838116600483015282169063f2fde38b906024015f604051808303815f87803b1580156100d4575f5ffd5b505af11580156100e6573d5f5f3e3d5ffd5b505050506001600160a01b0316608052506101f6915050565b634e487b7160e01b5f52604160045260245ffd5b80516001600160a01b0381168114610129575f5ffd5b919050565b5f5f5f60608486031215610140575f5ffd5b83516001600160401b03811115610155575f5ffd5b8401601f81018613610165575f5ffd5b80516001600160401b0381111561017e5761017e6100ff565b604051601f8201601f19908116603f011681016001600160401b03811182821017156101ac576101ac6100ff565b6040528181528282016020018810156101c3575f5ffd5b8160208401602083015e5f60209282018301529086015190945092506101ed905060408501610113565b90509250925092565b60805160af61020b5f395f602e015260af5ff3fe6080604052348015600e575f5ffd5b50600436106026575f3560e01c80638efc30f914602a575b5f5ffd5b60507f000000000000000000000000000000000000000000000000000000000000000081565b60405173ffffffffffffffffffffffffffffffffffffffff909116815260200160405180910390f3fea26469706673582212208074d0483a0faace71b7ca2d1e373cc86b18d12221b352166a46778e5730cb5b64736f6c634300081c0033''"

definition get_create2_and_transfer_bytecode :: "ext \<Rightarrow> bytecode_verifier \<Rightarrow> bytes res" where
  "get_create2_and_transfer_bytecode E bv =
     bind_res (ok_or (Panic ''Invalid hex encoding for create2 and transfer bytecode'')
       (hex_decode E CREATE2_AND_TRANSFER_HEX)) (\<lambda>bytecode.
     bind_res (ok_or (Panic ''Missing mapping for create2 and transfer bytecode'')
       (evm_init_bytecode_hash_to_file bv (keccak256 E bytecode))) (\<lambda>actual_file.
     if actual_file = ''l1-contracts/Create2AndTransfer'' then Inr bytecode
     else Inl (Panic ''Bytecode file mismatch for create2 and transfer'')))"

definition is_create2_and_transfer_bytecode_prefix ::
    "ext \<Rightarrow> bytecode_verifier \<Rightarrow> bytes \<Rightarrow> bytes option res" where
  "is_create2_and_transfer_bytecode_prefix E bv sl =
     bind_res (get_create2_and_transfer_bytecode E bv) (\<lambda>prefix.
     Inr (if length sl < length prefix then None
          else if take (length prefix) sl = prefix then Some (drop (length prefix) sl)
          else None))"

subsection \<open>Filling the maps\<close>

definition decode_hash :: "ext \<Rightarrow> string \<Rightarrow> b256 res" where
  "decode_hash E hash =
     bind_res (ok_or (Panic ''Invalid hex'') (hex_decode E hash)) (\<lambda>decoded.
     if length decoded = 32 then Inr (from_be_bytes decoded)
     else Inl (Panic ''Invalid length for FixedBytes''))"

definition insert_init_hash :: "ext \<Rightarrow> contract_hash \<Rightarrow> bytecode_verifier \<Rightarrow> bytecode_verifier res" where
  "insert_init_hash E c bv = (case evm_bytecode_hash c of None \<Rightarrow> Inr bv
     | Some hash \<Rightarrow> bind_res (decode_hash E hash) (\<lambda>h.
         Inr (bv\<lparr>init_bytecode_file_by_hash := (init_bytecode_file_by_hash bv)(h \<mapsto> contract_name c)\<rparr>)))"

definition insert_deployed_hash :: "ext \<Rightarrow> contract_hash \<Rightarrow> bytecode_verifier \<Rightarrow> bytecode_verifier res" where
  "insert_deployed_hash E c bv = (case evm_deployed_bytecode_hash c of None \<Rightarrow> Inr bv
     | Some hash \<Rightarrow> bind_res (decode_hash E hash) (\<lambda>h.
         Inr (bv\<lparr>deployed_bytecode_file_by_hash := (deployed_bytecode_file_by_hash bv)(h \<mapsto> contract_name c)\<rparr>)))"

definition insert_zk_hash :: "ext \<Rightarrow> contract_hash \<Rightarrow> bytecode_verifier \<Rightarrow> bytecode_verifier res" where
  "insert_zk_hash E c bv = (case zk_bytecode_hash c of None \<Rightarrow> Inr bv
     | Some hash \<Rightarrow> bind_res (decode_hash E hash) (\<lambda>h.
         Inr (bv\<lparr>bytecode_file_to_zkhash := (bytecode_file_to_zkhash bv)(contract_name c \<mapsto> h),
           zk_bytecode_file_by_hash := (zk_bytecode_file_by_hash bv)(h \<mapsto> contract_name c)\<rparr>)))"

definition insert_blake :: "ext \<Rightarrow> contract_hash \<Rightarrow> bytecode_verifier \<Rightarrow> bytecode_verifier res" where
  "insert_blake E c bv =
     (case (evm_deployed_bytecode_blake_hash c, evm_deployed_bytecode_length c) of
        (Some blake, Some len) \<Rightarrow> bind_res (decode_hash E blake) (\<lambda>h.
          Inr (bv\<lparr>evm_deployed_blake_and_length_by_file :=
            (evm_deployed_blake_and_length_by_file bv)(contract_name c \<mapsto> (h, len))\<rparr>))
      | _ \<Rightarrow> Inr bv)"

definition insert_contract_hash :: "ext \<Rightarrow> contract_hash \<Rightarrow> bytecode_verifier \<Rightarrow> bytecode_verifier res" where
  "insert_contract_hash E c bv =
     bind_res (insert_init_hash E c bv) (\<lambda>bv.
     bind_res (insert_deployed_hash E c bv) (\<lambda>bv.
     bind_res (insert_zk_hash E c bv) (insert_blake E c)))"

definition extend_from_contract_hashes ::
    "ext \<Rightarrow> contract_hash list \<Rightarrow> bytecode_verifier \<Rightarrow> bytecode_verifier res" where
  "extend_from_contract_hashes E hashes = fold_res (insert_contract_hash E) hashes"

definition insert_hardcoded_bytecodes :: "bytecode_verifier \<Rightarrow> bytecode_verifier" where
  "insert_hardcoded_bytecodes bv = bv\<lparr>deployed_bytecode_file_by_hash :=
     (deployed_bytecode_file_by_hash bv)
       (0x2fa86add0aed31f33a762c9d88e807c475bd51d0f52bd0955754b2608f7e4989 \<mapsto> ''Create2Factory'',
        0x1d8a3e7186b2285da5ef3ccf4c63a672e91873f2ffdec522a241f72bfcab11c5 \<mapsto> ''TransparentProxyAdmin'',
        0x1e651120773914ac75c42598ceac4da0dc3e21709d438937f742ecf916ac30ae \<mapsto> ''TransparentProxyAdmin'')\<rparr>"

definition empty_bytecodes :: bytecode_verifier where
  "empty_bytecodes = \<lparr>init_bytecode_file_by_hash = Map.empty,
     deployed_bytecode_file_by_hash = Map.empty, zk_bytecode_file_by_hash = Map.empty,
     bytecode_file_to_zkhash = Map.empty, evm_deployed_blake_and_length_by_file = Map.empty\<rparr>"

definition from_contract_hashes :: "ext \<Rightarrow> contract_hash list \<Rightarrow> bytecode_verifier res" where
  "from_contract_hashes E hashes =
     bind_res (extend_from_contract_hashes E hashes empty_bytecodes) (\<lambda>bv.
     Inr (insert_hardcoded_bytecodes bv))"

definition filter_required :: "string list \<Rightarrow> contract_hash list \<Rightarrow> contract_hash list res" where
  "filter_required required_contracts hashes =
     (let kept = filter (\<lambda>c. contract_name c \<in> set required_contracts) hashes;
          found = set (map contract_name kept);
          missing = filter (\<lambda>r. r \<notin> found) required_contracts
      in bind_res (ensure (missing = []) (Bail ''is missing required v31 contract(s)'')) (\<lambda>_. Inr kept))"

definition ALL_CONTRACTS_HASHES_PATH :: string where
  "ALL_CONTRACTS_HASHES_PATH = ''AllContractsHashes.json''"

definition ZK_GOVERNANCE_REPO :: string where
  "ZK_GOVERNANCE_REPO = ''zksync-association/zk-governance''"

text \<open>
  \<open>from_json\<close> is \<^verbatim>\<open>serde_json::from_str\<close> for a list of contract hashes. A failure on the
  GitHub path of this repository's own hashes is a panic, on the others an error.
\<close>

definition bytecode_verifier_init_from_github ::
    "ext \<Rightarrow> (string \<Rightarrow> contract_hash list option) \<Rightarrow> source_files \<Rightarrow> string
      \<Rightarrow> (bytecode_verifier \<times> source_files) res" where
  "bytecode_verifier_init_from_github E from_json F commit =
     bind_res (case init_json_from_github from_json F commit ERA_CONTRACTS_REPO ALL_CONTRACTS_HASHES_PATH of
         Inl _ \<Rightarrow> Inl (Panic ''Failed to load AllContractsHashes.json from GitHub'')
       | Inr r \<Rightarrow> Inr r) (\<lambda>(hashes, F').
     bind_res (from_contract_hashes E hashes) (\<lambda>bv. Inr (bv, F')))"

definition bytecode_verifier_init_from_local ::
    "ext \<Rightarrow> (string \<Rightarrow> contract_hash list option) \<Rightarrow> source_files \<Rightarrow> bytecode_verifier res" where
  "bytecode_verifier_init_from_local E from_json F =
     bind_res (init_json_from_local from_json F ALL_CONTRACTS_HASHES_PATH) (from_contract_hashes E)"

definition bytecode_verifier_init_v31 ::
    "ext \<Rightarrow> (string \<Rightarrow> contract_hash list option) \<Rightarrow> source_files \<Rightarrow> string option \<Rightarrow> string
      \<Rightarrow> (bytecode_verifier \<times> source_files) res" where
  "bytecode_verifier_init_v31 E from_json F contracts_commit zk_governance_commit =
     bind_res (case contracts_commit of
         Some commit \<Rightarrow> bytecode_verifier_init_from_github E from_json F commit
       | None \<Rightarrow> bind_res (bytecode_verifier_init_from_local E from_json F) (\<lambda>bv. Inr (bv, F))) (\<lambda>(verifier, F1).
     bind_res (init_json_from_github from_json F1 zk_governance_commit ZK_GOVERNANCE_REPO ALL_CONTRACTS_HASHES_PATH)
       (\<lambda>(hs, F2).
     bind_res (filter_required ZK_GOVERNANCE_V31_CONTRACTS hs) (\<lambda>contract_hashes.
     bind_res (extend_from_contract_hashes E contract_hashes verifier) (\<lambda>bv. Inr (bv, F2)))))"

section \<open>Recognition: soundness, completeness, shortest suffix\<close>

lemma first_some_snoc:
  "first_some f (xs @ [x]) = (case first_some f xs of None \<Rightarrow> f x | Some y \<Rightarrow> Some y)"
  by (induction xs) (auto split: option.splits)

lemma first_some_eq_None: "first_some f xs = None \<longleftrightarrow> (\<forall>x \<in> set xs. f x = None)"
  by (induction xs) (auto split: option.splits)

lemma first_some_upt:
  "first_some f [0..<n] = Some y \<longleftrightarrow> (\<exists>i < n. f i = Some y \<and> (\<forall>j < i. f j = None))"
proof (induction n)
  case (Suc n)
  show ?case
  proof (cases "first_some f [0..<n]")
    case None
    then have "\<forall>j < n. f j = None"
      by (simp add: first_some_eq_None)
    with None show ?thesis
      by (auto simp: first_some_snoc less_Suc_eq)
  next
    case (Some z)
    then obtain j where "j < n" "f j \<noteq> None"
      using first_some_eq_None [of f "[0..<n]"] by auto
    with Some Suc show ?thesis
      by (auto simp: first_some_snoc less_Suc_eq)
  qed
qed simp

text \<open>A split of the code into init code of a known hash and argument words.\<close>

definition known_split :: "ext \<Rightarrow> bytecode_verifier \<Rightarrow> bytes \<Rightarrow> string \<Rightarrow> bytes \<Rightarrow> bool" where
  "known_split E bv code name args \<longleftrightarrow> (\<exists>init. code = init @ args \<and> 64 \<le> length init
     \<and> 32 dvd length args \<and> evm_init_bytecode_hash_to_file bv (keccak256 E init) = Some name)"

lemma try_split_iff:
  "try_split E bv code i = Some (name, args) \<longleftrightarrow> known_split E bv code name args \<and> length args = 32 * i"
proof
  assume "try_split E bv code i = Some (name, args)"
  then show "known_split E bv code name args \<and> length args = 32 * i"
    by (auto simp: try_split_def known_split_def compute_hash_with_arguments_def slice_def Let_def
        split: if_splits option.splits intro!: exI [of _ "take (length code - 32 * i) code"])
next
  assume "known_split E bv code name args \<and> length args = 32 * i"
  then show "try_split E bv code i = Some (name, args)"
    by (auto simp: try_split_def known_split_def compute_hash_with_arguments_def slice_def Let_def)
qed

lemma try_split_none_iff:
  "(\<forall>j < i. try_split E bv code j = None)
    \<longleftrightarrow> (\<forall>name args. known_split E bv code name args \<longrightarrow> 32 * i \<le> length args)"
proof
  assume none: "\<forall>j < i. try_split E bv code j = None"
  show "\<forall>name args. known_split E bv code name args \<longrightarrow> 32 * i \<le> length args"
  proof (intro allI impI)
    fix name args
    assume ks: "known_split E bv code name args"
    then obtain j where j: "length args = 32 * j"
      by (auto simp: known_split_def)
    then have "try_split E bv code j = Some (name, args)"
      using ks by (simp add: try_split_iff)
    with none have "\<not> j < i" by fastforce
    with j show "32 * i \<le> length args" by simp
  qed
next
  assume min: "\<forall>name args. known_split E bv code name args \<longrightarrow> 32 * i \<le> length args"
  have "\<not> j < i" if j: "try_split E bv code j = Some (name, args)" for j name args
    using j min by (fastforce simp: try_split_iff)
  then show "\<forall>j < i. try_split E bv code j = None"
    by (metis not_Some_eq surj_pair)
qed

lemma known_split_words: "known_split E bv code name args \<Longrightarrow> \<exists>i < Suc (length code div 32). length args = 32 * i"
  by (auto simp: known_split_def elim!: dvdE)

lemma try_parse_iff:
  "try_parse_bytecode E bv code = Some (name, args) \<longleftrightarrow> known_split E bv code name args
     \<and> (\<forall>name' args'. known_split E bv code name' args' \<longrightarrow> length args \<le> length args')"
proof -
  have "try_parse_bytecode E bv code = Some (name, args)
    \<longleftrightarrow> (\<exists>i < Suc (length code div 32). (known_split E bv code name args \<and> length args = 32 * i)
        \<and> (\<forall>name' args'. known_split E bv code name' args' \<longrightarrow> 32 * i \<le> length args'))"
    unfolding try_parse_bytecode_def Let_def first_some_upt try_split_none_iff try_split_iff ..
  also have "\<dots> \<longleftrightarrow> known_split E bv code name args
     \<and> (\<forall>name' args'. known_split E bv code name' args' \<longrightarrow> length args \<le> length args')"
    using known_split_words by metis
  finally show ?thesis .
qed

lemma try_parse_None: "try_parse_bytecode E bv code = None \<longleftrightarrow> (\<forall>name args. \<not> known_split E bv code name args)"
proof -
  have "try_parse_bytecode E bv code = None \<longleftrightarrow> (\<forall>i < Suc (length code div 32). try_split E bv code i = None)"
    by (auto simp: try_parse_bytecode_def first_some_eq_None simp del: upt_Suc)
  also have "\<dots> \<longleftrightarrow> (\<forall>name args. \<not> known_split E bv code name args)"
    unfolding try_split_none_iff using known_split_words by fastforce
  finally show ?thesis .
qed

section \<open>What the maps hold\<close>

text \<open>The entries a list of contracts makes in the two hash-to-name maps.\<close>

definition hash_entry :: "ext \<Rightarrow> string option \<Rightarrow> b256 option" where
  "hash_entry E s = (case s of None \<Rightarrow> None | Some h \<Rightarrow> (case decode_hash E h of Inl _ \<Rightarrow> None | Inr d \<Rightarrow> Some d))"

lemma insert_hash_parts:
  "insert_init_hash E c bv = Inr bv' \<Longrightarrow> bv' = (case hash_entry E (evm_bytecode_hash c) of None \<Rightarrow> bv
     | Some h \<Rightarrow> bv\<lparr>init_bytecode_file_by_hash := (init_bytecode_file_by_hash bv)(h \<mapsto> contract_name c)\<rparr>)"
  "insert_deployed_hash E c bv = Inr bv' \<Longrightarrow> bv' = (case hash_entry E (evm_deployed_bytecode_hash c) of None \<Rightarrow> bv
     | Some h \<Rightarrow> bv\<lparr>deployed_bytecode_file_by_hash := (deployed_bytecode_file_by_hash bv)(h \<mapsto> contract_name c)\<rparr>)"
  "insert_zk_hash E c bv = Inr bv' \<Longrightarrow> bv' = (case hash_entry E (zk_bytecode_hash c) of None \<Rightarrow> bv
     | Some h \<Rightarrow> bv\<lparr>bytecode_file_to_zkhash := (bytecode_file_to_zkhash bv)(contract_name c \<mapsto> h),
           zk_bytecode_file_by_hash := (zk_bytecode_file_by_hash bv)(h \<mapsto> contract_name c)\<rparr>)"
  by (auto simp: insert_init_hash_def insert_deployed_hash_def insert_zk_hash_def hash_entry_def
      split: option.splits)

lemma insert_blake_frame:
  assumes "insert_blake E c bv = Inr bv'"
  shows "init_bytecode_file_by_hash bv' = init_bytecode_file_by_hash bv"
    "zk_bytecode_file_by_hash bv' = zk_bytecode_file_by_hash bv"
    "bytecode_file_to_zkhash bv' = bytecode_file_to_zkhash bv"
    "deployed_bytecode_file_by_hash bv' = deployed_bytecode_file_by_hash bv"
  using assms by (auto simp: insert_blake_def split: option.splits)

lemma insert_contract_hash_maps:
  assumes "insert_contract_hash E c bv = Inr bv'"
  shows "init_bytecode_file_by_hash bv' = (case hash_entry E (evm_bytecode_hash c) of
      None \<Rightarrow> init_bytecode_file_by_hash bv
    | Some h \<Rightarrow> (init_bytecode_file_by_hash bv)(h \<mapsto> contract_name c))"
    and "zk_bytecode_file_by_hash bv' = (case hash_entry E (zk_bytecode_hash c) of
      None \<Rightarrow> zk_bytecode_file_by_hash bv
    | Some h \<Rightarrow> (zk_bytecode_file_by_hash bv)(h \<mapsto> contract_name c))"
    and "bytecode_file_to_zkhash bv' = (case hash_entry E (zk_bytecode_hash c) of
      None \<Rightarrow> bytecode_file_to_zkhash bv
    | Some h \<Rightarrow> (bytecode_file_to_zkhash bv)(contract_name c \<mapsto> h))"
    and "deployed_bytecode_file_by_hash bv' = (case hash_entry E (evm_deployed_bytecode_hash c) of
      None \<Rightarrow> deployed_bytecode_file_by_hash bv
    | Some h \<Rightarrow> (deployed_bytecode_file_by_hash bv)(h \<mapsto> contract_name c))"
proof -
  obtain b1 b2 b3 where b: "insert_init_hash E c bv = Inr b1" "insert_deployed_hash E c b1 = Inr b2"
    "insert_zk_hash E c b2 = Inr b3" "insert_blake E c b3 = Inr bv'"
    using assms by (auto simp: insert_contract_hash_def)
  note parts = insert_hash_parts(1) [OF b(1)] insert_hash_parts(2) [OF b(2)] insert_hash_parts(3) [OF b(3)]
    insert_blake_frame [OF b(4)]
  show "init_bytecode_file_by_hash bv' = (case hash_entry E (evm_bytecode_hash c) of
      None \<Rightarrow> init_bytecode_file_by_hash bv
    | Some h \<Rightarrow> (init_bytecode_file_by_hash bv)(h \<mapsto> contract_name c))"
    by (simp add: parts split: option.split)
  show "zk_bytecode_file_by_hash bv' = (case hash_entry E (zk_bytecode_hash c) of
      None \<Rightarrow> zk_bytecode_file_by_hash bv
    | Some h \<Rightarrow> (zk_bytecode_file_by_hash bv)(h \<mapsto> contract_name c))"
    by (simp add: parts split: option.split)
  show "bytecode_file_to_zkhash bv' = (case hash_entry E (zk_bytecode_hash c) of
      None \<Rightarrow> bytecode_file_to_zkhash bv
    | Some h \<Rightarrow> (bytecode_file_to_zkhash bv)(contract_name c \<mapsto> h))"
    by (simp add: parts split: option.split)
  show "deployed_bytecode_file_by_hash bv' = (case hash_entry E (evm_deployed_bytecode_hash c) of
      None \<Rightarrow> deployed_bytecode_file_by_hash bv
    | Some h \<Rightarrow> (deployed_bytecode_file_by_hash bv)(h \<mapsto> contract_name c))"
    by (simp add: parts split: option.split)
qed

text \<open>A map filled by the loop knows exactly the keys of the list; the last contract wins.\<close>

lemma fold_res_map_lookup:
  assumes "\<And>c b b'. f c b = Inr b' \<Longrightarrow> sel b' = (case key c of None \<Rightarrow> sel b | Some h \<Rightarrow> (sel b)(h \<mapsto> v c))"
    and "fold_res f cs b = Inr b'"
  shows "sel b' h = (case filter (\<lambda>c. key c = Some h) cs of [] \<Rightarrow> sel b h | ks \<Rightarrow> Some (v (last ks)))"
  using assms(2)
proof (induction cs arbitrary: b)
  case (Cons c cs)
  then obtain b1 where step: "f c b = Inr b1" and rest: "fold_res f cs b1 = Inr b'"
    by auto
  show ?case
    using Cons.IH [OF rest] assms(1) [OF step] by (auto split: option.splits list.splits)
qed simp

definition last_named :: "(contract_hash \<Rightarrow> b256 option) \<Rightarrow> contract_hash list \<Rightarrow> b256 \<Rightarrow> string option" where
  "last_named key hs h = (case filter (\<lambda>c. key c = Some h) hs of [] \<Rightarrow> None | cs \<Rightarrow> Some (contract_name (last cs)))"

lemma extend_init_lookup:
  "extend_from_contract_hashes E hs bv = Inr bv' \<Longrightarrow> init_bytecode_file_by_hash bv' h =
    (case filter (\<lambda>c. hash_entry E (evm_bytecode_hash c) = Some h) hs of
       [] \<Rightarrow> init_bytecode_file_by_hash bv h | cs \<Rightarrow> Some (contract_name (last cs)))"
  unfolding extend_from_contract_hashes_def
  by (rule fold_res_map_lookup [where f = "insert_contract_hash E"]) (auto dest: insert_contract_hash_maps)

lemma extend_zk_lookup:
  "extend_from_contract_hashes E hs bv = Inr bv' \<Longrightarrow> zk_bytecode_file_by_hash bv' h =
    (case filter (\<lambda>c. hash_entry E (zk_bytecode_hash c) = Some h) hs of
       [] \<Rightarrow> zk_bytecode_file_by_hash bv h | cs \<Rightarrow> Some (contract_name (last cs)))"
  unfolding extend_from_contract_hashes_def
  by (rule fold_res_map_lookup [where f = "insert_contract_hash E"]) (auto dest: insert_contract_hash_maps)

lemma from_contract_hashes_lookup:
  assumes "from_contract_hashes E hs = Inr bv"
  shows "evm_init_bytecode_hash_to_file bv h = last_named (\<lambda>c. hash_entry E (evm_bytecode_hash c)) hs h"
    and "zk_bytecode_hash_to_file bv h = last_named (\<lambda>c. hash_entry E (zk_bytecode_hash c)) hs h"
proof -
  obtain b where b: "extend_from_contract_hashes E hs empty_bytecodes = Inr b" "bv = insert_hardcoded_bytecodes b"
    using assms by (auto simp: from_contract_hashes_def)
  show "evm_init_bytecode_hash_to_file bv h = last_named (\<lambda>c. hash_entry E (evm_bytecode_hash c)) hs h"
    using extend_init_lookup [OF b(1), of h]
    by (simp add: b(2) evm_init_bytecode_hash_to_file_def insert_hardcoded_bytecodes_def last_named_def
        empty_bytecodes_def split: list.splits)
  show "zk_bytecode_hash_to_file bv h = last_named (\<lambda>c. hash_entry E (zk_bytecode_hash c)) hs h"
    using extend_zk_lookup [OF b(1), of h]
    by (simp add: b(2) zk_bytecode_hash_to_file_def insert_hardcoded_bytecodes_def last_named_def
        empty_bytecodes_def split: list.splits)
qed

lemma filter_required_iff:
  "filter_required req hs = Inr ks \<longleftrightarrow> (\<forall>r \<in> set req. \<exists>c \<in> set hs. contract_name c = r)
     \<and> ks = filter (\<lambda>c. contract_name c \<in> set req) hs"
  by (auto simp: filter_required_def Let_def filter_empty_conv)

end
