(* ===== verification/Network_Verifier.thy ===== *)
theory Network_Verifier
  imports Report Rpc Bytecode_Verifier
begin

section \<open>Live chain access and CREATE2 provenance\<close>

text \<open>
  \<^verbatim>\<open>v31/utils/network_verifier.rs\<close>: the RPC accessors, the parsers that recognise a CREATE2
  deployment in a transaction's input, and the loop that turns the transactions log into the
  map from deployed addresses to contract names and constructor arguments. The store of
  deployments is an instance of a first-writer-wins interface; the lemmas show that both of
  its maps have the same keys, that every entry comes from a successful transaction of the
  log, and that a run without errors saw no unexpected salt and no conflicting duplicate.
\<close>

record network_verifier =
  l1_provider :: l1_rpc
  era_chain_id :: u64
  l1_chain_id :: u64
  gateway_chain_id :: u64
  gw_provider :: gw_rpc
  create2_known_bytecodes :: "address \<Rightarrow> string option"
  create2_constructor_params :: "address \<Rightarrow> bytes option"

record parsed_create2_deployment =
  dep_addr :: address
  dep_name :: string
  dep_params :: bytes
  dep_salt :: b256

definition EIP1967_PROXY_ADMIN_SLOT :: b256 where
  "EIP1967_PROXY_ADMIN_SLOT = 0xb53127684a568b3173ae13b9f8a6016e243e63b6e8ee1178d6a717850b5d6103"

subsection \<open>Accessors\<close>

text \<open>\<open>l1_rpc\<close> and \<open>gw_rpc\<close> are \<open>None\<close> when the URL does not parse.\<close>

definition network_verifier_new_v31 ::
    "l1_rpc option \<Rightarrow> gw_rpc option \<Rightarrow> u64 \<Rightarrow> network_verifier res" where
  "network_verifier_new_v31 l1 gw era =
     bind_res (ok_or (Bail ''invalid L1 RPC URL'') l1) (\<lambda>l1_provider.
     bind_res (ok_or (Bail ''failed to fetch L1 chain id'') (get_chain_id l1_provider)) (\<lambda>l1_id.
     bind_res (ok_or (Bail ''invalid gateway RPC URL'') gw) (\<lambda>gw_provider.
     bind_res (ok_or (Bail ''failed to fetch gateway chain id'') (gw_get_chain_id gw_provider)) (\<lambda>gw_id.
     Inr \<lparr>l1_provider = l1_provider, era_chain_id = era, l1_chain_id = l1_id,
       gateway_chain_id = gw_id, gw_provider = gw_provider,
       create2_known_bytecodes = Map.empty, create2_constructor_params = Map.empty\<rparr>))))"

definition get_bytecode_hash_at :: "ext \<Rightarrow> network_verifier \<Rightarrow> address \<Rightarrow> b256 res" where
  "get_bytecode_hash_at E nv a =
     bind_res (ok_or (Panic ''get_code_at'') (get_code_at (l1_provider nv) a)) (\<lambda>code.
     Inr (if code = [] then 0 else keccak256 E code))"

definition storage_at :: "network_verifier \<Rightarrow> address \<Rightarrow> b256 \<Rightarrow> b256 res" where
  "storage_at nv a key = ok_or (Panic ''get_storage_at'') (get_storage_at (l1_provider nv) a key)"

definition get_storage_at_slot :: "network_verifier \<Rightarrow> address \<Rightarrow> byte \<Rightarrow> b256 res" where
  "get_storage_at_slot nv a key =
     ok_or (Panic ''get_storage_at'') (get_storage_at (l1_provider nv) a (ucast key))"

definition try_get_l1_chain_id :: "network_verifier \<Rightarrow> u64 res" where
  "try_get_l1_chain_id nv = ok_or (Bail ''failed to fetch L1 chain id'') (get_chain_id (l1_provider nv))"

definition try_get_ctm_protocol_version :: "network_verifier \<Rightarrow> address \<Rightarrow> u256 res" where
  "try_get_ctm_protocol_version nv a =
     ok_or (Bail ''failed to fetch CTM protocolVersion'') (ChainTypeManager_protocolVersion (l1_provider nv) a)"

definition try_get_all_zk_chain_ids :: "network_verifier \<Rightarrow> address \<Rightarrow> u256 list res" where
  "try_get_all_zk_chain_ids nv bh =
     ok_or (Bail ''failed to fetch registered ZK chain ids'') (Bridgehub_getAllZKChainChainIDs (l1_provider nv) bh)"

definition try_get_chain_type_manager_from_bridgehub :: "network_verifier \<Rightarrow> address \<Rightarrow> u256 \<Rightarrow> address res" where
  "try_get_chain_type_manager_from_bridgehub nv bh chain_id =
     ok_or (Bail ''failed to fetch chain type manager from Bridgehub'')
       (Bridgehub_chainTypeManager (l1_provider nv) bh chain_id)"

definition try_get_chain_protocol_version :: "network_verifier \<Rightarrow> address \<Rightarrow> u256 res" where
  "try_get_chain_protocol_version nv a =
     ok_or (Bail ''failed to fetch ZK chain protocolVersion'') (ZKChain_getProtocolVersion (l1_provider nv) a)"

definition try_get_ctm_is_zksync_os :: "network_verifier \<Rightarrow> address \<Rightarrow> bool res" where
  "try_get_ctm_is_zksync_os nv a =
     ok_or (Bail ''failed to fetch CTM isZKsyncOS'') (ChainTypeManager_isZKsyncOS (l1_provider nv) a)"

definition try_get_chain_diamond_from_bridgehub :: "network_verifier \<Rightarrow> address \<Rightarrow> u256 \<Rightarrow> address res" where
  "try_get_chain_diamond_from_bridgehub nv bh chain_id =
     ok_or (Bail ''failed to fetch chain diamond from Bridgehub'')
       (Bridgehub_getZKChain (l1_provider nv) bh chain_id)"

definition get_proxy_admin :: "network_verifier \<Rightarrow> address \<Rightarrow> address res" where
  "get_proxy_admin nv a =
     bind_res (storage_at nv a EIP1967_PROXY_ADMIN_SLOT) (\<lambda>w. Inr (address_of_hash w))"

definition try_get_gateway_proxy_admin :: "network_verifier \<Rightarrow> address \<Rightarrow> address res" where
  "try_get_gateway_proxy_admin nv a =
     bind_res (ok_or (Bail ''failed to read Gateway proxy admin slot'')
       (gw_get_storage_at (gw_provider nv) a EIP1967_PROXY_ADMIN_SLOT)) (\<lambda>w.
     Inr (address_of_hash w))"

subsection \<open>Recognising deployments\<close>

definition parse_l1_create2_deploy_from_input ::
    "ext \<Rightarrow> abi \<Rightarrow> bytecode_verifier \<Rightarrow> address \<Rightarrow> bytes \<Rightarrow> parsed_create2_deployment option res" where
  "parse_l1_create2_deploy_from_input E A bv to_addr inp =
     (if length inp < 32 then Inr None
      else let salt = from_be_bytes (slice 0 32 inp); code = drop 32 inp in
        (case try_parse_bytecode E bv code of
           Some (name, params) \<Rightarrow> Inr (Some \<lparr>
             dep_addr = compute_create2_address_evm E to_addr salt (keccak256 E code),
             dep_name = name, dep_params = params, dep_salt = salt\<rparr>)
         | None \<Rightarrow>
             bind_res (is_create2_and_transfer_bytecode_prefix E bv code) (\<lambda>rest.
             case rest of None \<Rightarrow> Inr None
             | Some create2_and_transfer_input \<Rightarrow>
                 (case decode_create2AndTransferParams A create2_and_transfer_input of None \<Rightarrow> Inr None
                  | Some (bytecode, x_salt, owner) \<Rightarrow>
                      if salt \<noteq> x_salt then Inr None
                      else (case try_parse_bytecode E bv bytecode of None \<Rightarrow> Inr None
                        | Some (name, params) \<Rightarrow>
                            let create2_and_transfer_addr =
                                  compute_create2_address_evm E to_addr salt (keccak256 E code)
                            in Inr (Some \<lparr>
                              dep_addr = compute_create2_address_evm E create2_and_transfer_addr salt
                                (keccak256 E bytecode),
                              dep_name = name, dep_params = params, dep_salt = salt\<rparr>))))))"

definition check_gw_create2_deploy_from_input ::
    "ext \<Rightarrow> abi \<Rightarrow> bytecode_verifier \<Rightarrow> address \<Rightarrow> bytes \<Rightarrow> address \<Rightarrow> parsed_create2_deployment option" where
  "check_gw_create2_deploy_from_input E A bv to_addr inp bridgehub_addr =
     (if to_addr \<noteq> bridgehub_addr then None
      else do {
        request \<leftarrow> decode_requestL2TransactionDirect A inp;
        let l2_contract = req_l2Contract request;
        let l2_calldata = req_l2Calldata request;
        if l2_contract = ZKSYNC_OS_DETERMINISTIC_CREATE2_ADDR then
          (if length l2_calldata < 32 then None
           else do {
             let salt = from_be_bytes (take 32 l2_calldata);
             let init_code = drop 32 l2_calldata;
             np \<leftarrow> try_parse_bytecode E bv init_code;
             Some \<lparr>dep_addr = compute_create2_address_evm E l2_contract salt (keccak256 E init_code),
               dep_name = fst np, dep_params = snd np, dep_salt = salt\<rparr> })
        else if l2_contract = L2_CREATE2_FACTORY_ADDR then do {
          c \<leftarrow> decode_create2 A l2_calldata;
          let (salt, bytecode_hash, ctor_input) = c;
          file_name \<leftarrow> zk_bytecode_hash_to_file bv bytecode_hash;
          Some \<lparr>dep_addr = compute_create2_address_zk E l2_contract salt bytecode_hash
              (keccak256 E ctor_input),
            dep_name = file_name, dep_params = ctor_input, dep_salt = salt\<rparr> }
        else None })"

subsection \<open>Filling the provenance maps\<close>

definition insert_create2_deployment ::
    "parsed_create2_deployment \<Rightarrow> network_verifier \<Rightarrow> network_verifier vr" where
  "insert_create2_deployment d nv =
     (case create2_known_bytecodes nv (dep_addr d) of
        Some existing_name \<Rightarrow>
          if existing_name \<noteq> dep_name d then do { report_error; State_Monad.return nv }
          else (case create2_constructor_params nv (dep_addr d) of
              Some existing_params \<Rightarrow>
                if existing_params \<noteq> dep_params d then do { report_error; State_Monad.return nv }
                else State_Monad.return nv
            | None \<Rightarrow> State_Monad.return nv)
      | None \<Rightarrow> State_Monad.return (nv\<lparr>
          create2_known_bytecodes := (create2_known_bytecodes nv)(dep_addr d \<mapsto> dep_name d),
          create2_constructor_params := (create2_constructor_params nv)(dep_addr d \<mapsto> dep_params d)\<rparr>))"

text \<open>
  The state of the loop over the log: the verifier and the three counters it logs at the end
  (the log messages themselves are not part of the report).
\<close>

record populate_state =
  nv :: network_verifier
  fetch_failures :: nat
  reverted :: nat
  parsed_gateway_deployments :: nat

definition recognise_deployment ::
    "ext \<Rightarrow> abi \<Rightarrow> bytecode_verifier \<Rightarrow> address \<Rightarrow> address \<Rightarrow> address \<Rightarrow> bytes
      \<Rightarrow> parsed_create2_deployment option res" where
  "recognise_deployment E A bv create2_factory bridgehub_addr to_addr inp =
     (if to_addr = create2_factory then parse_l1_create2_deploy_from_input E A bv to_addr inp
      else if to_addr = bridgehub_addr
      then Inr (check_gw_create2_deploy_from_input E A bv to_addr inp bridgehub_addr)
      else Inr None)"

definition populate_step ::
    "ext \<Rightarrow> abi \<Rightarrow> bytecode_verifier \<Rightarrow> address \<Rightarrow> address \<Rightarrow> b256 list \<Rightarrow> b256
      \<Rightarrow> populate_state \<Rightarrow> populate_state res vr" where
  "populate_step E A bv create2_factory bridgehub_addr expected_salts hash st =
     (case get_transaction_by_hash (l1_provider (nv st)) hash of
        None \<Rightarrow> okM (st\<lparr>fetch_failures := Suc (fetch_failures st)\<rparr>)
      | Some None \<Rightarrow> okM (st\<lparr>fetch_failures := Suc (fetch_failures st)\<rparr>)
      | Some (Some t) \<Rightarrow>
        (case tx_to t of None \<Rightarrow> okM st
         | Some to_addr \<Rightarrow>
           (case recognise_deployment E A bv create2_factory bridgehub_addr to_addr (tx_input t) of
              Inl e \<Rightarrow> failM e
            | Inr None \<Rightarrow> okM st
            | Inr (Some deployment) \<Rightarrow>
              (case get_transaction_receipt (l1_provider (nv st)) hash of
                 None \<Rightarrow> okM (st\<lparr>fetch_failures := Suc (fetch_failures st)\<rparr>)
               | Some None \<Rightarrow> okM (st\<lparr>fetch_failures := Suc (fetch_failures st)\<rparr>)
               | Some (Some status) \<Rightarrow>
                 if \<not> status then okM (st\<lparr>reverted := Suc (reverted st)\<rparr>)
                 else liftM (do {
                   (if dep_salt deployment \<notin> set expected_salts then report_error
                    else State_Monad.return ());
                   nv' \<leftarrow> insert_create2_deployment deployment (nv st);
                   State_Monad.return (st\<lparr>nv := nv',
                     parsed_gateway_deployments := (if to_addr = bridgehub_addr
                       then Suc (parsed_gateway_deployments st) else parsed_gateway_deployments st)\<rparr>) })))))"

definition populate_create2_from_transactions_log ::
    "ext \<Rightarrow> abi \<Rightarrow> bytecode_verifier \<Rightarrow> address \<Rightarrow> address \<Rightarrow> b256 list \<Rightarrow> b256 list
      \<Rightarrow> network_verifier \<Rightarrow> populate_state res vr" where
  "populate_create2_from_transactions_log E A bv create2_factory bridgehub_addr expected_salts tx_hashes nv0 =
     foldTM (populate_step E A bv create2_factory bridgehub_addr expected_salts) tx_hashes
       \<lparr>nv = nv0, fetch_failures = 0, reverted = 0, parsed_gateway_deployments = 0\<rparr>"

section \<open>Interface: a store whose first entry wins\<close>

locale first_wins =
  fixes put :: "'k \<Rightarrow> 'v \<Rightarrow> 's \<Rightarrow> 's" and look :: "'s \<Rightarrow> 'k \<Rightarrow> 'v option" and invar :: "'s \<Rightarrow> bool"
  assumes look_put: "invar s \<Longrightarrow> look (put k v s) k' = (if k' = k \<and> look s k = None then Some v else look s k')"
    and invar_put: "invar s \<Longrightarrow> invar (put k v s)"
begin

definition put_all :: "('k \<times> 'v) list \<Rightarrow> 's \<Rightarrow> 's" where
  "put_all kvs = fold (\<lambda>(k, v). put k v) kvs"

lemma put_all_simps [simp]:
  "put_all [] s = s" "put_all ((k, v) # kvs) s = put_all kvs (put k v s)"
  by (simp_all add: put_all_def)

lemma invar_put_all: "invar s \<Longrightarrow> invar (put_all kvs s)"
  by (induction kvs arbitrary: s) (auto simp: invar_put)

lemma look_put_all:
  assumes "invar s"
  shows "look (put_all kvs s) k = (case look s k of Some v \<Rightarrow> Some v | None \<Rightarrow> map_of kvs k)"
  using assms
proof (induction kvs arbitrary: s)
  case (Cons kv kvs)
  obtain k1 v1 where kv: "kv = (k1, v1)" by fastforce
  show ?case
    using Cons.IH [OF invar_put [OF Cons.prems, of k1 v1]] look_put [OF Cons.prems, of k1 v1 k]
    by (auto simp: kv split: option.splits)
qed (simp split: option.splits)

text \<open>An entry is never changed by later ones.\<close>

lemma put_all_keeps: "invar s \<Longrightarrow> look s k = Some v \<Longrightarrow> look (put_all kvs s) k = Some v"
  by (simp add: look_put_all)

end

text \<open>Both maps are written together, so they have the same keys.\<close>

definition same_keys :: "network_verifier \<Rightarrow> bool" where
  "same_keys n \<longleftrightarrow> dom (create2_known_bytecodes n) = dom (create2_constructor_params n)"

definition look_deployment :: "network_verifier \<Rightarrow> address \<Rightarrow> (string \<times> bytes) option" where
  "look_deployment n a = do {
     name \<leftarrow> create2_known_bytecodes n a;
     params \<leftarrow> create2_constructor_params n a;
     Some (name, params) }"

lemma writer_insert [simp, writer_intros]: "writer (insert_create2_deployment d n)"
  unfolding insert_create2_deployment_def by (auto split: option.splits)

lemma same_keys_none:
  "same_keys n \<Longrightarrow> create2_known_bytecodes n a = None \<longleftrightarrow> create2_constructor_params n a = None"
  by (metis domIff same_keys_def)

lemma same_keys_lookup:
  assumes "same_keys n"
  shows "create2_known_bytecodes n a = map_option fst (look_deployment n a)"
    and "create2_constructor_params n a = map_option snd (look_deployment n a)"
  using same_keys_none [OF assms, of a]
  by (cases "create2_known_bytecodes n a"; cases "create2_constructor_params n a"; simp add: look_deployment_def)+

lemma val_insert:
  "val (insert_create2_deployment d n) =
    (if create2_known_bytecodes n (dep_addr d) = None then n\<lparr>
       create2_known_bytecodes := (create2_known_bytecodes n)(dep_addr d \<mapsto> dep_name d),
       create2_constructor_params := (create2_constructor_params n)(dep_addr d \<mapsto> dep_params d)\<rparr>
     else n)"
  by (auto simp: insert_create2_deployment_def split: option.splits)

lemma clean_insert:
  assumes "same_keys n"
  shows "clean (insert_create2_deployment d n)
    \<longleftrightarrow> look_deployment n (dep_addr d) \<in> {None, Some (dep_name d, dep_params d)}"
  using same_keys_lookup [OF assms, of "dep_addr d"]
  by (cases "look_deployment n (dep_addr d)") (auto simp: insert_create2_deployment_def)

lemma same_keys_insert: "same_keys n \<Longrightarrow> same_keys (val (insert_create2_deployment d n))"
  by (simp add: val_insert same_keys_def)

lemma look_insert:
  assumes "same_keys n"
  shows "look_deployment (val (insert_create2_deployment d n)) a
    = (if a = dep_addr d \<and> look_deployment n (dep_addr d) = None then Some (dep_name d, dep_params d)
       else look_deployment n a)"
  using same_keys_none [OF assms, of "dep_addr d"]
  by (cases "create2_known_bytecodes n (dep_addr d)"; cases "create2_constructor_params n (dep_addr d)")
    (auto simp: val_insert look_deployment_def)

text \<open>The store's insertion does not read the salt.\<close>

definition put_deployment :: "address \<Rightarrow> string \<times> bytes \<Rightarrow> network_verifier \<Rightarrow> network_verifier" where
  "put_deployment a np n = val (insert_create2_deployment
     \<lparr>dep_addr = a, dep_name = fst np, dep_params = snd np, dep_salt = 0\<rparr> n)"

lemma put_deployment_insert:
  "put_deployment (dep_addr d) (dep_name d, dep_params d) n = val (insert_create2_deployment d n)"
  by (simp add: put_deployment_def val_insert)

interpretation provenance: first_wins put_deployment look_deployment same_keys
  by unfold_locales (simp_all add: put_deployment_def look_insert same_keys_insert)

section \<open>The log as a list of deployments\<close>

text \<open>
  The deployment a logged transaction makes: it is on the chain, has a target, its input is
  recognised, and it succeeded.
\<close>

definition deployment_of ::
    "ext \<Rightarrow> abi \<Rightarrow> bytecode_verifier \<Rightarrow> address \<Rightarrow> address \<Rightarrow> l1_rpc \<Rightarrow> b256 \<Rightarrow> parsed_create2_deployment option" where
  "deployment_of E A bv create2_factory bridgehub_addr rpc hash = do {
     found \<leftarrow> get_transaction_by_hash rpc hash;
     t \<leftarrow> found;
     to_addr \<leftarrow> tx_to t;
     d \<leftarrow> (case recognise_deployment E A bv create2_factory bridgehub_addr to_addr (tx_input t) of
           Inl _ \<Rightarrow> None | Inr r \<Rightarrow> r);
     receipt \<leftarrow> get_transaction_receipt rpc hash;
     status \<leftarrow> receipt;
     (if status then Some d else None) }"

definition deployments_of ::
    "ext \<Rightarrow> abi \<Rightarrow> bytecode_verifier \<Rightarrow> address \<Rightarrow> address \<Rightarrow> l1_rpc \<Rightarrow> b256 list \<Rightarrow> parsed_create2_deployment list" where
  "deployments_of E A bv create2_factory bridgehub_addr rpc hashes =
     List.map_filter (deployment_of E A bv create2_factory bridgehub_addr rpc) hashes"

definition entry :: "parsed_create2_deployment \<Rightarrow> address \<times> string \<times> bytes" where
  "entry d = (dep_addr d, dep_name d, dep_params d)"

lemma l1_provider_insert [simp]: "l1_provider (val (insert_create2_deployment d n)) = l1_provider n"
  by (simp add: val_insert)

lemma writer_populate_step [simp, writer_intros]: "writer (populate_step E A bv f b salts h st)"
  unfolding populate_step_def by (auto split: option.splits sum.splits)

lemma put_all_entry: "provenance.put_all [entry d] n = val (insert_create2_deployment d n)"
  by (simp add: entry_def put_deployment_insert)

text \<open>One pass: it enters the transaction's deployment, if it makes one, and flags its salt.\<close>

lemma populate_step_cases:
  assumes "val (populate_step E A bv f b salts h st) = Inr st'"
  shows "nv st' = (case deployment_of E A bv f b (l1_provider (nv st)) h of None \<Rightarrow> nv st
      | Some d \<Rightarrow> val (insert_create2_deployment d (nv st)))"
    and "clean (populate_step E A bv f b salts h st) \<longleftrightarrow>
      (case deployment_of E A bv f b (l1_provider (nv st)) h of None \<Rightarrow> True
      | Some d \<Rightarrow> dep_salt d \<in> set salts \<and> clean (insert_create2_deployment d (nv st)))"
  using assms unfolding populate_step_def deployment_of_def
  by (auto split: option.splits sum.splits if_splits)

lemma populate_loop_both:
  assumes "val (foldTM (populate_step E A bv f b salts) hs st) = Inr st'" "same_keys (nv st)"
  shows "nv st' = provenance.put_all (map entry (deployments_of E A bv f b (l1_provider (nv st)) hs)) (nv st)
    \<and> (clean (foldTM (populate_step E A bv f b salts) hs st) \<longleftrightarrow>
      (\<forall>d \<in> set (deployments_of E A bv f b (l1_provider (nv st)) hs). dep_salt d \<in> set salts
         \<and> look_deployment (nv st') (dep_addr d) = Some (dep_name d, dep_params d)))"
  using assms
proof (induction hs arbitrary: st)
  case Nil
  then show ?case by (simp add: deployments_of_def)
next
  case (Cons h hs)
  let ?ds = "deployments_of E A bv f b (l1_provider (nv st)) hs"
  from Cons.prems(1) obtain s1 where s1: "val (populate_step E A bv f b salts h st) = Inr s1"
    and rest: "val (foldTM (populate_step E A bv f b salts) hs s1) = Inr st'"
    by (auto simp: val_tryM_eq_Inr)
  note step = populate_step_cases [OF s1] and keys = Cons.prems(2)
  have rpc: "l1_provider (nv s1) = l1_provider (nv st)" and keys1: "same_keys (nv s1)"
    using step(1) keys by (simp_all add: same_keys_insert split: option.splits)
  note IH = Cons.IH [OF rest keys1]
  have cl: "clean (foldTM (populate_step E A bv f b salts) (h # hs) st)
    \<longleftrightarrow> clean (populate_step E A bv f b salts h st) \<and> clean (foldTM (populate_step E A bv f b salts) hs s1)"
    using s1 by simp
  show ?case
  proof (cases "deployment_of E A bv f b (l1_provider (nv st)) h")
    case None
    then show ?thesis
      using step IH cl by (simp add: deployments_of_def List.map_filter_simps rpc)
  next
    case (Some d)
    have "nv s1 = provenance.put_all [entry d] (nv st)"
      using step(1) Some by (simp add: put_all_entry)
    then have nv': "nv st' = provenance.put_all (map entry (d # ?ds)) (nv st)"
      using IH unfolding rpc by (simp add: entry_def [of d])
    have ins: "clean (insert_create2_deployment d (nv st))
      \<longleftrightarrow> look_deployment (nv st') (dep_addr d) = Some (dep_name d, dep_params d)"
      using clean_insert [OF keys, of d] provenance.look_put_all [OF keys, of "map entry (d # ?ds)" "dep_addr d"]
      unfolding nv' by (auto simp: entry_def [of d] split: option.splits)
    show ?thesis
      using nv' ins step(2) Some IH cl by (simp add: deployments_of_def List.map_filter_simps rpc)
  qed
qed

lemmas populate_loop = populate_loop_both [THEN conjunct1] populate_loop_both [THEN conjunct2]

lemma writer_populate [simp, writer_intros]:
  "writer (populate_create2_from_transactions_log E A bv f b salts hs n)"
  by (simp add: populate_create2_from_transactions_log_def)

end
