(* ===== verification/Fee_Params.thy ===== *)
theory Fee_Params
  imports Network_Verifier
begin

section \<open>Fee parameters\<close>

text \<open>
  \<^verbatim>\<open>v31/utils/fee_param_verifier.rs\<close>: the fee parameters expected from \<^verbatim>\<open>SystemConfig.json\<close>
  are compared with those packed into slot 38 of Era's diamond. The decoder is shown to invert
  Solidity's packing of the struct and to reject every other mode byte.
\<close>

datatype pubdata_pricing_mode = Rollup | Validium

record fee_params =
  pubdataPricingMode :: pubdata_pricing_mode
  batchOverheadL1Gas :: u32
  maxPubdataPerBatch :: u32
  maxL2GasPerBatch :: u32
  priorityTxMaxPubdata :: u32
  minimalL2GasPrice :: u64

definition FEE_PARAM_STORAGE_SLOT :: byte where
  "FEE_PARAM_STORAGE_SLOT = 38"

record system_config =
  guaranteed_pubdata_bytes :: u32
  max_transactions_in_batch :: u32
  required_l2_gas_price_per_pubdata :: u32
  l1_gas_per_pubdata_byte :: u32
  priority_tx_max_pubdata :: u32
  batch_overhead_l1_gas :: u32
  l1_tx_intrinsic_l2_gas :: u32
  l1_tx_intrinsic_pubdata :: u32
  l1_tx_min_l2_gas_base :: u32
  l1_tx_delta_544_encoding_bytes :: u32
  l1_tx_delta_factory_deps_l2_gas :: u32
  l1_tx_delta_factory_deps_pubdata :: u32
  l2_tx_intrinsic_gas :: u32
  l2_tx_intrinsic_pubdata :: u32
  max_new_factory_deps :: u32
  max_gas_per_transaction :: u32
  keccak_round_cost_gas :: u32
  sha256_round_cost_gas :: u32
  ecrecover_cost_gas :: u32
  priority_tx_minimal_gas_price :: u32
  priority_tx_max_gas_per_batch :: u32
  priority_tx_pubdata_per_batch :: u32
  priority_tx_batch_overhead_l1_gas :: u32

definition word_u32 :: "b256 \<Rightarrow> nat \<Rightarrow> u32" where
  "word_u32 v offset = from_be_bytes (slice offset (offset + 4) (b256_bytes v))"

definition word_u64 :: "b256 \<Rightarrow> nat \<Rightarrow> u64" where
  "word_u64 v offset = from_be_bytes (slice offset (offset + 8) (b256_bytes v))"

definition decode_storage_word :: "b256 \<Rightarrow> fee_params res" where
  "decode_storage_word v =
     bind_res (let b = b256_bytes v ! 31 in
       if b = 0 then Inr Rollup else if b = 1 then Inr Validium
       else Inl (Bail ''unexpected pubdataPricingMode value'')) (\<lambda>mode.
     Inr \<lparr>pubdataPricingMode = mode, batchOverheadL1Gas = word_u32 v 27,
       maxPubdataPerBatch = word_u32 v 23, maxL2GasPerBatch = word_u32 v 19,
       priorityTxMaxPubdata = word_u32 v 15, minimalL2GasPrice = word_u64 v 7\<rparr>)"

text \<open>\<open>from_json\<close> is \<^verbatim>\<open>serde_json::from_str\<close> for the configuration.\<close>

definition init_v31_from_source ::
    "(string \<Rightarrow> system_config option) \<Rightarrow> source_files \<Rightarrow> string option \<Rightarrow> (fee_params \<times> source_files) res" where
  "init_v31_from_source from_json F contracts_commit =
     bind_res (init_json from_json F contracts_commit ''SystemConfig.json'') (\<lambda>(sc, F').
     Inr (\<lparr>pubdataPricingMode = Rollup, batchOverheadL1Gas = batch_overhead_l1_gas sc,
       maxPubdataPerBatch = priority_tx_pubdata_per_batch sc,
       maxL2GasPerBatch = priority_tx_max_gas_per_batch sc,
       priorityTxMaxPubdata = priority_tx_max_pubdata sc,
       minimalL2GasPrice = ucast (priority_tx_minimal_gas_price sc)\<rparr>, F'))"

definition init_from_on_chain :: "network_verifier \<Rightarrow> address \<Rightarrow> fee_params res" where
  "init_from_on_chain n bridgehub_addr =
     bind_res (ok_or (Bail ''failed to fetch Era diamond from Bridgehub'')
       (Bridgehub_getHyperchain (l1_provider n) bridgehub_addr (ucast (era_chain_id n)))) (\<lambda>diamond_proxy_address.
     bind_res (get_storage_at_slot n diamond_proxy_address FEE_PARAM_STORAGE_SLOT) decode_storage_word)"

definition fee_param_safe_init ::
    "network_verifier \<Rightarrow> address \<Rightarrow> (string \<Rightarrow> system_config option) \<Rightarrow> source_files \<Rightarrow> string option
      \<Rightarrow> (fee_params \<times> source_files) res" where
  "fee_param_safe_init n bridgehub_addr from_json F contracts_commit =
     bind_res (init_v31_from_source from_json F contracts_commit) (\<lambda>(config_based, F').
     bind_res (init_from_on_chain n bridgehub_addr) (\<lambda>era.
     if config_based \<noteq> era
     then Inl (Bail ''Unexpected difference between SystemConfig.json fee params and live Era diamond fee params'')
     else Inr (config_based, F')))"

section \<open>Solidity's packing of the struct\<close>

text \<open>Fields fill the slot from its low-order end in declaration order.\<close>

fun mode_byte :: "pubdata_pricing_mode \<Rightarrow> byte" where
  "mode_byte Rollup = 0"
| "mode_byte Validium = 1"

definition packed_bytes :: "fee_params \<Rightarrow> bytes" where
  "packed_bytes fp = replicate 7 0 @ to_be_bytes 8 (minimalL2GasPrice fp)
     @ to_be_bytes 4 (priorityTxMaxPubdata fp) @ to_be_bytes 4 (maxL2GasPerBatch fp)
     @ to_be_bytes 4 (maxPubdataPerBatch fp) @ to_be_bytes 4 (batchOverheadL1Gas fp)
     @ [mode_byte (pubdataPricingMode fp)]"

definition encode_storage_word :: "fee_params \<Rightarrow> b256" where
  "encode_storage_word fp = from_be_bytes (packed_bytes fp)"

lemma length_packed_bytes [simp]: "length (packed_bytes fp) = 32"
  by (simp add: packed_bytes_def)

lemma bytes_of_encoded: "b256_bytes (encode_storage_word fp) = packed_bytes fp"
  using to_from_be_bytes [where 'a = 256, of "packed_bytes fp"]
  by (simp add: encode_storage_word_def b256_bytes_def)

lemma packed_fields:
  "slice 27 31 (packed_bytes fp) = to_be_bytes 4 (batchOverheadL1Gas fp)"
  "slice 23 27 (packed_bytes fp) = to_be_bytes 4 (maxPubdataPerBatch fp)"
  "slice 19 23 (packed_bytes fp) = to_be_bytes 4 (maxL2GasPerBatch fp)"
  "slice 15 19 (packed_bytes fp) = to_be_bytes 4 (priorityTxMaxPubdata fp)"
  "slice 7 15 (packed_bytes fp) = to_be_bytes 8 (minimalL2GasPrice fp)"
  "packed_bytes fp ! 31 = mode_byte (pubdataPricingMode fp)"
  by (simp_all add: packed_bytes_def slice_def nth_append)

lemma decode_encode: "decode_storage_word (encode_storage_word fp) = Inr fp"
  by (cases "pubdataPricingMode fp")
    (simp_all add: decode_storage_word_def word_u32_def word_u64_def bytes_of_encoded packed_fields
      from_to_be_bytes Let_def)

interpretation fee_codec: codec encode_storage_word
  "\<lambda>w. case decode_storage_word w of Inl _ \<Rightarrow> None | Inr fp \<Rightarrow> Some fp" "\<lambda>_. True"
  by unfold_locales (simp add: decode_encode)

lemma safe_init_iff:
  "fee_param_safe_init n bh from_json F commit = Inr (fp, F') \<longleftrightarrow>
    init_v31_from_source from_json F commit = Inr (fp, F') \<and> init_from_on_chain n bh = Inr fp"
  by (auto simp: fee_param_safe_init_def split: if_splits)

end
