(* ===== verification/Artifacts.thy ===== *)
theory Artifacts
  imports Prelude "HOL-Library.Char_ord" "HOL-Library.List_Lexorder"
begin

section \<open>The ecosystem upgrade artifact\<close>

text \<open>
  \<^verbatim>\<open>upgrade_verification/artifacts.rs\<close>: the merged \<^verbatim>\<open>ecosystem.toml\<close> as the verifier reads it.
  A TOML document is a tree of \<open>toml\<close> values; a table is the list of its entries in iteration
  order (the \<^verbatim>\<open>toml\<close> crate's map has unique keys). Reading bytes into a tree is library
  code and a parameter (\<open>toml_from_str\<close>). Floats and dates keep no payload: nothing reads them.
  The lemmas show which documents are accepted, section by section and field by field, and that the CTM sections come out in the order
  era, zksync\_os whatever the order in the file.
\<close>

datatype toml = TString string | TInteger int | TFloat | TBoolean bool | TDatetime
  | TArray "toml list" | TTable "(string \<times> toml) list"

type_synonym table = "(string \<times> toml) list"

definition toml_get :: "toml \<Rightarrow> string \<Rightarrow> toml option" where
  "toml_get v k = (case v of TTable t \<Rightarrow> map_of t k | _ \<Rightarrow> None)"

definition as_str :: "toml \<Rightarrow> string option" where
  "as_str v = (case v of TString s \<Rightarrow> Some s | _ \<Rightarrow> None)"

definition as_integer :: "toml \<Rightarrow> int option" where
  "as_integer v = (case v of TInteger i \<Rightarrow> Some i | _ \<Rightarrow> None)"

definition as_bool :: "toml \<Rightarrow> bool option" where
  "as_bool v = (case v of TBoolean b \<Rightarrow> Some b | _ \<Rightarrow> None)"

definition as_table :: "toml \<Rightarrow> table option" where
  "as_table v = (case v of TTable t \<Rightarrow> Some t | _ \<Rightarrow> None)"

text \<open>\<^verbatim>\<open>Table::remove\<close>: the entry, and the table without it.\<close>

definition table_remove :: "string \<Rightarrow> table \<Rightarrow> toml option \<times> table" where
  "table_remove k t = (map_of t k, filter (\<lambda>e. fst e \<noteq> k) t)"

text \<open>The loop that walks a chain of keys into a value.\<close>

fun toml_path :: "toml \<Rightarrow> string list \<Rightarrow> toml option" where
  "toml_path v [] = Some v"
| "toml_path v (k # ks) = (case toml_get v k of None \<Rightarrow> None | Some w \<Rightarrow> toml_path w ks)"

subsection \<open>Data\<close>

datatype ctm_flavor = Era | ZksyncOs

record contracts_config =
  diamond_cut_data :: string
  force_deployments_data :: string
  new_protocol_version :: u64
  old_protocol_version :: u64
  governance_upgrade_timer_initial_delay :: u64
  is_testnet :: bool

record governance_calls =
  stage0_calls :: string
  stage1_calls :: string
  stage2_calls :: string

record ctm_artifact =
  flavor :: ctm_flavor
  chain_upgrade_diamond_cut :: string
  ctm_contracts_config :: contracts_config
  ctm_value :: toml

record new_gateway_artifact =
  gateway_chain_type_manager_addr :: address
  gateway_rollup_da_manager_addr :: "address option"
  gateway_server_notifier_addr :: "address option"
  new_gateway_value :: toml

record zk_governance_artifact =
  new_puh_impl :: address
  new_guardians :: address
  new_security_council :: address
  new_emergency_upgrade_board :: address

record ecosystem_upgrade_artifact =
  core :: toml
  artifact_governance_calls :: governance_calls
  ctms :: "ctm_artifact list"
  new_gateway :: "new_gateway_artifact option"
  zk_governance :: "zk_governance_artifact option"
  misc :: toml

subsection \<open>Reading\<close>

fun ctm_flavor_label :: "ctm_flavor \<Rightarrow> string" where
  "ctm_flavor_label Era = ''era''"
| "ctm_flavor_label ZksyncOs = ''zksync_os''"

definition ctm_flavor_parse :: "string \<Rightarrow> ctm_flavor res" where
  "ctm_flavor_parse label = (if label = ''era'' then Inr Era
     else if label = ''zksync_os'' then Inr ZksyncOs
     else Inl (Bail ''unknown CTM flavor''))"

definition required_address_in_value :: "ext \<Rightarrow> toml \<Rightarrow> string list \<Rightarrow> address res" where
  "required_address_in_value E v path =
     bind_res (ok_or (Bail ''is required'') (toml_path v path)) (\<lambda>current.
     bind_res (ok_or (Bail ''must be an address string'') (as_str current)) (\<lambda>raw.
     ok_or (Bail ''is not a valid address'') (address_from_str E raw)))"

definition expect_table :: "toml \<Rightarrow> table res" where
  "expect_table v = ok_or (Bail ''must be a table'') (as_table v)"

text \<open>
  The derived \<^verbatim>\<open>Deserialize\<close> instances: every field present with its type (integers of a
  \<^verbatim>\<open>u64\<close> field are not negative), unknown fields ignored.
\<close>

definition string_field :: "toml \<Rightarrow> string \<Rightarrow> string option" where
  "string_field v k = Option.bind (toml_get v k) as_str"

definition u64_field :: "toml \<Rightarrow> string \<Rightarrow> u64 option" where
  "u64_field v k = (case Option.bind (toml_get v k) as_integer of
     Some i \<Rightarrow> if 0 \<le> i then Some (of_int i) else None | None \<Rightarrow> None)"

definition bool_field :: "toml \<Rightarrow> string \<Rightarrow> bool option" where
  "bool_field v k = Option.bind (toml_get v k) as_bool"

definition governance_calls_try_from :: "toml \<Rightarrow> governance_calls option" where
  "governance_calls_try_from v = do {
     s0 \<leftarrow> string_field v ''stage0_calls'';
     s1 \<leftarrow> string_field v ''stage1_calls'';
     s2 \<leftarrow> string_field v ''stage2_calls'';
     Some \<lparr>stage0_calls = s0, stage1_calls = s1, stage2_calls = s2\<rparr> }"

definition contracts_config_try_from :: "toml \<Rightarrow> contracts_config option" where
  "contracts_config_try_from v = do {
     dcd \<leftarrow> string_field v ''diamond_cut_data'';
     fdd \<leftarrow> string_field v ''force_deployments_data'';
     npv \<leftarrow> u64_field v ''new_protocol_version'';
     opv \<leftarrow> u64_field v ''old_protocol_version'';
     del \<leftarrow> u64_field v ''governance_upgrade_timer_initial_delay'';
     tst \<leftarrow> bool_field v ''is_testnet'';
     Some \<lparr>diamond_cut_data = dcd, force_deployments_data = fdd, new_protocol_version = npv,
       old_protocol_version = opv, governance_upgrade_timer_initial_delay = del, is_testnet = tst\<rparr> }"

text \<open>One pass of the loop over the sorted keys of \<^verbatim>\<open>[ctms]\<close>.\<close>

definition parse_ctm :: "table \<Rightarrow> string \<Rightarrow> ctm_artifact res" where
  "parse_ctm ctms_table key =
     bind_res (ctm_flavor_parse key) (\<lambda>fl.
     bind_res (ok_or (Panic ''present, just iterated'') (map_of ctms_table key)) (\<lambda>raw.
     bind_res (expect_table raw) (\<lambda>_.
     bind_res (ok_or (Bail ''chain_upgrade_diamond_cut is required and must be a hex string'')
       (string_field raw ''chain_upgrade_diamond_cut'')) (\<lambda>cut.
     bind_res (ok_or (Bail ''contracts_config is required'') (toml_get raw ''contracts_config'')) (\<lambda>cc.
     bind_res (ok_or (Bail ''invalid contracts_config'') (contracts_config_try_from cc)) (\<lambda>cfg.
     Inr \<lparr>flavor = fl, chain_upgrade_diamond_cut = cut, ctm_contracts_config = cfg,
       ctm_value = raw\<rparr>))))))"

definition parse_required :: "ext \<Rightarrow> toml \<Rightarrow> string \<Rightarrow> address res" where
  "parse_required E gst field =
     bind_res (ok_or (Bail ''is required when [new_gateway] is present'') (string_field gst field)) (\<lambda>raw.
     case address_parse_checksummed E raw of Some a \<Rightarrow> Inr a
     | None \<Rightarrow> ok_or (Bail ''invalid address'') (address_from_str E raw))"

definition parse_optional :: "ext \<Rightarrow> toml \<Rightarrow> string \<Rightarrow> address option" where
  "parse_optional E gst field = do {
     raw \<leftarrow> string_field gst field;
     a \<leftarrow> (case address_parse_checksummed E raw of Some a \<Rightarrow> Some a | None \<Rightarrow> address_from_str E raw);
     (if a \<noteq> 0 then Some a else None) }"

definition parse_new_gateway :: "ext \<Rightarrow> toml \<Rightarrow> new_gateway_artifact res" where
  "parse_new_gateway E v =
     bind_res (expect_table v) (\<lambda>table.
     bind_res (ok_or (Bail ''gateway_state_transition is required'')
       (Option.bind (map_of table ''gateway_state_transition'') as_table)) (\<lambda>gst.
     bind_res (parse_required E (TTable gst) ''chain_type_manager_proxy_addr'') (\<lambda>ctm.
     Inr \<lparr>gateway_chain_type_manager_addr = ctm,
       gateway_rollup_da_manager_addr = parse_optional E (TTable gst) ''rollup_da_manager_addr'',
       gateway_server_notifier_addr = parse_optional E (TTable gst) ''server_notifier_proxy_addr'',
       new_gateway_value = TTable table\<rparr>)))"

definition parse_zk_governance :: "ext \<Rightarrow> toml \<Rightarrow> zk_governance_artifact res" where
  "parse_zk_governance E v =
     bind_res (expect_table v) (\<lambda>table.
     bind_res (required_address_in_value E (TTable table) [''new_puh_impl'']) (\<lambda>puh.
     bind_res (required_address_in_value E (TTable table) [''new_guardians'']) (\<lambda>gua.
     bind_res (required_address_in_value E (TTable table) [''new_security_council'']) (\<lambda>sec.
     bind_res (required_address_in_value E (TTable table) [''new_emergency_upgrade_board'']) (\<lambda>eub.
     Inr \<lparr>new_puh_impl = puh, new_guardians = gua, new_security_council = sec,
       new_emergency_upgrade_board = eub\<rparr>)))))"

definition optional_section :: "(toml \<Rightarrow> 'a res) \<Rightarrow> toml option \<Rightarrow> 'a option res" where
  "optional_section f v = (case v of None \<Rightarrow> Inr None | Some x \<Rightarrow> bind_res (f x) (\<lambda>a. Inr (Some a)))"

definition artifact_from_table :: "ext \<Rightarrow> table \<Rightarrow> ecosystem_upgrade_artifact res" where
  "artifact_from_table E root0 =
     (let (gc, root1) = table_remove ''governance_calls'' root0 in
     bind_res (ok_or (Bail ''missing top-level [governance_calls] table'') gc) (\<lambda>gcv.
     bind_res (ok_or (Bail ''invalid [governance_calls] table'') (governance_calls_try_from gcv)) (\<lambda>calls.
     let (co, root2) = table_remove ''core'' root1 in
     bind_res (ok_or (Bail ''missing top-level [core] table'') co) (\<lambda>cov.
     bind_res (expect_table cov) (\<lambda>core_table.
     let (ct, root3) = table_remove ''ctms'' root2 in
     bind_res (ok_or (Bail ''missing top-level [ctms] table'') ct) (\<lambda>ctv.
     bind_res (expect_table ctv) (\<lambda>ctms_table.
     bind_res (ensure (ctms_table \<noteq> []) (Bail ''[ctms] must contain at least one CTM section'')) (\<lambda>_.
     let flavor_keys = sort (map fst ctms_table) in
     bind_res (map_res (parse_ctm ctms_table) flavor_keys) (\<lambda>cs.
     let (ng, root4) = table_remove ''new_gateway'' root3 in
     bind_res (optional_section (parse_new_gateway E) ng) (\<lambda>gw.
     let (zg, root5) = table_remove ''zk_governance'' root4 in
     bind_res (optional_section (parse_zk_governance E) zg) (\<lambda>zk.
     let (mi, root6) = table_remove ''misc'' root5 in
     bind_res (case mi of Some v \<Rightarrow> expect_table v | None \<Rightarrow> Inr []) (\<lambda>misc_table.
     Inr \<lparr>core = TTable core_table, artifact_governance_calls = calls, ctms = cs,
       new_gateway = gw, zk_governance = zk, misc = TTable misc_table\<rparr>))))))))))))"

definition from_toml_str :: "ext \<Rightarrow> (string \<Rightarrow> table option) \<Rightarrow> string \<Rightarrow> ecosystem_upgrade_artifact res" where
  "from_toml_str E toml_from_str content =
     bind_res (ok_or (Bail ''Failed to parse ecosystem upgrade TOML as table'') (toml_from_str content))
       (artifact_from_table E)"

definition read_artifact :: "ext \<Rightarrow> (string \<Rightarrow> table option) \<Rightarrow> string option \<Rightarrow> ecosystem_upgrade_artifact res" where
  "read_artifact E toml_from_str file =
     bind_res (ok_or (Bail ''Failed to read ecosystem upgrade TOML'') file) (from_toml_str E toml_from_str)"

section \<open>Paths\<close>

lemma toml_get_simps [simp]:
  "toml_get (TTable t) k = map_of t k" "toml_get (TString s) k = None"
  "toml_get (TInteger i) k = None" "toml_get (TArray vs) k = None"
  "toml_get TFloat k = None" "toml_get (TBoolean b) k = None" "toml_get TDatetime k = None"
  by (simp_all add: toml_get_def)

lemma as_str_eq_Some [simp]: "as_str v = Some s \<longleftrightarrow> v = TString s"
  by (cases v) (auto simp: as_str_def)

lemma as_table_eq_Some [simp]: "as_table v = Some t \<longleftrightarrow> v = TTable t"
  by (cases v) (auto simp: as_table_def)

lemma as_integer_eq_Some [simp]: "as_integer v = Some i \<longleftrightarrow> v = TInteger i"
  by (cases v) (auto simp: as_integer_def)

lemma as_table_TTable [simp]: "as_table (TTable t) = Some t" "as_str (TString s) = Some s"
  "as_integer (TInteger i) = Some i" "as_bool (TBoolean b) = Some b"
  by (simp_all add: as_table_def as_str_def as_integer_def as_bool_def)

lemma toml_path_append: "toml_path v (p @ q) = Option.bind (toml_path v p) (\<lambda>w. toml_path w q)"
  by (induction p arbitrary: v) (auto split: option.splits)

lemma required_address_iff:
  "required_address_in_value E v path = Inr a
    \<longleftrightarrow> (\<exists>raw. toml_path v path = Some (TString raw) \<and> address_from_str E raw = Some a)"
  by (auto simp: required_address_in_value_def)

section \<open>CTM sections\<close>

lemma ctm_flavor_parse_label [simp]: "ctm_flavor_parse (ctm_flavor_label f) = Inr f"
  by (cases f) (simp_all add: ctm_flavor_parse_def)

lemma ctm_flavor_parse_iff: "ctm_flavor_parse s = Inr f \<longleftrightarrow> s = ctm_flavor_label f"
  by (cases f) (auto simp: ctm_flavor_parse_def split: if_splits)

interpretation flavor_codec: codec ctm_flavor_label
  "\<lambda>s. case ctm_flavor_parse s of Inl _ \<Rightarrow> None | Inr f \<Rightarrow> Some f" "\<lambda>_. True"
  by unfold_locales simp

lemma ctm_flavor_label_inject [simp]: "ctm_flavor_label f = ctm_flavor_label g \<longleftrightarrow> f = g"
  by (rule flavor_codec.enc_inject) simp_all

text \<open>Flavors are ordered as their labels sort.\<close>

instantiation ctm_flavor :: linorder
begin

definition less_eq_ctm_flavor :: "ctm_flavor \<Rightarrow> ctm_flavor \<Rightarrow> bool" where
  "less_eq_ctm_flavor f g \<longleftrightarrow> ctm_flavor_label f \<le> ctm_flavor_label g"

definition less_ctm_flavor :: "ctm_flavor \<Rightarrow> ctm_flavor \<Rightarrow> bool" where
  "less_ctm_flavor f g \<longleftrightarrow> ctm_flavor_label f < ctm_flavor_label g"

instance
proof
  fix f g h :: ctm_flavor
  show "f < g \<longleftrightarrow> f \<le> g \<and> \<not> g \<le> f"
    unfolding less_eq_ctm_flavor_def less_ctm_flavor_def by (rule less_le_not_le)
  show "f \<le> f" "f \<le> g \<or> g \<le> f"
    by (auto simp: less_eq_ctm_flavor_def)
  show "f \<le> g \<Longrightarrow> g \<le> h \<Longrightarrow> f \<le> h"
    unfolding less_eq_ctm_flavor_def by (rule order_trans)
  show "f \<le> g \<Longrightarrow> g \<le> f \<Longrightarrow> f = g"
    by (simp add: less_eq_ctm_flavor_def)
qed

end

lemma era_first: "Era < ZksyncOs"
  by (simp add: less_ctm_flavor_def less_char_def)

lemma parse_ctm_flavor: "parse_ctm t key = Inr c \<Longrightarrow> key = ctm_flavor_label (flavor c)"
  by (auto simp: parse_ctm_def ctm_flavor_parse_iff)

lemma parse_ctms_labels:
  assumes "map_res (parse_ctm t) keys = Inr cs"
  shows "map (\<lambda>c. ctm_flavor_label (flavor c)) cs = keys"
  using assms unfolding map_res_eq_Inr
  by (induction rule: list_all2_induct) (auto dest: parse_ctm_flavor)

section \<open>Acceptance\<close>

lemma table_remove_fst [simp]: "fst (table_remove k t) = map_of t k"
  by (simp add: table_remove_def)

lemma map_of_table_remove [simp]:
  "map_of (snd (table_remove k t)) k' = (if k' = k then None else map_of t k')"
  by (induction t) (auto simp: table_remove_def)

text \<open>Which documents are accepted, section by section, read in the original document.\<close>

lemma artifact_from_table_iff:
  "artifact_from_table E root = Inr a \<longleftrightarrow>
    (\<exists>gcv calls core_table t cs gw zk misc_table.
       map_of root ''governance_calls'' = Some gcv \<and> governance_calls_try_from gcv = Some calls \<and>
       map_of root ''core'' = Some (TTable core_table) \<and>
       map_of root ''ctms'' = Some (TTable t) \<and> t \<noteq> [] \<and>
       map_res (parse_ctm t) (sort (map fst t)) = Inr cs \<and>
       optional_section (parse_new_gateway E) (map_of root ''new_gateway'') = Inr gw \<and>
       optional_section (parse_zk_governance E) (map_of root ''zk_governance'') = Inr zk \<and>
       (case map_of root ''misc'' of Some v \<Rightarrow> expect_table v | None \<Rightarrow> Inr []) = Inr misc_table \<and>
       a = \<lparr>core = TTable core_table, artifact_governance_calls = calls, ctms = cs,
         new_gateway = gw, zk_governance = zk, misc = TTable misc_table\<rparr>)"
  by (simp add: artifact_from_table_def Let_def case_prod_unfold expect_table_def) blast

lemma artifact_from_table_ctms:
  assumes "artifact_from_table E root = Inr a"
  obtains t where "map_of root ''ctms'' = Some (TTable t)" "t \<noteq> []"
    "map_res (parse_ctm t) (sort (map fst t)) = Inr (ctms a)"
  using assms by (auto simp: artifact_from_table_iff)

lemma artifact_flavors_sorted:
  assumes "artifact_from_table E root = Inr a"
  shows "sorted (map flavor (ctms a))" "ctms a \<noteq> []"
proof -
  obtain t where t: "map_of root ''ctms'' = Some (TTable t)" "t \<noteq> []"
    "map_res (parse_ctm t) (sort (map fst t)) = Inr (ctms a)"
    using assms by (rule artifact_from_table_ctms)
  note labels = parse_ctms_labels [OF t(3)]
  then have "sorted (map ctm_flavor_label (map flavor (ctms a)))"
    by (simp add: comp_def)
  then show "sorted (map flavor (ctms a))"
    by (simp add: sorted_map less_eq_ctm_flavor_def)
  show "ctms a \<noteq> []"
    using labels t(2) by (metis length_map length_sort list.size(3) length_0_conv)
qed

lemma distinct_flavor_list:
  "distinct fs \<Longrightarrow> sorted fs \<Longrightarrow> fs \<noteq> [] \<Longrightarrow> fs \<in> {[Era], [ZksyncOs], [Era, ZksyncOs]}"
proof -
  assume d: "distinct fs" and s: "sorted fs" and ne: "fs \<noteq> []"
  have "\<not> ZksyncOs \<le> Era"
    using era_first by simp
  moreover have "f = Era \<or> f = ZksyncOs" for f
    by (cases f) simp_all
  ultimately show ?thesis
    using d s ne by (cases fs; cases "tl fs"; cases "tl (tl fs)") (auto, metis+)
qed

section \<open>What a document says\<close>

text \<open>
  What a document says, read off its entries and independently of the parsers: a spec predicate per
  section, relating the TOML value to the record it stands for.
\<close>

definition has_entry :: "toml \<Rightarrow> string \<Rightarrow> toml \<Rightarrow> bool" where
  "has_entry v k x \<longleftrightarrow> (\<exists>t. v = TTable t \<and> map_of t k = Some x)"

definition has_u64 :: "toml \<Rightarrow> string \<Rightarrow> u64 \<Rightarrow> bool" where
  "has_u64 v k n \<longleftrightarrow> (\<exists>i \<ge> 0. has_entry v k (TInteger i) \<and> n = of_int i)"

definition has_address :: "ext \<Rightarrow> toml \<Rightarrow> string \<Rightarrow> address \<Rightarrow> bool" where
  "has_address E v k a \<longleftrightarrow> (\<exists>raw. has_entry v k (TString raw) \<and> address_from_str E raw = Some a)"

text \<open>An address of the Gateway section may be checksummed; only otherwise it is read as plain hex.\<close>

definition has_gateway_address :: "ext \<Rightarrow> toml \<Rightarrow> string \<Rightarrow> address \<Rightarrow> bool" where
  "has_gateway_address E v k a \<longleftrightarrow> (\<exists>raw. has_entry v k (TString raw)
     \<and> (address_parse_checksummed E raw = Some a
        \<or> address_parse_checksummed E raw = None \<and> address_from_str E raw = Some a))"

definition describes_calls :: "toml \<Rightarrow> governance_calls \<Rightarrow> bool" where
  "describes_calls v g \<longleftrightarrow> has_entry v ''stage0_calls'' (TString (stage0_calls g))
     \<and> has_entry v ''stage1_calls'' (TString (stage1_calls g))
     \<and> has_entry v ''stage2_calls'' (TString (stage2_calls g))"

definition describes_config :: "toml \<Rightarrow> contracts_config \<Rightarrow> bool" where
  "describes_config v c \<longleftrightarrow> has_entry v ''diamond_cut_data'' (TString (diamond_cut_data c))
     \<and> has_entry v ''force_deployments_data'' (TString (force_deployments_data c))
     \<and> has_u64 v ''new_protocol_version'' (new_protocol_version c)
     \<and> has_u64 v ''old_protocol_version'' (old_protocol_version c)
     \<and> has_u64 v ''governance_upgrade_timer_initial_delay'' (governance_upgrade_timer_initial_delay c)
     \<and> has_entry v ''is_testnet'' (TBoolean (is_testnet c))"

definition section_name :: "ctm_flavor \<Rightarrow> string" where
  "section_name f = (case f of Era \<Rightarrow> ''era'' | ZksyncOs \<Rightarrow> ''zksync_os'')"

definition describes_ctm :: "table \<Rightarrow> ctm_artifact \<Rightarrow> bool" where
  "describes_ctm t c \<longleftrightarrow> map_of t (section_name (flavor c)) = Some (ctm_value c)
     \<and> has_entry (ctm_value c) ''chain_upgrade_diamond_cut'' (TString (chain_upgrade_diamond_cut c))
     \<and> (\<exists>cc. has_entry (ctm_value c) ''contracts_config'' cc \<and> describes_config cc (ctm_contracts_config c))"

definition describes_gateway :: "ext \<Rightarrow> toml \<Rightarrow> new_gateway_artifact \<Rightarrow> bool" where
  "describes_gateway E v g \<longleftrightarrow> new_gateway_value g = v
     \<and> (\<exists>gst. has_entry v ''gateway_state_transition'' (TTable gst)
          \<and> has_gateway_address E (TTable gst) ''chain_type_manager_proxy_addr'' (gateway_chain_type_manager_addr g)
          \<and> (\<forall>a. gateway_rollup_da_manager_addr g = Some a
               \<longleftrightarrow> a \<noteq> 0 \<and> has_gateway_address E (TTable gst) ''rollup_da_manager_addr'' a)
          \<and> (\<forall>a. gateway_server_notifier_addr g = Some a
               \<longleftrightarrow> a \<noteq> 0 \<and> has_gateway_address E (TTable gst) ''server_notifier_proxy_addr'' a))"

definition describes_zk_governance :: "ext \<Rightarrow> toml \<Rightarrow> zk_governance_artifact \<Rightarrow> bool" where
  "describes_zk_governance E v z \<longleftrightarrow> has_address E v ''new_puh_impl'' (new_puh_impl z)
     \<and> has_address E v ''new_guardians'' (new_guardians z)
     \<and> has_address E v ''new_security_council'' (new_security_council z)
     \<and> has_address E v ''new_emergency_upgrade_board'' (new_emergency_upgrade_board z)"

text \<open>A section that may be absent.\<close>

definition describes_optional :: "(toml \<Rightarrow> 'a \<Rightarrow> bool) \<Rightarrow> toml option \<Rightarrow> 'a option \<Rightarrow> bool" where
  "describes_optional D v r \<longleftrightarrow> (case (v, r) of (None, None) \<Rightarrow> True | (Some x, Some a) \<Rightarrow> D x a | _ \<Rightarrow> False)"

definition describes_artifact :: "ext \<Rightarrow> table \<Rightarrow> ecosystem_upgrade_artifact \<Rightarrow> bool" where
  "describes_artifact E root a \<longleftrightarrow>
     (\<exists>g. map_of root ''governance_calls'' = Some g \<and> describes_calls g (artifact_governance_calls a))
     \<and> map_of root ''core'' = Some (core a) \<and> (\<exists>t. core a = TTable t)
     \<and> (\<exists>t. map_of root ''ctms'' = Some (TTable t) \<and> t \<noteq> []
          \<and> map (section_name \<circ> flavor) (ctms a) = sort (map fst t)
          \<and> (\<forall>c \<in> set (ctms a). describes_ctm t c))
     \<and> describes_optional (describes_gateway E) (map_of root ''new_gateway'') (new_gateway a)
     \<and> describes_optional (describes_zk_governance E) (map_of root ''zk_governance'') (zk_governance a)
     \<and> (case map_of root ''misc'' of None \<Rightarrow> misc a = TTable [] | Some v \<Rightarrow> misc a = v \<and> (\<exists>t. v = TTable t))"

lemma as_bool_eq_Some: "as_bool v = Some b \<longleftrightarrow> v = TBoolean b"
  by (cases v) (auto simp: as_bool_def)

lemma toml_get_entry: "toml_get v k = Some x \<longleftrightarrow> has_entry v k x"
  by (cases v) (simp_all add: has_entry_def)

lemma field_entries:
  "string_field v k = Some s \<longleftrightarrow> has_entry v k (TString s)"
  "u64_field v k = Some n \<longleftrightarrow> has_u64 v k n"
  "bool_field v k = Some b \<longleftrightarrow> has_entry v k (TBoolean b)"
proof -
  show "string_field v k = Some s \<longleftrightarrow> has_entry v k (TString s)"
    "bool_field v k = Some b \<longleftrightarrow> has_entry v k (TBoolean b)"
    by (auto simp: string_field_def bool_field_def as_bool_eq_Some toml_get_entry bind_eq_Some_conv)
  show "u64_field v k = Some n \<longleftrightarrow> has_u64 v k n"
    unfolding u64_field_def has_u64_def toml_get_entry [symmetric]
    by (cases "toml_get v k"; cases "the (toml_get v k)") (auto simp: as_integer_def)
qed

lemma calls_read: "governance_calls_try_from v = Some g \<longleftrightarrow> describes_calls v g"
  by (cases g) (auto simp: governance_calls_try_from_def describes_calls_def bind_eq_Some_conv field_entries)

lemma config_read: "contracts_config_try_from v = Some c \<longleftrightarrow> describes_config v c"
  by (cases c) (auto simp: contracts_config_try_from_def describes_config_def bind_eq_Some_conv field_entries)

lemma section_name_label: "ctm_flavor_label f = section_name f"
  by (cases f) (simp_all add: section_name_def)

lemma ctm_read: "parse_ctm t key = Inr c \<longleftrightarrow> key = section_name (flavor c) \<and> describes_ctm t c"
proof -
  have "parse_ctm t key = Inr c \<longleftrightarrow> key = section_name (flavor c) \<and> map_of t key = Some (ctm_value c)
    \<and> (\<exists>tb. ctm_value c = TTable tb)
    \<and> string_field (ctm_value c) ''chain_upgrade_diamond_cut'' = Some (chain_upgrade_diamond_cut c)
    \<and> (\<exists>cc. toml_get (ctm_value c) ''contracts_config'' = Some cc
         \<and> contracts_config_try_from cc = Some (ctm_contracts_config c))"
    by (cases c) (auto simp: parse_ctm_def expect_table_def ctm_flavor_parse_iff section_name_label)
  then show ?thesis
    by (auto simp: describes_ctm_def field_entries toml_get_entry config_read) (auto simp: has_entry_def)
qed

lemma ctms_read:
  "map_res (parse_ctm t) keys = Inr cs \<longleftrightarrow> map (section_name \<circ> flavor) cs = keys \<and> (\<forall>c \<in> set cs. describes_ctm t c)"
  unfolding map_res_eq_Inr
proof (induction keys arbitrary: cs)
  case (Cons k keys)
  then show ?case
    by (cases cs) (auto simp: ctm_read)
qed auto

lemma checksummed_first:
  "(case address_parse_checksummed E raw of Some b \<Rightarrow> Some b | None \<Rightarrow> address_from_str E raw) = Some a
    \<longleftrightarrow> address_parse_checksummed E raw = Some a
       \<or> address_parse_checksummed E raw = None \<and> address_from_str E raw = Some a"
  by (cases "address_parse_checksummed E raw") auto

lemma gateway_address_read: "parse_required E v k = Inr a \<longleftrightarrow> has_gateway_address E v k a"
proof -
  have "parse_required E v k = Inr a \<longleftrightarrow> (\<exists>raw. string_field v k = Some raw
    \<and> (case address_parse_checksummed E raw of Some b \<Rightarrow> Some b | None \<Rightarrow> address_from_str E raw) = Some a)"
    unfolding parse_required_def by (cases "string_field v k") (auto split: option.splits)
  then show ?thesis
    by (simp add: has_gateway_address_def checksummed_first field_entries)
qed

lemma gateway_optional_read:
  "r = parse_optional E v k \<longleftrightarrow> (\<forall>a. r = Some a \<longleftrightarrow> a \<noteq> 0 \<and> has_gateway_address E v k a)"
proof -
  have "parse_optional E v k = Some a \<longleftrightarrow> (\<exists>raw. string_field v k = Some raw
    \<and> (case address_parse_checksummed E raw of Some b \<Rightarrow> Some b | None \<Rightarrow> address_from_str E raw) = Some a) \<and> a \<noteq> 0" for a
    unfolding parse_optional_def by (cases "string_field v k") (auto simp: bind_eq_Some_conv)
  then have "parse_optional E v k = Some a \<longleftrightarrow> a \<noteq> 0 \<and> has_gateway_address E v k a" for a
    unfolding has_gateway_address_def checksummed_first field_entries by blast
  moreover have "r = parse_optional E v k \<longleftrightarrow> (\<forall>a. r = Some a \<longleftrightarrow> parse_optional E v k = Some a)"
    by (cases r; cases "parse_optional E v k") auto
  ultimately show ?thesis by simp
qed

lemma gateway_read: "parse_new_gateway E v = Inr g \<longleftrightarrow> describes_gateway E v g"
proof -
  have "parse_new_gateway E v = Inr g \<longleftrightarrow> (\<exists>table gst. v = TTable table
    \<and> map_of table ''gateway_state_transition'' = Some (TTable gst)
    \<and> parse_required E (TTable gst) ''chain_type_manager_proxy_addr'' = Inr (gateway_chain_type_manager_addr g)
    \<and> gateway_rollup_da_manager_addr g = parse_optional E (TTable gst) ''rollup_da_manager_addr''
    \<and> gateway_server_notifier_addr g = parse_optional E (TTable gst) ''server_notifier_proxy_addr''
    \<and> new_gateway_value g = v)"
    by (cases g) (auto simp: parse_new_gateway_def expect_table_def bind_eq_Some_conv)
  then show ?thesis
    unfolding gateway_optional_read describes_gateway_def has_entry_def gateway_address_read by blast
qed

lemma zk_governance_read: "parse_zk_governance E v = Inr z \<longleftrightarrow> describes_zk_governance E v z"
proof -
  have one: "required_address_in_value E (TTable t) [k] = Inr a \<longleftrightarrow> has_address E (TTable t) k a" for t k a
    by (auto simp: required_address_iff has_address_def has_entry_def split: option.splits)
  have "parse_zk_governance E v = Inr z \<longleftrightarrow> (\<exists>t. v = TTable t \<and> describes_zk_governance E (TTable t) z)"
    unfolding describes_zk_governance_def one [symmetric]
    by (cases z) (auto simp: parse_zk_governance_def expect_table_def)
  then show ?thesis
    by (auto simp: describes_zk_governance_def has_address_def has_entry_def)
qed

lemma section_read:
  assumes "\<And>x a. f x = Inr a \<longleftrightarrow> D x a"
  shows "optional_section f v = Inr r \<longleftrightarrow> describes_optional D v r"
  by (cases v; cases r) (auto simp: optional_section_def describes_optional_def assms)

lemma artifact_read: "artifact_from_table E root = Inr a \<longleftrightarrow> describes_artifact E root a"
  unfolding artifact_from_table_iff describes_artifact_def calls_read ctms_read
    section_read [of "parse_new_gateway E", OF gateway_read]
    section_read [of "parse_zk_governance E", OF zk_governance_read]
  by (cases a) (auto simp: expect_table_def split: option.splits)

end
