(* ===== verification/Artifact_Shape.thy ===== *)
theory Artifact_Shape
  imports Artifacts
begin

section \<open>The shape check of an artifact\<close>

text \<open>
  \<^verbatim>\<open>upgrade_verification/hex.rs\<close> and \<^verbatim>\<open>artifact_shape.rs\<close>: the offline check that every
  field of the artifact that must be hex, an address or an integer is one. The check is a chain
  of fallible passes over the TOML tree; \<open>well_shaped\<close> states what it accepts without an order
  of evaluation, and the refinement lemma shows that the two agree.
\<close>

definition decode_required_hex :: "ext \<Rightarrow> string \<Rightarrow> bytes res" where
  "decode_required_hex E v =
     (let hex_value = strip_0x (trim v)
      in bind_res (ensure (hex_value \<noteq> []) (Bail ''must not be empty'')) (\<lambda>_.
         bind_res (ensure (even (length hex_value)) (Bail ''must contain an even number of hex characters'')) (\<lambda>_.
         ok_or (Bail ''is not valid hex'') (hex_decode E hex_value))))"

definition OPTIONAL_HEX_FIELDS :: "string list list" where
  "OPTIONAL_HEX_FIELDS = [[''contracts_config'', ''diamond_cut_data''],
     [''contracts_config'', ''force_deployments_data'']]"

definition ADDRESS_TABLES :: "string list" where
  "ADDRESS_TABLES = [''deployed_addresses'', ''upgrade_addresses'', ''state_transition'']"

definition PROTOCOL_VERSION_FIELDS :: "string list" where
  "PROTOCOL_VERSION_FIELDS = [''old_protocol_version'', ''new_protocol_version'']"

definition parse_address :: "ext \<Rightarrow> string \<Rightarrow> address res" where
  "parse_address E s = ok_or (Bail ''is not a valid address'') (address_from_str E s)"

definition looks_like_top_level_address_field :: "string \<Rightarrow> bool" where
  "looks_like_top_level_address_field field \<longleftrightarrow> ends_with ''_addr'' field \<or> ends_with ''_address'' field"

definition optional_nested_string_field :: "toml \<Rightarrow> string list \<Rightarrow> string option" where
  "optional_nested_string_field v path = Option.bind (toml_path v path) as_str"

definition validate_protocol_versions :: "toml \<Rightarrow> unit res" where
  "validate_protocol_versions v = for_res (\<lambda>field. case toml_get v field of None \<Rightarrow> Inr ()
     | Some version \<Rightarrow> bind_res (ok_or (Bail ''must be an integer'') (as_integer version)) (\<lambda>_. Inr ()))
     PROTOCOL_VERSION_FIELDS"

fun validate_address_table_fields :: "ext \<Rightarrow> toml \<Rightarrow> unit res"
  and validate_address_entries :: "ext \<Rightarrow> table \<Rightarrow> unit res" where
  "validate_address_table_fields E (TTable t) = validate_address_entries E t"
| "validate_address_table_fields E _ = Inl (Bail ''must be a table'')"
| "validate_address_entries E [] = Inr ()"
| "validate_address_entries E ((field, TString address) # es) =
     bind_res (parse_address E address) (\<lambda>_. validate_address_entries E es)"
| "validate_address_entries E ((field, TTable t) # es) =
     bind_res (validate_address_table_fields E (TTable t)) (\<lambda>_. validate_address_entries E es)"
| "validate_address_entries E (_ # es) = validate_address_entries E es"

definition validate_top_level_address_fields :: "ext \<Rightarrow> toml \<Rightarrow> unit res" where
  "validate_top_level_address_fields E v = (case as_table v of None \<Rightarrow> Inr ()
     | Some t \<Rightarrow> for_res (\<lambda>(field, field_value).
         if looks_like_top_level_address_field field
         then (case as_str field_value of None \<Rightarrow> Inl (Bail ''must be an address string'')
               | Some address \<Rightarrow> bind_res (parse_address E address) (\<lambda>_. Inr ()))
         else Inr ()) t)"

definition validate_address_fields :: "ext \<Rightarrow> toml \<Rightarrow> unit res" where
  "validate_address_fields E v =
     bind_res (validate_top_level_address_fields E v) (\<lambda>_.
     for_res (\<lambda>table_name. case toml_get v table_name of None \<Rightarrow> Inr ()
       | Some address_table \<Rightarrow> validate_address_table_fields E address_table) ADDRESS_TABLES)"

definition validate_optional_hex_fields :: "ext \<Rightarrow> toml \<Rightarrow> unit res" where
  "validate_optional_hex_fields E v = for_res (\<lambda>path.
     case optional_nested_string_field v path of None \<Rightarrow> Inr ()
     | Some hex_value \<Rightarrow> bind_res (decode_required_hex E hex_value) (\<lambda>_. Inr ())) OPTIONAL_HEX_FIELDS"

definition validate_ecosystem_table :: "toml \<Rightarrow> unit res" where
  "validate_ecosystem_table v =
     bind_res (ok_or (Bail ''ecosystem upgrade TOML must be a table'') (as_table v)) (\<lambda>_. Inr ())"

definition validate_governance_calls :: "ext \<Rightarrow> governance_calls \<Rightarrow> unit res" where
  "validate_governance_calls E calls =
     bind_res (decode_required_hex E (stage0_calls calls)) (\<lambda>_.
     bind_res (decode_required_hex E (stage1_calls calls)) (\<lambda>_.
     bind_res (decode_required_hex E (stage2_calls calls)) (\<lambda>_. Inr ())))"

definition validate_ctm_artifact :: "ext \<Rightarrow> ctm_artifact \<Rightarrow> unit res" where
  "validate_ctm_artifact E ctm =
     bind_res (decode_required_hex E (chain_upgrade_diamond_cut ctm)) (\<lambda>_.
     bind_res (validate_optional_hex_fields E (ctm_value ctm)) (\<lambda>_.
     bind_res (validate_address_fields E (ctm_value ctm)) (\<lambda>_.
     bind_res (validate_protocol_versions (ctm_value ctm)) (\<lambda>_.
     case toml_get (ctm_value ctm) ''contracts_config'' of None \<Rightarrow> Inr ()
     | Some cc \<Rightarrow> validate_protocol_versions cc))))"

definition validate_ecosystem_artifact :: "ext \<Rightarrow> ecosystem_upgrade_artifact \<Rightarrow> unit res" where
  "validate_ecosystem_artifact E a =
     bind_res (validate_ecosystem_table (core a)) (\<lambda>_.
     bind_res (validate_governance_calls E (artifact_governance_calls a)) (\<lambda>_.
     bind_res (validate_address_fields E (core a)) (\<lambda>_.
     bind_res (validate_protocol_versions (core a)) (\<lambda>_.
     for_res (validate_ctm_artifact E) (ctms a)))))"

definition verify_shape :: "ext \<Rightarrow> ecosystem_upgrade_artifact \<Rightarrow> unit res" where
  "verify_shape E a = bind_res (validate_ecosystem_artifact E a) (\<lambda>_. Inr ())"

section \<open>Specification\<close>

text \<open>The strings at the leaves of a table and of its nested tables.\<close>

inductive table_leaf :: "toml \<Rightarrow> string \<Rightarrow> bool" where
  here: "(k, TString s) \<in> set t \<Longrightarrow> table_leaf (TTable t) s"
| below: "(k, TTable u) \<in> set t \<Longrightarrow> table_leaf (TTable u) s \<Longrightarrow> table_leaf (TTable t) s"

inductive_cases table_leafE: "table_leaf (TTable t) s"
inductive_simps table_leaf_simps: "table_leaf (TTable t) s"

definition is_hex :: "ext \<Rightarrow> string \<Rightarrow> bool" where
  "is_hex E s \<longleftrightarrow> (let h = strip_0x (trim s) in h \<noteq> [] \<and> even (length h) \<and> hex_decode E h \<noteq> None)"

definition is_addr :: "ext \<Rightarrow> string \<Rightarrow> bool" where
  "is_addr E s \<longleftrightarrow> address_from_str E s \<noteq> None"

definition addresses_ok :: "ext \<Rightarrow> toml \<Rightarrow> bool" where
  "addresses_ok E v \<longleftrightarrow>
     (\<forall>t. v = TTable t \<longrightarrow> (\<forall>(k, w) \<in> set t. looks_like_top_level_address_field k
        \<longrightarrow> (\<exists>s. w = TString s \<and> is_addr E s)))
   \<and> (\<forall>n \<in> set ADDRESS_TABLES. \<forall>w. toml_get v n = Some w
        \<longrightarrow> (\<exists>t. w = TTable t) \<and> (\<forall>s. table_leaf w s \<longrightarrow> is_addr E s))"

definition versions_ok :: "toml \<Rightarrow> bool" where
  "versions_ok v \<longleftrightarrow> (\<forall>f \<in> set PROTOCOL_VERSION_FIELDS. \<forall>w. toml_get v f = Some w \<longrightarrow> (\<exists>i. w = TInteger i))"

definition ctm_ok :: "ext \<Rightarrow> ctm_artifact \<Rightarrow> bool" where
  "ctm_ok E c \<longleftrightarrow> is_hex E (chain_upgrade_diamond_cut c)
   \<and> (\<forall>p \<in> set OPTIONAL_HEX_FIELDS. \<forall>s. toml_path (ctm_value c) p = Some (TString s) \<longrightarrow> is_hex E s)
   \<and> addresses_ok E (ctm_value c) \<and> versions_ok (ctm_value c)
   \<and> (\<forall>w. toml_get (ctm_value c) ''contracts_config'' = Some w \<longrightarrow> versions_ok w)"

definition well_shaped :: "ext \<Rightarrow> ecosystem_upgrade_artifact \<Rightarrow> bool" where
  "well_shaped E a \<longleftrightarrow> (\<exists>t. core a = TTable t)
   \<and> is_hex E (stage0_calls (artifact_governance_calls a))
   \<and> is_hex E (stage1_calls (artifact_governance_calls a))
   \<and> is_hex E (stage2_calls (artifact_governance_calls a))
   \<and> addresses_ok E (core a) \<and> versions_ok (core a) \<and> (\<forall>c \<in> set (ctms a). ctm_ok E c)"

section \<open>Refinement\<close>

lemma decode_required_hex_iff: "(\<exists>b. decode_required_hex E s = Inr b) \<longleftrightarrow> is_hex E s"
  by (auto simp: decode_required_hex_def is_hex_def Let_def)

lemma parse_address_iff: "(\<exists>a. parse_address E s = Inr a) \<longleftrightarrow> is_addr E s"
  by (auto simp: parse_address_def is_addr_def)

lemma unit_res_then: "bind_res x (\<lambda>_. Inr ()) = Inr () \<longleftrightarrow> (\<exists>a. x = Inr a)"
  by auto

lemmas shape_simps = decode_required_hex_iff parse_address_iff unit_res_then

lemma table_leaf_Cons:
  "table_leaf (TTable ((k, v) # es)) s
    \<longleftrightarrow> v = TString s \<or> (\<exists>u. v = TTable u \<and> table_leaf v s) \<or> table_leaf (TTable es) s"
  by (simp add: table_leaf_simps [of "(k, v) # es"] table_leaf_simps [of es]) blast

lemma table_leaf_Nil: "\<not> table_leaf (TTable []) s"
  by (auto elim: table_leafE)

lemma validate_address_table_iff:
  "(validate_address_table_fields E v = Inr () \<longleftrightarrow> (\<exists>t. v = TTable t) \<and> (\<forall>s. table_leaf v s \<longrightarrow> is_addr E s))"
  "(validate_address_entries E t = Inr () \<longleftrightarrow> (\<forall>s. table_leaf (TTable t) s \<longrightarrow> is_addr E s))"
  by (induction E v and E t rule: validate_address_table_fields_validate_address_entries.induct)
    (auto simp: table_leaf_Cons table_leaf_Nil is_addr_def parse_address_def)

lemma validate_address_fields_iff: "validate_address_fields E v = Inr () \<longleftrightarrow> addresses_ok E v"
proof -
  have "validate_top_level_address_fields E v = Inr () \<longleftrightarrow>
     (\<forall>t. v = TTable t \<longrightarrow> (\<forall>(k, w) \<in> set t. looks_like_top_level_address_field k
        \<longrightarrow> (\<exists>s. w = TString s \<and> is_addr E s)))"
    by (cases v)
      (auto simp: validate_top_level_address_fields_def as_table_def as_str_def is_addr_def parse_address_def
        split: if_splits toml.splits)
  moreover have "for_res (\<lambda>n. case toml_get v n of None \<Rightarrow> Inr ()
       | Some w \<Rightarrow> validate_address_table_fields E w) ADDRESS_TABLES = Inr () \<longleftrightarrow>
     (\<forall>n \<in> set ADDRESS_TABLES. \<forall>w. toml_get v n = Some w
        \<longrightarrow> (\<exists>t. w = TTable t) \<and> (\<forall>s. table_leaf w s \<longrightarrow> is_addr E s))"
    by (auto simp: validate_address_table_iff split: option.splits)
  ultimately show ?thesis
    by (auto simp: validate_address_fields_def addresses_ok_def)
qed

lemma validate_protocol_versions_iff: "validate_protocol_versions v = Inr () \<longleftrightarrow> versions_ok v"
  unfolding validate_protocol_versions_def versions_ok_def
  by (auto split: option.splits)

lemma validate_ctm_iff: "validate_ctm_artifact E c = Inr () \<longleftrightarrow> ctm_ok E c"
proof -
  have "validate_optional_hex_fields E (ctm_value c) = Inr () \<longleftrightarrow>
     (\<forall>p \<in> set OPTIONAL_HEX_FIELDS. \<forall>s. toml_path (ctm_value c) p = Some (TString s) \<longrightarrow> is_hex E s)"
    by (auto simp: validate_optional_hex_fields_def optional_nested_string_field_def
        decode_required_hex_iff [symmetric] bind_eq_Some_conv split: option.splits)
  then show ?thesis
    using decode_required_hex_iff [of E "chain_upgrade_diamond_cut c"]
    by (auto simp: validate_ctm_artifact_def ctm_ok_def validate_address_fields_iff
        validate_protocol_versions_iff split: option.splits)
qed

lemma verify_shape_iff: "verify_shape E a = Inr () \<longleftrightarrow> well_shaped E a"
  by (auto simp: verify_shape_def validate_ecosystem_artifact_def validate_ecosystem_table_def
      validate_governance_calls_def well_shaped_def validate_address_fields_iff
      validate_protocol_versions_iff validate_ctm_iff decode_required_hex_iff [symmetric])

end
