(* ===== verification/Address_Verifier.thy ===== *)
theory Address_Verifier
  imports Artifact_Shape
begin

section \<open>The address book\<close>

text \<open>
  \<^verbatim>\<open>v31/utils/address_verifier.rs\<close>: names for the addresses of the artifact, in both
  directions. \<open>name_book\<close> is what the verifiers rely on (what a lookup returns after an insert);
  the model's record is interpreted for it, and the construction from an artifact is shown to
  register every alias the checks ask for by name.
\<close>

record address_verifier =
  address_to_name :: "address \<Rightarrow> string option"
  name_to_address :: "string \<Rightarrow> address option"

definition V31_ADDRESS_TABLES :: "string list" where
  "V31_ADDRESS_TABLES = [''deployed_addresses'', ''upgrade_addresses'', ''state_transition'']"

definition V31_ADDRESS_ALIASES :: "(string list \<times> string) list" where
  "V31_ADDRESS_ALIASES =
     [([''upgrade_addresses'', ''shared'', ''transparent_proxy_admin''], ''transparent_proxy_admin''),
      ([''upgrade_addresses'', ''native_token_vault_addr''], ''native_token_vault''),
      ([''upgrade_addresses'', ''native_token_vault_implementation_addr''], ''native_token_vault_implementation_addr''),
      ([''upgrade_addresses'', ''bridgehub'', ''bridgehub_proxy_addr''], ''bridgehub_proxy''),
      ([''upgrade_addresses'', ''bridgehub'', ''bridgehub_implementation_addr''], ''bridgehub_implementation_addr''),
      ([''upgrade_addresses'', ''bridgehub'', ''l1_asset_tracker_proxy_addr''], ''asset_tracker_proxy''),
      ([''upgrade_addresses'', ''bridgehub'', ''l1_asset_tracker_implementation_addr''], ''l1_asset_tracker_implementation_addr''),
      ([''upgrade_addresses'', ''bridgehub'', ''chain_asset_handler_proxy_addr''], ''chain_asset_handler_proxy''),
      ([''upgrade_addresses'', ''bridgehub'', ''chain_asset_handler_implementation_addr''], ''chain_asset_handler_implementation_addr''),
      ([''upgrade_addresses'', ''bridgehub'', ''chain_registration_sender_proxy_addr''], ''chain_registration_sender_proxy''),
      ([''upgrade_addresses'', ''bridgehub'', ''chain_registration_sender_implementation_addr''], ''chain_registration_sender_implementation_addr''),
      ([''upgrade_addresses'', ''bridgehub'', ''ctm_deployment_tracker_proxy_addr''], ''ctm_deployment_tracker_proxy''),
      ([''upgrade_addresses'', ''bridgehub'', ''ctm_deployment_tracker_implementation_addr''], ''ctm_deployment_tracker_implementation_addr''),
      ([''upgrade_addresses'', ''bridgehub'', ''message_root_proxy_addr''], ''message_root_proxy''),
      ([''upgrade_addresses'', ''bridgehub'', ''message_root_implementation_addr''], ''message_root_implementation_addr''),
      ([''upgrade_addresses'', ''bridges'', ''l1_asset_router_proxy_addr''], ''l1_asset_router_proxy''),
      ([''upgrade_addresses'', ''bridges'', ''l1_asset_router_implementation_addr''], ''l1_asset_router_implementation_addr''),
      ([''upgrade_addresses'', ''bridges'', ''l1_nullifier_proxy_addr''], ''l1_nullifier_proxy''),
      ([''upgrade_addresses'', ''bridges'', ''l1_nullifier_implementation_addr''], ''l1_nullifier_implementation_addr'')]"

definition empty_book :: address_verifier where
  "empty_book = \<lparr>address_to_name = Map.empty, name_to_address = Map.empty\<rparr>"

definition add_address :: "address \<Rightarrow> string \<Rightarrow> address_verifier \<Rightarrow> address_verifier" where
  "add_address a name av = av\<lparr>name_to_address := (name_to_address av)(name \<mapsto> a),
     address_to_name := (address_to_name av)(a \<mapsto> name)\<rparr>"

definition reverse_lookup :: "address_verifier \<Rightarrow> address \<Rightarrow> string option" where
  "reverse_lookup av a = address_to_name av a"

definition get_by_name :: "address_verifier \<Rightarrow> string \<Rightarrow> address option" where
  "get_by_name av name = name_to_address av name"

text \<open>\<open>show_address\<close> is the \<^verbatim>\<open>Display\<close> of \<^verbatim>\<open>Address\<close>.\<close>

definition name_or_unknown :: "(address \<Rightarrow> string) \<Rightarrow> address_verifier \<Rightarrow> address \<Rightarrow> string" where
  "name_or_unknown show_address av a = (case address_to_name av a of Some name \<Rightarrow> name
     | None \<Rightarrow> ''Unknown '' @ show_address a)"

definition parse_alloy_address :: "ext \<Rightarrow> string \<Rightarrow> address res" where
  "parse_alloy_address E s = ok_or (Bail ''is not a valid address'') (address_from_hex E s)"

definition address_from_artifact :: "ext \<Rightarrow> ecosystem_upgrade_artifact \<Rightarrow> string list \<Rightarrow> address res" where
  "address_from_artifact E artifact path =
     bind_res (ok_or (Bail ''is required'') (optional_nested_string_field (core artifact) path))
       (parse_alloy_address E)"

fun add_addresses_from_value :: "ext \<Rightarrow> string \<Rightarrow> toml \<Rightarrow> address_verifier \<Rightarrow> address_verifier res"
  and add_addresses_from_entries :: "ext \<Rightarrow> string \<Rightarrow> table \<Rightarrow> address_verifier \<Rightarrow> address_verifier res" where
  "add_addresses_from_value E path (TTable t) av = add_addresses_from_entries E path t av"
| "add_addresses_from_value E path _ av = Inl (Bail ''must be a table'')"
| "add_addresses_from_entries E path [] av = Inr av"
| "add_addresses_from_entries E path ((field, TString address) # es) av =
     bind_res (parse_alloy_address E address) (\<lambda>parsed.
       add_addresses_from_entries E path es (add_address parsed (path @ ''.'' @ field) av))"
| "add_addresses_from_entries E path ((field, TTable t) # es) av =
     bind_res (add_addresses_from_value E (path @ ''.'' @ field) (TTable t) av)
       (add_addresses_from_entries E path es)"
| "add_addresses_from_entries E path (_ # es) av = add_addresses_from_entries E path es av"

definition add_addresses_from_tables ::
    "ext \<Rightarrow> string \<Rightarrow> toml \<Rightarrow> address_verifier \<Rightarrow> address_verifier res" where
  "add_addresses_from_tables E root_name v = fold_res (\<lambda>table_name av.
     case toml_get v table_name of None \<Rightarrow> Inr av
     | Some t \<Rightarrow> add_addresses_from_value E (root_name @ ''.'' @ table_name) t av) V31_ADDRESS_TABLES"

definition ctm_path :: "ctm_artifact \<Rightarrow> string" where
  "ctm_path ctm = ''ctms.'' @ ctm_flavor_label (flavor ctm)"

definition add_addresses_from_artifact ::
    "ext \<Rightarrow> ecosystem_upgrade_artifact \<Rightarrow> address_verifier \<Rightarrow> address_verifier res" where
  "add_addresses_from_artifact E artifact av =
     bind_res (add_addresses_from_tables E ''core'' (core artifact) av)
       (fold_res (\<lambda>ctm. add_addresses_from_tables E (ctm_path ctm) (ctm_value ctm)) (ctms artifact))"

definition add_v31_address_alias ::
    "ext \<Rightarrow> toml \<Rightarrow> string list \<times> string \<Rightarrow> address_verifier \<Rightarrow> address_verifier res" where
  "add_v31_address_alias E root = (\<lambda>(path, alias) av.
     bind_res (ok_or (Bail ''is required for alias'') (optional_nested_string_field root path)) (\<lambda>address.
     bind_res (parse_alloy_address E address) (\<lambda>a. Inr (add_address a alias av))))"

definition add_v31_address_aliases ::
    "ext \<Rightarrow> ecosystem_upgrade_artifact \<Rightarrow> address_verifier \<Rightarrow> address_verifier res" where
  "add_v31_address_aliases E artifact = fold_res (add_v31_address_alias E (core artifact)) V31_ADDRESS_ALIASES"

definition new_v31_from_artifact :: "ext \<Rightarrow> ecosystem_upgrade_artifact \<Rightarrow> address_verifier res" where
  "new_v31_from_artifact E artifact =
     bind_res (add_addresses_from_artifact E artifact (add_address 0 ''zero'' empty_book))
       (add_v31_address_aliases E artifact)"

section \<open>Interface: a book of names\<close>

locale name_book =
  fixes add :: "'a \<Rightarrow> 'n \<Rightarrow> 'b \<Rightarrow> 'b"
    and by_name :: "'b \<Rightarrow> 'n \<Rightarrow> 'a option"
    and by_addr :: "'b \<Rightarrow> 'a \<Rightarrow> 'n option"
  assumes by_name_add: "by_name (add a n b) m = (if m = n then Some a else by_name b m)"
    and by_addr_add: "by_addr (add a n b) x = (if x = a then Some n else by_addr b x)"
begin

definition add_all :: "('n \<times> 'a) list \<Rightarrow> 'b \<Rightarrow> 'b" where
  "add_all es = fold (\<lambda>(n, a). add a n) es"

lemma add_all_simps [simp]:
  "add_all [] b = b" "add_all ((n, a) # es) b = add_all es (add a n b)"
  "add_all (es @ fs) b = add_all fs (add_all es b)"
  by (simp_all add: add_all_def)

text \<open>The last entry of a name wins; names that are not entered keep their address.\<close>

lemma by_name_add_all: "by_name (add_all es b) m = (case map_of (rev es) m of Some a \<Rightarrow> Some a | None \<Rightarrow> by_name b m)"
proof (induction es rule: rev_induct)
  case (snoc e es)
  then show ?case by (cases e) (simp add: by_name_add)
qed simp

lemma by_addr_add_all:
  "by_addr (add_all es b) x
    = (case map_of (map (\<lambda>(n, a). (a, n)) (rev es)) x of Some n \<Rightarrow> Some n | None \<Rightarrow> by_addr b x)"
proof (induction es rule: rev_induct)
  case (snoc e es)
  then show ?case by (cases e) (simp add: by_addr_add)
qed simp

lemma by_name_mem: "distinct (map fst es) \<Longrightarrow> (n, a) \<in> set es \<Longrightarrow> by_name (add_all es b) n = Some a"
  by (simp add: by_name_add_all map_of_is_SomeI rev_map [symmetric])

lemma by_name_other: "n \<notin> fst ` set es \<Longrightarrow> by_name (add_all es b) n = by_name b n"
proof -
  assume "n \<notin> fst ` set es"
  then have "map_of (rev es) n = None"
    by (simp add: map_of_eq_None_iff)
  then show ?thesis by (simp add: by_name_add_all)
qed

text \<open>With distinct names the two directions agree on what was entered.\<close>

lemma by_addr_by_name:
  assumes "distinct (map fst es)" "by_addr b x = None" "by_addr (add_all es b) x = Some n"
  shows "by_name (add_all es b) n = Some x"
proof -
  have "map_of (map (\<lambda>(n, a). (a, n)) (rev es)) x = Some n"
    using assms(2,3) by (simp add: by_addr_add_all split: option.splits)
  then have "(n, x) \<in> set es"
    by (auto dest: map_of_SomeD)
  then show ?thesis
    using assms(1) by (rule by_name_mem [rotated])
qed

end

interpretation book: name_book add_address get_by_name reverse_lookup
  by unfold_locales (simp_all add: add_address_def get_by_name_def reverse_lookup_def)

section \<open>What is entered from a table\<close>

text \<open>The named string leaves of a table in the order the walk meets them.\<close>

fun named_leaves :: "string \<Rightarrow> toml \<Rightarrow> (string \<times> string) list"
  and named_entries :: "string \<Rightarrow> table \<Rightarrow> (string \<times> string) list" where
  "named_leaves path (TTable t) = named_entries path t"
| "named_leaves path _ = []"
| "named_entries path [] = []"
| "named_entries path ((field, TString s) # es) = (path @ ''.'' @ field, s) # named_entries path es"
| "named_entries path ((field, TTable t) # es) =
     named_leaves (path @ ''.'' @ field) (TTable t) @ named_entries path es"
| "named_entries path (_ # es) = named_entries path es"

definition parse_leaves :: "ext \<Rightarrow> (string \<times> string) list \<Rightarrow> (string \<times> address) list res" where
  "parse_leaves E = map_res (\<lambda>(n, s). bind_res (parse_alloy_address E s) (\<lambda>a. Inr (n, a)))"

lemma parse_leaves_simps [simp]:
  "parse_leaves E [] = Inr []"
  "parse_leaves E ((n, s) # ls) = bind_res (parse_alloy_address E s) (\<lambda>a.
     bind_res (parse_leaves E ls) (\<lambda>es. Inr ((n, a) # es)))"
  "parse_leaves E (ls @ ms) = bind_res (parse_leaves E ls) (\<lambda>es.
     bind_res (parse_leaves E ms) (\<lambda>fs. Inr (es @ fs)))"
  by (simp_all add: parse_leaves_def map_res_append bind_res_assoc)

text \<open>The walk fails at the first leaf that is not an address, and otherwise enters all leaves.\<close>

lemma add_from_value_leaves:
  "add_addresses_from_value E path v av = (if (\<exists>t. v = TTable t)
     then bind_res (parse_leaves E (named_leaves path v)) (\<lambda>es. Inr (book.add_all es av))
     else Inl (Bail ''must be a table''))"
  "add_addresses_from_entries E path t av =
     bind_res (parse_leaves E (named_entries path t)) (\<lambda>es. Inr (book.add_all es av))"
  by (induction E path v av and E path t av
      rule: add_addresses_from_value_add_addresses_from_entries.induct)
    (simp_all add: bind_res_assoc)

lemma named_leaves_prefix:
  "n \<in> fst ` set (named_leaves path v) \<Longrightarrow> starts_with (path @ ''.'') n"
  "n \<in> fst ` set (named_entries path t) \<Longrightarrow> starts_with (path @ ''.'') n"
  by (induction path v and path t rule: named_leaves_named_entries.induct)
    (auto simp: starts_with_iff)

lemma map_fst_parse_leaves: "parse_leaves E ls = Inr es \<Longrightarrow> map fst es = map fst ls"
  by (induction ls arbitrary: es) auto

section \<open>Names survive the construction\<close>

lemma tables_keep_name:
  assumes "add_addresses_from_tables E root v av = Inr av'" "\<not> starts_with (root @ ''.'') n"
  shows "get_by_name av' n = get_by_name av n"
proof -
  have step: "get_by_name bv' n = get_by_name bv n"
    if run: "add_addresses_from_value E (root @ ''.'' @ tn) t bv = Inr bv'" for tn t bv bv'
  proof -
    obtain es where es: "parse_leaves E (named_leaves (root @ ''.'' @ tn) t) = Inr es"
      "bv' = book.add_all es bv"
      using run by (auto simp: add_from_value_leaves split: if_splits)
    have "n \<notin> fst ` set (named_leaves (root @ ''.'' @ tn) t)"
      using assms(2) named_leaves_prefix(1) [of n "root @ ''.'' @ tn" t] by (auto simp: starts_with_iff)
    then have "n \<notin> fst ` set es"
      using map_fst_parse_leaves [OF es(1)] by (metis list.set_map)
    then show ?thesis
      by (simp add: es(2) book.by_name_other)
  qed
  have "fold_res (\<lambda>tn av. case toml_get v tn of None \<Rightarrow> Inr av
      | Some t \<Rightarrow> add_addresses_from_value E (root @ ''.'' @ tn) t av) tns bv = Inr bv'
      \<Longrightarrow> get_by_name bv' n = get_by_name bv n" for tns bv bv'
    by (induction tns arbitrary: bv) (auto split: option.splits dest!: step [simplified])
  then show ?thesis
    using assms(1) by (simp add: add_addresses_from_tables_def)
qed

lemma artifact_keeps_name:
  assumes "add_addresses_from_artifact E artifact av = Inr av'"
    and "\<not> starts_with ''core.'' n" "\<not> starts_with ''ctms.'' n"
  shows "get_by_name av' n = get_by_name av n"
proof -
  have ctm: "\<not> starts_with (ctm_path c @ ''.'') n" for c
    using assms(3) by (auto simp: starts_with_iff ctm_path_def)
  have loop: "fold_res (\<lambda>ctm. add_addresses_from_tables E (ctm_path ctm) (ctm_value ctm)) cs bv = Inr bv'
      \<Longrightarrow> get_by_name bv' n = get_by_name bv n" for cs bv bv'
    by (induction cs arbitrary: bv) (auto dest!: tables_keep_name [OF _ ctm])
  from assms(1) obtain bv where "add_addresses_from_tables E ''core'' (core artifact) av = Inr bv"
    and rest: "get_by_name av' n = get_by_name bv n"
    by (auto simp: add_addresses_from_artifact_def dest!: loop)
  then show ?thesis
    using tables_keep_name [of E "''core''" "core artifact" av bv n] assms(2) by simp
qed

text \<open>The aliases are entered last and have distinct names.\<close>

definition alias_entry :: "ext \<Rightarrow> toml \<Rightarrow> string list \<times> string \<Rightarrow> string \<times> address \<Rightarrow> bool" where
  "alias_entry E root pa e \<longleftrightarrow> fst e = snd pa
     \<and> (\<exists>raw. toml_path root (fst pa) = Some (TString raw) \<and> address_from_hex E raw = Some (snd e))"

lemma add_alias_iff:
  "add_v31_address_alias E root pa av = Inr av'
    \<longleftrightarrow> (\<exists>e. alias_entry E root pa e \<and> av' = book.add_all [e] av)"
  by (cases pa) (auto simp: add_v31_address_alias_def alias_entry_def optional_nested_string_field_def
      parse_alloy_address_def bind_eq_Some_conv)

lemma add_aliases_loop:
  "fold_res (add_v31_address_alias E root) pas av = Inr av'
    \<longleftrightarrow> (\<exists>es. list_all2 (alias_entry E root) pas es \<and> av' = book.add_all es av)"
proof (induction pas arbitrary: av)
  case (Cons pa pas)
  have "(\<exists>es. list_all2 (alias_entry E root) (pa # pas) es \<and> av' = book.add_all es av)
    \<longleftrightarrow> (\<exists>e es. alias_entry E root pa e \<and> list_all2 (alias_entry E root) pas es
        \<and> av' = book.add_all ([e] @ es) av)"
    by (simp only: list_all2_Cons1 append.simps) blast
  then show ?case
    by (simp only: fold_res.simps bind_res_eq_Inr add_alias_iff Cons book.add_all_simps(3)) blast
qed auto

lemma alias_names_distinct: "distinct (map snd V31_ADDRESS_ALIASES)"
  by (simp add: V31_ADDRESS_ALIASES_def)

lemma alias_entries_names:
  assumes "list_all2 (alias_entry E root) pas es"
  shows "map fst es = map snd pas"
  using assms by (induction rule: list_all2_induct) (auto simp: alias_entry_def)

lemma zero_not_alias: "''zero'' \<notin> snd ` set V31_ADDRESS_ALIASES"
  by (simp add: V31_ADDRESS_ALIASES_def)

lemma new_v31_aliases:
  assumes "new_v31_from_artifact E artifact = Inr av" "(path, alias) \<in> set V31_ADDRESS_ALIASES"
  shows "\<exists>raw a. toml_path (core artifact) path = Some (TString raw)
    \<and> address_from_hex E raw = Some a \<and> get_by_name av alias = Some a"
proof -
  from assms(1) obtain bv es where es: "list_all2 (alias_entry E (core artifact)) V31_ADDRESS_ALIASES es"
    "av = book.add_all es bv"
    by (auto simp: new_v31_from_artifact_def add_v31_address_aliases_def add_aliases_loop)
  have names: "map fst es = map snd V31_ADDRESS_ALIASES"
    by (rule alias_entries_names [OF es(1)])
  obtain e where e: "e \<in> set es" "alias_entry E (core artifact) (path, alias) e"
    using es(1) assms(2) by (metis in_set_conv_nth list_all2_conv_all_nth)
  have "get_by_name av alias = Some (snd e)"
    using e names alias_names_distinct unfolding es(2)
    by (intro book.by_name_mem) (auto simp: alias_entry_def)
  with e(2) show ?thesis
    by (auto simp: alias_entry_def)
qed

lemma new_v31_zero:
  assumes "new_v31_from_artifact E artifact = Inr av"
  shows "get_by_name av ''zero'' = Some 0"
proof -
  from assms obtain bv es where bv: "add_addresses_from_artifact E artifact (add_address 0 ''zero'' empty_book) = Inr bv"
    and es: "list_all2 (alias_entry E (core artifact)) V31_ADDRESS_ALIASES es" "av = book.add_all es bv"
    by (auto simp: new_v31_from_artifact_def add_v31_address_aliases_def add_aliases_loop)
  have "map fst es = map snd V31_ADDRESS_ALIASES"
    by (rule alias_entries_names [OF es(1)])
  then have "''zero'' \<notin> fst ` set es"
    using zero_not_alias by (metis list.set_map)
  then have "get_by_name av ''zero'' = get_by_name bv ''zero''"
    by (simp add: es(2) book.by_name_other)
  also have "\<dots> = Some 0"
    using artifact_keeps_name [OF bv] by (simp add: book.by_name_add)
  finally show ?thesis .
qed

end
