(* ===== verification/Verifiers.thy ===== *)
theory Verifiers
  imports Fee_Params Address_Verifier
begin

section \<open>The verifier context\<close>

text \<open>
  \<^verbatim>\<open>upgrade_verification/verifiers.rs\<close>: the record every check reads, its construction from
  the artifact and the chains, and the checks on single addresses and hashes that the elements
  are built from. Each check is characterised by when it leaves no error in the report.
\<close>

datatype verify_upgrade_env = Stage | Testnet | Mainnet

fun env_as_str :: "verify_upgrade_env \<Rightarrow> string" where
  "env_as_str Stage = ''stage''"
| "env_as_str Testnet = ''testnet''"
| "env_as_str Mainnet = ''mainnet''"

definition is_mainnet :: "verify_upgrade_env \<Rightarrow> bool" where
  "is_mainnet env \<longleftrightarrow> env = Mainnet"

definition is_stage :: "verify_upgrade_env \<Rightarrow> bool" where
  "is_stage env \<longleftrightarrow> env = Stage"

record chain_interval =
  interval_chain_id :: u64
  migrate_to_sl_batch :: u64
  migrate_from_sl_batch :: u64
  sl_batch_lower_bound :: u64
  sl_batch_upper_bound :: u64

record genesis_config =
  genesis_root :: string
  genesis_rollup_leaf_index :: "u64 option"
  genesis_batch_commitment :: "string option"

datatype genesis_config_kind = Era_genesis | ZksyncOs_genesis

fun local_path :: "genesis_config_kind \<Rightarrow> string" where
  "local_path Era_genesis = ''configs/genesis/era/latest.json''"
| "local_path ZksyncOs_genesis = ''configs/genesis/zksync-os/latest.json''"

definition genesis_config_init_v31 ::
    "(string \<Rightarrow> genesis_config option) \<Rightarrow> source_files \<Rightarrow> genesis_config_kind \<Rightarrow> string option
      \<Rightarrow> (genesis_config \<times> source_files) res" where
  "genesis_config_init_v31 from_json F kind contracts_commit =
     init_json from_json F contracts_commit (local_path kind)"

record verifiers =
  env :: verify_upgrade_env
  bridgehub_address :: address
  bridgehub_owner :: address
  address_book :: address_verifier
  bytecodes :: bytecode_verifier
  network :: network_verifier
  era_genesis_config :: genesis_config
  zksync_os_genesis_config :: genesis_config
  fee_param_verifier :: fee_params
  registered_era_chain_id :: u64
  legacy_era_chain_id :: u64
  legacy_gateway_chain_id :: u64
  legacy_gateway_chain_intervals :: "chain_interval list"
  new_gateway_chain_id :: u64
  new_gateway_representative_chain_id :: u64
  new_gateway_representative_ctm :: address
  new_gateway_settlement_fee :: u256
  expected_l1_chain_id :: u64
  zk_token_asset_id :: b256
  gateway_ctm_create2_salt :: b256

text \<open>
  What the construction takes from outside: the files and their JSON parsers, the providers
  (\<open>None\<close> when the URL does not parse) and the salts declared in the environment's input
  (\<^verbatim>\<open>EnvConfig\<close>; a failed load counts as no salts). The record collects the command-line and
  environment values that are stored as they are.
\<close>

record outside =
  files :: source_files
  hashes_from_json :: "string \<Rightarrow> contract_hash list option"
  system_config_from_json :: "string \<Rightarrow> system_config option"
  genesis_from_json :: "string \<Rightarrow> genesis_config option"
  l1_url :: "l1_rpc option"
  gw_url :: "gw_rpc option"
  create2_factory_salt_per_ctm :: "verify_upgrade_env \<Rightarrow> (address \<Rightarrow> b256 option) option"

record chain_params =
  cp_era_chain_id :: u64
  cp_legacy_era_chain_id :: u64
  cp_legacy_gateway_chain_id :: u64
  cp_legacy_gateway_chain_intervals :: "chain_interval list"
  cp_new_gateway_chain_id :: u64
  cp_new_gateway_representative_chain_id :: u64
  cp_new_gateway_settlement_fee :: u256
  cp_expected_l1_chain_id :: u64
  cp_zk_token_asset_id :: b256

definition representative_ctm :: "network_verifier \<Rightarrow> address \<Rightarrow> bool \<Rightarrow> u64 \<Rightarrow> address res" where
  "representative_ctm n bridgehub has_new_gateway chain_id =
     (if has_new_gateway then
        bind_res (try_get_chain_type_manager_from_bridgehub n bridgehub (ucast chain_id)) (\<lambda>ctm.
        bind_res (ensure (ctm \<noteq> 0) (Bail ''Bridgehub.chainTypeManager returned zero'')) (\<lambda>_. Inr ctm))
      else Inr 0)"

definition ctm_salt :: "(address \<Rightarrow> b256 option) option \<Rightarrow> address \<Rightarrow> b256" where
  "ctm_salt per_ctm ctm = (case per_ctm of None \<Rightarrow> 0
     | Some m \<Rightarrow> (case m ctm of None \<Rightarrow> 0 | Some salt \<Rightarrow> salt))"

definition verifiers_new_v31 ::
    "ext \<Rightarrow> outside \<Rightarrow> verify_upgrade_env \<Rightarrow> ecosystem_upgrade_artifact \<Rightarrow> string option \<Rightarrow> string
      \<Rightarrow> chain_params \<Rightarrow> verifiers res" where
  "verifiers_new_v31 E W selected artifact contracts_commit zk_governance_commit p =
     bind_res (for_res (\<lambda>ctm. ensure (is_testnet (ctm_contracts_config ctm) = (\<not> is_mainnet selected))
       (Bail ''is_testnet disagrees with --env'')) (ctms artifact)) (\<lambda>_.
     bind_res (address_from_artifact E artifact [''upgrade_addresses'', ''bridgehub'', ''bridgehub_proxy_addr''])
       (\<lambda>bridgehub.
     bind_res (bytecode_verifier_init_v31 E (hashes_from_json W) (files W) contracts_commit zk_governance_commit)
       (\<lambda>(bv, F1).
     bind_res (network_verifier_new_v31 (l1_url W) (gw_url W) (cp_era_chain_id p)) (\<lambda>nv.
     let has_new_gateway = (new_gateway artifact \<noteq> None) in
     bind_res (if has_new_gateway then ensure (gateway_chain_id nv = cp_new_gateway_chain_id p)
         (Bail ''gateway RPC chain id does not match'') else Inr ()) (\<lambda>_.
     bind_res (fee_param_safe_init nv bridgehub (system_config_from_json W) F1 contracts_commit) (\<lambda>(fees, F2).
     bind_res (representative_ctm nv bridgehub has_new_gateway (cp_new_gateway_representative_chain_id p)) (\<lambda>ctm.
     let salt = ctm_salt (create2_factory_salt_per_ctm W selected) ctm in
     bind_res (ok_or (Bail ''failed to fetch Bridgehub.owner()'') (Bridgehub_owner (l1_provider nv) bridgehub)) (\<lambda>bh_owner.
     let aliased_bridgehub_owner = apply_l2_to_l1_alias bh_owner in
     bind_res (new_v31_from_artifact E artifact) (\<lambda>av.
     let av1 = add_address bh_owner ''protocol_upgrade_handler_proxy'' av;
         av2 = add_address aliased_bridgehub_owner ''aliased_protocol_upgrade_handler_proxy'' av1 in
     bind_res (genesis_config_init_v31 (genesis_from_json W) F2 Era_genesis contracts_commit) (\<lambda>(era_genesis, F3).
     bind_res (genesis_config_init_v31 (genesis_from_json W) F3 ZksyncOs_genesis contracts_commit) (\<lambda>(os_genesis, _).
     Inr \<lparr>env = selected, bridgehub_address = bridgehub, bridgehub_owner = bh_owner,
       address_book = av2, bytecodes = bv, network = nv,
       era_genesis_config = era_genesis, zksync_os_genesis_config = os_genesis,
       fee_param_verifier = fees, registered_era_chain_id = cp_era_chain_id p,
       legacy_era_chain_id = cp_legacy_era_chain_id p,
       legacy_gateway_chain_id = cp_legacy_gateway_chain_id p,
       legacy_gateway_chain_intervals = cp_legacy_gateway_chain_intervals p,
       new_gateway_chain_id = cp_new_gateway_chain_id p,
       new_gateway_representative_chain_id = cp_new_gateway_representative_chain_id p,
       new_gateway_representative_ctm = ctm,
       new_gateway_settlement_fee = cp_new_gateway_settlement_fee p,
       expected_l1_chain_id = cp_expected_l1_chain_id p,
       zk_token_asset_id = cp_zk_token_asset_id p, gateway_ctm_create2_salt = salt\<rparr>)))))))))))"

fun genesis_config_for_ctm :: "verifiers \<Rightarrow> ctm_flavor \<Rightarrow> genesis_config" where
  "genesis_config_for_ctm v Era = era_genesis_config v"
| "genesis_config_for_ctm v ZksyncOs = zksync_os_genesis_config v"

subsection \<open>Checks on one address or hash\<close>

definition expect_address :: "verifiers \<Rightarrow> address \<Rightarrow> string \<Rightarrow> bool vr" where
  "expect_address v a expected = (case name_to_address (address_book v) expected of
     Some expected_address \<Rightarrow>
       if expected_address = a then State_Monad.return True
       else do { report_error; State_Monad.return False }
   | None \<Rightarrow> do { report_error; State_Monad.return False })"

definition expect_zk_bytecode :: "verifiers \<Rightarrow> b256 \<Rightarrow> string \<Rightarrow> unit vr" where
  "expect_zk_bytecode v bytecode_hash expected =
     (case zk_bytecode_hash_to_file (bytecodes v) bytecode_hash of
        Some file_name \<Rightarrow> if file_name = expected then State_Monad.return () else report_error
      | None \<Rightarrow> report_error)"

definition expect_deployed_bytecode ::
    "ext \<Rightarrow> verifiers \<Rightarrow> address \<Rightarrow> string \<Rightarrow> bool \<Rightarrow> unit res vr" where
  "expect_deployed_bytecode E v a expected_file tolerate_hash_mismatch =
     tryM (State_Monad.return (get_bytecode_hash_at E (network v) a)) (\<lambda>deployed_bytecode.
     liftM (case evm_deployed_bytecode_hash_to_file (bytecodes v) deployed_bytecode of
        Some deployed_file \<Rightarrow> if deployed_file \<noteq> expected_file then report_error else report_ok
      | None \<Rightarrow> if deployed_bytecode = 0 then report_error
          else if tolerate_hash_mismatch then report_warn else report_error))"

definition expect_create2_params_internal ::
    "verifiers \<Rightarrow> address \<Rightarrow> bytes \<Rightarrow> string \<Rightarrow> bool \<Rightarrow> bool res vr" where
  "expect_create2_params_internal v a expected_constructor_params expected_file report =
     (case create2_known_bytecodes (network v) a of
        None \<Rightarrow> liftM (do { report_error; State_Monad.return False })
      | Some deployed_file \<Rightarrow>
          if deployed_file \<noteq> expected_file then liftM (do { report_error; State_Monad.return False })
          else (case create2_constructor_params (network v) a of
              None \<Rightarrow> failM (Panic ''Constructor params must exist if create2 deployment exists'')
            | Some constructor_params \<Rightarrow>
                if constructor_params \<noteq> expected_constructor_params
                then liftM (do { report_error; State_Monad.return False })
                else liftM (do {
                  (if report then report_ok else State_Monad.return ());
                  State_Monad.return True })))"

definition expect_create2_params :: "verifiers \<Rightarrow> address \<Rightarrow> bytes \<Rightarrow> string \<Rightarrow> unit res vr" where
  "expect_create2_params v a expected_constructor_params expected_file =
     tryM (expect_create2_params_internal v a expected_constructor_params expected_file True) (\<lambda>_. okM ())"

definition transparent_proxy_key :: b256 where
  "transparent_proxy_key = 0x360894a13ba1a3210667c828492db98dca3e2076cc3735a920a3ca505d382bbc"

definition expect_create2_params_proxy_with_bytecode ::
    "abi \<Rightarrow> verifiers \<Rightarrow> address \<Rightarrow> bytes \<Rightarrow> address \<Rightarrow> bytes \<Rightarrow> string \<Rightarrow> unit res vr" where
  "expect_create2_params_proxy_with_bytecode A v a expected_init_params expected_initial_admin
       expected_impl_constructor_params expected_file =
     tryM (State_Monad.return (storage_at (network v) a transparent_proxy_key)) (\<lambda>storage.
     let implementation_address = address_of_hash storage;
         constructor_params = encode_transparentProxyConstructor A implementation_address
           expected_initial_admin expected_init_params in
     tryM (expect_create2_params_internal v a constructor_params
       ''l1-contracts/TransparentUpgradeableProxy'' False) (\<lambda>is_proxy.
     if \<not> is_proxy then okM ()
     else expect_create2_params v implementation_address expected_impl_constructor_params expected_file))"

section \<open>What the checks decide\<close>

lemma expect_address_simps [simp]:
  "writer (expect_address v a name)"
  "val (expect_address v a name) \<longleftrightarrow> get_by_name (address_book v) name = Some a"
  "clean (expect_address v a name) \<longleftrightarrow> get_by_name (address_book v) name = Some a"
  by (auto simp: expect_address_def get_by_name_def split: option.splits)

lemma expect_zk_bytecode_simps [simp]:
  "writer (expect_zk_bytecode v h name)"
  "clean (expect_zk_bytecode v h name) \<longleftrightarrow> zk_bytecode_hash_to_file (bytecodes v) h = Some name"
  by (auto simp: expect_zk_bytecode_def split: option.splits)

lemma writer_deployed_bytecode [simp, writer_intros]: "writer (expect_deployed_bytecode E v a f t)"
  by (auto simp: expect_deployed_bytecode_def split: option.splits)

text \<open>
  The code at the address is that of the expected file; with tolerance, also any other code
  whose hash is unknown.
\<close>

definition deployed_ok :: "ext \<Rightarrow> verifiers \<Rightarrow> address \<Rightarrow> string \<Rightarrow> bool \<Rightarrow> bool" where
  "deployed_ok E v a f tolerate \<longleftrightarrow> (\<exists>h. get_bytecode_hash_at E (network v) a = Inr h
     \<and> (evm_deployed_bytecode_hash_to_file (bytecodes v) h = Some f
        \<or> tolerate \<and> h \<noteq> 0 \<and> evm_deployed_bytecode_hash_to_file (bytecodes v) h = None))"

lemma deployed_bytecode_iff:
  "val (expect_deployed_bytecode E v a f tolerate) = Inr () \<and> clean (expect_deployed_bytecode E v a f tolerate)
    \<longleftrightarrow> deployed_ok E v a f tolerate"
  by (cases "get_bytecode_hash_at E (network v) a")
    (auto simp: expect_deployed_bytecode_def deployed_ok_def split: option.splits)

lemma writer_create2_params [simp, writer_intros]:
  "writer (expect_create2_params_internal v a ps f r)" "writer (expect_create2_params v a ps f)"
  by (auto simp: expect_create2_params_internal_def expect_create2_params_def split: option.splits)

text \<open>With both provenance maps on the same keys the unwrap is safe, and the check is exact.\<close>

lemma create2_params_internal_val:
  assumes "same_keys (network v)"
  shows "val (expect_create2_params_internal v a ps f r) = Inr (look_deployment (network v) a = Some (f, ps))"
    and "clean (expect_create2_params_internal v a ps f r) \<longleftrightarrow> look_deployment (network v) a = Some (f, ps)"
  using same_keys_lookup [OF assms, of a]
  by (cases "look_deployment (network v) a"; auto simp: expect_create2_params_internal_def)+

lemma create2_params_iff:
  assumes "same_keys (network v)"
  shows "val (expect_create2_params v a ps f) = Inr ()"
    and "clean (expect_create2_params v a ps f) \<longleftrightarrow> look_deployment (network v) a = Some (f, ps)"
  using create2_params_internal_val [OF assms] by (simp_all add: expect_create2_params_def)

lemma writer_create2_proxy [simp, writer_intros]:
  "writer (expect_create2_params_proxy_with_bytecode A v a ip adm cp f)"
  by (auto simp: expect_create2_params_proxy_with_bytecode_def Let_def)

text \<open>
  The proxy was deployed from the expected proxy code with the implementation its slot names,
  and that implementation from the expected file.
\<close>

definition proxy_ok :: "abi \<Rightarrow> verifiers \<Rightarrow> address \<Rightarrow> bytes \<Rightarrow> address \<Rightarrow> bytes \<Rightarrow> string \<Rightarrow> bool" where
  "proxy_ok A v a init admin impl_params f \<longleftrightarrow> (\<exists>w. storage_at (network v) a transparent_proxy_key = Inr w
     \<and> look_deployment (network v) a = Some (''l1-contracts/TransparentUpgradeableProxy'',
         encode_transparentProxyConstructor A (address_of_hash w) admin init)
     \<and> look_deployment (network v) (address_of_hash w) = Some (f, impl_params))"

lemma create2_proxy_iff:
  assumes "same_keys (network v)"
  shows "val (expect_create2_params_proxy_with_bytecode A v a init admin ps f) = Inr ()
      \<and> clean (expect_create2_params_proxy_with_bytecode A v a init admin ps f)
    \<longleftrightarrow> proxy_ok A v a init admin ps f"
proof (cases "storage_at (network v) a transparent_proxy_key")
  case (Inr w)
  define enc where "enc = encode_transparentProxyConstructor A (address_of_hash w) admin init"
  note internal = create2_params_internal_val [OF assms] and params = create2_params_iff [OF assms]
  show ?thesis
    using Inr by (cases "look_deployment (network v) a = Some (''l1-contracts/TransparentUpgradeableProxy'', enc)")
      (simp_all add: expect_create2_params_proxy_with_bytecode_def proxy_ok_def Let_def
        internal params flip: enc_def)
qed (simp add: expect_create2_params_proxy_with_bytecode_def proxy_ok_def)

section \<open>The context after construction\<close>

text \<open>A context from \<^verbatim>\<open>new_v31\<close> has empty provenance, so the two maps agree.\<close>

lemma new_network_same_keys: "network_verifier_new_v31 l1 gw era = Inr n \<Longrightarrow> same_keys n"
  by (auto simp: network_verifier_new_v31_def same_keys_def)

lemma new_v31_parts:
  assumes "verifiers_new_v31 E W selected artifact commit gov p = Inr v"
  shows "same_keys (network v)"
    and "address_from_artifact E artifact [''upgrade_addresses'', ''bridgehub'', ''bridgehub_proxy_addr'']
       = Inr (bridgehub_address v)"
    and "\<forall>c \<in> set (ctms artifact). is_testnet (ctm_contracts_config c) \<longleftrightarrow> selected \<noteq> Mainnet"
    and "init_from_on_chain (network v) (bridgehub_address v) = Inr (fee_param_verifier v)"
    and "Bridgehub_owner (l1_provider (network v)) (bridgehub_address v) = Some (bridgehub_owner v)"
    and "\<exists>av. new_v31_from_artifact E artifact = Inr av \<and> address_book v
      = add_address (apply_l2_to_l1_alias (bridgehub_owner v)) ''aliased_protocol_upgrade_handler_proxy''
         (add_address (bridgehub_owner v) ''protocol_upgrade_handler_proxy'' av)"
  using assms unfolding verifiers_new_v31_def Let_def
  by (auto simp: is_mainnet_def safe_init_iff intro: new_network_same_keys)

text \<open>With a new Gateway in the artifact, its RPC and its CTM were checked.\<close>

lemma new_v31_gateway:
  assumes "verifiers_new_v31 E W selected artifact commit gov p = Inr v" "new_gateway artifact \<noteq> None"
  shows "gateway_chain_id (network v) = new_gateway_chain_id v"
    and "Bridgehub_chainTypeManager (l1_provider (network v)) (bridgehub_address v)
      (ucast (new_gateway_representative_chain_id v)) = Some (new_gateway_representative_ctm v)"
    and "new_gateway_representative_ctm v \<noteq> 0"
  using assms unfolding verifiers_new_v31_def Let_def representative_ctm_def
  by (auto simp: try_get_chain_type_manager_from_bridgehub_def)

lemma new_v31_empty_provenance:
  assumes "verifiers_new_v31 E W selected artifact commit gov p = Inr v"
  shows "create2_known_bytecodes (network v) = Map.empty" "create2_constructor_params (network v) = Map.empty"
  using assms unfolding verifiers_new_v31_def Let_def
  by (auto simp: network_verifier_new_v31_def)

text \<open>So the names the elements unwrap are registered.\<close>

lemma new_v31_named:
  assumes "verifiers_new_v31 E W selected artifact commit gov p = Inr v"
  shows "get_by_name (address_book v) ''protocol_upgrade_handler_proxy'' = Some (bridgehub_owner v)"
    and "get_by_name (address_book v) ''aliased_protocol_upgrade_handler_proxy''
      = Some (apply_l2_to_l1_alias (bridgehub_owner v))"
    and "get_by_name (address_book v) ''zero'' = Some 0"
    and "(path, alias) \<in> set V31_ADDRESS_ALIASES \<Longrightarrow>
      \<exists>raw a. toml_path (core artifact) path = Some (TString raw) \<and> address_from_hex E raw = Some a
        \<and> get_by_name (address_book v) alias = Some a"
proof -
  from new_v31_parts(6) [OF assms] obtain av where av: "new_v31_from_artifact E artifact = Inr av"
    and bk: "address_book v = add_address (apply_l2_to_l1_alias (bridgehub_owner v)) ''aliased_protocol_upgrade_handler_proxy''
         (add_address (bridgehub_owner v) ''protocol_upgrade_handler_proxy'' av)"
    by blast
  show "get_by_name (address_book v) ''protocol_upgrade_handler_proxy'' = Some (bridgehub_owner v)"
    "get_by_name (address_book v) ''aliased_protocol_upgrade_handler_proxy''
      = Some (apply_l2_to_l1_alias (bridgehub_owner v))"
    "get_by_name (address_book v) ''zero'' = Some 0"
    using new_v31_zero [OF av] by (simp_all add: bk book.by_name_add)
  assume mem: "(path, alias) \<in> set V31_ADDRESS_ALIASES"
  then have "alias \<notin> {''protocol_upgrade_handler_proxy'', ''aliased_protocol_upgrade_handler_proxy''}"
    by (auto simp: V31_ADDRESS_ALIASES_def)
  then show "\<exists>raw a. toml_path (core artifact) path = Some (TString raw) \<and> address_from_hex E raw = Some a
      \<and> get_by_name (address_book v) alias = Some a"
    using new_v31_aliases [OF av mem] by (auto simp: bk book.by_name_add)
qed

end
