(* ===== verification/Protocol_Version.thy ===== *)
theory Protocol_Version
  imports Prelude
begin

section \<open>Protocol versions\<close>

text \<open>
  \<^verbatim>\<open>elements/protocol_version.rs\<close>: a version is three \<^verbatim>\<open>u64\<close> fields; it is parsed from
  dotted decimals, printed with a leading \<open>v\<close>, and packed into a \<^verbatim>\<open>U256\<close> with 32 bits per
  field. The lemmas give the round trips and where they stop: the packing keeps the fields
  apart only below \<open>2^32\<close>, and the printed form is not what the parser accepts.
\<close>

record protocol_version =
  major :: u64
  minor :: u64
  patch :: u64

datatype invalid_protocol_version = InvalidProtocolVersionError

text \<open>
  The parser takes the parts of \<^verbatim>\<open>split('.')\<close> one by one; a missing or unparsable part, or a
  fourth one, is the error.
\<close>

definition next_part :: "string list \<Rightarrow> invalid_protocol_version + (u64 \<times> string list)" where
  "next_part parts = (case parts of [] \<Rightarrow> Inl InvalidProtocolVersionError
     | p # ps \<Rightarrow> (case parse_u64 p of None \<Rightarrow> Inl InvalidProtocolVersionError
         | Some n \<Rightarrow> Inr (n, ps)))"

definition protocol_version_from_str :: "string \<Rightarrow> invalid_protocol_version + protocol_version" where
  "protocol_version_from_str version =
     (case next_part (split_char (CHR ''.'') version) of Inl e \<Rightarrow> Inl e
      | Inr (ma, parts) \<Rightarrow> (case next_part parts of Inl e \<Rightarrow> Inl e
      | Inr (mi, parts) \<Rightarrow> (case next_part parts of Inl e \<Rightarrow> Inl e
      | Inr (pa, parts) \<Rightarrow> (if parts \<noteq> [] then Inl InvalidProtocolVersionError
          else Inr \<lparr>major = ma, minor = mi, patch = pa\<rparr>))))"

text \<open>
  \<^verbatim>\<open>impl From<U256>\<close>: \<^verbatim>\<open>checked_shr\<close> is library code and may refuse, which the code
  unwraps; the other fields are shifted and reduced modulo \<open>2^32\<close>.
\<close>

definition field32 :: "u256 \<Rightarrow> u64" where
  "field32 v = of_nat (unat (v mod 2 ^ 32))"

definition protocol_version_from_u256 :: "ext \<Rightarrow> u256 \<Rightarrow> protocol_version res" where
  "protocol_version_from_u256 E value =
     bind_res (ok_or (Panic ''checked_shr'') (u256_checked_shr E value 64)) (\<lambda>hi.
       Inr \<lparr>major = field32 hi, minor = field32 (drop_bit 32 value), patch = field32 value\<rparr>)"

definition u256_from_protocol_version :: "protocol_version \<Rightarrow> u256" where
  "u256_from_protocol_version v =
     (let shift_32 = 2 ^ 32; shift_64 = 2 ^ 64
      in ucast (major v) * shift_64 + ucast (minor v) * shift_32 + ucast (patch v))"

definition protocol_version_display :: "protocol_version \<Rightarrow> string" where
  "protocol_version_display v = ''v'' @ show_nat (unat (major v)) @ ''.'' @ show_nat (unat (minor v))
     @ ''.'' @ show_nat (unat (patch v))"

text \<open>The dotted form the constants of \<^verbatim>\<open>v31/mod.rs\<close> are written in.\<close>

definition dotted :: "protocol_version \<Rightarrow> string" where
  "dotted v = join ''.'' [show_nat (unat (major v)), show_nat (unat (minor v)), show_nat (unat (patch v))]"

text \<open>What the packing can hold, and what the library promises about an exact limb shift.\<close>

definition fields_fit :: "protocol_version \<Rightarrow> bool" where
  "fields_fit v \<longleftrightarrow> unat (major v) < 2 ^ 32 \<and> unat (minor v) < 2 ^ 32 \<and> unat (patch v) < 2 ^ 32"

definition shifts_by_limb :: "ext \<Rightarrow> bool" where
  "shifts_by_limb E \<longleftrightarrow> (\<forall>v. u256_checked_shr E v 64 = Some (drop_bit 64 v))"

section \<open>Packing\<close>

definition packed_value :: "nat \<Rightarrow> nat \<Rightarrow> nat \<Rightarrow> nat" where
  "packed_value a b c = a * 2 ^ 64 + b * 2 ^ 32 + c"

lemma div_mod_limb:
  fixes c m x :: nat
  assumes "c < m"
  shows "(x * m + c) mod m = c" "(x * m + c) div m = x"
  using assms by simp_all

lemma packed_value_limbs: "packed_value a b c = (a * 2 ^ 32 + b) * 2 ^ 32 + c"
  by (simp add: packed_value_def)

lemma packed_value_fields:
  assumes "a < 2 ^ 32" "b < 2 ^ 32" "c < 2 ^ 32"
  shows "packed_value a b c div 2 ^ 64 = a"
    "packed_value a b c div 2 ^ 32 mod 2 ^ 32 = b"
    "packed_value a b c mod 2 ^ 32 = c"
proof -
  show "packed_value a b c mod 2 ^ 32 = c"
    unfolding packed_value_limbs by (rule div_mod_limb(1) [OF assms(3)])
  have hi: "packed_value a b c div 2 ^ 32 = a * 2 ^ 32 + b"
    unfolding packed_value_limbs by (rule div_mod_limb(2) [OF assms(3)])
  show "packed_value a b c div 2 ^ 32 mod 2 ^ 32 = b"
    unfolding hi by (rule div_mod_limb(1) [OF assms(2)])
  have "packed_value a b c div 2 ^ 64 = packed_value a b c div (2 ^ 32 * 2 ^ 32)"
    by simp
  also have "\<dots> = packed_value a b c div 2 ^ 32 div 2 ^ 32"
    by (rule div_mult2_eq)
  finally show "packed_value a b c div 2 ^ 64 = a"
    unfolding hi using div_mod_limb(2) [OF assms(2)] by simp
qed

lemma unat_pack:
  "unat (u256_from_protocol_version v)
    = packed_value (unat (major v)) (unat (minor v)) (unat (patch v))"
proof -
  have bound: "unat (major v) < 2 ^ 64" "unat (minor v) < 2 ^ 64" "unat (patch v) < 2 ^ 64"
    using unsigned_less [of "major v"] unsigned_less [of "minor v"] unsigned_less [of "patch v"]
    by simp_all
  have "u256_from_protocol_version v
    = of_nat (packed_value (unat (major v)) (unat (minor v)) (unat (patch v)))"
    by (simp add: u256_from_protocol_version_def packed_value_def Let_def)
  moreover have "packed_value (unat (major v)) (unat (minor v)) (unat (patch v)) < 2 ^ 256"
    using bound by (simp add: packed_value_def)
  ultimately show ?thesis
    by (simp only: unat_of_nat) simp
qed

lemma field32_unat: "field32 w = of_nat (unat w mod 2 ^ 32)"
proof -
  have "unat (w mod 2 ^ 32) = unat w mod 2 ^ 32"
    by (simp add: unat_mod_distrib)
  then show ?thesis by (simp only: field32_def)
qed

lemma unpack_pack:
  assumes "shifts_by_limb E" "fields_fit v"
  shows "protocol_version_from_u256 E (u256_from_protocol_version v) = Inr v"
proof -
  let ?w = "u256_from_protocol_version v"
  note fields = packed_value_fields [of "unat (major v)" "unat (minor v)" "unat (patch v)"]
  have fit: "unat (major v) < 2 ^ 32" "unat (minor v) < 2 ^ 32" "unat (patch v) < 2 ^ 32"
    using assms(2) by (simp_all add: fields_fit_def)
  have "field32 (drop_bit 64 ?w) = of_nat (unat ?w div 2 ^ 64 mod 2 ^ 32)"
    by (simp add: field32_unat drop_bit_eq_div unat_div_distrib)
  also have "\<dots> = major v"
    using fit by (simp only: unat_pack fields mod_less) simp
  finally have hi: "field32 (drop_bit 64 ?w) = major v" .
  have "field32 (drop_bit 32 ?w) = of_nat (unat ?w div 2 ^ 32 mod 2 ^ 32)"
    by (simp add: field32_unat drop_bit_eq_div unat_div_distrib)
  also have "\<dots> = minor v"
    using fit by (simp only: unat_pack fields) simp
  finally have mid: "field32 (drop_bit 32 ?w) = minor v" .
  have lo: "field32 ?w = patch v"
    using fit by (simp only: field32_unat unat_pack fields) simp
  show ?thesis
    using assms(1) by (simp add: protocol_version_from_u256_def shifts_by_limb_def hi mid lo)
qed

text \<open>What is unpacked always fits, so the round trip holds for no other version.\<close>

lemma field32_small: "unat (field32 w) < 2 ^ 32"
proof -
  have "unat (field32 w) = unat w mod 2 ^ 32 mod 2 ^ 64"
    by (simp add: field32_unat unat_of_nat)
  also have "\<dots> \<le> unat w mod 2 ^ 32"
    by simp
  also have "\<dots> < 2 ^ 32"
    by simp
  finally show ?thesis .
qed

lemma unpacked_fits: "protocol_version_from_u256 E w = Inr v \<Longrightarrow> fields_fit v"
  by (auto simp: protocol_version_from_u256_def fields_fit_def field32_small [simplified])

section \<open>Parsing and printing\<close>

lemma no_dot_in_digits: "list_all is_digit ds \<Longrightarrow> CHR ''.'' \<notin> set ds"
  by (auto simp: list_all_iff)

lemma split_dotted:
  "split_char (CHR ''.'') (dotted v)
    = [show_nat (unat (major v)), show_nat (unat (minor v)), show_nat (unat (patch v))]"
  unfolding dotted_def by (rule split_join_char) (auto dest: no_dot_in_digits [OF show_nat_digits, THEN notE])

lemma parse_dotted: "protocol_version_from_str (dotted v) = Inr v"
  by (simp add: protocol_version_from_str_def split_dotted next_part_def parse_show_u64)

lemma display_dotted: "protocol_version_display v = CHR ''v'' # dotted v"
  by (simp add: protocol_version_display_def dotted_def)

lemma parse_u64_v: "parse_u64 (CHR ''v'' # s) = None"
  by (simp add: parse_u64_def)

lemma parse_display: "protocol_version_from_str (protocol_version_display v) = Inl InvalidProtocolVersionError"
proof -
  obtain p ps where "split_char (CHR ''.'') (dotted v) = p # ps"
    by (simp add: split_dotted)
  then show ?thesis
    by (simp add: display_dotted protocol_version_from_str_def next_part_def parse_u64_v)
qed

text \<open>The dotted form is a codec of the version.\<close>

interpretation dotted_codec: codec dotted "\<lambda>s. case protocol_version_from_str s of Inl _ \<Rightarrow> None | Inr v \<Rightarrow> Some v" "\<lambda>_. True"
  by unfold_locales (simp add: parse_dotted)

end
