(* ===== verification/Governance_Helpers.thy ===== *)
theory Governance_Helpers
  imports Verifiers Protocol_Version
begin

section \<open>Call lists and the primitives of the governance checks\<close>

text \<open>
  \<^verbatim>\<open>elements/call_list.rs\<close>, the version constants of \<^verbatim>\<open>v31/mod.rs\<close> and
  \<^verbatim>\<open>governance_stage_calls/helpers.rs\<close>. The primitives return how many errors they reported;
  the lemmas say that the number is right and for which calls it is zero.
\<close>

subsection \<open>Expected protocol versions\<close>

definition EXPECTED_NEW_PROTOCOL_VERSION_STR :: string where
  "EXPECTED_NEW_PROTOCOL_VERSION_STR = ''0.31.0''"

definition EXPECTED_ERA_OLD_PROTOCOL_VERSION_STR :: string where
  "EXPECTED_ERA_OLD_PROTOCOL_VERSION_STR = ''0.29.4''"

definition EXPECTED_ZKSYNC_OS_OLD_PROTOCOL_VERSION_STR :: string where
  "EXPECTED_ZKSYNC_OS_OLD_PROTOCOL_VERSION_STR = ''0.30.1''"

definition MAX_PRIORITY_TX_GAS_LIMIT :: u32 where
  "MAX_PRIORITY_TX_GAS_LIMIT = 72000000"

definition STAGE_SEPOLIA_NON_MIGRATED_ERA_CHAIN_ID :: u64 where
  "STAGE_SEPOLIA_NON_MIGRATED_ERA_CHAIN_ID = 270"

definition unwrap_version :: "string \<Rightarrow> protocol_version res" where
  "unwrap_version s = (case protocol_version_from_str s of
     Inl _ \<Rightarrow> Inl (Panic ''InvalidProtocolVersionError'') | Inr v \<Rightarrow> Inr v)"

definition get_expected_new_protocol_version :: "protocol_version res" where
  "get_expected_new_protocol_version = unwrap_version EXPECTED_NEW_PROTOCOL_VERSION_STR"

definition get_expected_old_protocol_version_for_ctm_flavor :: "ctm_flavor \<Rightarrow> protocol_version res" where
  "get_expected_old_protocol_version_for_ctm_flavor fl = unwrap_version (case fl of
     Era \<Rightarrow> EXPECTED_ERA_OLD_PROTOCOL_VERSION_STR
   | ZksyncOs \<Rightarrow> EXPECTED_ZKSYNC_OS_OLD_PROTOCOL_VERSION_STR)"

definition is_expected_old_protocol_version_for_ctm_flavor :: "protocol_version \<Rightarrow> ctm_flavor \<Rightarrow> bool res" where
  "is_expected_old_protocol_version_for_ctm_flavor version fl =
     bind_res (get_expected_old_protocol_version_for_ctm_flavor fl) (\<lambda>expected. Inr (version = expected))"

fun expected_old_protocol_version_label :: "ctm_flavor \<Rightarrow> string" where
  "expected_old_protocol_version_label Era = ''v0.29.4''"
| "expected_old_protocol_version_label ZksyncOs = ''v0.30.1''"

subsection \<open>Call lists\<close>

definition call_list_parse :: "ext \<Rightarrow> abi \<Rightarrow> string \<Rightarrow> call list res" where
  "call_list_parse E A hex_data =
     bind_res (ok_or (Panic ''Invalid hex'') (hex_decode E hex_data)) (\<lambda>raw.
     ok_or (Panic ''Decoding calls failed'') (decode_CallList A raw))"

subsection \<open>Primitives\<close>

definition protocol_label :: "ext \<Rightarrow> u256 \<Rightarrow> string res" where
  "protocol_label E version = bind_res (protocol_version_from_u256 E version) (\<lambda>pv.
     Inr (protocol_version_display pv @ '' ('' @ show_nat (unat version) @ '')''))"

definition expect_named_address :: "verifiers \<Rightarrow> address \<Rightarrow> string \<Rightarrow> nat vr" where
  "expect_named_address v a expected_name = do {
     ok \<leftarrow> expect_address v a expected_name;
     State_Monad.return (if ok then 0 else 1) }"

definition expect_address_equal :: "address \<Rightarrow> address \<Rightarrow> nat vr" where
  "expect_address_equal actual expected =
     (if actual = expected then do { report_ok; State_Monad.return 0 }
      else do { report_error; State_Monad.return 1 })"

definition expect_hex_equal :: "string \<Rightarrow> string \<Rightarrow> nat vr" where
  "expect_hex_equal expected actual_without_prefix =
     (let expected_without_prefix = (case strip_prefix ''0x'' expected of Some s \<Rightarrow> s | None \<Rightarrow> expected) in
      if eq_ignore_ascii_case actual_without_prefix expected_without_prefix
      then do { report_ok; State_Monad.return 0 }
      else do { report_error; State_Monad.return 1 })"

definition verify_call_by_address ::
    "ext \<Rightarrow> call list \<Rightarrow> nat \<Rightarrow> address \<Rightarrow> string \<Rightarrow> nat vr" where
  "verify_call_by_address E calls index expected_target method_name =
     (if length calls \<le> index then do { report_error; State_Monad.return 1 }
      else let call = calls ! index in do {
        e1 \<leftarrow> (if target call \<noteq> expected_target then do { report_error; State_Monad.return 1 }
              else State_Monad.return 0);
        e2 \<leftarrow> (if call_value call \<noteq> 0 then do { report_error; State_Monad.return (e1 + 1) }
              else State_Monad.return e1);
        (if length (data call) < 4 then do { report_error; State_Monad.return (e2 + 1) }
         else do {
           e3 \<leftarrow> (if hex_encode E (slice 0 4 (data call)) \<noteq> compute_selector E method_name
                 then do { report_error; State_Monad.return (e2 + 1) }
                 else State_Monad.return e2);
           (if e3 = 0 then report_ok else State_Monad.return ());
           State_Monad.return e3 }) })"

definition verify_call_by_name ::
    "ext \<Rightarrow> verifiers \<Rightarrow> call list \<Rightarrow> nat \<Rightarrow> string \<Rightarrow> string \<Rightarrow> nat vr" where
  "verify_call_by_name E v calls index target_name method_name =
     (case name_to_address (address_book v) target_name of
        None \<Rightarrow> do { report_error; State_Monad.return 1 }
      | Some expected_target \<Rightarrow> verify_call_by_address E calls index expected_target method_name)"

definition required_address_at :: "ext \<Rightarrow> toml \<Rightarrow> string list \<Rightarrow> address option vr" where
  "required_address_at E root path = (case toml_path root path of
     None \<Rightarrow> do { report_error; State_Monad.return None }
   | Some current \<Rightarrow> (case as_str current of
       None \<Rightarrow> do { report_error; State_Monad.return None }
     | Some raw \<Rightarrow> (case address_from_str E raw of
         Some a \<Rightarrow> State_Monad.return (Some a)
       | None \<Rightarrow> do { report_error; State_Monad.return None })))"

definition required_ctm_address :: "ext \<Rightarrow> ctm_artifact \<Rightarrow> string list \<Rightarrow> address option vr" where
  "required_ctm_address E ctm path = required_address_at E (ctm_value ctm) path"

definition required_core_address :: "ext \<Rightarrow> ecosystem_upgrade_artifact \<Rightarrow> string list \<Rightarrow> address option vr" where
  "required_core_address E artifact path = required_address_at E (core artifact) path"

definition verify_address_has_code :: "verifiers \<Rightarrow> address \<Rightarrow> nat vr" where
  "verify_address_has_code v a = (case get_code_at (l1_provider (network v)) a of
     Some code \<Rightarrow> if code \<noteq> [] then do { report_ok; State_Monad.return 0 }
       else do { report_error; State_Monad.return 1 }
   | None \<Rightarrow> do { report_warn; State_Monad.return 0 })"

text \<open>\<^verbatim>\<open>if let Some(call) = self.calls.elems.get(idx) { \<dots> }\<close>\<close>

definition with_call :: "call list \<Rightarrow> nat \<Rightarrow> (call \<Rightarrow> nat vr) \<Rightarrow> nat vr" where
  "with_call calls idx f = (if idx < length calls then f (calls ! idx) else State_Monad.return 0)"

definition verify_call_count :: "call list \<Rightarrow> nat \<Rightarrow> nat vr" where
  "verify_call_count calls expected_call_count =
     (if length calls < expected_call_count then do { report_error; State_Monad.return 1 }
      else if length calls > expected_call_count then do { report_error; State_Monad.return 1 }
      else State_Monad.return 0)"

text \<open>\<^verbatim>\<open>errors += 1\<close> after a failed comparison, and the two ways a check gives up on a call.\<close>

definition expect_that :: "bool \<Rightarrow> nat vr" where
  "expect_that b = (if b then State_Monad.return 0 else do { report_error; State_Monad.return 1 })"

text \<open>\<^verbatim>\<open>let Some(call) = calls.elems.get(index) else { report; return 1 }\<close>\<close>

definition need_call :: "call list \<Rightarrow> nat \<Rightarrow> (call \<Rightarrow> nat vr) \<Rightarrow> nat vr" where
  "need_call calls index f =
     (if index < length calls then f (calls ! index) else do { report_error; State_Monad.return 1 })"

definition need_decoded :: "'a option \<Rightarrow> ('a \<Rightarrow> nat vr) \<Rightarrow> nat vr" where
  "need_decoded d f = (case d of Some x \<Rightarrow> f x | None \<Rightarrow> do { report_error; State_Monad.return 1 })"

section \<open>What the primitives decide\<close>

lemma expect_that_simps [simp]:
  "writer (expect_that b)" "val (expect_that b) = (if b then 0 else 1)" "clean (expect_that b) \<longleftrightarrow> b"
  by (auto simp: expect_that_def)

lemma writer_need [simp, writer_intros]:
  "(\<And>c. writer (f c)) \<Longrightarrow> writer (need_call calls i f)" "(\<And>x. writer (g x)) \<Longrightarrow> writer (need_decoded d g)"
  by (auto simp: need_call_def need_decoded_def split: option.splits)

lemma passes_need:
  "passes (need_call calls i f) \<longleftrightarrow> i < length calls \<and> passes (f (calls ! i))"
  "passes (need_decoded d g) \<longleftrightarrow> (\<exists>x. d = Some x \<and> passes (g x))"
  by (auto simp: need_call_def need_decoded_def passes_def split: option.splits)

lemma dotted_constants:
  "dotted \<lparr>major = 0, minor = 31, patch = 0\<rparr> = EXPECTED_NEW_PROTOCOL_VERSION_STR"
  "dotted \<lparr>major = 0, minor = 29, patch = 4\<rparr> = EXPECTED_ERA_OLD_PROTOCOL_VERSION_STR"
  "dotted \<lparr>major = 0, minor = 30, patch = 1\<rparr> = EXPECTED_ZKSYNC_OS_OLD_PROTOCOL_VERSION_STR"
  by (simp_all add: dotted_def EXPECTED_NEW_PROTOCOL_VERSION_STR_def EXPECTED_ERA_OLD_PROTOCOL_VERSION_STR_def
      EXPECTED_ZKSYNC_OS_OLD_PROTOCOL_VERSION_STR_def show_nat_step show_digit_def char_of_def bit_0)

lemma expected_versions:
  "get_expected_new_protocol_version = Inr \<lparr>major = 0, minor = 31, patch = 0\<rparr>"
  "get_expected_old_protocol_version_for_ctm_flavor Era = Inr \<lparr>major = 0, minor = 29, patch = 4\<rparr>"
  "get_expected_old_protocol_version_for_ctm_flavor ZksyncOs = Inr \<lparr>major = 0, minor = 30, patch = 1\<rparr>"
  by (simp_all add: get_expected_new_protocol_version_def get_expected_old_protocol_version_for_ctm_flavor_def
      unwrap_version_def parse_dotted flip: dotted_constants)

lemma protocol_label_total:
  "shifts_by_limb E \<Longrightarrow> \<exists>s. protocol_label E w = Inr s"
  by (simp add: protocol_label_def protocol_version_from_u256_def shifts_by_limb_def)

lemma writer_helpers [simp, writer_intros]:
  "writer (expect_named_address v a n)" "writer (expect_address_equal a b)" "writer (expect_hex_equal x y)"
  "writer (verify_call_by_address E calls i t m)" "writer (required_address_at E r p)"
  "writer (required_ctm_address E c p)" "writer (required_core_address E art p)"
  "writer (verify_address_has_code v a)"
  by (auto simp: expect_named_address_def expect_address_equal_def expect_hex_equal_def Let_def
      verify_call_by_address_def required_address_at_def required_ctm_address_def
      required_core_address_def verify_address_has_code_def split: option.splits)

lemma writer_call_by_name [simp, writer_intros]: "writer (verify_call_by_name E v calls i t m)"
  by (auto simp: verify_call_by_name_def split: option.splits)

lemma out_expect_address:
  "out (expect_address v a n) = (if get_by_name (address_book v) n = Some a then [] else [Error_line])"
  by (auto simp: expect_address_def get_by_name_def split: option.splits)

text \<open>The numbers the primitives return are the errors they reported.\<close>

lemma primitives_count_errors:
  "counts_errors (expect_named_address v a n)" "counts_errors (expect_address_equal a b)"
  "counts_errors (expect_hex_equal x y)" "counts_errors (verify_address_has_code v a)"
  "counts_errors (verify_call_by_address E calls i t m)"
  by (auto simp: counts_errors_def expect_named_address_def expect_address_equal_def expect_hex_equal_def
      Let_def verify_address_has_code_def verify_call_by_address_def out_expect_address split: option.splits)

lemma call_by_name_counts_errors: "counts_errors (verify_call_by_name E v calls i t m)"
  using primitives_count_errors(5) [of E calls i _ m]
  by (auto simp: verify_call_by_name_def counts_errors_def split: option.splits)

lemma expectation_simps [simp]:
  "val (expect_named_address v a n) = (if get_by_name (address_book v) n = Some a then 0 else 1)"
  "clean (expect_named_address v a n) \<longleftrightarrow> get_by_name (address_book v) n = Some a"
  "val (expect_address_equal a b) = (if a = b then 0 else 1)"
  "clean (expect_address_equal a b) \<longleftrightarrow> a = b"
  by (simp_all add: expect_named_address_def expect_address_equal_def)

text \<open>A call that passes: present, to the target, without value, with the method's selector.\<close>

definition call_ok :: "ext \<Rightarrow> call list \<Rightarrow> nat \<Rightarrow> address \<Rightarrow> string \<Rightarrow> bool" where
  "call_ok E calls i t m \<longleftrightarrow> i < length calls \<and> target (calls ! i) = t \<and> call_value (calls ! i) = 0
     \<and> 4 \<le> length (data (calls ! i)) \<and> hex_encode E (take 4 (data (calls ! i))) = compute_selector E m"

lemma call_ok_update: "i \<noteq> j \<Longrightarrow> call_ok E (calls[i := c]) j t m \<longleftrightarrow> call_ok E calls j t m"
  by (simp add: call_ok_def)

lemma clean_call_by_address: "clean (verify_call_by_address E calls i t m) \<longleftrightarrow> call_ok E calls i t m"
  by (auto simp: verify_call_by_address_def call_ok_def Let_def slice_def)

lemma clean_call_by_name:
  "clean (verify_call_by_name E v calls i name m)
    \<longleftrightarrow> (\<exists>t. get_by_name (address_book v) name = Some t \<and> call_ok E calls i t m)"
  by (auto simp: verify_call_by_name_def get_by_name_def clean_call_by_address split: option.splits)

lemma yields_call_check: "yields (liftM (verify_call_by_address E calls i t m)) 0 \<longleftrightarrow> call_ok E calls i t m"
  by (simp add: yields_count primitives_count_errors clean_call_by_address del: yields_simps(4))

lemma yields_call_by_name: "yields (liftM (verify_call_by_name E v calls i name m)) 0
    \<longleftrightarrow> (\<exists>t. get_by_name (address_book v) name = Some t \<and> call_ok E calls i t m)"
  by (simp add: yields_count call_by_name_counts_errors clean_call_by_name del: yields_simps(4))

lemma call_ok_bound: "call_ok E calls i t m \<Longrightarrow> i < length calls"
  by (simp add: call_ok_def)

lemma writer_with_call [simp, writer_intros]: "(\<And>c. writer (f c)) \<Longrightarrow> writer (with_call calls i f)"
  by (simp add: with_call_def)

lemma yields_with_call:
  "(\<And>c. writer (f c)) \<Longrightarrow>
    yields (liftM (with_call calls i f)) 0 \<longleftrightarrow> (i < length calls \<longrightarrow> yields (liftM (f (calls ! i))) 0)"
  by (auto simp: with_call_def)

lemma call_count_simps [simp]:
  "writer (verify_call_count calls n)" "clean (verify_call_count calls n) \<longleftrightarrow> length calls = n"
  "val (verify_call_count calls n) = (if length calls = n then 0 else 1)"
  by (auto simp: verify_call_count_def)

lemma yields_call_count: "yields (liftM (verify_call_count calls n)) 0 \<longleftrightarrow> length calls = n"
  by auto

text \<open>The code at an address is known not to be missing (a failed read only warns).\<close>

definition code_ok :: "verifiers \<Rightarrow> address \<Rightarrow> bool" where
  "code_ok v a \<longleftrightarrow> get_code_at (l1_provider (network v)) a \<noteq> Some []"

lemma has_code_simps [simp]:
  "clean (verify_address_has_code v a) \<longleftrightarrow> code_ok v a"
  "val (verify_address_has_code v a) = (if code_ok v a then 0 else 1)"
  by (auto simp: verify_address_has_code_def code_ok_def split: option.splits)

text \<open>The address at a path of the artifact, where there is one.\<close>

definition address_at :: "ext \<Rightarrow> toml \<Rightarrow> string list \<Rightarrow> address option" where
  "address_at E root path = do {
     v \<leftarrow> toml_path root path;
     raw \<leftarrow> as_str v;
     address_from_str E raw }"

lemma required_address_simps [simp]:
  "val (required_address_at E root path) = address_at E root path"
  "out (required_address_at E root path) = (if address_at E root path = None then [Error_line] else [])"
  "clean (required_address_at E root path) \<longleftrightarrow> address_at E root path \<noteq> None"
  by (auto simp: required_address_at_def address_at_def split: option.splits)

lemma required_ctm_address_simps [simp]:
  "val (required_ctm_address E ctm path) = address_at E (ctm_value ctm) path"
  "out (required_ctm_address E ctm path) = (if address_at E (ctm_value ctm) path = None then [Error_line] else [])"
  "clean (required_ctm_address E ctm path) \<longleftrightarrow> address_at E (ctm_value ctm) path \<noteq> None"
  by (simp_all add: required_ctm_address_def)

lemma required_core_address_simps [simp]:
  "val (required_core_address E art path) = address_at E (core art) path"
  "out (required_core_address E art path) = (if address_at E (core art) path = None then [Error_line] else [])"
  "clean (required_core_address E art path) \<longleftrightarrow> address_at E (core art) path \<noteq> None"
  by (simp_all add: required_core_address_def)

text \<open>The hex comparison ignores a leading \<open>0x\<close> of the expected side and the case of both.\<close>

lemma clean_hex_equal:
  "clean (expect_hex_equal (''0x'' @ x) y) \<longleftrightarrow> map to_ascii_lowercase y = map to_ascii_lowercase x"
  "\<not> starts_with ''0x'' x \<Longrightarrow>
    clean (expect_hex_equal x y) \<longleftrightarrow> map to_ascii_lowercase y = map to_ascii_lowercase x"
  by (auto simp: expect_hex_equal_def Let_def eq_ignore_ascii_case_def strip_prefix_def)

end
