(* ===== verification/Facet_Cut_Set.thy ===== *)
theory Facet_Cut_Set
  imports Prelude "HOL-Library.List_Lexorder"
begin

section \<open>Sets of facet cuts\<close>

text \<open>
  \<^verbatim>\<open>v31/utils/facet_cut_set.rs\<close>: the set of facet changes two diamond cuts are compared by. A
  \<^verbatim>\<open>HashSet\<close> is a HOL set; iteration order never shows. The lemmas give that the
  comparison ignores order and repetition, and that the \<^verbatim>\<open>Ord\<close> instance is only a preorder.
\<close>

datatype action = Add | Remove

record facet_info =
  facet :: address
  action :: action
  is_freezable :: bool
  selectors :: "selector set"

type_synonym facet_cut_set = "facet_info set"

definition facet_cut_set_new :: facet_cut_set where
  "facet_cut_set_new = {}"

definition add_facet :: "facet_info \<Rightarrow> facet_cut_set \<Rightarrow> facet_cut_set" where
  "add_facet f s = insert f s"

text \<open>\<^verbatim>\<open>merge\<close> inserts the elements of the other set one by one, in its iteration order.\<close>

definition merge_in_order :: "facet_info list \<Rightarrow> facet_cut_set \<Rightarrow> facet_cut_set" where
  "merge_in_order another s = fold add_facet another s"

definition merge :: "facet_cut_set \<Rightarrow> facet_cut_set \<Rightarrow> facet_cut_set" where
  "merge s another = s \<union> another"

text \<open>The bytes fed to the hasher: the fields, then the selectors in sorted order.\<close>

definition hash_input :: "facet_info \<Rightarrow> address \<times> action \<times> bool \<times> selector list" where
  "hash_input f = (facet f, action f, is_freezable f, sorted_list_of_set (selectors f))"

datatype ordering = Less | Equal | Greater

definition facet_cut_set_cmp :: "facet_cut_set \<Rightarrow> facet_cut_set \<Rightarrow> ordering" where
  "facet_cut_set_cmp a b = (if card a < card b then Less else if card a = card b then Equal else Greater)"

definition facet_cut_set_eq :: "facet_cut_set \<Rightarrow> facet_cut_set \<Rightarrow> bool" where
  "facet_cut_set_eq a b \<longleftrightarrow> a = b"

section \<open>Properties\<close>

lemma merge_in_order_set: "merge_in_order fs s = merge s (set fs)"
  by (induction fs arbitrary: s) (auto simp: merge_in_order_def merge_def add_facet_def)

text \<open>Any enumeration of the other set gives the same merge.\<close>

lemma merge_order_irrelevant: "set fs = set gs \<Longrightarrow> merge_in_order fs s = merge_in_order gs s"
  by (simp add: merge_in_order_set)

lemma hash_input_inject:
  assumes "finite (selectors f)" "finite (selectors g)"
  shows "hash_input f = hash_input g \<longleftrightarrow> f = g"
proof
  assume "hash_input f = hash_input g"
  then have "facet f = facet g" "action f = action g" "is_freezable f = is_freezable g"
    "selectors f = selectors g"
    using assms by (auto simp: hash_input_def sorted_list_of_set_inject)
  then show "f = g" by simp
qed simp

lemma cmp_preorder:
  "facet_cut_set_cmp a a = Equal"
  "facet_cut_set_cmp a b = Less \<longleftrightarrow> facet_cut_set_cmp b a = Greater"
  "facet_cut_set_cmp a b = Equal \<Longrightarrow> facet_cut_set_cmp b c = Equal \<Longrightarrow> facet_cut_set_cmp a c = Equal"
  by (auto simp: facet_cut_set_cmp_def split: if_splits)

end
