(* ===== verification/Facet_Cuts.thy ===== *)
theory Facet_Cuts
  imports Governance_Helpers Facet_Cut_Set
begin

section \<open>Diamond cuts\<close>

text \<open>
  \<^verbatim>\<open>governance_stage_calls/facets.rs\<close>: the facet cuts of an upgrade and of chain creation are
  compared with sets reconstructed from live bytecode and from the facets a representative chain
  has now. Its \<^verbatim>\<open>verify_default_upgrade_payload\<close> is modelled in \<open>Upgrade_Payload\<close>. The main lemmas say
  that a cut passes exactly when every piece of the reconstruction succeeded, the cut is
  well-formed and the two sets are equal.
\<close>

text \<open>\<^verbatim>\<open>Action\<close> as \<^verbatim>\<open>sol!\<close> generates it, with its catch-all for other encodings.\<close>

datatype sol_action = Sol_Add | Sol_Replace | Sol_Remove | Sol_Invalid

record facet_cut =
  cut_facet :: address
  cut_action :: sol_action
  isFreezable :: bool
  cut_selectors :: "selector list"

record diamond_cut_data_call =
  facetCuts :: "facet_cut list"
  initAddress :: address
  initCalldata :: bytes

definition EXPECTED_V31_UPGRADE_FACETS :: "(string \<times> bool) list" where
  "EXPECTED_V31_UPGRADE_FACETS =
     [(''admin_facet_addr'', False), (''getters_facet_addr'', False), (''mailbox_facet_addr'', True),
      (''executor_facet_addr'', True), (''migrator_facet_addr'', False), (''committer_facet_addr'', True)]"

definition GET_NAME_SELECTOR :: selector where
  "GET_NAME_SELECTOR = [0x17, 0xd7, 0xde, 0x7c]"

definition facet_selectors_from_bytecode :: "ext \<Rightarrow> bytes \<Rightarrow> selector set" where
  "facet_selectors_from_bytecode E bytecode =
     set (filter (\<lambda>selector. selector \<noteq> GET_NAME_SELECTOR)
       (case evmole_selectors E bytecode of Some fs \<Rightarrow> fs | None \<Rightarrow> []))"

subsection \<open>The proposed cut of an upgrade\<close>

definition cut_info :: "facet_cut \<Rightarrow> action \<Rightarrow> facet_info" where
  "cut_info c a = \<lparr>facet = cut_facet c, action = a, is_freezable = isFreezable c,
     selectors = set (cut_selectors c)\<rparr>"

definition proposed_step :: "facet_cut \<Rightarrow> bool \<times> facet_cut_set \<Rightarrow> (bool \<times> facet_cut_set) vr" where
  "proposed_step c st = (let (used_add, proposed) = st in
     case cut_action c of
       Sol_Add \<Rightarrow> State_Monad.return (True, add_facet (cut_info c Add) proposed)
     | Sol_Remove \<Rightarrow> do {
         (if used_add then report_error else State_Monad.return ());
         (if cut_facet c \<noteq> 0 then report_error else State_Monad.return ());
         State_Monad.return (used_add, add_facet (cut_info c Remove) proposed) }
     | Sol_Replace \<Rightarrow> do { report_error; State_Monad.return (used_add, proposed) }
     | Sol_Invalid \<Rightarrow> do { report_error; State_Monad.return (used_add, proposed) })"

definition proposed_upgrade_facet_cut_set :: "facet_cut list \<Rightarrow> facet_cut_set vr" where
  "proposed_upgrade_facet_cut_set facet_cuts = do {
     r \<leftarrow> foldM proposed_step facet_cuts (False, facet_cut_set_new);
     State_Monad.return (snd r) }"

subsection \<open>The facets v31 adds\<close>

definition expected_added_facet ::
    "ext \<Rightarrow> ctm_artifact \<Rightarrow> verifiers \<Rightarrow> string \<times> bool \<Rightarrow> facet_info option vr" where
  "expected_added_facet E ctm v name_freezable = (let (facet_name, freezable) = name_freezable in do {
     facet_address \<leftarrow> required_ctm_address E ctm [''state_transition'', facet_name];
     (case facet_address of None \<Rightarrow> State_Monad.return None
      | Some a \<Rightarrow>
        (case get_code_at (l1_provider (network v)) a of
           None \<Rightarrow> do { report_error; State_Monad.return None }
         | Some bytecode \<Rightarrow>
             if bytecode = [] then do { report_error; State_Monad.return None }
             else (let sels = facet_selectors_from_bytecode E bytecode in
               if sels = {} then do { report_error; State_Monad.return None }
               else State_Monad.return (Some \<lparr>facet = a, action = Add, is_freezable = freezable,
                 selectors = sels\<rparr>)))) })"

definition expected_v31_added_facets :: "ext \<Rightarrow> ctm_artifact \<Rightarrow> verifiers \<Rightarrow> facet_cut_set res vr" where
  "expected_v31_added_facets E ctm v = liftM (foldM (\<lambda>nf s. do {
     r \<leftarrow> expected_added_facet E ctm v nf;
     State_Monad.return (case r of None \<Rightarrow> s | Some f \<Rightarrow> add_facet f s) })
     EXPECTED_V31_UPGRADE_FACETS facet_cut_set_new)"

subsection \<open>The representative chain\<close>

definition inspect_chain_for_facet_cut_reconstruction ::
    "u256 \<Rightarrow> address \<Rightarrow> u256 \<Rightarrow> verifiers \<Rightarrow> (u256 \<times> address) option" where
  "inspect_chain_for_facet_cut_reconstruction chain_id expected_ctm expected_protocol v =
     (case try_get_chain_type_manager_from_bridgehub (network v) (bridgehub_address v) chain_id of
        Inl _ \<Rightarrow> None
      | Inr chain_ctm \<Rightarrow> if chain_ctm \<noteq> expected_ctm then None else
        (case try_get_chain_diamond_from_bridgehub (network v) (bridgehub_address v) chain_id of
           Inl _ \<Rightarrow> None
         | Inr diamond \<Rightarrow> if diamond = 0 then None else
           (case try_get_chain_protocol_version (network v) diamond of
              Inl _ \<Rightarrow> None
            | Inr protocol \<Rightarrow> if protocol \<noteq> expected_protocol then None else Some (chain_id, diamond))))"

definition find_representative_chain_diamond ::
    "ext \<Rightarrow> ctm_artifact \<Rightarrow> verifiers \<Rightarrow> (u256 \<times> address) option vr" where
  "find_representative_chain_diamond E ctm v = do {
     ctm_proxy \<leftarrow> required_ctm_address E ctm [''state_transition'', ''chain_type_manager_proxy''];
     (case ctm_proxy of None \<Rightarrow> State_Monad.return None
      | Some p \<Rightarrow>
        (let expected_protocol = ucast (old_protocol_version (ctm_contracts_config ctm));
             inspect = (\<lambda>chain_id. inspect_chain_for_facet_cut_reconstruction chain_id p expected_protocol v) in
         case (if flavor ctm = Era then inspect (ucast (registered_era_chain_id v)) else None) of
           Some representative \<Rightarrow> State_Monad.return (Some representative)
         | None \<Rightarrow>
           (case try_get_all_zk_chain_ids (network v) (bridgehub_address v) of
              Inl _ \<Rightarrow> do { report_warn; State_Monad.return None }
            | Inr chain_ids \<Rightarrow> State_Monad.return (first_some inspect chain_ids)))) }"

subsection \<open>Comparison\<close>

definition removed_facets :: "current_facet list \<Rightarrow> facet_cut_set" where
  "removed_facets current_facets = fold (\<lambda>f s. add_facet \<lparr>facet = 0, action = Remove,
     is_freezable = False, selectors = set (facet_selectors f)\<rparr> s) current_facets facet_cut_set_new"

definition expected_v31_upgrade_facet_cuts ::
    "ext \<Rightarrow> ctm_artifact \<Rightarrow> verifiers \<Rightarrow> (facet_cut_set \<times> u256) option res vr" where
  "expected_v31_upgrade_facet_cuts E ctm v =
     tryM (expected_v31_added_facets E ctm v) (\<lambda>added_facets.
     tryM (liftM (find_representative_chain_diamond E ctm v)) (\<lambda>representative.
     case representative of
       None \<Rightarrow> tryM (State_Monad.return (protocol_label E (ucast (old_protocol_version (ctm_contracts_config ctm))))) (\<lambda>_.
         liftM (do { report_error; State_Monad.return None }))
     | Some (chain_id, diamond) \<Rightarrow>
       (case GettersFacet_facets (l1_provider (network v)) diamond of
          None \<Rightarrow> liftM (do { report_error; State_Monad.return None })
        | Some current_facets \<Rightarrow> okM (Some (merge (removed_facets current_facets) added_facets, chain_id)))))"

definition upgrade_compare :: "facet_cut_set \<Rightarrow> (facet_cut_set \<times> u256) option \<Rightarrow> unit vr" where
  "upgrade_compare proposed expected = (case expected of
     Some (expected_facet_cuts, chain_id) \<Rightarrow>
       if facet_cut_set_eq proposed expected_facet_cuts then report_ok else report_error
   | None \<Rightarrow> State_Monad.return ())"

definition verify_v31_upgrade_facet_cuts ::
    "ext \<Rightarrow> facet_cut list \<Rightarrow> ctm_artifact \<Rightarrow> verifiers \<Rightarrow> nat res vr" where
  "verify_v31_upgrade_facet_cuts E facet_cuts ctm v = errors_during_res (
     tryM (liftM (proposed_upgrade_facet_cut_set facet_cuts)) (\<lambda>proposed.
     tryM (expected_v31_upgrade_facet_cuts E ctm v) (\<lambda>expected.
     liftM (upgrade_compare proposed expected))))"

definition creation_step :: "facet_cut \<Rightarrow> facet_cut_set \<times> nat \<Rightarrow> (facet_cut_set \<times> nat) vr" where
  "creation_step c st = (case cut_action c of
     Sol_Add \<Rightarrow> State_Monad.return (add_facet (cut_info c Add) (fst st), snd st)
   | Sol_Remove \<Rightarrow> do { report_error; State_Monad.return (fst st, snd st + 1) }
   | Sol_Replace \<Rightarrow> do { report_error; State_Monad.return (fst st, snd st + 1) }
   | Sol_Invalid \<Rightarrow> do { report_error; State_Monad.return (fst st, snd st + 1) })"

definition creation_compare :: "facet_cut_set \<Rightarrow> facet_cut_set \<times> nat \<Rightarrow> nat vr" where
  "creation_compare expected st = (let (proposed, errors) = st in
     if \<not> facet_cut_set_eq expected proposed then do { report_error; State_Monad.return (errors + 1) }
     else do {
       (if errors = 0 then report_ok else State_Monad.return ());
       State_Monad.return errors })"

definition verify_v31_chain_creation_facet_cuts ::
    "ext \<Rightarrow> facet_cut list \<Rightarrow> ctm_artifact \<Rightarrow> verifiers \<Rightarrow> nat vr" where
  "verify_v31_chain_creation_facet_cuts E facet_cuts ctm v = do {
     r \<leftarrow> expected_v31_added_facets E ctm v;
     (case r of
        Inl _ \<Rightarrow> do { report_error; State_Monad.return 1 }
      | Inr expected \<Rightarrow> do {
          st \<leftarrow> foldM creation_step facet_cuts (facet_cut_set_new, 0);
          creation_compare expected st }) }"

section \<open>Well-formed cuts\<close>

text \<open>An upgrade cut: removals of the zero facet, then additions, nothing else.\<close>

definition is_removal :: "facet_cut \<Rightarrow> bool" where
  "is_removal c \<longleftrightarrow> cut_action c = Sol_Remove \<and> cut_facet c = 0"

definition upgrade_cut_form :: "facet_cut list \<Rightarrow> bool" where
  "upgrade_cut_form cs \<longleftrightarrow> (\<exists>rs as. cs = rs @ as \<and> (\<forall>c \<in> set rs. is_removal c)
     \<and> (\<forall>c \<in> set as. cut_action c = Sol_Add))"

text \<open>What a list of cuts proposes: its additions and removals as a set.\<close>

definition proposes :: "facet_cut list \<Rightarrow> facet_cut_set" where
  "proposes cs = {cut_info c Add | c. c \<in> set cs \<and> cut_action c = Sol_Add}
     \<union> {cut_info c Remove | c. c \<in> set cs \<and> cut_action c = Sol_Remove}"

lemma writer_proposed_step [simp, writer_intros]: "writer (proposed_step c st)"
  by (auto simp: proposed_step_def split: sol_action.splits prod.splits)

lemma writer_proposed [simp, writer_intros]: "writer (proposed_upgrade_facet_cut_set cs)"
  by (simp add: proposed_upgrade_facet_cut_set_def)

lemma val_proposed_step:
  "val (proposed_step c (u, s)) = (u \<or> cut_action c = Sol_Add, s \<union> proposes [c])"
  by (cases "cut_action c") (auto simp: proposed_step_def proposes_def add_facet_def)

lemma clean_proposed_step:
  "clean (proposed_step c (u, s)) \<longleftrightarrow> cut_action c = Sol_Add \<or> is_removal c \<and> \<not> u"
  by (cases "cut_action c") (auto simp: proposed_step_def is_removal_def)

lemma proposes_Cons: "proposes (c # cs) = proposes [c] \<union> proposes cs"
  by (auto simp: proposes_def)

lemma proposes_steps:
  "proposes [] = {}"
  "proposes (c # cs) = (case cut_action c of Sol_Add \<Rightarrow> insert (cut_info c Add) (proposes cs)
     | Sol_Remove \<Rightarrow> insert (cut_info c Remove) (proposes cs) | _ \<Rightarrow> proposes cs)"
  by (auto simp: proposes_def split: sol_action.splits)

lemma val_proposed_loop: "snd (val (foldM proposed_step cs (u, s))) = s \<union> proposes cs"
proof (induction cs arbitrary: u s)
  case Nil
  show ?case by (simp add: proposes_def)
next
  case (Cons c cs)
  show ?case
    using Cons.IH [of "u \<or> cut_action c = Sol_Add" "s \<union> proposes [c]"]
    by (simp add: val_proposed_step proposes_Cons [of c cs] Un_assoc)
qed

lemma upgrade_cut_form_Cons:
  "upgrade_cut_form (c # cs) \<longleftrightarrow> is_removal c \<and> upgrade_cut_form cs
     \<or> cut_action c = Sol_Add \<and> (\<forall>d \<in> set cs. cut_action d = Sol_Add)"
  (is "?l \<longleftrightarrow> ?r")
proof
  assume ?l
  then obtain rs as where f: "c # cs = rs @ as" "\<forall>c \<in> set rs. is_removal c" "\<forall>c \<in> set as. cut_action c = Sol_Add"
    by (auto simp: upgrade_cut_form_def)
  show ?r
  proof (cases rs)
    case Nil
    then show ?thesis using f by (metis append_Nil list.set_intros)
  next
    case (Cons r rs')
    then have "is_removal c" "cs = rs' @ as" "\<forall>c \<in> set rs'. is_removal c"
      using f by simp_all
    then show ?thesis
      using f(3) unfolding upgrade_cut_form_def by blast
  qed
next
  assume ?r
  then show ?l
  proof
    assume a: "is_removal c \<and> upgrade_cut_form cs"
    then obtain rs as where "cs = rs @ as" "\<forall>c \<in> set rs. is_removal c" "\<forall>c \<in> set as. cut_action c = Sol_Add"
      by (auto simp: upgrade_cut_form_def)
    with a show ?l
      unfolding upgrade_cut_form_def by (intro exI [of _ "c # rs"] exI [of _ as]) simp
  next
    assume "cut_action c = Sol_Add \<and> (\<forall>d \<in> set cs. cut_action d = Sol_Add)"
    then show ?l
      unfolding upgrade_cut_form_def by (intro exI [of _ "[]"] exI [of _ "c # cs"]) simp
  qed
qed

lemma clean_proposed_loop:
  "clean (foldM proposed_step cs (u, s))
    \<longleftrightarrow> (if u then \<forall>c \<in> set cs. cut_action c = Sol_Add else upgrade_cut_form cs)"
proof (induction cs arbitrary: u s)
  case Nil
  show ?case by (simp add: upgrade_cut_form_def)
next
  case (Cons c cs)
  show ?case
    using Cons.IH [of "u \<or> cut_action c = Sol_Add" "s \<union> proposes [c]"]
    by (auto simp: val_proposed_step clean_proposed_step upgrade_cut_form_Cons is_removal_def)
qed

lemma proposed_simps [simp]:
  "val (proposed_upgrade_facet_cut_set cs) = proposes cs"
  "clean (proposed_upgrade_facet_cut_set cs) \<longleftrightarrow> upgrade_cut_form cs"
  by (simp_all add: proposed_upgrade_facet_cut_set_def val_proposed_loop clean_proposed_loop facet_cut_set_new_def)

section \<open>The reconstruction\<close>

text \<open>The facet an artifact entry stands for, when its address, code and selectors are found.\<close>

definition added_facet :: "ext \<Rightarrow> ctm_artifact \<Rightarrow> verifiers \<Rightarrow> string \<times> bool \<Rightarrow> facet_info option" where
  "added_facet E ctm v nf = do {
     a \<leftarrow> address_at E (ctm_value ctm) [''state_transition'', fst nf];
     code \<leftarrow> get_code_at (l1_provider (network v)) a;
     (if code = [] \<or> facet_selectors_from_bytecode E code = {} then None
      else Some \<lparr>facet = a, action = Add, is_freezable = snd nf,
        selectors = facet_selectors_from_bytecode E code\<rparr>) }"

definition added_facets :: "ext \<Rightarrow> ctm_artifact \<Rightarrow> verifiers \<Rightarrow> facet_cut_set" where
  "added_facets E ctm v = {f. \<exists>nf \<in> set EXPECTED_V31_UPGRADE_FACETS. added_facet E ctm v nf = Some f}"

definition all_facets_found :: "ext \<Rightarrow> ctm_artifact \<Rightarrow> verifiers \<Rightarrow> bool" where
  "all_facets_found E ctm v \<longleftrightarrow> (\<forall>nf \<in> set EXPECTED_V31_UPGRADE_FACETS. added_facet E ctm v nf \<noteq> None)"

lemma expected_added_facet_simps [simp]:
  "writer (expected_added_facet E ctm v nf)"
  "val (expected_added_facet E ctm v nf) = added_facet E ctm v nf"
  "clean (expected_added_facet E ctm v nf) \<longleftrightarrow> added_facet E ctm v nf \<noteq> None"
  by (cases nf; cases "address_at E (ctm_value ctm) [''state_transition'', fst nf]";
      auto simp: expected_added_facet_def added_facet_def Let_def split: option.splits)+

lemma fold_collect_some:
  "fold (\<lambda>x s. case g x of None \<Rightarrow> s | Some f \<Rightarrow> add_facet f s) xs s = s \<union> {f. \<exists>x \<in> set xs. g x = Some f}"
  by (induction xs arbitrary: s) (auto simp: add_facet_def split: option.splits)

lemma expected_added_simps [simp]:
  "writer (expected_v31_added_facets E ctm v)"
  "val (expected_v31_added_facets E ctm v) = Inr (added_facets E ctm v)"
  "clean (expected_v31_added_facets E ctm v) \<longleftrightarrow> all_facets_found E ctm v"
  using foldM_collect [of "expected_added_facet E ctm v" "\<lambda>r s. case r of None \<Rightarrow> s | Some f \<Rightarrow> add_facet f s"
      EXPECTED_V31_UPGRADE_FACETS facet_cut_set_new]
  by (simp_all add: expected_v31_added_facets_def fold_collect_some added_facets_def all_facets_found_def
      facet_cut_set_new_def)

text \<open>The chain whose present facets are removed.\<close>

definition representative :: "ext \<Rightarrow> ctm_artifact \<Rightarrow> verifiers \<Rightarrow> (u256 \<times> address) option" where
  "representative E ctm v = val (find_representative_chain_diamond E ctm v)"

lemma find_representative_simps [simp]:
  "writer (find_representative_chain_diamond E ctm v)"
  "val (find_representative_chain_diamond E ctm v) = representative E ctm v"
  "representative E ctm v \<noteq> None \<Longrightarrow> clean (find_representative_chain_diamond E ctm v)"
  by (auto simp: find_representative_chain_diamond_def Let_def representative_def
      split: option.splits sum.splits)

lemma first_some_eq_Some: "first_some f xs = Some y \<Longrightarrow> \<exists>x \<in> set xs. f x = Some y"
  by (induction xs) (auto split: option.splits)

text \<open>A representative is a live chain of this CTM at the version the artifact upgrades from.\<close>

lemma representative_sound:
  assumes "representative E ctm v = Some (chain_id, diamond)"
  shows "address_at E (ctm_value ctm) [''state_transition'', ''chain_type_manager_proxy'']
      = Bridgehub_chainTypeManager (l1_provider (network v)) (bridgehub_address v) chain_id"
    and "Bridgehub_getZKChain (l1_provider (network v)) (bridgehub_address v) chain_id = Some diamond"
    and "diamond \<noteq> 0"
    and "ZKChain_getProtocolVersion (l1_provider (network v)) diamond
      = Some (ucast (old_protocol_version (ctm_contracts_config ctm)))"
proof -
  obtain p where p: "address_at E (ctm_value ctm) [''state_transition'', ''chain_type_manager_proxy''] = Some p"
    and insp: "\<exists>i. inspect_chain_for_facet_cut_reconstruction i p
      (ucast (old_protocol_version (ctm_contracts_config ctm))) v = Some (chain_id, diamond)"
    using assms
    by (cases "address_at E (ctm_value ctm) [''state_transition'', ''chain_type_manager_proxy'']")
      (auto simp: representative_def find_representative_chain_diamond_def Let_def
        dest!: first_some_eq_Some split: option.splits sum.splits if_splits)
  then show "address_at E (ctm_value ctm) [''state_transition'', ''chain_type_manager_proxy'']
      = Bridgehub_chainTypeManager (l1_provider (network v)) (bridgehub_address v) chain_id"
    "Bridgehub_getZKChain (l1_provider (network v)) (bridgehub_address v) chain_id = Some diamond"
    "diamond \<noteq> 0"
    "ZKChain_getProtocolVersion (l1_provider (network v)) diamond
      = Some (ucast (old_protocol_version (ctm_contracts_config ctm)))"
    by (auto simp: inspect_chain_for_facet_cut_reconstruction_def try_get_chain_type_manager_from_bridgehub_def
        try_get_chain_diamond_from_bridgehub_def try_get_chain_protocol_version_def ok_or_def
        split: option.splits if_splits)
qed

lemma removed_facets_map:
  "removed_facets fs = (\<lambda>f. \<lparr>facet = 0, action = Remove, is_freezable = False, selectors = set (facet_selectors f)\<rparr>) ` set fs"
proof -
  have "fold (\<lambda>f s. add_facet (g f) s) fs s = s \<union> g ` set fs" for g :: "current_facet \<Rightarrow> facet_info" and s
    by (induction fs arbitrary: s) (auto simp: add_facet_def)
  then show ?thesis
    by (simp add: removed_facets_def facet_cut_set_new_def)
qed

section \<open>The verdicts\<close>

lemma writer_expected_upgrade [simp, writer_intros]: "writer (expected_v31_upgrade_facet_cuts E ctm v)"
  unfolding expected_v31_upgrade_facet_cuts_def by (auto split: option.splits prod.splits)

lemma upgrade_compare_simps [simp]:
  "writer (upgrade_compare p e)"
  "clean (upgrade_compare p e) \<longleftrightarrow> map_option fst e \<in> {None, Some p}"
  by (auto simp: upgrade_compare_def facet_cut_set_eq_def split: option.splits)

lemma writer_facet_verdicts [simp, writer_intros]: "writer (verify_v31_upgrade_facet_cuts E cs ctm v)"
  by (simp add: verify_v31_upgrade_facet_cuts_def)

text \<open>The set an upgrade cut must equal, when it can be reconstructed.\<close>

definition upgrade_target :: "ext \<Rightarrow> ctm_artifact \<Rightarrow> verifiers \<Rightarrow> facet_cut_set option" where
  "upgrade_target E ctm v = do {
     r \<leftarrow> representative E ctm v;
     fs \<leftarrow> GettersFacet_facets (l1_provider (network v)) (snd r);
     Some (removed_facets fs \<union> added_facets E ctm v) }"

definition upgrade_cuts_ok :: "ext \<Rightarrow> facet_cut list \<Rightarrow> ctm_artifact \<Rightarrow> verifiers \<Rightarrow> bool" where
  "upgrade_cuts_ok E cs ctm v \<longleftrightarrow> upgrade_cut_form cs \<and> all_facets_found E ctm v
     \<and> upgrade_target E ctm v = Some (proposes cs)"

lemma expected_upgrade_run:
  assumes "shifts_by_limb E"
  shows "\<exists>r. val (expected_v31_upgrade_facet_cuts E ctm v) = Inr r \<and> map_option fst r = upgrade_target E ctm v"
    and "clean (expected_v31_upgrade_facet_cuts E ctm v) \<longleftrightarrow> all_facets_found E ctm v \<and> upgrade_target E ctm v \<noteq> None"
proof -
  obtain s where s: "protocol_label E (ucast (old_protocol_version (ctm_contracts_config ctm))) = Inr s"
    using protocol_label_total [OF assms] by blast
  show "\<exists>r. val (expected_v31_upgrade_facet_cuts E ctm v) = Inr r \<and> map_option fst r = upgrade_target E ctm v"
    "clean (expected_v31_upgrade_facet_cuts E ctm v) \<longleftrightarrow> all_facets_found E ctm v \<and> upgrade_target E ctm v \<noteq> None"
    by (cases "representative E ctm v";
        auto simp: expected_v31_upgrade_facet_cuts_def upgrade_target_def s merge_def
          split: option.splits prod.splits)+
qed

lemma upgrade_cuts_run:
  assumes "shifts_by_limb E"
  shows "clean (verify_v31_upgrade_facet_cuts E cs ctm v) \<longleftrightarrow> upgrade_cuts_ok E cs ctm v"
    and "\<exists>n. val (verify_v31_upgrade_facet_cuts E cs ctm v) = Inr n \<and> (n = 0 \<longleftrightarrow> upgrade_cuts_ok E cs ctm v)"
proof -
  define body where "body = tryM (liftM (proposed_upgrade_facet_cut_set cs)) (\<lambda>proposed.
     tryM (expected_v31_upgrade_facet_cuts E ctm v) (\<lambda>expected. liftM (upgrade_compare proposed expected)))"
  obtain r where r: "val (expected_v31_upgrade_facet_cuts E ctm v) = Inr r" "map_option fst r = upgrade_target E ctm v"
    using expected_upgrade_run(1) [OF assms] by blast
  have w: "writer body" and val: "val body = Inr ()"
    using r(1) by (simp_all add: body_def)
  have clean: "clean body \<longleftrightarrow> upgrade_cuts_ok E cs ctm v"
    using r by (auto simp: body_def upgrade_cuts_ok_def expected_upgrade_run(2) [OF assms])
  have run: "verify_v31_upgrade_facet_cuts E cs ctm v = errors_during_res body"
    by (simp add: verify_v31_upgrade_facet_cuts_def body_def)
  show "clean (verify_v31_upgrade_facet_cuts E cs ctm v) \<longleftrightarrow> upgrade_cuts_ok E cs ctm v"
    by (simp add: run w clean)
  show "\<exists>n. val (verify_v31_upgrade_facet_cuts E cs ctm v) = Inr n \<and> (n = 0 \<longleftrightarrow> upgrade_cuts_ok E cs ctm v)"
    using clean by (simp add: run w val clean_count)
qed

text \<open>Chain creation: all cuts add, and together they are the six facets.\<close>

lemma writer_creation_parts [simp, writer_intros]:
  "writer (creation_step c st)" "writer (creation_compare expected st)"
  by (auto simp: creation_step_def creation_compare_def Let_def split: sol_action.splits prod.splits)

lemma creation_compare_run:
  "val (creation_compare expected (proposed, n)) = n + (if proposed = expected then 0 else 1)"
  "clean (creation_compare expected (proposed, n)) \<longleftrightarrow> proposed = expected"
  by (auto simp: creation_compare_def facet_cut_set_eq_def)

lemma writer_creation [simp, writer_intros]: "writer (verify_v31_chain_creation_facet_cuts E cs ctm v)"
  unfolding verify_v31_chain_creation_facet_cuts_def by (auto split: sum.splits)

definition additions :: "facet_cut list \<Rightarrow> facet_cut_set" where
  "additions cs = {cut_info c Add | c. c \<in> set cs \<and> cut_action c = Sol_Add}"

definition other_actions :: "facet_cut list \<Rightarrow> nat" where
  "other_actions cs = length (filter (\<lambda>c. cut_action c \<noteq> Sol_Add) cs)"

lemma creation_step_run:
  "val (creation_step c (s, n)) = (s \<union> additions [c], n + other_actions [c])"
  "clean (creation_step c (s, n)) \<longleftrightarrow> other_actions [c] = 0"
  by (cases "cut_action c"; auto simp: creation_step_def additions_def other_actions_def add_facet_def)+

lemma additions_Cons: "additions (c # cs) = additions [c] \<union> additions cs"
  by (auto simp: additions_def)

lemma other_actions_Cons: "other_actions (c # cs) = other_actions [c] + other_actions cs"
  by (simp add: other_actions_def)

lemma creation_loop:
  "val (foldM creation_step cs (s, n)) = (s \<union> additions cs, n + other_actions cs)
    \<and> (clean (foldM creation_step cs (s, n)) \<longleftrightarrow> other_actions cs = 0)"
proof (induction cs arbitrary: s n)
  case Nil
  show ?case by (simp add: additions_def other_actions_def)
next
  case (Cons c cs)
  show ?case
    using Cons.IH [of "s \<union> additions [c]" "n + other_actions [c]"]
    by (simp add: creation_step_run additions_Cons [of c cs] other_actions_Cons [of c cs] Un_assoc)
qed

lemma creation_run:
  "val (verify_v31_chain_creation_facet_cuts E cs ctm v)
    = other_actions cs + (if additions cs = added_facets E ctm v then 0 else 1)"
  "clean (verify_v31_chain_creation_facet_cuts E cs ctm v)
    \<longleftrightarrow> all_facets_found E ctm v \<and> other_actions cs = 0 \<and> additions cs = added_facets E ctm v"
proof -
  have loop: "val (foldM creation_step cs (facet_cut_set_new, 0)) = (additions cs, other_actions cs)"
    "clean (foldM creation_step cs (facet_cut_set_new, 0)) \<longleftrightarrow> other_actions cs = 0"
    using creation_loop [of cs facet_cut_set_new 0] by (simp_all add: facet_cut_set_new_def)
  show "val (verify_v31_chain_creation_facet_cuts E cs ctm v)
    = other_actions cs + (if additions cs = added_facets E ctm v then 0 else 1)"
    by (simp add: verify_v31_chain_creation_facet_cuts_def loop creation_compare_run)
  show "clean (verify_v31_chain_creation_facet_cuts E cs ctm v)
    \<longleftrightarrow> all_facets_found E ctm v \<and> other_actions cs = 0 \<and> additions cs = added_facets E ctm v"
    by (simp add: verify_v31_chain_creation_facet_cuts_def loop creation_compare_run)
qed

text \<open>
  What is printed and what is counted: the errors of the lookup reach the report and not the
  returned count.
\<close>

definition facets_missing :: "ext \<Rightarrow> ctm_artifact \<Rightarrow> verifiers \<Rightarrow> nat" where
  "facets_missing E ctm v = length (filter (\<lambda>nf. added_facet E ctm v nf = None) EXPECTED_V31_UPGRADE_FACETS)"

lemma facets_missing_zero: "facets_missing E ctm v = 0 \<longleftrightarrow> all_facets_found E ctm v"
  by (auto simp: facets_missing_def all_facets_found_def filter_empty_conv)

lemma added_facet_lines:
  "count_list (out (expected_added_facet E ctm v nf)) Error_line = (if added_facet E ctm v nf = None then 1 else 0)"
  by (cases nf; cases "address_at E (ctm_value ctm) [''state_transition'', fst nf]")
     (auto simp: expected_added_facet_def added_facet_def Let_def split: option.splits)

lemma sum_list_indicator: "(\<Sum>x\<leftarrow>xs. if P x then 1 else 0 :: nat) = length (filter P xs)"
  by (induction xs) simp_all

lemma added_facets_lines: "count_list (out (expected_v31_added_facets E ctm v)) Error_line = facets_missing E ctm v"
  by (simp add: expected_v31_added_facets_def count_foldM_collect added_facet_lines sum_list_indicator
    facets_missing_def)

lemma creation_step_lines: "count_list (out (creation_step c st)) Error_line = other_actions [c]"
  by (cases "cut_action c") (auto simp: creation_step_def other_actions_def)

lemma creation_loop_lines: "count_list (out (foldM creation_step cs st)) Error_line = other_actions cs"
  by (induction cs arbitrary: st)
    (simp_all add: creation_step_lines other_actions_def)

lemma creation_compare_lines:
  "count_list (out (creation_compare expected (proposed, n))) Error_line = (if proposed = expected then 0 else 1)"
  by (auto simp: creation_compare_def facet_cut_set_eq_def)

lemma creation_lines:
  "count_list (out (verify_v31_chain_creation_facet_cuts E cs ctm v)) Error_line
    = val (verify_v31_chain_creation_facet_cuts E cs ctm v) + facets_missing E ctm v"
  using creation_loop [of cs facet_cut_set_new 0]
  by (simp add: creation_run verify_v31_chain_creation_facet_cuts_def added_facets_lines creation_loop_lines
      creation_compare_lines creation_compare_run facet_cut_set_new_def)

lemma yields_upgrade_cuts:
  assumes "shifts_by_limb E"
  shows "yields (verify_v31_upgrade_facet_cuts E cs ctm v) 0 \<longleftrightarrow> upgrade_cuts_ok E cs ctm v"
  using upgrade_cuts_run [OF assms, of cs ctm v] by (auto simp: yields_def)

definition creation_cuts_ok :: "ext \<Rightarrow> facet_cut list \<Rightarrow> ctm_artifact \<Rightarrow> verifiers \<Rightarrow> bool" where
  "creation_cuts_ok E cs ctm v \<longleftrightarrow> all_facets_found E ctm v \<and> (\<forall>c \<in> set cs. cut_action c = Sol_Add)
     \<and> additions cs = added_facets E ctm v"

lemma yields_creation_cuts:
  "yields (liftM (verify_v31_chain_creation_facet_cuts E cs ctm v)) 0 \<longleftrightarrow> creation_cuts_ok E cs ctm v"
  by (auto simp: creation_run creation_cuts_ok_def other_actions_def filter_empty_conv)

end
