(* ===== verification/Chain_Init.thy ===== *)
theory Chain_Init
  imports Verifiers
begin

section \<open>Chain-creation and force-deployment data\<close>

text \<open>
  \<^verbatim>\<open>elements/initialize_data_new_chain.rs\<close> and \<^verbatim>\<open>elements/fixed_force_deployment.rs\<close>: the
  three bytecode hashes a new chain starts from, and the data every upgraded chain force-deploys.
  The lemmas say exactly which data leaves the report without an error, and that the two unwraps
  of the force-deployment check never fire in a context built by \<^verbatim>\<open>Verifiers::new_v31\<close>.
\<close>

subsection \<open>InitializeDataNewChain\<close>

record initialize_data_new_chain =
  l2BootloaderBytecodeHash :: b256
  l2DefaultAccountBytecodeHash :: b256
  l2EvmEmulatorBytecodeHash :: b256

definition expect_zero :: "b256 \<Rightarrow> unit vr" where
  "expect_zero value = (if value = 0 then report_ok else report_error)"

fun initialize_data_verify :: "verifiers \<Rightarrow> initialize_data_new_chain \<Rightarrow> ctm_flavor \<Rightarrow> unit vr" where
  "initialize_data_verify v d Era = do {
     expect_zk_bytecode v (l2BootloaderBytecodeHash d) ''Bootloader'';
     expect_zk_bytecode v (l2DefaultAccountBytecodeHash d) ''system-contracts/DefaultAccount'';
     expect_zk_bytecode v (l2EvmEmulatorBytecodeHash d) ''EvmEmulator'' }"
| "initialize_data_verify v d ZksyncOs = do {
     expect_zero (l2BootloaderBytecodeHash d);
     expect_zero (l2DefaultAccountBytecodeHash d);
     expect_zero (l2EvmEmulatorBytecodeHash d) }"

subsection \<open>FixedForceDeploymentsData\<close>

definition SYSTEM_CONTRACT_PROXY_FILE :: string where
  "SYSTEM_CONTRACT_PROXY_FILE = ''l1-contracts/SystemContractProxy''"

definition BEACON_PROXY_FILE :: string where
  "BEACON_PROXY_FILE = ''l1-contracts/BeaconProxy''"

definition MAX_NUMBER_OF_ZK_CHAINS :: u32 where
  "MAX_NUMBER_OF_ZK_CHAINS = 100"

record fixed_force_deployments_data =
  l1ChainId :: u256
  eraChainId :: u256
  l1AssetRouter :: address
  l2TokenProxyBytecodeHash :: b256
  aliasedL1Governance :: address
  maxNumberOfZKChains :: u256
  bridgehubBytecodeInfo :: bytes
  l2AssetRouterBytecodeInfo :: bytes
  l2NtvBytecodeInfo :: bytes
  messageRootBytecodeInfo :: bytes
  chainAssetHandlerBytecodeInfo :: bytes
  interopCenterBytecodeInfo :: bytes
  interopHandlerBytecodeInfo :: bytes
  assetTrackerBytecodeInfo :: bytes
  beaconDeployerInfo :: bytes
  baseTokenHolderBytecodeInfo :: bytes
  l2SharedBridgeLegacyImpl :: address
  l2BridgedStandardERC20Impl :: address
  aliasedChainRegistrationSender :: address
  dangerousTestOnlyForcedBeacon :: address
  zkTokenAssetId :: b256

definition check_zksync_os_observable :: "verifiers \<Rightarrow> b256 \<Rightarrow> string \<Rightarrow> unit vr" where
  "check_zksync_os_observable v observable expected_file =
     (case evm_deployed_bytecode_hash_to_file (bytecodes v) observable of
        Some file \<Rightarrow> if file = expected_file then State_Monad.return () else report_error
      | None \<Rightarrow> report_error)"

definition expect_bytecode_info :: "verifiers \<Rightarrow> bytes \<Rightarrow> string \<Rightarrow> string \<Rightarrow> unit vr" where
  "expect_bytecode_info v info era_expected zksync_os_expected =
     (if length info = 32 then expect_zk_bytecode v (from_be_bytes info) era_expected
      else if length info = 96
      then check_zksync_os_observable v (from_be_bytes (slice 64 96 info)) zksync_os_expected
      else if length info = 320 then do {
        check_zksync_os_observable v (from_be_bytes (slice 160 192 info)) zksync_os_expected;
        check_zksync_os_observable v (from_be_bytes (slice 288 320 info)) SYSTEM_CONTRACT_PROXY_FILE }
      else report_error)"

definition check_l1_chain_id :: "verifiers \<Rightarrow> u256 \<Rightarrow> unit vr" where
  "check_l1_chain_id v chain_id = (case try_get_l1_chain_id (network v) of
     Inr expected \<Rightarrow> if ucast expected \<noteq> chain_id then report_error else report_ok
   | Inl _ \<Rightarrow> report_error)"

definition check_token_proxy_hash :: "verifiers \<Rightarrow> b256 \<Rightarrow> unit vr" where
  "check_token_proxy_hash v h =
     (let is_zk = (zk_bytecode_hash_to_file (bytecodes v) h = Some BEACON_PROXY_FILE);
          is_evm = (evm_deployed_bytecode_hash_to_file (bytecodes v) h = Some BEACON_PROXY_FILE)
      in if is_zk \<or> is_evm then State_Monad.return ()
         else if zk_bytecode_hash_to_file (bytecodes v) h \<noteq> None
           \<or> evm_deployed_bytecode_hash_to_file (bytecodes v) h \<noteq> None then report_error
         else report_error)"

text \<open>The ten bytecode infos in the order they are checked, with the file names for both flavors.\<close>

definition bytecode_info_checks :: "fixed_force_deployments_data \<Rightarrow> (bytes \<times> string \<times> string) list" where
  "bytecode_info_checks d =
     [(bridgehubBytecodeInfo d, ''l1-contracts/L2Bridgehub'', ''l1-contracts/L2Bridgehub''),
      (l2AssetRouterBytecodeInfo d, ''l1-contracts/L2AssetRouter'', ''l1-contracts/L2AssetRouter''),
      (l2NtvBytecodeInfo d, ''l1-contracts/L2NativeTokenVault'', ''l1-contracts/L2NativeTokenVaultZKOS''),
      (messageRootBytecodeInfo d, ''l1-contracts/L2MessageRoot'', ''l1-contracts/L2MessageRoot''),
      (chainAssetHandlerBytecodeInfo d, ''l1-contracts/L2ChainAssetHandler'', ''l1-contracts/L2ChainAssetHandler''),
      (interopCenterBytecodeInfo d, ''l1-contracts/InteropCenter'', ''l1-contracts/InteropCenter''),
      (interopHandlerBytecodeInfo d, ''l1-contracts/InteropHandler'', ''l1-contracts/InteropHandler''),
      (assetTrackerBytecodeInfo d, ''l1-contracts/L2AssetTracker'', ''l1-contracts/L2AssetTracker''),
      (beaconDeployerInfo d, ''l1-contracts/UpgradeableBeaconDeployer'', ''l1-contracts/UpgradeableBeaconDeployer''),
      (baseTokenHolderBytecodeInfo d, ''l1-contracts/BaseTokenHolder'', ''l1-contracts/BaseTokenHolder'')]"

definition report_unless :: "bool \<Rightarrow> unit vr" where
  "report_unless b = (if b then State_Monad.return () else report_error)"

definition force_deployments_verify :: "verifiers \<Rightarrow> fixed_force_deployments_data \<Rightarrow> unit res vr" where
  "force_deployments_verify v d =
     tryM (liftM (do {
       check_l1_chain_id v (l1ChainId d);
       (if ucast (legacy_era_chain_id v) \<noteq> eraChainId d then report_error else report_ok);
       expect_address v (l1AssetRouter d) ''l1_asset_router_proxy'';
       check_token_proxy_hash v (l2TokenProxyBytecodeHash d) })) (\<lambda>_.
     case get_by_name (address_book v) ''aliased_protocol_upgrade_handler_proxy'' of
       None \<Rightarrow> failM (Panic ''aliased_protocol_upgrade_handler_proxy must be registered by Verifiers::new_v31'')
     | Some expected_aliased_governance \<Rightarrow>
       tryM (liftM (do {
         report_unless (aliasedL1Governance d = expected_aliased_governance);
         report_unless (maxNumberOfZKChains d = ucast MAX_NUMBER_OF_ZK_CHAINS);
         forM (\<lambda>(info, era_expected, os_expected). expect_bytecode_info v info era_expected os_expected)
           (bytecode_info_checks d);
         expect_address v (l2SharedBridgeLegacyImpl d) ''zero'';
         expect_address v (l2BridgedStandardERC20Impl d) ''zero'' })) (\<lambda>_.
       case get_by_name (address_book v) ''chain_registration_sender_proxy'' of
         None \<Rightarrow> failM (Panic ''chain_registration_sender_proxy must be registered by Verifiers::new_v31'')
       | Some expected_chain_registration_sender \<Rightarrow>
         liftM (do {
           (if aliasedChainRegistrationSender d = apply_l2_to_l1_alias expected_chain_registration_sender
            then report_ok else report_error);
           report_unless (dangerousTestOnlyForcedBeacon d = 0);
           (if zkTokenAssetId d = zk_token_asset_id v then report_ok else report_error) })))"

section \<open>What passes\<close>

lemma expect_zero_simps [simp]: "writer (expect_zero h)" "clean (expect_zero h) \<longleftrightarrow> h = 0"
  by (auto simp: expect_zero_def)

lemma report_unless_simps [simp]: "writer (report_unless b)" "clean (report_unless b) \<longleftrightarrow> b"
  by (auto simp: report_unless_def)

definition initialize_data_ok :: "verifiers \<Rightarrow> initialize_data_new_chain \<Rightarrow> ctm_flavor \<Rightarrow> bool" where
  "initialize_data_ok v d f \<longleftrightarrow> (case f of
     Era \<Rightarrow> zk_bytecode_hash_to_file (bytecodes v) (l2BootloaderBytecodeHash d) = Some ''Bootloader''
       \<and> zk_bytecode_hash_to_file (bytecodes v) (l2DefaultAccountBytecodeHash d) = Some ''system-contracts/DefaultAccount''
       \<and> zk_bytecode_hash_to_file (bytecodes v) (l2EvmEmulatorBytecodeHash d) = Some ''EvmEmulator''
   | ZksyncOs \<Rightarrow> d = \<lparr>l2BootloaderBytecodeHash = 0, l2DefaultAccountBytecodeHash = 0, l2EvmEmulatorBytecodeHash = 0\<rparr>)"

lemma initialize_data_simps:
  "writer (initialize_data_verify v d f)" "clean (initialize_data_verify v d f) \<longleftrightarrow> initialize_data_ok v d f"
  by (cases f; cases d; simp add: initialize_data_ok_def)+

lemma observable_simps [simp]:
  "writer (check_zksync_os_observable v h f)"
  "clean (check_zksync_os_observable v h f) \<longleftrightarrow> evm_deployed_bytecode_hash_to_file (bytecodes v) h = Some f"
  by (auto simp: check_zksync_os_observable_def split: option.splits)

text \<open>
  A bytecode info passes as an Era hash, as a ZKsync OS triple whose last word is the hash of
  the expected code, or as an encoded pair of triples for an implementation and its proxy.
\<close>

definition bytecode_info_ok :: "verifiers \<Rightarrow> bytes \<Rightarrow> string \<Rightarrow> string \<Rightarrow> bool" where
  "bytecode_info_ok v info era_file os_file \<longleftrightarrow>
     (let evm = (\<lambda>i. evm_deployed_bytecode_hash_to_file (bytecodes v) (from_be_bytes (slice i (i + 32) info)))
      in length info = 32 \<and> zk_bytecode_hash_to_file (bytecodes v) (from_be_bytes info) = Some era_file
       \<or> length info = 96 \<and> evm 64 = Some os_file
       \<or> length info = 320 \<and> evm 160 = Some os_file \<and> evm 288 = Some SYSTEM_CONTRACT_PROXY_FILE)"

lemma bytecode_info_simps [simp]:
  "writer (expect_bytecode_info v info e z)"
  "clean (expect_bytecode_info v info e z) \<longleftrightarrow> bytecode_info_ok v info e z"
  by (auto simp: expect_bytecode_info_def bytecode_info_ok_def)

lemma l1_chain_id_simps [simp]:
  "writer (check_l1_chain_id v c)"
  "clean (check_l1_chain_id v c) \<longleftrightarrow> (\<exists>i. get_chain_id (l1_provider (network v)) = Some i \<and> c = ucast i)"
  by (cases "get_chain_id (l1_provider (network v))";
      auto simp: check_l1_chain_id_def try_get_l1_chain_id_def)+

lemma token_proxy_simps [simp]:
  "writer (check_token_proxy_hash v h)"
  "clean (check_token_proxy_hash v h) \<longleftrightarrow> zk_bytecode_hash_to_file (bytecodes v) h = Some BEACON_PROXY_FILE
     \<or> evm_deployed_bytecode_hash_to_file (bytecodes v) h = Some BEACON_PROXY_FILE"
  by (auto simp: check_token_proxy_hash_def Let_def)

text \<open>The data that passes, given the two addresses the check unwraps.\<close>

definition force_deployments_ok ::
    "verifiers \<Rightarrow> fixed_force_deployments_data \<Rightarrow> address \<Rightarrow> address \<Rightarrow> bool" where
  "force_deployments_ok v d aliased_governance registration_sender \<longleftrightarrow>
     (\<exists>i. get_chain_id (l1_provider (network v)) = Some i \<and> l1ChainId d = ucast i)
   \<and> eraChainId d = ucast (legacy_era_chain_id v)
   \<and> get_by_name (address_book v) ''l1_asset_router_proxy'' = Some (l1AssetRouter d)
   \<and> (zk_bytecode_hash_to_file (bytecodes v) (l2TokenProxyBytecodeHash d) = Some BEACON_PROXY_FILE
      \<or> evm_deployed_bytecode_hash_to_file (bytecodes v) (l2TokenProxyBytecodeHash d) = Some BEACON_PROXY_FILE)
   \<and> aliasedL1Governance d = aliased_governance
   \<and> maxNumberOfZKChains d = 100
   \<and> (\<forall>(info, era_file, os_file) \<in> set (bytecode_info_checks d). bytecode_info_ok v info era_file os_file)
   \<and> get_by_name (address_book v) ''zero'' = Some (l2SharedBridgeLegacyImpl d)
   \<and> get_by_name (address_book v) ''zero'' = Some (l2BridgedStandardERC20Impl d)
   \<and> aliasedChainRegistrationSender d = apply_l2_to_l1_alias registration_sender
   \<and> dangerousTestOnlyForcedBeacon d = 0
   \<and> zkTokenAssetId d = zk_token_asset_id v"

lemma writer_force_deployments [simp, writer_intros]: "writer (force_deployments_verify v d)"
  by (auto simp: force_deployments_verify_def split: option.splits prod.splits)

lemma force_deployments_iff:
  assumes "get_by_name (address_book v) ''aliased_protocol_upgrade_handler_proxy'' = Some g"
    and "get_by_name (address_book v) ''chain_registration_sender_proxy'' = Some s"
  shows "val (force_deployments_verify v d) = Inr ()"
    and "clean (force_deployments_verify v d) \<longleftrightarrow> force_deployments_ok v d g s"
proof -
  have loop: "writer (forM (\<lambda>(info, e, z). expect_bytecode_info v info e z) cs)"
    "clean (forM (\<lambda>(info, e, z). expect_bytecode_info v info e z) cs)
      \<longleftrightarrow> (\<forall>(info, e, z) \<in> set cs. bytecode_info_ok v info e z)" for cs
    by (auto simp: split_beta)
  show "val (force_deployments_verify v d) = Inr ()"
    using assms by (simp add: force_deployments_verify_def loop)
  show "clean (force_deployments_verify v d) \<longleftrightarrow> force_deployments_ok v d g s"
    using assms
    by (simp add: force_deployments_verify_def loop force_deployments_ok_def MAX_NUMBER_OF_ZK_CHAINS_def)
qed

text \<open>The same with the unwraps: the data that passes without a panic.\<close>

definition force_data_ok :: "verifiers \<Rightarrow> fixed_force_deployments_data \<Rightarrow> bool" where
  "force_data_ok v d \<longleftrightarrow> (\<exists>g s. get_by_name (address_book v) ''aliased_protocol_upgrade_handler_proxy'' = Some g
     \<and> get_by_name (address_book v) ''chain_registration_sender_proxy'' = Some s \<and> force_deployments_ok v d g s)"

lemma force_deployments_unnamed:
  assumes "get_by_name (address_book v) ''aliased_protocol_upgrade_handler_proxy'' = None
    \<or> get_by_name (address_book v) ''chain_registration_sender_proxy'' = None"
  shows "\<not> yields (force_deployments_verify v d) ()"
  using assms by (cases "get_by_name (address_book v) ''aliased_protocol_upgrade_handler_proxy''")
    (auto simp: force_deployments_verify_def split_beta)

lemma yields_force_deployments: "yields (force_deployments_verify v d) () \<longleftrightarrow> force_data_ok v d"
proof (cases "get_by_name (address_book v) ''aliased_protocol_upgrade_handler_proxy''")
  case None
  then show ?thesis using force_deployments_unnamed [of v d] by (simp add: force_data_ok_def)
next
  case g: (Some g)
  show ?thesis
  proof (cases "get_by_name (address_book v) ''chain_registration_sender_proxy''")
    case None
    then show ?thesis using force_deployments_unnamed [of v d] by (simp add: force_data_ok_def)
  next
    case (Some s)
    then show ?thesis
      using force_deployments_iff [OF g Some, of d] g by (simp add: yields_def force_data_ok_def)
  qed
qed

end
