(* ===== verification/Constants.thy ===== *)
theory Constants
  imports Create2
begin

section \<open>Protocol constants by name\<close>

text \<open>
  The constants of \<^verbatim>\<open>upgrade_verification/constants.rs\<close> that the payload checks name: the fixed
  addresses, the parameters of the L2 upgrade transaction and the file names of four contracts.
  The lemma gives the numeric value of each address.
\<close>

definition L2_VERSION_SPECIFIC_UPGRADER_ADDR :: address where
  "L2_VERSION_SPECIFIC_UPGRADER_ADDR = l2_addr 0x01"

definition L2_BRIDGEHUB_ADDR :: address where
  "L2_BRIDGEHUB_ADDR = l2_addr 0x02"

definition L2_ASSET_ROUTER_ADDR :: address where
  "L2_ASSET_ROUTER_ADDR = l2_addr 0x03"

definition L2_NATIVE_TOKEN_VAULT_ADDR :: address where
  "L2_NATIVE_TOKEN_VAULT_ADDR = l2_addr 0x04"

definition L2_MESSAGE_ROOT_ADDR :: address where
  "L2_MESSAGE_ROOT_ADDR = l2_addr 0x05"

definition SLOAD_CONTRACT_ADDR :: address where
  "SLOAD_CONTRACT_ADDR = l2_addr 0x06"

definition L2_INTEROP_ROOT_STORAGE_ADDR :: address where
  "L2_INTEROP_ROOT_STORAGE_ADDR = l2_addr 0x08"

definition L2_MESSAGE_VERIFICATION_ADDR :: address where
  "L2_MESSAGE_VERIFICATION_ADDR = l2_addr 0x09"

definition L2_CHAIN_ASSET_HANDLER_ADDR :: address where
  "L2_CHAIN_ASSET_HANDLER_ADDR = l2_addr 0x0a"

definition L2_SYSTEM_CONTRACT_PROXY_ADMIN_ADDR :: address where
  "L2_SYSTEM_CONTRACT_PROXY_ADMIN_ADDR = l2_addr 0x0c"

definition L2_INTEROP_CENTER_ADDR :: address where
  "L2_INTEROP_CENTER_ADDR = l2_addr 0x0d"

definition L2_INTEROP_HANDLER_ADDR :: address where
  "L2_INTEROP_HANDLER_ADDR = l2_addr 0x0e"

definition L2_ASSET_TRACKER_ADDR :: address where
  "L2_ASSET_TRACKER_ADDR = l2_addr 0x0f"

definition GW_ASSET_TRACKER_ADDR :: address where
  "GW_ASSET_TRACKER_ADDR = l2_addr 0x10"

definition L2_BASE_TOKEN_HOLDER_ADDR :: address where
  "L2_BASE_TOKEN_HOLDER_ADDR = l2_addr 0x11"

definition L2_BOOTLOADER_ADDRESS :: address where
  "L2_BOOTLOADER_ADDRESS = system_contract_addr 0x01"

definition L2_ACCOUNT_CODE_STORAGE_ADDR :: address where
  "L2_ACCOUNT_CODE_STORAGE_ADDR = system_contract_addr 0x02"

definition L2_KNOWN_CODE_STORAGE_SYSTEM_CONTRACT_ADDR :: address where
  "L2_KNOWN_CODE_STORAGE_SYSTEM_CONTRACT_ADDR = system_contract_addr 0x04"

definition L2_DEPLOYER_SYSTEM_CONTRACT_ADDR :: address where
  "L2_DEPLOYER_SYSTEM_CONTRACT_ADDR = system_contract_addr 0x06"

definition L2_FORCE_DEPLOYER_ADDR :: address where
  "L2_FORCE_DEPLOYER_ADDR = system_contract_addr 0x07"

definition L2_TO_L1_MESSENGER_SYSTEM_CONTRACT_ADDR :: address where
  "L2_TO_L1_MESSENGER_SYSTEM_CONTRACT_ADDR = system_contract_addr 0x08"

definition MSG_VALUE_SYSTEM_CONTRACT :: address where
  "MSG_VALUE_SYSTEM_CONTRACT = system_contract_addr 0x09"

definition L2_BASE_TOKEN_SYSTEM_CONTRACT_ADDR :: address where
  "L2_BASE_TOKEN_SYSTEM_CONTRACT_ADDR = system_contract_addr 0x0a"

definition L2_SYSTEM_CONTEXT_SYSTEM_CONTRACT_ADDR :: address where
  "L2_SYSTEM_CONTEXT_SYSTEM_CONTRACT_ADDR = system_contract_addr 0x0b"

definition EVENT_WRITER_CONTRACT :: address where
  "EVENT_WRITER_CONTRACT = system_contract_addr 0x0d"

definition L2_COMPRESSOR_ADDR :: address where
  "L2_COMPRESSOR_ADDR = system_contract_addr 0x0e"

definition L2_COMPLEX_UPGRADER_ADDR :: address where
  "L2_COMPLEX_UPGRADER_ADDR = system_contract_addr 0x0f"

definition L2_PUBDATA_CHUNK_PUBLISHER_ADDR :: address where
  "L2_PUBDATA_CHUNK_PUBLISHER_ADDR = system_contract_addr 0x11"

definition CODE_ORACLE_SYSTEM_CONTRACT :: address where
  "CODE_ORACLE_SYSTEM_CONTRACT = system_contract_addr 0x12"

definition EVM_GAS_MANAGER :: address where
  "EVM_GAS_MANAGER = system_contract_addr 0x13"

definition EVM_PREDEPLOYS_MANAGER :: address where
  "EVM_PREDEPLOYS_MANAGER = system_contract_addr 0x14"

definition KECCAK256_SYSTEM_CONTRACT :: address where
  "KECCAK256_SYSTEM_CONTRACT = literal_addr 0x8010"

definition ECRECOVER_SYSTEM_CONTRACT :: address where
  "ECRECOVER_SYSTEM_CONTRACT = literal_addr 0x01"

definition SHA256_SYSTEM_CONTRACT :: address where
  "SHA256_SYSTEM_CONTRACT = literal_addr 0x02"

definition IDENTITY_SYSTEM_CONTRACT :: address where
  "IDENTITY_SYSTEM_CONTRACT = literal_addr 0x04"

definition MODEXP_SYSTEM_CONTRACT :: address where
  "MODEXP_SYSTEM_CONTRACT = literal_addr 0x05"

definition ECADD_SYSTEM_CONTRACT :: address where
  "ECADD_SYSTEM_CONTRACT = literal_addr 0x06"

definition ECMUL_SYSTEM_CONTRACT :: address where
  "ECMUL_SYSTEM_CONTRACT = literal_addr 0x07"

definition ECPAIRING_SYSTEM_CONTRACT :: address where
  "ECPAIRING_SYSTEM_CONTRACT = literal_addr 0x08"

definition ERA_SYSTEM_UPGRADE_TX_TYPE :: u64 where
  "ERA_SYSTEM_UPGRADE_TX_TYPE = 254"

definition ZKSYNC_OS_SYSTEM_UPGRADE_TX_TYPE :: u64 where
  "ZKSYNC_OS_SYSTEM_UPGRADE_TX_TYPE = 126"

definition L2_UPGRADE_GAS_LIMIT :: u64 where
  "L2_UPGRADE_GAS_LIMIT = 72000000"

definition L2_UPGRADE_GAS_PER_PUBDATA_BYTE_LIMIT :: u64 where
  "L2_UPGRADE_GAS_PER_PUBDATA_BYTE_LIMIT = 800"

definition L2_V31_UPGRADE_CONTRACT :: string where
  "L2_V31_UPGRADE_CONTRACT = ''l1-contracts/L2V31Upgrade''"

definition BOOTLOADER_CONTRACT :: string where
  "BOOTLOADER_CONTRACT = ''Bootloader''"

definition DEFAULT_ACCOUNT_CONTRACT :: string where
  "DEFAULT_ACCOUNT_CONTRACT = ''system-contracts/DefaultAccount''"

definition EVM_EMULATOR_CONTRACT :: string where
  "EVM_EMULATOR_CONTRACT = ''EvmEmulator''"

lemma address_values:
  "L2_CREATE2_FACTORY_ADDR = 0x10000"
  "L2_VERSION_SPECIFIC_UPGRADER_ADDR = 0x10001"
  "L2_BRIDGEHUB_ADDR = 0x10002"
  "L2_ASSET_ROUTER_ADDR = 0x10003"
  "L2_NATIVE_TOKEN_VAULT_ADDR = 0x10004"
  "L2_MESSAGE_ROOT_ADDR = 0x10005"
  "SLOAD_CONTRACT_ADDR = 0x10006"
  "L2_INTEROP_ROOT_STORAGE_ADDR = 0x10008"
  "L2_MESSAGE_VERIFICATION_ADDR = 0x10009"
  "L2_CHAIN_ASSET_HANDLER_ADDR = 0x1000a"
  "L2_SYSTEM_CONTRACT_PROXY_ADMIN_ADDR = 0x1000c"
  "L2_INTEROP_CENTER_ADDR = 0x1000d"
  "L2_INTEROP_HANDLER_ADDR = 0x1000e"
  "L2_ASSET_TRACKER_ADDR = 0x1000f"
  "GW_ASSET_TRACKER_ADDR = 0x10010"
  "L2_BASE_TOKEN_HOLDER_ADDR = 0x10011"
  "L2_BOOTLOADER_ADDRESS = 0x8001"
  "L2_ACCOUNT_CODE_STORAGE_ADDR = 0x8002"
  "L2_KNOWN_CODE_STORAGE_SYSTEM_CONTRACT_ADDR = 0x8004"
  "L2_DEPLOYER_SYSTEM_CONTRACT_ADDR = 0x8006"
  "L2_FORCE_DEPLOYER_ADDR = 0x8007"
  "L2_TO_L1_MESSENGER_SYSTEM_CONTRACT_ADDR = 0x8008"
  "MSG_VALUE_SYSTEM_CONTRACT = 0x8009"
  "L2_BASE_TOKEN_SYSTEM_CONTRACT_ADDR = 0x800a"
  "L2_SYSTEM_CONTEXT_SYSTEM_CONTRACT_ADDR = 0x800b"
  "EVENT_WRITER_CONTRACT = 0x800d"
  "L2_COMPRESSOR_ADDR = 0x800e"
  "L2_COMPLEX_UPGRADER_ADDR = 0x800f"
  "L2_PUBDATA_CHUNK_PUBLISHER_ADDR = 0x8011"
  "CODE_ORACLE_SYSTEM_CONTRACT = 0x8012"
  "EVM_GAS_MANAGER = 0x8013"
  "EVM_PREDEPLOYS_MANAGER = 0x8014"
  "KECCAK256_SYSTEM_CONTRACT = 0x8010"
  "ECRECOVER_SYSTEM_CONTRACT = 0x1"
  "SHA256_SYSTEM_CONTRACT = 0x2"
  "IDENTITY_SYSTEM_CONTRACT = 0x4"
  "MODEXP_SYSTEM_CONTRACT = 0x5"
  "ECADD_SYSTEM_CONTRACT = 0x6"
  "ECMUL_SYSTEM_CONTRACT = 0x7"
  "ECPAIRING_SYSTEM_CONTRACT = 0x8"
  by (simp_all add: L2_CREATE2_FACTORY_ADDR_def l2_addr_def system_contract_addr_def literal_addr_def from_be_bytes_def
      L2_VERSION_SPECIFIC_UPGRADER_ADDR_def L2_BRIDGEHUB_ADDR_def L2_ASSET_ROUTER_ADDR_def L2_NATIVE_TOKEN_VAULT_ADDR_def
      L2_MESSAGE_ROOT_ADDR_def SLOAD_CONTRACT_ADDR_def L2_INTEROP_ROOT_STORAGE_ADDR_def L2_MESSAGE_VERIFICATION_ADDR_def
      L2_CHAIN_ASSET_HANDLER_ADDR_def L2_SYSTEM_CONTRACT_PROXY_ADMIN_ADDR_def L2_INTEROP_CENTER_ADDR_def
      L2_INTEROP_HANDLER_ADDR_def L2_ASSET_TRACKER_ADDR_def GW_ASSET_TRACKER_ADDR_def L2_BASE_TOKEN_HOLDER_ADDR_def
      L2_BOOTLOADER_ADDRESS_def L2_ACCOUNT_CODE_STORAGE_ADDR_def L2_KNOWN_CODE_STORAGE_SYSTEM_CONTRACT_ADDR_def
      L2_DEPLOYER_SYSTEM_CONTRACT_ADDR_def L2_FORCE_DEPLOYER_ADDR_def L2_TO_L1_MESSENGER_SYSTEM_CONTRACT_ADDR_def
      MSG_VALUE_SYSTEM_CONTRACT_def L2_BASE_TOKEN_SYSTEM_CONTRACT_ADDR_def L2_SYSTEM_CONTEXT_SYSTEM_CONTRACT_ADDR_def
      EVENT_WRITER_CONTRACT_def L2_COMPRESSOR_ADDR_def L2_COMPLEX_UPGRADER_ADDR_def L2_PUBDATA_CHUNK_PUBLISHER_ADDR_def
      CODE_ORACLE_SYSTEM_CONTRACT_def EVM_GAS_MANAGER_def EVM_PREDEPLOYS_MANAGER_def KECCAK256_SYSTEM_CONTRACT_def
      ECRECOVER_SYSTEM_CONTRACT_def SHA256_SYSTEM_CONTRACT_def IDENTITY_SYSTEM_CONTRACT_def MODEXP_SYSTEM_CONTRACT_def
      ECADD_SYSTEM_CONTRACT_def ECMUL_SYSTEM_CONTRACT_def ECPAIRING_SYSTEM_CONTRACT_def)

end
