(* ===== verification/Force_Deploy.thy ===== *)
theory Force_Deploy
  imports Chain_Init Governance_Helpers Constants
begin

section \<open>The force deployments of the L2 upgrade transaction\<close>

text \<open>
  \<^verbatim>\<open>set_new_version_upgrade/era.rs\<close> and \<^verbatim>\<open>zksync_os.rs\<close>: the lists of contracts the upgrade
  transaction deploys at fixed addresses, the checks of a proposed list against them, and the
  inner \<^verbatim>\<open>IL2V31Upgrade.upgrade\<close> calldata both flavors share. Both checks take the expected
  entries out of a map one by one; the lemmas show that a list passes exactly when it names
  every expected address once and no other and each of its entries is right.
\<close>

record force_deployment =
  fd_bytecodeHash :: b256
  fd_newAddress :: address
  fd_callConstructor :: bool
  fd_value :: u256
  fd_input :: bytes

text \<open>\<^verbatim>\<open>ContractUpgradeType\<close>; a value outside the enum decodes to \<open>Invalid_upgrade_type\<close>.\<close>

datatype contract_upgrade_type =
  EraForceDeployment | ZKsyncOSSystemProxyUpgrade | ZKsyncOSUnsafeForceDeployment | Invalid_upgrade_type

record universal_upgrade_info =
  upgradeType :: contract_upgrade_type
  deployedBytecodeInfo :: bytes
  u_newAddress :: address

record 'd force_deploy_call =
  forceDeployments :: "'d list"
  delegateTo :: address
  upgrade_calldata :: bytes

text \<open>The decoders of the payload, generated by \<^verbatim>\<open>sol!\<close>.\<close>

record payload_abi =
  decode_forceDeployAndUpgrade :: "bytes \<Rightarrow> force_deployment force_deploy_call option"
  decode_forceDeployAndUpgradeUniversal :: "bytes \<Rightarrow> universal_upgrade_info force_deploy_call option"
  decode_l2ChainAssetHandlerInput :: "bytes \<Rightarrow> (u256 \<times> address \<times> address \<times> address \<times> address) option"
  decode_IL2V31Upgrade_upgrade :: "bytes \<Rightarrow> (bool \<times> address \<times> bytes \<times> bytes) option"
  decode_FixedForceDeploymentsData :: "bytes \<Rightarrow> fixed_force_deployments_data option"

subsection \<open>Shared\<close>

text \<open>\<^verbatim>\<open>match expected_map.remove(&addr)\<close>: no entry is an error, an entry is checked and gone.\<close>

definition take_expected :: "address \<Rightarrow> ('e \<Rightarrow> unit res vr) \<Rightarrow> (address \<rightharpoonup> 'e) \<Rightarrow> (address \<rightharpoonup> 'e) res vr" where
  "take_expected a chk m = (case m a of
     None \<Rightarrow> liftM (do { report_error; State_Monad.return m })
   | Some e \<Rightarrow> tryM (chk e) (\<lambda>_. okM (m(a := None))))"

text \<open>One error for every entry that is left, in whatever order the map yields them.\<close>

definition report_missing :: "address list \<Rightarrow> (address \<rightharpoonup> 'e) \<Rightarrow> unit vr" where
  "report_missing addresses m = (let missing = filter (\<lambda>a. m a \<noteq> None) addresses in do {
     forM (\<lambda>_. report_error) missing;
     (if missing = [] then report_ok else State_Monad.return ()) })"

definition verify_l2_v31_upgrade_inner_calldata ::
    "ext \<Rightarrow> payload_abi \<Rightarrow> verifiers \<Rightarrow> bytes \<Rightarrow> bool \<Rightarrow> string \<Rightarrow> unit res vr" where
  "verify_l2_v31_upgrade_inner_calldata E P v calldata expected_is_zksync_os expected_fixed =
     tryM (State_Monad.return (ok_or (Bail ''decoding IL2V31Upgrade.upgrade inner calldata'')
       (decode_IL2V31Upgrade_upgrade P calldata))) (\<lambda>(is_os, ctm_deployer, fixed_data, additional_data).
     tryM (liftM (do {
       report_unless (is_os = expected_is_zksync_os);
       expect_address v ctm_deployer ''ctm_deployment_tracker_proxy'';
       (if expected_fixed \<noteq> [] then do {
          expect_hex_equal expected_fixed (hex_encode E fixed_data); State_Monad.return () }
        else State_Monad.return ());
       print_info })) (\<lambda>_.
     tryM (case decode_FixedForceDeploymentsData P fixed_data of
         Some d \<Rightarrow> force_deployments_verify v d
       | None \<Rightarrow> liftM report_error) (\<lambda>_.
     liftM (if additional_data \<noteq> [] then report_error else report_ok))))"

subsection \<open>Era\<close>

datatype era_fd_input = Input_Empty | Input_L2ChainAssetHandler

record era_expected_fd =
  fd_address :: address
  fd_file :: string
  fd_call_constructor :: bool
  fd_input_kind :: era_fd_input

definition simple :: "string \<Rightarrow> address \<Rightarrow> era_expected_fd" where
  "simple f a = \<lparr>fd_address = a, fd_file = f, fd_call_constructor = False, fd_input_kind = Input_Empty\<rparr>"

definition expected_v31_era_force_deployments :: "era_expected_fd list" where
  "expected_v31_era_force_deployments =
     [simple ''system-contracts/EmptyContract'' (literal_addr 0x0000),
      simple ''Ecrecover'' ECRECOVER_SYSTEM_CONTRACT,
      simple ''SHA256'' SHA256_SYSTEM_CONTRACT,
      simple ''Identity'' IDENTITY_SYSTEM_CONTRACT,
      simple ''EcAdd'' ECADD_SYSTEM_CONTRACT,
      simple ''EcMul'' ECMUL_SYSTEM_CONTRACT,
      simple ''EcPairing'' ECPAIRING_SYSTEM_CONTRACT,
      simple ''Modexp'' MODEXP_SYSTEM_CONTRACT,
      simple ''system-contracts/EmptyContract'' L2_BOOTLOADER_ADDRESS,
      simple ''system-contracts/AccountCodeStorage'' L2_ACCOUNT_CODE_STORAGE_ADDR,
      simple ''system-contracts/NonceHolder'' (literal_addr 0x8003),
      simple ''system-contracts/KnownCodesStorage'' L2_KNOWN_CODE_STORAGE_SYSTEM_CONTRACT_ADDR,
      simple ''system-contracts/ImmutableSimulator'' (literal_addr 0x8005),
      simple ''system-contracts/ContractDeployer'' L2_DEPLOYER_SYSTEM_CONTRACT_ADDR,
      simple ''system-contracts/L1Messenger'' L2_TO_L1_MESSENGER_SYSTEM_CONTRACT_ADDR,
      simple ''system-contracts/MsgValueSimulator'' MSG_VALUE_SYSTEM_CONTRACT,
      simple ''l1-contracts/L2BaseTokenEra'' L2_BASE_TOKEN_SYSTEM_CONTRACT_ADDR,
      simple ''system-contracts/SystemContext'' L2_SYSTEM_CONTEXT_SYSTEM_CONTRACT_ADDR,
      simple ''system-contracts/BootloaderUtilities'' (literal_addr 0x800c),
      simple ''EventWriter'' EVENT_WRITER_CONTRACT,
      simple ''system-contracts/Compressor'' L2_COMPRESSOR_ADDR,
      simple ''Keccak256'' KECCAK256_SYSTEM_CONTRACT,
      simple ''system-contracts/PubdataChunkPublisher'' L2_PUBDATA_CHUNK_PUBLISHER_ADDR,
      simple ''CodeOracle'' CODE_ORACLE_SYSTEM_CONTRACT,
      simple ''EvmGasManager'' EVM_GAS_MANAGER,
      simple ''system-contracts/EvmPredeploysManager'' EVM_PREDEPLOYS_MANAGER,
      simple ''system-contracts/EvmHashesStorage'' (literal_addr 0x8015),
      simple ''P256Verify'' (literal_addr 0x0100),
      simple ''system-contracts/Create2Factory'' L2_CREATE2_FACTORY_ADDR,
      simple ''system-contracts/SloadContract'' SLOAD_CONTRACT_ADDR,
      simple ''l1-contracts/SystemContractProxyAdmin'' L2_SYSTEM_CONTRACT_PROXY_ADMIN_ADDR,
      simple ''l1-contracts/L2Bridgehub'' L2_BRIDGEHUB_ADDR,
      simple ''l1-contracts/L2AssetRouter'' L2_ASSET_ROUTER_ADDR,
      simple ''l1-contracts/L2NativeTokenVault'' L2_NATIVE_TOKEN_VAULT_ADDR,
      simple ''l1-contracts/L2MessageRoot'' L2_MESSAGE_ROOT_ADDR,
      simple ''l1-contracts/L2MessageVerification'' L2_MESSAGE_VERIFICATION_ADDR,
      \<lparr>fd_address = L2_CHAIN_ASSET_HANDLER_ADDR, fd_file = ''l1-contracts/L2ChainAssetHandler'', fd_call_constructor = True,
        fd_input_kind = Input_L2ChainAssetHandler\<rparr>,
      simple ''l1-contracts/L2InteropRootStorage'' L2_INTEROP_ROOT_STORAGE_ADDR,
      simple ''l1-contracts/BaseTokenHolder'' L2_BASE_TOKEN_HOLDER_ADDR,
      simple ''l1-contracts/L2AssetTracker'' L2_ASSET_TRACKER_ADDR,
      simple ''l1-contracts/InteropCenter'' L2_INTEROP_CENTER_ADDR,
      simple ''l1-contracts/InteropHandler'' L2_INTEROP_HANDLER_ADDR,
      simple ''l1-contracts/GWAssetTracker'' GW_ASSET_TRACKER_ADDR,
      simple L2_V31_UPGRADE_CONTRACT L2_VERSION_SPECIFIC_UPGRADER_ADDR]"

definition verify_l2_chain_asset_handler_input :: "payload_abi \<Rightarrow> verifiers \<Rightarrow> bytes \<Rightarrow> unit res vr" where
  "verify_l2_chain_asset_handler_input P v input = (case decode_l2ChainAssetHandlerInput P input of
     None \<Rightarrow> liftM report_error
   | Some (l1_chain, aliased_owner, l2_bridgehub, l2_asset_router, l2_message_root) \<Rightarrow>
     tryM (liftM (case try_get_l1_chain_id (network v) of
         Inr expected_chain_id \<Rightarrow> if l1_chain \<noteq> ucast expected_chain_id then report_error else report_ok
       | Inl _ \<Rightarrow> report_warn)) (\<lambda>_.
     tryM (State_Monad.return (ok_or (Panic ''aliased_protocol_upgrade_handler_proxy must be registered by Verifiers::new_v31'')
       (get_by_name (address_book v) ''aliased_protocol_upgrade_handler_proxy''))) (\<lambda>expected_aliased_governance.
     liftM (do {
       (if aliased_owner = expected_aliased_governance then report_ok else report_error);
       report_unless (l2_bridgehub = L2_BRIDGEHUB_ADDR);
       report_unless (l2_asset_router = L2_ASSET_ROUTER_ADDR);
       report_unless (l2_message_root = L2_MESSAGE_ROOT_ADDR) }))))"

definition check_era_deployment ::
    "payload_abi \<Rightarrow> verifiers \<Rightarrow> force_deployment \<Rightarrow> era_expected_fd \<Rightarrow> unit res vr" where
  "check_era_deployment P v d e =
     tryM (liftM (do {
       expect_zk_bytecode v (fd_bytecodeHash d) (fd_file e);
       report_unless (fd_callConstructor d = fd_call_constructor e);
       report_unless (fd_value d = 0) })) (\<lambda>_.
     case fd_input_kind e of
       Input_Empty \<Rightarrow> liftM (report_unless (fd_input d = []))
     | Input_L2ChainAssetHandler \<Rightarrow> verify_l2_chain_asset_handler_input P v (fd_input d))"

text \<open>The map built from the list; a later entry for an address would replace an earlier one.\<close>

definition era_expected_map :: "address \<rightharpoonup> era_expected_fd" where
  "era_expected_map = map_of (rev (map (\<lambda>e. (fd_address e, e)) expected_v31_era_force_deployments))"

definition verify_v31_era_force_deployments ::
    "payload_abi \<Rightarrow> verifiers \<Rightarrow> force_deployment list \<Rightarrow> unit res vr" where
  "verify_v31_era_force_deployments P v deployments =
     tryM (foldTM (\<lambda>d. take_expected (fd_newAddress d) (check_era_deployment P v d)) deployments era_expected_map) (\<lambda>m.
     liftM (report_missing (map fd_address expected_v31_era_force_deployments) m))"

definition EXPECTED_V31_ERA_BYTECODES :: "string list" where
  "EXPECTED_V31_ERA_BYTECODES =
     [''Bootloader'', ''system-contracts/DefaultAccount'', ''EvmEmulator'',
      ''system-contracts/EmptyContract'', ''Ecrecover'', ''SHA256'', ''Identity'', ''EcAdd'', ''EcMul'',
      ''EcPairing'', ''Modexp'', ''system-contracts/AccountCodeStorage'',
      ''system-contracts/NonceHolder'', ''system-contracts/KnownCodesStorage'',
      ''system-contracts/ImmutableSimulator'', ''system-contracts/ContractDeployer'',
      ''system-contracts/L1Messenger'', ''system-contracts/MsgValueSimulator'',
      ''l1-contracts/L2BaseTokenEra'', ''system-contracts/SystemContext'',
      ''system-contracts/BootloaderUtilities'', ''EventWriter'', ''system-contracts/Compressor'',
      ''Keccak256'', ''CodeOracle'', ''EvmGasManager'', ''system-contracts/EvmPredeploysManager'',
      ''system-contracts/EvmHashesStorage'', ''P256Verify'', ''system-contracts/PubdataChunkPublisher'',
      ''system-contracts/Create2Factory'', ''system-contracts/SloadContract'',
      ''l1-contracts/SystemContractProxyAdmin'', ''l1-contracts/L2Bridgehub'',
      ''l1-contracts/L2AssetRouter'', ''l1-contracts/L2NativeTokenVault'',
      ''l1-contracts/L2MessageRoot'', ''l1-contracts/L2MessageVerification'',
      ''l1-contracts/L2ChainAssetHandler'', ''l1-contracts/L2InteropRootStorage'',
      ''l1-contracts/BaseTokenHolder'', ''l1-contracts/L2AssetTracker'', ''l1-contracts/InteropCenter'',
      ''l1-contracts/InteropHandler'', ''l1-contracts/GWAssetTracker'',
      ''l1-contracts/TransparentUpgradeableProxy'', ''l1-contracts/BeaconProxy'',
      ''l1-contracts/L2SharedBridgeLegacy'', ''l1-contracts/BridgedStandardERC20'',
      ''l1-contracts/DiamondProxy'', ''l1-contracts/ProxyAdmin'', ''l1-contracts/L2V31Upgrade'']"

definition verify_era_force_deploy_and_upgrade ::
    "ext \<Rightarrow> payload_abi \<Rightarrow> verifiers \<Rightarrow> force_deployment force_deploy_call \<Rightarrow> string \<Rightarrow> unit res vr" where
  "verify_era_force_deploy_and_upgrade E P v decoded expected_fixed =
     tryM (liftM (if delegateTo decoded \<noteq> L2_VERSION_SPECIFIC_UPGRADER_ADDR then report_error else report_ok)) (\<lambda>_.
     tryM (verify_v31_era_force_deployments P v (forceDeployments decoded)) (\<lambda>_.
     verify_l2_v31_upgrade_inner_calldata E P v (upgrade_calldata decoded) False expected_fixed))"

subsection \<open>ZKsync OS\<close>

datatype zksync_os_upgrade_type = SystemProxyUpgrade | UnsafeForceDeployment

record zksync_os_expected_fd =
  os_address :: address
  os_file :: string
  os_upgrade_type :: zksync_os_upgrade_type

definition proxy_upgrade :: "string \<Rightarrow> address \<Rightarrow> zksync_os_expected_fd" where
  "proxy_upgrade f a = \<lparr>os_address = a, os_file = f, os_upgrade_type = SystemProxyUpgrade\<rparr>"

definition expected_v31_zksync_os_force_deployments :: "zksync_os_expected_fd list" where
  "expected_v31_zksync_os_force_deployments =
     [proxy_upgrade ''l1-contracts/L2Bridgehub'' L2_BRIDGEHUB_ADDR,
      proxy_upgrade ''l1-contracts/L2AssetRouter'' L2_ASSET_ROUTER_ADDR,
      proxy_upgrade ''l1-contracts/L2NativeTokenVaultZKOS'' L2_NATIVE_TOKEN_VAULT_ADDR,
      proxy_upgrade ''l1-contracts/L2MessageRoot'' L2_MESSAGE_ROOT_ADDR,
      proxy_upgrade ''l1-contracts/L2MessageVerification'' L2_MESSAGE_VERIFICATION_ADDR,
      proxy_upgrade ''l1-contracts/L2ChainAssetHandler'' L2_CHAIN_ASSET_HANDLER_ADDR,
      proxy_upgrade ''l1-contracts/L2InteropRootStorage'' L2_INTEROP_ROOT_STORAGE_ADDR,
      proxy_upgrade ''l1-contracts/BaseTokenHolder'' L2_BASE_TOKEN_HOLDER_ADDR,
      proxy_upgrade ''l1-contracts/L2AssetTracker'' L2_ASSET_TRACKER_ADDR,
      proxy_upgrade ''l1-contracts/InteropCenter'' L2_INTEROP_CENTER_ADDR,
      proxy_upgrade ''l1-contracts/InteropHandler'' L2_INTEROP_HANDLER_ADDR,
      proxy_upgrade ''l1-contracts/GWAssetTracker'' GW_ASSET_TRACKER_ADDR,
      proxy_upgrade ''l1-contracts/L2BaseTokenZKOS'' L2_BASE_TOKEN_SYSTEM_CONTRACT_ADDR,
      proxy_upgrade ''l1-contracts/L1MessengerZKOS'' L2_TO_L1_MESSENGER_SYSTEM_CONTRACT_ADDR,
      proxy_upgrade ''l1-contracts/SystemContext'' L2_SYSTEM_CONTEXT_SYSTEM_CONTRACT_ADDR]"

definition evm_deployed_bytecode_hash_matches_file :: "verifiers \<Rightarrow> b256 \<Rightarrow> string \<Rightarrow> bool" where
  "evm_deployed_bytecode_hash_matches_file v h expected_file \<longleftrightarrow>
     evm_deployed_bytecode_hash_to_file (bytecodes v) h = Some expected_file"

definition verify_zksync_os_bytecode_info_triplet ::
    "verifiers \<Rightarrow> bytes \<Rightarrow> string \<Rightarrow> nat \<Rightarrow> nat \<Rightarrow> nat \<Rightarrow> unit vr" where
  "verify_zksync_os_bytecode_info_triplet v info expected_file blake_start length_word_start observable_start =
     (let observable = from_be_bytes (slice observable_start (observable_start + 32) info) in do {
       report_unless (evm_deployed_bytecode_hash_matches_file v observable expected_file);
       (case evm_deployed_blake_and_length (bytecodes v) expected_file of
          None \<Rightarrow> report_warn
        | Some (expected_blake, expected_length) \<Rightarrow>
          (let actual_blake = from_be_bytes (slice blake_start (blake_start + 32) info);
               length_word = slice length_word_start (length_word_start + 32) info;
               actual_length = from_be_bytes (slice 28 32 length_word) in do {
             report_unless (actual_blake = expected_blake);
             report_unless (actual_length = expected_length) })) })"

definition verify_zksync_os_deployed_bytecode_info ::
    "verifiers \<Rightarrow> bytes \<Rightarrow> string \<Rightarrow> zksync_os_upgrade_type \<Rightarrow> unit vr" where
  "verify_zksync_os_deployed_bytecode_info v info expected_file upgrade_type =
     (let expected_len = (case upgrade_type of UnsafeForceDeployment \<Rightarrow> 96 | SystemProxyUpgrade \<Rightarrow> 320) in
      if length info \<noteq> expected_len then report_error
      else (case upgrade_type of
        UnsafeForceDeployment \<Rightarrow> verify_zksync_os_bytecode_info_triplet v info expected_file 0 32 64
      | SystemProxyUpgrade \<Rightarrow> do {
          verify_zksync_os_bytecode_info_triplet v info expected_file 96 128 160;
          verify_zksync_os_bytecode_info_triplet v info ''l1-contracts/SystemContractProxy'' 224 256 288 }))"

definition check_zksync_os_deployment ::
    "verifiers \<Rightarrow> universal_upgrade_info \<Rightarrow> zksync_os_expected_fd \<Rightarrow> unit vr" where
  "check_zksync_os_deployment v d e =
     (let continue = (\<lambda>actual_upgrade_type. do {
        report_unless (actual_upgrade_type = os_upgrade_type e);
        verify_zksync_os_deployed_bytecode_info v (deployedBytecodeInfo d) (os_file e) (os_upgrade_type e) }) in
      case upgradeType d of
        ZKsyncOSSystemProxyUpgrade \<Rightarrow> continue SystemProxyUpgrade
      | ZKsyncOSUnsafeForceDeployment \<Rightarrow> continue UnsafeForceDeployment
      | EraForceDeployment \<Rightarrow> report_error
      | Invalid_upgrade_type \<Rightarrow> report_error)"

definition zksync_os_expected_map :: "address \<rightharpoonup> zksync_os_expected_fd" where
  "zksync_os_expected_map = map_of (rev (map (\<lambda>e. (os_address e, e)) expected_v31_zksync_os_force_deployments))"

definition zksync_os_step ::
    "verifiers \<Rightarrow> address \<Rightarrow> universal_upgrade_info \<Rightarrow> (address \<rightharpoonup> zksync_os_expected_fd)
      \<Rightarrow> (address \<rightharpoonup> zksync_os_expected_fd) res vr" where
  "zksync_os_step v delegate_to d m =
     (if u_newAddress d = delegate_to then okM m
      else tryM (liftM (if upgradeType d = ZKsyncOSUnsafeForceDeployment then report_error else State_Monad.return ())) (\<lambda>_.
        take_expected (u_newAddress d) (\<lambda>e. liftM (check_zksync_os_deployment v d e)) m))"

definition verify_v31_zksync_os_force_deployments ::
    "verifiers \<Rightarrow> universal_upgrade_info list \<Rightarrow> address \<Rightarrow> unit res vr" where
  "verify_v31_zksync_os_force_deployments v deployments delegate_to =
     tryM (foldTM (zksync_os_step v delegate_to) deployments zksync_os_expected_map) (\<lambda>m.
     liftM (report_missing (map os_address expected_v31_zksync_os_force_deployments) m))"

definition EXPECTED_V31_ZKSYNC_OS_BYTECODES :: "string list" where
  "EXPECTED_V31_ZKSYNC_OS_BYTECODES =
     [''l1-contracts/SystemContractProxy'', ''l1-contracts/SystemContractProxyAdmin'',
      ''l1-contracts/L2Bridgehub'', ''l1-contracts/L2AssetRouter'',
      ''l1-contracts/L2NativeTokenVaultZKOS'', ''l1-contracts/L2MessageRoot'',
      ''l1-contracts/L2MessageVerification'', ''l1-contracts/L2ChainAssetHandler'',
      ''l1-contracts/L2InteropRootStorage'', ''l1-contracts/BaseTokenHolder'',
      ''l1-contracts/L2AssetTracker'', ''l1-contracts/InteropCenter'', ''l1-contracts/InteropHandler'',
      ''l1-contracts/GWAssetTracker'', ''l1-contracts/UpgradeableBeaconDeployer'',
      ''l1-contracts/L2V31Upgrade'', ''l1-contracts/L2BaseTokenZKOS'', ''l1-contracts/L1MessengerZKOS'',
      ''l1-contracts/SystemContext'']"

definition generate_zksync_os_random_address :: "ext \<Rightarrow> bytes \<Rightarrow> address" where
  "generate_zksync_os_random_address E info = address_of_hash (keccak256 E (replicate 32 0 @ info))"

definition zksync_os_bytecode_info_hashes :: "bytes \<Rightarrow> (b256 \<times> b256) option" where
  "zksync_os_bytecode_info_hashes info = (if length info \<noteq> 96 then None
     else Some (from_be_bytes (slice 0 32 info), from_be_bytes (slice 64 96 info)))"

definition verify_zksync_os_l2_v31_deployment ::
    "ext \<Rightarrow> verifiers \<Rightarrow> address \<Rightarrow> universal_upgrade_info \<Rightarrow> unit vr" where
  "verify_zksync_os_l2_v31_deployment E v delegate_to d = do {
     report_unless (upgradeType d = ZKsyncOSUnsafeForceDeployment);
     report_unless (delegate_to = generate_zksync_os_random_address E (deployedBytecodeInfo d));
     (case zksync_os_bytecode_info_hashes (deployedBytecodeInfo d) of
        Some (first_hash, observable_hash) \<Rightarrow>
          if evm_deployed_bytecode_hash_matches_file v observable_hash L2_V31_UPGRADE_CONTRACT
          then report_ok else report_error
      | None \<Rightarrow> report_error) }"

definition verify_zksync_os_force_deploy_and_upgrade ::
    "ext \<Rightarrow> payload_abi \<Rightarrow> verifiers \<Rightarrow> universal_upgrade_info force_deploy_call \<Rightarrow> string \<Rightarrow> unit res vr" where
  "verify_zksync_os_force_deploy_and_upgrade E P v decoded expected_fixed =
     tryM (verify_v31_zksync_os_force_deployments v (forceDeployments decoded) (delegateTo decoded)) (\<lambda>_.
     tryM (liftM (case filter (\<lambda>d. u_newAddress d = delegateTo decoded) (forceDeployments decoded) of
         [d] \<Rightarrow> verify_zksync_os_l2_v31_deployment E v (delegateTo decoded) d
       | [] \<Rightarrow> report_error
       | _ # _ # _ \<Rightarrow> report_error)) (\<lambda>_.
     verify_l2_v31_upgrade_inner_calldata E P v (upgrade_calldata decoded) True expected_fixed))"

section \<open>Taking entries out of the expected map\<close>

lemma writer_take_expected [simp, writer_intros]: "(\<And>e. writer (chk e)) \<Longrightarrow> writer (take_expected a chk m)"
  by (auto simp: take_expected_def split: option.splits)

lemma yields_take_expected:
  "(\<And>e. writer (chk e)) \<Longrightarrow> yields (take_expected a chk m) m'
    \<longleftrightarrow> (\<exists>e. m a = Some e \<and> yields (chk e) () \<and> m' = m(a := None))"
  by (auto simp: take_expected_def split: option.splits)

lemma yields_take_all:
  assumes "\<And>d e. writer (chk d e)"
  shows "yields (foldTM (\<lambda>d. take_expected (addr d) (chk d)) ds m) m'
    \<longleftrightarrow> distinct (map addr ds) \<and> (\<forall>d \<in> set ds. \<exists>e. m (addr d) = Some e \<and> yields (chk d e) ())
      \<and> m' = m |` (- set (map addr ds))"
proof (induction ds arbitrary: m)
  case Nil
  then show ?case by (auto simp: restrict_map_def)
next
  case (Cons d ds)
  define m1 where "m1 = m(addr d := None)"
  have r: "m1 |` (- set (map addr ds)) = m |` (- set (map addr (d # ds)))"
    by (rule ext) (simp add: restrict_map_def m1_def)
  have "yields (foldTM (\<lambda>d. take_expected (addr d) (chk d)) (d # ds) m) m'
      \<longleftrightarrow> (\<exists>e. m (addr d) = Some e \<and> yields (chk d e) ()) \<and> yields (foldTM (\<lambda>d. take_expected (addr d) (chk d)) ds m1) m'"
    by (auto simp: yields_take_expected assms m1_def)
  also have "yields (foldTM (\<lambda>d. take_expected (addr d) (chk d)) ds m1) m'
      \<longleftrightarrow> distinct (map addr ds) \<and> (\<forall>x \<in> set ds. \<exists>e. m1 (addr x) = Some e \<and> yields (chk x e) ())
        \<and> m' = m |` (- set (map addr (d # ds)))"
    by (simp only: Cons.IH r)
  also have "(\<forall>x \<in> set ds. \<exists>e. m1 (addr x) = Some e \<and> yields (chk x e) ())
      \<longleftrightarrow> addr d \<notin> set (map addr ds) \<and> (\<forall>x \<in> set ds. \<exists>e. m (addr x) = Some e \<and> yields (chk x e) ())"
    by (auto simp: m1_def split: if_splits) (metis imageI)
  finally show ?case by auto
qed

lemma report_missing_simps [simp]:
  "writer (report_missing as m)" "clean (report_missing as m) \<longleftrightarrow> (\<forall>a \<in> set as. m a = None)"
proof -
  have "clean (report_missing as m) \<longleftrightarrow> filter (\<lambda>a. m a \<noteq> None) as = []"
    by (cases "filter (\<lambda>a. m a \<noteq> None) as") (simp_all add: report_missing_def)
  then show "clean (report_missing as m) \<longleftrightarrow> (\<forall>a \<in> set as. m a = None)"
    by (auto simp: filter_empty_conv)
qed (simp add: report_missing_def Let_def)

lemma map_of_distinct_entries:
  assumes "distinct (map f xs)"
  shows "map_of (rev (map (\<lambda>x. (f x, x)) xs)) a = Some e \<longleftrightarrow> e \<in> set xs \<and> f e = a"
proof -
  have "distinct (map fst (rev (map (\<lambda>x. (f x, x)) xs)))"
    using assms by (simp add: comp_def rev_map [symmetric])
  then show ?thesis
    by (subst map_of_eq_Some_iff) auto
qed

text \<open>
  The whole walk: the deployments name each expected address once and no other, and each of
  them passes the check of the entry for its address.
\<close>

definition covers_expected :: "('e \<Rightarrow> address) \<Rightarrow> ('d \<Rightarrow> address) \<Rightarrow> ('d \<Rightarrow> 'e \<Rightarrow> bool) \<Rightarrow> 'e list \<Rightarrow> 'd list \<Rightarrow> bool" where
  "covers_expected key addr ok es ds \<longleftrightarrow> distinct (map addr ds) \<and> set (map addr ds) = set (map key es)
     \<and> (\<forall>d \<in> set ds. \<forall>e \<in> set es. key e = addr d \<longrightarrow> ok d e)"

lemma yields_walk:
  assumes w: "\<And>d e. writer (chk d e)" and d: "distinct (map key es)"
    and m: "m = map_of (rev (map (\<lambda>e. (key e, e)) es))"
  shows "yields (tryM (foldTM (\<lambda>d. take_expected (addr d) (chk d)) ds m) (\<lambda>m. liftM (report_missing (map key es) m))) ()
    \<longleftrightarrow> covers_expected key addr (\<lambda>d e. yields (chk d e) ()) es ds"
proof -
  let ?ok = "\<lambda>d e. yields (chk d e) ()"
  note look = map_of_distinct_entries [OF d, folded m]
  have dom: "m a = None \<longleftrightarrow> a \<notin> set (map key es)" for a
    using look by (metis (mono_tags) in_set_conv_nth length_map nth_map not_None_eq image_eqI list.set_map imageE)
  have uniq: "e = e'" if "e \<in> set es" "e' \<in> set es" "key e = key e'" for e e'
    using d that by (auto simp: distinct_map dest: inj_onD)
  have "yields (tryM (foldTM (\<lambda>d. take_expected (addr d) (chk d)) ds m) (\<lambda>m. liftM (report_missing (map key es) m))) ()
      \<longleftrightarrow> distinct (map addr ds) \<and> (\<forall>d \<in> set ds. \<exists>e. m (addr d) = Some e \<and> ?ok d e)
        \<and> set (map key es) \<subseteq> set (map addr ds)"
    using dom by (simp add: w yields_take_all) (auto simp: restrict_map_def)
  also have "(\<forall>d \<in> set ds. \<exists>e. m (addr d) = Some e \<and> ?ok d e)
      \<longleftrightarrow> set (map addr ds) \<subseteq> set (map key es) \<and> (\<forall>d \<in> set ds. \<forall>e \<in> set es. key e = addr d \<longrightarrow> ?ok d e)"
  proof -
    have "(\<exists>e. m (addr d) = Some e \<and> ?ok d e)
        \<longleftrightarrow> addr d \<in> set (map key es) \<and> (\<forall>e \<in> set es. key e = addr d \<longrightarrow> ?ok d e)" for d
      using look [of "addr d"] dom [of "addr d"] uniq by (metis not_None_eq)
    then show ?thesis by auto
  qed
  finally show ?thesis
    by (auto simp: covers_expected_def)
qed

section \<open>The inner calldata\<close>

text \<open>The hex of a byte string is the hex the artifact holds, up to a \<open>0x\<close> and the case of digits.\<close>

definition hex_text_matches :: "string \<Rightarrow> string \<Rightarrow> bool" where
  "hex_text_matches expected actual \<longleftrightarrow> eq_ignore_ascii_case actual
     (case strip_prefix ''0x'' expected of Some s \<Rightarrow> s | None \<Rightarrow> expected)"

lemma clean_expect_hex [simp]: "clean (expect_hex_equal expected actual) \<longleftrightarrow> hex_text_matches expected actual"
  "val (expect_hex_equal expected actual) = (if hex_text_matches expected actual then 0 else 1)"
  by (auto simp: expect_hex_equal_def hex_text_matches_def Let_def)

definition inner_calldata_ok :: "ext \<Rightarrow> payload_abi \<Rightarrow> verifiers \<Rightarrow> bytes \<Rightarrow> bool \<Rightarrow> string \<Rightarrow> bool" where
  "inner_calldata_ok E P v calldata is_os expected_fixed \<longleftrightarrow> (\<exists>ctm_deployer fixed_data d.
     decode_IL2V31Upgrade_upgrade P calldata = Some (is_os, ctm_deployer, fixed_data, [])
     \<and> get_by_name (address_book v) ''ctm_deployment_tracker_proxy'' = Some ctm_deployer
     \<and> (expected_fixed \<noteq> [] \<longrightarrow> hex_text_matches expected_fixed (hex_encode E fixed_data))
     \<and> decode_FixedForceDeploymentsData P fixed_data = Some d \<and> force_data_ok v d)"

lemma writer_inner_calldata [simp, writer_intros]:
  "writer (verify_l2_v31_upgrade_inner_calldata E P v calldata b s)"
  unfolding verify_l2_v31_upgrade_inner_calldata_def
  by (intro writer_tryM) (auto split: prod.splits option.splits)

lemma yields_inner_calldata:
  "yields (verify_l2_v31_upgrade_inner_calldata E P v calldata b s) () \<longleftrightarrow> inner_calldata_ok E P v calldata b s"
proof (cases "decode_IL2V31Upgrade_upgrade P calldata")
  case None
  then show ?thesis
    by (simp add: verify_l2_v31_upgrade_inner_calldata_def inner_calldata_ok_def yields_def)
next
  case (Some c)
  obtain is_os ctm_deployer fixed_data additional where c: "c = (is_os, ctm_deployer, fixed_data, additional)"
    by (cases c) auto
  show ?thesis
  proof (cases "decode_FixedForceDeploymentsData P fixed_data")
    case None
    then show ?thesis
      using Some by (simp add: c verify_l2_v31_upgrade_inner_calldata_def inner_calldata_ok_def yields_def)
  next
    case d: (Some d)
    have "yields (verify_l2_v31_upgrade_inner_calldata E P v calldata b s) ()
        \<longleftrightarrow> is_os = b \<and> get_by_name (address_book v) ''ctm_deployment_tracker_proxy'' = Some ctm_deployer
          \<and> (s \<noteq> [] \<longrightarrow> hex_text_matches s (hex_encode E fixed_data)) \<and> force_data_ok v d \<and> additional = []"
      unfolding verify_l2_v31_upgrade_inner_calldata_def
      by (subst yields_tryM) (auto simp: Some c d yields_force_deployments split: prod.splits option.splits)
    then show ?thesis
      using Some d by (auto simp: c inner_calldata_ok_def)
  qed
qed

section \<open>Era\<close>

definition handler_input_ok :: "payload_abi \<Rightarrow> verifiers \<Rightarrow> bytes \<Rightarrow> bool" where
  "handler_input_ok P v input \<longleftrightarrow> (\<exists>c g. decode_l2ChainAssetHandlerInput P input
       = Some (c, g, L2_BRIDGEHUB_ADDR, L2_ASSET_ROUTER_ADDR, L2_MESSAGE_ROOT_ADDR)
     \<and> (\<forall>i. get_chain_id (l1_provider (network v)) = Some i \<longrightarrow> c = ucast i)
     \<and> get_by_name (address_book v) ''aliased_protocol_upgrade_handler_proxy'' = Some g)"

definition era_entry_ok :: "payload_abi \<Rightarrow> verifiers \<Rightarrow> force_deployment \<Rightarrow> era_expected_fd \<Rightarrow> bool" where
  "era_entry_ok P v d e \<longleftrightarrow> zk_bytecode_hash_to_file (bytecodes v) (fd_bytecodeHash d) = Some (fd_file e)
     \<and> fd_callConstructor d = fd_call_constructor e \<and> fd_value d = 0
     \<and> (case fd_input_kind e of Input_Empty \<Rightarrow> fd_input d = [] | Input_L2ChainAssetHandler \<Rightarrow> handler_input_ok P v (fd_input d))"

lemma writer_handler_input [simp, writer_intros]: "writer (verify_l2_chain_asset_handler_input P v i)"
  by (auto simp: verify_l2_chain_asset_handler_input_def split: option.splits prod.splits sum.splits)

lemma yields_handler_input: "yields (verify_l2_chain_asset_handler_input P v i) () \<longleftrightarrow> handler_input_ok P v i"
  by (cases "get_chain_id (l1_provider (network v))")
    (auto simp: verify_l2_chain_asset_handler_input_def handler_input_ok_def try_get_l1_chain_id_def
      split: option.splits prod.splits)

lemma writer_era_deployment [simp, writer_intros]: "writer (check_era_deployment P v d e)"
  by (auto simp: check_era_deployment_def split: era_fd_input.splits)

lemma yields_era_deployment: "yields (check_era_deployment P v d e) () \<longleftrightarrow> era_entry_ok P v d e"
  by (cases "fd_input_kind e")
    (auto simp: check_era_deployment_def era_entry_ok_def yields_handler_input)

lemma era_addresses_distinct: "distinct (map fd_address expected_v31_era_force_deployments)"
  by (simp add: expected_v31_era_force_deployments_def simple_def address_values literal_addr_def from_be_bytes_def)

lemma era_list_length: "length expected_v31_era_force_deployments = 44"
  by (simp add: expected_v31_era_force_deployments_def)

definition era_deployments_ok :: "payload_abi \<Rightarrow> verifiers \<Rightarrow> force_deployment list \<Rightarrow> bool" where
  "era_deployments_ok P v ds \<longleftrightarrow>
     covers_expected fd_address fd_newAddress (era_entry_ok P v) expected_v31_era_force_deployments ds"

lemma writer_era_deployments [simp, writer_intros]: "writer (verify_v31_era_force_deployments P v ds)"
  by (simp add: verify_v31_era_force_deployments_def)

lemma yields_era_deployments:
  "yields (verify_v31_era_force_deployments P v ds) () \<longleftrightarrow> era_deployments_ok P v ds"
  unfolding verify_v31_era_force_deployments_def era_deployments_ok_def
  using yields_walk [where chk = "check_era_deployment P v" and addr = fd_newAddress, OF _ era_addresses_distinct era_expected_map_def]
  by (simp only: writer_era_deployment yields_era_deployment)

definition era_upgrade_ok :: "ext \<Rightarrow> payload_abi \<Rightarrow> verifiers \<Rightarrow> force_deployment force_deploy_call \<Rightarrow> string \<Rightarrow> bool" where
  "era_upgrade_ok E P v c fixed \<longleftrightarrow> delegateTo c = L2_VERSION_SPECIFIC_UPGRADER_ADDR
     \<and> era_deployments_ok P v (forceDeployments c) \<and> inner_calldata_ok E P v (upgrade_calldata c) False fixed"

lemma writer_era_upgrade [simp, writer_intros]: "writer (verify_era_force_deploy_and_upgrade E P v c fixed)"
  by (simp add: verify_era_force_deploy_and_upgrade_def)

lemma yields_era_upgrade: "yields (verify_era_force_deploy_and_upgrade E P v c fixed) () \<longleftrightarrow> era_upgrade_ok E P v c fixed"
  by (auto simp: verify_era_force_deploy_and_upgrade_def era_upgrade_ok_def yields_era_deployments yields_inner_calldata)

section \<open>ZKsync OS\<close>

text \<open>
  A triple (blake hash, length, observable hash) of a bytecode info, at the offsets of its
  words; blake hash and length are compared where the contract hashes list them.
\<close>

definition triplet_ok :: "verifiers \<Rightarrow> bytes \<Rightarrow> string \<Rightarrow> nat \<Rightarrow> nat \<Rightarrow> nat \<Rightarrow> bool" where
  "triplet_ok v info f b l ob \<longleftrightarrow>
     evm_deployed_bytecode_hash_to_file (bytecodes v) (from_be_bytes (slice ob (ob + 32) info)) = Some f
     \<and> (\<forall>blake len. evm_deployed_blake_and_length (bytecodes v) f = Some (blake, len) \<longrightarrow>
          from_be_bytes (slice b (b + 32) info) = blake
          \<and> from_be_bytes (slice 28 32 (slice l (l + 32) info)) = len)"

definition os_info_ok :: "verifiers \<Rightarrow> bytes \<Rightarrow> string \<Rightarrow> zksync_os_upgrade_type \<Rightarrow> bool" where
  "os_info_ok v info f ty \<longleftrightarrow> (case ty of
     UnsafeForceDeployment \<Rightarrow> length info = 96 \<and> triplet_ok v info f 0 32 64
   | SystemProxyUpgrade \<Rightarrow> length info = 320 \<and> triplet_ok v info f 96 128 160
       \<and> triplet_ok v info ''l1-contracts/SystemContractProxy'' 224 256 288)"

fun same_upgrade_type :: "contract_upgrade_type \<Rightarrow> zksync_os_upgrade_type \<Rightarrow> bool" where
  "same_upgrade_type ZKsyncOSSystemProxyUpgrade t \<longleftrightarrow> t = SystemProxyUpgrade"
| "same_upgrade_type ZKsyncOSUnsafeForceDeployment t \<longleftrightarrow> t = UnsafeForceDeployment"
| "same_upgrade_type _ t \<longleftrightarrow> False"

definition os_entry_ok :: "verifiers \<Rightarrow> universal_upgrade_info \<Rightarrow> zksync_os_expected_fd \<Rightarrow> bool" where
  "os_entry_ok v d e \<longleftrightarrow> same_upgrade_type (upgradeType d) (os_upgrade_type e)
     \<and> os_info_ok v (deployedBytecodeInfo d) (os_file e) (os_upgrade_type e)"

lemma triplet_simps [simp]:
  "writer (verify_zksync_os_bytecode_info_triplet v info f b l ob)"
  "clean (verify_zksync_os_bytecode_info_triplet v info f b l ob) \<longleftrightarrow> triplet_ok v info f b l ob"
  by (auto simp: verify_zksync_os_bytecode_info_triplet_def triplet_ok_def Let_def
      evm_deployed_bytecode_hash_matches_file_def split: option.splits prod.splits)

lemma os_info_simps [simp]:
  "writer (verify_zksync_os_deployed_bytecode_info v info f ty)"
  "clean (verify_zksync_os_deployed_bytecode_info v info f ty) \<longleftrightarrow> os_info_ok v info f ty"
  by (auto simp: verify_zksync_os_deployed_bytecode_info_def os_info_ok_def Let_def split: zksync_os_upgrade_type.splits)

lemma os_deployment_simps [simp]:
  "writer (check_zksync_os_deployment v d e)"
  "clean (check_zksync_os_deployment v d e) \<longleftrightarrow> os_entry_ok v d e"
  by (cases "upgradeType d"; auto simp: check_zksync_os_deployment_def os_entry_ok_def Let_def)+

lemma os_addresses_distinct: "distinct (map os_address expected_v31_zksync_os_force_deployments)"
  by (simp add: expected_v31_zksync_os_force_deployments_def proxy_upgrade_def address_values)

lemma os_list_length: "length expected_v31_zksync_os_force_deployments = 15"
  by (simp add: expected_v31_zksync_os_force_deployments_def)

text \<open>The delegate target is skipped; everything else is a walk over the expected entries.\<close>

definition others :: "address \<Rightarrow> universal_upgrade_info list \<Rightarrow> universal_upgrade_info list" where
  "others delegate_to ds = filter (\<lambda>d. u_newAddress d \<noteq> delegate_to) ds"

lemma writer_os_step [simp, writer_intros]: "writer (zksync_os_step v delegate_to d m)"
  by (simp add: zksync_os_step_def)

lemma yields_os_step:
  "yields (zksync_os_step v delegate_to d m) m' \<longleftrightarrow> (if u_newAddress d = delegate_to then m' = m
    else upgradeType d \<noteq> ZKsyncOSUnsafeForceDeployment
      \<and> yields (take_expected (u_newAddress d) (\<lambda>e. liftM (check_zksync_os_deployment v d e)) m) m')"
  by (auto simp: zksync_os_step_def)

lemma yields_os_fold:
  "yields (foldTM (zksync_os_step v delegate_to) ds m) m'
    \<longleftrightarrow> (\<forall>d \<in> set (others delegate_to ds). upgradeType d \<noteq> ZKsyncOSUnsafeForceDeployment)
      \<and> yields (foldTM (\<lambda>d. take_expected (u_newAddress d) (\<lambda>e. liftM (check_zksync_os_deployment v d e)))
          (others delegate_to ds) m) m'"
proof (induction ds arbitrary: m)
  case (Cons d ds)
  show ?case
    by (cases "u_newAddress d = delegate_to") (auto simp: yields_os_step others_def Cons.IH [unfolded others_def])
qed (simp add: others_def)

definition os_deployments_ok :: "verifiers \<Rightarrow> universal_upgrade_info list \<Rightarrow> address \<Rightarrow> bool" where
  "os_deployments_ok v ds delegate_to \<longleftrightarrow>
     (\<forall>d \<in> set (others delegate_to ds). upgradeType d \<noteq> ZKsyncOSUnsafeForceDeployment)
     \<and> covers_expected os_address u_newAddress (os_entry_ok v) expected_v31_zksync_os_force_deployments (others delegate_to ds)"

lemma writer_os_deployments [simp, writer_intros]: "writer (verify_v31_zksync_os_force_deployments v ds a)"
  by (simp add: verify_v31_zksync_os_force_deployments_def)

lemma yields_os_deployments:
  "yields (verify_v31_zksync_os_force_deployments v ds a) () \<longleftrightarrow> os_deployments_ok v ds a"
proof -
  have walk: "yields (tryM (foldTM (\<lambda>d. take_expected (u_newAddress d) (\<lambda>e. liftM (check_zksync_os_deployment v d e)))
        (others a ds) zksync_os_expected_map)
        (\<lambda>m. liftM (report_missing (map os_address expected_v31_zksync_os_force_deployments) m))) ()
      \<longleftrightarrow> covers_expected os_address u_newAddress (os_entry_ok v) expected_v31_zksync_os_force_deployments (others a ds)"
    using yields_walk [where chk = "\<lambda>d e. liftM (check_zksync_os_deployment v d e)" and addr = u_newAddress
        and ds = "others a ds", OF _ os_addresses_distinct zksync_os_expected_map_def]
    by simp
  have "yields (verify_v31_zksync_os_force_deployments v ds a) ()
      \<longleftrightarrow> (\<exists>m. yields (foldTM (zksync_os_step v a) ds zksync_os_expected_map) m
        \<and> yields (liftM (report_missing (map os_address expected_v31_zksync_os_force_deployments) m)) ())"
    unfolding verify_v31_zksync_os_force_deployments_def by (rule yields_tryM) simp_all
  also have "\<dots> \<longleftrightarrow> (\<forall>d \<in> set (others a ds). upgradeType d \<noteq> ZKsyncOSUnsafeForceDeployment)
      \<and> yields (tryM (foldTM (\<lambda>d. take_expected (u_newAddress d) (\<lambda>e. liftM (check_zksync_os_deployment v d e)))
        (others a ds) zksync_os_expected_map)
        (\<lambda>m. liftM (report_missing (map os_address expected_v31_zksync_os_force_deployments) m))) ()"
    unfolding yields_os_fold by (subst yields_tryM) auto
  finally show ?thesis
    unfolding walk os_deployments_ok_def .
qed

text \<open>The delegate target: one unsafe deployment of the upgrade contract at its derived address.\<close>

definition delegate_ok :: "ext \<Rightarrow> verifiers \<Rightarrow> address \<Rightarrow> universal_upgrade_info \<Rightarrow> bool" where
  "delegate_ok E v a d \<longleftrightarrow> upgradeType d = ZKsyncOSUnsafeForceDeployment
     \<and> a = generate_zksync_os_random_address E (deployedBytecodeInfo d)
     \<and> length (deployedBytecodeInfo d) = 96
     \<and> evm_deployed_bytecode_hash_to_file (bytecodes v) (from_be_bytes (slice 64 96 (deployedBytecodeInfo d)))
         = Some L2_V31_UPGRADE_CONTRACT"

lemma delegate_simps [simp]:
  "writer (verify_zksync_os_l2_v31_deployment E v a d)"
  "clean (verify_zksync_os_l2_v31_deployment E v a d) \<longleftrightarrow> delegate_ok E v a d"
  by (auto simp: verify_zksync_os_l2_v31_deployment_def delegate_ok_def zksync_os_bytecode_info_hashes_def
      evm_deployed_bytecode_hash_matches_file_def)

definition os_upgrade_ok :: "ext \<Rightarrow> payload_abi \<Rightarrow> verifiers \<Rightarrow> universal_upgrade_info force_deploy_call \<Rightarrow> string \<Rightarrow> bool" where
  "os_upgrade_ok E P v c fixed \<longleftrightarrow> os_deployments_ok v (forceDeployments c) (delegateTo c)
     \<and> (\<exists>d. filter (\<lambda>d. u_newAddress d = delegateTo c) (forceDeployments c) = [d] \<and> delegate_ok E v (delegateTo c) d)
     \<and> inner_calldata_ok E P v (upgrade_calldata c) True fixed"

lemma writer_os_upgrade [simp, writer_intros]: "writer (verify_zksync_os_force_deploy_and_upgrade E P v c fixed)"
  by (auto simp: verify_zksync_os_force_deploy_and_upgrade_def split: list.splits)

lemma yields_os_upgrade:
  "yields (verify_zksync_os_force_deploy_and_upgrade E P v c fixed) () \<longleftrightarrow> os_upgrade_ok E P v c fixed"
  by (auto simp: verify_zksync_os_force_deploy_and_upgrade_def os_upgrade_ok_def yields_os_deployments
      yields_inner_calldata split: list.splits)

text \<open>
  Neither the blake hash nor the length of the delegate's info is compared with the contract
  hashes, and its address is derived from the info itself: any info with the right last word
  passes at its own derived address.
\<close>

lemma delegate_info_free:
  assumes "delegate_ok E v a d" "length prefix = 64"
  defines "info \<equiv> prefix @ drop 64 (deployedBytecodeInfo d)"
  shows "delegate_ok E v (generate_zksync_os_random_address E info) (d\<lparr>deployedBytecodeInfo := info\<rparr>)"
  using assms by (auto simp: delegate_ok_def slice_def take_all)

end
