(* ===== verification/Upgrade_Payload.thy ===== *)
theory Upgrade_Payload
  imports Force_Deploy
begin

section \<open>The proposed upgrade\<close>

text \<open>
  \<^verbatim>\<open>set_new_version_upgrade/mod.rs\<close> and \<^verbatim>\<open>verify_default_upgrade_payload\<close> of
  \<^verbatim>\<open>governance_stage_calls/facets.rs\<close>: the payload of \<^verbatim>\<open>DefaultUpgrade.upgrade\<close>, its static
  fields, the canonical L2 transaction, the factory dependencies and their publication. The
  lemmas reduce the check to a declarative template per flavor.
\<close>

record verifier_params =
  recursionNodeLevelVkHash :: b256
  recursionLeafLevelVkHash :: b256
  recursionCircuitsSetVksHash :: b256

record l2_canonical_transaction =
  tx_txType :: u256
  tx_from :: u256
  tx_l2_to :: u256
  tx_gasLimit :: u256
  tx_gasPerPubdataByteLimit :: u256
  tx_maxFeePerGas :: u256
  tx_maxPriorityFeePerGas :: u256
  tx_paymaster :: u256
  tx_nonce :: u256
  tx_value :: u256
  tx_reserved :: "u256 list"
  tx_data :: bytes
  tx_signature :: bytes
  tx_factoryDeps :: "u256 list"
  tx_paymasterInput :: bytes
  tx_reservedDynamic :: bytes

record proposed_upgrade =
  l2ProtocolUpgradeTx :: l2_canonical_transaction
  bootloaderHash :: b256
  defaultAccountHash :: b256
  evmEmulatorHash :: b256
  pu_verifier :: address
  verifierParams :: verifier_params
  l1ContractsUpgradeCalldata :: bytes
  postUpgradeCalldata :: bytes
  upgradeTimestamp :: u256
  newProtocolVersion :: u256

datatype factory_dep_hash_kind = EraZkBytecode | ZksyncOsEvmBytecode

subsection \<open>Factory dependencies\<close>

definition fixed_bytes_from_u256 :: "u256 \<Rightarrow> b256" where
  "fixed_bytes_from_u256 w = from_be_bytes (to_be_bytes 32 w)"

fun bytecode_hash_to_file :: "verifiers \<Rightarrow> b256 \<Rightarrow> factory_dep_hash_kind \<Rightarrow> string option" where
  "bytecode_hash_to_file v h EraZkBytecode = zk_bytecode_hash_to_file (bytecodes v) h"
| "bytecode_hash_to_file v h ZksyncOsEvmBytecode = evm_deployed_bytecode_hash_to_file (bytecodes v) h"

definition factory_dep_step ::
    "verifiers \<Rightarrow> string list \<Rightarrow> factory_dep_hash_kind \<Rightarrow> u256 \<Rightarrow> nat \<times> string list \<Rightarrow> (nat \<times> string list) vr" where
  "factory_dep_step v expected kind w st = (let (errors, actual) = st in
     case bytecode_hash_to_file v (fixed_bytes_from_u256 w) kind of
       Some file_name \<Rightarrow> do {
         e1 \<leftarrow> (if file_name \<notin> set expected then do { report_error; State_Monad.return (errors + 1) }
               else State_Monad.return errors);
         (if file_name \<in> set actual then do { report_error; State_Monad.return (e1 + 1, actual) }
          else State_Monad.return (e1, file_name # actual)) }
     | None \<Rightarrow> do { report_error; State_Monad.return (errors + 1, actual) })"

definition factory_dep_missing :: "string list \<Rightarrow> nat \<times> string list \<Rightarrow> unit vr" where
  "factory_dep_missing expected st = (let missing = filter (\<lambda>f. f \<notin> set (snd st)) expected in do {
     errors \<leftarrow> (if missing \<noteq> [] then do { report_error; State_Monad.return (fst st + length missing) }
               else State_Monad.return (fst st));
     (if errors = 0 then report_ok else State_Monad.return ()) })"

definition publishing_block :: "verifiers \<Rightarrow> address \<Rightarrow> factory_dep_hash_kind \<Rightarrow> u256 \<Rightarrow> u256 option" where
  "publishing_block v supplier kind w = (case kind of
     EraZkBytecode \<Rightarrow> publishingBlock (l1_provider (network v)) supplier (fixed_bytes_from_u256 w)
   | ZksyncOsEvmBytecode \<Rightarrow> evmPublishingBlock (l1_provider (network v)) supplier (fixed_bytes_from_u256 w))"

definition publish_step :: "verifiers \<Rightarrow> address \<Rightarrow> factory_dep_hash_kind \<Rightarrow> u256 \<Rightarrow> nat \<Rightarrow> nat vr" where
  "publish_step v supplier kind w publish_errors = (case publishing_block v supplier kind w of
     Some block \<Rightarrow> if block \<noteq> 0 then State_Monad.return publish_errors
       else do { report_error; State_Monad.return (publish_errors + 1) }
   | None \<Rightarrow> do { report_error; State_Monad.return (publish_errors + 1) })"

definition verify_factory_deps ::
    "verifiers \<Rightarrow> u256 list \<Rightarrow> string list \<Rightarrow> address option \<Rightarrow> factory_dep_hash_kind \<Rightarrow> unit vr" where
  "verify_factory_deps v deps expected bytecodes_supplier_addr kind = do {
     st \<leftarrow> foldM (factory_dep_step v expected kind) deps (0, []);
     factory_dep_missing expected st;
     (case bytecodes_supplier_addr of None \<Rightarrow> State_Monad.return ()
      | Some supplier_addr \<Rightarrow> do {
          publish_errors \<leftarrow> foldM (publish_step v supplier_addr kind) deps 0;
          (if publish_errors = 0 then report_ok else State_Monad.return ()) }) }"

subsection \<open>The template\<close>

definition verify_static_fields :: "verifiers \<Rightarrow> proposed_upgrade \<Rightarrow> u256 \<Rightarrow> ctm_flavor \<Rightarrow> unit vr" where
  "verify_static_fields v pu expected_new_protocol_version fl = do {
     (case fl of
        Era \<Rightarrow> do {
          expect_zk_bytecode v (bootloaderHash pu) BOOTLOADER_CONTRACT;
          expect_zk_bytecode v (defaultAccountHash pu) DEFAULT_ACCOUNT_CONTRACT;
          expect_zk_bytecode v (evmEmulatorHash pu) EVM_EMULATOR_CONTRACT }
      | ZksyncOs \<Rightarrow> do {
          expect_zero (bootloaderHash pu);
          expect_zero (defaultAccountHash pu);
          expect_zero (evmEmulatorHash pu) });
     forM report_unless [
       pu_verifier pu = 0,
       recursionNodeLevelVkHash (verifierParams pu) = 0 \<and> recursionLeafLevelVkHash (verifierParams pu) = 0
         \<and> recursionCircuitsSetVksHash (verifierParams pu) = 0,
       l1ContractsUpgradeCalldata pu = [],
       postUpgradeCalldata pu = [],
       upgradeTimestamp pu = 0,
       newProtocolVersion pu = expected_new_protocol_version] }"

text \<open>The fields of the canonical transaction, each checked on its own.\<close>

definition canonical_tx_checks :: "l2_canonical_transaction \<Rightarrow> protocol_version \<Rightarrow> bool list" where
  "canonical_tx_checks tx expected_version = [
     tx_from tx = ucast L2_FORCE_DEPLOYER_ADDR,
     tx_l2_to tx = ucast L2_COMPLEX_UPGRADER_ADDR,
     tx_gasLimit tx = ucast L2_UPGRADE_GAS_LIMIT,
     tx_gasPerPubdataByteLimit tx = ucast L2_UPGRADE_GAS_PER_PUBDATA_BYTE_LIMIT,
     tx_maxFeePerGas tx = 0,
     tx_maxPriorityFeePerGas tx = 0,
     tx_paymaster tx = 0,
     tx_nonce tx = ucast (minor expected_version),
     tx_value tx = 0,
     tx_reserved tx = [0, 0, 0, 0],
     tx_signature tx = [],
     tx_paymasterInput tx = [],
     tx_reservedDynamic tx = []]"

definition verify_l2_protocol_upgrade_tx ::
    "ext \<Rightarrow> payload_abi \<Rightarrow> verifiers \<Rightarrow> proposed_upgrade \<Rightarrow> protocol_version \<Rightarrow> string \<Rightarrow> address option
      \<Rightarrow> ctm_flavor \<Rightarrow> unit res vr" where
  "verify_l2_protocol_upgrade_tx E P v pu expected_version expected_fixed supplier fl =
     (let tx = l2ProtocolUpgradeTx pu in
     tryM (liftM (forM report_unless (canonical_tx_checks tx expected_version))) (\<lambda>_.
     case fl of
       Era \<Rightarrow>
         tryM (liftM (report_unless (tx_txType tx = ucast ERA_SYSTEM_UPGRADE_TX_TYPE))) (\<lambda>_.
         case decode_forceDeployAndUpgrade P (tx_data tx) of
           None \<Rightarrow> liftM report_error
         | Some decoded \<Rightarrow>
           tryM (liftM (verify_factory_deps v (tx_factoryDeps tx) EXPECTED_V31_ERA_BYTECODES supplier EraZkBytecode)) (\<lambda>_.
           tryM (verify_era_force_deploy_and_upgrade E P v decoded expected_fixed) (\<lambda>_.
           liftM report_ok)))
     | ZksyncOs \<Rightarrow>
         tryM (liftM (report_unless (tx_txType tx = ucast ZKSYNC_OS_SYSTEM_UPGRADE_TX_TYPE))) (\<lambda>_.
         case decode_forceDeployAndUpgradeUniversal P (tx_data tx) of
           None \<Rightarrow> liftM report_error
         | Some decoded \<Rightarrow>
           tryM (liftM (verify_factory_deps v (tx_factoryDeps tx) EXPECTED_V31_ZKSYNC_OS_BYTECODES supplier
             ZksyncOsEvmBytecode)) (\<lambda>_.
           tryM (verify_zksync_os_force_deploy_and_upgrade E P v decoded expected_fixed) (\<lambda>_.
           liftM report_ok)))))"

definition verify_v31_template ::
    "ext \<Rightarrow> payload_abi \<Rightarrow> verifiers \<Rightarrow> proposed_upgrade \<Rightarrow> u256 \<Rightarrow> string \<Rightarrow> address option \<Rightarrow> ctm_flavor
      \<Rightarrow> nat res vr" where
  "verify_v31_template E P v pu expected_new_protocol_version expected_fixed supplier fl =
     tryM (liftM print_info) (\<lambda>_.
     tryM (State_Monad.return (protocol_version_from_u256 E expected_new_protocol_version)) (\<lambda>expected_version.
     tryM (errors_during_res (
       tryM (liftM (verify_static_fields v pu expected_new_protocol_version fl)) (\<lambda>_.
       verify_l2_protocol_upgrade_tx E P v pu expected_version expected_fixed supplier fl))) (\<lambda>new_errors.
     liftM (do {
       (if new_errors = 0 then report_ok else State_Monad.return ());
       State_Monad.return new_errors }))))"

definition verify_default_upgrade_payload ::
    "ext \<Rightarrow> payload_abi \<Rightarrow> (bytes \<Rightarrow> proposed_upgrade option) \<Rightarrow> verifiers \<Rightarrow> bytes \<Rightarrow> u256 \<Rightarrow> string \<Rightarrow> address option
      \<Rightarrow> ctm_flavor \<Rightarrow> nat res vr" where
  "verify_default_upgrade_payload E P decode_upgrade v init_calldata expected_new_protocol_version expected_fixed supplier fl =
     tryM (State_Monad.return (ok_or (Bail ''decoding DefaultUpgrade.upgrade calldata'')
       (decode_upgrade init_calldata))) (\<lambda>pu.
     verify_v31_template E P v pu expected_new_protocol_version expected_fixed supplier fl)"

section \<open>Factory dependencies that pass\<close>

lemma fixed_bytes_id [simp]: "fixed_bytes_from_u256 w = w"
  by (simp add: fixed_bytes_from_u256_def from_to_be_bytes)

text \<open>
  Every dependency is known, the names are the expected ones without repetition, and, where a
  supplier is known, every one has been published.
\<close>

definition deps_ok :: "verifiers \<Rightarrow> u256 list \<Rightarrow> string list \<Rightarrow> factory_dep_hash_kind \<Rightarrow> bool" where
  "deps_ok v deps expected kind \<longleftrightarrow> (\<exists>names. map (\<lambda>w. bytecode_hash_to_file v w kind) deps = map Some names
     \<and> distinct names \<and> set names = set expected)"

definition published :: "verifiers \<Rightarrow> u256 list \<Rightarrow> address option \<Rightarrow> factory_dep_hash_kind \<Rightarrow> bool" where
  "published v deps supplier kind \<longleftrightarrow> (\<forall>s. supplier = Some s \<longrightarrow>
     (\<forall>w \<in> set deps. \<exists>b. publishing_block v s kind w = Some b \<and> b \<noteq> 0))"

lemma writer_dep_step [simp, writer_intros]: "writer (factory_dep_step v ex k w st)"
  by (auto simp: factory_dep_step_def Let_def split: prod.splits option.splits)

lemma dep_step_simps:
  "clean (factory_dep_step v ex k w (e, acc))
    \<longleftrightarrow> (\<exists>f. bytecode_hash_to_file v w k = Some f \<and> f \<in> set ex \<and> f \<notin> set acc)"
  "clean (factory_dep_step v ex k w (e, acc)) \<Longrightarrow>
    val (factory_dep_step v ex k w (e, acc)) = (e, the (bytecode_hash_to_file v w k) # acc)"
  by (auto simp: factory_dep_step_def split: option.splits if_splits)

lemma dep_loop:
  assumes "distinct acc"
  shows "clean (foldM (factory_dep_step v ex k) deps (e, acc)) \<longleftrightarrow> (\<exists>names.
      map (\<lambda>w. bytecode_hash_to_file v w k) deps = map Some names \<and> distinct (rev names @ acc) \<and> set names \<subseteq> set ex)"
    and "clean (foldM (factory_dep_step v ex k) deps (e, acc)) \<Longrightarrow>
      val (foldM (factory_dep_step v ex k) deps (e, acc))
        = (e, rev (map (\<lambda>w. the (bytecode_hash_to_file v w k)) deps) @ acc)"
  using assms
proof (induction deps arbitrary: acc)
  case (Cons w deps)
  note step = dep_step_simps [of v ex k w e]
  case 1
  show ?case
  proof (cases "clean (factory_dep_step v ex k w (e, acc))")
    case True
    then obtain f where f: "bytecode_hash_to_file v w k = Some f" "f \<in> set ex" "f \<notin> set acc"
      by (auto simp: step(1))
    have "clean (foldM (factory_dep_step v ex k) (w # deps) (e, acc))
        \<longleftrightarrow> clean (foldM (factory_dep_step v ex k) deps (e, f # acc))"
      using True step(2) f(1) by simp
    also have "\<dots> \<longleftrightarrow> (\<exists>names. map (\<lambda>w. bytecode_hash_to_file v w k) deps = map Some names
        \<and> distinct (rev names @ f # acc) \<and> set names \<subseteq> set ex)"
      using Cons.IH(1) [of "f # acc"] f(3) 1 by simp
    also have "\<dots> \<longleftrightarrow> (\<exists>names. map (\<lambda>w. bytecode_hash_to_file v w k) (w # deps) = map Some names
        \<and> distinct (rev names @ acc) \<and> set names \<subseteq> set ex)"
      using f by (auto simp: Cons_eq_map_conv)
    finally show ?thesis .
  next
    case False
    then show ?thesis
      using step(1) by (auto simp: Cons_eq_map_conv)
  qed
  case 2
  then show ?case
    using Cons.IH(2) [of "the (bytecode_hash_to_file v w k) # acc"] step by auto
qed simp_all

lemma publish_simps:
  "writer (publish_step v s k w n)"
  "clean (publish_step v s k w n) \<longleftrightarrow> (\<exists>b. publishing_block v s k w = Some b \<and> b \<noteq> 0)"
  by (auto simp: publish_step_def split: option.splits)

lemma writer_dep_missing [simp, writer_intros]: "writer (factory_dep_missing ex st)"
  by (simp add: factory_dep_missing_def Let_def)

lemma clean_dep_missing: "clean (factory_dep_missing ex st) \<longleftrightarrow> set ex \<subseteq> set (snd st)"
  by (auto simp: factory_dep_missing_def Let_def filter_empty_conv)

lemma writer_factory_deps [simp, writer_intros]: "writer (verify_factory_deps v deps ex s k)"
  by (auto simp: verify_factory_deps_def publish_simps split: option.splits)

lemma map_the: "map f xs = map Some ys \<Longrightarrow> map (\<lambda>x. the (f x)) xs = ys"
  by (induction xs arbitrary: ys) auto

lemma clean_factory_deps [simp]:
  "clean (verify_factory_deps v deps ex s k) \<longleftrightarrow> deps_ok v deps ex k \<and> published v deps s k"
proof -
  let ?loop = "foldM (factory_dep_step v ex k) deps (0, [])"
  note loop = dep_loop [of "[]" v ex k deps 0]
  have names: "clean ?loop \<and> clean (factory_dep_missing ex (val ?loop)) \<longleftrightarrow> deps_ok v deps ex k"
  proof
    assume c: "clean ?loop \<and> clean (factory_dep_missing ex (val ?loop))"
    then obtain ns where ns: "map (\<lambda>w. bytecode_hash_to_file v w k) deps = map Some ns" "distinct ns" "set ns \<subseteq> set ex"
      using loop(1) by auto
    moreover have "set ex \<subseteq> set ns"
      using c loop(2) map_the [OF ns(1)] by (auto simp: clean_dep_missing)
    ultimately show "deps_ok v deps ex k"
      unfolding deps_ok_def by (intro exI [of _ ns]) auto
  next
    assume "deps_ok v deps ex k"
    then obtain ns where ns: "map (\<lambda>w. bytecode_hash_to_file v w k) deps = map Some ns" "distinct ns" "set ns = set ex"
      by (auto simp: deps_ok_def)
    then have "clean ?loop"
      unfolding loop(1) [OF distinct.simps(1) [THEN iffD2, OF TrueI]] by auto
    then show "clean ?loop \<and> clean (factory_dep_missing ex (val ?loop))"
      using loop(2) map_the [OF ns(1)] ns(3) by (simp add: clean_dep_missing)
  qed
  have pub: "clean (foldM (publish_step v a k) deps 0)
      \<longleftrightarrow> (\<forall>w \<in> set deps. \<exists>b. publishing_block v a k w = Some b \<and> b \<noteq> 0)" for a
    by (rule clean_foldM) (simp_all add: publish_simps)
  show ?thesis
    by (cases s) (simp_all add: verify_factory_deps_def names [symmetric] published_def publish_simps pub conj_ac)
qed

section \<open>Upgrades that pass\<close>

definition static_fields_ok :: "verifiers \<Rightarrow> proposed_upgrade \<Rightarrow> u256 \<Rightarrow> ctm_flavor \<Rightarrow> bool" where
  "static_fields_ok v pu version fl \<longleftrightarrow>
     (case fl of
        Era \<Rightarrow> zk_bytecode_hash_to_file (bytecodes v) (bootloaderHash pu) = Some BOOTLOADER_CONTRACT
          \<and> zk_bytecode_hash_to_file (bytecodes v) (defaultAccountHash pu) = Some DEFAULT_ACCOUNT_CONTRACT
          \<and> zk_bytecode_hash_to_file (bytecodes v) (evmEmulatorHash pu) = Some EVM_EMULATOR_CONTRACT
      | ZksyncOs \<Rightarrow> bootloaderHash pu = 0 \<and> defaultAccountHash pu = 0 \<and> evmEmulatorHash pu = 0)
     \<and> pu_verifier pu = 0
     \<and> verifierParams pu = \<lparr>recursionNodeLevelVkHash = 0, recursionLeafLevelVkHash = 0, recursionCircuitsSetVksHash = 0\<rparr>
     \<and> l1ContractsUpgradeCalldata pu = [] \<and> postUpgradeCalldata pu = [] \<and> upgradeTimestamp pu = 0
     \<and> newProtocolVersion pu = version"

lemma static_fields_simps [simp]:
  "writer (verify_static_fields v pu version fl)"
  "clean (verify_static_fields v pu version fl) \<longleftrightarrow> static_fields_ok v pu version fl"
  by (cases fl; cases "verifierParams pu"; simp add: verify_static_fields_def static_fields_ok_def)+

text \<open>The prescribed transaction, but for its data and factory dependencies.\<close>

definition canonical_tx :: "ctm_flavor \<Rightarrow> u64 \<Rightarrow> bytes \<Rightarrow> u256 list \<Rightarrow> l2_canonical_transaction" where
  "canonical_tx fl minor_version d deps = \<lparr>
     tx_txType = (case fl of Era \<Rightarrow> 254 | ZksyncOs \<Rightarrow> 126), tx_from = 0x8007, tx_l2_to = 0x800f,
     tx_gasLimit = 72000000, tx_gasPerPubdataByteLimit = 800, tx_maxFeePerGas = 0, tx_maxPriorityFeePerGas = 0,
     tx_paymaster = 0, tx_nonce = ucast minor_version, tx_value = 0, tx_reserved = [0, 0, 0, 0], tx_data = d,
     tx_signature = [], tx_factoryDeps = deps, tx_paymasterInput = [], tx_reservedDynamic = []\<rparr>"

lemmas tx_constants = address_values L2_UPGRADE_GAS_LIMIT_def L2_UPGRADE_GAS_PER_PUBDATA_BYTE_LIMIT_def
  ERA_SYSTEM_UPGRADE_TX_TYPE_def ZKSYNC_OS_SYSTEM_UPGRADE_TX_TYPE_def

lemma canonical_tx_iff:
  "(\<forall>b \<in> set (canonical_tx_checks tx ver). b)
      \<and> tx_txType tx = (case fl of Era \<Rightarrow> 254 | ZksyncOs \<Rightarrow> 126)
    \<longleftrightarrow> tx = canonical_tx fl (minor ver) (tx_data tx) (tx_factoryDeps tx)"
  by (cases tx) (auto simp: canonical_tx_checks_def canonical_tx_def tx_constants)

definition flavor_payload_ok ::
    "ext \<Rightarrow> payload_abi \<Rightarrow> verifiers \<Rightarrow> l2_canonical_transaction \<Rightarrow> string \<Rightarrow> address option \<Rightarrow> ctm_flavor \<Rightarrow> bool" where
  "flavor_payload_ok E P v tx fixed supplier fl \<longleftrightarrow> (case fl of
     Era \<Rightarrow> (\<exists>c. decode_forceDeployAndUpgrade P (tx_data tx) = Some c
       \<and> deps_ok v (tx_factoryDeps tx) EXPECTED_V31_ERA_BYTECODES EraZkBytecode
       \<and> published v (tx_factoryDeps tx) supplier EraZkBytecode \<and> era_upgrade_ok E P v c fixed)
   | ZksyncOs \<Rightarrow> (\<exists>c. decode_forceDeployAndUpgradeUniversal P (tx_data tx) = Some c
       \<and> deps_ok v (tx_factoryDeps tx) EXPECTED_V31_ZKSYNC_OS_BYTECODES ZksyncOsEvmBytecode
       \<and> published v (tx_factoryDeps tx) supplier ZksyncOsEvmBytecode \<and> os_upgrade_ok E P v c fixed))"

lemma writer_upgrade_tx [simp, writer_intros]: "writer (verify_l2_protocol_upgrade_tx E P v pu ver fixed s fl)"
  by (auto simp: verify_l2_protocol_upgrade_tx_def Let_def split: ctm_flavor.splits option.splits)

lemma yields_upgrade_tx:
  "yields (verify_l2_protocol_upgrade_tx E P v pu ver fixed s fl) ()
    \<longleftrightarrow> l2ProtocolUpgradeTx pu = canonical_tx fl (minor ver) (tx_data (l2ProtocolUpgradeTx pu))
        (tx_factoryDeps (l2ProtocolUpgradeTx pu))
      \<and> flavor_payload_ok E P v (l2ProtocolUpgradeTx pu) fixed s fl"
proof -
  have "yields (verify_l2_protocol_upgrade_tx E P v pu ver fixed s fl) ()
    \<longleftrightarrow> ((\<forall>b \<in> set (canonical_tx_checks (l2ProtocolUpgradeTx pu) ver). b)
      \<and> tx_txType (l2ProtocolUpgradeTx pu) = (case fl of Era \<Rightarrow> 254 | ZksyncOs \<Rightarrow> 126))
      \<and> flavor_payload_ok E P v (l2ProtocolUpgradeTx pu) fixed s fl"
    by (cases fl) (auto simp: verify_l2_protocol_upgrade_tx_def Let_def flavor_payload_ok_def
        ERA_SYSTEM_UPGRADE_TX_TYPE_def ZKSYNC_OS_SYSTEM_UPGRADE_TX_TYPE_def
        yields_era_upgrade yields_os_upgrade split: option.splits)
  then show ?thesis
    by (simp only: canonical_tx_iff)
qed

text \<open>The whole payload: the version unpacks, the static fields and the transaction are right.\<close>

definition template_ok ::
    "ext \<Rightarrow> payload_abi \<Rightarrow> verifiers \<Rightarrow> proposed_upgrade \<Rightarrow> u256 \<Rightarrow> string \<Rightarrow> address option \<Rightarrow> ctm_flavor \<Rightarrow> bool" where
  "template_ok E P v pu version fixed supplier fl \<longleftrightarrow> (\<exists>ver. protocol_version_from_u256 E version = Inr ver
     \<and> static_fields_ok v pu version fl
     \<and> l2ProtocolUpgradeTx pu = canonical_tx fl (minor ver) (tx_data (l2ProtocolUpgradeTx pu))
         (tx_factoryDeps (l2ProtocolUpgradeTx pu))
     \<and> flavor_payload_ok E P v (l2ProtocolUpgradeTx pu) fixed supplier fl)"

lemma writer_template [simp, writer_intros]: "writer (verify_v31_template E P v pu version fixed s fl)"
  by (simp add: verify_v31_template_def)

lemma yields_template:
  "yields (verify_v31_template E P v pu version fixed s fl) n \<longleftrightarrow> n = 0 \<and> template_ok E P v pu version fixed s fl"
  by (auto simp: verify_v31_template_def yields_upgrade_tx template_ok_def)

lemma writer_default_payload [simp, writer_intros]:
  "writer (verify_default_upgrade_payload E P dec v c version fixed s fl)"
  by (simp add: verify_default_upgrade_payload_def)

lemma yields_default_payload:
  "yields (verify_default_upgrade_payload E P dec v c version fixed s fl) n
    \<longleftrightarrow> n = 0 \<and> (\<exists>pu. dec c = Some pu \<and> template_ok E P v pu version fixed s fl)"
  by (auto simp: verify_default_upgrade_payload_def yields_template)

end
