(* ===== verification/Stage0.thy ===== *)
theory Stage0
  imports Governance_Helpers
begin

section \<open>Stage 0: the calls before the upgrade\<close>

text \<open>
  \<^verbatim>\<open>governance_stage_calls/stage0.rs\<close>: pause migrations, start one timer per CTM, on
  environments governed by the ProtocolUpgradeHandler (PUH) swap its implementation and councils,
  then accept the ownerships that are still pending. The lemmas take the check apart down to a
  declarative layout of the call list; a list that passes has no call outside that layout as
  long as no two CTMs name the same timer.
\<close>

subsection \<open>Timers\<close>

definition TIMER_PATH :: "string list" where
  "TIMER_PATH = [''deployed_addresses'', ''l1_governance_upgrade_timer'']"

definition verify_timer_call :: "ext \<Rightarrow> call list \<Rightarrow> nat \<Rightarrow> ctm_artifact \<Rightarrow> nat vr" where
  "verify_timer_call E calls timer_window_end ctm = do {
     timer \<leftarrow> required_ctm_address E ctm TIMER_PATH;
     (case timer of None \<Rightarrow> State_Monad.return 1
      | Some t \<Rightarrow> (case find (\<lambda>idx. target (calls ! idx) = t) [1..<timer_window_end] of
          Some idx \<Rightarrow> verify_call_by_address E calls idx t ''startTimer()''
        | None \<Rightarrow> do { report_error; State_Monad.return 1 })) }"

subsection \<open>Deferred ownership transfers\<close>

text \<open>One candidate of the loop over the CTMs: a missing address is an error and no candidate.\<close>

definition push_candidate :: "ext \<Rightarrow> ctm_artifact \<Rightarrow> string list \<Rightarrow> address list \<Rightarrow> address list vr" where
  "push_candidate E ctm path candidates = do {
     a \<leftarrow> required_ctm_address E ctm path;
     State_Monad.return (case a of None \<Rightarrow> candidates
       | Some x \<Rightarrow> if x \<noteq> 0 \<and> x \<notin> set candidates then candidates @ [x] else candidates) }"

definition push_ctm_proxy :: "ext \<Rightarrow> ctm_artifact \<Rightarrow> address list \<Rightarrow> address list vr" where
  "push_ctm_proxy E ctm candidates = do {
     a \<leftarrow> required_ctm_address E ctm [''state_transition'', ''chain_type_manager_proxy''];
     (case a of None \<Rightarrow> State_Monad.return candidates
      | Some x \<Rightarrow> if x = 0 then do { report_error; State_Monad.return candidates }
          else State_Monad.return (if x \<in> set candidates then candidates else candidates @ [x])) }"

definition push_ctm_candidates :: "ext \<Rightarrow> ctm_artifact \<Rightarrow> address list \<Rightarrow> address list vr" where
  "push_ctm_candidates E ctm c0 = do {
     c1 \<leftarrow> push_ctm_proxy E ctm c0;
     c2 \<leftarrow> push_candidate E ctm [''state_transition'', ''validator_timelock_addr''] c1;
     c3 \<leftarrow> push_candidate E ctm TIMER_PATH c2;
     c4 \<leftarrow> (if toml_get (ctm_value ctm) ''rollup_da_pair'' = None
           then push_candidate E ctm [''deployed_addresses'', ''l1_rollup_da_manager''] c3
           else State_Monad.return c3);
     (if flavor ctm = ZksyncOs then push_candidate E ctm [''state_transition'', ''verifier_addr''] c4
      else State_Monad.return c4) }"

definition pending_target :: "l1_rpc \<Rightarrow> address \<Rightarrow> address \<Rightarrow> address list \<Rightarrow> address list res" where
  "pending_target l1 governance candidate targets =
     bind_res (ok_or (Bail ''read pendingOwner()'') (pendingOwner l1 candidate)) (\<lambda>pending_owner.
     Inr (if pending_owner = governance then targets @ [candidate] else targets))"

definition collect_pre_governance_accept_ownership_targets ::
    "ext \<Rightarrow> ecosystem_upgrade_artifact \<Rightarrow> verifiers \<Rightarrow> address \<Rightarrow> address list res vr" where
  "collect_pre_governance_accept_ownership_targets E artifact v governance =
     tryM (liftM (foldM (push_ctm_candidates E) (ctms artifact) [])) (\<lambda>candidates.
     State_Monad.return (fold_res (pending_target (l1_provider (network v)) governance) candidates []))"

definition is_accept :: "abi \<Rightarrow> call \<Rightarrow> bool" where
  "is_accept A c \<longleftrightarrow> 4 \<le> length (data c) \<and> slice 0 4 (data c) = acceptOwnership_SELECTOR A"

definition tail_step ::
    "abi \<Rightarrow> nat \<Rightarrow> address list \<Rightarrow> nat \<times> call \<Rightarrow> nat \<times> address list \<Rightarrow> (nat \<times> address list) vr" where
  "tail_step A tail_start expected_targets ic st = (let (index, c) = ic; (errors, seen_targets) = st in do {
     e1 \<leftarrow> (if index < tail_start \<and> is_accept A c then do { report_error; State_Monad.return (errors + 1) }
           else State_Monad.return errors);
     (if index < tail_start then State_Monad.return (e1, seen_targets)
      else if \<not> is_accept A c then do { report_error; State_Monad.return (e1 + 1, seen_targets) }
      else do {
        e2 \<leftarrow> (if call_value c \<noteq> 0 then do { report_error; State_Monad.return (e1 + 1) }
              else State_Monad.return e1);
        e3 \<leftarrow> (if length (data c) \<noteq> 4 then do { report_error; State_Monad.return (e2 + 1) }
              else State_Monad.return e2);
        (if target c \<notin> set expected_targets then do { report_error; State_Monad.return (e3 + 1, seen_targets) }
         else if target c \<in> set seen_targets then do { report_error; State_Monad.return (e3 + 1, seen_targets) }
         else State_Monad.return (e3, seen_targets @ [target c])) }) })"

definition tail_missing :: "address list \<Rightarrow> nat \<times> address list \<Rightarrow> nat vr" where
  "tail_missing expected_targets st =
     (if filter (\<lambda>t. t \<notin> set (snd st)) expected_targets \<noteq> []
      then do { report_error; State_Monad.return (fst st + 1) }
      else do { report_ok; State_Monad.return (fst st) })"

definition verify_pre_governance_accept_ownership_tail ::
    "abi \<Rightarrow> call list \<Rightarrow> nat \<Rightarrow> address list \<Rightarrow> nat vr" where
  "verify_pre_governance_accept_ownership_tail A calls tail_start expected_targets = do {
     st \<leftarrow> foldM (tail_step A tail_start expected_targets) (enumerate 0 calls) (0, []);
     tail_missing expected_targets st }"

subsection \<open>The ProtocolUpgradeHandler block\<close>

definition compare_puh_shared_address :: "address option \<Rightarrow> address option \<Rightarrow> unit vr" where
  "compare_puh_shared_address current_addr new_addr = (case (current_addr, new_addr) of
     (Some c, Some n) \<Rightarrow> if c = n then report_ok else report_error
   | (None, _) \<Rightarrow> report_error
   | (_, None) \<Rightarrow> report_error)"

definition compare_puh_expected_address :: "address \<Rightarrow> address \<Rightarrow> unit vr" where
  "compare_puh_expected_address actual expected = (if actual = expected then report_ok else report_error)"

definition compare_puh_getter :: "address option \<Rightarrow> address option \<Rightarrow> unit vr" where
  "compare_puh_getter getter expected = (case expected of None \<Rightarrow> State_Monad.return ()
   | Some e \<Rightarrow> (case getter of
       Some actual \<Rightarrow> compare_puh_expected_address actual e
     | None \<Rightarrow> report_error))"

definition compare_puh_ctm :: "ext \<Rightarrow> ecosystem_upgrade_artifact \<Rightarrow> ctm_flavor \<Rightarrow> address option \<Rightarrow> unit vr" where
  "compare_puh_ctm E artifact fl getter = (case find (\<lambda>c. flavor c = fl) (ctms artifact) of
     None \<Rightarrow> State_Monad.return ()
   | Some c \<Rightarrow> do {
       expected \<leftarrow> required_ctm_address E c [''state_transition'', ''chain_type_manager_proxy''];
       compare_puh_getter getter expected })"

definition verify_puh_immutables ::
    "ext \<Rightarrow> address \<Rightarrow> address \<Rightarrow> ecosystem_upgrade_artifact \<Rightarrow> verifiers \<Rightarrow> nat vr" where
  "verify_puh_immutables E current_puh_addr new_impl_addr artifact v = errors_during (
     let current_puh = ProtocolUpgradeHandler (l1_provider (network v)) current_puh_addr;
         new_impl = ProtocolUpgradeHandler (l1_provider (network v)) new_impl_addr in do {
       compare_puh_shared_address (L2_PROTOCOL_GOVERNOR current_puh) (L2_PROTOCOL_GOVERNOR new_impl);
       compare_puh_shared_address (CHAIN_TYPE_MANAGER current_puh) (CHAIN_TYPE_MANAGER new_impl);
       compare_puh_shared_address (BRIDGE_HUB current_puh) (BRIDGE_HUB new_impl);
       compare_puh_shared_address (L1_NULLIFIER current_puh) (L1_NULLIFIER new_impl);
       compare_puh_shared_address (L1_ASSET_ROUTER current_puh) (L1_ASSET_ROUTER new_impl);
       compare_puh_shared_address (L1_NATIVE_TOKEN_VAULT current_puh) (L1_NATIVE_TOKEN_VAULT new_impl);
       expected_chain_asset_handler \<leftarrow> required_core_address E artifact
         [''upgrade_addresses'', ''bridgehub'', ''chain_asset_handler_proxy_addr''];
       compare_puh_getter (CHAIN_ASSET_HANDLER new_impl) expected_chain_asset_handler;
       compare_puh_ctm E artifact Era (ERA_CHAIN_TYPE_MANAGER new_impl);
       compare_puh_ctm E artifact ZksyncOs (ZKSYNC_OS_CHAIN_TYPE_MANAGER new_impl);
       (case ERA_CHAIN_ID new_impl of
          Some actual \<Rightarrow> if actual = ucast (registered_era_chain_id v) then report_ok else report_error
        | None \<Rightarrow> report_error) })"

definition verify_puh_upgrade_args ::
    "ext \<Rightarrow> abi \<Rightarrow> zk_governance_artifact \<Rightarrow> ecosystem_upgrade_artifact \<Rightarrow> verifiers \<Rightarrow> call \<Rightarrow> nat vr" where
  "verify_puh_upgrade_args E A zk artifact v c = (case decode_upgradeAndCall A (data c) of
     Some (proxy, implementation, d) \<Rightarrow>
       if proxy \<noteq> bridgehub_owner v then do { report_error; State_Monad.return 1 }
       else if implementation \<noteq> new_puh_impl zk then do { report_error; State_Monad.return 1 }
       else if d \<noteq> [] then do { report_error; State_Monad.return 1 }
       else do {
         report_ok;
         e1 \<leftarrow> verify_address_has_code v implementation;
         e2 \<leftarrow> verify_puh_immutables E (bridgehub_owner v) implementation artifact v;
         State_Monad.return (e1 + e2) }
   | None \<Rightarrow> do { report_error; State_Monad.return 1 })"

text \<open>The three setters \<^verbatim>\<open>updateSecurityCouncil\<close>, \<^verbatim>\<open>updateGuardians\<close> and
  \<^verbatim>\<open>updateEmergencyUpgradeBoard\<close> are checked by the same code.\<close>

definition verify_puh_setter_arg :: "verifiers \<Rightarrow> (bytes \<Rightarrow> address option) \<Rightarrow> address \<Rightarrow> call \<Rightarrow> nat vr" where
  "verify_puh_setter_arg v decode expected c = (case decode (data c) of
     Some new_address \<Rightarrow> do {
       report_ok;
       e1 \<leftarrow> (if new_address = expected then do { report_ok; State_Monad.return 0 }
             else do { report_error; State_Monad.return 1 });
       e2 \<leftarrow> verify_address_has_code v new_address;
       State_Monad.return (e1 + e2) }
   | None \<Rightarrow> do { report_error; State_Monad.return 1 })"

definition verify_puh_block ::
    "ext \<Rightarrow> abi \<Rightarrow> ecosystem_upgrade_artifact \<Rightarrow> verifiers \<Rightarrow> call list \<Rightarrow> nat \<Rightarrow> address \<Rightarrow> nat res vr" where
  "verify_puh_block E A artifact v calls base_count admin =
     tryM (State_Monad.return (ok_or (Bail ''missing [zk_governance]'') (zk_governance artifact))) (\<lambda>zk.
     sum_errors (map liftM [
       verify_call_by_address E calls base_count admin ''upgradeAndCall(address,address,bytes)'',
       with_call calls base_count (verify_puh_upgrade_args E A zk artifact v),
       verify_call_by_address E calls (base_count + 1) (bridgehub_owner v) ''updateSecurityCouncil(address)'',
       with_call calls (base_count + 1)
         (verify_puh_setter_arg v (decode_updateSecurityCouncil A) (new_security_council zk)),
       verify_call_by_address E calls (base_count + 2) (bridgehub_owner v) ''updateGuardians(address)'',
       with_call calls (base_count + 2)
         (verify_puh_setter_arg v (decode_updateGuardians A) (new_guardians zk)),
       verify_call_by_address E calls (base_count + 3) (bridgehub_owner v) ''updateEmergencyUpgradeBoard(address)'',
       with_call calls (base_count + 3)
         (verify_puh_setter_arg v (decode_updateEmergencyUpgradeBoard A) (new_emergency_upgrade_board zk))]))"

subsection \<open>The stage\<close>

definition stage0_verify_artifact ::
    "ext \<Rightarrow> abi \<Rightarrow> ecosystem_upgrade_artifact \<Rightarrow> verifiers \<Rightarrow> call list \<Rightarrow> unit res vr" where
  "stage0_verify_artifact E A artifact v calls =
     tryM (liftM print_info) (\<lambda>_. bail_on_errors (
     let base_count = 1 + length (ctms artifact);
         timer_window_end = min base_count (length calls) in
     sum_errors ([liftM (verify_call_by_name E v calls 0 ''chain_asset_handler_proxy'' ''pauseMigration()'')]
       @ map (\<lambda>ctm. liftM (verify_timer_call E calls timer_window_end ctm)) (ctms artifact)
       @ [tryM (State_Monad.return (get_proxy_admin (network v) (bridgehub_owner v))) (\<lambda>admin.
          tryM (collect_pre_governance_accept_ownership_targets E artifact v (bridgehub_owner v)) (\<lambda>targets.
          let tail_start = (if admin \<noteq> 0 then base_count + 4 else base_count) in
          sum_errors [
            (if admin \<noteq> 0 then verify_puh_block E A artifact v calls base_count admin else okM 0),
            liftM (verify_pre_governance_accept_ownership_tail A calls tail_start targets),
            liftM (verify_call_count calls (tail_start + length targets))]))])))"

section \<open>Timers\<close>

text \<open>The first call of the window to the CTM's timer is a well-formed \<^verbatim>\<open>startTimer()\<close>.\<close>

definition timer_ok :: "ext \<Rightarrow> call list \<Rightarrow> nat \<Rightarrow> ctm_artifact \<Rightarrow> bool" where
  "timer_ok E calls window_end ctm \<longleftrightarrow> (\<exists>t idx. address_at E (ctm_value ctm) TIMER_PATH = Some t
     \<and> find (\<lambda>i. target (calls ! i) = t) [1..<window_end] = Some idx \<and> call_ok E calls idx t ''startTimer()'')"

lemma writer_timer_call [simp, writer_intros]: "writer (verify_timer_call E calls w ctm)"
  by (auto simp: verify_timer_call_def split: option.splits)

lemma timer_call_counts: "counts_errors (verify_timer_call E calls w ctm)"
  using primitives_count_errors(5) [of E calls _ _ "''startTimer()''"]
  by (cases "address_at E (ctm_value ctm) TIMER_PATH")
    (auto simp: verify_timer_call_def counts_errors_def split: option.splits)

lemma clean_timer_call: "clean (verify_timer_call E calls w ctm) \<longleftrightarrow> timer_ok E calls w ctm"
  by (cases "address_at E (ctm_value ctm) TIMER_PATH")
    (auto simp: verify_timer_call_def timer_ok_def clean_call_by_address split: option.splits)

section \<open>Deferred ownership transfers\<close>

definition candidate_paths :: "ctm_artifact \<Rightarrow> string list list" where
  "candidate_paths ctm = [[''state_transition'', ''chain_type_manager_proxy''],
     [''state_transition'', ''validator_timelock_addr''], TIMER_PATH]
     @ (if toml_get (ctm_value ctm) ''rollup_da_pair'' = None then [[''deployed_addresses'', ''l1_rollup_da_manager'']] else [])
     @ (if flavor ctm = ZksyncOs then [[''state_transition'', ''verifier_addr'']] else [])"

definition push_new :: "address option \<Rightarrow> address list \<Rightarrow> address list" where
  "push_new x c = (case x of None \<Rightarrow> c | Some a \<Rightarrow> if a \<noteq> 0 \<and> a \<notin> set c then c @ [a] else c)"

lemma push_simps [simp]:
  "writer (push_candidate E ctm p c)" "writer (push_ctm_proxy E ctm c)"
  "val (push_candidate E ctm p c) = push_new (address_at E (ctm_value ctm) p) c"
  "val (push_ctm_proxy E ctm c)
    = push_new (address_at E (ctm_value ctm) [''state_transition'', ''chain_type_manager_proxy'']) c"
  "clean (push_candidate E ctm p c) \<longleftrightarrow> address_at E (ctm_value ctm) p \<noteq> None"
  "clean (push_ctm_proxy E ctm c)
    \<longleftrightarrow> address_at E (ctm_value ctm) [''state_transition'', ''chain_type_manager_proxy''] \<notin> {None, Some 0}"
  by (auto simp: push_candidate_def push_ctm_proxy_def push_new_def split: option.splits)

text \<open>The artifact names every candidate of the CTM and its proxy is not zero.\<close>

definition candidates_named :: "ext \<Rightarrow> ctm_artifact \<Rightarrow> bool" where
  "candidates_named E ctm \<longleftrightarrow> (\<forall>p \<in> set (candidate_paths ctm). address_at E (ctm_value ctm) p \<noteq> None)
     \<and> address_at E (ctm_value ctm) [''state_transition'', ''chain_type_manager_proxy''] \<noteq> Some 0"

lemma push_ctm_candidates_simps [simp]:
  "writer (push_ctm_candidates E ctm c)"
  "val (push_ctm_candidates E ctm c) = fold (\<lambda>p. push_new (address_at E (ctm_value ctm) p)) (candidate_paths ctm) c"
  "clean (push_ctm_candidates E ctm c) \<longleftrightarrow> candidates_named E ctm"
  by (auto simp: push_ctm_candidates_def candidate_paths_def candidates_named_def)

definition candidate_list :: "ext \<Rightarrow> ctm_artifact list \<Rightarrow> address list" where
  "candidate_list E cs = fold (\<lambda>ctm. fold (\<lambda>p. push_new (address_at E (ctm_value ctm) p)) (candidate_paths ctm)) cs []"

lemma push_candidates_simps [simp]:
  "val (foldM (push_ctm_candidates E) cs []) = candidate_list E cs"
  "clean (foldM (push_ctm_candidates E) cs []) \<longleftrightarrow> (\<forall>ctm \<in> set cs. candidates_named E ctm)"
  by (simp_all add: val_foldM candidate_list_def clean_foldM [of _ "candidates_named E"])

lemma push_new_set: "set (push_new x c) = set c \<union> {a. x = Some a \<and> a \<noteq> 0}"
  by (auto simp: push_new_def split: option.splits)

lemma push_new_distinct: "distinct c \<Longrightarrow> distinct (push_new x c)"
  by (auto simp: push_new_def split: option.splits)

lemma push_paths:
  "set (fold (\<lambda>p. push_new (f p)) ps c) = set c \<union> {a. a \<noteq> 0 \<and> (\<exists>p \<in> set ps. f p = Some a)}"
  "distinct c \<Longrightarrow> distinct (fold (\<lambda>p. push_new (f p)) ps c)"
  by (induction ps arbitrary: c) (auto simp: push_new_set push_new_distinct)

lemma candidate_fold:
  "set (fold (\<lambda>x. fold (\<lambda>p. push_new (f x p)) (ps x)) xs c)
    = set c \<union> {a. a \<noteq> 0 \<and> (\<exists>x \<in> set xs. \<exists>p \<in> set (ps x). f x p = Some a)}"
  "distinct c \<Longrightarrow> distinct (fold (\<lambda>x. fold (\<lambda>p. push_new (f x p)) (ps x)) xs c)"
  by (induction xs arbitrary: c) (auto simp: push_paths)

lemma candidate_list_set:
  "set (candidate_list E cs) = {a. a \<noteq> 0 \<and> (\<exists>ctm \<in> set cs. \<exists>p \<in> set (candidate_paths ctm).
     address_at E (ctm_value ctm) p = Some a)}"
  "distinct (candidate_list E cs)"
  using candidate_fold [where f = "\<lambda>ctm p. address_at E (ctm_value ctm) p" and ps = candidate_paths
      and xs = cs and c = "[]"]
  by (simp_all add: candidate_list_def)

text \<open>The candidates whose pending owner is governance.\<close>

definition accept_targets :: "ext \<Rightarrow> ecosystem_upgrade_artifact \<Rightarrow> verifiers \<Rightarrow> address list" where
  "accept_targets E artifact v = filter (\<lambda>a. pendingOwner (l1_provider (network v)) a = Some (bridgehub_owner v))
     (candidate_list E (ctms artifact))"

lemma fold_pending:
  "fold_res (pending_target l1 g) cs ts = Inr ts'
    \<longleftrightarrow> (\<forall>c \<in> set cs. pendingOwner l1 c \<noteq> None) \<and> ts' = ts @ filter (\<lambda>c. pendingOwner l1 c = Some g) cs"
  by (induction cs arbitrary: ts) (auto simp: pending_target_def)

lemma writer_collect [simp, writer_intros]:
  "writer (collect_pre_governance_accept_ownership_targets E artifact v g)"
  by (simp add: collect_pre_governance_accept_ownership_targets_def)

definition targets_known :: "ext \<Rightarrow> ecosystem_upgrade_artifact \<Rightarrow> verifiers \<Rightarrow> bool" where
  "targets_known E artifact v \<longleftrightarrow> (\<forall>ctm \<in> set (ctms artifact). candidates_named E ctm)
     \<and> (\<forall>a \<in> set (candidate_list E (ctms artifact)). pendingOwner (l1_provider (network v)) a \<noteq> None)"

lemma yields_collect:
  "yields (collect_pre_governance_accept_ownership_targets E artifact v (bridgehub_owner v)) ts
    \<longleftrightarrow> targets_known E artifact v \<and> ts = accept_targets E artifact v"
  by (auto simp: collect_pre_governance_accept_ownership_targets_def fold_pending accept_targets_def targets_known_def)

lemma accept_targets_distinct: "distinct (accept_targets E artifact v)"
  by (simp add: accept_targets_def candidate_list_set(2))

subsection \<open>The tail\<close>

text \<open>A well-formed acceptance: the bare selector, without value.\<close>

definition bare_accept :: "abi \<Rightarrow> call \<Rightarrow> bool" where
  "bare_accept A c \<longleftrightarrow> data c = acceptOwnership_SELECTOR A \<and> length (data c) = 4 \<and> call_value c = 0"

definition tail_ok :: "abi \<Rightarrow> call list \<Rightarrow> nat \<Rightarrow> address list \<Rightarrow> bool" where
  "tail_ok A calls tail_start ts \<longleftrightarrow> (\<forall>c \<in> set (take tail_start calls). \<not> is_accept A c)
     \<and> (\<forall>c \<in> set (drop tail_start calls). bare_accept A c)
     \<and> distinct (map target (drop tail_start calls)) \<and> set (map target (drop tail_start calls)) = set ts"

lemma bare_accept_alt: "bare_accept A c \<longleftrightarrow> is_accept A c \<and> length (data c) = 4 \<and> call_value c = 0"
  by (auto simp: bare_accept_def is_accept_def slice_def)

lemma writer_tail_step [simp, writer_intros]: "writer (tail_step A n ts ic st)"
  by (auto simp: tail_step_def Let_def split: prod.splits)

lemma tail_step_before:
  "n < ts0 \<Longrightarrow> clean (tail_step A ts0 ts (n, c) (e, seen)) \<longleftrightarrow> \<not> is_accept A c"
  "n < ts0 \<Longrightarrow> val (tail_step A ts0 ts (n, c) (e, seen)) = (if is_accept A c then e + 1 else e, seen)"
  by (simp_all add: tail_step_def)

lemma tail_step_after:
  assumes "ts0 \<le> n"
  shows "clean (tail_step A ts0 ts (n, c) (e, seen))
      \<longleftrightarrow> bare_accept A c \<and> target c \<in> set ts \<and> target c \<notin> set seen"
    "clean (tail_step A ts0 ts (n, c) (e, seen))
      \<Longrightarrow> val (tail_step A ts0 ts (n, c) (e, seen)) = (e, seen @ [target c])"
  using assms by (auto simp: tail_step_def bare_accept_alt split: if_splits)

lemma tail_before:
  assumes "n + length cs \<le> ts0"
  shows "clean (foldM (tail_step A ts0 ts) (enumerate n cs) (e, seen)) \<longleftrightarrow> (\<forall>c \<in> set cs. \<not> is_accept A c)"
    "(\<forall>c \<in> set cs. \<not> is_accept A c) \<Longrightarrow> val (foldM (tail_step A ts0 ts) (enumerate n cs) (e, seen)) = (e, seen)"
  using assms by (induction cs arbitrary: n e) (auto simp: tail_step_before)

lemma tail_after:
  assumes "ts0 \<le> n" "distinct seen"
  shows "clean (foldM (tail_step A ts0 ts) (enumerate n cs) (e, seen))
    \<longleftrightarrow> (\<forall>c \<in> set cs. bare_accept A c) \<and> distinct (seen @ map target cs) \<and> set (map target cs) \<subseteq> set ts"
    and "clean (foldM (tail_step A ts0 ts) (enumerate n cs) (e, seen))
      \<Longrightarrow> val (foldM (tail_step A ts0 ts) (enumerate n cs) (e, seen)) = (e, seen @ map target cs)"
  using assms
proof (induction cs arbitrary: n e seen)
  case (Cons c cs)
  have step: "clean (tail_step A ts0 ts (n, c) (e, seen))
      \<longleftrightarrow> bare_accept A c \<and> target c \<in> set ts \<and> target c \<notin> set seen"
    "clean (tail_step A ts0 ts (n, c) (e, seen))
      \<Longrightarrow> val (tail_step A ts0 ts (n, c) (e, seen)) = (e, seen @ [target c])" if "ts0 \<le> n" for n e seen
    using tail_step_after [OF that] by simp_all
  case 1
  then show ?case
    using Cons.IH(1) [of "Suc n" "seen @ [target c]" e] step [of n e seen]
    by (cases "clean (tail_step A ts0 ts (n, c) (e, seen))") auto
  case 2
  then show ?case
    using Cons.IH(2) [of "Suc n" e "seen @ [target c]"] step [of n e seen]
    by auto
qed simp_all

lemma writer_tail [simp, writer_intros]:
  "writer (tail_missing ts st)" "writer (verify_pre_governance_accept_ownership_tail A calls n ts)"
  by (simp_all add: verify_pre_governance_accept_ownership_tail_def tail_missing_def)

lemma filter_notin_empty: "filter (\<lambda>t. t \<notin> set xs) ys = [] \<longleftrightarrow> set ys \<subseteq> set xs"
  by (auto simp: filter_empty_conv)

lemma yields_tail:
  "yields (liftM (verify_pre_governance_accept_ownership_tail A calls n ts)) 0 \<longleftrightarrow> tail_ok A calls n ts"
proof -
  let ?pre = "foldM (tail_step A n ts) (enumerate 0 (take n calls)) (0, [])"
  let ?post = "foldM (tail_step A n ts) (enumerate n (drop n calls)) (0, [])"
  have pre: "clean ?pre \<longleftrightarrow> (\<forall>c \<in> set (take n calls). \<not> is_accept A c)" "clean ?pre \<Longrightarrow> val ?pre = (0, [])"
    using tail_before [of 0 "take n calls" n A ts 0 "[]"] by simp_all
  note post = tail_after [of n n "[]" A ts "drop n calls" 0, simplified]
  have split: "foldM (tail_step A n ts) (enumerate 0 calls) (0, [])
      = do { s \<leftarrow> ?pre; foldM (tail_step A n ts) (enumerate n (drop n calls)) s }"
  proof (cases "n \<le> length calls")
    case True
    then have "enumerate 0 calls = enumerate 0 (take n calls) @ enumerate n (drop n calls)"
      using enumerate_append_eq [of 0 "take n calls" "drop n calls"] by simp
    then show ?thesis by (simp add: foldM_append)
  qed simp
  have "yields (liftM (verify_pre_governance_accept_ownership_tail A calls n ts)) 0
      \<longleftrightarrow> clean ?pre \<and> clean ?post \<and> set ts \<subseteq> set (map target (drop n calls))"
    using pre(2) post(2)
    by (cases "clean ?pre"; cases "clean ?post")
      (auto simp: verify_pre_governance_accept_ownership_tail_def split tail_missing_def filter_notin_empty)
  then show ?thesis
    using pre(1) post(1) by (auto simp: tail_ok_def)
qed

section \<open>The ProtocolUpgradeHandler block\<close>

text \<open>The new implementation keeps the six shared immutables and has the prescribed new ones.\<close>

definition shared_immutables :: "(protocol_upgrade_handler \<Rightarrow> address option) list" where
  "shared_immutables = [L2_PROTOCOL_GOVERNOR, CHAIN_TYPE_MANAGER, BRIDGE_HUB, L1_NULLIFIER, L1_ASSET_ROUTER,
     L1_NATIVE_TOKEN_VAULT]"

definition ctm_immutable_ok :: "ext \<Rightarrow> ecosystem_upgrade_artifact \<Rightarrow> ctm_flavor \<Rightarrow> address option \<Rightarrow> bool" where
  "ctm_immutable_ok E artifact fl getter \<longleftrightarrow> (case find (\<lambda>c. flavor c = fl) (ctms artifact) of
     None \<Rightarrow> True
   | Some c \<Rightarrow> getter \<noteq> None
       \<and> getter = address_at E (ctm_value c) [''state_transition'', ''chain_type_manager_proxy''])"

definition immutables_ok :: "ext \<Rightarrow> ecosystem_upgrade_artifact \<Rightarrow> verifiers \<Rightarrow> address \<Rightarrow> bool" where
  "immutables_ok E artifact v impl \<longleftrightarrow>
     (let old = ProtocolUpgradeHandler (l1_provider (network v)) (bridgehub_owner v);
          new = ProtocolUpgradeHandler (l1_provider (network v)) impl in
      (\<forall>get \<in> set shared_immutables. get old \<noteq> None \<and> get new = get old)
      \<and> CHAIN_ASSET_HANDLER new \<noteq> None \<and> CHAIN_ASSET_HANDLER new = address_at E (core artifact)
          [''upgrade_addresses'', ''bridgehub'', ''chain_asset_handler_proxy_addr'']
      \<and> ctm_immutable_ok E artifact Era (ERA_CHAIN_TYPE_MANAGER new)
      \<and> ctm_immutable_ok E artifact ZksyncOs (ZKSYNC_OS_CHAIN_TYPE_MANAGER new)
      \<and> ERA_CHAIN_ID new = Some (ucast (registered_era_chain_id v)))"

lemma compare_puh_simps [simp]:
  "writer (compare_puh_shared_address a b)" "writer (compare_puh_expected_address x y)"
  "writer (compare_puh_getter a b)" "writer (compare_puh_ctm E artifact fl a)"
  "clean (compare_puh_shared_address a b) \<longleftrightarrow> a \<noteq> None \<and> b = a"
  "clean (compare_puh_expected_address x y) \<longleftrightarrow> x = y"
  "clean (compare_puh_getter a b) \<longleftrightarrow> b = None \<or> a = b"
  "clean (compare_puh_ctm E artifact fl a) \<longleftrightarrow> ctm_immutable_ok E artifact fl a"
  by (auto simp: compare_puh_shared_address_def compare_puh_expected_address_def compare_puh_getter_def
      compare_puh_ctm_def ctm_immutable_ok_def split: option.splits)

lemma immutables_simps [simp]:
  "writer (verify_puh_immutables E (bridgehub_owner v) impl artifact v)"
  "clean (verify_puh_immutables E (bridgehub_owner v) impl artifact v) \<longleftrightarrow> immutables_ok E artifact v impl"
  by (auto simp: verify_puh_immutables_def Let_def immutables_ok_def shared_immutables_def split: option.splits)

lemma immutables_count: "val (verify_puh_immutables E (bridgehub_owner v) impl artifact v) = 0
    \<longleftrightarrow> immutables_ok E artifact v impl"
proof -
  have "val (verify_puh_immutables E (bridgehub_owner v) impl artifact v) = 0
      \<longleftrightarrow> clean (verify_puh_immutables E (bridgehub_owner v) impl artifact v)"
    unfolding verify_puh_immutables_def
    by (subst errors_during_simps(2)) (auto simp: Let_def clean_def count_list_0_iff split: option.splits)
  then show ?thesis by simp
qed

definition puh_upgrade_ok ::
    "ext \<Rightarrow> abi \<Rightarrow> ecosystem_upgrade_artifact \<Rightarrow> verifiers \<Rightarrow> zk_governance_artifact \<Rightarrow> call \<Rightarrow> bool" where
  "puh_upgrade_ok E A artifact v zk c \<longleftrightarrow>
     decode_upgradeAndCall A (data c) = Some (bridgehub_owner v, new_puh_impl zk, [])
     \<and> code_ok v (new_puh_impl zk) \<and> immutables_ok E artifact v (new_puh_impl zk)"

definition puh_setter_ok :: "verifiers \<Rightarrow> (bytes \<Rightarrow> address option) \<Rightarrow> address \<Rightarrow> call \<Rightarrow> bool" where
  "puh_setter_ok v decode expected c \<longleftrightarrow> decode (data c) = Some expected \<and> code_ok v expected"

lemma puh_args_simps [simp]:
  "writer (verify_puh_upgrade_args E A zk artifact v c)" "writer (verify_puh_setter_arg v decode expected c)"
  by (auto simp: verify_puh_upgrade_args_def verify_puh_setter_arg_def split: option.splits)

lemma yields_puh_args:
  "yields (liftM (verify_puh_upgrade_args E A zk artifact v c)) 0 \<longleftrightarrow> puh_upgrade_ok E A artifact v zk c"
  "yields (liftM (verify_puh_setter_arg v decode expected c)) 0 \<longleftrightarrow> puh_setter_ok v decode expected c"
  by (auto simp: verify_puh_upgrade_args_def verify_puh_setter_arg_def puh_upgrade_ok_def puh_setter_ok_def
      immutables_count split: option.splits)

text \<open>The block: four calls with their targets, selectors and arguments.\<close>

definition puh_block_ok ::
    "ext \<Rightarrow> abi \<Rightarrow> ecosystem_upgrade_artifact \<Rightarrow> verifiers \<Rightarrow> call list \<Rightarrow> nat \<Rightarrow> address \<Rightarrow> bool" where
  "puh_block_ok E A artifact v calls b admin \<longleftrightarrow> (\<exists>zk. zk_governance artifact = Some zk
     \<and> call_ok E calls b admin ''upgradeAndCall(address,address,bytes)''
     \<and> puh_upgrade_ok E A artifact v zk (calls ! b)
     \<and> call_ok E calls (b + 1) (bridgehub_owner v) ''updateSecurityCouncil(address)''
     \<and> puh_setter_ok v (decode_updateSecurityCouncil A) (new_security_council zk) (calls ! (b + 1))
     \<and> call_ok E calls (b + 2) (bridgehub_owner v) ''updateGuardians(address)''
     \<and> puh_setter_ok v (decode_updateGuardians A) (new_guardians zk) (calls ! (b + 2))
     \<and> call_ok E calls (b + 3) (bridgehub_owner v) ''updateEmergencyUpgradeBoard(address)''
     \<and> puh_setter_ok v (decode_updateEmergencyUpgradeBoard A) (new_emergency_upgrade_board zk) (calls ! (b + 3)))"

lemma writer_puh_block [simp, writer_intros]: "writer (verify_puh_block E A artifact v calls b admin)"
  by (simp add: verify_puh_block_def)

lemma yields_puh_block:
  "yields (verify_puh_block E A artifact v calls b admin) 0 \<longleftrightarrow> puh_block_ok E A artifact v calls b admin"
  unfolding verify_puh_block_def puh_block_ok_def
  by (subst yields_tryM, simp, simp)
    (auto simp: yields_sum_errors yields_with_call yields_call_check yields_puh_args dest: call_ok_bound
      simp del: yields_simps(4))

section \<open>The stage\<close>

text \<open>Where the deferred acceptances begin.\<close>

definition tail_start_of :: "ecosystem_upgrade_artifact \<Rightarrow> address \<Rightarrow> nat" where
  "tail_start_of artifact admin = 1 + length (ctms artifact) + (if admin \<noteq> 0 then 4 else 0)"

text \<open>The call list of a stage 0 that passes, for the PUH proxy's admin \<open>admin\<close>.\<close>

definition stage0_layout ::
    "ext \<Rightarrow> abi \<Rightarrow> ecosystem_upgrade_artifact \<Rightarrow> verifiers \<Rightarrow> call list \<Rightarrow> address \<Rightarrow> bool" where
  "stage0_layout E A artifact v calls admin \<longleftrightarrow>
     (\<exists>t. get_by_name (address_book v) ''chain_asset_handler_proxy'' = Some t
       \<and> call_ok E calls 0 t ''pauseMigration()'')
     \<and> (\<forall>ctm \<in> set (ctms artifact). timer_ok E calls (min (1 + length (ctms artifact)) (length calls)) ctm)
     \<and> (admin \<noteq> 0 \<longrightarrow> puh_block_ok E A artifact v calls (1 + length (ctms artifact)) admin)
     \<and> tail_ok A calls (tail_start_of artifact admin) (accept_targets E artifact v)
     \<and> length calls = tail_start_of artifact admin + length (accept_targets E artifact v)"

definition stage0_ok :: "ext \<Rightarrow> abi \<Rightarrow> ecosystem_upgrade_artifact \<Rightarrow> verifiers \<Rightarrow> call list \<Rightarrow> bool" where
  "stage0_ok E A artifact v calls \<longleftrightarrow> targets_known E artifact v
     \<and> (\<exists>admin. get_proxy_admin (network v) (bridgehub_owner v) = Inr admin
          \<and> stage0_layout E A artifact v calls admin)"

lemma yields_timer_call: "yields (liftM (verify_timer_call E calls w ctm)) 0 \<longleftrightarrow> timer_ok E calls w ctm"
  by (simp add: yields_count timer_call_counts clean_timer_call del: yields_simps(4))

lemma writer_stage0 [simp, writer_intros]: "writer (stage0_verify_artifact E A artifact v calls)"
  by (simp add: stage0_verify_artifact_def Let_def)

lemma yields_stage0: "yields (stage0_verify_artifact E A artifact v calls) () \<longleftrightarrow> stage0_ok E A artifact v calls"
  unfolding stage0_verify_artifact_def Let_def stage0_ok_def stage0_layout_def tail_start_of_def
  by (simp add: yields_sum_errors yields_call_by_name yields_timer_call yields_tail yields_call_count yields_collect
      yields_puh_block if_distrib [of "\<lambda>m. yields m 0"] del: yields_simps(4) cong: if_cong) auto

subsection \<open>No call outside the layout\<close>

definition timer_of :: "ext \<Rightarrow> ctm_artifact \<Rightarrow> address option" where
  "timer_of E ctm = address_at E (ctm_value ctm) TIMER_PATH"

text \<open>Two lists of the same length, one without repetition and covered by the other, agree as sets.\<close>

lemma covered_same_length:
  assumes "distinct xs" "set xs \<subseteq> set ys" "length ys = length xs"
  shows "distinct ys" "set ys = set xs"
proof -
  have "card (set ys) \<le> length xs"
    using assms(3) card_length [of ys] by simp
  moreover have "card (set xs) = length xs"
    using assms(1) by (rule distinct_card)
  ultimately show "set ys = set xs"
    using assms(2) by (metis List.finite_set card_seteq)
  then show "distinct ys"
    using assms(1,3) by (metis card_distinct distinct_card)
qed

lemma distinct_map_some: "distinct (map (\<lambda>x. Some (f x)) xs) \<longleftrightarrow> distinct (map f xs)"
  by (induction xs) auto

lemma find_unique_index:
  assumes "distinct (map f [a..<b])" "find (\<lambda>i. f i = t) [a..<b] = Some j" "f i = t" "a \<le> i" "i < b"
  shows "j = i"
proof -
  have "j \<in> set [a..<b]" "f j = t"
    using find_in_list [OF assms(2)] by simp_all
  then show ?thesis
    using assms(1,3-5) by (auto simp: distinct_map dest: inj_onD)
qed

lemma window_calls:
  assumes "distinct (map (timer_of E) cs)" "n = length cs" "n < length calls"
    and "\<forall>ctm \<in> set cs. timer_ok E calls (1 + n) ctm" "1 \<le> i" "i \<le> n"
  shows "\<exists>ctm \<in> set cs. timer_of E ctm = Some (target (calls ! i)) \<and> call_ok E calls i (target (calls ! i)) ''startTimer()''"
proof -
  let ?f = "\<lambda>i. target (calls ! i)"
  let ?found = "\<lambda>t. find (\<lambda>i. ?f i = t) [1..<1 + n]"
  have found: "\<exists>t idx. timer_of E ctm = Some t \<and> ?found t = Some idx \<and> call_ok E calls idx t ''startTimer()''"
    if "ctm \<in> set cs" for ctm
    using assms(4) that unfolding timer_ok_def timer_of_def by blast
  have "timer_of E ctm \<in> set (map (\<lambda>i. Some (?f i)) [1..<1 + n])" if c: "ctm \<in> set cs" for ctm
  proof -
    obtain t idx where t: "timer_of E ctm = Some t" "?found t = Some idx"
      using found [OF c] by (elim exE conjE)
    with find_in_list [OF t(2)] show ?thesis
      by (auto intro: image_eqI [of _ _ idx])
  qed
  then have sub: "set (map (timer_of E) cs) \<subseteq> set (map (\<lambda>i. Some (?f i)) [1..<1 + n])"
    by (simp only: set_map) (rule image_subsetI)
  have "length (map (\<lambda>i. Some (?f i)) [1..<1 + n]) = length (map (timer_of E) cs)"
    by (simp only: length_map length_upt assms(2))
  note cover = covered_same_length [OF assms(1) sub this]
  have d: "distinct (map ?f [1..<1 + n])"
    using cover(1) by (simp only: distinct_map_some)
  have "i \<in> set [1..<1 + n]"
    using assms(5,6) by auto
  then have "Some (?f i) \<in> set (map (timer_of E) cs)"
    using imageI [of i "set [1..<1 + n]" "\<lambda>i. Some (?f i)"] cover(2) by (simp only: set_map)
  then obtain ctm where c: "ctm \<in> set cs" "timer_of E ctm = Some (?f i)"
    by auto
  then obtain idx where idx: "?found (?f i) = Some idx" "call_ok E calls idx (?f i) ''startTimer()''"
    using found [OF c(1)] by auto
  then have "idx = i"
    using find_unique_index [OF d idx(1)] assms(5,6) by simp
  with c idx(2) show ?thesis by blast
qed

lemma stage0_no_stray:
  assumes "stage0_layout E A artifact v calls admin" "distinct (map (timer_of E) (ctms artifact))" "i < length calls"
  shows "(i = 0 \<and> (\<exists>t. get_by_name (address_book v) ''chain_asset_handler_proxy'' = Some t
        \<and> call_ok E calls 0 t ''pauseMigration()''))
    \<or> (1 \<le> i \<and> i \<le> length (ctms artifact) \<and> (\<exists>ctm \<in> set (ctms artifact).
        timer_of E ctm = Some (target (calls ! i)) \<and> call_ok E calls i (target (calls ! i)) ''startTimer()''))
    \<or> (length (ctms artifact) < i \<and> i < tail_start_of artifact admin
        \<and> puh_block_ok E A artifact v calls (1 + length (ctms artifact)) admin)
    \<or> (tail_start_of artifact admin \<le> i \<and> bare_accept A (calls ! i)
        \<and> target (calls ! i) \<in> set (accept_targets E artifact v))"
proof -
  let ?n = "length (ctms artifact)"
  have len: "length calls = tail_start_of artifact admin + length (accept_targets E artifact v)"
    and tail: "tail_ok A calls (tail_start_of artifact admin) (accept_targets E artifact v)"
    and timers: "\<forall>ctm \<in> set (ctms artifact). timer_ok E calls (min (1 + ?n) (length calls)) ctm"
    and puh: "admin \<noteq> 0 \<Longrightarrow> puh_block_ok E A artifact v calls (1 + ?n) admin"
    and pause: "\<exists>t. get_by_name (address_book v) ''chain_asset_handler_proxy'' = Some t \<and> call_ok E calls 0 t ''pauseMigration()''"
    using assms(1) unfolding stage0_layout_def by (blast, blast, blast, blast, blast)
  have w: "min (1 + ?n) (length calls) = 1 + ?n" "?n < length calls"
    using len by (simp_all add: tail_start_of_def)
  consider "i = 0" | "1 \<le> i" "i \<le> ?n" | "?n < i" "i < tail_start_of artifact admin" | "tail_start_of artifact admin \<le> i"
    by linarith
  then show ?thesis
  proof cases
    case 2
    have "\<forall>ctm \<in> set (ctms artifact). timer_ok E calls (1 + ?n) ctm"
      using timers unfolding w(1) .
    from window_calls [OF assms(2) refl w(2) this 2] 2 show ?thesis by blast
  next
    case 3
    then have "admin \<noteq> 0" by (auto simp: tail_start_of_def split: if_splits)
    with puh 3 show ?thesis by blast
  next
    case 4
    then have "calls ! i \<in> set (drop (tail_start_of artifact admin) calls)"
      using assms(3) nth_mem [of "i - tail_start_of artifact admin" "drop (tail_start_of artifact admin) calls"]
      by simp
    with tail 4 show ?thesis
      unfolding tail_ok_def by (metis image_eqI list.set_map)
  qed (use pause in blast)
qed

subsection \<open>A shared timer\<close>

text \<open>
  Two CTM sections that name one timer leave a slot of the timer window unexamined: once the
  first slot holds the \<^verbatim>\<open>startTimer()\<close> of the shared timer, any call that is not an
  acceptance can stand in the second one.
\<close>

lemma find_update:
  assumes "find (\<lambda>i. target (calls ! i) = t) [1..<3] = Some 1"
  shows "find (\<lambda>i. target (calls[2 := x] ! i) = t) [1..<3] = Some 1"
proof -
  have "[1..<3::nat] = [1, 2]"
    by (simp add: upt_rec)
  with assms show ?thesis
    by (auto split: if_splits)
qed

lemma set_take_update: "set (take n (xs[j := x])) \<subseteq> insert x (set (take n xs))"
  by (cases "j < n") (simp_all add: take_update_swap set_update_subset_insert)

lemma shared_timer_slot:
  assumes "stage0_layout E A artifact v calls admin" "ctms artifact = [c1, c2]"
    and "timer_of E c1 = Some t" "timer_of E c2 = Some t" "target (calls ! 1) = t"
    and "\<not> is_accept A x"
  shows "stage0_layout E A artifact v (calls[2 := x]) admin"
proof -
  let ?n = "tail_start_of artifact admin"
  have n: "3 \<le> ?n" "length (ctms artifact) = 2"
    by (simp_all add: tail_start_of_def assms(2))
  have len: "length calls = ?n + length (accept_targets E artifact v)"
    using assms(1) by (simp only: stage0_layout_def)
  have "[1..<3::nat] = [1, 2]"
    by (simp add: upt_rec)
  then have f: "find (\<lambda>i. target (calls ! i) = t) [1..<3] = Some 1"
    using assms(5) by simp
  have w: "min (1 + length (ctms artifact)) (length calls) = 3"
    using n len by simp
  have "timer_ok E calls (min (1 + length (ctms artifact)) (length calls)) c1"
    using assms(1,2) unfolding stage0_layout_def by (metis list.set_intros(1))
  then have "timer_ok E calls 3 c1"
    unfolding w .
  then have c: "call_ok E calls 1 t ''startTimer()''"
    using assms(3) f unfolding timer_ok_def timer_of_def by simp
  have "timer_ok E (calls[2 := x]) 3 c" if "c \<in> {c1, c2}" for c
    using that assms(3,4) c find_update [OF f] unfolding timer_ok_def timer_of_def
    by (intro exI [of _ t] exI [of _ 1]) (auto simp: call_ok_update)
  moreover have "puh_block_ok E A artifact v (calls[2 := x]) 3 admin \<longleftrightarrow> puh_block_ok E A artifact v calls 3 admin"
    by (simp add: puh_block_ok_def call_ok_update)
  moreover have "drop ?n (calls[2 := x]) = drop ?n calls"
    using n by simp
  moreover have "\<forall>c \<in> set (take ?n (calls[2 := x])). \<not> is_accept A c"
    if "\<forall>c \<in> set (take ?n calls). \<not> is_accept A c"
    using that assms(6) set_take_update [of ?n calls 2 x] by blast
  moreover have n3: "1 + length (ctms artifact) = 3" "set (ctms artifact) = {c1, c2}"
    using n assms(2) by simp_all
  moreover have "min 3 (length calls) = 3"
    using w n by simp
  ultimately show ?thesis
    using assms(1) unfolding stage0_layout_def tail_ok_def n3 length_list_update
    by (simp add: call_ok_update)
qed

lemma shared_timer_slot_ok:
  assumes "stage0_ok E A artifact v calls" "ctms artifact = [c1, c2]"
    and "timer_of E c1 = Some t" "timer_of E c2 = Some t" "target (calls ! 1) = t"
    and "\<not> is_accept A x"
  shows "stage0_ok E A artifact v (calls[2 := x])"
  using assms(1) shared_timer_slot [OF _ assms(2-)] unfolding stage0_ok_def by blast

end
