(* ===== verification/Chain_Types.thy ===== *)
theory Chain_Types
  imports Create2
begin

section \<open>Chain identifiers and commitment schemes\<close>

text \<open>
  \<^verbatim>\<open>protocol-ops/src/types\<close>: the chain id with its upper bound (\<^verbatim>\<open>chain_id.rs\<close>), data
  availability and the commitment scheme of a chain (\<^verbatim>\<open>commitment.rs\<close>), the networks
  (\<^verbatim>\<open>l1_network.rs\<close>) and the virtual machines (\<^verbatim>\<open>vm_option.rs\<close>). The lemmas give the
  invariant of the id type, which constructor escapes it, and the round trips of the codes.
\<close>

subsection \<open>Chain ids\<close>

datatype L2ChainId = L2ChainId (as_u64: u64)

definition L2ChainId_MAX :: u64 where
  "L2ChainId_MAX = (push_bit 53 1 - 1 - 36) div 2"

definition L2ChainId_new :: "u64 \<Rightarrow> L2ChainId res" where
  "L2ChainId_new number =
     (if number > L2ChainId_MAX then Inl (Bail ''Cannot convert given value into L2ChainId'') else Inr (L2ChainId number))"

text \<open>\<^verbatim>\<open>trim_start_matches(&str)\<close>: the prefix is removed as often as it is there.\<close>

function trim_start_matches :: "string \<Rightarrow> string \<Rightarrow> string" where
  "trim_start_matches p s =
     (if p \<noteq> [] \<and> starts_with p s then trim_start_matches p (drop (length p) s) else s)"
  by auto

termination
  by (relation "measure (\<lambda>(p, s). length s)") (auto simp: starts_with_iff)

declare trim_start_matches.simps [simp del]

definition hex_value :: "char \<Rightarrow> nat option" where
  "hex_value c = (let n = (of_char c :: nat) in
     if 48 \<le> n \<and> n \<le> 57 then Some (n - 48)
     else if 97 \<le> n \<and> n \<le> 102 then Some (n - 87)
     else if 65 \<le> n \<and> n \<le> 70 then Some (n - 55) else None)"

fun hex_digits_val :: "string \<Rightarrow> nat \<Rightarrow> nat option" where
  "hex_digits_val [] acc = Some acc"
| "hex_digits_val (c # cs) acc = (case hex_value c of None \<Rightarrow> None | Some d \<Rightarrow> hex_digits_val cs (acc * 16 + d))"

text \<open>\<^verbatim>\<open>u64::from_str_radix(s, 16)\<close>: an optional plus sign, at least one digit, no overflow.\<close>

definition u64_from_str_radix_16 :: "string \<Rightarrow> u64 option" where
  "u64_from_str_radix_16 s =
     (let ds = (case s of [] \<Rightarrow> [] | c # cs \<Rightarrow> if c = CHR ''+'' then cs else s) in
      if ds = [] then None
      else case hex_digits_val ds 0 of None \<Rightarrow> None | Some n \<Rightarrow> if n < 2 ^ 64 then Some (of_nat n) else None)"

definition L2ChainId_from_str :: "string \<Rightarrow> L2ChainId res" where
  "L2ChainId_from_str s =
     bind_res (case parse_u64 s of Some n \<Rightarrow> Inr n
       | None \<Rightarrow> ok_or (Bail ''Failed to parse L2ChainId'')
           (u64_from_str_radix_16 (trim_start_matches ''0X'' (trim_start_matches ''0x'' s)))) L2ChainId_new"

definition L2ChainId_display :: "L2ChainId \<Rightarrow> string" where
  "L2ChainId_display i = show_nat (unat (as_u64 i))"

definition L2ChainId_default :: L2ChainId where
  "L2ChainId_default = L2ChainId 270"

definition L2ChainId_try_from :: "u64 \<Rightarrow> L2ChainId res" where
  "L2ChainId_try_from n = L2ChainId_new n"

definition L2ChainId_from_u32 :: "u32 \<Rightarrow> L2ChainId" where
  "L2ChainId_from_u32 n = L2ChainId (ucast n)"

text \<open>
  \<^verbatim>\<open>serde_json::Value\<close>; of a number only \<^verbatim>\<open>as_u64\<close> is used (\<open>None\<close> when it is not one).
  Deserialising an id: a human-readable format hands over such a value, a binary format the
  number itself.
\<close>

datatype json = JNull | JBool bool | JNum "u64 option" | JStr string | JArr "json list" | JObj "(string \<times> json) list"

datatype wire = Readable json | Binary u64

definition L2ChainId_deserialize :: "wire \<Rightarrow> L2ChainId res" where
  "L2ChainId_deserialize w = (case w of
     Readable (JNum n) \<Rightarrow> bind_res (ok_or (Bail ''Expected u64'') n) L2ChainId_new
   | Readable (JStr s) \<Rightarrow> L2ChainId_from_str s
   | Readable _ \<Rightarrow> Inl (Bail ''Expected number or string'')
   | Binary n \<Rightarrow> Inr (L2ChainId n))"

subsection \<open>Virtual machines, data availability and commitments\<close>

datatype VMOption = ZKSyncOsVM | EraVM

definition is_zksync_os :: "VMOption \<Rightarrow> bool" where
  "is_zksync_os vm \<longleftrightarrow> vm = ZKSyncOsVM"

datatype DAValidatorType = RollupDA | NoDA | Avail | Eigen

fun da_to_u8 :: "DAValidatorType \<Rightarrow> 8 word" where
  "da_to_u8 RollupDA = 0"
| "da_to_u8 NoDA = 1"
| "da_to_u8 Avail = 2"
| "da_to_u8 Eigen = 3"

datatype L2DACommitmentScheme = NoScheme | EmptyNoDA | PubdataKeccak256 | BlobsAndPubdataKeccak256 | BlobsZKSyncOS

fun scheme_as_u8 :: "L2DACommitmentScheme \<Rightarrow> 8 word" where
  "scheme_as_u8 NoScheme = 0"
| "scheme_as_u8 EmptyNoDA = 1"
| "scheme_as_u8 PubdataKeccak256 = 2"
| "scheme_as_u8 BlobsAndPubdataKeccak256 = 3"
| "scheme_as_u8 BlobsZKSyncOS = 4"

fun from_da_and_vm_types :: "DAValidatorType \<Rightarrow> VMOption \<Rightarrow> L2DACommitmentScheme" where
  "from_da_and_vm_types RollupDA EraVM = BlobsAndPubdataKeccak256"
| "from_da_and_vm_types RollupDA ZKSyncOsVM = BlobsZKSyncOS"
| "from_da_and_vm_types Avail _ = PubdataKeccak256"
| "from_da_and_vm_types Eigen _ = PubdataKeccak256"
| "from_da_and_vm_types NoDA _ = EmptyNoDA"

fun for_gateway_settling :: "DAValidatorType \<Rightarrow> L2DACommitmentScheme" where
  "for_gateway_settling RollupDA = BlobsAndPubdataKeccak256"
| "for_gateway_settling Avail = PubdataKeccak256"
| "for_gateway_settling Eigen = PubdataKeccak256"
| "for_gateway_settling NoDA = EmptyNoDA"

definition scheme_try_from :: "8 word \<Rightarrow> L2DACommitmentScheme res" where
  "scheme_try_from v =
     (if v = 0 then Inr NoScheme else if v = 1 then Inr EmptyNoDA else if v = 2 then Inr PubdataKeccak256
      else if v = 3 then Inr BlobsAndPubdataKeccak256 else if v = 4 then Inr BlobsZKSyncOS
      else Inl (Bail ''Invalid L2DACommitmentScheme value''))"

text \<open>The derived \<^verbatim>\<open>Display\<close> prints the variant's name, which \<^verbatim>\<open>FromStr\<close> reads.\<close>

fun scheme_display :: "L2DACommitmentScheme \<Rightarrow> string" where
  "scheme_display NoScheme = ''None''"
| "scheme_display EmptyNoDA = ''EmptyNoDA''"
| "scheme_display PubdataKeccak256 = ''PubdataKeccak256''"
| "scheme_display BlobsAndPubdataKeccak256 = ''BlobsAndPubdataKeccak256''"
| "scheme_display BlobsZKSyncOS = ''BlobsZKSyncOS''"

definition scheme_from_str :: "string \<Rightarrow> L2DACommitmentScheme res" where
  "scheme_from_str s =
     (if s = ''None'' then Inr NoScheme else if s = ''EmptyNoDA'' then Inr EmptyNoDA
      else if s = ''PubdataKeccak256'' then Inr PubdataKeccak256
      else if s = ''BlobsAndPubdataKeccak256'' then Inr BlobsAndPubdataKeccak256
      else if s = ''BlobsZKSyncOS'' then Inr BlobsZKSyncOS
      else Inl (Bail ''Incorrect L2 DA commitment scheme''))"

subsection \<open>Networks\<close>

datatype L1Network = Localhost | Sepolia | Holesky | Mainnet_network

text \<open>The chain id comes from the node behind the URL; \<open>None\<close> when it does not answer.\<close>

definition from_l1_rpc :: "u64 option \<Rightarrow> L1Network res" where
  "from_l1_rpc answer = bind_res (ok_or (Bail ''query_chain_id'') answer) (\<lambda>chain_id.
     if chain_id = 1 then Inr Mainnet_network
     else if chain_id = 9 \<or> chain_id = 31337 then Inr Localhost
     else if chain_id = 17000 then Inr Holesky
     else if chain_id = 11155111 then Inr Sepolia
     else Inl (Bail ''Unrecognized L1 chain ID''))"

definition LOCAL_ZK_TOKEN_ASSET_ID :: string where
  "LOCAL_ZK_TOKEN_ASSET_ID = ''0x50c8daa176d24869d010ad74c2d374427601375ca2264e94f73784e299d572d4''"

fun network_zk_token_asset_id :: "ext \<Rightarrow> L1Network \<Rightarrow> b256 res" where
  "network_zk_token_asset_id E Localhost =
     bind_res (ok_or (Panic ''unwrap'') (hex_decode E LOCAL_ZK_TOKEN_ASSET_ID)) (\<lambda>bs.
     if length bs = 32 then Inr (from_be_bytes bs) else Inl (Panic ''unwrap''))"
| "network_zk_token_asset_id E _ = Inl (Bail ''no canonical ZK token asset ID'')"

section \<open>The invariant of a chain id\<close>

definition valid_id :: "L2ChainId \<Rightarrow> bool" where
  "valid_id i \<longleftrightarrow> as_u64 i \<le> L2ChainId_MAX"

lemma max_value: "L2ChainId_MAX = 4503599627370477"
  by code_simp

lemma new_iff: "L2ChainId_new n = Inr i \<longleftrightarrow> i = L2ChainId n \<and> valid_id i"
  by (auto simp: L2ChainId_new_def valid_id_def not_less)

text \<open>The largest id whose \<^verbatim>\<open>v = 2 * id + 36\<close> is a safe JavaScript integer, and no smaller bound works.\<close>

lemma max_is_safe: "valid_id i \<longleftrightarrow> 2 * unat (as_u64 i) + 36 < 2 ^ 53"
proof -
  have "valid_id i \<longleftrightarrow> unat (as_u64 i) \<le> 4503599627370477"
    by (simp add: valid_id_def max_value word_le_nat_alt)
  moreover have "(2::nat) ^ 53 = 9007199254740992"
    by simp
  ultimately show ?thesis
    by linarith
qed

lemma from_str_valid: "L2ChainId_from_str s = Inr i \<Longrightarrow> valid_id i"
  by (auto simp: L2ChainId_from_str_def new_iff)

lemma u32_valid: "valid_id (L2ChainId_from_u32 n)"
proof -
  have "unat n < 2 ^ 32"
    using unsigned_less [of n] by simp
  then show ?thesis
    by (simp add: valid_id_def L2ChainId_from_u32_def max_value word_le_nat_alt unsigned_ucast_eq take_bit_nat_eq_self)
qed

lemma display_from_str: "L2ChainId_from_str (L2ChainId_display i) = L2ChainId_new (as_u64 i)"
  by (simp add: L2ChainId_from_str_def L2ChainId_display_def parse_show_u64)

text \<open>
  Every way to make an id keeps the bound, except the binary format: it yields any number, and
  the printed form of such an id is refused when read back.
\<close>

lemma deserialize_valid:
  "L2ChainId_deserialize w = Inr i \<Longrightarrow> (\<And>n. w \<noteq> Binary n) \<Longrightarrow> valid_id i"
  by (auto simp: L2ChainId_deserialize_def new_iff dest: from_str_valid split: wire.splits json.splits)

section \<open>Codes and names\<close>

text \<open>Both representations of a scheme are codecs.\<close>

interpretation scheme_code: codec scheme_as_u8 "\<lambda>v. case scheme_try_from v of Inr s \<Rightarrow> Some s | Inl _ \<Rightarrow> None" "\<lambda>_. True"
proof
  fix x :: L2DACommitmentScheme
  show "(case scheme_try_from (scheme_as_u8 x) of Inr s \<Rightarrow> Some s | Inl _ \<Rightarrow> None) = Some x"
    by (cases x) (simp_all add: scheme_try_from_def)
qed

interpretation scheme_name: codec scheme_display "\<lambda>s. case scheme_from_str s of Inr s \<Rightarrow> Some s | Inl _ \<Rightarrow> None" "\<lambda>_. True"
proof
  fix x :: L2DACommitmentScheme
  show "(case scheme_from_str (scheme_display x) of Inr s \<Rightarrow> Some s | Inl _ \<Rightarrow> None) = Some x"
    by (cases x) (simp_all add: scheme_from_str_def)
qed

lemma scheme_try_from_iff: "scheme_try_from v = Inr s \<longleftrightarrow> v = scheme_as_u8 s"
  by (cases s) (auto simp: scheme_try_from_def)

text \<open>The two resolutions differ on ZKsync OS rollups and nowhere else.\<close>

lemma settling_differs: "for_gateway_settling d = from_da_and_vm_types d vm \<longleftrightarrow> \<not> (d = RollupDA \<and> vm = ZKSyncOsVM)"
  by (cases d; cases vm) simp_all

end
