(* ===== verification/Stage1.thy ===== *)
theory Stage1
  imports Facet_Cuts Upgrade_Payload Stage0 Chain_Types
begin

section \<open>Stage 1: the upgrade\<close>

text \<open>
  \<^verbatim>\<open>governance_stage_calls/stage1.rs\<close>: the shape of the call list (one leading pause, twelve
  ecosystem calls, a block of six calls per CTM, pairs of RollupDAManager calls) and the payload
  of every call. The checks are modelled in the order of the code; the lemmas turn each of
  them into the condition under which it passes and put the conditions together.
\<close>

record chain_creation_params =
  genesisUpgrade :: address
  genesisBatchHash :: b256
  genesisIndexRepeatedStorageChanges :: u64
  genesisBatchCommitment :: b256
  ccp_diamondCut :: diamond_cut_data_call
  forceDeploymentsData :: bytes

record set_new_version_upgrade_call =
  snv_diamondCut :: diamond_cut_data_call
  oldProtocolVersion :: u256
  oldProtocolVersionDeadline :: u256
  snv_newProtocolVersion :: u256
  snv_verifier :: address

text \<open>
  Generated or third-party: the decoders of \<^verbatim>\<open>sol!\<close>, the textual form of a hash and the
  derived deserializer of \<^verbatim>\<open>[ctms.*.rollup_da_pair]\<close>.
\<close>

record stage1_abi =
  decode_upgrade :: "bytes \<Rightarrow> (address \<times> address) option"
  initializeL1V31Upgrade_SELECTOR :: selector
  decode_setAssetTracker :: "bytes \<Rightarrow> address option"
  decode_setAddressesV31 :: "bytes \<Rightarrow> address option"
  decode_updateDAPair :: "bytes \<Rightarrow> (address \<times> 8 word \<times> bool) option"
  decode_setChainCreationParams :: "bytes \<Rightarrow> chain_creation_params option"
  decode_setNewVersionUpgrade :: "bytes \<Rightarrow> set_new_version_upgrade_call option"
  decode_proposed_upgrade :: "bytes \<Rightarrow> proposed_upgrade option"
  decode_InitializeDataNewChain :: "bytes \<Rightarrow> initialize_data_new_chain option"
  encode_DiamondCutData :: "diamond_cut_data_call \<Rightarrow> bytes"
  b256_to_string :: "b256 \<Rightarrow> string"
  rollup_da_pair_try_from :: "toml \<Rightarrow> (address \<times> L2DACommitmentScheme) option"

subsection \<open>Layout\<close>

definition STAGE1_GENERATED_PREFIX_LEN :: nat where
  "STAGE1_GENERATED_PREFIX_LEN = 12"

definition STAGE1_PER_CTM_LEN :: nat where
  "STAGE1_PER_CTM_LEN = 6"

definition STAGE1_LEADING_PAUSE_OFFSET :: nat where
  "STAGE1_LEADING_PAUSE_OFFSET = 1"

definition ctm_block_start :: "nat \<Rightarrow> nat \<Rightarrow> nat" where
  "ctm_block_start ctm_index call_offset =
     call_offset + STAGE1_GENERATED_PREFIX_LEN + ctm_index * STAGE1_PER_CTM_LEN"

definition find_ctm_block_start :: "ext \<Rightarrow> ctm_artifact \<Rightarrow> call list \<Rightarrow> nat \<Rightarrow> nat \<Rightarrow> nat option vr" where
  "find_ctm_block_start E ctm calls call_offset num_ctms = do {
     timer \<leftarrow> required_ctm_address E ctm TIMER_PATH;
     State_Monad.return (case timer of None \<Rightarrow> None
       | Some t \<Rightarrow> find (\<lambda>block. block < length calls \<and> target (calls ! block) = t)
           (map (\<lambda>k. ctm_block_start k call_offset) [0..<num_ctms])) }"

subsection \<open>RollupDAManager pairs\<close>

record rollup_da_manager_setup =
  setup_flavor :: ctm_flavor
  rollup_da_manager :: address
  l1_da_validator :: address
  l2_da_commitment_scheme_u8 :: "8 word"

definition rollup_da_setup :: "ext \<Rightarrow> stage1_abi \<Rightarrow> ctm_artifact \<Rightarrow> (rollup_da_manager_setup option \<times> nat) vr" where
  "rollup_da_setup E S ctm = (let failed = do { report_error; State_Monad.return (None, 1) } in
     case toml_get (ctm_value ctm) ''rollup_da_pair'' of
       None \<Rightarrow> State_Monad.return (None, 0)
     | Some pair_value \<Rightarrow> (case rollup_da_pair_try_from S pair_value of
         None \<Rightarrow> failed
       | Some (validator, scheme) \<Rightarrow>
           if validator = 0 then failed
           else if scheme = NoScheme then failed
           else do {
             manager \<leftarrow> required_ctm_address E ctm [''deployed_addresses'', ''l1_rollup_da_manager''];
             (case manager of
                None \<Rightarrow> State_Monad.return (None, 1)
              | Some m \<Rightarrow> if m = 0 then failed
                  else State_Monad.return (Some \<lparr>setup_flavor = flavor ctm, rollup_da_manager = m,
                    l1_da_validator = validator, l2_da_commitment_scheme_u8 = scheme_as_u8 scheme\<rparr>, 0)) }))"

definition rollup_da_manager_setups ::
    "ext \<Rightarrow> stage1_abi \<Rightarrow> ctm_artifact list \<Rightarrow> (rollup_da_manager_setup list \<times> nat) vr" where
  "rollup_da_manager_setups E S cs = foldM (\<lambda>ctm (setups, errors). do {
     r \<leftarrow> rollup_da_setup E S ctm;
     State_Monad.return (case fst r of None \<Rightarrow> setups | Some s \<Rightarrow> setups @ [s], errors + snd r) }) cs ([], 0)"

text \<open>
  \<open>seen\<close> holds the indices of the setups that
  were matched.
\<close>

definition check_da_pair_args :: "stage1_abi \<Rightarrow> rollup_da_manager_setup \<Rightarrow> call \<Rightarrow> call \<Rightarrow> nat vr" where
  "check_da_pair_args S s accept_call update_call = (case decode_updateDAPair S (data update_call) of
     None \<Rightarrow> do { report_error; State_Monad.return 1 }
   | Some (validator, scheme, status) \<Rightarrow> do {
       e1 \<leftarrow> expect_that (validator = l1_da_validator s);
       e2 \<leftarrow> expect_that (scheme = l2_da_commitment_scheme_u8 s);
       e3 \<leftarrow> expect_that status;
       (if validator = l1_da_validator s \<and> scheme = l2_da_commitment_scheme_u8 s \<and> status
           \<and> target update_call = target accept_call then report_ok else State_Monad.return ());
       State_Monad.return (e1 + e2 + e3) })"

definition rollup_pair_step ::
    "abi \<Rightarrow> stage1_abi \<Rightarrow> call list \<Rightarrow> nat \<Rightarrow> rollup_da_manager_setup list \<Rightarrow> nat \<Rightarrow> nat \<times> nat list
      \<Rightarrow> (nat \<times> nat list) vr" where
  "rollup_pair_step A S calls start_index expected pair_index st = (let (errors, seen) = st;
       accept_index = start_index + pair_index * 2; update_index = accept_index + 1 in
     if length calls \<le> accept_index then do { report_error; State_Monad.return (errors + 1, seen) }
     else if length calls \<le> update_index then do { report_error; State_Monad.return (errors + 1, seen) }
     else (let accept_call = calls ! accept_index; update_call = calls ! update_index in do {
       e1 \<leftarrow> expect_that (call_value accept_call = 0);
       e2 \<leftarrow> expect_that (call_value update_call = 0);
       e3 \<leftarrow> expect_that (data accept_call = acceptOwnership_SELECTOR A);
       e4 \<leftarrow> expect_that (target update_call = target accept_call);
       (case find (\<lambda>i. i \<notin> set seen \<and> rollup_da_manager (expected ! i) = target accept_call) [0..<length expected] of
          None \<Rightarrow> do { report_error; State_Monad.return (errors + e1 + e2 + e3 + e4 + 1, seen) }
        | Some expected_index \<Rightarrow> do {
            e5 \<leftarrow> check_da_pair_args S (expected ! expected_index) accept_call update_call;
            State_Monad.return (errors + e1 + e2 + e3 + e4 + e5, expected_index # seen) }) }))"

definition rollup_missing :: "rollup_da_manager_setup list \<Rightarrow> nat \<times> nat list \<Rightarrow> nat vr" where
  "rollup_missing expected st = foldM (\<lambda>i n. do { report_error; State_Monad.return (n + 1) })
     (filter (\<lambda>i. i \<notin> set (snd st)) [0..<length expected]) (fst st)"

definition verify_rollup_da_manager_setup_calls ::
    "abi \<Rightarrow> stage1_abi \<Rightarrow> call list \<Rightarrow> nat \<Rightarrow> rollup_da_manager_setup list \<Rightarrow> nat vr" where
  "verify_rollup_da_manager_setup_calls A S calls start_index expected = do {
     st \<leftarrow> foldM (rollup_pair_step A S calls start_index expected) [0..<length expected] (0, []);
     rollup_missing expected st }"

subsection \<open>Shape\<close>

definition stage1_core_calls :: "(nat \<times> string \<times> string) list" where
  "stage1_core_calls =
     [(0, ''transparent_proxy_admin'', ''upgrade(address,address)''),
      (1, ''transparent_proxy_admin'', ''upgrade(address,address)''),
      (2, ''transparent_proxy_admin'', ''upgrade(address,address)''),
      (3, ''transparent_proxy_admin'', ''upgrade(address,address)''),
      (4, ''transparent_proxy_admin'', ''upgradeAndCall(address,address,bytes)''),
      (5, ''transparent_proxy_admin'', ''upgrade(address,address)''),
      (6, ''transparent_proxy_admin'', ''upgrade(address,address)''),
      (7, ''chain_registration_sender_proxy'', ''acceptOwnership()''),
      (8, ''asset_tracker_proxy'', ''acceptOwnership()''),
      (9, ''native_token_vault'', ''setAssetTracker(address)''),
      (10, ''bridgehub_proxy'', ''setAddressesV31(address)''),
      (11, ''chain_asset_handler_proxy'', ''setAddresses()'')]"

text \<open>\<^verbatim>\<open>if let Some(a) = required_ctm_address(\<dots>) { \<dots> } else { errors += n }\<close>\<close>

definition with_ctm_address ::
    "ext \<Rightarrow> ctm_artifact \<Rightarrow> string list \<Rightarrow> nat \<Rightarrow> (address \<Rightarrow> nat res vr) \<Rightarrow> nat res vr" where
  "with_ctm_address E ctm path n f =
     tryM (liftM (required_ctm_address E ctm path)) (\<lambda>a. case a of None \<Rightarrow> okM n | Some x \<Rightarrow> f x)"

definition SET_CHAIN_CREATION_PARAMS :: string where
  "SET_CHAIN_CREATION_PARAMS = ''setChainCreationParams((address,bytes32,uint64,bytes32,((address,uint8,bool,bytes4[])[],address,bytes),bytes))''"

definition SET_NEW_VERSION_UPGRADE :: string where
  "SET_NEW_VERSION_UPGRADE = ''setNewVersionUpgrade(((address,uint8,bool,bytes4[])[],address,bytes),uint256,uint256,uint256,address)''"

definition CTM_PROXY :: "string list" where
  "CTM_PROXY = [''state_transition'', ''chain_type_manager_proxy'']"

definition VALIDATOR_TIMELOCK :: "string list" where
  "VALIDATOR_TIMELOCK = [''state_transition'', ''validator_timelock_addr'']"

definition verify_ctm_block_shape :: "ext \<Rightarrow> verifiers \<Rightarrow> call list \<Rightarrow> ctm_artifact \<Rightarrow> nat \<Rightarrow> nat res vr" where
  "verify_ctm_block_shape E v calls ctm block = sum_errors [
     with_ctm_address E ctm TIMER_PATH 1 (\<lambda>timer.
       liftM (verify_call_by_address E calls block timer ''checkDeadline()'')),
     with_ctm_address E ctm [''deployed_addresses'', ''upgrade_stage_validator''] 1 (\<lambda>validator.
       liftM (verify_call_by_address E calls (block + 1) validator ''checkMigrationsPaused()'')),
     with_ctm_address E ctm CTM_PROXY 3 (\<lambda>ctm_proxy.
       tryM (State_Monad.return (get_proxy_admin (network v) ctm_proxy)) (\<lambda>admin. sum_errors [
         liftM (verify_call_by_address E calls (block + 2) admin ''upgrade(address,address)''),
         liftM (verify_call_by_address E calls (block + 3) ctm_proxy SET_CHAIN_CREATION_PARAMS),
         liftM (verify_call_by_address E calls (block + 4) ctm_proxy SET_NEW_VERSION_UPGRADE)])),
     with_ctm_address E ctm VALIDATOR_TIMELOCK 1 (\<lambda>vt_proxy.
       tryM (State_Monad.return (get_proxy_admin (network v) vt_proxy)) (\<lambda>admin.
         liftM (verify_call_by_address E calls (block + 5) admin ''upgrade(address,address)'')))]"

definition verify_ctm_shape :: "ext \<Rightarrow> verifiers \<Rightarrow> call list \<Rightarrow> nat \<Rightarrow> ctm_artifact \<Rightarrow> nat res vr" where
  "verify_ctm_shape E v calls num_ctms ctm =
     tryM (liftM (find_ctm_block_start E ctm calls STAGE1_LEADING_PAUSE_OFFSET num_ctms)) (\<lambda>block. case block of
       None \<Rightarrow> liftM (do { report_error; State_Monad.return STAGE1_PER_CTM_LEN })
     | Some b \<Rightarrow> verify_ctm_block_shape E v calls ctm b)"

text \<open>The argument of a setter must be the target of the acceptance before it.\<close>

definition verify_accepted_target :: "call list \<Rightarrow> nat \<Rightarrow> nat \<Rightarrow> (bytes \<Rightarrow> address option) \<Rightarrow> nat vr" where
  "verify_accepted_target calls accept_index set_index decode =
     (if accept_index < length calls \<and> set_index < length calls then
        (case decode (data (calls ! set_index)) of
           Some a \<Rightarrow> if a = target (calls ! accept_index) then do { report_ok; State_Monad.return 0 }
             else do { report_error; State_Monad.return 1 }
         | None \<Rightarrow> do { report_error; State_Monad.return 1 })
      else State_Monad.return 0)"

text \<open>The checks of the shape once the setups are known.\<close>

definition shape_checks ::
    "ext \<Rightarrow> abi \<Rightarrow> stage1_abi \<Rightarrow> ctm_artifact list \<Rightarrow> verifiers \<Rightarrow> call list \<Rightarrow> rollup_da_manager_setup list \<times> nat
      \<Rightarrow> nat res vr" where
  "shape_checks E A S cs v calls = (\<lambda>(rollup_da_setups, rollup_da_setup_errors).
     let call_offset = STAGE1_LEADING_PAUSE_OFFSET;
         canonical_call_count = call_offset + STAGE1_GENERATED_PREFIX_LEN + length cs * STAGE1_PER_CTM_LEN in
     sum_errors ([okM rollup_da_setup_errors,
         liftM (verify_call_by_name E v calls 0 ''chain_asset_handler_proxy'' ''pauseMigration()'')]
       @ map (\<lambda>(index, name, method). liftM (verify_call_by_name E v calls (call_offset + index) name method))
           stage1_core_calls
       @ map (verify_ctm_shape E v calls (length cs)) cs
       @ [liftM (verify_call_count calls (canonical_call_count + length rollup_da_setups * 2)),
          liftM (verify_rollup_da_manager_setup_calls A S calls canonical_call_count rollup_da_setups),
          liftM (verify_accepted_target calls (call_offset + 8) (call_offset + 9) (decode_setAssetTracker S)),
          liftM (verify_accepted_target calls (call_offset + 7) (call_offset + 10) (decode_setAddressesV31 S))]))"

definition verify_call_shape ::
    "ext \<Rightarrow> abi \<Rightarrow> stage1_abi \<Rightarrow> ctm_artifact list \<Rightarrow> verifiers \<Rightarrow> call list \<Rightarrow> unit res vr" where
  "verify_call_shape E A S cs v calls =
     tryM (liftM print_info) (\<lambda>_. bail_on_errors (
     tryM (liftM (rollup_da_manager_setups E S cs)) (shape_checks E A S cs v calls)))"

subsection \<open>Payloads\<close>

definition verify_upgrade_call_args ::
    "stage1_abi \<Rightarrow> verifiers \<Rightarrow> call list \<Rightarrow> nat \<Rightarrow> string \<Rightarrow> string \<Rightarrow> nat vr" where
  "verify_upgrade_call_args S v calls index proxy_name implementation_name = need_call calls index (\<lambda>c.
     need_decoded (decode_upgrade S (data c)) (\<lambda>(proxy, implementation). do {
       e1 \<leftarrow> expect_named_address v proxy proxy_name;
       e2 \<leftarrow> expect_named_address v implementation implementation_name;
       (if e1 + e2 = 0 then report_ok else State_Monad.return ());
       State_Monad.return (e1 + e2) }))"

definition verify_message_root_upgrade_call_args :: "abi \<Rightarrow> stage1_abi \<Rightarrow> verifiers \<Rightarrow> call list \<Rightarrow> nat \<Rightarrow> nat vr" where
  "verify_message_root_upgrade_call_args A S v calls index = need_call calls index (\<lambda>c.
     need_decoded (decode_upgradeAndCall A (data c)) (\<lambda>(proxy, implementation, d). do {
       e1 \<leftarrow> expect_named_address v proxy ''message_root_proxy'';
       e2 \<leftarrow> expect_named_address v implementation ''message_root_implementation_addr'';
       (if d = initializeL1V31Upgrade_SELECTOR S then do { report_ok; State_Monad.return (e1 + e2) }
        else do { report_error; State_Monad.return (e1 + e2 + 1) }) }))"

text \<open>\<^verbatim>\<open>if let Some(expected) = required_ctm_address(\<dots>) { errors += expect_address_equal(\<dots>) } else { errors += 1 }\<close>\<close>

definition expect_ctm_address :: "ext \<Rightarrow> ctm_artifact \<Rightarrow> string list \<Rightarrow> address \<Rightarrow> nat vr" where
  "expect_ctm_address E ctm path actual = do {
     expected \<leftarrow> required_ctm_address E ctm path;
     (case expected of Some e \<Rightarrow> expect_address_equal actual e | None \<Rightarrow> State_Monad.return 1) }"

definition verify_ctm_proxy_upgrade_args ::
    "ext \<Rightarrow> stage1_abi \<Rightarrow> call list \<Rightarrow> nat \<Rightarrow> ctm_artifact \<Rightarrow> string list \<Rightarrow> string list \<Rightarrow> nat vr" where
  "verify_ctm_proxy_upgrade_args E S calls index ctm proxy_path impl_path = need_call calls index (\<lambda>c.
     need_decoded (decode_upgrade S (data c)) (\<lambda>(proxy, implementation). do {
       e1 \<leftarrow> expect_ctm_address E ctm proxy_path proxy;
       e2 \<leftarrow> expect_ctm_address E ctm impl_path implementation;
       (if e1 + e2 = 0 then report_ok else State_Monad.return ());
       State_Monad.return (e1 + e2) }))"

definition verify_ctm_upgrade_call_args :: "ext \<Rightarrow> stage1_abi \<Rightarrow> call list \<Rightarrow> nat \<Rightarrow> ctm_artifact \<Rightarrow> nat vr" where
  "verify_ctm_upgrade_call_args E S calls index ctm = verify_ctm_proxy_upgrade_args E S calls index ctm
     CTM_PROXY [''state_transition'', ''chain_type_manager_implementation_addr'']"

definition verify_validator_timelock_upgrade_call_args ::
    "ext \<Rightarrow> stage1_abi \<Rightarrow> call list \<Rightarrow> nat \<Rightarrow> ctm_artifact \<Rightarrow> nat vr" where
  "verify_validator_timelock_upgrade_call_args E S calls index ctm = verify_ctm_proxy_upgrade_args E S calls index ctm
     VALIDATOR_TIMELOCK [''state_transition'', ''validator_timelock_implementation_addr'']"

definition verify_genesis_fields :: "stage1_abi \<Rightarrow> verifiers \<Rightarrow> chain_creation_params \<Rightarrow> ctm_flavor \<Rightarrow> nat vr" where
  "verify_genesis_fields S v params fl = (let genesis = genesis_config_for_ctm v fl in do {
     e1 \<leftarrow> expect_that (b256_to_string S (genesisBatchHash params) = genesis_root genesis);
     (case fl of
        Era \<Rightarrow> do {
          e2 \<leftarrow> expect_that (genesis_rollup_leaf_index genesis = Some (genesisIndexRepeatedStorageChanges params));
          e3 \<leftarrow> expect_that (genesis_batch_commitment genesis = Some (b256_to_string S (genesisBatchCommitment params)));
          State_Monad.return (e1 + e2 + e3) }
      | ZksyncOs \<Rightarrow> do {
          e2 \<leftarrow> expect_that (genesisIndexRepeatedStorageChanges params = 0);
          e3 \<leftarrow> expect_that (genesisBatchCommitment params = 1);
          State_Monad.return (e1 + e2 + e3) }) })"

definition verify_creation_force_deployments :: "payload_abi \<Rightarrow> verifiers \<Rightarrow> bytes \<Rightarrow> nat res vr" where
  "verify_creation_force_deployments P v raw = (case decode_FixedForceDeploymentsData P raw of
     Some fixed_data \<Rightarrow> do {
       r \<leftarrow> force_deployments_verify v fixed_data;
       (case r of
          Inr _ \<Rightarrow> okM 0
        | Inl (Bail _) \<Rightarrow> liftM (do { report_error; State_Monad.return 1 })
        | Inl (Panic p) \<Rightarrow> failM (Panic p)) }
   | None \<Rightarrow> liftM (do { report_error; State_Monad.return 1 }))"

definition verify_creation_init :: "stage1_abi \<Rightarrow> verifiers \<Rightarrow> bytes \<Rightarrow> ctm_flavor \<Rightarrow> nat vr" where
  "verify_creation_init S v raw fl = (case decode_InitializeDataNewChain S raw of
     Some init_data \<Rightarrow> do { initialize_data_verify v init_data fl; State_Monad.return 0 }
   | None \<Rightarrow> do { report_error; State_Monad.return 1 })"

definition with_info :: "nat res vr \<Rightarrow> nat res vr" where
  "with_info m = tryM (liftM print_info) (\<lambda>_. m)"

definition verify_set_chain_creation_params_payload ::
    "ext \<Rightarrow> payload_abi \<Rightarrow> stage1_abi \<Rightarrow> verifiers \<Rightarrow> call list \<Rightarrow> nat \<Rightarrow> ctm_artifact \<Rightarrow> nat res vr" where
  "verify_set_chain_creation_params_payload E P S v calls index ctm =
     (if length calls \<le> index then liftM (do { report_error; State_Monad.return 1 })
      else (case decode_setChainCreationParams S (data (calls ! index)) of
        None \<Rightarrow> liftM (do { report_error; State_Monad.return 1 })
      | Some params \<Rightarrow> sum_errors [
          liftM (expect_ctm_address E ctm [''state_transition'', ''genesis_upgrade_addr''] (genesisUpgrade params)),
          liftM (expect_ctm_address E ctm [''state_transition'', ''diamond_init_addr''] (initAddress (ccp_diamondCut params))),
          liftM (verify_genesis_fields S v params (flavor ctm)),
          liftM (expect_hex_equal (diamond_cut_data (ctm_contracts_config ctm))
            (hex_encode E (encode_DiamondCutData S (ccp_diamondCut params)))),
          liftM (expect_hex_equal (force_deployments_data (ctm_contracts_config ctm))
            (hex_encode E (forceDeploymentsData params))),
          with_info (liftM (verify_v31_chain_creation_facet_cuts E (facetCuts (ccp_diamondCut params)) ctm v)),
          with_info (verify_creation_force_deployments P v (forceDeploymentsData params)),
          with_info (liftM (verify_creation_init S v (initCalldata (ccp_diamondCut params)) (flavor ctm)))]))"

definition verify_old_version :: "ext \<Rightarrow> verifiers \<Rightarrow> ctm_artifact \<Rightarrow> u256 \<Rightarrow> nat res vr" where
  "verify_old_version E v ctm old_version =
     (let artifact_old = ucast (old_protocol_version (ctm_contracts_config ctm)) in
     tryM (if old_version \<noteq> artifact_old then liftM (do { report_error; State_Monad.return 1 })
       else tryM (State_Monad.return (protocol_label E artifact_old)) (\<lambda>_.
         liftM (do { report_ok; State_Monad.return 0 }))) (\<lambda>e1.
     tryM (State_Monad.return (protocol_version_from_u256 E artifact_old)) (\<lambda>_.
     tryM (State_Monad.return (get_expected_old_protocol_version_for_ctm_flavor (flavor ctm))) (\<lambda>expected.
     liftM (if artifact_old \<noteq> u256_from_protocol_version expected
       then do { report_error; State_Monad.return (e1 + 1) }
       else do { report_ok; State_Monad.return e1 })))))"

definition verify_onchain_version :: "ext \<Rightarrow> verifiers \<Rightarrow> ctm_artifact \<Rightarrow> u256 \<Rightarrow> nat vr" where
  "verify_onchain_version E v ctm old_version = do {
     ctm_addr \<leftarrow> required_ctm_address E ctm CTM_PROXY;
     (case ctm_addr of None \<Rightarrow> State_Monad.return 0
      | Some a \<Rightarrow> (case try_get_ctm_protocol_version (network v) a of
          Inr onchain \<Rightarrow> if onchain = old_version then do { report_ok; State_Monad.return 0 }
            else do { report_error; State_Monad.return 1 }
        | Inl _ \<Rightarrow> do { report_warn; State_Monad.return 0 })) }"

definition verify_new_version :: "ext \<Rightarrow> ctm_artifact \<Rightarrow> set_new_version_upgrade_call \<Rightarrow> nat res vr" where
  "verify_new_version E ctm d =
     (let artifact_new = ucast (new_protocol_version (ctm_contracts_config ctm)) in
     tryM (liftM (do {
       e1 \<leftarrow> expect_that (oldProtocolVersionDeadline d = - 1);
       e2 \<leftarrow> expect_that (snv_newProtocolVersion d = artifact_new);
       State_Monad.return (e1 + e2) })) (\<lambda>e.
     tryM (State_Monad.return (protocol_version_from_u256 E artifact_new)) (\<lambda>decoded_new.
     tryM (State_Monad.return get_expected_new_protocol_version) (\<lambda>expected_new.
     liftM (do { e3 \<leftarrow> expect_that (decoded_new = expected_new); State_Monad.return (e + e3) })))))"

definition verify_set_new_version_upgrade_payload ::
    "ext \<Rightarrow> payload_abi \<Rightarrow> stage1_abi \<Rightarrow> verifiers \<Rightarrow> call list \<Rightarrow> nat \<Rightarrow> ctm_artifact \<Rightarrow> nat res vr" where
  "verify_set_new_version_upgrade_payload E P S v calls index ctm =
     tryM (State_Monad.return (bind_res (ok_or (Bail ''missing setNewVersionUpgrade call'')
         (if index < length calls then Some (data (calls ! index)) else None)) (\<lambda>calldata.
       ok_or (Bail ''decoding setNewVersionUpgrade'') (decode_setNewVersionUpgrade S calldata)))) (\<lambda>d.
     let cut = snv_diamondCut d in
     sum_errors [
       verify_old_version E v ctm (oldProtocolVersion d),
       liftM (verify_onchain_version E v ctm (oldProtocolVersion d)),
       verify_new_version E ctm d,
       liftM (expect_ctm_address E ctm [''state_transition'', ''verifier_addr''] (snv_verifier d)),
       liftM (expect_hex_equal (chain_upgrade_diamond_cut ctm) (hex_encode E (encode_DiamondCutData S cut))),
       liftM (expect_ctm_address E ctm [''state_transition'', ''default_upgrade_addr''] (initAddress cut)),
       verify_v31_upgrade_facet_cuts E (facetCuts cut) ctm v,
       tryM (liftM (required_ctm_address E ctm [''state_transition'', ''bytecodes_supplier_addr''])) (\<lambda>supplier.
         verify_default_upgrade_payload E P (decode_proposed_upgrade S) v (initCalldata cut)
           (ucast (new_protocol_version (ctm_contracts_config ctm)))
           (force_deployments_data (ctm_contracts_config ctm)) supplier (flavor ctm))])"

definition stage1_core_upgrades :: "(nat \<times> string \<times> string) list" where
  "stage1_core_upgrades =
     [(0, ''bridgehub_proxy'', ''bridgehub_implementation_addr''),
      (1, ''l1_nullifier_proxy'', ''l1_nullifier_implementation_addr''),
      (2, ''l1_asset_router_proxy'', ''l1_asset_router_implementation_addr''),
      (3, ''native_token_vault'', ''native_token_vault_implementation_addr''),
      (5, ''ctm_deployment_tracker_proxy'', ''ctm_deployment_tracker_implementation_addr''),
      (6, ''chain_asset_handler_proxy'', ''chain_asset_handler_implementation_addr'')]"

definition verify_ctm_block_payload ::
    "ext \<Rightarrow> payload_abi \<Rightarrow> stage1_abi \<Rightarrow> verifiers \<Rightarrow> call list \<Rightarrow> ctm_artifact \<Rightarrow> nat \<Rightarrow> nat res vr" where
  "verify_ctm_block_payload E P S v calls ctm b = with_info (sum_errors [
     liftM (verify_ctm_upgrade_call_args E S calls (b + 2) ctm),
     verify_set_chain_creation_params_payload E P S v calls (b + 3) ctm,
     verify_set_new_version_upgrade_payload E P S v calls (b + 4) ctm,
     liftM (verify_validator_timelock_upgrade_call_args E S calls (b + 5) ctm)])"

definition verify_ctm_payload ::
    "ext \<Rightarrow> payload_abi \<Rightarrow> stage1_abi \<Rightarrow> verifiers \<Rightarrow> call list \<Rightarrow> nat \<Rightarrow> ctm_artifact \<Rightarrow> nat res vr" where
  "verify_ctm_payload E P S v calls num_ctms ctm =
     tryM (liftM (find_ctm_block_start E ctm calls STAGE1_LEADING_PAUSE_OFFSET num_ctms)) (\<lambda>block. case block of
       None \<Rightarrow> liftM (do { report_error; State_Monad.return 1 })
     | Some b \<Rightarrow> verify_ctm_block_payload E P S v calls ctm b)"

definition verify_artifact_payloads ::
    "ext \<Rightarrow> abi \<Rightarrow> payload_abi \<Rightarrow> stage1_abi \<Rightarrow> ctm_artifact list \<Rightarrow> verifiers \<Rightarrow> call list \<Rightarrow> unit res vr" where
  "verify_artifact_payloads E A P S cs v calls =
     tryM (liftM print_info) (\<lambda>_. bail_on_errors (sum_errors (
       map (\<lambda>(index, proxy_name, implementation_name). liftM (verify_upgrade_call_args S v calls
           (STAGE1_LEADING_PAUSE_OFFSET + index) proxy_name implementation_name)) stage1_core_upgrades
       @ [liftM (verify_message_root_upgrade_call_args A S v calls (STAGE1_LEADING_PAUSE_OFFSET + 4))]
       @ map (verify_ctm_payload E P S v calls (length cs)) cs)))"

definition stage1_verify_artifact ::
    "ext \<Rightarrow> abi \<Rightarrow> payload_abi \<Rightarrow> stage1_abi \<Rightarrow> ecosystem_upgrade_artifact \<Rightarrow> verifiers \<Rightarrow> call list \<Rightarrow> unit res vr" where
  "stage1_verify_artifact E A P S artifact v calls =
     tryM (verify_call_shape E A S (ctms artifact) v calls) (\<lambda>_.
     verify_artifact_payloads E A P S (ctms artifact) v calls)"

section \<open>The primitives of this stage\<close>

lemma writer_block_start [simp, writer_intros]: "writer (find_ctm_block_start E ctm calls o' n)"
  by (auto simp: find_ctm_block_start_def)

text \<open>The block of a CTM: the first one whose first call goes to the CTM's timer.\<close>

definition block_of :: "ext \<Rightarrow> call list \<Rightarrow> nat \<Rightarrow> ctm_artifact \<Rightarrow> nat option" where
  "block_of E calls num_ctms ctm = (case timer_of E ctm of None \<Rightarrow> None
     | Some t \<Rightarrow> find (\<lambda>b. b < length calls \<and> target (calls ! b) = t) (map (\<lambda>k. 13 + k * 6) [0..<num_ctms]))"

lemma block_start_simps [simp]:
  "val (find_ctm_block_start E ctm calls STAGE1_LEADING_PAUSE_OFFSET n) = block_of E calls n ctm"
  "clean (find_ctm_block_start E ctm calls STAGE1_LEADING_PAUSE_OFFSET n) \<longleftrightarrow> timer_of E ctm \<noteq> None"
  by (auto simp: find_ctm_block_start_def block_of_def timer_of_def ctm_block_start_def
      STAGE1_LEADING_PAUSE_OFFSET_def STAGE1_GENERATED_PREFIX_LEN_def STAGE1_PER_CTM_LEN_def split: option.splits)

lemma block_of_Some: "block_of E calls n ctm = Some b \<Longrightarrow> timer_of E ctm = Some (target (calls ! b)) \<and> b < length calls
    \<and> (\<exists>k < n. b = 13 + k * 6)"
  by (auto simp: block_of_def dest!: find_in_list split: option.splits)

lemma writer_with_ctm_address [simp, writer_intros]: "(\<And>a. writer (f a)) \<Longrightarrow> writer (with_ctm_address E ctm p n f)"
  unfolding with_ctm_address_def by (intro writer_tryM) (auto split: option.splits)

lemma yields_with_ctm_address:
  assumes "\<And>a. writer (f a)"
  shows "yields (with_ctm_address E ctm p n f) 0 \<longleftrightarrow> (\<exists>a. address_at E (ctm_value ctm) p = Some a \<and> yields (f a) 0)"
  unfolding with_ctm_address_def using assms
  by (subst yields_tryM) (auto split: option.splits)

lemma expect_ctm_address_simps [simp]:
  "writer (expect_ctm_address E ctm p a)"
  "val (expect_ctm_address E ctm p a) = (if address_at E (ctm_value ctm) p = Some a then 0 else 1)"
  "clean (expect_ctm_address E ctm p a) \<longleftrightarrow> address_at E (ctm_value ctm) p = Some a"
  by (auto simp: expect_ctm_address_def split: option.splits)

lemma with_info_simps [simp]:
  "writer m \<Longrightarrow> writer (with_info m)" "writer m \<Longrightarrow> yields (with_info m) n \<longleftrightarrow> yields m n"
  by (auto simp: with_info_def)

section \<open>Shape that passes\<close>

definition ctm_shape_ok :: "ext \<Rightarrow> verifiers \<Rightarrow> call list \<Rightarrow> nat \<Rightarrow> ctm_artifact \<Rightarrow> bool" where
  "ctm_shape_ok E v calls n ctm \<longleftrightarrow> (\<exists>b timer validator proxy proxy_admin vt vt_admin.
     block_of E calls n ctm = Some b
     \<and> timer_of E ctm = Some timer \<and> call_ok E calls b timer ''checkDeadline()''
     \<and> address_at E (ctm_value ctm) [''deployed_addresses'', ''upgrade_stage_validator''] = Some validator
     \<and> call_ok E calls (b + 1) validator ''checkMigrationsPaused()''
     \<and> address_at E (ctm_value ctm) CTM_PROXY = Some proxy
     \<and> get_proxy_admin (network v) proxy = Inr proxy_admin
     \<and> call_ok E calls (b + 2) proxy_admin ''upgrade(address,address)''
     \<and> call_ok E calls (b + 3) proxy SET_CHAIN_CREATION_PARAMS
     \<and> call_ok E calls (b + 4) proxy SET_NEW_VERSION_UPGRADE
     \<and> address_at E (ctm_value ctm) VALIDATOR_TIMELOCK = Some vt
     \<and> get_proxy_admin (network v) vt = Inr vt_admin
     \<and> call_ok E calls (b + 5) vt_admin ''upgrade(address,address)'')"

lemma writer_block_shape [simp, writer_intros]: "writer (verify_ctm_block_shape E v calls ctm b)"
  by (simp add: verify_ctm_block_shape_def)

lemma yields_block_shape:
  "yields (verify_ctm_block_shape E v calls ctm b) 0 \<longleftrightarrow> (\<exists>timer validator proxy proxy_admin vt vt_admin.
     timer_of E ctm = Some timer \<and> call_ok E calls b timer ''checkDeadline()''
     \<and> address_at E (ctm_value ctm) [''deployed_addresses'', ''upgrade_stage_validator''] = Some validator
     \<and> call_ok E calls (b + 1) validator ''checkMigrationsPaused()''
     \<and> address_at E (ctm_value ctm) CTM_PROXY = Some proxy
     \<and> get_proxy_admin (network v) proxy = Inr proxy_admin
     \<and> call_ok E calls (b + 2) proxy_admin ''upgrade(address,address)''
     \<and> call_ok E calls (b + 3) proxy SET_CHAIN_CREATION_PARAMS
     \<and> call_ok E calls (b + 4) proxy SET_NEW_VERSION_UPGRADE
     \<and> address_at E (ctm_value ctm) VALIDATOR_TIMELOCK = Some vt
     \<and> get_proxy_admin (network v) vt = Inr vt_admin
     \<and> call_ok E calls (b + 5) vt_admin ''upgrade(address,address)'')"
  unfolding verify_ctm_block_shape_def timer_of_def
  by (simp add: yields_sum_errors yields_with_ctm_address yields_call_check del: yields_simps(4)) blast

lemma writer_ctm_shape [simp, writer_intros]: "writer (verify_ctm_shape E v calls n ctm)"
  unfolding verify_ctm_shape_def by (intro writer_tryM) (auto split: option.splits)

lemma yields_ctm_shape: "yields (verify_ctm_shape E v calls n ctm) 0 \<longleftrightarrow> ctm_shape_ok E v calls n ctm"
proof (cases "block_of E calls n ctm")
  case None
  then show ?thesis
    unfolding verify_ctm_shape_def by (simp add: ctm_shape_ok_def yields_def)
next
  case (Some b)
  have "yields (verify_ctm_shape E v calls n ctm) 0 \<longleftrightarrow> yields (verify_ctm_block_shape E v calls ctm b) 0"
    unfolding verify_ctm_shape_def using block_of_Some [OF Some]
    by (subst yields_tryM) (auto simp: Some split: option.splits)
  then show ?thesis
    unfolding yields_block_shape ctm_shape_ok_def Some by simp
qed

lemma accepted_target_simps [simp]: "writer (verify_accepted_target calls i j dec)"
  by (auto simp: verify_accepted_target_def split: option.splits)

lemma yields_accepted_target: "yields (liftM (verify_accepted_target calls i j dec)) 0
    \<longleftrightarrow> (i < length calls \<and> j < length calls \<longrightarrow> dec (data (calls ! j)) = Some (target (calls ! i)))"
  by (auto simp: verify_accepted_target_def split: option.splits)

subsection \<open>RollupDAManager pairs\<close>

text \<open>The setup a CTM section asks for, and whether its pair (if it has one) is usable.\<close>

definition rollup_setup_of :: "ext \<Rightarrow> stage1_abi \<Rightarrow> ctm_artifact \<Rightarrow> rollup_da_manager_setup option" where
  "rollup_setup_of E S ctm = do {
     pair_value \<leftarrow> toml_get (ctm_value ctm) ''rollup_da_pair'';
     p \<leftarrow> rollup_da_pair_try_from S pair_value;
     m \<leftarrow> address_at E (ctm_value ctm) [''deployed_addresses'', ''l1_rollup_da_manager''];
     (if fst p = 0 \<or> snd p = NoScheme \<or> m = 0 then None
      else Some \<lparr>setup_flavor = flavor ctm, rollup_da_manager = m, l1_da_validator = fst p,
        l2_da_commitment_scheme_u8 = scheme_as_u8 (snd p)\<rparr>) }"

definition rollup_pair_ok :: "ext \<Rightarrow> stage1_abi \<Rightarrow> ctm_artifact \<Rightarrow> bool" where
  "rollup_pair_ok E S ctm \<longleftrightarrow> toml_get (ctm_value ctm) ''rollup_da_pair'' = None \<or> rollup_setup_of E S ctm \<noteq> None"

lemma rollup_setup_simps [simp]:
  "writer (rollup_da_setup E S ctm)"
  "val (rollup_da_setup E S ctm) = (rollup_setup_of E S ctm, if rollup_pair_ok E S ctm then 0 else 1)"
  "clean (rollup_da_setup E S ctm) \<longleftrightarrow> rollup_pair_ok E S ctm"
  by (cases "address_at E (ctm_value ctm) [''deployed_addresses'', ''l1_rollup_da_manager'']";
      auto simp: rollup_da_setup_def rollup_setup_of_def rollup_pair_ok_def Let_def
        split: option.splits prod.splits)+

definition rollup_setups :: "ext \<Rightarrow> stage1_abi \<Rightarrow> ctm_artifact list \<Rightarrow> rollup_da_manager_setup list" where
  "rollup_setups E S cs = List.map_filter (rollup_setup_of E S) cs"

lemma writer_rollup_setups [simp, writer_intros]: "writer (rollup_da_manager_setups E S cs)"
  unfolding rollup_da_manager_setups_def by (rule writer_foldM) (simp split: prod.splits)

lemma rollup_fold:
  "clean (foldM (\<lambda>ctm (setups, errors). do { r \<leftarrow> rollup_da_setup E S ctm;
       State_Monad.return (case fst r of None \<Rightarrow> setups | Some s \<Rightarrow> setups @ [s], errors + snd r) }) cs (ss, e))
    \<longleftrightarrow> (\<forall>ctm \<in> set cs. rollup_pair_ok E S ctm)"
  "(\<forall>ctm \<in> set cs. rollup_pair_ok E S ctm) \<Longrightarrow>
    val (foldM (\<lambda>ctm (setups, errors). do { r \<leftarrow> rollup_da_setup E S ctm;
       State_Monad.return (case fst r of None \<Rightarrow> setups | Some s \<Rightarrow> setups @ [s], errors + snd r) }) cs (ss, e))
    = (ss @ List.map_filter (rollup_setup_of E S) cs, e)"
  by (induction cs arbitrary: ss e) (auto simp: List.map_filter_simps split_beta split: option.splits)

lemma yields_rollup_setups:
  "yields (liftM (rollup_da_manager_setups E S cs)) r
    \<longleftrightarrow> (\<forall>ctm \<in> set cs. rollup_pair_ok E S ctm) \<and> r = (rollup_setups E S cs, 0)"
proof -
  have "clean (rollup_da_manager_setups E S cs) \<longleftrightarrow> (\<forall>ctm \<in> set cs. rollup_pair_ok E S ctm)"
    "(\<forall>ctm \<in> set cs. rollup_pair_ok E S ctm) \<Longrightarrow> val (rollup_da_manager_setups E S cs) = (rollup_setups E S cs, 0)"
    unfolding rollup_da_manager_setups_def rollup_setups_def
    using rollup_fold [where E = E and S = S and cs = cs and ss = "[]" and e = 0] by simp_all
  then show ?thesis by auto
qed

text \<open>The k-th pair of calls sets up \<open>s\<close>.\<close>

definition da_pair_ok :: "abi \<Rightarrow> stage1_abi \<Rightarrow> call list \<Rightarrow> nat \<Rightarrow> nat \<Rightarrow> rollup_da_manager_setup \<Rightarrow> bool" where
  "da_pair_ok A S calls start k s \<longleftrightarrow> start + k * 2 + 1 < length calls
     \<and> (let acc = calls ! (start + k * 2); upd = calls ! (start + k * 2 + 1) in
        call_value acc = 0 \<and> call_value upd = 0 \<and> data acc = acceptOwnership_SELECTOR A
        \<and> target acc = rollup_da_manager s \<and> target upd = rollup_da_manager s
        \<and> decode_updateDAPair S (data upd) = Some (l1_da_validator s, l2_da_commitment_scheme_u8 s, True))"

definition first_unseen :: "rollup_da_manager_setup list \<Rightarrow> nat list \<Rightarrow> address \<Rightarrow> nat option" where
  "first_unseen expected seen a = find (\<lambda>i. i \<notin> set seen \<and> rollup_da_manager (expected ! i) = a) [0..<length expected]"

lemma da_pair_args_simps [simp]:
  "writer (check_da_pair_args S s acc upd)"
  "clean (check_da_pair_args S s acc upd)
    \<longleftrightarrow> decode_updateDAPair S (data upd) = Some (l1_da_validator s, l2_da_commitment_scheme_u8 s, True)"
  "clean (check_da_pair_args S s acc upd) \<Longrightarrow> val (check_da_pair_args S s acc upd) = 0"
  by (auto simp: check_da_pair_args_def split: option.splits prod.splits)

lemma writer_rollup_step [simp, writer_intros]: "writer (rollup_pair_step A S calls start ex k st)"
  by (auto simp: rollup_pair_step_def Let_def split: prod.splits option.splits)

lemma first_unseen_Some:
  "first_unseen ex seen a = Some i \<Longrightarrow> i < length ex \<and> i \<notin> set seen \<and> rollup_da_manager (ex ! i) = a"
  by (auto simp: first_unseen_def dest!: find_in_list)

lemma rollup_step_simps:
  "clean (rollup_pair_step A S calls start ex k (e, seen)) \<longleftrightarrow> (\<exists>i. start + k * 2 < length calls
    \<and> first_unseen ex seen (target (calls ! (start + k * 2))) = Some i \<and> da_pair_ok A S calls start k (ex ! i))"
  (is "_ \<longleftrightarrow> ?ok")
  "clean (rollup_pair_step A S calls start ex k (e, seen)) \<Longrightarrow> val (rollup_pair_step A S calls start ex k (e, seen))
    = (e, the (first_unseen ex seen (target (calls ! (start + k * 2)))) # seen)"
proof -
  show "clean (rollup_pair_step A S calls start ex k (e, seen)) \<longleftrightarrow> ?ok"
    by (cases "first_unseen ex seen (target (calls ! (start + k * 2)))")
      (auto simp: rollup_pair_step_def Let_def da_pair_ok_def first_unseen_def dest: first_unseen_Some [unfolded first_unseen_def])
  show "clean (rollup_pair_step A S calls start ex k (e, seen)) \<Longrightarrow> val (rollup_pair_step A S calls start ex k (e, seen))
    = (e, the (first_unseen ex seen (target (calls ! (start + k * 2)))) # seen)"
    by (cases "first_unseen ex seen (target (calls ! (start + k * 2)))")
      (auto simp: rollup_pair_step_def Let_def first_unseen_def split: if_splits)
qed

text \<open>
  The pairs match the setups in the order \<open>ord\<close>: each pair takes the first setup of its manager
  that no earlier pair took.
\<close>

definition matching :: "abi \<Rightarrow> stage1_abi \<Rightarrow> call list \<Rightarrow> nat \<Rightarrow> rollup_da_manager_setup list \<Rightarrow> nat \<Rightarrow> nat list \<Rightarrow> bool" where
  "matching A S calls start ex m ord \<longleftrightarrow> length ord = m \<and> (\<forall>k < m.
     first_unseen ex (take k ord) (target (calls ! (start + k * 2))) = Some (ord ! k)
     \<and> da_pair_ok A S calls start k (ex ! (ord ! k)))"

lemma first_unseen_rev: "first_unseen ex (rev xs) a = first_unseen ex xs a"
  by (simp add: first_unseen_def)

lemma matching_Suc:
  "matching A S calls start ex (Suc m) ord \<longleftrightarrow> (\<exists>ord' i. ord = ord' @ [i] \<and> matching A S calls start ex m ord'
    \<and> first_unseen ex ord' (target (calls ! (start + m * 2))) = Some i \<and> da_pair_ok A S calls start m (ex ! i))"
  (is "?l \<longleftrightarrow> ?r")
proof
  assume l: ?l
  then have len: "length ord = Suc m"
    by (simp add: matching_def)
  then have "ord = take m ord @ [ord ! m]"
    by (metis lessI take_Suc_conv_app_nth take_all order_refl)
  moreover have "matching A S calls start ex m (take m ord)"
    using l len by (auto simp: matching_def min_def)
  ultimately show ?r
    using l unfolding matching_def by (metis lessI)
next
  assume ?r
  then obtain ord' i where o: "ord = ord' @ [i]" "matching A S calls start ex m ord'"
    "first_unseen ex ord' (target (calls ! (start + m * 2))) = Some i" "da_pair_ok A S calls start m (ex ! i)"
    by blast
  then show ?l
    by (auto simp: matching_def nth_append less_Suc_eq)
qed

lemma matching_unique: "matching A S calls start ex m a \<Longrightarrow> matching A S calls start ex m b \<Longrightarrow> a = b"
proof (induction m arbitrary: a b)
  case (Suc m)
  obtain a' i where a: "a = a' @ [i]" "matching A S calls start ex m a'"
    "first_unseen ex a' (target (calls ! (start + m * 2))) = Some i"
    using Suc.prems(1) unfolding matching_Suc by blast
  obtain b' j where b: "b = b' @ [j]" "matching A S calls start ex m b'"
    "first_unseen ex b' (target (calls ! (start + m * 2))) = Some j"
    using Suc.prems(2) unfolding matching_Suc by blast
  show ?case
    using Suc.IH [OF a(2) b(2)] a b by simp
qed (simp add: matching_def)

lemma rollup_loop:
  "clean (foldM (rollup_pair_step A S calls start ex) [0..<m] (0, [])) \<longleftrightarrow> (\<exists>ord. matching A S calls start ex m ord)"
  "matching A S calls start ex m ord \<Longrightarrow>
    val (foldM (rollup_pair_step A S calls start ex) [0..<m] (0, [])) = (0, rev ord)"
proof (induction m arbitrary: ord)
  case 0
  case 1
  show ?case by (simp add: matching_def)
  case 2
  then show ?case by (simp add: matching_def)
next
  case (Suc m)
  let ?f = "rollup_pair_step A S calls start ex"
  have step: "clean (?f m (0, rev ord')) \<longleftrightarrow> (\<exists>i. first_unseen ex ord' (target (calls ! (start + m * 2))) = Some i
      \<and> da_pair_ok A S calls start m (ex ! i))" for ord'
    by (auto simp: rollup_step_simps(1) first_unseen_rev da_pair_ok_def)
  case 1
  show ?case
  proof (cases "\<exists>ord. matching A S calls start ex m ord")
    case True
    then obtain ord' where o: "matching A S calls start ex m ord'" by blast
    have "clean (foldM ?f [0..<Suc m] (0, [])) \<longleftrightarrow> clean (?f m (0, rev ord'))"
      using Suc.IH o by (auto simp: foldM_append)
    then show ?thesis
      unfolding step matching_Suc using matching_unique [OF _ o] o by metis
  next
    case False
    then show ?thesis
      using Suc.IH(1) by (auto simp: foldM_append matching_Suc)
  qed
  case 2
  then obtain ord' i where o: "ord = ord' @ [i]" "matching A S calls start ex m ord'"
    "first_unseen ex ord' (target (calls ! (start + m * 2))) = Some i" "da_pair_ok A S calls start m (ex ! i)"
    unfolding matching_Suc by blast
  then have "clean (?f m (0, rev ord'))"
    using step by blast
  from rollup_step_simps(2) [OF this] o Suc.IH(2) [OF o(2)] show ?case
    by (simp add: foldM_append first_unseen_rev)
qed

text \<open>A matching of all pairs uses every setup once.\<close>

lemma matching_permutes:
  assumes "matching A S calls start ex m ord"
  shows "distinct ord \<and> set ord \<subseteq> {..<length ex}"
  using assms
proof (induction m arbitrary: ord)
  case (Suc m)
  then obtain ord' i where "ord = ord' @ [i]" "matching A S calls start ex m ord'"
    "first_unseen ex ord' (target (calls ! (start + m * 2))) = Some i"
    unfolding matching_Suc by blast
  with Suc.IH [of ord'] first_unseen_Some [of ex ord' _ i] show ?case by auto
qed (simp add: matching_def)

lemma matching_complete:
  assumes "matching A S calls start ex (length ex) ord"
  shows "set ord = {..<length ex}"
proof -
  have "distinct ord" "set ord \<subseteq> {..<length ex}" "length ord = length ex"
    using matching_permutes [OF assms] assms by (auto simp: matching_def)
  then show ?thesis
    by (metis card_lessThan card_subset_eq distinct_card finite_lessThan)
qed

lemma writer_rollup_calls [simp, writer_intros]:
  "writer (rollup_missing ex st)" "writer (verify_rollup_da_manager_setup_calls A S calls start ex)"
  by (simp_all add: rollup_missing_def verify_rollup_da_manager_setup_calls_def)

lemma yields_rollup_calls: "yields (liftM (verify_rollup_da_manager_setup_calls A S calls start ex)) 0
    \<longleftrightarrow> (\<exists>ord. matching A S calls start ex (length ex) ord)"
proof (cases "\<exists>ord. matching A S calls start ex (length ex) ord")
  case True
  then obtain ord where o: "matching A S calls start ex (length ex) ord" by blast
  have "filter (\<lambda>i. i \<notin> set (rev ord)) [0..<length ex] = []"
    using matching_complete [OF o] by (simp add: filter_empty_conv)
  then have "yields (liftM (verify_rollup_da_manager_setup_calls A S calls start ex)) 0"
    using rollup_loop(1) [of A S calls start ex "length ex"] rollup_loop(2) [OF o] o
    by (auto simp: verify_rollup_da_manager_setup_calls_def rollup_missing_def)
  with True show ?thesis by blast
next
  case False
  then show ?thesis
    using rollup_loop(1) [of A S calls start ex "length ex"]
    by (auto simp: verify_rollup_da_manager_setup_calls_def)
qed

subsection \<open>The shape of the whole list\<close>

definition stage1_shape_ok ::
    "ext \<Rightarrow> abi \<Rightarrow> stage1_abi \<Rightarrow> ctm_artifact list \<Rightarrow> verifiers \<Rightarrow> call list \<Rightarrow> bool" where
  "stage1_shape_ok E A S cs v calls \<longleftrightarrow>
     (\<forall>ctm \<in> set cs. rollup_pair_ok E S ctm)
     \<and> (\<exists>t. get_by_name (address_book v) ''chain_asset_handler_proxy'' = Some t \<and> call_ok E calls 0 t ''pauseMigration()'')
     \<and> (\<forall>(i, name, method) \<in> set stage1_core_calls.
          \<exists>t. get_by_name (address_book v) name = Some t \<and> call_ok E calls (1 + i) t method)
     \<and> (\<forall>ctm \<in> set cs. ctm_shape_ok E v calls (length cs) ctm)
     \<and> length calls = 13 + length cs * 6 + length (rollup_setups E S cs) * 2
     \<and> (\<exists>ord. matching A S calls (13 + length cs * 6) (rollup_setups E S cs) (length (rollup_setups E S cs)) ord)
     \<and> decode_setAssetTracker S (data (calls ! 10)) = Some (target (calls ! 9))
     \<and> decode_setAddressesV31 S (data (calls ! 11)) = Some (target (calls ! 8))"

lemmas stage1_lengths = STAGE1_LEADING_PAUSE_OFFSET_def STAGE1_GENERATED_PREFIX_LEN_def STAGE1_PER_CTM_LEN_def

lemma writer_shape_checks [simp, writer_intros]: "writer (shape_checks E A S cs v calls r)"
  unfolding shape_checks_def Let_def split_beta by (rule writer_sum_errors) auto

lemma yields_shape_checks:
  "yields (shape_checks E A S cs v calls (setups, e)) 0 \<longleftrightarrow> e = 0
     \<and> (\<exists>t. get_by_name (address_book v) ''chain_asset_handler_proxy'' = Some t \<and> call_ok E calls 0 t ''pauseMigration()'')
     \<and> (\<forall>(i, name, method) \<in> set stage1_core_calls.
          \<exists>t. get_by_name (address_book v) name = Some t \<and> call_ok E calls (1 + i) t method)
     \<and> (\<forall>ctm \<in> set cs. ctm_shape_ok E v calls (length cs) ctm)
     \<and> length calls = 13 + length cs * 6 + length setups * 2
     \<and> (\<exists>ord. matching A S calls (13 + length cs * 6) setups (length setups) ord)
     \<and> decode_setAssetTracker S (data (calls ! 10)) = Some (target (calls ! 9))
     \<and> decode_setAddressesV31 S (data (calls ! 11)) = Some (target (calls ! 8))"
proof -
  have w: "\<forall>m \<in> set ([okM e, liftM (verify_call_by_name E v calls 0 ''chain_asset_handler_proxy'' ''pauseMigration()'')]
       @ map (\<lambda>(index, name, method). liftM (verify_call_by_name E v calls (1 + index) name method)) stage1_core_calls
       @ map (verify_ctm_shape E v calls (length cs)) cs
       @ [liftM (verify_call_count calls (13 + length cs * 6 + length setups * 2)),
          liftM (verify_rollup_da_manager_setup_calls A S calls (13 + length cs * 6) setups),
          liftM (verify_accepted_target calls 9 10 (decode_setAssetTracker S)),
          liftM (verify_accepted_target calls 8 11 (decode_setAddressesV31 S))]). writer m"
    by auto
  show ?thesis
    unfolding shape_checks_def Let_def stage1_lengths
    using yields_sum_errors [OF w]
    by (simp add: yields_call_by_name yields_ctm_shape yields_call_count yields_rollup_calls yields_accepted_target
        ball_Un split_beta del: yields_simps(4)) auto
qed

lemma writer_call_shape [simp, writer_intros]: "writer (verify_call_shape E A S cs v calls)"
  by (simp add: verify_call_shape_def)

lemma yields_call_shape: "yields (verify_call_shape E A S cs v calls) () \<longleftrightarrow> stage1_shape_ok E A S cs v calls"
  unfolding verify_call_shape_def stage1_shape_ok_def
  by (simp add: yields_rollup_setups yields_shape_checks del: yields_simps(4)) auto

section \<open>Payloads that pass\<close>

definition upgrade_args_ok :: "stage1_abi \<Rightarrow> verifiers \<Rightarrow> call list \<Rightarrow> nat \<Rightarrow> string \<Rightarrow> string \<Rightarrow> bool" where
  "upgrade_args_ok S v calls i proxy_name impl_name \<longleftrightarrow> i < length calls \<and> (\<exists>proxy impl.
     decode_upgrade S (data (calls ! i)) = Some (proxy, impl)
     \<and> get_by_name (address_book v) proxy_name = Some proxy \<and> get_by_name (address_book v) impl_name = Some impl)"

definition message_root_args_ok :: "abi \<Rightarrow> stage1_abi \<Rightarrow> verifiers \<Rightarrow> call list \<Rightarrow> nat \<Rightarrow> bool" where
  "message_root_args_ok A S v calls i \<longleftrightarrow> i < length calls \<and> (\<exists>proxy impl.
     decode_upgradeAndCall A (data (calls ! i)) = Some (proxy, impl, initializeL1V31Upgrade_SELECTOR S)
     \<and> get_by_name (address_book v) ''message_root_proxy'' = Some proxy
     \<and> get_by_name (address_book v) ''message_root_implementation_addr'' = Some impl)"

definition ctm_upgrade_args_ok ::
    "ext \<Rightarrow> stage1_abi \<Rightarrow> call list \<Rightarrow> nat \<Rightarrow> ctm_artifact \<Rightarrow> string list \<Rightarrow> string list \<Rightarrow> bool" where
  "ctm_upgrade_args_ok E S calls i ctm proxy_path impl_path \<longleftrightarrow> i < length calls \<and> (\<exists>proxy impl.
     decode_upgrade S (data (calls ! i)) = Some (proxy, impl)
     \<and> address_at E (ctm_value ctm) proxy_path = Some proxy \<and> address_at E (ctm_value ctm) impl_path = Some impl)"

lemma upgrade_args_simps [simp]:
  "writer (verify_upgrade_call_args S v calls i p im)"
  "writer (verify_message_root_upgrade_call_args A S v calls i)"
  "writer (verify_ctm_proxy_upgrade_args E S calls i ctm pp ip)"
  unfolding verify_upgrade_call_args_def verify_message_root_upgrade_call_args_def verify_ctm_proxy_upgrade_args_def
  by (auto intro!: writer_need simp: split_beta)

lemma passes_upgrade_args:
  "passes (verify_upgrade_call_args S v calls i p im) \<longleftrightarrow> upgrade_args_ok S v calls i p im"
  "passes (verify_message_root_upgrade_call_args A S v calls i) \<longleftrightarrow> message_root_args_ok A S v calls i"
  "passes (verify_ctm_proxy_upgrade_args E S calls i ctm pp ip) \<longleftrightarrow> ctm_upgrade_args_ok E S calls i ctm pp ip"
  unfolding verify_upgrade_call_args_def verify_message_root_upgrade_call_args_def verify_ctm_proxy_upgrade_args_def
    upgrade_args_ok_def message_root_args_ok_def ctm_upgrade_args_ok_def passes_need
  by (auto simp: passes_def split: if_splits)

lemmas yields_upgrade_args = passes_upgrade_args [folded yields_liftM_passes [OF upgrade_args_simps(1)]
  yields_liftM_passes [OF upgrade_args_simps(2)] yields_liftM_passes [OF upgrade_args_simps(3)]]

definition genesis_ok :: "stage1_abi \<Rightarrow> verifiers \<Rightarrow> chain_creation_params \<Rightarrow> ctm_flavor \<Rightarrow> bool" where
  "genesis_ok S v p fl \<longleftrightarrow> b256_to_string S (genesisBatchHash p) = genesis_root (genesis_config_for_ctm v fl)
     \<and> (case fl of
          Era \<Rightarrow> genesis_rollup_leaf_index (genesis_config_for_ctm v Era) = Some (genesisIndexRepeatedStorageChanges p)
            \<and> genesis_batch_commitment (genesis_config_for_ctm v Era) = Some (b256_to_string S (genesisBatchCommitment p))
        | ZksyncOs \<Rightarrow> genesisIndexRepeatedStorageChanges p = 0 \<and> genesisBatchCommitment p = 1)"

lemma genesis_simps [simp]:
  "writer (verify_genesis_fields S v p fl)"
  "clean (verify_genesis_fields S v p fl) \<longleftrightarrow> genesis_ok S v p fl"
  "val (verify_genesis_fields S v p fl) = 0 \<longleftrightarrow> genesis_ok S v p fl"
  by (cases fl; auto simp: verify_genesis_fields_def genesis_ok_def Let_def)+

lemma writer_creation_force [simp, writer_intros]: "writer (verify_creation_force_deployments P v raw)"
  unfolding verify_creation_force_deployments_def
  by (cases "decode_FixedForceDeploymentsData P raw") (auto intro!: writer_bind split: sum.splits failure.splits)

lemma yields_creation_force: "yields (verify_creation_force_deployments P v raw) 0
    \<longleftrightarrow> (\<exists>d. decode_FixedForceDeploymentsData P raw = Some d \<and> force_data_ok v d)"
proof (cases "decode_FixedForceDeploymentsData P raw")
  case None
  then show ?thesis by (simp add: verify_creation_force_deployments_def)
next
  case (Some d)
  have w: "writer (case r of Inr _ \<Rightarrow> okM 0 | Inl (Bail _) \<Rightarrow> liftM (do { report_error; State_Monad.return 1 })
      | Inl (Panic p) \<Rightarrow> failM (Panic p))" for r :: "unit res"
    by (auto split: sum.splits failure.splits)
  show ?thesis
    unfolding yields_force_deployments [symmetric]
    by (cases "val (force_deployments_verify v d)")
      (auto simp: verify_creation_force_deployments_def Some yields_def w split: failure.splits)
qed

lemma creation_init_simps [simp]:
  "writer (verify_creation_init S v raw fl)"
  "yields (liftM (verify_creation_init S v raw fl)) 0
    \<longleftrightarrow> (\<exists>d. decode_InitializeDataNewChain S raw = Some d \<and> initialize_data_ok v d fl)"
  by (auto simp: verify_creation_init_def initialize_data_simps split: option.splits)

definition creation_params_ok ::
    "ext \<Rightarrow> payload_abi \<Rightarrow> stage1_abi \<Rightarrow> verifiers \<Rightarrow> call list \<Rightarrow> nat \<Rightarrow> ctm_artifact \<Rightarrow> bool" where
  "creation_params_ok E P S v calls i ctm \<longleftrightarrow> i < length calls \<and> (\<exists>p d init.
     decode_setChainCreationParams S (data (calls ! i)) = Some p
     \<and> address_at E (ctm_value ctm) [''state_transition'', ''genesis_upgrade_addr''] = Some (genesisUpgrade p)
     \<and> address_at E (ctm_value ctm) [''state_transition'', ''diamond_init_addr''] = Some (initAddress (ccp_diamondCut p))
     \<and> genesis_ok S v p (flavor ctm)
     \<and> hex_text_matches (diamond_cut_data (ctm_contracts_config ctm)) (hex_encode E (encode_DiamondCutData S (ccp_diamondCut p)))
     \<and> hex_text_matches (force_deployments_data (ctm_contracts_config ctm)) (hex_encode E (forceDeploymentsData p))
     \<and> creation_cuts_ok E (facetCuts (ccp_diamondCut p)) ctm v
     \<and> decode_FixedForceDeploymentsData P (forceDeploymentsData p) = Some d \<and> force_data_ok v d
     \<and> decode_InitializeDataNewChain S (initCalldata (ccp_diamondCut p)) = Some init
     \<and> initialize_data_ok v init (flavor ctm))"

lemma yields_expectations:
  "yields (liftM (expect_ctm_address E ctm p a)) 0 \<longleftrightarrow> address_at E (ctm_value ctm) p = Some a"
  "yields (liftM (expect_hex_equal x y)) 0 \<longleftrightarrow> hex_text_matches x y"
  "yields (liftM (verify_genesis_fields S v g fl)) 0 \<longleftrightarrow> genesis_ok S v g fl"
  by auto

lemma writer_creation_params [simp, writer_intros]:
  "writer (verify_set_chain_creation_params_payload E P S v calls i ctm)"
  unfolding verify_set_chain_creation_params_payload_def
  by (auto intro!: writer_sum_errors split: option.splits)

lemma yields_creation_params:
  "yields (verify_set_chain_creation_params_payload E P S v calls i ctm) 0 \<longleftrightarrow> creation_params_ok E P S v calls i ctm"
proof (cases "i < length calls")
  case True
  show ?thesis
  proof (cases "decode_setChainCreationParams S (data (calls ! i))")
    case None
    then show ?thesis
      using True by (simp add: verify_set_chain_creation_params_payload_def creation_params_ok_def)
  next
    case (Some p)
    with True show ?thesis
      by (simp add: verify_set_chain_creation_params_payload_def creation_params_ok_def yields_sum_errors
          yields_creation_cuts yields_creation_force yields_expectations del: yields_simps(4)) blast
  qed
qed (simp add: verify_set_chain_creation_params_payload_def creation_params_ok_def)

definition old_version_of :: "ctm_flavor \<Rightarrow> protocol_version" where
  "old_version_of fl = (case fl of Era \<Rightarrow> \<lparr>major = 0, minor = 29, patch = 4\<rparr> | ZksyncOs \<Rightarrow> \<lparr>major = 0, minor = 30, patch = 1\<rparr>)"

lemma expected_old_version: "get_expected_old_protocol_version_for_ctm_flavor fl = Inr (old_version_of fl)"
  by (cases fl) (simp_all add: expected_versions old_version_of_def)

definition new_version_ok :: "ext \<Rightarrow> payload_abi \<Rightarrow> stage1_abi \<Rightarrow> verifiers \<Rightarrow> call list \<Rightarrow> nat \<Rightarrow> ctm_artifact \<Rightarrow> bool" where
  "new_version_ok E P S v calls i ctm \<longleftrightarrow> i < length calls \<and> (\<exists>d ctm_addr supplier pu.
     decode_setNewVersionUpgrade S (data (calls ! i)) = Some d
     \<and> oldProtocolVersion d = ucast (old_protocol_version (ctm_contracts_config ctm))
     \<and> oldProtocolVersion d = u256_from_protocol_version (old_version_of (flavor ctm))
     \<and> address_at E (ctm_value ctm) CTM_PROXY = Some ctm_addr
     \<and> ChainTypeManager_protocolVersion (l1_provider (network v)) ctm_addr \<in> {None, Some (oldProtocolVersion d)}
     \<and> oldProtocolVersionDeadline d = - 1
     \<and> snv_newProtocolVersion d = ucast (new_protocol_version (ctm_contracts_config ctm))
     \<and> protocol_version_from_u256 E (snv_newProtocolVersion d) = Inr \<lparr>major = 0, minor = 31, patch = 0\<rparr>
     \<and> address_at E (ctm_value ctm) [''state_transition'', ''verifier_addr''] = Some (snv_verifier d)
     \<and> hex_text_matches (chain_upgrade_diamond_cut ctm) (hex_encode E (encode_DiamondCutData S (snv_diamondCut d)))
     \<and> address_at E (ctm_value ctm) [''state_transition'', ''default_upgrade_addr''] = Some (initAddress (snv_diamondCut d))
     \<and> upgrade_cuts_ok E (facetCuts (snv_diamondCut d)) ctm v
     \<and> address_at E (ctm_value ctm) [''state_transition'', ''bytecodes_supplier_addr''] = Some supplier
     \<and> decode_proposed_upgrade S (initCalldata (snv_diamondCut d)) = Some pu
     \<and> template_ok E P v pu (snv_newProtocolVersion d) (force_deployments_data (ctm_contracts_config ctm)) (Some supplier) (flavor ctm))"

lemma writer_versions [simp, writer_intros]:
  "writer (verify_old_version E v ctm w)" "writer (verify_onchain_version E v ctm w)" "writer (verify_new_version E ctm d)"
  by (auto simp: verify_old_version_def verify_onchain_version_def verify_new_version_def Let_def
      split: option.splits sum.splits)

lemma yields_old_version:
  assumes "shifts_by_limb E"
  shows "yields (verify_old_version E v ctm w) 0 \<longleftrightarrow> w = ucast (old_protocol_version (ctm_contracts_config ctm))
    \<and> w = u256_from_protocol_version (old_version_of (flavor ctm))"
proof -
  let ?a = "ucast (old_protocol_version (ctm_contracts_config ctm)) :: u256"
  obtain s where s: "protocol_label E ?a = Inr s"
    using protocol_label_total [OF assms] by blast
  obtain pv where pv: "protocol_version_from_u256 E ?a = Inr pv"
    using assms by (simp add: protocol_version_from_u256_def shifts_by_limb_def)
  show ?thesis
    by (cases "w = ?a") (auto simp: verify_old_version_def Let_def s pv expected_old_version)
qed

lemma passes_onchain_version:
  "passes (verify_onchain_version E v ctm w) \<longleftrightarrow> (\<exists>a. address_at E (ctm_value ctm) CTM_PROXY = Some a
    \<and> ChainTypeManager_protocolVersion (l1_provider (network v)) a \<in> {None, Some w})"
  by (cases "address_at E (ctm_value ctm) CTM_PROXY")
    (auto simp: verify_onchain_version_def passes_def try_get_ctm_protocol_version_def ok_or_def split: option.splits)

lemma yields_new_version:
  "yields (verify_new_version E ctm d) 0 \<longleftrightarrow> oldProtocolVersionDeadline d = - 1
    \<and> snv_newProtocolVersion d = ucast (new_protocol_version (ctm_contracts_config ctm))
    \<and> protocol_version_from_u256 E (snv_newProtocolVersion d) = Inr \<lparr>major = 0, minor = 31, patch = 0\<rparr>"
  by (auto simp: verify_new_version_def Let_def expected_versions split: if_splits)

text \<open>The checks of the payload once the call is decoded.\<close>

lemma writer_new_version_payload [simp, writer_intros]:
  "writer (verify_set_new_version_upgrade_payload E P S v calls i ctm)"
  unfolding verify_set_new_version_upgrade_payload_def Let_def
  by (intro writer_tryM writer_sum_errors) auto

lemma yields_new_version_payload:
  assumes "shifts_by_limb E"
  shows "yields (verify_set_new_version_upgrade_payload E P S v calls i ctm) 0 \<longleftrightarrow> new_version_ok E P S v calls i ctm"
proof (cases "i < length calls \<and> decode_setNewVersionUpgrade S (data (calls ! i)) \<noteq> None")
  case False
  then show ?thesis
    by (auto simp: verify_set_new_version_upgrade_payload_def new_version_ok_def yields_def ok_or_def)
next
  case True
  then obtain d where d: "i < length calls" "decode_setNewVersionUpgrade S (data (calls ! i)) = Some d"
    by auto
  note rules = yields_sum_errors yields_old_version [OF assms] yields_liftM_passes passes_onchain_version
    yields_new_version yields_expectations [unfolded yields_liftM_passes] yields_upgrade_cuts [OF assms]
  have "yields (verify_set_new_version_upgrade_payload E P S v calls i ctm) 0 \<longleftrightarrow>
      yields (verify_old_version E v ctm (oldProtocolVersion d)) 0
      \<and> passes (verify_onchain_version E v ctm (oldProtocolVersion d))
      \<and> yields (verify_new_version E ctm d) 0
      \<and> address_at E (ctm_value ctm) [''state_transition'', ''verifier_addr''] = Some (snv_verifier d)
      \<and> hex_text_matches (chain_upgrade_diamond_cut ctm) (hex_encode E (encode_DiamondCutData S (snv_diamondCut d)))
      \<and> address_at E (ctm_value ctm) [''state_transition'', ''default_upgrade_addr''] = Some (initAddress (snv_diamondCut d))
      \<and> yields (verify_v31_upgrade_facet_cuts E (facetCuts (snv_diamondCut d)) ctm v) 0
      \<and> (\<exists>supplier pu. address_at E (ctm_value ctm) [''state_transition'', ''bytecodes_supplier_addr''] = Some supplier
          \<and> decode_proposed_upgrade S (initCalldata (snv_diamondCut d)) = Some pu
          \<and> template_ok E P v pu (ucast (new_protocol_version (ctm_contracts_config ctm)))
              (force_deployments_data (ctm_contracts_config ctm)) (Some supplier) (flavor ctm))"
    unfolding verify_set_new_version_upgrade_payload_def Let_def using d
    by (simp add: yields_sum_errors yields_expectations yields_liftM_passes yields_default_payload del: yields_simps(4))
      (auto simp: yields_simps(4))
  then show ?thesis
    unfolding yields_old_version [OF assms] passes_onchain_version yields_new_version yields_upgrade_cuts [OF assms]
      new_version_ok_def using d by auto
qed

definition ctm_payload_ok :: "ext \<Rightarrow> payload_abi \<Rightarrow> stage1_abi \<Rightarrow> verifiers \<Rightarrow> call list \<Rightarrow> nat \<Rightarrow> ctm_artifact \<Rightarrow> bool" where
  "ctm_payload_ok E P S v calls n ctm \<longleftrightarrow> (\<exists>b. block_of E calls n ctm = Some b
     \<and> ctm_upgrade_args_ok E S calls (b + 2) ctm CTM_PROXY [''state_transition'', ''chain_type_manager_implementation_addr'']
     \<and> creation_params_ok E P S v calls (b + 3) ctm
     \<and> new_version_ok E P S v calls (b + 4) ctm
     \<and> ctm_upgrade_args_ok E S calls (b + 5) ctm VALIDATOR_TIMELOCK [''state_transition'', ''validator_timelock_implementation_addr''])"

lemma writer_block_payload [simp, writer_intros]: "writer (verify_ctm_block_payload E P S v calls ctm b)"
  unfolding verify_ctm_block_payload_def verify_ctm_upgrade_call_args_def verify_validator_timelock_upgrade_call_args_def
  by (intro with_info_simps(1) writer_sum_errors) simp

lemma writer_ctm_payload [simp, writer_intros]: "writer (verify_ctm_payload E P S v calls n ctm)"
  unfolding verify_ctm_payload_def by (intro writer_tryM) (auto split: option.splits)

lemma yields_ctm_payload:
  assumes "shifts_by_limb E"
  shows "yields (verify_ctm_payload E P S v calls n ctm) 0 \<longleftrightarrow> ctm_payload_ok E P S v calls n ctm"
proof (cases "block_of E calls n ctm")
  case None
  then show ?thesis
    unfolding verify_ctm_payload_def by (simp add: ctm_payload_ok_def yields_def)
next
  case (Some b)
  have "yields (verify_ctm_payload E P S v calls n ctm) 0 \<longleftrightarrow> yields (verify_ctm_block_payload E P S v calls ctm b) 0"
    unfolding verify_ctm_payload_def using block_of_Some [OF Some]
    by (subst yields_tryM) (auto simp: Some split: option.splits)
  then show ?thesis
    unfolding ctm_payload_ok_def Some verify_ctm_block_payload_def verify_ctm_upgrade_call_args_def
      verify_validator_timelock_upgrade_call_args_def
    by (simp add: yields_sum_errors yields_upgrade_args yields_creation_params yields_new_version_payload [OF assms]
        del: yields_simps(4) sum_errors.simps)
qed

definition stage1_payloads_ok ::
    "ext \<Rightarrow> abi \<Rightarrow> payload_abi \<Rightarrow> stage1_abi \<Rightarrow> ctm_artifact list \<Rightarrow> verifiers \<Rightarrow> call list \<Rightarrow> bool" where
  "stage1_payloads_ok E A P S cs v calls \<longleftrightarrow>
     (\<forall>(i, proxy_name, impl_name) \<in> set stage1_core_upgrades. upgrade_args_ok S v calls (1 + i) proxy_name impl_name)
     \<and> message_root_args_ok A S v calls 5
     \<and> (\<forall>ctm \<in> set cs. ctm_payload_ok E P S v calls (length cs) ctm)"

lemma writer_payloads [simp, writer_intros]: "writer (verify_artifact_payloads E A P S cs v calls)"
  unfolding verify_artifact_payloads_def
  by (intro writer_tryM writer_bail_on_errors writer_sum_errors) auto

lemma yields_payloads:
  assumes "shifts_by_limb E"
  shows "yields (verify_artifact_payloads E A P S cs v calls) () \<longleftrightarrow> stage1_payloads_ok E A P S cs v calls"
proof -
  let ?ms = "map (\<lambda>(index, proxy_name, implementation_name). liftM (verify_upgrade_call_args S v calls
           (STAGE1_LEADING_PAUSE_OFFSET + index) proxy_name implementation_name)) stage1_core_upgrades
       @ [liftM (verify_message_root_upgrade_call_args A S v calls (STAGE1_LEADING_PAUSE_OFFSET + 4))]
       @ map (verify_ctm_payload E P S v calls (length cs)) cs"
  have w: "\<forall>m \<in> set ?ms. writer m" by auto
  have "yields (verify_artifact_payloads E A P S cs v calls) () \<longleftrightarrow> (\<forall>m \<in> set ?ms. yields m 0)"
    unfolding verify_artifact_payloads_def yields_sum_errors [OF w, symmetric]
    using writer_sum_errors [OF w] by simp
  then show ?thesis
    by (simp add: stage1_payloads_ok_def ball_Un split_beta yields_upgrade_args yields_ctm_payload [OF assms]
        STAGE1_LEADING_PAUSE_OFFSET_def conj_ac del: yields_simps(4))
qed

definition stage1_ok ::
    "ext \<Rightarrow> abi \<Rightarrow> payload_abi \<Rightarrow> stage1_abi \<Rightarrow> ecosystem_upgrade_artifact \<Rightarrow> verifiers \<Rightarrow> call list \<Rightarrow> bool" where
  "stage1_ok E A P S artifact v calls \<longleftrightarrow> stage1_shape_ok E A S (ctms artifact) v calls
     \<and> stage1_payloads_ok E A P S (ctms artifact) v calls"

lemma writer_stage1 [simp, writer_intros]: "writer (stage1_verify_artifact E A P S artifact v calls)"
  by (simp add: stage1_verify_artifact_def)

lemma yields_stage1:
  "shifts_by_limb E \<Longrightarrow>
    yields (stage1_verify_artifact E A P S artifact v calls) () \<longleftrightarrow> stage1_ok E A P S artifact v calls"
  by (simp add: stage1_verify_artifact_def yields_call_shape yields_payloads stage1_ok_def)

end
