(* ===== verification/Stage2.thy ===== *)
theory Stage2
  imports Governance_Helpers Constants
begin

section \<open>Stage 2: the calls after the upgrade\<close>

text \<open>
  \<^verbatim>\<open>governance_stage_calls/stage2.rs\<close>: the decommission of the legacy Gateway (one interval
  call per chain and a blacklisting), the unpausing of migrations, two checks per CTM and, when
  the upgrade brings up a Gateway, sixteen calls that approve and send its priority
  transactions. The lemmas take the check apart into a declarative layout; from it follows
  what the check leaves open.
\<close>

record migration_interval =
  migrateToGWBatchNumber :: u256
  migrateFromGWBatchNumber :: u256
  settlementLayerBatchLowerBound :: u256
  settlementLayerBatchUpperBound :: u256
  settlementLayerChainId :: u256
  isActive :: bool

record l2_transaction_request_two_bridges_outer =
  tb_chainId :: u256
  tb_mintValue :: u256
  tb_l2Value :: u256
  tb_l2GasLimit :: u256
  tb_l2GasPerPubdataByteLimit :: u256
  tb_refundRecipient :: address
  tb_secondBridgeAddress :: address
  tb_secondBridgeValue :: u256
  tb_secondBridgeCalldata :: bytes

text \<open>The generated decoders; all but the last two take the calldata after the selector.\<close>

record stage2_abi =
  encode_uint256_address_bytes32 :: "u256 \<Rightarrow> address \<Rightarrow> b256 \<Rightarrow> bytes"
  decode_L2TransactionRequestDirect :: "bytes \<Rightarrow> l2_transaction_request_direct option"
  decode_L2TransactionRequestTwoBridgesOuter :: "bytes \<Rightarrow> l2_transaction_request_two_bridges_outer option"
  decode_bytes32_address :: "bytes \<Rightarrow> (b256 \<times> address) option"
  decode_address :: "bytes \<Rightarrow> address option"
  decode_address_address :: "bytes \<Rightarrow> (address \<times> address) option"
  decode_address_uint256 :: "bytes \<Rightarrow> (address \<times> u256) option"
  decode_setSettlementLayerStatus :: "bytes \<Rightarrow> (u256 \<times> bool) option"
  decode_setHistoricalMigrationInterval :: "bytes \<Rightarrow> (u256 \<times> u256 \<times> migration_interval) option"

subsection \<open>Signatures\<close>

definition SET_HISTORICAL :: string where
  "SET_HISTORICAL = ''setHistoricalMigrationInterval(uint256,uint256,(uint256,uint256,uint256,uint256,uint256,bool))''"

definition SET_SETTLEMENT :: string where
  "SET_SETTLEMENT = ''setSettlementLayerStatus(uint256,bool)''"

definition DIRECT :: string where
  "DIRECT = ''requestL2TransactionDirect((uint256,uint256,address,uint256,bytes,uint256,uint256,bytes[],address))''"

definition TWO_BRIDGES :: string where
  "TWO_BRIDGES = ''requestL2TransactionTwoBridges((uint256,uint256,uint256,uint256,uint256,address,address,uint256,bytes))''"

definition STAGE_VALIDATOR :: "string list" where
  "STAGE_VALIDATOR = [''deployed_addresses'', ''upgrade_stage_validator'']"

text \<open>\<^verbatim>\<open>data.len() >= 4 && hex::encode(&data[0..4]) == compute_selector(method)\<close>\<close>

definition has_selector :: "ext \<Rightarrow> bytes \<Rightarrow> string \<Rightarrow> bool" where
  "has_selector E d method \<longleftrightarrow> 4 \<le> length d \<and> hex_encode E (slice 0 4 d) = compute_selector E method"

subsection \<open>Decommission prefix\<close>

definition check_set_settlement_layer_status :: "stage2_abi \<Rightarrow> bytes \<Rightarrow> u256 \<Rightarrow> bool \<Rightarrow> nat vr" where
  "check_set_settlement_layer_status S calldata expected_chain_id expected_status =
     need_decoded (decode_setSettlementLayerStatus S calldata) (\<lambda>(chain_id, status). ok_if_zero (sum_checks [
       expect_that (chain_id = expected_chain_id),
       expect_that (status = expected_status)]))"

definition check_historical_migration_interval :: "stage2_abi \<Rightarrow> bytes \<Rightarrow> chain_interval \<Rightarrow> u256 \<Rightarrow> nat vr" where
  "check_historical_migration_interval S calldata expected expected_settlement_chain_id =
     need_decoded (decode_setHistoricalMigrationInterval S calldata) (\<lambda>(chain_id, migration_number, interval). sum_checks [
       expect_that (chain_id = ucast (interval_chain_id expected)),
       expect_that (migration_number = 0),
       expect_that (migrateToGWBatchNumber interval = ucast (migrate_to_sl_batch expected)),
       expect_that (migrateFromGWBatchNumber interval = ucast (migrate_from_sl_batch expected)),
       expect_that (settlementLayerBatchLowerBound interval = ucast (sl_batch_lower_bound expected)),
       expect_that (settlementLayerBatchUpperBound interval = ucast (sl_batch_upper_bound expected)),
       expect_that (settlementLayerChainId interval = expected_settlement_chain_id),
       expect_that (\<not> isActive interval)])"

text \<open>The loop over the head of the list: the number of interval calls and the errors.\<close>

fun interval_calls ::
    "ext \<Rightarrow> stage2_abi \<Rightarrow> chain_interval list \<Rightarrow> u256 \<Rightarrow> call list \<Rightarrow> nat \<Rightarrow> (nat \<times> nat) vr" where
  "interval_calls E S expected sl [] n = State_Monad.return (n, 0)"
| "interval_calls E S expected sl (c # cs) n =
     (if \<not> has_selector E (data c) SET_HISTORICAL then State_Monad.return (n, 0)
      else do {
        e \<leftarrow> (if n < length expected then check_historical_migration_interval S (data c) (expected ! n) sl
             else do { report_error; State_Monad.return 1 });
        r \<leftarrow> interval_calls E S expected sl cs (n + 1);
        State_Monad.return (fst r, e + snd r) })"

definition legacy_blacklist :: "ext \<Rightarrow> stage2_abi \<Rightarrow> verifiers \<Rightarrow> call list \<Rightarrow> nat \<Rightarrow> (nat \<times> nat) vr" where
  "legacy_blacklist E S v calls n =
     (if 0 < n then do {
        report_ok;
        (if n < length calls then
           (if has_selector E (data (calls ! n)) SET_SETTLEMENT then do {
              e1 \<leftarrow> verify_call_by_name E v calls n ''bridgehub_proxy'' SET_SETTLEMENT;
              e2 \<leftarrow> check_set_settlement_layer_status S (data (calls ! n)) (ucast (legacy_gateway_chain_id v)) False;
              State_Monad.return (n + 1, e1 + e2) }
            else do { report_error; State_Monad.return (n, 1) })
         else State_Monad.return (n, 0)) }
      else State_Monad.return (n, 0))"

definition decommission_prefix :: "ext \<Rightarrow> stage2_abi \<Rightarrow> verifiers \<Rightarrow> call list \<Rightarrow> (nat \<times> nat) vr" where
  "decommission_prefix E S v calls = (let expected_intervals = legacy_gateway_chain_intervals v in do {
     r \<leftarrow> interval_calls E S expected_intervals (ucast (legacy_gateway_chain_id v)) calls 0;
     e \<leftarrow> expect_that (fst r = length expected_intervals);
     b \<leftarrow> legacy_blacklist E S v calls (fst r);
     State_Monad.return (fst b, snd r + e + snd b) })"

subsection \<open>Per-CTM checks\<close>

definition verify_stage2_ctm :: "ext \<Rightarrow> call list \<Rightarrow> nat \<Rightarrow> nat \<Rightarrow> ctm_artifact \<Rightarrow> nat vr" where
  "verify_stage2_ctm E calls canonical_prefix num_ctms ctm = do {
     validator \<leftarrow> required_ctm_address E ctm STAGE_VALIDATOR;
     (case validator of None \<Rightarrow> State_Monad.return 2
      | Some a \<Rightarrow> (case find (\<lambda>b. b < length calls \<and> target (calls ! b) = a)
            (map (\<lambda>k. canonical_prefix + 1 + k * 2) [0..<num_ctms]) of
          None \<Rightarrow> do { report_error; State_Monad.return 2 }
        | Some block \<Rightarrow> sum_checks [
            verify_call_by_address E calls block a ''checkProtocolUpgradePresence()'',
            verify_call_by_address E calls (block + 1) a ''checkMigrationsUnpaused()''])) }"

subsection \<open>Bringing up the new Gateway\<close>

definition named_address :: "verifiers \<Rightarrow> string \<Rightarrow> address option vr" where
  "named_address v name = (let a = name_to_address (address_book v) name in do {
     (if a = None then report_error else State_Monad.return ());
     State_Monad.return a })"

definition address_as_bytes32 :: "address \<Rightarrow> b256" where
  "address_as_bytes32 a = from_be_bytes (replicate 12 0 @ address_bytes a)"

definition ctm_asset_id :: "ext \<Rightarrow> stage2_abi \<Rightarrow> u64 \<Rightarrow> address \<Rightarrow> address \<Rightarrow> b256" where
  "ctm_asset_id E S l1_id tracker ctm =
     keccak256 E (encode_uint256_address_bytes32 S (ucast l1_id) tracker (address_as_bytes32 ctm))"

text \<open>\<^verbatim>\<open>Option<Result<_, String>>\<close>: no such call, a call that does not decode, a request.\<close>

definition decode_direct_request ::
    "stage2_abi \<Rightarrow> call list \<Rightarrow> nat \<Rightarrow> l2_transaction_request_direct option option" where
  "decode_direct_request S calls idx = (if length calls \<le> idx then None
     else if length (data (calls ! idx)) < 4 then Some None
     else Some (decode_L2TransactionRequestDirect S (drop 4 (data (calls ! idx)))))"

definition decode_two_bridges_request ::
    "stage2_abi \<Rightarrow> call list \<Rightarrow> nat \<Rightarrow> l2_transaction_request_two_bridges_outer option option" where
  "decode_two_bridges_request S calls idx = (if length calls \<le> idx then None
     else if length (data (calls ! idx)) < 4 then Some None
     else Some (decode_L2TransactionRequestTwoBridgesOuter S (drop 4 (data (calls ! idx)))))"

definition priority_mint_value :: "ext \<Rightarrow> stage2_abi \<Rightarrow> call list \<Rightarrow> nat \<Rightarrow> u256 option option" where
  "priority_mint_value E S calls idx = (if length calls \<le> idx then None
     else if length (data (calls ! idx)) < 4 then Some None
     else let selector = hex_encode E (slice 0 4 (data (calls ! idx))) in
       if selector = compute_selector E DIRECT
       then map_option (map_option req_mintValue) (decode_direct_request S calls idx)
       else if selector = compute_selector E TWO_BRIDGES
       then map_option (map_option tb_mintValue) (decode_two_bridges_request S calls idx)
       else Some None)"

definition check_priority_request_common :: "verifiers \<Rightarrow> u256 \<Rightarrow> u256 \<Rightarrow> u256 \<Rightarrow> nat vr" where
  "check_priority_request_common v chain_id l2_gas_limit l2_gas_per_pubdata_byte_limit = ok_if_zero (sum_checks [
     expect_that (chain_id = ucast (new_gateway_chain_id v)),
     expect_that (l2_gas_limit = ucast MAX_PRIORITY_TX_GAS_LIMIT),
     expect_that (l2_gas_per_pubdata_byte_limit = ucast L2_UPGRADE_GAS_PER_PUBDATA_BYTE_LIMIT)])"

definition check_l2_target :: "address \<Rightarrow> address \<Rightarrow> nat vr" where
  "check_l2_target actual expected = ok_if_zero (expect_that (actual = expected))"

definition check_l2_selector :: "ext \<Rightarrow> bytes \<Rightarrow> string \<Rightarrow> nat vr" where
  "check_l2_selector E calldata expected_selector_sig =
     (if length calldata < 4 then do { report_error; State_Monad.return 1 }
      else ok_if_zero (expect_that (hex_encode E (slice 0 4 calldata) = compute_selector E expected_selector_sig)))"

definition check_inner_address_arg :: "bytes \<Rightarrow> address \<Rightarrow> nat vr" where
  "check_inner_address_arg calldata expected_arg =
     (if length calldata < 4 + 32 then do { report_error; State_Monad.return 1 }
      else ok_if_zero (expect_that (from_be_bytes (slice (4 + 12) (4 + 32) calldata) = expected_arg)))"

definition check_set_gateway_settlement_fee :: "bytes \<Rightarrow> u256 \<Rightarrow> nat vr" where
  "check_set_gateway_settlement_fee calldata expected_fee =
     (if length calldata < 4 + 32 then do { report_error; State_Monad.return 1 }
      else ok_if_zero (expect_that (from_be_bytes (slice 4 36 calldata) = expected_fee)))"

definition check_register_legacy_token :: "verifiers \<Rightarrow> call list \<Rightarrow> nat \<Rightarrow> nat vr" where
  "check_register_legacy_token v calls base = with_call calls base (\<lambda>c.
     if length (data c) < 4 + 32 then do { report_error; State_Monad.return 1 }
     else ok_if_zero (expect_that (from_be_bytes (slice 4 36 (data c)) = zk_token_asset_id v)))"

definition check_set_asset_deployment_tracker :: "stage2_abi \<Rightarrow> call list \<Rightarrow> nat \<Rightarrow> b256 \<Rightarrow> address \<Rightarrow> nat vr" where
  "check_set_asset_deployment_tracker S calls idx expected_registration_data expected_tracker = with_call calls idx (\<lambda>c.
     if length (data c) < 4 then do { report_error; State_Monad.return 1 }
     else need_decoded (decode_bytes32_address S (drop 4 (data c))) (\<lambda>(registration_data, tracker).
       ok_if_zero (sum_checks [
         expect_that (registration_data = expected_registration_data),
         expect_that (tracker = expected_tracker)])))"

definition check_register_ctm_asset_on_l1 :: "stage2_abi \<Rightarrow> call list \<Rightarrow> nat \<Rightarrow> address \<Rightarrow> nat vr" where
  "check_register_ctm_asset_on_l1 S calls idx expected_ctm = with_call calls idx (\<lambda>c.
     if length (data c) < 4 then do { report_error; State_Monad.return 1 }
     else need_decoded (decode_address S (drop 4 (data c))) (\<lambda>ctm. ok_if_zero (expect_that (ctm = expected_ctm))))"

definition check_asset_router_second_bridge_calldata :: "stage2_abi \<Rightarrow> bytes \<Rightarrow> b256 \<Rightarrow> nat vr" where
  "check_asset_router_second_bridge_calldata S calldata expected_asset_id =
     (if calldata = [] \<or> hd calldata \<noteq> 0x02 then do { report_error; State_Monad.return 1 }
      else need_decoded (decode_bytes32_address S (drop 1 calldata)) (\<lambda>(asset_id, handler).
        ok_if_zero (sum_checks [
          expect_that (asset_id = expected_asset_id),
          expect_that (handler = L2_CHAIN_ASSET_HANDLER_ADDR)])))"

definition check_ctm_tracker_second_bridge_calldata :: "stage2_abi \<Rightarrow> bytes \<Rightarrow> address \<Rightarrow> address \<Rightarrow> nat vr" where
  "check_ctm_tracker_second_bridge_calldata S calldata expected_l1_ctm expected_l2_ctm =
     (if calldata = [] \<or> hd calldata \<noteq> 0x01 then do { report_error; State_Monad.return 1 }
      else need_decoded (decode_address_address S (drop 1 calldata)) (\<lambda>(l1_ctm, l2_ctm).
        ok_if_zero (sum_checks [
          expect_that (l1_ctm = expected_l1_ctm),
          expect_that (l2_ctm = expected_l2_ctm)])))"

text \<open>Pass 1: offset, target and method of the calls that are not approvals.\<close>

definition bring_up_calls :: "(nat \<times> string \<times> string) list" where
  "bring_up_calls =
     [(0, ''asset_tracker_proxy'', ''registerLegacyToken(bytes32)''),
      (1, ''bridgehub_proxy'', SET_SETTLEMENT),
      (3, ''bridgehub_proxy'', DIRECT),
      (4, ''l1_asset_router_proxy'', ''setAssetDeploymentTracker(bytes32,address)''),
      (5, ''ctm_deployment_tracker_proxy'', ''registerCTMAssetOnL1(address)''),
      (7, ''bridgehub_proxy'', TWO_BRIDGES),
      (9, ''bridgehub_proxy'', TWO_BRIDGES),
      (11, ''bridgehub_proxy'', DIRECT),
      (13, ''bridgehub_proxy'', DIRECT),
      (15, ''bridgehub_proxy'', DIRECT)]"

text \<open>Direct requests: offset, contract and method on the Gateway.\<close>

definition new_gw_address :: "address option \<Rightarrow> (address \<times> nat) vr" where
  "new_gw_address a = (case a of Some x \<Rightarrow> State_Monad.return (x, 0)
     | None \<Rightarrow> do { report_error; State_Monad.return (0, 1) })"

definition direct_requests :: "address \<Rightarrow> address \<Rightarrow> (nat \<times> address \<times> string) list" where
  "direct_requests da_manager server_notifier =
     [(3, L2_BRIDGEHUB_ADDR, ''addChainTypeManager(address)''),
      (11, da_manager, ''acceptOwnership()''),
      (13, server_notifier, ''acceptOwnership()''),
      (15, GW_ASSET_TRACKER_ADDR, ''setGatewaySettlementFee(uint256)'')]"

definition check_direct_request ::
    "ext \<Rightarrow> stage2_abi \<Rightarrow> verifiers \<Rightarrow> call list \<Rightarrow> nat \<Rightarrow> new_gateway_artifact \<Rightarrow> nat \<times> address \<times> string \<Rightarrow> nat vr" where
  "check_direct_request E S v calls base new_gw = (\<lambda>(offset, expected_l2_contract, expected_selector).
     case decode_direct_request S calls (base + offset) of
       None \<Rightarrow> State_Monad.return 0
     | Some decoded \<Rightarrow> need_decoded decoded (\<lambda>req. sum_checks [
         check_priority_request_common v (req_chainId req) (req_l2GasLimit req) (req_l2GasPerPubdataByteLimit req),
         check_l2_target (req_l2Contract req) expected_l2_contract,
         check_l2_selector E (req_l2Calldata req) expected_selector,
         (if offset = 3 then check_inner_address_arg (req_l2Calldata req) (gateway_chain_type_manager_addr new_gw)
          else if offset = 15 then check_set_gateway_settlement_fee (req_l2Calldata req) (new_gateway_settlement_fee v)
          else State_Monad.return 0)]))"

definition check_direct_requests ::
    "ext \<Rightarrow> stage2_abi \<Rightarrow> verifiers \<Rightarrow> call list \<Rightarrow> nat \<Rightarrow> new_gateway_artifact \<Rightarrow> nat vr" where
  "check_direct_requests E S v calls base new_gw = do {
     da_manager \<leftarrow> new_gw_address (gateway_rollup_da_manager_addr new_gw);
     server_notifier \<leftarrow> new_gw_address (gateway_server_notifier_addr new_gw);
     e \<leftarrow> sum_checks (map (check_direct_request E S v calls base new_gw)
           (direct_requests (fst da_manager) (fst server_notifier)));
     State_Monad.return (snd da_manager + snd server_notifier + e) }"

text \<open>Requests through a second bridge: offset and bridge.\<close>

definition report_expected_two_bridge_inner_call :: "unit vr" where
  "report_expected_two_bridge_inner_call = report_ok"

definition check_two_bridges_request ::
    "ext \<Rightarrow> stage2_abi \<Rightarrow> verifiers \<Rightarrow> call list \<Rightarrow> nat \<Rightarrow> new_gateway_artifact \<Rightarrow> b256 \<Rightarrow> nat \<times> address \<Rightarrow> nat vr" where
  "check_two_bridges_request E S v calls base new_gw asset_id = (\<lambda>(offset, expected_second_bridge).
     case decode_two_bridges_request S calls (base + offset) of
       None \<Rightarrow> State_Monad.return 0
     | Some decoded \<Rightarrow> need_decoded decoded (\<lambda>req. do {
         e \<leftarrow> sum_checks [
           check_priority_request_common v (tb_chainId req) (tb_l2GasLimit req) (tb_l2GasPerPubdataByteLimit req),
           ok_if_zero (expect_that (tb_secondBridgeAddress req = expected_second_bridge)),
           expect_that (tb_secondBridgeValue req = 0),
           (if offset = 7 then check_asset_router_second_bridge_calldata S (tb_secondBridgeCalldata req) asset_id
            else if offset = 9 then check_ctm_tracker_second_bridge_calldata S (tb_secondBridgeCalldata req)
              (new_gateway_representative_ctm v) (gateway_chain_type_manager_addr new_gw)
            else State_Monad.return 0)];
         report_expected_two_bridge_inner_call;
         State_Monad.return e }))"

text \<open>Approvals: offset of the approval and of the priority transaction it pays for.\<close>

definition approve_pairs :: "(nat \<times> nat) list" where
  "approve_pairs = [(2, 3), (6, 7), (8, 9), (10, 11), (12, 13), (14, 15)]"

definition approve_amount :: "u256 \<Rightarrow> u256 option option \<Rightarrow> nat vr" where
  "approve_amount amount mint = (case mint of
     Some (Some mint_value) \<Rightarrow> ok_if_zero (expect_that (amount = mint_value))
   | Some None \<Rightarrow> do { report_error; State_Monad.return 1 }
   | None \<Rightarrow> State_Monad.return 0)"

definition approve_args ::
    "ext \<Rightarrow> stage2_abi \<Rightarrow> call list \<Rightarrow> nat \<Rightarrow> address \<Rightarrow> nat \<Rightarrow> address \<times> u256 \<Rightarrow> nat vr" where
  "approve_args E S calls base l1_asset_router priority_offset = (\<lambda>(spender, amount). sum_checks [
     expect_that (spender = l1_asset_router),
     approve_amount amount (priority_mint_value E S calls (base + priority_offset))])"

definition approve_step ::
    "ext \<Rightarrow> stage2_abi \<Rightarrow> call list \<Rightarrow> nat \<Rightarrow> address \<Rightarrow> nat \<times> nat \<Rightarrow> nat \<times> address option \<Rightarrow> (nat \<times> address option) vr" where
  "approve_step E S calls base l1_asset_router offsets st =
     (let (approve_offset, priority_offset) = offsets; (errors, approve_target) = st;
          idx = base + approve_offset; skip = do { report_error; State_Monad.return (errors + 1, approve_target) } in
      if length calls \<le> idx then skip
      else if \<not> has_selector E (data (calls ! idx)) ''approve(address,uint256)'' then skip
      else (case decode_address_uint256 S (drop 4 (data (calls ! idx))) of
          None \<Rightarrow> skip
        | Some args \<Rightarrow> do {
            e1 \<leftarrow> approve_args E S calls base l1_asset_router priority_offset args;
            (case approve_target of
               None \<Rightarrow> State_Monad.return (errors + e1, Some (target (calls ! idx)))
             | Some t \<Rightarrow> do {
                 e2 \<leftarrow> expect_that (t = target (calls ! idx));
                 State_Monad.return (errors + e1 + e2, approve_target) }) }))"

definition verify_approvals :: "ext \<Rightarrow> stage2_abi \<Rightarrow> call list \<Rightarrow> nat \<Rightarrow> address \<Rightarrow> nat vr" where
  "verify_approvals E S calls base l1_asset_router = do {
     st \<leftarrow> foldM (approve_step E S calls base l1_asset_router) approve_pairs (0, None);
     (if snd st \<noteq> None then report_ok else State_Monad.return ());
     State_Monad.return (fst st) }"

text \<open>Pass 2: the arguments, once the router and the tracker are known.\<close>

definition verify_bring_up_args ::
    "ext \<Rightarrow> stage2_abi \<Rightarrow> verifiers \<Rightarrow> call list \<Rightarrow> nat \<Rightarrow> new_gateway_artifact \<Rightarrow> address \<Rightarrow> address \<Rightarrow> nat vr" where
  "verify_bring_up_args E S v calls base new_gw l1_asset_router tracker =
     (let representative = new_gateway_representative_ctm v;
          asset_id = ctm_asset_id E S (expected_l1_chain_id v) tracker representative in
      sum_checks [
        check_register_legacy_token v calls base,
        with_call calls (base + 1) (\<lambda>c.
          check_set_settlement_layer_status S (data c) (ucast (new_gateway_chain_id v)) True),
        check_set_asset_deployment_tracker S calls (base + 4) (address_as_bytes32 representative) tracker,
        check_register_ctm_asset_on_l1 S calls (base + 5) representative,
        check_direct_requests E S v calls base new_gw,
        sum_checks (map (check_two_bridges_request E S v calls base new_gw asset_id)
          [(7, l1_asset_router), (9, tracker)]),
        verify_approvals E S calls base l1_asset_router])"

definition verify_bring_up_named ::
    "ext \<Rightarrow> stage2_abi \<Rightarrow> verifiers \<Rightarrow> call list \<Rightarrow> nat \<Rightarrow> new_gateway_artifact \<Rightarrow> address \<Rightarrow> nat vr" where
  "verify_bring_up_named E S v calls base new_gw l1_asset_router = do {
     tracker \<leftarrow> named_address v ''ctm_deployment_tracker_proxy'';
     (case tracker of None \<Rightarrow> State_Monad.return 1
      | Some t \<Rightarrow> verify_bring_up_args E S v calls base new_gw l1_asset_router t) }"

definition verify_bring_up_shape :: "ext \<Rightarrow> verifiers \<Rightarrow> call list \<Rightarrow> nat \<Rightarrow> nat vr" where
  "verify_bring_up_shape E v calls base = sum_checks (map (\<lambda>(offset, name, method).
     verify_call_by_name E v calls (base + offset) name method) bring_up_calls)"

definition verify_gateway_bring_up_calls ::
    "ext \<Rightarrow> stage2_abi \<Rightarrow> verifiers \<Rightarrow> call list \<Rightarrow> nat \<Rightarrow> new_gateway_artifact \<Rightarrow> nat vr" where
  "verify_gateway_bring_up_calls E S v calls base new_gw = do {
     print_info;
     e1 \<leftarrow> verify_bring_up_shape E v calls base;
     router \<leftarrow> named_address v ''l1_asset_router_proxy'';
     e2 \<leftarrow> (case router of None \<Rightarrow> State_Monad.return 1
            | Some r \<Rightarrow> verify_bring_up_named E S v calls base new_gw r);
     State_Monad.return (e1 + e2) }"

subsection \<open>The stage\<close>

definition stage2_canonical ::
    "ext \<Rightarrow> stage2_abi \<Rightarrow> ecosystem_upgrade_artifact \<Rightarrow> verifiers \<Rightarrow> call list \<Rightarrow> nat \<Rightarrow> nat vr" where
  "stage2_canonical E S artifact v calls canonical_prefix =
     (let num_ctms = length (ctms artifact); canonical_count = canonical_prefix + 1 + num_ctms * 2;
          expected_call_count = canonical_count + (if new_gateway artifact \<noteq> None then 16 else 0) in
      sum_checks (verify_call_by_name E v calls canonical_prefix ''chain_asset_handler_proxy'' ''unpauseMigration()''
        # map (verify_stage2_ctm E calls canonical_prefix num_ctms) (ctms artifact)
        @ [(case new_gateway artifact of
              Some new_gw \<Rightarrow> verify_gateway_bring_up_calls E S v calls canonical_count new_gw
            | None \<Rightarrow> do { report_ok; State_Monad.return 0 }),
           verify_call_count calls expected_call_count]))"

definition stage2_verify_artifact ::
    "ext \<Rightarrow> stage2_abi \<Rightarrow> ecosystem_upgrade_artifact \<Rightarrow> verifiers \<Rightarrow> call list \<Rightarrow> unit res vr" where
  "stage2_verify_artifact E S artifact v calls = bail_on_errors (liftM (do {
     print_info;
     r \<leftarrow> decommission_prefix E S v calls;
     e \<leftarrow> stage2_canonical E S artifact v calls (fst r);
     State_Monad.return (snd r + e) }))"

section \<open>Leaf checks that pass\<close>

lemma passes_expect_that [simp]: "passes (expect_that b) \<longleftrightarrow> b"
  by (simp add: passes_def)

lemma passes_report_error [simp]: "\<not> passes (do { report_error; State_Monad.return n })"
  by (simp add: passes_def)

lemma passes_if: "passes (if b then m else n) \<longleftrightarrow> (if b then passes m else passes n)"
  by simp

lemma passes_call_by_name: "passes (verify_call_by_name E v calls i name m)
    \<longleftrightarrow> (\<exists>t. get_by_name (address_book v) name = Some t \<and> call_ok E calls i t m)"
  using yields_call_by_name [of E v calls i name m] by (simp add: passes_def)

lemma passes_call_by_address: "passes (verify_call_by_address E calls i t m) \<longleftrightarrow> call_ok E calls i t m"
  using yields_call_check [of E calls i t m] by (simp add: passes_def)

lemma passes_with_call: "passes (with_call calls i f) \<longleftrightarrow> (i < length calls \<longrightarrow> passes (f (calls ! i)))"
  by (simp add: with_call_def)

lemmas leaf_defs = check_set_settlement_layer_status_def check_historical_migration_interval_def
  check_priority_request_common_def check_l2_target_def check_l2_selector_def check_inner_address_arg_def
  check_set_gateway_settlement_fee_def check_register_legacy_token_def check_set_asset_deployment_tracker_def
  check_register_ctm_asset_on_l1_def check_asset_router_second_bridge_calldata_def
  check_ctm_tracker_second_bridge_calldata_def

lemma writer_leaves [simp, writer_intros]:
  "writer (check_set_settlement_layer_status S d c b)" "writer (check_historical_migration_interval S d ci sl)"
  "writer (check_priority_request_common v c g p)" "writer (check_l2_target a b')" "writer (check_l2_selector E d m)"
  "writer (check_inner_address_arg d a)" "writer (check_set_gateway_settlement_fee d fee)"
  "writer (check_register_legacy_token v calls i)" "writer (check_set_asset_deployment_tracker S calls i h a)"
  "writer (check_register_ctm_asset_on_l1 S calls i a)" "writer (check_asset_router_second_bridge_calldata S d h)"
  "writer (check_ctm_tracker_second_bridge_calldata S d a b')"
  unfolding leaf_defs by (auto intro!: writer_need simp: split_beta)

definition interval_ok :: "stage2_abi \<Rightarrow> bytes \<Rightarrow> chain_interval \<Rightarrow> u256 \<Rightarrow> bool" where
  "interval_ok S d ci sl \<longleftrightarrow> decode_setHistoricalMigrationInterval S d = Some (ucast (interval_chain_id ci), 0,
     \<lparr>migrateToGWBatchNumber = ucast (migrate_to_sl_batch ci), migrateFromGWBatchNumber = ucast (migrate_from_sl_batch ci),
       settlementLayerBatchLowerBound = ucast (sl_batch_lower_bound ci),
       settlementLayerBatchUpperBound = ucast (sl_batch_upper_bound ci), settlementLayerChainId = sl, isActive = False\<rparr>)"

lemma passes_interval: "passes (check_historical_migration_interval S d ci sl) \<longleftrightarrow> interval_ok S d ci sl"
  unfolding check_historical_migration_interval_def interval_ok_def passes_need
  by (cases "decode_setHistoricalMigrationInterval S d")
    (auto split: prod.splits intro: migration_interval.equality)

lemma passes_settlement:
  "passes (check_set_settlement_layer_status S d c b) \<longleftrightarrow> decode_setSettlementLayerStatus S d = Some (c, b)"
  unfolding check_set_settlement_layer_status_def passes_need
  by auto

text \<open>A priority transaction to the new Gateway, with the fixed gas parameters.\<close>

definition priority_ok :: "verifiers \<Rightarrow> u256 \<Rightarrow> u256 \<Rightarrow> u256 \<Rightarrow> bool" where
  "priority_ok v chain gas per_pubdata \<longleftrightarrow> chain = ucast (new_gateway_chain_id v) \<and> gas = 72000000 \<and> per_pubdata = 800"

lemma passes_priority: "passes (check_priority_request_common v c g p) \<longleftrightarrow> priority_ok v c g p"
  by (simp add: check_priority_request_common_def priority_ok_def MAX_PRIORITY_TX_GAS_LIMIT_def
      L2_UPGRADE_GAS_PER_PUBDATA_BYTE_LIMIT_def)

lemma passes_l2:
  "passes (check_l2_target a b) \<longleftrightarrow> a = b"
  "passes (check_l2_selector E d m) \<longleftrightarrow> has_selector E d m"
  "passes (check_inner_address_arg d a) \<longleftrightarrow> 36 \<le> length d \<and> from_be_bytes (slice 16 36 d) = a"
  "passes (check_set_gateway_settlement_fee d fee) \<longleftrightarrow> 36 \<le> length d \<and> from_be_bytes (slice 4 36 d) = fee"
  by (simp_all add: check_l2_target_def check_l2_selector_def check_inner_address_arg_def
      check_set_gateway_settlement_fee_def has_selector_def not_less passes_if)

lemma passes_l1_calls:
  "i < length calls \<Longrightarrow> passes (check_register_legacy_token v calls i)
    \<longleftrightarrow> 36 \<le> length (data (calls ! i)) \<and> from_be_bytes (slice 4 36 (data (calls ! i))) = zk_token_asset_id v"
  "i < length calls \<Longrightarrow> passes (check_set_asset_deployment_tracker S calls i h a)
    \<longleftrightarrow> 4 \<le> length (data (calls ! i)) \<and> decode_bytes32_address S (drop 4 (data (calls ! i))) = Some (h, a)"
  "i < length calls \<Longrightarrow> passes (check_register_ctm_asset_on_l1 S calls i a)
    \<longleftrightarrow> 4 \<le> length (data (calls ! i)) \<and> decode_address S (drop 4 (data (calls ! i))) = Some a"
  unfolding check_register_legacy_token_def check_set_asset_deployment_tracker_def check_register_ctm_asset_on_l1_def
    passes_with_call
  by (auto simp: passes_if passes_need not_less)

lemma passes_second_bridge:
  "passes (check_asset_router_second_bridge_calldata S d h)
    \<longleftrightarrow> (\<exists>d'. d = 0x02 # d' \<and> decode_bytes32_address S d' = Some (h, L2_CHAIN_ASSET_HANDLER_ADDR))"
  "passes (check_ctm_tracker_second_bridge_calldata S d a b)
    \<longleftrightarrow> (\<exists>d'. d = 0x01 # d' \<and> decode_address_address S d' = Some (a, b))"
  unfolding check_asset_router_second_bridge_calldata_def check_ctm_tracker_second_bridge_calldata_def
  by (cases d; auto simp: passes_if passes_need)+

section \<open>The decommission prefix\<close>

lemma writer_interval_calls [simp, writer_intros]: "writer (interval_calls E S ex sl cs n)"
  by (induction cs arbitrary: n) auto

text \<open>The interval calls at the head of the list, and when they pass.\<close>

definition interval_prefix :: "ext \<Rightarrow> call list \<Rightarrow> nat" where
  "interval_prefix E cs = length (takeWhile (\<lambda>c. has_selector E (data c) SET_HISTORICAL) cs)"

lemma interval_calls_count: "fst (val (interval_calls E S ex sl cs n)) = n + interval_prefix E cs"
  by (induction cs arbitrary: n) (auto simp: interval_prefix_def)

lemma interval_calls_pass:
  "snd (val (interval_calls E S ex sl cs n)) = 0 \<and> clean (interval_calls E S ex sl cs n)
    \<longleftrightarrow> (\<forall>k < interval_prefix E cs. n + k < length ex \<and> interval_ok S (data (cs ! k)) (ex ! (n + k)) sl)"
proof (induction cs arbitrary: n)
  case (Cons c cs)
  show ?case
  proof (cases "has_selector E (data c) SET_HISTORICAL")
    case True
    have all: "(\<forall>k < Suc (interval_prefix E cs). P k) \<longleftrightarrow> P 0 \<and> (\<forall>k < interval_prefix E cs. P (Suc k))" for P
      by (auto simp: less_Suc_eq_0_disj)
    have prefix: "interval_prefix E (c # cs) = Suc (interval_prefix E cs)"
      using True by (simp add: interval_prefix_def)
    show ?thesis
      unfolding prefix all using True Cons.IH [of "Suc n"] passes_interval [of S "data c" "ex ! n" sl]
      by (auto simp: passes_def)
  qed (simp add: interval_prefix_def)
qed (simp add: interval_prefix_def)

lemma writer_decommission [simp, writer_intros]:
  "writer (legacy_blacklist E S v calls n)" "writer (decommission_prefix E S v calls)"
  by (simp_all add: legacy_blacklist_def decommission_prefix_def Let_def)

definition blacklist_ok :: "ext \<Rightarrow> stage2_abi \<Rightarrow> verifiers \<Rightarrow> call list \<Rightarrow> nat \<Rightarrow> bool" where
  "blacklist_ok E S v calls n \<longleftrightarrow>
     (\<exists>bh. get_by_name (address_book v) ''bridgehub_proxy'' = Some bh \<and> call_ok E calls n bh SET_SETTLEMENT)
     \<and> decode_setSettlementLayerStatus S (data (calls ! n)) = Some (ucast (legacy_gateway_chain_id v), False)"

lemma call_ok_selector: "call_ok E calls i t m \<Longrightarrow> has_selector E (data (calls ! i)) m"
  by (simp add: call_ok_def has_selector_def slice_def)

lemma legacy_blacklist_pass:
  "snd (val (legacy_blacklist E S v calls n)) = 0 \<and> clean (legacy_blacklist E S v calls n)
    \<longleftrightarrow> (0 < n \<and> n < length calls \<longrightarrow> blacklist_ok E S v calls n)"
  "snd (val (legacy_blacklist E S v calls n)) = 0 \<Longrightarrow> clean (legacy_blacklist E S v calls n) \<Longrightarrow>
    fst (val (legacy_blacklist E S v calls n)) = (if 0 < n \<and> n < length calls then n + 1 else n)"
proof -
  have sel: "blacklist_ok E S v calls n \<Longrightarrow> has_selector E (data (calls ! n)) SET_SETTLEMENT"
    by (auto simp: blacklist_ok_def dest: call_ok_selector)
  show "snd (val (legacy_blacklist E S v calls n)) = 0 \<and> clean (legacy_blacklist E S v calls n)
    \<longleftrightarrow> (0 < n \<and> n < length calls \<longrightarrow> blacklist_ok E S v calls n)"
    using sel passes_call_by_name [of E v calls n "''bridgehub_proxy''" SET_SETTLEMENT]
      passes_settlement [of S "data (calls ! n)" "ucast (legacy_gateway_chain_id v)" False]
    by (auto simp: legacy_blacklist_def passes_def blacklist_ok_def)
  show "snd (val (legacy_blacklist E S v calls n)) = 0 \<Longrightarrow> clean (legacy_blacklist E S v calls n) \<Longrightarrow>
    fst (val (legacy_blacklist E S v calls n)) = (if 0 < n \<and> n < length calls then n + 1 else n)"
    by (auto simp: legacy_blacklist_def split: if_splits)
qed

definition intervals_ok :: "ext \<Rightarrow> stage2_abi \<Rightarrow> verifiers \<Rightarrow> call list \<Rightarrow> bool" where
  "intervals_ok E S v calls \<longleftrightarrow> interval_prefix E calls = length (legacy_gateway_chain_intervals v)
     \<and> (\<forall>k < length (legacy_gateway_chain_intervals v). interval_ok S (data (calls ! k))
          (legacy_gateway_chain_intervals v ! k) (ucast (legacy_gateway_chain_id v)))"

lemma decommission_pass:
  fixes v calls
  defines "n \<equiv> length (legacy_gateway_chain_intervals v)"
  shows "snd (val (decommission_prefix E S v calls)) = 0 \<and> clean (decommission_prefix E S v calls)
    \<longleftrightarrow> intervals_ok E S v calls \<and> (0 < n \<and> n < length calls \<longrightarrow> blacklist_ok E S v calls n)"
    and "intervals_ok E S v calls \<Longrightarrow> (0 < n \<and> n < length calls \<longrightarrow> blacklist_ok E S v calls n) \<Longrightarrow>
      fst (val (decommission_prefix E S v calls)) = (if 0 < n \<and> n < length calls then n + 1 else n)"
proof -
  let ?i = "interval_calls E S (legacy_gateway_chain_intervals v) (ucast (legacy_gateway_chain_id v)) calls 0"
  have i: "snd (val ?i) = 0 \<and> clean ?i \<and> fst (val ?i) = n \<longleftrightarrow> intervals_ok E S v calls"
    using interval_calls_pass [of E S "legacy_gateway_chain_intervals v" "ucast (legacy_gateway_chain_id v)" calls 0]
      interval_calls_count [of E S "legacy_gateway_chain_intervals v" "ucast (legacy_gateway_chain_id v)" calls 0]
    by (auto simp: intervals_ok_def n_def)
  have c: "fst (val ?i) = interval_prefix E calls"
    by (simp add: interval_calls_count)
  have v: "val (decommission_prefix E S v calls) = (fst (val (legacy_blacklist E S v calls (fst (val ?i)))),
      snd (val ?i) + (if fst (val ?i) = n then 0 else 1) + snd (val (legacy_blacklist E S v calls (fst (val ?i)))))"
    "clean (decommission_prefix E S v calls) \<longleftrightarrow> clean ?i \<and> fst (val ?i) = n
      \<and> clean (legacy_blacklist E S v calls (fst (val ?i)))"
    by (auto simp: decommission_prefix_def Let_def n_def)
  show "snd (val (decommission_prefix E S v calls)) = 0 \<and> clean (decommission_prefix E S v calls)
    \<longleftrightarrow> intervals_ok E S v calls \<and> (0 < n \<and> n < length calls \<longrightarrow> blacklist_ok E S v calls n)"
    unfolding v i [symmetric] legacy_blacklist_pass(1) [symmetric] by auto
  assume a: "intervals_ok E S v calls" "0 < n \<and> n < length calls \<longrightarrow> blacklist_ok E S v calls n"
  then have "fst (val ?i) = n"
    using i by simp
  with legacy_blacklist_pass [of E S v calls n] a(2)
  show "fst (val (decommission_prefix E S v calls)) = (if 0 < n \<and> n < length calls then n + 1 else n)"
    unfolding v by simp
qed

section \<open>The bring-up of the Gateway\<close>

definition direct_ok ::
    "ext \<Rightarrow> stage2_abi \<Rightarrow> verifiers \<Rightarrow> call list \<Rightarrow> nat \<Rightarrow> address \<Rightarrow> string \<Rightarrow> (bytes \<Rightarrow> bool) \<Rightarrow> bool" where
  "direct_ok E S v calls i l2_contract method arg \<longleftrightarrow> (\<exists>req. decode_direct_request S calls i = Some (Some req)
     \<and> priority_ok v (req_chainId req) (req_l2GasLimit req) (req_l2GasPerPubdataByteLimit req)
     \<and> req_l2Contract req = l2_contract \<and> has_selector E (req_l2Calldata req) method \<and> arg (req_l2Calldata req))"

definition two_bridges_ok :: "stage2_abi \<Rightarrow> verifiers \<Rightarrow> call list \<Rightarrow> nat \<Rightarrow> address \<Rightarrow> (bytes \<Rightarrow> bool) \<Rightarrow> bool" where
  "two_bridges_ok S v calls i bridge arg \<longleftrightarrow> (\<exists>req. decode_two_bridges_request S calls i = Some (Some req)
     \<and> priority_ok v (tb_chainId req) (tb_l2GasLimit req) (tb_l2GasPerPubdataByteLimit req)
     \<and> tb_secondBridgeAddress req = bridge \<and> tb_secondBridgeValue req = 0 \<and> arg (tb_secondBridgeCalldata req))"

lemma decode_requests_in_range:
  "i < length calls \<Longrightarrow> decode_direct_request S calls i \<noteq> None"
  "i < length calls \<Longrightarrow> decode_two_bridges_request S calls i \<noteq> None"
  "i < length calls \<Longrightarrow> priority_mint_value E S calls i \<noteq> None"
  by (auto simp: decode_direct_request_def decode_two_bridges_request_def priority_mint_value_def Let_def)

lemma writer_requests [simp, writer_intros]:
  "writer (check_direct_request E S v calls b g x)" "writer (check_two_bridges_request E S v calls b g h y)"
  "writer (new_gw_address a)" "writer (named_address v n)"
  by (auto simp: check_direct_request_def check_two_bridges_request_def new_gw_address_def named_address_def Let_def
      report_expected_two_bridge_inner_call_def intro!: writer_need split: option.splits prod.splits)

lemma passes_direct:
  assumes "b + off < length calls"
  shows "passes (check_direct_request E S v calls b g (off, c, m)) \<longleftrightarrow> direct_ok E S v calls (b + off) c m (\<lambda>d.
    if off = 3 then 36 \<le> length d \<and> from_be_bytes (slice 16 36 d) = gateway_chain_type_manager_addr g
    else if off = 15 then 36 \<le> length d \<and> from_be_bytes (slice 4 36 d) = new_gateway_settlement_fee v else True)"
proof -
  obtain dec where dec: "decode_direct_request S calls (b + off) = Some dec"
    using decode_requests_in_range(1) [OF assms] by blast
  show ?thesis
    by (cases dec) (auto simp: check_direct_request_def direct_ok_def dec passes_need passes_priority passes_l2)
qed

lemma passes_two_bridges:
  assumes "b + off < length calls"
  shows "passes (check_two_bridges_request E S v calls b g h (off, bridge)) \<longleftrightarrow> two_bridges_ok S v calls (b + off) bridge (\<lambda>d.
    if off = 7 then \<exists>d'. d = 0x02 # d' \<and> decode_bytes32_address S d' = Some (h, L2_CHAIN_ASSET_HANDLER_ADDR)
    else if off = 9 then \<exists>d'. d = 0x01 # d' \<and> decode_address_address S d'
      = Some (new_gateway_representative_ctm v, gateway_chain_type_manager_addr g) else True)"
proof -
  obtain dec where dec: "decode_two_bridges_request S calls (b + off) = Some dec"
    using decode_requests_in_range(2) [OF assms] by blast
  have shape: "passes (do { e \<leftarrow> m; report_expected_two_bridge_inner_call; State_Monad.return e }) \<longleftrightarrow> passes m"
    if "writer m" for m
    using that by (simp add: passes_def report_expected_two_bridge_inner_call_def)
  show ?thesis
    by (cases dec) (auto simp: check_two_bridges_request_def two_bridges_ok_def dec passes_need passes_priority
        passes_second_bridge shape)
qed

subsection \<open>Approvals\<close>

definition approve_ok :: "ext \<Rightarrow> stage2_abi \<Rightarrow> call list \<Rightarrow> nat \<Rightarrow> address \<Rightarrow> nat \<times> nat \<Rightarrow> bool" where
  "approve_ok E S calls base router p \<longleftrightarrow> base + fst p < length calls
     \<and> has_selector E (data (calls ! (base + fst p))) ''approve(address,uint256)''
     \<and> (\<exists>amount. decode_address_uint256 S (drop 4 (data (calls ! (base + fst p)))) = Some (router, amount)
        \<and> priority_mint_value E S calls (base + snd p) \<in> {None, Some (Some amount)})"

lemma approve_args_simps [simp]:
  "writer (approve_args E S calls base router po args)"
  "passes (approve_args E S calls base router po (spender, amount)) \<longleftrightarrow> spender = router
    \<and> priority_mint_value E S calls (base + po) \<in> {None, Some (Some amount)}"
proof -
  have [simp]: "writer (approve_amount amount m)" for amount m
    by (auto simp: approve_amount_def split: option.splits)
  show "writer (approve_args E S calls base router po args)"
    by (simp add: approve_args_def split_beta)
  have "passes (approve_amount amount m) \<longleftrightarrow> m \<in> {None, Some (Some amount)}" for m
    by (auto simp: approve_amount_def split: option.splits)
  then show "passes (approve_args E S calls base router po (spender, amount)) \<longleftrightarrow> spender = router
    \<and> priority_mint_value E S calls (base + po) \<in> {None, Some (Some amount)}"
    by (simp add: approve_args_def)
qed

lemma writer_approve [simp, writer_intros]:
  "writer (approve_step E S calls base router p st)" "writer (verify_approvals E S calls base router)"
proof -
  show step: "writer (approve_step E S calls base router p st)" for p st
    by (auto simp: approve_step_def Let_def split: prod.splits option.splits)
  show "writer (verify_approvals E S calls base router)"
    by (simp add: verify_approvals_def step)
qed

lemma approve_step_clean:
  "fst (val (approve_step E S calls base router p (0, t))) = 0 \<and> clean (approve_step E S calls base router p (0, t))
    \<longleftrightarrow> approve_ok E S calls base router p \<and> t \<in> {None, Some (target (calls ! (base + fst p)))}"
  "approve_ok E S calls base router p \<Longrightarrow> t \<in> {None, Some (target (calls ! (base + fst p)))} \<Longrightarrow>
    val (approve_step E S calls base router p (0, t)) = (0, Some (target (calls ! (base + fst p))))"
proof -
  obtain ao po where p: "p = (ao, po)" by (cases p)
  let ?args = "decode_address_uint256 S (drop 4 (data (calls ! (base + ao))))"
  show "fst (val (approve_step E S calls base router p (0, t))) = 0 \<and> clean (approve_step E S calls base router p (0, t))
    \<longleftrightarrow> approve_ok E S calls base router p \<and> t \<in> {None, Some (target (calls ! (base + fst p)))}"
  proof (cases ?args)
    case (Some a)
    obtain spender amount where a: "a = (spender, amount)" by (cases a)
    show ?thesis
      using approve_args_simps(2) [of E S calls base router po spender amount] Some
      by (cases t) (auto simp: p a approve_step_def approve_ok_def passes_def Let_def)
  qed (auto simp: p approve_step_def approve_ok_def Let_def)
  assume ok: "approve_ok E S calls base router p" "t \<in> {None, Some (target (calls ! (base + fst p)))}"
  then obtain amount where amount: "?args = Some (router, amount)"
    "priority_mint_value E S calls (base + po) \<in> {None, Some (Some amount)}"
    by (auto simp: p approve_ok_def)
  then have "val (approve_args E S calls base router po (router, amount)) = 0"
    using approve_args_simps(2) [of E S calls base router po router amount] by (simp add: passes_def)
  then show "val (approve_step E S calls base router p (0, t)) = (0, Some (target (calls ! (base + fst p))))"
    using ok amount by (auto simp: p approve_step_def approve_ok_def Let_def)
qed

lemma approve_errors_grow: "e \<le> fst (val (approve_step E S calls base router p (e, t)))"
  by (auto simp: approve_step_def Let_def split: prod.splits option.splits)

lemma approve_loop_grows: "e \<le> fst (val (foldM (approve_step E S calls base router) ps (e, t)))"
proof (induction ps arbitrary: e t)
  case (Cons p ps)
  obtain e' t' where p: "val (approve_step E S calls base router p (e, t)) = (e', t')"
    by fastforce
  with approve_errors_grow [of e E S calls base router p t] Cons [of e' t'] show ?case by simp
qed simp

lemma approve_loop:
  "(\<exists>t'. val (foldM (approve_step E S calls base router) ps (0, t)) = (0, t'))
     \<and> clean (foldM (approve_step E S calls base router) ps (0, t))
    \<longleftrightarrow> (\<forall>p \<in> set ps. approve_ok E S calls base router p)
      \<and> (\<exists>a. t \<in> {None, Some a} \<and> (\<forall>p \<in> set ps. target (calls ! (base + fst p)) = a))"
proof (induction ps arbitrary: t)
  case Nil
  show ?case by (cases t) auto
next
  case (Cons p ps)
  let ?f = "approve_step E S calls base router"
  show ?case
  proof (cases "approve_ok E S calls base router p \<and> t \<in> {None, Some (target (calls ! (base + fst p)))}")
    case True
    then have step: "val (?f p (0, t)) = (0, Some (target (calls ! (base + fst p))))" "clean (?f p (0, t))"
      using approve_step_clean [of E S calls base router p t] by auto
    have "(\<exists>t'. val (foldM ?f (p # ps) (0, t)) = (0, t')) \<and> clean (foldM ?f (p # ps) (0, t))
      \<longleftrightarrow> (\<forall>p \<in> set ps. approve_ok E S calls base router p)
        \<and> (\<forall>q \<in> set ps. target (calls ! (base + fst q)) = target (calls ! (base + fst p)))"
      using step Cons.IH [of "Some (target (calls ! (base + fst p)))"] by simp
    moreover have "(\<exists>a. t \<in> {None, Some a} \<and> (\<forall>q \<in> set (p # ps). target (calls ! (base + fst q)) = a))
      \<longleftrightarrow> (\<forall>q \<in> set ps. target (calls ! (base + fst q)) = target (calls ! (base + fst p)))"
      using True by (cases t) auto
    moreover have "(\<forall>q \<in> set (p # ps). approve_ok E S calls base router q)
      \<longleftrightarrow> (\<forall>q \<in> set ps. approve_ok E S calls base router q)"
      using True by simp
    ultimately show ?thesis
      by (simp only:)
  next
    case False
    then have "fst (val (?f p (0, t))) \<noteq> 0 \<or> \<not> clean (?f p (0, t))"
      unfolding approve_step_clean(1) [symmetric] by simp
    moreover have "fst (val (?f p (0, t))) \<le> fst (val (foldM ?f ps (val (?f p (0, t)))))"
      using approve_loop_grows [of "fst (val (?f p (0, t)))" E S calls base router ps "snd (val (?f p (0, t)))"] by simp
    ultimately have "\<not> ((\<exists>t'. val (foldM ?f (p # ps) (0, t)) = (0, t')) \<and> clean (foldM ?f (p # ps) (0, t)))"
      by auto
    moreover have "\<not> ((\<forall>q \<in> set (p # ps). approve_ok E S calls base router q)
      \<and> (\<exists>a. t \<in> {None, Some a} \<and> (\<forall>q \<in> set (p # ps). target (calls ! (base + fst q)) = a)))"
      using False by auto
    ultimately show ?thesis
      by (simp only:)
  qed
qed

lemma passes_approvals: "passes (verify_approvals E S calls base router)
    \<longleftrightarrow> (\<exists>token. \<forall>p \<in> set approve_pairs. approve_ok E S calls base router p \<and> target (calls ! (base + fst p)) = token)"
proof -
  let ?l = "foldM (approve_step E S calls base router) approve_pairs (0, None)"
  have "passes (verify_approvals E S calls base router) \<longleftrightarrow> (\<exists>t'. val ?l = (0, t')) \<and> clean ?l"
    by (cases "val ?l") (auto simp: passes_def verify_approvals_def)
  then show ?thesis
    unfolding approve_loop by auto
qed

subsection \<open>The sixteen calls\<close>

lemma address_as_bytes32_ucast: "address_as_bytes32 a = ucast a"
proof -
  have "unat a < 2 ^ 160"
    using unsigned_less [of a] by simp
  then have "nat_of_be (address_bytes a) 0 = unat a"
    by (simp add: address_bytes_def to_be_bytes_def nat_of_be_be_of_nat)
  moreover have "nat_of_be (replicate n 0 @ bs) 0 = nat_of_be bs 0" for n bs
    by (induction n) auto
  ultimately show ?thesis
    by (simp add: address_as_bytes32_def from_be_bytes_def)
qed

definition bring_up_ok ::
    "ext \<Rightarrow> stage2_abi \<Rightarrow> verifiers \<Rightarrow> call list \<Rightarrow> nat \<Rightarrow> new_gateway_artifact \<Rightarrow> bool" where
  "bring_up_ok E S v calls base g \<longleftrightarrow> (\<exists>router tracker da_manager server_notifier token.
     (\<forall>(off, name, m) \<in> set bring_up_calls.
        \<exists>t. get_by_name (address_book v) name = Some t \<and> call_ok E calls (base + off) t m)
     \<and> get_by_name (address_book v) ''l1_asset_router_proxy'' = Some router
     \<and> get_by_name (address_book v) ''ctm_deployment_tracker_proxy'' = Some tracker
     \<and> gateway_rollup_da_manager_addr g = Some da_manager \<and> gateway_server_notifier_addr g = Some server_notifier
     \<and> 36 \<le> length (data (calls ! base)) \<and> from_be_bytes (slice 4 36 (data (calls ! base))) = zk_token_asset_id v
     \<and> decode_setSettlementLayerStatus S (data (calls ! (base + 1))) = Some (ucast (new_gateway_chain_id v), True)
     \<and> decode_bytes32_address S (drop 4 (data (calls ! (base + 4)))) = Some (ucast (new_gateway_representative_ctm v), tracker)
     \<and> decode_address S (drop 4 (data (calls ! (base + 5)))) = Some (new_gateway_representative_ctm v)
     \<and> direct_ok E S v calls (base + 3) L2_BRIDGEHUB_ADDR ''addChainTypeManager(address)'' (\<lambda>d. 36 \<le> length d
         \<and> from_be_bytes (slice 16 36 d) = gateway_chain_type_manager_addr g)
     \<and> direct_ok E S v calls (base + 11) da_manager ''acceptOwnership()'' (\<lambda>d. True)
     \<and> direct_ok E S v calls (base + 13) server_notifier ''acceptOwnership()'' (\<lambda>d. True)
     \<and> direct_ok E S v calls (base + 15) GW_ASSET_TRACKER_ADDR ''setGatewaySettlementFee(uint256)'' (\<lambda>d. 36 \<le> length d
         \<and> from_be_bytes (slice 4 36 d) = new_gateway_settlement_fee v)
     \<and> two_bridges_ok S v calls (base + 7) router (\<lambda>d. \<exists>d'. d = 0x02 # d' \<and> decode_bytes32_address S d'
         = Some (ctm_asset_id E S (expected_l1_chain_id v) tracker (new_gateway_representative_ctm v), L2_CHAIN_ASSET_HANDLER_ADDR))
     \<and> two_bridges_ok S v calls (base + 9) tracker (\<lambda>d. \<exists>d'. d = 0x01 # d' \<and> decode_address_address S d'
         = Some (new_gateway_representative_ctm v, gateway_chain_type_manager_addr g))
     \<and> (\<forall>p \<in> set approve_pairs. approve_ok E S calls base router p \<and> target (calls ! (base + fst p)) = token))"

lemma named_address_simps [simp]:
  "val (named_address v n) = get_by_name (address_book v) n"
  "clean (named_address v n) \<longleftrightarrow> get_by_name (address_book v) n \<noteq> None"
  by (auto simp: named_address_def get_by_name_def Let_def)

lemma new_gw_address_simps [simp]:
  "val (new_gw_address a) = (case a of Some x \<Rightarrow> (x, 0) | None \<Rightarrow> (0, 1))"
  "clean (new_gw_address a) \<longleftrightarrow> a \<noteq> None"
  by (auto simp: new_gw_address_def split: option.splits)

lemma writer_bring_up [simp, writer_intros]:
  "writer (check_direct_requests E S v calls base g)" "writer (verify_bring_up_args E S v calls base g r t)"
  "writer (verify_bring_up_named E S v calls base g r)" "writer (verify_gateway_bring_up_calls E S v calls base g)"
proof -
  show d: "writer (check_direct_requests E S v calls base g)"
    by (simp add: check_direct_requests_def)
  show a: "writer (verify_bring_up_args E S v calls base g r t)" for r t
    by (simp add: verify_bring_up_args_def Let_def d)
  show n: "writer (verify_bring_up_named E S v calls base g r)" for r
    unfolding verify_bring_up_named_def by (intro writer_bind) (auto simp: a split: option.splits)
  show "writer (verify_gateway_bring_up_calls E S v calls base g)"
    unfolding verify_gateway_bring_up_calls_def verify_bring_up_shape_def
    by (intro writer_bind writer_sum_checks) (auto simp: n split: option.splits)
qed

lemma passes_direct_requests:
  assumes "base + 15 < length calls"
  shows "passes (check_direct_requests E S v calls base g) \<longleftrightarrow> (\<exists>da_manager server_notifier.
      gateway_rollup_da_manager_addr g = Some da_manager \<and> gateway_server_notifier_addr g = Some server_notifier
      \<and> (\<forall>x \<in> set (direct_requests da_manager server_notifier). passes (check_direct_request E S v calls base g x)))"
proof -
  have "passes (check_direct_requests E S v calls base g) \<longleftrightarrow> (\<exists>da_manager server_notifier.
      gateway_rollup_da_manager_addr g = Some da_manager \<and> gateway_server_notifier_addr g = Some server_notifier
      \<and> passes (sum_checks (map (check_direct_request E S v calls base g) (direct_requests da_manager server_notifier))))"
    by (auto simp: check_direct_requests_def passes_def split: option.splits)
  then show ?thesis by simp
qed

lemma passes_bring_up_args:
  assumes "base + 15 < length calls"
  shows "passes (verify_bring_up_args E S v calls base g router tracker) \<longleftrightarrow>
      passes (check_register_legacy_token v calls base)
      \<and> decode_setSettlementLayerStatus S (data (calls ! (base + 1))) = Some (ucast (new_gateway_chain_id v), True)
      \<and> passes (check_set_asset_deployment_tracker S calls (base + 4) (ucast (new_gateway_representative_ctm v)) tracker)
      \<and> passes (check_register_ctm_asset_on_l1 S calls (base + 5) (new_gateway_representative_ctm v))
      \<and> passes (check_direct_requests E S v calls base g)
      \<and> (let h = ctm_asset_id E S (expected_l1_chain_id v) tracker (new_gateway_representative_ctm v) in
         passes (check_two_bridges_request E S v calls base g h (7, router))
         \<and> passes (check_two_bridges_request E S v calls base g h (9, tracker)))
      \<and> passes (verify_approvals E S calls base router)"
  using assms by (simp add: verify_bring_up_args_def Let_def passes_with_call passes_settlement address_as_bytes32_ucast)

lemma passes_gateway_bring_up_split:
  "passes (verify_gateway_bring_up_calls E S v calls base g) \<longleftrightarrow>
     (\<forall>(off, name, m) \<in> set bring_up_calls.
        \<exists>t. get_by_name (address_book v) name = Some t \<and> call_ok E calls (base + off) t m)
     \<and> (\<exists>router tracker. get_by_name (address_book v) ''l1_asset_router_proxy'' = Some router
        \<and> get_by_name (address_book v) ''ctm_deployment_tracker_proxy'' = Some tracker
        \<and> passes (verify_bring_up_args E S v calls base g router tracker))"
proof -
  let ?m = "verify_bring_up_shape E v calls base"
  have m: "writer ?m"
    unfolding verify_bring_up_shape_def by (rule writer_sum_checks) auto
  have "passes ?m \<longleftrightarrow> (\<forall>(off, name, m) \<in> set bring_up_calls.
        \<exists>t. get_by_name (address_book v) name = Some t \<and> call_ok E calls (base + off) t m)"
    unfolding verify_bring_up_shape_def by (subst passes_sum_checks) (auto simp: passes_call_by_name)
  moreover have named: "passes (verify_bring_up_named E S v calls base g r) \<longleftrightarrow> (\<exists>tracker.
      get_by_name (address_book v) ''ctm_deployment_tracker_proxy'' = Some tracker
      \<and> passes (verify_bring_up_args E S v calls base g r tracker))" for r
    by (cases "get_by_name (address_book v) ''ctm_deployment_tracker_proxy''")
      (auto simp: verify_bring_up_named_def passes_def)
  moreover have "passes (verify_gateway_bring_up_calls E S v calls base g) \<longleftrightarrow> passes ?m \<and> (\<exists>router.
      get_by_name (address_book v) ''l1_asset_router_proxy'' = Some router
      \<and> passes (verify_bring_up_named E S v calls base g router))"
  proof -
    have w: "writer (case r of None \<Rightarrow> State_Monad.return 1 | Some x \<Rightarrow> verify_bring_up_named E S v calls base g x)" for r
      by (auto split: option.splits)
    show ?thesis
      by (cases "get_by_name (address_book v) ''l1_asset_router_proxy''")
        (auto simp: verify_gateway_bring_up_calls_def passes_def m w)
  qed
  ultimately show ?thesis by auto
qed

lemma passes_gateway_bring_up:
  assumes "base + 15 < length calls"
  shows "passes (verify_gateway_bring_up_calls E S v calls base g) \<longleftrightarrow> bring_up_ok E S v calls base g"
proof -
  have range: "base < length calls" "base + 3 < length calls" "base + 4 < length calls" "base + 5 < length calls"
    "base + 7 < length calls" "base + 9 < length calls" "base + 11 < length calls" "base + 13 < length calls"
    using assms by simp_all
  have lengths: "4 \<le> length (data (calls ! (base + i)))"
    if "\<forall>(off, name, m) \<in> set bring_up_calls. \<exists>t. get_by_name (address_book v) name = Some t \<and> call_ok E calls (base + off) t m"
      "i = 4 \<or> i = 5" for i
    using that by (auto simp: bring_up_calls_def call_ok_def)
  show ?thesis
    unfolding passes_gateway_bring_up_split bring_up_ok_def passes_bring_up_args [OF assms] passes_direct_requests [OF assms]
      passes_l1_calls [OF range(1)] passes_l1_calls [OF range(3)] passes_l1_calls [OF range(4)]
      passes_two_bridges [OF range(5)] passes_two_bridges [OF range(6)] passes_approvals direct_requests_def Let_def
      list.set ball_simps passes_direct [OF range(2)] passes_direct [OF range(7)] passes_direct [OF range(8)] passes_direct [OF assms]
    using lengths by (simp del: One_nat_def) blast
qed

section \<open>Stage 2 that passes\<close>

definition stage2_block_of :: "call list \<Rightarrow> nat \<Rightarrow> nat \<Rightarrow> address \<Rightarrow> nat option" where
  "stage2_block_of calls prefix n a =
     find (\<lambda>b. b < length calls \<and> target (calls ! b) = a) (map (\<lambda>k. prefix + 1 + k * 2) [0..<n])"

definition stage2_ctm_ok :: "ext \<Rightarrow> call list \<Rightarrow> nat \<Rightarrow> nat \<Rightarrow> ctm_artifact \<Rightarrow> bool" where
  "stage2_ctm_ok E calls prefix n ctm \<longleftrightarrow> (\<exists>validator b.
     address_at E (ctm_value ctm) STAGE_VALIDATOR = Some validator
     \<and> stage2_block_of calls prefix n validator = Some b
     \<and> call_ok E calls b validator ''checkProtocolUpgradePresence()''
     \<and> call_ok E calls (b + 1) validator ''checkMigrationsUnpaused()'')"

lemma stage2_ctm_simps [simp]:
  "writer (verify_stage2_ctm E calls prefix n ctm)"
  "passes (verify_stage2_ctm E calls prefix n ctm) \<longleftrightarrow> stage2_ctm_ok E calls prefix n ctm"
proof -
  have two: "passes (sum_checks [verify_call_by_address E calls b a ''checkProtocolUpgradePresence()'',
        verify_call_by_address E calls (b + 1) a ''checkMigrationsUnpaused()''])
      \<longleftrightarrow> call_ok E calls b a ''checkProtocolUpgradePresence()'' \<and> call_ok E calls (b + 1) a ''checkMigrationsUnpaused()''"
    for a b
    by (simp add: passes_call_by_address)
  have w: "writer (case r of None \<Rightarrow> State_Monad.return 2
      | Some a \<Rightarrow> (case stage2_block_of calls prefix n a of
          None \<Rightarrow> do { report_error; State_Monad.return 2 }
        | Some block \<Rightarrow> sum_checks [verify_call_by_address E calls block a ''checkProtocolUpgradePresence()'',
            verify_call_by_address E calls (block + 1) a ''checkMigrationsUnpaused()'']))" for r
    by (auto split: option.splits)
  note d = verify_stage2_ctm_def [folded stage2_block_of_def]
  show "writer (verify_stage2_ctm E calls prefix n ctm)"
    unfolding d using w by (intro writer_bind) simp_all
  show "passes (verify_stage2_ctm E calls prefix n ctm) \<longleftrightarrow> stage2_ctm_ok E calls prefix n ctm"
    unfolding d stage2_ctm_ok_def
    by (cases "address_at E (ctm_value ctm) STAGE_VALIDATOR")
      (auto simp: passes_def w two [unfolded passes_def, simplified] split: option.splits)
qed

text \<open>
  The position of \<^verbatim>\<open>unpauseMigration\<close>: after one call per interval and the blacklisting, where
  there are intervals. The code looks for the blacklisting only after at least one interval call; the
  module documentation has it whenever the environment has a \<^verbatim>\<open>[legacy_gateway]\<close> section.
\<close>

definition unpause_index :: "verifiers \<Rightarrow> nat" where
  "unpause_index v = (let n = length (legacy_gateway_chain_intervals v) in if n = 0 then 0 else n + 1)"

definition stage2_canonical_ok ::
    "ext \<Rightarrow> stage2_abi \<Rightarrow> ecosystem_upgrade_artifact \<Rightarrow> verifiers \<Rightarrow> call list \<Rightarrow> nat \<Rightarrow> bool" where
  "stage2_canonical_ok E S artifact v calls u \<longleftrightarrow> (let base = u + 1 + length (ctms artifact) * 2 in
     (\<exists>t. get_by_name (address_book v) ''chain_asset_handler_proxy'' = Some t \<and> call_ok E calls u t ''unpauseMigration()'')
     \<and> (\<forall>ctm \<in> set (ctms artifact). stage2_ctm_ok E calls u (length (ctms artifact)) ctm)
     \<and> (case new_gateway artifact of
          None \<Rightarrow> length calls = base
        | Some g \<Rightarrow> length calls = base + 16 \<and> bring_up_ok E S v calls base g))"

definition stage2_ok ::
    "ext \<Rightarrow> stage2_abi \<Rightarrow> ecosystem_upgrade_artifact \<Rightarrow> verifiers \<Rightarrow> call list \<Rightarrow> bool" where
  "stage2_ok E S artifact v calls \<longleftrightarrow> intervals_ok E S v calls
     \<and> (legacy_gateway_chain_intervals v \<noteq> [] \<longrightarrow> blacklist_ok E S v calls (length (legacy_gateway_chain_intervals v)))
     \<and> stage2_canonical_ok E S artifact v calls (unpause_index v)"

lemma writer_stage2_canonical [simp, writer_intros]: "writer (stage2_canonical E S artifact v calls u)"
  unfolding stage2_canonical_def Let_def by (rule writer_sum_checks) (auto split: option.splits)

lemma passes_call_count: "passes (verify_call_count calls n) \<longleftrightarrow> length calls = n"
  by (auto simp: passes_def)

lemma passes_stage2_canonical:
  "passes (stage2_canonical E S artifact v calls u) \<longleftrightarrow> stage2_canonical_ok E S artifact v calls u"
proof -
  let ?base = "u + 1 + length (ctms artifact) * 2"
  have w: "\<forall>m \<in> set (verify_call_by_name E v calls u ''chain_asset_handler_proxy'' ''unpauseMigration()''
        # map (verify_stage2_ctm E calls u (length (ctms artifact))) (ctms artifact)
        @ [(case new_gateway artifact of
              Some new_gw \<Rightarrow> verify_gateway_bring_up_calls E S v calls ?base new_gw
            | None \<Rightarrow> do { report_ok; State_Monad.return 0 }),
           verify_call_count calls (?base + (if new_gateway artifact \<noteq> None then 16 else 0))]). writer m"
    by (auto split: option.splits)
  have ok: "passes (do { report_ok; State_Monad.return 0 })"
    by (simp add: passes_def)
  show ?thesis
    unfolding stage2_canonical_def stage2_canonical_ok_def Let_def passes_sum_checks [OF w]
    using passes_gateway_bring_up [of ?base calls E S v]
    by (cases "new_gateway artifact") (auto simp: passes_call_by_name passes_call_count ok)
qed

lemma writer_stage2 [simp, writer_intros]: "writer (stage2_verify_artifact E S artifact v calls)"
  by (simp add: stage2_verify_artifact_def)

lemma yields_stage2: "yields (stage2_verify_artifact E S artifact v calls) () \<longleftrightarrow> stage2_ok E S artifact v calls"
proof -
  let ?d = "decommission_prefix E S v calls"
  let ?n = "length (legacy_gateway_chain_intervals v)"
  have split: "yields (stage2_verify_artifact E S artifact v calls) ()
      \<longleftrightarrow> (snd (val ?d) = 0 \<and> clean ?d) \<and> stage2_canonical_ok E S artifact v calls (fst (val ?d))"
    unfolding passes_stage2_canonical [symmetric]
    by (auto simp: stage2_verify_artifact_def passes_def)
  have bound: "stage2_canonical_ok E S artifact v calls u \<Longrightarrow> u < length calls" for u
    by (auto simp: stage2_canonical_ok_def Let_def dest: call_ok_bound)
  show ?thesis
    unfolding split decommission_pass(1) stage2_ok_def unpause_index_def Let_def
    using decommission_pass(2) [of E S v calls] bound [of "?n"] bound [of "?n + 1"]
    by (cases "?n = 0") (auto split: if_splits)
qed

text \<open>
  The contract and the value of an interval call are not part of the layout: with the same
  calldata any other target passes as well.
\<close>

lemma requests_update:
  "i \<noteq> j \<Longrightarrow> decode_direct_request S (calls[i := c]) j = decode_direct_request S calls j"
  "i \<noteq> j \<Longrightarrow> decode_two_bridges_request S (calls[i := c]) j = decode_two_bridges_request S calls j"
  "i \<noteq> j \<Longrightarrow> priority_mint_value E S (calls[i := c]) j = priority_mint_value E S calls j"
  by (simp_all add: decode_direct_request_def decode_two_bridges_request_def priority_mint_value_def Let_def)

lemma bring_up_update:
  assumes "i < base"
  shows "bring_up_ok E S v (calls[i := c]) base g \<longleftrightarrow> bring_up_ok E S v calls base g"
proof -
  have ne: "i \<noteq> base" "i \<noteq> base + k" for k
    using assms by simp_all
  have "direct_ok E S v (calls[i := c]) (base + k) = direct_ok E S v calls (base + k)"
    "two_bridges_ok S v (calls[i := c]) (base + k) = two_bridges_ok S v calls (base + k)"
    "approve_ok E S (calls[i := c]) base = approve_ok E S calls base" for k
    unfolding direct_ok_def two_bridges_ok_def approve_ok_def fun_eq_iff
    by (simp_all add: requests_update ne)
  then show ?thesis
    unfolding bring_up_ok_def using ne(2) [of 1] by (simp add: ne call_ok_update split_beta)
qed

lemma stage2_ctm_update:
  assumes "i \<le> u"
  shows "stage2_ctm_ok E (calls[i := c]) u n ctm \<longleftrightarrow> stage2_ctm_ok E calls u n ctm"
proof -
  have block: "stage2_block_of (calls[i := c]) u n a = stage2_block_of calls u n a" for a
    unfolding stage2_block_of_def using assms by (intro find_cong) auto
  have late: "u < b" if "stage2_block_of calls u n a = Some b" for a b
    using that by (auto simp: stage2_block_of_def dest!: find_in_list)
  have "call_ok E (calls[i := c]) b a m \<longleftrightarrow> call_ok E calls b a m" if "u < b" for a b m
    using that assms by (simp add: call_ok_update)
  then show ?thesis
    unfolding stage2_ctm_ok_def block by (intro iff_exI conj_cong refl) (auto dest!: late)
qed

lemma stage2_canonical_update:
  assumes "i < u"
  shows "stage2_canonical_ok E S artifact v (calls[i := c]) u \<longleftrightarrow> stage2_canonical_ok E S artifact v calls u"
proof -
  have "i < u + 1 + length (ctms artifact) * 2"
    using assms by simp
  from bring_up_update [OF this] show ?thesis
    unfolding stage2_canonical_ok_def Let_def
    using assms by (cases "new_gateway artifact") (simp_all add: call_ok_update stage2_ctm_update)
qed

lemma interval_prefix_update:
  assumes "data c = data (calls ! i)"
  shows "interval_prefix E (calls[i := c]) = interval_prefix E calls"
  using assms unfolding interval_prefix_def
  by (induction calls arbitrary: i) (auto split: nat.splits)

lemma intervals_update:
  assumes "data c = data (calls ! i)"
  shows "intervals_ok E S v (calls[i := c]) \<longleftrightarrow> intervals_ok E S v calls"
proof (cases "i < length calls")
  case True
  have "data ((calls[i := c]) ! k) = data (calls ! k)" for k
    using assms True by (cases "k = i") simp_all
  then show ?thesis
    by (simp add: intervals_ok_def interval_prefix_update [OF assms])
qed (simp add: list_update_beyond)

lemma interval_target_free:
  assumes "i < length (legacy_gateway_chain_intervals v)" "data c = data (calls ! i)"
  shows "stage2_ok E S artifact v (calls[i := c]) \<longleftrightarrow> stage2_ok E S artifact v calls"
proof -
  have "blacklist_ok E S v (calls[i := c]) (length (legacy_gateway_chain_intervals v))
      \<longleftrightarrow> blacklist_ok E S v calls (length (legacy_gateway_chain_intervals v))"
    using assms(1) by (simp add: blacklist_ok_def call_ok_update)
  moreover have "i < unpause_index v"
    using assms(1) by (auto simp: unpause_index_def Let_def)
  ultimately show ?thesis
    unfolding stage2_ok_def intervals_update [OF assms(2)] by (simp add: stage2_canonical_update)
qed

end
