(* ===== verification/Rpc_State.thy ===== *)
theory Rpc_State
  imports Governance_Helpers
begin

section \<open>Live state of the ecosystem before the upgrade\<close>

text \<open>
  \<^verbatim>\<open>v31/elements/rpc_state.rs\<close>: chain id, proxy admins, wiring and ownership of the core
  contracts, timelocks, fee parameters and settlement layers, all read from L1. A mismatch is an
  error of the report and the element goes on; only a missing address of the artifact ends it.
  The lemmas say exactly which live states pass (\<open>rpc_state_ok\<close>).
\<close>

definition MAINNET_VALIDATOR_TIMELOCK_EXECUTION_DELAY_SECONDS :: u32 where
  "MAINNET_VALIDATOR_TIMELOCK_EXECUTION_DELAY_SECONDS = 10800"

definition TESTNET_VALIDATOR_TIMELOCK_EXECUTION_DELAY_SECONDS :: u32 where
  "TESTNET_VALIDATOR_TIMELOCK_EXECUTION_DELAY_SECONDS = 0"

definition FEE_PARAMS_STORAGE_SLOT :: u64 where
  "FEE_PARAMS_STORAGE_SLOT = 38"

definition CORE_PROXIES_UNDER_TRANSPARENT_PROXY_ADMIN :: "string list" where
  "CORE_PROXIES_UNDER_TRANSPARENT_PROXY_ADMIN =
     [''bridgehub_proxy'', ''l1_nullifier_proxy'', ''l1_asset_router_proxy'', ''native_token_vault'',
      ''message_root_proxy'', ''ctm_deployment_tracker_proxy'', ''chain_asset_handler_proxy'',
      ''asset_tracker_proxy'', ''chain_registration_sender_proxy'']"

text \<open>\<^verbatim>\<open>required_address(&artifact.core, \<dots>)?\<close> and \<^verbatim>\<open>required_address(&ctm.value, \<dots>)?\<close>\<close>

definition need_core :: "ext \<Rightarrow> ecosystem_upgrade_artifact \<Rightarrow> string list \<Rightarrow> (address \<Rightarrow> 'a res vr) \<Rightarrow> 'a res vr" where
  "need_core E artifact path f = tryM (State_Monad.return (required_address_in_value E (core artifact) path)) f"

definition need_ctm :: "ext \<Rightarrow> ctm_artifact \<Rightarrow> string list \<Rightarrow> (address \<Rightarrow> 'a res vr) \<Rightarrow> 'a res vr" where
  "need_ctm E ctm path f = tryM (State_Monad.return (required_address_in_value E (ctm_value ctm) path)) f"

subsection \<open>Chain id and proxy admins\<close>

definition verify_l1_chain_id :: "verifiers \<Rightarrow> unit vr" where
  "verify_l1_chain_id v = (case try_get_l1_chain_id (network v) of
     Inr chain_id \<Rightarrow> if chain_id = expected_l1_chain_id v then report_ok else report_error
   | Inl _ \<Rightarrow> report_error)"

definition check_proxy_admin :: "verifiers \<Rightarrow> address \<Rightarrow> address \<Rightarrow> unit vr" where
  "check_proxy_admin v proxy expected_admin =
     (case get_storage_at (l1_provider (network v)) proxy EIP1967_PROXY_ADMIN_SLOT of
        Some w \<Rightarrow> report_unless_equal (address_of_hash w) expected_admin
      | None \<Rightarrow> report_warn)"

definition check_core_proxy_admin :: "verifiers \<Rightarrow> address \<Rightarrow> string \<Rightarrow> unit vr" where
  "check_core_proxy_admin v expected_admin proxy_name =
     (case name_to_address (address_book v) proxy_name of
        None \<Rightarrow> report_warn
      | Some proxy \<Rightarrow> check_proxy_admin v proxy expected_admin)"

definition check_ctm_proxy_admins :: "ext \<Rightarrow> verifiers \<Rightarrow> ctm_artifact \<Rightarrow> unit res vr" where
  "check_ctm_proxy_admins E v ctm = need_ctm E ctm [''deployed_addresses'', ''transparent_proxy_admin''] (\<lambda>expected_admin.
     forTM (\<lambda>proxy_path. need_ctm E ctm [''state_transition'', proxy_path] (\<lambda>proxy.
         liftM (check_proxy_admin v proxy expected_admin)))
       [''chain_type_manager_proxy'', ''validator_timelock_addr'', ''bytecodes_supplier_addr'',
        ''permissionless_validator_addr''])"

definition verify_v31_proxy_admins :: "ext \<Rightarrow> ecosystem_upgrade_artifact \<Rightarrow> verifiers \<Rightarrow> unit res vr" where
  "verify_v31_proxy_admins E artifact v =
     need_core E artifact [''upgrade_addresses'', ''shared'', ''transparent_proxy_admin''] (\<lambda>expected_core_admin.
     tryM (expect_deployed_bytecode E v expected_core_admin ''TransparentProxyAdmin'' True) (\<lambda>_.
     tryM (liftM (forM (check_core_proxy_admin v expected_core_admin) CORE_PROXIES_UNDER_TRANSPARENT_PROXY_ADMIN)) (\<lambda>_.
     forTM (check_ctm_proxy_admins E v) (ctms artifact))))"

subsection \<open>Core wiring\<close>

record core_expected =
  exp_asset_router :: address
  exp_ctm_deployment_tracker :: address
  exp_legacy_bridge :: address
  exp_ntv :: address
  exp_bridged_token_beacon :: address
  exp_tracker :: address
  exp_chain_registration_sender :: address
  exp_chain_asset_handler :: address
  exp_message_root :: address

definition core_expected_of :: "ext \<Rightarrow> ecosystem_upgrade_artifact \<Rightarrow> core_expected res" where
  "core_expected_of E artifact =
     (let in_bh = (\<lambda>k. required_address_in_value E (core artifact) [''upgrade_addresses'', ''bridgehub'', k]);
          in_bridges = (\<lambda>k. required_address_in_value E (core artifact) [''upgrade_addresses'', ''bridges'', k]) in
     bind_res (in_bridges ''l1_asset_router_proxy_addr'') (\<lambda>asset_router.
     bind_res (in_bh ''ctm_deployment_tracker_proxy_addr'') (\<lambda>ctm_deployment_tracker.
     bind_res (in_bridges ''erc20_bridge_proxy_addr'') (\<lambda>legacy_bridge.
     bind_res (required_address_in_value E (core artifact) [''upgrade_addresses'', ''native_token_vault_addr'']) (\<lambda>ntv.
     bind_res (in_bridges ''bridged_token_beacon'') (\<lambda>beacon.
     bind_res (in_bh ''l1_asset_tracker_proxy_addr'') (\<lambda>tracker.
     bind_res (in_bh ''chain_registration_sender_proxy_addr'') (\<lambda>sender.
     bind_res (in_bh ''chain_asset_handler_proxy_addr'') (\<lambda>handler.
     bind_res (in_bh ''message_root_proxy_addr'') (\<lambda>message_root.
     Inr \<lparr>exp_asset_router = asset_router, exp_ctm_deployment_tracker = ctm_deployment_tracker,
       exp_legacy_bridge = legacy_bridge, exp_ntv = ntv, exp_bridged_token_beacon = beacon, exp_tracker = tracker,
       exp_chain_registration_sender = sender, exp_chain_asset_handler = handler,
       exp_message_root = message_root\<rparr>))))))))))"

definition check_bridged_token_beacon :: "l1_views \<Rightarrow> verifiers \<Rightarrow> core_expected \<Rightarrow> unit vr" where
  "check_bridged_token_beacon V v x = (case L1NativeTokenVault_bridgedTokenBeacon V (exp_ntv x) of
     Some actual_beacon \<Rightarrow> do {
       report_unless_equal actual_beacon (exp_bridged_token_beacon x);
       (if actual_beacon = 0 then report_error
        else expect_read (view_owner V actual_beacon) (bridgehub_owner v)) }
   | None \<Rightarrow> report_error)"

definition check_chain_asset_handler :: "l1_views \<Rightarrow> verifiers \<Rightarrow> core_expected \<Rightarrow> unit vr" where
  "check_chain_asset_handler V v x = (case Bridgehub_chainAssetHandler V (bridgehub_address v) of
     Some actual \<Rightarrow> do {
       report_unless_equal actual (exp_chain_asset_handler x);
       expect_read (L1AssetTracker_chainAssetHandler V (exp_tracker x)) actual }
   | None \<Rightarrow> report_error)"

definition core_wiring_checks :: "l1_views \<Rightarrow> verifiers \<Rightarrow> core_expected \<Rightarrow> unit vr" where
  "core_wiring_checks V v x = (let bridgehub = bridgehub_address v in run_checks [
     expect_read (Bridgehub_assetRouter V bridgehub) (exp_asset_router x),
     expect_read (Bridgehub_sharedBridge V bridgehub) (exp_asset_router x),
     expect_read (Bridgehub_l1CtmDeployer V bridgehub) (exp_ctm_deployment_tracker x),
     expect_read (view_owner V (exp_asset_router x)) (bridgehub_owner v),
     expect_read (L1AssetRouter_ERA_CHAIN_ID V (exp_asset_router x)) (ucast (legacy_era_chain_id v)),
     expect_read (L1AssetRouter_legacyBridge V (exp_asset_router x)) (exp_legacy_bridge x),
     expect_read (L1AssetRouter_nativeTokenVault V (exp_asset_router x)) (exp_ntv x),
     check_bridged_token_beacon V v x,
     expect_read (L1AssetTracker_BRIDGE_HUB V (exp_tracker x)) bridgehub,
     expect_read (pendingOwner (l1_provider (network v)) (exp_tracker x)) (bridgehub_owner v),
     expect_read (ChainRegistrationSender_BRIDGE_HUB V (exp_chain_registration_sender x)) bridgehub,
     expect_read (pendingOwner (l1_provider (network v)) (exp_chain_registration_sender x)) (bridgehub_owner v),
     check_chain_asset_handler V v x,
     expect_read (Bridgehub_messageRoot V bridgehub) (exp_message_root x),
     expect_read (view_owner V (exp_chain_asset_handler x)) (bridgehub_owner v)])"

definition verify_v31_core_wiring :: "ext \<Rightarrow> l1_views \<Rightarrow> ecosystem_upgrade_artifact \<Rightarrow> verifiers \<Rightarrow> unit res vr" where
  "verify_v31_core_wiring E V artifact v =
     tryM (State_Monad.return (core_expected_of E artifact)) (\<lambda>x. liftM (core_wiring_checks V v x))"

subsection \<open>Ownership per CTM\<close>

text \<open>Owned by the expected owner, or the transfer to it is pending.\<close>

definition check_owner_or_pending :: "l1_views \<Rightarrow> verifiers \<Rightarrow> address \<Rightarrow> address \<Rightarrow> unit vr" where
  "check_owner_or_pending V v a expected_owner =
     (case (view_owner V a, pendingOwner (l1_provider (network v)) a) of
        (None, _) \<Rightarrow> report_error
      | (Some actual, pending) \<Rightarrow>
          if actual = expected_owner then report_ok
          else if pending = Some expected_owner then report_ok
          else report_error)"

definition TIMER_GOVERNANCE :: "string list" where
  "TIMER_GOVERNANCE = [''admin'', ''timer_governance_addr'']"

definition verify_ctm_timelock :: "ext \<Rightarrow> l1_views \<Rightarrow> verifiers \<Rightarrow> ctm_artifact \<Rightarrow> unit res vr" where
  "verify_ctm_timelock E V v ctm =
     need_ctm E ctm [''state_transition'', ''validator_timelock_addr''] (\<lambda>validator_timelock.
     need_ctm E ctm [''state_transition'', ''chain_type_manager_proxy''] (\<lambda>chain_type_manager.
     need_ctm E ctm TIMER_GOVERNANCE (\<lambda>expected_owner.
     let expected_delay = (if is_testnet (ctm_contracts_config ctm)
           then TESTNET_VALIDATOR_TIMELOCK_EXECUTION_DELAY_SECONDS
           else MAINNET_VALIDATOR_TIMELOCK_EXECUTION_DELAY_SECONDS) in
     liftM (run_checks [
       expect_read (ChainTypeManager_validatorTimelockPostV29 V chain_type_manager) validator_timelock,
       check_owner_or_pending V v validator_timelock expected_owner,
       expect_read (ValidatorTimelock_executionDelay V validator_timelock) expected_delay]))))"

definition verify_v31_validator_timelocks ::
    "ext \<Rightarrow> l1_views \<Rightarrow> ecosystem_upgrade_artifact \<Rightarrow> verifiers \<Rightarrow> unit res vr" where
  "verify_v31_validator_timelocks E V artifact v = forTM (verify_ctm_timelock E V v) (ctms artifact)"

definition verify_ctm_owned ::
    "ext \<Rightarrow> l1_views \<Rightarrow> verifiers \<Rightarrow> string list \<Rightarrow> ctm_artifact \<Rightarrow> unit res vr" where
  "verify_ctm_owned E V v path ctm = need_ctm E ctm path (\<lambda>a.
     need_ctm E ctm TIMER_GOVERNANCE (\<lambda>expected_owner. liftM (check_owner_or_pending V v a expected_owner)))"

definition verify_v31_rollup_da_managers ::
    "ext \<Rightarrow> l1_views \<Rightarrow> ecosystem_upgrade_artifact \<Rightarrow> verifiers \<Rightarrow> unit res vr" where
  "verify_v31_rollup_da_managers E V artifact v =
     forTM (verify_ctm_owned E V v [''deployed_addresses'', ''l1_rollup_da_manager'']) (ctms artifact)"

definition verify_v31_zksync_os_verifier_ownership ::
    "ext \<Rightarrow> l1_views \<Rightarrow> ecosystem_upgrade_artifact \<Rightarrow> verifiers \<Rightarrow> unit res vr" where
  "verify_v31_zksync_os_verifier_ownership E V artifact v =
     forTM (\<lambda>ctm. if flavor ctm \<noteq> ZksyncOs then okM ()
       else verify_ctm_owned E V v [''state_transition'', ''verifier_addr''] ctm) (ctms artifact)"

subsection \<open>Fee parameters of Era\<close>

definition expect_fee_params_eq :: "fee_params \<Rightarrow> fee_params \<Rightarrow> unit vr" where
  "expect_fee_params_eq actual expected = run_checks [
     report_unless_equal (pubdataPricingMode actual) (pubdataPricingMode expected),
     report_unless_equal (batchOverheadL1Gas actual) (batchOverheadL1Gas expected),
     report_unless_equal (maxPubdataPerBatch actual) (maxPubdataPerBatch expected),
     report_unless_equal (maxL2GasPerBatch actual) (maxL2GasPerBatch expected),
     report_unless_equal (priorityTxMaxPubdata actual) (priorityTxMaxPubdata expected),
     report_unless_equal (minimalL2GasPrice actual) (minimalL2GasPrice expected)]"

definition verify_v31_era_fee_params :: "l1_views \<Rightarrow> verifiers \<Rightarrow> unit vr" where
  "verify_v31_era_fee_params V v =
     (case try_get_chain_diamond_from_bridgehub (network v) (bridgehub_address v) (ucast (registered_era_chain_id v)) of
        Inl _ \<Rightarrow> report_error
      | Inr diamond \<Rightarrow>
          if diamond = 0 then report_error
          else (case get_storage_at (l1_provider (network v)) diamond (ucast FEE_PARAMS_STORAGE_SLOT) of
              None \<Rightarrow> report_error
            | Some raw \<Rightarrow> (case decode_storage_word raw of
                Inl _ \<Rightarrow> report_error
              | Inr actual_fee_params \<Rightarrow> do {
                  expect_fee_params_eq actual_fee_params (fee_param_verifier v);
                  expect_read (ZKChain_getPriorityTxMaxGasLimit V diamond) (ucast MAX_PRIORITY_TX_GAS_LIMIT) })))"

subsection \<open>Admins, validators, flavors\<close>

definition verify_ctm_admin_state :: "ext \<Rightarrow> l1_views \<Rightarrow> verifiers \<Rightarrow> ctm_artifact \<Rightarrow> unit res vr" where
  "verify_ctm_admin_state E V v ctm =
     need_ctm E ctm TIMER_GOVERNANCE (\<lambda>expected_timer_governance.
     need_ctm E ctm [''admin'', ''ecosystem_admin_addr''] (\<lambda>expected_ecosystem_admin.
     tryM (liftM (report_unless_equal (bridgehub_owner v) expected_timer_governance)) (\<lambda>_.
     need_ctm E ctm [''state_transition'', ''chain_type_manager_proxy''] (\<lambda>ctm_proxy.
     liftM (expect_read (view_owner V ctm_proxy) expected_ecosystem_admin)))))"

definition verify_v31_timer_admin_state ::
    "ext \<Rightarrow> l1_views \<Rightarrow> ecosystem_upgrade_artifact \<Rightarrow> verifiers \<Rightarrow> unit res vr" where
  "verify_v31_timer_admin_state E V artifact v = forTM (verify_ctm_admin_state E V v) (ctms artifact)"

definition CTM_IMPLEMENTATION :: "string list" where
  "CTM_IMPLEMENTATION = [''state_transition'', ''chain_type_manager_implementation_addr'']"

definition verify_ctm_permissionless :: "ext \<Rightarrow> l1_views \<Rightarrow> ctm_artifact \<Rightarrow> unit res vr" where
  "verify_ctm_permissionless E V ctm =
     need_ctm E ctm CTM_IMPLEMENTATION (\<lambda>ctm_impl.
     need_ctm E ctm [''state_transition'', ''permissionless_validator_addr''] (\<lambda>expected_permissionless_validator.
     liftM (if expected_permissionless_validator = 0 then report_error
       else expect_read (ChainTypeManager_PERMISSIONLESS_VALIDATOR V ctm_impl) expected_permissionless_validator)))"

definition verify_v31_ctm_permissionless_validator ::
    "ext \<Rightarrow> l1_views \<Rightarrow> ecosystem_upgrade_artifact \<Rightarrow> unit res vr" where
  "verify_v31_ctm_permissionless_validator E V artifact = forTM (verify_ctm_permissionless E V) (ctms artifact)"

definition verify_ctm_flavor :: "ext \<Rightarrow> verifiers \<Rightarrow> ctm_artifact \<Rightarrow> unit res vr" where
  "verify_ctm_flavor E v ctm = need_ctm E ctm CTM_IMPLEMENTATION (\<lambda>ctm_impl.
     liftM (expect_read (ChainTypeManager_isZKsyncOS (l1_provider (network v)) ctm_impl) (flavor ctm = ZksyncOs)))"

definition verify_v31_ctm_flavor :: "ext \<Rightarrow> ecosystem_upgrade_artifact \<Rightarrow> verifiers \<Rightarrow> unit res vr" where
  "verify_v31_ctm_flavor E artifact v = forTM (verify_ctm_flavor E v) (ctms artifact)"

subsection \<open>Settlement layers\<close>

definition verify_settlement_layer :: "l1_views \<Rightarrow> verifiers \<Rightarrow> u256 \<Rightarrow> unit vr" where
  "verify_settlement_layer V v chain_id =
     (if is_stage (env v) \<and> chain_id = ucast STAGE_SEPOLIA_NON_MIGRATED_ERA_CHAIN_ID then report_ok
      else expect_read (Bridgehub_settlementLayer V (bridgehub_address v) chain_id) (ucast (expected_l1_chain_id v)))"

definition verify_v31_chain_settlement_layers :: "l1_views \<Rightarrow> verifiers \<Rightarrow> unit vr" where
  "verify_v31_chain_settlement_layers V v =
     (case Bridgehub_getAllZKChainChainIDs (l1_provider (network v)) (bridgehub_address v) of
        Some chain_ids \<Rightarrow> forM (verify_settlement_layer V v) chain_ids
      | None \<Rightarrow> report_error)"

subsection \<open>The element\<close>

definition verify_v31_artifact_state ::
    "ext \<Rightarrow> l1_views \<Rightarrow> ecosystem_upgrade_artifact \<Rightarrow> verifiers \<Rightarrow> address \<Rightarrow> unit res vr" where
  "verify_v31_artifact_state E V artifact v create2_factory =
     tryM (liftM print_info) (\<lambda>_.
     tryM (liftM (verify_l1_chain_id v)) (\<lambda>_.
     tryM (expect_deployed_bytecode E v create2_factory ''Create2Factory'' False) (\<lambda>_.
     tryM (verify_v31_proxy_admins E artifact v) (\<lambda>_.
     tryM (verify_v31_core_wiring E V artifact v) (\<lambda>_.
     tryM (verify_v31_validator_timelocks E V artifact v) (\<lambda>_.
     tryM (verify_v31_rollup_da_managers E V artifact v) (\<lambda>_.
     tryM (verify_v31_zksync_os_verifier_ownership E V artifact v) (\<lambda>_.
     tryM (liftM (verify_v31_era_fee_params V v)) (\<lambda>_.
     tryM (verify_v31_timer_admin_state E V artifact v) (\<lambda>_.
     tryM (verify_v31_ctm_permissionless_validator E V artifact) (\<lambda>_.
     tryM (verify_v31_ctm_flavor E artifact v) (\<lambda>_.
     liftM (verify_v31_chain_settlement_layers V v)))))))))))))"

section \<open>The live states that pass\<close>

lemma required_in_value_iff: "required_address_in_value E v path = Inr a \<longleftrightarrow> address_at E v path = Some a"
  by (auto simp: required_address_in_value_def address_at_def bind_eq_Some_conv)

lemma need_simps [simp]:
  "(\<And>a. writer (f a)) \<Longrightarrow> writer (need_core E artifact p f)"
  "(\<And>a. writer (f a)) \<Longrightarrow> writer (need_ctm E ctm p f)"
  "(\<And>a. writer (f a)) \<Longrightarrow> yields (need_core E artifact p f) r
    \<longleftrightarrow> (\<exists>a. address_at E (core artifact) p = Some a \<and> yields (f a) r)"
  "(\<And>a. writer (f a)) \<Longrightarrow> yields (need_ctm E ctm p f) r
    \<longleftrightarrow> (\<exists>a. address_at E (ctm_value ctm) p = Some a \<and> yields (f a) r)"
  by (simp_all add: need_core_def need_ctm_def flip: required_in_value_iff)

lemma yields_deployed_bytecode: "yields (expect_deployed_bytecode E v a f t) () \<longleftrightarrow> deployed_ok E v a f t"
  using deployed_bytecode_iff [of E v a f t] by (simp add: yields_def)

text \<open>
  The admin slot holds the admin, as far as it can be read: a failed read of the slot (and a
  proxy the address book does not name) only warns.
\<close>

definition admin_ok :: "verifiers \<Rightarrow> address \<Rightarrow> address \<Rightarrow> bool" where
  "admin_ok v proxy adm \<longleftrightarrow> (\<forall>w. get_storage_at (l1_provider (network v)) proxy EIP1967_PROXY_ADMIN_SLOT = Some w
     \<longrightarrow> address_of_hash w = adm)"

lemma proxy_admin_simps [simp]:
  "writer (check_proxy_admin v p a)" "clean (check_proxy_admin v p a) \<longleftrightarrow> admin_ok v p a"
  by (auto simp: check_proxy_admin_def admin_ok_def split: option.splits)

lemma core_proxy_admin_simps [simp]:
  "writer (check_core_proxy_admin v a n)"
  "clean (check_core_proxy_admin v a n) \<longleftrightarrow> (\<forall>p. get_by_name (address_book v) n = Some p \<longrightarrow> admin_ok v p a)"
  by (auto simp: check_core_proxy_admin_def get_by_name_def split: option.splits)

definition proxy_admins_ok :: "ext \<Rightarrow> ecosystem_upgrade_artifact \<Rightarrow> verifiers \<Rightarrow> bool" where
  "proxy_admins_ok E artifact v \<longleftrightarrow>
     (\<exists>adm. address_at E (core artifact) [''upgrade_addresses'', ''shared'', ''transparent_proxy_admin''] = Some adm
        \<and> deployed_ok E v adm ''TransparentProxyAdmin'' True
        \<and> (\<forall>n \<in> set CORE_PROXIES_UNDER_TRANSPARENT_PROXY_ADMIN. \<forall>p.
             get_by_name (address_book v) n = Some p \<longrightarrow> admin_ok v p adm))
     \<and> (\<forall>ctm \<in> set (ctms artifact).
          \<exists>adm. address_at E (ctm_value ctm) [''deployed_addresses'', ''transparent_proxy_admin''] = Some adm
          \<and> (\<forall>k \<in> {''chain_type_manager_proxy'', ''validator_timelock_addr'', ''bytecodes_supplier_addr'',
                ''permissionless_validator_addr''}.
               \<exists>p. address_at E (ctm_value ctm) [''state_transition'', k] = Some p \<and> admin_ok v p adm))"

lemma ctm_proxy_admins_simps [simp]:
  "writer (check_ctm_proxy_admins E v ctm)"
  "yields (check_ctm_proxy_admins E v ctm) () \<longleftrightarrow>
     (\<exists>adm. address_at E (ctm_value ctm) [''deployed_addresses'', ''transparent_proxy_admin''] = Some adm
          \<and> (\<forall>k \<in> {''chain_type_manager_proxy'', ''validator_timelock_addr'', ''bytecodes_supplier_addr'',
                ''permissionless_validator_addr''}.
               \<exists>p. address_at E (ctm_value ctm) [''state_transition'', k] = Some p \<and> admin_ok v p adm))"
proof -
  have w: "writer (need_ctm E ctm [''state_transition'', k] (\<lambda>p. liftM (check_proxy_admin v p adm)))" for k adm
    by simp
  show "writer (check_ctm_proxy_admins E v ctm)"
    unfolding check_ctm_proxy_admins_def by (intro need_simps(2) writer_forTM w)
  show "yields (check_ctm_proxy_admins E v ctm) () \<longleftrightarrow>
     (\<exists>adm. address_at E (ctm_value ctm) [''deployed_addresses'', ''transparent_proxy_admin''] = Some adm
          \<and> (\<forall>k \<in> {''chain_type_manager_proxy'', ''validator_timelock_addr'', ''bytecodes_supplier_addr'',
                ''permissionless_validator_addr''}.
               \<exists>p. address_at E (ctm_value ctm) [''state_transition'', k] = Some p \<and> admin_ok v p adm))"
    unfolding check_ctm_proxy_admins_def
    by (subst need_simps(4)) (simp_all add: w yields_forTM [OF w] del: forTM.simps)
qed

lemma proxy_admins_simps [simp]:
  "writer (verify_v31_proxy_admins E artifact v)"
  "yields (verify_v31_proxy_admins E artifact v) () \<longleftrightarrow> proxy_admins_ok E artifact v"
  unfolding verify_v31_proxy_admins_def proxy_admins_ok_def
  by (auto simp: yields_deployed_bytecode)

text \<open>The wiring of the core contracts.\<close>

definition wiring_ok :: "l1_views \<Rightarrow> verifiers \<Rightarrow> core_expected \<Rightarrow> bool" where
  "wiring_ok V v x \<longleftrightarrow> (let bh = bridgehub_address v; gov = Some (bridgehub_owner v); l1 = l1_provider (network v) in
     Bridgehub_assetRouter V bh = Some (exp_asset_router x) \<and> Bridgehub_sharedBridge V bh = Some (exp_asset_router x)
     \<and> Bridgehub_l1CtmDeployer V bh = Some (exp_ctm_deployment_tracker x)
     \<and> view_owner V (exp_asset_router x) = gov
     \<and> L1AssetRouter_ERA_CHAIN_ID V (exp_asset_router x) = Some (ucast (legacy_era_chain_id v))
     \<and> L1AssetRouter_legacyBridge V (exp_asset_router x) = Some (exp_legacy_bridge x)
     \<and> L1AssetRouter_nativeTokenVault V (exp_asset_router x) = Some (exp_ntv x)
     \<and> L1NativeTokenVault_bridgedTokenBeacon V (exp_ntv x) = Some (exp_bridged_token_beacon x)
     \<and> exp_bridged_token_beacon x \<noteq> 0 \<and> view_owner V (exp_bridged_token_beacon x) = gov
     \<and> L1AssetTracker_BRIDGE_HUB V (exp_tracker x) = Some bh \<and> pendingOwner l1 (exp_tracker x) = gov
     \<and> ChainRegistrationSender_BRIDGE_HUB V (exp_chain_registration_sender x) = Some bh
     \<and> pendingOwner l1 (exp_chain_registration_sender x) = gov
     \<and> Bridgehub_chainAssetHandler V bh = Some (exp_chain_asset_handler x)
     \<and> L1AssetTracker_chainAssetHandler V (exp_tracker x) = Some (exp_chain_asset_handler x)
     \<and> Bridgehub_messageRoot V bh = Some (exp_message_root x)
     \<and> view_owner V (exp_chain_asset_handler x) = gov)"

lemma wiring_parts [simp]:
  "writer (check_bridged_token_beacon V v x)" "writer (check_chain_asset_handler V v x)"
  "clean (check_bridged_token_beacon V v x) \<longleftrightarrow>
     L1NativeTokenVault_bridgedTokenBeacon V (exp_ntv x) = Some (exp_bridged_token_beacon x)
     \<and> exp_bridged_token_beacon x \<noteq> 0 \<and> view_owner V (exp_bridged_token_beacon x) = Some (bridgehub_owner v)"
  "clean (check_chain_asset_handler V v x) \<longleftrightarrow>
     Bridgehub_chainAssetHandler V (bridgehub_address v) = Some (exp_chain_asset_handler x)
     \<and> L1AssetTracker_chainAssetHandler V (exp_tracker x) = Some (exp_chain_asset_handler x)"
  by (auto simp: check_bridged_token_beacon_def check_chain_asset_handler_def split: option.splits)

lemma core_wiring_simps [simp]:
  "writer (core_wiring_checks V v x)" "clean (core_wiring_checks V v x) \<longleftrightarrow> wiring_ok V v x"
  by (auto simp: core_wiring_checks_def wiring_ok_def Let_def)

lemma yields_core_wiring [simp]:
  "writer (verify_v31_core_wiring E V artifact v)"
  "yields (verify_v31_core_wiring E V artifact v) ()
    \<longleftrightarrow> (\<exists>x. core_expected_of E artifact = Inr x \<and> wiring_ok V v x)"
  by (simp_all add: verify_v31_core_wiring_def)

text \<open>Ownership, per CTM section.\<close>

definition owned_by :: "l1_views \<Rightarrow> verifiers \<Rightarrow> address \<Rightarrow> address \<Rightarrow> bool" where
  "owned_by V v a gov \<longleftrightarrow> view_owner V a = Some gov
     \<or> view_owner V a \<noteq> None \<and> pendingOwner (l1_provider (network v)) a = Some gov"

lemma owner_or_pending_simps [simp]:
  "writer (check_owner_or_pending V v a gov)" "clean (check_owner_or_pending V v a gov) \<longleftrightarrow> owned_by V v a gov"
  by (auto simp: check_owner_or_pending_def owned_by_def split: option.splits)

definition timelock_ok :: "ext \<Rightarrow> l1_views \<Rightarrow> verifiers \<Rightarrow> ctm_artifact \<Rightarrow> bool" where
  "timelock_ok E V v ctm \<longleftrightarrow> (\<exists>tl proxy gov.
     address_at E (ctm_value ctm) [''state_transition'', ''validator_timelock_addr''] = Some tl
     \<and> address_at E (ctm_value ctm) [''state_transition'', ''chain_type_manager_proxy''] = Some proxy
     \<and> address_at E (ctm_value ctm) TIMER_GOVERNANCE = Some gov
     \<and> ChainTypeManager_validatorTimelockPostV29 V proxy = Some tl
     \<and> owned_by V v tl gov
     \<and> ValidatorTimelock_executionDelay V tl = Some (if is_testnet (ctm_contracts_config ctm) then 0 else 10800))"

lemma ctm_timelock_simps [simp]:
  "writer (verify_ctm_timelock E V v ctm)" "yields (verify_ctm_timelock E V v ctm) () \<longleftrightarrow> timelock_ok E V v ctm"
  by (auto simp: verify_ctm_timelock_def timelock_ok_def Let_def
      TESTNET_VALIDATOR_TIMELOCK_EXECUTION_DELAY_SECONDS_def MAINNET_VALIDATOR_TIMELOCK_EXECUTION_DELAY_SECONDS_def)

definition ctm_owned :: "ext \<Rightarrow> l1_views \<Rightarrow> verifiers \<Rightarrow> string list \<Rightarrow> ctm_artifact \<Rightarrow> bool" where
  "ctm_owned E V v path ctm \<longleftrightarrow> (\<exists>a gov. address_at E (ctm_value ctm) path = Some a
     \<and> address_at E (ctm_value ctm) TIMER_GOVERNANCE = Some gov \<and> owned_by V v a gov)"

lemma ctm_owned_simps [simp]:
  "writer (verify_ctm_owned E V v path ctm)" "yields (verify_ctm_owned E V v path ctm) () \<longleftrightarrow> ctm_owned E V v path ctm"
  by (auto simp: verify_ctm_owned_def ctm_owned_def)

definition ctm_admin_ok :: "ext \<Rightarrow> l1_views \<Rightarrow> verifiers \<Rightarrow> ctm_artifact \<Rightarrow> bool" where
  "ctm_admin_ok E V v ctm \<longleftrightarrow> (\<exists>ecosystem_admin proxy.
     address_at E (ctm_value ctm) TIMER_GOVERNANCE = Some (bridgehub_owner v)
     \<and> address_at E (ctm_value ctm) [''admin'', ''ecosystem_admin_addr''] = Some ecosystem_admin
     \<and> address_at E (ctm_value ctm) [''state_transition'', ''chain_type_manager_proxy''] = Some proxy
     \<and> view_owner V proxy = Some ecosystem_admin)"

lemma ctm_admin_simps [simp]:
  "writer (verify_ctm_admin_state E V v ctm)" "yields (verify_ctm_admin_state E V v ctm) () \<longleftrightarrow> ctm_admin_ok E V v ctm"
  by (auto simp: verify_ctm_admin_state_def ctm_admin_ok_def)

definition ctm_implementation_ok :: "ext \<Rightarrow> l1_views \<Rightarrow> verifiers \<Rightarrow> ctm_artifact \<Rightarrow> bool" where
  "ctm_implementation_ok E V v ctm \<longleftrightarrow> (\<exists>impl validator.
     address_at E (ctm_value ctm) CTM_IMPLEMENTATION = Some impl
     \<and> address_at E (ctm_value ctm) [''state_transition'', ''permissionless_validator_addr''] = Some validator
     \<and> validator \<noteq> 0 \<and> ChainTypeManager_PERMISSIONLESS_VALIDATOR V impl = Some validator
     \<and> ChainTypeManager_isZKsyncOS (l1_provider (network v)) impl = Some (flavor ctm = ZksyncOs))"

lemma ctm_implementation_simps [simp]:
  "writer (verify_ctm_permissionless E V ctm)" "writer (verify_ctm_flavor E v ctm)"
  "yields (verify_ctm_permissionless E V ctm) () \<and> yields (verify_ctm_flavor E v ctm) ()
    \<longleftrightarrow> ctm_implementation_ok E V v ctm"
  by (auto simp: verify_ctm_permissionless_def verify_ctm_flavor_def ctm_implementation_ok_def split: if_splits)

text \<open>Era's fee parameters and every chain's settlement layer.\<close>

definition era_fees_ok :: "l1_views \<Rightarrow> verifiers \<Rightarrow> bool" where
  "era_fees_ok V v \<longleftrightarrow> (\<exists>diamond raw.
     Bridgehub_getZKChain (l1_provider (network v)) (bridgehub_address v) (ucast (registered_era_chain_id v)) = Some diamond
     \<and> diamond \<noteq> 0
     \<and> get_storage_at (l1_provider (network v)) diamond 38 = Some raw
     \<and> decode_storage_word raw = Inr (fee_param_verifier v)
     \<and> ZKChain_getPriorityTxMaxGasLimit V diamond = Some 72000000)"

lemma fee_params_simps [simp]:
  "writer (expect_fee_params_eq a b)" "clean (expect_fee_params_eq a b) \<longleftrightarrow> a = b"
  by (auto simp: expect_fee_params_eq_def intro: fee_params.equality)

lemma era_fees_simps [simp]:
  "writer (verify_v31_era_fee_params V v)" "clean (verify_v31_era_fee_params V v) \<longleftrightarrow> era_fees_ok V v"
  by (auto simp: verify_v31_era_fee_params_def era_fees_ok_def try_get_chain_diamond_from_bridgehub_def ok_or_def
      MAX_PRIORITY_TX_GAS_LIMIT_def FEE_PARAMS_STORAGE_SLOT_def split: option.splits sum.splits if_splits)

definition settles_on_l1 :: "l1_views \<Rightarrow> verifiers \<Rightarrow> bool" where
  "settles_on_l1 V v \<longleftrightarrow> (\<exists>ids. Bridgehub_getAllZKChainChainIDs (l1_provider (network v)) (bridgehub_address v) = Some ids
     \<and> (\<forall>i \<in> set ids. env v = Stage \<and> i = 270
          \<or> Bridgehub_settlementLayer V (bridgehub_address v) i = Some (ucast (expected_l1_chain_id v))))"

lemma settlement_simps [simp]:
  "writer (verify_v31_chain_settlement_layers V v)" "clean (verify_v31_chain_settlement_layers V v) \<longleftrightarrow> settles_on_l1 V v"
proof -
  have [simp]: "writer (verify_settlement_layer V v i)" for i
    by (simp add: verify_settlement_layer_def)
  have [simp]: "clean (verify_settlement_layer V v i) \<longleftrightarrow> env v = Stage \<and> i = 270
      \<or> Bridgehub_settlementLayer V (bridgehub_address v) i = Some (ucast (expected_l1_chain_id v))" for i
    by (auto simp: verify_settlement_layer_def is_stage_def STAGE_SEPOLIA_NON_MIGRATED_ERA_CHAIN_ID_def)
  show "writer (verify_v31_chain_settlement_layers V v)" "clean (verify_v31_chain_settlement_layers V v) \<longleftrightarrow> settles_on_l1 V v"
    by (auto simp: verify_v31_chain_settlement_layers_def settles_on_l1_def split: option.splits)
qed

lemma verify_l1_chain_id_simps [simp]:
  "writer (verify_l1_chain_id v)"
  "clean (verify_l1_chain_id v) \<longleftrightarrow> get_chain_id (l1_provider (network v)) = Some (expected_l1_chain_id v)"
  by (auto simp: verify_l1_chain_id_def try_get_l1_chain_id_def ok_or_def split: option.splits)

definition rpc_state_ok ::
    "ext \<Rightarrow> l1_views \<Rightarrow> ecosystem_upgrade_artifact \<Rightarrow> verifiers \<Rightarrow> address \<Rightarrow> bool" where
  "rpc_state_ok E V artifact v factory \<longleftrightarrow>
     get_chain_id (l1_provider (network v)) = Some (expected_l1_chain_id v)
     \<and> deployed_ok E v factory ''Create2Factory'' False
     \<and> proxy_admins_ok E artifact v
     \<and> (\<exists>x. core_expected_of E artifact = Inr x \<and> wiring_ok V v x)
     \<and> (\<forall>ctm \<in> set (ctms artifact). timelock_ok E V v ctm
          \<and> ctm_owned E V v [''deployed_addresses'', ''l1_rollup_da_manager''] ctm
          \<and> (flavor ctm = ZksyncOs \<longrightarrow> ctm_owned E V v [''state_transition'', ''verifier_addr''] ctm)
          \<and> ctm_admin_ok E V v ctm \<and> ctm_implementation_ok E V v ctm)
     \<and> era_fees_ok V v \<and> settles_on_l1 V v"

lemma per_ctm_simps [simp]:
  "writer (verify_v31_validator_timelocks E V artifact v)" "writer (verify_v31_rollup_da_managers E V artifact v)"
  "writer (verify_v31_zksync_os_verifier_ownership E V artifact v)" "writer (verify_v31_timer_admin_state E V artifact v)"
  "writer (verify_v31_ctm_permissionless_validator E V artifact)" "writer (verify_v31_ctm_flavor E artifact v)"
  by (simp_all add: verify_v31_validator_timelocks_def verify_v31_rollup_da_managers_def
      verify_v31_zksync_os_verifier_ownership_def verify_v31_timer_admin_state_def
      verify_v31_ctm_permissionless_validator_def verify_v31_ctm_flavor_def)

lemma writer_artifact_state [simp, writer_intros]: "writer (verify_v31_artifact_state E V artifact v factory)"
  by (simp add: verify_v31_artifact_state_def)

lemma yields_artifact_state:
  "yields (verify_v31_artifact_state E V artifact v factory) () \<longleftrightarrow> rpc_state_ok E V artifact v factory"
proof -
  have "yields (verify_v31_artifact_state E V artifact v factory) () \<longleftrightarrow>
      get_chain_id (l1_provider (network v)) = Some (expected_l1_chain_id v)
      \<and> deployed_ok E v factory ''Create2Factory'' False \<and> proxy_admins_ok E artifact v
      \<and> (\<exists>x. core_expected_of E artifact = Inr x \<and> wiring_ok V v x)
      \<and> (\<forall>ctm \<in> set (ctms artifact). timelock_ok E V v ctm)
      \<and> (\<forall>ctm \<in> set (ctms artifact). ctm_owned E V v [''deployed_addresses'', ''l1_rollup_da_manager''] ctm)
      \<and> (\<forall>ctm \<in> set (ctms artifact). flavor ctm = ZksyncOs \<longrightarrow> ctm_owned E V v [''state_transition'', ''verifier_addr''] ctm)
      \<and> era_fees_ok V v
      \<and> (\<forall>ctm \<in> set (ctms artifact). ctm_admin_ok E V v ctm)
      \<and> (\<forall>ctm \<in> set (ctms artifact). yields (verify_ctm_permissionless E V ctm) ())
      \<and> (\<forall>ctm \<in> set (ctms artifact). yields (verify_ctm_flavor E v ctm) ())
      \<and> settles_on_l1 V v"
    unfolding verify_v31_artifact_state_def
    by (simp add: yields_deployed_bytecode verify_v31_validator_timelocks_def verify_v31_rollup_da_managers_def
      verify_v31_zksync_os_verifier_ownership_def verify_v31_timer_admin_state_def
      verify_v31_ctm_permissionless_validator_def verify_v31_ctm_flavor_def
      if_distrib [of "\<lambda>m. yields m ()"] if_bool_eq_conj cong: if_cong)
  then show ?thesis
    unfolding rpc_state_ok_def using ctm_implementation_simps(3) [of E V _ v] by blast
qed

end
