(* ===== verification/Provenance.thy ===== *)
theory Provenance
  imports Rpc_State Chain_Init Facet_Cuts Constants
begin

section \<open>Deployment provenance\<close>

text \<open>
  \<^verbatim>\<open>v31/elements/deployed_addresses.rs\<close>: every contract the upgrade deploys must appear in the
  provenance maps with the expected file and the expected constructor arguments. The arguments
  come from the artifact, from the live contracts and from constants. The lemmas turn each group
  (core, per CTM, new Gateway, ZK governance) into the list of deployments it requires.
\<close>

subsection \<open>Constructors\<close>

text \<open>
  The \<^verbatim>\<open>sol!\<close> declarations, one constructor of the datatype per contract; \<open>encode_ctor\<close> is
  the generated \<^verbatim>\<open>abi_encode\<close>.
\<close>

datatype ctor_call =
    V31L1Bridgehub address u256
  | V31L1NativeTokenVault address address address
  | V31L1AssetRouter address address address u256 address
  | V31L1Nullifier address address u256 address
  | V31L1MessageRoot address u256 address
  | V31L1AssetTracker address address address
  | V31L1ChainAssetHandler address address
  | V31CTMDeploymentTracker address address
  | V31ChainRegistrationSender address
  | V31AdminFacet u256 address
  | V31ExecutorFacet u256
  | V31CommitterFacet u256
  | V31MailboxFacet u256 u256 address address bool
  | V31MigratorFacet u256 bool
  | V31ChainTypeManager address address address address
  | V31DualVerifier address address
  | V31ZKsyncOSDualVerifier address address address
  | V31GovernanceUpgradeTimer u256 u256 address address
  | V31UpgradeStageValidator address u256
  | V31ValidatorTimelock address
  | V31ProtocolUpgradeHandler address address address address address address address address u256
  | V31Guardians address address u256 "address list"
  | V31SecurityCouncil address "address list"
  | V31EmergencyUpgradeBoard address address address address

record gateway_facets =
  gf_admin :: address
  gf_mailbox :: address
  gf_executor :: address
  gf_getters :: address
  gf_migrator :: address
  gf_committer :: address
  gf_diamondInit :: address

record gateway_ctm_final_config =
  gc_aliasedGovernanceAddress :: address
  gc_salt :: b256
  gc_eraChainId :: u256
  gc_l1ChainId :: u256
  gc_testnetVerifier :: bool
  gc_isZKsyncOS :: bool
  gc_adminSelectors :: "selector list"
  gc_executorSelectors :: "selector list"
  gc_mailboxSelectors :: "selector list"
  gc_gettersSelectors :: "selector list"
  gc_migratorSelectors :: "selector list"
  gc_committerSelectors :: "selector list"
  gc_bootloaderHash :: b256
  gc_defaultAccountHash :: b256
  gc_evmEmulatorHash :: b256
  gc_genesisRoot :: b256
  gc_genesisRollupLeafIndex :: u256
  gc_genesisBatchCommitment :: b256
  gc_forceDeploymentsData :: bytes
  gc_protocolVersion :: u256
  gc_chainTypeManagerProxyAdmin :: address
  gc_validatorTimelockProxy :: address
  gc_facets :: gateway_facets
  gc_genesisUpgrade :: address
  gc_verifier :: address

datatype gateway_config =
    GatewayDADeployerConfig b256 address
  | GatewayProxyAdminDeployerConfig b256 address
  | GatewayValidatorTimelockDeployerConfig b256 address address
  | GatewayVerifiersDeployerConfig b256 address bool bool
  | GatewayCTMFinalConfig gateway_ctm_final_config

record gateway_ctm_final_result =
  serverNotifierImplementation :: address
  serverNotifierProxy :: address
  chainTypeManagerImplementation :: address
  chainTypeManagerProxy :: address
  diamondCutData :: bytes

text \<open>
  Generated or third-party: the encoders and decoders, the parser of a 32-byte hex string and
  the iteration order of a \<^verbatim>\<open>HashMap\<close>, which the standard library leaves unspecified.
\<close>

record provenance_abi =
  encode_ctor :: "ctor_call \<Rightarrow> bytes"
  encode_initialize_address :: "address \<Rightarrow> bytes"
  encode_initialize :: bytes
  encode_gateway_config :: "gateway_config \<Rightarrow> bytes"
  decode_gateway_DiamondCutData :: "bytes \<Rightarrow> diamond_cut_data_call option"
  decode_gateway_InitializeDataNewChain :: "bytes \<Rightarrow> initialize_data_new_chain option"
  b256_from_hex :: "string \<Rightarrow> b256 option"
  hash_map_iter :: "(address \<Rightarrow> string option) \<Rightarrow> address list"

text \<open>The \<^verbatim>\<open>getResult\<close> views of the deployers on the Gateway; of the first four one address is used.\<close>

record gw_views =
  DA_getResult_rollupDAManager :: "address \<Rightarrow> address option"
  ProxyAdmin_getResult_chainTypeManagerProxyAdmin :: "address \<Rightarrow> address option"
  ValidatorTimelock_getResult_validatorTimelockProxy :: "address \<Rightarrow> address option"
  Verifiers_getResult_verifier :: "address \<Rightarrow> address option"
  CTM_getResult :: "address \<Rightarrow> gateway_ctm_final_result option"

definition GOVERNANCE_TIMER_MAX_ADDITIONAL_DELAY_SECONDS :: u64 where
  "GOVERNANCE_TIMER_MAX_ADDITIONAL_DELAY_SECONDS = 14 * 24 * 60 * 60"

definition EXPECTED_GUARDIANS_MEMBER_COUNT :: nat where
  "EXPECTED_GUARDIANS_MEMBER_COUNT = 8"

definition EXPECTED_SECURITY_COUNCIL_MEMBER_COUNT :: nat where
  "EXPECTED_SECURITY_COUNCIL_MEMBER_COUNT = 8"

definition ZK_GOVERNANCE_PUH_FILE :: string where
  "ZK_GOVERNANCE_PUH_FILE = ''l1-contracts/ProtocolUpgradeHandler''"

definition ZK_GOVERNANCE_TESTNET_PUH_FILE :: string where
  "ZK_GOVERNANCE_TESTNET_PUH_FILE = ''l1-contracts/TestnetProtocolUpgradeHandler''"

definition ZK_GOVERNANCE_GUARDIANS_FILE :: string where
  "ZK_GOVERNANCE_GUARDIANS_FILE = ''l1-contracts/Guardians''"

definition ZK_GOVERNANCE_SECURITY_COUNCIL_FILE :: string where
  "ZK_GOVERNANCE_SECURITY_COUNCIL_FILE = ''l1-contracts/SecurityCouncil''"

definition ZK_GOVERNANCE_EMERGENCY_BOARD_FILE :: string where
  "ZK_GOVERNANCE_EMERGENCY_BOARD_FILE = ''l1-contracts/EmergencyUpgradeBoard''"

text \<open>The dispatch tables: an address, its encoded constructor arguments, its file.\<close>

type_synonym deployment_check = "address \<times> bytes \<times> string"

definition expect_all :: "verifiers \<Rightarrow> deployment_check list \<Rightarrow> unit res vr" where
  "expect_all v checks = forTM (\<lambda>(a, args, fname). expect_create2_params v a args fname) checks"

subsection \<open>Core\<close>

record core_provenance_context =
  ctx_bridgehub_addr :: address
  ctx_asset_router_proxy :: address
  ctx_weth :: address
  ctx_nullifier :: address
  ctx_ntv_proxy :: address
  ctx_era_diamond_proxy :: address
  ctx_governance :: address

record core_deployed =
  cd_chain_asset_handler_impl :: address
  cd_chain_asset_handler_proxy :: address
  cd_message_root_impl :: address
  cd_message_root_proxy :: address
  cd_ntv_impl :: address
  cd_ctmdt_impl :: address
  cd_tracker_impl :: address
  cd_tracker_proxy :: address
  cd_asset_router_impl :: address
  cd_nullifier_impl :: address
  cd_bridgehub_impl :: address
  cd_crs_impl :: address
  cd_crs_proxy :: address
  cd_deployer :: address
  cd_core_proxy_admin :: address

definition core_deployed_of :: "ext \<Rightarrow> ecosystem_upgrade_artifact \<Rightarrow> core_deployed res" where
  "core_deployed_of E artifact =
     (let in_bh = (\<lambda>k. required_address_in_value E (core artifact) [''upgrade_addresses'', ''bridgehub'', k]);
          in_bridges = (\<lambda>k. required_address_in_value E (core artifact) [''upgrade_addresses'', ''bridges'', k]) in
     bind_res (in_bh ''chain_asset_handler_implementation_addr'') (\<lambda>a1.
     bind_res (in_bh ''chain_asset_handler_proxy_addr'') (\<lambda>a2.
     bind_res (in_bh ''message_root_implementation_addr'') (\<lambda>a3.
     bind_res (in_bh ''message_root_proxy_addr'') (\<lambda>a4.
     bind_res (required_address_in_value E (core artifact)
       [''upgrade_addresses'', ''native_token_vault_implementation_addr'']) (\<lambda>a5.
     bind_res (in_bh ''ctm_deployment_tracker_implementation_addr'') (\<lambda>a6.
     bind_res (in_bh ''l1_asset_tracker_implementation_addr'') (\<lambda>a7.
     bind_res (in_bh ''l1_asset_tracker_proxy_addr'') (\<lambda>a8.
     bind_res (in_bridges ''l1_asset_router_implementation_addr'') (\<lambda>a9.
     bind_res (in_bridges ''l1_nullifier_implementation_addr'') (\<lambda>a10.
     bind_res (in_bh ''bridgehub_implementation_addr'') (\<lambda>a11.
     bind_res (in_bh ''chain_registration_sender_implementation_addr'') (\<lambda>a12.
     bind_res (in_bh ''chain_registration_sender_proxy_addr'') (\<lambda>a13.
     bind_res (required_address_in_value E (misc artifact) [''deployer_addr'']) (\<lambda>a14.
     bind_res (required_address_in_value E (core artifact)
       [''upgrade_addresses'', ''shared'', ''transparent_proxy_admin'']) (\<lambda>a15.
     Inr \<lparr>cd_chain_asset_handler_impl = a1, cd_chain_asset_handler_proxy = a2, cd_message_root_impl = a3,
       cd_message_root_proxy = a4, cd_ntv_impl = a5, cd_ctmdt_impl = a6, cd_tracker_impl = a7, cd_tracker_proxy = a8,
       cd_asset_router_impl = a9, cd_nullifier_impl = a10, cd_bridgehub_impl = a11, cd_crs_impl = a12,
       cd_crs_proxy = a13, cd_deployer = a14, cd_core_proxy_admin = a15\<rparr>))))))))))))))))"

definition message_root_file :: "verifiers \<Rightarrow> string" where
  "message_root_file v = (if is_stage (env v) then ''l1-contracts/L1MessageRootStageSepolia''
     else ''l1-contracts/L1MessageRoot'')"

definition tracker_ctor :: "core_provenance_context \<Rightarrow> core_deployed \<Rightarrow> ctor_call" where
  "tracker_ctor c d = V31L1AssetTracker (ctx_bridgehub_addr c) (ctx_ntv_proxy c) (cd_message_root_proxy d)"

definition core_checks ::
    "provenance_abi \<Rightarrow> verifiers \<Rightarrow> u64 \<Rightarrow> u64 \<Rightarrow> core_provenance_context \<Rightarrow> core_deployed \<Rightarrow> deployment_check list" where
  "core_checks B v era_id legacy_gw c d =
     [(cd_chain_asset_handler_impl d, encode_ctor B (V31L1ChainAssetHandler (ctx_governance c) (ctx_bridgehub_addr c)),
        ''l1-contracts/L1ChainAssetHandler''),
      (cd_message_root_impl d, encode_ctor B (V31L1MessageRoot (ctx_bridgehub_addr c) (ucast legacy_gw)
        (cd_chain_asset_handler_proxy d)), message_root_file v),
      (cd_ntv_impl d, encode_ctor B (V31L1NativeTokenVault (ctx_weth c) (ctx_asset_router_proxy c) (ctx_nullifier c)),
        ''l1-contracts/L1NativeTokenVault''),
      (cd_ctmdt_impl d, encode_ctor B (V31CTMDeploymentTracker (ctx_bridgehub_addr c) (ctx_asset_router_proxy c)),
        ''l1-contracts/CTMDeploymentTracker''),
      (cd_tracker_impl d, encode_ctor B (tracker_ctor c d), ''l1-contracts/L1AssetTracker''),
      (cd_asset_router_impl d, encode_ctor B (V31L1AssetRouter (ctx_weth c) (ctx_bridgehub_addr c) (ctx_nullifier c)
        (ucast era_id) (ctx_era_diamond_proxy c)), ''l1-contracts/L1AssetRouter''),
      (cd_nullifier_impl d, encode_ctor B (V31L1Nullifier (ctx_bridgehub_addr c) (cd_message_root_proxy d)
        (ucast era_id) (ctx_era_diamond_proxy c)), ''l1-contracts/L1Nullifier''),
      (cd_bridgehub_impl d, encode_ctor B (V31L1Bridgehub (ctx_governance c) (ucast MAX_NUMBER_OF_ZK_CHAINS)),
        ''l1-contracts/L1Bridgehub''),
      (cd_crs_impl d, encode_ctor B (V31ChainRegistrationSender (ctx_bridgehub_addr c)),
        ''l1-contracts/ChainRegistrationSender'')]"

definition verify_core_provenance ::
    "ext \<Rightarrow> abi \<Rightarrow> provenance_abi \<Rightarrow> ecosystem_upgrade_artifact \<Rightarrow> verifiers \<Rightarrow> u64 \<Rightarrow> u64 \<Rightarrow> core_provenance_context
      \<Rightarrow> unit res vr" where
  "verify_core_provenance E A B artifact v era_id legacy_gw c =
     tryM (liftM print_info) (\<lambda>_.
     tryM (State_Monad.return (core_deployed_of E artifact)) (\<lambda>d.
     tryM (expect_all v (core_checks B v era_id legacy_gw c d)) (\<lambda>_.
     tryM (expect_create2_params_proxy_with_bytecode A v (cd_tracker_proxy d)
       (encode_initialize_address B (cd_deployer d)) (cd_core_proxy_admin d)
       (encode_ctor B (tracker_ctor c d)) ''l1-contracts/L1AssetTracker'') (\<lambda>_.
     expect_create2_params_proxy_with_bytecode A v (cd_crs_proxy d)
       (encode_initialize_address B (cd_deployer d)) (cd_core_proxy_admin d)
       (encode_ctor B (V31ChainRegistrationSender (ctx_bridgehub_addr c))) ''l1-contracts/ChainRegistrationSender''))))"

subsection \<open>One CTM\<close>

definition base_no_args :: "ctm_flavor \<Rightarrow> (string list \<times> string) list" where
  "base_no_args fl =
     [([''state_transition'', ''genesis_upgrade_addr''], ''l1-contracts/L1GenesisUpgrade''),
      ([''state_transition'', ''getters_facet_addr''], ''l1-contracts/GettersFacet''),
      ([''state_transition'', ''default_upgrade_addr''], (case fl of
         Era \<Rightarrow> ''l1-contracts/EraSettlementLayerV31Upgrade''
       | ZksyncOs \<Rightarrow> ''l1-contracts/ZKsyncOSSettlementLayerV31Upgrade'')),
      ([''state_transition'', ''verifier_plonk_addr''], (case fl of
         Era \<Rightarrow> ''l1-contracts/EraVerifierPlonk'' | ZksyncOs \<Rightarrow> ''l1-contracts/ZKsyncOSVerifierPlonk'')),
      ([''state_transition'', ''verifier_fflonk_addr''], (case fl of
         Era \<Rightarrow> ''l1-contracts/EraVerifierFflonk'' | ZksyncOs \<Rightarrow> ''l1-contracts/ZKsyncOSVerifierFflonk'')),
      ([''state_transition'', ''server_notifier_implementation_addr''], ''l1-contracts/ServerNotifier''),
      ([''state_transition'', ''eip7702_checker_addr''], ''da-contracts/EIP7702Checker'')]"

definition verifier_file :: "verifiers \<Rightarrow> ctm_flavor \<Rightarrow> string" where
  "verifier_file v fl = (if \<not> is_mainnet (env v)
     then (case fl of Era \<Rightarrow> ''l1-contracts/EraTestnetVerifier'' | ZksyncOs \<Rightarrow> ''l1-contracts/ZKsyncOSTestnetVerifier'')
     else (case fl of Era \<Rightarrow> ''l1-contracts/EraDualVerifier'' | ZksyncOs \<Rightarrow> ''l1-contracts/ZKsyncOSDualVerifier''))"

text \<open>\<^verbatim>\<open>DiamondInit(bool)\<close>, written byte by byte in the code.\<close>

definition diamond_init_args :: "ctm_flavor \<Rightarrow> bytes" where
  "diamond_init_args fl = (replicate 32 0)[31 := (if fl = ZksyncOs then 1 else 0)]"

definition verifier_args ::
    "ext \<Rightarrow> provenance_abi \<Rightarrow> ecosystem_upgrade_artifact \<Rightarrow> ctm_flavor \<Rightarrow> address \<Rightarrow> address \<Rightarrow> bytes res" where
  "verifier_args E B artifact fl fflonk plonk = (case fl of
     ZksyncOs \<Rightarrow> bind_res (required_address_in_value E (misc artifact) [''deployer_addr'']) (\<lambda>initial_owner.
       Inr (encode_ctor B (V31ZKsyncOSDualVerifier fflonk plonk initial_owner)))
   | Era \<Rightarrow> Inr (encode_ctor B (V31DualVerifier fflonk plonk)))"

definition verify_ctm_base_provenance ::
    "ext \<Rightarrow> provenance_abi \<Rightarrow> ecosystem_upgrade_artifact \<Rightarrow> ctm_artifact \<Rightarrow> verifiers \<Rightarrow> u64 \<Rightarrow> unit res vr" where
  "verify_ctm_base_provenance E B artifact ctm v l1_id =
     tryM (forTM (\<lambda>(path, expected_file). need_ctm E ctm path (\<lambda>a. expect_create2_params v a [] expected_file))
       (base_no_args (flavor ctm))) (\<lambda>_.
     need_ctm E ctm [''state_transition'', ''diamond_init_addr''] (\<lambda>diamond_init.
     tryM (expect_create2_params v diamond_init (diamond_init_args (flavor ctm)) ''l1-contracts/DiamondInit'') (\<lambda>_.
     need_ctm E ctm [''state_transition'', ''executor_facet_addr''] (\<lambda>executor.
     tryM (expect_create2_params v executor (encode_ctor B (V31ExecutorFacet (ucast l1_id))) ''l1-contracts/ExecutorFacet'') (\<lambda>_.
     need_ctm E ctm [''state_transition'', ''admin_facet_addr''] (\<lambda>admin_facet.
     need_ctm E ctm [''deployed_addresses'', ''l1_rollup_da_manager''] (\<lambda>da_manager.
     tryM (expect_create2_params v admin_facet (encode_ctor B (V31AdminFacet (ucast l1_id) da_manager)) ''l1-contracts/AdminFacet'') (\<lambda>_.
     need_ctm E ctm [''state_transition'', ''verifier_addr''] (\<lambda>verifier.
     need_ctm E ctm [''state_transition'', ''verifier_fflonk_addr''] (\<lambda>fflonk.
     need_ctm E ctm [''state_transition'', ''verifier_plonk_addr''] (\<lambda>plonk.
     tryM (State_Monad.return (verifier_args E B artifact (flavor ctm) fflonk plonk)) (\<lambda>encoded.
     expect_create2_params v verifier encoded (verifier_file v (flavor ctm))))))))))))))"

record ctm_deployed =
  td_committer :: address
  td_mailbox :: address
  td_migrator :: address
  td_eip7702 :: address
  td_timer :: address
  td_ctm_proxy :: address
  td_stage_validator :: address
  td_timer_governance :: address
  td_ecosystem_admin :: address
  td_bytecodes_supplier :: address
  td_permissionless_validator :: address
  td_ctm_impl :: address
  td_validator_timelock_impl :: address
  td_transparent_proxy_admin :: address
  td_chain_asset_handler :: address

definition ctm_deployed_of :: "ext \<Rightarrow> ecosystem_upgrade_artifact \<Rightarrow> ctm_artifact \<Rightarrow> ctm_deployed res" where
  "ctm_deployed_of E artifact ctm =
     (let in_st = (\<lambda>k. required_address_in_value E (ctm_value ctm) [''state_transition'', k]);
          in_dep = (\<lambda>k. required_address_in_value E (ctm_value ctm) [''deployed_addresses'', k]) in
     bind_res (in_st ''committer_facet_addr'') (\<lambda>a1.
     bind_res (in_st ''mailbox_facet_addr'') (\<lambda>a2.
     bind_res (in_st ''migrator_facet_addr'') (\<lambda>a3.
     bind_res (in_st ''eip7702_checker_addr'') (\<lambda>a4.
     bind_res (in_dep ''l1_governance_upgrade_timer'') (\<lambda>a5.
     bind_res (in_st ''chain_type_manager_proxy'') (\<lambda>a6.
     bind_res (in_dep ''upgrade_stage_validator'') (\<lambda>a7.
     bind_res (required_address_in_value E (ctm_value ctm) TIMER_GOVERNANCE) (\<lambda>a8.
     bind_res (required_address_in_value E (ctm_value ctm) [''admin'', ''ecosystem_admin_addr'']) (\<lambda>a9.
     bind_res (in_st ''bytecodes_supplier_addr'') (\<lambda>a10.
     bind_res (in_st ''permissionless_validator_addr'') (\<lambda>a11.
     bind_res (in_st ''chain_type_manager_implementation_addr'') (\<lambda>a12.
     bind_res (in_st ''validator_timelock_implementation_addr'') (\<lambda>a13.
     bind_res (in_dep ''transparent_proxy_admin'') (\<lambda>a14.
     bind_res (required_address_in_value E (core artifact)
       [''upgrade_addresses'', ''bridgehub'', ''chain_asset_handler_proxy_addr'']) (\<lambda>a15.
     Inr \<lparr>td_committer = a1, td_mailbox = a2, td_migrator = a3, td_eip7702 = a4, td_timer = a5, td_ctm_proxy = a6,
       td_stage_validator = a7, td_timer_governance = a8, td_ecosystem_admin = a9, td_bytecodes_supplier = a10,
       td_permissionless_validator = a11, td_ctm_impl = a12, td_validator_timelock_impl = a13,
       td_transparent_proxy_admin = a14, td_chain_asset_handler = a15\<rparr>))))))))))))))))"

fun ctm_file :: "ctm_flavor \<Rightarrow> string" where
  "ctm_file Era = ''l1-contracts/EraChainTypeManager''"
| "ctm_file ZksyncOs = ''l1-contracts/ZKsyncOSChainTypeManager''"

fun validator_timelock_file :: "ctm_flavor \<Rightarrow> string" where
  "validator_timelock_file Era = ''l1-contracts/ValidatorTimelock''"
| "validator_timelock_file ZksyncOs = ''l1-contracts/MultisigCommitter''"

definition ctm_checks ::
    "provenance_abi \<Rightarrow> ctm_artifact \<Rightarrow> u64 \<Rightarrow> u64 \<Rightarrow> address \<Rightarrow> ctm_deployed \<Rightarrow> deployment_check list" where
  "ctm_checks B ctm era_id l1_id bridgehub d = (let cfg = ctm_contracts_config ctm in
     [(td_committer d, encode_ctor B (V31CommitterFacet (ucast l1_id)), ''l1-contracts/CommitterFacet''),
      (td_mailbox d, encode_ctor B (V31MailboxFacet (ucast era_id) (ucast l1_id) (td_chain_asset_handler d)
        (td_eip7702 d) (is_testnet cfg)), ''l1-contracts/MailboxFacet''),
      (td_migrator d, encode_ctor B (V31MigratorFacet (ucast l1_id) (is_testnet cfg)), ''l1-contracts/MigratorFacet''),
      (td_timer d, encode_ctor B (V31GovernanceUpgradeTimer (ucast (governance_upgrade_timer_initial_delay cfg))
        (ucast GOVERNANCE_TIMER_MAX_ADDITIONAL_DELAY_SECONDS) (td_timer_governance d) (td_ecosystem_admin d)),
        ''l1-contracts/GovernanceUpgradeTimer''),
      (td_stage_validator d, encode_ctor B (V31UpgradeStageValidator (td_ctm_proxy d) (ucast (new_protocol_version cfg))),
        ''l1-contracts/UpgradeStageValidator''),
      (td_ctm_impl d, encode_ctor B (V31ChainTypeManager bridgehub L2_INTEROP_CENTER_ADDR (td_bytecodes_supplier d)
        (td_permissionless_validator d)), ctm_file (flavor ctm)),
      (td_validator_timelock_impl d, encode_ctor B (V31ValidatorTimelock bridgehub),
        validator_timelock_file (flavor ctm))])"

definition verify_ctm_provenance ::
    "ext \<Rightarrow> abi \<Rightarrow> provenance_abi \<Rightarrow> ecosystem_upgrade_artifact \<Rightarrow> verifiers \<Rightarrow> u64 \<Rightarrow> u64 \<Rightarrow> core_provenance_context
      \<Rightarrow> ctm_artifact \<Rightarrow> unit res vr" where
  "verify_ctm_provenance E A B artifact v era_id l1_id c ctm =
     tryM (verify_ctm_base_provenance E B artifact ctm v l1_id) (\<lambda>_.
     tryM (liftM print_info) (\<lambda>_.
     tryM (State_Monad.return (ctm_deployed_of E artifact ctm)) (\<lambda>d.
     tryM (expect_all v (ctm_checks B ctm era_id l1_id (ctx_bridgehub_addr c) d)) (\<lambda>_.
     tryM (expect_create2_params_proxy_with_bytecode A v (td_bytecodes_supplier d) (encode_initialize B)
       (td_transparent_proxy_admin d) [] ''l1-contracts/BytecodesSupplier'') (\<lambda>_.
     expect_create2_params_proxy_with_bytecode A v (td_permissionless_validator d) (encode_initialize B)
       (td_transparent_proxy_admin d) [] ''l1-contracts/PermissionlessValidator'')))))"

subsection \<open>The CTM of the new Gateway\<close>

definition source_ctm_for_new_gateway :: "ext \<Rightarrow> ecosystem_upgrade_artifact \<Rightarrow> verifiers \<Rightarrow> ctm_artifact res" where
  "source_ctm_for_new_gateway E artifact v =
     bind_res (fold_res (\<lambda>ctm found. case found of
         Some c \<Rightarrow> Inr (Some c)
       | None \<Rightarrow> bind_res (required_address_in_value E (ctm_value ctm) [''state_transition'', ''chain_type_manager_proxy''])
           (\<lambda>ctm_proxy. Inr (if ctm_proxy = new_gateway_representative_ctm v then Some ctm else None)))
       (ctms artifact) None)
     (ok_or (Bail ''new Gateway representative CTM is not present''))"

text \<open>\<^verbatim>\<open>value.trim_start_matches("0x")\<close> removes every leading occurrence.\<close>

fun trim_start_0x :: "string \<Rightarrow> string" where
  "trim_start_0x (a # b # s) = (if a = CHR ''0'' \<and> b = CHR ''x'' then trim_start_0x s else a # b # s)"
| "trim_start_0x s = s"

definition hex_bytes :: "ext \<Rightarrow> string \<Rightarrow> bytes res" where
  "hex_bytes E value = ok_or (Bail ''must be 0x-prefixed hex'') (hex_decode E (trim_start_0x value))"

definition read_gateway_force_deployments_data :: "ext \<Rightarrow> new_gateway_artifact \<Rightarrow> bytes res" where
  "read_gateway_force_deployments_data E g =
     bind_res (ok_or (Bail ''force_deployments_data is required'') (do {
       gst \<leftarrow> toml_get (new_gateway_value g) ''gateway_state_transition'';
       t \<leftarrow> as_table gst;
       fd \<leftarrow> map_of t ''force_deployments_data'';
       as_str fd })) (hex_bytes E)"

definition decode_gateway_diamond_cut ::
    "ext \<Rightarrow> provenance_abi \<Rightarrow> new_gateway_artifact \<Rightarrow> (diamond_cut_data_call \<times> bytes) res" where
  "decode_gateway_diamond_cut E B g =
     bind_res (ok_or (Bail ''diamond_cut_data is required'') (string_field (new_gateway_value g) ''diamond_cut_data'')) (\<lambda>raw.
     bind_res (hex_bytes E raw) (\<lambda>bs.
     bind_res (ok_or (Bail ''decode new_gateway.diamond_cut_data'') (decode_gateway_DiamondCutData B bs)) (\<lambda>dcut.
     Inr (dcut, bs))))"

definition expect_zero_gateway_address :: "address \<Rightarrow> unit vr" where
  "expect_zero_gateway_address a = (if a = 0 then report_ok else report_error)"

definition expect_gateway_facet_cut :: "facet_cut \<Rightarrow> address \<Rightarrow> bool \<Rightarrow> unit vr" where
  "expect_gateway_facet_cut dcut expected_facet expected_freezable = do {
     report_unless_equal (cut_facet dcut) expected_facet;
     (if cut_action dcut = Sol_Add then State_Monad.return () else report_error);
     (if isFreezable dcut \<noteq> expected_freezable then report_error else State_Monad.return ()) }"

definition expect_create2_params_by_file ::
    "provenance_abi \<Rightarrow> verifiers \<Rightarrow> string \<Rightarrow> bytes \<Rightarrow> address option vr" where
  "expect_create2_params_by_file B v expected_file expected_constructor_params =
     (let known = create2_known_bytecodes (network v);
          matches = filter (\<lambda>a. known a = Some expected_file
            \<and> create2_constructor_params (network v) a = Some expected_constructor_params) (hash_map_iter B known) in
      case matches of
        [] \<Rightarrow> do { report_error; State_Monad.return None }
      | [a] \<Rightarrow> do { report_ok; State_Monad.return (Some a) }
      | _ \<Rightarrow> do { report_error; State_Monad.return None })"

definition parse_bytes32_hex :: "provenance_abi \<Rightarrow> string \<Rightarrow> b256 res" where
  "parse_bytes32_hex B value = ok_or (Bail ''must be a 0x-prefixed 32-byte hex string'') (b256_from_hex B value)"

definition parse_optional_bytes32_hex :: "provenance_abi \<Rightarrow> string option \<Rightarrow> b256 res" where
  "parse_optional_bytes32_hex B value = (case value of Some x \<Rightarrow> parse_bytes32_hex B x | None \<Rightarrow> Inr 0)"

definition zksync_os_genesis_batch_commitment :: b256 where
  "zksync_os_genesis_batch_commitment = 1"

record gateway_addresses =
  ga_admin :: address
  ga_committer :: address
  ga_ctm_impl :: address
  ga_ctm_proxy :: address
  ga_default_upgrade :: address
  ga_diamond_init :: address
  ga_diamond_proxy :: address
  ga_executor :: address
  ga_genesis_upgrade :: address
  ga_getters :: address
  ga_mailbox :: address
  ga_migrator :: address
  ga_rollup_da_manager :: address
  ga_server_notifier_impl :: address
  ga_server_notifier_proxy :: address
  ga_validator_timelock :: address
  ga_verifier :: address

definition gateway_addresses_of :: "ext \<Rightarrow> new_gateway_artifact \<Rightarrow> gateway_addresses res" where
  "gateway_addresses_of E g =
     (let in_gst = (\<lambda>k. required_address_in_value E (new_gateway_value g) [''gateway_state_transition'', k]) in
     bind_res (in_gst ''admin_facet_addr'') (\<lambda>a1.
     bind_res (in_gst ''committer_facet_addr'') (\<lambda>a2.
     bind_res (in_gst ''chain_type_manager_implementation_addr'') (\<lambda>a3.
     bind_res (in_gst ''chain_type_manager_proxy_addr'') (\<lambda>a4.
     bind_res (in_gst ''default_upgrade_addr'') (\<lambda>a5.
     bind_res (in_gst ''diamond_init_addr'') (\<lambda>a6.
     bind_res (in_gst ''diamond_proxy_addr'') (\<lambda>a7.
     bind_res (in_gst ''executor_facet_addr'') (\<lambda>a8.
     bind_res (in_gst ''genesis_upgrade_addr'') (\<lambda>a9.
     bind_res (in_gst ''getters_facet_addr'') (\<lambda>a10.
     bind_res (in_gst ''mailbox_facet_addr'') (\<lambda>a11.
     bind_res (in_gst ''migrator_facet_addr'') (\<lambda>a12.
     bind_res (in_gst ''rollup_da_manager_addr'') (\<lambda>a13.
     bind_res (in_gst ''server_notifier_implementation_addr'') (\<lambda>a14.
     bind_res (in_gst ''server_notifier_proxy_addr'') (\<lambda>a15.
     bind_res (in_gst ''validator_timelock_addr'') (\<lambda>a16.
     bind_res (in_gst ''verifier_addr'') (\<lambda>a17.
     Inr \<lparr>ga_admin = a1, ga_committer = a2, ga_ctm_impl = a3, ga_ctm_proxy = a4, ga_default_upgrade = a5,
       ga_diamond_init = a6, ga_diamond_proxy = a7, ga_executor = a8, ga_genesis_upgrade = a9, ga_getters = a10,
       ga_mailbox = a11, ga_migrator = a12, ga_rollup_da_manager = a13, ga_server_notifier_impl = a14,
       ga_server_notifier_proxy = a15, ga_validator_timelock = a16, ga_verifier = a17\<rparr>))))))))))))))))))"

text \<open>The six cuts in their order, and the deployments sent to the Gateway as priority transactions.\<close>

definition gateway_cut_checks :: "gateway_addresses \<Rightarrow> facet_cut list \<Rightarrow> unit vr" where
  "gateway_cut_checks x cuts = run_checks [
     expect_gateway_facet_cut (cuts ! 0) (ga_admin x) False,
     expect_gateway_facet_cut (cuts ! 1) (ga_getters x) False,
     expect_gateway_facet_cut (cuts ! 2) (ga_mailbox x) True,
     expect_gateway_facet_cut (cuts ! 3) (ga_executor x) True,
     expect_gateway_facet_cut (cuts ! 4) (ga_migrator x) False,
     expect_gateway_facet_cut (cuts ! 5) (ga_committer x) True]"

definition gateway_direct_checks ::
    "provenance_abi \<Rightarrow> ctm_artifact \<Rightarrow> u64 \<Rightarrow> u64 \<Rightarrow> gateway_addresses \<Rightarrow> deployment_check list" where
  "gateway_direct_checks B source era_id l1_id x = (let testnet = is_testnet (ctm_contracts_config source) in
     [(ga_admin x, encode_ctor B (V31AdminFacet (ucast l1_id) (ga_rollup_da_manager x)), ''l1-contracts/AdminFacet''),
      (ga_mailbox x, encode_ctor B (V31MailboxFacet (ucast era_id) (ucast l1_id) L2_CHAIN_ASSET_HANDLER_ADDR 0 testnet),
        ''l1-contracts/MailboxFacet''),
      (ga_executor x, encode_ctor B (V31ExecutorFacet (ucast l1_id)), ''l1-contracts/ExecutorFacet''),
      (ga_getters x, [], ''l1-contracts/GettersFacet''),
      (ga_migrator x, encode_ctor B (V31MigratorFacet (ucast l1_id) testnet), ''l1-contracts/MigratorFacet''),
      (ga_committer x, encode_ctor B (V31CommitterFacet (ucast l1_id)), ''l1-contracts/CommitterFacet''),
      (ga_diamond_init x, diamond_init_args (flavor source), ''l1-contracts/DiamondInit''),
      (ga_genesis_upgrade x, [], ''l1-contracts/L1GenesisUpgrade'')])"

text \<open>A deployer found by its file and configuration, whose result is read from the Gateway.\<close>

definition check_deployer ::
    "provenance_abi \<Rightarrow> verifiers \<Rightarrow> string \<Rightarrow> gateway_config \<Rightarrow> (address \<Rightarrow> 'r option) \<Rightarrow> ('r \<Rightarrow> unit vr) \<Rightarrow> unit res vr" where
  "check_deployer B v fname config getResult check =
     tryM (liftM (expect_create2_params_by_file B v fname (encode_gateway_config B config))) (\<lambda>deployer.
     case deployer of None \<Rightarrow> okM ()
     | Some a \<Rightarrow> tryM (State_Monad.return (ok_or (Bail ''read getResult()'') (getResult a))) (\<lambda>r. liftM (check r)))"

definition gateway_ctm_config ::
    "provenance_abi \<Rightarrow> verifiers \<Rightarrow> ctm_artifact \<Rightarrow> u64 \<Rightarrow> u64 \<Rightarrow> gateway_addresses \<Rightarrow> bytes \<Rightarrow> diamond_cut_data_call
      \<Rightarrow> initialize_data_new_chain \<Rightarrow> address \<Rightarrow> gateway_ctm_final_config res" where
  "gateway_ctm_config B v source era_id l1_id x force_data dcut init proxy_admin =
     (let genesis = genesis_config_for_ctm v (flavor source); sel = (\<lambda>i. cut_selectors (facetCuts dcut ! i)) in
     bind_res (parse_bytes32_hex B (genesis_root genesis)) (\<lambda>root.
     bind_res (if flavor source = ZksyncOs then Inr zksync_os_genesis_batch_commitment
       else parse_optional_bytes32_hex B (genesis_batch_commitment genesis)) (\<lambda>commitment.
     Inr \<lparr>gc_aliasedGovernanceAddress = apply_l2_to_l1_alias (bridgehub_owner v),
       gc_salt = gateway_ctm_create2_salt v, gc_eraChainId = ucast era_id, gc_l1ChainId = ucast l1_id,
       gc_testnetVerifier = is_testnet (ctm_contracts_config source), gc_isZKsyncOS = (flavor source = ZksyncOs),
       gc_adminSelectors = sel 0, gc_executorSelectors = sel 3, gc_mailboxSelectors = sel 2,
       gc_gettersSelectors = sel 1, gc_migratorSelectors = sel 4, gc_committerSelectors = sel 5,
       gc_bootloaderHash = l2BootloaderBytecodeHash init, gc_defaultAccountHash = l2DefaultAccountBytecodeHash init,
       gc_evmEmulatorHash = l2EvmEmulatorBytecodeHash init, gc_genesisRoot = root,
       gc_genesisRollupLeafIndex = ucast (case genesis_rollup_leaf_index genesis of Some i \<Rightarrow> i | None \<Rightarrow> 0),
       gc_genesisBatchCommitment = commitment, gc_forceDeploymentsData = force_data,
       gc_protocolVersion = ucast (new_protocol_version (ctm_contracts_config source)),
       gc_chainTypeManagerProxyAdmin = proxy_admin, gc_validatorTimelockProxy = ga_validator_timelock x,
       gc_facets = \<lparr>gf_admin = ga_admin x, gf_mailbox = ga_mailbox x, gf_executor = ga_executor x,
         gf_getters = ga_getters x, gf_migrator = ga_migrator x, gf_committer = ga_committer x,
         gf_diamondInit = ga_diamond_init x\<rparr>,
       gc_genesisUpgrade = ga_genesis_upgrade x, gc_verifier = ga_verifier x\<rparr>)))"

definition verifiers_deployer_file :: "ctm_flavor \<Rightarrow> string" where
  "verifiers_deployer_file fl = (if fl = ZksyncOs then ''l1-contracts/GatewayCTMDeployerVerifiersZKsyncOS''
     else ''l1-contracts/GatewayCTMDeployerVerifiers'')"

definition ctm_deployer_file :: "ctm_flavor \<Rightarrow> string" where
  "ctm_deployer_file fl = (if fl = ZksyncOs then ''l1-contracts/GatewayCTMDeployerCTMZKsyncOS''
     else ''l1-contracts/GatewayCTMDeployerCTM'')"

definition check_ctm_result :: "gateway_addresses \<Rightarrow> bytes \<Rightarrow> gateway_ctm_final_result \<Rightarrow> unit vr" where
  "check_ctm_result x diamond_cut_bytes r = run_checks [
     report_unless_equal (serverNotifierImplementation r) (ga_server_notifier_impl x),
     report_unless_equal (serverNotifierProxy r) (ga_server_notifier_proxy x),
     report_unless_equal (chainTypeManagerImplementation r) (ga_ctm_impl x),
     report_unless_equal (chainTypeManagerProxy r) (ga_ctm_proxy x),
     report_unless_equal (diamondCutData r) diamond_cut_bytes]"

text \<open>The deployers that need the proxy admin of the Gateway's CTM.\<close>

definition gateway_admin_deployers ::
    "provenance_abi \<Rightarrow> gw_views \<Rightarrow> verifiers \<Rightarrow> ctm_artifact \<Rightarrow> u64 \<Rightarrow> u64 \<Rightarrow> gateway_addresses \<Rightarrow> bytes
      \<Rightarrow> diamond_cut_data_call \<times> bytes \<Rightarrow> initialize_data_new_chain \<Rightarrow> address \<Rightarrow> unit res vr" where
  "gateway_admin_deployers B W v source era_id l1_id x force_data dcut init proxy_admin =
     (let salt = gateway_ctm_create2_salt v; gov = apply_l2_to_l1_alias (bridgehub_owner v); fl = flavor source in
     tryM (State_Monad.return (try_get_gateway_proxy_admin (network v) (ga_ctm_proxy x))) (\<lambda>live.
     tryM (liftM (report_unless_equal live proxy_admin)) (\<lambda>_.
     tryM (check_deployer B v ''l1-contracts/GatewayCTMDeployerValidatorTimelock''
       (GatewayValidatorTimelockDeployerConfig salt gov proxy_admin)
       (ValidatorTimelock_getResult_validatorTimelockProxy W) (\<lambda>r. report_unless_equal r (ga_validator_timelock x))) (\<lambda>_.
     tryM (check_deployer B v (verifiers_deployer_file fl)
       (GatewayVerifiersDeployerConfig salt gov (is_testnet (ctm_contracts_config source)) (fl = ZksyncOs))
       (Verifiers_getResult_verifier W) (\<lambda>r. report_unless_equal r (ga_verifier x))) (\<lambda>_.
     tryM (State_Monad.return (gateway_ctm_config B v source era_id l1_id x force_data (fst dcut) init proxy_admin)) (\<lambda>config.
     check_deployer B v (ctm_deployer_file fl) (GatewayCTMFinalConfig config) (CTM_getResult W)
       (check_ctm_result x (snd dcut))))))))"

definition gateway_deployers ::
    "provenance_abi \<Rightarrow> gw_views \<Rightarrow> verifiers \<Rightarrow> ctm_artifact \<Rightarrow> u64 \<Rightarrow> u64 \<Rightarrow> gateway_addresses \<Rightarrow> bytes
      \<Rightarrow> diamond_cut_data_call \<times> bytes \<Rightarrow> initialize_data_new_chain \<Rightarrow> unit res vr" where
  "gateway_deployers B W v source era_id l1_id x force_data dcut init =
     (let salt = gateway_ctm_create2_salt v; gov = apply_l2_to_l1_alias (bridgehub_owner v) in
     tryM (check_deployer B v ''l1-contracts/GatewayCTMDeployerDA'' (GatewayDADeployerConfig salt gov)
       (DA_getResult_rollupDAManager W) (\<lambda>r. report_unless_equal r (ga_rollup_da_manager x))) (\<lambda>_.
     tryM (liftM (expect_create2_params_by_file B v ''l1-contracts/GatewayCTMDeployerProxyAdmin''
       (encode_gateway_config B (GatewayProxyAdminDeployerConfig salt gov)))) (\<lambda>deployer.
     case deployer of None \<Rightarrow> okM ()
     | Some a \<Rightarrow> tryM (State_Monad.return (ok_or (Bail ''read GatewayCTMDeployerProxyAdmin.getResult()'')
           (ProxyAdmin_getResult_chainTypeManagerProxyAdmin W a)))
         (gateway_admin_deployers B W v source era_id l1_id x force_data dcut init))))"

text \<open>The checks once the cut data is decoded.\<close>

definition gateway_cut_provenance ::
    "provenance_abi \<Rightarrow> gw_views \<Rightarrow> verifiers \<Rightarrow> ctm_artifact \<Rightarrow> u64 \<Rightarrow> u64 \<Rightarrow> gateway_addresses \<Rightarrow> bytes
      \<Rightarrow> diamond_cut_data_call \<times> bytes \<Rightarrow> unit res vr" where
  "gateway_cut_provenance B W v source era_id l1_id x force_data dcut =
     (if length (facetCuts (fst dcut)) \<noteq> 6 then liftM report_error
      else tryM (liftM (gateway_cut_checks x (facetCuts (fst dcut)))) (\<lambda>_.
        tryM (State_Monad.return (ok_or (Bail ''decode initCalldata as InitializeDataNewChain'')
          (decode_gateway_InitializeDataNewChain B (initCalldata (fst dcut))))) (\<lambda>init.
        tryM (expect_all v (gateway_direct_checks B source era_id l1_id x)) (\<lambda>_.
        gateway_deployers B W v source era_id l1_id x force_data dcut init))))"

definition verify_v31_new_gateway_ctm_provenance ::
    "ext \<Rightarrow> provenance_abi \<Rightarrow> gw_views \<Rightarrow> ecosystem_upgrade_artifact \<Rightarrow> verifiers \<Rightarrow> u64 \<Rightarrow> u64 \<Rightarrow> unit res vr" where
  "verify_v31_new_gateway_ctm_provenance E B W artifact v era_id l1_id =
     tryM (liftM print_info) (\<lambda>_.
     case new_gateway artifact of None \<Rightarrow> liftM report_error
     | Some g \<Rightarrow>
       tryM (State_Monad.return (source_ctm_for_new_gateway E artifact v)) (\<lambda>source.
       tryM (State_Monad.return (gateway_addresses_of E g)) (\<lambda>x.
       tryM (State_Monad.return (read_gateway_force_deployments_data E g)) (\<lambda>force_data.
       tryM (liftM (run_checks [expect_zero_gateway_address (ga_default_upgrade x),
         expect_zero_gateway_address (ga_diamond_proxy x)])) (\<lambda>_.
       tryM (State_Monad.return (decode_gateway_diamond_cut E B g)) (\<lambda>dcut.
       gateway_cut_provenance B W v source era_id l1_id x force_data dcut))))))"

subsection \<open>ZK governance\<close>

definition read_members :: "l1_views \<Rightarrow> address \<Rightarrow> nat \<Rightarrow> address list res" where
  "read_members V multisig n = map_res (\<lambda>index.
     bind_res (ok_or (Bail ''calling members(index)'') (Multisig_members V multisig (of_nat index))) (\<lambda>member.
     bind_res (ensure (member \<noteq> 0) (Bail ''members(index) returned address(0)'')) (\<lambda>_. Inr member))) [0..<n]"

definition read_multisig_members :: "l1_views \<Rightarrow> verifiers \<Rightarrow> address \<Rightarrow> address list res" where
  "read_multisig_members V v multisig =
     bind_res (storage_at (network v) multisig 0) (\<lambda>members_len.
     bind_res (ensure (members_len \<noteq> 0) (Bail ''has no members'')) (\<lambda>_.
     bind_res (ensure (unat members_len < 2 ^ 64) (Bail ''member count overflows usize'')) (\<lambda>_.
     read_members V multisig (unat members_len))))"

definition read_guardians_members :: "l1_views \<Rightarrow> verifiers \<Rightarrow> address \<Rightarrow> address list res" where
  "read_guardians_members V v guardians =
     bind_res (storage_at (network v) guardians 0) (\<lambda>members_len.
     bind_res (ensure (members_len = of_nat EXPECTED_GUARDIANS_MEMBER_COUNT) (Bail ''Guardians must have exactly 8 members'')) (\<lambda>_.
     read_members V guardians EXPECTED_GUARDIANS_MEMBER_COUNT))"

text \<open>What the constructors of the new governance contracts are expected to carry.\<close>

record governance_inputs =
  gi_puh :: ctor_call
  gi_guardians :: ctor_call
  gi_council :: ctor_call
  gi_board :: ctor_call

definition live_council ::
    "l1_views \<Rightarrow> verifiers \<Rightarrow> (address list \<times> address list \<times> address) res" where
  "live_council V v =
     (let puh = bridgehub_owner v in
     bind_res (ok_or (Bail ''calling current PUH.guardians()'') (PUH_guardians V puh)) (\<lambda>old_guardians.
     bind_res (read_guardians_members V v old_guardians) (\<lambda>guardians_members.
     bind_res (ok_or (Bail ''calling current PUH.securityCouncil()'') (PUH_securityCouncil V puh)) (\<lambda>old_council.
     bind_res (read_multisig_members V v old_council) (\<lambda>council.
     bind_res (ensure (EXPECTED_SECURITY_COUNCIL_MEMBER_COUNT \<le> length council) (Bail ''SecurityCouncil has too few members'')) (\<lambda>_.
     bind_res (ok_or (Bail ''calling current PUH.emergencyUpgradeBoard()'') (PUH_emergencyUpgradeBoard V puh)) (\<lambda>old_board.
     bind_res (ok_or (Bail ''calling ZK_FOUNDATION_SAFE()'') (EmergencyUpgradeBoard_ZK_FOUNDATION_SAFE V old_board)) (\<lambda>safe.
     Inr (guardians_members, take EXPECTED_SECURITY_COUNCIL_MEMBER_COUNT council, safe)))))))))"

definition governance_inputs_of ::
    "ext \<Rightarrow> l1_views \<Rightarrow> ecosystem_upgrade_artifact \<Rightarrow> verifiers \<Rightarrow> zk_governance_artifact \<Rightarrow> governance_inputs res" where
  "governance_inputs_of E V artifact v z =
     (let puh = bridgehub_owner v; P = ProtocolUpgradeHandler (l1_provider (network v)) puh in
     bind_res (ok_or (Bail ''zk-governance provenance requires a [ctms.zksync_os] section'')
       (find (\<lambda>ctm. flavor ctm = ZksyncOs) (ctms artifact))) (\<lambda>os_ctm.
     bind_res (required_address_in_value E (ctm_value os_ctm) [''state_transition'', ''chain_type_manager_proxy'']) (\<lambda>os_proxy.
     bind_res (required_address_in_value E (core artifact)
       [''upgrade_addresses'', ''bridgehub'', ''chain_asset_handler_proxy_addr'']) (\<lambda>handler.
     bind_res (ok_or (Bail ''L2_PROTOCOL_GOVERNOR'') (L2_PROTOCOL_GOVERNOR P)) (\<lambda>governor.
     bind_res (ok_or (Bail ''CHAIN_TYPE_MANAGER'') (CHAIN_TYPE_MANAGER P)) (\<lambda>era_ctm.
     bind_res (ok_or (Bail ''BRIDGE_HUB'') (BRIDGE_HUB P)) (\<lambda>bridgehub.
     bind_res (ok_or (Bail ''L1_NULLIFIER'') (L1_NULLIFIER P)) (\<lambda>nullifier.
     bind_res (ok_or (Bail ''L1_ASSET_ROUTER'') (L1_ASSET_ROUTER P)) (\<lambda>router.
     bind_res (ok_or (Bail ''L1_NATIVE_TOKEN_VAULT'') (L1_NATIVE_TOKEN_VAULT P)) (\<lambda>ntv.
     bind_res (live_council V v) (\<lambda>(guardians, council, safe).
     Inr \<lparr>gi_puh = V31ProtocolUpgradeHandler governor era_ctm os_proxy bridgehub nullifier router ntv handler
         (ucast (registered_era_chain_id v)),
       gi_guardians = V31Guardians puh bridgehub (ucast (registered_era_chain_id v)) guardians,
       gi_council = V31SecurityCouncil puh council,
       gi_board = V31EmergencyUpgradeBoard puh (new_security_council z) (new_guardians z) safe\<rparr>)))))))))))"

definition governance_checks ::
    "provenance_abi \<Rightarrow> verifiers \<Rightarrow> zk_governance_artifact \<Rightarrow> governance_inputs \<Rightarrow> deployment_check list" where
  "governance_checks B v z i =
     [(new_puh_impl z, encode_ctor B (gi_puh i),
        if is_mainnet (env v) then ZK_GOVERNANCE_PUH_FILE else ZK_GOVERNANCE_TESTNET_PUH_FILE),
      (new_guardians z, encode_ctor B (gi_guardians i), ZK_GOVERNANCE_GUARDIANS_FILE),
      (new_security_council z, encode_ctor B (gi_council i), ZK_GOVERNANCE_SECURITY_COUNCIL_FILE),
      (new_emergency_upgrade_board z, encode_ctor B (gi_board i), ZK_GOVERNANCE_EMERGENCY_BOARD_FILE)]"

definition verify_zk_governance_provenance ::
    "ext \<Rightarrow> provenance_abi \<Rightarrow> l1_views \<Rightarrow> ecosystem_upgrade_artifact \<Rightarrow> verifiers \<Rightarrow> unit res vr" where
  "verify_zk_governance_provenance E B V artifact v =
     tryM (liftM print_info) (\<lambda>_.
     tryM (State_Monad.return (ok_or (Bail ''missing required top-level [zk_governance] table'') (zk_governance artifact))) (\<lambda>z.
     tryM (State_Monad.return (governance_inputs_of E V artifact v z)) (\<lambda>i.
     expect_all v (governance_checks B v z i))))"

subsection \<open>The element\<close>

definition provenance_context ::
    "l1_views \<Rightarrow> verifiers \<Rightarrow> u64 \<Rightarrow> (u64 \<times> address \<times> address \<times> address \<times> address \<times> address) res" where
  "provenance_context V v era_id = (let bh = bridgehub_address v in
     bind_res (case try_get_l1_chain_id (network v) of Inr i \<Rightarrow> Inr i | Inl _ \<Rightarrow> Inl (Panic ''Failed to fetch L1 chain id'')) (\<lambda>l1_id.
     bind_res (ok_or (Panic ''Failed to call Bridgehub.assetRouter()'') (Bridgehub_assetRouter V bh)) (\<lambda>router.
     bind_res (ok_or (Panic ''Failed to call L1_WETH_TOKEN()'') (L1AssetRouter_L1_WETH_TOKEN V router)) (\<lambda>weth.
     bind_res (ok_or (Panic ''Failed to call L1_NULLIFIER()'') (L1AssetRouter_L1_NULLIFIER V router)) (\<lambda>nullifier.
     bind_res (ok_or (Panic ''Failed to call nativeTokenVault()'') (L1AssetRouter_nativeTokenVault V router)) (\<lambda>ntv.
     bind_res (case try_get_chain_diamond_from_bridgehub (network v) bh (ucast era_id) of
         Inr d \<Rightarrow> Inr d | Inl _ \<Rightarrow> Inl (Panic ''Failed to call Bridgehub.getZKChain'')) (\<lambda>diamond.
     Inr (l1_id, router, weth, nullifier, ntv, diamond))))))))"

definition verify_deployments ::
    "ext \<Rightarrow> abi \<Rightarrow> provenance_abi \<Rightarrow> l1_views \<Rightarrow> gw_views \<Rightarrow> ecosystem_upgrade_artifact \<Rightarrow> verifiers \<Rightarrow> u64 \<Rightarrow> u64
      \<Rightarrow> u64 \<Rightarrow> core_provenance_context \<Rightarrow> unit res vr" where
  "verify_deployments E A B V W artifact v era_id legacy_gw l1_id c =
     tryM (verify_core_provenance E A B artifact v era_id legacy_gw c) (\<lambda>_.
     tryM (forTM (verify_ctm_provenance E A B artifact v era_id l1_id c) (ctms artifact)) (\<lambda>_.
     tryM (if new_gateway artifact \<noteq> None
       then verify_v31_new_gateway_ctm_provenance E B W artifact v era_id l1_id else okM ()) (\<lambda>_.
     tryM (State_Monad.return (get_proxy_admin (network v) (ctx_governance c))) (\<lambda>governance_admin.
     if governance_admin \<noteq> 0 then verify_zk_governance_provenance E B V artifact v else okM ()))))"

definition note_legacy_diamond :: "address \<Rightarrow> unit vr" where
  "note_legacy_diamond diamond = (if diamond = 0 then report_ok else State_Monad.return ())"

definition verify_v31_provenance ::
    "ext \<Rightarrow> abi \<Rightarrow> provenance_abi \<Rightarrow> l1_views \<Rightarrow> gw_views \<Rightarrow> ecosystem_upgrade_artifact \<Rightarrow> verifiers \<Rightarrow> u64 \<Rightarrow> u64
      \<Rightarrow> unit res vr" where
  "verify_v31_provenance E A B V W artifact v era_id legacy_gw =
     tryM (liftM print_info) (\<lambda>_.
     tryM (State_Monad.return (provenance_context V v era_id)) (\<lambda>(l1_id, router, weth, nullifier, ntv, diamond).
     tryM (liftM (note_legacy_diamond diamond)) (\<lambda>_.
     tryM (State_Monad.return (ok_or (Bail ''calling Bridgehub.owner()'')
       (Bridgehub_owner (l1_provider (network v)) (bridgehub_address v)))) (\<lambda>governance.
     verify_deployments E A B V W artifact v era_id legacy_gw l1_id
       \<lparr>ctx_bridgehub_addr = bridgehub_address v, ctx_asset_router_proxy = router, ctx_weth = weth,
         ctx_nullifier = nullifier, ctx_ntv_proxy = ntv, ctx_era_diamond_proxy = diamond,
         ctx_governance = governance\<rparr>))))"

section \<open>What each group requires\<close>

text \<open>The provenance maps hold the deployment of \<open>a\<close> from this file with these arguments.\<close>

definition deployed_from :: "verifiers \<Rightarrow> address \<Rightarrow> string \<Rightarrow> bytes \<Rightarrow> bool" where
  "deployed_from v a f ps \<longleftrightarrow> create2_known_bytecodes (network v) a = Some f
     \<and> create2_constructor_params (network v) a = Some ps"

lemma yields_create2_internal:
  "(\<exists>b. yields (expect_create2_params_internal v a ps f r) b) \<longleftrightarrow> deployed_from v a f ps"
  "yields (expect_create2_params_internal v a ps f r) b \<Longrightarrow> b"
  by (auto simp: expect_create2_params_internal_def deployed_from_def split: option.splits if_splits)

lemma yields_create2 [simp]: "yields (expect_create2_params v a ps f) () \<longleftrightarrow> deployed_from v a f ps"
  using yields_create2_internal(1) [of v a ps f True] by (simp add: expect_create2_params_def)

definition proxy_deployed :: "abi \<Rightarrow> verifiers \<Rightarrow> address \<Rightarrow> bytes \<Rightarrow> address \<Rightarrow> bytes \<Rightarrow> string \<Rightarrow> bool" where
  "proxy_deployed A v a init adm ps f \<longleftrightarrow> (\<exists>w. storage_at (network v) a transparent_proxy_key = Inr w
     \<and> deployed_from v a ''l1-contracts/TransparentUpgradeableProxy''
         (encode_transparentProxyConstructor A (address_of_hash w) adm init)
     \<and> deployed_from v (address_of_hash w) f ps)"

lemma yields_create2_proxy [simp]:
  "yields (expect_create2_params_proxy_with_bytecode A v a init adm ps f) () \<longleftrightarrow> proxy_deployed A v a init adm ps f"
proof (cases "storage_at (network v) a transparent_proxy_key")
  case (Inr w)
  let ?enc = "encode_transparentProxyConstructor A (address_of_hash w) adm init"
  let ?i = "expect_create2_params_internal v a ?enc ''l1-contracts/TransparentUpgradeableProxy'' False"
  have "yields (expect_create2_params_proxy_with_bytecode A v a init adm ps f) ()
      \<longleftrightarrow> (\<exists>b. yields ?i b) \<and> deployed_from v (address_of_hash w) f ps"
    using yields_create2_internal(2) [of v a ?enc "''l1-contracts/TransparentUpgradeableProxy''" False False]
    by (simp add: expect_create2_params_proxy_with_bytecode_def Inr Let_def ex_bool_eq) blast
  then show ?thesis
    by (simp add: yields_create2_internal(1) proxy_deployed_def Inr)
qed (simp add: expect_create2_params_proxy_with_bytecode_def proxy_deployed_def Let_def)

definition all_deployed :: "verifiers \<Rightarrow> deployment_check list \<Rightarrow> bool" where
  "all_deployed v checks \<longleftrightarrow> (\<forall>(a, args, f) \<in> set checks. deployed_from v a f args)"

lemma expect_all_simps [simp]:
  "writer (expect_all v checks)" "yields (expect_all v checks) () \<longleftrightarrow> all_deployed v checks"
proof -
  have w: "writer (case c of (a, args, f) \<Rightarrow> expect_create2_params v a args f)" for c
    by (cases c) simp
  show "writer (expect_all v checks)" "yields (expect_all v checks) () \<longleftrightarrow> all_deployed v checks"
    unfolding expect_all_def all_deployed_def by (simp_all add: w yields_forTM [OF w] split_beta)
qed

text \<open>Core and CTM deployments.\<close>

definition core_provenance_ok ::
    "ext \<Rightarrow> abi \<Rightarrow> provenance_abi \<Rightarrow> ecosystem_upgrade_artifact \<Rightarrow> verifiers \<Rightarrow> u64 \<Rightarrow> u64 \<Rightarrow> core_provenance_context \<Rightarrow> bool" where
  "core_provenance_ok E A B artifact v era_id legacy_gw c \<longleftrightarrow> (\<exists>d. core_deployed_of E artifact = Inr d
     \<and> all_deployed v (core_checks B v era_id legacy_gw c d)
     \<and> proxy_deployed A v (cd_tracker_proxy d) (encode_initialize_address B (cd_deployer d)) (cd_core_proxy_admin d)
         (encode_ctor B (tracker_ctor c d)) ''l1-contracts/L1AssetTracker''
     \<and> proxy_deployed A v (cd_crs_proxy d) (encode_initialize_address B (cd_deployer d)) (cd_core_proxy_admin d)
         (encode_ctor B (V31ChainRegistrationSender (ctx_bridgehub_addr c))) ''l1-contracts/ChainRegistrationSender'')"

lemma core_provenance_simps [simp]:
  "writer (verify_core_provenance E A B artifact v era_id legacy_gw c)"
  "yields (verify_core_provenance E A B artifact v era_id legacy_gw c) ()
    \<longleftrightarrow> core_provenance_ok E A B artifact v era_id legacy_gw c"
  by (simp_all add: verify_core_provenance_def core_provenance_ok_def)

definition base_provenance_ok ::
    "ext \<Rightarrow> provenance_abi \<Rightarrow> ecosystem_upgrade_artifact \<Rightarrow> ctm_artifact \<Rightarrow> verifiers \<Rightarrow> u64 \<Rightarrow> bool" where
  "base_provenance_ok E B artifact ctm v l1_id \<longleftrightarrow>
     (\<forall>(path, f) \<in> set (base_no_args (flavor ctm)). \<exists>a. address_at E (ctm_value ctm) path = Some a \<and> deployed_from v a f [])
     \<and> (\<exists>init executor_facet admin_facet da_manager verifier fflonk plonk args.
       address_at E (ctm_value ctm) [''state_transition'', ''diamond_init_addr''] = Some init
       \<and> deployed_from v init ''l1-contracts/DiamondInit'' (diamond_init_args (flavor ctm))
       \<and> address_at E (ctm_value ctm) [''state_transition'', ''executor_facet_addr''] = Some executor_facet
       \<and> deployed_from v executor_facet ''l1-contracts/ExecutorFacet'' (encode_ctor B (V31ExecutorFacet (ucast l1_id)))
       \<and> address_at E (ctm_value ctm) [''state_transition'', ''admin_facet_addr''] = Some admin_facet
       \<and> address_at E (ctm_value ctm) [''deployed_addresses'', ''l1_rollup_da_manager''] = Some da_manager
       \<and> deployed_from v admin_facet ''l1-contracts/AdminFacet'' (encode_ctor B (V31AdminFacet (ucast l1_id) da_manager))
       \<and> address_at E (ctm_value ctm) [''state_transition'', ''verifier_addr''] = Some verifier
       \<and> address_at E (ctm_value ctm) [''state_transition'', ''verifier_fflonk_addr''] = Some fflonk
       \<and> address_at E (ctm_value ctm) [''state_transition'', ''verifier_plonk_addr''] = Some plonk
       \<and> verifier_args E B artifact (flavor ctm) fflonk plonk = Inr args
       \<and> deployed_from v verifier (verifier_file v (flavor ctm)) args)"

lemma base_provenance_simps [simp]:
  "writer (verify_ctm_base_provenance E B artifact ctm v l1_id)"
  "yields (verify_ctm_base_provenance E B artifact ctm v l1_id) () \<longleftrightarrow> base_provenance_ok E B artifact ctm v l1_id"
proof -
  have w: "writer (case x of (path, f) \<Rightarrow> need_ctm E ctm path (\<lambda>a. expect_create2_params v a [] f))" for x
    by (cases x) simp
  show "writer (verify_ctm_base_provenance E B artifact ctm v l1_id)"
    unfolding verify_ctm_base_provenance_def by (simp add: w)
  show "yields (verify_ctm_base_provenance E B artifact ctm v l1_id) () \<longleftrightarrow> base_provenance_ok E B artifact ctm v l1_id"
    unfolding verify_ctm_base_provenance_def base_provenance_ok_def
    by (simp add: w yields_forTM [OF w] split_beta)
qed

definition ctm_provenance_ok ::
    "ext \<Rightarrow> abi \<Rightarrow> provenance_abi \<Rightarrow> ecosystem_upgrade_artifact \<Rightarrow> verifiers \<Rightarrow> u64 \<Rightarrow> u64 \<Rightarrow> address \<Rightarrow> ctm_artifact \<Rightarrow> bool" where
  "ctm_provenance_ok E A B artifact v era_id l1_id bridgehub ctm \<longleftrightarrow> base_provenance_ok E B artifact ctm v l1_id
     \<and> (\<exists>d. ctm_deployed_of E artifact ctm = Inr d
        \<and> all_deployed v (ctm_checks B ctm era_id l1_id bridgehub d)
        \<and> proxy_deployed A v (td_bytecodes_supplier d) (encode_initialize B) (td_transparent_proxy_admin d) []
            ''l1-contracts/BytecodesSupplier''
        \<and> proxy_deployed A v (td_permissionless_validator d) (encode_initialize B) (td_transparent_proxy_admin d) []
            ''l1-contracts/PermissionlessValidator'')"

lemma ctm_provenance_simps [simp]:
  "writer (verify_ctm_provenance E A B artifact v era_id l1_id c ctm)"
  "yields (verify_ctm_provenance E A B artifact v era_id l1_id c ctm) ()
    \<longleftrightarrow> ctm_provenance_ok E A B artifact v era_id l1_id (ctx_bridgehub_addr c) ctm"
  by (simp_all add: verify_ctm_provenance_def ctm_provenance_ok_def)

text \<open>
  The deployer found by file and arguments: the hash map is iterated in some order, and exactly
  one entry may match. Under the contract of the iterator (every entry once) the order does not
  matter.
\<close>

definition iterates :: "provenance_abi \<Rightarrow> verifiers \<Rightarrow> bool" where
  "iterates B v \<longleftrightarrow> (let m = create2_known_bytecodes (network v) in
     distinct (hash_map_iter B m) \<and> set (hash_map_iter B m) = dom m)"

definition sole_deployment :: "verifiers \<Rightarrow> string \<Rightarrow> bytes \<Rightarrow> address \<Rightarrow> bool" where
  "sole_deployment v f ps a \<longleftrightarrow> {x. deployed_from v x f ps} = {a}"

lemma writer_by_file [simp, writer_intros]: "writer (expect_create2_params_by_file B v f ps)"
  by (simp add: expect_create2_params_by_file_def Let_def split: list.splits)

lemma by_file_iff:
  assumes "iterates B v"
  shows "val (expect_create2_params_by_file B v f ps) = r \<and> clean (expect_create2_params_by_file B v f ps)
    \<longleftrightarrow> (\<exists>a. r = Some a \<and> sole_deployment v f ps a)"
proof -
  define ms where "ms = filter (\<lambda>a. create2_known_bytecodes (network v) a = Some f
    \<and> create2_constructor_params (network v) a = Some ps) (hash_map_iter B (create2_known_bytecodes (network v)))"
  have set_ms: "set ms = {x. deployed_from v x f ps}" and distinct_ms: "distinct ms"
    using assms by (auto simp: ms_def iterates_def Let_def deployed_from_def)
  have "expect_create2_params_by_file B v f ps = (case ms of
      [] \<Rightarrow> do { report_error; State_Monad.return None } | [a] \<Rightarrow> do { report_ok; State_Monad.return (Some a) }
    | _ \<Rightarrow> do { report_error; State_Monad.return None })"
    by (simp add: expect_create2_params_by_file_def ms_def Let_def)
  moreover have "sole_deployment v f ps a \<longleftrightarrow> ms = [a]" for a
    using distinct_ms unfolding sole_deployment_def set_ms [symmetric]
    by (cases ms; cases "tl ms") auto
  ultimately show ?thesis
    by (cases ms; cases "tl ms") auto
qed

lemma check_deployer_simps:
  assumes "\<And>r. writer (check r)"
  shows "writer (check_deployer B v f config get check)"
    and "iterates B v \<Longrightarrow> yields (check_deployer B v f config get check) () \<longleftrightarrow> (\<exists>a r.
      sole_deployment v f (encode_gateway_config B config) a \<and> get a = Some r \<and> clean (check r))"
proof -
  have w: "writer (case d of None \<Rightarrow> okM ()
      | Some a \<Rightarrow> tryM (State_Monad.return (ok_or (Bail ''read getResult()'') (get a))) (\<lambda>r. liftM (check r)))" for d
    using assms by (auto split: option.splits)
  show "writer (check_deployer B v f config get check)"
    unfolding check_deployer_def by (simp add: w)
  assume it: "iterates B v"
  show "yields (check_deployer B v f config get check) () \<longleftrightarrow> (\<exists>a r.
      sole_deployment v f (encode_gateway_config B config) a \<and> get a = Some r \<and> clean (check r))"
    unfolding check_deployer_def using by_file_iff [OF it, of f "encode_gateway_config B config"] assms
    by (auto simp: w)
qed

subsection \<open>The Gateway\<close>

definition gateway_cut_ok :: "facet_cut \<Rightarrow> address \<Rightarrow> bool \<Rightarrow> bool" where
  "gateway_cut_ok c a freezable \<longleftrightarrow> cut_facet c = a \<and> cut_action c = Sol_Add \<and> isFreezable c = freezable"

lemma gateway_facet_cut_simps [simp]:
  "writer (expect_gateway_facet_cut c a f)" "clean (expect_gateway_facet_cut c a f) \<longleftrightarrow> gateway_cut_ok c a f"
  "writer (expect_zero_gateway_address a)" "clean (expect_zero_gateway_address a) \<longleftrightarrow> a = 0"
  by (auto simp: expect_gateway_facet_cut_def gateway_cut_ok_def expect_zero_gateway_address_def)

definition gateway_cuts_ok :: "gateway_addresses \<Rightarrow> facet_cut list \<Rightarrow> bool" where
  "gateway_cuts_ok x cuts \<longleftrightarrow> list_all2 (\<lambda>c (a, freezable). gateway_cut_ok c a freezable) cuts
     [(ga_admin x, False), (ga_getters x, False), (ga_mailbox x, True), (ga_executor x, True),
      (ga_migrator x, False), (ga_committer x, True)]"

lemma gateway_cut_checks_simps [simp]:
  "writer (gateway_cut_checks x cuts)"
  "length cuts = 6 \<Longrightarrow> clean (gateway_cut_checks x cuts) \<longleftrightarrow> gateway_cuts_ok x cuts"
proof -
  show "writer (gateway_cut_checks x cuts)"
    by (simp add: gateway_cut_checks_def)
  assume "length cuts = 6"
  then obtain c0 c1 c2 c3 c4 c5 where "cuts = [c0, c1, c2, c3, c4, c5]"
    by (auto simp: length_Suc_conv eval_nat_numeral)
  then show "clean (gateway_cut_checks x cuts) \<longleftrightarrow> gateway_cuts_ok x cuts"
    by (simp add: gateway_cut_checks_def gateway_cuts_ok_def)
qed

definition ctm_result_ok :: "gateway_addresses \<Rightarrow> bytes \<Rightarrow> gateway_ctm_final_result \<Rightarrow> bool" where
  "ctm_result_ok x raw r \<longleftrightarrow> r = \<lparr>serverNotifierImplementation = ga_server_notifier_impl x,
     serverNotifierProxy = ga_server_notifier_proxy x, chainTypeManagerImplementation = ga_ctm_impl x,
     chainTypeManagerProxy = ga_ctm_proxy x, diamondCutData = raw\<rparr>"

lemma ctm_result_simps [simp]:
  "writer (check_ctm_result x raw r)" "clean (check_ctm_result x raw r) \<longleftrightarrow> ctm_result_ok x raw r"
  by (auto simp: check_ctm_result_def ctm_result_ok_def intro: gateway_ctm_final_result.equality)

text \<open>
  The deployers on the Gateway and what their results must be; the proxy admin comes from the
  result of its deployer and must be the live admin of the CTM proxy.
\<close>

definition gateway_admin_ok ::
    "provenance_abi \<Rightarrow> gw_views \<Rightarrow> verifiers \<Rightarrow> ctm_artifact \<Rightarrow> u64 \<Rightarrow> u64 \<Rightarrow> gateway_addresses \<Rightarrow> bytes
      \<Rightarrow> diamond_cut_data_call \<times> bytes \<Rightarrow> initialize_data_new_chain \<Rightarrow> address \<Rightarrow> bool" where
  "gateway_admin_ok B W v source era_id l1_id x force_data dcut init proxy_admin \<longleftrightarrow>
     (let salt = gateway_ctm_create2_salt v; gov = apply_l2_to_l1_alias (bridgehub_owner v); fl = flavor source;
          sole = (\<lambda>f config. sole_deployment v f (encode_gateway_config B config)) in
     try_get_gateway_proxy_admin (network v) (ga_ctm_proxy x) = Inr proxy_admin
     \<and> (\<exists>a. sole ''l1-contracts/GatewayCTMDeployerValidatorTimelock''
           (GatewayValidatorTimelockDeployerConfig salt gov proxy_admin) a
         \<and> ValidatorTimelock_getResult_validatorTimelockProxy W a = Some (ga_validator_timelock x))
     \<and> (\<exists>a. sole (verifiers_deployer_file fl)
           (GatewayVerifiersDeployerConfig salt gov (is_testnet (ctm_contracts_config source)) (fl = ZksyncOs)) a
         \<and> Verifiers_getResult_verifier W a = Some (ga_verifier x))
     \<and> (\<exists>config a r. gateway_ctm_config B v source era_id l1_id x force_data (fst dcut) init proxy_admin = Inr config
         \<and> sole (ctm_deployer_file fl) (GatewayCTMFinalConfig config) a
         \<and> CTM_getResult W a = Some r \<and> ctm_result_ok x (snd dcut) r))"

lemma gateway_admin_deployers_simps:
  "writer (gateway_admin_deployers B W v source era_id l1_id x force_data dcut init proxy_admin)"
  "iterates B v \<Longrightarrow> yields (gateway_admin_deployers B W v source era_id l1_id x force_data dcut init proxy_admin) ()
    \<longleftrightarrow> gateway_admin_ok B W v source era_id l1_id x force_data dcut init proxy_admin"
  unfolding gateway_admin_deployers_def gateway_admin_ok_def Let_def
  by (auto simp: check_deployer_simps)

definition gateway_deployers_ok ::
    "provenance_abi \<Rightarrow> gw_views \<Rightarrow> verifiers \<Rightarrow> ctm_artifact \<Rightarrow> u64 \<Rightarrow> u64 \<Rightarrow> gateway_addresses \<Rightarrow> bytes
      \<Rightarrow> diamond_cut_data_call \<times> bytes \<Rightarrow> initialize_data_new_chain \<Rightarrow> bool" where
  "gateway_deployers_ok B W v source era_id l1_id x force_data dcut init \<longleftrightarrow>
     (let salt = gateway_ctm_create2_salt v; gov = apply_l2_to_l1_alias (bridgehub_owner v);
          sole = (\<lambda>f config. sole_deployment v f (encode_gateway_config B config)) in
     (\<exists>a. sole ''l1-contracts/GatewayCTMDeployerDA'' (GatewayDADeployerConfig salt gov) a
        \<and> DA_getResult_rollupDAManager W a = Some (ga_rollup_da_manager x))
     \<and> (\<exists>a proxy_admin. sole ''l1-contracts/GatewayCTMDeployerProxyAdmin'' (GatewayProxyAdminDeployerConfig salt gov) a
        \<and> ProxyAdmin_getResult_chainTypeManagerProxyAdmin W a = Some proxy_admin
        \<and> gateway_admin_ok B W v source era_id l1_id x force_data dcut init proxy_admin))"

lemma gateway_deployers_simps:
  "writer (gateway_deployers B W v source era_id l1_id x force_data dcut init)"
  "iterates B v \<Longrightarrow> yields (gateway_deployers B W v source era_id l1_id x force_data dcut init) ()
    \<longleftrightarrow> gateway_deployers_ok B W v source era_id l1_id x force_data dcut init"
proof -
  let ?c = "encode_gateway_config B (GatewayProxyAdminDeployerConfig (gateway_ctm_create2_salt v)
    (apply_l2_to_l1_alias (bridgehub_owner v)))"
  have w: "writer (case d of None \<Rightarrow> okM ()
     | Some a \<Rightarrow> tryM (State_Monad.return (ok_or (Bail ''read GatewayCTMDeployerProxyAdmin.getResult()'')
           (ProxyAdmin_getResult_chainTypeManagerProxyAdmin W a)))
         (gateway_admin_deployers B W v source era_id l1_id x force_data dcut init))" for d
    by (auto simp: gateway_admin_deployers_simps split: option.splits)
  show "writer (gateway_deployers B W v source era_id l1_id x force_data dcut init)"
    unfolding gateway_deployers_def Let_def by (simp add: w check_deployer_simps)
  assume it: "iterates B v"
  show "yields (gateway_deployers B W v source era_id l1_id x force_data dcut init) ()
    \<longleftrightarrow> gateway_deployers_ok B W v source era_id l1_id x force_data dcut init"
    unfolding gateway_deployers_def gateway_deployers_ok_def Let_def
    using by_file_iff [OF it, of "''l1-contracts/GatewayCTMDeployerProxyAdmin''" ?c]
    by (auto simp: w check_deployer_simps gateway_admin_deployers_simps it)
qed

definition gateway_cut_provenance_ok ::
    "provenance_abi \<Rightarrow> gw_views \<Rightarrow> verifiers \<Rightarrow> ctm_artifact \<Rightarrow> u64 \<Rightarrow> u64 \<Rightarrow> gateway_addresses \<Rightarrow> bytes
      \<Rightarrow> diamond_cut_data_call \<times> bytes \<Rightarrow> bool" where
  "gateway_cut_provenance_ok B W v source era_id l1_id x force_data dcut \<longleftrightarrow>
     gateway_cuts_ok x (facetCuts (fst dcut))
     \<and> (\<exists>init. decode_gateway_InitializeDataNewChain B (initCalldata (fst dcut)) = Some init
        \<and> all_deployed v (gateway_direct_checks B source era_id l1_id x)
        \<and> gateway_deployers_ok B W v source era_id l1_id x force_data dcut init)"

lemma gateway_cut_provenance_simps:
  "writer (gateway_cut_provenance B W v source era_id l1_id x force_data dcut)"
  "iterates B v \<Longrightarrow> yields (gateway_cut_provenance B W v source era_id l1_id x force_data dcut) ()
    \<longleftrightarrow> gateway_cut_provenance_ok B W v source era_id l1_id x force_data dcut"
proof -
  have len: "gateway_cuts_ok x cuts \<Longrightarrow> length cuts = 6" for cuts
    unfolding gateway_cuts_ok_def by (auto dest: list_all2_lengthD)
  show "writer (gateway_cut_provenance B W v source era_id l1_id x force_data dcut)"
    by (simp add: gateway_cut_provenance_def gateway_deployers_simps)
  show "iterates B v \<Longrightarrow> yields (gateway_cut_provenance B W v source era_id l1_id x force_data dcut) ()
    \<longleftrightarrow> gateway_cut_provenance_ok B W v source era_id l1_id x force_data dcut"
    using len [of "facetCuts (fst dcut)"]
    by (auto simp: gateway_cut_provenance_def gateway_cut_provenance_ok_def gateway_deployers_simps)
qed

definition gateway_provenance_ok ::
    "ext \<Rightarrow> provenance_abi \<Rightarrow> gw_views \<Rightarrow> ecosystem_upgrade_artifact \<Rightarrow> verifiers \<Rightarrow> u64 \<Rightarrow> u64 \<Rightarrow> new_gateway_artifact \<Rightarrow> bool" where
  "gateway_provenance_ok E B W artifact v era_id l1_id g \<longleftrightarrow> (\<exists>source x force_data dcut.
     source_ctm_for_new_gateway E artifact v = Inr source \<and> gateway_addresses_of E g = Inr x
     \<and> read_gateway_force_deployments_data E g = Inr force_data
     \<and> ga_default_upgrade x = 0 \<and> ga_diamond_proxy x = 0
     \<and> decode_gateway_diamond_cut E B g = Inr dcut
     \<and> gateway_cut_provenance_ok B W v source era_id l1_id x force_data dcut)"

lemma new_gateway_provenance_simps:
  "writer (verify_v31_new_gateway_ctm_provenance E B W artifact v era_id l1_id)"
  "iterates B v \<Longrightarrow> new_gateway artifact = Some g \<Longrightarrow>
    yields (verify_v31_new_gateway_ctm_provenance E B W artifact v era_id l1_id) ()
    \<longleftrightarrow> gateway_provenance_ok E B W artifact v era_id l1_id g"
  unfolding verify_v31_new_gateway_ctm_provenance_def gateway_provenance_ok_def
  by (auto simp: gateway_cut_provenance_simps split: option.splits)

subsection \<open>Governance and the whole element\<close>

definition governance_provenance_ok ::
    "ext \<Rightarrow> provenance_abi \<Rightarrow> l1_views \<Rightarrow> ecosystem_upgrade_artifact \<Rightarrow> verifiers \<Rightarrow> bool" where
  "governance_provenance_ok E B V artifact v \<longleftrightarrow> (\<exists>z i. zk_governance artifact = Some z
     \<and> governance_inputs_of E V artifact v z = Inr i \<and> all_deployed v (governance_checks B v z i))"

lemma governance_provenance_simps [simp]:
  "writer (verify_zk_governance_provenance E B V artifact v)"
  "yields (verify_zk_governance_provenance E B V artifact v) () \<longleftrightarrow> governance_provenance_ok E B V artifact v"
  by (simp_all add: verify_zk_governance_provenance_def governance_provenance_ok_def)

definition deployments_ok ::
    "ext \<Rightarrow> abi \<Rightarrow> provenance_abi \<Rightarrow> l1_views \<Rightarrow> gw_views \<Rightarrow> ecosystem_upgrade_artifact \<Rightarrow> verifiers \<Rightarrow> u64 \<Rightarrow> u64
      \<Rightarrow> u64 \<Rightarrow> core_provenance_context \<Rightarrow> bool" where
  "deployments_ok E A B V W artifact v era_id legacy_gw l1_id c \<longleftrightarrow>
     core_provenance_ok E A B artifact v era_id legacy_gw c
     \<and> (\<forall>ctm \<in> set (ctms artifact). ctm_provenance_ok E A B artifact v era_id l1_id (ctx_bridgehub_addr c) ctm)
     \<and> (\<forall>g. new_gateway artifact = Some g \<longrightarrow> gateway_provenance_ok E B W artifact v era_id l1_id g)
     \<and> (\<exists>adm. get_proxy_admin (network v) (ctx_governance c) = Inr adm
        \<and> (adm \<noteq> 0 \<longrightarrow> governance_provenance_ok E B V artifact v))"

lemma verify_deployments_simps:
  "writer (verify_deployments E A B V W artifact v era_id legacy_gw l1_id c)"
  "iterates B v \<Longrightarrow> yields (verify_deployments E A B V W artifact v era_id legacy_gw l1_id c) ()
    \<longleftrightarrow> deployments_ok E A B V W artifact v era_id legacy_gw l1_id c"
proof -
  have w: "writer (if g \<noteq> None then verify_v31_new_gateway_ctm_provenance E B W artifact v era_id l1_id else okM ())"
    for g :: "new_gateway_artifact option"
    by (simp add: new_gateway_provenance_simps)
  show "writer (verify_deployments E A B V W artifact v era_id legacy_gw l1_id c)"
    unfolding verify_deployments_def by (simp add: new_gateway_provenance_simps)
  assume it: "iterates B v"
  have g: "yields (if new_gateway artifact \<noteq> None then verify_v31_new_gateway_ctm_provenance E B W artifact v era_id l1_id
      else okM ()) () \<longleftrightarrow> (\<forall>g. new_gateway artifact = Some g \<longrightarrow> gateway_provenance_ok E B W artifact v era_id l1_id g)"
    by (cases "new_gateway artifact") (simp_all add: new_gateway_provenance_simps(2) [OF it])
  have z: "yields (if adm \<noteq> 0 then verify_zk_governance_provenance E B V artifact v else okM ()) ()
      \<longleftrightarrow> (adm \<noteq> 0 \<longrightarrow> governance_provenance_ok E B V artifact v)" for adm :: address
    by simp
  show "yields (verify_deployments E A B V W artifact v era_id legacy_gw l1_id c) ()
    \<longleftrightarrow> deployments_ok E A B V W artifact v era_id legacy_gw l1_id c"
    unfolding verify_deployments_def deployments_ok_def g [symmetric] z [symmetric]
    by (simp add: new_gateway_provenance_simps(1) split del: if_split)
qed

definition provenance_ok ::
    "ext \<Rightarrow> abi \<Rightarrow> provenance_abi \<Rightarrow> l1_views \<Rightarrow> gw_views \<Rightarrow> ecosystem_upgrade_artifact \<Rightarrow> verifiers \<Rightarrow> u64 \<Rightarrow> u64 \<Rightarrow> bool" where
  "provenance_ok E A B V W artifact v era_id legacy_gw \<longleftrightarrow> (\<exists>l1_id router weth nullifier ntv diamond governance.
     provenance_context V v era_id = Inr (l1_id, router, weth, nullifier, ntv, diamond)
     \<and> Bridgehub_owner (l1_provider (network v)) (bridgehub_address v) = Some governance
     \<and> deployments_ok E A B V W artifact v era_id legacy_gw l1_id
         \<lparr>ctx_bridgehub_addr = bridgehub_address v, ctx_asset_router_proxy = router, ctx_weth = weth,
           ctx_nullifier = nullifier, ctx_ntv_proxy = ntv, ctx_era_diamond_proxy = diamond, ctx_governance = governance\<rparr>)"

lemma legacy_diamond_simps [simp]: "writer (note_legacy_diamond d)" "clean (note_legacy_diamond d)"
  by (simp_all add: note_legacy_diamond_def)

lemma writer_provenance [simp, writer_intros]: "writer (verify_v31_provenance E A B V W artifact v era_id legacy_gw)"
  unfolding verify_v31_provenance_def by (simp add: verify_deployments_simps split: prod.splits)

lemma yields_provenance:
  assumes "iterates B v"
  shows "yields (verify_v31_provenance E A B V W artifact v era_id legacy_gw) ()
    \<longleftrightarrow> provenance_ok E A B V W artifact v era_id legacy_gw"
proof -
  have w: "writer (case x of (l1_id, router, weth, nullifier, ntv, diamond) \<Rightarrow>
     tryM (liftM (note_legacy_diamond diamond)) (\<lambda>_.
     tryM (State_Monad.return (ok_or (Bail ''calling Bridgehub.owner()'')
       (Bridgehub_owner (l1_provider (network v)) (bridgehub_address v)))) (\<lambda>governance.
     verify_deployments E A B V W artifact v era_id legacy_gw l1_id
       \<lparr>ctx_bridgehub_addr = bridgehub_address v, ctx_asset_router_proxy = router, ctx_weth = weth,
         ctx_nullifier = nullifier, ctx_ntv_proxy = ntv, ctx_era_diamond_proxy = diamond,
         ctx_governance = governance\<rparr>)))" for x
    by (simp add: verify_deployments_simps split: prod.splits)
  show ?thesis
    unfolding verify_v31_provenance_def provenance_ok_def verify_deployments_simps(2) [OF assms, symmetric]
    by (simp add: w verify_deployments_simps(1))
qed

end
