(* ===== verification/Version_Sweep.thy ===== *)
theory Version_Sweep
  imports Governance_Helpers
begin

section \<open>The per-chain protocol-version sweep\<close>

text \<open>
  \<^verbatim>\<open>verify_per_chain_protocol_versions\<close> of \<^verbatim>\<open>governance_stage_calls/mod.rs\<close>: the CTMs of the
  artifact must carry the expected old versions and distinct proxies, or the run stops; then
  every registered chain is looked up and compared, which can only warn.
\<close>

type_synonym expected_map = "address \<Rightarrow> (ctm_flavor \<times> u256) option"

definition CTM_PROXY_PATH :: "string list" where
  "CTM_PROXY_PATH = [''state_transition'', ''chain_type_manager_proxy'']"

definition setup_ctm :: "ext \<Rightarrow> ctm_artifact \<Rightarrow> expected_map \<times> nat \<Rightarrow> (expected_map \<times> nat) res vr" where
  "setup_ctm E ctm st = (let (expected_by_ctm, setup_errors) = st;
       artifact_old_protocol_version = ucast (old_protocol_version (ctm_contracts_config ctm)) in
     tryM (State_Monad.return (get_expected_old_protocol_version_for_ctm_flavor (flavor ctm))) (\<lambda>pv.
     let expected_old_protocol_version = u256_from_protocol_version pv in
     tryM (if artifact_old_protocol_version \<noteq> expected_old_protocol_version
       then tryM (State_Monad.return (protocol_label E artifact_old_protocol_version)) (\<lambda>_.
         liftM (do { report_error; State_Monad.return (setup_errors + 1) }))
       else okM setup_errors) (\<lambda>setup_errors.
     liftM (do {
       ctm_proxy \<leftarrow> required_ctm_address E ctm CTM_PROXY_PATH;
       (case ctm_proxy of
          None \<Rightarrow> State_Monad.return (expected_by_ctm, setup_errors + 1)
        | Some p \<Rightarrow> (case expected_by_ctm p of
            Some _ \<Rightarrow> do { report_error;
              State_Monad.return (expected_by_ctm(p \<mapsto> (flavor ctm, expected_old_protocol_version)), setup_errors + 1) }
          | None \<Rightarrow> State_Monad.return
              (expected_by_ctm(p \<mapsto> (flavor ctm, expected_old_protocol_version)), setup_errors))) }))))"

definition sweep_chain :: "ext \<Rightarrow> verifiers \<Rightarrow> expected_map \<Rightarrow> u256 \<Rightarrow> nat \<Rightarrow> nat res vr" where
  "sweep_chain E v expected_by_ctm chain_id inspected =
     (let skip = liftM (do { report_warn; State_Monad.return inspected }) in
      case try_get_chain_type_manager_from_bridgehub (network v) (bridgehub_address v) chain_id of
        Inl _ \<Rightarrow> skip
      | Inr chain_ctm \<Rightarrow> (case expected_by_ctm chain_ctm of None \<Rightarrow> skip
      | Some (fl, expected_protocol) \<Rightarrow>
        (case try_get_chain_diamond_from_bridgehub (network v) (bridgehub_address v) chain_id of
           Inl _ \<Rightarrow> skip
         | Inr diamond \<Rightarrow> if diamond = 0 then skip else
           (case try_get_chain_protocol_version (network v) diamond of Inl _ \<Rightarrow> skip
            | Inr protocol_version \<Rightarrow>
              if protocol_version \<noteq> expected_protocol
              then tryM (State_Monad.return (protocol_label E protocol_version)) (\<lambda>_.
                tryM (State_Monad.return (protocol_label E expected_protocol)) (\<lambda>_.
                liftM (do { report_warn; State_Monad.return (inspected + 1) })))
              else okM (inspected + 1)))))"

definition sweep_registered :: "ext \<Rightarrow> verifiers \<Rightarrow> expected_map \<Rightarrow> unit res vr" where
  "sweep_registered E v expected_by_ctm =
     (case try_get_all_zk_chain_ids (network v) (bridgehub_address v) of
        Inl _ \<Rightarrow> liftM report_warn
      | Inr chain_ids \<Rightarrow>
          if chain_ids = [] then liftM report_warn
          else tryM (foldTM (sweep_chain E v expected_by_ctm) chain_ids 0) (\<lambda>inspected.
            liftM (if inspected = 0 then report_warn else report_ok)))"

definition sweep_after :: "ext \<Rightarrow> verifiers \<Rightarrow> expected_map \<times> nat \<Rightarrow> unit res vr" where
  "sweep_after E v st = (if snd st > 0 then failM (Bail ''setup errors'') else sweep_registered E v (fst st))"

definition verify_per_chain_protocol_versions ::
    "ext \<Rightarrow> ecosystem_upgrade_artifact \<Rightarrow> verifiers \<Rightarrow> unit res vr" where
  "verify_per_chain_protocol_versions E artifact v =
     tryM (liftM print_info) (\<lambda>_.
     tryM (foldTM (setup_ctm E) (ctms artifact) (Map.empty, 0)) (sweep_after E v))"

section \<open>Setup\<close>

text \<open>The proxy a CTM section names, the version it must carry, and what the map records of it.\<close>

definition proxy_of :: "ext \<Rightarrow> ctm_artifact \<Rightarrow> address option" where
  "proxy_of E ctm = address_at E (ctm_value ctm) CTM_PROXY_PATH"

fun expected_old :: "ctm_flavor \<Rightarrow> protocol_version" where
  "expected_old Era = \<lparr>major = 0, minor = 29, patch = 4\<rparr>"
| "expected_old ZksyncOs = \<lparr>major = 0, minor = 30, patch = 1\<rparr>"

lemma get_expected_old [simp]: "get_expected_old_protocol_version_for_ctm_flavor fl = Inr (expected_old fl)"
  by (cases fl) (simp_all add: expected_versions)

definition version_ok :: "ctm_artifact \<Rightarrow> bool" where
  "version_ok ctm \<longleftrightarrow> ucast (old_protocol_version (ctm_contracts_config ctm))
     = u256_from_protocol_version (expected_old (flavor ctm))"

definition record_ctm :: "ext \<Rightarrow> ctm_artifact \<Rightarrow> expected_map \<Rightarrow> expected_map" where
  "record_ctm E ctm m = (case proxy_of E ctm of None \<Rightarrow> m
     | Some p \<Rightarrow> m(p \<mapsto> (flavor ctm, u256_from_protocol_version (expected_old (flavor ctm)))))"

definition setup_issues :: "ext \<Rightarrow> expected_map \<Rightarrow> ctm_artifact \<Rightarrow> nat" where
  "setup_issues E m ctm = (if version_ok ctm then 0 else 1)
     + (case proxy_of E ctm of None \<Rightarrow> 1 | Some p \<Rightarrow> if m p = None then 0 else 1)"

lemma writer_setup_ctm [simp, writer_intros]: "writer (setup_ctm E ctm st)"
  by (auto simp: setup_ctm_def Let_def split: option.splits prod.splits)

lemma setup_ctm_run:
  assumes "shifts_by_limb E"
  shows "val (setup_ctm E ctm (m, n)) = Inr (record_ctm E ctm m, n + setup_issues E m ctm)"
    and "clean (setup_ctm E ctm (m, n)) \<longleftrightarrow> setup_issues E m ctm = 0"
proof -
  obtain s where s: "protocol_label E (ucast (old_protocol_version (ctm_contracts_config ctm))) = Inr s"
    using protocol_label_total [OF assms] by blast
  show "val (setup_ctm E ctm (m, n)) = Inr (record_ctm E ctm m, n + setup_issues E m ctm)"
    by (cases "version_ok ctm"; cases "proxy_of E ctm")
      (auto simp: setup_ctm_def Let_def s version_ok_def proxy_of_def record_ctm_def setup_issues_def split: option.splits)
  show "clean (setup_ctm E ctm (m, n)) \<longleftrightarrow> setup_issues E m ctm = 0"
    by (cases "version_ok ctm"; cases "proxy_of E ctm")
      (auto simp: setup_ctm_def Let_def s version_ok_def proxy_of_def record_ctm_def setup_issues_def split: option.splits)
qed

text \<open>The artifact's CTMs carry the expected versions and name distinct proxies.\<close>

definition setup_ok :: "ext \<Rightarrow> ctm_artifact list \<Rightarrow> bool" where
  "setup_ok E cs \<longleftrightarrow> (\<forall>c \<in> set cs. version_ok c \<and> proxy_of E c \<noteq> None) \<and> distinct (map (proxy_of E) cs)"

lemma setup_loop:
  assumes "shifts_by_limb E"
  shows "\<exists>k. val (foldTM (setup_ctm E) cs (m, n)) = Inr (fold (record_ctm E) cs m, n + k)
    \<and> (clean (foldTM (setup_ctm E) cs (m, n)) \<longleftrightarrow> k = 0)
    \<and> (k = 0 \<longleftrightarrow> setup_ok E cs \<and> (\<forall>c \<in> set cs. \<forall>p. proxy_of E c = Some p \<longrightarrow> m p = None))"
proof (induction cs arbitrary: m n)
  case Nil
  show ?case by (auto simp: setup_ok_def)
next
  case (Cons c cs)
  note step = setup_ctm_run [OF assms, of c m n]
  let ?m = "record_ctm E c m" and ?n = "n + setup_issues E m c"
  from Cons [of ?m ?n] obtain k where k: "val (foldTM (setup_ctm E) cs (?m, ?n)) = Inr (fold (record_ctm E) cs ?m, ?n + k)"
    "clean (foldTM (setup_ctm E) cs (?m, ?n)) \<longleftrightarrow> k = 0"
    "k = 0 \<longleftrightarrow> setup_ok E cs \<and> (\<forall>c \<in> set cs. \<forall>p. proxy_of E c = Some p \<longrightarrow> ?m p = None)"
    by blast
  have free: "setup_issues E m c + k = 0 \<longleftrightarrow>
    setup_ok E (c # cs) \<and> (\<forall>c \<in> set (c # cs). \<forall>p. proxy_of E c = Some p \<longrightarrow> m p = None)"
    unfolding add_is_0 k(3)
    by (cases "proxy_of E c")
      (auto simp: setup_issues_def setup_ok_def record_ctm_def image_iff split: if_splits)
  show ?case
    by (rule exI [of _ "setup_issues E m c + k"]) (use step k free in auto)
qed

lemma setup_ctm_no_warn:
  assumes "shifts_by_limb E"
  shows "count_list (out (setup_ctm E ctm (m, n))) Warn_line = 0"
proof -
  obtain s where s: "protocol_label E (ucast (old_protocol_version (ctm_contracts_config ctm))) = Inr s"
    using protocol_label_total [OF assms] by blast
  show ?thesis
    by (cases "version_ok ctm"; cases "proxy_of E ctm")
      (auto simp: setup_ctm_def Let_def s version_ok_def proxy_of_def split: option.splits)
qed

lemma setup_no_warnings:
  assumes "shifts_by_limb E"
  shows "count_list (out (foldTM (setup_ctm E) cs (m, n))) Warn_line = 0"
proof (induction cs arbitrary: m n)
  case (Cons c cs)
  then show ?case
    by (simp add: setup_ctm_run [OF assms] setup_ctm_no_warn [OF assms])
qed simp

section \<open>Sweep\<close>

datatype outcome = Skipped | Differs | Matches

definition chain_outcome :: "verifiers \<Rightarrow> expected_map \<Rightarrow> u256 \<Rightarrow> outcome" where
  "chain_outcome v m chain_id = (case (do {
       ctm \<leftarrow> Bridgehub_chainTypeManager (l1_provider (network v)) (bridgehub_address v) chain_id;
       e \<leftarrow> m ctm;
       diamond \<leftarrow> Bridgehub_getZKChain (l1_provider (network v)) (bridgehub_address v) chain_id;
       (if diamond = 0 then None else do {
          version \<leftarrow> ZKChain_getProtocolVersion (l1_provider (network v)) diamond;
          Some (version = snd e) }) })
     of None \<Rightarrow> Skipped | Some True \<Rightarrow> Matches | Some False \<Rightarrow> Differs)"

lemmas accessor_defs = try_get_chain_type_manager_from_bridgehub_def
  try_get_chain_diamond_from_bridgehub_def try_get_chain_protocol_version_def ok_or_def

lemma writer_sweep_chain [simp, writer_intros]: "writer (sweep_chain E v m i n)"
  by (auto simp: sweep_chain_def Let_def split: option.splits sum.splits prod.splits)

lemma sweep_chain_run:
  assumes "shifts_by_limb E"
  shows "val (sweep_chain E v m i n) = Inr (n + (if chain_outcome v m i = Skipped then 0 else 1))"
    and "out (sweep_chain E v m i n) = (if chain_outcome v m i = Matches then [] else [Warn_line])"
proof -
  have lbl: "\<exists>s. protocol_label E w = Inr s" for w
    by (rule protocol_label_total [OF assms])
  have lbl2: "val (tryM (State_Monad.return (protocol_label E a)) (\<lambda>_.
      tryM (State_Monad.return (protocol_label E b)) (\<lambda>_. liftM (do { report_warn; State_Monad.return k })))) = Inr k"
    "out (tryM (State_Monad.return (protocol_label E a)) (\<lambda>_.
      tryM (State_Monad.return (protocol_label E b)) (\<lambda>_. liftM (do { report_warn; State_Monad.return k })))) = [Warn_line]"
    for a b and k :: nat
    using lbl [of a] lbl [of b] by auto
  show "val (sweep_chain E v m i n) = Inr (n + (if chain_outcome v m i = Skipped then 0 else 1))"
    by (auto simp: sweep_chain_def chain_outcome_def Let_def accessor_defs lbl2 split: option.splits)
  show "out (sweep_chain E v m i n) = (if chain_outcome v m i = Matches then [] else [Warn_line])"
    by (auto simp: sweep_chain_def chain_outcome_def Let_def accessor_defs lbl2 split: option.splits)
qed

lemma sweep_loop:
  assumes "shifts_by_limb E"
  shows "val (foldTM (sweep_chain E v m) ids n) = Inr (n + length (filter (\<lambda>i. chain_outcome v m i \<noteq> Skipped) ids))"
    and "out (foldTM (sweep_chain E v m) ids n)
      = replicate (length (filter (\<lambda>i. chain_outcome v m i \<noteq> Matches) ids)) Warn_line"
  by (induction ids arbitrary: n) (simp_all add: sweep_chain_run [OF assms])

lemma writer_sweep_parts [simp, writer_intros]: "writer (sweep_registered E v m)" "writer (sweep_after E v st)"
  by (auto simp: sweep_registered_def sweep_after_def split: sum.splits)

lemma writer_sweep [simp, writer_intros]: "writer (verify_per_chain_protocol_versions E artifact v)"
  by (simp add: verify_per_chain_protocol_versions_def)

text \<open>
  After the setup the sweep cannot fail: one warning per chain that was skipped or differs, and
  a last line that says whether any chain was inspected.
\<close>

lemma sweep_registered_run:
  assumes "shifts_by_limb E"
  shows "val (sweep_registered E v m) = Inr ()" "clean (sweep_registered E v m)"
    and "Bridgehub_getAllZKChainChainIDs (l1_provider (network v)) (bridgehub_address v) = Some ids
      \<Longrightarrow> ids \<noteq> [] \<Longrightarrow> out (sweep_registered E v m)
      = replicate (length (filter (\<lambda>i. chain_outcome v m i \<noteq> Matches) ids)) Warn_line
        @ [if list_all (\<lambda>i. chain_outcome v m i = Skipped) ids then Warn_line else Ok_line]"
proof -
  have sweep: "clean (foldTM (sweep_chain E v m) ids n)" for ids n
    by (simp add: sweep_loop [OF assms] clean_def)
  show "val (sweep_registered E v m) = Inr ()" "clean (sweep_registered E v m)"
    by (auto simp: sweep_registered_def sweep sweep_loop [OF assms] split: sum.splits)
  show "Bridgehub_getAllZKChainChainIDs (l1_provider (network v)) (bridgehub_address v) = Some ids
      \<Longrightarrow> ids \<noteq> [] \<Longrightarrow> out (sweep_registered E v m)
      = replicate (length (filter (\<lambda>i. chain_outcome v m i \<noteq> Matches) ids)) Warn_line
        @ [if list_all (\<lambda>i. chain_outcome v m i = Skipped) ids then Warn_line else Ok_line]"
    by (simp add: sweep_registered_def try_get_all_zk_chain_ids_def sweep_loop [OF assms]
        list_all_iff filter_empty_conv)
qed

lemma sweep_decides:
  assumes "shifts_by_limb E"
  shows "val (verify_per_chain_protocol_versions E artifact v)
      = (if setup_ok E (ctms artifact) then Inr () else Inl (Bail ''setup errors''))"
    and "clean (verify_per_chain_protocol_versions E artifact v) \<longleftrightarrow> setup_ok E (ctms artifact)"
    and "setup_ok E (ctms artifact) \<Longrightarrow> out (verify_per_chain_protocol_versions E artifact v)
      = Info_line # out (foldTM (setup_ctm E) (ctms artifact) (Map.empty, 0))
        @ out (sweep_registered E v (fold (record_ctm E) (ctms artifact) Map.empty))"
proof -
  obtain k where k: "val (foldTM (setup_ctm E) (ctms artifact) (Map.empty, 0))
      = Inr (fold (record_ctm E) (ctms artifact) Map.empty, k)"
    "clean (foldTM (setup_ctm E) (ctms artifact) (Map.empty, 0)) \<longleftrightarrow> k = 0"
    "k = 0 \<longleftrightarrow> setup_ok E (ctms artifact)"
    using setup_loop [OF assms, of "ctms artifact" Map.empty 0] by auto
  show "val (verify_per_chain_protocol_versions E artifact v)
      = (if setup_ok E (ctms artifact) then Inr () else Inl (Bail ''setup errors''))"
    "clean (verify_per_chain_protocol_versions E artifact v) \<longleftrightarrow> setup_ok E (ctms artifact)"
    "setup_ok E (ctms artifact) \<Longrightarrow> out (verify_per_chain_protocol_versions E artifact v)
      = Info_line # out (foldTM (setup_ctm E) (ctms artifact) (Map.empty, 0))
        @ out (sweep_registered E v (fold (record_ctm E) (ctms artifact) Map.empty))"
    using k by (auto simp: verify_per_chain_protocol_versions_def sweep_after_def sweep_registered_run [OF assms])
qed

end
