(* ===== verification/Pipeline.thy ===== *)
theory Pipeline
  imports Stage1 Stage2 Provenance Version_Sweep
begin

section \<open>The verification pipeline\<close>

text \<open>
  \<^verbatim>\<open>verify\<close> of \<^verbatim>\<open>v31/mod.rs\<close> and \<^verbatim>\<open>verify_governance_stage_calls\<close> of
  \<^verbatim>\<open>governance_stage_calls/mod.rs\<close>: the context is built, the provenance maps are filled from the
  log, and the passes run one after the other, each stopping the run with \<^verbatim>\<open>?\<close>. The lemmas
  relate the run to an abstract specification that mentions no order, no report and no state.
\<close>

text \<open>The decoders and encoders of the passes, and the views of the two chains.\<close>

record decoders =
  d_abi :: abi
  d_payload :: payload_abi
  d_stage1 :: stage1_abi
  d_stage2 :: stage2_abi
  d_provenance :: provenance_abi

definition verify_governance_stage_calls ::
    "ext \<Rightarrow> decoders \<Rightarrow> ecosystem_upgrade_artifact \<Rightarrow> verifiers \<Rightarrow> unit res vr" where
  "verify_governance_stage_calls E D artifact v =
     tryM (State_Monad.return (call_list_parse E (d_abi D) (stage0_calls (artifact_governance_calls artifact)))) (\<lambda>stage0.
     tryM (stage0_verify_artifact E (d_abi D) artifact v stage0) (\<lambda>_.
     tryM (State_Monad.return (call_list_parse E (d_abi D) (stage1_calls (artifact_governance_calls artifact)))) (\<lambda>stage1.
     tryM (stage1_verify_artifact E (d_abi D) (d_payload D) (d_stage1 D) artifact v stage1) (\<lambda>_.
     tryM (State_Monad.return (call_list_parse E (d_abi D) (stage2_calls (artifact_governance_calls artifact)))) (\<lambda>stage2.
     stage2_verify_artifact E (d_stage2 D) artifact v stage2)))))"

definition verify_populated ::
    "ext \<Rightarrow> decoders \<Rightarrow> l1_views \<Rightarrow> gw_views \<Rightarrow> ecosystem_upgrade_artifact \<Rightarrow> chain_params \<Rightarrow> address
      \<Rightarrow> verifiers \<Rightarrow> unit res vr" where
  "verify_populated E D V G artifact p create2_factory v =
     tryM (liftM report_ok) (\<lambda>_.
     tryM (verify_v31_artifact_state E V artifact v create2_factory) (\<lambda>_.
     tryM (verify_v31_provenance E (d_abi D) (d_provenance D) V G artifact v
       (cp_legacy_era_chain_id p) (cp_legacy_gateway_chain_id p)) (\<lambda>_.
     tryM (verify_per_chain_protocol_versions E artifact v) (\<lambda>_.
     verify_governance_stage_calls E D artifact v))))"

definition populate_verifiers ::
    "ext \<Rightarrow> decoders \<Rightarrow> b256 list \<Rightarrow> address \<Rightarrow> b256 list \<Rightarrow> verifiers \<Rightarrow> verifiers res vr" where
  "populate_verifiers E D tx_hashes create2_factory expected_salts v =
     tryM (populate_create2_from_transactions_log E (d_abi D) (bytecodes v) create2_factory (bridgehub_address v)
       expected_salts tx_hashes (network v)) (\<lambda>st. okM (v\<lparr>network := nv st\<rparr>))"

definition verify_v31 ::
    "ext \<Rightarrow> decoders \<Rightarrow> outside \<Rightarrow> l1_views \<Rightarrow> gw_views \<Rightarrow> verify_upgrade_env \<Rightarrow> ecosystem_upgrade_artifact
      \<Rightarrow> string option \<Rightarrow> string \<Rightarrow> chain_params \<Rightarrow> b256 list \<Rightarrow> address \<Rightarrow> b256 list \<Rightarrow> unit res vr" where
  "verify_v31 E D W V G selected artifact contracts_commit zk_governance_commit p tx_hashes create2_factory expected_salts =
     tryM (liftM print_info) (\<lambda>_.
     tryM (State_Monad.return (verifiers_new_v31 E W selected artifact contracts_commit zk_governance_commit p)) (\<lambda>v.
     tryM (liftM (do { report_ok; report_ok })) (\<lambda>_.
     tryM (populate_verifiers E D tx_hashes create2_factory expected_salts v)
       (verify_populated E D V G artifact p create2_factory))))"

section \<open>Filling the provenance maps\<close>

text \<open>
  The loop over the log stops early only at a transaction to the factory whose input makes
  \<^verbatim>\<open>parse_l1_create2_deploy_from_input\<close> panic; otherwise its effect is that of entering the
  deployments in order.
\<close>

definition readable ::
    "ext \<Rightarrow> abi \<Rightarrow> bytecode_verifier \<Rightarrow> address \<Rightarrow> address \<Rightarrow> l1_rpc \<Rightarrow> b256 \<Rightarrow> bool" where
  "readable E A bv f b rpc hash \<longleftrightarrow> (\<forall>t to_addr. get_transaction_by_hash rpc hash = Some (Some t) \<longrightarrow> tx_to t = Some to_addr
     \<longrightarrow> (\<exists>d. recognise_deployment E A bv f b to_addr (tx_input t) = Inr d))"

lemma populate_step_total:
  "(\<exists>st'. val (populate_step E A bv f b salts h st) = Inr st') \<longleftrightarrow> readable E A bv f b (l1_provider (nv st)) h"
  unfolding populate_step_def readable_def by (auto split: option.splits sum.splits)

lemma populate_step_provider:
  "val (populate_step E A bv f b salts h st) = Inr st' \<Longrightarrow> l1_provider (nv st') = l1_provider (nv st)"
  using populate_step_cases(1) [of E A bv f b salts h st st'] by (simp split: option.splits)

lemma populate_total:
  "(\<exists>st'. val (foldTM (populate_step E A bv f b salts) hs st) = Inr st')
    \<longleftrightarrow> (\<forall>h \<in> set hs. readable E A bv f b (l1_provider (nv st)) h)"
proof (induction hs arbitrary: st)
  case (Cons h hs)
  have "(\<exists>st'. val (foldTM (populate_step E A bv f b salts) (h # hs) st) = Inr st')
      \<longleftrightarrow> (\<exists>s1. val (populate_step E A bv f b salts h st) = Inr s1
        \<and> (\<exists>st'. val (foldTM (populate_step E A bv f b salts) hs s1) = Inr st'))"
    by (auto simp: val_tryM_eq_Inr)
  also have "\<dots> \<longleftrightarrow> (\<exists>s1. val (populate_step E A bv f b salts h st) = Inr s1)
      \<and> (\<forall>h \<in> set hs. readable E A bv f b (l1_provider (nv st)) h)"
    unfolding Cons using populate_step_provider [of E A bv f b salts h st] by auto
  finally show ?case
    by (simp add: populate_step_total)
qed simp

text \<open>The network verifier after the log was entered, and when the log is without fault.\<close>

definition logged :: "ext \<Rightarrow> decoders \<Rightarrow> verifiers \<Rightarrow> address \<Rightarrow> b256 list \<Rightarrow> parsed_create2_deployment list" where
  "logged E D v f hs = deployments_of E (d_abi D) (bytecodes v) f (bridgehub_address v) (l1_provider (network v)) hs"

definition with_log :: "ext \<Rightarrow> decoders \<Rightarrow> address \<Rightarrow> b256 list \<Rightarrow> verifiers \<Rightarrow> verifiers" where
  "with_log E D f hs v = v\<lparr>network := provenance.put_all (map entry (logged E D v f hs)) (network v)\<rparr>"

definition log_ok :: "ext \<Rightarrow> decoders \<Rightarrow> address \<Rightarrow> b256 list \<Rightarrow> b256 list \<Rightarrow> verifiers \<Rightarrow> bool" where
  "log_ok E D f salts hs v \<longleftrightarrow>
     (\<forall>h \<in> set hs. readable E (d_abi D) (bytecodes v) f (bridgehub_address v) (l1_provider (network v)) h)
     \<and> (\<forall>d \<in> set (logged E D v f hs). dep_salt d \<in> set salts
        \<and> look_deployment (network (with_log E D f hs v)) (dep_addr d) = Some (dep_name d, dep_params d))"

lemma writer_populate_verifiers [simp, writer_intros]: "writer (populate_verifiers E D hs f salts v)"
  by (simp add: populate_verifiers_def)

lemma yields_populate:
  assumes "same_keys (network v)"
  shows "yields (populate_verifiers E D hs f salts v) v' \<longleftrightarrow> log_ok E D f salts hs v \<and> v' = with_log E D f hs v"
proof -
  let ?st = "\<lparr>nv = network v, fetch_failures = 0, reverted = 0, parsed_gateway_deployments = 0\<rparr>"
  let ?m = "foldTM (populate_step E (d_abi D) (bytecodes v) f (bridgehub_address v) salts) hs ?st"
  have keys: "same_keys (nv ?st)"
    using assms by simp
  have step: "yields ?m st \<longleftrightarrow> val ?m = Inr st \<and> log_ok E D f salts hs v \<and> nv st = network (with_log E D f hs v)" for st
  proof (cases "val ?m = Inr st")
    case True
    have total: "\<forall>h \<in> set hs. readable E (d_abi D) (bytecodes v) f (bridgehub_address v) (l1_provider (network v)) h"
      using True populate_total [of E "d_abi D" "bytecodes v" f "bridgehub_address v" salts hs ?st] by auto
    show ?thesis
      using populate_loop(1) [OF True keys] populate_loop(2) [OF True keys] True total
      by (auto simp: yields_def log_ok_def with_log_def logged_def)
  qed (simp add: yields_def)
  have ex: "log_ok E D f salts hs v \<Longrightarrow> \<exists>st. val ?m = Inr st"
    using populate_total [of E "d_abi D" "bytecodes v" f "bridgehub_address v" salts hs ?st] by (simp add: log_ok_def)
  have net: "val ?m = Inr st \<Longrightarrow> nv st = network (with_log E D f hs v)" for st
    using populate_loop(1) [of E "d_abi D" "bytecodes v" f "bridgehub_address v" salts hs ?st st, OF _ keys]
    by (simp add: with_log_def logged_def)
  have wl: "v\<lparr>network := network (with_log E D f hs v)\<rparr> = with_log E D f hs v"
    by (simp add: with_log_def)
  have "yields (populate_verifiers E D hs f salts v) v' \<longleftrightarrow> (\<exists>st. yields ?m st \<and> v\<lparr>network := nv st\<rparr> = v')"
    unfolding populate_verifiers_def populate_create2_from_transactions_log_def by simp
  also have "\<dots> \<longleftrightarrow> log_ok E D f salts hs v \<and> v' = with_log E D f hs v"
    unfolding step using ex net wl by metis
  finally show ?thesis .
qed

text \<open>
  The contract of \<^verbatim>\<open>HashMap::iter\<close>: every entry of the (finite) map once, in some order. The
  maps of a populated context are finite.
\<close>

definition map_iterator :: "provenance_abi \<Rightarrow> bool" where
  "map_iterator B \<longleftrightarrow> (\<forall>m. finite (dom m) \<longrightarrow> distinct (hash_map_iter B m) \<and> set (hash_map_iter B m) = dom m)"

lemma finite_put_all:
  "finite (dom (create2_known_bytecodes n)) \<Longrightarrow> finite (dom (create2_known_bytecodes (provenance.put_all kvs n)))"
proof (induction kvs arbitrary: n)
  case (Cons kv kvs)
  obtain k np where kv: "kv = (k, np)"
    by (cases kv)
  have "finite (dom (create2_known_bytecodes (put_deployment k np n)))"
    using Cons.prems by (simp add: put_deployment_def val_insert)
  then show ?case
    using Cons.IH by (simp add: kv)
qed simp

lemma iterates_with_log:
  assumes "map_iterator (d_provenance D)" "create2_known_bytecodes (network v) = Map.empty"
  shows "iterates (d_provenance D) (with_log E D f hs v)"
proof -
  have "finite (dom (create2_known_bytecodes (network (with_log E D f hs v))))"
    using finite_put_all [of "network v" "map entry (logged E D v f hs)"] assms(2) by (simp add: with_log_def)
  with assms(1) show ?thesis
    unfolding map_iterator_def iterates_def Let_def by blast
qed

section \<open>The abstract specification\<close>

text \<open>
  An upgrade is good for a set of chains when its context can be built, the log is without
  fault, and in the context with the log the live state, the provenance of every deployment,
  the CTM setup and the three stages are as prescribed.
\<close>

definition stage_calls_ok :: "ext \<Rightarrow> decoders \<Rightarrow> ecosystem_upgrade_artifact \<Rightarrow> verifiers \<Rightarrow> bool" where
  "stage_calls_ok E D artifact v \<longleftrightarrow> (\<exists>c0 c1 c2.
     call_list_parse E (d_abi D) (stage0_calls (artifact_governance_calls artifact)) = Inr c0
     \<and> call_list_parse E (d_abi D) (stage1_calls (artifact_governance_calls artifact)) = Inr c1
     \<and> call_list_parse E (d_abi D) (stage2_calls (artifact_governance_calls artifact)) = Inr c2
     \<and> stage0_ok E (d_abi D) artifact v c0
     \<and> stage1_ok E (d_abi D) (d_payload D) (d_stage1 D) artifact v c1
     \<and> stage2_ok E (d_stage2 D) artifact v c2)"

definition passes_ok ::
    "ext \<Rightarrow> decoders \<Rightarrow> l1_views \<Rightarrow> gw_views \<Rightarrow> ecosystem_upgrade_artifact \<Rightarrow> chain_params \<Rightarrow> address \<Rightarrow> verifiers \<Rightarrow> bool" where
  "passes_ok E D V G artifact p f v \<longleftrightarrow> rpc_state_ok E V artifact v f
     \<and> provenance_ok E (d_abi D) (d_provenance D) V G artifact v (cp_legacy_era_chain_id p) (cp_legacy_gateway_chain_id p)
     \<and> setup_ok E (ctms artifact)
     \<and> stage_calls_ok E D artifact v"

definition upgrade_ok ::
    "ext \<Rightarrow> decoders \<Rightarrow> outside \<Rightarrow> l1_views \<Rightarrow> gw_views \<Rightarrow> verify_upgrade_env \<Rightarrow> ecosystem_upgrade_artifact
      \<Rightarrow> string option \<Rightarrow> string \<Rightarrow> chain_params \<Rightarrow> b256 list \<Rightarrow> address \<Rightarrow> b256 list \<Rightarrow> bool" where
  "upgrade_ok E D W V G selected artifact commit gov p hs f salts \<longleftrightarrow>
     (\<exists>v. verifiers_new_v31 E W selected artifact commit gov p = Inr v
        \<and> log_ok E D f salts hs v \<and> passes_ok E D V G artifact p f (with_log E D f hs v))"

lemma writer_stage_calls [simp, writer_intros]: "writer (verify_governance_stage_calls E D artifact v)"
  by (simp add: verify_governance_stage_calls_def)

lemma yields_stage_calls:
  "shifts_by_limb E \<Longrightarrow>
    yields (verify_governance_stage_calls E D artifact v) () \<longleftrightarrow> stage_calls_ok E D artifact v"
  by (auto simp: verify_governance_stage_calls_def stage_calls_ok_def yields_stage0 yields_stage1 yields_stage2)

lemma writer_verify_populated [simp, writer_intros]: "writer (verify_populated E D V G artifact p f v)"
  by (simp add: verify_populated_def)

lemma yields_sweep:
  "shifts_by_limb E \<Longrightarrow> yields (verify_per_chain_protocol_versions E artifact v) () \<longleftrightarrow> setup_ok E (ctms artifact)"
  by (simp add: yields_def sweep_decides)

lemma yields_verify_populated:
  assumes "shifts_by_limb E" "iterates (d_provenance D) v"
  shows "yields (verify_populated E D V G artifact p f v) () \<longleftrightarrow> passes_ok E D V G artifact p f v"
  by (simp add: verify_populated_def passes_ok_def yields_artifact_state yields_provenance [OF assms(2)]
      yields_sweep [OF assms(1)] yields_stage_calls [OF assms(1)])

lemma writer_verify_v31 [simp, writer_intros]:
  "writer (verify_v31 E D W V G selected artifact commit gov p hs f salts)"
  by (simp add: verify_v31_def)

lemma yields_verify_v31:
  assumes "shifts_by_limb E" "map_iterator (d_provenance D)"
  shows "yields (verify_v31 E D W V G selected artifact commit gov p hs f salts) ()
    \<longleftrightarrow> upgrade_ok E D W V G selected artifact commit gov p hs f salts"
proof -
  have v: "yields (populate_verifiers E D hs f salts v) v' \<and> yields (verify_populated E D V G artifact p f v') ()
      \<longleftrightarrow> log_ok E D f salts hs v \<and> v' = with_log E D f hs v \<and> passes_ok E D V G artifact p f v'"
    if "verifiers_new_v31 E W selected artifact commit gov p = Inr v" for v v'
    using yields_populate [OF new_v31_parts(1) [OF that]] new_v31_empty_provenance(1) [OF that]
      yields_verify_populated [OF assms(1) iterates_with_log [OF assms(2)]] by metis
  have ok: "val (do { report_ok; report_ok }) = ()" "clean (do { report_ok; report_ok })"
    by simp_all
  have "yields (verify_v31 E D W V G selected artifact commit gov p hs f salts) () \<longleftrightarrow>
      (\<exists>v. verifiers_new_v31 E W selected artifact commit gov p = Inr v
        \<and> (\<exists>v'. yields (populate_verifiers E D hs f salts v) v' \<and> yields (verify_populated E D V G artifact p f v') ()))"
    by (simp add: verify_v31_def)
  also have "\<dots> \<longleftrightarrow> upgrade_ok E D W V G selected artifact commit gov p hs f salts"
    unfolding upgrade_ok_def using v by metis
  finally show ?thesis .
qed

end
