(* ===== verification/Env_Config.thy ===== *)
theory Env_Config
  imports Verifiers Chain_Types
begin

section \<open>The configuration of an environment\<close>

text \<open>
  \<^verbatim>\<open>common/env_config.rs\<close> with the path helpers of \<^verbatim>\<open>common/paths.rs\<close>: two files per
  environment, the permanent values (deserialised by the \<^verbatim>\<open>toml\<close> crate, a parameter) and the
  input of the upgrade, which the code reads line by line because the crate rejects it. The
  line scanners are modelled character by character. The second half reads the same files by
  a reference: every line with the section it stands in.
\<close>

datatype ownable_proxy_kind = LegacyGovernance | OzChainAdmin

fun to_solidity_u8 :: "ownable_proxy_kind \<Rightarrow> 8 word" where
  "to_solidity_u8 LegacyGovernance = 1"
| "to_solidity_u8 OzChainAdmin = 2"

datatype governance_kind = Legacy | Puh

record legacy_gateway_config =
  lg_chain_id :: u64
  lg_chain_intervals :: "chain_interval list"

record new_gateway_config =
  ngc_chain_id :: u64
  ngc_settlement_fee :: u256
  ngc_refund_recipient :: "address option"
  ngc_ctm_representative_chain_id :: u64
  ngc_server_notifier :: "address option"

record ownable_proxy_entry =
  proxy_entry_addr :: address
  proxy_entry_kind :: ownable_proxy_kind

record core_contracts =
  cc_bridgehub_proxy_addr :: address
  cc_governance_kind :: governance_kind

record rollup_da_pair_config =
  pair_l1_da_validator :: address
  pair_l2_da_commitment_scheme :: L2DACommitmentScheme

record ctm_entry =
  ce_proxy :: address
  ce_is_zk_sync_os :: "bool option"
  ce_bytecodes_supplier :: "address option"
  ce_rollup_da_manager :: "address option"
  ce_rollup_da_pair :: "rollup_da_pair_config option"

record ctm_contracts =
  cc_ctm_proxy_addr :: "address option"
  cc_ctms :: "ctm_entry list"

record permanent_contracts =
  pc_create2_factory_addr :: "address option"

record permanent_values =
  pv_l1_chain_id :: "u64 option"
  pv_zk_token_asset_id :: "b256 option"
  pv_legacy_era_chain_id :: "u64 option"
  pv_core_contracts :: core_contracts
  pv_ctm_contracts :: "ctm_contracts option"
  pv_permanent_contracts :: "permanent_contracts option"
  pv_ownable_proxies :: "ownable_proxy_entry list"
  pv_new_gateway :: "new_gateway_config option"
  pv_legacy_gateway :: "legacy_gateway_config option"

record v31_upgrade_inputs =
  vi_owner_address :: "address option"
  vi_era_chain_id :: "u64 option"

definition v31_upgrade_inputs_default :: v31_upgrade_inputs where
  "v31_upgrade_inputs_default = \<lparr>vi_owner_address = None, vi_era_chain_id = None\<rparr>"

record env_config =
  ec_env :: string
  permanent_values_path :: string
  v31_input_path :: string
  permanent :: permanent_values
  v31 :: v31_upgrade_inputs

subsection \<open>Paths\<close>

text \<open>
  The file system: which paths exist, what a file holds (\<open>None\<close> when it cannot be read), the
  environment variable and the compiled-in default of the root, and the deserialiser.
\<close>

record env_files =
  root_variable :: "string option"
  default_contracts_root :: string
  path_exists :: "string \<Rightarrow> bool"
  read_to_string :: "string \<Rightarrow> string option"
  permanent_from_toml :: "string \<Rightarrow> permanent_values option"

definition contracts_root :: "env_files \<Rightarrow> string" where
  "contracts_root M = (case root_variable M of Some path \<Rightarrow> path | None \<Rightarrow> default_contracts_root M)"

definition path_from_root :: "env_files \<Rightarrow> string \<Rightarrow> string" where
  "path_from_root M relative = path_join (contracts_root M) relative"

definition path_to_foundry_scripts :: "env_files \<Rightarrow> string" where
  "path_to_foundry_scripts M = path_from_root M ''l1-contracts''"

definition resolve_l1_contracts_path :: "env_files \<Rightarrow> string res" where
  "resolve_l1_contracts_path M =
     (let repo_root = contracts_root M; direct = path_join repo_root ''l1-contracts'' in
      if path_exists M direct then Inr direct
      else let nested = path_join (path_join repo_root ''contracts'') ''l1-contracts'' in
        if path_exists M nested then Inr nested
        else Inl (Bail ''Could not resolve l1-contracts path''))"

definition V31_UPGRADE_DIR :: string where
  "V31_UPGRADE_DIR = ''upgrade-envs/v0.31.0-interopB''"

definition PERMANENT_VALUES_DIR :: string where
  "PERMANENT_VALUES_DIR = ''upgrade-envs/permanent-values''"

definition default_protocol_ops_out_dir :: "env_files \<Rightarrow> string \<Rightarrow> string res" where
  "default_protocol_ops_out_dir M name =
     bind_res (resolve_l1_contracts_path M) (\<lambda>l1.
     Inr (path_join (path_join (path_join l1 V31_UPGRADE_DIR) ''output'') name))"

subsection \<open>Line scanners\<close>

text \<open>\<^verbatim>\<open>str::find(char)\<close>, \<^verbatim>\<open>trim_start\<close> and \<^verbatim>\<open>parse::<B256>\<close> (hex, exactly 32 bytes).\<close>

definition find_char :: "char \<Rightarrow> string \<Rightarrow> nat option" where
  "find_char c s = (if c \<in> set s then Some (length (takeWhile (\<lambda>x. x \<noteq> c) s)) else None)"

definition trim_start :: "string \<Rightarrow> string" where
  "trim_start s = dropWhile is_ws s"

definition parse_b256 :: "ext \<Rightarrow> string \<Rightarrow> b256 option" where
  "parse_b256 E s = do {
     bs \<leftarrow> hex_decode E s;
     (if length bs = 32 then Some (from_be_bytes bs) else None) }"

abbreviation quote :: char where
  "quote \<equiv> CHR 0x22"

definition parse_section_header :: "string \<Rightarrow> string option" where
  "parse_section_header raw =
     (let line = trim (hd (split_char (CHR ''#'') raw)) in
      if \<not> starts_with ''['' line \<or> \<not> ends_with '']'' line then None
      else Some (trim (slice 1 (length line - 1) line)))"

definition match_addr_keyed_h256 :: "ext \<Rightarrow> string \<Rightarrow> (address \<times> b256) option" where
  "match_addr_keyed_h256 E raw =
     (let line = trim (hd (split_char (CHR ''#'') raw)) in
      if \<not> starts_with [quote] line then None
      else let rest = drop 1 line in do {
        key_end \<leftarrow> find_char quote rest;
        let key = take key_end rest;
        let after_key = trim_start (drop (key_end + 1) rest);
        after_eq \<leftarrow> strip_prefix ''='' after_key;
        after_quote \<leftarrow> strip_prefix [quote] (trim_start after_eq);
        val_end \<leftarrow> find_char quote after_quote;
        let value = take val_end after_quote;
        addr \<leftarrow> address_from_str E key;
        salt \<leftarrow> parse_b256 E value;
        Some (addr, salt) })"

definition match_quoted :: "(string \<Rightarrow> 'a option) \<Rightarrow> string \<Rightarrow> string \<Rightarrow> 'a option" where
  "match_quoted parse line key =
     (let prefix = key @ '' = '' @ [quote] in
      if \<not> starts_with prefix line then None
      else let rest = drop (length prefix) line in do {
        end_pos \<leftarrow> find_char quote rest;
        parse (take end_pos rest) })"

definition match_quoted_address :: "ext \<Rightarrow> string \<Rightarrow> string \<Rightarrow> address option" where
  "match_quoted_address E line key = match_quoted (address_from_str E) line key"

definition match_quoted_h256 :: "ext \<Rightarrow> string \<Rightarrow> string \<Rightarrow> b256 option" where
  "match_quoted_h256 E line key = match_quoted (parse_b256 E) line key"

definition match_unquoted_uint :: "string \<Rightarrow> string \<Rightarrow> u64 option" where
  "match_unquoted_uint line key =
     (let prefix = key @ '' = '' in
      if \<not> starts_with prefix line then None
      else parse_u64 (trim (hd (split_char (CHR ''#'') (drop (length prefix) line)))))"

subsection \<open>The readers\<close>

definition input_line :: "ext \<Rightarrow> string \<Rightarrow> v31_upgrade_inputs \<Rightarrow> v31_upgrade_inputs" where
  "input_line E raw inp =
     (let line = trim raw in
      case match_quoted_address E line ''owner_address'' of
        Some addr \<Rightarrow> inp\<lparr>vi_owner_address := Some addr\<rparr>
      | None \<Rightarrow> (case match_unquoted_uint line ''era_chain_id'' of
          Some i \<Rightarrow> inp\<lparr>vi_era_chain_id := Some i\<rparr>
        | None \<Rightarrow> inp))"

definition parse_v31_upgrade_input :: "ext \<Rightarrow> string \<Rightarrow> v31_upgrade_inputs" where
  "parse_v31_upgrade_input E content = fold (input_line E) (str_lines content) v31_upgrade_inputs_default"

fun contracts_scan :: "ext \<Rightarrow> string \<Rightarrow> string list \<Rightarrow> bool \<Rightarrow> b256 option" where
  "contracts_scan E key [] in_contracts = None"
| "contracts_scan E key (raw # rest) in_contracts =
     (let line = trim raw in
      if line = [] \<or> starts_with ''#'' line then contracts_scan E key rest in_contracts
      else case parse_section_header line of
        Some sec \<Rightarrow> contracts_scan E key rest (sec = ''contracts'')
      | None \<Rightarrow>
          if in_contracts
          then (case match_quoted_h256 E line key of
              Some h \<Rightarrow> Some h
            | None \<Rightarrow> contracts_scan E key rest in_contracts)
          else contracts_scan E key rest in_contracts)"

definition read_h256_under_contracts :: "ext \<Rightarrow> string \<Rightarrow> string \<Rightarrow> b256 option" where
  "read_h256_under_contracts E content key = contracts_scan E key (str_lines content) False"

definition read_core_create2_salt :: "ext \<Rightarrow> string \<Rightarrow> b256 option" where
  "read_core_create2_salt E content = read_h256_under_contracts E content ''create2_factory_salt''"

definition read_core_legacy_gov_salt :: "ext \<Rightarrow> string \<Rightarrow> b256 option" where
  "read_core_legacy_gov_salt E content = read_h256_under_contracts E content ''legacy_gov_salt''"

fun salts_scan :: "ext \<Rightarrow> string list \<Rightarrow> string option \<Rightarrow> (address \<Rightarrow> b256 option) \<Rightarrow> address \<Rightarrow> b256 option" where
  "salts_scan E [] current_section m = m"
| "salts_scan E (raw # rest) current_section m =
     (let line = trim raw in
      if line = [] \<or> starts_with ''#'' line then salts_scan E rest current_section m
      else case parse_section_header line of
        Some sec \<Rightarrow> salts_scan E rest (Some sec) m
      | None \<Rightarrow>
          if current_section = Some ''create2_factory_salts''
          then (case match_addr_keyed_h256 E line of
              Some (addr, salt) \<Rightarrow> salts_scan E rest current_section (m(addr \<mapsto> salt))
            | None \<Rightarrow> salts_scan E rest current_section m)
          else salts_scan E rest current_section m)"

definition read_create2_salts_per_ctm :: "ext \<Rightarrow> string \<Rightarrow> address \<Rightarrow> b256 option" where
  "read_create2_salts_per_ctm E content = salts_scan E (str_lines content) None Map.empty"

subsection \<open>Loading\<close>

definition env_config_load :: "ext \<Rightarrow> env_files \<Rightarrow> string \<Rightarrow> env_config res" where
  "env_config_load E M name =
     bind_res (resolve_l1_contracts_path M) (\<lambda>l1.
     let pv_path = path_join (path_join l1 PERMANENT_VALUES_DIR) (name @ ''.toml'');
         input_path = path_join (path_join l1 V31_UPGRADE_DIR) (name @ ''.toml'') in
     bind_res (ok_or (Bail ''Failed to read permanent-values TOML'') (read_to_string M pv_path)) (\<lambda>pv_content.
     bind_res (ok_or (Bail ''Failed to parse permanent-values TOML'') (permanent_from_toml M pv_content)) (\<lambda>pv.
     bind_res (if path_exists M input_path
       then bind_res (ok_or (Bail ''read_to_string'') (read_to_string M input_path)) (\<lambda>content.
         Inr (parse_v31_upgrade_input E content))
       else Inr v31_upgrade_inputs_default) (\<lambda>inputs.
     Inr \<lparr>ec_env = name, permanent_values_path = pv_path, v31_input_path = input_path,
       permanent = pv, v31 = inputs\<rparr>))))"

definition ec_bridgehub :: "env_config \<Rightarrow> address" where
  "ec_bridgehub cfg = cc_bridgehub_proxy_addr (pv_core_contracts (permanent cfg))"

definition ec_ctms :: "env_config \<Rightarrow> ctm_entry list" where
  "ec_ctms cfg = (case pv_ctm_contracts (permanent cfg) of Some c \<Rightarrow> cc_ctms c | None \<Rightarrow> [])"

definition ec_create2_factory :: "env_config \<Rightarrow> address option" where
  "ec_create2_factory cfg = do {
     p \<leftarrow> pv_permanent_contracts (permanent cfg);
     pc_create2_factory_addr p }"

text \<open>The salts are read from the file at every call; without the file there are none.\<close>

definition read_input :: "env_files \<Rightarrow> env_config \<Rightarrow> (string \<Rightarrow> 'a) \<Rightarrow> 'a \<Rightarrow> 'a res" where
  "read_input M cfg reader absent =
     (if \<not> path_exists M (v31_input_path cfg) then Inr absent
      else bind_res (ok_or (Bail ''read'') (read_to_string M (v31_input_path cfg))) (\<lambda>content.
        Inr (reader content)))"

definition v31_create2_factory_salt :: "ext \<Rightarrow> env_files \<Rightarrow> env_config \<Rightarrow> b256 option res" where
  "v31_create2_factory_salt E M cfg = read_input M cfg (read_core_create2_salt E) None"

definition v31_legacy_gov_salt :: "ext \<Rightarrow> env_files \<Rightarrow> env_config \<Rightarrow> b256 option res" where
  "v31_legacy_gov_salt E M cfg = read_input M cfg (read_core_legacy_gov_salt E) None"

definition v31_create2_factory_salt_per_ctm ::
    "ext \<Rightarrow> env_files \<Rightarrow> env_config \<Rightarrow> (address \<Rightarrow> b256 option) res" where
  "v31_create2_factory_salt_per_ctm E M cfg = read_input M cfg (read_create2_salts_per_ctm E) Map.empty"

definition ec_owner_address :: "env_config \<Rightarrow> address option" where
  "ec_owner_address cfg = vi_owner_address (v31 cfg)"

definition ec_era_chain_id :: "env_config \<Rightarrow> u64 option" where
  "ec_era_chain_id cfg = vi_era_chain_id (v31 cfg)"

definition ec_is_mainnet :: "env_config \<Rightarrow> bool" where
  "ec_is_mainnet cfg \<longleftrightarrow> ec_env cfg = ''mainnet''"

definition ec_legacy_gateway_chain_id :: "env_config \<Rightarrow> u64 option" where
  "ec_legacy_gateway_chain_id cfg = map_option lg_chain_id (pv_legacy_gateway (permanent cfg))"

definition ec_legacy_gateway_chain_intervals :: "env_config \<Rightarrow> chain_interval list" where
  "ec_legacy_gateway_chain_intervals cfg =
     (case pv_legacy_gateway (permanent cfg) of Some gw \<Rightarrow> lg_chain_intervals gw | None \<Rightarrow> [])"

definition ec_l1_chain_id :: "env_config \<Rightarrow> u64 option" where
  "ec_l1_chain_id cfg = pv_l1_chain_id (permanent cfg)"

definition ec_ownable_proxies :: "env_config \<Rightarrow> ownable_proxy_entry list" where
  "ec_ownable_proxies cfg = pv_ownable_proxies (permanent cfg)"

definition ec_governance_kind :: "env_config \<Rightarrow> governance_kind" where
  "ec_governance_kind cfg = cc_governance_kind (pv_core_contracts (permanent cfg))"

definition ec_zk_token_asset_id :: "env_config \<Rightarrow> b256 option" where
  "ec_zk_token_asset_id cfg = pv_zk_token_asset_id (permanent cfg)"

definition ec_legacy_era_chain_id :: "env_config \<Rightarrow> u64 option" where
  "ec_legacy_era_chain_id cfg = pv_legacy_era_chain_id (permanent cfg)"

definition ec_new_gateway :: "env_config \<Rightarrow> new_gateway_config option" where
  "ec_new_gateway cfg = pv_new_gateway (permanent cfg)"


section \<open>Reference reading of the input file\<close>

text \<open>Every line that is neither blank, comment nor header, with the section it stands in.\<close>

fun sectioned :: "string list \<Rightarrow> string option \<Rightarrow> (string option \<times> string) list" where
  "sectioned [] sec = []"
| "sectioned (raw # rest) sec =
     (if trim raw = [] \<or> starts_with ''#'' (trim raw) then sectioned rest sec
      else case parse_section_header (trim raw) of
        Some s \<Rightarrow> sectioned rest (Some s)
      | None \<Rightarrow> (sec, trim raw) # sectioned rest sec)"

definition section_lines :: "string \<Rightarrow> string \<Rightarrow> string list" where
  "section_lines name content = map snd (filter (\<lambda>e. fst e = Some name) (sectioned (str_lines content) None))"

fun first_match :: "('a \<Rightarrow> 'b option) \<Rightarrow> 'a list \<Rightarrow> 'b option" where
  "first_match f [] = None"
| "first_match f (x # xs) = (case f x of Some y \<Rightarrow> Some y | None \<Rightarrow> first_match f xs)"

definition last_match :: "('a \<Rightarrow> 'b option) \<Rightarrow> 'a list \<Rightarrow> 'b option" where
  "last_match f xs = first_match f (rev xs)"

lemma contracts_scan_ref:
  "contracts_scan E key ls (sec = Some ''contracts'')
    = first_match (\<lambda>l. match_quoted_h256 E l key) (map snd (filter (\<lambda>e. fst e = Some ''contracts'') (sectioned ls sec)))"
proof (induction ls arbitrary: sec)
  case (Cons raw ls)
  show ?case
    by (cases "trim raw = [] \<or> starts_with ''#'' (trim raw)"; cases "parse_section_header (trim raw)")
      (auto simp: Let_def Cons [symmetric] split: option.splits)
qed simp

lemma salts_scan_ref:
  "salts_scan E ls sec m = m ++ map_of (rev (List.map_filter (match_addr_keyed_h256 E)
     (map snd (filter (\<lambda>e. fst e = Some ''create2_factory_salts'') (sectioned ls sec)))))"
proof (induction ls arbitrary: sec m)
  case (Cons raw ls)
  show ?case
    by (cases "trim raw = [] \<or> starts_with ''#'' (trim raw)"; cases "parse_section_header (trim raw)")
      (auto simp: Let_def Cons List.map_filter_simps map_add_def fun_eq_iff split: option.splits)
qed (simp add: List.map_filter_simps)

lemma salt_readers_ref:
  "read_h256_under_contracts E content key
    = first_match (\<lambda>l. match_quoted_h256 E l key) (section_lines ''contracts'' content)"
  "read_create2_salts_per_ctm E content
    = map_of (rev (List.map_filter (match_addr_keyed_h256 E) (section_lines ''create2_factory_salts'' content)))"
  using contracts_scan_ref [of E key "str_lines content" None] salts_scan_ref [of E "str_lines content" None Map.empty]
  by (simp_all add: read_h256_under_contracts_def read_create2_salts_per_ctm_def section_lines_def)

text \<open>
  The chain id and the owner come from the last matching line of the file, whatever section it
  stands in.
\<close>

lemma first_match_append:
  "first_match f (xs @ ys) = (case first_match f xs of Some y \<Rightarrow> Some y | None \<Rightarrow> first_match f ys)"
  by (induction xs) (auto split: option.splits)

lemma owner_line_no_chain_id:
  "match_quoted_address E l ''owner_address'' = Some a \<Longrightarrow> match_unquoted_uint l ''era_chain_id'' = None"
  by (cases l) (auto simp: match_quoted_address_def match_quoted_def match_unquoted_uint_def Let_def split: if_splits)

lemma input_line_fields:
  "vi_owner_address (input_line E l inp) = (case match_quoted_address E (trim l) ''owner_address'' of
     Some a \<Rightarrow> Some a | None \<Rightarrow> vi_owner_address inp)"
  "vi_era_chain_id (input_line E l inp) = (case match_unquoted_uint (trim l) ''era_chain_id'' of
     Some i \<Rightarrow> Some i | None \<Rightarrow> vi_era_chain_id inp)"
  by (auto simp: input_line_def Let_def dest: owner_line_no_chain_id split: option.splits)

lemma input_fold:
  "vi_owner_address (fold (input_line E) ls inp)
    = (case last_match (\<lambda>l. match_quoted_address E (trim l) ''owner_address'') ls of
         Some a \<Rightarrow> Some a | None \<Rightarrow> vi_owner_address inp)"
  "vi_era_chain_id (fold (input_line E) ls inp)
    = (case last_match (\<lambda>l. match_unquoted_uint (trim l) ''era_chain_id'') ls of
         Some i \<Rightarrow> Some i | None \<Rightarrow> vi_era_chain_id inp)"
  by (induction ls arbitrary: inp)
    (simp_all add: last_match_def first_match_append input_line_fields split: option.splits)

lemma upgrade_input_ref:
  "vi_owner_address (parse_v31_upgrade_input E content)
    = last_match (\<lambda>l. match_quoted_address E (trim l) ''owner_address'') (str_lines content)"
  "vi_era_chain_id (parse_v31_upgrade_input E content)
    = last_match (\<lambda>l. match_unquoted_uint (trim l) ''era_chain_id'') (str_lines content)"
  by (simp_all add: parse_v31_upgrade_input_def input_fold v31_upgrade_inputs_default_def split: option.splits)


section \<open>Writing and reading back\<close>

text \<open>A salt table as an operator writes it: a header and one line per CTM.\<close>

definition salt_line :: "string \<times> string \<Rightarrow> string" where
  "salt_line kv = [quote] @ fst kv @ [quote] @ '' = '' @ [quote] @ snd kv @ [quote]"

definition salt_table :: "(string \<times> string) list \<Rightarrow> string" where
  "salt_table kvs = concat (map (\<lambda>l. l @ [CHR 0x0A]) (''[create2_factory_salts]'' # map salt_line kvs))"

text \<open>Texts that may stand between the quotes: no quote, no comment sign, no line feed.\<close>

definition plain :: "string \<Rightarrow> bool" where
  "plain s \<longleftrightarrow> quote \<notin> set s \<and> CHR ''#'' \<notin> set s \<and> CHR 0x0A \<notin> set s"

lemma str_lines_terminated:
  assumes "\<forall>l \<in> set ls. CHR 0x0A \<notin> set l \<and> strip_cr l = l"
  shows "str_lines (concat (map (\<lambda>l. l @ [CHR 0x0A]) ls)) = ls"
proof -
  have "split_char (CHR 0x0A) (concat (map (\<lambda>l. l @ [CHR 0x0A]) ls)) = ls @ [[]]"
    using assms by (induction ls) (auto simp: split_char_append_sep)
  moreover have "map strip_cr ls = ls"
    using assms by (simp add: map_idI)
  ultimately show ?thesis
    by (simp add: str_lines_def)
qed

lemma salt_line_shape:
  assumes "plain (fst kv)" "plain (snd kv)"
  shows "trim (salt_line kv) = salt_line kv" "CHR 0x0A \<notin> set (salt_line kv)" "strip_cr (salt_line kv) = salt_line kv"
    "hd (split_char (CHR ''#'') (salt_line kv)) = salt_line kv"
    "salt_line kv \<noteq> []" "\<not> starts_with ''#'' (salt_line kv)" "\<not> starts_with ''['' (salt_line kv)"
proof -
  have last: "last (salt_line kv) = quote" "hd (salt_line kv) = quote"
    by (simp_all add: salt_line_def)
  have ne: "CHR ''#'' \<notin> set (salt_line kv)"
    using assms by (simp add: salt_line_def plain_def)
  show "trim (salt_line kv) = salt_line kv"
    by (rule trim_id) (simp add: last is_ws_def)
  show "strip_cr (salt_line kv) = salt_line kv"
    by (simp add: strip_cr_def last)
  show "hd (split_char (CHR ''#'') (salt_line kv)) = salt_line kv"
    by (simp add: split_char_no_sep [OF ne])
  show "CHR 0x0A \<notin> set (salt_line kv)" "salt_line kv \<noteq> []" "\<not> starts_with ''#'' (salt_line kv)"
    "\<not> starts_with ''['' (salt_line kv)"
    using assms by (simp_all add: salt_line_def plain_def)
qed

lemma find_char_quoted: "c \<notin> set s \<Longrightarrow> find_char c (s @ c # t) = Some (length s)"
  by (induction s) (auto simp: find_char_def split: if_splits)

lemma match_salt_line:
  assumes "plain (fst kv)" "plain (snd kv)"
    and "address_from_str E (fst kv) = Some a" "parse_b256 E (snd kv) = Some h"
  shows "match_addr_keyed_h256 E (salt_line kv) = Some (a, h)"
proof -
  have q: "quote \<notin> set (fst kv)" "quote \<notin> set (snd kv)"
    using assms by (simp_all add: plain_def)
  have "find_char quote (snd kv @ [quote]) = Some (length (snd kv))"
    using find_char_quoted [OF q(2), of "[]"] by simp
  then show ?thesis
    using assms(3,4) find_char_quoted [OF q(1)] salt_line_shape(1,4) [OF assms(1,2)]
    unfolding match_addr_keyed_h256_def Let_def
    by (simp add: salt_line_def trim_start_def is_ws_def strip_prefix_def)
qed

lemma sectioned_salt_lines:
  assumes "\<forall>kv \<in> set kvs. plain (fst kv) \<and> plain (snd kv)"
  shows "sectioned (map salt_line kvs) sec = map (\<lambda>kv. (sec, salt_line kv)) kvs"
  using assms by (induction kvs) (simp_all add: salt_line_shape parse_section_header_def Let_def)

lemma salt_table_roundtrip:
  assumes "\<forall>kv \<in> set kvs. plain (fst kv) \<and> plain (snd kv)
      \<and> (\<exists>a h. address_from_str E (fst kv) = Some a \<and> parse_b256 E (snd kv) = Some h \<and> entry_of kv = (a, h))"
  shows "read_create2_salts_per_ctm E (salt_table kvs) = map_of (rev (map entry_of kvs))"
proof -
  have plains: "\<forall>kv \<in> set kvs. plain (fst kv) \<and> plain (snd kv)"
    using assms by blast
  have header: "parse_section_header ''[create2_factory_salts]'' = Some ''create2_factory_salts''"
    "trim ''[create2_factory_salts]'' = ''[create2_factory_salts]''"
    by code_simp+
  have lines: "str_lines (salt_table kvs) = ''[create2_factory_salts]'' # map salt_line kvs"
    unfolding salt_table_def
    by (rule str_lines_terminated) (use plains salt_line_shape in \<open>auto simp: strip_cr_def\<close>)
  have "section_lines ''create2_factory_salts'' (salt_table kvs) = map salt_line kvs"
    by (simp add: section_lines_def lines header sectioned_salt_lines [OF plains] filter_map o_def)
  moreover have "List.map_filter (match_addr_keyed_h256 E) (map salt_line kvs) = map entry_of kvs"
    using assms by (induction kvs) (auto simp: List.map_filter_simps match_salt_line)
  ultimately show ?thesis
    by (simp add: salt_readers_ref(2))
qed

end
