(* ===== verification/Tx_Log.thy ===== *)
theory Tx_Log
  imports Prelude
begin

section \<open>The transactions log\<close>

text \<open>
  \<^verbatim>\<open>v31/utils/transactions_log.rs\<close>: the append-only file of transaction hashes. The parser
  skips blank and comment lines, rejects any other line that is not a 32-byte hash and
  collapses duplicates in order of first occurrence. The lemmas relate its loop to a
  reference reading of the file and to appending to the file.
\<close>

definition parse_hash :: "ext \<Rightarrow> string \<Rightarrow> b256 res" where
  "parse_hash E line =
     (let stripped = strip_0x line
      in if length stripped \<noteq> 64 then Inl (Bail ''expected 0x-prefixed 32-byte hash (64 hex chars)'')
         else bind_res (ok_or (Bail ''invalid hex'') (hex_decode E stripped)) (\<lambda>bs.
           if length bs \<noteq> 32 then Inl (Bail ''hex decoded to wrong length'')
           else Inr (from_be_bytes bs)))"

text \<open>The body of the loop; the state is the \<^verbatim>\<open>HashSet\<close> of seen hashes and the output.\<close>

definition parse_line :: "ext \<Rightarrow> string \<Rightarrow> b256 set \<times> b256 list \<Rightarrow> (b256 set \<times> b256 list) res" where
  "parse_line E raw st =
     (let line = trim raw
      in if line = [] \<or> starts_with ''#'' line then Inr st
         else bind_res (parse_hash E line) (\<lambda>hash.
           if hash \<in> fst st then Inr st else Inr (insert hash (fst st), snd st @ [hash])))"

definition parse_transactions_log :: "ext \<Rightarrow> string \<Rightarrow> b256 list res" where
  "parse_transactions_log E contents =
     bind_res (fold_res (parse_line E) (str_lines contents) ({}, [])) (\<lambda>st. Inr (snd st))"

text \<open>Reading the file (an \<^verbatim>\<open>io::Error\<close> is \<open>None\<close>).\<close>

definition read_transactions_log :: "ext \<Rightarrow> string option \<Rightarrow> b256 list res" where
  "read_transactions_log E file =
     bind_res (ok_or (Bail ''read transactions log'') file) (parse_transactions_log E)"

section \<open>Reference reading\<close>

definition hash_lines :: "string \<Rightarrow> string list" where
  "hash_lines contents =
     filter (\<lambda>l. l \<noteq> [] \<and> \<not> starts_with ''#'' l) (map trim (str_lines contents))"

text \<open>Keep the first of every group of equal elements.\<close>

fun dedup :: "'a list \<Rightarrow> 'a list" where
  "dedup [] = []"
| "dedup (x # xs) = x # dedup (filter (\<lambda>y. y \<noteq> x) xs)"

lemma set_dedup [simp]: "set (dedup xs) = set xs"
  by (induction xs rule: dedup.induct) auto

lemma distinct_dedup [simp]: "distinct (dedup xs)"
  by (induction xs rule: dedup.induct) auto

lemma filter_dedup: "filter P (dedup xs) = dedup (filter P xs)"
proof (induction xs rule: dedup.induct)
  case (2 x xs)
  have "\<not> P x \<Longrightarrow> filter (\<lambda>y. P y \<and> y \<noteq> x) xs = filter P xs"
    by (rule filter_cong) auto
  with "2" show ?case by (auto simp: conj_commute)
qed simp

lemma dedup_append: "dedup (xs @ ys) = dedup xs @ dedup (filter (\<lambda>y. y \<notin> set xs) ys)"
proof (induction xs arbitrary: ys rule: dedup.induct)
  case (2 x xs)
  have "filter (\<lambda>y. y \<notin> set (filter (\<lambda>y. y \<noteq> x) xs)) (filter (\<lambda>y. y \<noteq> x) ys)
      = filter (\<lambda>y. y \<notin> set (x # xs)) ys"
    by (induction ys) auto
  then show ?case
    using "2" [of "filter (\<lambda>y. y \<noteq> x) ys"] by simp
qed simp

text \<open>The loop from any state whose set is the set of its output.\<close>

lemma parse_lines_loop:
  "fold_res (parse_line E) ls (set acc, acc)
    = bind_res (map_res (parse_hash E) (filter (\<lambda>l. l \<noteq> [] \<and> \<not> starts_with ''#'' l) (map trim ls)))
        (\<lambda>hs. let res = acc @ dedup (filter (\<lambda>h. h \<notin> set acc) hs) in Inr (set res, res))"
proof (induction ls arbitrary: acc)
  case (Cons l ls)
  let ?line = "trim l"
  show ?case
  proof (cases "?line = [] \<or> starts_with ''#'' ?line")
    case True
    then show ?thesis
      using Cons [of acc] by (auto simp: parse_line_def)
  next
    case False
    then have step: "parse_line E l (set acc, acc) = bind_res (parse_hash E ?line) (\<lambda>h.
        if h \<in> set acc then Inr (set acc, acc) else Inr (set (acc @ [h]), acc @ [h]))"
      by (auto simp: parse_line_def bind_res_def split: sum.split)
    show ?thesis
    proof (cases "parse_hash E ?line")
      case (Inl e)
      with False step show ?thesis by simp
    next
      case (Inr h)
      have *: "filter (\<lambda>y. y \<noteq> h \<and> y \<notin> set acc) hs = filter (\<lambda>y. y \<noteq> h) (filter (\<lambda>h. h \<notin> set acc) hs)" for hs
        by (simp add: conj_commute)
      from Inr False step Cons [of acc] Cons [of "acc @ [h]"] show ?thesis
        by (auto simp: bind_res_def Let_def * split: sum.splits)
    qed
  qed
qed simp

lemma parse_transactions_log_ref:
  "parse_transactions_log E contents
    = bind_res (map_res (parse_hash E) (hash_lines contents)) (\<lambda>hs. Inr (dedup hs))"
  using parse_lines_loop [of E "str_lines contents" "[]"]
  by (auto simp: parse_transactions_log_def hash_lines_def bind_res_def Let_def split: sum.splits)

section \<open>Appending\<close>

lemma split_char_append: "split_char c (s @ c # t) = split_char c s @ split_char c t"
  by (induction s) (auto split: list.splits)

lemma str_lines_append: "str_lines (s @ CHR 0x0A # t) = str_lines (s @ [CHR 0x0A]) @ str_lines t"
  by (simp add: str_lines_def split_char_append Let_def butlast_append)

lemma hash_lines_append: "hash_lines (s @ CHR 0x0A # t) = hash_lines (s @ [CHR 0x0A]) @ hash_lines t"
  unfolding hash_lines_def by (subst str_lines_append) simp

lemma parse_append:
  assumes "parse_transactions_log E (s @ [CHR 0x0A]) = Inr xs"
    and "parse_transactions_log E t = Inr ys"
  shows "parse_transactions_log E (s @ CHR 0x0A # t) = Inr (xs @ filter (\<lambda>y. y \<notin> set xs) ys)"
proof -
  from assms obtain us vs where
    us: "map_res (parse_hash E) (hash_lines (s @ [CHR 0x0A])) = Inr us" "xs = dedup us" and
    vs: "map_res (parse_hash E) (hash_lines t) = Inr vs" "ys = dedup vs"
    by (auto simp: parse_transactions_log_ref)
  have "parse_transactions_log E (s @ CHR 0x0A # t) = Inr (dedup (us @ vs))"
    unfolding parse_transactions_log_ref hash_lines_append [of s t] map_res_append us(1) vs(1) by simp
  also have "dedup (us @ vs) = xs @ filter (\<lambda>y. y \<notin> set xs) ys"
    by (simp add: us(2) vs(2) dedup_append filter_dedup)
  finally show ?thesis .
qed

end
