(* ===== verification/Verify_Upgrade.thy ===== *)
theory Verify_Upgrade
  imports Pipeline Env_Config Tx_Log
begin

section \<open>The command\<close>

text \<open>
  \<^verbatim>\<open>commands/ecosystem/verify_upgrade.rs\<close>: the arguments, the values collected from the
  environment, the artifact and its shape check, the early exit that only prints the proposals,
  the transactions log, the pipeline, and the verdict. A run has a result and what it printed
  last: the encoded proposals, or the closing line with the headline of the report. Log lines
  are not kept.
\<close>

record verify_upgrade_args =
  arg_env :: verify_upgrade_env
  arg_l1_rpc_url :: string
  arg_gw_rpc_url :: string
  arg_ecosystem_toml :: string
  arg_contracts_commit :: "string option"
  arg_zk_governance_commit :: string
  arg_transactions_log :: "string option"
  arg_display_upgrade_data :: bool

text \<open>
  What the command reaches: the file system, the TOML parser, the nodes behind the two URLs, the
  JSON parsers and repository files (\<open>m_outside\<close>), the decoders, the encoder of a proposal and
  the order in which a hash map lists its values.
\<close>

record machine =
  m_files :: env_files
  m_toml :: "string \<Rightarrow> table option"
  m_l1 :: "string \<Rightarrow> l1_rpc option"
  m_gw :: "string \<Rightarrow> gw_rpc option"
  m_l1_views :: "string \<Rightarrow> l1_views"
  m_gw_views :: "string \<Rightarrow> gw_views"
  m_outside :: outside
  m_decoders :: decoders
  m_encode_proposal :: "upgrade_proposal \<Rightarrow> bytes"
  m_values :: "(address \<Rightarrow> b256 option) \<Rightarrow> b256 list"

datatype console_line = Proposal_line string | Outro_line headline string

definition GOV_SALT_SEED :: bytes where
  "GOV_SALT_SEED = string_bytes ''v31:gov''"

definition collect_salts :: "ext \<Rightarrow> machine \<Rightarrow> env_config \<Rightarrow> b256 list res" where
  "collect_salts E M cfg =
     bind_res (v31_create2_factory_salt E (m_files M) cfg) (\<lambda>core_salt.
     bind_res (v31_create2_factory_salt_per_ctm E (m_files M) cfg) (\<lambda>per_ctm.
     Inr ((case core_salt of Some s \<Rightarrow> [s] | None \<Rightarrow> []) @ m_values M per_ctm
       @ (if ec_governance_kind cfg = Puh then [keccak256 E GOV_SALT_SEED] else []))))"

definition collect_chain_params :: "env_config \<Rightarrow> (chain_params \<times> address) res" where
  "collect_chain_params cfg =
     bind_res (ok_or (Bail ''is missing top-level era_chain_id'') (ec_era_chain_id cfg)) (\<lambda>era_id.
     let legacy_era_id = (case ec_legacy_era_chain_id cfg of Some i \<Rightarrow> i | None \<Rightarrow> era_id);
         legacy_gw_id = (case ec_legacy_gateway_chain_id cfg of Some i \<Rightarrow> i | None \<Rightarrow> 0);
         intervals = ec_legacy_gateway_chain_intervals cfg in
     bind_res (ok_or (Bail ''is missing top-level l1_chain_id'') (ec_l1_chain_id cfg)) (\<lambda>l1_id.
     bind_res (ok_or (Bail ''is missing top-level zk_token_asset_id'') (ec_zk_token_asset_id cfg)) (\<lambda>asset_id.
     bind_res (ok_or (Bail ''is missing create2_factory_addr'') (ec_create2_factory cfg)) (\<lambda>factory.
     let (gw_id, representative_id, fee) = (case ec_new_gateway cfg of
            Some ng \<Rightarrow> (ngc_chain_id ng, ngc_ctm_representative_chain_id ng, ngc_settlement_fee ng)
          | None \<Rightarrow> (0, 0, 0)) in
     Inr (\<lparr>cp_era_chain_id = era_id, cp_legacy_era_chain_id = legacy_era_id,
         cp_legacy_gateway_chain_id = legacy_gw_id, cp_legacy_gateway_chain_intervals = intervals,
         cp_new_gateway_chain_id = gw_id, cp_new_gateway_representative_chain_id = representative_id,
         cp_new_gateway_settlement_fee = fee, cp_expected_l1_chain_id = l1_id,
         cp_zk_token_asset_id = asset_id\<rparr>, factory)))))"

definition transactions_log_path :: "machine \<Rightarrow> verify_upgrade_args \<Rightarrow> string res" where
  "transactions_log_path M args = (case arg_transactions_log args of
     Some path \<Rightarrow> Inr path
   | None \<Rightarrow> bind_res (default_protocol_ops_out_dir (m_files M) (env_as_str (arg_env args))) (\<lambda>dir.
       Inr (path_join dir ''transactions.txt'')))"

text \<open>What the run has when it starts to verify.\<close>

record prepared =
  prep_params :: chain_params
  prep_factory :: address
  prep_salts :: "b256 list"
  prep_log_path :: string
  prep_artifact :: ecosystem_upgrade_artifact

definition prepare :: "ext \<Rightarrow> machine \<Rightarrow> verify_upgrade_args \<Rightarrow> prepared res" where
  "prepare E M args =
     bind_res (env_config_load E (m_files M) (env_as_str (arg_env args))) (\<lambda>cfg.
     bind_res (collect_chain_params cfg) (\<lambda>(params, factory).
     bind_res (collect_salts E M cfg) (\<lambda>salts.
     bind_res (transactions_log_path M args) (\<lambda>path.
     bind_res (read_artifact E (m_toml M) (read_to_string (m_files M) (arg_ecosystem_toml args))) (\<lambda>artifact.
     bind_res (verify_shape E artifact) (\<lambda>_.
     Inr \<lparr>prep_params = params, prep_factory = factory, prep_salts = salts, prep_log_path = path,
       prep_artifact = artifact\<rparr>))))))"

definition encoded_upgrade_data :: "ext \<Rightarrow> machine \<Rightarrow> string \<times> string \<Rightarrow> console_line res" where
  "encoded_upgrade_data E M stage =
     bind_res (call_list_parse E (d_abi (m_decoders M)) (snd stage)) (\<lambda>calls.
     Inr (Proposal_line (fst stage @ '' encoded upgrade data = 0x'' @ hex_encode E (m_encode_proposal M
       \<lparr>proposal_calls = calls, executor = 0, proposal_salt = 0\<rparr>))))"

fun print_encoded_upgrade_data ::
    "ext \<Rightarrow> machine \<Rightarrow> (string \<times> string) list \<Rightarrow> unit res \<times> console_line list" where
  "print_encoded_upgrade_data E M [] = (Inr (), [])"
| "print_encoded_upgrade_data E M (s # ss) = (case encoded_upgrade_data E M s of
     Inl e \<Rightarrow> (Inl e, [])
   | Inr l \<Rightarrow> (let (r, ls) = print_encoded_upgrade_data E M ss in (r, l # ls)))"

definition stages_of :: "ecosystem_upgrade_artifact \<Rightarrow> (string \<times> string) list" where
  "stages_of artifact = (let g = artifact_governance_calls artifact in
     [(''Stage0'', stage0_calls g), (''Stage1'', stage1_calls g), (''Stage2'', stage2_calls g)])"

text \<open>
  The context of the pipeline: the providers behind the URLs, and the per-CTM salts that
  \<^verbatim>\<open>Verifiers::new_v31\<close> loads again from the environment.
\<close>

definition outside_of :: "ext \<Rightarrow> machine \<Rightarrow> verify_upgrade_args \<Rightarrow> outside" where
  "outside_of E M args = (m_outside M)\<lparr>
     l1_url := m_l1 M (arg_l1_rpc_url args), gw_url := m_gw M (arg_gw_rpc_url args),
     create2_factory_salt_per_ctm := (\<lambda>selected.
       case bind_res (env_config_load E (m_files M) (env_as_str selected))
           (v31_create2_factory_salt_per_ctm E (m_files M)) of
         Inr per_ctm \<Rightarrow> Some per_ctm | Inl _ \<Rightarrow> None)\<rparr>"

definition run_pipeline :: "ext \<Rightarrow> machine \<Rightarrow> verify_upgrade_args \<Rightarrow> prepared \<Rightarrow> b256 list \<Rightarrow> unit res vr" where
  "run_pipeline E M args prep tx_hashes =
     verify_v31 E (m_decoders M) (outside_of E M args) (m_l1_views M (arg_l1_rpc_url args))
       (m_gw_views M (arg_gw_rpc_url args)) (arg_env args) (prep_artifact prep) (arg_contracts_commit args)
       (arg_zk_governance_commit args) (prep_params prep) tx_hashes (prep_factory prep) (prep_salts prep)"

definition verdict_text :: "vresult \<Rightarrow> string" where
  "verdict_text s =
     (if errors s = 0 \<and> warnings s = 0 then ''upgrade calldata verified''
      else if errors s = 0 then ''upgrade calldata verified with '' @ show_nat (warnings s) @ '' warning(s)''
      else ''verification failed: '' @ show_nat (errors s) @ '' error(s), '' @ show_nat (warnings s) @ '' warning(s)'')"

text \<open>A panic ends the process before the closing line.\<close>

definition conclude :: "unit res \<Rightarrow> vresult \<Rightarrow> unit res \<times> console_line list" where
  "conclude verification_result s = (case verification_result of
     Inl (Panic e) \<Rightarrow> (Inl (Panic e), [])
   | _ \<Rightarrow> (let s' = s\<lparr>result := verdict_text s\<rparr> in
       (bind_res verification_result (\<lambda>_. ensure_success s'), [Outro_line (display_headline s') (result s')])))"

definition run :: "ext \<Rightarrow> machine \<Rightarrow> verify_upgrade_args \<Rightarrow> unit res \<times> console_line list" where
  "run E M args = (case prepare E M args of Inl e \<Rightarrow> (Inl e, [])
   | Inr prep \<Rightarrow>
       if arg_display_upgrade_data args then print_encoded_upgrade_data E M (stages_of (prep_artifact prep))
       else (case read_transactions_log E (read_to_string (m_files M) (prep_log_path prep)) of
           Inl e \<Rightarrow> (Inl e, [])
         | Inr tx_hashes \<Rightarrow> (case run_state (run_pipeline E M args prep tx_hashes) vresult_default of
             (verification_result, s) \<Rightarrow> conclude verification_result s)))"

section \<open>What a run decides\<close>

lemma conclude_ok:
  assumes "writer m" "run_state m vresult_default = (r, s)"
  shows "fst (conclude r s) = Inr () \<longleftrightarrow> yields m ()"
proof -
  have r: "r = val m" "s = append_lines (out m) vresult_default"
    using run_writer [OF assms(1), of vresult_default] assms(2) by simp_all
  show ?thesis
    by (auto simp: r conclude_def yields_def clean_count ensure_success_def bind_res_def Let_def
        split: sum.splits failure.splits)
qed

definition pipeline_spec :: "ext \<Rightarrow> machine \<Rightarrow> verify_upgrade_args \<Rightarrow> prepared \<Rightarrow> b256 list \<Rightarrow> bool" where
  "pipeline_spec E M args prep hs \<longleftrightarrow>
     upgrade_ok E (m_decoders M) (outside_of E M args) (m_l1_views M (arg_l1_rpc_url args))
       (m_gw_views M (arg_gw_rpc_url args)) (arg_env args) (prep_artifact prep) (arg_contracts_commit args)
       (arg_zk_governance_commit args) (prep_params prep) hs (prep_factory prep) (prep_salts prep)"

lemma run_verifies:
  assumes "shifts_by_limb E" "map_iterator (d_provenance (m_decoders M))" "\<not> arg_display_upgrade_data args"
  shows "fst (run E M args) = Inr () \<longleftrightarrow>
    (\<exists>prep hs. prepare E M args = Inr prep
      \<and> read_transactions_log E (read_to_string (m_files M) (prep_log_path prep)) = Inr hs
      \<and> pipeline_spec E M args prep hs)"
proof -
  have w: "writer (run_pipeline E M args prep hs)" for prep hs
    by (simp add: run_pipeline_def)
  have y: "yields (run_pipeline E M args prep hs) () \<longleftrightarrow> pipeline_spec E M args prep hs" for prep hs
    by (simp add: run_pipeline_def pipeline_spec_def yields_verify_v31 [OF assms(1,2)])
  have c: "fst (case run_state (run_pipeline E M args prep hs) vresult_default of (r, s) \<Rightarrow> conclude r s) = Inr ()
      \<longleftrightarrow> pipeline_spec E M args prep hs" for prep hs
    using conclude_ok [OF w [of prep hs]] by (simp add: y split: prod.split)
  show ?thesis
    using assms(3) by (simp add: run_def c split: sum.splits)
qed

text \<open>
  A run that only prints decodes every stage and verifies nothing: it succeeds exactly if the
  three call lists decode.
\<close>

lemma print_encoded_ok:
  "fst (print_encoded_upgrade_data E M ss) = Inr () \<longleftrightarrow> (\<forall>s \<in> set ss. \<exists>l. encoded_upgrade_data E M s = Inr l)"
  by (induction ss) (auto split: sum.splits prod.splits)

text \<open>The closing line agrees with the result: success is announced exactly without errors.\<close>

lemma conclude_outro:
  assumes "(r', [Outro_line h t]) = conclude r s"
  shows "r' = Inr () \<Longrightarrow> h \<in> {OK, WARN (warnings s)}" "h = ERROR n k \<Longrightarrow> r' \<noteq> Inr ()"
  using assms by (auto simp: conclude_def ensure_success_def display_headline_def bind_res_def Let_def
      split: sum.splits failure.splits if_splits)

text \<open>The salts a deployment may carry.\<close>

lemma collected_salts:
  assumes "collect_salts E M cfg = Inr salts"
    and "\<And>m. finite (dom m) \<Longrightarrow> set (m_values M m) = ran m"
    and "v31_create2_factory_salt_per_ctm E (m_files M) cfg = Inr per_ctm" "finite (dom per_ctm)"
  shows "set salts = {s. v31_create2_factory_salt E (m_files M) cfg = Inr (Some s)} \<union> ran per_ctm
    \<union> (if ec_governance_kind cfg = Puh then {keccak256 E GOV_SALT_SEED} else {})"
  using assms by (auto simp: collect_salts_def split: option.splits if_splits)

end
