(* ===== verification/Governance_Calls.thy ===== *)
theory Governance_Calls
  imports Rpc Chain_Types
begin

section \<open>Call arrays in governance files\<close>

text \<open>
  \<^verbatim>\<open>common/governance_calls.rs\<close>: encoding, decoding and merging of the \<^verbatim>\<open>Call[]\<close> hex strings
  that the prepare commands write. The ABI coder is a parameter. \<open>calls_codec\<close> is its documented
  behaviour with that of \<^verbatim>\<open>hex::encode\<close>: decoding inverts encoding, encodings are not empty, and
  hex contains no \<open>x\<close>. A \<^verbatim>\<open>GovernanceCall\<close> has the fields of a \<open>call\<close>.
\<close>

record calls_abi =
  encode_Call_array :: "call list \<Rightarrow> bytes"
  decode_Call_array :: "bytes \<Rightarrow> call list option"

definition encode_calls :: "calls_abi \<Rightarrow> call list \<Rightarrow> bytes" where
  "encode_calls G calls = encode_Call_array G calls"

definition decode_calls :: "ext \<Rightarrow> calls_abi \<Rightarrow> string \<Rightarrow> call list res" where
  "decode_calls E G hex_str =
     (let trimmed = trim_start_matches ''0x'' hex_str in
      if trimmed = [] then Inr []
      else bind_res (ok_or (Bail ''invalid governance calls hex'') (hex_decode E trimmed)) (\<lambda>raw.
        ok_or (Bail ''Call[] ABI decode'') (decode_Call_array G raw)))"

definition merge_call_array_hex :: "ext \<Rightarrow> calls_abi \<Rightarrow> string list \<Rightarrow> string res" where
  "merge_call_array_hex E G stages =
     bind_res (fold_res (\<lambda>stage merged. bind_res (decode_calls E G stage) (\<lambda>calls. Inr (merged @ calls))) stages [])
       (\<lambda>merged. Inr (''0x'' @ hex_encode E (encode_calls G merged)))"

definition empty_calls_hex :: "ext \<Rightarrow> calls_abi \<Rightarrow> string" where
  "empty_calls_hex E G = ''0x'' @ hex_encode E (encode_calls G [])"

section \<open>Round trips\<close>

definition calls_codec :: "ext \<Rightarrow> calls_abi \<Rightarrow> bool" where
  "calls_codec E G \<longleftrightarrow> (\<forall>cs. decode_Call_array G (encode_Call_array G cs) = Some cs \<and> encode_Call_array G cs \<noteq> [])
     \<and> (\<forall>bs. hex_decode E (hex_encode E bs) = Some bs \<and> CHR ''x'' \<notin> set (hex_encode E bs)
          \<and> (hex_encode E bs = [] \<longrightarrow> bs = []))"

definition calls_hex :: "ext \<Rightarrow> calls_abi \<Rightarrow> call list \<Rightarrow> string" where
  "calls_hex E G cs = ''0x'' @ hex_encode E (encode_calls G cs)"

lemma trim_0x_once:
  assumes "CHR ''x'' \<notin> set s"
  shows "trim_start_matches ''0x'' (''0x'' @ s) = s"
proof -
  have "\<not> starts_with ''0x'' s"
    using assms by (auto simp: starts_with_iff)
  then have "trim_start_matches ''0x'' s = s"
    by (simp add: trim_start_matches.simps [of "''0x''" s])
  then show ?thesis
    by (subst trim_start_matches.simps) simp
qed

lemma decode_calls_hex:
  assumes "calls_codec E G"
  shows "decode_calls E G (calls_hex E G cs) = Inr cs"
proof -
  have "hex_encode E (encode_calls G cs) \<noteq> []" "CHR ''x'' \<notin> set (hex_encode E (encode_calls G cs))"
    "hex_decode E (hex_encode E (encode_calls G cs)) = Some (encode_calls G cs)"
    "decode_Call_array G (encode_calls G cs) = Some cs"
    using assms unfolding calls_codec_def encode_calls_def by blast+
  then show ?thesis
    by (simp add: decode_calls_def calls_hex_def trim_0x_once [simplified] Let_def)
qed

lemma merge_loop:
  "fold_res (\<lambda>stage merged. bind_res (decode_calls E G stage) (\<lambda>calls. Inr (merged @ calls))) stages acc
    = bind_res (map_res (decode_calls E G) stages) (\<lambda>css. Inr (acc @ concat css))"
proof (induction stages arbitrary: acc)
  case (Cons s stages)
  then show ?case
    by (cases "decode_calls E G s") (simp_all add: bind_res_assoc)
qed simp

lemma merge_ref:
  "merge_call_array_hex E G stages
    = bind_res (map_res (decode_calls E G) stages) (\<lambda>css. Inr (calls_hex E G (concat css)))"
  by (simp add: merge_call_array_hex_def merge_loop calls_hex_def bind_res_assoc)

text \<open>The merged string decodes to the calls of all parts in order; merging in steps is merging at once.\<close>

lemma merge_decodes:
  assumes "calls_codec E G" "map_res (decode_calls E G) stages = Inr css"
  shows "bind_res (merge_call_array_hex E G stages) (decode_calls E G) = Inr (concat css)"
  using assms by (simp add: merge_ref decode_calls_hex)

lemma merge_append:
  assumes "calls_codec E G" "merge_call_array_hex E G xs = Inr h" "merge_call_array_hex E G ys = Inr k"
  shows "merge_call_array_hex E G [h, k] = merge_call_array_hex E G (xs @ ys)"
  using assms(2,3) by (auto simp: merge_ref map_res_append decode_calls_hex [OF assms(1)])

lemma merge_nothing: "merge_call_array_hex E G [] = Inr (empty_calls_hex E G)"
  by (simp add: merge_ref calls_hex_def empty_calls_hex_def)

end
