(* ===== verification/Safe_Bundles.thy ===== *)
theory Safe_Bundles
  imports Env_Config
begin

section \<open>Safe bundles\<close>

text \<open>
  \<^verbatim>\<open>common/forge/cast_transactions.rs\<close>: the transactions forge recorded become cast-ready
  objects and are split into runs of one signer. JSON values are those of \<^verbatim>\<open>serde_json\<close>; its
  parser is a parameter. An object of the crate is a \<^verbatim>\<open>BTreeMap\<close>, whatever the order in which
  \<^verbatim>\<open>json!\<close> lists the keys: the objects below list their entries in the order of the keys.
\<close>

fun json_get :: "json \<Rightarrow> string \<Rightarrow> json option" where
  "json_get (JObj kvs) k = map_of kvs k"
| "json_get _ k = None"

fun json_as_str :: "json \<Rightarrow> string option" where
  "json_as_str (JStr s) = Some s"
| "json_as_str _ = None"

fun json_as_array :: "json \<Rightarrow> json list option" where
  "json_as_array (JArr js) = Some js"
| "json_as_array _ = None"

fun json_as_object :: "json \<Rightarrow> (string \<times> json) list option" where
  "json_as_object (JObj kvs) = Some kvs"
| "json_as_object _ = None"

fun json_as_u64 :: "json \<Rightarrow> u64 option" where
  "json_as_u64 (JNum n) = n"
| "json_as_u64 _ = None"

definition get_str :: "json \<Rightarrow> string \<Rightarrow> string option" where
  "get_str j k = do { v \<leftarrow> json_get j k; json_as_str v }"

subsection \<open>Script-only libraries\<close>

definition SCRIPT_LIB_SOURCE_PREFIX :: string where
  "SCRIPT_LIB_SOURCE_PREFIX = ''deploy-scripts/''"

definition KEEP_UNDER_SCRIPT_PREFIX :: "string list" where
  "KEEP_UNDER_SCRIPT_PREFIX = [''Create2AndTransfer'']"

text \<open>
  The directory of forge artifacts: \<open>None\<close> where a directory cannot be read, and per file its
  name and its contents, if readable. \<open>path_extension\<close> is \<^verbatim>\<open>Path::extension\<close> on a file name.
\<close>

type_synonym artifact_tree = "(string \<times> string option) list option list option"

definition path_extension :: "string \<Rightarrow> string option" where
  "path_extension name = (let suffix = rev (takeWhile (\<lambda>c. c \<noteq> CHR ''.'') (rev name)) in
     if length suffix + 1 < length name then Some suffix else None)"

definition library_names_of :: "(string \<Rightarrow> json option) \<Rightarrow> string \<times> string option \<Rightarrow> string list" where
  "library_names_of from_json f =
     (if path_extension (fst f) \<noteq> Some ''json'' then []
      else case (do {
          s \<leftarrow> snd f;
          meta \<leftarrow> from_json s;
          m \<leftarrow> json_get meta ''metadata'';
          st \<leftarrow> json_get m ''settings'';
          t \<leftarrow> json_get st ''compilationTarget'';
          json_as_object t }) of
        None \<Rightarrow> []
      | Some targets \<Rightarrow> List.map_filter (\<lambda>(src_path, contract_name).
          if starts_with SCRIPT_LIB_SOURCE_PREFIX src_path
          then (case json_as_str contract_name of
              Some n \<Rightarrow> if n \<in> set KEEP_UNDER_SCRIPT_PREFIX then None else Some n
            | None \<Rightarrow> None)
          else None) targets)"

definition script_only_library_names :: "(string \<Rightarrow> json option) \<Rightarrow> artifact_tree \<Rightarrow> string set" where
  "script_only_library_names from_json tree = (case tree of None \<Rightarrow> {}
     | Some dirs \<Rightarrow> set (concat (map (\<lambda>d. case d of None \<Rightarrow> []
         | Some entries \<Rightarrow> concat (map (library_names_of from_json) entries)) dirs)))"

subsection \<open>Cast-ready transactions\<close>

definition normalize_cast_value :: "string \<Rightarrow> string" where
  "normalize_cast_value raw =
     (let s = trim raw in
      if s = [] \<or> s = ''0'' \<or> s = ''0x0'' \<or> s = ''0x'' then ''0''
      else case strip_prefix ''0x'' s of
        Some hex \<Rightarrow>
          if list_all (\<lambda>c. hex_value c \<noteq> None) hex
          then let hex = dropWhile (\<lambda>c. c = CHR ''0'') hex in
            if hex = [] then ''0'' else ''0x'' @ hex
          else s
      | None \<Rightarrow> s)"

definition value_raw :: "json \<Rightarrow> string" where
  "value_raw params = (case (do {
       v \<leftarrow> json_get params ''value'';
       (case get_str v ''hex'' of Some h \<Rightarrow> Some h
        | None \<Rightarrow> (case json_as_str v of Some s \<Rightarrow> Some s
          | None \<Rightarrow> map_option (\<lambda>n. show_nat (unat n)) (json_as_u64 v))) }) of
     Some s \<Rightarrow> s | None \<Rightarrow> ''0'')"

definition skipped_library :: "string set \<Rightarrow> json \<Rightarrow> bool" where
  "skipped_library script_libs tx \<longleftrightarrow>
     (case get_str tx ''transactionType'' of Some t \<Rightarrow> t | None \<Rightarrow> []) \<in> {''CREATE2'', ''CREATE''}
     \<and> (case get_str tx ''contractName'' of Some name \<Rightarrow> name \<in> script_libs | None \<Rightarrow> False)"

text \<open>One pass: \<open>None\<close> is \<^verbatim>\<open>continue\<close>.\<close>

definition cast_transaction :: "string set \<Rightarrow> string \<Rightarrow> json \<Rightarrow> json option res" where
  "cast_transaction script_libs step tx =
     (if skipped_library script_libs tx then Inr None
      else let params = (case json_get tx ''transaction'' of Some p \<Rightarrow> p | None \<Rightarrow> tx) in
        case get_str params ''to'' of
          None \<Rightarrow> Inr None
        | Some to_addr \<Rightarrow>
            bind_res (ok_or (Bail ''missing required from field'') (get_str params ''from'')) (\<lambda>from_addr.
            let input = (case json_get params ''data'' of Some d \<Rightarrow> Some d | None \<Rightarrow> json_get params ''input'');
                payload = (case Option.bind input json_as_str of Some d \<Rightarrow> d | None \<Rightarrow> ''0x'') in
            Inr (Some (JObj [(''data'', JStr payload), (''from'', JStr from_addr), (''step'', JStr step),
              (''to'', JStr to_addr), (''value'', JStr (normalize_cast_value (value_raw params)))]))))"

definition run_payload_to_cast_transactions :: "string set \<Rightarrow> json \<Rightarrow> string \<Rightarrow> json list res" where
  "run_payload_to_cast_transactions script_libs payload step =
     (case Option.bind (json_get payload ''transactions'') json_as_array of
        None \<Rightarrow> Inr []
      | Some txs \<Rightarrow> fold_res (\<lambda>tx acc. bind_res (cast_transaction script_libs step tx) (\<lambda>r.
          Inr (case r of None \<Rightarrow> acc | Some t \<Rightarrow> acc @ [t]))) txs [])"

definition all_runs_cast_transactions :: "string set \<Rightarrow> json list \<Rightarrow> string \<Rightarrow> json list res" where
  "all_runs_cast_transactions script_libs payloads step =
     fold_res (\<lambda>payload acc. bind_res (run_payload_to_cast_transactions script_libs payload step) (\<lambda>txs.
       Inr (acc @ txs))) payloads []"

subsection \<open>Bundles\<close>

record safe_bundle =
  bundle_target :: string
  bundle_steps :: "string list"
  bundle_txs :: "json list"

definition bundle_tx_from :: "json \<Rightarrow> string" where
  "bundle_tx_from tx = (case get_str tx ''from'' of Some s \<Rightarrow> s | None \<Rightarrow> [])"

definition bundle_tx_step :: "json \<Rightarrow> string" where
  "bundle_tx_step tx = (case get_str tx ''step'' of Some s \<Rightarrow> s | None \<Rightarrow> [])"

definition push_unique :: "string list \<Rightarrow> string \<Rightarrow> string list" where
  "push_unique v s = (if s \<noteq> [] \<and> s \<notin> set v then v @ [s] else v)"

definition step_vec :: "string \<Rightarrow> string list" where
  "step_vec s = (if s = [] then [] else [s])"

definition add_tx :: "json \<Rightarrow> safe_bundle list \<Rightarrow> safe_bundle list" where
  "add_tx tx bundles =
     (if bundles \<noteq> [] \<and> eq_ignore_ascii_case (bundle_target (last bundles)) (bundle_tx_from tx)
      then let b = last bundles in butlast bundles @ [b\<lparr>bundle_steps := push_unique (bundle_steps b) (bundle_tx_step tx),
        bundle_txs := bundle_txs b @ [tx]\<rparr>]
      else bundles @ [\<lparr>bundle_target = bundle_tx_from tx, bundle_steps = step_vec (bundle_tx_step tx), bundle_txs = [tx]\<rparr>])"

definition split_into_bundles :: "string set \<Rightarrow> json list \<Rightarrow> string \<Rightarrow> safe_bundle list res" where
  "split_into_bundles script_libs payloads step =
     bind_res (all_runs_cast_transactions script_libs payloads step) (\<lambda>current.
     if current = [] then Inr [] else Inr (fold add_tx current []))"


section \<open>The split\<close>

text \<open>
  A split is good when every bundle is a non-empty run of one signer that lists the steps of its
  transactions once, and neighbouring bundles have different signers.
\<close>

definition bundle_ok :: "safe_bundle \<Rightarrow> bool" where
  "bundle_ok b \<longleftrightarrow> bundle_txs b \<noteq> []
     \<and> (\<forall>t \<in> set (bundle_txs b). eq_ignore_ascii_case (bundle_target b) (bundle_tx_from t))
     \<and> distinct (bundle_steps b)
     \<and> set (bundle_steps b) = bundle_tx_step ` set (bundle_txs b) - {[]}"

definition well_split :: "safe_bundle list \<Rightarrow> bool" where
  "well_split bs \<longleftrightarrow> list_all bundle_ok bs
     \<and> successively (\<lambda>b c. \<not> eq_ignore_ascii_case (bundle_target b) (bundle_target c)) bs"

lemma last_bundle_cases:
  obtains "bs = []" | init b where "bs = init @ [b]"
  by (cases bs rule: rev_exhaust) auto

lemma add_tx_snoc:
  "add_tx tx (init @ [b]) = (if eq_ignore_ascii_case (bundle_target b) (bundle_tx_from tx)
     then init @ [b\<lparr>bundle_steps := push_unique (bundle_steps b) (bundle_tx_step tx), bundle_txs := bundle_txs b @ [tx]\<rparr>]
     else init @ [b, \<lparr>bundle_target = bundle_tx_from tx, bundle_steps = step_vec (bundle_tx_step tx), bundle_txs = [tx]\<rparr>])"
  by (simp add: add_tx_def)

lemma bundle_ok_new: "bundle_ok \<lparr>bundle_target = bundle_tx_from tx, bundle_steps = step_vec (bundle_tx_step tx), bundle_txs = [tx]\<rparr>"
  by (auto simp: bundle_ok_def step_vec_def eq_ignore_ascii_case_def)

lemma bundle_ok_extend:
  "bundle_ok b \<Longrightarrow> eq_ignore_ascii_case (bundle_target b) (bundle_tx_from tx)
    \<Longrightarrow> bundle_ok (b\<lparr>bundle_steps := push_unique (bundle_steps b) (bundle_tx_step tx), bundle_txs := bundle_txs b @ [tx]\<rparr>)"
  by (auto simp: bundle_ok_def push_unique_def)

lemma well_split_add:
  assumes "well_split bs"
  shows "well_split (add_tx tx bs)"
  using assms
  by (cases bs rule: last_bundle_cases)
    (auto simp: add_tx_snoc well_split_def successively_append_iff bundle_ok_new bundle_ok_extend,
     simp_all add: add_tx_def bundle_ok_new)

lemma concat_add: "concat (map bundle_txs (add_tx tx bs)) = concat (map bundle_txs bs) @ [tx]"
  by (cases bs rule: last_bundle_cases) (simp_all add: add_tx_snoc, simp add: add_tx_def)

lemma split_fold:
  assumes "well_split bs"
  shows "well_split (fold add_tx txs bs)"
    and "concat (map bundle_txs (fold add_tx txs bs)) = concat (map bundle_txs bs) @ txs"
  using assms by (induction txs arbitrary: bs) (simp_all add: well_split_add concat_add)

lemma split_into_bundles_ok:
  assumes "split_into_bundles libs payloads step = Inr bundles"
  shows "well_split bundles"
    and "all_runs_cast_transactions libs payloads step = Inr (concat (map bundle_txs bundles))"
  using assms split_fold [of "[]"] by (auto simp: split_into_bundles_def well_split_def split: if_splits)

text \<open>
  The split is the only good one, up to how the signer of a run is spelled: bundle by bundle the
  transactions are the same.
\<close>

lemma bundle_prefix:
  assumes "bundle_ok b" "list_all bundle_ok bs"
    and "successively (\<lambda>b c. \<not> eq_ignore_ascii_case (bundle_target b) (bundle_target c)) (b # bs)"
  shows "bundle_txs b = takeWhile (\<lambda>t. eq_ignore_ascii_case (bundle_tx_from (hd (bundle_txs b))) (bundle_tx_from t))
    (concat (map bundle_txs (b # bs)))"
proof -
  let ?P = "\<lambda>t. eq_ignore_ascii_case (bundle_tx_from (hd (bundle_txs b))) (bundle_tx_from t)"
  have hd: "eq_ignore_ascii_case (bundle_target b) (bundle_tx_from (hd (bundle_txs b)))"
    using assms(1) by (simp add: bundle_ok_def)
  have all: "\<forall>t \<in> set (bundle_txs b). ?P t"
    using assms(1) hd unfolding bundle_ok_def eq_ignore_ascii_case_def by metis
  have stop: "takeWhile ?P (concat (map bundle_txs bs)) = []"
  proof (cases bs)
    case (Cons c cs)
    with assms(2,3) obtain t ts where t: "bundle_txs c = t # ts" "eq_ignore_ascii_case (bundle_target c) (bundle_tx_from t)"
      "\<not> eq_ignore_ascii_case (bundle_target b) (bundle_target c)"
      by (cases "bundle_txs c") (auto simp: bundle_ok_def)
    then show ?thesis
      using hd Cons by (auto simp: eq_ignore_ascii_case_def)
  qed simp
  show ?thesis
    using takeWhile_append2 [of "bundle_txs b" ?P] all stop by simp
qed

lemma well_split_unique:
  assumes "well_split bs" "well_split cs" "concat (map bundle_txs bs) = concat (map bundle_txs cs)"
  shows "map bundle_txs bs = map bundle_txs cs"
  using assms
proof (induction bs arbitrary: cs)
  case Nil
  then show ?case
    by (cases cs) (auto simp: well_split_def bundle_ok_def)
next
  case (Cons b bs)
  from Cons.prems obtain c cs' where cs: "cs = c # cs'"
    by (cases cs) (auto simp: well_split_def bundle_ok_def)
  have ok: "bundle_ok b" "bundle_ok c" "list_all bundle_ok bs" "list_all bundle_ok cs'"
    "successively (\<lambda>b c. \<not> eq_ignore_ascii_case (bundle_target b) (bundle_target c)) (b # bs)"
    "successively (\<lambda>b c. \<not> eq_ignore_ascii_case (bundle_target b) (bundle_target c)) (c # cs')"
    using Cons.prems(1,2) unfolding cs by (simp_all add: well_split_def)
  have "hd (bundle_txs b) = hd (bundle_txs c)"
    using Cons.prems(3) ok(1,2) unfolding cs
    by (cases "bundle_txs b"; cases "bundle_txs c") (auto simp: bundle_ok_def)
  then have same: "bundle_txs b = bundle_txs c"
    using bundle_prefix [OF ok(1,3,5)] bundle_prefix [OF ok(2,4,6)] Cons.prems(3) unfolding cs by simp
  moreover have "map bundle_txs bs = map bundle_txs cs'"
    using Cons.prems(3) same ok unfolding cs
    by (intro Cons.IH) (auto simp: well_split_def successively_Cons split: list.splits)
  ultimately show ?case
    by (simp add: cs)
qed

section \<open>Normalised values\<close>

lemma hex_value_not_ws: "hex_value c \<noteq> None \<Longrightarrow> \<not> is_ws c"
  by (auto simp: hex_value_def is_ws_def Let_def split: if_splits)

lemma trim_hex:
  assumes "list_all (\<lambda>c. hex_value c \<noteq> None) h"
  shows "trim (''0x'' @ h) = ''0x'' @ h"
proof (rule trim_id)
  have "h \<noteq> [] \<Longrightarrow> \<not> is_ws (last h)"
    using assms by (intro hex_value_not_ws) (simp add: list_all_iff)
  then show "''0x'' @ h = [] \<or> \<not> is_ws (hd (''0x'' @ h)) \<and> \<not> is_ws (last (''0x'' @ h))"
    by (cases "h = []") (simp_all add: is_ws_def)
qed

lemma normalize_hex:
  assumes "list_all (\<lambda>c. hex_value c \<noteq> None) h"
  shows "normalize_cast_value (''0x'' @ h)
    = (let d = dropWhile (\<lambda>c. c = CHR ''0'') h in if d = [] then ''0'' else ''0x'' @ d)"
  using assms trim_hex [OF assms]
  by (auto simp: normalize_cast_value_def strip_prefix_def Let_def)

text \<open>Stripping leading zeros keeps the number.\<close>

lemma drop_zeros_value: "hex_digits_val (dropWhile (\<lambda>c. c = CHR ''0'') h) 0 = hex_digits_val h 0"
  by (induction h) (auto simp: hex_value_def)

lemma normalize_cases:
  "normalize_cast_value s = ''0'' \<or> normalize_cast_value s = trim s
    \<or> (\<exists>h. list_all (\<lambda>c. hex_value c \<noteq> None) h \<and> dropWhile (\<lambda>c. c = CHR ''0'') h \<noteq> []
        \<and> normalize_cast_value s = ''0x'' @ dropWhile (\<lambda>c. c = CHR ''0'') h)"
proof (cases "strip_prefix ''0x'' (trim s)")
  case (Some h)
  then show ?thesis
    unfolding normalize_cast_value_def Let_def Some option.case
    by (cases "list_all (\<lambda>c. hex_value c \<noteq> None) h"; cases "dropWhile (\<lambda>c. c = CHR ''0'') h = []") auto
next
  case None
  then have "normalize_cast_value s \<in> {''0'', trim s}"
    by (simp add: normalize_cast_value_def Let_def)
  then show ?thesis by blast
qed

lemma normalize_idem: "normalize_cast_value (normalize_cast_value s) = normalize_cast_value s"
proof -
  have zero: "normalize_cast_value ''0'' = ''0''"
    by code_simp
  have hex: "normalize_cast_value (''0x'' @ dropWhile (\<lambda>c. c = CHR ''0'') h) = ''0x'' @ dropWhile (\<lambda>c. c = CHR ''0'') h"
    if "list_all (\<lambda>c. hex_value c \<noteq> None) h" "dropWhile (\<lambda>c. c = CHR ''0'') h \<noteq> []" for h
  proof -
    let ?d = "dropWhile (\<lambda>c. c = CHR ''0'') h"
    have "list_all (\<lambda>c. hex_value c \<noteq> None) ?d"
      using that(1) by (auto simp: list_all_iff dest: set_dropWhileD)
    then show ?thesis
      using that(2) by (simp only: normalize_hex dropWhile_idem Let_def if_False)
  qed
  have keep: "normalize_cast_value (trim s) = trim s" if "normalize_cast_value s = trim s"
    using that by (simp add: normalize_cast_value_def)
  show ?thesis
    using normalize_cases [of s] zero hex keep by metis
qed

end
