(* ===== verification/Manifest.thy ===== *)
theory Manifest
  imports Safe_Bundles "HOL-Library.Char_ord" "HOL-Library.List_Lexorder"
begin

section \<open>The manifest of an output directory\<close>

text \<open>
  \<^verbatim>\<open>common/output.rs\<close>: every bundle becomes a Safe Transaction Builder file in the output
  directory, and \<^verbatim>\<open>manifest.json\<close>, read before and rewritten after, lists them. The directory is
  a map from file names to contents; a file that is there may be unreadable, a name may not be
  writable, and a run that fails half way leaves the files it wrote. Parser and pretty-printer
  of \<^verbatim>\<open>serde_json\<close>, the clock and the chain id are parameters. Indices are \<^verbatim>\<open>u64\<close> and wrap.
\<close>

datatype file_contents = Text string | Unreadable

record directory =
  dir_files :: "string \<Rightarrow> file_contents option"
  dir_writable :: "string \<Rightarrow> bool"
  dir_created :: bool

record json_io =
  json_parse :: "string \<Rightarrow> json option"
  json_print :: "json \<Rightarrow> string"

definition save_json_file :: "json_io \<Rightarrow> string \<Rightarrow> json \<Rightarrow> directory \<Rightarrow> unit res \<times> directory" where
  "save_json_file J name j d =
     (if dir_writable d name then (Inr (), d\<lparr>dir_files := (dir_files d)(name \<mapsto> Text (json_print J j))\<rparr>)
      else (Inl (Bail ''write''), d))"

definition MANIFEST :: string where
  "MANIFEST = ''manifest.json''"

definition read_existing_manifest :: "json_io \<Rightarrow> directory \<Rightarrow> (json list \<times> json list) res" where
  "read_existing_manifest J d = (case dir_files d MANIFEST of
     None \<Rightarrow> Inr ([], [])
   | Some Unreadable \<Rightarrow> Inl (Bail ''Failed to read existing manifest'')
   | Some (Text body) \<Rightarrow>
       bind_res (ok_or (Bail ''Failed to parse existing manifest'') (json_parse J body)) (\<lambda>parsed.
       bind_res (ok_or (Bail ''Existing manifest is missing a bundles array'')
         (Option.bind (json_get parsed ''bundles'') json_as_array)) (\<lambda>bundles.
       Inr (bundles, (case Option.bind (json_get parsed ''metadata'') json_as_array of Some ms \<Rightarrow> ms | None \<Rightarrow> [])))))"

definition entry_index :: "json \<Rightarrow> u64 option" where
  "entry_index b = Option.bind (json_get b ''index'') json_as_u64"

definition next_index :: "json list \<Rightarrow> u64" where
  "next_index entries = fold max (List.map_filter entry_index entries) 0 + 1"

definition safe_tx :: "json \<Rightarrow> json res" where
  "safe_tx tx =
     bind_res (ok_or (Bail ''missing required to field'') (get_str tx ''to'')) (\<lambda>to_addr.
     bind_res (ok_or (Bail ''missing required value field'') (get_str tx ''value'')) (\<lambda>amount.
     bind_res (ok_or (Bail ''missing required data field'') (get_str tx ''data'')) (\<lambda>payload.
     Inr (JObj [(''contractInputsValues'', JNull), (''contractMethod'', JNull), (''data'', JStr payload),
       (''to'', JStr to_addr), (''value'', JStr amount)]))))"

definition safe_txs_from_bundle :: "safe_bundle \<Rightarrow> json list res" where
  "safe_txs_from_bundle b = map_res safe_tx (bundle_txs b)"

text \<open>\<^verbatim>\<open>{:02}\<close>: at least two digits.\<close>

definition pad2 :: "u64 \<Rightarrow> string" where
  "pad2 i = (let s = show_nat (unat i) in if length s < 2 then CHR ''0'' # s else s)"

definition first_step :: "string \<Rightarrow> safe_bundle \<Rightarrow> string" where
  "first_step command b = (case bundle_steps b of [] \<Rightarrow> command | s # _ \<Rightarrow> s)"

definition target_lower :: "safe_bundle \<Rightarrow> string" where
  "target_lower b = map to_ascii_lowercase (bundle_target b)"

definition bundle_file_name :: "string \<Rightarrow> u64 \<Rightarrow> safe_bundle \<Rightarrow> string" where
  "bundle_file_name command idx b = pad2 idx @ ''_'' @ first_step command b @ ''_'' @ target_lower b @ ''.safe.json''"

record out_params =
  out_command :: string
  out_l1_chain_id :: u64
  out_created_at_ms :: u64

definition envelope :: "out_params \<Rightarrow> safe_bundle \<Rightarrow> json list \<Rightarrow> json" where
  "envelope K b safe_txs = JObj [
     (''chainId'', JStr (show_nat (unat (out_l1_chain_id K)))), (''createdAt'', JNum (Some (out_created_at_ms K))),
     (''meta'', JObj [(''description'', JStr (''Transactions generated by protocol_ops: ''
         @ (if bundle_steps b = [] then out_command K else join '' + '' (bundle_steps b)))),
       (''name'', JStr (first_step (out_command K) b))]),
     (''transactions'', JArr safe_txs), (''version'', JStr ''1.0'')]"

definition bundle_entry :: "out_params \<Rightarrow> u64 \<Rightarrow> safe_bundle \<Rightarrow> json" where
  "bundle_entry K idx b = JObj [(''file'', JStr (bundle_file_name (out_command K) idx b)), (''index'', JNum (Some idx)),
     (''steps'', JArr (map JStr (bundle_steps b))), (''target'', JStr (target_lower b)),
     (''tx_count'', JNum (Some (of_nat (length (bundle_txs b)))))]"

fun write_bundles ::
    "json_io \<Rightarrow> out_params \<Rightarrow> u64 \<Rightarrow> safe_bundle list \<Rightarrow> json list \<Rightarrow> directory \<Rightarrow> json list res \<times> directory" where
  "write_bundles J K idx [] entries d = (Inr entries, d)"
| "write_bundles J K idx (b # bs) entries d = (case safe_txs_from_bundle b of
     Inl e \<Rightarrow> (Inl e, d)
   | Inr safe_txs \<Rightarrow> (case save_json_file J (bundle_file_name (out_command K) idx b) (envelope K b safe_txs) d of
       (Inl e, d') \<Rightarrow> (Inl e, d')
     | (Inr _, d') \<Rightarrow> write_bundles J K (idx + 1) bs (entries @ [bundle_entry K idx b]) d'))"

definition write_safe_bundles_dir ::
    "json_io \<Rightarrow> out_params \<Rightarrow> safe_bundle list \<Rightarrow> json \<Rightarrow> directory \<Rightarrow> unit res \<times> directory" where
  "write_safe_bundles_dir J K bundles metadata_entry d =
     (if \<not> dir_created d then (Inl (Bail ''Failed to create out dir''), d)
      else case read_existing_manifest J d of
        Inl e \<Rightarrow> (Inl e, d)
      | Inr (bundle_entries, metadata_entries) \<Rightarrow>
          (case write_bundles J K (next_index bundle_entries) bundles bundle_entries d of
             (Inl e, d') \<Rightarrow> (Inl e, d')
           | (Inr entries, d') \<Rightarrow> save_json_file J MANIFEST
               (JObj [(''bundles'', JArr entries), (''metadata'', JArr (metadata_entries @ [metadata_entry]))]) d'))"

text \<open>
  The command's end: without \<^verbatim>\<open>--out\<close> nothing is written; the bundles are made from the
  runner's payloads before the chain id is fetched.
\<close>

definition write_output_if_requested ::
    "json_io \<Rightarrow> string set \<Rightarrow> string \<Rightarrow> directory option \<Rightarrow> json list \<Rightarrow> u64 option \<Rightarrow> u64 \<Rightarrow> json option \<Rightarrow> json option
      \<Rightarrow> unit res \<times> directory option" where
  "write_output_if_requested J libs command target_dir payloads chain_id_answer now_ms input_json output_json =
     (case target_dir of None \<Rightarrow> (Inr (), None)
      | Some d \<Rightarrow>
        (case (bind_res (split_into_bundles libs payloads command) (\<lambda>bundles.
           bind_res (ok_or (Bail ''get_chain_id'') chain_id_answer) (\<lambda>chain.
           bind_res (ok_or (Bail ''to_value'') input_json) (\<lambda>i.
           bind_res (ok_or (Bail ''to_value'') output_json) (\<lambda>r.
           Inr (bundles, chain, JObj [(''command'', JStr command), (''input'', i), (''output'', r)])))))) of
           Inl e \<Rightarrow> (Inl e, Some d)
         | Inr (bundles, chain, meta) \<Rightarrow> map_prod (\<lambda>r. r) Some (write_safe_bundles_dir J
             \<lparr>out_command = command, out_l1_chain_id = chain, out_created_at_ms = now_ms\<rparr> bundles meta d)))"

section \<open>File names\<close>

lemma is_digit_pad2: "list_all is_digit (pad2 i)"
  using show_nat_digits [of "unat i"] by (simp add: pad2_def Let_def is_digit_def)

lemma pad2_val: "digits_val (pad2 i) 0 = unat i"
  by (simp add: pad2_def Let_def show_nat_val digit_val_def)

lemma file_name_digits: "takeWhile is_digit (bundle_file_name command idx b) = pad2 idx"
  using is_digit_pad2 [of idx] takeWhile_append2 [of "pad2 idx" is_digit]
  by (simp add: bundle_file_name_def list_all_iff is_digit_def)

text \<open>The index can be read off the name: bundles of different indices never share a file.\<close>

lemma file_name_index: "bundle_file_name c i b = bundle_file_name c' j b' \<Longrightarrow> i = j"
  by (metis file_name_digits pad2_val word_unat_eq_iff)

lemma file_name_not_manifest: "bundle_file_name c i b \<noteq> MANIFEST"
proof
  assume "bundle_file_name c i b = MANIFEST"
  then have "pad2 i = takeWhile is_digit MANIFEST"
    by (metis file_name_digits)
  then show False
    by (simp add: MANIFEST_def is_digit_def pad2_def Let_def split: if_splits)
qed

section \<open>Appending to the manifest\<close>

text \<open>
  What \<^verbatim>\<open>serde_json\<close> reads back as it was: a value whose objects have their keys in strictly increasing
  order, as those of the crate have, whose numbers are \<^verbatim>\<open>u64\<close>, and which is not nested deeper than the
  parser goes (it refuses to open a 128th bracket).
\<close>

fun canonical_json :: "nat \<Rightarrow> json \<Rightarrow> bool" where
  "canonical_json n JNull \<longleftrightarrow> True"
| "canonical_json n (JBool b) \<longleftrightarrow> True"
| "canonical_json n (JNum v) \<longleftrightarrow> v \<noteq> None"
| "canonical_json n (JStr s) \<longleftrightarrow> True"
| "canonical_json 0 (JArr js) \<longleftrightarrow> False"
| "canonical_json 0 (JObj kvs) \<longleftrightarrow> False"
| "canonical_json (Suc n) (JArr js) \<longleftrightarrow> (\<forall>j \<in> set js. canonical_json n j)"
| "canonical_json (Suc n) (JObj kvs) \<longleftrightarrow> sorted_wrt (<) (map fst kvs) \<and> (\<forall>kv \<in> set kvs. canonical_json n (snd kv))"

definition json_codec :: "json_io \<Rightarrow> bool" where
  "json_codec J \<longleftrightarrow> (\<forall>j. canonical_json 127 j \<longrightarrow> json_parse J (json_print J j) = Some j)"

lemma canonical_json_mono: "canonical_json n j \<Longrightarrow> n \<le> m \<Longrightarrow> canonical_json m j"
proof (induction n j arbitrary: m rule: canonical_json.induct)
  case (7 n js)
  then show ?case by (cases m) auto
next
  case (8 n kvs)
  then show ?case by (cases m) auto
qed simp_all

lemma canonical_entry: "canonical_json 2 (bundle_entry K idx b)"
  by (simp add: bundle_entry_def numeral_2_eq_2 less_char_def)

text \<open>What a run adds: the entries of the bundles under consecutive indices, and their files.\<close>

fun new_entries :: "out_params \<Rightarrow> u64 \<Rightarrow> safe_bundle list \<Rightarrow> json list" where
  "new_entries K idx [] = []"
| "new_entries K idx (b # bs) = bundle_entry K idx b # new_entries K (idx + 1) bs"

definition new_names :: "out_params \<Rightarrow> u64 \<Rightarrow> safe_bundle list \<Rightarrow> string set" where
  "new_names K idx bs = (\<lambda>k. bundle_file_name (out_command K) (idx + of_nat k) (bs ! k)) ` {..<length bs}"

lemma new_names_Cons:
  "new_names K idx (b # bs) = insert (bundle_file_name (out_command K) idx b) (new_names K (idx + 1) bs)"
  by (simp add: new_names_def lessThan_Suc_eq_insert_0 image_image add.assoc)

lemma write_bundles_run:
  assumes "write_bundles J K idx bs entries d = (Inr es, d')"
  shows "es = entries @ new_entries K idx bs"
    and "name \<notin> new_names K idx bs \<Longrightarrow> dir_files d' name = dir_files d name"
    and "dir_writable d' = dir_writable d"
proof -
  have "es = entries @ new_entries K idx bs \<and> (name \<notin> new_names K idx bs \<longrightarrow> dir_files d' name = dir_files d name)
      \<and> dir_writable d' = dir_writable d"
    using assms
  proof (induction bs arbitrary: idx entries d)
    case (Cons b bs)
    let ?f = "bundle_file_name (out_command K) idx b"
    from Cons.prems obtain txs where txs: "safe_txs_from_bundle b = Inr txs"
      by (simp split: sum.splits)
    with Cons.prems have wr: "dir_writable d ?f"
      by (cases "dir_writable d ?f") (simp_all add: save_json_file_def)
    with Cons.prems txs have "write_bundles J K (idx + 1) bs (entries @ [bundle_entry K idx b])
        (d\<lparr>dir_files := (dir_files d)(?f \<mapsto> Text (json_print J (envelope K b txs)))\<rparr>) = (Inr es, d')"
      by (simp add: save_json_file_def)
    from Cons.IH [OF this] show ?case
      by (auto simp: new_names_Cons)
  qed (simp add: new_names_def)
  then show "es = entries @ new_entries K idx bs" "name \<notin> new_names K idx bs \<Longrightarrow> dir_files d' name = dir_files d name"
    "dir_writable d' = dir_writable d"
    by blast+
qed

lemma write_dir_cases:
  assumes "write_safe_bundles_dir J K bundles meta d = (Inr (), d')"
  obtains old_entries old_meta d1 where "read_existing_manifest J d = Inr (old_entries, old_meta)"
    "write_bundles J K (next_index old_entries) bundles old_entries d
      = (Inr (old_entries @ new_entries K (next_index old_entries) bundles), d1)"
    "d' = d1\<lparr>dir_files := (dir_files d1)(MANIFEST \<mapsto> Text (json_print J
       (JObj [(''bundles'', JArr (old_entries @ new_entries K (next_index old_entries) bundles)),
         (''metadata'', JArr (old_meta @ [meta]))])))\<rparr>"
proof -
  from assms obtain old_entries old_meta where old: "read_existing_manifest J d = Inr (old_entries, old_meta)"
    by (auto simp: write_safe_bundles_dir_def split: if_splits sum.splits)
  obtain r d1 where w: "write_bundles J K (next_index old_entries) bundles old_entries d = (r, d1)"
    by (cases "write_bundles J K (next_index old_entries) bundles old_entries d")
  from assms old w obtain es where r: "r = Inr es"
    by (cases r) (auto simp: write_safe_bundles_dir_def split: if_splits)
  note es = write_bundles_run(1) [OF w [unfolded r]]
  show ?thesis
    by (rule that [OF old w [unfolded r es]])
      (use assms old w r es in \<open>auto simp: write_safe_bundles_dir_def save_json_file_def split: if_splits\<close>)
qed

lemma canonical_new_entries: "e \<in> set (new_entries K idx bs) \<Longrightarrow> canonical_json 125 e"
  by (induction bs arbitrary: idx) (auto intro: canonical_json_mono [OF canonical_entry])

text \<open>The manifest holds its entries two levels down.\<close>

lemma canonical_manifest:
  assumes "\<forall>j \<in> set es \<union> set ms. canonical_json n j"
  shows "canonical_json (Suc (Suc n)) (JObj [(''bundles'', JArr es), (''metadata'', JArr ms)])"
  using assms by (simp add: less_char_def)

lemma manifest_appended:
  assumes "json_codec J" "write_safe_bundles_dir J K bundles meta d = (Inr (), d')"
    and "read_existing_manifest J d = Inr (old_entries, old_meta)"
    and "\<forall>j \<in> set (old_entries @ old_meta @ [meta]). canonical_json 125 j"
  shows "read_existing_manifest J d' = Inr (old_entries @ new_entries K (next_index old_entries) bundles, old_meta @ [meta])"
    and "\<forall>j \<in> set ((old_entries @ new_entries K (next_index old_entries) bundles) @ old_meta @ [meta]). canonical_json 125 j"
proof -
  let ?es = "old_entries @ new_entries K (next_index old_entries) bundles"
  show all: "\<forall>j \<in> set (?es @ old_meta @ [meta]). canonical_json 125 j"
    using assms(4) canonical_new_entries by auto
  have "canonical_json (Suc (Suc 125)) (JObj [(''bundles'', JArr ?es), (''metadata'', JArr (old_meta @ [meta]))])"
    by (rule canonical_manifest) (use all in auto)
  then have "canonical_json 127 (JObj [(''bundles'', JArr ?es), (''metadata'', JArr (old_meta @ [meta]))])"
    by (simp only: Suc_numeral add_num_simps)
  with assms(1) have again: "json_parse J (json_print J (JObj [(''bundles'', JArr ?es), (''metadata'', JArr (old_meta @ [meta]))]))
      = Some (JObj [(''bundles'', JArr ?es), (''metadata'', JArr (old_meta @ [meta]))])"
    by (simp add: json_codec_def)
  from assms(2) show "read_existing_manifest J d' = Inr (?es, old_meta @ [meta])"
    by (rule write_dir_cases) (use assms(3) again in \<open>simp add: read_existing_manifest_def\<close>)
qed

text \<open>
  Indices grow, so as long as they stay below \<^verbatim>\<open>u64::MAX\<close> no file of an earlier entry is
  overwritten.
\<close>

lemma fold_max_ge: "(m :: u64) \<le> fold max xs m" "x \<in> set xs \<Longrightarrow> x \<le> fold max xs m"
proof (induction xs arbitrary: m)
  case (Cons y ys)
  { case 1
    show ?case
      using Cons(1) [of "max y m"] by (auto intro: order_trans [OF max.cobounded2])
  next
    case 2
    then show ?case
      using Cons(1) [of "max y m"] Cons(2) [of "max y m"] by (auto intro: order_trans [OF max.cobounded1])
  }
qed simp_all

definition top_index :: "json list \<Rightarrow> u64" where
  "top_index entries = fold max (List.map_filter entry_index entries) 0"

lemma entry_index_le: "e \<in> set entries \<Longrightarrow> entry_index e = Some i \<Longrightarrow> i \<le> top_index entries"
  unfolding top_index_def by (rule fold_max_ge(2)) (force simp: List.map_filter_def)

lemma fresh_index:
  assumes "i \<le> top_index entries" "unat (top_index entries) + n < 2 ^ 64" "k < n"
  shows "i \<noteq> next_index entries + of_nat k"
proof
  assume i: "i = next_index entries + of_nat k"
  have "unat (next_index entries + of_nat k) = unat (top_index entries + of_nat (Suc k))"
    by (simp add: next_index_def top_index_def algebra_simps)
  also have "\<dots> = unat (top_index entries) + Suc k"
    using assms(2,3) by (simp add: unat_word_ariths unat_of_nat del: of_nat_Suc)
  finally show False
    using assms(1) i by (simp add: word_le_nat_alt)
qed

lemma earlier_files_kept:
  assumes "write_safe_bundles_dir J K bundles meta d = (Inr (), d')"
    and "read_existing_manifest J d = Inr (old_entries, old_meta)"
    and "unat (top_index old_entries) + length bundles < 2 ^ 64"
    and "e \<in> set old_entries" "entry_index e = Some i"
  shows "dir_files d' (bundle_file_name c i b) = dir_files d (bundle_file_name c i b)"
  using assms(1)
proof (rule write_dir_cases)
  fix entries ms d1
  assume read: "read_existing_manifest J d = Inr (entries, ms)"
    and w: "write_bundles J K (next_index entries) bundles entries d
      = (Inr (entries @ new_entries K (next_index entries) bundles), d1)"
    and d': "d' = d1\<lparr>dir_files := (dir_files d1)(MANIFEST \<mapsto> Text (json_print J
       (JObj [(''bundles'', JArr (entries @ new_entries K (next_index entries) bundles)),
         (''metadata'', JArr (ms @ [meta]))])))\<rparr>"
  have same: "entries = old_entries"
    using read assms(2) by simp
  have "bundle_file_name c i b \<notin> new_names K (next_index old_entries) bundles"
    using fresh_index [OF entry_index_le [OF assms(4,5)] assms(3)] file_name_index
    unfolding new_names_def by blast
  then show ?thesis
    using write_bundles_run(2) [OF w] file_name_not_manifest [of c i b] by (simp add: d' same)
qed

end
