(* ===== verification/Example_Run.thy ===== *)
theory Example_Run
  imports Verify_Upgrade Governance_Calls Manifest
begin

section \<open>A small ecosystem\<close>

text \<open>
  A concrete instance of everything the model takes from outside (hashing, hex, chains, files)
  and of an artifact, on which the development is run: the hypotheses of the properties hold
  here. The hash is a polynomial over the bytes, hex is hex, and one address stands for every
  contract of the ecosystem.
\<close>

definition hex_digit :: "char \<Rightarrow> byte option" where
  "hex_digit c = map_of (zip ''0123456789abcdef'' [0, 1, 2, 3, 4, 5, 6, 7, 8, 9, 10, 11, 12, 13, 14, 15]) c"

fun unhex :: "string \<Rightarrow> bytes option" where
  "unhex [] = Some []"
| "unhex [_] = None"
| "unhex (a # b # s) = do {
     x \<leftarrow> hex_digit a;
     y \<leftarrow> hex_digit b;
     bs \<leftarrow> unhex s;
     Some ((16 * x + y) # bs) }"

definition hex_byte :: "byte \<Rightarrow> string" where
  "hex_byte b = [''0123456789abcdef'' ! (unat b div 16), ''0123456789abcdef'' ! (unat b mod 16)]"

definition poly_hash :: "bytes \<Rightarrow> b256" where
  "poly_hash bs = foldl (\<lambda>h b. 257 * h + ucast b + 1) 0 bs"

definition demo_address_of :: "string \<Rightarrow> address option" where
  "demo_address_of s = do {
     t \<leftarrow> strip_prefix ''0x'' s;
     bs \<leftarrow> unhex t;
     (if length bs = 20 then Some (from_be_bytes bs) else None) }"

definition demo_ext :: ext where
  "demo_ext = \<lparr>keccak256 = poly_hash, hex_decode = (\<lambda>s. unhex (strip_0x s)),
     hex_encode = (\<lambda>bs. concat (map hex_byte bs)), address_from_str = demo_address_of,
     address_from_hex = demo_address_of, address_parse_checksummed = demo_address_of,
     u256_checked_shr = (\<lambda>v n. Some (drop_bit n v)),
     evmole_selectors = (\<lambda>code. Some [take 4 code])\<rparr>"

lemma demo_keccak [simp]: "keccak256 demo_ext = poly_hash"
  by (simp add: demo_ext_def)

lemma demo_shifts: "shifts_by_limb demo_ext"
  by (simp add: shifts_by_limb_def demo_ext_def)

definition demo_addr :: string where
  "demo_addr = ''0x0000000000000000000000000000000000001234''"

lemma demo_addr_parses:
  "address_from_str demo_ext demo_addr = Some 0x1234" "address_from_hex demo_ext demo_addr = Some 0x1234"
  by (simp_all add: demo_ext_def demo_addr_def demo_address_of_def strip_prefix_def hex_digit_def
      from_be_bytes_def)

subsection \<open>The artifact\<close>

definition demo_core :: toml where
  "demo_core = TTable [(''upgrade_addresses'', TTable [
     (''shared'', TTable [(''transparent_proxy_admin'', TString demo_addr)]),
     (''native_token_vault_addr'', TString demo_addr),
     (''native_token_vault_implementation_addr'', TString demo_addr),
     (''bridgehub'', TTable (map (\<lambda>k. (k, TString demo_addr)) [
        ''bridgehub_proxy_addr'', ''bridgehub_implementation_addr'',
        ''l1_asset_tracker_proxy_addr'', ''l1_asset_tracker_implementation_addr'',
        ''chain_asset_handler_proxy_addr'', ''chain_asset_handler_implementation_addr'',
        ''chain_registration_sender_proxy_addr'', ''chain_registration_sender_implementation_addr'',
        ''ctm_deployment_tracker_proxy_addr'', ''ctm_deployment_tracker_implementation_addr'',
        ''message_root_proxy_addr'', ''message_root_implementation_addr''])),
     (''bridges'', TTable (map (\<lambda>k. (k, TString demo_addr)) [
        ''l1_asset_router_proxy_addr'', ''l1_asset_router_implementation_addr'',
        ''l1_nullifier_proxy_addr'', ''l1_nullifier_implementation_addr'']))])]"

definition demo_ctm :: ctm_artifact where
  "demo_ctm = \<lparr>flavor = Era, chain_upgrade_diamond_cut = [],
     ctm_contracts_config = \<lparr>diamond_cut_data = [], force_deployments_data = [],
       new_protocol_version = 133143986176, old_protocol_version = 124554051588,
       governance_upgrade_timer_initial_delay = 0, is_testnet = True\<rparr>,
     ctm_value = TTable [(''state_transition'', TTable (map (\<lambda>k. (k, TString demo_addr)) [
        ''chain_type_manager_proxy'', ''admin_facet_addr'', ''getters_facet_addr'',
        ''mailbox_facet_addr'', ''executor_facet_addr'', ''migrator_facet_addr'', ''committer_facet_addr'']))]\<rparr>"

definition demo_artifact :: ecosystem_upgrade_artifact where
  "demo_artifact = \<lparr>core = demo_core,
     artifact_governance_calls = \<lparr>stage0_calls = [], stage1_calls = [], stage2_calls = []\<rparr>,
     ctms = [demo_ctm], new_gateway = None, zk_governance = None, misc = TTable []\<rparr>"

subsection \<open>The chains and files\<close>

definition demo_fees :: fee_params where
  "demo_fees = \<lparr>pubdataPricingMode = Rollup, batchOverheadL1Gas = 1000000, maxPubdataPerBatch = 120000,
     maxL2GasPerBatch = 80000000, priorityTxMaxPubdata = 99000, minimalL2GasPrice = 250000000\<rparr>"

definition demo_config :: system_config where
  "demo_config = \<lparr>guaranteed_pubdata_bytes = 0, max_transactions_in_batch = 0,
     required_l2_gas_price_per_pubdata = 0, l1_gas_per_pubdata_byte = 0, priority_tx_max_pubdata = 99000,
     batch_overhead_l1_gas = 1000000, l1_tx_intrinsic_l2_gas = 0, l1_tx_intrinsic_pubdata = 0,
     l1_tx_min_l2_gas_base = 0, l1_tx_delta_544_encoding_bytes = 0, l1_tx_delta_factory_deps_l2_gas = 0,
     l1_tx_delta_factory_deps_pubdata = 0, l2_tx_intrinsic_gas = 0, l2_tx_intrinsic_pubdata = 0,
     max_new_factory_deps = 0, max_gas_per_transaction = 0, keccak_round_cost_gas = 0,
     sha256_round_cost_gas = 0, ecrecover_cost_gas = 0, priority_tx_minimal_gas_price = 250000000,
     priority_tx_max_gas_per_batch = 80000000, priority_tx_pubdata_per_batch = 120000,
     priority_tx_batch_overhead_l1_gas = 0\<rparr>"

definition demo_l1 :: l1_rpc where
  "demo_l1 = \<lparr>get_chain_id = Some 11155111, get_code_at = (\<lambda>a. Some [1, 2, 3, 4]),
     get_storage_at = (\<lambda>a s. Some (encode_storage_word demo_fees)),
     get_transaction_by_hash = (\<lambda>h. Some (Some \<lparr>tx_to = Some 0xface, tx_input = replicate 96 1\<rparr>)),
     get_transaction_receipt = (\<lambda>h. Some (Some True)),
     Bridgehub_owner = (\<lambda>a. Some 0x77), Bridgehub_getHyperchain = (\<lambda>a i. Some 0x88),
     Bridgehub_getAllZKChainChainIDs = (\<lambda>a. Some [270, 271]),
     Bridgehub_chainTypeManager = (\<lambda>a i. Some 0x1234),
     Bridgehub_getZKChain = (\<lambda>a i. if i = 270 then Some 0x88 else Some 0),
     ChainTypeManager_protocolVersion = (\<lambda>a. Some 124554051588),
     ChainTypeManager_isZKsyncOS = (\<lambda>a. Some False),
     ZKChain_getProtocolVersion = (\<lambda>a. Some 124554051588),
     GettersFacet_facets = (\<lambda>a. Some [\<lparr>facet_addr = 0x99, facet_selectors = [[9, 9, 9, 9]]\<rparr>]),
     ProtocolUpgradeHandler = (\<lambda>a. \<lparr>L2_PROTOCOL_GOVERNOR = Some 1, CHAIN_TYPE_MANAGER = Some 0x1234,
       ERA_CHAIN_TYPE_MANAGER = Some 0x1234, ZKSYNC_OS_CHAIN_TYPE_MANAGER = Some 0x1234, BRIDGE_HUB = Some 0x1234,
       L1_NULLIFIER = Some 0x1234, L1_ASSET_ROUTER = Some 0x1234, L1_NATIVE_TOKEN_VAULT = Some 0x1234,
       CHAIN_ASSET_HANDLER = Some 0x1234, ERA_CHAIN_ID = Some 324\<rparr>),
     pendingOwner = (\<lambda>a. Some 0), publishingBlock = (\<lambda>a h. Some 1), evmPublishingBlock = (\<lambda>a h. Some 1)\<rparr>"

definition demo_gw :: gw_rpc where
  "demo_gw = \<lparr>gw_get_chain_id = Some 506, gw_get_storage_at = (\<lambda>a s. Some 0)\<rparr>"

definition no_hash :: "string \<Rightarrow> contract_hash" where
  "no_hash name = \<lparr>contract_name = name, evm_bytecode_hash = None, evm_deployed_bytecode_hash = None,
     evm_deployed_bytecode_blake_hash = None, evm_deployed_bytecode_length = None, zk_bytecode_hash = None\<rparr>"

text \<open>Contracts with a ZK bytecode hash: the hash of the i-th name is i.\<close>

definition zk_names :: "string list" where
  "zk_names = [''l1-contracts/L2Bridgehub'', ''l1-contracts/L2AssetRouter'', ''l1-contracts/L2NativeTokenVault'',
     ''l1-contracts/L2MessageRoot'', ''l1-contracts/L2ChainAssetHandler'', ''l1-contracts/InteropCenter'',
     ''l1-contracts/InteropHandler'', ''l1-contracts/L2AssetTracker'', ''l1-contracts/UpgradeableBeaconDeployer'',
     ''l1-contracts/BaseTokenHolder'', ''l1-contracts/BeaconProxy'']"

definition hash_text :: "char \<Rightarrow> string" where
  "hash_text c = replicate 63 (CHR ''0'') @ [c]"

definition zk_hash :: "string \<times> char \<Rightarrow> contract_hash" where
  "zk_hash nc = (no_hash (fst nc))\<lparr>zk_bytecode_hash := Some (hash_text (snd nc))\<rparr>"

definition demo_hashes :: "contract_hash list" where
  "demo_hashes = map no_hash ZK_GOVERNANCE_V31_CONTRACTS @ map zk_hash (zip zk_names ''0123456789a'')"

definition demo_outside :: outside where
  "demo_outside = \<lparr>files = \<lparr>read_local = (\<lambda>p. Some p), cache = Map.empty, fetch = (\<lambda>u. Some u)\<rparr>,
     hashes_from_json = (\<lambda>s. Some demo_hashes),
     system_config_from_json = (\<lambda>s. Some demo_config),
     genesis_from_json = (\<lambda>s. Some \<lparr>genesis_root = s, genesis_rollup_leaf_index = None,
       genesis_batch_commitment = None\<rparr>),
     l1_url = Some demo_l1, gw_url = Some demo_gw, create2_factory_salt_per_ctm = (\<lambda>e. None)\<rparr>"

definition demo_params :: chain_params where
  "demo_params = \<lparr>cp_era_chain_id = 270, cp_legacy_era_chain_id = 270, cp_legacy_gateway_chain_id = 0,
     cp_legacy_gateway_chain_intervals = [], cp_new_gateway_chain_id = 506,
     cp_new_gateway_representative_chain_id = 270, cp_new_gateway_settlement_fee = 0,
     cp_expected_l1_chain_id = 11155111, cp_zk_token_asset_id = 5\<rparr>"

definition demo_new :: "verifiers res" where
  "demo_new = verifiers_new_v31 demo_ext demo_outside Testnet demo_artifact None ''main'' demo_params"

definition demo_verifiers :: verifiers where
  "demo_verifiers = projr demo_new"

subsection \<open>It is accepted\<close>

lemma demo_book: "\<exists>av. new_v31_from_artifact demo_ext demo_artifact = Inr av"
  by (simp add: new_v31_from_artifact_def add_addresses_from_artifact_def add_addresses_from_tables_def
      add_v31_address_aliases_def add_v31_address_alias_def optional_nested_string_field_def
      parse_alloy_address_def demo_addr_parses demo_artifact_def demo_core_def demo_ctm_def
      V31_ADDRESS_TABLES_def V31_ADDRESS_ALIASES_def)

lemma demo_network: "network_verifier_new_v31 (Some demo_l1) (Some demo_gw) 270 = Inr
    \<lparr>l1_provider = demo_l1, era_chain_id = 270, l1_chain_id = 11155111, gateway_chain_id = 506,
      gw_provider = demo_gw, create2_known_bytecodes = Map.empty, create2_constructor_params = Map.empty\<rparr>"
  by (simp add: network_verifier_new_v31_def demo_l1_def demo_gw_def)

lemma unhex_zeros: "unhex (replicate (2 * k) (CHR ''0'') @ s) = map_option (\<lambda>bs. replicate k 0 @ bs) (unhex s)"
  by (induction k; cases "unhex s") (simp_all add: hex_digit_def)

lemma from_be_low_byte: "(from_be_bytes (replicate 31 0 @ [b]) :: b256) = ucast b"
  by (simp add: from_be_bytes_def)

lemma strip_hash_text: "strip_0x (hash_text c) = hash_text c"
  by (simp add: hash_text_def strip_0x_def strip_prefix_def numeral_eq_Suc)

lemma decode_hash_text:
  assumes "hex_digit c = Some b"
  shows "decode_hash demo_ext (hash_text c) = Inr (ucast b)"
proof -
  have h: "hash_text c = replicate (2 * 31) (CHR ''0'') @ [CHR ''0'', c]"
    by (simp add: hash_text_def replicate_append_same [symmetric] numeral_eq_Suc)
  have "hex_decode demo_ext (hash_text c) = unhex (hash_text c)"
    by (simp add: demo_ext_def strip_hash_text)
  also have "\<dots> = Some (replicate 31 0 @ [b])"
    unfolding h unhex_zeros using assms by (simp add: hex_digit_def)
  finally show ?thesis
    by (simp add: decode_hash_def from_be_low_byte)
qed

definition enter_zk :: "string \<times> b256 \<Rightarrow> bytecode_verifier \<Rightarrow> bytecode_verifier" where
  "enter_zk nh bv = bv\<lparr>bytecode_file_to_zkhash := (bytecode_file_to_zkhash bv)(fst nh \<mapsto> snd nh),
     zk_bytecode_file_by_hash := (zk_bytecode_file_by_hash bv)(snd nh \<mapsto> fst nh)\<rparr>"

lemma insert_zk_hash_demo:
  "hex_digit c = Some b \<Longrightarrow> insert_contract_hash demo_ext (zk_hash (n, c)) bv = Inr (enter_zk (n, ucast b) bv)"
  by (simp add: insert_contract_hash_def insert_init_hash_def insert_deployed_hash_def insert_zk_hash_def
      insert_blake_def zk_hash_def no_hash_def decode_hash_text enter_zk_def)

lemma extend_no_hash:
  "extend_from_contract_hashes E (map no_hash names @ hs) bv = extend_from_contract_hashes E hs bv"
  by (induction names) (simp_all add: extend_from_contract_hashes_def insert_contract_hash_def
      insert_init_hash_def insert_deployed_hash_def insert_zk_hash_def insert_blake_def no_hash_def)

definition zk_entries :: "(string \<times> b256) list" where
  "zk_entries = zip zk_names [0, 1, 2, 3, 4, 5, 6, 7, 8, 9, 10]"

lemma extend_zk:
  "extend_from_contract_hashes demo_ext (map zk_hash (zip zk_names ''0123456789a'')) bv = Inr (fold enter_zk zk_entries bv)"
  unfolding extend_from_contract_hashes_def zk_names_def zk_entries_def
  by (simp add: insert_zk_hash_demo [where b = 0] insert_zk_hash_demo [where b = 1] insert_zk_hash_demo [where b = 2]
      insert_zk_hash_demo [where b = 3] insert_zk_hash_demo [where b = 4] insert_zk_hash_demo [where b = 5]
      insert_zk_hash_demo [where b = 6] insert_zk_hash_demo [where b = 7] insert_zk_hash_demo [where b = 8]
      insert_zk_hash_demo [where b = 9] insert_zk_hash_demo [where b = 10] hex_digit_def)

lemma filter_demo: "filter_required ZK_GOVERNANCE_V31_CONTRACTS demo_hashes
    = Inr (map no_hash ZK_GOVERNANCE_V31_CONTRACTS)"
proof -
  have "\<forall>nc \<in> set (zip zk_names ''0123456789a''). fst nc \<notin> set ZK_GOVERNANCE_V31_CONTRACTS"
    by (simp add: zk_names_def ZK_GOVERNANCE_V31_CONTRACTS_def)
  then have "filter (\<lambda>c. contract_name c \<in> set ZK_GOVERNANCE_V31_CONTRACTS) (map zk_hash (zip zk_names ''0123456789a'')) = []"
    by (auto simp: filter_empty_conv zk_hash_def no_hash_def)
  moreover have "filter (\<lambda>c. contract_name c \<in> set ns) (map no_hash ns) = map no_hash ns" for ns
    by (simp add: filter_map comp_def no_hash_def)
  moreover have "\<exists>c \<in> set demo_hashes. contract_name c = r" if "r \<in> set ZK_GOVERNANCE_V31_CONTRACTS" for r
    using that by (intro bexI [of _ "no_hash r"]) (auto simp: demo_hashes_def no_hash_def)
  ultimately show ?thesis
    by (simp add: filter_required_iff) (simp add: demo_hashes_def)
qed

definition demo_bytes :: bytecode_verifier where
  "demo_bytes = insert_hardcoded_bytecodes (fold enter_zk zk_entries empty_bytecodes)"

lemma demo_from_hashes: "from_contract_hashes demo_ext demo_hashes = Inr demo_bytes"
  by (simp add: from_contract_hashes_def demo_hashes_def extend_no_hash extend_zk demo_bytes_def)

lemma demo_bytecodes:
  "\<exists>F. bytecode_verifier_init_v31 demo_ext (hashes_from_json demo_outside) (files demo_outside) None ''main''
    = Inr (demo_bytes, F) \<and> read_local F = Some"
proof -
  note demo_from_hashes
  moreover have "extend_from_contract_hashes demo_ext (map no_hash ns) bv = Inr bv" for ns bv
    using extend_no_hash [of demo_ext ns "[]" bv] by (simp add: extend_from_contract_hashes_def)
  ultimately show ?thesis
    by (simp add: bytecode_verifier_init_v31_def bytecode_verifier_init_from_local_def init_json_from_local_def
      init_json_from_github_def get_contents_from_github_def demo_outside_def filter_demo fun_eq_iff)
qed

lemma demo_zk_lookup:
  "list_all (\<lambda>(n, h). zk_bytecode_hash_to_file demo_bytes h = Some n) zk_entries"
  by (simp add: zk_entries_def zk_names_def demo_bytes_def insert_hardcoded_bytecodes_def enter_zk_def
      zk_bytecode_hash_to_file_def empty_bytecodes_def)

lemma demo_fees_live:
  assumes "l1_provider n = demo_l1" "read_local F = Some"
  shows "fee_param_safe_init n bh (system_config_from_json demo_outside) F None = Inr (demo_fees, F)"
proof -
  have "init_v31_from_source (system_config_from_json demo_outside) F None = Inr (demo_fees, F)"
    using assms(2) by (simp add: init_v31_from_source_def init_json_def init_json_from_local_def
        demo_outside_def demo_config_def demo_fees_def)
  moreover have "init_from_on_chain n bh = Inr demo_fees"
    using assms(1) by (simp add: init_from_on_chain_def get_storage_at_slot_def demo_l1_def decode_encode)
  ultimately show ?thesis
    by (simp add: fee_param_safe_init_def)
qed

lemma demo_accepted: "\<exists>v. demo_new = Inr v \<and> bytecodes v = demo_bytes \<and> l1_provider (network v) = demo_l1
    \<and> bridgehub_owner v = 0x77 \<and> bridgehub_address v = 0x1234 \<and> legacy_era_chain_id v = 270
    \<and> registered_era_chain_id v = 270 \<and> zk_token_asset_id v = 5 \<and> legacy_gateway_chain_intervals v = []"
proof -
  obtain av where av: "new_v31_from_artifact demo_ext demo_artifact = Inr av"
    using demo_book by blast
  obtain F where F: "bytecode_verifier_init_v31 demo_ext (hashes_from_json demo_outside) (files demo_outside)
      None ''main'' = Inr (demo_bytes, F)" "read_local F = Some"
    using demo_bytecodes by blast
  have bh: "address_from_artifact demo_ext demo_artifact [''upgrade_addresses'', ''bridgehub'', ''bridgehub_proxy_addr'']
      = Inr 0x1234"
    by (simp add: address_from_artifact_def demo_artifact_def demo_core_def optional_nested_string_field_def
        parse_alloy_address_def demo_addr_parses)
  have urls: "l1_url demo_outside = Some demo_l1" "gw_url demo_outside = Some demo_gw"
    "cp_era_chain_id demo_params = 270" "Bridgehub_owner demo_l1 = (\<lambda>a. Some 0x77)"
    by (simp_all add: demo_outside_def demo_params_def demo_l1_def)
  have gen: "genesis_config_init_v31 (genesis_from_json demo_outside) F k None
      = Inr (\<lparr>genesis_root = local_path k, genesis_rollup_leaf_index = None, genesis_batch_commitment = None\<rparr>, F)" for k
    using F(2) by (simp add: genesis_config_init_v31_def init_json_def init_json_from_local_def demo_outside_def)
  have art: "ctms demo_artifact = [demo_ctm]" "new_gateway demo_artifact = None"
    "is_testnet (ctm_contracts_config demo_ctm)"
    by (simp_all add: demo_artifact_def demo_ctm_def)
  show ?thesis
    unfolding demo_new_def verifiers_new_v31_def
    by (simp add: Let_def bh F urls demo_network gen art av demo_fees_live representative_ctm_def is_mainnet_def)
      (simp add: demo_params_def)
qed

lemma demo_new_ok:
  "verifiers_new_v31 demo_ext demo_outside Testnet demo_artifact None ''main'' demo_params = Inr demo_verifiers"
  using demo_accepted unfolding demo_verifiers_def by (metis demo_new_def sum.sel(2))

lemma demo_fields:
  "bytecodes demo_verifiers = demo_bytes" "l1_provider (network demo_verifiers) = demo_l1"
  "bridgehub_owner demo_verifiers = 0x77" "bridgehub_address demo_verifiers = 0x1234"
  "legacy_era_chain_id demo_verifiers = 270" "registered_era_chain_id demo_verifiers = 270"
  "zk_token_asset_id demo_verifiers = 5" "legacy_gateway_chain_intervals demo_verifiers = []"
  using demo_accepted unfolding demo_verifiers_def by (metis sum.sel(2))+

subsection \<open>One deployment\<close>

text \<open>Every transaction of the example sends a salt and 64 bytes of known init code to a factory.\<close>

definition demo_code :: bytes where
  "demo_code = replicate 64 1"

definition demo_salt :: b256 where
  "demo_salt = from_be_bytes (replicate 32 1)"

definition demo_known :: bytecode_verifier where
  "demo_known = empty_bytecodes\<lparr>init_bytecode_file_by_hash := [poly_hash demo_code \<mapsto> ''l1-contracts/Thing''],
     zk_bytecode_file_by_hash := [1 \<mapsto> ''Bootloader'', 2 \<mapsto> ''system-contracts/DefaultAccount'', 3 \<mapsto> ''EvmEmulator'']\<rparr>"

definition demo_abi :: abi where
  "demo_abi = \<lparr>decode_create2AndTransferParams = (\<lambda>b. None), decode_requestL2TransactionDirect = (\<lambda>b. None),
     decode_create2 = (\<lambda>b. None), decode_CallList = (\<lambda>b. None),
     encode_transparentProxyConstructor = (\<lambda>i a d. address_bytes i @ address_bytes a @ d),
     acceptOwnership_SELECTOR = [0x79, 0xba, 0x50, 0x97], decode_upgradeAndCall = (\<lambda>b. None),
     decode_updateSecurityCouncil = (\<lambda>b. None), decode_updateGuardians = (\<lambda>b. None),
     decode_updateEmergencyUpgradeBoard = (\<lambda>b. None)\<rparr>"

definition demo_deployed_at :: address where
  "demo_deployed_at = compute_create2_address_evm demo_ext 0xface demo_salt (poly_hash demo_code)"

definition demo_deployment :: parsed_create2_deployment where
  "demo_deployment = \<lparr>dep_addr = demo_deployed_at, dep_name = ''l1-contracts/Thing'', dep_params = [],
     dep_salt = demo_salt\<rparr>"

lemma demo_try_parse: "try_parse_bytecode demo_ext demo_known demo_code = Some (''l1-contracts/Thing'', [])"
proof -
  have "try_split demo_ext demo_known demo_code 0 = Some (''l1-contracts/Thing'', [])"
    by (simp add: try_split_def compute_hash_with_arguments_def slice_def demo_code_def
        evm_init_bytecode_hash_to_file_def demo_known_def)
  then show ?thesis
    by (simp add: try_parse_bytecode_def Let_def upt_conv_Cons del: upt_Suc)
qed

lemma demo_recognise:
  "recognise_deployment demo_ext demo_abi demo_known 0xface 0x1234 0xface (replicate 96 1) = Inr (Some demo_deployment)"
proof -
  have parts: "slice 0 32 (replicate 96 (1 :: byte)) = replicate 32 1" "drop 32 (replicate 96 (1 :: byte)) = demo_code"
    by (simp_all add: slice_def demo_code_def)
  show ?thesis
    unfolding recognise_deployment_def parse_l1_create2_deploy_from_input_def parts Let_def
    by (simp add: demo_try_parse demo_deployment_def demo_deployed_at_def demo_salt_def)
qed

lemma demo_deployment_of:
  "deployment_of demo_ext demo_abi demo_known 0xface 0x1234 demo_l1 h = Some demo_deployment"
  by (simp add: deployment_of_def demo_recognise demo_l1_def)

lemma demo_populate:
  assumes "l1_provider n = demo_l1"
  shows "\<exists>st. val (populate_create2_from_transactions_log demo_ext demo_abi demo_known 0xface 0x1234 [demo_salt] [1] n) = Inr st"
  using assms by (simp add: populate_create2_from_transactions_log_def populate_step_def demo_recognise demo_l1_def)

lemma demo_empty: "look_deployment (network demo_verifiers) a = None"
  using new_v31_empty_provenance [OF demo_new_ok] by (simp add: look_deployment_def)

subsection \<open>A cut that passes\<close>

definition demo_cuts :: "facet_cut list" where
  "demo_cuts =
     [\<lparr>cut_facet = 0, cut_action = Sol_Remove, isFreezable = False, cut_selectors = [[9, 9, 9, 9]]\<rparr>,
      \<lparr>cut_facet = 0x1234, cut_action = Sol_Add, isFreezable = True, cut_selectors = [[1, 2, 3, 4]]\<rparr>,
      \<lparr>cut_facet = 0x1234, cut_action = Sol_Add, isFreezable = False, cut_selectors = [[1, 2, 3, 4]]\<rparr>]"

lemma insert_rotate: "{a, b, c} = {c, a, b}"
  by blast

lemma demo_address_at:
  "k \<in> {''chain_type_manager_proxy'', ''admin_facet_addr'', ''getters_facet_addr'', ''mailbox_facet_addr'',
     ''executor_facet_addr'', ''migrator_facet_addr'', ''committer_facet_addr''}
    \<Longrightarrow> address_at demo_ext (ctm_value demo_ctm) [''state_transition'', k] = Some 0x1234"
  by (auto simp: address_at_def demo_ctm_def demo_addr_parses)

lemma demo_added_facet:
  assumes "nf \<in> set EXPECTED_V31_UPGRADE_FACETS"
  shows "added_facet demo_ext demo_ctm demo_verifiers nf
    = Some \<lparr>facet = 0x1234, action = Add, is_freezable = snd nf, selectors = {[1, 2, 3, 4]}\<rparr>"
proof -
  have code: "get_code_at (l1_provider (network demo_verifiers)) a = Some [1, 2, 3, 4]" for a
    by (simp add: demo_fields demo_l1_def)
  have sel: "facet_selectors_from_bytecode demo_ext [1, 2, 3, 4] = {[1, 2, 3, 4]}"
    by (simp add: facet_selectors_from_bytecode_def demo_ext_def GET_NAME_SELECTOR_def)
  have addr: "address_at demo_ext (ctm_value demo_ctm) [''state_transition'', fst nf] = Some 0x1234"
    using assms by (intro demo_address_at) (auto simp: EXPECTED_V31_UPGRADE_FACETS_def)
  show ?thesis
    by (simp add: added_facet_def addr code sel)
qed

lemma demo_representative: "representative demo_ext demo_ctm demo_verifiers = Some (270, 0x88)"
proof -
  have "inspect_chain_for_facet_cut_reconstruction 270 0x1234 124554051588 demo_verifiers = Some (270, 0x88)"
    by (simp add: inspect_chain_for_facet_cut_reconstruction_def demo_fields demo_l1_def accessor_defs)
  moreover have "flavor demo_ctm = Era" "old_protocol_version (ctm_contracts_config demo_ctm) = 124554051588"
    by (simp_all add: demo_ctm_def)
  ultimately show ?thesis
    by (simp add: representative_def find_representative_chain_diamond_def demo_address_at demo_fields Let_def)
qed

lemma demo_cuts_ok: "upgrade_cuts_ok demo_ext demo_cuts demo_ctm demo_verifiers"
proof -
  define g where "g fr = \<lparr>facet = 0x1234, action = Add, is_freezable = fr, selectors = {[1, 2, 3, 4 :: byte]}\<rparr>" for fr
  have one: "added_facet demo_ext demo_ctm demo_verifiers nf = Some (g (snd nf))"
    if "nf \<in> set EXPECTED_V31_UPGRADE_FACETS" for nf
    unfolding g_def by (rule demo_added_facet [OF that])
  have "f \<in> added_facets demo_ext demo_ctm demo_verifiers \<longleftrightarrow> f \<in> g ` snd ` set EXPECTED_V31_UPGRADE_FACETS" for f
  proof
    assume "f \<in> added_facets demo_ext demo_ctm demo_verifiers"
    then obtain nf where nf: "nf \<in> set EXPECTED_V31_UPGRADE_FACETS" "added_facet demo_ext demo_ctm demo_verifiers nf = Some f"
      unfolding added_facets_def by blast
    then have "f = g (snd nf)" by (simp only: one option.inject)
    with nf(1) show "f \<in> g ` snd ` set EXPECTED_V31_UPGRADE_FACETS" by blast
  next
    assume "f \<in> g ` snd ` set EXPECTED_V31_UPGRADE_FACETS"
    then obtain nf where "nf \<in> set EXPECTED_V31_UPGRADE_FACETS" "f = g (snd nf)" by blast
    then show "f \<in> added_facets demo_ext demo_ctm demo_verifiers"
      unfolding added_facets_def using one by blast
  qed
  then have "added_facets demo_ext demo_ctm demo_verifiers = g ` snd ` set EXPECTED_V31_UPGRADE_FACETS"
    by blast
  also have "snd ` set EXPECTED_V31_UPGRADE_FACETS = {True, False}"
    by (simp add: EXPECTED_V31_UPGRADE_FACETS_def insert_commute)
  finally have added: "added_facets demo_ext demo_ctm demo_verifiers
    = {\<lparr>facet = 0x1234, action = Add, is_freezable = True, selectors = {[1, 2, 3, 4]}\<rparr>,
       \<lparr>facet = 0x1234, action = Add, is_freezable = False, selectors = {[1, 2, 3, 4]}\<rparr>}"
    by (simp add: g_def)
  have "upgrade_target demo_ext demo_ctm demo_verifiers = Some (proposes demo_cuts)"
    by (simp add: upgrade_target_def demo_representative demo_fields demo_l1_def added removed_facets_map
        proposes_steps demo_cuts_def cut_info_def) (rule insert_rotate)
  moreover have "upgrade_cut_form demo_cuts"
    by (auto simp: demo_cuts_def upgrade_cut_form_Cons is_removal_def)
  moreover have "all_facets_found demo_ext demo_ctm demo_verifiers"
    unfolding all_facets_found_def using one by blast
  ultimately show ?thesis
    by (simp only: upgrade_cuts_ok_def)
qed

subsection \<open>The version sweep\<close>

lemma demo_proxy: "proxy_of demo_ext demo_ctm = Some 0x1234"
  by (simp add: proxy_of_def CTM_PROXY_PATH_def demo_address_at)

lemma demo_expected_old: "u256_from_protocol_version (expected_old Era) = 124554051588"
  by (simp add: u256_from_protocol_version_def)

lemma demo_setup_ok: "setup_ok demo_ext (ctms demo_artifact)"
proof -
  have "version_ok demo_ctm"
    using demo_expected_old by (simp add: version_ok_def demo_ctm_def)
  then show ?thesis
    by (simp add: setup_ok_def demo_artifact_def demo_proxy)
qed

lemma demo_ids: "Bridgehub_getAllZKChainChainIDs (l1_provider (network demo_verifiers)) (bridgehub_address demo_verifiers)
    = Some [270, 271]"
  by (simp add: demo_fields demo_l1_def)

lemma demo_record: "fold (record_ctm demo_ext) (ctms demo_artifact) Map.empty = [0x1234 \<mapsto> (Era, 124554051588)]"
proof -
  have "flavor demo_ctm = Era" by (simp add: demo_ctm_def)
  then show ?thesis
    using demo_expected_old by (simp add: record_ctm_def demo_artifact_def demo_proxy)
qed

text \<open>Chain 270 matches; the diamond of chain 271 is the zero address.\<close>

lemma demo_outcomes:
  "map (chain_outcome demo_verifiers (fold (record_ctm demo_ext) (ctms demo_artifact) Map.empty)) [270, 271]
    = [Matches, Skipped]"
  unfolding demo_record by (simp add: chain_outcome_def demo_fields demo_l1_def)

subsection \<open>Force-deployment data that passes\<close>

definition demo_force :: fixed_force_deployments_data where
  "demo_force = \<lparr>l1ChainId = 11155111, eraChainId = 270, l1AssetRouter = 0x1234, l2TokenProxyBytecodeHash = 10,
     aliasedL1Governance = apply_l2_to_l1_alias 0x77, maxNumberOfZKChains = 100,
     bridgehubBytecodeInfo = b256_bytes 0, l2AssetRouterBytecodeInfo = b256_bytes 1,
     l2NtvBytecodeInfo = b256_bytes 2, messageRootBytecodeInfo = b256_bytes 3,
     chainAssetHandlerBytecodeInfo = b256_bytes 4, interopCenterBytecodeInfo = b256_bytes 5,
     interopHandlerBytecodeInfo = b256_bytes 6, assetTrackerBytecodeInfo = b256_bytes 7,
     beaconDeployerInfo = b256_bytes 8, baseTokenHolderBytecodeInfo = b256_bytes 9,
     l2SharedBridgeLegacyImpl = 0, l2BridgedStandardERC20Impl = 0,
     aliasedChainRegistrationSender = apply_l2_to_l1_alias 0x1234,
     dangerousTestOnlyForcedBeacon = 0, zkTokenAssetId = 5\<rparr>"

lemma demo_names:
  "get_by_name (address_book demo_verifiers) ''chain_registration_sender_proxy'' = Some 0x1234"
  "get_by_name (address_book demo_verifiers) ''l1_asset_router_proxy'' = Some 0x1234"
  "get_by_name (address_book demo_verifiers) ''zero'' = Some 0"
  "bridgehub_owner demo_verifiers = 0x77"
proof -
  have "\<exists>raw a. toml_path demo_core path = Some (TString raw) \<and> address_from_hex demo_ext raw = Some a
      \<and> get_by_name (address_book demo_verifiers) al = Some a"
    if "(path, al) \<in> set V31_ADDRESS_ALIASES" for path al
    using new_v31_named(4) [OF demo_new_ok that] by (simp add: demo_artifact_def)
  from this [of "[''upgrade_addresses'', ''bridgehub'', ''chain_registration_sender_proxy_addr'']" "''chain_registration_sender_proxy''"]
    this [of "[''upgrade_addresses'', ''bridges'', ''l1_asset_router_proxy_addr'']" "''l1_asset_router_proxy''"]
  show "get_by_name (address_book demo_verifiers) ''chain_registration_sender_proxy'' = Some 0x1234"
    "get_by_name (address_book demo_verifiers) ''l1_asset_router_proxy'' = Some 0x1234"
    by (simp_all add: V31_ADDRESS_ALIASES_def demo_core_def demo_addr_parses)
  show "get_by_name (address_book demo_verifiers) ''zero'' = Some 0"
    by (rule new_v31_named(3) [OF demo_new_ok])
  show "bridgehub_owner demo_verifiers = 0x77"
    by (rule demo_fields)
qed

lemma demo_force_ok: "force_deployments_ok demo_verifiers demo_force (apply_l2_to_l1_alias 0x77) 0x1234"
proof -
  have zk: "zk_bytecode_hash_to_file demo_bytes h = Some n" if "(n, h) \<in> set zk_entries" for n h
    using demo_zk_lookup that by (auto simp: list_all_iff)
  have info: "bytecode_info_ok demo_verifiers (b256_bytes h) n z" if "(n, h) \<in> set zk_entries" for n h z
    using zk [OF that] by (simp add: bytecode_info_ok_def demo_fields b256_bytes_def from_to_be_bytes)
  have "\<forall>(i, e, z) \<in> set (bytecode_info_checks demo_force). bytecode_info_ok demo_verifiers i e z"
    by (simp add: bytecode_info_checks_def demo_force_def info zk_entries_def zk_names_def)
  moreover have "zk_bytecode_hash_to_file demo_bytes 10 = Some BEACON_PROXY_FILE"
    by (rule zk) (simp add: zk_entries_def zk_names_def BEACON_PROXY_FILE_def)
  ultimately show ?thesis
    unfolding force_deployments_ok_def
    by (simp add: demo_fields demo_names) (simp add: demo_force_def demo_l1_def)
qed

subsection \<open>A document and a log\<close>

definition demo_config_table :: toml where
  "demo_config_table = TTable [(''diamond_cut_data'', TString []), (''force_deployments_data'', TString []),
     (''new_protocol_version'', TInteger 133143986176), (''old_protocol_version'', TInteger 124554051588),
     (''governance_upgrade_timer_initial_delay'', TInteger 0), (''is_testnet'', TBoolean True)]"

definition demo_ctms_table :: table where
  "demo_ctms_table = [(''zksync_os'', TTable [(''chain_upgrade_diamond_cut'', TString []), (''contracts_config'', demo_config_table)]),
     (''era'', TTable [(''chain_upgrade_diamond_cut'', TString []), (''contracts_config'', demo_config_table)])]"

definition demo_root :: table where
  "demo_root = [(''governance_calls'', TTable [(''stage0_calls'', TString []), (''stage1_calls'', TString []),
       (''stage2_calls'', TString [])]),
     (''core'', TTable []), (''ctms'', TTable demo_ctms_table)]"

lemma demo_root_ctms: "map_of demo_root ''ctms'' = Some (TTable demo_ctms_table)"
  by (simp add: demo_root_def)

lemma demo_root_distinct: "distinct (map fst demo_ctms_table)"
  by (simp add: demo_ctms_table_def)

lemma demo_root_ok: "\<exists>a. artifact_from_table demo_ext demo_root = Inr a"
  by (simp add: artifact_from_table_iff demo_root_def demo_ctms_table_def demo_config_table_def
      governance_calls_try_from_def string_field_def u64_field_def bool_field_def contracts_config_try_from_def
      parse_ctm_def ctm_flavor_parse_def optional_section_def expect_table_def)

lemma parse_hash_text:
  assumes "hex_digit c = Some b"
  shows "parse_hash demo_ext (hash_text c) = Inr (ucast b)"
  using decode_hash_text [OF assms] strip_hash_text
  by (auto simp: parse_hash_def decode_hash_def hash_text_def Let_def split: if_splits)

lemma demo_log:
  "parse_transactions_log demo_ext (hash_text (CHR ''1'') @ [CHR 0x0A]) = Inr [1]"
  "parse_transactions_log demo_ext (hash_text (CHR ''2'')) = Inr [2]"
proof -
  have ps: "parse_hash demo_ext (hash_text (CHR ''1'')) = Inr 1" "parse_hash demo_ext (hash_text (CHR ''2'')) = Inr 2"
    by (simp_all add: parse_hash_text [where b = 1] parse_hash_text [where b = 2] hex_digit_def)
  have "hash_lines (hash_text (CHR ''1'') @ [CHR 0x0A]) = [hash_text (CHR ''1'')]"
    "hash_lines (hash_text (CHR ''2'')) = [hash_text (CHR ''2'')]"
    by code_simp+
  then show "parse_transactions_log demo_ext (hash_text (CHR ''1'') @ [CHR 0x0A]) = Inr [1]"
    "parse_transactions_log demo_ext (hash_text (CHR ''2'')) = Inr [2]"
    by (simp_all add: parse_transactions_log_ref ps)
qed

subsection \<open>A proxy in the provenance maps\<close>

definition demo_impl_addr :: address where
  "demo_impl_addr = address_of_hash (encode_storage_word demo_fees)"

definition demo_proxy_addr :: address where
  "demo_proxy_addr = demo_impl_addr + 1"

definition demo_with_proxy :: verifiers where
  "demo_with_proxy = demo_verifiers\<lparr>network := (network demo_verifiers)\<lparr>
     create2_known_bytecodes := [demo_impl_addr \<mapsto> ''l1-contracts/Impl'',
       demo_proxy_addr \<mapsto> ''l1-contracts/TransparentUpgradeableProxy''],
     create2_constructor_params := [demo_impl_addr \<mapsto> [1],
       demo_proxy_addr \<mapsto> encode_transparentProxyConstructor demo_abi demo_impl_addr 7 []]\<rparr>\<rparr>"

lemma demo_with_proxy_keys: "same_keys (network demo_with_proxy)"
  by (simp add: same_keys_def demo_with_proxy_def)

lemma demo_proxy_ok: "proxy_ok demo_abi demo_with_proxy demo_proxy_addr [] 7 [1] ''l1-contracts/Impl''"
proof -
  have "demo_proxy_addr \<noteq> demo_impl_addr"
    by (simp add: demo_proxy_addr_def)
  moreover have "storage_at (network demo_with_proxy) a k = Inr (encode_storage_word demo_fees)" for a k
    by (simp add: storage_at_def demo_with_proxy_def demo_fields demo_l1_def)
  ultimately show ?thesis
    by (simp add: proxy_ok_def look_deployment_def demo_with_proxy_def flip: demo_impl_addr_def)
qed

end
