(* ===== verification/Example_Passes.thy ===== *)
theory Example_Passes
  imports Example_Run "HOL-Library.Countable"
begin

section \<open>Inputs that pass\<close>

text \<open>
  More of the small ecosystem: decoders, call lists of stage 0 and stage 2 that their checks
  accept, and instances of the coders that the laws of the development speak about.
\<close>

subsection \<open>Decoders\<close>

text \<open>A decoder that knows no calldata, and the listing of a hash map in the order of its keys.\<close>

definition demo_provenance_abi :: provenance_abi where
  "demo_provenance_abi = \<lparr>encode_ctor = (\<lambda>c. []), encode_initialize_address = address_bytes, encode_initialize = [],
     encode_gateway_config = (\<lambda>c. []), decode_gateway_DiamondCutData = (\<lambda>b. None),
     decode_gateway_InitializeDataNewChain = (\<lambda>b. None), b256_from_hex = (\<lambda>s. None),
     hash_map_iter = (\<lambda>m. sorted_list_of_set (dom m))\<rparr>"

definition demo_payload_abi :: payload_abi where
  "demo_payload_abi = \<lparr>decode_forceDeployAndUpgrade = (\<lambda>b. None), decode_forceDeployAndUpgradeUniversal = (\<lambda>b. None),
     decode_l2ChainAssetHandlerInput = (\<lambda>b. None), decode_IL2V31Upgrade_upgrade = (\<lambda>b. None),
     decode_FixedForceDeploymentsData = (\<lambda>b. None)\<rparr>"

definition demo_stage1_abi :: stage1_abi where
  "demo_stage1_abi = \<lparr>decode_upgrade = (\<lambda>b. None), initializeL1V31Upgrade_SELECTOR = [1, 2, 3, 4],
     decode_setAssetTracker = (\<lambda>b. None), decode_setAddressesV31 = (\<lambda>b. None), decode_updateDAPair = (\<lambda>b. None),
     decode_setChainCreationParams = (\<lambda>b. None), decode_setNewVersionUpgrade = (\<lambda>b. None),
     decode_proposed_upgrade = (\<lambda>b. None), decode_InitializeDataNewChain = (\<lambda>b. None),
     encode_DiamondCutData = (\<lambda>c. []), b256_to_string = (\<lambda>w. []), rollup_da_pair_try_from = (\<lambda>t. None)\<rparr>"

definition demo_stage2_abi :: stage2_abi where
  "demo_stage2_abi = \<lparr>encode_uint256_address_bytes32 = (\<lambda>a b c. []), decode_L2TransactionRequestDirect = (\<lambda>b. None),
     decode_L2TransactionRequestTwoBridgesOuter = (\<lambda>b. None), decode_bytes32_address = (\<lambda>b. None),
     decode_address = (\<lambda>b. None), decode_address_address = (\<lambda>b. None), decode_address_uint256 = (\<lambda>b. None),
     decode_setSettlementLayerStatus = (\<lambda>b. None), decode_setHistoricalMigrationInterval = (\<lambda>b. None)\<rparr>"

definition demo_decoders :: decoders where
  "demo_decoders = \<lparr>d_abi = demo_abi, d_payload = demo_payload_abi, d_stage1 = demo_stage1_abi,
     d_stage2 = demo_stage2_abi, d_provenance = demo_provenance_abi\<rparr>"

lemma demo_iterator: "map_iterator (d_provenance demo_decoders)"
  by (simp add: map_iterator_def demo_decoders_def demo_provenance_abi_def)

lemma demo_iterates: "iterates demo_provenance_abi demo_verifiers"
  using new_v31_empty_provenance(1) [OF demo_new_ok] by (simp add: iterates_def Let_def demo_provenance_abi_def)

text \<open>Call lists that do not decode are not accepted.\<close>

lemma demo_not_ok: "\<not> upgrade_ok demo_ext demo_decoders W V G selected artifact commit gov p hs f salts"
  by (auto simp: upgrade_ok_def passes_ok_def stage_calls_ok_def call_list_parse_def demo_decoders_def demo_abi_def)

lemma demo_undecoded: "call_list_parse demo_ext (d_abi demo_decoders) s \<noteq> Inr cs"
  by (auto simp: call_list_parse_def demo_decoders_def demo_abi_def)

text \<open>Before the log is entered no contract counts as deployed.\<close>

lemma demo_undeployed: "\<not> provenance_ok demo_ext A B V W artifact demo_verifiers era_id legacy_gw"
proof -
  have "\<not> proxy_deployed A demo_verifiers a init adm ps f" for a init adm ps f
    using new_v31_empty_provenance [OF demo_new_ok] by (simp add: proxy_deployed_def deployed_from_def)
  then show ?thesis
    by (auto simp: provenance_ok_def deployments_ok_def core_provenance_ok_def)
qed

subsection \<open>A stage 0\<close>

definition demo_call :: "string \<Rightarrow> call" where
  "demo_call m = \<lparr>target = 0x1234, call_value = 0, data = take 4 (b256_bytes (poly_hash (string_bytes m)))\<rparr>"

definition demo_ctm_full :: ctm_artifact where
  "demo_ctm_full = demo_ctm\<lparr>ctm_value := TTable [
     (''state_transition'', TTable (map (\<lambda>k. (k, TString demo_addr)) [''chain_type_manager_proxy'', ''validator_timelock_addr''])),
     (''deployed_addresses'', TTable (map (\<lambda>k. (k, TString demo_addr))
        [''l1_governance_upgrade_timer'', ''l1_rollup_da_manager'', ''upgrade_stage_validator'']))]\<rparr>"

definition demo_artifact_full :: ecosystem_upgrade_artifact where
  "demo_artifact_full = demo_artifact\<lparr>ctms := [demo_ctm_full]\<rparr>"

text \<open>The same chains, governed by a plain contract: the admin slot of the Bridgehub's owner is empty.\<close>

definition demo_plain :: verifiers where
  "demo_plain = demo_verifiers\<lparr>network := (network demo_verifiers)\<lparr>
     l1_provider := demo_l1\<lparr>get_storage_at := (\<lambda>a s. Some 0)\<rparr>\<rparr>\<rparr>"

definition demo_stage0 :: "call list" where
  "demo_stage0 = [demo_call ''pauseMigration()'', demo_call ''startTimer()'']"

lemma demo_call_ok:
  assumes "i < length calls" "calls ! i = demo_call m"
  shows "call_ok demo_ext calls i 0x1234 m"
  using assms by (simp add: call_ok_def demo_call_def compute_selector_def b256_bytes_def)

lemma demo_handler: "get_by_name (address_book demo_plain) ''chain_asset_handler_proxy'' = Some 0x1234"
proof -
  have "([''upgrade_addresses'', ''bridgehub'', ''chain_asset_handler_proxy_addr''], ''chain_asset_handler_proxy'')
      \<in> set V31_ADDRESS_ALIASES"
    by (simp add: V31_ADDRESS_ALIASES_def)
  from new_v31_named(4) [OF demo_new_ok this] show ?thesis
    by (simp add: demo_plain_def demo_artifact_def demo_core_def demo_addr_parses)
qed

lemma demo_candidate_paths:
  "candidate_paths demo_ctm_full = [[''state_transition'', ''chain_type_manager_proxy''],
     [''state_transition'', ''validator_timelock_addr''], TIMER_PATH, [''deployed_addresses'', ''l1_rollup_da_manager'']]"
  by (simp add: candidate_paths_def demo_ctm_full_def demo_ctm_def)

lemma demo_full_paths:
  "address_at demo_ext (ctm_value demo_ctm_full) TIMER_PATH = Some 0x1234"
  "address_at demo_ext (ctm_value demo_ctm_full) STAGE_VALIDATOR = Some 0x1234"
  "address_at demo_ext (ctm_value demo_ctm_full) [''state_transition'', ''chain_type_manager_proxy''] = Some 0x1234"
  "address_at demo_ext (ctm_value demo_ctm_full) [''state_transition'', ''validator_timelock_addr''] = Some 0x1234"
  "address_at demo_ext (ctm_value demo_ctm_full) [''deployed_addresses'', ''l1_rollup_da_manager''] = Some 0x1234"
  by (simp_all add: address_at_def TIMER_PATH_def STAGE_VALIDATOR_def demo_ctm_full_def demo_addr_parses)

text \<open>The first four bytes of the hash of a short name are zero.\<close>

lemma take_be_of_nat: "take k (be_of_nat (k + n) v) = be_of_nat k (v div 256 ^ n)"
  by (induction n arbitrary: v) (simp_all add: div_mult2_eq)

lemma demo_selector:
  assumes "unat (poly_hash (string_bytes m)) < 256 ^ 28"
  shows "data (demo_call m) = replicate 4 0"
proof -
  have "be_of_nat 4 0 = replicate 4 0"
    by (rule be_of_nat_zero)
  then show ?thesis
    using take_be_of_nat [of 4 28 "unat (poly_hash (string_bytes m))"] div_less [OF assms]
    by (simp only: demo_call_def b256_bytes_def to_be_bytes_def call.simps) simp
qed

lemma demo_not_accept: "\<not> is_accept demo_abi (demo_call ''pauseMigration()'')" "\<not> is_accept demo_abi (demo_call ''startTimer()'')"
proof -
  have no: "\<not> is_accept demo_abi (demo_call m)" if "unat (poly_hash (string_bytes m)) < 256 ^ 28" for m
  proof -
    have "replicate 4 (0 :: byte) = [0, 0, 0, 0]"
      by (simp add: numeral_eq_Suc)
    with demo_selector [OF that] show ?thesis
      by (simp add: is_accept_def slice_def demo_abi_def)
  qed
  show "\<not> is_accept demo_abi (demo_call ''pauseMigration()'')" "\<not> is_accept demo_abi (demo_call ''startTimer()'')"
    by (rule no, simp add: poly_hash_def string_bytes_def)+
qed

lemma demo_no_accepts: "accept_targets demo_ext demo_artifact_full demo_plain = []"
  by (simp add: accept_targets_def demo_plain_def demo_fields demo_l1_def)

lemma demo_stage0_layout: "stage0_layout demo_ext demo_abi demo_artifact_full demo_plain demo_stage0 0"
proof -
  have cs: "ctms demo_artifact_full = [demo_ctm_full]"
    by (simp add: demo_artifact_full_def)
  have calls: "call_ok demo_ext demo_stage0 0 0x1234 ''pauseMigration()''" "call_ok demo_ext demo_stage0 1 0x1234 ''startTimer()''"
    by (rule demo_call_ok; simp add: demo_stage0_def)+
  have "timer_ok demo_ext demo_stage0 2 demo_ctm_full"
    unfolding timer_ok_def using calls(2)
    by (intro exI [of _ "0x1234"] exI [of _ 1]) (simp add: demo_full_paths upt_rec demo_stage0_def demo_call_def)
  moreover have "tail_ok demo_abi demo_stage0 2 []"
    using demo_not_accept by (simp add: tail_ok_def demo_stage0_def)
  ultimately show ?thesis
    unfolding stage0_layout_def tail_start_of_def cs demo_no_accepts
    using calls(1) by (simp add: demo_handler) (simp add: demo_stage0_def numeral_2_eq_2)
qed

lemma demo_stage0_ok: "stage0_ok demo_ext demo_abi demo_artifact_full demo_plain demo_stage0"
proof -
  have "get_proxy_admin (network demo_plain) (bridgehub_owner demo_plain) = Inr 0"
    by (simp add: get_proxy_admin_def storage_at_def demo_plain_def address_of_hash_ucast)
  moreover have "targets_known demo_ext demo_artifact_full demo_plain"
    by (simp add: targets_known_def candidates_named_def demo_candidate_paths demo_artifact_full_def demo_full_paths)
      (simp add: demo_plain_def demo_l1_def)
  ultimately show ?thesis
    unfolding stage0_ok_def using demo_stage0_layout by blast
qed

text \<open>Two CTM sections that name one timer.\<close>

definition demo_artifact_shared :: ecosystem_upgrade_artifact where
  "demo_artifact_shared = demo_artifact\<lparr>ctms := [demo_ctm_full, demo_ctm_full]\<rparr>"

definition demo_stage0_shared :: "call list" where
  "demo_stage0_shared = [demo_call ''pauseMigration()'', demo_call ''startTimer()'', demo_call ''startTimer()'']"

definition demo_rogue :: call where
  "demo_rogue = \<lparr>target = 0xbad, call_value = 1, data = []\<rparr>"

lemma demo_rogue_not_accept: "\<not> is_accept demo_abi demo_rogue"
  by (simp add: is_accept_def demo_rogue_def)

lemma demo_shared:
  "ctms demo_artifact_shared = [demo_ctm_full, demo_ctm_full]" "timer_of demo_ext demo_ctm_full = Some 0x1234"
  "target (demo_stage0_shared ! 1) = 0x1234"
  by (simp_all add: demo_artifact_shared_def timer_of_def demo_full_paths demo_stage0_shared_def demo_call_def)

lemma demo_shared_layout: "stage0_layout demo_ext demo_abi demo_artifact_shared demo_plain demo_stage0_shared 0"
proof -
  have calls: "call_ok demo_ext demo_stage0_shared 0 0x1234 ''pauseMigration()''"
    "call_ok demo_ext demo_stage0_shared 1 0x1234 ''startTimer()''"
    by (rule demo_call_ok; simp add: demo_stage0_shared_def)+
  have none: "accept_targets demo_ext demo_artifact_shared demo_plain = []"
    by (simp add: accept_targets_def demo_plain_def demo_fields demo_l1_def)
  have "timer_ok demo_ext demo_stage0_shared 3 demo_ctm_full"
    unfolding timer_ok_def using calls(2)
    by (intro exI [of _ "0x1234"] exI [of _ 1]) (simp add: demo_full_paths upt_rec demo_stage0_shared_def demo_call_def)
  moreover have "tail_ok demo_abi demo_stage0_shared 3 []"
    using demo_not_accept by (simp add: tail_ok_def demo_stage0_shared_def)
  ultimately show ?thesis
    unfolding stage0_layout_def tail_start_of_def demo_shared(1) none
    using calls(1) by (simp add: demo_handler) (simp add: demo_stage0_shared_def numeral_3_eq_3)
qed

lemma demo_shared_ok: "stage0_ok demo_ext demo_abi demo_artifact_shared demo_plain demo_stage0_shared"
proof -
  have "get_proxy_admin (network demo_plain) (bridgehub_owner demo_plain) = Inr 0"
    by (simp add: get_proxy_admin_def storage_at_def demo_plain_def address_of_hash_ucast)
  moreover have "targets_known demo_ext demo_artifact_shared demo_plain"
    by (simp add: targets_known_def candidates_named_def demo_candidate_paths demo_artifact_shared_def demo_full_paths)
      (simp add: demo_plain_def demo_l1_def)
  ultimately show ?thesis
    unfolding stage0_ok_def using demo_shared_layout by blast
qed

subsection \<open>A stage 2\<close>

definition demo_one_interval :: verifiers where
  "demo_one_interval = demo_plain\<lparr>legacy_gateway_chain_intervals :=
     [\<lparr>interval_chain_id = 324, migrate_to_sl_batch = 1, migrate_from_sl_batch = 2, sl_batch_lower_bound = 3,
       sl_batch_upper_bound = 4\<rparr>]\<rparr>"


definition demo_stage2 :: "call list" where
  "demo_stage2 = [demo_call ''unpauseMigration()'', demo_call ''checkProtocolUpgradePresence()'',
     demo_call ''checkMigrationsUnpaused()'']"

lemma be_of_nat_numeral: "be_of_nat (numeral k) v = be_of_nat (pred_numeral k) (v div 256) @ [of_nat v]"
  unfolding numeral_eq_Suc [of k] by (rule be_of_nat.simps)

lemma demo_no_interval: "\<not> has_selector demo_ext (data (demo_call ''unpauseMigration()'')) SET_HISTORICAL"
proof -
  have u: "unat (poly_hash (string_bytes ''unpauseMigration()'')) < 256 ^ 28"
    by (simp add: poly_hash_def string_bytes_def)
  have t: "take 4 (b256_bytes (poly_hash (string_bytes SET_HISTORICAL)))
      = be_of_nat 4 (unat (poly_hash (string_bytes SET_HISTORICAL)) div 256 ^ 28)"
    unfolding b256_bytes_def to_be_bytes_def using take_be_of_nat [of 4 28] by simp
  have zeros: "replicate 4 (0 :: byte) = [0, 0, 0, 0]"
    by (simp add: numeral_eq_Suc)
  show ?thesis
    unfolding has_selector_def demo_selector [OF u] compute_selector_def demo_keccak t zeros slice_def
    by (simp add: SET_HISTORICAL_def poly_hash_def string_bytes_def be_of_nat_numeral demo_ext_def hex_byte_def)
qed

lemma demo_stage2_ok: "stage2_ok demo_ext demo_stage2_abi demo_artifact_full demo_plain demo_stage2"
proof -
  have cs: "ctms demo_artifact_full = [demo_ctm_full]" "new_gateway demo_artifact_full = None"
    by (simp_all add: demo_artifact_full_def demo_artifact_def)
  have calls: "call_ok demo_ext demo_stage2 0 0x1234 ''unpauseMigration()''"
    "call_ok demo_ext demo_stage2 1 0x1234 ''checkProtocolUpgradePresence()''"
    "call_ok demo_ext demo_stage2 (1 + 1) 0x1234 ''checkMigrationsUnpaused()''"
    by (rule demo_call_ok; simp add: demo_stage2_def)+
  have none: "legacy_gateway_chain_intervals demo_plain = []"
    by (simp add: demo_plain_def demo_fields)
  have "stage2_block_of demo_stage2 0 1 0x1234 = Some 1"
    by (simp add: stage2_block_of_def demo_stage2_def demo_call_def)
  then have "stage2_ctm_ok demo_ext demo_stage2 0 1 demo_ctm_full"
    unfolding stage2_ctm_ok_def using calls(2,3) demo_full_paths(2) by blast
  moreover have "intervals_ok demo_ext demo_stage2_abi demo_plain demo_stage2"
    using demo_no_interval by (simp add: intervals_ok_def interval_prefix_def none demo_stage2_def)
  ultimately show ?thesis
    unfolding stage2_ok_def stage2_canonical_ok_def unpause_index_def none cs Let_def
    using calls(1) by (simp add: demo_handler) (simp add: demo_stage2_def)
qed

subsection \<open>Hex and call arrays\<close>

lemma nibbles: "unat (b :: byte) div 16 < 16" "unat b mod 16 < 16"
proof -
  have "unat b < 256"
    using unsigned_less [where 'a = nat, of b] by simp
  then show "unat b div 16 < 16" by linarith
qed simp

lemma unhex_byte: "unhex (hex_byte b @ s) = map_option (Cons b) (unhex s)"
proof -
  have digit: "hex_digit (''0123456789abcdef'' ! k) = Some (of_nat k)" if "k < 16" for k
  proof -
    have "\<forall>k \<in> set [0..<16]. hex_digit (''0123456789abcdef'' ! k) = Some (of_nat k)"
      by (simp add: hex_digit_def upt_rec)
    with that show ?thesis by simp
  qed
  have "16 * of_nat (unat b div 16) + of_nat (unat b mod 16) = (of_nat (16 * (unat b div 16) + unat b mod 16) :: byte)"
    by (simp only: of_nat_add of_nat_mult of_nat_numeral)
  also have "\<dots> = b"
    by simp
  finally have "16 * of_nat (unat b div 16) + of_nat (unat b mod 16) = b" .
  then show ?thesis
    by (cases "unhex s") (simp_all add: hex_byte_def digit nibbles)
qed

lemma hex_byte_chars: "set (hex_byte b) \<subseteq> set ''0123456789abcdef''"
proof -
  have "unat b div 16 < length ''0123456789abcdef''" "unat b mod 16 < length ''0123456789abcdef''"
    using nibbles [of b] by simp_all
  from nth_mem [OF this(1)] nth_mem [OF this(2)] show ?thesis
    unfolding hex_byte_def by (simp only: list.set insert_subset empty_subsetI simp_thms)
qed

lemma demo_hex_law:
  "hex_decode demo_ext (hex_encode demo_ext bs) = Some bs" "CHR ''x'' \<notin> set (hex_encode demo_ext bs)"
  "hex_encode demo_ext bs = [] \<Longrightarrow> bs = []"
proof -
  have enc: "hex_encode demo_ext bs = concat (map hex_byte bs)"
    by (simp add: demo_ext_def)
  have no: "c \<notin> set (hex_encode demo_ext bs)" if "c \<notin> set ''0123456789abcdef''" for c
    unfolding enc using hex_byte_chars that by (auto simp del: set_simps list.set)
  show "CHR ''x'' \<notin> set (hex_encode demo_ext bs)"
    by (rule no) simp
  moreover have "CHR ''X'' \<notin> set (hex_encode demo_ext bs)"
    by (rule no) simp
  ultimately have "strip_0x (hex_encode demo_ext bs) = hex_encode demo_ext bs"
    by (auto simp: strip_0x_def strip_prefix_def starts_with_iff split: if_splits)
  moreover have "unhex (concat (map hex_byte bs)) = Some bs"
    by (induction bs) (simp_all add: unhex_byte)
  ultimately show "hex_decode demo_ext (hex_encode demo_ext bs) = Some bs"
    by (simp add: demo_ext_def)
  show "hex_encode demo_ext bs = [] \<Longrightarrow> bs = []"
    unfolding enc by (cases bs) (simp_all add: hex_byte_def)
qed

text \<open>A call array as a number in unary.\<close>

definition call_parts :: "call \<Rightarrow> address \<times> u256 \<times> bytes" where
  "call_parts c = (target c, call_value c, data c)"

definition call_of_parts :: "address \<times> u256 \<times> bytes \<Rightarrow> call" where
  "call_of_parts p = \<lparr>target = fst p, call_value = fst (snd p), data = snd (snd p)\<rparr>"

definition demo_calls_abi :: calls_abi where
  "demo_calls_abi = \<lparr>encode_Call_array = (\<lambda>cs. replicate (Suc (to_nat (map call_parts cs))) 0),
     decode_Call_array = (\<lambda>bs. Some (map call_of_parts (from_nat (length bs - 1))))\<rparr>"

lemma demo_calls_codec: "calls_codec demo_ext demo_calls_abi"
proof -
  have "map call_of_parts (map call_parts cs) = cs" for cs
    by (induction cs) (simp_all add: call_parts_def call_of_parts_def)
  then have "decode_Call_array demo_calls_abi (encode_Call_array demo_calls_abi cs) = Some cs" for cs
    by (simp add: demo_calls_abi_def del: map_map)
  then show ?thesis
    using demo_hex_law by (simp add: calls_codec_def) (simp add: demo_calls_abi_def)
qed

subsection \<open>Documents\<close>

instance json :: countable
  by countable_datatype

definition demo_json :: json_io where
  "demo_json = \<lparr>json_parse = (\<lambda>s. Some (from_nat (digits_val s 0))), json_print = (\<lambda>j. show_nat (to_nat j))\<rparr>"

lemma demo_json_codec: "json_codec demo_json"
  by (simp add: json_codec_def demo_json_def show_nat_val)

definition demo_manifest :: json where
  "demo_manifest = JObj [(''bundles'', JArr [JObj [(''index'', JNum (Some 1))]]), (''metadata'', JArr [])]"

definition demo_dir :: directory where
  "demo_dir = \<lparr>dir_files = [MANIFEST \<mapsto> Text (json_print demo_json demo_manifest)], dir_writable = (\<lambda>n. True),
     dir_created = True\<rparr>"

lemma demo_dir_read: "read_existing_manifest demo_json demo_dir = Inr ([JObj [(''index'', JNum (Some 1))]], [])"
  by (simp add: read_existing_manifest_def demo_dir_def demo_manifest_def demo_json_def show_nat_val)

definition demo_out :: out_params where
  "demo_out = \<lparr>out_command = ''demo'', out_l1_chain_id = 1, out_created_at_ms = 0\<rparr>"

text \<open>Two transactions of different signers, as forge records them.\<close>

definition demo_forge_tx :: "string \<Rightarrow> json" where
  "demo_forge_tx signer = JObj [(''transaction'', JObj [(''from'', JStr signer), (''to'', JStr ''0x01''),
     (''data'', JStr ''0x''), (''value'', JStr ''0x00'')])]"

definition demo_payload :: json where
  "demo_payload = JObj [(''transactions'', JArr [demo_forge_tx ''0xaa'', demo_forge_tx ''0xAA'', demo_forge_tx ''0xbb''])]"

lemma demo_split:
  "\<exists>b c. split_into_bundles {} [demo_payload] ''step'' = Inr [b, c]
    \<and> length (bundle_txs b) = 2 \<and> length (bundle_txs c) = 1"
proof -
  have "case split_into_bundles {} [demo_payload] ''step'' of
      Inr [b, c] \<Rightarrow> length (bundle_txs b) = 2 \<and> length (bundle_txs c) = 1 | _ \<Rightarrow> False"
    by code_simp
  then show ?thesis
    by (auto split: sum.splits list.splits)
qed

text \<open>A bundle of one transaction, and the metadata of its run.\<close>

definition demo_bundle_out :: safe_bundle where
  "demo_bundle_out = \<lparr>bundle_target = ''0xAA'', bundle_steps = [''demo''],
     bundle_txs = [JObj [(''data'', JStr ''0x''), (''to'', JStr ''0x01''), (''value'', JStr ''0'')]]\<rparr>"

definition demo_meta :: json where
  "demo_meta = JObj [(''command'', JStr ''demo''), (''input'', JObj []), (''output'', JNull)]"

lemma demo_canonical: "\<forall>j \<in> set ([JObj [(''index'', JNum (Some 1))]] @ [] @ [demo_meta]). canonical_json 125 j"
proof -
  have "canonical_json 2 demo_meta" "canonical_json 2 (JObj [(''index'', JNum (Some 1))])"
    by (simp_all add: demo_meta_def numeral_2_eq_2 less_char_def)
  then show ?thesis by (auto intro: canonical_json_mono)
qed

lemma demo_dir_written: "\<exists>d'. write_safe_bundles_dir demo_json demo_out [demo_bundle_out] demo_meta demo_dir = (Inr (), d')"
proof -
  have txs: "\<exists>txs. safe_txs_from_bundle demo_bundle_out = Inr txs"
    by (simp add: safe_txs_from_bundle_def demo_bundle_out_def safe_tx_def get_str_def)
  have w: "dir_writable demo_dir = (\<lambda>n. True)" "dir_created demo_dir"
    by (simp_all add: demo_dir_def)
  show ?thesis
    using txs by (auto simp: write_safe_bundles_dir_def demo_dir_read save_json_file_def w)
qed

lemma demo_salt_entry:
  "plain demo_addr" "plain (hash_text (CHR ''1''))" "address_from_str demo_ext demo_addr = Some 0x1234"
  "parse_b256 demo_ext (hash_text (CHR ''1'')) = Some 1"
proof -
  show "plain demo_addr" "plain (hash_text (CHR ''1''))"
    by code_simp+
  show "address_from_str demo_ext demo_addr = Some 0x1234"
    by (rule demo_addr_parses)
  have "decode_hash demo_ext (hash_text (CHR ''1'')) = Inr 1"
    by (simp add: decode_hash_text [where b = 1] hex_digit_def)
  then show "parse_b256 demo_ext (hash_text (CHR ''1'')) = Some 1"
    by (auto simp: parse_b256_def decode_hash_def split: option.splits if_splits)
qed

end
