(* ===== verification/Readiness.thy ===== *)
theory Readiness
  imports Upgrade_Payload Facet_Cuts Chain_Types
begin

section \<open>Upgrade readiness checker\<close>

text \<open>
  \<^verbatim>\<open>tools/upgrade-readiness-checker\<close>: the tool that finds the pending upgrade transaction of a
  chain on its settlement layer and then polls the chain until the block before the one that
  carries it is finalized. \<^verbatim>\<open>abi.rs\<close>, \<^verbatim>\<open>upgrade.rs\<close>, \<^verbatim>\<open>readiness.rs\<close> and \<^verbatim>\<open>main.rs\<close> are here in
  that order. The settlement node, the chain's node, and the ABI and JSON codecs are parameters;
  the settlement node is asked each question once, the chain's node once per tick, so it is a
  function of the tick.
\<close>

subsection \<open>The nodes\<close>

record cut_log =
  log_block :: u64
  log_topic1 :: b256
  log_address :: address
  log_signature :: b256
  log_payload :: bytes

record cut_filter =
  filter_address :: address
  filter_signature :: b256
  filter_topic1 :: b256
  filter_from :: u64
  filter_to :: u64

record settlement =
  sl_get_block_number :: "u64 option"
  sl_get_logs :: "cut_filter \<Rightarrow> cut_log list option"
  sl_chainTypeManager :: "address \<Rightarrow> u256 \<Rightarrow> address option"
  sl_getL2UpgradeTxData :: "address \<Rightarrow> address \<Rightarrow> u256 \<Rightarrow> bool \<Rightarrow> bytes \<Rightarrow> bytes option"

record readiness_abi =
  NewUpgradeCutData_SIGNATURE_HASH :: b256
  log_decode_NewUpgradeCutData :: "cut_log \<Rightarrow> diamond_cut_data_call option"
  abi_decode_ProposedUpgrade :: "bytes \<Rightarrow> proposed_upgrade option"
  abi_encode_L2CanonicalTransaction :: "l2_canonical_transaction \<Rightarrow> bytes"

subsection \<open>Locating the upgrade transaction\<close>

definition MAX_BLOCKS_PER_QUERY :: u64 where
  "MAX_BLOCKS_PER_QUERY = 50000"

definition saturating_sub :: "u64 \<Rightarrow> u64 \<Rightarrow> u64" where
  "saturating_sub a b = (if b \<le> a then a - b else 0)"

definition resolve_ctm :: "settlement \<Rightarrow> address \<Rightarrow> u64 \<Rightarrow> address res" where
  "resolve_ctm S bridgehub chain_id =
     bind_res (ok_or (Bail ''Bridgehub.chainTypeManager call failed'')
       (sl_chainTypeManager S bridgehub (ucast chain_id))) (\<lambda>ctm.
     if ctm = 0 then Inl (Bail ''the chain is not registered on this layer'') else Inr ctm)"

text \<open>The chunk that the scan asks for when the newest block not yet seen is \<open>to\<close>.\<close>

definition chunk_from :: "u64 \<Rightarrow> u64 \<Rightarrow> u64" where
  "chunk_from start to = max (saturating_sub to (MAX_BLOCKS_PER_QUERY - 1)) start"

function scan_newest_first :: "settlement \<Rightarrow> cut_filter \<Rightarrow> u64 \<Rightarrow> u64 \<Rightarrow> cut_log option res" where
  "scan_newest_first S flt start to =
     (if to < start then Inr None
      else case sl_get_logs S (flt\<lparr>filter_from := chunk_from start to, filter_to := to\<rparr>) of
          None \<Rightarrow> Inl (Bail ''eth_getLogs for NewUpgradeCutData'')
        | Some logs \<Rightarrow>
            if logs \<noteq> [] then Inr (Some (last logs))
            else if chunk_from start to = start then Inr None
            else scan_newest_first S flt start (chunk_from start to - 1))"
  by pat_completeness auto

lemma saturating_sub_le: "saturating_sub a b \<le> a"
  by (simp add: saturating_sub_def word_sub_le)

lemma chunk_from_bounds:
  assumes "start \<le> to"
  shows "start \<le> chunk_from start to" "chunk_from start to \<le> to"
  using assms saturating_sub_le by (simp_all add: chunk_from_def)

lemma chunk_step:
  assumes "start \<le> to" "chunk_from start to \<noteq> start"
  shows "start \<le> chunk_from start to - 1" "unat (chunk_from start to - 1) = unat (chunk_from start to) - 1"
    "0 < unat (chunk_from start to)" "chunk_from start to - 1 < to"
proof -
  have less: "start < chunk_from start to"
    using chunk_from_bounds [OF assms(1)] assms(2) by simp
  then show pos: "0 < unat (chunk_from start to)"
    by (simp add: word_less_nat_alt)
  then show eq: "unat (chunk_from start to - 1) = unat (chunk_from start to) - 1"
    by (subst unat_sub) (auto simp: word_le_nat_alt)
  show "start \<le> chunk_from start to - 1"
    using less pos by (simp add: word_le_nat_alt word_less_nat_alt eq)
  show "chunk_from start to - 1 < to"
    using chunk_from_bounds(2) [OF assms(1)] pos by (simp add: word_le_nat_alt word_less_nat_alt eq)
qed

termination scan_newest_first
  by (relation "measure (\<lambda>(S, flt, start, to). unat to)")
    (use chunk_step(4) in \<open>auto simp: not_less simp del: One_nat_def intro!: unat_mono\<close>)

declare scan_newest_first.simps [simp del]

definition rebuild_tx_data_if_v31plus ::
    "settlement \<Rightarrow> address \<Rightarrow> address \<Rightarrow> u64 \<Rightarrow> bool \<Rightarrow> bytes \<Rightarrow> bytes" where
  "rebuild_tx_data_if_v31plus S init_address bridgehub chain_id zksync_os original_data =
     (case sl_getL2UpgradeTxData S init_address bridgehub (ucast chain_id) zksync_os original_data of
        Some rebuilt \<Rightarrow> rebuilt
      | None \<Rightarrow> original_data)"

definition canonical_tx_hash :: "ext \<Rightarrow> readiness_abi \<Rightarrow> l2_canonical_transaction \<Rightarrow> b256" where
  "canonical_tx_hash E A tx = keccak256 E (abi_encode_L2CanonicalTransaction A tx)"

definition tx_hash_from_init_calldata ::
    "ext \<Rightarrow> readiness_abi \<Rightarrow> settlement \<Rightarrow> address \<Rightarrow> address \<Rightarrow> u64 \<Rightarrow> bool \<Rightarrow> bytes \<Rightarrow> b256 res" where
  "tx_hash_from_init_calldata E A S init_address bridgehub chain_id zksync_os init_calldata =
     (if length init_calldata < 4 then Inl (Bail ''DiamondCutData.initCalldata too short'')
      else bind_res (ok_or (Bail ''ProposedUpgrade decode from initCalldata'')
          (abi_decode_ProposedUpgrade A (drop 4 init_calldata))) (\<lambda>proposed.
        let tx = l2ProtocolUpgradeTx proposed
        in Inr (canonical_tx_hash E A (tx\<lparr>tx_data :=
             rebuild_tx_data_if_v31plus S init_address bridgehub chain_id zksync_os (tx_data tx)\<rparr>))))"

definition find_upgrade_tx_hash ::
    "ext \<Rightarrow> readiness_abi \<Rightarrow> settlement \<Rightarrow> address \<Rightarrow> address \<Rightarrow> u64 \<Rightarrow> bool \<Rightarrow> u256 \<Rightarrow> u64 \<Rightarrow> b256 res" where
  "find_upgrade_tx_hash E A S ctm_address bridgehub chain_id zksync_os protocol_version lookback_blocks =
     bind_res (ok_or (Bail ''eth_blockNumber'') (sl_get_block_number S)) (\<lambda>latest.
     let start = max (saturating_sub latest lookback_blocks) 1;
         flt = \<lparr>filter_address = ctm_address, filter_signature = NewUpgradeCutData_SIGNATURE_HASH A,
           filter_topic1 = protocol_version, filter_from = start, filter_to = latest\<rparr>
     in bind_res (scan_newest_first S flt start latest) (\<lambda>found.
       case found of
         None \<Rightarrow> Inl (Bail ''No NewUpgradeCutData event for protocol version'')
       | Some log \<Rightarrow>
           bind_res (ok_or (Bail ''NewUpgradeCutData event decode failed'') (log_decode_NewUpgradeCutData A log))
             (\<lambda>diamond_cut. tx_hash_from_init_calldata E A S (initAddress diamond_cut) bridgehub
                chain_id zksync_os (initCalldata diamond_cut))))"

subsection \<open>Readiness of the chain\<close>

record json_rpc_error =
  error_code :: int
  error_message :: string

record 't json_rpc_response =
  rpc_result :: "'t option"
  rpc_error :: "json_rpc_error option"

record tx_receipt =
  receipt_block_number :: string

record block_header =
  header_number :: string

record l2_node =
  post_getTransactionReceipt :: "b256 \<Rightarrow> tx_receipt json_rpc_response option"
  post_getBlockByNumber :: "string \<Rightarrow> bool \<Rightarrow> block_header json_rpc_response option"

datatype readiness = ServerNotProcessed | NotFinalized u64 u64 | Ready u64 u64

definition parse_hex_u64 :: "string \<Rightarrow> u64 res" where
  "parse_hex_u64 s =
     ok_or (Bail ''invalid hex u64'')
       (u64_from_str_radix_16 (case strip_prefix ''0x'' s of Some t \<Rightarrow> t | None \<Rightarrow> s))"

definition rpc_call :: "'t json_rpc_response option \<Rightarrow> 't option res" where
  "rpc_call answer =
     bind_res (ok_or (Bail ''RPC request failed or response not valid JSON'') answer) (\<lambda>resp.
       case rpc_error resp of
         Some err \<Rightarrow> Inl (Bail ''RPC error'')
       | None \<Rightarrow> Inr (rpc_result resp))"

definition fetch_receipt :: "l2_node \<Rightarrow> b256 \<Rightarrow> tx_receipt option res" where
  "fetch_receipt L hash = rpc_call (post_getTransactionReceipt L hash)"

definition fetch_finalized_block_number :: "l2_node \<Rightarrow> u64 option res" where
  "fetch_finalized_block_number L =
     bind_res (rpc_call (post_getBlockByNumber L ''finalized'' False)) (\<lambda>header.
       case header of
         None \<Rightarrow> Inr None
       | Some h \<Rightarrow> bind_res (parse_hex_u64 (header_number h)) (\<lambda>n. Inr (Some n)))"

definition check_readiness :: "l2_node \<Rightarrow> b256 \<Rightarrow> readiness res" where
  "check_readiness L upgrade_tx_hash =
     bind_res (fetch_receipt L upgrade_tx_hash) (\<lambda>answer.
       case answer of
         None \<Rightarrow> Inr ServerNotProcessed
       | Some receipt \<Rightarrow>
           bind_res (parse_hex_u64 (receipt_block_number receipt)) (\<lambda>upgrade_block.
             if upgrade_block = 0 then Inr ServerNotProcessed
             else bind_res (fetch_finalized_block_number L) (\<lambda>finalized.
               let finalized_block = (case finalized of Some n \<Rightarrow> n | None \<Rightarrow> 0)
               in if upgrade_block - 1 \<le> finalized_block
                  then Inr (Ready upgrade_block finalized_block)
                  else Inr (NotFinalized upgrade_block finalized_block))))"

subsection \<open>The program\<close>

definition PACKED_SEMVER_MINOR_OFFSET :: nat where
  "PACKED_SEMVER_MINOR_OFFSET = 32"

definition LOOKBACK_BLOCKS :: u64 where
  "LOOKBACK_BLOCKS = 2500000"

definition pack_protocol_version :: "u32 \<Rightarrow> u32 \<Rightarrow> u256" where
  "pack_protocol_version target_minor target_patch =
     or (push_bit PACKED_SEMVER_MINOR_OFFSET (ucast target_minor)) (ucast target_patch)"

record readiness_cli =
  l2_rpc_url :: string
  cli_chain_id :: u64
  settlement_rpc_url :: string
  cli_bridgehub_address :: address
  target_minor_version :: u32
  target_patch_version :: u32
  zksync_os :: bool

text \<open>
  The polling loop: one check per tick, errors and answers other than \<open>Ready\<close> wait for the next.
  The value is the tick at which the loop returns; \<open>None\<close> is a loop that never does.
\<close>

partial_function (option) poll_until_ready :: "(nat \<Rightarrow> l2_node) \<Rightarrow> b256 \<Rightarrow> nat \<Rightarrow> nat option" where
  "poll_until_ready L upgrade_tx_hash tick =
     (case check_readiness (L tick) upgrade_tx_hash of
        Inr (Ready upgrade_block finalized_block) \<Rightarrow> Some tick
      | Inr ServerNotProcessed \<Rightarrow> poll_until_ready L upgrade_tx_hash (Suc tick)
      | Inr (NotFinalized upgrade_block finalized_block) \<Rightarrow> poll_until_ready L upgrade_tx_hash (Suc tick)
      | Inl err \<Rightarrow> poll_until_ready L upgrade_tx_hash (Suc tick))"

definition locate_upgrade ::
    "ext \<Rightarrow> readiness_abi \<Rightarrow> (string \<Rightarrow> settlement option) \<Rightarrow> readiness_cli \<Rightarrow> b256 res" where
  "locate_upgrade E A connect_http cli =
     bind_res (ok_or (Bail ''invalid --settlement-rpc-url'') (connect_http (settlement_rpc_url cli))) (\<lambda>S.
     bind_res (resolve_ctm S (cli_bridgehub_address cli) (cli_chain_id cli)) (\<lambda>ctm.
     find_upgrade_tx_hash E A S ctm (cli_bridgehub_address cli) (cli_chain_id cli) (zksync_os cli)
       (pack_protocol_version (target_minor_version cli) (target_patch_version cli)) LOOKBACK_BLOCKS))"

definition readiness_run ::
    "ext \<Rightarrow> readiness_abi \<Rightarrow> (string \<Rightarrow> settlement option) \<Rightarrow> (string \<Rightarrow> nat \<Rightarrow> l2_node) \<Rightarrow> readiness_cli
      \<Rightarrow> unit res option" where
  "readiness_run E A connect_http L cli =
     (case locate_upgrade E A connect_http cli of
        Inl e \<Rightarrow> Some (Inl e)
      | Inr upgrade_tx_hash \<Rightarrow>
          map_option (\<lambda>_. Inr ()) (poll_until_ready (L (l2_rpc_url cli)) upgrade_tx_hash 0))"

definition readiness_main ::
    "ext \<Rightarrow> readiness_abi \<Rightarrow> (string \<Rightarrow> settlement option) \<Rightarrow> (string \<Rightarrow> nat \<Rightarrow> l2_node) \<Rightarrow> readiness_cli
      \<Rightarrow> nat option" where
  "readiness_main E A connect_http L cli =
     map_option (\<lambda>r. case r of Inr _ \<Rightarrow> 0 | Inl _ \<Rightarrow> 1) (readiness_run E A connect_http L cli)"

section \<open>The scan of the settlement layer\<close>

text \<open>What a node documents of \<^verbatim>\<open>eth_getLogs\<close>: every log that matches, in chain order.\<close>

definition log_matches :: "cut_filter \<Rightarrow> cut_log \<Rightarrow> bool" where
  "log_matches flt l \<longleftrightarrow> log_address l = filter_address flt \<and> log_signature l = filter_signature flt
     \<and> log_topic1 l = filter_topic1 flt \<and> filter_from flt \<le> log_block l \<and> log_block l \<le> filter_to flt"

definition serves_logs :: "settlement \<Rightarrow> cut_log list \<Rightarrow> bool" where
  "serves_logs S hist \<longleftrightarrow> sorted (map log_block hist)
     \<and> (\<forall>flt. sl_get_logs S flt = Some (filter (log_matches flt) hist))"

definition newest :: "cut_filter \<Rightarrow> cut_log list \<Rightarrow> cut_log option" where
  "newest flt hist = (case rev (filter (log_matches flt) hist) of [] \<Rightarrow> None | l # ls \<Rightarrow> Some l)"

lemma sorted_filter_split:
  assumes "sorted (map f xs)"
  shows "filter P xs = filter (\<lambda>x. P x \<and> f x < c) xs @ filter (\<lambda>x. P x \<and> \<not> f x < (c :: 'b::linorder)) xs"
  using assms
proof (induction xs)
  case (Cons x xs)
  then show ?case
  proof (cases "f x < c")
    case False
    then have "\<not> f y < c" if "y \<in> set xs" for y
      using Cons.prems that by (force simp: not_less)
    then have "filter (\<lambda>x. P x \<and> f x < c) xs = []" "filter (\<lambda>x. P x \<and> \<not> f x < c) xs = filter P xs"
      by (auto intro: filter_cong)
    with False show ?thesis by simp
  qed simp
qed simp

lemma log_matches_split:
  assumes "start \<le> to"
  defines "c \<equiv> chunk_from start to"
  shows "log_matches (flt\<lparr>filter_from := start, filter_to := to\<rparr>) l \<and> \<not> log_block l < c
      \<longleftrightarrow> log_matches (flt\<lparr>filter_from := c, filter_to := to\<rparr>) l"
    and "c \<noteq> start \<Longrightarrow> log_matches (flt\<lparr>filter_from := start, filter_to := to\<rparr>) l \<and> log_block l < c
      \<longleftrightarrow> log_matches (flt\<lparr>filter_from := start, filter_to := c - 1\<rparr>) l"
    and "c = start \<Longrightarrow> \<not> (log_matches (flt\<lparr>filter_from := start, filter_to := to\<rparr>) l \<and> log_block l < c)"
proof -
  have bounds: "start \<le> c" "c \<le> to"
    unfolding c_def by (rule chunk_from_bounds [OF assms(1)])+
  then show "log_matches (flt\<lparr>filter_from := start, filter_to := to\<rparr>) l \<and> \<not> log_block l < c
      \<longleftrightarrow> log_matches (flt\<lparr>filter_from := c, filter_to := to\<rparr>) l"
    by (auto simp: log_matches_def)
  show "log_matches (flt\<lparr>filter_from := start, filter_to := to\<rparr>) l \<and> log_block l < c
      \<longleftrightarrow> log_matches (flt\<lparr>filter_from := start, filter_to := c - 1\<rparr>) l" if "c \<noteq> start"
  proof -
    have "unat (c - 1) = unat c - 1" "0 < unat c"
      unfolding c_def using chunk_step(2,3) [OF assms(1)] that by (simp_all add: c_def)
    then have "log_block l < c \<longleftrightarrow> log_block l \<le> c - 1"
      unfolding word_less_nat_alt word_le_nat_alt by linarith
    moreover have "log_block l \<le> to" if "log_block l < c"
      using that bounds(2) by (meson order.trans order.strict_implies_order)
    ultimately show ?thesis
      by (auto simp: log_matches_def)
  qed
  show "\<not> (log_matches (flt\<lparr>filter_from := start, filter_to := to\<rparr>) l \<and> log_block l < c)" if "c = start"
    using that by (auto simp: log_matches_def)
qed

lemma newest_last:
  "newest flt hist = (if filter (log_matches flt) hist = [] then None
     else Some (last (filter (log_matches flt) hist)))"
  by (cases "filter (log_matches flt) hist" rule: rev_cases) (simp_all add: newest_def)

lemma newest_empty_range:
  assumes "to < start"
  shows "newest (flt\<lparr>filter_from := start, filter_to := to\<rparr>) hist = None"
proof -
  have "\<not> log_matches (flt\<lparr>filter_from := start, filter_to := to\<rparr>) l" for l
    using assms by (auto simp: log_matches_def dest: order.trans)
  then show ?thesis by (simp add: newest_last)
qed

lemma newest_split:
  assumes "sorted (map log_block hist)" "start \<le> to"
  defines "c \<equiv> chunk_from start to"
  shows "newest (flt\<lparr>filter_from := start, filter_to := to\<rparr>) hist =
    (case newest (flt\<lparr>filter_from := c, filter_to := to\<rparr>) hist of
       Some l \<Rightarrow> Some l
     | None \<Rightarrow> if c = start then None else newest (flt\<lparr>filter_from := start, filter_to := c - 1\<rparr>) hist)"
proof -
  let ?all = "log_matches (flt\<lparr>filter_from := start, filter_to := to\<rparr>)"
  note parts = log_matches_split [OF assms(2), of flt, folded c_def]
  have old: "filter (\<lambda>l. ?all l \<and> log_block l < c) hist =
      (if c = start then [] else filter (log_matches (flt\<lparr>filter_from := start, filter_to := c - 1\<rparr>)) hist)"
  proof (cases "c = start")
    case True
    then have "filter (\<lambda>l. ?all l \<and> log_block l < c) hist = []"
      using parts(3) by (simp add: filter_empty_conv del: de_Morgan_conj)
    with True show ?thesis by simp
  qed (simp add: parts(2))
  have new: "filter (\<lambda>l. ?all l \<and> \<not> log_block l < c) hist =
      filter (log_matches (flt\<lparr>filter_from := c, filter_to := to\<rparr>)) hist"
    by (simp only: parts(1))
  note whole = sorted_filter_split [OF assms(1), of ?all c, unfolded old new]
  show ?thesis
    unfolding newest_last whole by (simp split: if_split)
qed

lemma scan_finds_newest:
  assumes "serves_logs S hist"
  shows "scan_newest_first S flt start to = Inr (newest (flt\<lparr>filter_from := start, filter_to := to\<rparr>) hist)"
  using assms
proof (induction S flt start to rule: scan_newest_first.induct)
  case (1 S flt start to)
  have hist: "sorted (map log_block hist)"
    and served: "\<And>flt. sl_get_logs S flt = Some (filter (log_matches flt) hist)"
    using 1(2) by (simp_all add: serves_logs_def)
  show ?case
  proof (cases "to < start")
    case True
    then show ?thesis by (simp add: scan_newest_first.simps newest_empty_range)
  next
    case False
    let ?here = "newest (flt\<lparr>filter_from := chunk_from start to, filter_to := to\<rparr>) hist"
    have "scan_newest_first S flt start to = (case ?here of
        Some l \<Rightarrow> Inr (Some l)
      | None \<Rightarrow> if chunk_from start to = start then Inr None
          else scan_newest_first S flt start (chunk_from start to - 1))"
      using False by (subst scan_newest_first.simps) (simp add: served newest_last)
    also have "\<dots> = Inr (newest (flt\<lparr>filter_from := start, filter_to := to\<rparr>) hist)"
      using False 1(1) [OF False served _ _ 1(2)] newest_split [OF hist, of start to flt]
      by (auto simp: newest_last not_less split: option.splits if_splits)
    finally show ?thesis .
  qed
qed

subsection \<open>The requests of a scan\<close>

text \<open>
  The block ranges a scan may ask for, newest first. They cover every block of the range once,
  each within the limit of one request.
\<close>

function scan_windows :: "u64 \<Rightarrow> u64 \<Rightarrow> (u64 \<times> u64) list" where
  "scan_windows start to =
     (if to < start then []
      else (chunk_from start to, to)
        # (if chunk_from start to = start then [] else scan_windows start (chunk_from start to - 1)))"
  by pat_completeness auto

termination scan_windows
  by (relation "measure (\<lambda>(start, to). unat to)")
    (use chunk_step(4) in \<open>auto simp: not_less simp del: One_nat_def intro!: unat_mono\<close>)

declare scan_windows.simps [simp del]

fun first_hit :: "cut_log list option list \<Rightarrow> cut_log option res" where
  "first_hit [] = Inr None"
| "first_hit (None # rs) = Inl (Bail ''eth_getLogs for NewUpgradeCutData'')"
| "first_hit (Some logs # rs) = (if logs = [] then first_hit rs else Inr (Some (last logs)))"

lemma scan_first_hit:
  "scan_newest_first S flt start to =
     first_hit (map (\<lambda>(f, t). sl_get_logs S (flt\<lparr>filter_from := f, filter_to := t\<rparr>)) (scan_windows start to))"
  by (induction S flt start to rule: scan_newest_first.induct)
    (subst scan_newest_first.simps, subst scan_windows.simps, auto split: option.splits)

lemma unat_chunk_from:
  assumes "start \<le> to"
  shows "unat (chunk_from start to) = max (unat to - 49999) (unat start)"
proof -
  have "unat (saturating_sub to 49999) = unat to - 49999"
    by (auto simp: saturating_sub_def unat_sub word_le_nat_alt)
  then show ?thesis
    by (simp add: chunk_from_def MAX_BLOCKS_PER_QUERY_def max_def word_le_nat_alt)
qed

lemma scan_windows_size: "(f, t) \<in> set (scan_windows start to) \<Longrightarrow> f \<le> t \<and> unat t - unat f < 50000"
proof (induction start to rule: scan_windows.induct)
  case (1 start to)
  show ?case
  proof (cases "to < start \<or> (f, t) \<noteq> (chunk_from start to, to)")
    case True
    with 1(2) have "\<not> to < start \<and> chunk_from start to \<noteq> start
        \<and> (f, t) \<in> set (scan_windows start (chunk_from start to - 1))"
      unfolding scan_windows.simps [of start to] by (auto split: if_splits)
    with 1(1) show ?thesis by blast
  next
    case False
    then show ?thesis
      using chunk_from_bounds(2) [of start to] unat_chunk_from [of start to] by (auto simp: not_less)
  qed
qed

lemma scan_windows_blocks:
  "concat (rev (map (\<lambda>(f, t). [unat f ..< Suc (unat t)]) (scan_windows start to))) = [unat start ..< Suc (unat to)]"
proof (induction start to rule: scan_windows.induct)
  case (1 start to)
  consider "to < start" | "start \<le> to" "chunk_from start to = start"
    | "start \<le> to" "chunk_from start to \<noteq> start" by (meson not_less)
  then show ?case
  proof cases
    case 1
    then show ?thesis by (subst scan_windows.simps) (simp add: word_less_nat_alt)
  next
    case 2
    then show ?thesis by (subst scan_windows.simps) (auto simp: not_less word_le_nat_alt)
  next
    case 3
    have "[unat start ..< Suc (unat (chunk_from start to - 1))] @ [unat (chunk_from start to) ..< Suc (unat to)]
        = [unat start ..< Suc (unat to)]"
      using chunk_step [OF 3] chunk_from_bounds [OF 3(1)]
      upt_add_eq_append [of "unat start" "unat (chunk_from start to)" "Suc (unat to) - unat (chunk_from start to)"]
      by (simp add: word_le_nat_alt)
    with 1 3 show ?thesis
      by (subst scan_windows.simps) (simp add: not_less [symmetric] del: upt_Suc)
  qed
qed

lemma scan_windows_count:
  "start \<le> to \<Longrightarrow> length (scan_windows start to) = (unat to - unat start) div 50000 + 1"
proof (induction start to rule: scan_windows.induct)
  case (1 start to)
  show ?case
  proof (cases "chunk_from start to = start")
    case True
    with 1 have "unat to - unat start < 50000"
      using unat_chunk_from [of start to] by simp
    with True 1(2) show ?thesis by (subst scan_windows.simps) simp
  next
    case False
    note step = chunk_step [OF 1(2) False]
    have "unat (chunk_from start to) = unat to - 49999" "unat start < unat (chunk_from start to)"
      using unat_chunk_from [OF 1(2)] step(1,2,3) by (auto simp: word_le_nat_alt max_def split: if_splits)
    then have "unat to - unat start = unat (chunk_from start to - 1) - unat start + 50000"
      using step by linarith
    with False 1 step(1) show ?thesis
      by (subst scan_windows.simps) (simp add: not_less)
  qed
qed

text \<open>The lookback fits in 51 requests.\<close>

lemma lookback_windows:
  "length (scan_windows (max (saturating_sub latest LOOKBACK_BLOCKS) 1) latest) \<le> 51"
proof (cases "max (saturating_sub latest LOOKBACK_BLOCKS) 1 \<le> latest")
  case True
  have "unat (saturating_sub latest LOOKBACK_BLOCKS) = unat latest - 2500000"
    by (auto simp: saturating_sub_def LOOKBACK_BLOCKS_def unat_sub word_le_nat_alt)
  then have "unat latest - unat (max (saturating_sub latest LOOKBACK_BLOCKS) 1) \<le> 2500000"
    by (auto simp: max_def word_le_nat_alt)
  then have "(unat latest - unat (max (saturating_sub latest LOOKBACK_BLOCKS) 1)) div 50000 \<le> 2500000 div 50000"
    by (rule div_le_mono)
  then show ?thesis
    unfolding scan_windows_count [OF True] by simp
next
  case False
  then have "latest < max (saturating_sub latest LOOKBACK_BLOCKS) 1" by (simp only: not_le)
  then show ?thesis by (subst scan_windows.simps) (simp only: if_True list.size zero_le)
qed

section \<open>Polling\<close>

text \<open>The block that carries a transaction and the finalized block, as one answer of the node reports them.\<close>

definition mined_in :: "l2_node \<Rightarrow> b256 \<Rightarrow> u64 \<Rightarrow> bool" where
  "mined_in L h n \<longleftrightarrow> (\<exists>r. post_getTransactionReceipt L h = Some \<lparr>rpc_result = Some r, rpc_error = None\<rparr>
     \<and> parse_hex_u64 (receipt_block_number r) = Inr n)"

definition finalized_at :: "l2_node \<Rightarrow> u64 \<Rightarrow> bool" where
  "finalized_at L n \<longleftrightarrow> (\<exists>r. post_getBlockByNumber L ''finalized'' False = Some \<lparr>rpc_result = r, rpc_error = None\<rparr>
     \<and> (case r of None \<Rightarrow> n = 0 | Some h \<Rightarrow> parse_hex_u64 (header_number h) = Inr n))"

definition ready_at :: "l2_node \<Rightarrow> b256 \<Rightarrow> bool" where
  "ready_at L h \<longleftrightarrow> (\<exists>n f. mined_in L h n \<and> n \<noteq> 0 \<and> finalized_at L f \<and> unat n \<le> unat f + 1)"

lemma rpc_call_Inr [simp]:
  "rpc_call answer = Inr r \<longleftrightarrow> answer = Some \<lparr>rpc_result = r, rpc_error = None\<rparr>"
  by (cases answer) (auto simp: rpc_call_def split: option.splits)

lemma fetch_finalized_Inr:
  "(\<exists>r. fetch_finalized_block_number L = Inr r \<and> (case r of Some n \<Rightarrow> n | None \<Rightarrow> 0) = f) \<longleftrightarrow> finalized_at L f"
  by (auto simp: fetch_finalized_block_number_def finalized_at_def split: option.splits)

lemma pred_le_iff: "n \<noteq> 0 \<Longrightarrow> n - 1 \<le> f \<longleftrightarrow> unat n \<le> unat (f :: u64) + 1"
  by (auto simp: word_le_nat_alt unat_sub word_neq_0_conv [symmetric] unat_gt_0 [symmetric])

lemma check_readiness_Ready:
  "check_readiness L h = Inr (Ready n f) \<longleftrightarrow>
     mined_in L h n \<and> n \<noteq> 0 \<and> finalized_at L f \<and> unat n \<le> unat f + 1"
proof
  assume "check_readiness L h = Inr (Ready n f)"
  then show "mined_in L h n \<and> n \<noteq> 0 \<and> finalized_at L f \<and> unat n \<le> unat f + 1"
    unfolding check_readiness_def fetch_receipt_def fetch_finalized_Inr [symmetric]
    by (auto simp: mined_in_def Let_def pred_le_iff split: option.splits if_splits)
next
  assume ready: "mined_in L h n \<and> n \<noteq> 0 \<and> finalized_at L f \<and> unat n \<le> unat f + 1"
  then obtain r where r: "fetch_finalized_block_number L = Inr r" "(case r of Some n \<Rightarrow> n | None \<Rightarrow> 0) = f"
    unfolding fetch_finalized_Inr [symmetric] by blast
  have "n - 1 \<le> f"
    using ready pred_le_iff [of n f] by blast
  with ready r(1) show "check_readiness L h = Inr (Ready n f)"
    unfolding r(2) [symmetric] by (auto simp: check_readiness_def fetch_receipt_def mined_in_def rpc_call_def)
qed

lemma ready_iff: "ready_at L h \<longleftrightarrow> (\<exists>n f. check_readiness L h = Inr (Ready n f))"
  by (simp add: ready_at_def check_readiness_Ready)

lemma poll_step:
  "poll_until_ready L h tick = (if ready_at (L tick) h then Some tick else poll_until_ready L h (Suc tick))"
  by (subst poll_until_ready.simps) (auto simp: ready_iff split: sum.splits readiness.splits)

lemma poll_returns_ready:
  "poll_until_ready L h tick = Some n \<Longrightarrow> tick \<le> n \<and> ready_at (L n) h \<and> (\<forall>k \<in> {tick ..< n}. \<not> ready_at (L k) h)"
proof (rule poll_until_ready.raw_induct [where P = "\<lambda>L h tick n.
    tick \<le> n \<and> ready_at (L n) h \<and> (\<forall>k \<in> {tick ..< n}. \<not> ready_at (L k) h)"])
  fix poll L h tick n
  assume IH: "\<And>L h tick n. poll L h tick = Some n \<Longrightarrow>
      tick \<le> n \<and> ready_at (L n) h \<and> (\<forall>k \<in> {tick ..< n}. \<not> ready_at (L k) h)"
    and body: "(case check_readiness (L tick) h of
        Inl err \<Rightarrow> poll L h (Suc tick)
      | Inr ServerNotProcessed \<Rightarrow> poll L h (Suc tick)
      | Inr (NotFinalized upgrade_block finalized_block) \<Rightarrow> poll L h (Suc tick)
      | Inr (Ready upgrade_block finalized_block) \<Rightarrow> Some tick) = Some n"
  show "tick \<le> n \<and> ready_at (L n) h \<and> (\<forall>k \<in> {tick ..< n}. \<not> ready_at (L k) h)"
  proof (cases "ready_at (L tick) h")
    case True
    with body show ?thesis by (auto simp: ready_iff)
  next
    case False
    with body have "poll L h (Suc tick) = Some n"
      by (auto simp: ready_iff split: sum.splits readiness.splits)
    from IH [OF this] False show ?thesis
      using Suc_le_eq le_eq_less_or_eq by auto
  qed
qed

lemma poll_reaches:
  assumes "ready_at (L n) h" "tick \<le> n" "\<forall>k \<in> {tick ..< n}. \<not> ready_at (L k) h"
  shows "poll_until_ready L h tick = Some n"
  using assms(2,3)
proof (induction "n - tick" arbitrary: tick)
  case 0
  with assms(1) show ?case by (subst poll_step) simp
next
  case (Suc d)
  then have "\<not> ready_at (L tick) h" by simp
  moreover have "poll_until_ready L h (Suc tick) = Some n"
    using Suc by (intro Suc(1)) auto
  ultimately show ?case by (subst poll_step) simp
qed

lemma poll_iff:
  "poll_until_ready L h tick = Some n \<longleftrightarrow>
     tick \<le> n \<and> ready_at (L n) h \<and> (\<forall>k \<in> {tick ..< n}. \<not> ready_at (L k) h)"
  using poll_returns_ready poll_reaches by blast

lemma poll_returns_iff: "(\<exists>n. poll_until_ready L h 0 = Some n) \<longleftrightarrow> (\<exists>n. ready_at (L n) h)"
proof
  assume "\<exists>n. ready_at (L n) h"
  then have "poll_until_ready L h 0 = Some (LEAST n. ready_at (L n) h)"
    by (intro poll_reaches) (auto intro: LeastI_ex dest: not_less_Least)
  then show "\<exists>n. poll_until_ready L h 0 = Some n" ..
qed (auto simp: poll_iff)

section \<open>The program\<close>

lemma unat_pack_protocol_version:
  "unat (pack_protocol_version m p) = unat m * 2 ^ 32 + unat p"
proof -
  have low: "n < 32" if "bit (ucast p :: u256) n" for n
    using that by (auto simp: bit_simps dest: bit_imp_le_length)
  have "pack_protocol_version m p = push_bit 32 (ucast m) + ucast p"
    unfolding pack_protocol_version_def PACKED_SEMVER_MINOR_OFFSET_def
    by (intro disjunctive_add [symmetric]) (auto simp: bit_push_bit_iff dest: low)
  also have "\<dots> = of_nat (unat m * 2 ^ 32 + unat p)"
    by (simp add: push_bit_eq_mult mult.commute)
  finally show ?thesis
    using unsigned_less [where 'a = nat, of m] unsigned_less [where 'a = nat, of p]
    by (simp add: unat_of_nat del: of_nat_add of_nat_mult)
qed

text \<open>
  The transaction the tool must wait for: the one carried by the newest announcement of the target
  version by the chain's registered type manager in the scanned window, with the data the upgrade
  contract rebuilds for the chain where it offers to.
\<close>

definition cut_window :: "readiness_abi \<Rightarrow> address \<Rightarrow> readiness_cli \<Rightarrow> u64 \<Rightarrow> cut_filter" where
  "cut_window A ctm cli latest = \<lparr>filter_address = ctm, filter_signature = NewUpgradeCutData_SIGNATURE_HASH A,
     filter_topic1 = of_nat (unat (target_minor_version cli) * 2 ^ 32 + unat (target_patch_version cli)),
     filter_from = max (saturating_sub latest 2500000) 1, filter_to = latest\<rparr>"

definition announced_upgrade ::
    "ext \<Rightarrow> readiness_abi \<Rightarrow> settlement \<Rightarrow> readiness_cli \<Rightarrow> u64 \<Rightarrow> cut_log list \<Rightarrow> b256 \<Rightarrow> bool" where
  "announced_upgrade E A S cli latest hist h \<longleftrightarrow> (\<exists>ctm log diamond_cut proposed.
     sl_chainTypeManager S (cli_bridgehub_address cli) (ucast (cli_chain_id cli)) = Some ctm \<and> ctm \<noteq> 0
     \<and> newest (cut_window A ctm cli latest) hist = Some log
     \<and> log_decode_NewUpgradeCutData A log = Some diamond_cut
     \<and> 4 \<le> length (initCalldata diamond_cut)
     \<and> abi_decode_ProposedUpgrade A (drop 4 (initCalldata diamond_cut)) = Some proposed
     \<and> h = keccak256 E (abi_encode_L2CanonicalTransaction A ((l2ProtocolUpgradeTx proposed)\<lparr>tx_data :=
         (case sl_getL2UpgradeTxData S (initAddress diamond_cut) (cli_bridgehub_address cli)
            (ucast (cli_chain_id cli)) (zksync_os cli) (tx_data (l2ProtocolUpgradeTx proposed)) of
          Some rebuilt \<Rightarrow> rebuilt | None \<Rightarrow> tx_data (l2ProtocolUpgradeTx proposed))\<rparr>)))"

lemma pack_of_nat:
  "pack_protocol_version m p = of_nat (unat m * 2 ^ 32 + unat p)"
  unfolding unat_pack_protocol_version [symmetric] by (simp only: of_nat_unat ucast_id)

lemma find_upgrade_iff:
  assumes "sl_get_block_number S = Some latest" "serves_logs S hist"
  shows "find_upgrade_tx_hash E A S ctm bh c zk (of_nat v) LOOKBACK_BLOCKS = Inr h \<longleftrightarrow>
    (\<exists>log diamond_cut.
      newest \<lparr>filter_address = ctm, filter_signature = NewUpgradeCutData_SIGNATURE_HASH A,
        filter_topic1 = of_nat v, filter_from = max (saturating_sub latest 2500000) 1, filter_to = latest\<rparr> hist = Some log
      \<and> log_decode_NewUpgradeCutData A log = Some diamond_cut
      \<and> tx_hash_from_init_calldata E A S (initAddress diamond_cut) bh c zk (initCalldata diamond_cut) = Inr h)"
  using assms(1)
  by (auto simp: find_upgrade_tx_hash_def LOOKBACK_BLOCKS_def Let_def scan_finds_newest [OF assms(2)]
      split: option.splits)

lemma locate_upgrade_iff:
  assumes "connect_http (settlement_rpc_url cli) = Some S" "sl_get_block_number S = Some latest" "serves_logs S hist"
  shows "locate_upgrade E A connect_http cli = Inr h \<longleftrightarrow> announced_upgrade E A S cli latest hist h"
  using assms(1)
  by (auto simp: locate_upgrade_def pack_of_nat find_upgrade_iff [OF assms(2,3)] announced_upgrade_def
      resolve_ctm_def cut_window_def tx_hash_from_init_calldata_def canonical_tx_hash_def
      rebuild_tx_data_if_v31plus_def Let_def not_less split: if_splits simp del: of_nat_add of_nat_mult)

lemma readiness_main_cases:
  "readiness_main E A connect_http L cli = Some 1 \<longleftrightarrow> (\<forall>h. locate_upgrade E A connect_http cli \<noteq> Inr h)"
  "readiness_main E A connect_http L cli = Some 0 \<longleftrightarrow>
     (\<exists>h n. locate_upgrade E A connect_http cli = Inr h \<and> ready_at (L (l2_rpc_url cli) n) h)"
  using poll_returns_iff [of "L (l2_rpc_url cli)"]
  by (auto simp: readiness_main_def readiness_run_def split: sum.splits)

end
