(* ===== verification/Genesis.thy ===== *)
theory Genesis
  imports Create2
begin

section \<open>Genesis generator\<close>

text \<open>
  \<^verbatim>\<open>tools/zksync-os-genesis-gen\<close>: the contracts a ZKsync OS chain starts with, the storage that
  wires their proxies, and the commitment to the state that results (a Merkle tree of depth 64 over
  leaves linked in key order). \<^verbatim>\<open>consts.rs\<close>, \<^verbatim>\<open>types.rs\<close>, \<^verbatim>\<open>utils.rs\<close>, \<^verbatim>\<open>genesis.rs\<close> and
  \<^verbatim>\<open>main.rs\<close> are here in that order. A \<^verbatim>\<open>BTreeMap\<close> is the list of its entries in key order. The hash
  functions, the header and account hashing of \<^verbatim>\<open>alloy\<close> and \<^verbatim>\<open>zk_os\<close>, and the file system are
  parameters.
\<close>

subsection \<open>Constants\<close>

datatype contract_source = L1ContractName string | DAContractName string | Bytecode bytes

datatype contract_deployment = Direct contract_source | SystemProxy contract_source

definition GENESIS_COMPLEX_UPGRADER_ADDR :: address where
  "GENESIS_COMPLEX_UPGRADER_ADDR = 0x800f"

definition SYSTEM_CONTRACT_PROXY_ADMIN :: address where
  "SYSTEM_CONTRACT_PROXY_ADMIN = 0x1000c"

definition DETERMINISTIC_CREATE2_ADDRESS :: address where
  "DETERMINISTIC_CREATE2_ADDRESS = 0x4e59b44847b379578588920ca78fbf26c0b4956c"

definition CREATE2_FACTORY_RUNTIME_BYTECODE :: bytes where
  "CREATE2_FACTORY_RUNTIME_BYTECODE =
     [0x7f, 0xff, 0xff, 0xff, 0xff, 0xff, 0xff, 0xff, 0xff, 0xff, 0xff, 0xff, 0xff, 0xff, 0xff, 0xff, 0xff,
      0xff, 0xff, 0xff, 0xff, 0xff, 0xff, 0xff, 0xff, 0xff, 0xff, 0xff, 0xff, 0xff, 0xff, 0xff, 0xe0, 0x36,
      0x01, 0x60, 0x00, 0x81, 0x60, 0x20, 0x82, 0x37, 0x80, 0x35, 0x82, 0x82, 0x34, 0xf5, 0x80, 0x15, 0x15,
      0x60, 0x39, 0x57, 0x81, 0x82, 0xfd, 0x5b, 0x80, 0x82, 0x52, 0x50, 0x50, 0x50, 0x60, 0x14, 0x60, 0x0c,
      0xf3]"

definition SYSTEM_PROXY_ADMIN_OWNER_SLOT :: b256 where
  "SYSTEM_PROXY_ADMIN_OWNER_SLOT = 0"

definition EIP1967_IMPLEMENTATION_SLOT :: b256 where
  "EIP1967_IMPLEMENTATION_SLOT = 0x360894a13ba1a3210667c828492db98dca3e2076cc3735a920a3ca505d382bbc"

definition EIP1967_ADMIN_SLOT :: b256 where
  "EIP1967_ADMIN_SLOT = 0xb53127684a568b3173ae13b9f8a6016e243e63b6e8ee1178d6a717850b5d6103"

definition INITIAL_CONTRACTS :: "(address \<times> contract_deployment) list" where
  "INITIAL_CONTRACTS =
     [(GENESIS_COMPLEX_UPGRADER_ADDR, SystemProxy (L1ContractName ''L2ComplexUpgrader'')),
      (0x10001, Direct (L1ContractName ''L2GenesisUpgrade'')),
      (0x10007, Direct (L1ContractName ''L2WrappedBaseToken'')),
      (SYSTEM_CONTRACT_PROXY_ADMIN, Direct (L1ContractName ''SystemContractProxyAdmin'')),
      (0x10005, SystemProxy (L1ContractName ''L2MessageRoot'')),
      (0x10002, SystemProxy (L1ContractName ''L2Bridgehub'')),
      (0x10003, SystemProxy (L1ContractName ''L2AssetRouter'')),
      (0x10004, SystemProxy (L1ContractName ''L2NativeTokenVaultZKOS'')),
      (0x1000b, SystemProxy (L1ContractName ''UpgradeableBeaconDeployer'')),
      (0x1000a, SystemProxy (L1ContractName ''L2ChainAssetHandler'')),
      (0x1000f, SystemProxy (L1ContractName ''L2AssetTracker'')),
      (0x10010, SystemProxy (L1ContractName ''GWAssetTracker'')),
      (0x1000d, SystemProxy (L1ContractName ''InteropCenter'')),
      (0x1000e, SystemProxy (L1ContractName ''InteropHandler'')),
      (0x10011, SystemProxy (L1ContractName ''BaseTokenHolder'')),
      (0x8006, SystemProxy (L1ContractName ''ZKOSContractDeployer'')),
      (0x8008, SystemProxy (L1ContractName ''L1MessengerZKOS'')),
      (0x800a, SystemProxy (L1ContractName ''L2BaseTokenZKOS'')),
      (0x800b, SystemProxy (L1ContractName ''SystemContext'')),
      (DETERMINISTIC_CREATE2_ADDRESS, Direct (Bytecode CREATE2_FACTORY_RUNTIME_BYTECODE)),
      (0x10008, SystemProxy (L1ContractName ''L2InteropRootStorage'')),
      (0x10009, SystemProxy (L1ContractName ''L2MessageVerification''))]"

subsection \<open>Types\<close>

text \<open>\<^verbatim>\<open>BTreeMap::insert\<close>: the new map and the value that was there.\<close>

type_synonym ('k, 'v) btree_map = "('k \<times> 'v) list"

fun btree_insert :: "'k::linorder \<Rightarrow> 'v \<Rightarrow> ('k, 'v) btree_map \<Rightarrow> ('k, 'v) btree_map \<times> 'v option" where
  "btree_insert k v [] = ([(k, v)], None)"
| "btree_insert k v ((a, b) # m) =
     (if k < a then ((k, v) # (a, b) # m, None)
      else if k = a then ((k, v) # m, Some b)
      else (case btree_insert k v m of (m', old) \<Rightarrow> ((a, b) # m', old)))"

definition MERKLE_TREE_DEPTH :: nat where
  "MERKLE_TREE_DEPTH = 64"

record initial_genesis_input =
  initial_contracts :: "(address \<times> bytes) list"
  additional_storage :: "(address, (b256, b256) btree_map) btree_map"
  additional_storage_raw :: "(b256 \<times> b256) list"

record leaf_info =
  leaf_key :: b256
  leaf_value :: b256
  leaf_next_index :: u64

definition MAX_B256_VALUE :: b256 where
  "MAX_B256_VALUE = - 1"

record genesis_header =
  parent_hash :: b256
  ommers_hash :: b256
  beneficiary :: address
  state_root :: b256
  transactions_root :: b256
  receipts_root :: b256
  logs_bloom :: bytes
  difficulty :: u256
  hd_number :: u64
  gas_limit :: u64
  gas_used :: u64
  hd_timestamp :: u64
  extra_data :: bytes
  mix_hash :: b256
  hd_nonce :: u64
  base_fee_per_gas :: "u64 option"
  withdrawals_root :: "b256 option"
  blob_gas_used :: "u64 option"
  excess_blob_gas :: "u64 option"
  parent_beacon_block_root :: "b256 option"
  requests_hash :: "b256 option"
  block_access_list_hash :: "b256 option"
  slot_number :: "u64 option"

text \<open>Third-party code: the digest, what \<^verbatim>\<open>alloy\<close> and \<^verbatim>\<open>zk_os\<close> provide, the hex decoder, and the
  string at \<^verbatim>\<open>deployedBytecode.object\<close> of a JSON text (outer \<open>None\<close>: not JSON).\<close>

record genesis_ext =
  blake2s256 :: "bytes \<Rightarrow> b256"
  header_hash_slow :: "genesis_header \<Rightarrow> b256"
  EMPTY_OMMER_ROOT_HASH :: b256
  INITIAL_BASE_FEE :: u64
  ACCOUNT_PROPERTIES_STORAGE_ADDRESS :: address
  account_properties_hash :: "nat \<Rightarrow> bytes \<Rightarrow> b256"
  hex_crate_decode :: "string \<Rightarrow> bytes option"
  deployed_bytecode_object :: "string \<Rightarrow> string option option"

definition to_le_bytes :: "nat \<Rightarrow> 'a::len word \<Rightarrow> bytes" where
  "to_le_bytes n w = rev (to_be_bytes n w)"

definition hash_leaf :: "genesis_ext \<Rightarrow> leaf_info \<Rightarrow> b256" where
  "hash_leaf G l = blake2s256 G (b256_bytes (leaf_key l) @ b256_bytes (leaf_value l) @ to_le_bytes 8 (leaf_next_index l))"

subsection \<open>Utilities\<close>

definition genesis_bytecode_info :: "ext \<Rightarrow> genesis_ext \<Rightarrow> bytes \<Rightarrow> bytes" where
  "genesis_bytecode_info E G bytecode =
     b256_bytes (blake2s256 G bytecode) @ replicate 28 0 @ to_be_bytes 4 (of_nat (length bytecode) :: u32)
       @ b256_bytes (keccak256 E bytecode)"

definition generate_random_address :: "ext \<Rightarrow> genesis_ext \<Rightarrow> bytes \<Rightarrow> address" where
  "generate_random_address E G bytecode =
     address_of_hash (keccak256 E (replicate 32 0 @ genesis_bytecode_info E G bytecode))"

text \<open>\<^verbatim>\<open>expect\<close> ends the process; so does \<^verbatim>\<open>&s[2..]\<close> on a string of fewer than two bytes.\<close>

definition contract_artifact_to_code :: "genesis_ext \<Rightarrow> (string \<Rightarrow> string option) \<Rightarrow> string \<Rightarrow> bytes res" where
  "contract_artifact_to_code G read_to_string path =
     bind_res (ok_or (Panic ''Failed to read contract bytecode file'') (read_to_string path)) (\<lambda>file_content.
     bind_res (ok_or (Panic ''Failed to parse JSON file'') (deployed_bytecode_object G file_content)) (\<lambda>object.
     bind_res (ok_or (Panic ''No deployed bytecode found in artifact for contract'')
       (case object of Some b \<Rightarrow> if b \<noteq> ''0x'' then Some b else None | None \<Rightarrow> None)) (\<lambda>deployed_bytecode.
     bind_res (ensure (2 \<le> length deployed_bytecode) (Panic ''byte index 2 is out of bounds'')) (\<lambda>_.
     ok_or (Panic ''Failed to decode deployed bytecode'') (hex_crate_decode G (drop 2 deployed_bytecode))))))"

definition l1_contract_name_to_code :: "genesis_ext \<Rightarrow> (string \<Rightarrow> string option) \<Rightarrow> string \<Rightarrow> bytes res" where
  "l1_contract_name_to_code G read_to_string contract_name =
     contract_artifact_to_code G read_to_string
       (''../../l1-contracts/out/'' @ contract_name @ ''.sol/'' @ contract_name @ ''.json'')"

definition da_contract_name_to_code :: "genesis_ext \<Rightarrow> (string \<Rightarrow> string option) \<Rightarrow> string \<Rightarrow> bytes res" where
  "da_contract_name_to_code G read_to_string contract_name =
     contract_artifact_to_code G read_to_string
       (''../../da-contracts/out/'' @ contract_name @ ''.sol/'' @ contract_name @ ''.json'')"

definition address_to_b256 :: "address \<Rightarrow> b256" where
  "address_to_b256 addr = from_be_bytes (replicate 12 0 @ address_bytes addr)"

subsection \<open>The initial contracts and their storage\<close>

definition proxy_storage_entries :: "address \<Rightarrow> (b256, b256) btree_map" where
  "proxy_storage_entries impl_addr =
     fst (btree_insert EIP1967_ADMIN_SLOT (address_to_b256 SYSTEM_CONTRACT_PROXY_ADMIN)
       (fst (btree_insert EIP1967_IMPLEMENTATION_SLOT (address_to_b256 impl_addr) [])))"

definition construct_additional_storage ::
    "(address \<times> address) list \<Rightarrow> (address, (b256, b256) btree_map) btree_map" where
  "construct_additional_storage proxy_impls =
     fold (\<lambda>(proxy_addr, impl_addr) m. fst (btree_insert proxy_addr (proxy_storage_entries impl_addr) m)) proxy_impls
       (fst (btree_insert SYSTEM_CONTRACT_PROXY_ADMIN
         (fst (btree_insert SYSTEM_PROXY_ADMIN_OWNER_SLOT (address_to_b256 GENESIS_COMPLEX_UPGRADER_ADDR) [])) []))"

definition add_initial_contract ::
    "ext \<Rightarrow> genesis_ext \<Rightarrow> (contract_source \<Rightarrow> bytes res) \<Rightarrow> bytes \<Rightarrow> address \<times> contract_deployment
      \<Rightarrow> (address \<times> bytes) list \<times> (address \<times> address) list \<Rightarrow> ((address \<times> bytes) list \<times> (address \<times> address) list) res" where
  "add_initial_contract E G load system_proxy_bytecode = (\<lambda>(addr, deployment) (contracts, proxy_impls).
     case deployment of
       Direct source \<Rightarrow>
         bind_res (load source) (\<lambda>code. Inr (contracts @ [(addr, code)], proxy_impls))
     | SystemProxy source \<Rightarrow>
         bind_res (load source) (\<lambda>impl_bytecode.
           let impl_addr = generate_random_address E G impl_bytecode
           in Inr (contracts @ [(addr, system_proxy_bytecode), (impl_addr, impl_bytecode)],
                proxy_impls @ [(addr, impl_addr)])))"

definition build_from_source_loader ::
    "ext \<Rightarrow> genesis_ext \<Rightarrow> (contract_source \<Rightarrow> bytes res) \<Rightarrow> initial_genesis_input res" where
  "build_from_source_loader E G load =
     bind_res (load (L1ContractName ''SystemContractProxy'')) (\<lambda>system_proxy_bytecode.
     bind_res (fold_res (add_initial_contract E G load system_proxy_bytecode) INITIAL_CONTRACTS ([], []))
       (\<lambda>(contracts, proxy_impls).
         Inr \<lparr>initial_contracts = contracts, additional_storage = construct_additional_storage proxy_impls,
           additional_storage_raw = []\<rparr>))"

definition load_artifact :: "genesis_ext \<Rightarrow> (string \<Rightarrow> string option) \<Rightarrow> string \<Rightarrow> string \<Rightarrow> bytes res" where
  "load_artifact G read_to_string dir contract_name =
     bind_res (ok_or (Bail ''failed to read'')
       (read_to_string (path_join dir (contract_name @ ''.sol/'' @ contract_name @ ''.json'')))) (\<lambda>content.
     bind_res (ok_or (Bail ''failed to parse'') (deployed_bytecode_object G content)) (\<lambda>object.
     bind_res (ok_or (Bail ''no deployed bytecode in artifact'')
       (case object of Some b \<Rightarrow> if b \<noteq> ''0x'' then Some b else None | None \<Rightarrow> None)) (\<lambda>bytecode.
     bind_res (ensure (2 \<le> length bytecode) (Panic ''byte index 2 is out of bounds'')) (\<lambda>_.
     ok_or (Bail ''failed to decode bytecode'') (hex_crate_decode G (drop 2 bytecode))))))"

definition from_forge_artifacts ::
    "ext \<Rightarrow> genesis_ext \<Rightarrow> (string \<Rightarrow> string option) \<Rightarrow> string \<Rightarrow> initial_genesis_input res" where
  "from_forge_artifacts E G read_to_string l1_contracts_out =
     build_from_source_loader E G (\<lambda>source. case source of
         L1ContractName contract_name \<Rightarrow> load_artifact G read_to_string l1_contracts_out contract_name
       | DAContractName contract_name \<Rightarrow> Inl (Bail ''DA contract not supported in from_forge_artifacts'')
       | Bytecode code \<Rightarrow> Inr code)"

definition genesis_local :: "ext \<Rightarrow> genesis_ext \<Rightarrow> (string \<Rightarrow> string option) \<Rightarrow> initial_genesis_input res" where
  "genesis_local E G read_to_string =
     build_from_source_loader E G (\<lambda>source. case source of
         L1ContractName contract_name \<Rightarrow> l1_contract_name_to_code G read_to_string contract_name
       | DAContractName contract_name \<Rightarrow> da_contract_name_to_code G read_to_string contract_name
       | Bytecode code \<Rightarrow> Inr code)"

subsection \<open>The state tree\<close>

definition hash_branch :: "genesis_ext \<Rightarrow> b256 \<Rightarrow> b256 \<Rightarrow> b256" where
  "hash_branch G lhs rhs = blake2s256 G (b256_bytes lhs @ b256_bytes rhs)"

fun hash_chunks :: "genesis_ext \<Rightarrow> b256 \<Rightarrow> b256 list \<Rightarrow> b256 list" where
  "hash_chunks G empty_subtree_hash [] = []"
| "hash_chunks G empty_subtree_hash [lhs] = [hash_branch G lhs empty_subtree_hash]"
| "hash_chunks G empty_subtree_hash (lhs # rhs # nodes) =
     hash_branch G lhs rhs # hash_chunks G empty_subtree_hash nodes"

fun merkle_levels :: "genesis_ext \<Rightarrow> nat \<Rightarrow> b256 list \<Rightarrow> b256 \<Rightarrow> b256 list" where
  "merkle_levels G 0 nodes empty_subtree_hash = nodes"
| "merkle_levels G (Suc levels) nodes empty_subtree_hash =
     merkle_levels G levels (hash_chunks G empty_subtree_hash nodes)
       (hash_branch G empty_subtree_hash empty_subtree_hash)"

definition calculate_merkle_root :: "genesis_ext \<Rightarrow> nat \<Rightarrow> leaf_info list \<Rightarrow> b256 res" where
  "calculate_merkle_root G tree_depth logs =
     (let nodes = merkle_levels G tree_depth (map (hash_leaf G) logs)
            (hash_leaf G \<lparr>leaf_key = 0, leaf_value = 0, leaf_next_index = 0\<rparr>)
      in if 1 < length nodes then Inl (Bail ''Merkle reduction did not collapse to a single root'')
         else case nodes of [] \<Rightarrow> Inl (Panic ''index out of bounds'') | root # _ \<Rightarrow> Inr root)"

definition provided_leaves :: "(b256, b256) btree_map \<Rightarrow> leaf_info list" where
  "provided_leaves initial_storage_logs =
     map (\<lambda>(num, (k, v)). \<lparr>leaf_key = k, leaf_value = v,
         leaf_next_index = (if num = length initial_storage_logs - 1 then 1 else of_nat num + 3)\<rparr>)
       (enumerate 0 initial_storage_logs)"

definition genesis_leaves :: "(b256, b256) btree_map \<Rightarrow> leaf_info list" where
  "genesis_leaves initial_storage_logs =
     [\<lparr>leaf_key = 0, leaf_value = 0, leaf_next_index = 2\<rparr>,
      \<lparr>leaf_key = MAX_B256_VALUE, leaf_value = 0, leaf_next_index = 1\<rparr>] @ provided_leaves initial_storage_logs"

definition build_initial_genesis_root :: "genesis_ext \<Rightarrow> (b256, b256) btree_map \<Rightarrow> (b256 \<times> u64) res" where
  "build_initial_genesis_root G initial_storage_logs =
     (let leaves = genesis_leaves initial_storage_logs
      in bind_res (calculate_merkle_root G MERKLE_TREE_DEPTH leaves) (\<lambda>root. Inr (root, of_nat (length leaves))))"

definition genesis_block_hashes :: "genesis_ext \<Rightarrow> genesis_header \<Rightarrow> b256" where
  "genesis_block_hashes G genesis_block =
     blake2s256 G (concat (replicate 255 (replicate 32 0)) @ b256_bytes (header_hash_slow G genesis_block))"

definition build_initial_genesis_commitment ::
    "genesis_ext \<Rightarrow> (b256, b256) btree_map \<Rightarrow> genesis_header \<Rightarrow> b256 res" where
  "build_initial_genesis_commitment G initial_storage_logs genesis_block =
     bind_res (build_initial_genesis_root G initial_storage_logs) (\<lambda>(genesis_root, leaves_count).
       Inr (blake2s256 G (b256_bytes genesis_root @ to_be_bytes 8 leaves_count @ to_be_bytes 8 (0 :: u64)
         @ b256_bytes (genesis_block_hashes G genesis_block) @ to_be_bytes 8 (0 :: u64))))"

definition flat_storage_key_for_contract :: "genesis_ext \<Rightarrow> address \<Rightarrow> b256 \<Rightarrow> b256" where
  "flat_storage_key_for_contract G addr slot_key =
     blake2s256 G (replicate 12 0 @ address_bytes addr @ b256_bytes slot_key)"

definition account_properties_flat_key :: "genesis_ext \<Rightarrow> address \<Rightarrow> b256" where
  "account_properties_flat_key G addr =
     flat_storage_key_for_contract G (ACCOUNT_PROPERTIES_STORAGE_ADDRESS G)
       (from_be_bytes (replicate 12 0 @ address_bytes addr))"

definition genesis_block_header :: "genesis_ext \<Rightarrow> genesis_header" where
  "genesis_block_header G = \<lparr>parent_hash = 0, ommers_hash = EMPTY_OMMER_ROOT_HASH G, beneficiary = 0,
     state_root = 0, transactions_root = 0, receipts_root = 0, logs_bloom = replicate 256 0, difficulty = 0,
     hd_number = 0, gas_limit = 5000, gas_used = 0, hd_timestamp = 0, extra_data = [], mix_hash = 0, hd_nonce = 0,
     base_fee_per_gas = Some (INITIAL_BASE_FEE G), withdrawals_root = None, blob_gas_used = None,
     excess_blob_gas = None, parent_beacon_block_root = None, requests_hash = None,
     block_access_list_hash = None, slot_number = None\<rparr>"

definition insert_contract :: "genesis_ext \<Rightarrow> address \<times> bytes \<Rightarrow> (b256, b256) btree_map \<Rightarrow> (b256, b256) btree_map" where
  "insert_contract G = (\<lambda>(addr, deployed_code) storage_logs.
     fst (btree_insert (account_properties_flat_key G addr) (account_properties_hash G 1 deployed_code) storage_logs))"

definition insert_fresh :: "string \<Rightarrow> b256 \<times> b256 \<Rightarrow> (b256, b256) btree_map \<Rightarrow> (b256, b256) btree_map res" where
  "insert_fresh msg = (\<lambda>(k, v) storage_logs.
     case btree_insert k v storage_logs of
       (storage_logs', None) \<Rightarrow> Inr storage_logs'
     | (_, Some old) \<Rightarrow> Inl (Bail msg))"

definition flat_slots :: "genesis_ext \<Rightarrow> (address, (b256, b256) btree_map) btree_map \<Rightarrow> (b256 \<times> b256) list" where
  "flat_slots G storage =
     concat (map (\<lambda>(addr, slots). map (\<lambda>(slot_key, v). (flat_storage_key_for_contract G addr slot_key, v)) slots) storage)"

definition build_genesis_root_hash :: "genesis_ext \<Rightarrow> initial_genesis_input \<Rightarrow> b256 res" where
  "build_genesis_root_hash G genesis_input =
     bind_res (fold_res (insert_fresh ''duplicate storage key in additional_storage_raw'')
         (additional_storage_raw genesis_input)
         (fold (insert_contract G) (initial_contracts genesis_input) [])) (\<lambda>storage_logs.
     bind_res (fold_res (insert_fresh ''duplicate flattened storage key'')
         (flat_slots G (additional_storage genesis_input)) storage_logs) (\<lambda>storage_logs.
     build_initial_genesis_commitment G storage_logs (genesis_block_header G)))"

subsection \<open>The program\<close>

record 'o genesis_file =
  initial_genesis :: initial_genesis_input
  file_genesis_root :: b256
  genesis_other :: 'o

text \<open>
  \<^verbatim>\<open>update_local_genesis\<close> on the genesis file as it was read: the input is rebuilt from the
  artifacts, its raw entries and the remaining fields are kept, and the root is recomputed.
\<close>

definition update_local_genesis ::
    "ext \<Rightarrow> genesis_ext \<Rightarrow> (string \<Rightarrow> string option) \<Rightarrow> 'o genesis_file \<Rightarrow> 'o genesis_file res" where
  "update_local_genesis E G read_to_string old =
     bind_res (genesis_local E G read_to_string) (\<lambda>input.
     let input = input\<lparr>additional_storage_raw := additional_storage_raw (initial_genesis old)\<rparr>
     in bind_res (build_genesis_root_hash G input) (\<lambda>root.
       Inr (old\<lparr>initial_genesis := input, file_genesis_root := root\<rparr>)))"

section \<open>Interface: an ordered map\<close>

text \<open>
  What the generator relies on in \<^verbatim>\<open>BTreeMap\<close>: an insertion sets one key and hands back what it
  replaced, and the entries come out in key order. Then a batch of insertions is an update of the
  finite map, and equal maps have equal entry lists: the leaves do not depend on insertion order.
\<close>

locale ordered_map =
  fixes ins :: "'k::linorder \<Rightarrow> 'v \<Rightarrow> 'm \<Rightarrow> 'm \<times> 'v option"
    and entries :: "'m \<Rightarrow> ('k \<times> 'v) list"
    and valid :: "'m \<Rightarrow> bool"
  assumes valid_ins: "valid m \<Longrightarrow> valid (fst (ins k v m))"
    and lookup_ins: "valid m \<Longrightarrow> map_of (entries (fst (ins k v m))) = (map_of (entries m))(k \<mapsto> v)"
    and replaced: "valid m \<Longrightarrow> snd (ins k v m) = map_of (entries m) k"
    and entries_sorted: "valid m \<Longrightarrow> sorted_wrt (<) (map fst (entries m))"
begin

lemma valid_fold: "valid m \<Longrightarrow> valid (fold (\<lambda>(k, v) m. fst (ins k v m)) kvs m)"
  by (induction kvs arbitrary: m) (auto simp: valid_ins)

lemma lookup_fold:
  "valid m \<Longrightarrow> map_of (entries (fold (\<lambda>(k, v) m. fst (ins k v m)) kvs m)) = map_of (entries m) ++ map_of (rev kvs)"
  by (induction kvs arbitrary: m) (auto simp: valid_ins lookup_ins map_add_assoc [symmetric])

lemma entries_determined:
  assumes "valid m" "valid m'" "map_of (entries m) = map_of (entries m')"
  shows "entries m = entries m'"
proof -
  have strict: "distinct (map fst (entries n))" "sorted (map fst (entries n))" if "valid n" for n
    using entries_sorted [OF that] by (simp_all add: strict_sorted_iff)
  have entries_eq: "entries n = map (\<lambda>k. (k, the (map_of (entries n) k))) (map fst (entries n))" if "valid n" for n
    using strict(1) [OF that] by (auto simp: o_def intro!: map_idI [symmetric])
  have "set (map fst (entries m)) = set (map fst (entries m'))"
    using assms(3) by (metis dom_map_of_conv_image_fst set_map)
  then have "map fst (entries m) = map fst (entries m')"
    using strict assms(1,2) by (simp add: sorted_distinct_set_unique)
  then show ?thesis
    using entries_eq [OF assms(1)] entries_eq [OF assms(2)] assms(3) by metis
qed

lemma fresh_inserts:
  "valid m \<Longrightarrow> fold_res (\<lambda>(k, v) m. case ins k v m of (m', None) \<Rightarrow> Inr m' | (_, Some old) \<Rightarrow> Inl e) kvs m =
     (if distinct (map fst kvs) \<and> set (map fst kvs) \<inter> dom (map_of (entries m)) = {}
      then Inr (fold (\<lambda>(k, v) m. fst (ins k v m)) kvs m) else Inl e)"
proof (induction kvs arbitrary: m)
  case (Cons kv kvs)
  obtain k v where kv: "kv = (k, v)" by (cases kv)
  obtain m' old where step: "ins k v m = (m', old)" by (cases "ins k v m")
  have old: "old = map_of (entries m) k" and m': "valid m'" "dom (map_of (entries m')) = insert k (dom (map_of (entries m)))"
    using Cons.prems replaced [of m k v] valid_ins [of m k v] lookup_ins [of m k v] by (simp_all add: step)
  show ?case
    unfolding kv fold_res.simps fold.simps split_conv step fst_conv
    by (cases "k \<in> dom (map_of (entries m))") (auto simp: Cons.IH [OF m'(1)] m'(2) old domIff step)
qed simp

end

lemma btree_insert_keys: "fst ` set (fst (btree_insert k v m)) = insert k (fst ` set m)"
  by (induction k v m rule: btree_insert.induct) (simp_all add: insert_commute case_prod_beta)

lemma btree_insert_sorted:
  "sorted_wrt (<) (map fst m) \<Longrightarrow> sorted_wrt (<) (map fst (fst (btree_insert k v m)))"
proof (induction k v m rule: btree_insert.induct)
  case (2 k v a b m)
  have "\<forall>x \<in> fst ` set (fst (btree_insert k v m)). a < x" if "a < k"
    using 2(2) that by (auto simp: btree_insert_keys)
  with 2 show ?case by (auto split: prod.splits)
qed simp

lemma btree_insert_lookup: "map_of (fst (btree_insert k v m)) = (map_of m)(k \<mapsto> v)"
  by (induction k v m rule: btree_insert.induct) (auto split: prod.splits)

lemma btree_insert_replaced:
  "sorted_wrt (<) (map fst m) \<Longrightarrow> snd (btree_insert k v m) = map_of m k"
proof (induction k v m rule: btree_insert.induct)
  case (2 k v a b m)
  have "map_of ((a, b) # m) k = None" if "k < a"
    using 2(2) that by (force simp: map_of_eq_None_iff)
  with 2 show ?case by (auto split: prod.splits)
qed simp

interpretation bt: ordered_map btree_insert "\<lambda>m. m" "\<lambda>m. sorted_wrt (<) (map fst m)"
  by unfold_locales (simp_all add: btree_insert_sorted btree_insert_lookup btree_insert_replaced)

section \<open>Padded addresses\<close>

text \<open>A padded address is the address as a number, so padding loses nothing.\<close>

lemma address_to_b256_ucast: "address_to_b256 a = ucast a"
proof -
  have "unat a < 256 ^ 20"
    using unsigned_less [where 'a = nat, of a] by simp
  then show ?thesis
    by (simp add: address_to_b256_def from_be_bytes_def address_bytes_def
        to_be_bytes_def nat_of_be_be_of_nat of_nat_unat)
qed

section \<open>The Merkle root\<close>

text \<open>
  The reference: the root of a complete binary tree whose leaves are given by a function, computed
  from the root down. The generator computes it from the leaves up, and only over the nodes that
  are not roots of empty subtrees.
\<close>

fun subtree :: "genesis_ext \<Rightarrow> nat \<Rightarrow> (nat \<Rightarrow> b256) \<Rightarrow> nat \<Rightarrow> b256" where
  "subtree G 0 f i = f i"
| "subtree G (Suc d) f i = hash_branch G (subtree G d f (2 * i)) (subtree G d f (2 * i + 1))"

lemma subtree_bottom_up:
  "subtree G (Suc d) f i = subtree G d (\<lambda>j. hash_branch G (f (2 * j)) (f (2 * j + 1))) i"
proof (induction d arbitrary: i)
  case (Suc d)
  show ?case
    by (simp only: subtree.simps(2) [of G "Suc d" f i] Suc subtree.simps(2) [of G d "\<lambda>j. hash_branch G (f (2 * j)) (f (2 * j + 1))" i])
qed simp

lemma length_hash_chunks: "length (hash_chunks G e xs) = (length xs + 1) div 2"
  by (induction G e xs rule: hash_chunks.induct) auto

lemma nth_hash_chunks:
  "i < (length xs + 1) div 2 \<Longrightarrow> hash_chunks G e xs ! i =
     hash_branch G (xs ! (2 * i)) (if 2 * i + 1 < length xs then xs ! (2 * i + 1) else e)"
proof (induction G e xs arbitrary: i rule: hash_chunks.induct)
  case (3 G e lhs rhs nodes)
  then show ?case by (cases i) auto
qed auto

lemma hash_chunks_upt:
  assumes "\<forall>i \<ge> m. f i = e"
  shows "hash_chunks G e (map f [0 ..< m]) = map (\<lambda>j. hash_branch G (f (2 * j)) (f (2 * j + 1))) [0 ..< (m + 1) div 2]"
  using assms by (intro nth_equalityI) (auto simp: length_hash_chunks nth_hash_chunks)

lemma merkle_levels_upt:
  assumes "\<forall>i \<ge> m. f i = e"
  shows "\<exists>k. merkle_levels G d (map f [0 ..< m]) e = map (subtree G d f) [0 ..< k]
    \<and> (k = 0 \<longleftrightarrow> m = 0) \<and> (k \<le> 1 \<longleftrightarrow> m \<le> 2 ^ d)"
  using assms
proof (induction d arbitrary: f m e)
  case 0
  then show ?case by (auto intro!: exI [of _ m])
next
  case (Suc d)
  let ?g = "\<lambda>j. hash_branch G (f (2 * j)) (f (2 * j + 1))"
  have "\<forall>i \<ge> (m + 1) div 2. ?g i = hash_branch G e e"
    using Suc.prems by simp
  from Suc.IH [of "(m + 1) div 2" ?g "hash_branch G e e", OF this] obtain k where
    k: "merkle_levels G d (map ?g [0 ..< (m + 1) div 2]) (hash_branch G e e) = map (subtree G d ?g) [0 ..< k]"
      "k = 0 \<longleftrightarrow> (m + 1) div 2 = 0" "k \<le> 1 \<longleftrightarrow> (m + 1) div 2 \<le> 2 ^ d"
    by (elim exE conjE) (rule that)
  have tree: "subtree G (Suc d) f = subtree G d ?g"
    by (rule ext) (rule subtree_bottom_up)
  have half: "(m + 1) div 2 = 0 \<longleftrightarrow> m = 0" "(m + 1) div 2 \<le> 2 ^ d \<longleftrightarrow> m \<le> 2 ^ Suc d"
    unfolding power_Suc by linarith+
  show ?case
    unfolding tree merkle_levels.simps hash_chunks_upt [of m f e G, OF Suc.prems] k(1)
    using k(2,3) half by (intro exI [of _ k] conjI refl) (simp_all only: )
qed

definition leaf_function :: "genesis_ext \<Rightarrow> leaf_info list \<Rightarrow> nat \<Rightarrow> b256" where
  "leaf_function G leaves i = (if i < length leaves then hash_leaf G (leaves ! i)
     else hash_leaf G \<lparr>leaf_key = 0, leaf_value = 0, leaf_next_index = 0\<rparr>)"

lemma leaf_function_outside:
  "\<forall>i \<ge> length leaves. leaf_function G leaves i = hash_leaf G \<lparr>leaf_key = 0, leaf_value = 0, leaf_next_index = 0\<rparr>"
  by (simp add: leaf_function_def)

lemma calculate_merkle_root_exact:
  "calculate_merkle_root G d leaves =
     (if leaves = [] then Inl (Panic ''index out of bounds'')
      else if 2 ^ d < length leaves then Inl (Bail ''Merkle reduction did not collapse to a single root'')
      else Inr (subtree G d (leaf_function G leaves) 0))"
proof -
  have leaves: "map (hash_leaf G) leaves = map (leaf_function G leaves) [0 ..< length leaves]"
    by (intro nth_equalityI) (auto simp: leaf_function_def)
  obtain k where k: "merkle_levels G d (map (hash_leaf G) leaves)
        (hash_leaf G \<lparr>leaf_key = 0, leaf_value = 0, leaf_next_index = 0\<rparr>) = map (subtree G d (leaf_function G leaves)) [0 ..< k]"
      "k = 0 \<longleftrightarrow> length leaves = 0" "k \<le> 1 \<longleftrightarrow> length leaves \<le> 2 ^ d"
    using merkle_levels_upt [of "length leaves" "leaf_function G leaves" _ G d, OF leaf_function_outside]
    unfolding leaves by blast
  show ?thesis
  proof (cases "k = 1")
    case True
    with k show ?thesis by (auto simp: calculate_merkle_root_def)
  next
    case False
    with k show ?thesis
      by (cases "k = 0") (auto simp: calculate_merkle_root_def Let_def)
  qed
qed

section \<open>The linked leaves\<close>

lemma length_genesis_leaves [simp]: "length (genesis_leaves logs) = length logs + 2"
  by (simp add: genesis_leaves_def provided_leaves_def)

lemma genesis_leaves_nth:
  "genesis_leaves logs ! 0 = \<lparr>leaf_key = 0, leaf_value = 0, leaf_next_index = 2\<rparr>"
  "genesis_leaves logs ! 1 = \<lparr>leaf_key = MAX_B256_VALUE, leaf_value = 0, leaf_next_index = 1\<rparr>"
  "k < length logs \<Longrightarrow> genesis_leaves logs ! (k + 2) = \<lparr>leaf_key = fst (logs ! k), leaf_value = snd (logs ! k),
     leaf_next_index = (if k = length logs - 1 then 1 else of_nat k + 3)\<rparr>"
  by (simp_all add: genesis_leaves_def provided_leaves_def nth_enumerate_eq case_prod_beta)

lemma genesis_leaf_keys:
  "leaf_key ` set (genesis_leaves logs) = {0, MAX_B256_VALUE} \<union> fst ` set logs"
proof -
  have "map leaf_key (provided_leaves logs) = map fst logs"
    by (intro nth_equalityI) (simp_all add: provided_leaves_def nth_enumerate_eq case_prod_beta)
  then have "leaf_key ` set (provided_leaves logs) = fst ` set logs"
    by (metis set_map)
  then show ?thesis
    by (auto simp: genesis_leaves_def)
qed

text \<open>The index of the leaf after leaf \<open>i\<close> in key order; the last leaf has index 1 and names itself.\<close>

definition successor_index :: "(b256, b256) btree_map \<Rightarrow> nat \<Rightarrow> nat" where
  "successor_index logs i = (if i = 0 then 2 else if i = 1 \<or> i = length logs + 1 then 1 else i + 1)"

lemma next_index_successor:
  assumes "i < length logs + 2" "length logs + 2 < 2 ^ 64"
  shows "unat (leaf_next_index (genesis_leaves logs ! i)) = successor_index logs i"
proof -
  consider "i = 0" | "i = 1" | k where "i = k + 2" "k < length logs"
    using assms(1) by atomize_elim presburger
  then show ?thesis
  proof cases
    case 3
    have "unat (of_nat k + 3 :: u64) = k + 3" if "k \<noteq> length logs - 1"
    proof -
      have "(of_nat k + 3 :: u64) = of_nat (k + 3)" by simp
      moreover have "k + 3 < 2 ^ 64" using assms(2) 3(2) that by linarith
      ultimately show ?thesis by (simp only: unat_of_nat) simp
    qed
    with 3(2) show ?thesis
      unfolding 3(1) genesis_leaves_nth(3) [OF 3(2)] successor_index_def by auto
  qed (simp_all add: genesis_leaves_nth [unfolded One_nat_def] successor_index_def)
qed

text \<open>A leaf names the leaf with the next larger key.\<close>

definition next_in_order :: "leaf_info list \<Rightarrow> leaf_info \<Rightarrow> leaf_info \<Rightarrow> bool" where
  "next_in_order leaves l l' \<longleftrightarrow> leaf_key l < leaf_key l'
     \<and> (\<forall>x \<in> set leaves. leaf_key x \<le> leaf_key l \<or> leaf_key l' \<le> leaf_key x)"

lemma next_in_order_keys:
  "next_in_order (genesis_leaves logs) l l' \<longleftrightarrow> leaf_key l < leaf_key l'
     \<and> (\<forall>k \<in> {0, MAX_B256_VALUE} \<union> fst ` set logs. k \<le> leaf_key l \<or> leaf_key l' \<le> k)"
  unfolding next_in_order_def genesis_leaf_keys [symmetric] by blast

lemma MAX_B256_VALUE_top [simp]: "k \<le> MAX_B256_VALUE"
  by (simp add: MAX_B256_VALUE_def)

lemma sorted_keys_less:
  fixes logs :: "(b256, b256) btree_map"
  assumes "sorted_wrt (<) (map fst logs)" "i < length logs" "j < length logs"
  shows "fst (logs ! i) < fst (logs ! j) \<longleftrightarrow> i < j"
proof -
  have less: "fst (logs ! a) < fst (logs ! b)" if "a < b" "b < length logs" for a b
    using assms(1) that by (simp add: sorted_wrt_iff_nth_less)
  show ?thesis
  proof (cases i j rule: linorder_cases)
    case greater
    then have "fst (logs ! j) < fst (logs ! i)" using less assms(2) by blast
    with greater show ?thesis by (simp add: not_less order.strict_implies_order)
  qed (use less [of i j] assms(3) in simp_all)
qed

lemma sorted_keys_le:
  fixes logs :: "(b256, b256) btree_map"
  assumes "sorted_wrt (<) (map fst logs)" "i < length logs" "j < length logs"
  shows "fst (logs ! i) \<le> fst (logs ! j) \<longleftrightarrow> i \<le> j"
  using sorted_keys_less [OF assms(1,3,2)] by (simp add: not_less [symmetric])

lemma leaf_key_nth:
  "leaf_key (genesis_leaves logs ! 0) = 0"
  "leaf_key (genesis_leaves logs ! 1) = MAX_B256_VALUE"
  "k < length logs \<Longrightarrow> leaf_key (genesis_leaves logs ! (k + 2)) = fst (logs ! k)"
  by (simp_all only: genesis_leaves_nth leaf_info.select_convs)

lemma genesis_leaves_linked:
  assumes "sorted_wrt (<) (map fst logs)" "logs \<noteq> []" "\<forall>k \<in> fst ` set logs. 0 < k \<and> k < MAX_B256_VALUE"
    and "i < length logs + 2" "i \<noteq> 1"
  shows "next_in_order (genesis_leaves logs) (genesis_leaves logs ! i) (genesis_leaves logs ! successor_index logs i)"
proof -
  let ?n = "length logs"
  have pos: "0 < ?n" using assms(2) by simp
  have inner: "0 < fst (logs ! k)" "fst (logs ! k) < MAX_B256_VALUE" if "k < ?n" for k
    using assms(3) that by auto
  have keys: "next_in_order (genesis_leaves logs) l l'"
    if "leaf_key l < leaf_key l'" "\<And>m. m < ?n \<Longrightarrow> fst (logs ! m) \<le> leaf_key l \<or> leaf_key l' \<le> fst (logs ! m)" for l l'
    using that by (auto simp: next_in_order_keys in_set_conv_nth) (metis fst_conv)
  note le = sorted_keys_le [OF assms(1)] and less = sorted_keys_less [OF assms(1)]
  consider "i = 0" | k where "i = k + 2" "k + 1 < ?n" | k where "i = k + 2" "k + 1 = ?n"
    using assms(4,5) pos by atomize_elim presburger
  then show ?thesis
  proof cases
    case 1
    then have succ: "successor_index logs i = 0 + 2" by (simp add: successor_index_def)
    show ?thesis
      unfolding succ unfolding 1
    proof (rule keys, unfold leaf_key_nth(3) [OF pos] leaf_key_nth(1))
      show "0 < fst (logs ! 0)" by (rule inner(1) [OF pos])
      show "fst (logs ! m) \<le> 0 \<or> fst (logs ! 0) \<le> fst (logs ! m)" if "m < ?n" for m
        using le [OF pos that] by simp
    qed
  next
    case 2
    then have succ: "successor_index logs i = (k + 1) + 2" and k: "k < ?n"
      by (simp_all add: successor_index_def)
    show ?thesis
      unfolding succ unfolding 2(1)
    proof (rule keys, unfold leaf_key_nth(3) [OF k] leaf_key_nth(3) [OF 2(2)])
      show "fst (logs ! k) < fst (logs ! (k + 1))"
        using less [OF k 2(2)] by simp
      show "fst (logs ! m) \<le> fst (logs ! k) \<or> fst (logs ! (k + 1)) \<le> fst (logs ! m)" if "m < ?n" for m
        using le [OF that k] le [OF 2(2) that] by linarith
    qed
  next
    case 3
    then have succ: "successor_index logs i = 1" and k: "k < ?n"
      by (simp_all add: successor_index_def)
    show ?thesis
      unfolding succ unfolding 3(1)
    proof (rule keys, unfold leaf_key_nth(3) [OF k] leaf_key_nth(2))
      show "fst (logs ! k) < MAX_B256_VALUE"
        by (rule inner(2) [OF k])
      show "fst (logs ! m) \<le> fst (logs ! k) \<or> MAX_B256_VALUE \<le> fst (logs ! m)" if "m < ?n" for m
        using le [OF that k] that 3(2) by linarith
    qed
  qed
qed

section \<open>The genesis state\<close>

definition contract_entries :: "genesis_ext \<Rightarrow> initial_genesis_input \<Rightarrow> (b256 \<times> b256) list" where
  "contract_entries G input =
     map (\<lambda>(addr, code). (account_properties_flat_key G addr, account_properties_hash G 1 code)) (initial_contracts input)"

text \<open>Additional entries must be new: no key twice, none of an account. Of two contracts at one address the later counts.\<close>

definition additional_fresh :: "genesis_ext \<Rightarrow> initial_genesis_input \<Rightarrow> bool" where
  "additional_fresh G input \<longleftrightarrow>
     distinct (map fst (additional_storage_raw input) @ map fst (flat_slots G (additional_storage input)))
     \<and> set (map fst (additional_storage_raw input) @ map fst (flat_slots G (additional_storage input)))
         \<inter> fst ` set (contract_entries G input) = {}"

definition genesis_state :: "genesis_ext \<Rightarrow> initial_genesis_input \<Rightarrow> b256 \<rightharpoonup> b256" where
  "genesis_state G input = map_of (rev (contract_entries G input)) ++ map_of (additional_storage_raw input)
     ++ map_of (flat_slots G (additional_storage input))"

definition commitment_of :: "genesis_ext \<Rightarrow> b256 \<Rightarrow> nat \<Rightarrow> b256" where
  "commitment_of G root n = blake2s256 G (b256_bytes root @ to_be_bytes 8 (of_nat n :: u64) @ replicate 8 0
     @ b256_bytes (genesis_block_hashes G (genesis_block_header G)) @ replicate 8 0)"

lemma genesis_commitment_exact:
  assumes "length logs + 2 \<le> 2 ^ 64"
  shows "build_initial_genesis_commitment G logs (genesis_block_header G) =
    Inr (commitment_of G (subtree G 64 (leaf_function G (genesis_leaves logs)) 0) (length logs + 2))"
proof -
  have "genesis_leaves logs \<noteq> []" by (simp add: genesis_leaves_def)
  then have "calculate_merkle_root G 64 (genesis_leaves logs) = Inr (subtree G 64 (leaf_function G (genesis_leaves logs)) 0)"
    using leD [OF assms] by (simp only: calculate_merkle_root_exact length_genesis_leaves if_False)
  moreover have "to_be_bytes 8 (0 :: u64) = replicate 8 0"
    unfolding to_be_bytes_def unsigned_0 by (rule be_of_nat_zero)
  ultimately show ?thesis
    by (simp only: build_initial_genesis_commitment_def build_initial_genesis_root_def MERKLE_TREE_DEPTH_def Let_def
        bind_res_simps split_conv commitment_of_def length_genesis_leaves)
qed

lemma insert_contract_fold:
  "fold (insert_contract G) cs m = fold (\<lambda>(k, v) m. fst (btree_insert k v m))
     (map (\<lambda>(addr, code). (account_properties_flat_key G addr, account_properties_hash G 1 code)) cs) m"
  by (induction cs arbitrary: m) (auto simp: insert_contract_def)

lemma insert_fresh_fold:
  assumes "sorted_wrt (<) (map fst m)"
  shows "fold_res (insert_fresh msg) kvs m =
    (if distinct (map fst kvs) \<and> set (map fst kvs) \<inter> dom (map_of m) = {}
     then Inr (fold (\<lambda>(k, v) m. fst (btree_insert k v m)) kvs m) else Inl (Bail msg))"
  unfolding insert_fresh_def by (rule bt.fresh_inserts [OF assms])

definition genesis_logs :: "genesis_ext \<Rightarrow> initial_genesis_input \<Rightarrow> (b256, b256) btree_map" where
  "genesis_logs G input = fold (\<lambda>(k, v) m. fst (btree_insert k v m))
     (contract_entries G input @ additional_storage_raw input @ flat_slots G (additional_storage input)) []"

lemma genesis_logs_sorted: "sorted_wrt (<) (map fst (genesis_logs G input))"
  unfolding genesis_logs_def by (rule bt.valid_fold) simp

lemma map_of_rev_distinct: "distinct (map fst kvs) \<Longrightarrow> map_of (rev kvs) = map_of kvs"
  by (metis distinct_rev map_of_inject_set rev_map set_rev)

lemma genesis_logs_lookup:
  assumes "additional_fresh G input"
  shows "map_of (genesis_logs G input) = genesis_state G input"
  using assms unfolding genesis_logs_def genesis_state_def additional_fresh_def
  by (subst bt.lookup_fold) (auto simp: map_of_rev_distinct)

lemma build_genesis_steps:
  "build_genesis_root_hash G input =
     (if additional_fresh G input
      then build_initial_genesis_commitment G (genesis_logs G input) (genesis_block_header G)
      else Inl (Bail (if distinct (map fst (additional_storage_raw input))
            \<and> fst ` set (additional_storage_raw input) \<inter> fst ` set (contract_entries G input) = {}
          then ''duplicate flattened storage key'' else ''duplicate storage key in additional_storage_raw'')))"
proof -
  let ?ins = "\<lambda>kvs m. fold (\<lambda>(k, v) m. fst (btree_insert k v m)) kvs m"
  let ?c = "?ins (contract_entries G input) []"
  let ?r = "?ins (additional_storage_raw input) ?c"
  have c: "sorted_wrt (<) (map fst ?c)" "dom (map_of ?c) = fst ` set (contract_entries G input)"
    using bt.valid_fold [of "[]"] bt.lookup_fold [of "[]" "contract_entries G input"]
    by (simp_all add: dom_map_of_conv_image_fst)
  have r: "sorted_wrt (<) (map fst ?r)"
    "dom (map_of ?r) = fst ` set (contract_entries G input) \<union> fst ` set (additional_storage_raw input)"
    using bt.valid_fold [OF c(1)] bt.lookup_fold [OF c(1), of "additional_storage_raw input"] c(2)
    by (simp_all add: dom_map_of_conv_image_fst Un_commute)
  show ?thesis
    unfolding build_genesis_root_hash_def insert_contract_fold contract_entries_def [symmetric]
      insert_fresh_fold [OF c(1)] c(2)
    by (auto simp: insert_fresh_fold [OF r(1)] r(2) additional_fresh_def genesis_logs_def)
qed

section \<open>The initial contracts\<close>

fun source_of :: "contract_deployment \<Rightarrow> contract_source" where
  "source_of (Direct source) = source"
| "source_of (SystemProxy source) = source"

fun placed :: "ext \<Rightarrow> genesis_ext \<Rightarrow> bytes \<Rightarrow> (address \<times> contract_deployment) \<times> bytes \<Rightarrow> (address \<times> bytes) list" where
  "placed E G proxy ((addr, Direct _), code) = [(addr, code)]"
| "placed E G proxy ((addr, SystemProxy _), code) = [(addr, proxy), (generate_random_address E G code, code)]"

fun wired :: "ext \<Rightarrow> genesis_ext \<Rightarrow> (address \<times> contract_deployment) \<times> bytes \<Rightarrow> (address \<times> address) list" where
  "wired E G ((addr, Direct _), code) = []"
| "wired E G ((addr, SystemProxy _), code) = [(addr, generate_random_address E G code)]"

lemma add_initial_contract_simps:
  "add_initial_contract E G load proxy (a, Direct s) (c, p) =
     bind_res (load s) (\<lambda>code. Inr (c @ [(a, code)], p))"
  "add_initial_contract E G load proxy (a, SystemProxy s) (c, p) =
     bind_res (load s) (\<lambda>code. Inr (c @ [(a, proxy), (generate_random_address E G code, code)],
       p @ [(a, generate_random_address E G code)]))"
  by (simp_all add: add_initial_contract_def Let_def)

lemma add_initial_contracts:
  "fold_res (add_initial_contract E G load proxy) cs (c, p) =
     bind_res (map_res (\<lambda>(_, d). load (source_of d)) cs) (\<lambda>codes.
       Inr (c @ concat (map (placed E G proxy) (zip cs codes)), p @ concat (map (wired E G) (zip cs codes))))"
proof (induction cs arbitrary: c p)
  case (Cons x cs)
  obtain a d where x: "x = (a, d)" by (cases x)
  show ?case
    by (cases d) (simp_all add: x add_initial_contract_simps Cons bind_res_assoc)
qed simp

lemma wired_addresses:
  "length codes = length cs \<Longrightarrow> map fst (concat (map (wired E G) (zip cs codes))) =
     map fst (filter (\<lambda>(_, d). case d of SystemProxy _ \<Rightarrow> True | Direct _ \<Rightarrow> False) cs)"
proof (induction codes cs rule: list_induct2)
  case (Cons code codes c cs)
  obtain a d where "c = (a, d)" by (cases c)
  with Cons show ?case by (cases d) simp_all
qed simp

lemma additional_storage_lookup:
  assumes "distinct (map fst ps)" "SYSTEM_CONTRACT_PROXY_ADMIN \<notin> fst ` set ps"
  shows "map_of (construct_additional_storage ps) =
    (map_of (map (\<lambda>(a, i). (a, proxy_storage_entries i)) ps))
      (SYSTEM_CONTRACT_PROXY_ADMIN \<mapsto> [(SYSTEM_PROXY_ADMIN_OWNER_SLOT, address_to_b256 GENESIS_COMPLEX_UPGRADER_ADDR)])"
proof -
  let ?kvs = "map (\<lambda>(a, i). (a, proxy_storage_entries i)) ps"
  let ?admin = "[(SYSTEM_CONTRACT_PROXY_ADMIN, [(SYSTEM_PROXY_ADMIN_OWNER_SLOT, address_to_b256 GENESIS_COMPLEX_UPGRADER_ADDR)])]"
  have fst: "map fst ?kvs = map fst ps" by (simp add: case_prod_beta o_def)
  have "construct_additional_storage ps = fold (\<lambda>(k, v) m. fst (btree_insert k v m)) ?kvs ?admin"
    by (simp add: construct_additional_storage_def fold_map case_prod_unfold o_def)
  moreover have "map_of (rev ?kvs) = map_of ?kvs"
    by (rule map_of_rev_distinct) (simp only: fst assms(1))
  moreover have "map_of ?kvs SYSTEM_CONTRACT_PROXY_ADMIN = None"
    unfolding map_of_eq_None_iff set_map [symmetric] fst using assms(2) by simp
  ultimately show ?thesis
    by (simp add: bt.lookup_fold) (auto simp: fun_eq_iff map_add_def split: option.splits)
qed

lemma proxy_storage_entries_lookup:
  "map_of (proxy_storage_entries impl) = [EIP1967_IMPLEMENTATION_SLOT \<mapsto> address_to_b256 impl,
     EIP1967_ADMIN_SLOT \<mapsto> address_to_b256 SYSTEM_CONTRACT_PROXY_ADMIN]"
  by (simp only: proxy_storage_entries_def btree_insert_lookup map_of.simps)

lemma initial_contracts_distinct: "distinct (map fst INITIAL_CONTRACTS)"
  by (simp add: INITIAL_CONTRACTS_def GENESIS_COMPLEX_UPGRADER_ADDR_def SYSTEM_CONTRACT_PROXY_ADMIN_def
      DETERMINISTIC_CREATE2_ADDRESS_def)

lemma proxy_admin_direct: "(SYSTEM_CONTRACT_PROXY_ADMIN, SystemProxy s) \<notin> set INITIAL_CONTRACTS"
  by (simp add: INITIAL_CONTRACTS_def GENESIS_COMPLEX_UPGRADER_ADDR_def SYSTEM_CONTRACT_PROXY_ADMIN_def
      DETERMINISTIC_CREATE2_ADDRESS_def)

lemma build_from_source_loader_Inr:
  "build_from_source_loader E G load = Inr input \<longleftrightarrow> (\<exists>proxy codes.
     load (L1ContractName ''SystemContractProxy'') = Inr proxy
     \<and> list_all2 (\<lambda>c code. load (source_of (snd c)) = Inr code) INITIAL_CONTRACTS codes
     \<and> input = \<lparr>initial_contracts = concat (map (placed E G proxy) (zip INITIAL_CONTRACTS codes)),
         additional_storage = construct_additional_storage (concat (map (wired E G) (zip INITIAL_CONTRACTS codes))),
         additional_storage_raw = []\<rparr>)"
  unfolding build_from_source_loader_def add_initial_contracts
  by (auto simp: map_res_eq_Inr case_prod_unfold)

lemma genesis_proxy_wired:
  assumes "build_from_source_loader E G load = Inr input" "(addr, SystemProxy source) \<in> set INITIAL_CONTRACTS"
  obtains proxy code slots where "load (L1ContractName ''SystemContractProxy'') = Inr proxy" "load source = Inr code"
    "(addr, proxy) \<in> set (initial_contracts input)"
    "(generate_random_address E G code, code) \<in> set (initial_contracts input)"
    "map_of (additional_storage input) addr = Some slots"
    "map_of slots = [EIP1967_IMPLEMENTATION_SLOT \<mapsto> address_to_b256 (generate_random_address E G code),
       EIP1967_ADMIN_SLOT \<mapsto> address_to_b256 SYSTEM_CONTRACT_PROXY_ADMIN]"
    "map_of (additional_storage input) SYSTEM_CONTRACT_PROXY_ADMIN =
       Some [(SYSTEM_PROXY_ADMIN_OWNER_SLOT, address_to_b256 GENESIS_COMPLEX_UPGRADER_ADDR)]"
proof -
  obtain proxy codes where proxy: "load (L1ContractName ''SystemContractProxy'') = Inr proxy"
    and codes: "list_all2 (\<lambda>c code. load (source_of (snd c)) = Inr code) INITIAL_CONTRACTS codes"
    and input: "input = \<lparr>initial_contracts = concat (map (placed E G proxy) (zip INITIAL_CONTRACTS codes)),
         additional_storage = construct_additional_storage (concat (map (wired E G) (zip INITIAL_CONTRACTS codes))),
         additional_storage_raw = []\<rparr>"
    using assms(1) unfolding build_from_source_loader_Inr by blast
  obtain code where code: "((addr, SystemProxy source), code) \<in> set (zip INITIAL_CONTRACTS codes)" "load source = Inr code"
    using assms(2) codes by (force simp: list_all2_conv_all_nth in_set_conv_nth)
  let ?ps = "concat (map (wired E G) (zip INITIAL_CONTRACTS codes))"
  have keys: "map fst ?ps = map fst (filter (\<lambda>(_, d). case d of SystemProxy _ \<Rightarrow> True | Direct _ \<Rightarrow> False) INITIAL_CONTRACTS)"
    using list_all2_lengthD [OF codes] by (intro wired_addresses) simp
  have "distinct (map fst ?ps)"
    unfolding keys by (rule distinct_map_filter [OF initial_contracts_distinct])
  moreover have "SYSTEM_CONTRACT_PROXY_ADMIN \<notin> set (map fst ?ps)"
    unfolding keys using proxy_admin_direct by (auto split: contract_deployment.splits)
  moreover have "(addr, generate_random_address E G code) \<in> set ?ps"
    using code(1) by force
  ultimately have storage:
    "map_of (additional_storage input) addr = Some (proxy_storage_entries (generate_random_address E G code))"
    "map_of (additional_storage input) SYSTEM_CONTRACT_PROXY_ADMIN =
       Some [(SYSTEM_PROXY_ADMIN_OWNER_SLOT, address_to_b256 GENESIS_COMPLEX_UPGRADER_ADDR)]"
    using additional_storage_lookup [of ?ps] proxy_admin_direct [of source] assms(2)
    by (auto simp: input map_of_map [unfolded map_prod_def] intro!: )
  have "(addr, proxy) \<in> set (initial_contracts input)" "(generate_random_address E G code, code) \<in> set (initial_contracts input)"
    using code(1) by (force simp: input)+
  with proxy code(2) storage that [OF _ _ _ _ storage(1) proxy_storage_entries_lookup storage(2)] show ?thesis by blast
qed

end
