(* ===== verification/Replay.thy ===== *)
theory Replay
  imports Manifest Tx_Log "HOL-Library.Sublist"
begin

section \<open>Replaying Safe bundles\<close>

text \<open>
  \<^verbatim>\<open>commands/dev/execute_safe.rs\<close>: the transactions of a bundle file are submitted one after the
  other, each awaited before the next, and on success appended to the executed-bundle file and to
  the log of hashes that the verifier reads. The node is a parameter over a world that submissions
  and receipts change and the queries read; the signer, the number parsers, \<^verbatim>\<open>Address::create2\<close> and
  the JSON coder of the executed bundle are third-party code.
\<close>

type_synonym u128 = "128 word"

record executed_tx =
  ex_tx_hash :: string
  ex_to :: string
  ex_data :: string
  ex_value :: string
  ex_status :: u64

record call_request =
  rq_from :: address
  rq_to :: address
  rq_input :: bytes
  rq_value :: u256

record tx_request = call_request +
  rq_nonce :: u64
  rq_gas_limit :: u64
  rq_gas_price :: u128
  rq_chain_id :: "u64 option"

record 'w chain_node =
  node_gas_price :: "'w \<Rightarrow> u128 option"
  node_pending_nonce :: "'w \<Rightarrow> address \<Rightarrow> u64 option"
  node_chain_id :: "'w \<Rightarrow> u64 option"
  node_estimate_gas :: "'w \<Rightarrow> call_request \<Rightarrow> string + u64"
  node_code_at :: "'w \<Rightarrow> address \<Rightarrow> bytes option"
  node_send :: "'w \<Rightarrow> tx_request \<Rightarrow> b256 option \<times> 'w"
  node_await :: "'w \<Rightarrow> b256 \<Rightarrow> bool option \<times> 'w"
  node_set_balance :: "'w \<Rightarrow> address \<Rightarrow> unit option \<times> 'w"

record replay_ext =
  signer_from_slice :: "bytes \<Rightarrow> address option"
  u256_from_hex :: "string \<Rightarrow> u256 option"
  u256_from_str :: "string \<Rightarrow> u256 option"
  alloy_create2 :: "address \<Rightarrow> b256 \<Rightarrow> b256 \<Rightarrow> address"
  executed_parse :: "string \<Rightarrow> executed_tx list option"
  executed_print :: "executed_tx list \<Rightarrow> string"

text \<open>The place \<^verbatim>\<open>--out\<close> names: the executed-bundle file and, when the path has a directory part, the
  \<^verbatim>\<open>transactions.txt\<close> beside it.\<close>

record out_place =
  executed_file :: "file_contents option"
  hash_log :: string
  out_has_parent :: bool
  out_parent_creatable :: bool
  executed_writable :: bool
  log_writable :: bool

subsection \<open>Gas\<close>

definition GAS_ESTIMATE_BUFFER_BPS :: nat where "GAS_ESTIMATE_BUFFER_BPS = 12500"

definition PER_TX_GAS_LIMIT_CAP :: u64 where "PER_TX_GAS_LIMIT_CAP = 20000000"

definition GAS_PRICE_FLOOR_WEI :: u128 where "GAS_PRICE_FLOOR_WEI = 1000000000"

definition GAS_PRICE_MULTIPLIER_BPS :: u128 where "GAS_PRICE_MULTIPLIER_BPS = 30000"

definition CREATE2_FALLBACK_GAS :: u64 where "CREATE2_FALLBACK_GAS = 10000000"

text \<open>\<^verbatim>\<open>saturating_mul\<close>\<close>

definition saturating_mul :: "'a::len word \<Rightarrow> nat \<Rightarrow> 'a word" where
  "saturating_mul a b = of_nat (min (unat a * b) (2 ^ LENGTH('a) - 1))"

definition resolve_gas_price :: "'w chain_node \<Rightarrow> 'w \<Rightarrow> u128 \<Rightarrow> u128 res" where
  "resolve_gas_price N w multiplier_bps =
     bind_res (ok_or (Bail ''eth_gasPrice failed'') (node_gas_price N w)) (\<lambda>live.
       Inr (max (saturating_mul live (unat multiplier_bps) div 10000) GAS_PRICE_FLOOR_WEI))"

definition buffered_gas :: "u64 \<Rightarrow> u64" where
  "buffered_gas est = min (saturating_mul est GAS_ESTIMATE_BUFFER_BPS div 10000) PER_TX_GAS_LIMIT_CAP"

subsection \<open>One transaction\<close>

definition parse_decimal_or_hex_u256 :: "replay_ext \<Rightarrow> string \<Rightarrow> u256 res" where
  "parse_decimal_or_hex_u256 X raw =
     (case strip_prefix ''0x'' (trim raw) of
        Some hex_str \<Rightarrow>
          if hex_str = [] then Inr 0 else ok_or (Bail ''invalid hex u256'') (u256_from_hex X hex_str)
      | None \<Rightarrow> ok_or (Bail ''invalid decimal u256'') (u256_from_str X (trim raw)))"

definition decode_safe_tx :: "ext \<Rightarrow> replay_ext \<Rightarrow> json \<Rightarrow> (address \<times> bytes \<times> u256) res" where
  "decode_safe_tx E X tx =
     bind_res (ok_or (Bail ''Safe tx missing to'') (get_str tx ''to'')) (\<lambda>to_str.
     bind_res (ok_or (Bail ''Safe tx to is not a valid address'') (address_from_str E to_str)) (\<lambda>to.
     bind_res (ok_or (Bail ''Safe tx missing data'') (get_str tx ''data'')) (\<lambda>data_hex.
     bind_res (ok_or (Bail ''Safe tx data is not valid hex'') (hex_decode E (trim_start_matches ''0x'' data_hex))) (\<lambda>input.
     bind_res (ok_or (Bail ''Safe tx missing value'') (get_str tx ''value'')) (\<lambda>value_str.
     bind_res (parse_decimal_or_hex_u256 X value_str) (\<lambda>amount.
     Inr (to, input, amount)))))))"

definition receipt_input :: "ext \<Rightarrow> json \<Rightarrow> bytes res" where
  "receipt_input E tx =
     bind_res (ok_or (Bail ''Safe tx missing data while building executed bundle'') (get_str tx ''data'')) (\<lambda>data_hex.
     ok_or (Bail ''Safe tx data is not valid hex while building executed bundle'')
       (hex_decode E (trim_start_matches ''0x'' data_hex)))"

fun str_contains :: "string \<Rightarrow> string \<Rightarrow> bool" where
  "str_contains p [] \<longleftrightarrow> p = []"
| "str_contains p (c # cs) \<longleftrightarrow> starts_with p (c # cs) \<or> str_contains p cs"

definition CREATE2_FACTORY :: string where
  "CREATE2_FACTORY = ''4e59b44847b379578588920ca78fbf26c0b4956c''"

text \<open>\<^verbatim>\<open>{:#x}\<close> of an address and of a hash.\<close>

definition address_text :: "ext \<Rightarrow> address \<Rightarrow> string" where
  "address_text E a = ''0x'' @ hex_encode E (address_bytes a)"

definition hash_line :: "ext \<Rightarrow> b256 \<Rightarrow> string" where
  "hash_line E h = ''0x'' @ hex_encode E (b256_bytes h)"

definition targets_create2_factory :: "ext \<Rightarrow> address \<Rightarrow> bool" where
  "targets_create2_factory E to = str_contains CREATE2_FACTORY (map to_ascii_lowercase (address_text E to))"

definition should_skip_idempotent :: "ext \<Rightarrow> replay_ext \<Rightarrow> 'w chain_node \<Rightarrow> 'w \<Rightarrow> address \<Rightarrow> bytes \<Rightarrow> bool" where
  "should_skip_idempotent E X N w to input =
     (if targets_create2_factory E to \<and> 32 \<le> length input
      then (case node_code_at N w (alloy_create2 X to (from_be_bytes (take 32 input)) (keccak256 E (drop 32 input))) of
              Some code \<Rightarrow> code \<noteq> []
            | None \<Rightarrow> False)
      else False)"

text \<open>What the two replay commands differ in: sender, gas price, the reverts they take for work already
  done, and whether the chain id is set; \<open>keep\<close> says whether an \<^verbatim>\<open>--out\<close> path was given.\<close>

record 'w replayer =
  rp_node :: "'w chain_node"
  rp_sender :: address
  rp_base_nonce :: u64
  rp_price :: u128
  rp_idempotent :: "string list"
  rp_chain_id :: "u64 option"
  keep :: bool

text \<open>The gas limit of a transaction; \<open>None\<close> skips it.\<close>

definition gas_limit_for :: "ext \<Rightarrow> replay_ext \<Rightarrow> 'w replayer \<Rightarrow> 'w \<Rightarrow> address \<Rightarrow> bytes \<Rightarrow> u256 \<Rightarrow> u64 option res" where
  "gas_limit_for E X R w to input amount =
     (case node_estimate_gas (rp_node R) w \<lparr>rq_from = rp_sender R, rq_to = to, rq_input = input, rq_value = amount\<rparr> of
        Inr est \<Rightarrow> Inr (Some (buffered_gas est))
      | Inl err \<Rightarrow>
          if should_skip_idempotent E X (rp_node R) w to input then Inr None
          else if list_ex (\<lambda>sig. str_contains sig err) (rp_idempotent R) then Inr None
          else if targets_create2_factory E to then Inr (Some CREATE2_FALLBACK_GAS)
          else Inl (Bail ''eth_estimateGas for Safe tx''))"

record 'w replay_state =
  rs_world :: 'w
  rs_skipped :: nat
  rs_executed :: "executed_tx list"
  rs_hashes :: "b256 list"

definition tx_request_for :: "'w replayer \<Rightarrow> nat \<Rightarrow> nat \<Rightarrow> address \<Rightarrow> bytes \<Rightarrow> u256 \<Rightarrow> u64 \<Rightarrow> tx_request" where
  "tx_request_for R idx skipped to input amount gas =
     \<lparr>rq_from = rp_sender R, rq_to = to, rq_input = input, rq_value = amount,
      rq_nonce = rp_base_nonce R + of_nat (idx - skipped), rq_gas_limit = gas, rq_gas_price = rp_price R,
      rq_chain_id = rp_chain_id R\<rparr>"

definition submit :: "ext \<Rightarrow> 'w replayer \<Rightarrow> json \<Rightarrow> tx_request \<Rightarrow> 'w replay_state \<Rightarrow> unit res \<times> 'w replay_state" where
  "submit E R tx req st =
     (case node_send (rp_node R) (rs_world st) req of
        (None, w) \<Rightarrow> (Inl (Bail ''eth_sendTransaction for Safe tx''), st\<lparr>rs_world := w\<rparr>)
      | (Some tx_hash, w) \<Rightarrow>
          (case node_await (rp_node R) w tx_hash of
             (None, w) \<Rightarrow> (Inl (Bail ''await receipt for Safe tx''), st\<lparr>rs_world := w\<rparr>)
           | (Some status, w) \<Rightarrow>
               if \<not> status then (Inl (Bail ''Safe tx reverted (status=0)''), st\<lparr>rs_world := w\<rparr>)
               else if keep R then
                 (case receipt_input E tx of
                    Inl e \<Rightarrow> (Inl e, st\<lparr>rs_world := w\<rparr>)
                  | Inr input \<Rightarrow> (Inr (), st\<lparr>rs_world := w,
                      rs_executed := rs_executed st @ [\<lparr>ex_tx_hash = hash_line E tx_hash, ex_to = address_text E (rq_to req),
                        ex_data = ''0x'' @ hex_encode E input, ex_value = show_nat (unat (rq_value req)),
                        ex_status = (if status then 1 else 0)\<rparr>],
                      rs_hashes := rs_hashes st @ [tx_hash]\<rparr>))
               else (Inr (), st\<lparr>rs_world := w\<rparr>)))"

definition replay_tx :: "ext \<Rightarrow> replay_ext \<Rightarrow> 'w replayer \<Rightarrow> nat \<Rightarrow> json \<Rightarrow> 'w replay_state \<Rightarrow> unit res \<times> 'w replay_state" where
  "replay_tx E X R idx tx st =
     (case decode_safe_tx E X tx of
        Inl e \<Rightarrow> (Inl e, st)
      | Inr (to, input, amount) \<Rightarrow>
          (case gas_limit_for E X R (rs_world st) to input amount of
             Inl e \<Rightarrow> (Inl e, st)
           | Inr None \<Rightarrow> (Inr (), st\<lparr>rs_skipped := rs_skipped st + 1\<rparr>)
           | Inr (Some gas) \<Rightarrow> submit E R tx (tx_request_for R idx (rs_skipped st) to input amount gas) st))"

fun replay_loop ::
    "ext \<Rightarrow> replay_ext \<Rightarrow> 'w replayer \<Rightarrow> nat \<Rightarrow> json list \<Rightarrow> 'w replay_state \<Rightarrow> unit res \<times> 'w replay_state" where
  "replay_loop E X R idx [] st = (Inr (), st)"
| "replay_loop E X R idx (tx # txs) st =
     (case replay_tx E X R idx tx st of
        (Inl e, st') \<Rightarrow> (Inl e, st')
      | (Inr _, st') \<Rightarrow> replay_loop E X R (Suc idx) txs st')"

subsection \<open>Outputs\<close>

definition persist_executed_bundle :: "replay_ext \<Rightarrow> executed_tx list \<Rightarrow> out_place \<Rightarrow> unit res \<times> out_place" where
  "persist_executed_bundle X bundle d =
     (if out_has_parent d \<and> \<not> out_parent_creatable d then (Inl (Bail ''failed to create executed-bundle output dir''), d)
      else if \<not> executed_writable d then (Inl (Bail ''failed to write executed-bundle file''), d)
      else (Inr (), d\<lparr>executed_file := Some (Text (executed_print X bundle))\<rparr>))"

definition append_transaction_hash :: "ext \<Rightarrow> b256 \<Rightarrow> out_place \<Rightarrow> unit res \<times> out_place" where
  "append_transaction_hash E tx_hash d =
     (if \<not> out_has_parent d then (Inr (), d)
      else if \<not> out_parent_creatable d then (Inl (Bail ''failed to create transactions.txt output dir''), d)
      else if \<not> log_writable d then (Inl (Bail ''failed to open transaction hash log''), d)
      else (Inr (), d\<lparr>hash_log := hash_log d @ hash_line E tx_hash @ [CHR 0x0A]\<rparr>))"

fun append_hashes :: "ext \<Rightarrow> b256 list \<Rightarrow> out_place \<Rightarrow> unit res \<times> out_place" where
  "append_hashes E [] d = (Inr (), d)"
| "append_hashes E (h # hs) d =
     (case append_transaction_hash E h d of (Inl e, d') \<Rightarrow> (Inl e, d') | (Inr _, d') \<Rightarrow> append_hashes E hs d')"

definition load_executed :: "replay_ext \<Rightarrow> out_place option \<Rightarrow> executed_tx list res" where
  "load_executed X out_path = (case out_path of
     None \<Rightarrow> Inr []
   | Some d \<Rightarrow> (case executed_file d of
       None \<Rightarrow> Inr []
     | Some Unreadable \<Rightarrow> Inl (Bail ''failed to read existing executed-bundle file'')
     | Some (Text raw) \<Rightarrow> ok_or (Bail ''failed to parse existing executed-bundle file'') (executed_parse X raw)))"

definition flush_out ::
    "ext \<Rightarrow> replay_ext \<Rightarrow> executed_tx list \<Rightarrow> 'w replay_state \<Rightarrow> out_place option \<Rightarrow> unit res \<times> out_place option" where
  "flush_out E X executed st out_path = (case out_path of
     None \<Rightarrow> (Inr (), None)
   | Some d \<Rightarrow>
       if rs_executed st = [] then (Inr (), Some d)
       else (case persist_executed_bundle X (executed @ rs_executed st) d of
           (Inl e, d') \<Rightarrow> (Inl e, Some d')
         | (Inr _, d') \<Rightarrow> map_prod id Some (append_hashes E (rs_hashes st) d')))"

subsection \<open>One bundle\<close>

definition read_safe_txs :: "json_io \<Rightarrow> string option \<Rightarrow> json list res" where
  "read_safe_txs J contents =
     bind_res (ok_or (Bail ''Failed to read Safe file'') contents) (\<lambda>content.
     bind_res (ok_or (Bail ''Failed to parse Safe file as JSON'') (json_parse J content)) (\<lambda>root.
     ok_or (Bail ''Safe file missing or invalid transactions array'')
       (Option.bind (json_get root ''transactions'') json_as_array)))"

text \<open>The loop over the transactions and, only if it went through, the outputs.\<close>

definition replay_and_flush ::
    "ext \<Rightarrow> replay_ext \<Rightarrow> 'w replayer \<Rightarrow> json list \<Rightarrow> 'w \<Rightarrow> out_place option \<Rightarrow> unit res \<times> 'w \<times> out_place option" where
  "replay_and_flush E X R txs w out_path =
     (case load_executed X out_path of
        Inl e \<Rightarrow> (Inl e, w, out_path)
      | Inr executed \<Rightarrow>
          (case replay_loop E X R 0 txs \<lparr>rs_world = w, rs_skipped = 0, rs_executed = [], rs_hashes = []\<rparr> of
             (Inl e, st) \<Rightarrow> (Inl e, rs_world st, out_path)
           | (Inr _, st) \<Rightarrow> (case flush_out E X executed st out_path of (r, out') \<Rightarrow> (r, rs_world st, out'))))"

definition IDEMPOTENT_SIGNED :: "string list" where
  "IDEMPOTENT_SIGNED = [''876e8b23'', ''0dfb42bf'', ''b926a6b0'']"

definition IDEMPOTENT_UNLOCKED :: "string list" where
  "IDEMPOTENT_UNLOCKED = [''1a21feed'', ''876e8b23'', ''61733a89'', ''0dfb42bf'', ''eda2fbb1'', ''b926a6b0'']"

definition strip_0x_once :: "string \<Rightarrow> string" where
  "strip_0x_once s = (case strip_prefix ''0x'' s of Some t \<Rightarrow> t | None \<Rightarrow> s)"

definition signer_of_key :: "ext \<Rightarrow> replay_ext \<Rightarrow> string \<Rightarrow> address res" where
  "signer_of_key E X private_key =
     bind_res (ok_or (Bail ''invalid private key (expected hex)'') (hex_decode E (strip_0x_once private_key))) (\<lambda>pk_bytes.
     ok_or (Bail ''invalid private key (failed to construct signer)'') (signer_from_slice X pk_bytes))"

definition signed_replayer ::
    "ext \<Rightarrow> replay_ext \<Rightarrow> 'w chain_node option \<Rightarrow> string \<Rightarrow> bool \<Rightarrow> u128 \<Rightarrow> 'w \<Rightarrow> 'w replayer res" where
  "signed_replayer E X connected private_key has_out multiplier_bps w =
     bind_res (signer_of_key E X private_key) (\<lambda>from.
     bind_res (ok_or (Bail ''invalid L1 RPC URL'') connected) (\<lambda>N.
     bind_res (ok_or (Bail ''eth_getTransactionCount(pending)'') (node_pending_nonce N w from)) (\<lambda>base_nonce.
     bind_res (resolve_gas_price N w multiplier_bps) (\<lambda>gas_price.
     Inr \<lparr>rp_node = N, rp_sender = from, rp_base_nonce = base_nonce, rp_price = gas_price,
          rp_idempotent = IDEMPOTENT_SIGNED, rp_chain_id = None, keep = has_out\<rparr>))))"

definition execute_one_bundle ::
    "ext \<Rightarrow> replay_ext \<Rightarrow> json_io \<Rightarrow> 'w chain_node option \<Rightarrow> string option \<Rightarrow> string \<Rightarrow> u128 \<Rightarrow> 'w \<Rightarrow> out_place option
      \<Rightarrow> unit res \<times> 'w \<times> out_place option" where
  "execute_one_bundle E X J connected contents private_key multiplier_bps w out_path =
     (case bind_res (read_safe_txs J contents) (\<lambda>safe_txs.
         bind_res (signed_replayer E X connected private_key (out_path \<noteq> None) multiplier_bps w) (\<lambda>R. Inr (safe_txs, R))) of
        Inl e \<Rightarrow> (Inl e, w, out_path)
      | Inr (safe_txs, R) \<Rightarrow> replay_and_flush E X R safe_txs w out_path)"

definition unlocked_replayer :: "'w chain_node option \<Rightarrow> address \<Rightarrow> bool \<Rightarrow> 'w \<Rightarrow> 'w replayer res" where
  "unlocked_replayer connected from has_out w =
     bind_res (ok_or (Bail ''connect L1 provider'') connected) (\<lambda>N.
     bind_res (ok_or (Bail ''eth_chainId'') (node_chain_id N w)) (\<lambda>chain.
     bind_res (ok_or (Bail ''eth_getTransactionCount(pending)'') (node_pending_nonce N w from)) (\<lambda>base_nonce.
     Inr \<lparr>rp_node = N, rp_sender = from, rp_base_nonce = base_nonce, rp_price = GAS_PRICE_FLOOR_WEI,
          rp_idempotent = IDEMPOTENT_UNLOCKED, rp_chain_id = Some chain, keep = has_out\<rparr>)))"

definition execute_one_bundle_unlocked ::
    "ext \<Rightarrow> replay_ext \<Rightarrow> json_io \<Rightarrow> 'w chain_node option \<Rightarrow> string option \<Rightarrow> address \<Rightarrow> 'w \<Rightarrow> out_place option
      \<Rightarrow> unit res \<times> 'w \<times> out_place option" where
  "execute_one_bundle_unlocked E X J connected contents from w out_path =
     (case bind_res (read_safe_txs J contents) (\<lambda>safe_txs.
         bind_res (unlocked_replayer connected from (out_path \<noteq> None) w) (\<lambda>R. Inr (safe_txs, R))) of
        Inl e \<Rightarrow> (Inl e, w, out_path)
      | Inr (safe_txs, R) \<Rightarrow> replay_and_flush E X R safe_txs w out_path)"

section \<open>What is submitted\<close>

text \<open>A node that also keeps the requests it was sent, with the hash it answered.\<close>

definition recording :: "'w chain_node \<Rightarrow> ('w \<times> (tx_request \<times> b256 option) list) chain_node" where
  "recording N = \<lparr>node_gas_price = (\<lambda>(w, l). node_gas_price N w), node_pending_nonce = (\<lambda>(w, l). node_pending_nonce N w),
     node_chain_id = (\<lambda>(w, l). node_chain_id N w), node_estimate_gas = (\<lambda>(w, l). node_estimate_gas N w),
     node_code_at = (\<lambda>(w, l). node_code_at N w),
     node_send = (\<lambda>(w, l) q. case node_send N w q of (h, w') \<Rightarrow> (h, (w', l @ [(q, h)]))),
     node_await = (\<lambda>(w, l) h. case node_await N w h of (s, w') \<Rightarrow> (s, (w', l))),
     node_set_balance = (\<lambda>(w, l) a. case node_set_balance N w a of (r, w') \<Rightarrow> (r, (w', l)))\<rparr>"

definition call_of :: "tx_request \<Rightarrow> address \<times> bytes \<times> u256" where
  "call_of q = (rq_to q, rq_input q, rq_value q)"

definition always_estimates :: "'w chain_node \<Rightarrow> bool" where
  "always_estimates N \<longleftrightarrow> (\<forall>w c. \<exists>g. node_estimate_gas N w c = Inr g)"

definition decoded :: "ext \<Rightarrow> replay_ext \<Rightarrow> json \<Rightarrow> (address \<times> bytes \<times> u256) option" where
  "decoded E X tx = (case decode_safe_tx E X tx of Inr c \<Rightarrow> Some c | Inl _ \<Rightarrow> None)"

definition well_formed_request :: "'w replayer \<Rightarrow> tx_request \<Rightarrow> bool" where
  "well_formed_request R q \<longleftrightarrow> rq_from q = rp_sender R \<and> rq_gas_price q = rp_price R \<and> rq_chain_id q = rp_chain_id R
     \<and> rq_gas_limit q \<le> PER_TX_GAS_LIMIT_CAP"

lemma gas_limit_capped: "gas_limit_for E X R w to input amount = Inr (Some g) \<Longrightarrow> g \<le> PER_TX_GAS_LIMIT_CAP"
  by (auto simp: gas_limit_for_def buffered_gas_def CREATE2_FALLBACK_GAS_def PER_TX_GAS_LIMIT_CAP_def
      split: sum.splits if_splits)

lemma submit_recorded:
  assumes "rp_node R = recording N" "submit E R tx q st = (r, st')"
  shows "\<exists>h. snd (rs_world st') = snd (rs_world st) @ [(q, h)] \<and> rs_skipped st' = rs_skipped st
    \<and> (r = Inr () \<longrightarrow> h \<noteq> None
        \<and> (keep R \<longrightarrow> rs_hashes st' = rs_hashes st @ [the h]
            \<and> (\<exists>x. rs_executed st' = rs_executed st @ [x] \<and> ex_tx_hash x = hash_line E (the h)))
        \<and> (\<not> keep R \<longrightarrow> rs_hashes st' = rs_hashes st \<and> rs_executed st' = rs_executed st))"
  using assms(2) by (auto simp: submit_def assms(1) recording_def split: prod.splits option.splits if_splits sum.splits)

text \<open>The invariant of the loop: the requests since it started, for the transactions from \<open>idx\<close> on.\<close>

definition replayed :: "ext \<Rightarrow> replay_ext \<Rightarrow> 'w replayer \<Rightarrow> nat \<Rightarrow> json list \<Rightarrow> (tx_request \<times> b256 option) list \<Rightarrow> bool" where
  "replayed E X R n txs new \<longleftrightarrow>
     map (rq_nonce \<circ> fst) new = map (\<lambda>k. rp_base_nonce R + of_nat (n + k)) [0 ..< length new]
     \<and> list_all (well_formed_request R \<circ> fst) new
     \<and> subseq (map (call_of \<circ> fst) new) (List.map_filter (decoded E X) txs)"

lemma replayed_Nil [simp]: "replayed E X R n txs []"
  by (simp add: replayed_def)

lemma replayed_skip: "replayed E X R n txs new \<Longrightarrow> replayed E X R n (tx # txs) new"
  by (auto simp: replayed_def map_filter_simps split: option.splits)

lemma replayed_send:
  assumes "replayed E X R (Suc n) txs new" "decode_safe_tx E X tx = Inr (to, input, amount)"
    "gas \<le> PER_TX_GAS_LIMIT_CAP" "idx - sk = n"
  shows "replayed E X R n (tx # txs) ((tx_request_for R idx sk to input amount gas, h) # new)"
proof -
  have "map (\<lambda>k. rp_base_nonce R + of_nat (n + k)) [0 ..< Suc (length new)] =
      (rp_base_nonce R + of_nat n) # map (\<lambda>k. rp_base_nonce R + of_nat (Suc n + k)) [0 ..< length new]"
    by (subst upt_conv_Cons) (simp_all add: map_Suc_upt [symmetric] del: map_Suc_upt upt_Suc)
  with assms show ?thesis
    by (auto simp: replayed_def map_filter_simps decoded_def well_formed_request_def tx_request_for_def call_of_def
        simp del: upt_Suc)
qed

lemma replay_tx_cases:
  assumes "replay_tx E X R idx tx st = (r, st')"
  obtains (failed) e where "r = Inl e" "st' = st"
  | (skipped) to input amount where "r = Inr ()" "st' = st\<lparr>rs_skipped := rs_skipped st + 1\<rparr>"
      "decode_safe_tx E X tx = Inr (to, input, amount)"
      "gas_limit_for E X R (rs_world st) to input amount = Inr None"
  | (sent) to input amount gas where "decode_safe_tx E X tx = Inr (to, input, amount)"
      "gas_limit_for E X R (rs_world st) to input amount = Inr (Some gas)"
      "submit E R tx (tx_request_for R idx (rs_skipped st) to input amount gas) st = (r, st')"
  using assms by (auto simp: replay_tx_def split: sum.splits prod.splits option.splits)

definition kept :: "ext \<Rightarrow> 'w replayer \<Rightarrow> b256 list \<Rightarrow> 'w replay_state \<Rightarrow> 'w replay_state \<Rightarrow> bool" where
  "kept E R hs st st' \<longleftrightarrow> (if keep R
     then rs_hashes st' = rs_hashes st @ hs
       \<and> (\<exists>xs. rs_executed st' = rs_executed st @ xs \<and> map ex_tx_hash xs = map (hash_line E) hs)
     else rs_hashes st' = rs_hashes st \<and> rs_executed st' = rs_executed st)"

lemma kept_trans: "kept E R hs st st1 \<Longrightarrow> kept E R hs' st1 st2 \<Longrightarrow> kept E R (hs @ hs') st st2"
  unfolding kept_def by (auto split: if_splits)

lemma kept_skip [simp]: "kept E R hs (st\<lparr>rs_skipped := n\<rparr>) st' \<longleftrightarrow> kept E R hs st st'"
  by (simp add: kept_def)

lemma kept_Nil [simp]: "kept E R [] st st"
  by (simp add: kept_def)

lemma replay_loop_recorded:
  assumes "rp_node R = recording N" "rs_skipped st \<le> idx" "replay_loop E X R idx txs st = (r, st')"
  shows "\<exists>new. snd (rs_world st') = snd (rs_world st) @ new \<and> replayed E X R (idx - rs_skipped st) txs new
    \<and> (r = Inr () \<longrightarrow> (\<exists>hs. map snd new = map Some hs \<and> kept E R hs st st'))
    \<and> (r = Inr () \<longrightarrow> always_estimates N
        \<longrightarrow> map (Some \<circ> call_of \<circ> fst) new = map (decoded E X) txs)"
  using assms(2,3)
proof (induction txs arbitrary: idx st)
  case Nil
  then show ?case by simp
next
  case (Cons tx txs)
  obtain r1 st1 where step: "replay_tx E X R idx tx st = (r1, st1)" by (cases "replay_tx E X R idx tx st")
  from step show ?case
  proof (cases rule: replay_tx_cases)
    case (failed e)
    with Cons.prems step show ?thesis by auto
  next
    case (skipped to input amount)
    with Cons.prems step have run: "replay_loop E X R (Suc idx) txs st1 = (r, st')" by simp
    have "rs_skipped st1 \<le> Suc idx" using Cons.prems(1) skipped(2) by simp
    from Cons.IH [OF this run] skipped(2) obtain new where
      new: "snd (rs_world st') = snd (rs_world st) @ new" "replayed E X R (idx - rs_skipped st) txs new"
        "r = Inr () \<longrightarrow> (\<exists>hs. map snd new = map Some hs \<and> kept E R hs st st')"
      by auto
    have "\<not> always_estimates N"
      using skipped(4) by (auto simp: always_estimates_def gas_limit_for_def assms(1) recording_def split: sum.splits prod.splits) (metis Inl_Inr_False)
    with new replayed_skip [OF new(2)] show ?thesis by blast
  next
    case (sent to input amount gas)
    let ?q = "tx_request_for R idx (rs_skipped st) to input amount gas"
    obtain h where h: "snd (rs_world st1) = snd (rs_world st) @ [(?q, h)]" "rs_skipped st1 = rs_skipped st"
      "r1 = Inr () \<longrightarrow> h \<noteq> None \<and> kept E R [the h] st st1"
      using submit_recorded [OF assms(1) sent(3)] unfolding kept_def by auto
    have one: "replayed E X R (Suc (idx - rs_skipped st)) txs new
        \<Longrightarrow> replayed E X R (idx - rs_skipped st) (tx # txs) ((?q, h) # new)" for new
      by (rule replayed_send [OF _ sent(1) gas_limit_capped [OF sent(2)] refl])
    show ?thesis
    proof (cases r1)
      case (Inl e)
      with Cons.prems step h(1) one [of "[]"] show ?thesis by auto
    next
      case (Inr u)
      with Cons.prems step have run: "replay_loop E X R (Suc idx) txs st1 = (r, st')" by simp
      have le: "rs_skipped st1 \<le> Suc idx" using Cons.prems(1) h(2) by simp
      from Cons.IH [OF le run] obtain new where
        new: "snd (rs_world st') = snd (rs_world st1) @ new" "replayed E X R (Suc idx - rs_skipped st1) txs new"
          "r = Inr () \<longrightarrow> (\<exists>hs. map snd new = map Some hs \<and> kept E R hs st1 st')"
          "r = Inr () \<longrightarrow> always_estimates N
            \<longrightarrow> map (Some \<circ> call_of \<circ> fst) new = map (decoded E X) txs"
        by blast
      have diff: "Suc idx - rs_skipped st1 = Suc (idx - rs_skipped st)"
        using Cons.prems(1) h(2) by simp
      have "replayed E X R (idx - rs_skipped st) (tx # txs) ((?q, h) # new)"
        using one [of new] new(2) diff by simp
      moreover have "\<exists>hs. map snd ((?q, h) # new) = map Some hs \<and> kept E R hs st st'" if ok: "r = Inr ()"
      proof -
        obtain hs where "map snd new = map Some hs" "kept E R hs st1 st'" using new(3) ok by blast
        with h(3) Inr show ?thesis
          by (intro exI [of _ "the h # hs"]) (auto dest: kept_trans)
      qed
      moreover have "(Some \<circ> call_of \<circ> fst) (?q, h) = decoded E X tx"
        by (simp add: call_of_def tx_request_for_def decoded_def sent(1))
      ultimately show ?thesis
        using new(1,4) h(1) by (intro exI [of _ "(?q, h) # new"]) (auto simp: comp_def)
    qed
  qed
qed

section \<open>What is written\<close>

text \<open>Hex text is two digits per byte and decodes to what was encoded.\<close>

definition hex_text_codec :: "ext \<Rightarrow> bool" where
  "hex_text_codec E \<longleftrightarrow> (\<forall>bs. hex_decode E (hex_encode E bs) = Some bs \<and> length (hex_encode E bs) = 2 * length bs
     \<and> set (hex_encode E bs) \<subseteq> set ''0123456789abcdef'')"

definition executed_codec :: "replay_ext \<Rightarrow> bool" where
  "executed_codec X \<longleftrightarrow> (\<forall>txs. executed_parse X (executed_print X txs) = Some txs)"

definition log_lines :: "ext \<Rightarrow> b256 list \<Rightarrow> string" where
  "log_lines E hs = concat (map (\<lambda>h. hash_line E h @ [CHR 0x0A]) hs)"

lemma hex_digit_plain: "c \<in> set ''0123456789abcdef'' \<Longrightarrow> \<not> is_ws c \<and> c \<noteq> CHR 0x0A \<and> c \<noteq> CHR 0x0D"
  by (auto simp: is_ws_def)

lemma hash_line_reads:
  assumes "hex_text_codec E"
  shows "parse_hash E (hash_line E h) = Inr h"
proof -
  have "length (hex_encode E (b256_bytes h)) = 64" "hex_decode E (hex_encode E (b256_bytes h)) = Some (b256_bytes h)"
    using assms by (simp_all add: hex_text_codec_def)
  then show ?thesis
    by (simp add: parse_hash_def hash_line_def b256_bytes_def from_to_be_bytes)
qed

lemma hash_line_trimmed:
  assumes "hex_text_codec E"
  shows "trim (hash_line E h) = hash_line E h" "CHR 0x0A \<notin> set (hash_line E h)" "strip_cr (hash_line E h) = hash_line E h"
    "hash_line E h \<noteq> []" "\<not> starts_with ''#'' (hash_line E h)"
proof -
  have digits: "set (hex_encode E (b256_bytes h)) \<subseteq> set ''0123456789abcdef''" "hex_encode E (b256_bytes h) \<noteq> []"
    using assms unfolding hex_text_codec_def by (auto dest: spec [of _ "b256_bytes h"])
  then have "last (hex_encode E (b256_bytes h)) \<in> set ''0123456789abcdef''"
    using last_in_set by blast
  then have last: "\<not> is_ws (last (hash_line E h))" "last (hash_line E h) \<noteq> CHR 0x0D"
    using digits(2) hex_digit_plain by (simp_all add: hash_line_def)
  show "trim (hash_line E h) = hash_line E h"
    using last(1) by (intro trim_id) (simp add: hash_line_def is_ws_def)
  show "CHR 0x0A \<notin> set (hash_line E h)"
    using digits(1) hex_digit_plain by (auto simp: hash_line_def)
  show "strip_cr (hash_line E h) = hash_line E h"
    using last(2) by (simp add: strip_cr_def)
  show "hash_line E h \<noteq> []" "\<not> starts_with ''#'' (hash_line E h)"
    by (simp_all add: hash_line_def)
qed

lemma str_lines_log:
  assumes "hex_text_codec E"
  shows "str_lines (log_lines E hs) = map (hash_line E) hs"
proof -
  have "split_char (CHR 0x0A) (log_lines E hs) = map (hash_line E) hs @ [[]]"
    by (induction hs) (simp_all add: log_lines_def split_char_append_sep hash_line_trimmed(2) [OF assms])
  then show ?thesis
    by (simp add: str_lines_def hash_line_trimmed(3) [OF assms])
qed

lemma map_res_hash_lines:
  "hex_text_codec E \<Longrightarrow> map_res (parse_hash E) (map (hash_line E) hs) = Inr hs"
  by (induction hs) (simp_all add: hash_line_reads)

lemma log_lines_read:
  assumes "hex_text_codec E"
  shows "parse_transactions_log E (log_lines E hs) = Inr (dedup hs)"
proof -
  have "hash_lines (log_lines E hs) = map (hash_line E) hs"
    by (simp add: hash_lines_def str_lines_log [OF assms] hash_line_trimmed [OF assms] o_def filter_map)
  then show ?thesis
    by (simp add: parse_transactions_log_ref map_res_hash_lines [OF assms])
qed

lemma log_append_read:
  assumes "hex_text_codec E" "l = [] \<or> last l = CHR 0x0A" "parse_transactions_log E l = Inr xs"
  shows "parse_transactions_log E (l @ log_lines E hs) = Inr (xs @ filter (\<lambda>h. h \<notin> set xs) (dedup hs))"
proof (cases "l = []")
  case True
  with assms(3) have "xs = []" by (simp add: parse_transactions_log_def str_lines_def)
  with True show ?thesis by (simp add: log_lines_read [OF assms(1)])
next
  case False
  with assms(2) obtain s where "l = s @ [CHR 0x0A]" by (metis append_butlast_last_id)
  with assms(3) show ?thesis
    using parse_append [OF _ log_lines_read [OF assms(1)]] by simp
qed

lemma append_hashes_run:
  assumes "append_hashes E hs d = (r, d')"
  obtains k where "k \<le> length hs" "r = Inr () \<longrightarrow> out_has_parent d \<longrightarrow> k = length hs"
    "hash_log d' = hash_log d @ log_lines E (take k hs)" "executed_file d' = executed_file d"
    "out_has_parent d' = out_has_parent d"
  using assms
proof (induction hs arbitrary: d thesis)
  case Nil
  then show ?case by (simp add: log_lines_def)
next
  case (Cons h hs)
  show ?case
  proof (cases "out_has_parent d \<and> out_parent_creatable d \<and> log_writable d")
    case True
    let ?d = "d\<lparr>hash_log := hash_log d @ hash_line E h @ [CHR 0x0A]\<rparr>"
    have run: "append_hashes E hs ?d = (r, d')"
      using True Cons.prems(2) by (simp add: append_transaction_hash_def)
    show ?thesis
    proof (rule Cons.IH [OF _ run])
      fix k assume k: "k \<le> length hs" "r = Inr () \<longrightarrow> out_has_parent ?d \<longrightarrow> k = length hs"
        "hash_log d' = hash_log ?d @ log_lines E (take k hs)" "executed_file d' = executed_file ?d"
        "out_has_parent d' = out_has_parent ?d"
      then show thesis
        by (intro Cons.prems(1) [of "Suc k"]) (simp_all add: log_lines_def)
    qed
  next
    case False
    show ?thesis
    proof (cases "out_has_parent d")
      case True
      with False Cons.prems(2) show ?thesis
        by (intro Cons.prems(1) [of 0]) (auto simp: append_transaction_hash_def log_lines_def split: if_splits)
    next
      case no: False
      then have run: "append_hashes E hs d = (r, d')"
        using Cons.prems(2) by (simp add: append_transaction_hash_def)
      show ?thesis
      proof (rule Cons.IH [OF _ run])
        fix k assume "k \<le> length hs" "r = Inr () \<longrightarrow> out_has_parent d \<longrightarrow> k = length hs"
          "hash_log d' = hash_log d @ log_lines E (take k hs)" "executed_file d' = executed_file d"
          "out_has_parent d' = out_has_parent d"
        moreover have "hash_log d' = hash_log d"
          using run no by (induction hs arbitrary: d) (auto simp: append_transaction_hash_def)
        ultimately show thesis
          using no by (intro Cons.prems(1) [of 0]) (simp_all add: log_lines_def)
      qed
    qed
  qed
qed

lemma replay_recorded:
  assumes "rp_node R = recording N" "replay_and_flush E X R txs w place = (r, w', place')"
  obtains new where "snd w' = snd w @ new" "replayed E X R 0 txs new"
    "r = Inr () \<longrightarrow> always_estimates N
      \<longrightarrow> map (Some \<circ> call_of \<circ> fst) new = map (decoded E X) txs"
proof (cases "load_executed X place")
  case (Inl e)
  with assms(2) that [of "[]"] show ?thesis by (auto simp: replay_and_flush_def)
next
  case (Inr executed)
  let ?st = "\<lparr>rs_world = w, rs_skipped = 0, rs_executed = [], rs_hashes = []\<rparr>"
  obtain lr st where loop: "replay_loop E X R 0 txs ?st = (lr, st)" by (cases "replay_loop E X R 0 txs ?st")
  have "w' = rs_world st" "r = Inr () \<longrightarrow> lr = Inr ()"
    using assms(2) Inr loop by (auto simp: replay_and_flush_def split: sum.splits prod.splits)
  moreover obtain new where "snd (rs_world st) = snd w @ new" "replayed E X R 0 txs new"
    "lr = Inr () \<longrightarrow> always_estimates N
      \<longrightarrow> map (Some \<circ> call_of \<circ> fst) new = map (decoded E X) txs"
    using replay_loop_recorded [OF assms(1) _ loop] by auto
  ultimately show ?thesis
    by (intro that [of new]) simp_all
qed

lemma flush_out_run:
  assumes "flush_out E X old st (Some d) = (r, place')" "executed_codec X" "rs_executed st \<noteq> []"
  obtains d' where "place' = Some d'" "d' = d" "r \<noteq> Inr ()"
  | d' k where "place' = Some d'" "load_executed X (Some d') = Inr (old @ rs_executed st)"
      "hash_log d' = hash_log d @ log_lines E (take k (rs_hashes st))"
      "r = Inr () \<longrightarrow> out_has_parent d \<longrightarrow> k = length (rs_hashes st)"
proof (cases "out_has_parent d \<and> \<not> out_parent_creatable d \<or> \<not> executed_writable d")
  case True
  with assms(1,3) that(1) show ?thesis
    by (auto simp: flush_out_def persist_executed_bundle_def split: if_splits)
next
  case False
  let ?d = "d\<lparr>executed_file := Some (Text (executed_print X (old @ rs_executed st)))\<rparr>"
  obtain ar d' where run: "append_hashes E (rs_hashes st) ?d = (ar, d')" by (cases "append_hashes E (rs_hashes st) ?d")
  have res: "r = ar" "place' = Some d'"
    using False assms(1,3) run by (auto simp: flush_out_def persist_executed_bundle_def)
  show ?thesis
  proof (rule append_hashes_run [OF run])
    fix k assume "k \<le> length (rs_hashes st)" and k: "ar = Inr () \<longrightarrow> out_has_parent ?d \<longrightarrow> k = length (rs_hashes st)"
      "hash_log d' = hash_log ?d @ log_lines E (take k (rs_hashes st))" "executed_file d' = executed_file ?d"
      "out_has_parent d' = out_has_parent ?d"
    have "load_executed X (Some d') = Inr (old @ rs_executed st)"
      using assms(2) k(3) by (simp add: load_executed_def executed_codec_def)
    with res k that(2) [of d' k] show thesis by simp
  qed
qed

lemma replay_out:
  assumes "rp_node R = recording N" "keep R" "executed_codec X" "load_executed X (Some d) = Inr old"
    and run: "replay_and_flush E X R txs w (Some d) = (r, w', place')"
  obtains (unchanged) "place' = Some d" "r = Inr () \<longrightarrow> snd w' = snd w"
  | (written) d' hs xs new k where "place' = Some d'" "snd w' = snd w @ new" "map snd new = map Some hs"
      "map ex_tx_hash xs = map (hash_line E) hs" "load_executed X (Some d') = Inr (old @ xs)"
      "hash_log d' = hash_log d @ log_lines E (take k hs)" "r = Inr () \<longrightarrow> out_has_parent d \<longrightarrow> k = length hs"
proof -
  let ?st = "\<lparr>rs_world = w, rs_skipped = 0, rs_executed = [], rs_hashes = []\<rparr>"
  obtain lr st where loop: "replay_loop E X R 0 txs ?st = (lr, st)" by (cases "replay_loop E X R 0 txs ?st")
  show ?thesis
  proof (cases lr)
    case (Inl e)
    with run loop assms(4) unchanged show ?thesis by (auto simp: replay_and_flush_def)
  next
    case (Inr u)
    then obtain new hs where new: "snd (rs_world st) = snd w @ new" "map snd new = map Some hs" and "kept E R hs ?st st"
      using replay_loop_recorded [OF assms(1) _ loop] by auto
    then have st: "rs_hashes st = hs" "map ex_tx_hash (rs_executed st) = map (hash_line E) hs"
      using assms(2) by (auto simp: kept_def)
    obtain fr where flush: "flush_out E X old st (Some d) = (fr, place')" "r = fr" "w' = rs_world st"
      using run loop assms(4) Inr by (auto simp: replay_and_flush_def split: prod.splits)
    show ?thesis
    proof (cases "rs_executed st = []")
      case True
      with st(2) new have "snd w' = snd w" by (simp add: flush(3))
      with True flush unchanged show ?thesis by (simp add: flush_out_def)
    next
      case False
      from flush(1) assms(3) False show ?thesis
      proof (cases rule: flush_out_run)
        case (1 d')
        with flush(2) unchanged show ?thesis by simp
      next
        case (2 d' k)
        with flush new st show ?thesis by (intro written) simp_all
      qed
    qed
  qed
qed

section \<open>Bundles\<close>

text \<open>Both commands replay with a replayer over the connected node, or change nothing.\<close>

lemma execute_one_bundle_cases:
  assumes "execute_one_bundle E X J (Some N) contents key bps w place = (r, w', place')"
  obtains (refused) e where "r = Inl e" "w' = w" "place' = place"
  | (replayed) txs R where "read_safe_txs J contents = Inr txs" "signer_of_key E X key = Inr (rp_sender R)"
      "rp_node R = N" "node_pending_nonce N w (rp_sender R) = Some (rp_base_nonce R)"
      "resolve_gas_price N w bps = Inr (rp_price R)" "keep R \<longleftrightarrow> place \<noteq> None" "rp_chain_id R = None"
      "replay_and_flush E X R txs w place = (r, w', place')"
proof (cases "bind_res (read_safe_txs J contents) (\<lambda>safe_txs.
    bind_res (signed_replayer E X (Some N) key (place \<noteq> None) bps w) (\<lambda>R. Inr (safe_txs, R)))")
  case (Inl e)
  with assms refused show ?thesis by (auto simp: execute_one_bundle_def)
next
  case (Inr p)
  obtain txs R where "p = (txs, R)" by (cases p)
  with Inr assms replayed [of txs R] show ?thesis
    by (auto simp: execute_one_bundle_def signed_replayer_def)
qed

lemma execute_one_bundle_unlocked_cases:
  assumes "execute_one_bundle_unlocked E X J (Some N) contents from w place = (r, w', place')"
  obtains (refused) e where "r = Inl e" "w' = w" "place' = place"
  | (replayed) txs R where "read_safe_txs J contents = Inr txs" "rp_sender R = from"
      "rp_node R = N" "node_pending_nonce N w from = Some (rp_base_nonce R)"
      "rp_price R = GAS_PRICE_FLOOR_WEI" "keep R \<longleftrightarrow> place \<noteq> None" "rp_chain_id R = node_chain_id N w"
      "replay_and_flush E X R txs w place = (r, w', place')"
proof (cases "bind_res (read_safe_txs J contents) (\<lambda>safe_txs.
    bind_res (unlocked_replayer (Some N) from (place \<noteq> None) w) (\<lambda>R. Inr (safe_txs, R)))")
  case (Inl e)
  with assms refused show ?thesis by (auto simp: execute_one_bundle_unlocked_def)
next
  case (Inr p)
  obtain txs R where "p = (txs, R)" by (cases p)
  with Inr assms replayed [of txs R] show ?thesis
    by (auto simp: execute_one_bundle_unlocked_def unlocked_replayer_def)
qed

end
