(* ===== verification/Dispatch.thy ===== *)
theory Dispatch
  imports Replay
begin

section \<open>Dispatching the bundles of a manifest\<close>

text \<open>
  \<^verbatim>\<open>commands/dev/execute_manifest.rs\<close> and \<^verbatim>\<open>commands/ecosystem/broadcast.rs\<close>: the bundles that
  \<^verbatim>\<open>manifest.json\<close> lists are replayed in order, each under the key of its target. The file system,
  the YAML and JSON readers, the \<^verbatim>\<open>hex\<close> crate and the parser of a 32-byte key are parameters;
  a YAML value keeps what the key search looks at.
\<close>

datatype yaml = YString string | YMapping "(yaml \<times> yaml) list" | YSequence "yaml list" | YOther

record manifest_bundle =
  mb_file :: string
  mb_index :: u32
  mb_target :: address

record dispatch_ext =
  read_text :: "string \<Rightarrow> string option"
  canonicalize :: "string \<Rightarrow> string option"
  yaml_parse :: "string \<Rightarrow> yaml option"
  manifest_parse :: "string \<Rightarrow> manifest_bundle list option"
  hex_crate :: "string \<Rightarrow> bytes option"
  b256_from_str :: "string \<Rightarrow> b256 option"
  signer_from_bytes :: "b256 \<Rightarrow> address option"

text \<open>\<^verbatim>\<open>Path::parent\<close> of the path of a file.\<close>

definition path_parent :: "string \<Rightarrow> string" where
  "path_parent s = (if CHR ''/'' \<in> set s
     then (let p = rev (tl (dropWhile (\<lambda>c. c \<noteq> CHR ''/'') (rev s))) in if p = [] then ''/'' else p)
     else [])"

subsection \<open>Keys\<close>

definition names_key :: "string \<Rightarrow> bool" where
  "names_key key_str \<longleftrightarrow> key_str = ''private_key'' \<or> ends_with ''_sk'' key_str"

fun yaml_str :: "yaml \<Rightarrow> string option" where
  "yaml_str (YString s) = Some s"
| "yaml_str _ = None"

function collect_private_keys :: "yaml \<Rightarrow> string list" where
  "collect_private_keys (YMapping kvs) =
     concat (map (\<lambda>(k, v).
       case (names_key (case yaml_str k of Some s \<Rightarrow> s | None \<Rightarrow> []), yaml_str v) of
         (True, Some s) \<Rightarrow> if s \<noteq> [] then [s] else []
       | _ \<Rightarrow> collect_private_keys v) kvs)"
| "collect_private_keys (YSequence items) = concat (map collect_private_keys items)"
| "collect_private_keys (YString s) = []"
| "collect_private_keys YOther = []"
  by pat_completeness auto

lemma yaml_value_smaller: "(k, v) \<in> set kvs \<Longrightarrow> size (v :: yaml) < size (YMapping kvs)"
  by (induction kvs) auto

lemma yaml_item_smaller: "v \<in> set items \<Longrightarrow> size (v :: yaml) < size (YSequence items)"
  by (induction items) auto

termination collect_private_keys
  by (relation "measure size") (use yaml_value_smaller yaml_item_smaller in auto)

definition extract_keys_from_wallets :: "dispatch_ext \<Rightarrow> string \<Rightarrow> string list res" where
  "extract_keys_from_wallets D path =
     bind_res (ok_or (Bail ''reading wallets file'') (read_text D path)) (\<lambda>content.
     bind_res (ok_or (Bail ''parsing wallets file'') (yaml_parse D content)) (\<lambda>v.
     Inr (collect_private_keys v)))"

definition add_key :: "replay_ext \<Rightarrow> dispatch_ext \<Rightarrow> string \<Rightarrow> (address \<rightharpoonup> string) \<Rightarrow> (address \<rightharpoonup> string) res" where
  "add_key X D key m =
     bind_res (ok_or (Bail ''invalid private key hex (key redacted)'') (hex_crate D (strip_0x_once key))) (\<lambda>pk_bytes.
     bind_res (ok_or (Bail ''invalid private key bytes (key redacted)'') (signer_from_slice X pk_bytes)) (\<lambda>a.
     Inr (m(a \<mapsto> key))))"

definition build_key_map :: "replay_ext \<Rightarrow> dispatch_ext \<Rightarrow> string list \<Rightarrow> string option \<Rightarrow> (address \<rightharpoonup> string) res" where
  "build_key_map X D private_keys wallets_path =
     bind_res (case wallets_path of
         None \<Rightarrow> Inr private_keys
       | Some path \<Rightarrow> bind_res (extract_keys_from_wallets D path) (\<lambda>ks. Inr (private_keys @ ks))) (\<lambda>all_keys.
     if all_keys = [] then Inl (Bail ''No private keys provided. Use --private-key or --wallets.'')
     else fold_res (add_key X D) all_keys Map.empty)"

subsection \<open>Applying a manifest\<close>

text \<open>A loop over bundles that stops at the first failure; what was sent before stays sent.\<close>

fun run_bundles :: "('b \<Rightarrow> 'w \<Rightarrow> 'o \<Rightarrow> unit res \<times> 'w \<times> 'o) \<Rightarrow> 'b list \<Rightarrow> 'w \<Rightarrow> 'o \<Rightarrow> unit res \<times> 'w \<times> 'o" where
  "run_bundles step [] w d = (Inr (), w, d)"
| "run_bundles step (b # bs) w d =
     (case step b w d of
        (Inl e, w', d') \<Rightarrow> (Inl e, w', d')
      | (Inr _, w', d') \<Rightarrow> run_bundles step bs w' d')"

definition manifest_entry :: "ext \<Rightarrow> json \<Rightarrow> (string \<times> address) res" where
  "manifest_entry E bundle =
     bind_res (ok_or (Bail ''manifest bundle missing file'') (get_str bundle ''file'')) (\<lambda>file_name.
     bind_res (ok_or (Bail ''manifest bundle missing target'') (get_str bundle ''target'')) (\<lambda>target_str.
     bind_res (ok_or (Bail ''manifest bundle target is not a valid address'') (address_from_str E target_str)) (\<lambda>a.
     Inr (file_name, a))))"

definition apply_bundle ::
    "ext \<Rightarrow> replay_ext \<Rightarrow> json_io \<Rightarrow> dispatch_ext \<Rightarrow> 'w chain_node option \<Rightarrow> (address \<rightharpoonup> string) \<Rightarrow> string \<Rightarrow> bool
      \<Rightarrow> json \<Rightarrow> 'w \<Rightarrow> unit \<Rightarrow> unit res \<times> 'w \<times> unit" where
  "apply_bundle E X J D connected key_map manifest_dir fund_targets bundle w u =
     (case bind_res (manifest_entry E bundle) (\<lambda>(file_name, a).
         bind_res (ok_or (Bail ''No private key provided for bundle'') (key_map a)) (\<lambda>key. Inr (file_name, a, key))) of
        Inl e \<Rightarrow> (Inl e, w, ())
      | Inr (file_name, a, key) \<Rightarrow>
          (case (if fund_targets
              then (case connected of None \<Rightarrow> (None, w) | Some N \<Rightarrow> node_set_balance N w a)
              else (Some (), w)) of
             (None, w') \<Rightarrow> (Inl (Bail ''anvil_setBalance failed''), w', ())
           | (Some _, w') \<Rightarrow>
               (case execute_one_bundle E X J connected (read_text D (path_join manifest_dir file_name)) key
                    GAS_PRICE_MULTIPLIER_BPS w' None of
                  (r, w'', _) \<Rightarrow> (r, w'', ()))))"

definition new_bundles :: "json_io \<Rightarrow> dispatch_ext \<Rightarrow> string \<Rightarrow> nat \<Rightarrow> json list res" where
  "new_bundles J D manifest_path start_index =
     bind_res (ok_or (Bail ''reading manifest'') (read_text D manifest_path)) (\<lambda>manifest_content.
     bind_res (ok_or (Bail ''parsing manifest.json'') (json_parse J manifest_content)) (\<lambda>manifest.
     bind_res (ok_or (Bail ''manifest.json: missing bundles array'')
       (Option.bind (json_get manifest ''bundles'') json_as_array)) (\<lambda>all_bundles.
     Inr (drop (min start_index (length all_bundles)) all_bundles))))"

definition apply_manifest_from ::
    "ext \<Rightarrow> replay_ext \<Rightarrow> json_io \<Rightarrow> dispatch_ext \<Rightarrow> 'w chain_node option \<Rightarrow> string \<Rightarrow> nat \<Rightarrow> string list \<Rightarrow> string option
      \<Rightarrow> bool \<Rightarrow> 'w \<Rightarrow> unit res \<times> 'w" where
  "apply_manifest_from E X J D connected manifest_path start_index private_keys wallets_path fund_targets w =
     (case bind_res (build_key_map X D private_keys wallets_path) (\<lambda>key_map.
         bind_res (new_bundles J D manifest_path start_index) (\<lambda>bundles. Inr (key_map, bundles))) of
        Inl e \<Rightarrow> (Inl e, w)
      | Inr (key_map, bundles) \<Rightarrow>
          if bundles = [] then (Inr (), w)
          else (case run_bundles (apply_bundle E X J D connected key_map (path_parent manifest_path) fund_targets) bundles w () of
                  (r, w', _) \<Rightarrow> (r, w')))"

definition apply_manifest ::
    "ext \<Rightarrow> replay_ext \<Rightarrow> json_io \<Rightarrow> dispatch_ext \<Rightarrow> 'w chain_node option \<Rightarrow> string \<Rightarrow> string list \<Rightarrow> string option
      \<Rightarrow> bool \<Rightarrow> 'w \<Rightarrow> unit res \<times> 'w" where
  "apply_manifest E X J D connected manifest_path private_keys wallets_path fund_targets w =
     apply_manifest_from E X J D connected manifest_path 0 private_keys wallets_path fund_targets w"

definition is_local_rpc :: "string \<Rightarrow> bool" where
  "is_local_rpc rpc_url \<longleftrightarrow> str_contains ''localhost'' rpc_url \<or> str_contains ''127.0.0.1'' rpc_url"

record execute_manifest_args =
  em_manifest :: string
  em_private_keys :: "string list"
  em_wallets :: "string option"
  em_l1_rpc_url :: string
  em_fund_targets :: "bool option"

definition execute_manifest_run ::
    "ext \<Rightarrow> replay_ext \<Rightarrow> json_io \<Rightarrow> dispatch_ext \<Rightarrow> (string \<Rightarrow> 'w chain_node option) \<Rightarrow> execute_manifest_args \<Rightarrow> 'w
      \<Rightarrow> unit res \<times> 'w" where
  "execute_manifest_run E X J D connect args w =
     apply_manifest E X J D (connect (em_l1_rpc_url args)) (em_manifest args) (em_private_keys args) (em_wallets args)
       (case em_fund_targets args of Some fund \<Rightarrow> fund | None \<Rightarrow> is_local_rpc (em_l1_rpc_url args)) w"

definition count_manifest_bundles :: "json_io \<Rightarrow> dispatch_ext \<Rightarrow> string \<Rightarrow> nat" where
  "count_manifest_bundles J D manifest_path =
     (case Option.bind (Option.bind (read_text D manifest_path) (json_parse J))
        (\<lambda>v. Option.bind (json_get v ''bundles'') json_as_array) of
        Some bundles \<Rightarrow> length bundles
      | None \<Rightarrow> 0)"

subsection \<open>Broadcasting an upgrade\<close>

fun split_once :: "char \<Rightarrow> string \<Rightarrow> (string \<times> string) option" where
  "split_once c [] = None"
| "split_once c (x # xs) = (if x = c then Some ([], xs) else map_option (map_prod (Cons x) id) (split_once c xs))"

definition parse_key_entry :: "ext \<Rightarrow> dispatch_ext \<Rightarrow> string \<Rightarrow> (address \<times> string) res" where
  "parse_key_entry E D key_arg =
     bind_res (ok_or (Bail ''--key must be in form 0xADDR=0xHEX'') (split_once (CHR ''='') key_arg)) (\<lambda>(addr_str, key_str).
     bind_res (ok_or (Bail ''--key address is not a valid address'') (address_from_str E addr_str)) (\<lambda>declared.
     bind_res (ok_or (Bail ''--key is not a valid 32-byte hex'') (b256_from_str D key_str)) (\<lambda>pk_b256.
     bind_res (ok_or (Bail ''--key is not a valid signer'') (signer_from_bytes D pk_b256)) (\<lambda>derived.
     if derived \<noteq> declared then Inl (Bail ''refuse to broadcast under the wrong sender'')
     else Inr (declared, key_str)))))"

definition parse_keys_step :: "ext \<Rightarrow> dispatch_ext \<Rightarrow> string \<Rightarrow> (address \<rightharpoonup> string) \<Rightarrow> (address \<rightharpoonup> string) res" where
  "parse_keys_step E D key_arg m =
     bind_res (parse_key_entry E D key_arg) (\<lambda>(declared, key_str).
     if m declared \<noteq> None then Inl (Bail ''duplicate --key'') else Inr (m(declared \<mapsto> key_str)))"

definition parse_keys :: "ext \<Rightarrow> dispatch_ext \<Rightarrow> string list \<Rightarrow> (address \<rightharpoonup> string) res" where
  "parse_keys E D raw = fold_res (parse_keys_step E D) raw Map.empty"

record upgrade_broadcast_args =
  ub_manifest :: string
  ub_l1_rpc_url :: string
  ub_keys :: "string list"
  ub_unlocked :: bool

definition load_manifest :: "dispatch_ext \<Rightarrow> string \<Rightarrow> (string \<times> manifest_bundle list) res" where
  "load_manifest D path =
     bind_res (ok_or (Bail ''manifest not found'') (canonicalize D path)) (\<lambda>manifest_path.
     bind_res (ok_or (Bail ''read manifest'') (read_text D manifest_path)) (\<lambda>raw.
     bind_res (ok_or (Bail ''parse manifest.json'') (manifest_parse D raw)) (\<lambda>bundles.
     if bundles = [] then Inl (Bail ''manifest.bundles is empty'')
     else Inr (path_parent manifest_path, sort_key mb_index bundles))))"

definition missing_signers :: "(address \<rightharpoonup> string) \<Rightarrow> manifest_bundle list \<Rightarrow> address list" where
  "missing_signers key_map bundles =
     fold (\<lambda>b missing. if key_map (mb_target b) = None \<and> mb_target b \<notin> set missing then missing @ [mb_target b] else missing)
       bundles []"

definition broadcast_bundle ::
    "ext \<Rightarrow> replay_ext \<Rightarrow> json_io \<Rightarrow> dispatch_ext \<Rightarrow> 'w chain_node option \<Rightarrow> bool \<Rightarrow> (address \<rightharpoonup> string) \<Rightarrow> string
      \<Rightarrow> manifest_bundle \<Rightarrow> 'w \<Rightarrow> out_place option \<Rightarrow> unit res \<times> 'w \<times> out_place option" where
  "broadcast_bundle E X J D connected unlocked key_map manifest_dir bundle w out_path =
     (let contents = read_text D (path_join manifest_dir (mb_file bundle))
      in if unlocked then execute_one_bundle_unlocked E X J connected contents (mb_target bundle) w out_path
         else (case key_map (mb_target bundle) of
             None \<Rightarrow> (Inl (Panic ''no entry found for key''), w, out_path)
           | Some key \<Rightarrow> execute_one_bundle E X J connected contents key GAS_PRICE_MULTIPLIER_BPS w out_path))"

definition broadcast_run ::
    "ext \<Rightarrow> replay_ext \<Rightarrow> json_io \<Rightarrow> dispatch_ext \<Rightarrow> (string \<Rightarrow> 'w chain_node option) \<Rightarrow> upgrade_broadcast_args \<Rightarrow> 'w
      \<Rightarrow> out_place option \<Rightarrow> unit res \<times> 'w \<times> out_place option" where
  "broadcast_run E X J D connect args w out_path =
     (case bind_res (load_manifest D (ub_manifest args)) (\<lambda>(manifest_dir, bundles).
         bind_res (if ub_unlocked args then Inr Map.empty else parse_keys E D (ub_keys args)) (\<lambda>key_map.
         if \<not> ub_unlocked args \<and> missing_signers key_map bundles \<noteq> [] then Inl (Bail ''no --key supplied for signer(s)'')
         else Inr (manifest_dir, bundles, key_map))) of
        Inl e \<Rightarrow> (Inl e, w, out_path)
      | Inr (manifest_dir, bundles, key_map) \<Rightarrow>
          run_bundles (broadcast_bundle E X J D (connect (ub_l1_rpc_url args)) (ub_unlocked args) key_map manifest_dir)
            bundles w out_path)"

section \<open>Who signs what\<close>

text \<open>The parts of a run: for each bundle the requests sent for it.\<close>

definition appends :: "('b \<Rightarrow> 'w \<times> 'l list \<Rightarrow> 'o \<Rightarrow> unit res \<times> ('w \<times> 'l list) \<times> 'o) \<Rightarrow> ('b \<Rightarrow> 'l list \<Rightarrow> bool) \<Rightarrow> 'b list \<Rightarrow> bool" where
  "appends step P bs \<longleftrightarrow> (\<forall>b \<in> set bs. \<forall>w d r w' d'. step b w d = (r, w', d') \<longrightarrow> (\<exists>seg. snd w' = snd w @ seg \<and> P b seg))"

lemma run_bundles_segments:
  assumes "appends step P bs" "run_bundles step bs w d = (r, w', d')"
  shows "\<exists>segs. snd w' = snd w @ concat segs \<and> length segs \<le> length bs \<and> list_all2 P (take (length segs) bs) segs
    \<and> (r = Inr () \<longrightarrow> length segs = length bs)"
  using assms
proof (induction bs arbitrary: w d)
  case Nil
  then show ?case by simp
next
  case (Cons b bs)
  obtain r1 w1 d1 where step: "step b w d = (r1, w1, d1)" by (cases "step b w d")
  then obtain seg where seg: "snd w1 = snd w @ seg" "P b seg"
    using Cons.prems(1) unfolding appends_def by (meson list.set_intros(1))
  show ?case
  proof (cases r1)
    case (Inl e)
    with Cons.prems(2) step seg show ?thesis by (intro exI [of _ "[seg]"]) auto
  next
    case (Inr u)
    with Cons.prems(2) step have run: "run_bundles step bs w1 d1 = (r, w', d')" by simp
    have "appends step P bs" using Cons.prems(1) by (simp add: appends_def)
    from Cons.IH [OF this run] obtain segs where "snd w' = snd w1 @ concat segs" "length segs \<le> length bs"
      "list_all2 P (take (length segs) bs) segs" "r = Inr () \<longrightarrow> length segs = length bs"
      by blast
    with seg show ?thesis by (intro exI [of _ "seg # segs"]) simp
  qed
qed

definition safe_txs_of :: "json_io \<Rightarrow> string option \<Rightarrow> json list" where
  "safe_txs_of J contents = (case read_safe_txs J contents of Inr txs \<Rightarrow> txs | Inl _ \<Rightarrow> [])"

text \<open>Requests for one bundle: from one sender with consecutive nonces, within the gas cap, for
  transactions of its file in their order.\<close>

definition bundle_segment ::
    "ext \<Rightarrow> replay_ext \<Rightarrow> json_io \<Rightarrow> address \<Rightarrow> string option \<Rightarrow> (tx_request \<times> b256 option) list \<Rightarrow> bool" where
  "bundle_segment E X J a contents seg \<longleftrightarrow>
     (\<exists>base. map (rq_nonce \<circ> fst) seg = map (\<lambda>k. base + of_nat k) [0 ..< length seg])
     \<and> list_all (\<lambda>(q, _). rq_from q = a \<and> rq_gas_limit q \<le> PER_TX_GAS_LIMIT_CAP) seg
     \<and> subseq (map (call_of \<circ> fst) seg) (List.map_filter (decoded E X) (safe_txs_of J contents))"

lemma bundle_segment_Nil [simp]: "bundle_segment E X J a contents []"
  by (simp add: bundle_segment_def)

lemma bundle_segment_replayed:
  assumes "replayed E X R 0 txs new" "read_safe_txs J contents = Inr txs"
  shows "bundle_segment E X J (rp_sender R) contents new"
  using assms by (auto simp: replayed_def bundle_segment_def safe_txs_of_def well_formed_request_def list_all_iff)

lemma signed_segment:
  assumes "execute_one_bundle E X J (Some (recording N)) contents key bps w place = (r, w', place')"
    "signer_of_key E X key = Inr a"
  shows "\<exists>seg. snd w' = snd w @ seg \<and> bundle_segment E X J a contents seg"
  using assms(1)
proof (cases rule: execute_one_bundle_cases)
  case (replayed txs R)
  from replayed(3,8) obtain new where "snd w' = snd w @ new" "replayed E X R 0 txs new"
    by (rule replay_recorded)
  moreover have "rp_sender R = a" using replayed(2) assms(2) by simp
  ultimately show ?thesis using bundle_segment_replayed [OF _ replayed(1)] by metis
qed simp

lemma unlocked_segment:
  assumes "execute_one_bundle_unlocked E X J (Some (recording N)) contents a w place = (r, w', place')"
  shows "\<exists>seg. snd w' = snd w @ seg \<and> bundle_segment E X J a contents seg"
  using assms
proof (cases rule: execute_one_bundle_unlocked_cases)
  case (replayed txs R)
  from replayed(3,8) obtain new where "snd w' = snd w @ new" "replayed E X R 0 txs new"
    by (rule replay_recorded)
  then show ?thesis using bundle_segment_replayed [OF _ replayed(1)] replayed(2) by metis
qed simp

subsection \<open>Keys\<close>

text \<open>The two hex decoders, and the two ways to read a key, agree.\<close>

definition hex_crates_agree :: "ext \<Rightarrow> dispatch_ext \<Rightarrow> bool" where
  "hex_crates_agree E D \<longleftrightarrow> (\<forall>s bs. hex_crate D s = Some bs \<longrightarrow> hex_decode E s = Some bs)"

definition signers_agree :: "ext \<Rightarrow> replay_ext \<Rightarrow> dispatch_ext \<Rightarrow> bool" where
  "signers_agree E X D \<longleftrightarrow> (\<forall>key p a. b256_from_str D key = Some p \<longrightarrow> signer_from_bytes D p = Some a
     \<longrightarrow> signer_of_key E X key = Inr a)"

definition keys_sign :: "ext \<Rightarrow> replay_ext \<Rightarrow> (address \<rightharpoonup> string) \<Rightarrow> bool" where
  "keys_sign E X m \<longleftrightarrow> (\<forall>a key. m a = Some key \<longrightarrow> signer_of_key E X key = Inr a)"

lemma fold_res_invariant:
  assumes "\<And>x s s'. I s \<Longrightarrow> f x s = Inr s' \<Longrightarrow> I s'" "I s" "fold_res f xs s = Inr s'"
  shows "I s'"
  using assms(2,3) by (induction xs arbitrary: s) (auto dest: assms(1))

lemma keys_sign_update: "keys_sign E X m \<Longrightarrow> signer_of_key E X key = Inr a \<Longrightarrow> keys_sign E X (m(a \<mapsto> key))"
  by (simp add: keys_sign_def)

lemma keys_signD: "keys_sign E X m \<Longrightarrow> m a = Some key \<Longrightarrow> signer_of_key E X key = Inr a"
  by (simp add: keys_sign_def)

lemma keys_sign_empty: "keys_sign E X Map.empty"
  by (simp add: keys_sign_def)

lemma build_key_map_signs:
  assumes "hex_crates_agree E D" "build_key_map X D private_keys wallets_path = Inr m"
  shows "keys_sign E X m"
proof -
  obtain ks where run: "fold_res (add_key X D) ks Map.empty = Inr m"
    using assms(2) by (auto simp: build_key_map_def split: if_splits)
  have "keys_sign E X m'" if signs: "keys_sign E X m" and added: "add_key X D key m = Inr m'" for key m m'
  proof -
    obtain a where "signer_of_key E X key = Inr a" "m' = m(a \<mapsto> key)"
      using added assms(1) by (auto simp: add_key_def signer_of_key_def hex_crates_agree_def)
    with keys_sign_update [OF signs] show ?thesis by simp
  qed
  from fold_res_invariant [where I = "keys_sign E X", OF this keys_sign_empty run] show ?thesis .
qed

lemma parse_keys_signs:
  assumes "signers_agree E X D" "parse_keys E D raw = Inr m"
  shows "keys_sign E X m"
proof -
  have "keys_sign E X m'" if signs: "keys_sign E X m" and added: "parse_keys_step E D key_arg m = Inr m'" for key_arg m m'
  proof -
    obtain a key where step: "parse_key_entry E D key_arg = Inr (a, key)" "m' = m(a \<mapsto> key)"
      using added by (auto simp: parse_keys_step_def split: if_splits)
    then have "signer_of_key E X key = Inr a"
      using assms(1) by (auto simp: parse_key_entry_def signers_agree_def split: if_splits)
    with keys_sign_update [OF signs] step(2) show ?thesis by simp
  qed
  from fold_res_invariant [where I = "keys_sign E X", OF this keys_sign_empty assms(2) [unfolded parse_keys_def]]
  show ?thesis .
qed

lemma missing_signers_Nil:
  "missing_signers m bundles = [] \<longleftrightarrow> (\<forall>b \<in> set bundles. m (mb_target b) \<noteq> None)"
proof -
  have "set (fold (\<lambda>b missing. if m (mb_target b) = None \<and> mb_target b \<notin> set missing then missing @ [mb_target b] else missing) bundles acc)
      = set acc \<union> {mb_target b |b. b \<in> set bundles \<and> m (mb_target b) = None}" for acc
    by (induction bundles arbitrary: acc) auto
  from this [of "[]"] show ?thesis
    unfolding missing_signers_def by (simp only: set_empty [symmetric]) auto
qed

subsection \<open>The two dispatchers\<close>

definition json_segment :: "ext \<Rightarrow> replay_ext \<Rightarrow> json_io \<Rightarrow> dispatch_ext \<Rightarrow> string \<Rightarrow> json \<Rightarrow> (tx_request \<times> b256 option) list \<Rightarrow> bool" where
  "json_segment E X J D dir bundle seg \<longleftrightarrow> (case manifest_entry E bundle of
     Inl _ \<Rightarrow> seg = []
   | Inr (file_name, a) \<Rightarrow> bundle_segment E X J a (read_text D (path_join dir file_name)) seg)"

lemma apply_bundle_appends:
  assumes "keys_sign E X m"
  shows "appends (apply_bundle E X J D (Some (recording N)) m dir fund) (json_segment E X J D dir) bs"
  unfolding appends_def
proof (intro ballI allI impI)
  fix b w d r w' d'
  assume run: "apply_bundle E X J D (Some (recording N)) m dir fund b w d = (r, w', d')"
  show "\<exists>seg. snd w' = snd w @ seg \<and> json_segment E X J D dir b seg"
  proof (cases "manifest_entry E b")
    case (Inl e)
    with run show ?thesis by (simp add: apply_bundle_def json_segment_def)
  next
    case (Inr entry)
    then obtain file_name a where entry: "manifest_entry E b = Inr (file_name, a)" by (cases entry) simp
    show ?thesis
    proof (cases "m a")
      case None
      with run entry show ?thesis by (auto simp: apply_bundle_def json_segment_def intro: exI [of _ "[]"])
    next
      case (Some key)
      obtain f w1 where funded: "(if fund then node_set_balance (recording N) w a else (Some (), w)) = (f, w1)"
        by (cases "if fund then node_set_balance (recording N) w a else (Some (), w)")
      then have w1: "snd w1 = snd w" by (auto simp: recording_def split: if_splits prod.splits)
      show ?thesis
      proof (cases f)
        case None
        with run entry Some funded have "w' = w1"
          by (cases fund) (auto simp: apply_bundle_def)
        with entry w1 show ?thesis
          by (auto simp: json_segment_def intro: exI [of _ "[]"])
      next
        case (Some u)
        then obtain d1 where "execute_one_bundle E X J (Some (recording N)) (read_text D (path_join dir file_name)) key
            GAS_PRICE_MULTIPLIER_BPS w1 None = (r, w', d1)"
          using run entry \<open>m a = Some key\<close> funded by (cases fund) (auto simp: apply_bundle_def split: prod.splits)
        then have "\<exists>seg. snd w' = snd w1 @ seg \<and> bundle_segment E X J a (read_text D (path_join dir file_name)) seg"
          using keys_signD [OF assms \<open>m a = Some key\<close>] by (rule signed_segment)
        with w1 entry show ?thesis by (simp add: json_segment_def)
      qed
    qed
  qed
qed

definition manifest_segment :: "ext \<Rightarrow> replay_ext \<Rightarrow> json_io \<Rightarrow> dispatch_ext \<Rightarrow> string \<Rightarrow> manifest_bundle \<Rightarrow> (tx_request \<times> b256 option) list \<Rightarrow> bool" where
  "manifest_segment E X J D dir b seg \<longleftrightarrow> bundle_segment E X J (mb_target b) (read_text D (path_join dir (mb_file b))) seg"

lemma broadcast_bundle_appends:
  assumes "keys_sign E X m"
  shows "appends (broadcast_bundle E X J D (Some (recording N)) unlocked m dir) (manifest_segment E X J D dir) bs"
  unfolding appends_def
proof (intro ballI allI impI)
  fix b w d r w' d'
  assume run: "broadcast_bundle E X J D (Some (recording N)) unlocked m dir b w d = (r, w', d')"
  show "\<exists>seg. snd w' = snd w @ seg \<and> manifest_segment E X J D dir b seg"
  proof (cases unlocked)
    case True
    with run show ?thesis
      unfolding manifest_segment_def by (intro unlocked_segment) (simp add: broadcast_bundle_def Let_def)
  next
    case False
    show ?thesis
    proof (cases "m (mb_target b)")
      case None
      with run False show ?thesis
        by (auto simp: broadcast_bundle_def manifest_segment_def intro: exI [of _ "[]"])
    next
      case (Some key)
      with run False have "execute_one_bundle E X J (Some (recording N)) (read_text D (path_join dir (mb_file b))) key
          GAS_PRICE_MULTIPLIER_BPS w d = (r, w', d')"
        by (simp add: broadcast_bundle_def)
      then show ?thesis
        unfolding manifest_segment_def using keys_signD [OF assms Some] by (rule signed_segment)
    qed
  qed
qed

lemma apply_manifest_segments:
  assumes "hex_crates_agree E D"
    and "apply_manifest_from E X J D (Some (recording N)) path start keys wallets fund w = (r, w')"
  shows "(\<exists>bundles segs. new_bundles J D path start = Inr bundles \<and> snd w' = snd w @ concat segs
      \<and> length segs \<le> length bundles \<and> list_all2 (json_segment E X J D (path_parent path)) (take (length segs) bundles) segs
      \<and> (r = Inr () \<longrightarrow> length segs = length bundles))
    \<or> (r \<noteq> Inr () \<and> w' = w)"
proof (cases "bind_res (build_key_map X D keys wallets) (\<lambda>key_map.
    bind_res (new_bundles J D path start) (\<lambda>bundles. Inr (key_map, bundles)))")
  case (Inl e)
  with assms(2) show ?thesis by (auto simp: apply_manifest_from_def)
next
  case (Inr p)
  then obtain m bundles where built: "build_key_map X D keys wallets = Inr m" "new_bundles J D path start = Inr bundles" "p = (m, bundles)"
    by auto
  show ?thesis
  proof (cases "bundles = []")
    case True
    with assms(2) built show ?thesis by (auto simp: apply_manifest_from_def intro!: exI [of _ "[]"])
  next
    case False
    then obtain d' where run:
      "run_bundles (apply_bundle E X J D (Some (recording N)) m (path_parent path) fund) bundles w () = (r, w', d')"
      using assms(2) built by (auto simp: apply_manifest_from_def split: prod.splits)
    from run_bundles_segments [OF apply_bundle_appends [OF build_key_map_signs [OF assms(1) built(1)]] run] built(2)
    show ?thesis by blast
  qed
qed

lemma load_manifest_sorted:
  "load_manifest D path = Inr (dir, bundles) \<Longrightarrow> sorted (map mb_index bundles)"
  by (auto simp: load_manifest_def split: if_splits)

lemma broadcast_segments:
  assumes "signers_agree E X D" "connect (ub_l1_rpc_url args) = Some (recording N)"
    and "broadcast_run E X J D connect args w place = (r, w', place')"
  shows "(\<exists>dir bundles segs. load_manifest D (ub_manifest args) = Inr (dir, bundles) \<and> sorted (map mb_index bundles)
      \<and> snd w' = snd w @ concat segs
      \<and> length segs \<le> length bundles \<and> list_all2 (manifest_segment E X J D dir) (take (length segs) bundles) segs
      \<and> (r = Inr () \<longrightarrow> length segs = length bundles)
      \<and> (ub_unlocked args \<or> (\<exists>m. parse_keys E D (ub_keys args) = Inr m \<and> (\<forall>b \<in> set bundles. m (mb_target b) \<noteq> None))))
    \<or> (r \<noteq> Inr () \<and> w' = w \<and> place' = place)"
proof (cases "bind_res (load_manifest D (ub_manifest args)) (\<lambda>(manifest_dir, bundles).
    bind_res (if ub_unlocked args then Inr Map.empty else parse_keys E D (ub_keys args)) (\<lambda>key_map.
    if \<not> ub_unlocked args \<and> missing_signers key_map bundles \<noteq> [] then Inl (Bail ''no --key supplied for signer(s)'')
    else Inr (manifest_dir, bundles, key_map)))")
  case (Inl e)
  with assms(3) show ?thesis by (auto simp: broadcast_run_def)
next
  case (Inr p)
  then obtain dir bundles m where loaded: "load_manifest D (ub_manifest args) = Inr (dir, bundles)" "p = (dir, bundles, m)"
    and keys: "(if ub_unlocked args then Inr Map.empty else parse_keys E D (ub_keys args)) = Inr m"
    and all: "ub_unlocked args \<or> missing_signers m bundles = []"
    by (auto split: if_splits)
  have run: "run_bundles (broadcast_bundle E X J D (Some (recording N)) (ub_unlocked args) m dir) bundles w place = (r, w', place')"
    using assms(2,3) Inr loaded(2) by (simp add: broadcast_run_def)
  have signs: "keys_sign E X m"
    using keys parse_keys_signs [OF assms(1)] by (auto simp: keys_sign_empty split: if_splits)
  have "ub_unlocked args \<or> (\<exists>m. parse_keys E D (ub_keys args) = Inr m \<and> (\<forall>b \<in> set bundles. m (mb_target b) \<noteq> None))"
    using keys all missing_signers_Nil [of m bundles] by (auto split: if_splits)
  with run_bundles_segments [OF broadcast_bundle_appends [OF signs] run] loaded(1) load_manifest_sorted [OF loaded(1)] show ?thesis by blast
qed

text \<open>A signer without a key stops a keyed broadcast before anything is sent or written.\<close>

lemma broadcast_refuses:
  assumes "\<not> ub_unlocked args" "load_manifest D (ub_manifest args) = Inr (dir, bundles)"
    and "parse_keys E D (ub_keys args) = Inr m" "b \<in> set bundles" "m (mb_target b) = None"
  shows "broadcast_run E X J D connect args w place = (Inl (Bail ''no --key supplied for signer(s)''), w, place)"
proof -
  have "missing_signers m bundles \<noteq> []"
    unfolding missing_signers_Nil using assms(4,5) by blast
  with assms(1-3) show ?thesis by (simp add: broadcast_run_def)
qed

end
