(* ===== verification/Example_Tools.thy ===== *)
theory Example_Tools
  imports Example_Passes Readiness Genesis Dispatch
begin

section \<open>Example inputs of the tools\<close>

text \<open>
  A settlement layer with one announced upgrade, a chain that mines the upgrade transaction and
  finalizes the block before it, and a small genesis: a bundle and a node that takes its
  transaction: the inputs at which the theorems on the readiness checker, the genesis generator and
  the replay are applied.
\<close>

subsection \<open>An announced upgrade\<close>

definition demo_cut_log :: cut_log where
  "demo_cut_log = \<lparr>log_block = 7, log_topic1 = 0x1f00000000, log_address = 0xc7, log_signature = 0x51, log_payload = []\<rparr>"

definition demo_upgrade_tx :: l2_canonical_transaction where
  "demo_upgrade_tx = \<lparr>tx_txType = 254, tx_from = 0x8007, tx_l2_to = 0x800f, tx_gasLimit = 72000000,
     tx_gasPerPubdataByteLimit = 800, tx_maxFeePerGas = 0, tx_maxPriorityFeePerGas = 0, tx_paymaster = 0, tx_nonce = 31,
     tx_value = 0, tx_reserved = [0, 0, 0, 0], tx_data = [1], tx_signature = [], tx_factoryDeps = [],
     tx_paymasterInput = [], tx_reservedDynamic = []\<rparr>"

definition demo_proposed :: proposed_upgrade where
  "demo_proposed = \<lparr>l2ProtocolUpgradeTx = demo_upgrade_tx, bootloaderHash = 0, defaultAccountHash = 0, evmEmulatorHash = 0,
     pu_verifier = 0, verifierParams = \<lparr>recursionNodeLevelVkHash = 0, recursionLeafLevelVkHash = 0,
       recursionCircuitsSetVksHash = 0\<rparr>, l1ContractsUpgradeCalldata = [], postUpgradeCalldata = [],
     upgradeTimestamp = 0, newProtocolVersion = 0x1f00000000\<rparr>"

definition demo_readiness_abi :: readiness_abi where
  "demo_readiness_abi = \<lparr>NewUpgradeCutData_SIGNATURE_HASH = 0x51,
     log_decode_NewUpgradeCutData = (\<lambda>l. Some \<lparr>facetCuts = [], initAddress = 0x99, initCalldata = [0, 0, 0, 0]\<rparr>),
     abi_decode_ProposedUpgrade = (\<lambda>b. Some demo_proposed),
     abi_encode_L2CanonicalTransaction = tx_data\<rparr>"

definition demo_settlement :: settlement where
  "demo_settlement = \<lparr>sl_get_block_number = Some 9,
     sl_get_logs = (\<lambda>flt. Some (filter (log_matches flt) [demo_cut_log])),
     sl_chainTypeManager = (\<lambda>bridgehub c. Some 0xc7),
     sl_getL2UpgradeTxData = (\<lambda>i b c z d. None)\<rparr>"

definition demo_cli :: readiness_cli where
  "demo_cli = \<lparr>l2_rpc_url = ''l2'', cli_chain_id = 270, settlement_rpc_url = ''l1'', cli_bridgehub_address = 0xb1,
     target_minor_version = 31, target_patch_version = 0, zksync_os = True\<rparr>"

text \<open>No receipt at the first tick; then the transaction is in block 5 and block 4 is finalized.\<close>

definition demo_l2 :: "nat \<Rightarrow> l2_node" where
  "demo_l2 tick = \<lparr>post_getTransactionReceipt = (\<lambda>h. Some \<lparr>rpc_result =
       (if tick = 0 then None else Some \<lparr>receipt_block_number = ''0x5''\<rparr>), rpc_error = None\<rparr>),
     post_getBlockByNumber = (\<lambda>tag full. Some \<lparr>rpc_result = Some \<lparr>header_number = ''0x4''\<rparr>, rpc_error = None\<rparr>)\<rparr>"

lemma demo_serves: "serves_logs demo_settlement [demo_cut_log]"
  by (simp add: serves_logs_def demo_settlement_def)

lemma demo_parse_hex: "parse_hex_u64 ''0x5'' = Inr 5" "parse_hex_u64 ''0x4'' = Inr 4"
  by (simp_all add: parse_hex_u64_def strip_prefix_def u64_from_str_radix_16_def hex_value_def)

lemma demo_ready: "ready_at (demo_l2 (Suc n)) h" "\<not> ready_at (demo_l2 0) h"
  by (auto simp: ready_at_def mined_in_def finalized_at_def demo_l2_def demo_parse_hex)

lemma demo_announced:
  "announced_upgrade demo_ext demo_readiness_abi demo_settlement demo_cli 9 [demo_cut_log] (keccak256 demo_ext [1])"
proof -
  have "saturating_sub 9 2500000 = 0" by (simp add: saturating_sub_def)
  then have "newest (cut_window demo_readiness_abi 0xc7 demo_cli 9) [demo_cut_log] = Some demo_cut_log"
    by (simp add: newest_def log_matches_def cut_window_def demo_readiness_abi_def demo_cli_def demo_cut_log_def)
  then show ?thesis
    by (simp add: announced_upgrade_def demo_settlement_def demo_cli_def [symmetric])
      (simp add: demo_readiness_abi_def demo_proposed_def demo_upgrade_tx_def)
qed

subsection \<open>A small genesis\<close>

definition demo_genesis_ext :: genesis_ext where
  "demo_genesis_ext = \<lparr>blake2s256 = (\<lambda>bs. from_be_bytes (drop (length bs - 32) bs)), header_hash_slow = (\<lambda>h. 0),
     EMPTY_OMMER_ROOT_HASH = 0, INITIAL_BASE_FEE = 0, ACCOUNT_PROPERTIES_STORAGE_ADDRESS = 0x8003,
     account_properties_hash = (\<lambda>n code. of_nat (n + length code)), hex_crate_decode = (\<lambda>s. None),
     deployed_bytecode_object = (\<lambda>s. None)\<rparr>"

definition demo_genesis_input :: initial_genesis_input where
  "demo_genesis_input = \<lparr>initial_contracts = [(5, [0xfe])], additional_storage = [],
     additional_storage_raw = [(9, 1)]\<rparr>"

lemma demo_account_key: "account_properties_flat_key demo_genesis_ext 5 = 5"
  by (simp add: account_properties_flat_key_def flat_storage_key_for_contract_def demo_genesis_ext_def
      address_to_b256_def [symmetric] address_to_b256_ucast b256_bytes_def from_to_be_bytes)

lemma demo_contract_entries: "contract_entries demo_genesis_ext demo_genesis_input = [(5, 2)]"
  by (simp add: contract_entries_def demo_genesis_input_def demo_account_key) (simp add: demo_genesis_ext_def)

lemma demo_genesis_fresh: "additional_fresh demo_genesis_ext demo_genesis_input"
  by (simp add: additional_fresh_def demo_contract_entries) (simp add: demo_genesis_input_def flat_slots_def)

lemma demo_genesis_state: "map_of [(5, 2), (9, 1)] = genesis_state demo_genesis_ext demo_genesis_input"
  by (simp add: genesis_state_def demo_contract_entries)
    (auto simp: demo_genesis_input_def flat_slots_def fun_upd_twist)

lemma demo_loader_builds: "\<exists>input. build_from_source_loader demo_ext demo_genesis_ext (\<lambda>source. Inr [1]) = Inr input"
proof -
  have "map_res (\<lambda>c. Inr [1]) cs = Inr (map (\<lambda>c. [1 :: byte]) cs)" for cs :: "(address \<times> contract_deployment) list"
    by (induction cs) simp_all
  then show ?thesis
    by (simp add: build_from_source_loader_def add_initial_contracts case_prod_unfold)
qed

subsection \<open>A bundle and a node\<close>

text \<open>The world of the node is the number of transactions it took.\<close>

definition demo_node :: "nat chain_node" where
  "demo_node = \<lparr>node_gas_price = (\<lambda>w. Some 5), node_pending_nonce = (\<lambda>w a. Some 7), node_chain_id = (\<lambda>w. Some 9),
     node_estimate_gas = (\<lambda>w c. Inr 100000), node_code_at = (\<lambda>w a. None),
     node_send = (\<lambda>w q. (Some (of_nat (Suc w)), Suc w)), node_await = (\<lambda>w h. (Some True, w)),
     node_set_balance = (\<lambda>w a. (Some (), w))\<rparr>"

definition demo_executed :: "executed_tx \<Rightarrow> string \<times> string \<times> string \<times> string \<times> nat" where
  "demo_executed x = (ex_tx_hash x, ex_to x, ex_data x, ex_value x, unat (ex_status x))"

definition demo_replay_ext :: replay_ext where
  "demo_replay_ext = \<lparr>signer_from_slice = (\<lambda>bs. Some 0x55), u256_from_hex = (\<lambda>s. Some 0), u256_from_str = (\<lambda>s. None),
     alloy_create2 = (\<lambda>a s h. 0),
     executed_parse = (\<lambda>s. Some (map (\<lambda>(h, t, d, v, n). \<lparr>ex_tx_hash = h, ex_to = t, ex_data = d, ex_value = v, ex_status = of_nat n\<rparr>)
       (from_nat (digits_val s 0)))),
     executed_print = (\<lambda>txs. show_nat (to_nat (map demo_executed txs)))\<rparr>"

lemma demo_executed_codec: "executed_codec demo_replay_ext"
proof -
  have "(\<lambda>(h, t, d, v, n). \<lparr>ex_tx_hash = h, ex_to = t, ex_data = d, ex_value = v, ex_status = of_nat n\<rparr>) (demo_executed x) = x" for x
    by (simp add: demo_executed_def)
  then have "map (\<lambda>(h, t, d, v, n). \<lparr>ex_tx_hash = h, ex_to = t, ex_data = d, ex_value = v, ex_status = of_nat n\<rparr>)
      (map demo_executed txs) = txs" for txs
    by (simp add: map_idI)
  then show ?thesis
    by (simp add: executed_codec_def demo_replay_ext_def show_nat_val)
qed

lemma demo_hex_text: "hex_text_codec demo_ext"
proof -
  have enc: "hex_encode demo_ext bs = concat (map hex_byte bs)" for bs
    by (simp add: demo_ext_def)
  have "length (concat (map hex_byte bs)) = 2 * length bs" for bs
    by (induction bs) (simp_all add: hex_byte_def)
  moreover have "set (concat (map hex_byte bs)) \<subseteq> set ''0123456789abcdef''" for bs
    using hex_byte_chars by (auto simp del: set_simps list.set)
  ultimately show ?thesis
    using demo_hex_law(1) unfolding hex_text_codec_def enc by blast
qed

definition demo_safe_tx :: json where
  "demo_safe_tx = JObj [(''to'', JStr demo_addr), (''data'', JStr ''0x''), (''value'', JStr ''0x0'')]"

definition demo_bundle_json :: json_io where
  "demo_bundle_json = \<lparr>json_parse = (\<lambda>s. Some (JObj [(''transactions'', JArr [demo_safe_tx])])), json_print = (\<lambda>j. [])\<rparr>"

definition demo_request :: tx_request where
  "demo_request = \<lparr>rq_from = 0x55, rq_to = 0x1234, rq_input = [], rq_value = 0, rq_nonce = 7, rq_gas_limit = 125000,
     rq_gas_price = 1000000000, rq_chain_id = None\<rparr>"

definition demo_place :: out_place where
  "demo_place = \<lparr>executed_file = None, hash_log = [], out_has_parent = True, out_parent_creatable = True,
     executed_writable = True, log_writable = True\<rparr>"

lemma demo_hex_Nil: "hex_decode demo_ext [] = Some []"
  using demo_hex_law(1) [of "[]"] by (simp add: demo_ext_def)

lemma demo_data: "trim_start_matches ''0x'' ''0x'' = []"
  by (simp add: trim_start_matches.simps)

lemma demo_decoded: "decode_safe_tx demo_ext demo_replay_ext demo_safe_tx = Inr (0x1234, [], 0)"
proof -
  have "parse_decimal_or_hex_u256 demo_replay_ext ''0x0'' = Inr 0"
    by (simp add: parse_decimal_or_hex_u256_def trim_def is_ws_def strip_prefix_def demo_replay_ext_def)
  then show ?thesis
    using demo_addr_parses by (simp add: decode_safe_tx_def demo_safe_tx_def get_str_def demo_data demo_hex_Nil)
qed

lemma demo_buffered: "buffered_gas 100000 = 125000" "max (saturating_mul (5 :: u128) 30000 div 10000) GAS_PRICE_FLOOR_WEI = 1000000000"
  by (simp_all add: buffered_gas_def saturating_mul_def GAS_ESTIMATE_BUFFER_BPS_def PER_TX_GAS_LIMIT_CAP_def GAS_PRICE_FLOOR_WEI_def max_def min_def)

definition demo_replayer :: "bool \<Rightarrow> (nat \<times> (tx_request \<times> b256 option) list) replayer" where
  "demo_replayer has_out = \<lparr>rp_node = recording demo_node, rp_sender = 0x55, rp_base_nonce = 7, rp_price = 1000000000,
     rp_idempotent = IDEMPOTENT_SIGNED, rp_chain_id = None, keep = has_out\<rparr>"

lemma demo_signer: "signer_of_key demo_ext demo_replay_ext [] = Inr 0x55"
  by (simp add: signer_of_key_def strip_0x_once_def strip_prefix_def demo_hex_Nil demo_replay_ext_def)

lemma demo_signed:
  "signed_replayer demo_ext demo_replay_ext (Some (recording demo_node)) [] b 30000 (0, l) = Inr (demo_replayer b)"
  using demo_buffered(2)
  by (simp add: signed_replayer_def demo_signer resolve_gas_price_def demo_replayer_def) (simp add: recording_def demo_node_def)

lemma demo_gas: "gas_limit_for demo_ext demo_replay_ext (demo_replayer b) (0, l) 0x1234 [] 0 = Inr (Some 125000)"
  by (simp add: gas_limit_for_def demo_replayer_def demo_buffered recording_def demo_node_def)

lemma demo_tx_request: "tx_request_for (demo_replayer b) 0 0 0x1234 [] 0 125000 = demo_request"
  by (simp add: tx_request_for_def demo_replayer_def demo_request_def)

lemma demo_receipt: "receipt_input demo_ext demo_safe_tx = Inr []"
  by (simp add: receipt_input_def demo_safe_tx_def get_str_def demo_data demo_hex_Nil)

lemma demo_loop:
  "\<exists>st. replay_loop demo_ext demo_replay_ext (demo_replayer b) 0 [demo_safe_tx]
      \<lparr>rs_world = (0, []), rs_skipped = 0, rs_executed = [], rs_hashes = []\<rparr> = (Inr (), st)
    \<and> rs_world st = (1, [(demo_request, Some 1)])"
  by (simp add: replay_tx_def demo_decoded demo_gas demo_tx_request)
    (simp add: submit_def demo_receipt demo_replayer_def recording_def demo_node_def)

lemma demo_txs: "read_safe_txs demo_bundle_json (Some []) = Inr [demo_safe_tx]"
  by (simp add: read_safe_txs_def demo_bundle_json_def)

lemma demo_replay:
  "execute_one_bundle demo_ext demo_replay_ext demo_bundle_json (Some (recording demo_node)) (Some []) [] 30000 (0, []) None
    = (Inr (), (1, [(demo_request, Some 1)]), None)"
  using demo_loop [of False]
  by (auto simp: execute_one_bundle_def demo_txs demo_signed replay_and_flush_def load_executed_def flush_out_def)

lemma append_hashes_ok:
  "out_parent_creatable d \<Longrightarrow> log_writable d \<Longrightarrow> \<exists>d'. append_hashes E hs d = (Inr (), d')"
  by (induction hs arbitrary: d) (simp_all add: append_transaction_hash_def)

lemma demo_replay_out:
  "\<exists>d'. execute_one_bundle demo_ext demo_replay_ext demo_bundle_json (Some (recording demo_node)) (Some []) [] 30000 (0, []) (Some demo_place)
    = (Inr (), (1, [(demo_request, Some 1)]), Some d')"
proof -
  obtain st where st: "replay_loop demo_ext demo_replay_ext (demo_replayer True) 0 [demo_safe_tx]
      \<lparr>rs_world = (0, []), rs_skipped = 0, rs_executed = [], rs_hashes = []\<rparr> = (Inr (), st)"
    "rs_world st = (1, [(demo_request, Some 1)])"
    using demo_loop by blast
  have "\<exists>d'. flush_out demo_ext demo_replay_ext [] st (Some demo_place) = (Inr (), Some d')"
  proof (cases "rs_executed st = []")
    case False
    obtain d' where "append_hashes demo_ext (rs_hashes st)
        (demo_place\<lparr>executed_file := Some (Text (executed_print demo_replay_ext (rs_executed st)))\<rparr>) = (Inr (), d')"
      using append_hashes_ok by (force simp: demo_place_def)
    with False show ?thesis
      by (simp add: flush_out_def persist_executed_bundle_def) (simp add: demo_place_def)
  qed (simp add: flush_out_def)
  with st show ?thesis
    by (auto simp: execute_one_bundle_def demo_txs demo_signed replay_and_flush_def load_executed_def demo_place_def)
qed

subsection \<open>A manifest\<close>

definition demo_dispatch :: dispatch_ext where
  "demo_dispatch = \<lparr>read_text = (\<lambda>p. Some []), canonicalize = Some, yaml_parse = (\<lambda>s. None),
     manifest_parse = (\<lambda>s. Some [\<lparr>mb_file = ''b'', mb_index = 2, mb_target = 0x55\<rparr>]), hex_crate = (\<lambda>s. None),
     b256_from_str = (\<lambda>s. if s = [] then Some 0 else None), signer_from_bytes = (\<lambda>p. Some 0x55)\<rparr>"

definition demo_broadcast :: upgrade_broadcast_args where
  "demo_broadcast = \<lparr>ub_manifest = ''out/manifest.json'', ub_l1_rpc_url = [], ub_keys = [], ub_unlocked = False\<rparr>"

lemma demo_signers_agree: "signers_agree demo_ext demo_replay_ext demo_dispatch"
  by (simp add: signers_agree_def demo_dispatch_def demo_signer)

lemma demo_manifest_loaded:
  "load_manifest demo_dispatch ''out/manifest.json'' = Inr (''out'', [\<lparr>mb_file = ''b'', mb_index = 2, mb_target = 0x55\<rparr>])"
  by (simp add: load_manifest_def demo_dispatch_def path_parent_def)

lemma demo_no_keys: "parse_keys demo_ext demo_dispatch [] = Inr Map.empty"
  by (simp add: parse_keys_def)

end
