(* ===== verification/Merge.thy ===== *)
theory Merge
  imports Dispatch Governance_Calls
begin

section \<open>Merging the prepared files into the artifact\<close>

text \<open>
  The pure part of \<^verbatim>\<open>commands/ecosystem/upgrade.rs\<close>: which CTMs an upgrade prepares, the merge of the
  files the prepare scripts wrote into \<^verbatim>\<open>ecosystem.toml\<close>, and the replay of its governance calls. Files,
  the \<^verbatim>\<open>toml\<close> crate, the generated ABI coders, the lookup of the governance contract and the forge runner
  are parameters. The lemmas show that the verifier's reader accepts what the merge writes, with the
  calls of every source in their order.
\<close>

record test_upgrade_calls =
  test_create_chain :: string
  test_create_chain_caller :: string
  test_upgrade_chain :: string
  test_upgrade_chain_caller :: string

record ctm_inputs =
  in_proxy :: address
  in_is_zk_sync_os :: "bool option"
  in_bytecodes_supplier :: "address option"
  in_rollup_da_manager :: "address option"
  in_rollup_da_pair :: "rollup_da_pair_config option"

record ctm_config_file =
  cfg_ctms :: "ctm_entry list"
  cfg_core_is_zk_sync_os :: "bool option"

record ctm_prepare_entry =
  pe_proxy :: address
  pe_toml :: string
  pe_is_zk_sync_os :: bool
  pe_rollup_da_manager :: address
  pe_rollup_da_pair :: "rollup_da_pair_config option"

record zk_governance_outcome =
  zo_stage0_calls :: "call list"
  zo_puh_proxy :: address
  zo_proxy_admin :: address
  zo_new_puh_impl :: address
  zo_new_guardians :: address
  zo_new_security_council :: address
  zo_new_emergency_upgrade_board :: address

record merge_ext =
  mx_read :: "string \<Rightarrow> string option"
  mx_toml_parse :: "string \<Rightarrow> table option"
  mx_toml_print :: "table \<Rightarrow> string option"
  mx_ctm_config_parse :: "string \<Rightarrow> ctm_config_file option"
  encode_acceptOwnership :: bytes
  encode_updateDAPair :: "address \<Rightarrow> 8 word \<Rightarrow> bool \<Rightarrow> bytes"
  encode_governanceExecuteCalls :: "bytes \<Rightarrow> address \<Rightarrow> bytes"
  encode_governanceExecuteCallsDirect :: "bytes \<Rightarrow> address \<Rightarrow> bytes"

text \<open>The file the merge writes to.\<close>

record merge_dst =
  dst_parent_creatable :: bool
  dst_writable :: bool
  dst_contents :: "string option"

subsection \<open>The CTMs to prepare\<close>

definition infer_core_is_zk_sync_os :: "ctm_entry list \<Rightarrow> bool option" where
  "infer_core_is_zk_sync_os entries =
     (if list_ex (\<lambda>e. ce_is_zk_sync_os e = Some False) entries then Some False
      else (case entries of [] \<Rightarrow> None | e # _ \<Rightarrow> ce_is_zk_sync_os e))"

definition ctm_inputs_of :: "ctm_entry \<Rightarrow> ctm_inputs" where
  "ctm_inputs_of e = \<lparr>in_proxy = ce_proxy e, in_is_zk_sync_os = ce_is_zk_sync_os e,
     in_bytecodes_supplier = ce_bytecodes_supplier e, in_rollup_da_manager = ce_rollup_da_manager e,
     in_rollup_da_pair = ce_rollup_da_pair e\<rparr>"

definition config_core_flavor :: "ctm_entry list \<Rightarrow> bool option" where
  "config_core_flavor entries =
     (if list_ex (\<lambda>e. ce_is_zk_sync_os e = Some False) entries then Some False
      else if list_ex (\<lambda>e. ce_is_zk_sync_os e = Some True) entries then Some True
      else None)"

definition load_ctm_config :: "merge_ext \<Rightarrow> string \<Rightarrow> (ctm_inputs list \<times> bool option) res" where
  "load_ctm_config M path =
     bind_res (ok_or (Bail ''Failed to read CTM config TOML'') (mx_read M path)) (\<lambda>content.
     bind_res (ok_or (Bail ''Failed to parse CTM config TOML'') (mx_ctm_config_parse M content)) (\<lambda>parsed.
     if cfg_ctms parsed = [] then Inl (Bail ''CTM config TOML has no [[ctm]] entries'')
     else Inr (map ctm_inputs_of (cfg_ctms parsed),
       (case cfg_core_is_zk_sync_os parsed of Some b \<Rightarrow> Some b | None \<Rightarrow> config_core_flavor (cfg_ctms parsed)))))"

record prepare_ctm_args =
  pa_ctm_config :: "string option"
  pa_ctm_proxies :: "address list"
  pa_is_zk_sync_os :: "bool option"
  pa_bytecodes_supplier :: "address option"
  pa_rollup_da_manager :: "address option"

text \<open>The last argument is the list of CTMs of the environment, if one is selected.\<close>

definition resolve_ctms :: "merge_ext \<Rightarrow> prepare_ctm_args \<Rightarrow> ctm_entry list option \<Rightarrow> (ctm_inputs list \<times> bool option) res" where
  "resolve_ctms M args env_ctms = (case pa_ctm_config args of
     Some cfg_path \<Rightarrow> load_ctm_config M cfg_path
   | None \<Rightarrow>
       if pa_ctm_proxies args \<noteq> [] then
         Inr (map (\<lambda>p. \<lparr>in_proxy = p, in_is_zk_sync_os = pa_is_zk_sync_os args, in_bytecodes_supplier = pa_bytecodes_supplier args,
                in_rollup_da_manager = pa_rollup_da_manager args, in_rollup_da_pair = None\<rparr>) (pa_ctm_proxies args),
              pa_is_zk_sync_os args)
       else (case env_ctms of
           None \<Rightarrow> Inl (Bail ''either --ctm-config, --ctm-proxy, or --env must be provided'')
         | Some entries \<Rightarrow>
             if entries = [] then Inl (Bail ''no [[ctm_contracts.ctms]] entries'')
             else if list_ex (\<lambda>e. ce_bytecodes_supplier e = Some 0) entries then Inl (Bail ''bytecodes_supplier still 0x0 (TODO marker)'')
             else Inr (map ctm_inputs_of entries, infer_core_is_zk_sync_os entries)))"

subsection \<open>The sources of the merge\<close>

text \<open>\<^verbatim>\<open>Table::insert\<close>: an entry with the key is replaced in place.\<close>

definition table_insert :: "string \<Rightarrow> toml \<Rightarrow> table \<Rightarrow> table" where
  "table_insert k v t =
     (if map_of t k = None then t @ [(k, v)] else map (\<lambda>e. if fst e = k then (k, v) else e) t)"

definition test_upgrade_calls_try_from :: "toml \<Rightarrow> test_upgrade_calls option" where
  "test_upgrade_calls_try_from v = do {
     a \<leftarrow> string_field v ''test_create_chain'';
     b \<leftarrow> string_field v ''test_create_chain_caller'';
     c \<leftarrow> string_field v ''test_upgrade_chain'';
     d \<leftarrow> string_field v ''test_upgrade_chain_caller'';
     Some \<lparr>test_create_chain = a, test_create_chain_caller = b, test_upgrade_chain = c, test_upgrade_chain_caller = d\<rparr> }"

definition load_and_split :: "merge_ext \<Rightarrow> string \<Rightarrow> (table \<times> governance_calls \<times> test_upgrade_calls option) res" where
  "load_and_split M path =
     bind_res (ok_or (Bail ''read'') (mx_read M path)) (\<lambda>raw.
     bind_res (ok_or (Bail ''parse'') (mx_toml_parse M raw)) (\<lambda>value0.
     let (gov, value1) = table_remove ''governance_calls'' value0 in
     bind_res (ok_or (Bail ''missing [governance_calls]'') gov) (\<lambda>gov_value.
     bind_res (ok_or (Bail ''invalid [governance_calls]'') (governance_calls_try_from gov_value)) (\<lambda>calls.
     let (test, value2) = table_remove ''test_upgrade_calls'' value1 in
     bind_res (optional_section (\<lambda>v. ok_or (Bail ''invalid [test_upgrade_calls]'') (test_upgrade_calls_try_from v)) test) (\<lambda>tests.
     Inr (value2, calls, tests))))))"

definition split_misc :: "table \<Rightarrow> (table \<times> table option) res" where
  "split_misc body0 = (let (v, body) = table_remove ''misc'' body0 in
     case v of
       None \<Rightarrow> Inr (body, None)
     | Some (TTable t) \<Rightarrow> Inr (body, Some t)
     | Some _ \<Rightarrow> Inl (Bail ''[misc] must be a table''))"

record merge_state =
  ms_ctms :: table
  ms_stage0 :: "string list"
  ms_stage1 :: "string list"
  ms_stage2 :: "string list"
  ms_era_test :: "test_upgrade_calls option"
  ms_os_test :: "test_upgrade_calls option"

definition ctm_label :: "ctm_prepare_entry \<Rightarrow> string" where
  "ctm_label e = (if pe_is_zk_sync_os e then ''zksync_os'' else ''era'')"

definition da_pair_table :: "ext \<Rightarrow> rollup_da_pair_config \<Rightarrow> toml" where
  "da_pair_table E pair = TTable
     (table_insert ''l2_da_commitment_scheme'' (TString (scheme_display (pair_l2_da_commitment_scheme pair)))
       (table_insert ''l1_da_validator'' (TString (address_text E (pair_l1_da_validator pair))) []))"

definition ctm_body :: "ext \<Rightarrow> ctm_prepare_entry \<Rightarrow> table \<Rightarrow> table" where
  "ctm_body E e body = (case pe_rollup_da_pair e of
     Some pair \<Rightarrow> table_insert ''rollup_da_pair'' (da_pair_table E pair) body
   | None \<Rightarrow> body)"

definition add_ctm :: "ext \<Rightarrow> merge_ext \<Rightarrow> ctm_prepare_entry \<Rightarrow> merge_state \<Rightarrow> merge_state res" where
  "add_ctm E M e st =
     bind_res (load_and_split M (pe_toml e)) (\<lambda>(body, gov, test_calls).
     if map_of (ms_ctms st) (ctm_label e) \<noteq> None then Inl (Bail ''duplicate CTM flavor'')
     else Inr (st\<lparr>ms_ctms := table_insert (ctm_label e) (TTable (ctm_body E e body)) (ms_ctms st),
       ms_stage0 := ms_stage0 st @ [stage0_calls gov], ms_stage1 := ms_stage1 st @ [stage1_calls gov],
       ms_stage2 := ms_stage2 st @ [stage2_calls gov],
       ms_era_test := (if test_calls \<noteq> None \<and> \<not> pe_is_zk_sync_os e then test_calls else ms_era_test st),
       ms_os_test := (if test_calls \<noteq> None \<and> pe_is_zk_sync_os e then test_calls else ms_os_test st)\<rparr>))"

definition test_calls_missing :: "ctm_prepare_entry list \<Rightarrow> merge_state \<Rightarrow> bool" where
  "test_calls_missing entries st \<longleftrightarrow> list_ex (\<lambda>e. \<not> pe_is_zk_sync_os e) entries \<and> list_ex pe_is_zk_sync_os entries
     \<and> (ms_era_test st = None \<or> ms_os_test st = None)"

definition da_manager_calls :: "merge_ext \<Rightarrow> ctm_prepare_entry \<Rightarrow> call list" where
  "da_manager_calls M e = (case pe_rollup_da_pair e of
     None \<Rightarrow> []
   | Some pair \<Rightarrow>
       [\<lparr>target = pe_rollup_da_manager e, call_value = 0, data = encode_acceptOwnership M\<rparr>,
        \<lparr>target = pe_rollup_da_manager e, call_value = 0,
         data = encode_updateDAPair M (pair_l1_da_validator pair) (scheme_as_u8 (pair_l2_da_commitment_scheme pair)) True\<rparr>])"

definition rollup_da_manager_setup_calls :: "merge_ext \<Rightarrow> ctm_prepare_entry list \<Rightarrow> call list" where
  "rollup_da_manager_setup_calls M entries = concat (map (da_manager_calls M) entries)"

definition read_asset_tracker_proxy_from_core :: "ext \<Rightarrow> merge_ext \<Rightarrow> string \<Rightarrow> address res" where
  "read_asset_tracker_proxy_from_core E M core_toml =
     bind_res (ok_or (Bail ''read'') (mx_read M core_toml)) (\<lambda>raw.
     bind_res (ok_or (Bail ''parse'') (Option.bind (mx_toml_parse M raw) (\<lambda>t. string_field (TTable t) ''asset_tracker_proxy_addr''))) (\<lambda>s.
     ok_or (Bail ''asset_tracker_proxy_addr is not a valid address'') (address_from_str E s)))"

definition register_legacy_token :: "ext \<Rightarrow> address \<Rightarrow> b256 \<Rightarrow> call" where
  "register_legacy_token E asset_tracker asset_id =
     \<lparr>target = asset_tracker, call_value = 0,
      data = take 4 (b256_bytes (keccak256 E (string_bytes ''registerLegacyToken(bytes32)''))) @ b256_bytes asset_id\<rparr>"

definition gateway_file :: "merge_ext \<Rightarrow> string \<Rightarrow> (string \<times> table) res" where
  "gateway_file M path =
     bind_res (ok_or (Bail ''read'') (mx_read M path)) (\<lambda>raw.
     bind_res (ok_or (Bail ''parse'') (mx_toml_parse M raw)) (\<lambda>value0.
     let (gov, value1) = table_remove ''governance_calls_to_execute'' value0 in
     bind_res (ok_or (Bail ''missing governance_calls_to_execute'') gov) (\<lambda>v.
     bind_res (ok_or (Bail ''governance_calls_to_execute is not a string'') (as_str v)) (\<lambda>gov_hex.
     Inr (gov_hex, value1)))))"

text \<open>The chunks of stage 2 for a new Gateway, and the body of its first file.\<close>

definition gateway_chunks ::
    "ext \<Rightarrow> calls_abi \<Rightarrow> merge_ext \<Rightarrow> string \<Rightarrow> string list \<Rightarrow> b256 \<Rightarrow> (string list \<times> table option) res" where
  "gateway_chunks E G M core_toml new_gateway_tomls asset_id =
     (if new_gateway_tomls = [] then Inr ([], None)
      else bind_res (read_asset_tracker_proxy_from_core E M core_toml) (\<lambda>asset_tracker.
        bind_res (map_res (gateway_file M) new_gateway_tomls) (\<lambda>bodies.
        Inr (calls_hex E G [register_legacy_token E asset_tracker asset_id] # map fst bodies,
          map_option snd (case bodies of [] \<Rightarrow> None | b # _ \<Rightarrow> Some b)))))"

subsection \<open>The merged document\<close>

definition merge_chunks :: "ext \<Rightarrow> calls_abi \<Rightarrow> string list \<Rightarrow> string res" where
  "merge_chunks E G chunks = (if chunks = [] then Inr (empty_calls_hex E G) else merge_call_array_hex E G chunks)"

definition insert_section :: "string \<Rightarrow> table option \<Rightarrow> table \<Rightarrow> table" where
  "insert_section k section doc = (case section of Some t \<Rightarrow> table_insert k (TTable t) doc | None \<Rightarrow> doc)"

definition insert_strings :: "(string \<times> string) list \<Rightarrow> table \<Rightarrow> table" where
  "insert_strings kvs t = fold (\<lambda>(k, s). table_insert k (TString s)) kvs t"

definition test_entries :: "string \<Rightarrow> test_upgrade_calls option \<Rightarrow> (string \<times> string) list" where
  "test_entries sfx calls = (case calls of
     None \<Rightarrow> []
   | Some c \<Rightarrow> [(''test_create_chain_'' @ sfx, test_create_chain c),
       (''test_create_chain_'' @ sfx @ ''_caller'', test_create_chain_caller c),
       (''test_upgrade_chain_'' @ sfx, test_upgrade_chain c),
       (''test_upgrade_chain_'' @ sfx @ ''_caller'', test_upgrade_chain_caller c)])"

definition test_section :: "merge_state \<Rightarrow> table option" where
  "test_section st = (if ms_era_test st \<noteq> None \<or> ms_os_test st \<noteq> None
     then Some (insert_strings (test_entries ''zkos'' (ms_os_test st)) (insert_strings (test_entries ''era'' (ms_era_test st)) []))
     else None)"

definition zk_section :: "ext \<Rightarrow> zk_governance_outcome \<Rightarrow> table" where
  "zk_section E z = insert_strings [(''new_puh_impl'', address_text E (zo_new_puh_impl z)),
     (''new_guardians'', address_text E (zo_new_guardians z)),
     (''new_security_council'', address_text E (zo_new_security_council z)),
     (''new_emergency_upgrade_board'', address_text E (zo_new_emergency_upgrade_board z))] []"

definition merged_document ::
    "ext \<Rightarrow> string \<times> string \<times> string \<Rightarrow> merge_state \<Rightarrow> table \<Rightarrow> table option \<Rightarrow> zk_governance_outcome option \<Rightarrow> table option \<Rightarrow> table" where
  "merged_document E stages st core_body gateway_body zk misc_body = (case stages of (s0, s1, s2) \<Rightarrow>
     insert_section ''misc'' misc_body
     (insert_section ''zk_governance'' (map_option (zk_section E) zk)
     (insert_section ''new_gateway'' gateway_body
     (table_insert ''ctms'' (TTable (ms_ctms st))
     (table_insert ''core'' (TTable core_body)
     (insert_section ''test_upgrade_calls'' (test_section st)
     (table_insert ''governance_calls'' (TTable (insert_strings [(''stage0_calls'', s0), (''stage1_calls'', s1), (''stage2_calls'', s2)] []))
       [])))))))"

definition merge_documents ::
    "ext \<Rightarrow> calls_abi \<Rightarrow> merge_ext \<Rightarrow> string \<Rightarrow> ctm_prepare_entry list \<Rightarrow> call list \<Rightarrow> zk_governance_outcome option \<Rightarrow> string list \<Rightarrow> b256
      \<Rightarrow> table res" where
  "merge_documents E G M core_toml ctm_entries extra_stage0 zk new_gateway_tomls asset_id =
     bind_res (load_and_split M core_toml) (\<lambda>(core_body0, core_gov, _).
     bind_res (split_misc core_body0) (\<lambda>(core_body, misc_body).
     bind_res (fold_res (add_ctm E M) ctm_entries \<lparr>ms_ctms = [], ms_stage0 = [stage0_calls core_gov],
         ms_stage1 = [stage1_calls core_gov], ms_stage2 = [stage2_calls core_gov], ms_era_test = None, ms_os_test = None\<rparr>) (\<lambda>st.
     if test_calls_missing ctm_entries st then Inl (Bail ''one flavor is missing [test_upgrade_calls]'')
     else let stage0 = ms_stage0 st @ (if extra_stage0 = [] then [] else [calls_hex E G extra_stage0]);
              da_calls = rollup_da_manager_setup_calls M ctm_entries;
              stage1 = ms_stage1 st @ (if da_calls = [] then [] else [calls_hex E G da_calls])
     in bind_res (gateway_chunks E G M core_toml new_gateway_tomls asset_id) (\<lambda>(chunks, gateway_body).
     bind_res (merge_chunks E G stage0) (\<lambda>s0.
     bind_res (merge_chunks E G stage1) (\<lambda>s1.
     bind_res (merge_chunks E G (ms_stage2 st @ chunks)) (\<lambda>s2.
     Inr (merged_document E (s0, s1, s2) st core_body gateway_body zk misc_body))))))))"

text \<open>The comment the file starts with; its dash is three bytes.\<close>

definition merged_comment :: "nat \<Rightarrow> string" where
  "merged_comment sources =
     ''# Auto-generated by `protocol-ops ecosystem upgrade-prepare-all`.'' @ [CHR 0x0A]
     @ ''# Merged ecosystem upgrade artifact: top-level [governance_calls] holds'' @ [CHR 0x0A]
     @ ''# the combined stage 0/1/2 hex from '' @ show_nat sources @ '' prepare TOML(s). Optional'' @ [CHR 0x0A]
     @ ''# [test_upgrade_calls] is copied from per-CTM prepare output under'' @ [CHR 0x0A]
     @ ''# flavor-suffixed keys (`*_era`, `*_zkos`). [core] mirrors the'' @ [CHR 0x0A]
     @ ''# core prepare output (minus its own [governance_calls]); [ctms.<flavor>]'' @ [CHR 0x0A]
     @ ''# mirrors each per-CTM prepare output (one section per `is_zk_sync_os`'' @ [CHR 0x0A]
     @ ''# value) for downstream verification. [misc] carries shared metadata used'' @ [CHR 0x0A]
     @ ''# by verification. When [new_gateway] is present, it'' @ [CHR 0x0A]
     @ ''# mirrors GatewayVotePreparation'' @ [CHR 0x27] @ ''s output (deployed GW CTM addresses +'' @ [CHR 0x0A]
     @ ''# diamond cut data) '' @ [CHR 0xE2, CHR 0x80, CHR 0x94] @ '' its `governance_calls_to_execute` has already been'' @ [CHR 0x0A]
     @ ''# folded into stage 2 above. When [zk_governance] is present, it names'' @ [CHR 0x0A]
     @ ''# the zk-governance contracts deployed in stage 0 and used by PUVT for'' @ [CHR 0x0A]
     @ ''# CREATE2 provenance checks.'' @ [CHR 0x0A, CHR 0x0A]"

definition write_merged_ecosystem_toml ::
    "ext \<Rightarrow> calls_abi \<Rightarrow> merge_ext \<Rightarrow> string \<Rightarrow> ctm_prepare_entry list \<Rightarrow> call list \<Rightarrow> zk_governance_outcome option \<Rightarrow> string list \<Rightarrow> b256
      \<Rightarrow> merge_dst \<Rightarrow> unit res \<times> merge_dst" where
  "write_merged_ecosystem_toml E G M core_toml ctm_entries extra_stage0 zk new_gateway_tomls asset_id d =
     (if \<not> dst_parent_creatable d then (Inl (Bail ''create_dir_all''), d)
      else case bind_res (merge_documents E G M core_toml ctm_entries extra_stage0 zk new_gateway_tomls asset_id) (\<lambda>doc.
          bind_res (ok_or (Bail ''serialize merged ecosystem TOML'') (mx_toml_print M doc)) (\<lambda>s.
          Inr (merged_comment (1 + length ctm_entries + (if new_gateway_tomls = [] then 0 else 1)) @ s))) of
        Inl e \<Rightarrow> (Inl e, d)
      | Inr body \<Rightarrow>
          if dst_writable d then (Inr (), d\<lparr>dst_contents := Some body\<rparr>)
          else (Inl (Bail ''Failed to write merged ecosystem TOML''), d))"

subsection \<open>Accept-ownership calls and the replay of the stages\<close>

definition read_pre_governance_accept_ownership_call_file ::
    "ext \<Rightarrow> calls_abi \<Rightarrow> merge_ext \<Rightarrow> (string \<Rightarrow> bool) \<Rightarrow> string \<Rightarrow> call list res" where
  "read_pre_governance_accept_ownership_call_file E G M exists_at path =
     (if \<not> exists_at path then Inr []
      else bind_res (ok_or (Bail ''read'') (mx_read M path)) (\<lambda>raw.
        bind_res (ok_or (Bail ''parse'') (mx_toml_parse M raw)) (\<lambda>parsed.
        bind_res (ok_or (Bail ''missing calls'') (string_field (TTable parsed) ''calls'')) (\<lambda>hex_str.
        decode_calls E G hex_str))))"

definition read_pre_governance_accept_ownership_calls ::
    "ext \<Rightarrow> calls_abi \<Rightarrow> merge_ext \<Rightarrow> (string \<Rightarrow> bool) \<Rightarrow> string \<Rightarrow> call list res" where
  "read_pre_governance_accept_ownership_calls E G M exists_at contracts_path =
     fold_res (\<lambda>file_name calls.
       bind_res (read_pre_governance_accept_ownership_call_file E G M exists_at
         (path_join (path_join contracts_path ''script-out'') file_name)) (\<lambda>cs. Inr (calls @ cs)))
     [''pre-governance-accept-ownerships.toml'', ''pre-governance-aux-accept-ownerships.toml''] []"

definition read_governance_stage_calls :: "merge_ext \<Rightarrow> string \<Rightarrow> nat \<Rightarrow> string res" where
  "read_governance_stage_calls M governance_toml stage =
     bind_res (ok_or (Bail ''Failed to read governance TOML'') (mx_read M governance_toml)) (\<lambda>content.
     bind_res (ok_or (Bail ''Failed to parse governance TOML'')
       (Option.bind (mx_toml_parse M content) (\<lambda>t. Option.bind (map_of t ''governance_calls'') governance_calls_try_from))) (\<lambda>calls.
     if stage = 0 then Inr (stage0_calls calls) else if stage = 1 then Inr (stage1_calls calls)
     else if stage = 2 then Inr (stage2_calls calls) else Inl (Bail ''Invalid stage'')))"

text \<open>The runner executes a script with the given calldata as the given sender.\<close>

record 'w forge_runner =
  resolve_governance :: "'w \<Rightarrow> address \<Rightarrow> address option"
  run_script :: "'w \<Rightarrow> bytes \<Rightarrow> unit option \<times> 'w"

definition stage_governance_execute ::
    "ext \<Rightarrow> merge_ext \<Rightarrow> 'w forge_runner \<Rightarrow> address \<Rightarrow> governance_kind \<Rightarrow> string \<Rightarrow> nat \<Rightarrow> 'w \<Rightarrow> address res \<times> 'w" where
  "stage_governance_execute E M runner bridgehub kind governance_toml stage w =
     (case bind_res (read_governance_stage_calls M governance_toml stage) (\<lambda>encoded_calls_hex.
         bind_res (ok_or (Bail ''Failed to auto-resolve governance address from bridgehub'') (resolve_governance runner w bridgehub)) (\<lambda>gov.
         bind_res (ok_or (Bail ''invalid governance calls hex'') (hex_decode E (trim_start_matches ''0x'' encoded_calls_hex))) (\<lambda>encoded_calls.
         Inr (gov, (case kind of Legacy \<Rightarrow> encode_governanceExecuteCalls M encoded_calls gov
            | Puh \<Rightarrow> encode_governanceExecuteCallsDirect M encoded_calls gov))))) of
        Inl e \<Rightarrow> (Inl e, w)
      | Inr (gov, calldata) \<Rightarrow>
          (case run_script runner w calldata of
             (None, w') \<Rightarrow> (Inl (Bail ''Failed to execute forge script for governance stage''), w')
           | (Some _, w') \<Rightarrow> (Inr gov, w')))"

fun run_stages :: "('a \<Rightarrow> 'w \<Rightarrow> address res \<times> 'w) \<Rightarrow> 'a list \<Rightarrow> address \<Rightarrow> 'w \<Rightarrow> address res \<times> 'w" where
  "run_stages step [] gov w = (Inr gov, w)"
| "run_stages step (x # xs) gov w =
     (case step x w of (Inl e, w') \<Rightarrow> (Inl e, w') | (Inr gov', w') \<Rightarrow> run_stages step xs gov' w')"

definition replay_governance_stages ::
    "ext \<Rightarrow> merge_ext \<Rightarrow> 'w forge_runner \<Rightarrow> address \<Rightarrow> string list \<Rightarrow> governance_kind \<Rightarrow> 'w \<Rightarrow> address res \<times> 'w" where
  "replay_governance_stages E M runner bridgehub governance_tomls kind w =
     (if governance_tomls = [] then (Inl (Bail ''at least one --governance-toml must be provided''), w)
      else run_stages (\<lambda>(stage, toml_path). stage_governance_execute E M runner bridgehub kind toml_path stage)
        (List.product [0, 1, 2] governance_tomls) 0 w)"

section \<open>Documents up to the order of entries\<close>

text \<open>Tables are equal as maps: printing moves plain values before tables.\<close>

inductive toml_eq :: "toml \<Rightarrow> toml \<Rightarrow> bool" where
  string: "toml_eq (TString s) (TString s)"
| integer: "toml_eq (TInteger i) (TInteger i)"
| float: "toml_eq TFloat TFloat"
| boolean: "toml_eq (TBoolean b) (TBoolean b)"
| datetime: "toml_eq TDatetime TDatetime"
| array: "list_all2 toml_eq xs ys \<Longrightarrow> toml_eq (TArray xs) (TArray ys)"
| table: "distinct (map fst t) \<Longrightarrow> distinct (map fst u) \<Longrightarrow> (\<forall>k. rel_option toml_eq (map_of t k) (map_of u k))
    \<Longrightarrow> toml_eq (TTable t) (TTable u)"

inductive_cases toml_eq_TTableE: "toml_eq (TTable t) v"
inductive_simps toml_eq_plain [simp]: "toml_eq (TString s) v" "toml_eq (TInteger i) v" "toml_eq (TBoolean b) v"
inductive_simps toml_eq_tables: "toml_eq (TTable t) (TTable u)"

lemma toml_eq_kinds:
  assumes "toml_eq v w"
  shows "as_str v = as_str w" "as_integer v = as_integer w" "as_bool v = as_bool w" "(as_table v = None) = (as_table w = None)"
  using assms by (cases; simp add: as_str_def as_integer_def as_bool_def as_table_def)+

lemma toml_eq_get: "toml_eq v w \<Longrightarrow> rel_option toml_eq (toml_get v k) (toml_get w k)"
  by (cases rule: toml_eq.cases) auto

lemma toml_eq_fields:
  assumes "toml_eq v w"
  shows "string_field v k = string_field w k" "u64_field v k = u64_field w k" "bool_field v k = bool_field w k"
  using toml_eq_get [OF assms, of k]
  by (auto simp: string_field_def u64_field_def bool_field_def toml_eq_kinds elim!: option.rel_cases)

lemma toml_eq_sections:
  assumes "toml_eq v w"
  shows "governance_calls_try_from v = governance_calls_try_from w"
    "contracts_config_try_from v = contracts_config_try_from w"
  by (simp_all add: governance_calls_try_from_def contracts_config_try_from_def toml_eq_fields [OF assms])

lemma toml_eq_keys:
  assumes "toml_eq (TTable t) (TTable u)"
  shows "sort (map fst t) = sort (map fst u)"
proof -
  have d: "distinct (map fst t)" "distinct (map fst u)" and rel: "\<forall>k. rel_option toml_eq (map_of t k) (map_of u k)"
    using assms by (auto simp: toml_eq_tables)
  have "(map_of t k = None) = (map_of u k = None)" for k
    using rel by (metis option.rel_sel option.distinct(1))
  then have "set (map fst t) = set (map fst u)"
    by (auto simp: map_of_eq_None_iff)
  with d show ?thesis
    by (metis sorted_list_of_set_sort_remdups distinct_remdups_id)
qed

definition same_ctm :: "ctm_artifact \<Rightarrow> ctm_artifact \<Rightarrow> bool" where
  "same_ctm c d \<longleftrightarrow> flavor c = flavor d \<and> chain_upgrade_diamond_cut c = chain_upgrade_diamond_cut d
     \<and> ctm_contracts_config c = ctm_contracts_config d \<and> toml_eq (ctm_value c) (ctm_value d)"

definition same_gateway :: "new_gateway_artifact \<Rightarrow> new_gateway_artifact \<Rightarrow> bool" where
  "same_gateway g h \<longleftrightarrow> gateway_chain_type_manager_addr g = gateway_chain_type_manager_addr h
     \<and> gateway_rollup_da_manager_addr g = gateway_rollup_da_manager_addr h
     \<and> gateway_server_notifier_addr g = gateway_server_notifier_addr h \<and> toml_eq (new_gateway_value g) (new_gateway_value h)"

definition same_artifact :: "ecosystem_upgrade_artifact \<Rightarrow> ecosystem_upgrade_artifact \<Rightarrow> bool" where
  "same_artifact a b \<longleftrightarrow> toml_eq (core a) (core b) \<and> artifact_governance_calls a = artifact_governance_calls b
     \<and> list_all2 same_ctm (ctms a) (ctms b) \<and> rel_option same_gateway (new_gateway a) (new_gateway b)
     \<and> zk_governance a = zk_governance b \<and> toml_eq (misc a) (misc b)"

lemma parse_ctm_same:
  assumes "toml_eq (TTable t) (TTable u)" "parse_ctm t key = Inr c"
  shows "\<exists>d. parse_ctm u key = Inr d \<and> same_ctm c d"
proof -
  obtain fl b cut cc cfg where parts: "ctm_flavor_parse key = Inr fl" "map_of t key = Some (TTable b)"
    "string_field (TTable b) ''chain_upgrade_diamond_cut'' = Some cut" "toml_get (TTable b) ''contracts_config'' = Some cc"
    "contracts_config_try_from cc = Some cfg"
    "c = \<lparr>flavor = fl, chain_upgrade_diamond_cut = cut, ctm_contracts_config = cfg, ctm_value = TTable b\<rparr>"
    using assms(2) by (auto simp: parse_ctm_def expect_table_def)
  obtain v where v: "map_of u key = Some v" "toml_eq (TTable b) v"
    using toml_eq_get [OF assms(1), of key] parts(2) by (auto simp: option_rel_Some1)
  then obtain b' where b': "v = TTable b'" by (auto elim: toml_eq_TTableE)
  obtain cc' where "toml_get v ''contracts_config'' = Some cc'" "toml_eq cc cc'"
    using toml_eq_get [OF v(2), of "''contracts_config''"] parts(4) by (auto simp: option_rel_Some1)
  with parts v b' toml_eq_fields(1) [OF v(2)] show ?thesis
    by (auto simp: parse_ctm_def expect_table_def same_ctm_def toml_eq_sections(2))
qed

lemma toml_eq_table_shape:
  assumes "toml_eq (TTable t) v"
  obtains u where "v = TTable u" "toml_eq (TTable t) (TTable u)"
  using assms by (auto elim: toml_eq_TTableE)

lemma toml_eq_path1:
  assumes "toml_eq v w"
  shows "required_address_in_value E v [k] = required_address_in_value E w [k]"
  using toml_eq_get [OF assms, of k]
  by (auto simp: required_address_in_value_def toml_eq_kinds elim!: option.rel_cases)

lemma parse_zk_same:
  assumes "toml_eq v w" "parse_zk_governance E v = Inr z"
  shows "parse_zk_governance E w = Inr z"
proof -
  obtain t where "v = TTable t" using assms(2) by (auto simp: parse_zk_governance_def expect_table_def)
  moreover from this assms(1) obtain u where "w = TTable u" by (auto elim: toml_eq_TTableE)
  ultimately show ?thesis
    using assms(2) toml_eq_path1 [OF assms(1)] by (simp add: parse_zk_governance_def expect_table_def)
qed

lemma parse_gateway_same:
  assumes "toml_eq v w" "parse_new_gateway E v = Inr g"
  shows "\<exists>h. parse_new_gateway E w = Inr h \<and> same_gateway g h"
proof -
  obtain t gst a where parts: "v = TTable t" "map_of t ''gateway_state_transition'' = Some (TTable gst)"
    "parse_required E (TTable gst) ''chain_type_manager_proxy_addr'' = Inr a"
    "g = \<lparr>gateway_chain_type_manager_addr = a,
       gateway_rollup_da_manager_addr = parse_optional E (TTable gst) ''rollup_da_manager_addr'',
       gateway_server_notifier_addr = parse_optional E (TTable gst) ''server_notifier_proxy_addr'',
       new_gateway_value = TTable t\<rparr>"
    using assms(2) by (auto simp: parse_new_gateway_def expect_table_def bind_eq_Some_conv)
  from assms(1) parts(1) obtain u where u: "w = TTable u" by (auto elim: toml_eq_TTableE)
  obtain x where x: "map_of u ''gateway_state_transition'' = Some x" "toml_eq (TTable gst) x"
    using toml_eq_get [OF assms(1), of "''gateway_state_transition''"] parts(1,2) u by (auto simp: option_rel_Some1)
  obtain gst' where gst': "x = TTable gst'" "toml_eq (TTable gst) (TTable gst')"
    using x(2) by (rule toml_eq_table_shape)
  have "parse_required E (TTable gst) k = parse_required E (TTable gst') k"
    "parse_optional E (TTable gst) k = parse_optional E (TTable gst') k" for k
    by (simp_all add: parse_required_def parse_optional_def toml_eq_fields [OF gst'(2)])
  with parts u x gst' assms(1) show ?thesis
    by (auto simp: parse_new_gateway_def expect_table_def same_gateway_def)
qed

lemma optional_section_same:
  assumes "rel_option toml_eq x y" "optional_section f x = Inr r"
    and step: "\<And>v w a. toml_eq v w \<Longrightarrow> f v = Inr a \<Longrightarrow> \<exists>b. f w = Inr b \<and> P a b"
  shows "\<exists>r'. optional_section f y = Inr r' \<and> rel_option P r r'"
proof (cases x)
  case None
  with assms(1,2) show ?thesis by (simp add: optional_section_def)
next
  case (Some v)
  then obtain w a where "y = Some w" "toml_eq v w" "f v = Inr a" "r = Some a"
    using assms(1,2) by (auto simp: optional_section_def option_rel_Some1)
  with step [of v w a] show ?thesis by (auto simp: optional_section_def)
qed

lemma map_res_same:
  assumes "map_res f xs = Inr as" and step: "\<And>x a. f x = Inr a \<Longrightarrow> \<exists>b. g x = Inr b \<and> P a b"
  shows "\<exists>bs. map_res g xs = Inr bs \<and> list_all2 P as bs"
  using assms(1)
proof (induction xs arbitrary: as)
  case (Cons x xs)
  then obtain a as' where "f x = Inr a" "map_res f xs = Inr as'" "as = a # as'" by auto
  with Cons.IH [of as'] step [of x a] show ?case by auto
qed simp

lemma expect_table_same:
  assumes "rel_option toml_eq x y" "(case x of Some v \<Rightarrow> expect_table v | None \<Rightarrow> Inr []) = Inr t"
  shows "\<exists>u. (case y of Some v \<Rightarrow> expect_table v | None \<Rightarrow> Inr []) = Inr u \<and> toml_eq (TTable t) (TTable u)"
  using assms by (auto simp: expect_table_def toml_eq_tables elim!: option.rel_cases toml_eq_TTableE split: option.splits)

text \<open>The reader does not depend on the order of entries.\<close>

lemma artifact_same:
  assumes eq: "toml_eq (TTable t) (TTable u)" and read: "artifact_from_table E t = Inr a"
  shows "\<exists>b. artifact_from_table E u = Inr b \<and> same_artifact a b"
proof -
  note get = toml_eq_get [OF eq, simplified]
  obtain gcv calls core_table ct cs gw zk misc_table where parts:
    "map_of t ''governance_calls'' = Some gcv" "governance_calls_try_from gcv = Some calls"
    "map_of t ''core'' = Some (TTable core_table)" "map_of t ''ctms'' = Some (TTable ct)" "ct \<noteq> []"
    "map_res (parse_ctm ct) (sort (map fst ct)) = Inr cs"
    "optional_section (parse_new_gateway E) (map_of t ''new_gateway'') = Inr gw"
    "optional_section (parse_zk_governance E) (map_of t ''zk_governance'') = Inr zk"
    "(case map_of t ''misc'' of Some v \<Rightarrow> expect_table v | None \<Rightarrow> Inr []) = Inr misc_table"
    "a = \<lparr>core = TTable core_table, artifact_governance_calls = calls, ctms = cs, new_gateway = gw, zk_governance = zk,
       misc = TTable misc_table\<rparr>"
    using read unfolding artifact_from_table_iff by blast
  obtain gcv' where gcv': "map_of u ''governance_calls'' = Some gcv'" "governance_calls_try_from gcv' = Some calls"
    using get [of "''governance_calls''"] parts(1,2) toml_eq_sections(1) by (fastforce simp: option_rel_Some1)
  obtain core' where core': "map_of u ''core'' = Some (TTable core')" "toml_eq (TTable core_table) (TTable core')"
    using get [of "''core''"] parts(3) by (auto simp: option_rel_Some1 elim: toml_eq_table_shape)
  obtain ct' where ct': "map_of u ''ctms'' = Some (TTable ct')" "toml_eq (TTable ct) (TTable ct')"
    using get [of "''ctms''"] parts(4) by (auto simp: option_rel_Some1 elim: toml_eq_table_shape)
  have keys: "sort (map fst ct) = sort (map fst ct')" using ct'(2) by (rule toml_eq_keys)
  then have ne: "ct' \<noteq> []" using parts(5) by (metis length_0_conv length_map length_sort)
  have "\<exists>cs'. map_res (parse_ctm ct') (sort (map fst ct)) = Inr cs' \<and> list_all2 same_ctm cs cs'"
    using parts(6) by (rule map_res_same) (rule parse_ctm_same [OF ct'(2)])
  then obtain cs' where cs': "map_res (parse_ctm ct') (sort (map fst ct')) = Inr cs'" "list_all2 same_ctm cs cs'"
    using keys by auto
  have "\<exists>gw'. optional_section (parse_new_gateway E) (map_of u ''new_gateway'') = Inr gw' \<and> rel_option same_gateway gw gw'"
    using get parts(7) by (rule optional_section_same) (rule parse_gateway_same)
  then obtain gw' where gw': "optional_section (parse_new_gateway E) (map_of u ''new_gateway'') = Inr gw'" "rel_option same_gateway gw gw'"
    by blast
  have "\<exists>zk'. optional_section (parse_zk_governance E) (map_of u ''zk_governance'') = Inr zk' \<and> rel_option (=) zk zk'"
    using get parts(8) by (rule optional_section_same) (auto dest: parse_zk_same)
  then obtain zk' where zk': "optional_section (parse_zk_governance E) (map_of u ''zk_governance'') = Inr zk'" "zk = zk'"
    by (auto simp: option.rel_eq)
  obtain misc' where misc': "(case map_of u ''misc'' of Some v \<Rightarrow> expect_table v | None \<Rightarrow> Inr []) = Inr misc'"
      "toml_eq (TTable misc_table) (TTable misc')"
    using expect_table_same [OF get parts(9)] by blast
  let ?b = "\<lparr>core = TTable core', artifact_governance_calls = calls, ctms = cs', new_gateway = gw', zk_governance = zk',
    misc = TTable misc'\<rparr>"
  have "artifact_from_table E u = Inr ?b"
    unfolding artifact_from_table_iff using gcv' core'(1) ct'(1) ne cs'(1) gw'(1) zk'(1) misc'(1) by blast
  moreover have "same_artifact a ?b"
    using parts(10) core'(2) cs'(2) gw'(2) zk'(2) misc'(2) by (simp add: same_artifact_def)
  ultimately show ?thesis by blast
qed

section \<open>What the merge writes\<close>

abbreviation well_keyed :: "toml \<Rightarrow> bool" where "well_keyed v \<equiv> toml_eq v v"

lemma map_of_table_insert [simp]: "map_of (table_insert k v t) = (map_of t)(k \<mapsto> v)"
proof (cases "map_of t k")
  case None
  then show ?thesis by (auto simp: table_insert_def map_add_def fun_eq_iff split: option.splits)
next
  case (Some w)
  have "map_of (map (\<lambda>e. if fst e = k then (k, v) else e) t) x = (if x = k then map_option (\<lambda>_. v) (map_of t k) else map_of t x)" for x
    by (induction t) auto
  with Some show ?thesis by (auto simp: table_insert_def fun_eq_iff)
qed

lemma keys_table_insert:
  "map fst (table_insert k v t) = (if map_of t k = None then map fst t @ [k] else map fst t)"
  by (auto simp: table_insert_def comp_def)

lemma well_keyed_insert: "well_keyed (TTable t) \<Longrightarrow> well_keyed v \<Longrightarrow> well_keyed (TTable (table_insert k v t))"
  by (auto simp: toml_eq_tables keys_table_insert map_of_eq_None_iff)

lemma well_keyed_remove: "well_keyed (TTable t) \<Longrightarrow> well_keyed (TTable (snd (table_remove k t)))"
proof -
  assume wk: "well_keyed (TTable t)"
  have "map fst (snd (table_remove k t)) = filter (\<lambda>x. x \<noteq> k) (map fst t)"
    by (induction t) (auto simp: table_remove_def)
  with wk show ?thesis by (simp add: toml_eq_tables)
qed

lemma well_keyed_get: "well_keyed (TTable t) \<Longrightarrow> map_of t k = Some v \<Longrightarrow> well_keyed v"
  by (auto simp: toml_eq_tables dest: spec [of _ k])

lemma well_keyed_Nil [simp]: "well_keyed (TTable [])"
  by (simp add: toml_eq_tables)

lemma well_keyed_strings: "well_keyed (TTable t) \<Longrightarrow> well_keyed (TTable (insert_strings kvs t))"
  by (induction kvs arbitrary: t) (auto simp: insert_strings_def well_keyed_insert)

lemma map_of_insert_section [simp]:
  "map_of (insert_section k x t) j = (if j = k \<and> x \<noteq> None then map_option TTable x else map_of t j)"
  by (cases x) (simp_all add: insert_section_def)

lemma well_keyed_section:
  "well_keyed (TTable t) \<Longrightarrow> (\<And>b. x = Some b \<Longrightarrow> well_keyed (TTable b)) \<Longrightarrow> well_keyed (TTable (insert_section k x t))"
  by (cases x) (simp_all add: insert_section_def well_keyed_insert)

text \<open>The keys are unique at every level.\<close>

fun unique_keys :: "toml \<Rightarrow> bool" where
  "unique_keys (TArray xs) \<longleftrightarrow> list_all unique_keys xs"
| "unique_keys (TTable t) \<longleftrightarrow> distinct (map fst t) \<and> list_all (\<lambda>e. unique_keys (snd e)) t"
| "unique_keys _ \<longleftrightarrow> True"

inductive_simps toml_eq_rest: "toml_eq (TArray xs) (TArray ys)" "toml_eq TFloat v" "toml_eq TDatetime v"

lemma unique_keys_iff: "unique_keys v \<longleftrightarrow> well_keyed v"
proof (induction v rule: unique_keys.induct)
  case (1 xs)
  then show ?case by (auto simp: toml_eq_rest list_all_iff list.rel_refl_strong list_all2_same)
next
  case (2 t)
  have "(\<forall>e \<in> set t. well_keyed (snd e)) \<longleftrightarrow> (\<forall>k. rel_option toml_eq (map_of t k) (map_of t k))" if keys: "distinct (map fst t)"
  proof -
    have "rel_option toml_eq (map_of t k) (map_of t k) \<longleftrightarrow> (\<forall>v. (k, v) \<in> set t \<longrightarrow> well_keyed v)" for k
      unfolding map_of_eq_Some_iff [OF keys, symmetric] by (cases "map_of t k") simp_all
    then show ?thesis by auto
  qed
  with 2 show ?case by (auto simp: toml_eq_tables list_all_iff)
qed (simp_all add: toml_eq_rest)

text \<open>What is assumed of the \<^verbatim>\<open>toml\<close> crate: keys are unique, and a printed document after a comment
  reads back as the same map.\<close>

definition toml_codec :: "merge_ext \<Rightarrow> bool" where
  "toml_codec M \<longleftrightarrow> (\<forall>s t. mx_toml_parse M s = Some t \<longrightarrow> well_keyed (TTable t))
     \<and> (\<forall>t s n. well_keyed (TTable t) \<longrightarrow> mx_toml_print M t = Some s
          \<longrightarrow> (\<exists>u. mx_toml_parse M (merged_comment n @ s) = Some u \<and> toml_eq (TTable t) (TTable u)))"

definition address_text_codec :: "ext \<Rightarrow> bool" where
  "address_text_codec E \<longleftrightarrow> (\<forall>a. address_from_str E (address_text E a) = Some a)"

lemma load_and_split_keyed:
  assumes "toml_codec M" "load_and_split M path = Inr (body, gov, test)"
  shows "well_keyed (TTable body)"
proof -
  obtain raw t where "mx_toml_parse M raw = Some t"
    "body = snd (table_remove ''test_upgrade_calls'' (snd (table_remove ''governance_calls'' t)))"
    using assms(2) by (auto simp: load_and_split_def Let_def case_prod_unfold)
  with assms(1) show ?thesis by (auto simp: toml_codec_def intro!: well_keyed_remove)
qed

lemma gateway_file_keyed:
  assumes "toml_codec M" "gateway_file M path = Inr (h, body)"
  shows "well_keyed (TTable body)"
  using assms by (auto simp: gateway_file_def toml_codec_def Let_def case_prod_unfold intro!: well_keyed_remove)

lemma split_misc_keyed:
  assumes "well_keyed (TTable t)" "split_misc t = Inr (body, misc_body)"
  shows "well_keyed (TTable body)" "misc_body = Some b \<Longrightarrow> well_keyed (TTable b)"
  using assms well_keyed_remove [OF assms(1), of "''misc''"] well_keyed_get [OF assms(1), of "''misc''"]
  by (auto simp: split_misc_def Let_def case_prod_unfold split: option.splits toml.splits)

type_synonym merge_source = "table \<times> governance_calls \<times> test_upgrade_calls option"

definition ctm_sections :: "ext \<Rightarrow> ctm_prepare_entry list \<Rightarrow> merge_source list \<Rightarrow> table" where
  "ctm_sections E entries srcs = map (\<lambda>(e, body, _). (ctm_label e, TTable (ctm_body E e body))) (zip entries srcs)"

lemma add_ctm_run:
  assumes "add_ctm E M e st = Inr st'"
  obtains body gov test where "load_and_split M (pe_toml e) = Inr (body, gov, test)" "map_of (ms_ctms st) (ctm_label e) = None"
    "ms_ctms st' = ms_ctms st @ [(ctm_label e, TTable (ctm_body E e body))]"
    "ms_stage0 st' = ms_stage0 st @ [stage0_calls gov]" "ms_stage1 st' = ms_stage1 st @ [stage1_calls gov]"
    "ms_stage2 st' = ms_stage2 st @ [stage2_calls gov]"
  using assms by (auto simp: add_ctm_def table_insert_def split: if_splits)

lemma add_ctms_run:
  assumes "fold_res (add_ctm E M) entries st = Inr st'" "distinct (map fst (ms_ctms st))"
  shows "\<exists>srcs. map_res (\<lambda>e. load_and_split M (pe_toml e)) entries = Inr srcs
    \<and> ms_ctms st' = ms_ctms st @ ctm_sections E entries srcs \<and> distinct (map fst (ms_ctms st'))
    \<and> ms_stage0 st' = ms_stage0 st @ map (\<lambda>s. stage0_calls (fst (snd s))) srcs
    \<and> ms_stage1 st' = ms_stage1 st @ map (\<lambda>s. stage1_calls (fst (snd s))) srcs
    \<and> ms_stage2 st' = ms_stage2 st @ map (\<lambda>s. stage2_calls (fst (snd s))) srcs"
  using assms
proof (induction entries arbitrary: st)
  case Nil
  then show ?case by (simp add: ctm_sections_def)
next
  case (Cons e entries)
  then obtain st1 where step: "add_ctm E M e st = Inr st1" and rest: "fold_res (add_ctm E M) entries st1 = Inr st'"
    by auto
  from step obtain body gov test where s: "load_and_split M (pe_toml e) = Inr (body, gov, test)" "map_of (ms_ctms st) (ctm_label e) = None"
    "ms_ctms st1 = ms_ctms st @ [(ctm_label e, TTable (ctm_body E e body))]"
    "ms_stage0 st1 = ms_stage0 st @ [stage0_calls gov]" "ms_stage1 st1 = ms_stage1 st @ [stage1_calls gov]"
    "ms_stage2 st1 = ms_stage2 st @ [stage2_calls gov]"
    by (rule add_ctm_run)
  have "distinct (map fst (ms_ctms st1))"
    using Cons.prems(2) s(2,3) by (auto simp: map_of_eq_None_iff)
  from Cons.IH [OF rest this] obtain srcs where "map_res (\<lambda>e. load_and_split M (pe_toml e)) entries = Inr srcs"
    "ms_ctms st' = ms_ctms st1 @ ctm_sections E entries srcs" "distinct (map fst (ms_ctms st'))"
    "ms_stage0 st' = ms_stage0 st1 @ map (\<lambda>s. stage0_calls (fst (snd s))) srcs"
    "ms_stage1 st' = ms_stage1 st1 @ map (\<lambda>s. stage1_calls (fst (snd s))) srcs"
    "ms_stage2 st' = ms_stage2 st1 @ map (\<lambda>s. stage2_calls (fst (snd s))) srcs"
    by blast
  with s show ?case by (intro exI [of _ "(body, gov, test) # srcs"]) (simp add: ctm_sections_def)
qed

subsection \<open>The calls\<close>

definition source_calls :: "ext \<Rightarrow> calls_abi \<Rightarrow> (governance_calls \<Rightarrow> string) \<Rightarrow> governance_calls list \<Rightarrow> call list res" where
  "source_calls E G stage govs = bind_res (map_res (decode_calls E G) (map stage govs)) (\<lambda>css. Inr (concat css))"

definition gateway_calls :: "ext \<Rightarrow> calls_abi \<Rightarrow> merge_ext \<Rightarrow> string \<Rightarrow> string list \<Rightarrow> b256 \<Rightarrow> call list res" where
  "gateway_calls E G M core_toml new_gateway_tomls asset_id =
     (if new_gateway_tomls = [] then Inr []
      else bind_res (read_asset_tracker_proxy_from_core E M core_toml) (\<lambda>asset_tracker.
        bind_res (map_res (gateway_file M) new_gateway_tomls) (\<lambda>files.
        bind_res (map_res (decode_calls E G) (map fst files)) (\<lambda>css.
        Inr (register_legacy_token E asset_tracker asset_id # concat css)))))"

lemma merge_chunks_decode:
  assumes "calls_codec E G" "merge_chunks E G chunks = Inr s"
  shows "\<exists>css. map_res (decode_calls E G) chunks = Inr css \<and> decode_calls E G s = Inr (concat css)"
proof -
  have "merge_call_array_hex E G chunks = Inr s"
    using assms(2) by (auto simp: merge_chunks_def merge_nothing split: if_splits)
  then show ?thesis
    using decode_calls_hex [OF assms(1)] by (auto simp: merge_ref)
qed

lemma merge_extra_decode:
  assumes "calls_codec E G" "merge_chunks E G (map stage govs @ (if xs = [] then [] else [calls_hex E G xs])) = Inr s"
  shows "\<exists>cs. source_calls E G stage govs = Inr cs \<and> decode_calls E G s = Inr (cs @ xs)"
  using merge_chunks_decode [OF assms] decode_calls_hex [OF assms(1)]
  by (auto simp: source_calls_def map_res_append split: if_splits)

lemma merge_gateway_decode:
  assumes "calls_codec E G" "gateway_chunks E G M core_toml gws asset_id = Inr (chunks, gateway_body)"
    "merge_chunks E G (map stage govs @ chunks) = Inr s"
  shows "\<exists>cs gs. source_calls E G stage govs = Inr cs \<and> gateway_calls E G M core_toml gws asset_id = Inr gs
    \<and> decode_calls E G s = Inr (cs @ gs)"
  using merge_chunks_decode [OF assms(1,3)] assms(2) decode_calls_hex [OF assms(1)]
  by (auto simp: source_calls_def gateway_chunks_def gateway_calls_def map_res_append split: if_splits)

subsection \<open>Acceptance\<close>

definition ctm_section_ok :: "table \<Rightarrow> bool" where
  "ctm_section_ok body \<longleftrightarrow> string_field (TTable body) ''chain_upgrade_diamond_cut'' \<noteq> None
     \<and> (\<exists>cc. map_of body ''contracts_config'' = Some cc \<and> contracts_config_try_from cc \<noteq> None)"

definition zk_of :: "zk_governance_outcome \<Rightarrow> zk_governance_artifact" where
  "zk_of z = \<lparr>new_puh_impl = zo_new_puh_impl z, new_guardians = zo_new_guardians z,
     new_security_council = zo_new_security_council z, new_emergency_upgrade_board = zo_new_emergency_upgrade_board z\<rparr>"

text \<open>What a merged artifact holds of its sources: the calls of each stage, and the sections, of which the raw
  ones are compared by \<open>R\<close>.\<close>

definition calls_hold ::
    "ext \<Rightarrow> calls_abi \<Rightarrow> merge_ext \<Rightarrow> string \<Rightarrow> ctm_prepare_entry list \<Rightarrow> call list \<Rightarrow> string list \<Rightarrow> b256 \<Rightarrow> governance_calls list
      \<Rightarrow> governance_calls \<Rightarrow> bool" where
  "calls_hold E G M core_toml entries extra_stage0 gws asset_id govs calls \<longleftrightarrow>
     (\<exists>c0 c1 c2 gs. source_calls E G stage0_calls govs = Inr c0 \<and> source_calls E G stage1_calls govs = Inr c1
      \<and> source_calls E G stage2_calls govs = Inr c2 \<and> gateway_calls E G M core_toml gws asset_id = Inr gs
      \<and> decode_calls E G (stage0_calls calls) = Inr (c0 @ extra_stage0)
      \<and> decode_calls E G (stage1_calls calls) = Inr (c1 @ rollup_da_manager_setup_calls M entries)
      \<and> decode_calls E G (stage2_calls calls) = Inr (c2 @ gs))"

definition sections_hold ::
    "(toml \<Rightarrow> toml \<Rightarrow> bool) \<Rightarrow> ext \<Rightarrow> ctm_prepare_entry list \<Rightarrow> merge_source list \<Rightarrow> ctm_artifact list \<Rightarrow> bool" where
  "sections_hold R E entries srcs cs \<longleftrightarrow>
     map (\<lambda>c. ctm_flavor_label (flavor c)) cs = sort (map ctm_label entries)
     \<and> (\<forall>(e, s) \<in> set (zip entries srcs). \<exists>c \<in> set cs.
          ctm_flavor_label (flavor c) = ctm_label e \<and> R (TTable (ctm_body E e (fst s))) (ctm_value c))"

definition artifact_holds ::
    "(toml \<Rightarrow> toml \<Rightarrow> bool) \<Rightarrow> ext \<Rightarrow> calls_abi \<Rightarrow> merge_ext \<Rightarrow> string \<Rightarrow> ctm_prepare_entry list \<Rightarrow> call list \<Rightarrow> zk_governance_outcome option
      \<Rightarrow> string list \<Rightarrow> b256 \<Rightarrow> ecosystem_upgrade_artifact \<Rightarrow> bool" where
  "artifact_holds R E G M core_toml entries extra_stage0 zk gws asset_id a \<longleftrightarrow>
     (\<exists>body gov test srcs. load_and_split M core_toml = Inr (body, gov, test)
      \<and> map_res (\<lambda>e. load_and_split M (pe_toml e)) entries = Inr srcs
      \<and> calls_hold E G M core_toml entries extra_stage0 gws asset_id (gov # map (\<lambda>s. fst (snd s)) srcs) (artifact_governance_calls a)
      \<and> sections_hold R E entries srcs (ctms a)
      \<and> zk_governance a = map_option zk_of zk \<and> (new_gateway a = None \<longleftrightarrow> gws = []))"

lemma sections_hold_same:
  assumes "sections_hold (=) E entries srcs cs" "list_all2 same_ctm cs ds"
  shows "sections_hold toml_eq E entries srcs ds"
proof -
  have flavors: "map (\<lambda>c. ctm_flavor_label (flavor c)) cs = map (\<lambda>c. ctm_flavor_label (flavor c)) ds"
    using assms(2) by (induction rule: list_all2_induct) (simp_all add: same_ctm_def)
  have find: "\<exists>d \<in> set ds. same_ctm c d" if "c \<in> set cs" for c
    using assms(2) that by (induction rule: list_all2_induct) auto
  have "\<exists>d \<in> set ds. ctm_flavor_label (flavor d) = ctm_label e \<and> toml_eq (TTable (ctm_body E e (fst s))) (ctm_value d)"
    if mem: "(e, s) \<in> set (zip entries srcs)" for e s
  proof -
    obtain c where c: "c \<in> set cs" "ctm_flavor_label (flavor c) = ctm_label e" "TTable (ctm_body E e (fst s)) = ctm_value c"
      using assms(1) mem by (auto simp: sections_hold_def)
    from find [OF c(1)] obtain d where "d \<in> set ds" "same_ctm c d" by blast
    with c show ?thesis by (intro bexI [of _ d]) (simp_all add: same_ctm_def)
  qed
  with assms(1) flavors show ?thesis by (auto simp: sections_hold_def)
qed

lemma artifact_holds_same:
  assumes "artifact_holds (=) E G M core_toml entries extra_stage0 zk gws asset_id a" "same_artifact a b"
  shows "artifact_holds toml_eq E G M core_toml entries extra_stage0 zk gws asset_id b"
proof -
  obtain body gov test srcs where a: "load_and_split M core_toml = Inr (body, gov, test)"
    "map_res (\<lambda>e. load_and_split M (pe_toml e)) entries = Inr srcs"
    "calls_hold E G M core_toml entries extra_stage0 gws asset_id (gov # map (\<lambda>s. fst (snd s)) srcs) (artifact_governance_calls a)"
    "sections_hold (=) E entries srcs (ctms a)" "zk_governance a = map_option zk_of zk" "new_gateway a = None \<longleftrightarrow> gws = []"
    using assms(1) unfolding artifact_holds_def by (elim exE conjE) (rule that)
  have b: "artifact_governance_calls b = artifact_governance_calls a" "zk_governance b = zk_governance a"
    "(new_gateway b = None) = (new_gateway a = None)" "list_all2 same_ctm (ctms a) (ctms b)"
    using assms(2) by (auto simp: same_artifact_def elim: option.rel_cases)
  show ?thesis
    unfolding artifact_holds_def b(1-3)
    by (intro exI conjI) (rule a(1-3,5,6) sections_hold_same [OF a(4) b(4)])+
qed

lemma merge_documents_run:
  assumes "merge_documents E G M core_toml entries extra_stage0 zk gws asset_id = Inr doc"
  obtains body gov test core_body misc_body st chunks gw s0 s1 s2 where
    "load_and_split M core_toml = Inr (body, gov, test)" "split_misc body = Inr (core_body, misc_body)"
    "fold_res (add_ctm E M) entries \<lparr>ms_ctms = [], ms_stage0 = [stage0_calls gov], ms_stage1 = [stage1_calls gov],
       ms_stage2 = [stage2_calls gov], ms_era_test = None, ms_os_test = None\<rparr> = Inr st"
    "gateway_chunks E G M core_toml gws asset_id = Inr (chunks, gw)"
    "merge_chunks E G (ms_stage0 st @ (if extra_stage0 = [] then [] else [calls_hex E G extra_stage0])) = Inr s0"
    "merge_chunks E G (ms_stage1 st @ (if rollup_da_manager_setup_calls M entries = [] then []
       else [calls_hex E G (rollup_da_manager_setup_calls M entries)])) = Inr s1"
    "merge_chunks E G (ms_stage2 st @ chunks) = Inr s2"
    "doc = merged_document E (s0, s1, s2) st core_body gw zk misc_body"
  using assms by (auto simp: merge_documents_def Let_def split: if_split_asm)

lemma merged_document_get:
  "map_of (merged_document E (s0, s1, s2) st core_body gw zk misc_body) ''governance_calls''
    = Some (TTable (insert_strings [(''stage0_calls'', s0), (''stage1_calls'', s1), (''stage2_calls'', s2)] []))"
  "map_of (merged_document E (s0, s1, s2) st core_body gw zk misc_body) ''core'' = Some (TTable core_body)"
  "map_of (merged_document E (s0, s1, s2) st core_body gw zk misc_body) ''ctms'' = Some (TTable (ms_ctms st))"
  "map_of (merged_document E (s0, s1, s2) st core_body gw zk misc_body) ''new_gateway'' = map_option TTable gw"
  "map_of (merged_document E (s0, s1, s2) st core_body gw zk misc_body) ''zk_governance'' = map_option (\<lambda>z. TTable (zk_section E z)) zk"
  "map_of (merged_document E (s0, s1, s2) st core_body gw zk misc_body) ''misc'' = map_option TTable misc_body"
  by (simp_all add: merged_document_def option.map_comp comp_def)

lemma merged_calls_read:
  "governance_calls_try_from (TTable (insert_strings [(''stage0_calls'', s0), (''stage1_calls'', s1), (''stage2_calls'', s2)] []))
    = Some \<lparr>stage0_calls = s0, stage1_calls = s1, stage2_calls = s2\<rparr>"
  by (simp add: governance_calls_try_from_def string_field_def insert_strings_def)

lemma zk_section_read:
  assumes "address_text_codec E"
  shows "parse_zk_governance E (TTable (zk_section E z)) = Inr (zk_of z)"
  using assms by (simp add: parse_zk_governance_def expect_table_def required_address_in_value_def zk_section_def zk_of_def
      insert_strings_def address_text_codec_def)

lemma ctm_section_parses:
  assumes "ctm_section_ok body" "map_of t (ctm_label e) = Some (TTable (ctm_body E e body))"
  shows "\<exists>c. parse_ctm t (ctm_label e) = Inr c \<and> ctm_flavor_label (flavor c) = ctm_label e
    \<and> ctm_value c = TTable (ctm_body E e body)"
proof -
  have "map_of (ctm_body E e body) k = map_of body k" if "k \<noteq> ''rollup_da_pair''" for k
    using that by (simp add: ctm_body_def split: option.splits)
  then have "string_field (TTable (ctm_body E e body)) ''chain_upgrade_diamond_cut'' = string_field (TTable body) ''chain_upgrade_diamond_cut''"
    "map_of (ctm_body E e body) ''contracts_config'' = map_of body ''contracts_config''"
    by (simp_all add: string_field_def)
  moreover have "\<exists>f. ctm_flavor_parse (ctm_label e) = Inr f \<and> ctm_flavor_label f = ctm_label e"
    by (cases "pe_is_zk_sync_os e") (simp_all add: ctm_label_def ctm_flavor_parse_def)
  ultimately show ?thesis
    using assms by (auto simp: parse_ctm_def expect_table_def ctm_section_ok_def)
qed

lemma map_res_all: "(\<forall>x \<in> set xs. \<exists>y. f x = Inr y) \<Longrightarrow> \<exists>ys. map_res f xs = Inr ys"
  by (induction xs) auto

lemma map_res_member: "map_res f xs = Inr ys \<Longrightarrow> x \<in> set xs \<Longrightarrow> \<exists>y \<in> set ys. f x = Inr y"
  by (induction xs arbitrary: ys) auto

lemma ctm_sections_read:
  assumes "map_res (\<lambda>e. load_and_split M (pe_toml e)) entries = Inr srcs" "distinct (map fst (ctm_sections E entries srcs))"
    and ok: "\<forall>e \<in> set entries. \<forall>body gov test. load_and_split M (pe_toml e) = Inr (body, gov, test) \<longrightarrow> ctm_section_ok body"
  shows "\<exists>cs. map_res (parse_ctm (ctm_sections E entries srcs)) (sort (map fst (ctm_sections E entries srcs))) = Inr cs
    \<and> sections_hold (=) E entries srcs cs"
proof -
  let ?t = "ctm_sections E entries srcs"
  have rel: "list_all2 (\<lambda>e s. load_and_split M (pe_toml e) = Inr s) entries srcs"
    using assms(1) by (simp add: map_res_eq_Inr)
  have keys: "map fst ?t = map ctm_label entries"
    using rel by (induction rule: list_all2_induct) (simp_all add: ctm_sections_def case_prod_unfold)
  have one: "\<exists>c. parse_ctm ?t (ctm_label e) = Inr c \<and> ctm_flavor_label (flavor c) = ctm_label e
      \<and> ctm_value c = TTable (ctm_body E e (fst s))" if "(e, s) \<in> set (zip entries srcs)" for e s
  proof (rule ctm_section_parses)
    have "e \<in> set entries" "load_and_split M (pe_toml e) = Inr s"
      using that rel by (auto simp: list_all2_iff dest: set_zip_leftD)
    with ok show "ctm_section_ok (fst s)" by (cases s) auto
    have "(ctm_label e, TTable (ctm_body E e (fst s))) \<in> set ?t"
      using that by (force simp: ctm_sections_def case_prod_unfold)
    with assms(2) show "map_of ?t (ctm_label e) = Some (TTable (ctm_body E e (fst s)))" by (rule map_of_is_SomeI)
  qed
  have "\<exists>c. parse_ctm ?t k = Inr c" if mem: "k \<in> set (sort (map fst ?t))" for k
  proof -
    obtain e where e: "e \<in> set entries" "k = ctm_label e" using mem by (auto simp: keys)
    then obtain s where "(e, s) \<in> set (zip entries srcs)"
      using in_set_impl_in_set_zip1 [OF list_all2_lengthD [OF rel]] by blast
    with one [of e s] e(2) show ?thesis by blast
  qed
  then have "\<forall>k \<in> set (sort (map fst ?t)). \<exists>c. parse_ctm ?t k = Inr c" by (intro ballI)
  then obtain cs where cs: "map_res (parse_ctm ?t) (sort (map fst ?t)) = Inr cs"
    by (rule map_res_all [THEN exE])
  have "\<exists>c \<in> set cs. ctm_flavor_label (flavor c) = ctm_label e \<and> TTable (ctm_body E e (fst s)) = ctm_value c"
    if "(e, s) \<in> set (zip entries srcs)" for e s
  proof -
    have "ctm_label e \<in> set (sort (map fst ?t))" using that keys by (simp add: set_zip_leftD)
    with cs obtain c where "c \<in> set cs" "parse_ctm ?t (ctm_label e) = Inr c" by (meson map_res_member)
    with one [OF that] show ?thesis by auto
  qed
  with cs parse_ctms_labels [OF cs] keys show ?thesis by (auto simp: sections_hold_def)
qed

lemma gateway_body_read:
  assumes "gateway_chunks E G M core_toml gws asset_id = Inr (chunks, gw)"
    and ok: "\<forall>h body. gws \<noteq> [] \<longrightarrow> gateway_file M (hd gws) = Inr (h, body) \<longrightarrow> (\<exists>g. parse_new_gateway E (TTable body) = Inr g)"
  shows "\<exists>r. optional_section (parse_new_gateway E) (map_option TTable gw) = Inr r \<and> (r = None \<longleftrightarrow> gws = [])"
proof (cases gws)
  case Nil
  with assms(1) show ?thesis by (auto simp: gateway_chunks_def optional_section_def)
next
  case (Cons p ps)
  with assms(1) obtain h body where "gateway_file M p = Inr (h, body)" "gw = Some body"
    by (auto simp: gateway_chunks_def)
  with ok Cons show ?thesis by (auto simp: optional_section_def)
qed

lemma merged_document_accepted:
  assumes codecs: "calls_codec E G" "address_text_codec E" and "entries \<noteq> []"
    and run: "merge_documents E G M core_toml entries extra_stage0 zk gws asset_id = Inr doc"
    and ctm_ok: "\<forall>e \<in> set entries. \<forall>body gov test. load_and_split M (pe_toml e) = Inr (body, gov, test) \<longrightarrow> ctm_section_ok body"
    and gw_ok: "\<forall>h body. gws \<noteq> [] \<longrightarrow> gateway_file M (hd gws) = Inr (h, body) \<longrightarrow> (\<exists>g. parse_new_gateway E (TTable body) = Inr g)"
  shows "\<exists>a. artifact_from_table E doc = Inr a \<and> artifact_holds (=) E G M core_toml entries extra_stage0 zk gws asset_id a"
proof -
  from run obtain body gov test core_body misc_body st chunks gw s0 s1 s2 where r:
    "load_and_split M core_toml = Inr (body, gov, test)" "split_misc body = Inr (core_body, misc_body)"
    "fold_res (add_ctm E M) entries \<lparr>ms_ctms = [], ms_stage0 = [stage0_calls gov], ms_stage1 = [stage1_calls gov],
       ms_stage2 = [stage2_calls gov], ms_era_test = None, ms_os_test = None\<rparr> = Inr st"
    "gateway_chunks E G M core_toml gws asset_id = Inr (chunks, gw)"
    "merge_chunks E G (ms_stage0 st @ (if extra_stage0 = [] then [] else [calls_hex E G extra_stage0])) = Inr s0"
    "merge_chunks E G (ms_stage1 st @ (if rollup_da_manager_setup_calls M entries = [] then []
       else [calls_hex E G (rollup_da_manager_setup_calls M entries)])) = Inr s1"
    "merge_chunks E G (ms_stage2 st @ chunks) = Inr s2"
    "doc = merged_document E (s0, s1, s2) st core_body gw zk misc_body"
    by (rule merge_documents_run)
  obtain srcs where srcs: "map_res (\<lambda>e. load_and_split M (pe_toml e)) entries = Inr srcs"
    "ms_ctms st = ctm_sections E entries srcs" "distinct (map fst (ms_ctms st))"
    "ms_stage0 st = map stage0_calls (gov # map (\<lambda>s. fst (snd s)) srcs)"
    "ms_stage1 st = map stage1_calls (gov # map (\<lambda>s. fst (snd s)) srcs)"
    "ms_stage2 st = map stage2_calls (gov # map (\<lambda>s. fst (snd s)) srcs)"
    using add_ctms_run [OF r(3)] by (auto simp: comp_def)
  let ?govs = "gov # map (\<lambda>s. fst (snd s)) srcs"
  obtain c0 where c0: "source_calls E G stage0_calls ?govs = Inr c0" "decode_calls E G s0 = Inr (c0 @ extra_stage0)"
    using merge_extra_decode [OF codecs(1) r(5) [unfolded srcs(4)]] by blast
  obtain c1 where c1: "source_calls E G stage1_calls ?govs = Inr c1" "decode_calls E G s1 = Inr (c1 @ rollup_da_manager_setup_calls M entries)"
    using merge_extra_decode [OF codecs(1) r(6) [unfolded srcs(5)]] by blast
  obtain c2 gs where c2: "source_calls E G stage2_calls ?govs = Inr c2" "gateway_calls E G M core_toml gws asset_id = Inr gs"
    "decode_calls E G s2 = Inr (c2 @ gs)"
    using merge_gateway_decode [OF codecs(1) r(4) r(7) [unfolded srcs(6)]] by blast
  have nonempty: "ms_ctms st \<noteq> []"
    using \<open>entries \<noteq> []\<close> srcs(1,2) by (auto simp: ctm_sections_def map_res_eq_Inr zip_eq_Nil_iff list_all2_iff)
  obtain cs where cs: "map_res (parse_ctm (ms_ctms st)) (sort (map fst (ms_ctms st))) = Inr cs"
    "sections_hold (=) E entries srcs cs"
    using ctm_sections_read [OF srcs(1) srcs(3) [unfolded srcs(2)] ctm_ok] srcs(2) by auto
  obtain gr where gr: "optional_section (parse_new_gateway E) (map_option TTable gw) = Inr gr" "gr = None \<longleftrightarrow> gws = []"
    using gateway_body_read [OF r(4) gw_ok] by blast
  have zr: "optional_section (parse_zk_governance E) (map_option (\<lambda>z. TTable (zk_section E z)) zk) = Inr (map_option zk_of zk)"
    using zk_section_read [OF codecs(2)] by (cases zk) (simp_all add: optional_section_def)
  obtain mt where mt: "(case map_option TTable misc_body of Some v \<Rightarrow> expect_table v | None \<Rightarrow> Inr []) = Inr mt"
    by (cases misc_body) (simp_all add: expect_table_def)
  let ?a = "\<lparr>core = TTable core_body, artifact_governance_calls = \<lparr>stage0_calls = s0, stage1_calls = s1, stage2_calls = s2\<rparr>,
    ctms = cs, new_gateway = gr, zk_governance = map_option zk_of zk, misc = TTable mt\<rparr>"
  have "artifact_from_table E doc = Inr ?a"
    unfolding artifact_from_table_iff r(8) merged_document_get
    using merged_calls_read nonempty cs(1) gr(1) zr mt by blast
  moreover have "artifact_holds (=) E G M core_toml entries extra_stage0 zk gws asset_id ?a"
    unfolding artifact_holds_def
  proof (intro exI conjI)
    show "calls_hold E G M core_toml entries extra_stage0 gws asset_id ?govs (artifact_governance_calls ?a)"
      using c0 c1 c2 by (simp add: calls_hold_def)
  qed (use r(1) srcs(1) cs(2) gr(2) in simp_all)
  ultimately show ?thesis by blast
qed

subsection \<open>Reading the written file\<close>

lemma ctm_sections_keyed:
  assumes "toml_codec M" "map_res (\<lambda>e. load_and_split M (pe_toml e)) entries = Inr srcs"
    "distinct (map fst (ctm_sections E entries srcs))"
  shows "well_keyed (TTable (ctm_sections E entries srcs))"
proof -
  have pair: "well_keyed (da_pair_table E p)" for p
    by (simp add: da_pair_table_def well_keyed_insert)
  have val: "well_keyed v" if got: "map_of (ctm_sections E entries srcs) k = Some v" for k v
  proof -
    obtain e s where mem: "(e, s) \<in> set (zip entries srcs)" "v = TTable (ctm_body E e (fst s))"
      using map_of_SomeD [OF got] by (auto simp: ctm_sections_def case_prod_unfold)
    then have "load_and_split M (pe_toml e) = Inr s"
      using assms(2) by (auto simp: map_res_eq_Inr list_all2_iff)
    then have "well_keyed (TTable (fst s))"
      using load_and_split_keyed [OF assms(1)] by (cases s) auto
    with pair mem(2) show ?thesis by (auto simp: ctm_body_def well_keyed_insert split: option.splits)
  qed
  have "rel_option toml_eq (map_of (ctm_sections E entries srcs) k) (map_of (ctm_sections E entries srcs) k)" for k
    using val by (cases "map_of (ctm_sections E entries srcs) k") auto
  with assms(3) show ?thesis by (simp add: toml_eq_tables)
qed

lemma gateway_body_keyed:
  assumes "toml_codec M" "gateway_chunks E G M core_toml gws asset_id = Inr (chunks, Some body)"
  shows "well_keyed (TTable body)"
proof -
  obtain p ps h where "gws = p # ps" "gateway_file M p = Inr (h, body)"
    using assms(2) by (cases gws) (auto simp: gateway_chunks_def)
  with assms(1) show ?thesis by (auto intro: gateway_file_keyed)
qed

lemma merge_documents_keyed:
  assumes "toml_codec M" "merge_documents E G M core_toml entries extra_stage0 zk gws asset_id = Inr doc"
  shows "well_keyed (TTable doc)"
  using assms(2)
proof (rule merge_documents_run)
  fix body gov test core_body misc_body st chunks gw s0 s1 s2
  assume load: "load_and_split M core_toml = Inr (body, gov, test)" and sm: "split_misc body = Inr (core_body, misc_body)"
    and ctms: "fold_res (add_ctm E M) entries \<lparr>ms_ctms = [], ms_stage0 = [stage0_calls gov], ms_stage1 = [stage1_calls gov],
       ms_stage2 = [stage2_calls gov], ms_era_test = None, ms_os_test = None\<rparr> = Inr st"
    and gwc: "gateway_chunks E G M core_toml gws asset_id = Inr (chunks, gw)"
    and doc: "doc = merged_document E (s0, s1, s2) st core_body gw zk misc_body"
  note body = load_and_split_keyed [OF assms(1) load]
  obtain srcs where "map_res (\<lambda>e. load_and_split M (pe_toml e)) entries = Inr srcs" "ms_ctms st = ctm_sections E entries srcs"
    "distinct (map fst (ms_ctms st))"
    using add_ctms_run [OF ctms] by auto
  then have sections: "well_keyed (TTable (ms_ctms st))" using ctm_sections_keyed [OF assms(1)] by simp
  have misc: "well_keyed (TTable b)" if "misc_body = Some b" for b
    using split_misc_keyed(2) [OF body sm that] .
  have gateway: "well_keyed (TTable b)" if "gw = Some b" for b
    using gateway_body_keyed [OF assms(1)] gwc that by simp
  have tests: "well_keyed (TTable b)" if "test_section st = Some b" for b
    using that by (auto simp: test_section_def well_keyed_strings split: if_splits)
  have zks: "well_keyed (TTable b)" if "map_option (zk_section E) zk = Some b" for b
    using that by (auto simp: zk_section_def well_keyed_strings)
  show ?thesis
    unfolding doc merged_document_def prod.case
    by (intro well_keyed_section well_keyed_insert well_keyed_Nil well_keyed_strings sections split_misc_keyed(1) [OF body sm]
        misc gateway tests zks)
qed

lemma written_artifact_read:
  assumes codecs: "calls_codec E G" "address_text_codec E" "toml_codec M" and "entries \<noteq> []"
    and run: "write_merged_ecosystem_toml E G M core_toml entries extra_stage0 zk gws asset_id d = (Inr (), d')"
    and oks: "\<forall>e \<in> set entries. \<forall>body gov test. load_and_split M (pe_toml e) = Inr (body, gov, test) \<longrightarrow> ctm_section_ok body"
      "\<forall>h body. gws \<noteq> [] \<longrightarrow> gateway_file M (hd gws) = Inr (h, body) \<longrightarrow> (\<exists>g. parse_new_gateway E (TTable body) = Inr g)"
  shows "\<exists>a. read_artifact E (mx_toml_parse M) (dst_contents d') = Inr a
    \<and> artifact_holds toml_eq E G M core_toml entries extra_stage0 zk gws asset_id a"
proof -
  obtain doc s n where doc: "merge_documents E G M core_toml entries extra_stage0 zk gws asset_id = Inr doc"
    "mx_toml_print M doc = Some s" "dst_contents d' = Some (merged_comment n @ s)"
    using run by (auto simp: write_merged_ecosystem_toml_def split: if_splits sum.splits)
  obtain u where u: "mx_toml_parse M (merged_comment n @ s) = Some u" "toml_eq (TTable doc) (TTable u)"
    using codecs(3) merge_documents_keyed [OF codecs(3) doc(1)] doc(2) unfolding toml_codec_def by blast
  obtain a where a: "artifact_from_table E doc = Inr a" "artifact_holds (=) E G M core_toml entries extra_stage0 zk gws asset_id a"
    using merged_document_accepted [OF codecs(1,2) \<open>entries \<noteq> []\<close> doc(1) oks] by blast
  from artifact_same [OF u(2) a(1)] obtain b where "artifact_from_table E u = Inr b" "same_artifact a b" by blast
  with artifact_holds_same [OF a(2)] u(1) doc(3) show ?thesis
    by (simp add: read_artifact_def from_toml_str_def)
qed

section \<open>Flavors and stages\<close>

text \<open>The two ways to infer the core flavor differ only when no entry is Era and the first says nothing.\<close>

lemma core_flavor_agree:
  "infer_core_is_zk_sync_os entries = config_core_flavor entries \<longleftrightarrow>
    (\<exists>e \<in> set entries. ce_is_zk_sync_os e = Some False) \<or> (\<forall>e \<in> set entries. ce_is_zk_sync_os e = None)
    \<or> ce_is_zk_sync_os (hd entries) \<noteq> None"
proof -
  have "x = None \<longleftrightarrow> x \<noteq> Some True \<and> x \<noteq> Some False" for x :: "bool option" by (cases x) auto
  then show ?thesis
    by (cases entries) (auto simp: infer_core_is_zk_sync_os_def config_core_flavor_def list_ex_iff)
qed

definition recording_runner :: "'w forge_runner \<Rightarrow> ('w \<times> bytes list) forge_runner" where
  "recording_runner F = \<lparr>resolve_governance = (\<lambda>(w, l). resolve_governance F w),
     run_script = (\<lambda>(w, l) cd. case run_script F w cd of (r, w') \<Rightarrow> (r, (w', l @ [cd])))\<rparr>"

definition stage_calldata :: "ext \<Rightarrow> merge_ext \<Rightarrow> governance_kind \<Rightarrow> nat \<times> string \<Rightarrow> bytes \<Rightarrow> bool" where
  "stage_calldata E M kind x cd \<longleftrightarrow> (\<exists>hex encoded gov. read_governance_stage_calls M (snd x) (fst x) = Inr hex
     \<and> hex_decode E (trim_start_matches ''0x'' hex) = Some encoded
     \<and> cd = (case kind of Legacy \<Rightarrow> encode_governanceExecuteCalls M encoded gov
         | Puh \<Rightarrow> encode_governanceExecuteCallsDirect M encoded gov))"

lemma stage_execute_recorded:
  assumes "stage_governance_execute E M (recording_runner F) bh kind path stage w = (r, w')"
  shows "(snd w' = snd w \<and> r \<noteq> Inr g) \<or> (\<exists>cd. snd w' = snd w @ [cd] \<and> stage_calldata E M kind (stage, path) cd)"
proof (cases "bind_res (read_governance_stage_calls M path stage) (\<lambda>hex.
    bind_res (ok_or (Bail ''Failed to auto-resolve governance address from bridgehub'') (resolve_governance (recording_runner F) w bh)) (\<lambda>gov.
    bind_res (ok_or (Bail ''invalid governance calls hex'') (hex_decode E (trim_start_matches ''0x'' hex))) (\<lambda>encoded.
    Inr (gov, (case kind of Legacy \<Rightarrow> encode_governanceExecuteCalls M encoded gov
       | Puh \<Rightarrow> encode_governanceExecuteCallsDirect M encoded gov)))))")
  case (Inl e)
  with assms show ?thesis by (auto simp: stage_governance_execute_def)
next
  case (Inr p)
  then have "stage_calldata E M kind (stage, path) (snd p)"
    by (auto simp: stage_calldata_def)
  moreover have "snd w' = snd w @ [snd p]"
    using assms Inr by (cases w; cases p) (auto simp: stage_governance_execute_def recording_runner_def split: prod.splits option.splits)
  ultimately show ?thesis by blast
qed

lemma run_stages_recorded:
  assumes "run_stages (\<lambda>(stage, path). stage_governance_execute E M (recording_runner F) bh kind path stage) xs gov w = (r, w')"
  shows "\<exists>new. snd w' = snd w @ new \<and> length new \<le> length xs \<and> list_all2 (stage_calldata E M kind) (take (length new) xs) new
    \<and> (\<forall>g. r = Inr g \<longrightarrow> length new = length xs)"
  using assms
proof (induction xs arbitrary: gov w)
  case Nil
  then show ?case by simp
next
  case (Cons x xs)
  obtain stage path where x: "x = (stage, path)" by (cases x)
  obtain r1 w1 where step: "stage_governance_execute E M (recording_runner F) bh kind path stage w = (r1, w1)"
    by (cases "stage_governance_execute E M (recording_runner F) bh kind path stage w")
  show ?case
  proof (cases r1)
    case (Inl e)
    with Cons.prems x step have "w' = w1" "r = Inl e" by auto
    with stage_execute_recorded [OF step, of undefined] x show ?thesis
      by (elim disjE exE conjE) (auto intro: exI [of _ "[]"] exI [of _ "[_]"])
  next
    case (Inr g)
    with Cons.prems x step have run: "run_stages (\<lambda>(stage, path). stage_governance_execute E M (recording_runner F) bh kind path stage) xs g w1 = (r, w')"
      by simp
    obtain cd where cd: "snd w1 = snd w @ [cd]" "stage_calldata E M kind x cd"
      using stage_execute_recorded [OF step, of g] Inr x by auto
    from Cons.IH [OF run] obtain new where "snd w' = snd w1 @ new" "length new \<le> length xs"
      "list_all2 (stage_calldata E M kind) (take (length new) xs) new" "\<forall>g. r = Inr g \<longrightarrow> length new = length xs"
      by blast
    with cd show ?thesis by (intro exI [of _ "cd # new"]) simp
  qed
qed

end
