(* ===== verification/Simulator.thy ===== *)
theory Simulator
  imports Merge "HOL-Library.Multiset"
begin

section \<open>Transactions for the simulator\<close>

text \<open>
  \<^verbatim>\<open>commands/ecosystem/simulator.rs\<close>: the merged artifact and the manifest of prepared bundles as one
  list of transactions for the transaction simulator, with optional descriptions, and the portable copy of
  the manifest (\<^verbatim>\<open>--emit-sim-inputs\<close>). Parameters are the dynamic ABI decoder, the generated encoder of
  \<^verbatim>\<open>multicall\<close>, the reader of the descriptions file and the printer of the result. The file system is a
  state; copying a file onto itself empties it.
\<close>

datatype dyn_type = DTuple "dyn_type list" | DArray dyn_type | DAddress | DUint nat | DBytes | DFixedBytes nat | DBool

datatype dyn_value = VTuple "dyn_value list" | VArray "dyn_value list" | VAddress address | VUint u256 | VBytes bytes
  | VFixedBytes bytes | VBool bool

record raw_description =
  rd_target :: string
  rd_selector :: string
  rd_arg0_address :: "string option"
  rd_l2_contract :: "string option"
  rd_second_bridge_address :: "string option"
  rd_inner_target :: "string option"
  rd_inner_selector :: "string option"
  rd_desc :: string

record raw_registry =
  rr_labels :: "string \<Rightarrow> address option"
  rr_entries :: "raw_description list"

record sim_description =
  sd_target :: address
  sd_selector :: string
  sd_arg0_address :: "address option"
  sd_l2_contract :: "address option"
  sd_second_bridge_address :: "address option"
  sd_inner_target :: "address option"
  sd_inner_selector :: "string option"
  sd_desc :: string

record simulator_transaction =
  sim_description :: string
  sim_network :: string
  sim_from :: string
  sim_to :: string
  sim_data :: string
  sim_value :: string
  sim_value_to_mint :: "string option"
  sim_time_increase :: "u64 option"
  sim_emulate_all_batches_executed :: "bool option"
  sim_tag :: string

record sim_ext =
  abi_decode_params :: "dyn_type \<Rightarrow> bytes \<Rightarrow> dyn_value option"
  encode_multicall :: "call list \<Rightarrow> bool \<Rightarrow> bytes"
  registry_parse :: "string \<Rightarrow> raw_registry option"
  sim_print :: "simulator_transaction list \<Rightarrow> string option"

record sim_fs =
  fs_file :: "string \<Rightarrow> file_contents option"
  fs_dir_creatable :: "string \<Rightarrow> bool"
  fs_writable :: "string \<Rightarrow> bool"
  fs_stdout :: "string list"

definition fs_read :: "sim_fs \<Rightarrow> string \<Rightarrow> string option" where
  "fs_read fs p = (case fs_file fs p of Some (Text s) \<Rightarrow> Some s | _ \<Rightarrow> None)"

definition fs_write :: "string \<Rightarrow> string \<Rightarrow> sim_fs \<Rightarrow> sim_fs option" where
  "fs_write p s fs = (if fs_writable fs p then Some (fs\<lparr>fs_file := (fs_file fs)(p \<mapsto> Text s)\<rparr>) else None)"

definition fs_copy :: "string \<Rightarrow> string \<Rightarrow> sim_fs \<Rightarrow> sim_fs option" where
  "fs_copy src dst fs = Option.bind (fs_read fs src) (\<lambda>s. fs_write dst (if src = dst then [] else s) fs)"

text \<open>\<^verbatim>\<open>str::get\<close> of a range.\<close>

definition str_get :: "nat \<Rightarrow> nat \<Rightarrow> string \<Rightarrow> string option" where
  "str_get i j s = (if i \<le> j \<and> j \<le> length s then Some (slice i j s) else None)"

definition first_of :: "'a list \<Rightarrow> 'a option" where
  "first_of xs = (case xs of [] \<Rightarrow> None | x # _ \<Rightarrow> Some x)"

subsection \<open>Descriptions\<close>

definition resolve_address :: "ext \<Rightarrow> (string \<Rightarrow> address option) \<Rightarrow> string \<Rightarrow> address res" where
  "resolve_address E labels v =
     (if starts_with ''0x'' v \<or> starts_with ''0X'' v then ok_or (Bail ''invalid address literal'') (address_from_str E v)
      else ok_or (Bail ''unknown label'') (labels v))"

definition resolve_opt :: "ext \<Rightarrow> (string \<Rightarrow> address option) \<Rightarrow> string option \<Rightarrow> address option res" where
  "resolve_opt E labels v = (case v of None \<Rightarrow> Inr None | Some s \<Rightarrow> bind_res (resolve_address E labels s) (\<lambda>a. Inr (Some a)))"

definition resolve_entry :: "ext \<Rightarrow> (string \<Rightarrow> address option) \<Rightarrow> raw_description \<Rightarrow> sim_description res" where
  "resolve_entry E labels e =
     bind_res (resolve_address E labels (rd_target e)) (\<lambda>t.
     bind_res (resolve_opt E labels (rd_arg0_address e)) (\<lambda>arg0.
     bind_res (resolve_opt E labels (rd_l2_contract e)) (\<lambda>l2.
     bind_res (resolve_opt E labels (rd_second_bridge_address e)) (\<lambda>bridge.
     bind_res (resolve_opt E labels (rd_inner_target e)) (\<lambda>inner.
     Inr \<lparr>sd_target = t, sd_selector = rd_selector e, sd_arg0_address = arg0, sd_l2_contract = l2,
       sd_second_bridge_address = bridge, sd_inner_target = inner, sd_inner_selector = rd_inner_selector e,
       sd_desc = rd_desc e\<rparr>)))))"

definition build_registry :: "ext \<Rightarrow> raw_registry \<Rightarrow> sim_description list res" where
  "build_registry E raw = map_res (resolve_entry E (rr_labels raw)) (rr_entries raw)"

definition CALL_TYPE :: dyn_type where
  "CALL_TYPE = DTuple [DAddress, DUint 256, DBytes]"

definition OPERATION_TYPE :: dyn_type where
  "OPERATION_TYPE = DTuple [DArray CALL_TYPE, DFixedBytes 32, DFixedBytes 32]"

fun into_tuple :: "dyn_value \<Rightarrow> dyn_value list option" where
  "into_tuple (VTuple items) = Some items"
| "into_tuple _ = None"

definition first_param :: "sim_ext \<Rightarrow> u32 \<Rightarrow> bytes \<Rightarrow> dyn_value option" where
  "first_param S sel body =
     (if sel = 0x69340beb then do {
        params \<leftarrow> abi_decode_params S (DTuple [DArray CALL_TYPE, DBool]) body;
        items \<leftarrow> into_tuple params;
        first_of items }
      else if sel = 0x2c431917 then do {
        params \<leftarrow> abi_decode_params S (DTuple [OPERATION_TYPE, DUint 256]) body;
        items \<leftarrow> into_tuple params;
        operation \<leftarrow> first_of items;
        fields \<leftarrow> into_tuple operation;
        first_of fields }
      else if sel = 0x95218ecd then do {
        params \<leftarrow> abi_decode_params S (DTuple [OPERATION_TYPE]) body;
        items \<leftarrow> into_tuple params;
        operation \<leftarrow> first_of items;
        fields \<leftarrow> into_tuple operation;
        first_of fields }
      else None)"

definition parse_first_inner_call :: "ext \<Rightarrow> sim_ext \<Rightarrow> string \<Rightarrow> (address \<times> string) option" where
  "parse_first_inner_call E S data_hex = do {
     bs \<leftarrow> hex_decode E (trim_start_matches ''0x'' data_hex);
     param \<leftarrow> (if length bs < 4 then None else first_param S (from_be_bytes (take 4 bs)) (drop 4 bs));
     calls \<leftarrow> (case param of VArray calls \<Rightarrow> Some calls | _ \<Rightarrow> None);
     c \<leftarrow> first_of calls;
     items \<leftarrow> into_tuple c;
     (case items of
        VAddress addr # _ # VBytes inner_data # _ \<Rightarrow>
          (if length inner_data < 4 then None else Some (addr, ''0x'' @ hex_encode E (take 4 inner_data)))
      | _ \<Rightarrow> None) }"

text \<open>The address in word \<open>n\<close> of the arguments, and its comparison with a discriminator: \<open>None\<close> ends the
  whole lookup.\<close>

definition word_address :: "ext \<Rightarrow> nat \<Rightarrow> string \<Rightarrow> address option" where
  "word_address E n data_hex = do {
     w \<leftarrow> str_get (10 + n * 64) (10 + n * 64 + 64) data_hex;
     address_from_str E (''0x'' @ drop 24 w) }"

definition word_is :: "ext \<Rightarrow> address option \<Rightarrow> nat \<Rightarrow> string \<Rightarrow> bool option" where
  "word_is E want n data_hex = (case want of
     None \<Rightarrow> Some True
   | Some a \<Rightarrow> map_option (\<lambda>parsed. parsed = a) (word_address E n data_hex))"

definition inner_is :: "sim_description \<Rightarrow> (address \<times> string) option \<Rightarrow> bool option" where
  "inner_is e inner =
     (if sd_inner_target e = None \<and> sd_inner_selector e = None then Some True
      else map_option (\<lambda>(inner_target, inner_selector).
          (case sd_inner_target e of Some want \<Rightarrow> inner_target = want | None \<Rightarrow> True)
        \<and> (case sd_inner_selector e of Some want \<Rightarrow> eq_ignore_ascii_case want inner_selector | None \<Rightarrow> True)) inner)"

definition and_then :: "bool option \<Rightarrow> bool option \<Rightarrow> bool option" where
  "and_then x y = (case x of Some True \<Rightarrow> y | _ \<Rightarrow> x)"

definition entry_matches :: "ext \<Rightarrow> sim_description \<Rightarrow> (address \<times> string) option \<Rightarrow> address \<Rightarrow> string \<Rightarrow> string \<Rightarrow> bool option" where
  "entry_matches E e inner t sel data_hex =
     (if sd_target e \<noteq> t \<or> \<not> eq_ignore_ascii_case (sd_selector e) sel then Some False
      else and_then (word_is E (sd_arg0_address e) 0 data_hex)
        (and_then (word_is E (sd_l2_contract e) 3 data_hex)
        (and_then (word_is E (sd_second_bridge_address e) 7 data_hex)
        (inner_is e inner))))"

fun find_description :: "(sim_description \<Rightarrow> bool option) \<Rightarrow> sim_description list \<Rightarrow> string option" where
  "find_description P [] = None"
| "find_description P (e # es) = (case P e of
     None \<Rightarrow> None
   | Some True \<Rightarrow> Some (sd_desc e)
   | Some False \<Rightarrow> find_description P es)"

definition registry_lookup :: "ext \<Rightarrow> sim_ext \<Rightarrow> sim_description list \<Rightarrow> address \<Rightarrow> string \<Rightarrow> string option" where
  "registry_lookup E S entries t data_hex = (case str_get 0 10 data_hex of
     None \<Rightarrow> None
   | Some sel \<Rightarrow> find_description (\<lambda>e. entry_matches E e (parse_first_inner_call E S data_hex) t sel data_hex) entries)"

definition load_descriptions :: "ext \<Rightarrow> sim_ext \<Rightarrow> sim_fs \<Rightarrow> string option \<Rightarrow> sim_description list" where
  "load_descriptions E S fs path = (case path of
     None \<Rightarrow> []
   | Some p \<Rightarrow> (case Option.bind (fs_read fs p) (registry_parse S) of
       None \<Rightarrow> []
     | Some raw \<Rightarrow> (case build_registry E raw of Inr reg \<Rightarrow> reg | Inl _ \<Rightarrow> [])))"

subsection \<open>The artifact\<close>

record governance_calls_toml =
  gt_calls :: governance_calls
  gt_test_upgrade_calls :: "(string \<times> string) list"
  gt_ctm_admin_calls :: "string \<Rightarrow> (address \<times> string) option"

definition string_map :: "toml \<Rightarrow> (string \<times> string) list option" where
  "string_map v = (case v of
     TTable t \<Rightarrow> map_option (sort_key fst) (those (map (\<lambda>(k, x). map_option (Pair k) (as_str x)) t))
   | _ \<Rightarrow> None)"

definition ctm_admin_calls_try_from :: "ext \<Rightarrow> toml \<Rightarrow> (address \<times> string) option" where
  "ctm_admin_calls_try_from E v = do {
     a \<leftarrow> string_field v ''chain_admin'';
     chain_admin \<leftarrow> address_from_str E a;
     calls \<leftarrow> string_field v ''server_notifier_upgrade'';
     Some (chain_admin, calls) }"

definition ctm_flavor_section :: "ext \<Rightarrow> toml \<Rightarrow> (address \<times> string) option option" where
  "ctm_flavor_section E v = (case v of
     TTable t \<Rightarrow> (case map_of t ''ctm_admin_calls'' of
        None \<Rightarrow> Some None
      | Some x \<Rightarrow> map_option Some (ctm_admin_calls_try_from E x))
   | _ \<Rightarrow> None)"

definition governance_calls_toml_from :: "ext \<Rightarrow> table \<Rightarrow> governance_calls_toml option" where
  "governance_calls_toml_from E t = do {
     g \<leftarrow> map_of t ''governance_calls'';
     calls \<leftarrow> governance_calls_try_from g;
     tests \<leftarrow> (case map_of t ''test_upgrade_calls'' of None \<Rightarrow> Some [] | Some v \<Rightarrow> string_map v);
     admins \<leftarrow> (case map_of t ''ctms'' of
         None \<Rightarrow> Some []
       | Some (TTable c) \<Rightarrow> those (map (\<lambda>(k, v). map_option (Pair k) (ctm_flavor_section E v)) c)
       | Some _ \<Rightarrow> None);
     Some \<lparr>gt_calls = calls, gt_test_upgrade_calls = tests,
       gt_ctm_admin_calls = (\<lambda>k. Option.bind (map_of admins k) (\<lambda>x. x))\<rparr> }"

definition CTM_ADMIN_CALLS_FLAVOR_TAGS :: "(string \<times> string) list" where
  "CTM_ADMIN_CALLS_FLAVOR_TAGS = [(''era'', ''ctm_admin_calls_era''), (''zksync_os'', ''ctm_admin_calls_zkos'')]"

type_synonym admin_tags = "((address \<times> string) \<times> string) list"

definition encode_chain_admin_multicall :: "ext \<Rightarrow> calls_abi \<Rightarrow> sim_ext \<Rightarrow> string \<Rightarrow> string res" where
  "encode_chain_admin_multicall E G S calls_text =
     bind_res (decode_calls E G calls_text) (\<lambda>calls. Inr (''0x'' @ hex_encode E (encode_multicall S calls True)))"

definition build_ctm_admin_calls_tags :: "ext \<Rightarrow> calls_abi \<Rightarrow> sim_ext \<Rightarrow> governance_calls_toml \<Rightarrow> admin_tags res" where
  "build_ctm_admin_calls_tags E G S parsed =
     fold_res (\<lambda>(fl, tag) tags. case gt_ctm_admin_calls parsed fl of
         None \<Rightarrow> Inr tags
       | Some (chain_admin, calls_text) \<Rightarrow> bind_res (encode_chain_admin_multicall E G S calls_text) (\<lambda>calldata.
           Inr (tags @ [((chain_admin, calldata), tag)])))
     CTM_ADMIN_CALLS_FLAVOR_TAGS []"

subsection \<open>The manifest\<close>

record sim_bundle =
  sb_file :: string
  sb_index :: u32
  sb_steps :: "string list"
  sb_target :: address

record safe_bundle_tx =
  bt_to :: address
  bt_value :: "string option"
  bt_data :: string

type_synonym loaded_bundle = "sim_bundle \<times> safe_bundle_tx list"

definition sim_bundle_from_json :: "ext \<Rightarrow> json \<Rightarrow> sim_bundle option" where
  "sim_bundle_from_json E j = do {
     f \<leftarrow> get_str j ''file'';
     n \<leftarrow> Option.bind (json_get j ''index'') json_as_u64;
     i \<leftarrow> (if unat n < 2 ^ 32 then Some (ucast n) else None);
     steps \<leftarrow> (case json_get j ''steps'' of
         None \<Rightarrow> Some []
       | Some v \<Rightarrow> Option.bind (json_as_array v) (\<lambda>js. those (map json_as_str js)));
     t \<leftarrow> Option.bind (get_str j ''target'') (address_from_str E);
     Some \<lparr>sb_file = f, sb_index = i, sb_steps = steps, sb_target = t\<rparr> }"

definition prepare_manifest_from_json :: "ext \<Rightarrow> json \<Rightarrow> sim_bundle list option" where
  "prepare_manifest_from_json E j =
     Option.bind (Option.bind (json_get j ''bundles'') json_as_array) (\<lambda>bs. those (map (sim_bundle_from_json E) bs))"

definition safe_bundle_tx_from_json :: "ext \<Rightarrow> json \<Rightarrow> safe_bundle_tx option" where
  "safe_bundle_tx_from_json E j = do {
     t \<leftarrow> Option.bind (get_str j ''to'') (address_from_str E);
     v \<leftarrow> (case json_get j ''value'' of None \<Rightarrow> Some None | Some JNull \<Rightarrow> Some None | Some x \<Rightarrow> map_option Some (json_as_str x));
     d \<leftarrow> get_str j ''data'';
     Some \<lparr>bt_to = t, bt_value = v, bt_data = d\<rparr> }"

definition safe_bundle_file_from_json :: "ext \<Rightarrow> json \<Rightarrow> safe_bundle_tx list option" where
  "safe_bundle_file_from_json E j =
     Option.bind (Option.bind (json_get j ''transactions'') json_as_array) (\<lambda>ts. those (map (safe_bundle_tx_from_json E) ts))"

definition load_bundle :: "ext \<Rightarrow> json_io \<Rightarrow> sim_fs \<Rightarrow> string \<Rightarrow> sim_bundle \<Rightarrow> loaded_bundle res" where
  "load_bundle E J fs manifest_dir b =
     bind_res (ok_or (Bail ''failed to read bundle'') (fs_read fs (path_join manifest_dir (sb_file b)))) (\<lambda>s.
     bind_res (ok_or (Bail ''failed to parse bundle'') (Option.bind (json_parse J s) (safe_bundle_file_from_json E))) (\<lambda>txs.
     Inr (b, txs)))"

definition load_bundles :: "ext \<Rightarrow> json_io \<Rightarrow> sim_fs \<Rightarrow> string \<Rightarrow> loaded_bundle list res" where
  "load_bundles E J fs manifest_path =
     bind_res (ok_or (Bail ''failed to read'') (fs_read fs manifest_path)) (\<lambda>s.
     bind_res (ok_or (Bail ''failed to parse'') (Option.bind (json_parse J s) (prepare_manifest_from_json E))) (\<lambda>bundles.
     map_res (load_bundle E J fs (path_parent manifest_path)) bundles))"

definition touches_create2 :: "ext \<Rightarrow> loaded_bundle \<Rightarrow> bool" where
  "touches_create2 E l = list_ex (\<lambda>tx. address_text E (bt_to tx) = ''0x'' @ CREATE2_FACTORY) (snd l)"

definition camp_a_signers :: "ext \<Rightarrow> address list \<Rightarrow> loaded_bundle list \<Rightarrow> address set" where
  "camp_a_signers E explicit_camp_a loaded =
     (if explicit_camp_a \<noteq> [] then set explicit_camp_a
      else set (map (\<lambda>l. sb_target (fst l)) (filter (touches_create2 E) loaded)))"

text \<open>The transactions of a bundle with the admin calls of the CTMs in the order of the tags.\<close>

definition ctm_admin_calls_tag :: "admin_tags \<Rightarrow> safe_bundle_tx \<Rightarrow> string option" where
  "ctm_admin_calls_tag tags tx = map_option snd (find (\<lambda>((to, d), _). to = bt_to tx \<and> d = bt_data tx) tags)"

definition ordered_ctm_admin_txs :: "admin_tags \<Rightarrow> safe_bundle_tx list \<Rightarrow> safe_bundle_tx list" where
  "ordered_ctm_admin_txs tags kept_txs =
     List.map_filter (\<lambda>((to, d), _). find (\<lambda>tx. bt_to tx = to \<and> bt_data tx = d) kept_txs) tags"

fun place_in_order :: "('a \<Rightarrow> bool) \<Rightarrow> 'a list \<Rightarrow> 'a list \<Rightarrow> 'a list" where
  "place_in_order P [] ys = []"
| "place_in_order P (x # xs) ys =
     (if P x then (case ys of [] \<Rightarrow> x # place_in_order P xs [] | y # ys' \<Rightarrow> y # place_in_order P xs ys')
      else x # place_in_order P xs ys)"

definition emitted_order :: "admin_tags \<Rightarrow> safe_bundle_tx list \<Rightarrow> safe_bundle_tx list" where
  "emitted_order tags txs = place_in_order (\<lambda>tx. ctm_admin_calls_tag tags tx \<noteq> None) txs (ordered_ctm_admin_txs tags txs)"

definition selector_text :: "string \<Rightarrow> string" where
  "selector_text d = (case str_get 0 10 d of Some s \<Rightarrow> s | None \<Rightarrow> ''0x'')"

definition bundle_transaction ::
    "ext \<Rightarrow> sim_ext \<Rightarrow> string \<Rightarrow> sim_description list \<Rightarrow> admin_tags \<Rightarrow> sim_bundle \<Rightarrow> bool \<Rightarrow> nat \<times> safe_bundle_tx \<Rightarrow> simulator_transaction" where
  "bundle_transaction E S net descriptions tags b fund x = (case x of (idx, tx) \<Rightarrow>
     \<lparr>sim_description = (case registry_lookup E S descriptions (bt_to tx) (bt_data tx) of
         Some s \<Rightarrow> s
       | None \<Rightarrow> ''[unlabelled] to='' @ address_text E (bt_to tx) @ '' sel='' @ selector_text (bt_data tx)
           @ '' (bundle '' @ show_nat (unat (sb_index b)) @ '' tx '' @ show_nat (idx + 1) @ '')''),
      sim_network = net, sim_from = address_text E (sb_target b), sim_to = address_text E (bt_to tx), sim_data = bt_data tx,
      sim_value = (case bt_value tx of Some v \<Rightarrow> v | None \<Rightarrow> ''0''),
      sim_value_to_mint = (if fund \<and> idx = 0 then Some ''1'' else None), sim_time_increase = None,
      sim_emulate_all_batches_executed = None,
      sim_tag = (case ctm_admin_calls_tag tags tx of Some tag \<Rightarrow> tag | None \<Rightarrow> ''bundle_'' @ show_nat (unat (sb_index b)))\<rparr>)"

fun emit_bundles ::
    "ext \<Rightarrow> sim_ext \<Rightarrow> string \<Rightarrow> sim_description list \<Rightarrow> admin_tags \<Rightarrow> address set \<Rightarrow> loaded_bundle list \<Rightarrow> address set
      \<Rightarrow> simulator_transaction list" where
  "emit_bundles E S net descriptions tags camp_a [] funded = []"
| "emit_bundles E S net descriptions tags camp_a ((b, txs) # rest) funded =
     (if sb_target b \<in> camp_a \<or> txs = [] then emit_bundles E S net descriptions tags camp_a rest funded
      else map (bundle_transaction E S net descriptions tags b (sb_target b \<notin> funded)) (enumerate 0 (emitted_order tags txs))
        @ emit_bundles E S net descriptions tags camp_a rest (insert (sb_target b) funded))"

definition manifest_to_simulator_transactions ::
    "ext \<Rightarrow> json_io \<Rightarrow> sim_ext \<Rightarrow> sim_fs \<Rightarrow> string \<Rightarrow> string \<Rightarrow> address list \<Rightarrow> sim_description list \<Rightarrow> admin_tags
      \<Rightarrow> simulator_transaction list res" where
  "manifest_to_simulator_transactions E J S fs manifest_path net explicit_camp_a descriptions tags =
     bind_res (load_bundles E J fs manifest_path) (\<lambda>loaded.
     Inr (emit_bundles E S net descriptions tags (camp_a_signers E explicit_camp_a loaded) loaded {}))"

subsection \<open>The portable copy\<close>

definition sim_input_entry :: "ext \<Rightarrow> sim_bundle \<Rightarrow> json" where
  "sim_input_entry E b = JObj [(''file'', JStr (sb_file b)), (''index'', JNum (Some (ucast (sb_index b)))),
     (''steps'', JArr (map JStr (sb_steps b))), (''target'', JStr (address_text E (sb_target b)))]"

fun copy_bundles :: "string \<Rightarrow> string \<Rightarrow> sim_bundle list \<Rightarrow> sim_fs \<Rightarrow> unit res \<times> sim_fs" where
  "copy_bundles manifest_dir out_dir [] fs = (Inr (), fs)"
| "copy_bundles manifest_dir out_dir (b # bs) fs =
     (case fs_copy (path_join manifest_dir (sb_file b)) (path_join out_dir (sb_file b)) fs of
        None \<Rightarrow> (Inl (Bail ''failed to copy''), fs)
      | Some fs' \<Rightarrow> copy_bundles manifest_dir out_dir bs fs')"

definition write_sim_inputs ::
    "ext \<Rightarrow> json_io \<Rightarrow> string \<Rightarrow> address list \<Rightarrow> string \<Rightarrow> sim_fs \<Rightarrow> unit res \<times> sim_fs" where
  "write_sim_inputs E J manifest_path explicit_camp_a out_dir fs =
     (case load_bundles E J fs manifest_path of
        Inl e \<Rightarrow> (Inl e, fs)
      | Inr loaded \<Rightarrow>
          let camp_a = camp_a_signers E explicit_camp_a loaded;
              kept_bundles = filter (\<lambda>b. sb_target b \<notin> camp_a) (map fst loaded)
          in if explicit_camp_a = [] \<and> camp_a = {} then (Inl (Bail ''no Camp-A signers detected''), fs)
          else if \<not> fs_dir_creatable fs out_dir then (Inl (Bail ''failed to create sim-inputs dir''), fs)
          else (case copy_bundles (path_parent manifest_path) out_dir kept_bundles fs of
              (Inl e, fs') \<Rightarrow> (Inl e, fs')
            | (Inr _, fs') \<Rightarrow>
                (case fs_write (path_join out_dir MANIFEST)
                    (json_print J (JObj [(''bundles'', JArr (map (sim_input_entry E) kept_bundles))]) @ [CHR 0x0A]) fs' of
                   None \<Rightarrow> (Inl (Bail ''failed to write''), fs')
                 | Some fs'' \<Rightarrow> (Inr (), fs''))))"

subsection \<open>The governance stages\<close>

definition CHECK_DEADLINE_SELECTOR :: string where "CHECK_DEADLINE_SELECTOR = ''0x43bf9936''"

definition CHECK_DEADLINE_TIME_INCREASE_SECS :: u64 where "CHECK_DEADLINE_TIME_INCREASE_SECS = 200000"

definition STAGE2_PUH_FUND_WEI :: string where "STAGE2_PUH_FUND_WEI = ''10000000000000000000''"

definition call_hex :: "ext \<Rightarrow> call \<Rightarrow> string" where
  "call_hex E c = ''0x'' @ hex_encode E (data c)"

definition time_increase_for :: "string \<Rightarrow> u64 option" where
  "time_increase_for data_hex = (case str_get 0 (length CHECK_DEADLINE_SELECTOR) data_hex of
     Some p \<Rightarrow> if eq_ignore_ascii_case p CHECK_DEADLINE_SELECTOR then Some CHECK_DEADLINE_TIME_INCREASE_SECS else None
   | None \<Rightarrow> None)"

definition call_transaction ::
    "ext \<Rightarrow> sim_ext \<Rightarrow> string \<Rightarrow> sim_description list \<Rightarrow> address \<Rightarrow> string \<Rightarrow> string \<Rightarrow> string option \<Rightarrow> u64 option \<Rightarrow> bool option
      \<Rightarrow> nat \<Rightarrow> call \<Rightarrow> simulator_transaction" where
  "call_transaction E S net descriptions sender label tag mint time_increase emulate idx c =
     \<lparr>sim_description = (case registry_lookup E S descriptions (target c) (call_hex E c) of
         Some s \<Rightarrow> s
       | None \<Rightarrow> ''[unlabelled] '' @ label @ '' call '' @ show_nat (idx + 1) @ '' to='' @ address_text E (target c)
           @ '' sel='' @ selector_text (call_hex E c)),
      sim_network = net, sim_from = address_text E sender, sim_to = address_text E (target c), sim_data = call_hex E c,
      sim_value = show_nat (unat (call_value c)), sim_value_to_mint = mint, sim_time_increase = time_increase,
      sim_emulate_all_batches_executed = emulate, sim_tag = tag\<rparr>"

text \<open>The two flags of the loop: the sender is still to be funded, the top-up of stage 2 is still to come.\<close>

definition mint_for :: "nat \<Rightarrow> bool \<times> bool \<Rightarrow> string option \<times> bool \<times> bool" where
  "mint_for stage flags = (case flags of (should_fund_sender, topup_pending) \<Rightarrow>
     if stage = 2 \<and> topup_pending then (Some STAGE2_PUH_FUND_WEI, False, False)
     else if should_fund_sender then (Some ''1'', False, topup_pending)
     else (None, should_fund_sender, topup_pending))"

fun emit_stage ::
    "ext \<Rightarrow> sim_ext \<Rightarrow> string \<Rightarrow> sim_description list \<Rightarrow> address \<Rightarrow> nat \<Rightarrow> nat \<Rightarrow> call list \<Rightarrow> bool \<times> bool
      \<Rightarrow> simulator_transaction list \<times> bool \<times> bool" where
  "emit_stage E S net descriptions sender stage idx [] flags = ([], flags)"
| "emit_stage E S net descriptions sender stage idx (c # cs) flags =
     (case mint_for stage flags of (mint, flags') \<Rightarrow>
        (case emit_stage E S net descriptions sender stage (Suc idx) cs flags' of (txs, flags'') \<Rightarrow>
           (call_transaction E S net descriptions sender (''stage'' @ show_nat stage) (''stage'' @ show_nat stage) mint
              (time_increase_for (call_hex E c)) None idx c # txs, flags'')))"

fun emit_stages ::
    "ext \<Rightarrow> calls_abi \<Rightarrow> sim_ext \<Rightarrow> string \<Rightarrow> sim_description list \<Rightarrow> address \<Rightarrow> (nat \<times> string) list \<Rightarrow> bool \<times> bool
      \<Rightarrow> simulator_transaction list res" where
  "emit_stages E G S net descriptions sender [] flags = Inr []"
| "emit_stages E G S net descriptions sender ((stage, encoded_calls) # rest) flags =
     bind_res (decode_calls E G encoded_calls) (\<lambda>calls.
       case emit_stage E S net descriptions sender stage 0 calls flags of (txs, flags') \<Rightarrow>
         bind_res (emit_stages E G S net descriptions sender rest flags') (\<lambda>more. Inr (txs @ more)))"

definition is_test_tag :: "string \<Rightarrow> bool" where
  "is_test_tag tag \<longleftrightarrow> starts_with ''test_'' tag \<and> \<not> ends_with ''_caller'' tag"

definition test_transactions ::
    "ext \<Rightarrow> calls_abi \<Rightarrow> sim_ext \<Rightarrow> string \<Rightarrow> sim_description list \<Rightarrow> (string \<times> string) list \<Rightarrow> string \<times> string
      \<Rightarrow> simulator_transaction list res" where
  "test_transactions E G S net descriptions tests x = (case x of (tag, encoded_calls) \<Rightarrow>
     if \<not> is_test_tag tag then Inr []
     else bind_res (ok_or (Bail ''missing caller'') (map_of tests (tag @ ''_caller''))) (\<lambda>raw.
       bind_res (ok_or (Bail ''invalid caller address'') (address_from_str E raw)) (\<lambda>caller.
       bind_res (decode_calls E G encoded_calls) (\<lambda>calls.
       Inr (map (\<lambda>(idx, c). call_transaction E S net descriptions caller tag tag (Some ''1'') None
           (if starts_with ''test_upgrade_'' tag then Some True else None) idx c) (enumerate 0 calls))))))"

definition append_test_upgrade_calls ::
    "ext \<Rightarrow> calls_abi \<Rightarrow> sim_ext \<Rightarrow> string \<Rightarrow> sim_description list \<Rightarrow> (string \<times> string) list \<Rightarrow> simulator_transaction list
      \<Rightarrow> simulator_transaction list res" where
  "append_test_upgrade_calls E G S net descriptions tests txs0 =
     fold_res (\<lambda>x txs. bind_res (test_transactions E G S net descriptions tests x) (\<lambda>new. Inr (txs @ new))) tests txs0"

definition read_governance_toml :: "ext \<Rightarrow> merge_ext \<Rightarrow> sim_fs \<Rightarrow> string \<Rightarrow> governance_calls_toml res" where
  "read_governance_toml E M fs path =
     bind_res (ok_or (Bail ''failed to read'') (fs_read fs path)) (\<lambda>content.
     ok_or (Bail ''failed to parse'') (Option.bind (mx_toml_parse M content) (governance_calls_toml_from E)))"

definition governance_toml_to_simulator_transactions ::
    "ext \<Rightarrow> calls_abi \<Rightarrow> merge_ext \<Rightarrow> sim_ext \<Rightarrow> sim_fs \<Rightarrow> string \<Rightarrow> string \<Rightarrow> address \<Rightarrow> sim_description list
      \<Rightarrow> simulator_transaction list res" where
  "governance_toml_to_simulator_transactions E G M S fs path net sender descriptions =
     bind_res (read_governance_toml E M fs path) (\<lambda>parsed.
     bind_res (emit_stages E G S net descriptions sender
       [(0, stage0_calls (gt_calls parsed)), (1, stage1_calls (gt_calls parsed)), (2, stage2_calls (gt_calls parsed))] (True, True)) (\<lambda>txs.
     append_test_upgrade_calls E G S net descriptions (gt_test_upgrade_calls parsed) txs))"

subsection \<open>The command\<close>

record simulator_args =
  sa_env :: "string option"
  sa_governance_toml :: "string option"
  sa_network :: "string option"
  sa_from :: "address option"
  sa_out :: "string option"
  sa_include_manifest :: "string option"
  sa_camp_a_signers :: "address list"
  sa_descriptions :: "string option"
  sa_emit_sim_inputs :: "string option"

record resolved_inputs =
  ri_governance_toml :: string
  ri_network :: string
  ri_from :: address
  ri_manifest_path :: "string option"
  ri_descriptions_path :: "string option"

definition is_file :: "sim_fs \<Rightarrow> string \<Rightarrow> bool" where
  "is_file fs p \<longleftrightarrow> fs_file fs p \<noteq> None"

definition default_out :: "env_files \<Rightarrow> env_config option \<Rightarrow> string option" where
  "default_out V env_cfg = Option.bind env_cfg (\<lambda>cfg.
     case default_protocol_ops_out_dir V (ec_env cfg) of Inr base \<Rightarrow> Some base | Inl _ \<Rightarrow> None)"

definition manifest_candidates :: "simulator_args \<Rightarrow> string \<Rightarrow> string list" where
  "manifest_candidates args base =
     (let sim_inputs = path_join (path_join base ''sim-inputs'') MANIFEST; prepared = path_join (path_join base ''prepare'') MANIFEST
      in if sa_emit_sim_inputs args \<noteq> None then [prepared, sim_inputs] else [sim_inputs, prepared])"

definition resolve_inputs :: "ext \<Rightarrow> env_files \<Rightarrow> simulator_args \<Rightarrow> sim_fs \<Rightarrow> resolved_inputs res" where
  "resolve_inputs E V args fs =
     bind_res (case sa_env args of None \<Rightarrow> Inr None | Some e \<Rightarrow> bind_res (env_config_load E V e) (\<lambda>c. Inr (Some c))) (\<lambda>env_cfg.
     bind_res (case sa_governance_toml args of
         Some path \<Rightarrow> Inr path
       | None \<Rightarrow> bind_res (ok_or (Bail ''--governance-toml is required unless --env is set'') env_cfg) (\<lambda>cfg.
           bind_res (default_protocol_ops_out_dir V (ec_env cfg)) (\<lambda>base. Inr (path_join base ''ecosystem.toml'')))) (\<lambda>toml_path.
     bind_res (case sa_from args of
         Some a \<Rightarrow> Inr a
       | None \<Rightarrow> ok_or (Bail ''--from is required unless --env resolves an owner_address'') (Option.bind env_cfg ec_owner_address)) (\<lambda>sender.
     Inr \<lparr>ri_governance_toml = toml_path,
       ri_network = (case sa_network args of Some n \<Rightarrow> n
         | None \<Rightarrow> if map_option ec_env env_cfg = Some ''mainnet'' then ''mainnet'' else ''sepolia''),
       ri_from = sender,
       ri_manifest_path = (case sa_include_manifest args of Some p \<Rightarrow> Some p
         | None \<Rightarrow> Option.bind (default_out V env_cfg) (\<lambda>base. find (is_file fs) (manifest_candidates args base))),
       ri_descriptions_path = (case sa_descriptions args of Some p \<Rightarrow> Some p
         | None \<Rightarrow> Option.bind (default_out V env_cfg) (\<lambda>base. find (is_file fs)
             [path_join (path_parent (path_parent base)) ''sim-descriptions.toml'']))\<rparr>)))"

definition simulator_transactions ::
    "ext \<Rightarrow> calls_abi \<Rightarrow> json_io \<Rightarrow> merge_ext \<Rightarrow> sim_ext \<Rightarrow> address list \<Rightarrow> resolved_inputs \<Rightarrow> sim_fs \<Rightarrow> simulator_transaction list res" where
  "simulator_transactions E G J M S camp_a ri fs =
     (let descriptions = load_descriptions E S fs (ri_descriptions_path ri) in
      bind_res (read_governance_toml E M fs (ri_governance_toml ri)) (\<lambda>parsed.
      bind_res (build_ctm_admin_calls_tags E G S parsed) (\<lambda>tags.
      bind_res (case ri_manifest_path ri of
          None \<Rightarrow> Inr []
        | Some p \<Rightarrow> manifest_to_simulator_transactions E J S fs p (ri_network ri) camp_a descriptions tags) (\<lambda>extra.
      bind_res (governance_toml_to_simulator_transactions E G M S fs (ri_governance_toml ri) (ri_network ri) (ri_from ri) descriptions) (\<lambda>gov.
      Inr (extra @ gov))))))"

definition emit_output :: "string option \<Rightarrow> string \<Rightarrow> sim_fs \<Rightarrow> unit res \<times> sim_fs" where
  "emit_output out_path body fs = (case out_path of
     None \<Rightarrow> (Inr (), fs\<lparr>fs_stdout := fs_stdout fs @ [body]\<rparr>)
   | Some p \<Rightarrow>
       if \<not> fs_dir_creatable fs (path_parent p) then (Inl (Bail ''failed to create output dir''), fs)
       else (case fs_write p (body @ [CHR 0x0A]) fs of
           None \<Rightarrow> (Inl (Bail ''failed to write''), fs)
         | Some fs' \<Rightarrow> (Inr (), fs')))"

definition simulator_run ::
    "ext \<Rightarrow> calls_abi \<Rightarrow> json_io \<Rightarrow> merge_ext \<Rightarrow> sim_ext \<Rightarrow> env_files \<Rightarrow> simulator_args \<Rightarrow> sim_fs \<Rightarrow> unit res \<times> sim_fs" where
  "simulator_run E G J M S V args fs =
     (case resolve_inputs E V args fs of
        Inl e \<Rightarrow> (Inl e, fs)
      | Inr ri \<Rightarrow>
          (case sa_emit_sim_inputs args of
             Some sim_inputs_dir \<Rightarrow>
               (case ri_manifest_path ri of
                  None \<Rightarrow> (Inl (Bail ''--emit-sim-inputs needs a manifest''), fs)
                | Some p \<Rightarrow> write_sim_inputs E J p (sa_camp_a_signers args) sim_inputs_dir fs)
           | None \<Rightarrow>
               (case bind_res (simulator_transactions E G J M S (sa_camp_a_signers args) ri fs) (\<lambda>txs.
                    ok_or (Bail ''to_string_pretty'') (sim_print S txs)) of
                  Inl e \<Rightarrow> (Inl e, fs)
                | Inr body \<Rightarrow> emit_output (sa_out args) body fs)))"

section \<open>The portable copy reproduces the transactions\<close>

lemma emit_bundles_filtered:
  assumes "\<forall>l \<in> set ls. sb_target (fst l) \<in> A \<longleftrightarrow> sb_target (fst l) \<in> C"
    and "\<forall>l \<in> set ls. sb_target (fst l) \<notin> A \<longrightarrow> sb_target (fst l) \<notin> B"
  shows "emit_bundles E S net ds tags B (filter (\<lambda>l. sb_target (fst l) \<notin> A) ls) funded = emit_bundles E S net ds tags C ls funded"
  using assms by (induction ls arbitrary: funded) auto

lemma camp_a_after_copy:
  assumes "l \<in> set ls" "sb_target (fst l) \<notin> camp_a_signers E ex ls"
  shows "sb_target (fst l) \<notin> camp_a_signers E ex (filter (\<lambda>l. sb_target (fst l) \<notin> camp_a_signers E ex ls) ls)"
  using assms by (auto simp: camp_a_signers_def split: if_splits)

lemma sim_bundle_reads_back:
  assumes "address_text_codec E"
  shows "sim_bundle_from_json E (sim_input_entry E b) = Some b"
proof -
  have "unat (ucast (sb_index b) :: u64) < 2 ^ 32"
    using unsigned_less [of "sb_index b", where ?'a = nat] by (simp add: unsigned_ucast_eq take_bit_nat_eq_self)
  moreover have "those (map json_as_str (map JStr xs)) = Some xs" for xs
    by (induction xs) simp_all
  moreover have "ucast (ucast (sb_index b) :: u64) = sb_index b"
    by (rule bit_word_eqI) (auto simp: bit_unsigned_iff)
  ultimately show ?thesis
    using assms by (simp add: sim_bundle_from_json_def sim_input_entry_def get_str_def address_text_codec_def)
qed

text \<open>\<^verbatim>\<open>serde_json\<close>: what is read from a printed value is what the value itself gives.\<close>

definition manifest_codec :: "ext \<Rightarrow> json_io \<Rightarrow> bool" where
  "manifest_codec E J \<longleftrightarrow> (\<forall>j. Option.bind (json_parse J (json_print J j @ [CHR 0x0A])) (prepare_manifest_from_json E)
     = prepare_manifest_from_json E j)"

lemma written_manifest_read:
  assumes "manifest_codec E J" "address_text_codec E"
  shows "Option.bind (json_parse J (json_print J (JObj [(''bundles'', JArr (map (sim_input_entry E) bs))]) @ [CHR 0x0A]))
      (prepare_manifest_from_json E) = Some bs"
proof -
  have "those (map (sim_bundle_from_json E) (map (sim_input_entry E) bs)) = Some bs"
    using sim_bundle_reads_back [OF assms(2)] by (induction bs) simp_all
  then show ?thesis
    using assms(1) by (simp add: manifest_codec_def prepare_manifest_from_json_def)
qed

subsection \<open>Paths\<close>

definition bare :: "string \<Rightarrow> bool" where
  "bare f \<longleftrightarrow> CHR ''/'' \<notin> set f \<and> f \<noteq> MANIFEST"

lemma path_join_prefix: "CHR ''/'' \<notin> set f \<Longrightarrow> path_join a f = path_join a [] @ f"
  by (cases f) (auto simp: path_join_def starts_with_def)

lemma path_join_ends: "path_join a [] = [] \<or> last (path_join a []) = CHR ''/''"
  by (auto simp: path_join_def starts_with_def)

lemma file_part:
  assumes "CHR ''/'' \<notin> set f" "p = [] \<or> last p = CHR ''/''"
  shows "takeWhile (\<lambda>c. c \<noteq> CHR ''/'') (rev (p @ f)) = rev f"
proof (cases p rule: rev_cases)
  case Nil
  have "takeWhile (\<lambda>c. c \<noteq> CHR ''/'') (rev f) = rev f"
    using assms(1) by (intro takeWhile_eq_all_conv [THEN iffD2]) auto
  with Nil show ?thesis by simp
next
  case (snoc q c)
  have "takeWhile (\<lambda>c. c \<noteq> CHR ''/'') (rev f @ CHR ''/'' # rev q) = rev f"
    using assms(1) by (subst takeWhile_append2) auto
  with snoc assms(2) show ?thesis by simp
qed

lemma path_join_inject:
  assumes "CHR ''/'' \<notin> set f" "CHR ''/'' \<notin> set g" "path_join a f = path_join b g"
  shows "path_join a [] = path_join b []" "f = g"
proof -
  have eq: "path_join a [] @ f = path_join b [] @ g"
    using path_join_prefix [OF assms(1)] path_join_prefix [OF assms(2)] assms(3) by metis
  then have "rev f = rev g"
    using file_part [OF assms(1) path_join_ends [of a]] file_part [OF assms(2) path_join_ends [of b]] by simp
  then show "f = g" by simp
  with eq show "path_join a [] = path_join b []" by simp
qed

lemma path_parent_join:
  assumes "CHR ''/'' \<notin> set f" "a \<noteq> []" "last a \<noteq> CHR ''/''"
  shows "path_parent (path_join a f) = a"
proof -
  have join: "path_join a f = a @ [CHR ''/''] @ f"
    using assms by (subst path_join_prefix) (auto simp: path_join_def starts_with_def)
  have "dropWhile (\<lambda>c. c \<noteq> CHR ''/'') (rev f @ CHR ''/'' # rev a) = CHR ''/'' # rev a"
    using assms(1) by (subst dropWhile_append2) auto
  with assms(2) show ?thesis by (simp add: path_parent_def join Let_def)
qed

subsection \<open>Copying\<close>

lemma fs_copy_run:
  assumes "fs_copy src dst fs = Some fs'" "src \<noteq> dst"
  obtains s where "fs_read fs src = Some s" "fs' = fs\<lparr>fs_file := (fs_file fs)(dst \<mapsto> Text s)\<rparr>"
  using assms by (auto simp: fs_copy_def fs_write_def bind_eq_Some_conv split: if_splits)

lemma fs_read_update: "fs_read (fs\<lparr>fs_file := (fs_file fs)(p \<mapsto> Text s)\<rparr>) q = (if q = p then Some s else fs_read fs q)"
  by (simp add: fs_read_def)

lemma copy_bundles_run:
  assumes "copy_bundles d out_dir bs fs = (Inr u, fs')" "\<forall>b \<in> set bs. bare (sb_file b)" "path_join d [] \<noteq> path_join out_dir []"
  shows "(\<forall>p. (\<forall>b \<in> set bs. p \<noteq> path_join out_dir (sb_file b)) \<longrightarrow> fs_read fs' p = fs_read fs p)
    \<and> (\<forall>b \<in> set bs. fs_read fs' (path_join out_dir (sb_file b)) = fs_read fs (path_join d (sb_file b)))"
  using assms(1,2)
proof (induction bs arbitrary: fs)
  case Nil
  then show ?case by simp
next
  case (Cons b bs)
  let ?dst = "path_join out_dir (sb_file b)" and ?src = "path_join d (sb_file b)"
  have sep: "path_join d (sb_file x) \<noteq> path_join out_dir (sb_file y)" if "x \<in> set (b # bs)" "y \<in> set (b # bs)" for x y
    using that Cons.prems(2) assms(3) path_join_inject(1) [of "sb_file x" "sb_file y" d out_dir] by (auto simp: bare_def)
  obtain fs1 where copy: "fs_copy ?src ?dst fs = Some fs1" and rest: "copy_bundles d out_dir bs fs1 = (Inr u, fs')"
    using Cons.prems(1) by (auto split: option.splits)
  obtain s where s: "fs_read fs ?src = Some s" "fs1 = fs\<lparr>fs_file := (fs_file fs)(?dst \<mapsto> Text s)\<rparr>"
    using copy sep [of b b] by (auto elim: fs_copy_run)
  have ih: "(\<forall>p. (\<forall>b \<in> set bs. p \<noteq> path_join out_dir (sb_file b)) \<longrightarrow> fs_read fs' p = fs_read fs1 p)
    \<and> (\<forall>b \<in> set bs. fs_read fs' (path_join out_dir (sb_file b)) = fs_read fs1 (path_join d (sb_file b)))"
    using Cons.IH [OF rest] Cons.prems(2) by simp
  have one: "fs_read fs1 p = (if p = ?dst then Some s else fs_read fs p)" for p
    unfolding s(2) by (rule fs_read_update)
  have tail: "fs_read fs' (path_join out_dir (sb_file x)) = fs_read fs (path_join d (sb_file x))" if "x \<in> set bs" for x
    using ih that one sep [of x b] by simp
  have head: "fs_read fs' ?dst = fs_read fs ?src"
  proof (cases "\<exists>x \<in> set bs. ?dst = path_join out_dir (sb_file x)")
    case True
    then obtain x where x: "x \<in> set bs" "?dst = path_join out_dir (sb_file x)" by blast
    then have "sb_file b = sb_file x"
      using path_join_inject(2) [OF _ _ x(2)] Cons.prems(2) by (simp add: bare_def)
    with tail [OF x(1)] show ?thesis by simp
  next
    case False
    then show ?thesis using ih one [of ?dst] s(1) by auto
  qed
  show ?case
    using ih one tail head by auto
qed

lemma load_bundle_same:
  assumes "fs_read fs' (path_join d' (sb_file b)) = fs_read fs (path_join d (sb_file b))"
  shows "load_bundle E J fs' d' b = load_bundle E J fs d b"
  by (simp add: load_bundle_def assms)

lemma load_bundles_fst:
  assumes "map_res (load_bundle E J fs d) bs = Inr ls"
  shows "map fst ls = bs" "l \<in> set ls \<Longrightarrow> load_bundle E J fs d (fst l) = Inr l"
  using assms by (induction bs arbitrary: ls; auto simp: load_bundle_def)+

lemma map_res_of_list: "(\<forall>l \<in> set ls. f (g l) = Inr l) \<Longrightarrow> map_res f (map g ls) = Inr ls"
  by (induction ls) auto

lemma written_inputs_load:
  assumes codecs: "manifest_codec E J" "address_text_codec E"
    and dirs: "path_join (path_parent m) [] \<noteq> path_join out_dir []" "out_dir \<noteq> []" "last out_dir \<noteq> CHR ''/''"
    and loaded: "load_bundles E J fs m = Inr ls" and bares: "\<forall>l \<in> set ls. bare (sb_file (fst l))"
    and run: "write_sim_inputs E J m ex out_dir fs = (Inr (), fs')"
  shows "load_bundles E J fs' (path_join out_dir MANIFEST) = Inr (filter (\<lambda>l. sb_target (fst l) \<notin> camp_a_signers E ex ls) ls)"
proof -
  let ?keep = "\<lambda>l. sb_target (fst l) \<notin> camp_a_signers E ex ls"
  let ?bs = "map fst (filter ?keep ls)"
  let ?text = "json_print J (JObj [(''bundles'', JArr (map (sim_input_entry E) ?bs))]) @ [CHR 0x0A]"
  have "filter (\<lambda>b. sb_target b \<notin> camp_a_signers E ex ls) (map fst ls) = ?bs"
    by (simp add: filter_map comp_def)
  then obtain fs1 where copied: "copy_bundles (path_parent m) out_dir ?bs fs = (Inr (), fs1)"
    and written: "fs_write (path_join out_dir MANIFEST) ?text fs1 = Some fs'"
    using run loaded by (auto simp: write_sim_inputs_def Let_def split: if_splits prod.splits sum.splits option.splits)
  have fs': "fs' = fs1\<lparr>fs_file := (fs_file fs1)(path_join out_dir MANIFEST \<mapsto> Text ?text)\<rparr>"
    using written by (simp add: fs_write_def split: if_splits)
  have "\<forall>b \<in> set ?bs. bare (sb_file b)" using bares by simp
  note all = conjunct2 [OF copy_bundles_run [OF copied this dirs(1)]]
  have copies: "fs_read fs1 (path_join out_dir (sb_file (fst l))) = fs_read fs (path_join (path_parent m) (sb_file (fst l)))"
    if "l \<in> set (filter ?keep ls)" for l
    by (rule bspec [OF all]) (use that in \<open>auto simp del: split_paired_Ex intro: rev_image_eqI\<close>)
  have no_slash: "CHR ''/'' \<notin> set MANIFEST" by (simp add: MANIFEST_def)
  have reads: "load_bundle E J fs' out_dir (fst l) = Inr l" if l: "l \<in> set (filter ?keep ls)" for l
  proof -
    have "bare (sb_file (fst l))" using l bares by simp
    then have "path_join out_dir (sb_file (fst l)) \<noteq> path_join out_dir MANIFEST"
      using path_join_inject(2) [OF _ no_slash] by (auto simp: bare_def)
    with copies [OF l] have "fs_read fs' (path_join out_dir (sb_file (fst l))) = fs_read fs (path_join (path_parent m) (sb_file (fst l)))"
      unfolding fs' by (simp add: fs_read_update)
    moreover obtain bs0 where "map_res (load_bundle E J fs (path_parent m)) bs0 = Inr ls"
      using loaded by (auto simp: load_bundles_def)
    then have "load_bundle E J fs (path_parent m) (fst l) = Inr l"
      using load_bundles_fst(2) l by simp
    ultimately show ?thesis using load_bundle_same by metis
  qed
  have "fs_read fs' (path_join out_dir MANIFEST) = Some ?text"
    unfolding fs' by (simp add: fs_read_update)
  moreover have "path_parent (path_join out_dir MANIFEST) = out_dir"
    using path_parent_join [OF no_slash dirs(2,3)] .
  moreover have "map_res (load_bundle E J fs' out_dir) ?bs = Inr (filter ?keep ls)"
    using reads by (intro map_res_of_list) blast
  ultimately show ?thesis
    using written_manifest_read [OF codecs, of ?bs] by (simp add: load_bundles_def)
qed

lemma sim_inputs_same_transactions:
  assumes "manifest_codec E J" "address_text_codec E"
    and "path_join (path_parent m) [] \<noteq> path_join out_dir []" "out_dir \<noteq> []" "last out_dir \<noteq> CHR ''/''"
    and "load_bundles E J fs m = Inr ls" "\<forall>l \<in> set ls. bare (sb_file (fst l))"
    and "write_sim_inputs E J m ex out_dir fs = (Inr (), fs')"
  shows "manifest_to_simulator_transactions E J S fs' (path_join out_dir MANIFEST) net ex ds tags
    = manifest_to_simulator_transactions E J S fs m net ex ds tags"
  using written_inputs_load [OF assms] assms(6) camp_a_after_copy [where ex = ex]
  by (simp add: manifest_to_simulator_transactions_def emit_bundles_filtered)

section \<open>What is emitted\<close>

definition sim_row :: "simulator_transaction \<Rightarrow> string \<times> string \<times> string \<times> string \<times> u64 option" where
  "sim_row t = (sim_tag t, sim_to t, sim_data t, sim_value t, sim_time_increase t)"

definition stage_row :: "ext \<Rightarrow> nat \<Rightarrow> call \<Rightarrow> string \<times> string \<times> string \<times> string \<times> u64 option" where
  "stage_row E stage c = (''stage'' @ show_nat stage, address_text E (target c), call_hex E c, show_nat (unat (call_value c)),
     time_increase_for (call_hex E c))"

definition first_only :: "'a \<Rightarrow> nat \<Rightarrow> 'a option list" where
  "first_only x n = (if n = 0 then [] else Some x # replicate (n - 1) None)"

lemma emit_stage_rows:
  "map sim_row (fst (emit_stage E S net ds sender stage idx cs flags)) = map (stage_row E stage) cs"
  by (induction cs arbitrary: idx flags)
    (simp_all add: case_prod_unfold call_transaction_def sim_row_def stage_row_def)

lemma emit_stage_senders:
  "\<forall>t \<in> set (fst (emit_stage E S net ds sender stage idx cs flags)).
     sim_from t = address_text E sender \<and> sim_emulate_all_batches_executed t = None"
  by (induction cs arbitrary: idx flags) (simp_all add: case_prod_unfold call_transaction_def)

lemma emit_stage_mints_none:
  "emit_stage E S net ds sender stage idx cs (False, False) = (txs, flags) \<Longrightarrow>
    map sim_value_to_mint txs = replicate (length cs) None \<and> flags = (False, False)"
  by (induction cs arbitrary: idx txs flags) (auto simp: mint_for_def call_transaction_def split: prod.splits)

lemma emit_stage_mints_early:
  "stage \<noteq> 2 \<Longrightarrow> emit_stage E S net ds sender stage idx cs (f, True) = (txs, flags) \<Longrightarrow>
    map sim_value_to_mint txs = (if f then first_only ''1'' (length cs) else replicate (length cs) None) \<and> flags = (f \<and> cs = [], True)"
proof (induction cs arbitrary: idx f txs flags)
  case (Cons c cs)
  obtain txs' flags' where rest: "emit_stage E S net ds sender stage (Suc idx) cs (False, True) = (txs', flags')"
    by (cases "emit_stage E S net ds sender stage (Suc idx) cs (False, True)")
  from Cons.IH [OF Cons.prems(1) rest] Cons.prems rest show ?case
    by (cases f) (auto simp: mint_for_def call_transaction_def first_only_def)
qed (auto simp: first_only_def)

lemma emit_stage2_mints:
  assumes "emit_stage E S net ds sender 2 idx cs (f, True) = (txs, flags)"
  shows "map sim_value_to_mint txs = first_only STAGE2_PUH_FUND_WEI (length cs)"
proof (cases cs)
  case (Cons c cs')
  obtain txs' flags' where rest: "emit_stage E S net ds sender 2 (Suc idx) cs' (False, False) = (txs', flags')"
    by (cases "emit_stage E S net ds sender 2 (Suc idx) cs' (False, False)")
  from emit_stage_mints_none [OF rest] assms rest Cons show ?thesis
    by (auto simp: mint_for_def call_transaction_def first_only_def)
qed (use assms in \<open>simp add: first_only_def\<close>)

lemma emit_stages_Cons:
  assumes "emit_stages E G S net ds sender ((stage, h) # rest) flags = Inr txs"
  obtains cs t fl more where "decode_calls E G h = Inr cs" "emit_stage E S net ds sender stage 0 cs flags = (t, fl)"
    "emit_stages E G S net ds sender rest fl = Inr more" "txs = t @ more"
proof -
  obtain cs where cs: "decode_calls E G h = Inr cs" using assms by auto
  obtain t fl where t: "emit_stage E S net ds sender stage 0 cs flags = (t, fl)"
    by (cases "emit_stage E S net ds sender stage 0 cs flags")
  with assms cs obtain more where "emit_stages E G S net ds sender rest fl = Inr more" "txs = t @ more" by auto
  with cs t show ?thesis by (rule that)
qed

text \<open>The sender is funded once with 1 wei before stage 2 and topped up at the first call of stage 2.\<close>

lemma emit_stages_run:
  assumes "emit_stages E G S net ds sender [(0, h0), (1, h1), (2, h2)] (True, True) = Inr txs"
  shows "\<exists>c0 c1 c2. decode_calls E G h0 = Inr c0 \<and> decode_calls E G h1 = Inr c1 \<and> decode_calls E G h2 = Inr c2
    \<and> map sim_row txs = map (stage_row E 0) c0 @ map (stage_row E 1) c1 @ map (stage_row E 2) c2
    \<and> map sim_value_to_mint txs = first_only ''1'' (length c0 + length c1) @ first_only STAGE2_PUH_FUND_WEI (length c2)
    \<and> (\<forall>t \<in> set txs. sim_from t = address_text E sender \<and> sim_emulate_all_batches_executed t = None)"
proof -
  obtain c0 c1 c2 t0 f0 t1 f1 t2 f2 where dec: "decode_calls E G h0 = Inr c0" "decode_calls E G h1 = Inr c1" "decode_calls E G h2 = Inr c2"
    and e0: "emit_stage E S net ds sender 0 0 c0 (True, True) = (t0, f0)"
    and e1: "emit_stage E S net ds sender 1 0 c1 f0 = (t1, f1)"
    and e2: "emit_stage E S net ds sender 2 0 c2 f1 = (t2, f2)" and txs: "txs = t0 @ t1 @ t2"
    using assms by (elim emit_stages_Cons) auto
  have m0: "map sim_value_to_mint t0 = first_only ''1'' (length c0)" "f0 = (c0 = [], True)"
    using emit_stage_mints_early [OF _ e0] by simp_all
  have m1: "map sim_value_to_mint t1 = (if c0 = [] then first_only ''1'' (length c1) else replicate (length c1) None)"
    "f1 = (c0 = [] \<and> c1 = [], True)"
    using emit_stage_mints_early [OF _ e1 [unfolded m0(2)]] by simp_all
  have m2: "map sim_value_to_mint t2 = first_only STAGE2_PUH_FUND_WEI (length c2)"
    using emit_stage2_mints [OF e2 [unfolded m1(2)]] .
  have "first_only ''1'' (length c0 + length c1) = map sim_value_to_mint t0 @ map sim_value_to_mint t1"
    unfolding m0 m1 by (cases c0) (simp_all add: first_only_def replicate_add)
  moreover have "map sim_row t0 = map (stage_row E 0) c0" "map sim_row t1 = map (stage_row E 1) c1" "map sim_row t2 = map (stage_row E 2) c2"
    using emit_stage_rows [of E S net ds sender 0 0 c0 "(True, True)"] emit_stage_rows [of E S net ds sender 1 0 c1 f0]
      emit_stage_rows [of E S net ds sender 2 0 c2 f1] e0 e1 e2 by simp_all
  moreover have "\<forall>t \<in> set txs. sim_from t = address_text E sender \<and> sim_emulate_all_batches_executed t = None"
    using emit_stage_senders [of E S net ds sender 0 0 c0 "(True, True)"] emit_stage_senders [of E S net ds sender 1 0 c1 f0]
      emit_stage_senders [of E S net ds sender 2 0 c2 f1] e0 e1 e2 txs by auto
  ultimately show ?thesis
    using dec txs m2 by (intro exI [of _ c0] exI [of _ c1] exI [of _ c2]) simp
qed

lemma test_transactions_tagged:
  assumes "test_transactions E G S net ds tests x = Inr txs" "t \<in> set txs"
  shows "is_test_tag (sim_tag t)" "sim_emulate_all_batches_executed t \<noteq> None \<longrightarrow> starts_with ''test_upgrade_'' (sim_tag t)"
  using assms by (auto simp: test_transactions_def call_transaction_def case_prod_unfold split: if_splits)

lemma append_tests_run:
  assumes "append_test_upgrade_calls E G S net ds tests txs0 = Inr txs"
  shows "\<exists>new. txs = txs0 @ new \<and> (\<forall>t \<in> set new. is_test_tag (sim_tag t)
    \<and> (sim_emulate_all_batches_executed t \<noteq> None \<longrightarrow> starts_with ''test_upgrade_'' (sim_tag t)))"
proof -
  have "fold_res (\<lambda>x txs. bind_res (test_transactions E G S net ds tests x) (\<lambda>new. Inr (txs @ new))) xs txs0 = Inr txs \<Longrightarrow> ?thesis" for xs
  proof (induction xs arbitrary: txs0)
    case (Cons x xs)
    then obtain new where new: "test_transactions E G S net ds tests x = Inr new"
      and rest: "fold_res (\<lambda>x txs. bind_res (test_transactions E G S net ds tests x) (\<lambda>new. Inr (txs @ new))) xs (txs0 @ new) = Inr txs"
      by auto
    from Cons.IH [OF rest] obtain more where more: "txs = (txs0 @ new) @ more"
      "\<forall>t \<in> set more. is_test_tag (sim_tag t) \<and> (sim_emulate_all_batches_executed t \<noteq> None \<longrightarrow> starts_with ''test_upgrade_'' (sim_tag t))"
      by blast
    with test_transactions_tagged [OF new] show ?case by (intro exI [of _ "new @ more"]) auto
  qed simp
  with assms show ?thesis by (simp add: append_test_upgrade_calls_def)
qed

text \<open>The simulator and the verifier read the same calls.\<close>

lemma same_calls_read:
  assumes "governance_calls_toml_from E t = Some parsed" "artifact_from_table E t = Inr a"
  shows "gt_calls parsed = artifact_governance_calls a"
  using assms by (auto simp: governance_calls_toml_from_def artifact_from_table_iff bind_eq_Some_conv)

lemma length_place_in_order [simp]: "length (place_in_order P xs ys) = length xs"
  by (induction P xs ys rule: place_in_order.induct) (auto split: list.splits)

lemma mset_place_in_order:
  assumes "length ys = length (filter P xs)"
  shows "mset (place_in_order P xs ys) = mset (filter (\<lambda>x. \<not> P x) xs) + mset ys"
  using assms
proof (induction P xs ys rule: place_in_order.induct)
  case (2 P x xs ys)
  then show ?case by (cases ys) (auto split: if_splits)
qed simp

lemma emit_bundles_run:
  "(\<forall>t \<in> set (emit_bundles E S net ds tags camp_a ls funded). sim_emulate_all_batches_executed t = None
      \<and> (\<exists>l \<in> set ls. sb_target (fst l) \<notin> camp_a \<and> sim_from t = address_text E (sb_target (fst l))))
    \<and> length (emit_bundles E S net ds tags camp_a ls funded)
      = sum_list (map (\<lambda>l. length (snd l)) (filter (\<lambda>l. sb_target (fst l) \<notin> camp_a) ls))"
proof (induction ls arbitrary: funded)
  case (Cons l ls)
  obtain b txs where l: "l = (b, txs)" by (cases l)
  show ?case
  proof (cases "sb_target b \<in> camp_a \<or> txs = []")
    case True
    with Cons.IH [of funded] l show ?thesis by auto
  next
    case False
    with Cons.IH [of "insert (sb_target b) funded"] l show ?thesis
      by (auto simp: bundle_transaction_def emitted_order_def case_prod_unfold)
  qed
qed simp

lemma simulator_transactions_run:
  assumes run: "simulator_transactions E G J M S camp_a ri fs = Inr txs"
    and art: "read_artifact E (mx_toml_parse M) (fs_read fs (ri_governance_toml ri)) = Inr a"
  shows "\<exists>bundles stages tests c0 c1 c2. txs = bundles @ stages @ tests
    \<and> decode_calls E G (stage0_calls (artifact_governance_calls a)) = Inr c0
    \<and> decode_calls E G (stage1_calls (artifact_governance_calls a)) = Inr c1
    \<and> decode_calls E G (stage2_calls (artifact_governance_calls a)) = Inr c2
    \<and> map sim_row stages = map (stage_row E 0) c0 @ map (stage_row E 1) c1 @ map (stage_row E 2) c2
    \<and> map sim_value_to_mint stages = first_only ''1'' (length c0 + length c1) @ first_only STAGE2_PUH_FUND_WEI (length c2)
    \<and> (\<forall>t \<in> set stages. sim_from t = address_text E (ri_from ri))
    \<and> (\<forall>t \<in> set tests. is_test_tag (sim_tag t))
    \<and> (\<forall>t \<in> set txs. sim_emulate_all_batches_executed t \<noteq> None \<longrightarrow> starts_with ''test_upgrade_'' (sim_tag t))"
proof -
  obtain parsed tags bundles gov where parts: "read_governance_toml E M fs (ri_governance_toml ri) = Inr parsed"
    "(case ri_manifest_path ri of None \<Rightarrow> Inr [] | Some p \<Rightarrow> manifest_to_simulator_transactions E J S fs p (ri_network ri) camp_a
       (load_descriptions E S fs (ri_descriptions_path ri)) tags) = Inr bundles"
    "governance_toml_to_simulator_transactions E G M S fs (ri_governance_toml ri) (ri_network ri) (ri_from ri)
       (load_descriptions E S fs (ri_descriptions_path ri)) = Inr gov"
    and txs: "txs = bundles @ gov"
    using run by (auto simp: simulator_transactions_def Let_def)
  have calls: "gt_calls parsed = artifact_governance_calls a"
    using parts(1) art same_calls_read
    by (auto simp: read_governance_toml_def read_artifact_def from_toml_str_def bind_eq_Some_conv)
  obtain stages where st: "emit_stages E G S (ri_network ri) (load_descriptions E S fs (ri_descriptions_path ri)) (ri_from ri)
      [(0, stage0_calls (gt_calls parsed)), (1, stage1_calls (gt_calls parsed)), (2, stage2_calls (gt_calls parsed))] (True, True) = Inr stages"
    and tests: "append_test_upgrade_calls E G S (ri_network ri) (load_descriptions E S fs (ri_descriptions_path ri))
      (gt_test_upgrade_calls parsed) stages = Inr gov"
    using parts(1,3) by (auto simp: governance_toml_to_simulator_transactions_def)
  have bundles: "\<forall>t \<in> set bundles. sim_emulate_all_batches_executed t = None"
    using parts(2) emit_bundles_run by (auto simp: manifest_to_simulator_transactions_def split: option.splits)
  from append_tests_run [OF tests] obtain new where new: "gov = stages @ new" "\<forall>t \<in> set new. is_test_tag (sim_tag t)
    \<and> (sim_emulate_all_batches_executed t \<noteq> None \<longrightarrow> starts_with ''test_upgrade_'' (sim_tag t))" by blast
  from emit_stages_run [OF st [unfolded calls]] obtain c0 c1 c2 where cs:
    "decode_calls E G (stage0_calls (artifact_governance_calls a)) = Inr c0"
    "decode_calls E G (stage1_calls (artifact_governance_calls a)) = Inr c1"
    "decode_calls E G (stage2_calls (artifact_governance_calls a)) = Inr c2"
    "map sim_row stages = map (stage_row E 0) c0 @ map (stage_row E 1) c1 @ map (stage_row E 2) c2"
    "map sim_value_to_mint stages = first_only ''1'' (length c0 + length c1) @ first_only STAGE2_PUH_FUND_WEI (length c2)"
    "\<forall>t \<in> set stages. sim_from t = address_text E (ri_from ri) \<and> sim_emulate_all_batches_executed t = None"
    by blast
  have "\<forall>t \<in> set txs. sim_emulate_all_batches_executed t \<noteq> None \<longrightarrow> starts_with ''test_upgrade_'' (sim_tag t)"
    using bundles cs(6) new txs by auto
  with cs txs new show ?thesis
    by (intro exI [of _ bundles] exI [of _ stages] exI [of _ new] exI [of _ c0] exI [of _ c1] exI [of _ c2]) auto
qed

text \<open>An entry that asks for an inner call ends the lookup when the call is no wrapper.\<close>

lemma lookup_stops:
  assumes "str_get 0 10 data_hex = Some sel" "sd_target e = t" "eq_ignore_ascii_case (sd_selector e) sel"
    and "sd_arg0_address e = None" "sd_l2_contract e = None" "sd_second_bridge_address e = None"
    and "sd_inner_target e \<noteq> None \<or> sd_inner_selector e \<noteq> None" "parse_first_inner_call E S data_hex = None"
  shows "registry_lookup E S (e # es) t data_hex = None"
  using assms by (auto simp: registry_lookup_def entry_matches_def word_is_def inner_is_def and_then_def)

subsection \<open>The order of admin calls\<close>

definition tx_key :: "safe_bundle_tx \<Rightarrow> address \<times> string" where
  "tx_key tx = (bt_to tx, bt_data tx)"

lemma find_SomeD: "find P xs = Some y \<Longrightarrow> P y \<and> y \<in> set xs"
  by (auto simp: find_Some_iff)

lemma tagged_iff: "ctm_admin_calls_tag tags tx \<noteq> None \<longleftrightarrow> tx_key tx \<in> fst ` set tags"
  by (force simp: ctm_admin_calls_tag_def find_None_iff image_iff tx_key_def)

lemma ordered_txs_filter:
  "ordered_ctm_admin_txs tags txs = List.map_filter (\<lambda>x. find (\<lambda>tx. tx_key tx = fst x) txs) tags"
  by (simp add: ordered_ctm_admin_txs_def case_prod_unfold prod_eq_iff tx_key_def)

lemma ordered_txs_in: "y \<in> set (ordered_ctm_admin_txs tags txs) \<Longrightarrow> y \<in> set txs"
  unfolding ordered_txs_filter by (induction tags) (auto simp: map_filter_simps split: option.splits dest: find_SomeD)

lemma ordered_txs_keys:
  "map tx_key (ordered_ctm_admin_txs tags txs) = filter (\<lambda>k. k \<in> tx_key ` set txs) (map fst tags)"
proof (induction tags)
  case (Cons x tags)
  show ?case
  proof (cases "find (\<lambda>tx. tx_key tx = fst x) txs")
    case None
    then have "fst x \<notin> tx_key ` set txs" by (auto simp: find_None_iff)
    with None Cons show ?thesis by (simp add: ordered_txs_filter map_filter_simps)
  next
    case (Some y)
    then have y: "tx_key y = fst x" "y \<in> set txs" by (auto dest: find_SomeD)
    then have "fst x \<in> tx_key ` set txs" by (metis image_eqI)
    with Some Cons y(1) show ?thesis by (simp add: ordered_txs_filter map_filter_simps)
  qed
qed (simp add: ordered_txs_filter map_filter_simps)

lemma emitted_order_perm:
  assumes "distinct (map fst tags)" "distinct (map tx_key (filter (\<lambda>tx. tx_key tx \<in> fst ` set tags) txs))"
  shows "mset (emitted_order tags txs) = mset txs"
proof -
  let ?P = "\<lambda>tx. ctm_admin_calls_tag tags tx \<noteq> None" and ?ys = "ordered_ctm_admin_txs tags txs"
  have P: "filter ?P txs = filter (\<lambda>tx. tx_key tx \<in> fst ` set tags) txs"
    by (simp only: tagged_iff)
  have "distinct (map tx_key ?ys)"
    unfolding ordered_txs_keys using assms(1) by (rule distinct_filter)
  then have distinct: "distinct ?ys" by (simp add: distinct_map)
  have "set ?ys = set (filter ?P txs)"
  proof (intro equalityI subsetI)
    fix y assume y: "y \<in> set ?ys"
    then have "tx_key y \<in> set (map tx_key ?ys)" by simp
    then have "tx_key y \<in> fst ` set tags" unfolding ordered_txs_keys by auto
    with ordered_txs_in [OF y] show "y \<in> set (filter ?P txs)" unfolding P by simp
  next
    fix y assume y: "y \<in> set (filter ?P txs)"
    then have "tx_key y \<in> set (map tx_key ?ys)"
      unfolding P ordered_txs_keys by auto
    then obtain z where z: "z \<in> set ?ys" "tx_key z = tx_key y" by auto
    then have "z \<in> set (filter ?P txs)"
      using ordered_txs_in [OF z(1)] y unfolding P by simp
    with y z(2) assms(2) have "z = y" unfolding P distinct_map by (metis inj_onD)
    with z(1) show "y \<in> set ?ys" by simp
  qed
  moreover have "distinct (filter ?P txs)"
    using assms(2) unfolding P distinct_map by blast
  ultimately have eq: "mset ?ys = mset (filter ?P txs)"
    using distinct set_eq_iff_mset_eq_distinct by blast
  then have "length ?ys = length (filter ?P txs)" by (rule mset_eq_length)
  then have "mset (emitted_order tags txs) = mset (filter (\<lambda>x. \<not> ?P x) txs) + mset (filter ?P txs)"
    unfolding emitted_order_def by (simp only: mset_place_in_order eq)
  then show ?thesis
    using multiset_partition [of "mset txs" ?P] by (simp add: union_commute)
qed

text \<open>When an admin call stands twice in a bundle before another one, one copy is lost and the other call doubled.\<close>

lemma emitted_order_doubles:
  assumes "tx_key A \<noteq> tx_key B"
  shows "emitted_order [(tx_key A, s), (tx_key B, t)] [A, A, B] = [A, B, B]"
  using assms by (auto simp: emitted_order_def ordered_ctm_admin_txs_def ctm_admin_calls_tag_def map_filter_simps tx_key_def)

end
