(* ===== verification/Example_Merge.thy ===== *)
theory Example_Merge
  imports Example_Tools Simulator
begin

section \<open>Example inputs of the merge and the simulator\<close>

text \<open>
  A core file, the file of one Era CTM, a document reader that keeps unique keys, and a manifest with
  two bundles: the inputs at which the theorems on the merge and on the simulator are applied.
\<close>

instance toml :: countable
  by countable_datatype

lemma demo_address_text: "address_text_codec demo_ext"
proof -
  have "unhex (hex_encode demo_ext bs) = Some bs" for bs
    by (induction bs) (simp_all add: demo_ext_def unhex_byte)
  moreover have "strip_prefix ''0x'' (''0x'' @ s) = Some s" for s
    by (simp add: strip_prefix_def)
  ultimately show ?thesis
    by (simp add: address_text_codec_def address_text_def demo_address_of_def address_bytes_def from_to_be_bytes
        demo_ext_def [THEN arg_cong, of address_from_str])
qed

subsection \<open>The prepared files\<close>

definition demo_stages :: "call list \<Rightarrow> toml" where
  "demo_stages cs = TTable [(''stage0_calls'', TString (calls_hex demo_ext demo_calls_abi cs)),
     (''stage1_calls'', TString (calls_hex demo_ext demo_calls_abi [])),
     (''stage2_calls'', TString (calls_hex demo_ext demo_calls_abi []))]"

definition demo_contracts_table :: toml where
  "demo_contracts_table = TTable [(''diamond_cut_data'', TString []), (''force_deployments_data'', TString []),
     (''new_protocol_version'', TInteger 1), (''old_protocol_version'', TInteger 0),
     (''governance_upgrade_timer_initial_delay'', TInteger 0), (''is_testnet'', TBoolean True)]"

definition demo_ctm_body :: table where
  "demo_ctm_body = [(''chain_upgrade_diamond_cut'', TString []), (''contracts_config'', demo_contracts_table)]"

definition demo_core_file :: table where
  "demo_core_file = [(''governance_calls'', demo_stages demo_stage0), (''misc'', TTable [])]"

definition demo_ctm_file :: table where
  "demo_ctm_file = (''governance_calls'', demo_stages []) # demo_ctm_body"

text \<open>A document is a number in decimal, after any comment; two names stand for the files above.\<close>

definition demo_toml_parse :: "string \<Rightarrow> table option" where
  "demo_toml_parse s =
     (if s = ''core'' then Some demo_core_file else if s = ''ctm'' then Some demo_ctm_file
      else let t = from_nat (digits_val (rev (takeWhile is_digit (rev s))) 0)
        in if unique_keys (TTable t) then Some t else None)"

definition demo_merge_ext :: merge_ext where
  "demo_merge_ext = \<lparr>mx_read = Some, mx_toml_parse = demo_toml_parse, mx_toml_print = (\<lambda>t. Some (show_nat (to_nat t))),
     mx_ctm_config_parse = (\<lambda>s. None), encode_acceptOwnership = [], encode_updateDAPair = (\<lambda>v s e. []),
     encode_governanceExecuteCalls = (\<lambda>cs g. cs), encode_governanceExecuteCallsDirect = (\<lambda>cs g. cs)\<rparr>"

lemma demo_files_keyed: "unique_keys (TTable demo_core_file)" "unique_keys (TTable demo_ctm_file)"
  by (simp_all add: demo_core_file_def demo_ctm_file_def demo_stages_def demo_ctm_body_def demo_contracts_table_def)

lemma merged_comment_ends: "\<exists>s. merged_comment n = CHR ''#'' # s @ [CHR 0x0A]"
  unfolding merged_comment_def by simp

lemma demo_parse_document:
  assumes "unique_keys (TTable t)"
  shows "demo_toml_parse (merged_comment n @ show_nat (to_nat t)) = Some t"
proof -
  obtain s where s: "merged_comment n = CHR ''#'' # s @ [CHR 0x0A]" using merged_comment_ends by blast
  have "takeWhile is_digit (rev (merged_comment n @ show_nat m)) = rev (show_nat m)" for m
    using show_nat_digits [of m] takeWhile_append2 [of "rev (show_nat m)" is_digit "[CHR 0x0A] @ rev s @ ''#''"]
    by (simp add: s list_all_iff) (simp add: is_digit_def)
  with assms show ?thesis by (simp add: demo_toml_parse_def show_nat_val s)
qed

lemma demo_toml_codec: "toml_codec demo_merge_ext"
proof -
  have "unique_keys (TTable t)" if "demo_toml_parse s = Some t" for s t
    using that demo_files_keyed unfolding demo_toml_parse_def Let_def by (auto split: if_splits)
  then show ?thesis
    unfolding toml_codec_def unique_keys_iff [symmetric]
    using demo_parse_document by (auto simp: demo_merge_ext_def unique_keys_iff)
qed

lemma demo_loads:
  "load_and_split demo_merge_ext ''core'' = Inr ([(''misc'', TTable [])], \<lparr>stage0_calls = calls_hex demo_ext demo_calls_abi demo_stage0,
     stage1_calls = calls_hex demo_ext demo_calls_abi [], stage2_calls = calls_hex demo_ext demo_calls_abi []\<rparr>, None)"
  "load_and_split demo_merge_ext ''ctm'' = Inr (demo_ctm_body, \<lparr>stage0_calls = calls_hex demo_ext demo_calls_abi [],
     stage1_calls = calls_hex demo_ext demo_calls_abi [], stage2_calls = calls_hex demo_ext demo_calls_abi []\<rparr>, None)"
  by (simp_all add: load_and_split_def demo_merge_ext_def demo_toml_parse_def demo_core_file_def demo_ctm_file_def table_remove_def
      demo_stages_def governance_calls_try_from_def string_field_def optional_section_def demo_ctm_body_def)

lemma demo_ctm_section: "ctm_section_ok demo_ctm_body"
  by (simp add: ctm_section_ok_def demo_ctm_body_def demo_contracts_table_def contracts_config_try_from_def string_field_def
      u64_field_def bool_field_def)

definition demo_prepared :: ctm_prepare_entry where
  "demo_prepared = \<lparr>pe_proxy = 0x1234, pe_toml = ''ctm'', pe_is_zk_sync_os = False, pe_rollup_da_manager = 0x5,
     pe_rollup_da_pair = None\<rparr>"

definition demo_merge_dst :: merge_dst where
  "demo_merge_dst = \<lparr>dst_parent_creatable = True, dst_writable = True, dst_contents = None\<rparr>"

definition demo_merge_state :: merge_state where
  "demo_merge_state = \<lparr>ms_ctms = [(''era'', TTable demo_ctm_body)],
     ms_stage0 = [calls_hex demo_ext demo_calls_abi demo_stage0, calls_hex demo_ext demo_calls_abi []],
     ms_stage1 = replicate 2 (calls_hex demo_ext demo_calls_abi []), ms_stage2 = replicate 2 (calls_hex demo_ext demo_calls_abi []),
     ms_era_test = None, ms_os_test = None\<rparr>"

definition demo_document :: table where
  "demo_document = merged_document demo_ext (calls_hex demo_ext demo_calls_abi (demo_stage0 @ [demo_call ''acceptOwnership()'']),
     calls_hex demo_ext demo_calls_abi [], calls_hex demo_ext demo_calls_abi []) demo_merge_state [] None None (Some [])"

lemma demo_merged_document:
  "merge_documents demo_ext demo_calls_abi demo_merge_ext ''core'' [demo_prepared] [demo_call ''acceptOwnership()''] None [] 0
    = Inr demo_document"
proof -
  have "fold_res (add_ctm demo_ext demo_merge_ext) [demo_prepared] \<lparr>ms_ctms = [], ms_stage0 = [calls_hex demo_ext demo_calls_abi demo_stage0],
      ms_stage1 = [calls_hex demo_ext demo_calls_abi []], ms_stage2 = [calls_hex demo_ext demo_calls_abi []], ms_era_test = None,
      ms_os_test = None\<rparr> = Inr demo_merge_state"
    by (simp add: add_ctm_def demo_prepared_def demo_loads ctm_label_def ctm_body_def table_insert_def demo_merge_state_def numeral_2_eq_2)
  moreover have "\<not> test_calls_missing [demo_prepared] st" "rollup_da_manager_setup_calls demo_merge_ext [demo_prepared] = []" for st
    by (simp_all add: test_calls_missing_def demo_prepared_def rollup_da_manager_setup_calls_def da_manager_calls_def)
  ultimately show ?thesis
    by (simp add: merge_documents_def demo_loads split_misc_def table_remove_def gateway_chunks_def del: fold_res.simps)
      (simp add: merge_chunks_def merge_ref decode_calls_hex [OF demo_calls_codec] demo_merge_state_def numeral_2_eq_2 demo_document_def)
qed

definition demo_written :: string where
  "demo_written = merged_comment 2 @ show_nat (to_nat demo_document)"

lemma demo_merged:
  "write_merged_ecosystem_toml demo_ext demo_calls_abi demo_merge_ext ''core'' [demo_prepared] [demo_call ''acceptOwnership()'']
     None [] 0 demo_merge_dst = (Inr (), demo_merge_dst\<lparr>dst_contents := Some demo_written\<rparr>)"
proof -
  have "mx_toml_print demo_merge_ext t = Some (show_nat (to_nat t))" for t
    by (simp add: demo_merge_ext_def)
  then show ?thesis
    by (simp add: write_merged_ecosystem_toml_def demo_merged_document demo_written_def) (simp add: demo_merge_dst_def numeral_2_eq_2)
qed

lemma demo_written_parse: "mx_toml_parse demo_merge_ext demo_written = Some demo_document"
proof -
  have "unique_keys (TTable demo_document)"
    unfolding unique_keys_iff using demo_toml_codec demo_merged_document by (rule merge_documents_keyed)
  then show ?thesis
    using demo_parse_document by (simp add: demo_written_def demo_merge_ext_def)
qed

subsection \<open>A manifest and an artifact\<close>

definition demo_bundle :: "string \<Rightarrow> address \<Rightarrow> json" where
  "demo_bundle f a = sim_input_entry demo_ext \<lparr>sb_file = f, sb_index = 1, sb_steps = [], sb_target = a\<rparr>"

definition demo_sim_manifest :: json where
  "demo_sim_manifest = JObj [(''bundles'', JArr [demo_bundle ''a.json'' 0x55, demo_bundle ''b.json'' 0x66])]"

definition demo_bundle_file :: json where
  "demo_bundle_file = JObj [(''transactions'', JArr [JObj [(''to'', JStr demo_addr), (''data'', JStr ''0x01020304'')]])]"

text \<open>A value is a number in decimal, before anything else.\<close>

definition demo_lines :: json_io where
  "demo_lines = \<lparr>json_parse = (\<lambda>s. Some (from_nat (digits_val (takeWhile is_digit s) 0))), json_print = (\<lambda>j. show_nat (to_nat j))\<rparr>"

definition demo_fs :: sim_fs where
  "demo_fs = \<lparr>fs_file = [''p/manifest.json'' \<mapsto> Text (json_print demo_lines demo_sim_manifest),
       ''p/a.json'' \<mapsto> Text (json_print demo_lines demo_bundle_file), ''p/b.json'' \<mapsto> Text (json_print demo_lines demo_bundle_file),
       ''ecosystem.toml'' \<mapsto> Text demo_written],
     fs_dir_creatable = (\<lambda>p. True), fs_writable = (\<lambda>p. True), fs_stdout = []\<rparr>"

definition demo_sim_ext :: sim_ext where
  "demo_sim_ext = \<lparr>abi_decode_params = (\<lambda>t b. None), encode_multicall = (\<lambda>cs r. []), registry_parse = (\<lambda>s. None),
     sim_print = (\<lambda>txs. None)\<rparr>"

definition demo_inputs :: resolved_inputs where
  "demo_inputs = \<lparr>ri_governance_toml = ''ecosystem.toml'', ri_network = ''sepolia'', ri_from = 0x77,
     ri_manifest_path = Some ''p/manifest.json'', ri_descriptions_path = None\<rparr>"

lemma demo_lines_parse:
  "json_parse demo_lines (json_print demo_lines j) = Some j" "json_parse demo_lines (json_print demo_lines j @ [CHR 0x0A]) = Some j"
proof -
  have digits: "takeWhile is_digit (show_nat n) = show_nat n" for n
    using show_nat_digits [of n] by (simp add: list_all_iff takeWhile_eq_all_conv)
  have line: "takeWhile is_digit (show_nat n @ [CHR 0x0A]) = show_nat n" for n
    using show_nat_digits [of n] takeWhile_append2 [of "show_nat n" is_digit "[CHR 0x0A]"]
    by (simp add: list_all_iff) (simp add: is_digit_def)
  show "json_parse demo_lines (json_print demo_lines j) = Some j" "json_parse demo_lines (json_print demo_lines j @ [CHR 0x0A]) = Some j"
    by (simp_all add: demo_lines_def digits line show_nat_val)
qed

lemma demo_manifest_codec: "manifest_codec demo_ext demo_lines"
  by (simp add: manifest_codec_def demo_lines_parse)

lemma demo_sim_manifest_read:
  "prepare_manifest_from_json demo_ext demo_sim_manifest =
    Some [\<lparr>sb_file = ''a.json'', sb_index = 1, sb_steps = [], sb_target = 0x55\<rparr>, \<lparr>sb_file = ''b.json'', sb_index = 1, sb_steps = [], sb_target = 0x66\<rparr>]"
  by (simp add: prepare_manifest_from_json_def demo_sim_manifest_def demo_bundle_def sim_bundle_reads_back [OF demo_address_text])

lemma demo_bundle_read:
  "safe_bundle_file_from_json demo_ext demo_bundle_file = Some [\<lparr>bt_to = 0x1234, bt_value = None, bt_data = ''0x01020304''\<rparr>]"
  by (simp add: safe_bundle_file_from_json_def demo_bundle_file_def safe_bundle_tx_from_json_def get_str_def demo_addr_parses)

definition demo_loaded :: "loaded_bundle list" where
  "demo_loaded = map (\<lambda>(f, a). (\<lparr>sb_file = f, sb_index = 1, sb_steps = [], sb_target = a\<rparr>,
     [\<lparr>bt_to = 0x1234, bt_value = None, bt_data = ''0x01020304''\<rparr>])) [(''a.json'', 0x55), (''b.json'', 0x66)]"

lemma demo_bundles_loaded: "load_bundles demo_ext demo_lines demo_fs ''p/manifest.json'' = Inr demo_loaded"
  by (simp add: load_bundles_def fs_read_def demo_fs_def demo_lines_parse demo_sim_manifest_read load_bundle_def path_parent_def
      path_join_def starts_with_iff demo_bundle_read demo_loaded_def)

lemma demo_inputs_written:
  "\<exists>fs'. write_sim_inputs demo_ext demo_lines ''p/manifest.json'' [0x66] ''q'' demo_fs = (Inr (), fs')"
  by (simp add: write_sim_inputs_def demo_bundles_loaded camp_a_signers_def)
    (simp add: demo_loaded_def fs_copy_def fs_read_def fs_write_def path_parent_def path_join_def starts_with_iff demo_fs_def MANIFEST_def)

lemma demo_eco: "fs_read demo_fs ''ecosystem.toml'' = Some demo_written"
  by (simp add: fs_read_def demo_fs_def)

lemma demo_eco_calls:
  "\<exists>parsed. read_governance_toml demo_ext demo_merge_ext demo_fs ''ecosystem.toml'' = Inr parsed \<and> gt_calls parsed =
     \<lparr>stage0_calls = calls_hex demo_ext demo_calls_abi (demo_stage0 @ [demo_call ''acceptOwnership()'']),
      stage1_calls = calls_hex demo_ext demo_calls_abi [], stage2_calls = calls_hex demo_ext demo_calls_abi []\<rparr>
    \<and> gt_test_upgrade_calls parsed = [] \<and> gt_ctm_admin_calls parsed = (\<lambda>k. None)"
proof -
  have "map_of demo_document ''test_upgrade_calls'' = None"
    by (simp add: demo_document_def merged_document_def test_section_def demo_merge_state_def)
  moreover have "map_of demo_document ''ctms'' = Some (TTable [(''era'', TTable demo_ctm_body)])"
    by (simp add: demo_document_def merged_document_get demo_merge_state_def)
  moreover have "ctm_flavor_section demo_ext (TTable demo_ctm_body) = Some None"
    by (simp add: ctm_flavor_section_def demo_ctm_body_def)
  ultimately show ?thesis
    by (simp add: read_governance_toml_def demo_eco demo_written_parse governance_calls_toml_from_def)
      (simp add: demo_document_def merged_document_get merged_calls_read fun_eq_iff)
qed

lemma demo_written_calls:
  assumes "read_artifact demo_ext (mx_toml_parse demo_merge_ext) (Some demo_written) = Inr a"
  shows "artifact_governance_calls a =
     \<lparr>stage0_calls = calls_hex demo_ext demo_calls_abi (demo_stage0 @ [demo_call ''acceptOwnership()'']),
      stage1_calls = calls_hex demo_ext demo_calls_abi [], stage2_calls = calls_hex demo_ext demo_calls_abi []\<rparr>"
proof -
  have "artifact_from_table demo_ext demo_document = Inr a"
    using assms by (simp add: read_artifact_def from_toml_str_def demo_written_parse)
  then show ?thesis
    by (auto simp: artifact_from_table_iff demo_document_def merged_document_get merged_calls_read)
qed

lemma demo_simulated:
  "\<exists>txs. simulator_transactions demo_ext demo_calls_abi demo_lines demo_merge_ext demo_sim_ext [0x66] demo_inputs demo_fs = Inr txs"
proof -
  note decoded = decode_calls_hex [OF demo_calls_codec]
  obtain parsed where p: "read_governance_toml demo_ext demo_merge_ext demo_fs ''ecosystem.toml'' = Inr parsed" "gt_calls parsed =
     \<lparr>stage0_calls = calls_hex demo_ext demo_calls_abi (demo_stage0 @ [demo_call ''acceptOwnership()'']),
      stage1_calls = calls_hex demo_ext demo_calls_abi [], stage2_calls = calls_hex demo_ext demo_calls_abi []\<rparr>"
     "gt_test_upgrade_calls parsed = []" "gt_ctm_admin_calls parsed = (\<lambda>k. None)"
    using demo_eco_calls by blast
  have "\<exists>gov. governance_toml_to_simulator_transactions demo_ext demo_calls_abi demo_merge_ext demo_sim_ext demo_fs ''ecosystem.toml''
      ''sepolia'' 0x77 [] = Inr gov"
    by (simp add: governance_toml_to_simulator_transactions_def p decoded append_test_upgrade_calls_def case_prod_unfold)
  then show ?thesis
    by (auto simp: simulator_transactions_def demo_inputs_def load_descriptions_def p build_ctm_admin_calls_tags_def
        CTM_ADMIN_CALLS_FLAVOR_TAGS_def manifest_to_simulator_transactions_def demo_bundles_loaded)
qed

end
