(* ===== verification/Forge.thy ===== *)
theory Forge
  imports Dispatch
begin

section \<open>Running forge scripts\<close>

text \<open>
  \<^verbatim>\<open>common/forge/script.rs\<close>, \<^verbatim>\<open>common/forge/scripts/mod.rs\<close> and \<^verbatim>\<open>common/forge/runner.rs\<close>: the command
  line of a script, the table of scripts, and the runner, which executes forge on a fork and records the
  broadcast file of every run for the bundles. The forge process, the files, the clock and the chain id of
  the fork are parameters over a world that a run changes. The lemmas show what of a run is recorded and
  which extra arguments reach forge.
\<close>

subsection \<open>Arguments\<close>

datatype forge_script_arg = Broadcast | EtherscanApiKey string | Ffi | PrivateKey string | RpcUrl string | Sig string | Slow
  | Verifier string | VerifierUrl string | Verify | Sender string | GasLimit u64 | DisableLabels | Silent | Unlocked | Zksync
  | Skip string

datatype forge_verifier = Etherscan | Sourcify | Blockscout | Oklink

record forge_script_args =
  fa_args :: "forge_script_arg list"
  fa_verify :: "bool option"
  fa_verifier :: forge_verifier
  fa_verifier_url :: "string option"
  fa_verifier_api_key :: "string option"
  fa_zksync :: bool
  fa_additional_args :: "string list"

record forge_script =
  sc_base_path :: string
  sc_script_path :: string
  sc_args :: forge_script_args
  sc_envs :: "(string \<times> string) list"

fun arg_text :: "forge_script_arg \<Rightarrow> string" where
  "arg_text Broadcast = ''--broadcast''"
| "arg_text (EtherscanApiKey k) = ''--etherscan-api-key='' @ k"
| "arg_text Ffi = ''--ffi''"
| "arg_text (PrivateKey k) = ''--private-key='' @ k"
| "arg_text (RpcUrl u) = ''--rpc-url='' @ u"
| "arg_text (Sig s) = ''--sig='' @ s"
| "arg_text Slow = ''--slow''"
| "arg_text (Verifier v) = ''--verifier='' @ v"
| "arg_text (VerifierUrl u) = ''--verifier-url='' @ u"
| "arg_text Verify = ''--verify''"
| "arg_text (Sender a) = ''--sender='' @ a"
| "arg_text (GasLimit n) = ''--gas-limit='' @ show_nat (unat n)"
| "arg_text DisableLabels = ''--disable-labels''"
| "arg_text Silent = ''--silent''"
| "arg_text Unlocked = ''--unlocked''"
| "arg_text Zksync = ''--zksync''"
| "arg_text (Skip p) = ''--skip='' @ p"

fun verifier_text :: "forge_verifier \<Rightarrow> string" where
  "verifier_text Etherscan = ''etherscan''"
| "verifier_text Sourcify = ''sourcify''"
| "verifier_text Blockscout = ''blockscout''"
| "verifier_text Oklink = ''oklink''"

definition add_arg :: "forge_script_arg \<Rightarrow> forge_script_args \<Rightarrow> forge_script_args" where
  "add_arg a fa = (if a \<in> set (fa_args fa) then fa else fa\<lparr>fa_args := fa_args fa @ [a]\<rparr>)"

definition add_verify_args :: "forge_script_args \<Rightarrow> forge_script_args" where
  "add_verify_args fa =
     (if fa_verify fa \<noteq> Some True then fa
      else add_arg (Verifier (verifier_text (fa_verifier fa)))
        ((case fa_verifier_api_key fa of Some k \<Rightarrow> add_arg (EtherscanApiKey k) | None \<Rightarrow> id)
        ((case fa_verifier_url fa of Some u \<Rightarrow> add_arg (VerifierUrl u) | None \<Rightarrow> id)
        (add_arg Verify fa))))"

definition PROHIBITED_ARGS :: "string list" where
  "PROHIBITED_ARGS = [''--contracts'', ''--root'', ''--lib-paths'', ''--out'', ''--sig'', ''--target-contract'', ''--chain-id'',
     ''-C'', ''-O'', ''-s'']"

definition prohibited_with_spacing :: "string \<Rightarrow> bool" where
  "prohibited_with_spacing a \<longleftrightarrow> list_ex (\<lambda>p. starts_with (p @ '' '') a \<or> starts_with (p @ [CHR 0x09]) a) PROHIBITED_ARGS"

definition prohibited_with_equals :: "string \<Rightarrow> bool" where
  "prohibited_with_equals a \<longleftrightarrow> list_ex (\<lambda>p. starts_with (p @ ''='') a) PROHIBITED_ARGS"

text \<open>The flag of the loop is \<^verbatim>\<open>skip_next\<close>.\<close>

fun cleaned_args :: "bool \<Rightarrow> string list \<Rightarrow> string list" where
  "cleaned_args skip_next [] = []"
| "cleaned_args skip_next (a # as) =
     (if skip_next then cleaned_args False as
      else if prohibited_with_spacing a then cleaned_args True as
      else if prohibited_with_equals a then cleaned_args False as
      else a # cleaned_args False as)"

definition cleanup_contract_args :: "forge_script_args \<Rightarrow> forge_script_args" where
  "cleanup_contract_args fa = fa\<lparr>fa_additional_args := cleaned_args False (fa_additional_args fa)\<rparr>"

definition build_args :: "forge_script_args \<Rightarrow> string list" where
  "build_args fa0 =
     (let fa = cleanup_contract_args (add_verify_args fa0);
          fa' = (if fa_zksync fa then add_arg Zksync fa else fa)
      in map arg_text (fa_args fa') @ fa_additional_args fa')"

subsection \<open>Scripts\<close>

definition with_arg :: "forge_script_arg \<Rightarrow> forge_script \<Rightarrow> forge_script" where
  "with_arg a s = s\<lparr>sc_args := add_arg a (sc_args s)\<rparr>"

definition with_broadcast :: "forge_script \<Rightarrow> forge_script" where
  "with_broadcast s = with_arg Slow (with_arg Broadcast s)"

definition with_calldata :: "ext \<Rightarrow> bytes \<Rightarrow> forge_script \<Rightarrow> forge_script" where
  "with_calldata E calldata = with_arg (Sig (hex_encode E calldata))"

definition with_wallet :: "ext \<Rightarrow> address \<Rightarrow> forge_script \<Rightarrow> forge_script" where
  "with_wallet E a s = with_arg Unlocked (with_arg (Sender (address_text E a)) s)"

definition with_env :: "string \<Rightarrow> string \<Rightarrow> forge_script \<Rightarrow> forge_script" where
  "with_env k v s = s\<lparr>sc_envs := sc_envs s @ [(k, v)]\<rparr>"

fun sig_of :: "forge_script_arg \<Rightarrow> string option" where
  "sig_of (Sig s) = Some s"
| "sig_of _ = None"

definition script_sig :: "forge_script \<Rightarrow> string option" where
  "script_sig s = (case List.map_filter sig_of (fa_args (sc_args s)) of [] \<Rightarrow> None | x # _ \<Rightarrow> Some x)"

definition is_broadcast :: "forge_script \<Rightarrow> bool" where
  "is_broadcast s \<longleftrightarrow> Broadcast \<in> set (fa_args (sc_args s))"

definition needs_bridgehub_skip :: "forge_script \<Rightarrow> bool" where
  "needs_bridgehub_skip s \<longleftrightarrow> sc_script_path s = ''deploy-scripts/DeployCTM.s.sol''"

record forge_script_params =
  pm_input :: string
  pm_output :: string
  pm_script_path :: string
  pm_ffi :: bool
  pm_rpc_url :: bool
  pm_gas_limit :: "u64 option"

definition params_ffi_rpc :: "string \<Rightarrow> string \<Rightarrow> string \<Rightarrow> forge_script_params" where
  "params_ffi_rpc i out_file path = \<lparr>pm_input = i, pm_output = out_file, pm_script_path = path, pm_ffi = True, pm_rpc_url = True,
     pm_gas_limit = None\<rparr>"

definition DEFAULT_SCRIPT_GAS_LIMIT :: u64 where "DEFAULT_SCRIPT_GAS_LIMIT = 1000000000000"

definition ADMIN_FUNCTIONS_INVOCATION :: forge_script_params where
  "ADMIN_FUNCTIONS_INVOCATION = params_ffi_rpc ''script-config/config-admin-functions.toml'' ''script-out/output-admin-functions.toml''
     ''deploy-scripts/AdminFunctions.s.sol''"

definition GATEWAY_UTILS_INVOCATION :: forge_script_params where
  "GATEWAY_UTILS_INVOCATION = \<lparr>pm_input = [], pm_output = [],
     pm_script_path = ''deploy-scripts/gateway/GatewayUtils.s.sol:GatewayUtils'', pm_ffi = False, pm_rpc_url = True, pm_gas_limit = None\<rparr>"

definition DEPLOY_CTM_INVOCATION :: forge_script_params where
  "DEPLOY_CTM_INVOCATION = params_ffi_rpc ''script-config/config-deploy-ctm.toml'' ''script-out/output-deploy-ctm.toml''
     ''deploy-scripts/ctm/DeployCTM.s.sol''"

definition STAGE3_CORE_UPGRADE_V31_INVOCATION :: forge_script_params where
  "STAGE3_CORE_UPGRADE_V31_INVOCATION = (params_ffi_rpc [] [] ''deploy-scripts/upgrade/v31/CoreUpgrade_v31.s.sol:CoreUpgrade_v31'')
     \<lparr>pm_gas_limit := Some DEFAULT_SCRIPT_GAS_LIMIT\<rparr>"

definition OTHER_INVOCATIONS :: "forge_script_params list" where
  "OTHER_INVOCATIONS = [
     params_ffi_rpc ''script-config/config-deploy-l1.toml'' ''script-out/output-deploy-l1.toml'' ''deploy-scripts/ecosystem/DeployL1CoreContracts.s.sol'',
     params_ffi_rpc ''script-config/config-register-ctm-l1.toml'' ''script-out/register-ctm-l1.toml'' ''deploy-scripts/ecosystem/RegisterCTM.s.sol'',
     params_ffi_rpc ''script-config/finalize-chain-init.toml'' ''script-out/finalize-chain-init.toml'' ''deploy-scripts/chain/FinalizeChainInit.s.sol'',
     params_ffi_rpc [] [] ''deploy-scripts/gateway/DeployGatewayTransactionFilterer.s.sol:DeployGatewayTransactionFilterer'',
     params_ffi_rpc [] [] ''deploy-scripts/gateway/GatewayVotePreparation.s.sol'',
     params_ffi_rpc ''script-config/config-deploy-l2-contracts.toml'' ''script-out/output-deploy-l2-contracts.toml''
       ''deploy-scripts/chain/DeployL2Contracts.sol'',
     params_ffi_rpc ''script-config/register-zk-chain.toml'' ''script-out/output-register-zk-chain.toml'' ''deploy-scripts/ctm/RegisterZKChain.s.sol'',
     params_ffi_rpc ''script-config/config-deploy-paymaster.toml'' ''script-out/output-deploy-paymaster.toml'' ''deploy-scripts/chain/DeployPaymaster.s.sol'',
     params_ffi_rpc ''script-config/setup-legacy-bridge.toml'' ''script-out/setup-legacy-bridge.toml'' ''deploy-scripts/dev/SetupLegacyBridge.s.sol'',
     params_ffi_rpc ''script-config/enable-evm-emulator.toml'' ''script-out/output-enable-evm-emulator.toml''
       ''deploy-scripts/chain/EnableEvmEmulator.s.sol'',
     params_ffi_rpc ''script-config/register-on-all-chains.toml'' ''script-out/output-register-on-all-chains.toml''
       ''deploy-scripts/ecosystem/RegisterOnAllChains.s.sol'']"

definition ALL_INVOCATIONS :: "forge_script_params list" where
  "ALL_INVOCATIONS = [ADMIN_FUNCTIONS_INVOCATION, GATEWAY_UTILS_INVOCATION, DEPLOY_CTM_INVOCATION, STAGE3_CORE_UPGRADE_V31_INVOCATION]
     @ OTHER_INVOCATIONS"

subsection \<open>The runner\<close>

record forge_script_run =
  fr_script :: string
  fr_broadcast_file :: "string option"
  fr_payload :: json
  fr_ts_ms :: nat

record runner =
  rn_forge_args :: forge_script_args
  rn_rpc_url :: string
  rn_foundry_path :: string
  rn_subdir :: "string option"
  rn_runs :: "forge_script_run list"
  rn_extra_logs :: "string list"
  rn_gw_logs :: "string list"

text \<open>A failed command has the text of its standard error, if it ran; a successful one its output.\<close>

record 'w forge_world =
  fw_exec :: "'w \<Rightarrow> string \<Rightarrow> string \<Rightarrow> string list \<Rightarrow> (string \<times> string) list \<Rightarrow> (string option + string) \<times> 'w"
  fw_exists :: "'w \<Rightarrow> string \<Rightarrow> bool"
  fw_read :: "'w \<Rightarrow> string \<Rightarrow> string option"
  fw_now_ms :: "'w \<Rightarrow> nat"
  fw_chain_id :: "'w \<Rightarrow> string \<Rightarrow> u64 option"

text \<open>\<^verbatim>\<open>Path::file_name\<close>\<close>

definition path_file_name :: "string \<Rightarrow> string option" where
  "path_file_name p = (let cs = filter (\<lambda>c. c \<noteq> [] \<and> c \<noteq> ''.'') (split_char (CHR ''/'') p)
     in if cs = [] \<or> last cs = ''..'' then None else Some (last cs))"

definition runner_script :: "runner \<Rightarrow> forge_script_params \<Rightarrow> forge_script" where
  "runner_script R invocation =
     (let forge0 = \<lparr>sc_base_path = rn_foundry_path R, sc_script_path = pm_script_path invocation, sc_args = rn_forge_args R, sc_envs = []\<rparr>;
          forge1 = (if pm_ffi invocation then with_arg Ffi forge0 else forge0);
          forge2 = (if pm_rpc_url invocation then with_arg (RpcUrl (rn_rpc_url R)) forge1 else forge1);
          forge3 = (case pm_gas_limit invocation of Some n \<Rightarrow> with_arg (GasLimit n) forge2 | None \<Rightarrow> forge2)
      in case rn_subdir R of Some sub \<Rightarrow> with_env ''FOUNDRY_BROADCAST'' (''broadcast/'' @ sub) forge3 | None \<Rightarrow> forge3)"

definition script_with_calldata :: "ext \<Rightarrow> runner \<Rightarrow> forge_script_params \<Rightarrow> bytes \<Rightarrow> forge_script" where
  "script_with_calldata E R invocation calldata = with_broadcast (with_calldata E calldata (runner_script R invocation))"

definition script_rel_path :: "runner \<Rightarrow> string \<Rightarrow> string res" where
  "script_rel_path R conventional = (case rn_subdir R of
     Some sub \<Rightarrow> bind_res (ok_or (Panic ''conventional script IO path must be <dir>/<file>'') (split_once (CHR ''/'') conventional)) (\<lambda>(dir, f).
       Inr (''/'' @ dir @ ''/'' @ sub @ ''/'' @ f))
   | None \<Rightarrow> Inr (''/'' @ conventional))"

definition abs_io_path :: "runner \<Rightarrow> string \<Rightarrow> string res" where
  "abs_io_path R conventional = bind_res (script_rel_path R conventional) (\<lambda>rel.
     Inr (path_join (rn_foundry_path R) (trim_start_matches ''/'' rel)))"

definition is_hex_like :: "string \<Rightarrow> bool" where
  "is_hex_like s = (let t = (case strip_prefix ''0x'' s of Some t \<Rightarrow> t | None \<Rightarrow> s) in t \<noteq> [] \<and> list_all (\<lambda>c. hex_value c \<noteq> None) t)"

definition derive_run_latest_filename :: "string option \<Rightarrow> string" where
  "derive_run_latest_filename sig = (case sig of
     None \<Rightarrow> ''run-latest.json''
   | Some raw \<Rightarrow> (let trimmed = trim raw in
       if is_hex_like trimmed then
         take 8 (map to_ascii_lowercase (case strip_prefix ''0x'' trimmed of Some t \<Rightarrow> t | None \<Rightarrow> trimmed)) @ ''-latest.json''
       else hd (split_char (CHR ''('') trimmed) @ ''-latest.json''))"

definition find_run_latest_file :: "'w forge_world \<Rightarrow> runner \<Rightarrow> forge_script \<Rightarrow> 'w \<Rightarrow> string option res" where
  "find_run_latest_file F R s w =
     (let root0 = path_join (sc_base_path s) ''broadcast'';
          root = (case rn_subdir R of Some sub \<Rightarrow> path_join root0 sub | None \<Rightarrow> root0)
      in if \<not> fw_exists F w root then Inr None
      else bind_res (ok_or (Bail ''Script name not found'') (path_file_name (sc_script_path s))) (\<lambda>raw_script_name.
        bind_res (ok_or (Bail ''eth_chainId'') (fw_chain_id F w (rn_rpc_url R))) (\<lambda>chain_id.
        let dir0 = path_join (path_join root (hd (split_char (CHR '':'') raw_script_name))) (show_nat (unat chain_id));
            script_dir = (if is_broadcast s then dir0 else path_join dir0 ''dry-run'');
            run_latest_path = path_join script_dir (derive_run_latest_filename (script_sig s))
        in Inr (if fw_exists F w script_dir \<and> fw_exists F w run_latest_path then Some run_latest_path else None))))"

text \<open>The seconds of a broadcast file; numbers beyond \<^verbatim>\<open>i64\<close> and other values count as 0.\<close>

definition timestamp_raw :: "json \<Rightarrow> nat" where
  "timestamp_raw payload = (case Option.bind (json_get payload ''timestamp'') json_as_u64 of
     Some n \<Rightarrow> (if unat n < 2 ^ 63 then unat n else 0)
   | None \<Rightarrow> 0)"

definition run_ts_s :: "json \<Rightarrow> nat" where
  "run_ts_s payload = (if timestamp_raw payload > 1000000000000 then timestamp_raw payload div 1000 else timestamp_raw payload)"

definition record_run :: "'w forge_world \<Rightarrow> json_io \<Rightarrow> forge_script \<Rightarrow> nat \<Rightarrow> runner \<Rightarrow> 'w \<Rightarrow> runner res" where
  "record_run F J s pre_run_ts_ms R w =
     bind_res (find_run_latest_file F R s w) (\<lambda>f.
     bind_res (case f of
         None \<Rightarrow> Inr (None, JNull)
       | Some broadcast_file \<Rightarrow>
           bind_res (ok_or (Bail ''read'') (fw_read F w broadcast_file)) (\<lambda>text.
           bind_res (ok_or (Bail ''serde_json'') (json_parse J text)) (\<lambda>payload.
           Inr (Some broadcast_file, if run_ts_s payload < pre_run_ts_ms div 1000 then JNull else payload)))) (\<lambda>(broadcast_file, payload).
     Inr (R\<lparr>rn_runs := rn_runs R @ [\<lparr>fr_script = sc_script_path s, fr_broadcast_file = broadcast_file, fr_payload = payload,
       fr_ts_ms = fw_now_ms F w\<rparr>]\<rparr>)))"

definition extract_extra_verification_logs :: "string \<Rightarrow> string list" where
  "extract_extra_verification_logs out_text = filter (str_contains ''forge verify-contract'') (map trim (str_lines out_text))"

definition is_gw_deploy_script :: "string \<Rightarrow> bool" where
  "is_gw_deploy_script p = (case path_file_name p of Some f \<Rightarrow> starts_with ''GatewayVotePreparation'' f | None \<Rightarrow> False)"

definition execute :: "'w forge_world \<Rightarrow> forge_script \<Rightarrow> string list \<Rightarrow> runner \<Rightarrow> 'w \<Rightarrow> (string option + string) \<times> runner \<times> 'w" where
  "execute F s args R w = (case fw_exec F w (sc_base_path s) (sc_script_path s) (''--legacy'' # args) (sc_envs s) of
     (Inl err, w') \<Rightarrow> (Inl err, R, w')
   | (Inr out_text, w') \<Rightarrow>
       (Inr out_text, (if is_gw_deploy_script (sc_script_path s) then R\<lparr>rn_gw_logs := rn_gw_logs R @ extract_extra_verification_logs out_text\<rparr>
         else R\<lparr>rn_extra_logs := rn_extra_logs R @ extract_extra_verification_logs out_text\<rparr>), w'))"

definition proposal_error :: "string option + string \<Rightarrow> bool" where
  "proposal_error r = (case r of Inl (Some stderr) \<Rightarrow> str_contains ''revert: Operation with this proposal id already exists'' stderr | _ \<Rightarrow> False)"

definition runner_run :: "'w forge_world \<Rightarrow> json_io \<Rightarrow> forge_script \<Rightarrow> runner \<Rightarrow> 'w \<Rightarrow> unit res \<times> runner \<times> 'w" where
  "runner_run F J s0 R w =
     (let s = (if needs_bridgehub_skip s0 then with_arg (Skip ''contracts/bridgehub/*'') s0 else s0)
      in case execute F s (build_args (sc_args s)) R w of
        (r, R1, w') \<Rightarrow>
          if proposal_error r then (Inr (), R1, w')
          else (case r of
              Inl _ \<Rightarrow> (Inl (Bail ''Command failed to run''), R1, w')
            | Inr _ \<Rightarrow> (case record_run F J s (fw_now_ms F w) R1 w' of
                Inl e \<Rightarrow> (Inl e, R1, w')
              | Inr R2 \<Rightarrow> (Inr (), R2, w'))))"

fun run_scripts :: "'w forge_world \<Rightarrow> json_io \<Rightarrow> forge_script list \<Rightarrow> runner \<Rightarrow> 'w \<Rightarrow> unit res \<times> runner \<times> 'w" where
  "run_scripts F J [] R w = (Inr (), R, w)"
| "run_scripts F J (s # ss) R w = (case runner_run F J s R w of
     (Inl e, R', w') \<Rightarrow> (Inl e, R', w')
   | (Inr _, R', w') \<Rightarrow> run_scripts F J ss R' w')"

definition verification_log_text :: "string list \<Rightarrow> string" where
  "verification_log_text ls = concat (map (\<lambda>l. l @ [CHR 0x0A]) ls)"

section \<open>What reaches forge\<close>

text \<open>What stays of the extra arguments keeps its order and has no forbidden form. A forbidden name given as an
  argument of its own is not recognised; a forbidden form with a space takes the next argument with it.\<close>

lemma cleaned_subseq: "subseq (cleaned_args b as) as"
  by (induction b as rule: cleaned_args.induct) auto

lemma cleaned_allowed: "a \<in> set (cleaned_args b as) \<Longrightarrow> \<not> prohibited_with_spacing a \<and> \<not> prohibited_with_equals a"
  by (induction b as rule: cleaned_args.induct) (auto split: if_splits)

lemma cleaned_filter:
  "list_all (\<lambda>a. \<not> prohibited_with_spacing a) as \<Longrightarrow> cleaned_args False as = filter (\<lambda>a. \<not> prohibited_with_equals a) as"
  by (induction as) simp_all

lemma prohibited_name_passes:
  assumes "p \<in> set PROHIBITED_ARGS"
  shows "\<not> prohibited_with_spacing p" "\<not> prohibited_with_equals p"
proof -
  have "list_all (\<lambda>p. \<not> prohibited_with_spacing p \<and> \<not> prohibited_with_equals p) PROHIBITED_ARGS"
    by code_simp
  with assms show "\<not> prohibited_with_spacing p" "\<not> prohibited_with_equals p" by (auto simp: list_all_iff)
qed

lemma add_arg_set [simp]: "set (fa_args (add_arg a fa)) = insert a (set (fa_args fa))"
  by (auto simp: add_arg_def)

lemma add_arg_distinct: "distinct (fa_args fa) \<Longrightarrow> distinct (fa_args (add_arg a fa))"
  by (simp add: add_arg_def)

lemma add_arg_additional [simp]: "fa_additional_args (add_arg a fa) = fa_additional_args fa" "fa_zksync (add_arg a fa) = fa_zksync fa"
  by (simp_all add: add_arg_def)

lemma add_verify_additional [simp]: "fa_additional_args (add_verify_args fa) = fa_additional_args fa"
  by (simp add: add_verify_args_def split: option.splits)

lemma build_args_shape:
  "\<exists>known. build_args fa = map arg_text known @ cleaned_args False (fa_additional_args fa) \<and> set (fa_args fa) \<subseteq> set known"
proof -
  have "set (fa_args fa) \<subseteq> set (fa_args (add_verify_args fa))"
    by (auto simp: add_verify_args_def split: option.splits)
  moreover have "build_args fa = map arg_text (fa_args (if fa_zksync (add_verify_args fa) then add_arg Zksync (add_verify_args fa)
      else add_verify_args fa)) @ cleaned_args False (fa_additional_args fa)"
    by (simp add: build_args_def cleanup_contract_args_def Let_def add_arg_def)
  ultimately show ?thesis
    by (intro exI [of _ "fa_args (if fa_zksync (add_verify_args fa) then add_arg Zksync (add_verify_args fa) else add_verify_args fa)"]) auto
qed

lemma no_bridgehub_skip: "invocation \<in> set ALL_INVOCATIONS \<Longrightarrow> \<not> needs_bridgehub_skip (runner_script R invocation)"
  by (auto simp: ALL_INVOCATIONS_def OTHER_INVOCATIONS_def ADMIN_FUNCTIONS_INVOCATION_def GATEWAY_UTILS_INVOCATION_def DEPLOY_CTM_INVOCATION_def
      STAGE3_CORE_UPGRADE_V31_INVOCATION_def params_ffi_rpc_def needs_bridgehub_skip_def runner_script_def with_arg_def with_env_def Let_def
      split: option.splits)

section \<open>What a run records\<close>

text \<open>The name of the broadcast file of a call is that of its selector.\<close>

lemma trim_no_ws: "\<forall>c \<in> set s. \<not> is_ws c \<Longrightarrow> trim s = s"
proof -
  assume no: "\<forall>c \<in> set s. \<not> is_ws c"
  have "dropWhile is_ws t = t" if "set t \<subseteq> set s" for t
    using no that by (cases t) auto
  then show ?thesis by (simp add: trim_def)
qed

lemma hex_chars:
  assumes "c \<in> set ''0123456789abcdef''"
  shows "\<not> is_ws c" "hex_value c \<noteq> None" "to_ascii_lowercase c = c" "c \<noteq> CHR ''x''"
proof -
  have "list_all (\<lambda>c. \<not> is_ws c \<and> hex_value c \<noteq> None \<and> to_ascii_lowercase c = c \<and> c \<noteq> CHR ''x'') ''0123456789abcdef''"
    by code_simp
  with assms show "\<not> is_ws c" "hex_value c \<noteq> None" "to_ascii_lowercase c = c" "c \<noteq> CHR ''x''"
    unfolding list_all_iff by blast+
qed

lemma latest_of_calldata:
  assumes "hex_text_codec E" "calldata \<noteq> []"
  shows "derive_run_latest_filename (Some (hex_encode E calldata)) = take 8 (hex_encode E calldata) @ ''-latest.json''"
proof -
  let ?h = "hex_encode E calldata"
  have chars: "\<forall>c \<in> set ?h. c \<in> set ''0123456789abcdef''" and len: "length ?h = 2 * length calldata"
    using assms(1) unfolding hex_text_codec_def by blast+
  have nonempty: "?h \<noteq> []" using len assms(2) by auto
  have no_x: "CHR ''x'' \<notin> set ?h" using chars hex_chars(4) by blast
  have plain: "strip_prefix ''0x'' ?h = None"
  proof (rule ccontr)
    assume "strip_prefix ''0x'' ?h \<noteq> None"
    then have "take 2 ?h = ''0x''" by (simp add: strip_prefix_def starts_with_def numeral_2_eq_2 split: if_splits)
    then have "CHR ''x'' \<in> set (take 2 ?h)" by simp
    with no_x show False by (meson in_set_takeD)
  qed
  moreover have "trim ?h = ?h" using chars hex_chars(1) by (intro trim_no_ws) blast
  moreover have "map to_ascii_lowercase ?h = ?h" using chars hex_chars(3) by (intro map_idI) blast
  moreover have "is_hex_like ?h"
    unfolding is_hex_like_def plain option.case Let_def list_all_iff using nonempty chars hex_chars(2) by blast
  ultimately show ?thesis by (simp add: derive_run_latest_filename_def)
qed

text \<open>
  Where forge leaves the broadcast file of a call, and when its raw time stamp is not before a second: a stamp up to
  \<open>10 ^ 12\<close> counts seconds, a larger one milliseconds, and a file without a usable stamp is as old as can be.
\<close>

definition broadcast_root :: "runner \<Rightarrow> string" where
  "broadcast_root R = rn_foundry_path R @ ''/broadcast'' @ (case rn_subdir R of None \<Rightarrow> [] | Some sub \<Rightarrow> ''/'' @ sub)"

definition broadcast_dir :: "runner \<Rightarrow> string \<Rightarrow> u64 \<Rightarrow> string" where
  "broadcast_dir R name chain_id = broadcast_root R @ ''/'' @ name @ ''/'' @ show_nat (unat chain_id)"

definition call_file :: "ext \<Rightarrow> runner \<Rightarrow> string \<Rightarrow> bytes \<Rightarrow> u64 \<Rightarrow> string" where
  "call_file E R name calldata chain_id = broadcast_dir R name chain_id @ ''/'' @ take 8 (hex_encode E calldata) @ ''-latest.json''"

definition stamped_since :: "nat \<Rightarrow> json \<Rightarrow> bool" where
  "stamped_since second payload \<longleftrightarrow> second = 0 \<or> (\<exists>n. json_get payload ''timestamp'' = Some (JNum (Some n)) \<and> unat n < 2 ^ 63
     \<and> (if unat n \<le> 10 ^ 12 then second \<le> unat n else second * 1000 \<le> unat n))"

text \<open>A script path \<open>dir/name\<close> or \<open>dir/name:Contract\<close>, and directories that are joined with a plain slash.\<close>

definition script_at :: "string \<Rightarrow> string \<Rightarrow> bool" where
  "script_at path name \<longleftrightarrow> (\<exists>dir stem contract. path = dir @ ''/'' @ name @ contract \<and> name = stem @ ''.sol''
     \<and> CHR ''/'' \<notin> set (name @ contract) \<and> CHR '':'' \<notin> set name \<and> (contract = [] \<or> hd contract = CHR '':''))"

definition plain_dir :: "string \<Rightarrow> bool" where
  "plain_dir d \<longleftrightarrow> d \<noteq> [] \<and> last d \<noteq> CHR ''/''"

definition plain_paths :: "runner \<Rightarrow> bool" where
  "plain_paths R \<longleftrightarrow> plain_dir (rn_foundry_path R) \<and> (\<forall>sub. rn_subdir R = Some sub \<longrightarrow> plain_dir sub \<and> hd sub \<noteq> CHR ''/'')"

text \<open>What a successful run of a script with calldata records.\<close>

definition records_call ::
    "ext \<Rightarrow> 'w forge_world \<Rightarrow> json_io \<Rightarrow> runner \<Rightarrow> string \<Rightarrow> bytes \<Rightarrow> nat \<Rightarrow> 'w \<Rightarrow> forge_script_run \<Rightarrow> bool" where
  "records_call E F J R name calldata start_ms w x \<longleftrightarrow>
     (if \<not> fw_exists F w (broadcast_root R) then fr_broadcast_file x = None \<and> fr_payload x = JNull
      else \<exists>chain_id. fw_chain_id F w (rn_rpc_url R) = Some chain_id \<and>
        (if \<not> fw_exists F w (broadcast_dir R name chain_id) \<or> \<not> fw_exists F w (call_file E R name calldata chain_id)
         then fr_broadcast_file x = None \<and> fr_payload x = JNull
         else fr_broadcast_file x = Some (call_file E R name calldata chain_id)
           \<and> (\<exists>t p. fw_read F w (call_file E R name calldata chain_id) = Some t \<and> json_parse J t = Some p
                \<and> fr_payload x = (if stamped_since (start_ms div 1000) p then p else JNull))))"

lemma stamped_since_iff: "stamped_since second payload \<longleftrightarrow> second \<le> run_ts_s payload"
proof -
  have "second \<le> n div 1000 \<longleftrightarrow> second * 1000 \<le> n" for n :: nat
    by (simp add: less_eq_div_iff_mult_less_eq)
  then show ?thesis
    unfolding stamped_since_def run_ts_s_def timestamp_raw_def
    by (cases "json_get payload ''timestamp''"; cases "the (json_get payload ''timestamp'')") (auto split: option.splits)
qed

lemma script_file_name:
  assumes "script_at path name"
  shows "\<exists>c. path_file_name path = Some (name @ c) \<and> hd (split_char (CHR '':'') (name @ c)) = name"
proof -
  obtain dir stem c where p: "path = dir @ ''/'' @ name @ c" "name = stem @ ''.sol''" "CHR ''/'' \<notin> set (name @ c)"
    "CHR '':'' \<notin> set name" "c = [] \<or> hd c = CHR '':''"
    using assms unfolding script_at_def by blast
  have len: "4 \<le> length (name @ c)" using p(2) by simp
  have plain: "name @ c \<noteq> []" "name @ c \<noteq> ''.''" "name @ c \<noteq> ''..''"
    using len by (auto simp del: append_is_Nil_conv dest!: arg_cong [of _ _ length])
  have last: "\<exists>q ps. split_char (CHR ''/'') (d @ ''/'' @ s) = q # ps @ [s]" if "CHR ''/'' \<notin> set s" for d s
    using that
  proof (induction d)
    case (Cons x d)
    then obtain q ps where "split_char (CHR ''/'') (d @ ''/'' @ s) = q # ps @ [s]" by blast
    then show ?case by (auto simp: Cons.prems append_eq_Cons_conv)
  qed (simp add: split_char_no_sep)
  from last [OF p(3), of dir] obtain q ps where "split_char (CHR ''/'') path = (q # ps) @ [name @ c]" unfolding p(1) by auto
  then have "path_file_name path = Some (name @ c)"
    using plain by (simp add: path_file_name_def Let_def del: append_is_Nil_conv)
  moreover have "hd (split_char (CHR '':'') (name @ c)) = name"
    using p(4,5) by (cases c) (auto simp: split_char_no_sep split_char_append_sep)
  ultimately show ?thesis by blast
qed

lemma path_join_plain: "plain_dir d \<Longrightarrow> e \<noteq> [] \<Longrightarrow> hd e \<noteq> CHR ''/'' \<Longrightarrow> path_join d e = d @ ''/'' @ e"
  by (cases e) (simp_all add: path_join_def plain_dir_def starts_with_def)

lemma plain_dir_append: "e \<noteq> [] \<Longrightarrow> plain_dir (d @ e) \<longleftrightarrow> plain_dir e"
  by (simp add: plain_dir_def)

lemma broadcast_root_join:
  assumes "plain_paths R"
  shows "(case rn_subdir R of Some sub \<Rightarrow> path_join (path_join (rn_foundry_path R) ''broadcast'') sub
      | None \<Rightarrow> path_join (rn_foundry_path R) ''broadcast'') = broadcast_root R" and "plain_dir (broadcast_root R)"
proof -
  have base: "path_join (rn_foundry_path R) ''broadcast'' = rn_foundry_path R @ ''/broadcast''"
    using assms path_join_plain [of "rn_foundry_path R" "''broadcast''"] by (simp add: plain_paths_def)
  moreover have "plain_dir (rn_foundry_path R @ ''/broadcast'')"
    by (simp add: plain_dir_def)
  ultimately show "(case rn_subdir R of Some sub \<Rightarrow> path_join (path_join (rn_foundry_path R) ''broadcast'') sub
      | None \<Rightarrow> path_join (rn_foundry_path R) ''broadcast'') = broadcast_root R"
    using assms path_join_plain [of "rn_foundry_path R @ ''/broadcast''"]
    by (cases "rn_subdir R") (simp_all add: broadcast_root_def plain_paths_def plain_dir_def)
  show "plain_dir (broadcast_root R)"
    using assms by (cases "rn_subdir R") (auto simp: broadcast_root_def plain_paths_def plain_dir_def)
qed

lemma show_nat_plain: "show_nat n \<noteq> []" "hd (show_nat n) \<noteq> CHR ''/''" "last (show_nat n) \<noteq> CHR ''/''"
proof -
  show ne: "show_nat n \<noteq> []" by (simp add: show_nat_nonempty)
  have "list_all is_digit (show_nat n)" using show_nat_digits [of n] by (simp add: is_digit_def)
  then have "is_digit (hd (show_nat n))" "is_digit (last (show_nat n))"
    using ne by (simp_all add: list_all_iff)
  moreover have "\<not> is_digit (CHR ''/'')" by (simp add: is_digit_def)
  ultimately show "hd (show_nat n) \<noteq> CHR ''/''" "last (show_nat n) \<noteq> CHR ''/''" by metis+
qed

lemma call_file_join:
  assumes "plain_paths R" "script_at path name" "hex_text_codec E" "calldata \<noteq> []"
  shows "path_join (path_join (broadcast_root R) name) (show_nat (unat chain_id)) = broadcast_dir R name chain_id"
    and "path_join (broadcast_dir R name chain_id) (derive_run_latest_filename (Some (hex_encode E calldata)))
      = call_file E R name calldata chain_id"
proof -
  have name: "name \<noteq> []" "hd name \<noteq> CHR ''/''" "last name \<noteq> CHR ''/''"
    using assms(2) hd_in_set [of name] last_in_set [of name] unfolding script_at_def by fastforce+
  have 1: "path_join (broadcast_root R) name = broadcast_root R @ ''/'' @ name"
    using path_join_plain [OF broadcast_root_join(2) [OF assms(1)] name(1,2)] .
  moreover have "plain_dir (broadcast_root R @ ''/'' @ name)"
    using name by (simp add: plain_dir_def)
  ultimately show "path_join (path_join (broadcast_root R) name) (show_nat (unat chain_id)) = broadcast_dir R name chain_id"
    using path_join_plain [OF _ show_nat_plain(1,2)] by (simp add: broadcast_dir_def)
  let ?h = "take 8 (hex_encode E calldata) @ ''-latest.json''"
  have "set (hex_encode E calldata) \<subseteq> set ''0123456789abcdef''"
    using assms(3) unfolding hex_text_codec_def by blast
  then have slash: "CHR ''/'' \<notin> set (hex_encode E calldata)"
    by auto
  have "hd ?h \<noteq> CHR ''/''"
  proof (cases "hex_encode E calldata")
    case (Cons c cs)
    then show ?thesis using slash by auto
  qed simp
  moreover have "plain_dir (broadcast_dir R name chain_id)"
    using show_nat_plain by (simp add: plain_dir_def broadcast_dir_def)
  ultimately show "path_join (broadcast_dir R name chain_id) (derive_run_latest_filename (Some (hex_encode E calldata)))
      = call_file E R name calldata chain_id"
    using path_join_plain [of "broadcast_dir R name chain_id" ?h]
    unfolding latest_of_calldata [OF assms(3,4)] call_file_def by simp
qed

lemma runner_script_fields:
  "sc_base_path (runner_script R invocation) = rn_foundry_path R" "sc_script_path (runner_script R invocation) = pm_script_path invocation"
  "fa_args (rn_forge_args R) = [] \<Longrightarrow> List.map_filter sig_of (fa_args (sc_args (runner_script R invocation))) = []"
  by (auto simp: runner_script_def with_arg_def with_env_def add_arg_def Let_def split: option.splits)

lemma calldata_script_fields:
  "sc_base_path (script_with_calldata E R invocation calldata) = rn_foundry_path R"
  "sc_script_path (script_with_calldata E R invocation calldata) = pm_script_path invocation"
  "is_broadcast (script_with_calldata E R invocation calldata)"
  "fa_args (rn_forge_args R) = [] \<Longrightarrow> script_sig (script_with_calldata E R invocation calldata) = Some (hex_encode E calldata)"
proof -
  show "sc_base_path (script_with_calldata E R invocation calldata) = rn_foundry_path R"
    "sc_script_path (script_with_calldata E R invocation calldata) = pm_script_path invocation"
    by (simp_all add: script_with_calldata_def with_broadcast_def with_calldata_def with_arg_def runner_script_fields)
  show "is_broadcast (script_with_calldata E R invocation calldata)"
    by (simp add: script_with_calldata_def with_broadcast_def with_calldata_def with_arg_def is_broadcast_def)
  assume none: "fa_args (rn_forge_args R) = []"
  have no: "Sig h \<notin> set (fa_args (sc_args (runner_script R invocation)))" for h
    using runner_script_fields(3) [OF none, of invocation] by (auto simp: List.map_filter_def filter_empty_conv)
  show "script_sig (script_with_calldata E R invocation calldata) = Some (hex_encode E calldata)"
    using runner_script_fields(3) [OF none, of invocation] no
    by (auto simp: script_with_calldata_def with_broadcast_def with_calldata_def with_arg_def add_arg_def script_sig_def
        List.map_filter_def)
qed

lemma find_call_file:
  fixes E :: ext and R R1 :: runner and invocation :: forge_script_params and calldata :: bytes
  defines "s \<equiv> script_with_calldata E R invocation calldata"
  assumes "plain_paths R" "script_at (pm_script_path invocation) name" "hex_text_codec E" "calldata \<noteq> []" "fa_args (rn_forge_args R) = []"
    and "rn_subdir R1 = rn_subdir R" "rn_rpc_url R1 = rn_rpc_url R"
  shows "find_run_latest_file F R1 s w = (if \<not> fw_exists F w (broadcast_root R) then Inr None
    else bind_res (ok_or (Bail ''eth_chainId'') (fw_chain_id F w (rn_rpc_url R))) (\<lambda>chain_id.
      Inr (if fw_exists F w (broadcast_dir R name chain_id) \<and> fw_exists F w (call_file E R name calldata chain_id)
        then Some (call_file E R name calldata chain_id) else None)))"
proof -
  obtain c where c: "path_file_name (pm_script_path invocation) = Some (name @ c)" "hd (split_char (CHR '':'') (name @ c)) = name"
    using script_file_name [OF assms(3)] by blast
  note join = call_file_join [OF assms(2-5)]
  show ?thesis
    unfolding find_run_latest_file_def Let_def s_def calldata_script_fields(1,2) assms(7,8)
      calldata_script_fields(4) [OF assms(6)] broadcast_root_join(1) [OF assms(2)] c(1)
    by (simp add: calldata_script_fields(3) c(2) join cong: if_cong)
qed

lemma record_call:
  fixes E :: ext and R R1 :: runner and invocation :: forge_script_params and calldata :: bytes
  defines "s \<equiv> script_with_calldata E R invocation calldata"
  assumes "plain_paths R" "script_at (pm_script_path invocation) name" "hex_text_codec E" "calldata \<noteq> []" "fa_args (rn_forge_args R) = []"
    and "rn_subdir R1 = rn_subdir R" "rn_rpc_url R1 = rn_rpc_url R" "record_run F J s start_ms R1 w = Inr R'"
  shows "\<exists>x. R' = R1\<lparr>rn_runs := rn_runs R1 @ [x]\<rparr> \<and> fr_script x = pm_script_path invocation
    \<and> records_call E F J R name calldata start_ms w x"
proof -
  note found = find_call_file [OF assms(2-8), of F w, folded s_def]
  have path: "sc_script_path s = pm_script_path invocation"
    unfolding s_def by (rule calldata_script_fields)
  from assms(9) obtain f where f: "find_run_latest_file F R1 s w = Inr f"
    by (auto simp: record_run_def)
  obtain p where rec: "R' = R1\<lparr>rn_runs := rn_runs R1 @ [\<lparr>fr_script = pm_script_path invocation, fr_broadcast_file = f, fr_payload = p,
      fr_ts_ms = fw_now_ms F w\<rparr>]\<rparr>"
    and p: "case f of None \<Rightarrow> p = JNull | Some g \<Rightarrow> \<exists>t q. fw_read F w g = Some t \<and> json_parse J t = Some q
      \<and> p = (if stamped_since (start_ms div 1000) q then q else JNull)"
    using assms(9) by (cases f) (auto simp: record_run_def path f stamped_since_iff)
  have "records_call E F J R name calldata start_ms w \<lparr>fr_script = pm_script_path invocation, fr_broadcast_file = f, fr_payload = p,
      fr_ts_ms = fw_now_ms F w\<rparr>"
  proof (cases "fw_exists F w (broadcast_root R)")
    case True
    then obtain chain_id where "fw_chain_id F w (rn_rpc_url R) = Some chain_id"
      using f unfolding found by (cases "fw_chain_id F w (rn_rpc_url R)") simp_all
    with f p True show ?thesis
      unfolding found records_call_def
      by (cases "fw_exists F w (broadcast_dir R name chain_id) \<and> fw_exists F w (call_file E R name calldata chain_id)")
        (auto split del: if_split)
  qed (use f p found in \<open>simp add: records_call_def\<close>)
  with rec show ?thesis by auto
qed

lemma run_records_call:
  fixes E :: ext and R :: runner and invocation :: forge_script_params and calldata :: bytes
  assumes "plain_paths R" "script_at (pm_script_path invocation) name" "hex_text_codec E" "calldata \<noteq> []" "fa_args (rn_forge_args R) = []"
    and "invocation \<in> set ALL_INVOCATIONS"
    and "runner_run F J (script_with_calldata E R invocation calldata) R w = (Inr (), R', w')"
  shows "rn_runs R' = rn_runs R \<and> (\<exists>args envs err. fst (fw_exec F w (rn_foundry_path R) (pm_script_path invocation) args envs) = Inl (Some err))
    \<or> (\<exists>x. rn_runs R' = rn_runs R @ [x] \<and> fr_script x = pm_script_path invocation
        \<and> records_call E F J R name calldata (fw_now_ms F w) w' x)"
proof -
  let ?s = "script_with_calldata E R invocation calldata"
  have skip: "\<not> needs_bridgehub_skip ?s"
    using no_bridgehub_skip [OF assms(6), of R] by (simp add: needs_bridgehub_skip_def calldata_script_fields runner_script_fields)
  let ?ex = "fw_exec F w (rn_foundry_path R) (pm_script_path invocation) (''--legacy'' # build_args (sc_args ?s)) (sc_envs ?s)"
  show ?thesis
  proof (cases "fst ?ex")
    case (Inl err)
    with assms(7) skip obtain e where "err = Some e" "rn_runs R' = rn_runs R"
      by (cases err) (auto simp: runner_run_def execute_def proposal_error_def Let_def calldata_script_fields split: prod.splits if_splits)
    with Inl show ?thesis by blast
  next
    case (Inr out_text)
    define R1 where "R1 = (if is_gw_deploy_script (pm_script_path invocation)
      then R\<lparr>rn_gw_logs := rn_gw_logs R @ extract_extra_verification_logs out_text\<rparr>
      else R\<lparr>rn_extra_logs := rn_extra_logs R @ extract_extra_verification_logs out_text\<rparr>)"
    have R1: "rn_runs R1 = rn_runs R" "rn_subdir R1 = rn_subdir R" "rn_rpc_url R1 = rn_rpc_url R"
      by (simp_all add: R1_def)
    have "record_run F J ?s (fw_now_ms F w) R1 w' = Inr R'"
      using assms(7) skip Inr unfolding R1_def
      by (auto simp: runner_run_def execute_def proposal_error_def Let_def calldata_script_fields split: prod.splits if_splits sum.splits)
    from record_call [OF assms(1-5) R1(2,3) this] R1(1) show ?thesis by auto
  qed
qed

end
