(* ===== verification/L1_Contracts.thy ===== *)
theory L1_Contracts
  imports Forge
begin

section \<open>Addresses resolved from L1\<close>

text \<open>
  \<^verbatim>\<open>common/l1_contracts.rs\<close> and the senders \<^verbatim>\<open>common/forge/runner.rs\<close> prepares: from the Bridgehub's address every
  other address is read from the chain. The answers of a node are a parameter. The lemmas show that no
  resolver returns the zero address and that the list of CTMs is complete and without repetition.
\<close>

record event_log =
  el_address :: address
  el_topics :: "b256 list"
  el_data :: bytes
  el_tx_hash :: "b256 option"
  el_block :: u64

record log_filter =
  lf_address :: address
  lf_topic0 :: b256
  lf_topic1 :: "b256 option"
  lf_from :: u64
  lf_to :: "u64 option"

record hub_views =
  hv_chainTypeManager :: "address \<Rightarrow> u256 \<Rightarrow> address option"
  hv_getAllZKChainChainIDs :: "address \<Rightarrow> u256 list option"
  hv_l1CtmDeployer :: "address \<Rightarrow> address option"
  hv_L1_CHAIN_ID :: "address \<Rightarrow> u256 option"
  hv_settlementLayer :: "address \<Rightarrow> u256 \<Rightarrow> u256 option"
  hv_owner :: "address \<Rightarrow> address option"
  hv_admin :: "address \<Rightarrow> address option"
  hv_getZKChain :: "address \<Rightarrow> u256 \<Rightarrow> address option"
  hv_chainAssetHandler :: "address \<Rightarrow> address option"
  hv_L1_BYTECODES_SUPPLIER :: "address \<Rightarrow> address option"
  hv_validatorTimelockPostV29 :: "address \<Rightarrow> address option"
  hv_isZKsyncOS :: "address \<Rightarrow> bool option"
  hv_protocolVersion :: "address \<Rightarrow> u256 option"
  hv_protocolVersionVerifier :: "address \<Rightarrow> u256 \<Rightarrow> address option"
  hv_getProtocolVersion :: "address \<Rightarrow> u256 \<Rightarrow> u256 option"
  hv_IS_TESTNET_VERIFIER :: "address \<Rightarrow> bool option"
  hv_getAdmin :: "address \<Rightarrow> address option"
  hv_getRollupDAManager :: "address \<Rightarrow> address option"
  hv_getTotalBatchesExecuted :: "address \<Rightarrow> u256 option"
  hv_defaultAdmin :: "address \<Rightarrow> address option"
  hv_get_block_number :: "u64 option"
  hv_get_logs :: "log_filter \<Rightarrow> event_log list option"
  hv_receipt_logs :: "b256 \<Rightarrow> event_log list option option"

definition ensure_nonzero :: "address \<Rightarrow> string \<Rightarrow> address res" where
  "ensure_nonzero a what = (if a \<noteq> 0 then Inr a else Inl (Bail what))"

definition u64_try_from :: "u256 \<Rightarrow> u64 option" where
  "u64_try_from v = (if unat v < 2 ^ 64 then Some (ucast v) else None)"

definition resolve_ctm_proxy :: "hub_views \<Rightarrow> address \<Rightarrow> u64 \<Rightarrow> address res" where
  "resolve_ctm_proxy H bridgehub chain_id =
     bind_res (ok_or (Bail ''chainTypeManager() call failed'') (hv_chainTypeManager H bridgehub (ucast chain_id))) (\<lambda>ctm.
     ensure_nonzero ctm ''chainTypeManager'')"

definition discover_ctm_proxy :: "ext \<Rightarrow> hub_views \<Rightarrow> address \<Rightarrow> address res" where
  "discover_ctm_proxy E H bridgehub =
     bind_res (ok_or (Bail ''getAllZKChainChainIDs()'') (hv_getAllZKChainChainIDs H bridgehub)) (\<lambda>chain_ids.
     bind_res (case chain_ids of
         [] \<Rightarrow> Inr 0
       | first # _ \<Rightarrow> ok_or (Bail ''chainTypeManager()'') (hv_chainTypeManager H bridgehub first)) (\<lambda>ctm.
     if ctm \<noteq> 0 then Inr ctm
     else bind_res (ok_or (Bail ''scan ChainTypeManagerAdded events'')
         (hv_get_logs H \<lparr>lf_address = bridgehub, lf_topic0 = keccak256 E (string_bytes ''ChainTypeManagerAdded(address)''), lf_topic1 = None,
           lf_from = 0, lf_to = None\<rparr>)) (\<lambda>logs.
       if logs = [] then Inl (Bail ''No ChainTypeManagerAdded events found'')
       else let topics = el_topics (last logs) in
         if length topics < 2 then Inl (Panic ''index out of bounds'')
         else ensure_nonzero (ucast (topics ! 1)) ''ChainTypeManagerAdded event'')))"

definition resolve_stm_tracker :: "hub_views \<Rightarrow> address \<Rightarrow> address res" where
  "resolve_stm_tracker H bridgehub =
     bind_res (ok_or (Bail ''l1CtmDeployer() call failed'') (hv_l1CtmDeployer H bridgehub)) (\<lambda>a. ensure_nonzero a ''l1CtmDeployer'')"

definition resolve_all_chain_ids :: "hub_views \<Rightarrow> address \<Rightarrow> u64 list res" where
  "resolve_all_chain_ids H bridgehub =
     bind_res (ok_or (Bail ''getAllZKChainChainIDs() call failed'') (hv_getAllZKChainChainIDs H bridgehub)) (\<lambda>ids.
     map_res (\<lambda>i. ok_or (Bail ''chain ID overflow'') (u64_try_from i)) ids)"

definition add_ctm_of_chain :: "hub_views \<Rightarrow> address \<Rightarrow> u64 \<Rightarrow> (address \<times> u64) list \<Rightarrow> (address \<times> u64) list res" where
  "add_ctm_of_chain H bridgehub cid found =
     bind_res (resolve_ctm_proxy H bridgehub cid) (\<lambda>ctm.
     Inr (if list_ex (\<lambda>p. fst p = ctm) found then found else found @ [(ctm, cid)]))"

definition discover_all_ctms :: "hub_views \<Rightarrow> address \<Rightarrow> (address \<times> u64) list res" where
  "discover_all_ctms H bridgehub =
     bind_res (resolve_all_chain_ids H bridgehub) (\<lambda>chain_ids. fold_res (add_ctm_of_chain H bridgehub) chain_ids [])"

definition resolve_bytecodes_supplier :: "hub_views \<Rightarrow> address \<Rightarrow> address res" where
  "resolve_bytecodes_supplier H ctm_proxy =
     bind_res (ok_or (Bail ''L1_BYTECODES_SUPPLIER() call failed'') (hv_L1_BYTECODES_SUPPLIER H ctm_proxy)) (\<lambda>a.
     ensure_nonzero a ''L1_BYTECODES_SUPPLIER'')"

definition resolve_settlement_layer :: "hub_views \<Rightarrow> address \<Rightarrow> u64 \<Rightarrow> u64 res" where
  "resolve_settlement_layer H bridgehub chain_id =
     bind_res (ok_or (Bail ''L1_CHAIN_ID() call failed'') (hv_L1_CHAIN_ID H bridgehub)) (\<lambda>l1_raw.
     bind_res (ok_or (Bail ''L1 chain ID overflow'') (u64_try_from l1_raw)) (\<lambda>l1_chain_id.
     bind_res (ok_or (Bail ''settlementLayer() call failed'') (hv_settlementLayer H bridgehub (ucast chain_id))) (\<lambda>sl_raw.
     bind_res (ok_or (Bail ''settlement layer chain ID overflow'') (u64_try_from sl_raw)) (\<lambda>sl.
     if sl \<noteq> 0 \<and> sl \<noteq> l1_chain_id then Inr sl else Inl (Bail ''not migrated to a gateway'')))))"

definition l1_resolve_governance :: "hub_views \<Rightarrow> address \<Rightarrow> address res" where
  "l1_resolve_governance H bridgehub =
     bind_res (ok_or (Bail ''owner() call failed'') (hv_owner H bridgehub)) (\<lambda>a. ensure_nonzero a ''owner'')"

definition resolve_bridgehub_admin :: "hub_views \<Rightarrow> address \<Rightarrow> address res" where
  "resolve_bridgehub_admin H bridgehub =
     bind_res (ok_or (Bail ''admin() call failed'') (hv_admin H bridgehub)) (\<lambda>a. ensure_nonzero a ''admin'')"

definition resolve_zk_chain :: "hub_views \<Rightarrow> address \<Rightarrow> u64 \<Rightarrow> address res" where
  "resolve_zk_chain H bridgehub chain_id =
     bind_res (ok_or (Bail ''getZKChain() call failed'') (hv_getZKChain H bridgehub (ucast chain_id))) (\<lambda>a. ensure_nonzero a ''getZKChain'')"

definition resolve_validator_timelock :: "hub_views \<Rightarrow> address \<Rightarrow> u64 \<Rightarrow> address res" where
  "resolve_validator_timelock H bridgehub chain_id =
     bind_res (resolve_ctm_proxy H bridgehub chain_id) (\<lambda>ctm.
     bind_res (ok_or (Bail ''validatorTimelockPostV29() call failed'') (hv_validatorTimelockPostV29 H ctm)) (\<lambda>a.
     ensure_nonzero a ''validatorTimelockPostV29''))"

definition resolve_chain_admin :: "hub_views \<Rightarrow> address \<Rightarrow> u64 \<Rightarrow> address res" where
  "resolve_chain_admin H bridgehub chain_id =
     bind_res (resolve_zk_chain H bridgehub chain_id) (\<lambda>diamond.
     bind_res (ok_or (Bail ''getAdmin() call failed'') (hv_getAdmin H diamond)) (\<lambda>a. ensure_nonzero a ''getAdmin''))"

definition resolve_chain_admin_owner :: "hub_views \<Rightarrow> address \<Rightarrow> u64 \<Rightarrow> address res" where
  "resolve_chain_admin_owner H bridgehub chain_id =
     bind_res (resolve_chain_admin H bridgehub chain_id) (\<lambda>adm.
     bind_res (ok_or (Bail ''ChainAdmin.owner() call failed'') (hv_owner H adm)) (\<lambda>a. ensure_nonzero a ''ChainAdmin.owner''))"

definition resolve_access_control_default_admin :: "hub_views \<Rightarrow> address \<Rightarrow> address res" where
  "resolve_access_control_default_admin H restriction =
     bind_res (ok_or (Bail ''defaultAdmin() call failed'') (hv_defaultAdmin H restriction)) (\<lambda>a. ensure_nonzero a ''defaultAdmin'')"

definition resolve_governance_owner :: "hub_views \<Rightarrow> address \<Rightarrow> address res" where
  "resolve_governance_owner H bridgehub =
     bind_res (l1_resolve_governance H bridgehub) (\<lambda>gov.
     bind_res (ok_or (Bail ''Governance.owner() call failed'') (hv_owner H gov)) (\<lambda>a. ensure_nonzero a ''Governance.owner''))"

definition resolve_rollup_da_manager :: "hub_views \<Rightarrow> address \<Rightarrow> address res" where
  "resolve_rollup_da_manager H zk_chain =
     bind_res (ok_or (Bail ''getRollupDAManager() call failed'') (hv_getRollupDAManager H zk_chain)) (\<lambda>a.
     ensure_nonzero a ''getRollupDAManager'')"

definition resolve_is_zksync_os :: "hub_views \<Rightarrow> address \<Rightarrow> bool res" where
  "resolve_is_zksync_os H ctm_proxy = ok_or (Bail ''isZKsyncOS() call failed'') (hv_isZKsyncOS H ctm_proxy)"

definition resolve_is_testnet_verifier :: "hub_views \<Rightarrow> address \<Rightarrow> bool res" where
  "resolve_is_testnet_verifier H ctm_proxy =
     bind_res (ok_or (Bail ''protocolVersion() call failed'') (hv_protocolVersion H ctm_proxy)) (\<lambda>version.
     bind_res (ok_or (Bail ''protocolVersionVerifier() call failed'') (hv_protocolVersionVerifier H ctm_proxy version)) (\<lambda>v.
     bind_res (ensure_nonzero v ''protocolVersionVerifier'') (\<lambda>verifier.
     Inr (case hv_IS_TESTNET_VERIFIER H verifier of Some b \<Rightarrow> b | None \<Rightarrow> False))))"

subsection \<open>Senders\<close>

text \<open>The nodes of a world, and funding an address on a fork.\<close>

record 'w fork_world =
  fk_views :: "'w \<Rightarrow> string \<Rightarrow> hub_views"
  fk_set_balance :: "'w \<Rightarrow> string \<Rightarrow> address \<Rightarrow> unit option \<times> 'w"

definition prepare_sender :: "'w fork_world \<Rightarrow> runner \<Rightarrow> address \<Rightarrow> 'w \<Rightarrow> address res \<times> 'w" where
  "prepare_sender K R a w = (case fk_set_balance K w (rn_rpc_url R) a of
     (Some _, w') \<Rightarrow> (Inr a, w')
   | (None, w') \<Rightarrow> (Inl (Bail ''anvil_setBalance''), w'))"

definition prepare_resolved :: "'w fork_world \<Rightarrow> runner \<Rightarrow> (hub_views \<Rightarrow> address res) \<Rightarrow> 'w \<Rightarrow> address res \<times> 'w" where
  "prepare_resolved K R resolve w = (case resolve (fk_views K w (rn_rpc_url R)) of
     Inl e \<Rightarrow> (Inl e, w)
   | Inr a \<Rightarrow> prepare_sender K R a w)"

definition prepare_chain_admin :: "'w fork_world \<Rightarrow> runner \<Rightarrow> address \<Rightarrow> u64 \<Rightarrow> 'w \<Rightarrow> address res \<times> 'w" where
  "prepare_chain_admin K R bridgehub chain_id = prepare_resolved K R (\<lambda>H. resolve_chain_admin H bridgehub chain_id)"

definition prepare_chain_admin_owner :: "'w fork_world \<Rightarrow> runner \<Rightarrow> address \<Rightarrow> u64 \<Rightarrow> 'w \<Rightarrow> address res \<times> 'w" where
  "prepare_chain_admin_owner K R bridgehub chain_id = prepare_resolved K R (\<lambda>H. resolve_chain_admin_owner H bridgehub chain_id)"

definition prepare_chain_admin_broadcaster :: "'w fork_world \<Rightarrow> runner \<Rightarrow> address \<Rightarrow> u64 \<Rightarrow> address \<Rightarrow> 'w \<Rightarrow> address res \<times> 'w" where
  "prepare_chain_admin_broadcaster K R bridgehub chain_id restriction = prepare_resolved K R (\<lambda>H.
     if restriction = 0 then resolve_chain_admin_owner H bridgehub chain_id else resolve_access_control_default_admin H restriction)"

definition prepare_governance_owner :: "'w fork_world \<Rightarrow> runner \<Rightarrow> address \<Rightarrow> 'w \<Rightarrow> address res \<times> 'w" where
  "prepare_governance_owner K R bridgehub = prepare_resolved K R (\<lambda>H. resolve_governance_owner H bridgehub)"

section \<open>What is resolved\<close>

lemma ensure_nonzero_eq [simp]: "ensure_nonzero a what = Inr b \<longleftrightarrow> b = a \<and> a \<noteq> 0"
  by (auto simp: ensure_nonzero_def)

lemmas resolver_defs = resolve_ctm_proxy_def resolve_stm_tracker_def resolve_bytecodes_supplier_def l1_resolve_governance_def
  resolve_bridgehub_admin_def resolve_zk_chain_def resolve_validator_timelock_def resolve_chain_admin_def resolve_chain_admin_owner_def
  resolve_access_control_default_admin_def resolve_governance_owner_def resolve_rollup_da_manager_def discover_ctm_proxy_def

lemma resolved_nonzero:
  "resolve_ctm_proxy H b i = Inr a \<Longrightarrow> a \<noteq> 0" "discover_ctm_proxy E H b = Inr a \<Longrightarrow> a \<noteq> 0"
  "resolve_zk_chain H b i = Inr a \<Longrightarrow> a \<noteq> 0" "resolve_chain_admin H b i = Inr a \<Longrightarrow> a \<noteq> 0"
  "resolve_chain_admin_owner H b i = Inr a \<Longrightarrow> a \<noteq> 0" "resolve_governance_owner H b = Inr a \<Longrightarrow> a \<noteq> 0"
  "resolve_validator_timelock H b i = Inr a \<Longrightarrow> a \<noteq> 0" "resolve_access_control_default_admin H r = Inr a \<Longrightarrow> a \<noteq> 0"
  by (auto simp: resolver_defs Let_def split: if_splits list.splits)

lemma settlement_layer_iff:
  "resolve_settlement_layer H b i = Inr sl \<longleftrightarrow> (\<exists>l1 v. hv_L1_CHAIN_ID H b = Some l1 \<and> unat l1 < 2 ^ 64 \<and> hv_settlementLayer H b (ucast i) = Some v
     \<and> unat v < 2 ^ 64 \<and> sl = ucast v \<and> sl \<noteq> 0 \<and> sl \<noteq> ucast l1)"
  by (auto simp: resolve_settlement_layer_def u64_try_from_def split: if_splits)

text \<open>Every CTM of a registered chain is listed once, with the first chain that has it.\<close>

lemma add_ctm_of_chain_eq:
  "add_ctm_of_chain H b i found = Inr x \<longleftrightarrow> (\<exists>c. resolve_ctm_proxy H b i = Inr c \<and> x = (if list_ex (\<lambda>p. fst p = c) found then found else found @ [(c, i)]))"
  by (auto simp: add_ctm_of_chain_def)

lemma discover_ctms_fold:
  assumes "fold_res (add_ctm_of_chain H b) ids found = Inr res" "distinct (map fst found)"
  shows "distinct (map fst res) \<and> (\<exists>more. res = found @ more \<and> (\<forall>(c, i) \<in> set more. i \<in> set ids \<and> resolve_ctm_proxy H b i = Inr c))
    \<and> (\<forall>i \<in> set ids. \<exists>c. resolve_ctm_proxy H b i = Inr c \<and> c \<in> fst ` set res)"
  using assms
proof (induction ids arbitrary: found)
  case (Cons i ids)
  then obtain c where c: "resolve_ctm_proxy H b i = Inr c"
    and rest: "fold_res (add_ctm_of_chain H b) ids (if list_ex (\<lambda>p. fst p = c) found then found else found @ [(c, i)]) = Inr res"
    by (auto simp: add_ctm_of_chain_eq)
  let ?found = "if list_ex (\<lambda>p. fst p = c) found then found else found @ [(c, i)]"
  have "distinct (map fst ?found)" "c \<in> fst ` set ?found"
    using Cons.prems(2) by (auto simp: list_ex_iff)
  with Cons.IH [OF rest] obtain more where "distinct (map fst res)" "res = ?found @ more"
    "\<forall>(c, i) \<in> set more. i \<in> set ids \<and> resolve_ctm_proxy H b i = Inr c"
    "\<forall>i \<in> set ids. \<exists>c. resolve_ctm_proxy H b i = Inr c \<and> c \<in> fst ` set res"
    by blast
  moreover from this(2) \<open>c \<in> fst ` set ?found\<close> have "c \<in> fst ` set res" by auto
  ultimately show ?case
    using c by (auto split: if_splits)
qed simp

lemma prepare_resolved_run:
  assumes "prepare_resolved K R resolve w = (Inr a, w')"
  shows "resolve (fk_views K w (rn_rpc_url R)) = Inr a"
  using assms by (auto simp: prepare_resolved_def prepare_sender_def split: sum.splits prod.splits option.splits)

end
