(* ===== verification/Gateway_Migration.thy ===== *)
theory Gateway_Migration
  imports L1_Contracts Readiness
begin

section \<open>Migrating a chain to and from a gateway\<close>

text \<open>
  \<^verbatim>\<open>commands/chain/gateway/migrate_to.rs\<close> and \<^verbatim>\<open>migrate_from.rs\<close>: the phases that pause deposits, submit the
  migration, wait until the gateway has settled it and finalize it on L1. The nodes, the clock, anvil, the
  typed call encoders and the JSON deserialisers are parameters over a world; a loop that sleeps is a
  \<^verbatim>\<open>partial_function\<close>, so that not returning is a value. \<open>Migration_Runs\<close> holds the lemmas.
\<close>

subsection \<open>Calls of the scripts\<close>

text \<open>The typed calls the phases make, with the fields the bindings give them.\<close>

datatype typed_call =
    pauseDepositsBeforeInitiatingMigrationCall address u256 bool
  | notifyServerMigrationToGatewayCall address u256 bool
  | migrateChainToGatewayCall address u256 u256 u256 string address bool
  | enableValidatorViaGatewayCall address u256 u256 u256 address address address bool
  | setDAValidatorPairWithGatewayCall address u256 u256 u256 address "8 word" address address bool
  | notifyServerMigrationFromGatewayCall address u256 bool
  | startMigrateChainFromGatewayCall address u256 u256 u256 bytes address bool
  | setDAValidatorPairCall address address u256 address "8 word" bool
  | finishMigrateChainToGatewayCall address "16 word" "8 word" b256 u256 u256 u256 u256 string "b256 list"
  | finishMigrateChainFromGatewayCall address u256 u256 u256 u256 "16 word" bytes "b256 list"

fun invocation_of :: "typed_call \<Rightarrow> forge_script_params" where
  "invocation_of (finishMigrateChainToGatewayCall _ _ _ _ _ _ _ _ _ _) = GATEWAY_UTILS_INVOCATION"
| "invocation_of (finishMigrateChainFromGatewayCall _ _ _ _ _ _ _ _) = GATEWAY_UTILS_INVOCATION"
| "invocation_of _ = ADMIN_FUNCTIONS_INVOCATION"

subsection \<open>Answers of the gateway\<close>

record minimal_receipt =
  mr_status :: "string option"
  mr_block_number :: "string option"

record l2_to_l1_log =
  ll_sender :: string
  ll_transaction_index :: string

record 'p l2_to_l1_log_proof =
  lp_batch_number :: u64
  lp_id :: u64
  lp_proof :: "'p list"

record raw_log =
  rl_address :: string
  rl_topics :: "string list"
  rl_data :: string

record zksync_l2_receipt =
  zr_logs :: "raw_log list"
  zr_l2_to_l1_logs :: "l2_to_l1_log list"

text \<open>
  The environment: forge and the fork as for the runner, anvil, the clock of the process in nanoseconds, the
  requests to a gateway with the type each is read as, and the deserialisers and ABI coders of the crates.
\<close>

record 'w migration_env =
  me_forge :: "'w forge_world"
  me_fork :: "'w fork_world"
  me_files :: env_files
  me_json :: json_io
  me_libs :: "string set"
  me_anvil_fork :: "'w \<Rightarrow> string \<Rightarrow> string option \<times> 'w"
  me_create_dir :: "'w \<Rightarrow> string \<Rightarrow> unit option \<times> 'w"
  me_instant :: "'w \<Rightarrow> nat"
  me_sleep :: "'w \<Rightarrow> nat \<Rightarrow> 'w"
  me_url_ok :: "string \<Rightarrow> bool"
  me_receipt :: "'w \<Rightarrow> string \<Rightarrow> string \<Rightarrow> minimal_receipt option option \<times> 'w"
  me_finalized :: "'w \<Rightarrow> string \<Rightarrow> string option option option \<times> 'w"
  me_request :: "'w \<Rightarrow> string \<Rightarrow> string \<Rightarrow> json list \<Rightarrow> json option \<times> 'w"
  me_proof :: "'w \<Rightarrow> string \<Rightarrow> string \<Rightarrow> u64 \<Rightarrow> b256 l2_to_l1_log_proof option \<times> 'w"
  me_read_gateway_receipt :: "json \<Rightarrow> l2_to_l1_log list option"
  me_read_log_proof :: "json \<Rightarrow> string l2_to_l1_log_proof option"
  me_read_zksync_receipt :: "json \<Rightarrow> zksync_l2_receipt option"
  me_encode :: "typed_call \<Rightarrow> bytes"
  me_decode_bytes :: "bytes \<Rightarrow> bytes option"
  me_decode_cut :: "bytes \<Rightarrow> diamond_cut_data_call option"
  me_encode_cut :: "diamond_cut_data_call \<Rightarrow> bytes"

subsection \<open>Arguments\<close>

record ecosystem_args =
  ea_bridgehub :: "address option"
  ea_env :: "string option"

record ecosystem_chain_args =
  ec_ecosystem :: ecosystem_args
  ec_chain_id :: u64

record shared_run_args =
  sr_l1_rpc_url :: string
  sr_subdir :: "string option"
  sr_forge_args :: forge_script_args

definition ecosystem_resolve :: "ext \<Rightarrow> env_files \<Rightarrow> ecosystem_args \<Rightarrow> address res" where
  "ecosystem_resolve E M a = (case ea_bridgehub a of
     Some x \<Rightarrow> Inr x
   | None \<Rightarrow> bind_res (ok_or (Bail ''--bridgehub or --env must be supplied'') (ea_env a)) (\<lambda>env.
       bind_res (env_config_load E M env) (\<lambda>cfg. Inr (ec_bridgehub cfg))))"

definition chain_args_resolve :: "ext \<Rightarrow> env_files \<Rightarrow> ecosystem_chain_args \<Rightarrow> (address \<times> u64) res" where
  "chain_args_resolve E M a = bind_res (ecosystem_resolve E M (ec_ecosystem a)) (\<lambda>b. Inr (b, ec_chain_id a))"

text \<open>The \<^verbatim>\<open>?\<close> operator where the computation also changes a state.\<close>

definition bind_st :: "'a res \<times> 's \<Rightarrow> ('a \<Rightarrow> 's \<Rightarrow> 'b res \<times> 's) \<Rightarrow> 'b res \<times> 's" where
  "bind_st x f = (case x of (Inl e, s) \<Rightarrow> (Inl e, s) | (Inr a, s) \<Rightarrow> f a s)"

text \<open>The same where the first computation may not return.\<close>

definition bind_loop :: "('a res \<times> 'w) option \<Rightarrow> ('a \<Rightarrow> 'w \<Rightarrow> ('b res \<times> 'w) option) \<Rightarrow> ('b res \<times> 'w) option" where
  "bind_loop x f = (case x of None \<Rightarrow> None | Some (Inl e, w) \<Rightarrow> Some (Inl e, w) | Some (Inr a, w) \<Rightarrow> f a w)"

definition scoped_dirs :: "string \<Rightarrow> string option \<Rightarrow> string list" where
  "scoped_dirs root sub = (case sub of None \<Rightarrow> []
     | Some s \<Rightarrow> map (\<lambda>d. path_join (path_join root d) s) [''script-config'', ''script-out''])"

fun create_dirs :: "'w migration_env \<Rightarrow> string list \<Rightarrow> 'w \<Rightarrow> unit res \<times> 'w" where
  "create_dirs V [] w = (Inr (), w)"
| "create_dirs V (d # ds) w = (case me_create_dir V w d of
     (None, w') \<Rightarrow> (Inl (Bail ''creating script IO dir''), w')
   | (Some _, w') \<Rightarrow> create_dirs V ds w')"

definition runner_new :: "'w migration_env \<Rightarrow> shared_run_args \<Rightarrow> 'w \<Rightarrow> runner res \<times> 'w" where
  "runner_new V shared w = (case me_anvil_fork V w (sr_l1_rpc_url shared) of
     (None, w') \<Rightarrow> (Inl (Bail ''anvil''), w')
   | (Some endpoint, w') \<Rightarrow>
       (let root = path_to_foundry_scripts (me_files V)
        in bind_st (create_dirs V (scoped_dirs root (sr_subdir shared)) w') (\<lambda>_ w.
          (Inr \<lparr>rn_forge_args = sr_forge_args shared, rn_rpc_url = endpoint, rn_foundry_path = root, rn_subdir = sr_subdir shared,
             rn_runs = [], rn_extra_logs = [], rn_gw_logs = []\<rparr>, w))))"

definition script_call :: "ext \<Rightarrow> 'w migration_env \<Rightarrow> runner \<Rightarrow> typed_call \<Rightarrow> forge_script" where
  "script_call E V R c = script_with_calldata E R (invocation_of c) (me_encode V c)"

definition run_forge :: "'w migration_env \<Rightarrow> forge_script \<Rightarrow> runner \<times> 'w \<Rightarrow> unit res \<times> runner \<times> 'w" where
  "run_forge V s st = (case st of (R, w) \<Rightarrow> runner_run (me_forge V) (me_json V) s R w)"

text \<open>A step that reads the fork or funds an address leaves the runner as it is.\<close>

definition on_world :: "runner \<Rightarrow> 'a res \<times> 'w \<Rightarrow> 'a res \<times> runner \<times> 'w" where
  "on_world R x = (case x of (r, w) \<Rightarrow> (r, R, w))"

subsection \<open>Stages towards the gateway\<close>

definition stage_pause_deposits :: "ext \<Rightarrow> 'w migration_env \<Rightarrow> address \<Rightarrow> u64 \<Rightarrow> runner \<times> 'w \<Rightarrow> unit res \<times> runner \<times> 'w" where
  "stage_pause_deposits E V bridgehub chain_id st = (case st of (R, w) \<Rightarrow>
     bind_st (on_world R (prepare_chain_admin (me_fork V) R bridgehub chain_id w)) (\<lambda>sender st.
     run_forge V (with_wallet E sender (script_call E V R (pauseDepositsBeforeInitiatingMigrationCall bridgehub (ucast chain_id) True))) st))"

definition stage_notify_server :: "ext \<Rightarrow> 'w migration_env \<Rightarrow> address \<Rightarrow> u64 \<Rightarrow> runner \<times> 'w \<Rightarrow> unit res \<times> runner \<times> 'w" where
  "stage_notify_server E V bridgehub chain_id st = (case st of (R, w) \<Rightarrow>
     bind_st (on_world R (prepare_chain_admin (me_fork V) R bridgehub chain_id w)) (\<lambda>sender st.
     run_forge V (with_wallet E sender (script_call E V R (notifyServerMigrationToGatewayCall bridgehub (ucast chain_id) True))) st))"

definition stage_submit ::
    "ext \<Rightarrow> 'w migration_env \<Rightarrow> address \<Rightarrow> u64 \<Rightarrow> u64 \<Rightarrow> string \<Rightarrow> u64 \<Rightarrow> address \<Rightarrow> runner \<times> 'w \<Rightarrow> unit res \<times> runner \<times> 'w" where
  "stage_submit E V bridgehub chain_id gw_chain_id gateway_rpc_url l1_gas_price refund_recipient st = (case st of (R, w) \<Rightarrow>
     bind_st (on_world R (prepare_chain_admin (me_fork V) R bridgehub chain_id w)) (\<lambda>sender st.
     run_forge V (with_wallet E sender (script_call E V R (migrateChainToGatewayCall bridgehub (ucast l1_gas_price) (ucast chain_id)
       (ucast gw_chain_id) gateway_rpc_url refund_recipient True))) st))"

definition GATEWAY_L2_BRIDGEHUB :: address where "GATEWAY_L2_BRIDGEHUB = 0x10002"

definition resolve_chain_diamond_on_gateway :: "'w migration_env \<Rightarrow> string \<Rightarrow> u64 \<Rightarrow> 'w \<Rightarrow> address res" where
  "resolve_chain_diamond_on_gateway V gateway_rpc_url chain_id w =
     bind_res (ok_or (Bail ''gateway L2 getZKChain call'')
       (hv_getZKChain (fk_views (me_fork V) w gateway_rpc_url) GATEWAY_L2_BRIDGEHUB (ucast chain_id))) (\<lambda>a.
     ensure_nonzero a ''chain not registered on gateway'')"

definition resolve_gateway_validator_timelock :: "'w migration_env \<Rightarrow> string \<Rightarrow> u64 \<Rightarrow> 'w \<Rightarrow> address res" where
  "resolve_gateway_validator_timelock V gateway_rpc_url chain_id w =
     (let H = fk_views (me_fork V) w gateway_rpc_url
      in bind_res (ok_or (Bail ''gateway L2 chainTypeManager call'') (hv_chainTypeManager H GATEWAY_L2_BRIDGEHUB (ucast chain_id))) (\<lambda>c.
        bind_res (ensure_nonzero c ''chain not registered on the gateway'') (\<lambda>ctm.
        ok_or (Bail ''gateway L2 validatorTimelockPostV29 call'') (hv_validatorTimelockPostV29 H ctm))))"

record enable_validators_inputs =
  ev_commit_operator :: address
  ev_prove_operator :: address
  ev_execute_operator :: address
  ev_gateway_validator_timelock :: "address option"
  ev_gateway_rpc_url :: string
  ev_l1_gas_price :: u64

definition validators_of :: "enable_validators_inputs \<Rightarrow> address list" where
  "validators_of inputs =
     filter (\<lambda>a. a \<noteq> 0) (remdups_adj (sort [ev_commit_operator inputs, ev_prove_operator inputs, ev_execute_operator inputs]))"

text \<open>The scripts of the loop are made from the runner of the moment; a run does not change what they are made from.\<close>

fun enable_each :: "ext \<Rightarrow> 'w migration_env \<Rightarrow> (address \<Rightarrow> typed_call) \<Rightarrow> address \<Rightarrow> address list \<Rightarrow> runner \<times> 'w \<Rightarrow> unit res \<times> runner \<times> 'w" where
  "enable_each E V call sender [] st = (Inr (), st)"
| "enable_each E V call sender (validator # vs) st =
     bind_st (run_forge V (with_wallet E sender (script_call E V (fst st) (call validator))) st) (\<lambda>_. enable_each E V call sender vs)"

definition stage_enable_validators ::
    "ext \<Rightarrow> 'w migration_env \<Rightarrow> address \<Rightarrow> u64 \<Rightarrow> enable_validators_inputs \<Rightarrow> runner \<times> 'w \<Rightarrow> (u64 \<times> nat) res \<times> runner \<times> 'w" where
  "stage_enable_validators E V bridgehub chain_id inputs st = (case st of (R, w) \<Rightarrow>
     bind_st (on_world R (prepare_chain_admin (me_fork V) R bridgehub chain_id w)) (\<lambda>sender (R, w).
     bind_st (resolve_settlement_layer (fk_views (me_fork V) w (rn_rpc_url R)) bridgehub chain_id, R, w) (\<lambda>gw_chain_id (R, w).
     bind_st (case ev_gateway_validator_timelock inputs of
         Some a \<Rightarrow> Inr a
       | None \<Rightarrow> resolve_gateway_validator_timelock V (ev_gateway_rpc_url inputs) chain_id w, R, w) (\<lambda>timelock st.
     let validators = validators_of inputs;
         call = (\<lambda>v. enableValidatorViaGatewayCall bridgehub (ucast (ev_l1_gas_price inputs)) (ucast chain_id) (ucast gw_chain_id)
           v timelock sender True)
     in bind_st (enable_each E V call sender validators st) (\<lambda>_ st. (Inr (gw_chain_id, length validators), st))))))"

record set_da_inputs =
  sd_l1_da_validator :: address
  sd_l2_da_commitment_scheme :: L2DACommitmentScheme
  sd_gateway_rpc_url :: string
  sd_l1_gas_price :: u64

definition stage_set_da_validator_pair ::
    "ext \<Rightarrow> 'w migration_env \<Rightarrow> address \<Rightarrow> u64 \<Rightarrow> set_da_inputs \<Rightarrow> runner \<times> 'w \<Rightarrow> (u64 \<times> address) res \<times> runner \<times> 'w" where
  "stage_set_da_validator_pair E V bridgehub chain_id inputs st = (case st of (R, w) \<Rightarrow>
     bind_st (on_world R (prepare_chain_admin (me_fork V) R bridgehub chain_id w)) (\<lambda>sender (R, w).
     bind_st (resolve_settlement_layer (fk_views (me_fork V) w (rn_rpc_url R)) bridgehub chain_id, R, w) (\<lambda>gw_chain_id (R, w).
     bind_st (resolve_chain_diamond_on_gateway V (sd_gateway_rpc_url inputs) chain_id w, R, w) (\<lambda>diamond st.
     bind_st (run_forge V (with_wallet E sender (script_call E V R (setDAValidatorPairWithGatewayCall bridgehub (ucast (sd_l1_gas_price inputs))
       (ucast chain_id) (ucast gw_chain_id) (sd_l1_da_validator inputs) (scheme_as_u8 (sd_l2_da_commitment_scheme inputs)) diamond sender True)))
       st) (\<lambda>_ st. (Inr (gw_chain_id, diamond), st))))))"

subsection \<open>The migration transaction\<close>

definition find_migration_tx :: "ext \<Rightarrow> hub_views \<Rightarrow> address \<Rightarrow> u64 \<Rightarrow> u64 \<Rightarrow> b256 res" where
  "find_migration_tx E H bridgehub chain_id lookback_blocks =
     bind_res (ok_or (Bail ''Failed to read chainAssetHandler from bridgehub'') (hv_chainAssetHandler H bridgehub)) (\<lambda>handler.
     bind_res (ok_or (Bail ''eth_blockNumber'') (hv_get_block_number H)) (\<lambda>latest_block.
     let from_block = saturating_sub latest_block lookback_blocks
     in bind_res (ok_or (Bail ''Failed to query MigrationStarted events'')
         (hv_get_logs H \<lparr>lf_address = handler, lf_topic0 = keccak256 E (string_bytes ''MigrationStarted(uint256,uint256,bytes32,uint256)''),
           lf_topic1 = Some (ucast chain_id), lf_from = from_block, lf_to = Some latest_block\<rparr>)) (\<lambda>logs.
       if logs \<noteq> [] then ok_or (Bail ''MigrationStarted event has no tx hash'') (el_tx_hash (last logs))
       else Inl (Bail ''No MigrationStarted event found''))))"

definition NEW_PRIORITY_REQUEST :: string where
  "NEW_PRIORITY_REQUEST = ''NewPriorityRequest(uint256,bytes32,uint64,(uint256,uint256,uint256,uint256,uint256,uint256,uint256,uint256,uint256,'' @
     ''uint256,uint256[4],bytes,bytes,uint256[],bytes,bytes),bytes[])''"

definition is_priority_request :: "ext \<Rightarrow> address \<Rightarrow> event_log \<Rightarrow> bool" where
  "is_priority_request E diamond l \<longleftrightarrow> el_topics l \<noteq> [] \<and> hd (el_topics l) = keccak256 E (string_bytes NEW_PRIORITY_REQUEST)
     \<and> el_address l = diamond \<and> 64 \<le> length (el_data l)"

definition extract_priority_op_hash :: "ext \<Rightarrow> hub_views \<Rightarrow> b256 \<Rightarrow> address \<Rightarrow> b256 res" where
  "extract_priority_op_hash E H tx_hash diamond =
     bind_res (ok_or (Bail ''eth_getTransactionReceipt'') (hv_receipt_logs H tx_hash)) (\<lambda>receipt.
     bind_res (ok_or (Bail ''Migration tx receipt not found'') receipt) (\<lambda>logs.
     case List.find (is_priority_request E diamond) logs of
       Some l \<Rightarrow> Inr (from_be_bytes (slice 32 64 (el_data l)))
     | None \<Rightarrow> Inl (Bail ''No NewPriorityRequest log found'')))"

definition SHORT_LOOKBACK_BLOCKS :: u64 where "SHORT_LOOKBACK_BLOCKS = 100"

definition DEFAULT_FINALIZE_LOOKBACK_BLOCKS :: u64 where "DEFAULT_FINALIZE_LOOKBACK_BLOCKS = 216000"

definition capture_priority_op_hash_after_submit :: "ext \<Rightarrow> hub_views \<Rightarrow> address \<Rightarrow> u64 \<Rightarrow> u64 \<Rightarrow> b256 res" where
  "capture_priority_op_hash_after_submit E H bridgehub chain_id gw_chain_id =
     bind_res (find_migration_tx E H bridgehub chain_id SHORT_LOOKBACK_BLOCKS) (\<lambda>tx.
     bind_res (resolve_zk_chain H bridgehub gw_chain_id) (\<lambda>diamond.
     extract_priority_op_hash E H tx diamond))"

subsection \<open>Waiting\<close>

text \<open>
  A loop of the source is \<open>retry_loop\<close> of its body: the body returns a result or asks for the next round, which
  comes after two seconds. Durations are nanoseconds.
\<close>

partial_function (option) retry_loop :: "('w \<Rightarrow> 'a res option \<times> 'w) \<Rightarrow> ('w \<Rightarrow> 'w) \<Rightarrow> 'w \<Rightarrow> ('a res \<times> 'w) option" where
  "retry_loop body pause w = (case body w of
     (Some r, w') \<Rightarrow> Some (r, w')
   | (None, w') \<Rightarrow> retry_loop body pause (pause w'))"

definition seconds :: "nat \<Rightarrow> nat" where "seconds n = n * 1000000000"

definition wait_timeout :: nat where "wait_timeout = seconds 300"

definition pause_of :: "'w migration_env \<Rightarrow> 'w \<Rightarrow> 'w" where
  "pause_of V w = me_sleep V w (seconds 2)"

definition elapsed :: "'w migration_env \<Rightarrow> nat \<Rightarrow> 'w \<Rightarrow> nat" where
  "elapsed V start w = me_instant V w - start"

text \<open>A block number that is missing or malformed counts as 0.\<close>

definition receipt_block :: "minimal_receipt \<Rightarrow> u64" where
  "receipt_block r = (case mr_block_number r of None \<Rightarrow> 0
     | Some s \<Rightarrow> (case u64_from_str_radix_16 (trim_start_matches ''0x'' s) of Some n \<Rightarrow> n | None \<Rightarrow> 0))"

definition l2_tx_receipt_body :: "ext \<Rightarrow> 'w migration_env \<Rightarrow> string \<Rightarrow> b256 \<Rightarrow> nat \<Rightarrow> 'w \<Rightarrow> u64 res option \<times> 'w" where
  "l2_tx_receipt_body E V url tx_hash start w =
     (if wait_timeout < elapsed V start w then (Some (Inl (Bail ''Timed out waiting for L2 tx on gateway'')), w)
      else case me_receipt V w url (hash_line E tx_hash) of
        (None, w') \<Rightarrow> (Some (Inl (Bail ''eth_getTransactionReceipt'')), w')
      | (Some None, w') \<Rightarrow> (None, w')
      | (Some (Some r), w') \<Rightarrow>
          (Some (if mr_status r = Some ''0x0'' then Inl (Bail ''Migration priority tx reverted on gateway'') else Inr (receipt_block r)), w'))"

definition wait_for_l2_tx_receipt :: "ext \<Rightarrow> 'w migration_env \<Rightarrow> string \<Rightarrow> b256 \<Rightarrow> 'w \<Rightarrow> (u64 res \<times> 'w) option" where
  "wait_for_l2_tx_receipt E V url tx_hash w =
     (if \<not> me_url_ok V url then Some (Inl (Bail ''invalid RPC URL''), w)
      else retry_loop (l2_tx_receipt_body E V url tx_hash (me_instant V w)) (pause_of V) w)"

definition reached :: "string option option option \<Rightarrow> u64 \<Rightarrow> bool" where
  "reached answer target_block = (case answer of
     Some (Some (Some s)) \<Rightarrow> (case u64_from_str_radix_16 (trim_start_matches ''0x'' s) of Some n \<Rightarrow> target_block \<le> n | None \<Rightarrow> False)
   | _ \<Rightarrow> False)"

definition finalized_body :: "'w migration_env \<Rightarrow> string \<Rightarrow> u64 \<Rightarrow> nat \<Rightarrow> 'w \<Rightarrow> unit res option \<times> 'w" where
  "finalized_body V url target_block start w =
     (if wait_timeout < elapsed V start w then (Some (Inl (Bail ''Timed out waiting for gateway finalized block'')), w)
      else case me_finalized V w url of
        (answer, w') \<Rightarrow> ((if reached answer target_block then Some (Inr ()) else None), w'))"

definition wait_for_gateway_block_finalized :: "'w migration_env \<Rightarrow> string \<Rightarrow> u64 \<Rightarrow> 'w \<Rightarrow> (unit res \<times> 'w) option" where
  "wait_for_gateway_block_finalized V url target_block w =
     (if \<not> me_url_ok V url then Some (Inl (Bail ''invalid RPC URL''), w)
      else retry_loop (finalized_body V url target_block (me_instant V w)) (pause_of V) w)"

text \<open>\<^verbatim>\<open>u16::from_str_radix(s, 16)\<close>\<close>

definition u16_from_str_radix_16 :: "string \<Rightarrow> 16 word option" where
  "u16_from_str_radix_16 s =
     (let ds = (case s of [] \<Rightarrow> [] | c # cs \<Rightarrow> if c = CHR ''+'' then cs else s) in
      if ds = [] then None
      else case hex_digits_val ds 0 of None \<Rightarrow> None | Some n \<Rightarrow> if n < 2 ^ 16 then Some (of_nat n) else None)"

definition L2_BOOTLOADER :: string where "L2_BOOTLOADER = ''0x0000000000000000000000000000000000008001''"

text \<open>The first log of a sender, with its index and the number of its transaction in the batch.\<close>

fun log_from :: "string \<Rightarrow> nat \<Rightarrow> l2_to_l1_log list \<Rightarrow> (nat \<times> 16 word option) option" where
  "log_from sender i [] = None"
| "log_from sender i (l # ls) =
     (if map to_ascii_lowercase (ll_sender l) = sender then Some (i, u16_from_str_radix_16 (trim_start_matches ''0x'' (ll_transaction_index l)))
      else log_from sender (Suc i) ls)"

record finalize_params =
  fp_batch_number :: u64
  fp_l2_message_index :: u64
  fp_l2_tx_number_in_batch :: "16 word"
  fp_merkle_proof :: "string list"

text \<open>The index of the log of the bootloader in the receipt the gateway answers, and the proof it answers for it.\<close>

definition bootloader_log :: "'w migration_env \<Rightarrow> json option \<Rightarrow> (nat \<times> 16 word) res" where
  "bootloader_log V answer =
     bind_res (ok_or (Bail ''eth_getTransactionReceipt'') answer) (\<lambda>raw.
     if raw = JNull then Inl (Bail ''eth_getTransactionReceipt returned null'')
     else bind_res (ok_or (Bail ''Failed to parse gateway receipt'') (me_read_gateway_receipt V raw)) (\<lambda>logs.
       bind_res (ok_or (Bail ''No L2->L1 log from bootloader'') (log_from L2_BOOTLOADER 0 logs)) (\<lambda>(i, n).
       bind_res (ok_or (Bail ''Failed to parse transactionIndex'') n) (\<lambda>n. Inr (i, n)))))"

definition params_of_proof :: "'w migration_env \<Rightarrow> 16 word \<Rightarrow> json option \<Rightarrow> finalize_params res" where
  "params_of_proof V n answer =
     bind_res (ok_or (Bail ''zks_getL2ToL1LogProof'') answer) (\<lambda>raw.
     if raw = JNull then Inl (Bail ''zks_getL2ToL1LogProof returned null'')
     else bind_res (ok_or (Bail ''Failed to parse zks_getL2ToL1LogProof response'') (me_read_log_proof V raw)) (\<lambda>proof.
       Inr \<lparr>fp_batch_number = lp_batch_number proof, fp_l2_message_index = lp_id proof, fp_l2_tx_number_in_batch = n,
         fp_merkle_proof = lp_proof proof\<rparr>))"

definition get_finalize_params :: "ext \<Rightarrow> 'w migration_env \<Rightarrow> string \<Rightarrow> b256 \<Rightarrow> 'w \<Rightarrow> finalize_params res \<times> 'w" where
  "get_finalize_params E V url tx_hash w =
     (if \<not> me_url_ok V url then (Inl (Bail ''invalid RPC URL''), w)
      else case me_request V w url ''eth_getTransactionReceipt'' [JStr (hash_line E tx_hash)] of
        (answer, w1) \<Rightarrow> (case bootloader_log V answer of
          Inl e \<Rightarrow> (Inl e, w1)
        | Inr (log_index, n) \<Rightarrow>
            (case me_request V w1 url ''zks_getL2ToL1LogProof'' [JStr (hash_line E tx_hash), JNum (Some (of_nat log_index))] of
              (answer, w2) \<Rightarrow> (params_of_proof V n answer, w2))))"

definition params_body :: "ext \<Rightarrow> 'w migration_env \<Rightarrow> string \<Rightarrow> b256 \<Rightarrow> nat \<Rightarrow> 'w \<Rightarrow> finalize_params res option \<times> 'w" where
  "params_body E V url tx_hash start w = (case get_finalize_params E V url tx_hash w of
     (Inr p, w') \<Rightarrow> (Some (Inr p), w')
   | (Inl e, w') \<Rightarrow> ((if elapsed V start w' < wait_timeout then None else Some (Inl e)), w'))"

definition parse_merkle_proof :: "ext \<Rightarrow> string list \<Rightarrow> b256 list res" where
  "parse_merkle_proof E = map_res (\<lambda>s. ok_or (Bail ''invalid merkle proof element'') (parse_b256 E (trim_start_matches ''0x'' s)))"

subsection \<open>Finalizing on L1\<close>

record finalize_migration_args =
  fm_shared :: shared_run_args
  fm_bridgehub :: address
  fm_chain_id :: u64
  fm_deployer_address :: address
  fm_gateway_rpc_url :: string
  fm_lookback_blocks :: u64
  fm_priority_op_hash_hint :: "b256 option"

definition priority_op_hash_of :: "ext \<Rightarrow> finalize_migration_args \<Rightarrow> hub_views \<Rightarrow> u64 \<Rightarrow> b256 res" where
  "priority_op_hash_of E args H gw_chain_id = (case fm_priority_op_hash_hint args of
     Some h \<Rightarrow> Inr h
   | None \<Rightarrow>
       bind_res (resolve_zk_chain H (fm_bridgehub args) gw_chain_id) (\<lambda>diamond.
       bind_res (find_migration_tx E H (fm_bridgehub args) (fm_chain_id args) (fm_lookback_blocks args)) (\<lambda>tx.
       extract_priority_op_hash E H tx diamond)))"

definition finish_to :: "ext \<Rightarrow> 'w migration_env \<Rightarrow> finalize_migration_args \<Rightarrow> u64 \<Rightarrow> b256 \<Rightarrow> finalize_params \<Rightarrow> 'w \<Rightarrow> (runner \<times> u64) res \<times> 'w" where
  "finish_to E V args gw_chain_id op_hash p w =
     bind_st (runner_new V (fm_shared args) w) (\<lambda>R w.
     bind_st (prepare_sender (me_fork V) R (fm_deployer_address args) w) (\<lambda>sender w.
     bind_st (parse_merkle_proof E (fp_merkle_proof p), w) (\<lambda>proof w.
     case run_forge V (with_wallet E sender (with_arg Ffi (script_call E V R (finishMigrateChainToGatewayCall (fm_bridgehub args)
         (fp_l2_tx_number_in_batch p) 1 op_hash (ucast (fm_chain_id args)) (ucast gw_chain_id) (ucast (fp_batch_number p))
         (ucast (fp_l2_message_index p)) (fm_gateway_rpc_url args) proof)))) (R, w) of
       (r, R', w') \<Rightarrow> (bind_res r (\<lambda>_. Inr (R', gw_chain_id)), w'))))"

definition finalize_migration :: "ext \<Rightarrow> 'w migration_env \<Rightarrow> finalize_migration_args \<Rightarrow> 'w \<Rightarrow> ((runner \<times> u64) res \<times> 'w) option" where
  "finalize_migration E V args w =
     (let H = fk_views (me_fork V) w (sr_l1_rpc_url (fm_shared args)); url = fm_gateway_rpc_url args
      in bind_loop (Some (resolve_settlement_layer H (fm_bridgehub args) (fm_chain_id args), w)) (\<lambda>gw_chain_id w.
         bind_loop (Some (priority_op_hash_of E args H gw_chain_id, w)) (\<lambda>op_hash w.
         bind_loop (wait_for_l2_tx_receipt E V url op_hash w) (\<lambda>tx_block w.
         bind_loop (wait_for_gateway_block_finalized V url tx_block w) (\<lambda>_ w.
         bind_loop (retry_loop (params_body E V url op_hash (me_instant V w)) (pause_of V) w) (\<lambda>p w.
         Some (finish_to E V args gw_chain_id op_hash p w)))))))"

subsection \<open>Phases towards the gateway\<close>

text \<open>A phase ends by writing its bundles into the directory \<^verbatim>\<open>--out\<close> names, if any, with its output as metadata.\<close>

definition with_runner :: "'a res \<times> runner \<times> 'w \<Rightarrow> ('a \<Rightarrow> json) \<Rightarrow> (runner \<times> json) res \<times> 'w" where
  "with_runner x output = (case x of (r, R, w) \<Rightarrow> (bind_res r (\<lambda>a. Inr (R, output a)), w))"

definition end_phase ::
    "'w migration_env \<Rightarrow> string \<Rightarrow> shared_run_args \<Rightarrow> (runner \<times> json) res \<times> 'w \<Rightarrow> directory option \<Rightarrow> unit res \<times> 'w \<times> directory option" where
  "end_phase V command shared x d = (case x of
     (Inl e, w) \<Rightarrow> (Inl e, w, d)
   | (Inr (R, output), w) \<Rightarrow> (case write_output_if_requested (me_json V) (me_libs V) command d (map fr_payload (rn_runs R))
         (fw_chain_id (me_forge V) w (sr_l1_rpc_url shared)) (of_nat (fw_now_ms (me_forge V) w)) (Some (JObj [])) (Some output) of
       (r, d') \<Rightarrow> (r, w, d')))"

record phase_args =
  pa_shared :: shared_run_args
  pa_topology :: ecosystem_chain_args

definition begin_phase :: "ext \<Rightarrow> 'w migration_env \<Rightarrow> phase_args \<Rightarrow> (address \<Rightarrow> u64 \<Rightarrow> runner \<times> 'w \<Rightarrow> (runner \<times> json) res \<times> 'w) \<Rightarrow> 'w
    \<Rightarrow> (runner \<times> json) res \<times> 'w" where
  "begin_phase E V args stages w =
     bind_st (chain_args_resolve E (me_files V) (pa_topology args), w) (\<lambda>(bridgehub, chain_id) w.
     bind_st (runner_new V (pa_shared args) w) (\<lambda>R w. stages bridgehub chain_id (R, w)))"

definition jnum :: "u64 \<Rightarrow> json" where "jnum n = JNum (Some n)"

definition to_phase0_pause_deposits :: "ext \<Rightarrow> 'w migration_env \<Rightarrow> phase_args \<Rightarrow> 'w \<Rightarrow> directory option \<Rightarrow> unit res \<times> 'w \<times> directory option" where
  "to_phase0_pause_deposits E V args w =
     end_phase V ''chain.gateway.migrate-to.phase-0-pause-deposits'' (pa_shared args) (begin_phase E V args (\<lambda>bridgehub chain_id st.
       with_runner (bind_st (stage_pause_deposits E V bridgehub chain_id st) (\<lambda>_. stage_notify_server E V bridgehub chain_id))
         (\<lambda>_. JObj [(''chain_id'', jnum chain_id)])) w)"

record to_phase1_args = phase_args +
  p1_gateway_chain_id :: u64
  p1_gateway_rpc_url :: string
  p1_l1_gas_price :: u64
  p1_refund_recipient :: address

definition to_phase1_submit :: "ext \<Rightarrow> 'w migration_env \<Rightarrow> to_phase1_args \<Rightarrow> 'w \<Rightarrow> directory option \<Rightarrow> unit res \<times> 'w \<times> directory option" where
  "to_phase1_submit E V args w =
     end_phase V ''chain.gateway.migrate-to.phase-1-submit'' (pa_shared args) (begin_phase E V (phase_args.truncate args) (\<lambda>bridgehub chain_id st.
       with_runner (bind_st (stage_notify_server E V bridgehub chain_id st) (\<lambda>_. stage_submit E V bridgehub chain_id (p1_gateway_chain_id args)
           (p1_gateway_rpc_url args) (p1_l1_gas_price args) (p1_refund_recipient args)))
         (\<lambda>_. JObj [(''chain_id'', jnum chain_id), (''gateway_chain_id'', jnum (p1_gateway_chain_id args))])) w)"

record to_phase2_args = phase_args +
  p2_deployer_address :: address
  p2_gateway_rpc_url :: string
  p2_lookback_blocks :: u64

definition to_phase2_finalize :: "ext \<Rightarrow> 'w migration_env \<Rightarrow> to_phase2_args \<Rightarrow> 'w \<Rightarrow> directory option \<Rightarrow> (unit res \<times> 'w \<times> directory option) option" where
  "to_phase2_finalize E V args w d =
     map_option (\<lambda>x. end_phase V ''chain.gateway.migrate-to.phase-2-finalize'' (pa_shared args) x d)
       (bind_loop (Some (chain_args_resolve E (me_files V) (pa_topology args), w)) (\<lambda>(bridgehub, chain_id) w.
        bind_loop (finalize_migration E V \<lparr>fm_shared = pa_shared args, fm_bridgehub = bridgehub, fm_chain_id = chain_id,
          fm_deployer_address = p2_deployer_address args, fm_gateway_rpc_url = p2_gateway_rpc_url args,
          fm_lookback_blocks = p2_lookback_blocks args, fm_priority_op_hash_hint = None\<rparr> w) (\<lambda>(R, gw_chain_id) w.
        Some (Inr (R, JObj [(''chain_id'', jnum chain_id), (''gateway_chain_id'', jnum gw_chain_id)]), w))))"

record to_phase3_args = phase_args +
  p3_gateway_rpc_url :: string
  p3_commit_operator :: address
  p3_prove_operator :: address
  p3_execute_operator :: address
  p3_gateway_validator_timelock :: "address option"
  p3_l1_da_validator :: address
  p3_l2_da_commitment_scheme :: L2DACommitmentScheme
  p3_l1_gas_price :: u64

definition to_phase3_validators :: "ext \<Rightarrow> 'w migration_env \<Rightarrow> to_phase3_args \<Rightarrow> 'w \<Rightarrow> directory option \<Rightarrow> unit res \<times> 'w \<times> directory option" where
  "to_phase3_validators E V args w =
     end_phase V ''chain.gateway.migrate-to.phase-3-validators'' (pa_shared args) (begin_phase E V (phase_args.truncate args) (\<lambda>bridgehub chain_id st.
       with_runner (bind_st (stage_enable_validators E V bridgehub chain_id \<lparr>ev_commit_operator = p3_commit_operator args,
           ev_prove_operator = p3_prove_operator args, ev_execute_operator = p3_execute_operator args,
           ev_gateway_validator_timelock = p3_gateway_validator_timelock args, ev_gateway_rpc_url = p3_gateway_rpc_url args,
           ev_l1_gas_price = p3_l1_gas_price args\<rparr> st) (\<lambda>(gw_chain_id, n_validators) st.
         bind_st (stage_set_da_validator_pair E V bridgehub chain_id \<lparr>sd_l1_da_validator = p3_l1_da_validator args,
           sd_l2_da_commitment_scheme = p3_l2_da_commitment_scheme args, sd_gateway_rpc_url = p3_gateway_rpc_url args,
           sd_l1_gas_price = p3_l1_gas_price args\<rparr> st) (\<lambda>(_, diamond) st. (Inr (gw_chain_id, n_validators, diamond), st))))
         (\<lambda>(gw_chain_id, n_validators, diamond). JObj [(''chain_diamond_on_gateway'', JStr (address_text E diamond)),
           (''chain_id'', jnum chain_id), (''gateway_chain_id'', jnum gw_chain_id), (''l1_da_validator'', JStr (address_text E (p3_l1_da_validator args))),
           (''validators_enabled'', jnum (of_nat n_validators))])) w)"

datatype migrate_to_command = To_Phase0PauseDeposits phase_args | To_Phase1Submit to_phase1_args | To_Phase2Finalize to_phase2_args
  | To_Phase3Validators to_phase3_args

fun run_migrate_to :: "ext \<Rightarrow> 'w migration_env \<Rightarrow> migrate_to_command \<Rightarrow> 'w \<Rightarrow> directory option \<Rightarrow> (unit res \<times> 'w \<times> directory option) option" where
  "run_migrate_to E V (To_Phase0PauseDeposits args) w d = Some (to_phase0_pause_deposits E V args w d)"
| "run_migrate_to E V (To_Phase1Submit args) w d = Some (to_phase1_submit E V args w d)"
| "run_migrate_to E V (To_Phase2Finalize args) w d = to_phase2_finalize E V args w d"
| "run_migrate_to E V (To_Phase3Validators args) w d = Some (to_phase3_validators E V args w d)"

section \<open>From the gateway\<close>

definition stage_notify_server_from :: "ext \<Rightarrow> 'w migration_env \<Rightarrow> address \<Rightarrow> u64 \<Rightarrow> runner \<times> 'w \<Rightarrow> unit res \<times> runner \<times> 'w" where
  "stage_notify_server_from E V bridgehub chain_id st = (case st of (R, w) \<Rightarrow>
     bind_st (on_world R (prepare_chain_admin (me_fork V) R bridgehub chain_id w)) (\<lambda>sender st.
     run_forge V (with_wallet E sender (script_call E V R (notifyServerMigrationFromGatewayCall bridgehub (ucast chain_id) True))) st))"

definition CUT_DATA_TOPIC :: string where
  "CUT_DATA_TOPIC = ''NewUpgradeCutData(uint256,(((address,uint8,bool,bytes4[]))[],address,bytes))''"

definition resolve_l1_diamond_cut_data :: "ext \<Rightarrow> 'w migration_env \<Rightarrow> hub_views \<Rightarrow> address \<Rightarrow> u64 \<Rightarrow> bytes res" where
  "resolve_l1_diamond_cut_data E V H bridgehub chain_id =
     bind_res (ok_or (Bail ''bridgehub.chainTypeManager call'') (hv_chainTypeManager H bridgehub (ucast chain_id))) (\<lambda>ctm.
     bind_res (ok_or (Bail ''ctm.getProtocolVersion call'') (hv_getProtocolVersion H ctm (ucast chain_id))) (\<lambda>version.
     bind_res (ok_or (Bail ''eth_getLogs for NewUpgradeCutData'') (hv_get_logs H \<lparr>lf_address = ctm,
       lf_topic0 = keccak256 E (string_bytes CUT_DATA_TOPIC), lf_topic1 = Some version, lf_from = 0, lf_to = None\<rparr>)) (\<lambda>logs.
     if logs = [] then Inl (Bail ''No NewUpgradeCutData event'')
     else bind_res (ok_or (Bail ''ABI-decode NewUpgradeCutData log'') (me_decode_cut V (el_data (last logs)))) (\<lambda>decoded.
       Inr (me_encode_cut V decoded)))))"

definition cut_data_hex :: "ext \<Rightarrow> 'w migration_env \<Rightarrow> string option \<Rightarrow> hub_views \<Rightarrow> address \<Rightarrow> u64 \<Rightarrow> string res" where
  "cut_data_hex E V provided H bridgehub chain_id = (case provided of
     Some s \<Rightarrow> Inr (''0x'' @ trim_start_matches ''0x'' s)
   | None \<Rightarrow> bind_res (resolve_l1_diamond_cut_data E V H bridgehub chain_id) (\<lambda>bs. Inr (''0x'' @ hex_encode E bs)))"

definition stage_submit_from ::
    "ext \<Rightarrow> 'w migration_env \<Rightarrow> address \<Rightarrow> u64 \<Rightarrow> u64 \<Rightarrow> string option \<Rightarrow> address \<Rightarrow> shared_run_args \<Rightarrow> runner \<times> 'w \<Rightarrow> u64 res \<times> runner \<times> 'w" where
  "stage_submit_from E V bridgehub chain_id l1_gas_price provided refund_recipient shared st = (case st of (R, w) \<Rightarrow>
     bind_st (on_world R (prepare_chain_admin (me_fork V) R bridgehub chain_id w)) (\<lambda>sender (R, w).
     bind_st (resolve_settlement_layer (fk_views (me_fork V) w (rn_rpc_url R)) bridgehub chain_id, R, w) (\<lambda>gw_chain_id (R, w).
     bind_st (cut_data_hex E V provided (fk_views (me_fork V) w (sr_l1_rpc_url shared)) bridgehub chain_id, R, w) (\<lambda>hex st.
     bind_st (ok_or (Bail ''invalid L1 diamond cut data hex'') (hex_decode E (trim_start_matches ''0x'' hex)), st) (\<lambda>cut_data st.
     bind_st (run_forge V (with_wallet E sender (script_call E V R (startMigrateChainFromGatewayCall bridgehub (ucast l1_gas_price)
       (ucast chain_id) (ucast gw_chain_id) cut_data refund_recipient True))) st) (\<lambda>_ st. (Inr gw_chain_id, st)))))))"

definition stage_set_da_validator_pair_from ::
    "ext \<Rightarrow> 'w migration_env \<Rightarrow> address \<Rightarrow> u64 \<Rightarrow> address \<Rightarrow> L2DACommitmentScheme \<Rightarrow> runner \<times> 'w \<Rightarrow> unit res \<times> runner \<times> 'w" where
  "stage_set_da_validator_pair_from E V bridgehub chain_id l1_da_validator scheme st = (case st of (R, w) \<Rightarrow>
     let access_control_restriction = 0
     in bind_st (on_world R (prepare_chain_admin_broadcaster (me_fork V) R bridgehub chain_id access_control_restriction w)) (\<lambda>sender st.
        run_forge V (with_wallet E sender (script_call E V R (setDAValidatorPairCall bridgehub access_control_restriction (ucast chain_id)
          l1_da_validator (scheme_as_u8 scheme) True))) st))"

subsection \<open>The withdrawal\<close>

text \<open>A reverted priority transaction is told from the failures that are retried.\<close>

datatype withdrawal_error = TxRevertedError b256 | OtherError failure

fun error_of :: "withdrawal_error \<Rightarrow> failure" where
  "error_of (TxRevertedError h) = Bail ''Migration tx reverted''"
| "error_of (OtherError e) = e"

record withdrawal_params =
  wp_l2_batch_number :: u64
  wp_l2_message_index :: u64
  wp_l2_tx_number_in_batch :: "16 word"
  wp_message :: bytes
  wp_merkle_proof :: "b256 list"

definition l1_messenger_address :: address where "l1_messenger_address = 0x8008"

definition l1_message_sent_topic :: "ext \<Rightarrow> b256" where
  "l1_message_sent_topic E = keccak256 E (string_bytes ''L1MessageSent(address,bytes32,bytes)'')"

definition str_or :: "json \<Rightarrow> string \<Rightarrow> string \<Rightarrow> string" where
  "str_or j k dflt = (case get_str j k of Some s \<Rightarrow> s | None \<Rightarrow> dflt)"

text \<open>What is asked of the gateway to explain a reverted transaction.\<close>

definition replay_reverted :: "'w migration_env \<Rightarrow> string \<Rightarrow> string \<Rightarrow> json \<Rightarrow> 'w \<Rightarrow> 'w" where
  "replay_reverted V url hash_text_arg receipt w =
     (case me_request V w url ''eth_getTransactionByHash'' [JStr hash_text_arg] of
        (answer, w1) \<Rightarrow> snd (me_request V w1 url ''eth_call'' [JObj [(''data'', JStr (str_or (case answer of Some t \<Rightarrow> t | None \<Rightarrow> JNull) ''input'' ''0x'')),
          (''from'', JStr (str_or receipt ''from'' ''0x0'')), (''to'', JStr (str_or receipt ''to'' ''?''))],
          JStr (str_or receipt ''blockNumber'' ''latest'')]))"

definition is_message_log :: "ext \<Rightarrow> raw_log \<Rightarrow> bool" where
  "is_message_log E l \<longleftrightarrow> map to_ascii_lowercase (rl_address l) = map to_ascii_lowercase (address_text E l1_messenger_address)
     \<and> rl_topics l \<noteq> [] \<and> map to_ascii_lowercase (hd (rl_topics l)) = hash_line E (l1_message_sent_topic E)"

definition withdrawal_message :: "ext \<Rightarrow> 'w migration_env \<Rightarrow> zksync_l2_receipt \<Rightarrow> (nat \<times> 16 word \<times> bytes) res" where
  "withdrawal_message E V receipt =
     bind_res (ok_or (Bail ''No L2->L1 log from L1Messenger in withdrawal receipt'')
       (log_from (map to_ascii_lowercase (address_text E l1_messenger_address)) 0 (zr_l2_to_l1_logs receipt))) (\<lambda>(i, n).
     bind_res (ok_or (Bail ''Failed to parse transactionIndex as u16'') n) (\<lambda>tx_number.
     bind_res (ok_or (Bail ''No L1MessageSent event in withdrawal tx logs on gateway'') (List.find (is_message_log E) (zr_logs receipt))) (\<lambda>l.
     bind_res (ok_or (Bail ''Failed to decode L1MessageSent log data hex'') (hex_decode E (trim_start_matches ''0x'' (rl_data l)))) (\<lambda>bs.
     bind_res (ok_or (Bail ''Failed to ABI-decode L1MessageSent log data'') (me_decode_bytes V bs)) (\<lambda>message.
     Inr (i, tx_number, message))))))"

definition get_finalize_withdrawal_params ::
    "ext \<Rightarrow> 'w migration_env \<Rightarrow> string \<Rightarrow> b256 \<Rightarrow> 'w \<Rightarrow> (withdrawal_error + withdrawal_params) \<times> 'w" where
  "get_finalize_withdrawal_params E V url tx_hash w =
     (if \<not> me_url_ok V url then (Inl (OtherError (Bail ''invalid RPC URL'')), w)
      else case me_request V w url ''eth_getTransactionReceipt'' [JStr (hash_line E tx_hash)] of
        (None, w1) \<Rightarrow> (Inl (OtherError (Bail ''eth_getTransactionReceipt'')), w1)
      | (Some raw, w1) \<Rightarrow>
          if raw = JNull then (Inl (OtherError (Bail ''eth_getTransactionReceipt returned null'')), w1)
          else if str_or raw ''status'' ''?'' = ''0x0'' then (Inl (TxRevertedError tx_hash), replay_reverted V url (hash_line E tx_hash) raw w1)
          else (case bind_res (ok_or (Bail ''Failed to parse receipt response'') (me_read_zksync_receipt V raw)) (withdrawal_message E V) of
            Inl e \<Rightarrow> (Inl (OtherError e), w1)
          | Inr (i, tx_number, message) \<Rightarrow> (case me_proof V w1 url (hash_line E tx_hash) (of_nat i) of
              (None, w2) \<Rightarrow> (Inl (OtherError (Bail ''zks_getL2ToL1LogProof'')), w2)
            | (Some proof, w2) \<Rightarrow> (Inr \<lparr>wp_l2_batch_number = lp_batch_number proof, wp_l2_message_index = lp_id proof,
                wp_l2_tx_number_in_batch = tx_number, wp_message = message, wp_merkle_proof = lp_proof proof\<rparr>, w2))))"

definition withdrawal_body :: "ext \<Rightarrow> 'w migration_env \<Rightarrow> string \<Rightarrow> b256 \<Rightarrow> nat \<Rightarrow> 'w \<Rightarrow> withdrawal_params res option \<times> 'w" where
  "withdrawal_body E V url tx_hash start w = (case get_finalize_withdrawal_params E V url tx_hash w of
     (Inr p, w') \<Rightarrow> (Some (Inr p), w')
   | (Inl e, w') \<Rightarrow>
       ((if (case e of TxRevertedError _ \<Rightarrow> True | OtherError _ \<Rightarrow> False) \<or> wait_timeout \<le> elapsed V start w' then Some (Inl (error_of e))
         else None), w'))"

definition executed_body :: "'w migration_env \<Rightarrow> string \<Rightarrow> address \<Rightarrow> u64 \<Rightarrow> nat \<Rightarrow> 'w \<Rightarrow> unit res option \<times> 'w" where
  "executed_body V l1_rpc_url diamond target_batch start w =
     ((case hv_getTotalBatchesExecuted (fk_views (me_fork V) w l1_rpc_url) diamond of
         None \<Rightarrow> Some (Inl (Bail ''gateway diamond getTotalBatchesExecuted''))
       | Some executed \<Rightarrow>
           if ucast target_batch \<le> executed then Some (Inr ())
           else if wait_timeout \<le> elapsed V start w then Some (Inl (Bail ''timeout waiting for gateway batch to be executed on L1''))
           else None), w)"

definition wait_for_gateway_batch_executed_on_l1 :: "'w migration_env \<Rightarrow> string \<Rightarrow> address \<Rightarrow> u64 \<Rightarrow> u64 \<Rightarrow> 'w \<Rightarrow> (unit res \<times> 'w) option" where
  "wait_for_gateway_batch_executed_on_l1 V l1_rpc_url bridgehub gw_chain_id target_batch w =
     (if \<not> me_url_ok V l1_rpc_url then Some (Inl (Bail ''connect L1 provider''), w)
      else bind_loop (Some (resolve_zk_chain (fk_views (me_fork V) w l1_rpc_url) bridgehub gw_chain_id, w)) (\<lambda>diamond w.
        retry_loop (executed_body V l1_rpc_url diamond target_batch (me_instant V w)) (pause_of V) w))"

subsection \<open>Phases from the gateway\<close>

definition from_phase0_pause_deposits :: "ext \<Rightarrow> 'w migration_env \<Rightarrow> phase_args \<Rightarrow> 'w \<Rightarrow> directory option \<Rightarrow> unit res \<times> 'w \<times> directory option" where
  "from_phase0_pause_deposits E V args w =
     end_phase V ''chain.gateway.migrate-from.phase-0-pause-deposits'' (pa_shared args) (begin_phase E V args (\<lambda>bridgehub chain_id st.
       with_runner (bind_st (stage_pause_deposits E V bridgehub chain_id st) (\<lambda>_. stage_notify_server_from E V bridgehub chain_id))
         (\<lambda>_. JObj [(''chain_id'', jnum chain_id)])) w)"

record from_phase1_args = phase_args +
  f1_l1_gas_price :: u64
  f1_l1_diamond_cut_data :: "string option"
  f1_refund_recipient :: address

definition from_phase1_submit :: "ext \<Rightarrow> 'w migration_env \<Rightarrow> from_phase1_args \<Rightarrow> 'w \<Rightarrow> directory option \<Rightarrow> unit res \<times> 'w \<times> directory option" where
  "from_phase1_submit E V args w =
     end_phase V ''chain.gateway.migrate-from.phase-1-submit'' (pa_shared args) (begin_phase E V (phase_args.truncate args) (\<lambda>bridgehub chain_id st.
       with_runner (stage_submit_from E V bridgehub chain_id (f1_l1_gas_price args) (f1_l1_diamond_cut_data args) (f1_refund_recipient args)
           (pa_shared args) st)
         (\<lambda>gw_chain_id. JObj [(''chain_id'', jnum chain_id), (''gateway_chain_id'', jnum gw_chain_id)])) w)"

record from_phase2_args = phase_args +
  f2_deployer_address :: address
  f2_gateway_rpc_url :: string
  f2_migration_l2_tx_hash :: b256

definition finish_from ::
    "ext \<Rightarrow> 'w migration_env \<Rightarrow> from_phase2_args \<Rightarrow> address \<Rightarrow> u64 \<Rightarrow> u64 \<Rightarrow> withdrawal_params \<Rightarrow> 'w \<Rightarrow> (runner \<times> json) res \<times> 'w" where
  "finish_from E V args bridgehub chain_id gw_chain_id p w =
     bind_st (runner_new V (pa_shared args) w) (\<lambda>R w.
     bind_st (prepare_sender (me_fork V) R (f2_deployer_address args) w) (\<lambda>sender w.
     with_runner (run_forge V (with_wallet E sender (with_arg Ffi (script_call E V R (finishMigrateChainFromGatewayCall bridgehub
         (ucast chain_id) (ucast gw_chain_id) (ucast (wp_l2_batch_number p)) (ucast (wp_l2_message_index p)) (wp_l2_tx_number_in_batch p)
         (wp_message p) (wp_merkle_proof p))))) (R, w))
       (\<lambda>_. JObj [(''chain_id'', jnum chain_id), (''gateway_chain_id'', jnum gw_chain_id)])))"

definition from_phase2_finalize :: "ext \<Rightarrow> 'w migration_env \<Rightarrow> from_phase2_args \<Rightarrow> 'w \<Rightarrow> directory option \<Rightarrow> (unit res \<times> 'w \<times> directory option) option" where
  "from_phase2_finalize E V args w d =
     (let l1 = sr_l1_rpc_url (pa_shared args); url = f2_gateway_rpc_url args; tx = f2_migration_l2_tx_hash args
      in map_option (\<lambda>x. end_phase V ''chain.gateway.migrate-from.phase-2-finalize'' (pa_shared args) x d)
        (bind_loop (Some (chain_args_resolve E (me_files V) (pa_topology args), w)) (\<lambda>(bridgehub, chain_id) w.
         bind_loop (Some (resolve_settlement_layer (fk_views (me_fork V) w l1) bridgehub chain_id, w)) (\<lambda>gw_chain_id w.
         bind_loop (wait_for_l2_tx_receipt E V url tx w) (\<lambda>_ w.
         bind_loop (retry_loop (withdrawal_body E V url tx (me_instant V w)) (pause_of V) w) (\<lambda>p w.
         bind_loop (wait_for_gateway_batch_executed_on_l1 V l1 bridgehub gw_chain_id (wp_l2_batch_number p) w) (\<lambda>_ w.
         Some (finish_from E V args bridgehub chain_id gw_chain_id p w))))))))"

record from_phase3_args = phase_args +
  f3_l1_da_validator :: address
  f3_l2_da_commitment_scheme :: L2DACommitmentScheme

definition from_phase3_set_da_validator_pair ::
    "ext \<Rightarrow> 'w migration_env \<Rightarrow> from_phase3_args \<Rightarrow> 'w \<Rightarrow> directory option \<Rightarrow> unit res \<times> 'w \<times> directory option" where
  "from_phase3_set_da_validator_pair E V args w =
     end_phase V ''chain.gateway.migrate-from.phase-3-set-da-validator-pair'' (pa_shared args)
       (begin_phase E V (phase_args.truncate args) (\<lambda>bridgehub chain_id st.
         with_runner (stage_set_da_validator_pair_from E V bridgehub chain_id (f3_l1_da_validator args) (f3_l2_da_commitment_scheme args) st)
           (\<lambda>_. JObj [(''chain_id'', jnum chain_id), (''l1_da_validator'', JStr (address_text E (f3_l1_da_validator args)))])) w)"

datatype migrate_from_command = From_Phase0PauseDeposits phase_args | From_Phase1Submit from_phase1_args | From_Phase2Finalize from_phase2_args
  | From_Phase3SetDaValidatorPair from_phase3_args

fun run_migrate_from :: "ext \<Rightarrow> 'w migration_env \<Rightarrow> migrate_from_command \<Rightarrow> 'w \<Rightarrow> directory option \<Rightarrow> (unit res \<times> 'w \<times> directory option) option" where
  "run_migrate_from E V (From_Phase0PauseDeposits args) w d = Some (from_phase0_pause_deposits E V args w d)"
| "run_migrate_from E V (From_Phase1Submit args) w d = Some (from_phase1_submit E V args w d)"
| "run_migrate_from E V (From_Phase2Finalize args) w d = from_phase2_finalize E V args w d"
| "run_migrate_from E V (From_Phase3SetDaValidatorPair args) w d = Some (from_phase3_set_da_validator_pair E V args w d)"

end
