(* ===== verification/Migration_Runs.thy ===== *)
theory Migration_Runs
  imports Gateway_Migration
begin

text \<open>
  The runs of the migration phases of \<open>Gateway_Migration\<close>: every wait is over after at most 152 rounds once the clock
  moves, a run that finalizes a migration forks L1 only after it has observed what the proof it submits needs, and what
  validators and cut data reach the scripts.
\<close>

section \<open>The loops return\<close>

text \<open>The loop cut off after a number of rounds.\<close>

fun rounds :: "nat \<Rightarrow> ('w \<Rightarrow> 'a res option \<times> 'w) \<Rightarrow> ('w \<Rightarrow> 'w) \<Rightarrow> 'w \<Rightarrow> ('a res \<times> 'w) option" where
  "rounds 0 body pause w = None"
| "rounds (Suc n) body pause w = (case body w of (Some r, w') \<Rightarrow> Some (r, w') | (None, w') \<Rightarrow> rounds n body pause (pause w'))"

lemma retry_loop_rounds:
  fixes clock :: "'w \<Rightarrow> nat"
  assumes forward: "\<And>w. clock w \<le> clock (snd (body w))" and slept: "\<And>w. clock w + d \<le> clock (pause w)"
    and ends: "\<And>w. fst (body w) = None \<Longrightarrow> clock w \<le> limit"
    and enough: "limit < clock w + n * d"
  shows "retry_loop body pause w = rounds (Suc n) body pause w \<and> rounds (Suc n) body pause w \<noteq> None"
  using enough
proof (induction n arbitrary: w)
  case 0
  then show ?case using ends [of w] by (subst retry_loop.simps) (auto split: prod.splits option.splits)
next
  case (Suc n)
  have "limit < clock (pause (snd (body w))) + n * d"
    using Suc.prems forward [of w] slept [of "snd (body w)"] by simp
  from Suc.IH [OF this] show ?case
    by (subst retry_loop.simps) (auto split: prod.splits option.splits)
qed

text \<open>What a clock documents: asking takes no time back, and sleeping takes at least as long as asked for.\<close>

definition clock_moves :: "'w migration_env \<Rightarrow> bool" where
  "clock_moves V \<longleftrightarrow> (\<forall>w n. me_instant V w + n \<le> me_instant V (me_sleep V w n))
     \<and> (\<forall>w url h. me_instant V w \<le> me_instant V (snd (me_receipt V w url h)))
     \<and> (\<forall>w url. me_instant V w \<le> me_instant V (snd (me_finalized V w url)))
     \<and> (\<forall>w url m ps. me_instant V w \<le> me_instant V (snd (me_request V w url m ps)))
     \<and> (\<forall>w url h i. me_instant V w \<le> me_instant V (snd (me_proof V w url h i)))"

definition poll_limit :: nat where "poll_limit = 152"

definition body_ends :: "'w migration_env \<Rightarrow> nat \<Rightarrow> ('w \<Rightarrow> 'a res option \<times> 'w) \<Rightarrow> bool" where
  "body_ends V start body \<longleftrightarrow> (\<forall>w. me_instant V w \<le> me_instant V (snd (body w))
     \<and> (fst (body w) = None \<longrightarrow> me_instant V w \<le> start + wait_timeout))"

lemma body_rounds:
  assumes "clock_moves V" "body_ends V (me_instant V w) body"
  shows "retry_loop body (pause_of V) w = rounds poll_limit body (pause_of V) w" "rounds poll_limit body (pause_of V) w \<noteq> None"
proof -
  have *: "\<And>w. me_instant V w \<le> me_instant V (snd (body w))" "\<And>w. me_instant V w + seconds 2 \<le> me_instant V (pause_of V w)"
    "\<And>w'. fst (body w') = None \<Longrightarrow> me_instant V w' \<le> me_instant V w + wait_timeout"
    "me_instant V w + wait_timeout < me_instant V w + 151 * seconds 2" "Suc 151 = poll_limit"
    using assms by (simp_all add: clock_moves_def body_ends_def pause_of_def wait_timeout_def seconds_def poll_limit_def)
  show "retry_loop body (pause_of V) w = rounds poll_limit body (pause_of V) w" "rounds poll_limit body (pause_of V) w \<noteq> None"
    using retry_loop_rounds [of "me_instant V" body "seconds 2" "pause_of V", OF *(1,2,3,4)] unfolding *(5) by simp_all
qed

lemma moves:
  assumes "clock_moves V"
  shows "me_receipt V w url h = (x, w') \<Longrightarrow> me_instant V w \<le> me_instant V w'" "me_finalized V w url = (y, w') \<Longrightarrow> me_instant V w \<le> me_instant V w'"
    "me_request V w url m ps = (z, w') \<Longrightarrow> me_instant V w \<le> me_instant V w'" "me_proof V w url h i = (u, w') \<Longrightarrow> me_instant V w \<le> me_instant V w'"
  using assms unfolding clock_moves_def by (metis snd_conv)+

lemma get_finalize_params_forward:
  assumes "clock_moves V"
  shows "me_instant V w \<le> me_instant V (snd (get_finalize_params E V url h w))"
proof -
  obtain a1 w1 where 1: "me_request V w url ''eth_getTransactionReceipt'' [JStr (hash_line E h)] = (a1, w1)" by fastforce
  have "me_instant V w1 \<le> me_instant V (snd (me_request V w1 url m ps))" for m ps
    using assms by (simp add: clock_moves_def)
  then have "me_instant V w1 \<le> me_instant V (snd (get_finalize_params E V url h w)) \<or> get_finalize_params E V url h w = (fst (get_finalize_params E V url h w), w)"
    by (auto simp: get_finalize_params_def 1 bind_st_def split: prod.splits sum.splits) (metis snd_conv)+
  with moves(3) [OF assms 1] show ?thesis by (metis order.trans order_refl snd_conv)
qed

lemma bodies_end:
  assumes "clock_moves V"
  shows "body_ends V start (l2_tx_receipt_body E V url h start)" "body_ends V start (finalized_body V url blk start)"
    "body_ends V start (params_body E V url h start)" "body_ends V start (executed_body V l1 diamond batch start)"
proof -
  show "body_ends V start (l2_tx_receipt_body E V url h start)"
    using moves(1) [OF assms] by (auto simp: body_ends_def l2_tx_receipt_body_def elapsed_def split: prod.splits option.splits)
  show "body_ends V start (finalized_body V url blk start)"
    using moves(2) [OF assms] by (auto simp: body_ends_def finalized_body_def elapsed_def split: prod.splits)
  show "body_ends V start (executed_body V l1 diamond batch start)"
    by (auto simp: body_ends_def executed_body_def elapsed_def split: option.splits if_splits)
  show "body_ends V start (params_body E V url h start)"
    unfolding body_ends_def
  proof (intro allI conjI impI)
    fix w
    obtain r w' where g: "get_finalize_params E V url h w = (r, w')" by fastforce
    have le: "me_instant V w \<le> me_instant V w'" using get_finalize_params_forward [OF assms, of w E url h] g by simp
    then show "me_instant V w \<le> me_instant V (snd (params_body E V url h start w))"
      by (simp add: params_body_def g split: sum.splits)
    show "me_instant V w \<le> start + wait_timeout" if "fst (params_body E V url h start w) = None"
      using that le by (simp add: params_body_def g elapsed_def split: sum.splits if_splits)
  qed
qed

lemma withdrawal_forward:
  assumes "clock_moves V"
  shows "me_instant V w \<le> me_instant V (snd (get_finalize_withdrawal_params E V url h w))"
proof -
  obtain a1 w1 where 1: "me_request V w url ''eth_getTransactionReceipt'' [JStr (hash_line E h)] = (a1, w1)" by fastforce
  have le: "me_instant V w \<le> me_instant V w1" using moves(3) [OF assms 1] .
  have req: "me_instant V u \<le> me_instant V (snd (me_request V u url m ps))" for u m ps
    using assms by (simp add: clock_moves_def)
  have replayed: "me_instant V w1 \<le> me_instant V (replay_reverted V url t raw w1)" for t raw
    unfolding replay_reverted_def
    by (cases "me_request V w1 url ''eth_getTransactionByHash'' [JStr t]") (use req moves(3) [OF assms] in \<open>simp, blast intro: order_trans\<close>)
  have proof_le: "me_instant V w1 \<le> me_instant V (snd (me_proof V w1 url t i))" for t i
    using assms by (simp add: clock_moves_def)
  have "me_instant V w1 \<le> me_instant V (snd (get_finalize_withdrawal_params E V url h w)) \<or> snd (get_finalize_withdrawal_params E V url h w) = w"
    using replayed proof_le by (auto simp: get_finalize_withdrawal_params_def 1 split: prod.splits sum.splits option.splits) (metis snd_conv)+
  with le show ?thesis by auto
qed

lemma withdrawal_body_ends:
  assumes "clock_moves V"
  shows "body_ends V start (withdrawal_body E V url h start)"
  unfolding body_ends_def
proof (intro allI conjI impI)
  fix w
  obtain r w' where g: "get_finalize_withdrawal_params E V url h w = (r, w')" by fastforce
  have le: "me_instant V w \<le> me_instant V w'" using withdrawal_forward [OF assms, of w E url h] g by simp
  then show "me_instant V w \<le> me_instant V (snd (withdrawal_body E V url h start w))"
    by (simp add: withdrawal_body_def g split: sum.splits)
  show "me_instant V w \<le> start + wait_timeout" if "fst (withdrawal_body E V url h start w) = None"
    using that le by (auto simp: withdrawal_body_def g elapsed_def split: sum.splits if_splits)
qed

lemma bind_loop_some: "x \<noteq> None \<Longrightarrow> (\<And>a w. f a w \<noteq> None) \<Longrightarrow> bind_loop x f \<noteq> None"
  by (auto simp: bind_loop_def split: option.splits prod.splits sum.splits)

lemma waits_return:
  assumes "clock_moves V"
  shows "wait_for_l2_tx_receipt E V url h w \<noteq> None" "wait_for_gateway_block_finalized V url blk w \<noteq> None"
    "wait_for_gateway_batch_executed_on_l1 V l1 bh gw batch w \<noteq> None"
    "retry_loop (params_body E V url h (me_instant V w)) (pause_of V) w \<noteq> None"
    "retry_loop (withdrawal_body E V url h (me_instant V w)) (pause_of V) w \<noteq> None"
proof -
  note returns = body_rounds [OF assms bodies_end(1) [OF assms]] body_rounds [OF assms bodies_end(2) [OF assms]]
    body_rounds [OF assms bodies_end(3) [OF assms]] body_rounds [OF assms bodies_end(4) [OF assms]] body_rounds [OF assms withdrawal_body_ends [OF assms]]
  show "wait_for_l2_tx_receipt E V url h w \<noteq> None" "wait_for_gateway_block_finalized V url blk w \<noteq> None"
    "retry_loop (params_body E V url h (me_instant V w)) (pause_of V) w \<noteq> None"
    "retry_loop (withdrawal_body E V url h (me_instant V w)) (pause_of V) w \<noteq> None"
    using returns by (simp_all add: wait_for_l2_tx_receipt_def wait_for_gateway_block_finalized_def)
  show "wait_for_gateway_batch_executed_on_l1 V l1 bh gw batch w \<noteq> None"
    unfolding wait_for_gateway_batch_executed_on_l1_def using returns by (auto simp: bind_loop_def split: sum.splits)
qed

lemma finalize_migration_returns: "clock_moves V \<Longrightarrow> finalize_migration E V args w \<noteq> None"
  unfolding finalize_migration_def Let_def by (intro bind_loop_some waits_return) simp_all

lemma migrations_return:
  assumes "clock_moves V"
  shows "run_migrate_to E V c w d \<noteq> None" "run_migrate_from E V c' w d \<noteq> None"
proof -
  have "to_phase2_finalize E V args w d \<noteq> None" for args
    unfolding to_phase2_finalize_def option.map_disc_iff
    unfolding case_prod_unfold by (intro bind_loop_some finalize_migration_returns assms) simp_all
  then show "run_migrate_to E V c w d \<noteq> None" by (cases c) simp_all
  have "from_phase2_finalize E V args w d \<noteq> None" for args
    unfolding from_phase2_finalize_def Let_def option.map_disc_iff case_prod_unfold
    by (intro bind_loop_some waits_return assms) simp_all
  then show "run_migrate_from E V c' w d \<noteq> None" by (cases c') simp_all
qed

section \<open>What has been observed before the fork\<close>

text \<open>An environment that also keeps what was asked and done, with the world in which L1 was forked.\<close>

datatype 'w migration_event = Asked_Receipt string string "minimal_receipt option option" | Asked_Finalized string "string option option option"
  | Forked 'w string | Funded string address | Ran string "string list"

definition log_answer :: "('a \<times> 'w) \<Rightarrow> ('a \<Rightarrow> 'w migration_event) \<Rightarrow> 'w migration_event list \<Rightarrow> 'a \<times> 'w \<times> 'w migration_event list" where
  "log_answer x ev l = (case x of (a, w) \<Rightarrow> (a, w, l @ [ev a]))"

definition pass :: "('a \<times> 'w) \<Rightarrow> 'e list \<Rightarrow> 'a \<times> 'w \<times> 'e list" where
  "pass x l = (case x of (a, w) \<Rightarrow> (a, w, l))"

definition observed :: "'w migration_env \<Rightarrow> ('w \<times> 'w migration_event list) migration_env" where
  "observed V = \<lparr>
     me_forge = \<lparr>fw_exec = (\<lambda>(w, l) base path args envs. log_answer (fw_exec (me_forge V) w base path args envs) (\<lambda>_. Ran path args) l),
       fw_exists = (\<lambda>(w, l). fw_exists (me_forge V) w), fw_read = (\<lambda>(w, l). fw_read (me_forge V) w),
       fw_now_ms = (\<lambda>(w, l). fw_now_ms (me_forge V) w), fw_chain_id = (\<lambda>(w, l). fw_chain_id (me_forge V) w)\<rparr>,
     me_fork = \<lparr>fk_views = (\<lambda>(w, l). fk_views (me_fork V) w),
       fk_set_balance = (\<lambda>(w, l) url a. log_answer (fk_set_balance (me_fork V) w url a) (\<lambda>_. Funded url a) l)\<rparr>,
     me_files = me_files V, me_json = me_json V, me_libs = me_libs V,
     me_anvil_fork = (\<lambda>(w, l) url. log_answer (me_anvil_fork V w url) (\<lambda>_. Forked w url) l),
     me_create_dir = (\<lambda>(w, l) d. pass (me_create_dir V w d) l),
     me_instant = (\<lambda>(w, l). me_instant V w), me_sleep = (\<lambda>(w, l) n. (me_sleep V w n, l)), me_url_ok = me_url_ok V,
     me_receipt = (\<lambda>(w, l) url h. log_answer (me_receipt V w url h) (Asked_Receipt url h) l),
     me_finalized = (\<lambda>(w, l) url. log_answer (me_finalized V w url) (Asked_Finalized url) l),
     me_request = (\<lambda>(w, l) url m ps. pass (me_request V w url m ps) l),
     me_proof = (\<lambda>(w, l) url h i. pass (me_proof V w url h i) l),
     me_read_gateway_receipt = me_read_gateway_receipt V, me_read_log_proof = me_read_log_proof V,
     me_read_zksync_receipt = me_read_zksync_receipt V, me_encode = me_encode V, me_decode_bytes = me_decode_bytes V,
     me_decode_cut = me_decode_cut V, me_encode_cut = me_encode_cut V\<rparr>"

fun is_act :: "'w migration_event \<Rightarrow> bool" where
  "is_act (Asked_Receipt _ _ _) = False"
| "is_act (Asked_Finalized _ _) = False"
| "is_act _ = True"

lemma retry_loop_rule:
  assumes "retry_loop body pause w = Some (r, w')" "I w" "\<And>w w'. I w \<Longrightarrow> body w = (None, w') \<Longrightarrow> I (pause w')"
    and "\<And>w r w'. I w \<Longrightarrow> body w = (Some r, w') \<Longrightarrow> Q r w'"
  shows "Q r w'"
proof -
  have "body = body \<longrightarrow> pause = pause \<longrightarrow> I w \<longrightarrow> Q (fst (r, w')) (snd (r, w'))"
  proof (rule retry_loop.raw_induct [where P = "\<lambda>b p w y. b = body \<longrightarrow> p = pause \<longrightarrow> I w \<longrightarrow> Q (fst y) (snd y)", OF _ assms(1)], intro impI)
    fix f b p v y
    assume IH: "\<And>b p w y. f b p w = Some y \<Longrightarrow> b = body \<longrightarrow> p = pause \<longrightarrow> I w \<longrightarrow> Q (fst y) (snd y)"
      and eq: "(case b v of (Some r, w') \<Rightarrow> Some (r, w') | (None, w') \<Rightarrow> f b p (p w')) = Some y" and same: "b = body" "p = pause" and "I v"
    show "Q (fst y) (snd y)"
    proof (cases "body v")
      case (Pair o1 v1)
      show ?thesis
      proof (cases o1)
        case None
        with eq same Pair have "f body pause (pause v1) = Some y" by simp
        moreover have "I (pause v1)" using assms(3) \<open>I v\<close> Pair None by blast
        ultimately show ?thesis using IH by blast
      next
        case (Some r1)
        with eq same Pair have "y = (r1, v1)" by simp
        with assms(4) \<open>I v\<close> Pair Some show ?thesis by simp
      qed
    qed
  qed
  with assms(2) show ?thesis by simp
qed

lemma observed_simps [simp]:
  "me_files (observed V) = me_files V" "me_json (observed V) = me_json V" "me_url_ok (observed V) = me_url_ok V"
  "me_encode (observed V) = me_encode V" "me_instant (observed V) (w, l) = me_instant V w"
  "me_receipt (observed V) (w, l) url h = log_answer (me_receipt V w url h) (Asked_Receipt url h) l"
  "me_finalized (observed V) (w, l) url = log_answer (me_finalized V w url) (Asked_Finalized url) l"
  "me_request (observed V) (w, l) url m ps = pass (me_request V w url m ps) l"
  "me_proof (observed V) (w, l) url h i = pass (me_proof V w url h i) l"
  "me_sleep (observed V) (w, l) n = (me_sleep V w n, l)"
  "me_anvil_fork (observed V) (w, l) url = log_answer (me_anvil_fork V w url) (\<lambda>_. Forked w url) l"
  "me_create_dir (observed V) (w, l) d = pass (me_create_dir V w d) l"
  "fk_views (me_fork (observed V)) (w, l) = fk_views (me_fork V) w"
  "fk_set_balance (me_fork (observed V)) (w, l) url a = log_answer (fk_set_balance (me_fork V) w url a) (\<lambda>_. Funded url a) l"
  "fw_exec (me_forge (observed V)) (w, l) base path args envs = log_answer (fw_exec (me_forge V) w base path args envs) (\<lambda>_. Ran path args) l"
  "me_read_gateway_receipt (observed V) = me_read_gateway_receipt V" "me_read_log_proof (observed V) = me_read_log_proof V"
  "me_read_zksync_receipt (observed V) = me_read_zksync_receipt V" "me_decode_bytes (observed V) = me_decode_bytes V"
  by (simp_all add: observed_def)

text \<open>Nothing but questions has been added to the log.\<close>

definition quiet :: "'w migration_event list \<Rightarrow> 'w migration_event list \<Rightarrow> bool" where
  "quiet l0 l \<longleftrightarrow> (\<exists>new. l = l0 @ new \<and> (\<forall>e \<in> set new. \<not> is_act e))"

lemma quiet_refl [simp]: "quiet l l"
  by (simp add: quiet_def)

lemma quiet_trans [trans]: "quiet l0 l1 \<Longrightarrow> quiet l1 l2 \<Longrightarrow> quiet l0 l2"
  by (auto simp: quiet_def)

lemma quiet_snoc: "quiet l0 l \<Longrightarrow> \<not> is_act e \<Longrightarrow> quiet l0 (l @ [e])"
  by (auto simp: quiet_def)

lemma quiet_mono: "quiet l0 l \<Longrightarrow> e \<in> set l0 \<Longrightarrow> e \<in> set l"
  by (auto simp: quiet_def)

lemma pause_observed [simp]: "snd (pause_of (observed V) st) = snd st"
  by (cases st) (simp add: pause_of_def)

definition executed_receipt :: "ext \<Rightarrow> string \<Rightarrow> b256 \<Rightarrow> u64 \<Rightarrow> 'w migration_event list \<Rightarrow> bool" where
  "executed_receipt E url h blk l \<longleftrightarrow> (\<exists>rc. Asked_Receipt url (hash_line E h) (Some (Some rc)) \<in> set l
     \<and> mr_status rc \<noteq> Some ''0x0'' \<and> receipt_block rc = blk)"

definition finalized_seen :: "string \<Rightarrow> u64 \<Rightarrow> 'w migration_event list \<Rightarrow> bool" where
  "finalized_seen url blk l \<longleftrightarrow> (\<exists>answer. Asked_Finalized url answer \<in> set l \<and> reached answer blk)"

lemma seen_mono:
  "quiet l0 l \<Longrightarrow> executed_receipt E url h blk l0 \<Longrightarrow> executed_receipt E url h blk l"
  "quiet l0 l \<Longrightarrow> finalized_seen url blk l0 \<Longrightarrow> finalized_seen url blk l"
  unfolding executed_receipt_def finalized_seen_def using quiet_mono by metis+

lemma receipt_observed:
  assumes "wait_for_l2_tx_receipt E (observed V) url h (w, l0) = Some (r, st)"
  shows "quiet l0 (snd st) \<and> (\<forall>blk. r = Inr blk \<longrightarrow> executed_receipt E url h blk (snd st))"
proof (cases "me_url_ok V url")
  case True
  with assms have run: "retry_loop (l2_tx_receipt_body E (observed V) url h (me_instant V w)) (pause_of (observed V)) (w, l0) = Some (r, st)"
    by (simp add: wait_for_l2_tx_receipt_def)
  show ?thesis
  proof (rule retry_loop_rule [OF run, where I = "\<lambda>st. quiet l0 (snd st)"])
    fix st st' assume "quiet l0 (snd st)" "l2_tx_receipt_body E (observed V) url h (me_instant V w) st = (None, st')"
    then show "quiet l0 (snd (pause_of (observed V) st'))"
      by (cases st) (auto simp: l2_tx_receipt_body_def log_answer_def intro!: quiet_snoc split: prod.splits option.splits if_splits)
  next
    fix st r st' assume "quiet l0 (snd st)" "l2_tx_receipt_body E (observed V) url h (me_instant V w) st = (Some r, st')"
    then show "quiet l0 (snd st') \<and> (\<forall>blk. r = Inr blk \<longrightarrow> executed_receipt E url h blk (snd st'))"
      by (cases st) (auto simp: l2_tx_receipt_body_def log_answer_def executed_receipt_def intro!: quiet_snoc split: prod.splits option.splits if_splits)
  qed simp
qed (use assms in \<open>auto simp: wait_for_l2_tx_receipt_def\<close>)

lemma finalized_observed:
  assumes "wait_for_gateway_block_finalized (observed V) url blk (w, l0) = Some (r, st)"
  shows "quiet l0 (snd st) \<and> (r = Inr () \<longrightarrow> finalized_seen url blk (snd st))"
proof (cases "me_url_ok V url")
  case True
  with assms have run: "retry_loop (finalized_body (observed V) url blk (me_instant V w)) (pause_of (observed V)) (w, l0) = Some (r, st)"
    by (simp add: wait_for_gateway_block_finalized_def)
  show ?thesis
  proof (rule retry_loop_rule [OF run, where I = "\<lambda>st. quiet l0 (snd st)"])
    fix st st' assume "quiet l0 (snd st)" "finalized_body (observed V) url blk (me_instant V w) st = (None, st')"
    then show "quiet l0 (snd (pause_of (observed V) st'))"
      by (cases st) (auto simp: finalized_body_def log_answer_def intro!: quiet_snoc split: prod.splits if_splits)
  next
    fix st r st' assume "quiet l0 (snd st)" "finalized_body (observed V) url blk (me_instant V w) st = (Some r, st')"
    then show "quiet l0 (snd st') \<and> (r = Inr () \<longrightarrow> finalized_seen url blk (snd st'))"
      by (cases st) (auto simp: finalized_body_def log_answer_def finalized_seen_def intro!: quiet_snoc split: prod.splits if_splits)
  qed simp
qed (use assms in \<open>auto simp: wait_for_gateway_block_finalized_def\<close>)

text \<open>The other questions are not in the log.\<close>

lemma params_steps_observed [simp]: "bootloader_log (observed V) = bootloader_log V" "params_of_proof (observed V) = params_of_proof V"
  by (simp_all add: bootloader_log_def params_of_proof_def fun_eq_iff cong: if_cong)

lemma get_finalize_params_observed:
  "get_finalize_params E (observed V) url h (w, l) = pass (get_finalize_params E V url h w) l"
  by (auto simp: get_finalize_params_def pass_def split: prod.splits sum.splits)

lemma get_withdrawal_observed:
  "get_finalize_withdrawal_params E (observed V) url h (w, l) = pass (get_finalize_withdrawal_params E V url h w) l"
proof -
  have message: "withdrawal_message E (observed V) = withdrawal_message E V"
    by (simp add: withdrawal_message_def fun_eq_iff)
  have replay: "replay_reverted (observed V) url t raw (v, l) = (replay_reverted V url t raw v, l)" for t raw v
    by (simp add: replay_reverted_def pass_def split: prod.splits)
  show ?thesis
  proof (cases "me_request V w url ''eth_getTransactionReceipt'' [JStr (hash_line E h)]")
    case (Pair answer w1)
    show ?thesis
    proof (cases "bind_res (ok_or (Bail ''Failed to parse receipt response'') (me_read_zksync_receipt V (the answer))) (withdrawal_message E V)")
      case (Inl e)
      with Pair show ?thesis
        by (cases answer) (simp_all add: get_finalize_withdrawal_params_def message replay pass_def)
    next
      case (Inr x)
      obtain i n m where x: "x = (i, n, m)" by (cases x)
      obtain pr w2 where "me_proof V w1 url (hash_line E h) (of_nat i) = (pr, w2)" by fastforce
      with Pair Inr x show ?thesis
        by (cases answer; cases pr) (simp_all del: bind_res_eq_Inr add: get_finalize_withdrawal_params_def message replay pass_def)
    qed
  qed
qed

lemma params_observed:
  assumes "retry_loop (params_body E (observed V) url h start) (pause_of (observed V)) (w, l0) = Some (r, st)"
  shows "snd st = l0 \<and> (\<forall>p. r = Inr p \<longrightarrow> (\<exists>v v'. get_finalize_params E V url h v = (Inr p, v')))"
proof (rule retry_loop_rule [OF assms, where I = "\<lambda>st. snd st = l0"])
  fix st st' assume "snd st = l0" "params_body E (observed V) url h start st = (None, st')"
  then show "snd (pause_of (observed V) st') = l0"
    by (cases st) (auto simp: params_body_def get_finalize_params_observed pass_def split: prod.splits sum.splits)
next
  fix st r st' assume "snd st = l0" "params_body E (observed V) url h start st = (Some r, st')"
  then show "snd st' = l0 \<and> (\<forall>p. r = Inr p \<longrightarrow> (\<exists>v v'. get_finalize_params E V url h v = (Inr p, v')))"
    by (cases st) (auto simp: params_body_def get_finalize_params_observed pass_def split: prod.splits sum.splits if_splits)
qed simp

lemma withdrawal_observed:
  assumes "retry_loop (withdrawal_body E (observed V) url h start) (pause_of (observed V)) (w, l0) = Some (r, st)"
  shows "snd st = l0 \<and> (\<forall>p. r = Inr p \<longrightarrow> (\<exists>v v'. get_finalize_withdrawal_params E V url h v = (Inr p, v')))"
proof (rule retry_loop_rule [OF assms, where I = "\<lambda>st. snd st = l0"])
  fix st st' assume "snd st = l0" "withdrawal_body E (observed V) url h start st = (None, st')"
  then show "snd (pause_of (observed V) st') = l0"
    by (cases st) (auto simp: withdrawal_body_def get_withdrawal_observed pass_def split: prod.splits sum.splits if_splits)
next
  fix st r st' assume "snd st = l0" "withdrawal_body E (observed V) url h start st = (Some r, st')"
  then show "snd st' = l0 \<and> (\<forall>p. r = Inr p \<longrightarrow> (\<exists>v v'. get_finalize_withdrawal_params E V url h v = (Inr p, v')))"
    by (cases st) (auto simp: withdrawal_body_def get_withdrawal_observed pass_def split: prod.splits sum.splits if_splits)
qed simp

text \<open>A batch that was waited for is executed in the world the wait ends in.\<close>

lemma executed_observed:
  assumes "retry_loop (executed_body (observed V) l1 diamond batch start) (pause_of (observed V)) (w, l0) = Some (r, st)"
  shows "snd st = l0 \<and> (r = Inr () \<longrightarrow> (\<exists>n. hv_getTotalBatchesExecuted (fk_views (me_fork V) (fst st) l1) diamond = Some n \<and> ucast batch \<le> n))"
proof (rule retry_loop_rule [OF assms, where I = "\<lambda>st. snd st = l0"])
  fix st st' assume "snd st = l0" "executed_body (observed V) l1 diamond batch start st = (None, st')"
  then show "snd (pause_of (observed V) st') = l0"
    by (cases st) (auto simp: executed_body_def)
next
  fix st r st' assume "snd st = l0" "executed_body (observed V) l1 diamond batch start st = (Some r, st')"
  then show "snd st' = l0 \<and> (r = Inr () \<longrightarrow> (\<exists>n. hv_getTotalBatchesExecuted (fk_views (me_fork V) (fst st') l1) diamond = Some n \<and> ucast batch \<le> n))"
    by (cases st) (auto simp: executed_body_def split: option.splits if_splits)
qed simp

section \<open>What a finalizing phase does\<close>

definition passes_arg :: "ext \<Rightarrow> 'w migration_env \<Rightarrow> typed_call \<Rightarrow> string list \<Rightarrow> bool" where
  "passes_arg E V c args \<longleftrightarrow> ''--sig='' @ hex_encode E (me_encode V c) \<in> set args \<and> ''--broadcast'' \<in> set args"

lemma script_args:
  "Sig (hex_encode E (me_encode V c)) \<in> set (fa_args (sc_args (script_call E V R c)))" "Broadcast \<in> set (fa_args (sc_args (script_call E V R c)))"
  by (simp_all add: script_call_def script_with_calldata_def with_broadcast_def with_calldata_def with_arg_def)

lemma with_arg_keeps: "x \<in> set (fa_args (sc_args s)) \<Longrightarrow> x \<in> set (fa_args (sc_args (with_arg a s)))"
  by (simp add: with_arg_def)

lemma run_forge_observed:
  assumes "run_forge (observed V) s (R, w, l) = (r, R', w', l')"
  shows "\<exists>args. l' = l @ [Ran (sc_script_path s) args] \<and> (\<forall>x \<in> set (fa_args (sc_args s)). arg_text x \<in> set args)"
proof -
  let ?s = "if needs_bridgehub_skip s then with_arg (Skip ''contracts/bridgehub/*'') s else s"
  obtain r1 R1 st where ex: "execute (me_forge (observed V)) ?s (build_args (sc_args ?s)) R (w, l) = (r1, R1, st)"
    by (cases "execute (me_forge (observed V)) ?s (build_args (sc_args ?s)) R (w, l)")
  then have "(w', l') = st"
    using assms by (auto simp: run_forge_def runner_run_def Let_def split: if_splits sum.splits)
  moreover have "snd st = l @ [Ran (sc_script_path s) (''--legacy'' # build_args (sc_args ?s))]"
    using ex by (auto simp: execute_def log_answer_def with_arg_def split: prod.splits sum.splits if_splits)
  moreover have "arg_text x \<in> set (build_args (sc_args ?s))" if "x \<in> set (fa_args (sc_args s))" for x
  proof -
    obtain known where "build_args (sc_args ?s) = map arg_text known @ cleaned_args False (fa_additional_args (sc_args ?s))"
      "set (fa_args (sc_args ?s)) \<subseteq> set known" using build_args_shape [of "sc_args ?s"] by blast
    with that show ?thesis by (auto simp: with_arg_def split: if_splits)
  qed
  ultimately show ?thesis by (metis snd_conv list.set_intros(2))
qed

lemma create_dirs_observed: "create_dirs (observed V) ds (w, l) = (r, w', l') \<Longrightarrow> l' = l"
  by (induction ds arbitrary: w) (auto simp: pass_def split: prod.splits option.splits)

lemma runner_new_observed:
  assumes "runner_new (observed V) shared (w, l) = (r, w', l')"
  shows "l' = l @ [Forked w (sr_l1_rpc_url shared)]"
  using assms create_dirs_observed by (fastforce simp: runner_new_def log_answer_def bind_st_def Let_def split: prod.splits option.splits sum.splits)

lemma prepare_sender_observed:
  assumes "prepare_sender (me_fork (observed V)) R a (w, l) = (r, w', l')"
  shows "\<exists>u. l' = l @ [Funded u a]"
  using assms by (auto simp: prepare_sender_def log_answer_def split: prod.splits option.splits)

text \<open>After the fork there is at most one script, and it makes the call.\<close>

definition finishes :: "ext \<Rightarrow> 'w migration_env \<Rightarrow> 'w \<Rightarrow> string \<Rightarrow> typed_call \<Rightarrow> 'w migration_event list \<Rightarrow> bool" where
  "finishes E V w l1 c acts \<longleftrightarrow> (\<exists>u a path args. acts = [Forked w l1, Funded u a, Ran path args] \<and> passes_arg E V c args)"

definition starts :: "'w \<Rightarrow> string \<Rightarrow> 'w migration_event list \<Rightarrow> bool" where
  "starts w l1 acts \<longleftrightarrow> acts = [Forked w l1] \<or> (\<exists>u a. acts = [Forked w l1, Funded u a])"

lemma finish_script:
  assumes "run_forge (observed V) (with_wallet E sender (with_arg Ffi (script_call E (observed V) R c))) (R, w, l) = (r, R', w', l')"
  shows "\<exists>path args. l' = l @ [Ran path args] \<and> passes_arg E V c args"
proof -
  obtain args where "l' = l @ [Ran (sc_script_path (with_wallet E sender (with_arg Ffi (script_call E (observed V) R c)))) args]"
    and all: "\<forall>x \<in> set (fa_args (sc_args (with_wallet E sender (with_arg Ffi (script_call E (observed V) R c))))). arg_text x \<in> set args"
    using run_forge_observed [OF assms] by blast
  moreover have "passes_arg E V c args"
    using script_args [where E = E and V = "observed V" and c = c and R = R, THEN with_arg_keeps, THEN with_arg_keeps, THEN with_arg_keeps]
      all unfolding with_wallet_def passes_arg_def by (metis arg_text.simps(1,6) observed_simps(4))
  ultimately show ?thesis by blast
qed

definition call_to :: "finalize_migration_args \<Rightarrow> u64 \<Rightarrow> b256 \<Rightarrow> finalize_params \<Rightarrow> b256 list \<Rightarrow> typed_call" where
  "call_to args gw h p proof_hashes = finishMigrateChainToGatewayCall (fm_bridgehub args) (fp_l2_tx_number_in_batch p) 1 h (ucast (fm_chain_id args))
     (ucast gw) (ucast (fp_batch_number p)) (ucast (fp_l2_message_index p)) (fm_gateway_rpc_url args) proof_hashes"

definition call_from :: "address \<Rightarrow> u64 \<Rightarrow> u64 \<Rightarrow> withdrawal_params \<Rightarrow> typed_call" where
  "call_from bridgehub chain_id gw p = finishMigrateChainFromGatewayCall bridgehub (ucast chain_id) (ucast gw) (ucast (wp_l2_batch_number p))
     (ucast (wp_l2_message_index p)) (wp_l2_tx_number_in_batch p) (wp_message p) (wp_merkle_proof p)"

lemma finish_to_observed:
  assumes "finish_to E (observed V) args gw h p (w, l) = (r, w', l')"
  shows "\<exists>acts. l' = l @ acts \<and> (starts w (sr_l1_rpc_url (fm_shared args)) acts \<and> (\<forall>x. r \<noteq> Inr x)
    \<or> (\<exists>hashes. parse_merkle_proof E (fp_merkle_proof p) = Inr hashes
        \<and> finishes E V w (sr_l1_rpc_url (fm_shared args)) (call_to args gw h p hashes) acts))"
proof -
  let ?l1 = "sr_l1_rpc_url (fm_shared args)"
  obtain r1 w1 l1 where new: "runner_new (observed V) (fm_shared args) (w, l) = (r1, w1, l1)" by (metis surj_pair)
  note l1 = runner_new_observed [OF new]
  show ?thesis
  proof (cases r1)
    case (Inl e)
    with assms new have "r = Inl e" "l' = l1" by (auto simp: finish_to_def bind_st_def)
    with l1 show ?thesis by (auto simp: starts_def)
  next
    case (Inr R)
    obtain r2 w2 l2 where snd_step: "prepare_sender (me_fork (observed V)) R (fm_deployer_address args) (w1, l1) = (r2, w2, l2)" by (metis surj_pair)
    obtain u where l2: "l2 = l1 @ [Funded u (fm_deployer_address args)]" using prepare_sender_observed [OF snd_step] by blast
    show ?thesis
    proof (cases "\<exists>sender hashes. r2 = Inr sender \<and> parse_merkle_proof E (fp_merkle_proof p) = Inr hashes")
      case True
      then obtain sender hashes where ok: "r2 = Inr sender" "parse_merkle_proof E (fp_merkle_proof p) = Inr hashes" by blast
      obtain r3 R3 w3 l3 where run: "run_forge (observed V) (with_wallet E sender (with_arg Ffi (script_call E (observed V) R
          (call_to args gw h p hashes)))) (R, w2, l2) = (r3, R3, w3, l3)" by (metis surj_pair)
      with assms new Inr snd_step ok have "l' = l3" by (auto simp: finish_to_def bind_st_def call_to_def)
      with finish_script [OF run] l1 l2 ok(2) show ?thesis by (auto simp: finishes_def)
    next
      case False
      with assms new Inr snd_step have "l' = l2" "\<forall>x. r \<noteq> Inr x"
        by (auto simp: finish_to_def bind_st_def split: sum.splits)
      with l1 l2 show ?thesis by (auto simp: starts_def)
    qed
  qed
qed

lemma finish_from_observed:
  assumes "finish_from E (observed V) args bridgehub chain_id gw p (w, l) = (r, w', l')"
  shows "\<exists>acts. l' = l @ acts \<and> (starts w (sr_l1_rpc_url (pa_shared args)) acts \<and> (\<forall>x. r \<noteq> Inr x)
    \<or> finishes E V w (sr_l1_rpc_url (pa_shared args)) (call_from bridgehub chain_id gw p) acts)"
proof -
  obtain r1 w1 l1 where new: "runner_new (observed V) (pa_shared args) (w, l) = (r1, w1, l1)" by (metis surj_pair)
  note l1 = runner_new_observed [OF new]
  show ?thesis
  proof (cases r1)
    case (Inl e)
    with assms new have "r = Inl e" "l' = l1" by (auto simp: finish_from_def bind_st_def)
    with l1 show ?thesis by (auto simp: starts_def)
  next
    case (Inr R)
    obtain r2 w2 l2 where snd_step: "prepare_sender (me_fork (observed V)) R (f2_deployer_address args) (w1, l1) = (r2, w2, l2)" by (metis surj_pair)
    obtain u where l2: "l2 = l1 @ [Funded u (f2_deployer_address args)]" using prepare_sender_observed [OF snd_step] by blast
    show ?thesis
    proof (cases r2)
      case sender: (Inr sender)
      obtain r3 R3 w3 l3 where run: "run_forge (observed V) (with_wallet E sender (with_arg Ffi (script_call E (observed V) R
          (call_from bridgehub chain_id gw p)))) (R, w2, l2) = (r3, R3, w3, l3)" by (metis surj_pair)
      with assms new Inr snd_step sender have "l' = l3" by (auto simp: finish_from_def bind_st_def call_from_def with_runner_def)
      with finish_script [OF run] l1 l2 show ?thesis by (auto simp: finishes_def)
    next
      case (Inl e)
      with assms new Inr snd_step have "l' = l2" "\<forall>x. r \<noteq> Inr x" by (auto simp: finish_from_def bind_st_def)
      with l1 l2 show ?thesis by (auto simp: starts_def)
    qed
  qed
qed

lemma bind_loop_cases:
  assumes "bind_loop x f = Some (r, w')"
  obtains e where "x = Some (Inl e, w')" "r = Inl e" | a w where "x = Some (Inr a, w)" "f a w = Some (r, w')"
  using assms by (auto simp: bind_loop_def split: option.splits prod.splits sum.splits)

text \<open>A finalizing run has only asked questions, or its acts follow them: the fork comes after the gateway has reported the
  transaction executed and its block finalized.\<close>

definition finalized_run ::
    "ext \<Rightarrow> 'w migration_env \<Rightarrow> finalize_migration_args \<Rightarrow> u64 \<Rightarrow> b256 \<Rightarrow> bool \<Rightarrow> 'w migration_event list \<Rightarrow> bool" where
  "finalized_run E V args gw h ok l \<longleftrightarrow> (\<exists>pre acts blk p u u' v. l = pre @ acts \<and> quiet [] pre
     \<and> executed_receipt E (fm_gateway_rpc_url args) h blk pre \<and> finalized_seen (fm_gateway_rpc_url args) blk pre
     \<and> get_finalize_params E V (fm_gateway_rpc_url args) h u = (Inr p, u')
     \<and> (starts v (sr_l1_rpc_url (fm_shared args)) acts \<and> \<not> ok
        \<or> (\<exists>hashes. parse_merkle_proof E (fp_merkle_proof p) = Inr hashes
            \<and> finishes E V v (sr_l1_rpc_url (fm_shared args)) (call_to args gw h p hashes) acts)))"

lemma finalize_observed:
  assumes run: "finalize_migration E (observed V) args (w, []) = Some (r, w', l)"
  shows "quiet [] l \<and> (\<forall>x. r \<noteq> Inr x) \<or> (\<exists>gw h. resolve_settlement_layer (fk_views (me_fork V) w (sr_l1_rpc_url (fm_shared args)))
      (fm_bridgehub args) (fm_chain_id args) = Inr gw
    \<and> priority_op_hash_of E args (fk_views (me_fork V) w (sr_l1_rpc_url (fm_shared args))) gw = Inr h
    \<and> finalized_run E V args gw h (\<exists>x. r = Inr x) l)"
proof -
  let ?H = "fk_views (me_fork V) w (sr_l1_rpc_url (fm_shared args))" and ?url = "fm_gateway_rpc_url args"
  from run have "bind_loop (Some (resolve_settlement_layer ?H (fm_bridgehub args) (fm_chain_id args), w, [])) (\<lambda>gw st.
      bind_loop (Some (priority_op_hash_of E args ?H gw, st)) (\<lambda>h st.
      bind_loop (wait_for_l2_tx_receipt E (observed V) ?url h st) (\<lambda>blk st.
      bind_loop (wait_for_gateway_block_finalized (observed V) ?url blk st) (\<lambda>_ st.
      bind_loop (retry_loop (params_body E (observed V) ?url h (me_instant (observed V) st)) (pause_of (observed V)) st) (\<lambda>p st.
      Some (finish_to E (observed V) args gw h p st)))))) = Some (r, w', l)"
    by (simp add: finalize_migration_def Let_def)
  then show ?thesis
  proof (cases rule: bind_loop_cases)
    case (2 gw st)
    then have gw: "resolve_settlement_layer ?H (fm_bridgehub args) (fm_chain_id args) = Inr gw" and st: "st = (w, [])" by auto
    from 2(2) show ?thesis unfolding st
    proof (cases rule: bind_loop_cases)
      case (2 h st)
      then have h: "priority_op_hash_of E args ?H gw = Inr h" and st: "st = (w, [])" by auto
      from 2(2) show ?thesis unfolding st
      proof (cases rule: bind_loop_cases)
        case (1 e)
        with receipt_observed [OF 1(1)] show ?thesis by simp
      next
        case (2 blk st1)
        obtain w1 l1 where st1: "st1 = (w1, l1)" by (cases st1)
        have q1: "quiet [] l1" "executed_receipt E ?url h blk l1" using receipt_observed [OF 2(1)] st1 by auto
        from 2(2) show ?thesis unfolding st1
        proof (cases rule: bind_loop_cases)
          case (1 e)
          with finalized_observed [OF 1(1)] q1 show ?thesis by (auto intro: quiet_trans)
        next
          case (2 x st2)
          obtain w2 l2 where st2: "st2 = (w2, l2)" by (cases st2)
          have "quiet l1 l2" "finalized_seen ?url blk l2" using finalized_observed [OF 2(1)] st2 by auto
          with q1 have q2: "quiet [] l2" "executed_receipt E ?url h blk l2" "finalized_seen ?url blk l2"
            by (auto intro: quiet_trans seen_mono)
          from 2(2) show ?thesis unfolding st2
          proof (cases rule: bind_loop_cases)
            case (1 e)
            with params_observed [OF 1(1)] q2 show ?thesis by simp
          next
            case (2 p st3)
            obtain w3 u u' where st3: "st3 = (w3, l2)" and p: "get_finalize_params E V ?url h u = (Inr p, u')"
              using params_observed [OF 2(1)] by (cases st3) auto
            have "finish_to E (observed V) args gw h p (w3, l2) = (r, w', l)" using 2(2) st3 by simp
            from finish_to_observed [OF this] obtain acts where "l = l2 @ acts"
              "starts w3 (sr_l1_rpc_url (fm_shared args)) acts \<and> \<not> (\<exists>x. r = Inr x) \<or> (\<exists>hashes. parse_merkle_proof E (fp_merkle_proof p) = Inr hashes
                \<and> finishes E V w3 (sr_l1_rpc_url (fm_shared args)) (call_to args gw h p hashes) acts)" by auto
            with p q2 have "finalized_run E V args gw h (\<exists>x. r = Inr x) l"
              unfolding finalized_run_def by (intro exI [of _ l2] exI [of _ acts] exI [of _ blk] exI [of _ p] exI [of _ u] exI [of _ u']
                exI [of _ w3]) simp
            with gw h show ?thesis by simp
          qed
        qed
      qed
    qed auto
  qed auto
qed

text \<open>Back from the gateway the fork is taken in a world where L1 has executed the batch of the withdrawal.\<close>

definition withdrawn_run ::
    "ext \<Rightarrow> 'w migration_env \<Rightarrow> from_phase2_args \<Rightarrow> address \<Rightarrow> u64 \<Rightarrow> u64 \<Rightarrow> bool \<Rightarrow> 'w migration_event list \<Rightarrow> bool" where
  "withdrawn_run E V args bridgehub chain_id gw ok l \<longleftrightarrow> (\<exists>pre acts blk p u u' v v0 diamond n. l = pre @ acts \<and> quiet [] pre
     \<and> executed_receipt E (f2_gateway_rpc_url args) (f2_migration_l2_tx_hash args) blk pre
     \<and> get_finalize_withdrawal_params E V (f2_gateway_rpc_url args) (f2_migration_l2_tx_hash args) u = (Inr p, u')
     \<and> hv_getTotalBatchesExecuted (fk_views (me_fork V) v (sr_l1_rpc_url (pa_shared args))) diamond = Some n
     \<and> ucast (wp_l2_batch_number p) \<le> n
     \<and> resolve_zk_chain (fk_views (me_fork V) v0 (sr_l1_rpc_url (pa_shared args))) bridgehub gw = Inr diamond
     \<and> (starts v (sr_l1_rpc_url (pa_shared args)) acts \<and> \<not> ok
        \<or> finishes E V v (sr_l1_rpc_url (pa_shared args)) (call_from bridgehub chain_id gw p) acts))"

lemma batch_wait_observed:
  assumes "wait_for_gateway_batch_executed_on_l1 (observed V) l1 bridgehub gw batch (w, l0) = Some (r, st)"
  shows "snd st = l0 \<and> (r = Inr () \<longrightarrow> (\<exists>v0 diamond n. resolve_zk_chain (fk_views (me_fork V) v0 l1) bridgehub gw = Inr diamond
    \<and> hv_getTotalBatchesExecuted (fk_views (me_fork V) (fst st) l1) diamond = Some n \<and> ucast batch \<le> n))"
proof (cases "me_url_ok V l1")
  case True
  with assms have "bind_loop (Some (resolve_zk_chain (fk_views (me_fork V) w l1) bridgehub gw, w, l0)) (\<lambda>diamond st.
      retry_loop (executed_body (observed V) l1 diamond batch (me_instant (observed V) st)) (pause_of (observed V)) st) = Some (r, st)"
    by (simp add: wait_for_gateway_batch_executed_on_l1_def)
  then show ?thesis
  proof (cases rule: bind_loop_cases)
    case (2 diamond st1)
    then have "resolve_zk_chain (fk_views (me_fork V) w l1) bridgehub gw = Inr diamond" "st1 = (w, l0)" by auto
    with 2(2) executed_observed [of V l1 diamond batch "me_instant V w" w l0 r st] show ?thesis by (auto intro!: exI [of _ w] exI [of _ diamond])
  qed auto
qed (use assms in \<open>auto simp: wait_for_gateway_batch_executed_on_l1_def\<close>)

lemma withdrawal_run_observed:
  assumes run: "bind_loop (wait_for_l2_tx_receipt E (observed V) (f2_gateway_rpc_url args) (f2_migration_l2_tx_hash args) (w, [])) (\<lambda>_ st.
      bind_loop (retry_loop (withdrawal_body E (observed V) (f2_gateway_rpc_url args) (f2_migration_l2_tx_hash args)
        (me_instant (observed V) st)) (pause_of (observed V)) st) (\<lambda>p st.
      bind_loop (wait_for_gateway_batch_executed_on_l1 (observed V) (sr_l1_rpc_url (pa_shared args)) bridgehub gw (wp_l2_batch_number p) st) (\<lambda>_ st.
      Some (finish_from E (observed V) args bridgehub chain_id gw p st)))) = Some (r, w', l)"
  shows "quiet [] l \<and> (\<forall>x. r \<noteq> Inr x) \<or> withdrawn_run E V args bridgehub chain_id gw (\<exists>x. r = Inr x) l"
  using run
proof (cases rule: bind_loop_cases)
  case (1 e)
  with receipt_observed [OF 1(1)] show ?thesis by simp
next
  let ?url = "f2_gateway_rpc_url args" and ?h = "f2_migration_l2_tx_hash args" and ?l1 = "sr_l1_rpc_url (pa_shared args)"
  case (2 blk st1)
  obtain w1 l1 where st1: "st1 = (w1, l1)" by (cases st1)
  have q: "quiet [] l1" "executed_receipt E ?url ?h blk l1" using receipt_observed [OF 2(1)] st1 by auto
  from 2(2) show ?thesis unfolding st1
  proof (cases rule: bind_loop_cases)
    case (1 e)
    with withdrawal_observed [OF 1(1)] q show ?thesis by simp
  next
    case (2 p st2)
    obtain w2 u u' where st2: "st2 = (w2, l1)" and p: "get_finalize_withdrawal_params E V ?url ?h u = (Inr p, u')"
      using withdrawal_observed [OF 2(1)] by (cases st2) auto
    from 2(2) show ?thesis unfolding st2
    proof (cases rule: bind_loop_cases)
      case (1 e)
      with batch_wait_observed [OF 1(1)] q show ?thesis by simp
    next
      case (2 x st3)
      obtain w3 v0 diamond n where st3: "st3 = (w3, l1)" and batch: "resolve_zk_chain (fk_views (me_fork V) v0 ?l1) bridgehub gw = Inr diamond"
          "hv_getTotalBatchesExecuted (fk_views (me_fork V) w3 ?l1) diamond = Some n" "ucast (wp_l2_batch_number p) \<le> n"
        using batch_wait_observed [OF 2(1)] by (cases st3) auto
      have "finish_from E (observed V) args bridgehub chain_id gw p (w3, l1) = (r, w', l)" using 2(2) st3 by simp
      from finish_from_observed [OF this] obtain acts where "l = l1 @ acts"
        "starts w3 ?l1 acts \<and> \<not> (\<exists>x. r = Inr x) \<or> finishes E V w3 ?l1 (call_from bridgehub chain_id gw p) acts" by auto
      with p q batch have "withdrawn_run E V args bridgehub chain_id gw (\<exists>x. r = Inr x) l"
        unfolding withdrawn_run_def by (intro exI [of _ l1] exI [of _ acts] exI [of _ blk] exI [of _ p] exI [of _ u] exI [of _ u']
          exI [of _ w3] exI [of _ v0] exI [of _ diamond] exI [of _ n]) simp
      then show ?thesis ..
    qed
  qed
qed

lemma end_phase_world: "end_phase V command shared x d = (r, w', d') \<Longrightarrow> w' = snd x \<and> (r = Inr () \<longrightarrow> (\<exists>y. fst x = Inr y))"
  by (auto simp: end_phase_def split: prod.splits sum.splits)

lemma withdrawn_weaken: "withdrawn_run E V args b c gw True l \<Longrightarrow> withdrawn_run E V args b c gw ok l"
  unfolding withdrawn_run_def by blast

lemma from_phase2_observed:
  assumes run: "from_phase2_finalize E (observed V) args (w, []) d = Some (r, (w', l), d')"
  shows "quiet [] l \<and> r \<noteq> Inr () \<or> (\<exists>bridgehub chain_id gw. chain_args_resolve E (me_files V) (pa_topology args) = Inr (bridgehub, chain_id)
    \<and> resolve_settlement_layer (fk_views (me_fork V) w (sr_l1_rpc_url (pa_shared args))) bridgehub chain_id = Inr gw
    \<and> withdrawn_run E V args bridgehub chain_id gw (r = Inr ()) l)"
proof -
  obtain x where x: "bind_loop (Some (chain_args_resolve E (me_files V) (pa_topology args), w, [])) (\<lambda>(bridgehub, chain_id) st.
      bind_loop (Some (resolve_settlement_layer (fk_views (me_fork (observed V)) st (sr_l1_rpc_url (pa_shared args))) bridgehub chain_id, st)) (\<lambda>gw st.
      bind_loop (wait_for_l2_tx_receipt E (observed V) (f2_gateway_rpc_url args) (f2_migration_l2_tx_hash args) st) (\<lambda>_ st.
      bind_loop (retry_loop (withdrawal_body E (observed V) (f2_gateway_rpc_url args) (f2_migration_l2_tx_hash args)
        (me_instant (observed V) st)) (pause_of (observed V)) st) (\<lambda>p st.
      bind_loop (wait_for_gateway_batch_executed_on_l1 (observed V) (sr_l1_rpc_url (pa_shared args)) bridgehub gw (wp_l2_batch_number p) st) (\<lambda>_ st.
      Some (finish_from E (observed V) args bridgehub chain_id gw p st)))))) = Some x"
    and e: "end_phase (observed V) ''chain.gateway.migrate-from.phase-2-finalize'' (pa_shared args) x d = (r, (w', l), d')"
    using run unfolding from_phase2_finalize_def Let_def observed_simps map_option_eq_Some by blast
  obtain r0 where x0: "x = (r0, w', l)" and r0: "r = Inr () \<Longrightarrow> \<exists>y. r0 = Inr y"
    using end_phase_world [OF e] by (cases x) auto
  from x [unfolded x0] show ?thesis
  proof (cases rule: bind_loop_cases)
    case (1 e)
    with r0 show ?thesis by (auto simp: quiet_def)
  next
    case (2 bc st)
    obtain bridgehub chain_id where args: "chain_args_resolve E (me_files V) (pa_topology args) = Inr (bridgehub, chain_id)"
      and st: "bc = (bridgehub, chain_id)" "st = (w, [])" using 2(1) by (cases bc) auto
    from 2(2) show ?thesis unfolding st case_prod_conv
    proof (cases rule: bind_loop_cases)
      case (1 e)
      with r0 show ?thesis by (auto simp: quiet_def)
    next
      case (2 gw st)
      then have gw: "resolve_settlement_layer (fk_views (me_fork V) w (sr_l1_rpc_url (pa_shared args))) bridgehub chain_id = Inr gw"
        and st: "st = (w, [])" by auto
      from withdrawal_run_observed [OF 2(2) [unfolded st]]
      have "quiet [] l \<and> (\<forall>x. r0 \<noteq> Inr x) \<or> withdrawn_run E V args bridgehub chain_id gw (\<exists>x. r0 = Inr x) l" .
      then show ?thesis
      proof (elim disjE)
        assume "withdrawn_run E V args bridgehub chain_id gw (\<exists>x. r0 = Inr x) l"
        then have "withdrawn_run E V args bridgehub chain_id gw (r = Inr ()) l"
          using r0 by (cases "\<exists>x. r0 = Inr x"; cases "r = Inr ()") (auto intro: withdrawn_weaken)
        with args gw show ?thesis by blast
      qed (use r0 in auto)
    qed
  qed
qed

section \<open>Validators\<close>

lemma distinct_sorted_dedup: "sorted xs \<Longrightarrow> distinct (remdups_adj xs)"
  by (induction xs rule: remdups_adj.induct) auto

lemma validators_of_props:
  "set (validators_of inputs) = {ev_commit_operator inputs, ev_prove_operator inputs, ev_execute_operator inputs} - {0}"
  "sorted (validators_of inputs)" "distinct (validators_of inputs)"
proof -
  let ?ops = "[ev_commit_operator inputs, ev_prove_operator inputs, ev_execute_operator inputs]"
  note dedup = sorted_remdups_adj [OF sorted_sort [of ?ops]] distinct_sorted_dedup [OF sorted_sort [of ?ops]]
  show "sorted (validators_of inputs)" "distinct (validators_of inputs)"
    unfolding validators_of_def by (rule sorted_filter [of id, simplified], rule dedup, rule distinct_filter, rule dedup)
  show "set (validators_of inputs) = {ev_commit_operator inputs, ev_prove_operator inputs, ev_execute_operator inputs} - {0}"
    unfolding validators_of_def set_filter remdups_adj_set set_sort by auto
qed

definition ran_call :: "ext \<Rightarrow> 'w migration_env \<Rightarrow> typed_call \<Rightarrow> 'w migration_event \<Rightarrow> bool" where
  "ran_call E V c e \<longleftrightarrow> (\<exists>path args. e = Ran path args \<and> passes_arg E V c args)"

lemma wallet_script:
  assumes "run_forge (observed V) (with_wallet E sender (script_call E (observed V) R c)) (R1, w, l) = (r, R', w', l')"
  shows "\<exists>e. l' = l @ [e] \<and> ran_call E V c e"
proof -
  obtain args where "l' = l @ [Ran (sc_script_path (with_wallet E sender (script_call E (observed V) R c))) args]"
    and all: "\<forall>x \<in> set (fa_args (sc_args (with_wallet E sender (script_call E (observed V) R c)))). arg_text x \<in> set args"
    using run_forge_observed [OF assms] by blast
  moreover have "passes_arg E V c args"
    using script_args [where E = E and V = "observed V" and c = c and R = R, THEN with_arg_keeps, THEN with_arg_keeps]
      all unfolding with_wallet_def passes_arg_def by (metis arg_text.simps(1,6) observed_simps(4))
  ultimately show ?thesis by (auto simp: ran_call_def)
qed

lemma enable_each_observed:
  assumes "enable_each E (observed V) call sender vs (R, w, l) = (r, R', w', l')"
  shows "\<exists>new. l' = l @ new \<and> list_all2 (\<lambda>v. ran_call E V (call v)) (take (length new) vs) new \<and> (r = Inr () \<longrightarrow> length new = length vs)"
  using assms
proof (induction vs arbitrary: R w l)
  case (Cons v vs)
  obtain r1 R1 w1 l1 where run: "run_forge (observed V) (with_wallet E sender (script_call E (observed V) R (call v))) (R, w, l) = (r1, R1, w1, l1)"
    by (metis surj_pair)
  obtain e where e: "l1 = l @ [e]" "ran_call E V (call v) e" using wallet_script [OF run] by blast
  show ?case
  proof (cases r1)
    case (Inl x)
    with Cons.prems run have "r = Inl x" "l' = l1" by (auto simp: bind_st_def)
    with e show ?thesis by auto
  next
    case (Inr x)
    with Cons.prems run have "enable_each E (observed V) call sender vs (R1, w1, l1) = (r, R', w', l')" by (auto simp: bind_st_def)
    from Cons.IH [OF this] obtain new where "l' = l1 @ new" "list_all2 (\<lambda>v. ran_call E V (call v)) (take (length new) vs) new"
      "r = Inr () \<longrightarrow> length new = length vs" by blast
    with e show ?thesis by (intro exI [of _ "e # new"]) auto
  qed
qed simp

lemma bind_st_cases:
  assumes "bind_st x f = (r, s)"
  obtains e where "x = (Inl e, s)" "r = Inl e" | a t where "x = (Inr a, t)" "f a t = (r, s)"
  using assms by (auto simp: bind_st_def split: prod.splits sum.splits)

lemma prepare_admin_observed:
  assumes "prepare_chain_admin (me_fork (observed V)) R bridgehub chain_id (w, l) = (Inr sender, w', l')"
  shows "resolve_chain_admin (fk_views (me_fork V) w (rn_rpc_url R)) bridgehub chain_id = Inr sender \<and> l' = l @ [Funded (rn_rpc_url R) sender]"
  using assms by (auto simp: prepare_chain_admin_def prepare_resolved_def prepare_sender_def log_answer_def split: sum.splits prod.splits option.splits)

lemma enable_validators_observed:
  assumes "stage_enable_validators E (observed V) bridgehub chain_id inputs (R, w, l) = (Inr (gw, n), R', w', l')"
  shows "\<exists>sender timelock new. resolve_chain_admin (fk_views (me_fork V) w (rn_rpc_url R)) bridgehub chain_id = Inr sender
    \<and> (\<forall>a. ev_gateway_validator_timelock inputs = Some a \<longrightarrow> timelock = a) \<and> n = length (validators_of inputs)
    \<and> l' = l @ Funded (rn_rpc_url R) sender # new
    \<and> list_all2 (\<lambda>v. ran_call E V (enableValidatorViaGatewayCall bridgehub (ucast (ev_l1_gas_price inputs)) (ucast chain_id) (ucast gw) v timelock sender True))
        (validators_of inputs) new"
proof -
  obtain r0 w0 l0 where prep: "prepare_chain_admin (me_fork (observed V)) R bridgehub chain_id (w, l) = (r0, w0, l0)" by (metis surj_pair)
  with assms obtain sender where r0: "r0 = Inr sender"
    by (cases r0) (auto simp: stage_enable_validators_def on_world_def bind_st_def)
  note admin = prepare_admin_observed [OF prep [unfolded r0]]
  let ?tl = "case ev_gateway_validator_timelock inputs of Some a \<Rightarrow> Inr a
    | None \<Rightarrow> resolve_gateway_validator_timelock (observed V) (ev_gateway_rpc_url inputs) chain_id (w0, l0)"
  from assms prep r0 obtain timelock where tl: "?tl = Inr timelock"
    and rest: "bind_st (enable_each E (observed V) (\<lambda>v. enableValidatorViaGatewayCall bridgehub (ucast (ev_l1_gas_price inputs)) (ucast chain_id)
        (ucast gw) v timelock sender True) sender (validators_of inputs) (R, w0, l0)) (\<lambda>_ st. (Inr (gw, length (validators_of inputs)), st))
      = (Inr (gw, n), R', w', l')"
    by (auto simp: stage_enable_validators_def on_world_def bind_st_def Let_def split: sum.splits prod.splits)
  obtain st where each: "enable_each E (observed V) (\<lambda>v. enableValidatorViaGatewayCall bridgehub (ucast (ev_l1_gas_price inputs)) (ucast chain_id)
        (ucast gw) v timelock sender True) sender (validators_of inputs) (R, w0, l0) = (Inr (), R', w', l')" and n: "n = length (validators_of inputs)"
    using rest by (cases rule: bind_st_cases) auto
  from enable_each_observed [OF each] obtain new where "l' = l0 @ new"
    "list_all2 (\<lambda>v. ran_call E V (enableValidatorViaGatewayCall bridgehub (ucast (ev_l1_gas_price inputs)) (ucast chain_id) (ucast gw) v timelock sender True))
        (validators_of inputs) new" by auto
  with admin n tl show ?thesis
    by (intro exI [of _ sender] exI [of _ timelock] exI [of _ new]) auto
qed

section \<open>The cut data of the chain\<close>

text \<open>
  The events a chain type manager declares, from \<^verbatim>\<open>IChainTypeManager.sol\<close>, with the types of their parameters. The text that
  is hashed into the first topic of a log is the canonical one of the Solidity ABI: a struct is the tuple of its fields.
\<close>

datatype sol_type = Elementary string | Tuple "sol_type list" | Dynamic_Array sol_type | Fixed_Array sol_type nat

fun type_text :: "sol_type \<Rightarrow> string" where
  "type_text (Elementary s) = s"
| "type_text (Tuple ts) = ''('' @ join '','' (map type_text ts) @ '')''"
| "type_text (Dynamic_Array t) = type_text t @ ''[]''"
| "type_text (Fixed_Array t n) = type_text t @ ''['' @ show_nat n @ '']''"

definition event_signature :: "string \<times> sol_type list \<Rightarrow> string" where
  "event_signature e = fst e @ type_text (Tuple (snd e))"

definition uint256_t :: sol_type where "uint256_t = Elementary ''uint256''"
definition address_t :: sol_type where "address_t = Elementary ''address''"
definition bytes32_t :: sol_type where "bytes32_t = Elementary ''bytes32''"
definition bytes_t :: sol_type where "bytes_t = Elementary ''bytes''"

definition FacetCut_t :: sol_type where
  "FacetCut_t = Tuple [address_t, Elementary ''uint8'', Elementary ''bool'', Dynamic_Array (Elementary ''bytes4'')]"

definition DiamondCutData_t :: sol_type where
  "DiamondCutData_t = Tuple [Dynamic_Array FacetCut_t, address_t, bytes_t]"

definition L2CanonicalTransaction_t :: sol_type where
  "L2CanonicalTransaction_t = Tuple (replicate 10 uint256_t @ [Fixed_Array uint256_t 4, bytes_t, bytes_t, Dynamic_Array uint256_t, bytes_t, bytes_t])"

definition CTM_EVENTS :: "(string \<times> sol_type list) list" where
  "CTM_EVENTS = [
     (''NewZKChain'', [uint256_t, address_t]),
     (''GenesisUpgrade'', [address_t, L2CanonicalTransaction_t, uint256_t]),
     (''NewPendingAdmin'', [address_t, address_t]),
     (''NewAdmin'', [address_t, address_t]),
     (''NewValidatorTimelock'', [address_t, address_t]),
     (''NewValidatorTimelockPostV29'', [address_t, address_t]),
     (''NewServerNotifier'', [address_t, address_t]),
     (''NewChainCreationParams'', [address_t, bytes32_t, Elementary ''uint64'', bytes32_t, DiamondCutData_t, bytes32_t, bytes_t, bytes32_t]),
     (''NewUpgradeCutHash'', [uint256_t, bytes32_t]),
     (''NewUpgradeCutData'', [uint256_t, DiamondCutData_t]),
     (''NewProtocolVersion'', [uint256_t, uint256_t]),
     (''UpdateProtocolVersionDeadline'', [uint256_t, uint256_t]),
     (''NewProtocolVersionVerifier'', [uint256_t, address_t])]"

definition ctm_signatures :: "string set" where
  "ctm_signatures = event_signature ` set CTM_EVENTS"

lemmas event_types = type_text.simps uint256_t_def address_t_def bytes32_t_def bytes_t_def FacetCut_t_def DiamondCutData_t_def
  L2CanonicalTransaction_t_def event_signature_def

text \<open>The event the contracts emit, and that the text the command hashes is the signature of none of them.\<close>

lemma cut_data_signature:
  "event_signature (''NewUpgradeCutData'', [uint256_t, DiamondCutData_t])
    = ''NewUpgradeCutData(uint256,((address,uint8,bool,bytes4[])[],address,bytes))''"
  by code_simp

lemma cut_data_topic_undeclared: "CUT_DATA_TOPIC \<notin> ctm_signatures"
proof -
  have "list_all (\<lambda>e. event_signature e \<noteq> CUT_DATA_TOPIC) CTM_EVENTS"
    by code_simp
  then show ?thesis by (auto simp: ctm_signatures_def list_all_iff)
qed

text \<open>
  A log node returns the logs that match a query. The logs of a chain type manager are events of the contract or of the code
  around it (\<open>around\<close>: the base contracts and the proxy).
\<close>

definition matches_filter :: "log_filter \<Rightarrow> event_log \<Rightarrow> bool" where
  "matches_filter f l \<longleftrightarrow> el_address l = lf_address f \<and> el_topics l \<noteq> [] \<and> hd (el_topics l) = lf_topic0 f
     \<and> (\<forall>t. lf_topic1 f = Some t \<longrightarrow> 2 \<le> length (el_topics l) \<and> el_topics l ! 1 = t)
     \<and> lf_from f \<le> el_block l \<and> (\<forall>b. lf_to f = Some b \<longrightarrow> el_block l \<le> b)"

definition log_node :: "hub_views \<Rightarrow> event_log list \<Rightarrow> bool" where
  "log_node H emitted \<longleftrightarrow> (\<forall>f ls. hv_get_logs H f = Some ls \<longrightarrow> ls = filter (matches_filter f) emitted)"

definition ctm_logs_declared :: "ext \<Rightarrow> string set \<Rightarrow> hub_views \<Rightarrow> event_log list \<Rightarrow> bool" where
  "ctm_logs_declared E around H emitted \<longleftrightarrow>
     (\<forall>l \<in> set emitted. (\<exists>b c. hv_chainTypeManager H b c = Some (el_address l)) \<and> el_topics l \<noteq> []
        \<longrightarrow> (\<exists>s \<in> ctm_signatures \<union> around. hd (el_topics l) = keccak256 E (string_bytes s)))"

definition event_nodes :: "ext \<Rightarrow> string set \<Rightarrow> 'w migration_env \<Rightarrow> string \<Rightarrow> bool" where
  "event_nodes E around V url \<longleftrightarrow> (\<forall>w. \<exists>emitted. log_node (fk_views (me_fork V) w url) emitted
     \<and> ctm_logs_declared E around (fk_views (me_fork V) w url) emitted)"

definition collision_free :: "ext \<Rightarrow> string set \<Rightarrow> bool" where
  "collision_free E signatures \<longleftrightarrow> inj_on (\<lambda>s. keccak256 E (string_bytes s)) signatures"

definition named_otherwise :: "string set \<Rightarrow> bool" where
  "named_otherwise around \<longleftrightarrow> (\<forall>s \<in> around. \<not> starts_with ''NewUpgradeCutData('' s)"

lemma cut_data_hash_differs:
  assumes "named_otherwise around" "collision_free E (insert CUT_DATA_TOPIC (ctm_signatures \<union> around))" "s \<in> ctm_signatures \<union> around"
  shows "keccak256 E (string_bytes s) \<noteq> keccak256 E (string_bytes CUT_DATA_TOPIC)"
proof -
  have "starts_with ''NewUpgradeCutData('' CUT_DATA_TOPIC"
    by code_simp
  then have "s \<noteq> CUT_DATA_TOPIC"
    using assms(1,3) cut_data_topic_undeclared by (auto simp: named_otherwise_def)
  then show ?thesis
    using assms(2,3) by (auto simp: collision_free_def inj_on_def)
qed

lemma cut_data_not_found:
  assumes "log_node H emitted" "ctm_logs_declared E around H emitted" "named_otherwise around"
    and "collision_free E (insert CUT_DATA_TOPIC (ctm_signatures \<union> around))"
  shows "\<exists>e. resolve_l1_diamond_cut_data E V H bridgehub chain_id = Inl e"
proof -
  have none: "ls = []" if "hv_get_logs H f = Some ls" "lf_topic0 f = keccak256 E (string_bytes CUT_DATA_TOPIC)"
    "hv_chainTypeManager H b c = Some (lf_address f)" for f ls b c
  proof -
    have "\<not> matches_filter f l" if "l \<in> set emitted" for l
    proof
      assume m: "matches_filter f l"
      then have "\<exists>s \<in> ctm_signatures \<union> around. hd (el_topics l) = keccak256 E (string_bytes s)"
        using assms(2) that \<open>hv_chainTypeManager H b c = _\<close> unfolding ctm_logs_declared_def matches_filter_def by metis
      with m \<open>lf_topic0 f = _\<close> show False
        using cut_data_hash_differs [OF assms(3,4)] unfolding matches_filter_def by metis
    qed
    moreover have "ls = filter (matches_filter f) emitted" using assms(1) that(1) by (simp add: log_node_def)
    ultimately show ?thesis by (simp add: filter_empty_conv)
  qed
  show ?thesis
  proof (cases "resolve_l1_diamond_cut_data E V H bridgehub chain_id")
    case (Inr b)
    then show ?thesis using none by (fastforce simp: resolve_l1_diamond_cut_data_def split: if_splits)
  qed simp
qed

text \<open>So without cut data from the command line the submission fails before any script has run.\<close>

lemma submit_without_cut_data:
  assumes "event_nodes E around V (sr_l1_rpc_url shared)" "named_otherwise around"
    "collision_free E (insert CUT_DATA_TOPIC (ctm_signatures \<union> around))"
    and run: "stage_submit_from E (observed V) bridgehub chain_id price None refund shared (R, w, l) = (r, R', w', l')"
  shows "\<exists>e new. r = Inl e \<and> l' = l @ new \<and> (\<forall>path args. Ran path args \<notin> set new)"
proof -
  have failed: "\<exists>e. resolve_l1_diamond_cut_data E (observed V) (fk_views (me_fork V) v (sr_l1_rpc_url shared)) bridgehub chain_id = Inl e" for v
  proof -
    obtain emitted where "log_node (fk_views (me_fork V) v (sr_l1_rpc_url shared)) emitted"
      "ctm_logs_declared E around (fk_views (me_fork V) v (sr_l1_rpc_url shared)) emitted"
      using assms(1) by (auto simp: event_nodes_def)
    then show ?thesis by (rule cut_data_not_found [OF _ _ assms(2,3)])
  qed
  obtain r0 w0 l0 where prep: "prepare_chain_admin (me_fork (observed V)) R bridgehub chain_id (w, l) = (r0, w0, l0)" by (metis surj_pair)
  have l0: "l0 = l \<or> (\<exists>u a. l0 = l @ [Funded u a])"
    using prep by (auto simp: prepare_chain_admin_def prepare_resolved_def prepare_sender_def log_answer_def split: sum.splits prod.splits option.splits)
  obtain e where "resolve_l1_diamond_cut_data E (observed V) (fk_views (me_fork V) w0 (sr_l1_rpc_url shared)) bridgehub chain_id = Inl e"
    using failed by blast
  with run prep have "\<exists>e. r = Inl e \<and> l' = l0"
    by (auto simp: stage_submit_from_def on_world_def bind_st_def cut_data_hex_def split: sum.splits) metis
  with l0 show ?thesis by auto
qed

lemma submit_phase_without_cut_data:
  assumes "event_nodes E around V (sr_l1_rpc_url (pa_shared args))" "named_otherwise around"
    "collision_free E (insert CUT_DATA_TOPIC (ctm_signatures \<union> around))" "f1_l1_diamond_cut_data args = None"
    and run: "from_phase1_submit E (observed V) args (w, []) d = (r, (w', l), d')"
  shows "(\<exists>e. r = Inl e) \<and> d' = d \<and> (\<forall>path as. Ran path as \<notin> set l)"
proof (cases "chain_args_resolve E (me_files V) (pa_topology args)")
  case (Inl e)
  with run show ?thesis by (auto simp: from_phase1_submit_def begin_phase_def end_phase_def bind_st_def phase_args.truncate_def)
next
  case (Inr bc)
  obtain bridgehub chain_id where bc: "bc = (bridgehub, chain_id)" by (cases bc)
  obtain r1 w1 l1 where new: "runner_new (observed V) (pa_shared args) (w, []) = (r1, w1, l1)" by (metis surj_pair)
  have l1: "l1 = [Forked w (sr_l1_rpc_url (pa_shared args))]" using runner_new_observed [OF new] by simp
  show ?thesis
  proof (cases r1)
    case (Inl e)
    with run Inr bc new l1 show ?thesis by (auto simp: from_phase1_submit_def begin_phase_def end_phase_def bind_st_def phase_args.truncate_def)
  next
    case R: (Inr R)
    obtain r2 R2 w2 l2 where stage: "stage_submit_from E (observed V) bridgehub chain_id (f1_l1_gas_price args) None (f1_refund_recipient args)
        (pa_shared args) (R, w1, l1) = (r2, R2, w2, l2)" by (metis surj_pair)
    obtain e more where r2: "r2 = Inl e" "l2 = l1 @ more" "\<forall>path as. Ran path as \<notin> set more"
      using submit_without_cut_data [OF assms(1-3) stage] by blast
    have "(r, (w', l), d') = (Inl e, (w2, l2), d)"
      using run Inr bc new R stage r2(1) assms(4)
      by (simp add: from_phase1_submit_def begin_phase_def end_phase_def bind_st_def phase_args.truncate_def with_runner_def)
    with r2 l1 show ?thesis by auto
  qed
qed

end
