(* ===== verification/Example_Migration.thy ===== *)
theory Example_Migration
  imports Example_Merge Migration_Runs
begin

section \<open>Example inputs of the migration\<close>

text \<open>
  A chain that settles on gateway 506, a gateway that answers the second time it is asked, and a forge that
  succeeds: the inputs at which the theorems on the runner and on the migration are applied. The world is the time.
\<close>

definition demo_priority_log :: event_log where
  "demo_priority_log = \<lparr>el_address = 0x77, el_topics = [keccak256 demo_ext (string_bytes NEW_PRIORITY_REQUEST)], el_data = replicate 64 0,
     el_tx_hash = Some 1, el_block = 7\<rparr>"

definition demo_upgrade_log :: event_log where
  "demo_upgrade_log = \<lparr>el_address = 0x66, el_topics = [keccak256 demo_ext (string_bytes ''NewUpgradeCutData(uint256,((address,uint8,bool,bytes4[])[],address,bytes))''), 9],
     el_data = [], el_tx_hash = Some 2, el_block = 5\<rparr>"

definition demo_views :: hub_views where
  "demo_views = \<lparr>hv_chainTypeManager = (\<lambda>b c. Some 0x66), hv_getAllZKChainChainIDs = (\<lambda>b. Some [271]), hv_l1CtmDeployer = (\<lambda>b. Some 0x65),
     hv_L1_CHAIN_ID = (\<lambda>b. Some 9), hv_settlementLayer = (\<lambda>b c. Some 506), hv_owner = (\<lambda>a. Some 0x64), hv_admin = (\<lambda>a. Some 0x63),
     hv_getZKChain = (\<lambda>b c. Some 0x77), hv_chainAssetHandler = (\<lambda>b. Some 0x62), hv_L1_BYTECODES_SUPPLIER = (\<lambda>c. Some 0x61),
     hv_validatorTimelockPostV29 = (\<lambda>c. Some 0x60), hv_isZKsyncOS = (\<lambda>c. Some False), hv_protocolVersion = (\<lambda>c. Some 9),
     hv_protocolVersionVerifier = (\<lambda>c v. Some 0x59), hv_getProtocolVersion = (\<lambda>c i. Some 9), hv_IS_TESTNET_VERIFIER = (\<lambda>v. None),
     hv_getAdmin = (\<lambda>d. Some 0x58), hv_getRollupDAManager = (\<lambda>d. Some 0x57), hv_getTotalBatchesExecuted = (\<lambda>d. Some 3),
     hv_defaultAdmin = (\<lambda>r. Some 0x56), hv_get_block_number = Some 1000, hv_get_logs = (\<lambda>f. Some (filter (matches_filter f) [demo_upgrade_log])),
     hv_receipt_logs = (\<lambda>h. Some (Some [demo_priority_log]))\<rparr>"

definition demo_broadcast_file :: json where
  "demo_broadcast_file = JObj [(''timestamp'', JNum (Some 5)), (''transactions'', JArr [])]"

definition demo_forge :: "bool \<Rightarrow> nat forge_world" where
  "demo_forge present = \<lparr>fw_exec = (\<lambda>w base path args envs. (Inr [], w)), fw_exists = (\<lambda>w p. present), fw_read = (\<lambda>w p. Some ''broadcast''),
     fw_now_ms = (\<lambda>w. 4000), fw_chain_id = (\<lambda>w u. Some 9)\<rparr>"

definition demo_broadcast_io :: json_io where
  "demo_broadcast_io = \<lparr>json_parse = (\<lambda>s. Some demo_broadcast_file), json_print = (\<lambda>j. [])\<rparr>"

definition demo_forge_args :: forge_script_args where
  "demo_forge_args = \<lparr>fa_args = [], fa_verify = None, fa_verifier = Etherscan, fa_verifier_url = None, fa_verifier_api_key = None,
     fa_zksync = False, fa_additional_args = []\<rparr>"

definition demo_env_files :: env_files where
  "demo_env_files = \<lparr>root_variable = Some ''/repo'', default_contracts_root = ''/repo'', path_exists = (\<lambda>p. False), read_to_string = (\<lambda>p. None),
     permanent_from_toml = (\<lambda>s. None)\<rparr>"

definition demo_env :: "nat migration_env" where
  "demo_env = \<lparr>me_forge = demo_forge False, me_fork = \<lparr>fk_views = (\<lambda>w u. demo_views), fk_set_balance = (\<lambda>w u a. (Some (), w))\<rparr>,
     me_files = demo_env_files, me_json = demo_broadcast_io, me_libs = {}, me_anvil_fork = (\<lambda>w u. (Some ''anvil'', w)),
     me_create_dir = (\<lambda>w d. (Some (), w)), me_instant = (\<lambda>w. w), me_sleep = (\<lambda>w n. w + n), me_url_ok = (\<lambda>u. True),
     me_receipt = (\<lambda>w u h. (Some (if w = 0 then None else Some \<lparr>mr_status = Some ''0x1'', mr_block_number = Some ''0x5''\<rparr>), w)),
     me_finalized = (\<lambda>w u. (Some (Some (Some ''0x5'')), w)), me_request = (\<lambda>w u m ps. (Some (JBool True), w)),
     me_proof = (\<lambda>w u h i. (Some \<lparr>lp_batch_number = 3, lp_id = 1, lp_proof = [4]\<rparr>, w)),
     me_read_gateway_receipt = (\<lambda>j. Some [\<lparr>ll_sender = L2_BOOTLOADER, ll_transaction_index = ''0x2''\<rparr>]),
     me_read_log_proof = (\<lambda>j. Some \<lparr>lp_batch_number = 3, lp_id = 1, lp_proof = []\<rparr>),
     me_read_zksync_receipt = (\<lambda>j. Some \<lparr>zr_logs = [\<lparr>rl_address = address_text demo_ext l1_messenger_address,
         rl_topics = [hash_line demo_ext (l1_message_sent_topic demo_ext)], rl_data = []\<rparr>],
       zr_l2_to_l1_logs = [\<lparr>ll_sender = address_text demo_ext l1_messenger_address, ll_transaction_index = ''0x2''\<rparr>]\<rparr>),
     me_encode = (\<lambda>c. [1, 2, 3, 4]), me_decode_bytes = Some, me_decode_cut = (\<lambda>b. None), me_encode_cut = (\<lambda>c. [])\<rparr>"

definition demo_shared :: shared_run_args where
  "demo_shared = \<lparr>sr_l1_rpc_url = ''l1'', sr_subdir = None, sr_forge_args = demo_forge_args\<rparr>"

definition demo_topology :: ecosystem_chain_args where
  "demo_topology = \<lparr>ec_ecosystem = \<lparr>ea_bridgehub = Some 0x55, ea_env = None\<rparr>, ec_chain_id = 271\<rparr>"

definition demo_finalize_args :: finalize_migration_args where
  "demo_finalize_args = \<lparr>fm_shared = demo_shared, fm_bridgehub = 0x55, fm_chain_id = 271, fm_deployer_address = 0x54, fm_gateway_rpc_url = ''gw'',
     fm_lookback_blocks = DEFAULT_FINALIZE_LOOKBACK_BLOCKS, fm_priority_op_hash_hint = Some 8\<rparr>"

definition demo_from_args :: from_phase2_args where
  "demo_from_args = \<lparr>pa_shared = demo_shared, pa_topology = demo_topology, f2_deployer_address = 0x54, f2_gateway_rpc_url = ''gw'',
     f2_migration_l2_tx_hash = 8\<rparr>"

definition demo_enable_inputs :: enable_validators_inputs where
  "demo_enable_inputs = \<lparr>ev_commit_operator = 3, ev_prove_operator = 2, ev_execute_operator = 3, ev_gateway_validator_timelock = None,
     ev_gateway_rpc_url = ''gw'', ev_l1_gas_price = 1\<rparr>"

definition demo_runner :: runner where
  "demo_runner = \<lparr>rn_forge_args = demo_forge_args, rn_rpc_url = ''anvil'', rn_foundry_path = ''/repo/l1-contracts'', rn_subdir = None, rn_runs = [],
     rn_extra_logs = [], rn_gw_logs = []\<rparr>"

lemma demo_clock: "clock_moves demo_env"
  by (simp add: clock_moves_def demo_env_def)

lemmas demo_env_simps = demo_env_def demo_forge_def demo_views_def log_answer_def pass_def

lemma demo_run: "\<exists>R' l'. run_forge (observed demo_env) s (R, w, l) = (Inr (), R', w, l')"
  by (simp add: run_forge_def runner_run_def execute_def observed_def demo_env_simps Let_def proposal_error_def record_run_def find_run_latest_file_def
      split: option.splits prod.splits)

lemma demo_layer: "resolve_settlement_layer demo_views b c = Inr 506"
  by (simp add: resolve_settlement_layer_def demo_views_def u64_try_from_def)

lemma demo_env_fields:
  "me_instant demo_env w = w" "me_sleep demo_env w n = w + n" "me_url_ok demo_env u = True" "fk_views (me_fork demo_env) w u = demo_views"
  "me_receipt demo_env w u h = (Some (if w = 0 then None else Some \<lparr>mr_status = Some ''0x1'', mr_block_number = Some ''0x5''\<rparr>), w)"
  "me_finalized demo_env w u = (Some (Some (Some ''0x5'')), w)" "me_request demo_env w u m ps = (Some (JBool True), w)"
  "me_read_gateway_receipt demo_env j = Some [\<lparr>ll_sender = L2_BOOTLOADER, ll_transaction_index = ''0x2''\<rparr>]"
  "me_read_log_proof demo_env j = Some \<lparr>lp_batch_number = 3, lp_id = 1, lp_proof = []\<rparr>"
  "me_proof demo_env w u h i = (Some \<lparr>lp_batch_number = 3, lp_id = 1, lp_proof = [4]\<rparr>, w)" "me_decode_bytes demo_env = Some"
  "me_anvil_fork demo_env w u = (Some ''anvil'', w)" "fk_set_balance (me_fork demo_env) w u a = (Some (), w)"
  by (simp_all add: demo_env_def)

lemma demo_hex:
  "u64_from_str_radix_16 (trim_start_matches ''0x'' ''0x5'') = Some 5" "u16_from_str_radix_16 (trim_start_matches ''0x'' ''0x2'') = Some 2"
  by (simp_all add: trim_start_matches.simps u64_from_str_radix_16_def u16_from_str_radix_16_def hex_value_def)

lemma demo_bootloader: "map to_ascii_lowercase L2_BOOTLOADER = L2_BOOTLOADER"
  by (simp add: L2_BOOTLOADER_def to_ascii_lowercase_def)

text \<open>The receipt is there at the second round, everything else at once.\<close>

lemma demo_l2_receipt: "\<exists>l'. wait_for_l2_tx_receipt E (observed demo_env) u h (0, l) = Some (Inr 5, seconds 2, l')"
proof -
  have block: "receipt_block \<lparr>mr_status = Some ''0x1'', mr_block_number = Some ''0x5''\<rparr> = 5"
    by (simp add: receipt_block_def demo_hex)
  have first: "l2_tx_receipt_body E (observed demo_env) u h 0 (0, l) = (None, 0, l @ [Asked_Receipt u (hash_line E h) (Some None)])"
    by (simp add: l2_tx_receipt_body_def demo_env_fields log_answer_def elapsed_def)
  have second: "\<exists>l''. l2_tx_receipt_body E (observed demo_env) u h 0 (seconds 2, l') = (Some (Inr 5), seconds 2, l'')" for l'
    by (simp add: l2_tx_receipt_body_def demo_env_fields log_answer_def elapsed_def seconds_def wait_timeout_def block)
  have slept: "pause_of (observed demo_env) (0, l') = (seconds 2, l')" for l'
    by (simp add: pause_of_def demo_env_fields)
  obtain l'' where fin: "l2_tx_receipt_body E (observed demo_env) u h 0 (seconds 2, l @ [Asked_Receipt u (hash_line E h) (Some None)])
      = (Some (Inr 5), seconds 2, l'')" using second by blast
  have "retry_loop (l2_tx_receipt_body E (observed demo_env) u h 0) (pause_of (observed demo_env)) (0, l) = Some (Inr 5, seconds 2, l'')"
    by (subst retry_loop.simps, subst first, unfold prod.case option.case slept, subst retry_loop.simps, subst fin) simp
  then show ?thesis by (simp add: wait_for_l2_tx_receipt_def demo_env_fields)
qed

lemma demo_finalized: "\<exists>l'. wait_for_gateway_block_finalized (observed demo_env) u 5 (w, l) = Some (Inr (), w, l')"
proof -
  have "reached (Some (Some (Some ''0x5''))) 5" by (simp add: reached_def demo_hex)
  then have "finalized_body (observed demo_env) u 5 w (w, l) = (Some (Inr ()), w, l @ [Asked_Finalized u (Some (Some (Some ''0x5'')))])"
    by (simp add: finalized_body_def demo_env_fields log_answer_def elapsed_def)
  then have "retry_loop (finalized_body (observed demo_env) u 5 w) (pause_of (observed demo_env)) (w, l)
      = Some (Inr (), w, l @ [Asked_Finalized u (Some (Some (Some ''0x5'')))])"
    by (subst retry_loop.simps) simp
  then show ?thesis by (simp add: wait_for_gateway_block_finalized_def demo_env_fields)
qed

lemma demo_params:
  "retry_loop (params_body E (observed demo_env) u h start) (pause_of (observed demo_env)) (w, l) =
     Some (Inr \<lparr>fp_batch_number = 3, fp_l2_message_index = 1, fp_l2_tx_number_in_batch = 2, fp_merkle_proof = []\<rparr>, w, l)"
proof -
  have "log_from L2_BOOTLOADER 0 [\<lparr>ll_sender = L2_BOOTLOADER, ll_transaction_index = ''0x2''\<rparr>] = Some (0, Some 2)"
    using demo_bootloader by (simp add: demo_hex)
  then have "params_body E (observed demo_env) u h start (w, l) =
      (Some (Inr \<lparr>fp_batch_number = 3, fp_l2_message_index = 1, fp_l2_tx_number_in_batch = 2, fp_merkle_proof = []\<rparr>), w, l)"
    by (simp add: params_body_def get_finalize_params_observed get_finalize_params_def bootloader_log_def params_of_proof_def demo_env_fields pass_def)
  then show ?thesis by (subst retry_loop.simps) simp
qed

lemma demo_runner_new: "\<exists>R l'. runner_new (observed demo_env) demo_shared (w, l) = (Inr R, w, l')"
  by (simp add: runner_new_def demo_shared_def scoped_dirs_def bind_st_def Let_def demo_env_fields log_answer_def)

lemma demo_sender: "\<exists>l'. prepare_sender (me_fork (observed demo_env)) R a (w, l) = (Inr a, w, l')"
  by (simp add: prepare_sender_def demo_env_fields log_answer_def)

lemma demo_finish: "\<exists>x l'. finish_to E (observed demo_env) demo_finalize_args gw h
    \<lparr>fp_batch_number = 3, fp_l2_message_index = 1, fp_l2_tx_number_in_batch = 2, fp_merkle_proof = []\<rparr> (w, l) = (Inr x, w, l')"
proof -
  obtain R l1 where 1: "runner_new (observed demo_env) demo_shared (w, l) = (Inr R, w, l1)" using demo_runner_new by blast
  obtain l2 where 2: "prepare_sender (me_fork (observed demo_env)) R (fm_deployer_address demo_finalize_args) (w, l1)
      = (Inr (fm_deployer_address demo_finalize_args), w, l2)" using demo_sender by blast
  have shared: "fm_shared demo_finalize_args = demo_shared" by (simp add: demo_finalize_args_def)
  show ?thesis
    unfolding finish_to_def shared 1
    using demo_run [of "with_wallet E (fm_deployer_address demo_finalize_args) (with_arg Ffi (script_call E (observed demo_env) R
        (call_to demo_finalize_args gw h \<lparr>fp_batch_number = 3, fp_l2_message_index = 1, fp_l2_tx_number_in_batch = 2, fp_merkle_proof = []\<rparr> [])))" R w l2]
    by (auto simp: bind_st_def 2 parse_merkle_proof_def call_to_def)
qed

lemma demo_finalize: "\<exists>x w' l. finalize_migration E (observed demo_env) demo_finalize_args (0, []) = Some (Inr x, w', l)"
proof -
  obtain l1 where 1: "wait_for_l2_tx_receipt E (observed demo_env) ''gw'' 8 (0, []) = Some (Inr 5, seconds 2, l1)"
    using demo_l2_receipt by blast
  obtain l2 where 2: "wait_for_gateway_block_finalized (observed demo_env) ''gw'' 5 (seconds 2, l1) = Some (Inr (), seconds 2, l2)"
    using demo_finalized by blast
  have args: "fm_gateway_rpc_url demo_finalize_args = ''gw''" "fm_priority_op_hash_hint demo_finalize_args = Some 8"
    by (simp_all add: demo_finalize_args_def)
  show ?thesis
    unfolding finalize_migration_def Let_def args observed_simps demo_env_fields demo_layer
    by (simp add: bind_loop_def priority_op_hash_of_def args 1 2 demo_params) (insert demo_finish, fastforce)
qed

subsection \<open>Back from the gateway\<close>

lemma demo_hash_lower: "map to_ascii_lowercase (hash_line demo_ext h) = hash_line demo_ext h"
proof -
  have "\<forall>c \<in> set (hex_encode demo_ext (b256_bytes h)). c \<in> set ''0123456789abcdef''"
    using demo_hex_text unfolding hex_text_codec_def by blast
  then have "map to_ascii_lowercase (hex_encode demo_ext (b256_bytes h)) = hex_encode demo_ext (b256_bytes h)"
    using hex_chars(3) by (intro map_idI) blast
  moreover have "map to_ascii_lowercase ''0x'' = ''0x''" by (simp add: to_ascii_lowercase_def)
  ultimately show ?thesis by (simp only: hash_line_def map_append)
qed

lemma demo_withdrawal:
  "retry_loop (withdrawal_body demo_ext (observed demo_env) u h start) (pause_of (observed demo_env)) (w, l) =
     Some (Inr \<lparr>wp_l2_batch_number = 3, wp_l2_message_index = 1, wp_l2_tx_number_in_batch = 2, wp_message = [], wp_merkle_proof = [4]\<rparr>, w, l)"
proof -
  let ?m = "address_text demo_ext l1_messenger_address" and ?t = "hash_line demo_ext (l1_message_sent_topic demo_ext)"
  let ?receipt = "\<lparr>zr_logs = [\<lparr>rl_address = ?m, rl_topics = [?t], rl_data = []\<rparr>], zr_l2_to_l1_logs = [\<lparr>ll_sender = ?m, ll_transaction_index = ''0x2''\<rparr>]\<rparr>"
  have lower: "map to_ascii_lowercase ?t = ?t" by (rule demo_hash_lower)
  have "trim_start_matches ''0x'' [] = []" by (simp add: trim_start_matches.simps)
  with lower have "withdrawal_message demo_ext demo_env ?receipt = Inr (0, 2, [])"
    by (simp add: withdrawal_message_def is_message_log_def demo_hex demo_env_fields demo_hex_Nil)
  moreover have "me_read_zksync_receipt demo_env j = Some ?receipt" for j by (simp add: demo_env_def)
  ultimately have "get_finalize_withdrawal_params demo_ext demo_env u h w =
      (Inr \<lparr>wp_l2_batch_number = 3, wp_l2_message_index = 1, wp_l2_tx_number_in_batch = 2, wp_message = [], wp_merkle_proof = [4]\<rparr>, w)"
    by (simp add: get_finalize_withdrawal_params_def demo_env_fields str_or_def get_str_def)
  then have "withdrawal_body demo_ext (observed demo_env) u h start (w, l) =
      (Some (Inr \<lparr>wp_l2_batch_number = 3, wp_l2_message_index = 1, wp_l2_tx_number_in_batch = 2, wp_message = [], wp_merkle_proof = [4]\<rparr>), w, l)"
    by (simp add: withdrawal_body_def get_withdrawal_observed pass_def)
  then show ?thesis by (subst retry_loop.simps) simp
qed

lemma demo_executed: "wait_for_gateway_batch_executed_on_l1 (observed demo_env) l1 b gw 3 (w, l) = Some (Inr (), w, l)"
proof -
  have "resolve_zk_chain demo_views b gw = Inr 0x77" by (simp add: resolve_zk_chain_def demo_views_def)
  moreover have "executed_body (observed demo_env) l1 0x77 3 w (w, l) = (Some (Inr ()), w, l)"
    by (simp add: executed_body_def demo_env_fields demo_views_def)
  then have "retry_loop (executed_body (observed demo_env) l1 0x77 3 w) (pause_of (observed demo_env)) (w, l) = Some (Inr (), w, l)"
    by (subst retry_loop.simps) simp
  ultimately show ?thesis
    by (simp add: wait_for_gateway_batch_executed_on_l1_def demo_env_fields bind_loop_def)
qed

lemma demo_finish_from: "\<exists>x l'. finish_from E (observed demo_env) demo_from_args b c gw p (w, l) = (Inr x, w, l')"
proof -
  obtain R l1 where 1: "runner_new (observed demo_env) demo_shared (w, l) = (Inr R, w, l1)" using demo_runner_new by blast
  obtain l2 where 2: "prepare_sender (me_fork (observed demo_env)) R (f2_deployer_address demo_from_args) (w, l1)
      = (Inr (f2_deployer_address demo_from_args), w, l2)" using demo_sender by blast
  have shared: "pa_shared demo_from_args = demo_shared" by (simp add: demo_from_args_def)
  show ?thesis
    unfolding finish_from_def shared 1
    using demo_run [of "with_wallet E (f2_deployer_address demo_from_args) (with_arg Ffi (script_call E (observed demo_env) R (call_from b c gw p)))" R w l2]
    by (auto simp: bind_st_def 2 call_from_def with_runner_def)
qed

lemma demo_from: "\<exists>w' l. from_phase2_finalize demo_ext (observed demo_env) demo_from_args (0, []) None = Some (Inr (), (w', l), None)"
proof -
  obtain l1 where 1: "wait_for_l2_tx_receipt demo_ext (observed demo_env) ''gw'' 8 (0, []) = Some (Inr 5, seconds 2, l1)"
    using demo_l2_receipt by blast
  have args: "f2_gateway_rpc_url demo_from_args = ''gw''" "f2_migration_l2_tx_hash demo_from_args = 8" "pa_topology demo_from_args = demo_topology"
    by (simp_all add: demo_from_args_def)
  have topology: "chain_args_resolve demo_ext M demo_topology = Inr (0x55, 271)" for M
    by (simp add: chain_args_resolve_def ecosystem_resolve_def demo_topology_def)
  obtain x l2 where 2: "finish_from demo_ext (observed demo_env) demo_from_args 0x55 271 506
      \<lparr>wp_l2_batch_number = 3, wp_l2_message_index = 1, wp_l2_tx_number_in_batch = 2, wp_message = [], wp_merkle_proof = [4]\<rparr> (seconds 2, l1)
      = (Inr x, seconds 2, l2)" using demo_finish_from by blast
  have "end_phase (observed demo_env) c s (Inr x, seconds 2, l2) None = (Inr (), (seconds 2, l2), None)" for c s
    by (cases x) (simp add: end_phase_def write_output_if_requested_def)
  then show ?thesis
    unfolding from_phase2_finalize_def Let_def args topology
    by (simp add: bind_loop_def demo_env_fields demo_layer 1 demo_withdrawal demo_executed 2)
qed

subsection \<open>Validators, cut data and broadcast files\<close>

lemma demo_validators: "validators_of demo_enable_inputs = [2, 3]"
  by (simp add: validators_of_def demo_enable_inputs_def)

lemma demo_enable:
  "\<exists>R' w' l'. stage_enable_validators demo_ext (observed demo_env) 0x55 271 demo_enable_inputs (demo_runner, 0, []) = (Inr (506, 2), R', w', l')"
proof -
  have admin: "resolve_chain_admin demo_views b c = Inr 0x58" for b c
    by (simp add: resolve_chain_admin_def resolve_zk_chain_def demo_views_def)
  obtain l0 where prep: "prepare_chain_admin (me_fork (observed demo_env)) demo_runner 0x55 271 (0, []) = (Inr 0x58, 0, l0)"
    using demo_sender [where R = demo_runner and a = "0x58" and w = 0 and l = "[]"]
    by (auto simp: prepare_chain_admin_def prepare_resolved_def demo_env_fields admin)
  have each: "\<exists>R' l'. enable_each E (observed demo_env) call sender vs (R, w, l) = (Inr (), R', w, l')" for E call sender vs R w l
  proof (induction vs arbitrary: R l)
    case (Cons v vs)
    show ?case
      using demo_run [of "with_wallet E sender (script_call E (observed demo_env) R (call v))" R w l] Cons.IH by (auto simp: bind_st_def)
  qed simp
  have tl: "resolve_gateway_validator_timelock (observed demo_env) u c (0, l) = Inr 0x60" for u c l
    by (simp add: resolve_gateway_validator_timelock_def demo_env_fields demo_views_def)
  have none: "ev_gateway_validator_timelock demo_enable_inputs = None" by (simp add: demo_enable_inputs_def)
  let ?call = "\<lambda>v. enableValidatorViaGatewayCall 0x55 (ucast (ev_l1_gas_price demo_enable_inputs)) (ucast (271 :: u64)) (ucast (506 :: u64)) v 0x60 0x58 True"
  obtain R' l' where "enable_each demo_ext (observed demo_env) ?call 0x58 [2, 3] (demo_runner, 0, l0) = (Inr (), R', 0, l')" using each by blast
  then show ?thesis
    by (simp add: stage_enable_validators_def on_world_def prep bind_st_def demo_env_fields demo_layer none tl demo_validators del: enable_each.simps)
qed

lemma demo_log_node: "log_node demo_views [demo_upgrade_log]"
  by (simp add: log_node_def demo_views_def)

definition demo_around :: "string set" where
  "demo_around = {''OwnershipTransferred(address,address)''}"

lemma demo_event_nodes: "event_nodes demo_ext demo_around demo_env u"
proof -
  have "event_signature (''NewUpgradeCutData'', [uint256_t, DiamondCutData_t]) \<in> ctm_signatures"
    unfolding ctm_signatures_def by (rule imageI) (simp add: CTM_EVENTS_def)
  then have "ctm_logs_declared demo_ext demo_around demo_views [demo_upgrade_log]"
    unfolding cut_data_signature by (auto simp: ctm_logs_declared_def demo_upgrade_log_def)
  with demo_log_node show ?thesis by (auto simp: event_nodes_def demo_env_fields)
qed

lemma demo_around_named: "named_otherwise demo_around"
  by (simp add: named_otherwise_def demo_around_def starts_with_def)

text \<open>The hashes of the signatures differ already in their low 32 bits.\<close>

definition demo_texts :: "string list" where
  "demo_texts = CUT_DATA_TOPIC # ''OwnershipTransferred(address,address)'' # map event_signature CTM_EVENTS"

definition low_hash :: "bytes \<Rightarrow> 32 word" where
  "low_hash bs = foldl (\<lambda>h b. 257 * h + ucast b + 1) 0 bs"

lemma ucast_step: "(ucast (257 * h + ucast b + 1 :: b256) :: 32 word) = 257 * ucast h + ucast (b :: 8 word) + 1"
proof -
  have down: "(of_nat (n mod 2 ^ LENGTH(256)) :: 32 word) = of_nat n" for n
    by (simp add: word_unat_eq_iff unat_of_nat mod_mod_cancel le_imp_power_dvd)
  have cast: "(ucast z :: 32 word) = of_nat (unat z)" for z :: b256
    by simp
  have "(ucast (x + y :: b256) :: 32 word) = ucast x + ucast y" "(ucast (x * y :: b256) :: 32 word) = ucast x * ucast y" for x y
    by (simp_all only: cast unat_word_ariths down of_nat_add of_nat_mult)
  moreover have "(ucast (ucast b :: b256) :: 32 word) = ucast b" 
    by transfer (simp add: take_bit_eq_mod mod_mod_cancel le_imp_power_dvd)
  ultimately show ?thesis by simp
qed

lemma ucast_poly_hash: "ucast (poly_hash bs) = low_hash bs"
proof -
  have "(ucast (foldl (\<lambda>h b. 257 * h + ucast b + 1) (g :: b256) bs) :: 32 word)
      = foldl (\<lambda>h b. 257 * h + ucast b + 1) (ucast g) bs" for g
    by (induction bs arbitrary: g) (simp_all add: ucast_step)
  then show ?thesis by (simp add: poly_hash_def low_hash_def)
qed

lemma demo_low: "distinct (map (\<lambda>s. low_hash (string_bytes s)) demo_texts)"
  by code_simp

lemma demo_distinct: "distinct (map (\<lambda>s. keccak256 demo_ext (string_bytes s)) demo_texts)"
proof -
  have "map (\<lambda>s. low_hash (string_bytes s)) demo_texts = map ucast (map (\<lambda>s. keccak256 demo_ext (string_bytes s)) demo_texts)"
    by (simp add: ucast_poly_hash)
  with demo_low show ?thesis
    by (metis distinct_map)
qed

lemma demo_collision_free: "collision_free demo_ext (insert CUT_DATA_TOPIC (ctm_signatures \<union> demo_around))"
proof -
  have "insert CUT_DATA_TOPIC (ctm_signatures \<union> demo_around) = set demo_texts"
    by (auto simp: ctm_signatures_def demo_around_def demo_texts_def)
  with demo_distinct show ?thesis by (simp only: collision_free_def distinct_map)
qed

definition demo_submit_args :: from_phase1_args where
  "demo_submit_args = \<lparr>pa_shared = demo_shared, pa_topology = demo_topology, f1_l1_gas_price = 1, f1_l1_diamond_cut_data = None,
     f1_refund_recipient = 3\<rparr>"

lemma demo_recorded:
  "\<exists>R'. runner_run (demo_forge True) demo_broadcast_io (script_call demo_ext demo_env demo_runner (notifyServerMigrationToGatewayCall 0x55 271 True))
     demo_runner 0 = (Inr (), R', 0) \<and> map fr_payload (rn_runs R') = [demo_broadcast_file]"
proof -
  let ?s = "script_call demo_ext demo_env demo_runner (notifyServerMigrationToGatewayCall 0x55 271 True)"
  have path: "sc_script_path ?s = ''deploy-scripts/AdminFunctions.s.sol''"
    by (simp add: script_call_def script_with_calldata_def with_broadcast_def with_calldata_def with_arg_def runner_script_def Let_def
        ADMIN_FUNCTIONS_INVOCATION_def params_ffi_rpc_def demo_runner_def)
  have script_file: "path_file_name ''deploy-scripts/AdminFunctions.s.sol'' = Some ''AdminFunctions.s.sol''" by code_simp
  have ts: "run_ts_s demo_broadcast_file = 5"
    by (simp add: run_ts_s_def timestamp_raw_def demo_broadcast_file_def)
  have runs: "rn_runs demo_runner = []" by (simp add: demo_runner_def)
  show ?thesis
    by (simp add: runner_run_def needs_bridgehub_skip_def path execute_def demo_forge_def Let_def proposal_error_def record_run_def find_run_latest_file_def
        script_file demo_broadcast_io_def ts runs is_gw_deploy_script_def starts_with_def)
qed

lemma demo_script_at: "script_at (pm_script_path ADMIN_FUNCTIONS_INVOCATION) ''AdminFunctions.s.sol''"
  unfolding script_at_def ADMIN_FUNCTIONS_INVOCATION_def params_ffi_rpc_def
  by (intro exI [of _ "''deploy-scripts''"] exI [of _ "''AdminFunctions.s''"] exI [of _ "[]"]) simp

lemma demo_plain_paths: "plain_paths demo_runner" "fa_args (rn_forge_args demo_runner) = []"
  by (simp_all add: plain_paths_def plain_dir_def demo_runner_def demo_forge_args_def)

end
