(* ===== verification/Spec2Isabelle.thy ===== *)
theory Spec2Isabelle
  imports Example_Migration
begin

text \<open>
  \<^bold>\<open>The protocol upgrade verification tool of protocol-ops.\<close>

  The Rust program \<^verbatim>\<open>protocol-ops\<close> prepares and checks upgrades of the ZK chains' L1 contracts.
  Its core is the verifier under \<^verbatim>\<open>src/protocol-ops/src/upgrade_verification/\<close>, which decides
  whether a proposed upgrade may be signed: it reads the artifact of the upgrade (a TOML
  document), known bytecode hashes, the log of deployment transactions and the live chains, and
  reports every deviation. This development models that verifier,
  the commands around it that write and replay transactions, and two tools used with it: the generator
  of a chain's genesis and the checker that waits for an upgrade to be finalized. All paths below are relative to
  that directory; \<^verbatim>\<open>v31/\<close> stands for \<^verbatim>\<open>versions/v31/\<close>.

  \<^bold>\<open>How the parts interact.\<close> The command (\<open>Verify_Upgrade\<close>) loads the environment (\<open>Env_Config\<close>), reads
  the artifact (\<open>Artifacts\<close>), checks its shape (\<open>Artifact_Shape\<close>) and reads the transactions log
  (\<open>Tx_Log\<close>). The pipeline (\<open>Pipeline\<close>) builds the verifier context (\<open>Verifiers\<close>): the address book of
  the artifact (\<open>Address_Verifier\<close>), the bytecode hashes (\<open>Bytecode_Verifier\<close>, through the files of
  \<open>Source_Files\<close>), the chains (\<open>Network_Verifier\<close>) and the fee parameters (\<open>Fee_Params\<close>). The log fills
  the network verifier's provenance maps. Then the passes run, each writing to one report (\<open>Report\<close>):
  the live state (\<open>Rpc_State\<close>), the provenance of every deployment (\<open>Provenance\<close>), the version sweep
  (\<open>Version_Sweep\<close>) and the three stages of governance calls (\<open>Stage0\<close>, \<open>Stage1\<close>, \<open>Stage2\<close> over
  \<open>Governance_Helpers\<close>). Stage 1 decodes the upgrade itself: the diamond cuts (\<open>Facet_Cuts\<close> over
  \<open>Facet_Cut_Set\<close>), the chain-creation data (\<open>Chain_Init\<close>) and the upgrade transaction
  (\<open>Upgrade_Payload\<close> over \<open>Force_Deploy\<close> and \<open>Constants\<close>). The run succeeds if no pass failed and the report
  has no error. Around the verifier, the preparing commands merge the files the prepare scripts wrote into the artifact
  (\<open>Merge\<close> over \<open>Governance_Calls\<close>), split recorded transactions into Safe bundles (\<open>Safe_Bundles\<close>) and append
  them to a manifest (\<open>Manifest\<close>), whose bundles are then replayed (\<open>Replay\<close>, \<open>Dispatch\<close>) into the log that the
  verifier reads; artifact and manifest together become the transactions of a simulation (\<open>Simulator\<close>). The commands
  record their transactions by running forge scripts on a fork of L1 (\<open>Forge\<close>) as senders they resolve from the chain
  (\<open>L1_Contracts\<close>); among them are those that migrate a chain to a gateway and back (\<open>Gateway_Migration\<close>), whose bundles go
  to the manifest as well. The shared types are in \<open>Chain_Types\<close>.

  \<^bold>\<open>How code is modelled.\<close>
  \<^item> A struct is a \<open>record\<close> with the source's fields, an enum a \<open>datatype\<close>; integers keep their
    width (\<open>u32\<close>, \<open>u64\<close>, \<open>u256\<close>, 160-bit addresses); a \<^verbatim>\<open>HashMap\<close> is a partial function, a
    \<^verbatim>\<open>HashSet\<close> a set.
  \<^item> \<^verbatim>\<open>anyhow::Result\<close> and panics are the sum type \<open>'a res\<close> (\<open>Bail\<close> and \<open>Panic\<close>); \<open>bind_res\<close> is
    \<^verbatim>\<open>?\<close>. A function that takes \<^verbatim>\<open>&mut VerificationResult\<close> is a state computation over the
    report (\<open>'a vr\<close>); \<open>tryM\<close> is \<^verbatim>\<open>?\<close> there. Of a printed line the kind is kept and not the text, except
    where building the text can panic (\<open>protocol_label\<close>), which is modelled.
  \<^item> Code outside the repository is an argument: \<open>ext\<close> holds Keccak-256, hex, the address parsers
    and \<^verbatim>\<open>checked_shr\<close> of the \<^verbatim>\<open>alloy\<close> crates and the selectors \<^verbatim>\<open>evmole\<close> finds; \<open>abi\<close>, \<open>payload_abi\<close>,
    \<open>stage1_abi\<close>, \<open>stage2_abi\<close> and \<open>provenance_abi\<close> the generated ABI coders; \<open>l1_rpc\<close>, \<open>l1_views\<close>,
    \<open>gw_rpc\<close> and \<open>gw_views\<close> the answers of the nodes, which do not change during a run; \<open>source_files\<close>
    and \<open>env_files\<close> files, cache and HTTP; \<open>json_io\<close> the JSON coder.
  \<^item> What is assumed of them is named and each instance is exhibited on the example: \<open>shifts_by_limb\<close>
    (shifting a \<^verbatim>\<open>U256\<close> right by exactly one limb succeeds with the quotient), \<open>map_iterator\<close> and
    \<open>iterates\<close> (a hash map lists every entry once), \<open>calls_codec\<close> (decoding inverts encoding), \<open>json_codec\<close> (a
    printed value with sorted keys, \<^verbatim>\<open>u64\<close> numbers and at most 127 levels reads back), \<open>serves_logs\<close> (a node returns every matching log, in chain order), \<open>hex_text_codec\<close>
    and \<open>executed_codec\<close> (hex text and the executed-bundle file read back), \<open>signers_agree\<close> and
    \<open>hex_crates_agree\<close> (a key means the same to both readers), \<open>toml_codec\<close> (keys are unique, and a printed
    document reads back as the same map), \<open>address_text_codec\<close> and \<open>manifest_codec\<close> (printed addresses and
    manifests read back), \<open>clock_moves\<close> (sleeping takes the time asked for), \<open>event_nodes\<close>, \<open>named_otherwise\<close> and
    \<open>collision_free\<close> (the logs of a chain type manager are its declared events or have another name, and the hashes differ).
    Theorems that need one say so.
  \<^item> Strings are lists of characters and are read as ASCII where Rust slices or trims them. Counters
    of errors and warnings are natural numbers. Loops are recursion over the list they run over
    (\<open>trim_start_matches\<close> by a decreasing length, \<open>scan_newest_first\<close> by the block number), so no definition
    needs fuel and every function is total but two: \<open>poll_until_ready\<close> and \<open>retry_loop\<close> are partial functions whose
    value \<open>None\<close> is a loop that never returns; of the second, which all waits of the migration use, \<open>retry_loop_rounds\<close> shows that it
    returns within the rounds its timeout allows.

  \<^bold>\<open>The theories.\<close> Paths are relative to the directory above unless they start with \<^verbatim>\<open>common/\<close>,
  \<^verbatim>\<open>types/\<close> or \<^verbatim>\<open>commands/\<close>, which are under \<^verbatim>\<open>src/protocol-ops/src/\<close>.
  \<^item> \<open>Prelude\<close>: results, big-endian byte strings, Rust string functions; the locale \<open>codec\<close>.
  \<^item> \<open>Report\<close>: \<^verbatim>\<open>VerificationResult\<close> of \<^verbatim>\<open>verifiers.rs\<close>; \<open>writer\<close>, \<open>val\<close>, \<open>out\<close>, \<open>clean\<close>, \<open>yields\<close> and
    their algebra; the locale \<open>check_sink\<close>.
  \<^item> \<open>Protocol_Version\<close>: \<^verbatim>\<open>v31/elements/protocol_version.rs\<close>.
  \<^item> \<open>Tx_Log\<close>: \<^verbatim>\<open>v31/utils/transactions_log.rs\<close>.
  \<^item> \<open>Create2\<close>, \<open>Constants\<close>: \<^verbatim>\<open>constants.rs\<close> and the pure functions of \<^verbatim>\<open>v31/utils/mod.rs\<close>.
  \<^item> \<open>Source_Files\<close>: \<^verbatim>\<open>get_contents_from_github\<close> and the JSON readers.
  \<^item> \<open>Artifacts\<close>, \<open>Artifact_Shape\<close>: \<^verbatim>\<open>artifacts.rs\<close>, \<^verbatim>\<open>artifact_shape.rs\<close>, \<^verbatim>\<open>hex.rs\<close>.
  \<^item> \<open>Address_Verifier\<close>: \<^verbatim>\<open>v31/utils/address_verifier.rs\<close>; the locale \<open>name_book\<close>.
  \<^item> \<open>Bytecode_Verifier\<close>: \<^verbatim>\<open>v31/utils/bytecode_verifier.rs\<close>.
  \<^item> \<open>Facet_Cut_Set\<close>: \<^verbatim>\<open>v31/utils/facet_cut_set.rs\<close>.
  \<^item> \<open>Rpc\<close>, \<open>Network_Verifier\<close>: \<^verbatim>\<open>v31/utils/network_verifier.rs\<close>; the locale \<open>first_wins\<close>.
  \<^item> \<open>Fee_Params\<close>: \<^verbatim>\<open>v31/utils/fee_param_verifier.rs\<close>.
  \<^item> \<open>Verifiers\<close>: the rest of \<^verbatim>\<open>verifiers.rs\<close>.
  \<^item> \<open>Chain_Init\<close>: \<^verbatim>\<open>v31/elements/initialize_data_new_chain.rs\<close> and \<^verbatim>\<open>fixed_force_deployment.rs\<close>.
  \<^item> \<open>Governance_Helpers\<close>: \<^verbatim>\<open>governance_stage_calls/helpers.rs\<close>, \<^verbatim>\<open>call_list.rs\<close>, the versions of
    \<^verbatim>\<open>v31/mod.rs\<close>.
  \<^item> \<open>Version_Sweep\<close>: \<^verbatim>\<open>verify_per_chain_protocol_versions\<close> of \<^verbatim>\<open>governance_stage_calls/mod.rs\<close>.
  \<^item> \<open>Facet_Cuts\<close>: \<^verbatim>\<open>governance_stage_calls/facets.rs\<close>.
  \<^item> \<open>Force_Deploy\<close>, \<open>Upgrade_Payload\<close>: \<^verbatim>\<open>v31/elements/set_new_version_upgrade/\<close>.
  \<^item> \<open>Stage0\<close>, \<open>Stage1\<close>, \<open>Stage2\<close>: \<^verbatim>\<open>governance_stage_calls/stage0.rs\<close>, \<^verbatim>\<open>stage1.rs\<close>, \<^verbatim>\<open>stage2.rs\<close>.
  \<^item> \<open>Rpc_State\<close>, \<open>Provenance\<close>: \<^verbatim>\<open>v31/elements/rpc_state.rs\<close>, \<^verbatim>\<open>deployed_addresses.rs\<close>.
  \<^item> \<open>Pipeline\<close>: \<^verbatim>\<open>verify\<close> of \<^verbatim>\<open>v31/mod.rs\<close>; \<open>Verify_Upgrade\<close>: \<^verbatim>\<open>commands/ecosystem/verify_upgrade.rs\<close>.
  \<^item> \<open>Env_Config\<close>: \<^verbatim>\<open>common/env_config.rs\<close>, \<^verbatim>\<open>common/paths.rs\<close>; \<open>Chain_Types\<close>: \<^verbatim>\<open>types/\<close>.
  \<^item> \<open>Governance_Calls\<close>, \<open>Safe_Bundles\<close>, \<open>Manifest\<close>: \<^verbatim>\<open>common/governance_calls.rs\<close>,
    \<^verbatim>\<open>common/forge/cast_transactions.rs\<close>, \<^verbatim>\<open>common/output.rs\<close>.
  \<^item> \<open>Replay\<close>: \<^verbatim>\<open>commands/dev/execute_safe.rs\<close>; \<open>Dispatch\<close>: \<^verbatim>\<open>commands/dev/execute_manifest.rs\<close> and
    \<^verbatim>\<open>commands/ecosystem/broadcast.rs\<close>. The node is a parameter over a world that its calls change;
    \<open>recording\<close> adds to it the list of the requests it was sent.
  \<^item> \<open>Merge\<close>: the merge, the list of CTMs and the replay of the stages in \<^verbatim>\<open>commands/ecosystem/upgrade.rs\<close>, with
    the relation \<open>toml_eq\<close> of documents that are equal as maps; \<open>Simulator\<close>:
    \<^verbatim>\<open>commands/ecosystem/simulator.rs\<close> over a small file system.
  \<^item> \<open>Readiness\<close>: \<^verbatim>\<open>src/tools/upgrade-readiness-checker/\<close>; \<open>Genesis\<close>: \<^verbatim>\<open>src/tools/zksync-os-genesis-gen/\<close>
    and the locale \<open>ordered_map\<close>.
  \<^item> \<open>Forge\<close>: \<^verbatim>\<open>common/forge/script.rs\<close>, \<^verbatim>\<open>common/forge/scripts/mod.rs\<close> and \<^verbatim>\<open>common/forge/runner.rs\<close>; \<open>L1_Contracts\<close>:
    \<^verbatim>\<open>common/l1_contracts.rs\<close> and the senders of the runner.
  \<^item> \<open>Gateway_Migration\<close>: \<^verbatim>\<open>commands/chain/gateway/migrate_to.rs\<close> and \<^verbatim>\<open>migrate_from.rs\<close> over a world with a clock, nodes and
    anvil; \<open>Migration_Runs\<close>: its loops and its runs, with \<open>observed\<close>, which adds to the world the list of what was asked and done, and
    the events of \<^verbatim>\<open>src/l1-contracts/contracts/state-transition/IChainTypeManager.sol\<close> with their canonical signatures (\<open>CTM_EVENTS\<close>).
  \<^item> \<open>Example_Run\<close>, \<open>Example_Passes\<close>, \<open>Example_Tools\<close>, \<open>Example_Merge\<close>, \<open>Example_Migration\<close>: a concrete ecosystem on which the hypotheses of the theorems hold.

  \<^bold>\<open>What is shown.\<close> A verifier is right when it is silent exactly on what it should accept. So the
  main form of theorem is: the check returns (no unwrap fires), and leaves no error exactly if a
  declarative condition on its inputs holds. C1 and C2 say so of the whole run, against a specification
  without order, report or state; C3 to C13 of its parts, and C39 that the log is read to its end.
  The readers accept exactly the documents of a specification, read field by field (C14, C15); a chain id is bounded where it is
  parsed (C38); recognition is unambiguous (C16); the context supplies what the
  checks unwrap (C11, C12); what the preparing commands write only grows (C37).
  C35, C36 and C40 show what a check lets through or miscounts, for all its inputs. Of the replay:
  it submits the bundle in order under the right sender with consecutive nonces (C23), for a whole manifest
  each bundle under its target (C24), and the verifier reads from the log what was submitted (C25). Of the
  merge: the verifier accepts the merged file with the calls of every source in order (C26), the simulator
  emits exactly these calls (C27), also from the portable copy of the manifest (C28). Of the migration: a fork on
  which it is finalized is taken only after what its proof needs has been observed (C29, C30), every command
  returns (C31), the validators are enabled once each (C32), a run is recorded with its own broadcast file and only when this is fresh (C33), and
  the cut data cannot be found on chain because no declared event has the signature asked for (C34). Of the
  tools: the genesis root is that of the full tree over the described state (C17), its proxies are wired
  (C20) and its leaves form one list (C21); the readiness checker exits exactly when it should (C18), its
  polling returns whenever it can (C19), and its scan is bounded (C22). The root theory holds further theorems
  on the same components without a number.

  \<^bold>\<open>What is not modelled:\<close> the other commands of \<^verbatim>\<open>protocol-ops\<close>, which run other programs (forge,
  anvil, cast) and wallets, among them the prepare scripts whose output the merge reads; the key readers of a forge script; the conversion of the floating-point gas multiplier of \<^verbatim>\<open>dev execute-safe\<close>; the generators from templates; the bootloader test infrastructure, which drives
  the VM crates; message texts and the progress log.
\<close>

section \<open>The verdict\<close>

text \<open>
  C1: The verification refines its specification. With the library's limb shift and a hash map that
  lists every entry once, \<^verbatim>\<open>v31::verify\<close> returns successfully with a report free of errors exactly
  if the upgrade is good: the context can be built, the log is without fault, and in the context
  that knows the log's deployments the live state, the provenance of every deployment, the CTM setup
  and the three stages of governance calls are as prescribed. The specification mentions neither
  the order of the passes nor the report.
\<close>

theorem pipeline_refines:
  assumes "shifts_by_limb E" "map_iterator (d_provenance D)"
  shows "val (verify_v31 E D W V G selected artifact commit gov p hs f salts) = Inr ()
      \<and> clean (verify_v31 E D W V G selected artifact commit gov p hs f salts)
    \<longleftrightarrow> upgrade_ok E D W V G selected artifact commit gov p hs f salts"
  using yields_verify_v31 [OF assms] unfolding yields_def .

theorem pipeline_refines_witness:
  "\<forall>V G. \<not> (val (verify_v31 demo_ext demo_decoders demo_outside V G Testnet demo_artifact None ''main''
        demo_params [1] 0xface [demo_salt]) = Inr ()
      \<and> clean (verify_v31 demo_ext demo_decoders demo_outside V G Testnet demo_artifact None ''main''
        demo_params [1] 0xface [demo_salt]))"
  unfolding pipeline_refines [OF demo_shifts demo_iterator] using demo_not_ok by blast

text \<open>
  C2: The command's exit status. Without \<^verbatim>\<open>--display-upgrade-data\<close> the command succeeds exactly if
  the environment, the artifact and its shape, and the log can be read and the upgrade is good for
  them; with it, exactly if the inputs can be read and the three call lists decode, whatever the
  upgrade is worth.
\<close>

theorem run_exact:
  assumes "shifts_by_limb E" "map_iterator (d_provenance (m_decoders M))"
  shows "fst (run E M args) = Inr () \<longleftrightarrow>
    (\<exists>prep. prepare E M args = Inr prep \<and>
      (if arg_display_upgrade_data args
       then \<forall>s \<in> set (stages_of (prep_artifact prep)). \<exists>cs. call_list_parse E (d_abi (m_decoders M)) (snd s) = Inr cs
       else \<exists>hs. read_transactions_log E (read_to_string (m_files M) (prep_log_path prep)) = Inr hs
         \<and> pipeline_spec E M args prep hs))"
proof (cases "arg_display_upgrade_data args")
  case True
  have "(\<exists>l. encoded_upgrade_data E M s = Inr l)
      \<longleftrightarrow> (\<exists>cs. call_list_parse E (d_abi (m_decoders M)) (snd s) = Inr cs)" for s
    by (simp add: encoded_upgrade_data_def)
  with True show ?thesis
    by (simp add: run_def print_encoded_ok split: sum.splits)
next
  case False
  with run_verifies [OF assms False] show ?thesis by auto
qed

theorem run_exact_witness:
  "\<forall>(M :: machine) args. fst (run demo_ext (M\<lparr>m_decoders := demo_decoders\<rparr>) args) \<noteq> Inr ()"
proof (intro allI)
  fix M :: machine and args
  let ?M = "M\<lparr>m_decoders := demo_decoders\<rparr>"
  have none: "\<not> pipeline_spec demo_ext ?M args prep hs" for prep hs
    by (simp add: pipeline_spec_def demo_not_ok)
  have it: "map_iterator (d_provenance (m_decoders ?M))"
    using demo_iterator by simp
  show "fst (run demo_ext ?M args) \<noteq> Inr ()"
    unfolding run_exact [OF demo_shifts it] using none demo_undecoded
    by (auto simp: stages_of_def Let_def)
qed

section \<open>The passes\<close>

text \<open>
  C3: The provenance of the deployments. If the hash map of known deployments lists every entry
  once, \<^verbatim>\<open>verify_v31_provenance\<close> returns without an error exactly if the chain answers the context
  reads and every contract the artifact names (core contracts, each CTM, the new Gateway when there
  is one, the governance contracts when the owner is a proxy) was deployed by the log from the
  expected file with the expected constructor arguments.
\<close>

theorem deployments_exact:
  assumes "iterates B v"
  shows "val (verify_v31_provenance E A B V W artifact v era_id legacy_gw) = Inr ()
      \<and> clean (verify_v31_provenance E A B V W artifact v era_id legacy_gw)
    \<longleftrightarrow> provenance_ok E A B V W artifact v era_id legacy_gw"
  using yields_provenance [OF assms] unfolding yields_def .

theorem deployments_exact_witness:
  "\<forall>V W. \<not> (val (verify_v31_provenance demo_ext demo_abi demo_provenance_abi V W demo_artifact demo_verifiers 270 0) = Inr ()
    \<and> clean (verify_v31_provenance demo_ext demo_abi demo_provenance_abi V W demo_artifact demo_verifiers 270 0))"
  unfolding deployments_exact [OF demo_iterates] using demo_undeployed by blast

text \<open>
  C4: Stage 1 is checked exactly. With the library's limb shift, the check of the second call list
  returns without an error exactly if the list has the prescribed shape (the pause, the twelve core
  calls, six calls per CTM, the DA pairs in some order and nothing else) and every payload in it
  decodes to the prescribed upgrade: proxies and implementations, chain-creation parameters, versions,
  facet cuts and the upgrade transaction.
\<close>

theorem stage1_exact:
  assumes "shifts_by_limb E"
  shows "val (stage1_verify_artifact E A P S artifact v calls) = Inr ()
      \<and> clean (stage1_verify_artifact E A P S artifact v calls)
    \<longleftrightarrow> stage1_ok E A P S artifact v calls"
  using yields_stage1 [OF assms] unfolding yields_def .

theorem stage1_exact_witness:
  "\<not> (val (stage1_verify_artifact demo_ext demo_abi demo_payload_abi demo_stage1_abi demo_artifact demo_verifiers []) = Inr ()
      \<and> clean (stage1_verify_artifact demo_ext demo_abi demo_payload_abi demo_stage1_abi demo_artifact demo_verifiers []))"
  unfolding stage1_exact [OF demo_shifts] by (simp add: stage1_ok_def stage1_shape_ok_def)

text \<open>
  C5: Stage 2 is checked exactly. The check of the third call list returns without an error exactly
  if the list is the intervals of the legacy Gateway's chains and its blacklisting, when there are any,
  the unpausing of migrations, two checks per CTM, the sixteen calls that bring up the new Gateway,
  when the artifact has one, and nothing else. This is what the code accepts: where the environment has a
  legacy Gateway but no interval, it expects no blacklisting either, against its module documentation and
  the script that generates the calls (\<open>lone_blacklist_rejected\<close>).
\<close>

theorem stage2_exact:
  "val (stage2_verify_artifact E S artifact v calls) = Inr () \<and> clean (stage2_verify_artifact E S artifact v calls)
    \<longleftrightarrow> stage2_ok E S artifact v calls"
  using yields_stage2 unfolding yields_def .

text \<open>
  The corner in which code and documentation disagree. Without intervals the first call must go to the
  chain asset handler: a list that starts with the lone blacklisting, a call to the bridgehub, which
  \<^verbatim>\<open>_buildLegacyGatewayDecommissionCalls\<close> emits for a \<^verbatim>\<open>[legacy_gateway]\<close> section without
  \<^verbatim>\<open>chain_intervals\<close>, is rejected.
\<close>

theorem lone_blacklist_rejected:
  assumes "legacy_gateway_chain_intervals v = []" "calls = c # rest"
    and "get_by_name (address_book v) ''chain_asset_handler_proxy'' \<noteq> Some (target c)"
  shows "\<not> (val (stage2_verify_artifact E S artifact v calls) = Inr () \<and> clean (stage2_verify_artifact E S artifact v calls))"
proof -
  have "\<not> stage2_ok E S artifact v calls"
    using assms by (auto simp: stage2_ok_def stage2_canonical_ok_def unpause_index_def call_ok_def Let_def)
  then show ?thesis
    unfolding yields_stage2 [symmetric] yields_def .
qed

text \<open>
  C6: Stage 0 is checked exactly. The check of the first call list returns without an error exactly
  if the artifact names every contract whose ownership may be pending and the list is the pause, a
  timer per CTM, the four calls of the ProtocolUpgradeHandler block when the owner is a proxy, and
  one bare \<^verbatim>\<open>acceptOwnership()\<close> for each contract whose pending owner is governance.
\<close>

theorem stage0_exact:
  "val (stage0_verify_artifact E A artifact v calls) = Inr () \<and> clean (stage0_verify_artifact E A artifact v calls)
    \<longleftrightarrow> stage0_ok E A artifact v calls"
  using yields_stage0 unfolding yields_def .

text \<open>
  C7: The live state is checked exactly. \<^verbatim>\<open>verify_v31_artifact_state\<close> returns without an error
  exactly if the L1 chain id is the expected one, the CREATE2 factory has its code, the proxies have the
  expected admins, the core contracts point at each other as in the artifact, every CTM's
  timelock, DA manager, verifier, admin and implementation are in the expected hands, and fees and
  settlement layer of Era are as prescribed.
\<close>

theorem live_state_exact:
  "val (verify_v31_artifact_state E V artifact v factory) = Inr () \<and> clean (verify_v31_artifact_state E V artifact v factory)
    \<longleftrightarrow> rpc_state_ok E V artifact v factory"
  using yields_artifact_state unfolding yields_def .

text \<open>
  C8: The upgrade transaction is checked exactly. \<^verbatim>\<open>verify_default_upgrade_payload\<close> never
  succeeds with a count other than zero; it succeeds without an error exactly if the init calldata
  decodes to a proposed upgrade whose version unpacks, whose static fields are the prescribed ones,
  whose L2 transaction is the canonical one for the flavor and minor version, and whose force
  deployments, delegate and factory dependencies are those of the flavor.
\<close>

theorem upgrade_template_exact:
  "val (verify_default_upgrade_payload E P dec v c version fixed s fl) = Inr n
      \<and> clean (verify_default_upgrade_payload E P dec v c version fixed s fl)
    \<longleftrightarrow> n = 0 \<and> (\<exists>pu. dec c = Some pu \<and> template_ok E P v pu version fixed s fl)"
  using yields_default_payload unfolding yields_def .

section \<open>What the stage checks let through\<close>

text \<open>
  No stray call in stage 0. In a list that passes, with the admin of the owner read as
  \<open>admin\<close>, and if no two CTMs name one timer, every call is the pause, a \<^verbatim>\<open>startTimer()\<close> of some
  CTM's timer, inside the handler block, or a bare acceptance of an ownership that is pending.
\<close>

theorem stage0_calls_accounted:
  assumes "stage0_layout E A artifact v calls admin" "distinct (map (timer_of E) (ctms artifact))" "i < length calls"
  shows "(i = 0 \<and> (\<exists>t. get_by_name (address_book v) ''chain_asset_handler_proxy'' = Some t
        \<and> call_ok E calls 0 t ''pauseMigration()''))
    \<or> (1 \<le> i \<and> i \<le> length (ctms artifact) \<and> (\<exists>ctm \<in> set (ctms artifact).
        timer_of E ctm = Some (target (calls ! i)) \<and> call_ok E calls i (target (calls ! i)) ''startTimer()''))
    \<or> (length (ctms artifact) < i \<and> i < tail_start_of artifact admin
        \<and> puh_block_ok E A artifact v calls (1 + length (ctms artifact)) admin)
    \<or> (tail_start_of artifact admin \<le> i \<and> bare_accept A (calls ! i)
        \<and> target (calls ! i) \<in> set (accept_targets E artifact v))"
  using assms by (rule stage0_no_stray)

theorem stage0_calls_accounted_witness:
  "\<exists>ctm \<in> set (ctms demo_artifact_full). timer_of demo_ext ctm = Some (target (demo_stage0 ! 1))"
  using stage0_calls_accounted [OF demo_stage0_layout, of 1] demo_no_accepts
  by (auto simp: demo_artifact_full_def demo_stage0_def tail_start_of_def)

text \<open>
  C35: A shared timer leaves a slot unchecked. When both CTMs of an artifact name the same timer and
  \<^verbatim>\<open>verify_artifact\<close> of stage 0 passes a list whose first timer slot starts it, it also passes the
  list in which the second slot holds any other call that is not an acceptance, to any target and with
  any value.
\<close>

theorem shared_timer_unchecked:
  assumes "val (stage0_verify_artifact E A artifact v calls) = Inr ()" "clean (stage0_verify_artifact E A artifact v calls)"
    and "ctms artifact = [c1, c2]" "timer_of E c1 = Some t" "timer_of E c2 = Some t" "target (calls ! 1) = t"
    and "\<not> is_accept A x"
  shows "val (stage0_verify_artifact E A artifact v (calls[2 := x])) = Inr ()
    \<and> clean (stage0_verify_artifact E A artifact v (calls[2 := x]))"
  using shared_timer_slot_ok [OF _ assms(3-)] assms(1,2) unfolding yields_stage0 [symmetric] yields_def by blast

theorem shared_timer_unchecked_witness:
  "val (stage0_verify_artifact demo_ext demo_abi demo_artifact_shared demo_plain
      [demo_call ''pauseMigration()'', demo_call ''startTimer()'', demo_rogue]) = Inr ()
    \<and> clean (stage0_verify_artifact demo_ext demo_abi demo_artifact_shared demo_plain
      [demo_call ''pauseMigration()'', demo_call ''startTimer()'', demo_rogue])"
proof -
  have pass: "val (stage0_verify_artifact demo_ext demo_abi demo_artifact_shared demo_plain demo_stage0_shared) = Inr ()"
    "clean (stage0_verify_artifact demo_ext demo_abi demo_artifact_shared demo_plain demo_stage0_shared)"
    using demo_shared_ok unfolding yields_stage0 [symmetric] yields_def by blast+
  show ?thesis
    using shared_timer_unchecked [OF pass demo_shared(1) demo_shared(2) demo_shared(2) demo_shared(3) demo_rogue_not_accept]
    by (simp add: demo_stage0_shared_def)
qed

text \<open>
  C36: Targets of interval calls. Replacing an interval call of stage 2 by a call with the same
  calldata, to any target and with any value, does not change the verdict on the stage.
\<close>

theorem interval_target_unchecked:
  assumes "i < length (legacy_gateway_chain_intervals v)" "data c = data (calls ! i)"
  shows "val (stage2_verify_artifact E S artifact v (calls[i := c])) = Inr ()
      \<and> clean (stage2_verify_artifact E S artifact v (calls[i := c]))
    \<longleftrightarrow> val (stage2_verify_artifact E S artifact v calls) = Inr () \<and> clean (stage2_verify_artifact E S artifact v calls)"
  using interval_target_free [OF assms, of E S artifact] unfolding yields_stage2 [symmetric] yields_def .

theorem interval_target_unchecked_witness:
  "val (stage2_verify_artifact demo_ext demo_stage2_abi demo_artifact_full demo_one_interval [demo_rogue]) = Inr ()
      \<and> clean (stage2_verify_artifact demo_ext demo_stage2_abi demo_artifact_full demo_one_interval [demo_rogue])
    \<longleftrightarrow> val (stage2_verify_artifact demo_ext demo_stage2_abi demo_artifact_full demo_one_interval
          [demo_rogue\<lparr>target := 0x1234, call_value := 0\<rparr>]) = Inr ()
      \<and> clean (stage2_verify_artifact demo_ext demo_stage2_abi demo_artifact_full demo_one_interval
          [demo_rogue\<lparr>target := 0x1234, call_value := 0\<rparr>])"
  using interval_target_unchecked [of 0 demo_one_interval demo_rogue "[demo_rogue\<lparr>target := 0x1234, call_value := 0\<rparr>]"]
  by (simp add: demo_one_interval_def)

section \<open>Deployment provenance\<close>

text \<open>
  C9: The provenance maps hold exactly the deployments of the log. After
  \<^verbatim>\<open>populate_create2_from_transactions_log\<close> completes, an address is known exactly if it was known
  before or a successful, recognised transaction of the log deployed it, with the name and
  constructor arguments of the first such transaction; both maps have the same keys; and no
  error was reported exactly if every deployment used an expected salt and agrees with the entry
  kept for its address.
\<close>

theorem provenance_exact:
  assumes "val (populate_create2_from_transactions_log E A bv f b salts hs n) = Inr st" "same_keys n"
  shows "same_keys (nv st)
    \<and> (\<forall>a. look_deployment (nv st) a = (case look_deployment n a of Some d \<Rightarrow> Some d
        | None \<Rightarrow> map_of (map entry (deployments_of E A bv f b (l1_provider n) hs)) a))
    \<and> (clean (populate_create2_from_transactions_log E A bv f b salts hs n) \<longleftrightarrow>
        (\<forall>d \<in> set (deployments_of E A bv f b (l1_provider n) hs). dep_salt d \<in> set salts
          \<and> look_deployment (nv st) (dep_addr d) = Some (dep_name d, dep_params d)))"
proof -
  let ?st = "\<lparr>nv = n, fetch_failures = 0, reverted = 0, parsed_gateway_deployments = 0\<rparr>"
  have run: "val (foldTM (populate_step E A bv f b salts) hs ?st) = Inr st"
    using assms(1) by (simp add: populate_create2_from_transactions_log_def)
  have keys: "same_keys (nv ?st)" using assms(2) by simp
  show ?thesis
    using populate_loop(1) [OF run keys] populate_loop(2) [OF run keys] assms(2)
      provenance.invar_put_all provenance.look_put_all
    by (simp add: populate_create2_from_transactions_log_def)
qed

theorem provenance_exact_witness:
  "\<exists>st. val (populate_create2_from_transactions_log demo_ext demo_abi demo_known 0xface 0x1234 [demo_salt] [1]
      (network demo_verifiers)) = Inr st
    \<and> look_deployment (nv st) demo_deployed_at = Some (''l1-contracts/Thing'', [])"
proof -
  obtain st where st: "val (populate_create2_from_transactions_log demo_ext demo_abi demo_known 0xface 0x1234
      [demo_salt] [1] (network demo_verifiers)) = Inr st"
    using demo_populate [OF demo_fields(2)] by blast
  have "look_deployment (network demo_verifiers) demo_deployed_at = None"
    by (simp add: demo_empty)
  then have "look_deployment (nv st) demo_deployed_at = Some (''l1-contracts/Thing'', [])"
    using provenance_exact [OF st new_v31_parts(1) [OF demo_new_ok]]
    by (simp add: deployments_of_def demo_fields demo_deployment_of List.map_filter_simps entry_def demo_deployment_def)
  with st show ?thesis by blast
qed

text \<open>
  C11: Constructor checks never panic. In a context built by \<^verbatim>\<open>Verifiers::new_v31\<close> whose network
  verifier was filled from the log, \<^verbatim>\<open>expect_create2_params\<close> always returns (its unwrap of the
  constructor arguments is safe), and reports no error exactly if the log's first deployment of the
  address has the expected file and arguments.
\<close>

theorem create2_check_after_population:
  assumes "verifiers_new_v31 E W selected artifact commit gov p = Inr v"
    and "val (populate_create2_from_transactions_log E A bv f b salts hs (network v)) = Inr st"
  shows "val (expect_create2_params (v\<lparr>network := nv st\<rparr>) a ps fl) = Inr ()
    \<and> (clean (expect_create2_params (v\<lparr>network := nv st\<rparr>) a ps fl) \<longleftrightarrow>
        map_of (map entry (deployments_of E A bv f b (l1_provider (network v)) hs)) a = Some (fl, ps))"
proof -
  let ?st = "\<lparr>nv = network v, fetch_failures = 0, reverted = 0, parsed_gateway_deployments = 0\<rparr>"
  have run: "val (foldTM (populate_step E A bv f b salts) hs ?st) = Inr st"
    using assms(2) by (simp add: populate_create2_from_transactions_log_def)
  have keys: "same_keys (nv ?st)" using new_v31_parts(1) [OF assms(1)] by simp
  have none: "look_deployment (network v) a = None"
    using new_v31_empty_provenance [OF assms(1)] by (simp add: look_deployment_def)
  have st: "nv st = provenance.put_all (map entry (deployments_of E A bv f b (l1_provider (network v)) hs)) (network v)"
    using populate_loop(1) [OF run keys] by simp
  have keys': "same_keys (network (v\<lparr>network := nv st\<rparr>))"
    unfolding st using provenance.invar_put_all keys by simp
  show ?thesis
    using create2_params_iff [OF keys', of a ps fl] provenance.look_put_all [of "network v" _ a] keys none
    by (simp add: st)
qed

theorem create2_check_after_population_witness:
  "\<exists>st. val (populate_create2_from_transactions_log demo_ext demo_abi demo_known 0xface 0x1234 [demo_salt] [1]
      (network demo_verifiers)) = Inr st
    \<and> clean (expect_create2_params (demo_verifiers\<lparr>network := nv st\<rparr>) demo_deployed_at [] ''l1-contracts/Thing'')"
proof -
  obtain st where st: "val (populate_create2_from_transactions_log demo_ext demo_abi demo_known 0xface 0x1234
      [demo_salt] [1] (network demo_verifiers)) = Inr st"
    using demo_populate [OF demo_fields(2)] by blast
  then show ?thesis
    using create2_check_after_population [OF demo_new_ok st, of demo_deployed_at "[]" "''l1-contracts/Thing''"]
    by (simp add: deployments_of_def demo_fields demo_deployment_of List.map_filter_simps entry_def demo_deployment_def)
qed

text \<open>
  C39: The log is read to its end. The loop of \<^verbatim>\<open>populate_create2_from_transactions_log\<close> comes to
  its end, whatever the nodes answer, exactly if no transaction of the log to a known factory has an
  input on which the decoding of a deployment panics.
\<close>

theorem log_completes:
  "(\<exists>st. val (populate_create2_from_transactions_log E A bv f b salts hs n) = Inr st)
    \<longleftrightarrow> (\<forall>h \<in> set hs. \<forall>t to_addr. get_transaction_by_hash (l1_provider n) h = Some (Some t) \<longrightarrow> tx_to t = Some to_addr
          \<longrightarrow> (\<exists>d. recognise_deployment E A bv f b to_addr (tx_input t) = Inr d))"
  using populate_total [of E A bv f b salts hs "\<lparr>nv = n, fetch_failures = 0, reverted = 0, parsed_gateway_deployments = 0\<rparr>"]
  by (simp add: populate_create2_from_transactions_log_def readable_def)

theorem log_completes_witness:
  "\<exists>st. val (populate_create2_from_transactions_log demo_ext demo_abi demo_known 0xface 0x1234 [] [1, 2]
      (network demo_verifiers)) = Inr st"
  unfolding log_completes by (auto simp: demo_fields demo_l1_def demo_recognise)

section \<open>Diamond cuts\<close>

text \<open>
  C10: The upgrade cut is checked exactly. With the library's limb shift,
  \<^verbatim>\<open>verify_v31_upgrade_facet_cuts\<close> always returns a count; it is zero, and the report is clean,
  exactly if the cut is removals of the zero facet followed by additions, all six expected facets
  were found with code and selectors, a representative chain's facets were read, and the proposed
  set is those facets removed together with the six added.
\<close>

theorem upgrade_facet_cuts_exact:
  assumes "shifts_by_limb E"
  shows "\<exists>n. val (verify_v31_upgrade_facet_cuts E cs ctm v) = Inr n
    \<and> (n = 0 \<longleftrightarrow> upgrade_cuts_ok E cs ctm v)
    \<and> (clean (verify_v31_upgrade_facet_cuts E cs ctm v) \<longleftrightarrow> upgrade_cuts_ok E cs ctm v)"
  using upgrade_cuts_run [OF assms, of cs ctm v] by blast

theorem upgrade_facet_cuts_exact_witness:
  "val (verify_v31_upgrade_facet_cuts demo_ext demo_cuts demo_ctm demo_verifiers) = Inr 0
    \<and> clean (verify_v31_upgrade_facet_cuts demo_ext demo_cuts demo_ctm demo_verifiers)"
  using upgrade_facet_cuts_exact [OF demo_shifts, of demo_cuts demo_ctm demo_verifiers] demo_cuts_ok by auto

section \<open>Force deployments and chain versions\<close>

text \<open>
  C12: The force-deployment data is checked exactly and without panics. In a context built by
  \<^verbatim>\<open>Verifiers::new_v31\<close> both names that \<^verbatim>\<open>FixedForceDeploymentsData::verify\<close> unwraps are
  registered, so it always returns; no error is reported exactly if every field has the value the
  chain, the environment and the known bytecode hashes prescribe, the aliased governance being the
  alias of the Bridgehub's owner.
\<close>

theorem force_deployments_exact:
  assumes "verifiers_new_v31 E W selected artifact commit gov p = Inr v"
  shows "\<exists>s. get_by_name (address_book v) ''chain_registration_sender_proxy'' = Some s
    \<and> val (force_deployments_verify v d) = Inr ()
    \<and> (clean (force_deployments_verify v d)
        \<longleftrightarrow> force_deployments_ok v d (apply_l2_to_l1_alias (bridgehub_owner v)) s)"
proof -
  have "([''upgrade_addresses'', ''bridgehub'', ''chain_registration_sender_proxy_addr''],
      ''chain_registration_sender_proxy'') \<in> set V31_ADDRESS_ALIASES"
    by (simp add: V31_ADDRESS_ALIASES_def)
  then obtain s where s: "get_by_name (address_book v) ''chain_registration_sender_proxy'' = Some s"
    using new_v31_named(4) [OF assms] by blast
  then show ?thesis
    using force_deployments_iff [OF new_v31_named(2) [OF assms] s, of d] by blast
qed

theorem force_deployments_exact_witness:
  "val (force_deployments_verify demo_verifiers demo_force) = Inr ()
    \<and> clean (force_deployments_verify demo_verifiers demo_force)"
  using force_deployments_exact [OF demo_new_ok, of demo_force] demo_force_ok demo_names by simp

text \<open>
  C13: The version sweep fails exactly on a bad setup. \<^verbatim>\<open>verify_per_chain_protocol_versions\<close>
  returns an error, and reports one, exactly if some CTM of the artifact does not carry the version
  its flavor upgrades from, has no proxy, or shares its proxy with another; the chains
  themselves can only add warnings.
\<close>

theorem sweep_verdict:
  assumes "shifts_by_limb E"
  shows "(val (verify_per_chain_protocol_versions E artifact v) = Inr () \<longleftrightarrow> setup_ok E (ctms artifact))
    \<and> (clean (verify_per_chain_protocol_versions E artifact v) \<longleftrightarrow> setup_ok E (ctms artifact))"
  using sweep_decides(1,2) [OF assms, of artifact v] by simp

theorem sweep_verdict_witness:
  "clean (verify_per_chain_protocol_versions demo_ext demo_artifact demo_verifiers)"
  using sweep_verdict [OF demo_shifts, of demo_artifact demo_verifiers] demo_setup_ok by blast

text \<open>
  The sweep warns once per chain. After a good setup and with a non-empty list of chains, the
  warnings are one for each chain that is skipped or runs another version than its CTM's expected
  one, and one more if no chain at all was inspected.
\<close>

theorem sweep_warnings:
  assumes "shifts_by_limb E" "setup_ok E (ctms artifact)"
    and "Bridgehub_getAllZKChainChainIDs (l1_provider (network v)) (bridgehub_address v) = Some ids" "ids \<noteq> []"
    and "outcomes = map (chain_outcome v (fold (record_ctm E) (ctms artifact) Map.empty)) ids"
  shows "count_list (out (verify_per_chain_protocol_versions E artifact v)) Warn_line
    = length (filter (\<lambda>o'. o' \<noteq> Matches) outcomes) + (if set outcomes = {Skipped} then 1 else 0)"
proof -
  have "count_list (out (foldTM (setup_ctm E) (ctms artifact) (Map.empty, 0))) Warn_line = 0"
    by (rule setup_no_warnings [OF assms(1)])
  moreover have "set outcomes = {Skipped} \<longleftrightarrow> list_all (\<lambda>o'. o' = Skipped) outcomes"
    using assms(4,5) by (cases ids) (auto simp: list_all_iff)
  ultimately show ?thesis
    using sweep_decides(3) [OF assms(1,2), of v] sweep_registered_run(3) [OF assms(1,3,4)]
    by (simp add: assms(5) filter_map comp_def list.pred_map)
qed

theorem sweep_warnings_witness:
  "count_list (out (verify_per_chain_protocol_versions demo_ext demo_artifact demo_verifiers)) Warn_line = 1"
  using sweep_warnings [OF demo_shifts demo_setup_ok demo_ids _ demo_outcomes [symmetric]] by simp

section \<open>The artifact\<close>

text \<open>
  C14: The shape check is the specification. \<^verbatim>\<open>verify_shape\<close> accepts an artifact exactly if
  \<^verbatim>\<open>[core]\<close> is a table, the three stage blobs and every CTM's upgrade cut are hex, the optional hex
  fields that are strings are hex, every address field at the top level and every string leaf of the
  address tables is an address, and every protocol version is an integer.
\<close>

theorem shape_check_exact: "verify_shape E a = Inr () \<longleftrightarrow> well_shaped E a"
  by (rule verify_shape_iff)


text \<open>
  The CTMs of an artifact. In a document whose \<^verbatim>\<open>[ctms]\<close> keys are distinct, as TOML
  requires, an accepted artifact has an Era CTM, a ZKsync OS CTM, or both with Era first.
\<close>

theorem artifact_ctm_order:
  assumes "artifact_from_table E root = Inr a" "map_of root ''ctms'' = Some (TTable t)" "distinct (map fst t)"
  shows "map flavor (ctms a) \<in> {[Era], [ZksyncOs], [Era, ZksyncOs]}"
proof -
  obtain t' where "map_of root ''ctms'' = Some (TTable t')" "map_res (parse_ctm t') (sort (map fst t')) = Inr (ctms a)"
    by (rule artifact_from_table_ctms [OF assms(1)])
  then have "map_res (parse_ctm t) (sort (map fst t)) = Inr (ctms a)"
    using assms(2) by simp
  then have "map (\<lambda>c. ctm_flavor_label (flavor c)) (ctms a) = sort (map fst t)"
    by (rule parse_ctms_labels)
  then have "distinct (map ctm_flavor_label (map flavor (ctms a)))"
    using assms(3) by (simp add: comp_def)
  then have "distinct (map flavor (ctms a))"
    by (rule distinct_map [THEN iffD1, THEN conjunct1])
  then show ?thesis
    using artifact_flavors_sorted [OF assms(1)] by (intro distinct_flavor_list) simp_all
qed

theorem artifact_ctm_order_witness:
  "\<exists>a. artifact_from_table demo_ext demo_root = Inr a \<and> map flavor (ctms a) \<in> {[Era], [ZksyncOs], [Era, ZksyncOs]}"
proof -
  obtain a where a: "artifact_from_table demo_ext demo_root = Inr a"
    using demo_root_ok by blast
  show ?thesis
    by (intro exI [of _ a] conjI a artifact_ctm_order [OF a demo_root_ctms demo_root_distinct])
qed

section \<open>Recognising code and versions\<close>

text \<open>
  C16: Init code is recognised with the shortest argument suffix. \<^verbatim>\<open>try_parse_bytecode\<close> returns
  a name and constructor arguments exactly if the input is at least 64 bytes of code with the known
  hash of that name followed by those arguments, a whole number of words, and no known contract
  matches with a shorter suffix.
\<close>

theorem init_code_recognition:
  "try_parse_bytecode E bv code = Some (name, args) \<longleftrightarrow> known_split E bv code name args
     \<and> (\<forall>name' args'. known_split E bv code name' args' \<longrightarrow> length args \<le> length args')"
  by (rule try_parse_iff)

theorem init_code_recognition_witness: "known_split demo_ext demo_known demo_code ''l1-contracts/Thing'' []"
  using init_code_recognition [of demo_ext demo_known demo_code] demo_try_parse by blast

text \<open>
  A version survives packing exactly if its fields fit 32 bits. With the library's limb shift,
  unpacking the packed word gives the version back if and only if all three fields are below
  \<open>2^32\<close>.
\<close>

theorem version_packing:
  assumes "shifts_by_limb E"
  shows "protocol_version_from_u256 E (u256_from_protocol_version v) = Inr v \<longleftrightarrow> fields_fit v"
  using unpack_pack [OF assms, of v] unpacked_fits by blast

theorem version_packing_witness:
  "protocol_version_from_u256 demo_ext (u256_from_protocol_version \<lparr>major = 0, minor = 31, patch = 0\<rparr>)
    = Inr \<lparr>major = 0, minor = 31, patch = 0\<rparr>"
  using version_packing [OF demo_shifts, of "\<lparr>major = 0, minor = 31, patch = 0\<rparr>"] by (simp add: fields_fit_def)

text \<open>
  Version text. Every version is parsed back from its dotted form; the form \<^verbatim>\<open>Display\<close> prints,
  with a leading \<open>v\<close>, is never accepted by \<^verbatim>\<open>FromStr\<close>.
\<close>

theorem version_text:
  "protocol_version_from_str (dotted v) = Inr v
    \<and> protocol_version_from_str (protocol_version_display v) = Inl InvalidProtocolVersionError"
  using parse_dotted parse_display by blast

section \<open>Fee parameters and the transactions log\<close>

text \<open>
  The fee word. Decoding the storage word Solidity packs from fee parameters gives them back,
  and a word is rejected exactly if its last byte is neither of the two pricing modes.
\<close>

theorem fee_word_decoding:
  "decode_storage_word (encode_storage_word fp) = Inr fp
    \<and> ((\<exists>e. decode_storage_word w = Inl e) \<longleftrightarrow> b256_bytes w ! 31 \<notin> {0, 1})"
  using decode_encode by (auto simp: decode_storage_word_def Let_def)

text \<open>
  The log is read as its hash lines without repetitions. \<^verbatim>\<open>parse_transactions_log\<close> fails
  exactly when some line that is neither blank nor a comment is not a 32-byte hash, and otherwise
  returns the distinct hashes in the order of their first lines.
\<close>

theorem tx_log_reference:
  "parse_transactions_log E contents
    = bind_res (map_res (parse_hash E) (hash_lines contents)) (\<lambda>hs. Inr (dedup hs))"
  by (rule parse_transactions_log_ref)

text \<open>
  The log is append-only. Appending lines to a log keeps the hashes already read, in place, and
  adds the new ones that were not there.
\<close>

theorem tx_log_append:
  assumes "parse_transactions_log E (s @ [CHR 0x0A]) = Inr xs" "parse_transactions_log E t = Inr ys"
  shows "parse_transactions_log E (s @ CHR 0x0A # t) = Inr (xs @ filter (\<lambda>y. y \<notin> set xs) ys)"
  using assms by (rule parse_append)

theorem tx_log_append_witness:
  "parse_transactions_log demo_ext (hash_text (CHR ''1'') @ CHR 0x0A # hash_text (CHR ''2'')) = Inr [1, 2]"
  using tx_log_append [OF demo_log(1) demo_log(2)] by simp

section \<open>The environment\<close>

text \<open>
  What is read from an environment file. The salt under a key is that of the first matching line
  of \<^verbatim>\<open>[contracts]\<close>, the per-CTM salts are the matching lines of \<^verbatim>\<open>[create2_factory_salts]\<close>, a later
  line replacing an earlier one; but the Era chain id and the owner are taken from the last matching
  line of the whole file, whatever section it stands in.
\<close>

theorem environment_readers:
  "read_h256_under_contracts E content key
      = first_match (\<lambda>l. match_quoted_h256 E l key) (section_lines ''contracts'' content)
    \<and> read_create2_salts_per_ctm E content
      = map_of (rev (List.map_filter (match_addr_keyed_h256 E) (section_lines ''create2_factory_salts'' content)))
    \<and> vi_owner_address (parse_v31_upgrade_input E content)
      = last_match (\<lambda>l. match_quoted_address E (trim l) ''owner_address'') (str_lines content)
    \<and> vi_era_chain_id (parse_v31_upgrade_input E content)
      = last_match (\<lambda>l. match_unquoted_uint (trim l) ''era_chain_id'') (str_lines content)"
  by (simp only: salt_readers_ref upgrade_input_ref simp_thms)

text \<open>
  A salt table is read back. A table written with one line per CTM, whose addresses and
  salts parse and contain neither quotes, comment signs nor line feeds, is read as the map of
  its entries.
\<close>

theorem salt_table_read_back:
  assumes "\<forall>kv \<in> set kvs. plain (fst kv) \<and> plain (snd kv)
      \<and> (\<exists>a h. address_from_str E (fst kv) = Some a \<and> parse_b256 E (snd kv) = Some h \<and> entry_of kv = (a, h))"
  shows "read_create2_salts_per_ctm E (salt_table kvs) = map_of (rev (map entry_of kvs))"
  using assms by (rule salt_table_roundtrip)

theorem salt_table_read_back_witness:
  "read_create2_salts_per_ctm demo_ext (salt_table [(demo_addr, hash_text (CHR ''1''))]) = [0x1234 \<mapsto> 1]"
  using salt_table_read_back [of "[(demo_addr, hash_text (CHR ''1''))]" demo_ext "\<lambda>kv. (0x1234, 1)"] demo_salt_entry
  by simp

section \<open>What the preparing commands write\<close>

text \<open>
  Bundles. The bundles of a run hold all its transactions in order; every bundle is a non-empty
  run of one signer and lists the steps of its transactions once, and neighbouring bundles have
  different signers. Any other split with these properties has the same transactions bundle by
  bundle.
\<close>

theorem bundle_split:
  assumes "split_into_bundles libs payloads step = Inr bundles"
  shows "well_split bundles
    \<and> all_runs_cast_transactions libs payloads step = Inr (concat (map bundle_txs bundles))
    \<and> (\<forall>other. well_split other \<longrightarrow> concat (map bundle_txs other) = concat (map bundle_txs bundles)
        \<longrightarrow> map bundle_txs other = map bundle_txs bundles)"
  using split_into_bundles_ok [OF assms] well_split_unique by blast

theorem bundle_split_witness:
  "\<exists>b c. split_into_bundles {} [demo_payload] ''step'' = Inr [b, c] \<and> well_split [b, c]"
proof -
  obtain b c where bc: "split_into_bundles {} [demo_payload] ''step'' = Inr [b, c]"
    using demo_split by blast
  with bundle_split [OF bc] show ?thesis by blast
qed

text \<open>
  C37: The manifest only grows. With a JSON printer whose output is read back, and entries that JSON of the crate can hold (keys in
  order, \<^verbatim>\<open>u64\<close> numbers, nesting within the parser's limit), a successful \<^verbatim>\<open>write_safe_bundles_dir\<close> keeps
  every entry of the manifest, appends the new ones under the next indices and one entry of metadata, and, as long as
  the indices do not reach \<^verbatim>\<open>u64::MAX\<close>, leaves every file of an earlier entry as it was. The manifest it leaves
  is again one the next run can extend.
\<close>

theorem manifest_append_only:
  assumes "json_codec J" "write_safe_bundles_dir J K bundles meta d = (Inr (), d')"
    and "read_existing_manifest J d = Inr (old_entries, old_meta)"
    and "\<forall>j \<in> set (old_entries @ old_meta @ [meta]). canonical_json 125 j"
    and "unat (top_index old_entries) + length bundles < 2 ^ 64"
  shows "read_existing_manifest J d' = Inr (old_entries @ new_entries K (next_index old_entries) bundles, old_meta @ [meta])
    \<and> (\<forall>j \<in> set ((old_entries @ new_entries K (next_index old_entries) bundles) @ old_meta @ [meta]). canonical_json 125 j)
    \<and> (\<forall>e i c b. e \<in> set old_entries \<longrightarrow> entry_index e = Some i
        \<longrightarrow> dir_files d' (bundle_file_name c i b) = dir_files d (bundle_file_name c i b))"
  using manifest_appended [OF assms(1-4)] earlier_files_kept [OF assms(2,3,5)] by blast

theorem manifest_append_only_witness:
  "\<exists>d'. write_safe_bundles_dir demo_json demo_out [demo_bundle_out] demo_meta demo_dir = (Inr (), d')
    \<and> read_existing_manifest demo_json d' = Inr ([JObj [(''index'', JNum (Some 1))],
        JObj [(''file'', JStr ''02_demo_0xaa.safe.json''), (''index'', JNum (Some 2)), (''steps'', JArr [JStr ''demo'']),
          (''target'', JStr ''0xaa''), (''tx_count'', JNum (Some 1))]], [demo_meta])"
proof -
  let ?old = "[JObj [(''index'', JNum (Some 1))]]"
  obtain d' where d': "write_safe_bundles_dir demo_json demo_out [demo_bundle_out] demo_meta demo_dir = (Inr (), d')"
    using demo_dir_written by blast
  have room: "unat (top_index ?old) + length [demo_bundle_out] < 2 ^ 64"
    by (simp add: top_index_def entry_index_def List.map_filter_simps)
  have two: "next_index ?old = 2"
    by (simp add: next_index_def entry_index_def List.map_filter_simps)
  have entry: "bundle_entry demo_out 2 demo_bundle_out = JObj [(''file'', JStr ''02_demo_0xaa.safe.json''), (''index'', JNum (Some 2)),
      (''steps'', JArr [JStr ''demo'']), (''target'', JStr ''0xaa''), (''tx_count'', JNum (Some 1))]"
    by code_simp
  from manifest_append_only [OF demo_json_codec d' demo_dir_read demo_canonical room] d' show ?thesis
    unfolding two by (auto simp: entry)
qed

text \<open>
  Merging call arrays. With the coders' round trip, the merge of hex call arrays decodes to
  their calls in order, and merging in two steps is merging at once.
\<close>

theorem merged_calls:
  assumes "calls_codec E G" "map_res (decode_calls E G) xs = Inr css" "map_res (decode_calls E G) ys = Inr dss"
  shows "\<exists>h k. merge_call_array_hex E G xs = Inr h \<and> merge_call_array_hex E G ys = Inr k
    \<and> decode_calls E G h = Inr (concat css)
    \<and> merge_call_array_hex E G [h, k] = merge_call_array_hex E G (xs @ ys)"
  using assms by (simp add: merge_ref decode_calls_hex map_res_append)

theorem merged_calls_witness:
  "\<exists>h k. merge_call_array_hex demo_ext demo_calls_abi [calls_hex demo_ext demo_calls_abi demo_stage0] = Inr h
    \<and> merge_call_array_hex demo_ext demo_calls_abi [] = Inr k
    \<and> decode_calls demo_ext demo_calls_abi h = Inr demo_stage0
    \<and> merge_call_array_hex demo_ext demo_calls_abi [h, k]
        = merge_call_array_hex demo_ext demo_calls_abi [calls_hex demo_ext demo_calls_abi demo_stage0]"
  using merged_calls [OF demo_calls_codec, of "[calls_hex demo_ext demo_calls_abi demo_stage0]" "[demo_stage0]" "[]" "[]"]
  by (simp add: decode_calls_hex [OF demo_calls_codec])

text \<open>
  C38: The bound of a chain id. Reading an id, from text or from a readable format, gives one whose
  \<open>v = 2 * id + 36\<close> is a safe JavaScript integer and whose printed form reads back as itself. The
  binary format, which applies no bound, is excluded.
\<close>

theorem chain_id_bound:
  assumes "L2ChainId_from_str s = Inr i \<or> (L2ChainId_deserialize w = Inr i \<and> (\<forall>n. w \<noteq> Binary n))"
  shows "2 * unat (as_u64 i) + 36 < 2 ^ 53 \<and> L2ChainId_from_str (L2ChainId_display i) = Inr i"
proof -
  have v: "valid_id i"
    using assms from_str_valid deserialize_valid by blast
  then have "L2ChainId_new (as_u64 i) = Inr i"
    by (cases i) (simp add: new_iff)
  then show ?thesis
    using v max_is_safe [of i] display_from_str [of i] by simp
qed

theorem chain_id_bound_witness:
  "L2ChainId_deserialize (Readable (JNum (Some 270))) = Inr (L2ChainId 270)
    \<and> L2ChainId_from_str (L2ChainId_display (L2ChainId 270)) = Inr (L2ChainId 270)"
proof -
  have r: "L2ChainId_deserialize (Readable (JNum (Some 270))) = Inr (L2ChainId 270)"
    by (simp add: L2ChainId_deserialize_def new_iff valid_id_def max_value)
  show ?thesis
    using chain_id_bound [of "[]" "L2ChainId 270" "Readable (JNum (Some 270))"] r by blast
qed

section \<open>The verifier context\<close>

text \<open>
  The names the checks rely on are registered. A context built by \<^verbatim>\<open>Verifiers::new_v31\<close>
  resolves \<open>zero\<close> to the zero address, the upgrade handler to the Bridgehub's owner and its aliased
  name to the owner's alias, and each of the nineteen aliases to the address the artifact has at
  the alias's path.
\<close>

theorem context_names:
  assumes "verifiers_new_v31 E W selected artifact commit gov p = Inr v"
  shows "get_by_name (address_book v) ''zero'' = Some 0
    \<and> get_by_name (address_book v) ''protocol_upgrade_handler_proxy'' = Some (bridgehub_owner v)
    \<and> get_by_name (address_book v) ''aliased_protocol_upgrade_handler_proxy''
        = Some (apply_l2_to_l1_alias (bridgehub_owner v))
    \<and> (\<forall>(path, name) \<in> set V31_ADDRESS_ALIASES. \<exists>raw a. toml_path (core artifact) path = Some (TString raw)
        \<and> address_from_hex E raw = Some a \<and> get_by_name (address_book v) name = Some a)"
  using new_v31_named [OF assms] by blast

theorem context_names_witness:
  "get_by_name (address_book demo_verifiers) ''aliased_protocol_upgrade_handler_proxy''
    = Some (apply_l2_to_l1_alias 0x77)"
  using context_names [OF demo_new_ok] demo_fields(3) by simp

text \<open>
  What a context guarantees about the chain. Construction succeeds only if every CTM's
  testnet flag agrees with the environment, the fee parameters of \<^verbatim>\<open>SystemConfig.json\<close> are those
  stored in Era's diamond, the owner was read from the Bridgehub of the artifact, and, when the
  artifact brings up a Gateway, the gateway RPC serves that chain and the representative chain has
  a non-zero CTM.
\<close>

theorem context_guards:
  assumes "verifiers_new_v31 E W selected artifact commit gov p = Inr v"
  shows "(\<forall>c \<in> set (ctms artifact). is_testnet (ctm_contracts_config c) \<longleftrightarrow> selected \<noteq> Mainnet)
    \<and> init_from_on_chain (network v) (bridgehub_address v) = Inr (fee_param_verifier v)
    \<and> Bridgehub_owner (l1_provider (network v)) (bridgehub_address v) = Some (bridgehub_owner v)
    \<and> (new_gateway artifact \<noteq> None \<longrightarrow> gateway_chain_id (network v) = new_gateway_chain_id v
        \<and> Bridgehub_chainTypeManager (l1_provider (network v)) (bridgehub_address v)
            (ucast (new_gateway_representative_chain_id v)) = Some (new_gateway_representative_ctm v)
        \<and> new_gateway_representative_ctm v \<noteq> 0)"
  using new_v31_parts(3,4,5) [OF assms] new_v31_gateway [OF assms] by blast

theorem context_guards_witness:
  "init_from_on_chain (network demo_verifiers) 0x1234 = Inr (fee_param_verifier demo_verifiers)"
  using context_guards [OF demo_new_ok] demo_fields(4) by simp

section \<open>Single checks\<close>

text \<open>
  Call checks. \<^verbatim>\<open>verify_call_by_name\<close> returns the number of errors it printed; it is zero
  exactly if the target's name is known and the list has at that index a call to the address, with
  no value and with the selector of the method.
\<close>

theorem call_check_exact:
  "val (verify_call_by_name E v calls i name m) = count_list (out (verify_call_by_name E v calls i name m)) Error_line
    \<and> (val (verify_call_by_name E v calls i name m) = 0
        \<longleftrightarrow> (\<exists>t. get_by_name (address_book v) name = Some t \<and> call_ok E calls i t m))"
  using call_by_name_counts_errors [of E v calls i name m] counts_errors_zero clean_call_by_name
  unfolding counts_errors_def by metis

text \<open>
  Proxy deployments. With the two provenance maps on the same keys,
  \<^verbatim>\<open>expect_create2_params_proxy_with_bytecode\<close> returns without an error exactly if the implementation
  slot of the proxy can be read, the log deployed the address as a transparent proxy for that
  implementation, admin and call data, and deployed the implementation from the expected file with
  the expected arguments.
\<close>

theorem proxy_check_exact:
  assumes "same_keys (network v)"
  shows "val (expect_create2_params_proxy_with_bytecode A v a init admin ps f) = Inr ()
      \<and> clean (expect_create2_params_proxy_with_bytecode A v a init admin ps f)
    \<longleftrightarrow> proxy_ok A v a init admin ps f"
  using assms by (rule create2_proxy_iff)

theorem proxy_check_exact_witness:
  "clean (expect_create2_params_proxy_with_bytecode demo_abi demo_with_proxy demo_proxy_addr [] 7 [1] ''l1-contracts/Impl'')"
  using proxy_check_exact [OF demo_with_proxy_keys, of demo_abi demo_proxy_addr "[]" 7 "[1]" "''l1-contracts/Impl''"]
    demo_proxy_ok by blast

text \<open>
  Deployed code. \<^verbatim>\<open>expect_deployed_bytecode\<close> returns without an error exactly if the code at
  the address was read and its hash is known under the expected file, or the mismatch is tolerated,
  there is code, and its hash is unknown: a tolerated address never passes with another known
  contract's code.
\<close>

theorem deployed_code_check:
  "val (expect_deployed_bytecode E v a f tolerate) = Inr () \<and> clean (expect_deployed_bytecode E v a f tolerate)
    \<longleftrightarrow> deployed_ok E v a f tolerate"
  by (rule deployed_bytecode_iff)

text \<open>
  Chain-creation hashes. \<^verbatim>\<open>InitializeDataNewChain::verify\<close> reports no error exactly if, for an
  Era CTM, the three hashes are the known ones of the bootloader, the default account and the EVM
  emulator, and for a ZKsync OS CTM all three are zero.
\<close>

theorem initialize_data_exact: "clean (initialize_data_verify v d f) \<longleftrightarrow> initialize_data_ok v d f"
  by (rule initialize_data_simps)

section \<open>Facets\<close>

text \<open>
  The representative chain. A chain found for the reconstruction of removed facets is
  registered under the CTM proxy of the artifact, has a non-zero diamond, and runs the version the
  artifact upgrades from.
\<close>

theorem representative_chain_live:
  assumes "val (find_representative_chain_diamond E ctm v) = Some (chain_id, diamond)"
  shows "address_at E (ctm_value ctm) [''state_transition'', ''chain_type_manager_proxy'']
      = Bridgehub_chainTypeManager (l1_provider (network v)) (bridgehub_address v) chain_id
    \<and> Bridgehub_getZKChain (l1_provider (network v)) (bridgehub_address v) chain_id = Some diamond
    \<and> diamond \<noteq> 0
    \<and> ZKChain_getProtocolVersion (l1_provider (network v)) diamond
        = Some (ucast (old_protocol_version (ctm_contracts_config ctm)))"
  using assms representative_sound [of E ctm v chain_id diamond] by simp

theorem representative_chain_live_witness:
  "Bridgehub_getZKChain (l1_provider (network demo_verifiers)) (bridgehub_address demo_verifiers) 270 = Some 0x88"
  using representative_chain_live [of demo_ext demo_ctm demo_verifiers 270 "0x88"] demo_representative by simp

text \<open>
  The chain-creation cut. \<^verbatim>\<open>verify_v31_chain_creation_facet_cuts\<close> returns the number of cuts
  that are not additions, plus one if the additions are not the facets that could be found; it
  reports no error exactly if that number is zero and all six facets were found.
\<close>

theorem chain_creation_cut:
  "val (verify_v31_chain_creation_facet_cuts E cs ctm v)
      = other_actions cs + (if additions cs = added_facets E ctm v then 0 else 1)
    \<and> (clean (verify_v31_chain_creation_facet_cuts E cs ctm v)
        \<longleftrightarrow> all_facets_found E ctm v \<and> val (verify_v31_chain_creation_facet_cuts E cs ctm v) = 0)"
  by (simp add: creation_run)

text \<open>
  C40: The count of the chain-creation check is too small by the facets it could not find. Whatever
  the cuts, \<^verbatim>\<open>verify_v31_chain_creation_facet_cuts\<close> returns the number of cuts that do not
  add plus one if the additions are not the facets found, and reports that many errors and one more
  for each of the six facets without address, code or selectors. So it returns zero although it reported
  errors exactly if every cut adds, the additions are the facets found, and a facet was not found.
\<close>

theorem chain_creation_undercounts:
  "val (verify_v31_chain_creation_facet_cuts E cs ctm v)
      = other_actions cs + (if additions cs = added_facets E ctm v then 0 else 1)
    \<and> errors (snd (run_state (verify_v31_chain_creation_facet_cuts E cs ctm v) s))
      = errors s + val (verify_v31_chain_creation_facet_cuts E cs ctm v) + facets_missing E ctm v
    \<and> (val (verify_v31_chain_creation_facet_cuts E cs ctm v) = 0 \<and> \<not> clean (verify_v31_chain_creation_facet_cuts E cs ctm v)
      \<longleftrightarrow> other_actions cs = 0 \<and> additions cs = added_facets E ctm v \<and> 0 < facets_missing E ctm v)"
  using facets_missing_zero [of E ctm v] by (auto simp: creation_run run_writer creation_lines)

text \<open>
  Facets are compared by content. Two facets with finitely many selectors feed the hasher the
  same input exactly if they are equal, and merging a set does not depend on the order in which
  its elements are enumerated.
\<close>

theorem facet_hash_and_merge:
  assumes "finite (selectors f)" "finite (selectors g)" "set fs = set gs"
  shows "(hash_input f = hash_input g \<longleftrightarrow> f = g) \<and> merge_in_order fs s = merge_in_order gs s"
  using hash_input_inject [OF assms(1,2)] merge_order_irrelevant [OF assms(3)] by blast

theorem facet_hash_and_merge_witness:
  "hash_input \<lparr>facet = 1, action = Add, is_freezable = True, selectors = {[1]}\<rparr>
     \<noteq> hash_input \<lparr>facet = 1, action = Add, is_freezable = True, selectors = {[2]}\<rparr>"
  using facet_hash_and_merge [of "\<lparr>facet = 1, action = Add, is_freezable = True, selectors = {[1]}\<rparr>"
      "\<lparr>facet = 1, action = Add, is_freezable = True, selectors = {[2]}\<rparr>" "[]" "[]"] by simp

text \<open>
  The order on facet-cut sets is not an order. \<^verbatim>\<open>FacetCutSet::cmp\<close> compares sizes only: it
  is reflexive and antisymmetric as an ordering of sizes, but calls different sets of the same size
  \<^verbatim>\<open>Equal\<close>.
\<close>

theorem facet_order_ignores_content:
  "(\<forall>a b. facet_cut_set_cmp a b = Equal \<longleftrightarrow> card a = card b)
    \<and> (\<exists>a b. facet_cut_set_cmp a b = Equal \<and> \<not> facet_cut_set_eq a b)"
proof
  show "\<forall>a b. facet_cut_set_cmp a b = Equal \<longleftrightarrow> card a = card b"
    by (auto simp: facet_cut_set_cmp_def)
  let ?f = "\<lambda>a. \<lparr>facet = a, action = Add, is_freezable = True, selectors = {}\<rparr>"
  show "\<exists>a b. facet_cut_set_cmp a b = Equal \<and> \<not> facet_cut_set_eq a b"
    by (rule exI [of _ "{?f 1}"], rule exI [of _ "{?f 2}"]) (simp add: facet_cut_set_cmp_def facet_cut_set_eq_def)
qed

section \<open>Addresses, hashes and the report\<close>

text \<open>
  CREATE2 addresses. The derived address is the low 160 bits of the hash of a payload of fixed
  length (85 bytes for the EVM, 160 for EraVM) that determines the sender, the salt and the code and
  constructor hashes: two derivations hash the same bytes only for the same deployment.
\<close>

theorem create2_derivation:
  "compute_create2_address_evm E s salt h = ucast (keccak256 E (evm_payload s salt h))
    \<and> compute_create2_address_zk E s salt h c = ucast (keccak256 E (zk_payload E s salt h c))
    \<and> length (evm_payload s salt h) = 85 \<and> length (zk_payload E s salt h c) = 160
    \<and> (evm_payload s salt h = evm_payload s' salt' h' \<longleftrightarrow> s = s' \<and> salt = salt' \<and> h = h')
    \<and> (zk_payload E s salt h c = zk_payload E s' salt' h' c' \<longleftrightarrow> s = s' \<and> salt = salt' \<and> h = h' \<and> c = c')"
  by (simp add: compute_create2_address_evm_def compute_create2_address_zk_def address_of_hash_ucast
      length_evm_payload length_zk_payload evm_payload_inject zk_payload_inject)

text \<open>
  The alias. \<^verbatim>\<open>apply_l2_to_l1_alias\<close> adds the protocol's offset modulo \<open>2^160\<close>: it is a
  bijection of addresses without fixed points, undone by subtracting the offset.
\<close>

theorem alias_bijection:
  "bij apply_l2_to_l1_alias \<and> apply_l2_to_l1_alias a \<noteq> a \<and> undo_alias (apply_l2_to_l1_alias a) = a
    \<and> unat (apply_l2_to_l1_alias a) = (0x1111000000000000000000000000000000001111 + unat a) mod 2 ^ 160"
proof -
  have "bij apply_l2_to_l1_alias"
    by (rule bij_betw_byWitness [where f' = undo_alias])
      (auto simp: apply_l2_to_l1_alias_def undo_alias_def)
  moreover have "unat (apply_l2_to_l1_alias a) = (unat alias_offset + unat a) mod 2 ^ 160"
    by (simp add: apply_l2_to_l1_alias_def unat_word_ariths)
  ultimately show ?thesis
    unfolding unat_alias_offset using alias_not_self by (simp add: apply_l2_to_l1_alias_def undo_alias_def)
qed

text \<open>
  The fixed addresses do not collide: the forty-one constants of \<^verbatim>\<open>constants.rs\<close> built by the
  three builders are different addresses.
\<close>

theorem fixed_addresses_distinct: "distinct (map snd fixed_addresses)"
proof -
  have "distinct (map unat (map snd fixed_addresses))"
    unfolding fixed_addresses_def
    by (simp add: unat_l2_addr unat_system_contract_addr unat_literal_addr)
  then show ?thesis
    by (rule distinct_map [THEN iffD1, THEN conjunct1])
qed

text \<open>
  Known hashes. The hash maps filled from a list of contracts answer, for init code and for ZK
  bytecode, with the last contract of the list that declares the hash, and with nothing for a hash
  no contract declares.
\<close>

theorem known_hashes:
  assumes "from_contract_hashes E hs = Inr bv"
  shows "evm_init_bytecode_hash_to_file bv h = last_named (\<lambda>c. hash_entry E (evm_bytecode_hash c)) hs h
    \<and> zk_bytecode_hash_to_file bv h = last_named (\<lambda>c. hash_entry E (zk_bytecode_hash c)) hs h"
  using from_contract_hashes_lookup [OF assms] by blast

theorem known_hashes_witness:
  "zk_bytecode_hash_to_file demo_bytes 10 = last_named (\<lambda>c. hash_entry demo_ext (zk_bytecode_hash c)) demo_hashes 10"
  using known_hashes [OF demo_from_hashes] by blast

text \<open>
  Files from GitHub are read once. After \<^verbatim>\<open>get_contents_from_github\<close> returned, asking for the
  same file again gives the same contents from the cache without changing it, whatever the network
  answers by then.
\<close>

theorem github_cache_stable:
  assumes "get_contents_from_github F commit repo path = Inr (contents, F')"
  shows "get_contents_from_github (F'\<lparr>fetch := network_now\<rparr>) commit repo path = Inr (contents, F'\<lparr>fetch := network_now\<rparr>)"
  using assms by (auto simp: get_contents_from_github_def Let_def split: option.splits)

theorem github_cache_stable_witness:
  "\<exists>F. get_contents_from_github (F\<lparr>fetch := Map.empty\<rparr>) ''main'' ''r'' ''p'' = Inr (''x'', F\<lparr>fetch := Map.empty\<rparr>)"
proof -
  have "\<exists>F'. get_contents_from_github \<lparr>read_local = Map.empty, cache = Map.empty, fetch = (\<lambda>u. Some ''x'')\<rparr>
      ''main'' ''r'' ''p'' = Inr (''x'', F')"
    by (simp add: get_contents_from_github_def)
  then show ?thesis
    using github_cache_stable by blast
qed

text \<open>
  The report adds up. A check only appends lines; from a report whose counters agree with its
  lines it leaves one whose counters agree, and then \<^verbatim>\<open>ensure_success\<close> passes exactly if no error line
  was printed and the headline is \<open>OK\<close> exactly if neither an error nor a warning was.
\<close>

theorem report_adds_up:
  assumes "writer m" "consistent s" "s' = snd (run_state m s)"
  shows "consistent s' \<and> (\<exists>l. printed s' = printed s @ l)
    \<and> (ensure_success s' = Inr () \<longleftrightarrow> Error_line \<notin> set (printed s'))
    \<and> (display_headline s' = OK \<longleftrightarrow> Error_line \<notin> set (printed s') \<and> Warn_line \<notin> set (printed s'))"
proof -
  have c: "consistent s'"
    unfolding assms(3) using assms(1,2) by (rule writer_consistent)
  have p: "printed s' = printed s @ out m"
    by (simp add: assms(3) run_writer [OF assms(1)])
  have z: "errors s' = 0 \<longleftrightarrow> Error_line \<notin> set (printed s')" "warnings s' = 0 \<longleftrightarrow> Warn_line \<notin> set (printed s')"
    using c count_list_0_iff [of "printed s'"] by (simp_all add: consistent_def)
  show ?thesis
    unfolding z [symmetric] using c p by (simp add: ensure_success_def display_headline_def)
qed

theorem report_adds_up_witness:
  "ensure_success (snd (run_state (force_deployments_verify demo_verifiers demo_force) vresult_default)) = Inr ()
    \<longleftrightarrow> Error_line \<notin> set (printed (snd (run_state (force_deployments_verify demo_verifiers demo_force) vresult_default)))"
  using report_adds_up [OF writer_force_deployments _ refl, of vresult_default demo_verifiers demo_force]
  by (simp add: consistent_def)

section \<open>The genesis generator\<close>

text \<open>
  C17: The genesis root is that of the described state. For inputs whose tree is not overfull, the
  generator fails exactly if an additional entry is not new (a key given twice, or that of an
  account), and otherwise returns the commitment to the complete tree of depth 64 over the leaves of
  the state (accounts, raw entries and flattened slots in key order) with empty leaves elsewhere. So
  the bottom-up pass over the occupied nodes computes the root of the full tree, and the result does
  not depend on the order of the entries.
\<close>

theorem genesis_root_exact:
  assumes "sorted_wrt (<) (map fst logs)" "map_of logs = genesis_state G input" "length logs + 2 \<le> 2 ^ 64"
  shows "build_genesis_root_hash G input =
    (if additional_fresh G input
     then Inr (commitment_of G (subtree G 64 (leaf_function G (genesis_leaves logs)) 0) (length logs + 2))
     else Inl (Bail (if distinct (map fst (additional_storage_raw input))
           \<and> fst ` set (additional_storage_raw input) \<inter> fst ` set (contract_entries G input) = {}
         then ''duplicate flattened storage key'' else ''duplicate storage key in additional_storage_raw'')))"
proof (cases "additional_fresh G input")
  case True
  then have "genesis_logs G input = logs"
    using genesis_logs_lookup genesis_logs_sorted assms(1,2) by (intro bt.entries_determined) simp_all
  with True show ?thesis
    by (simp only: build_genesis_steps if_True genesis_commitment_exact [OF assms(3)])
qed (simp only: build_genesis_steps if_False)

theorem genesis_root_exact_witness:
  "build_genesis_root_hash demo_genesis_ext demo_genesis_input = Inr (commitment_of demo_genesis_ext
     (subtree demo_genesis_ext 64 (leaf_function demo_genesis_ext (genesis_leaves [(5, 2), (9, 1)])) 0) 4)"
proof -
  have size: "length [(5 :: b256, 2 :: b256), (9, 1)] + 2 = 4" by simp
  show ?thesis
    using genesis_root_exact [OF _ demo_genesis_state, unfolded size] demo_genesis_fresh by simp
qed

text \<open>
  C21: The leaves form one list in key order. When the state is not empty and holds neither of the two
  sentinel keys, every leaf but the last names the leaf with the next larger key, and the last names
  itself.
\<close>

theorem genesis_leaves_in_order:
  assumes "sorted_wrt (<) (map fst logs)" "logs \<noteq> []" "\<forall>k \<in> fst ` set logs. 0 < k \<and> k < MAX_B256_VALUE"
    and "length logs + 2 < 2 ^ 64" "i < length (genesis_leaves logs)"
  shows "(if leaf_key (genesis_leaves logs ! i) = MAX_B256_VALUE
      then unat (leaf_next_index (genesis_leaves logs ! i)) = i
      else unat (leaf_next_index (genesis_leaves logs ! i)) < length (genesis_leaves logs)
        \<and> next_in_order (genesis_leaves logs) (genesis_leaves logs ! i)
            (genesis_leaves logs ! unat (leaf_next_index (genesis_leaves logs ! i))))"
proof -
  have bound: "i < length logs + 2" using assms(5) by simp
  show ?thesis
  proof (cases "i = 1")
    case True
    then show ?thesis
      using next_index_successor [OF bound assms(4)] leaf_key_nth(2) by (simp add: successor_index_def)
  next
    case False
    note linked = genesis_leaves_linked [OF assms(1-3) bound False]
    then have "leaf_key (genesis_leaves logs ! i) \<noteq> MAX_B256_VALUE"
      unfolding next_in_order_def using MAX_B256_VALUE_top leD by metis
    moreover have "successor_index logs i < length logs + 2"
      using bound assms(2) by (cases logs) (auto simp: successor_index_def)
    ultimately show ?thesis
      using linked next_index_successor [OF bound assms(4)] by simp
  qed
qed

theorem genesis_leaves_in_order_witness:
  "next_in_order (genesis_leaves [(5, 2), (9, 1)]) (genesis_leaves [(5, 2), (9, 1)] ! 2)
     (genesis_leaves [(5, 2), (9, 1)] ! unat (leaf_next_index (genesis_leaves [(5, 2), (9, 1)] ! 2)))"
proof -
  have "leaf_key (genesis_leaves [(5, 2), (9, 1)] ! 2) = 5"
    using leaf_key_nth(3) [of 0 "[(5, 2), (9, 1)]", unfolded add_0] by simp
  then show ?thesis
    using genesis_leaves_in_order [of "[(5, 2), (9, 1)]" 2] by (simp add: MAX_B256_VALUE_def)
qed

text \<open>
  C20: Every proxy of the genesis is wired. If the artifacts could be loaded, each contract marked as a
  system proxy has the proxy's code at its address, its own code at the address derived from that code,
  and storage with exactly that address as implementation and the proxy admin as admin; the proxy admin
  is owned by the complex upgrader.
\<close>

theorem genesis_proxies_wired:
  assumes "build_from_source_loader E G load = Inr input" "(addr, SystemProxy source) \<in> set INITIAL_CONTRACTS"
  shows "\<exists>proxy code slots. load (L1ContractName ''SystemContractProxy'') = Inr proxy \<and> load source = Inr code
    \<and> (addr, proxy) \<in> set (initial_contracts input)
    \<and> (generate_random_address E G code, code) \<in> set (initial_contracts input)
    \<and> map_of (additional_storage input) addr = Some slots
    \<and> map_of slots = [EIP1967_IMPLEMENTATION_SLOT \<mapsto> address_to_b256 (generate_random_address E G code),
        EIP1967_ADMIN_SLOT \<mapsto> address_to_b256 SYSTEM_CONTRACT_PROXY_ADMIN]
    \<and> map_of (additional_storage input) SYSTEM_CONTRACT_PROXY_ADMIN =
        Some [(SYSTEM_PROXY_ADMIN_OWNER_SLOT, address_to_b256 GENESIS_COMPLEX_UPGRADER_ADDR)]"
  using genesis_proxy_wired [OF assms] by metis

theorem genesis_proxies_wired_witness:
  "\<exists>input slots. build_from_source_loader demo_ext demo_genesis_ext (\<lambda>source. Inr [1]) = Inr input
    \<and> map_of (additional_storage input) 0x10005 = Some slots
    \<and> slots \<noteq> []"
proof -
  obtain input where built: "build_from_source_loader demo_ext demo_genesis_ext (\<lambda>source. Inr [1]) = Inr input"
    using demo_loader_builds ..
  have "(0x10005, SystemProxy (L1ContractName ''L2MessageRoot'')) \<in> set INITIAL_CONTRACTS"
    by (simp add: INITIAL_CONTRACTS_def)
  from genesis_proxies_wired [OF built this] obtain slots where
    "map_of (additional_storage input) 0x10005 = Some slots" "map_of slots EIP1967_ADMIN_SLOT \<noteq> None"
    by auto
  with built show ?thesis by fastforce
qed

text \<open>
  The generator and the verifier derive the same address: that of a genesis contract is the one the
  verifier computes from the contract's bytecode info, whose two hashes it reads back.
\<close>

theorem genesis_address_agrees:
  "generate_random_address E G code = generate_zksync_os_random_address E (genesis_bytecode_info E G code)
    \<and> zksync_os_bytecode_info_hashes (genesis_bytecode_info E G code) = Some (blake2s256 G code, keccak256 E code)"
  by (simp add: generate_random_address_def generate_zksync_os_random_address_def zksync_os_bytecode_info_hashes_def
      genesis_bytecode_info_def slice_def b256_bytes_def from_to_be_bytes)

section \<open>The readiness checker\<close>

text \<open>
  C18: When the readiness checker exits. With a settlement node that answers log queries completely
  and in chain order, it exits with 0 exactly if the chain's registered type manager announced the
  target version in the scanned window, the newest announcement decodes, and at some tick the chain
  reports the announced transaction in a block other than 0 with the block before it finalized; it exits
  with 1 exactly if there is no such announcement; otherwise it does not return.
\<close>

theorem readiness_exit:
  assumes "connect_http (settlement_rpc_url cli) = Some S" "sl_get_block_number S = Some latest" "serves_logs S hist"
  shows "(readiness_main E A connect_http L cli = Some 0 \<longleftrightarrow>
      (\<exists>h tick. announced_upgrade E A S cli latest hist h \<and> ready_at (L (l2_rpc_url cli) tick) h))
    \<and> (readiness_main E A connect_http L cli = Some 1 \<longleftrightarrow> (\<nexists>h. announced_upgrade E A S cli latest hist h))"
  unfolding readiness_main_cases locate_upgrade_iff [of connect_http, OF assms] by blast

theorem readiness_exit_witness:
  "readiness_main demo_ext demo_readiness_abi (\<lambda>url. Some demo_settlement) (\<lambda>url. demo_l2) demo_cli = Some 0"
proof -
  have "sl_get_block_number demo_settlement = Some 9" by (simp add: demo_settlement_def)
  from readiness_exit [OF refl this demo_serves] show ?thesis
    using demo_announced demo_ready(1) by blast
qed

text \<open>
  C19: Polling returns when it can. The loop returns at the first tick at which the chain is ready, and
  returns at all exactly if there is such a tick, whatever errors the ticks before it brought. A receipt
  for block 0 never counts: if every receipt names block 0 the loop does not return.
\<close>

theorem polling_returns:
  "(poll_until_ready L h 0 = Some n \<longleftrightarrow> ready_at (L n) h \<and> (\<forall>k < n. \<not> ready_at (L k) h))
    \<and> ((\<exists>n. poll_until_ready L h 0 = Some n) \<longleftrightarrow> (\<exists>n. ready_at (L n) h))
    \<and> ((\<forall>k m. mined_in (L k) h m \<longrightarrow> m = 0) \<longrightarrow> poll_until_ready L h 0 = None)"
proof (intro conjI impI)
  show "poll_until_ready L h 0 = Some n \<longleftrightarrow> ready_at (L n) h \<and> (\<forall>k < n. \<not> ready_at (L k) h)"
    by (auto simp: poll_iff)
  show returns: "(\<exists>n. poll_until_ready L h 0 = Some n) \<longleftrightarrow> (\<exists>n. ready_at (L n) h)"
    by (rule poll_returns_iff)
  show "poll_until_ready L h 0 = None" if "\<forall>k m. mined_in (L k) h m \<longrightarrow> m = 0"
    using that returns by (auto simp: ready_at_def)
qed

theorem polling_returns_witness: "poll_until_ready demo_l2 0xabc 0 = Some 1"
proof -
  have "ready_at (demo_l2 1) 0xabc" "\<forall>k < 1. \<not> ready_at (demo_l2 k) 0xabc"
    using demo_ready(1) [of 0] demo_ready(2) by simp_all
  with polling_returns [of demo_l2 "0xabc" 1] show ?thesis by blast
qed

text \<open>
  C22: The scan asks for every block once in bounded requests. It takes the first answer with a log
  among the requests for the listed windows, of which there are at most 51, each of at most 50000
  blocks; together they are the blocks of the lookback in order, without gap or overlap.
\<close>

theorem scan_requests_bounded:
  assumes "start = max (saturating_sub latest LOOKBACK_BLOCKS) 1"
  shows "scan_newest_first S flt start latest =
      first_hit (map (\<lambda>(f, t). sl_get_logs S (flt\<lparr>filter_from := f, filter_to := t\<rparr>)) (scan_windows start latest))
    \<and> length (scan_windows start latest) \<le> 51
    \<and> (\<forall>(f, t) \<in> set (scan_windows start latest). f \<le> t \<and> unat t - unat f < 50000)
    \<and> concat (rev (map (\<lambda>(f, t). [unat f ..< Suc (unat t)]) (scan_windows start latest)))
        = [unat start ..< Suc (unat latest)]"
proof (intro conjI)
  show "length (scan_windows start latest) \<le> 51"
    unfolding assms by (rule lookback_windows)
  show "\<forall>(f, t) \<in> set (scan_windows start latest). f \<le> t \<and> unat t - unat f < 50000"
    using scan_windows_size by blast
qed (rule scan_first_hit scan_windows_blocks)+

theorem scan_requests_bounded_witness:
  "length (scan_windows 1 120000) \<le> 51
    \<and> concat (rev (map (\<lambda>(f, t). [unat f ..< Suc (unat t)]) (scan_windows 1 120000))) = [1 ..< Suc 120000]"
  using scan_requests_bounded [of 1 120000 demo_settlement "cut_window demo_readiness_abi 0xc7 demo_cli 9"]
  by (simp add: saturating_sub_def LOOKBACK_BLOCKS_def del: upt_Suc)

section \<open>Replay and broadcast\<close>

text \<open>
  C23: What a signed replay submits. Every request comes from the key's address with the bundle's one
  gas price and a gas limit within the cap; the nonces run from the pending nonce without a gap, also
  when transactions are skipped; the calls are transactions of the file in its order, and all of them
  if the replay succeeds on a node that can estimate each. A bundle, key or node that is refused leads
  to no request and leaves the outputs as they were.
\<close>

theorem replay_in_order:
  assumes "execute_one_bundle E X J (Some (recording N)) contents key bps (w, []) place = (r, (w', sent), place')"
  shows "(\<exists>from txs base price. signer_of_key E X key = Inr from \<and> read_safe_txs J contents = Inr txs
      \<and> node_pending_nonce N w from = Some base \<and> resolve_gas_price N w bps = Inr price
      \<and> map (rq_nonce \<circ> fst) sent = map (\<lambda>k. base + of_nat k) [0 ..< length sent]
      \<and> list_all (\<lambda>(q, _). rq_from q = from \<and> rq_gas_price q = price \<and> rq_gas_limit q \<le> PER_TX_GAS_LIMIT_CAP) sent
      \<and> subseq (map (call_of \<circ> fst) sent) (List.map_filter (decoded E X) txs)
      \<and> (r = Inr () \<longrightarrow> always_estimates N \<longrightarrow> map (Some \<circ> call_of \<circ> fst) sent = map (decoded E X) txs))
    \<or> (r \<noteq> Inr () \<and> sent = [] \<and> w' = w \<and> place' = place)"
  using assms
proof (cases rule: execute_one_bundle_cases)
  case (replayed txs R)
  from replayed(3,8) obtain new where new: "snd (w', sent) = snd (w, []) @ new" "replayed E X R 0 txs new"
    "r = Inr () \<longrightarrow> always_estimates N \<longrightarrow> map (Some \<circ> call_of \<circ> fst) new = map (decoded E X) txs"
    by (rule replay_recorded)
  have "node_pending_nonce N w (rp_sender R) = Some (rp_base_nonce R)" "resolve_gas_price N w bps = Inr (rp_price R)"
    using replayed(4,5) by (simp_all add: resolve_gas_price_def recording_def)
  with replayed(1,2) new show ?thesis
    by (intro disjI1 exI [of _ "rp_sender R"] exI [of _ txs] exI [of _ "rp_base_nonce R"] exI [of _ "rp_price R"])
      (auto simp: replayed_def well_formed_request_def list_all_iff)
qed simp

theorem replay_in_order_witness:
  "map (rq_nonce \<circ> fst) [(demo_request, Some (1 :: b256))] = [7]
    \<and> map (Some \<circ> call_of \<circ> fst) [(demo_request, Some (1 :: b256))] = map (decoded demo_ext demo_replay_ext) [demo_safe_tx]"
proof -
  have "always_estimates demo_node" by (simp add: always_estimates_def demo_node_def)
  moreover have "node_pending_nonce demo_node 0 a = Some 7" for a by (simp add: demo_node_def)
  ultimately show ?thesis
    using replay_in_order [OF demo_replay] by (auto simp: demo_txs)
qed

text \<open>
  C25: What a replay writes is what the verifier reads. After a replay with \<^verbatim>\<open>--out\<close> succeeds, the log
  of hashes parses to the hashes it held, then the new ones in submission order without repetition, and
  the executed-bundle file reads back as its old entries followed by one per submitted transaction.
\<close>

theorem replay_log_read_back:
  assumes "hex_text_codec E" "executed_codec X"
    and "hash_log d = [] \<or> last (hash_log d) = CHR 0x0A" "parse_transactions_log E (hash_log d) = Inr seen"
    and "load_executed X (Some d) = Inr old" "out_has_parent d"
    and "execute_one_bundle E X J (Some (recording N)) contents key bps (w, []) (Some d) = (Inr (), (w', sent), place')"
  shows "\<exists>d' hs xs. place' = Some d' \<and> map snd sent = map Some hs
    \<and> parse_transactions_log E (hash_log d') = Inr (seen @ filter (\<lambda>h. h \<notin> set seen) (dedup hs))
    \<and> load_executed X (Some d') = Inr (old @ xs) \<and> map ex_tx_hash xs = map (hash_line E) hs"
  using assms(7)
proof (cases rule: execute_one_bundle_cases)
  case (replayed txs R)
  have "keep R" using replayed(6) by simp
  from replayed(3) this assms(2,5) replayed(8) show ?thesis
  proof (cases rule: replay_out)
    case unchanged
    with assms(4,5) show ?thesis by (intro exI [of _ d] exI [of _ "[]"]) simp
  next
    case (written d' hs xs new k)
    then have "hash_log d' = hash_log d @ log_lines E hs" using assms(6) by simp
    with written(1-5) log_append_read [OF assms(1,3,4), of hs] show ?thesis
      by (intro exI [of _ d'] exI [of _ hs] exI [of _ xs]) simp
  qed
qed simp

theorem replay_log_read_back_witness:
  "\<exists>d'. execute_one_bundle demo_ext demo_replay_ext demo_bundle_json (Some (recording demo_node)) (Some []) [] 30000 (0, []) (Some demo_place)
      = (Inr (), (1, [(demo_request, Some 1)]), Some d')
    \<and> parse_transactions_log demo_ext (hash_log d') = Inr [1]"
proof -
  obtain d' where run: "execute_one_bundle demo_ext demo_replay_ext demo_bundle_json (Some (recording demo_node)) (Some []) [] 30000
      (0, []) (Some demo_place) = (Inr (), (1, [(demo_request, Some 1)]), Some d')"
    using demo_replay_out by blast
  have old: "hash_log demo_place = [] \<or> last (hash_log demo_place) = CHR 0x0A"
    "parse_transactions_log demo_ext (hash_log demo_place) = Inr []"
    "load_executed demo_replay_ext (Some demo_place) = Inr []" "out_has_parent demo_place"
    by (simp_all add: demo_place_def parse_transactions_log_def str_lines_def load_executed_def)
  from replay_log_read_back [OF demo_hex_text demo_executed_codec old run]
  have "parse_transactions_log demo_ext (hash_log d') = Inr [1]"
    by (auto simp: Cons_eq_map_conv)
  with run show ?thesis by blast
qed

text \<open>
  C24: Who a broadcast acts for. It goes through the manifest's bundles by index; the requests fall into
  one segment per bundle begun, each sent by that bundle's target with consecutive nonces for
  transactions of that bundle's file, and a successful run has a segment for every bundle. A keyed run
  sends something only if every target has a key; otherwise nothing is sent or written.
\<close>

theorem broadcast_by_target:
  assumes "signers_agree E X D" "connect (ub_l1_rpc_url args) = Some (recording N)"
    and "broadcast_run E X J D connect args (w, []) place = (r, (w', sent), place')"
  shows "(\<exists>dir bundles segs. load_manifest D (ub_manifest args) = Inr (dir, bundles) \<and> sorted (map mb_index bundles)
      \<and> sent = concat segs \<and> length segs \<le> length bundles
      \<and> list_all2 (\<lambda>b. bundle_segment E X J (mb_target b) (read_text D (path_join dir (mb_file b)))) (take (length segs) bundles) segs
      \<and> (r = Inr () \<longrightarrow> length segs = length bundles)
      \<and> (ub_unlocked args \<or> (\<exists>m. parse_keys E D (ub_keys args) = Inr m \<and> (\<forall>b \<in> set bundles. m (mb_target b) \<noteq> None))))
    \<or> (r \<noteq> Inr () \<and> w' = w \<and> sent = [] \<and> place' = place)"
  using broadcast_segments [OF assms] by (simp add: manifest_segment_def [abs_def])

theorem broadcast_by_target_witness:
  "broadcast_run demo_ext demo_replay_ext demo_bundle_json demo_dispatch (\<lambda>url. Some (recording demo_node)) demo_broadcast (0, []) None
    = (Inl (Bail ''no --key supplied for signer(s)''), (0, []), None)"
proof -
  let ?run = "broadcast_run demo_ext demo_replay_ext demo_bundle_json demo_dispatch (\<lambda>url. Some (recording demo_node)) demo_broadcast (0, []) None"
  obtain r w' sent place' where run: "?run = (r, (w', sent), place')" by (cases ?run) auto
  have "load_manifest demo_dispatch (ub_manifest demo_broadcast) = Inr (''out'', [\<lparr>mb_file = ''b'', mb_index = 2, mb_target = 0x55\<rparr>])"
    "parse_keys demo_ext demo_dispatch (ub_keys demo_broadcast) = Inr Map.empty" "\<not> ub_unlocked demo_broadcast"
    using demo_manifest_loaded demo_no_keys by (simp_all add: demo_broadcast_def)
  with broadcast_by_target [OF demo_signers_agree refl run] run show ?thesis
    by (auto simp: broadcast_run_def missing_signers_def split: if_splits)
qed

text \<open>
  The same for a manifest applied from a position on: the segments belong to the entries from there on.
\<close>

theorem apply_manifest_by_target:
  assumes "hex_crates_agree E D"
    and "apply_manifest_from E X J D (Some (recording N)) path start keys wallets fund (w, []) = (r, (w', sent))"
  shows "(\<exists>bundles segs. new_bundles J D path start = Inr bundles \<and> sent = concat segs
      \<and> length segs \<le> length bundles \<and> list_all2 (json_segment E X J D (path_parent path)) (take (length segs) bundles) segs
      \<and> (r = Inr () \<longrightarrow> length segs = length bundles))
    \<or> (r \<noteq> Inr () \<and> w' = w \<and> sent = [])"
  using apply_manifest_segments [OF assms] by auto

text \<open>
  C26: What is prepared is what is verified. When the merge writes its file, the verifier's reader accepts
  it: each stage decodes to the calls of the core file and of every CTM file in their order, followed in
  stage 0 by the extra calls, in stage 1 by the two set-up calls of each DA manager with a pair and in
  stage 2 by the token registration and the calls of the Gateway files; the CTM sections come in sorted
  order and hold their file's tables; the zk-governance addresses are those deployed.
\<close>

theorem merged_artifact_read:
  assumes "calls_codec E G" "address_text_codec E" "toml_codec M" "entries \<noteq> []"
    and "write_merged_ecosystem_toml E G M core_toml entries extra_stage0 zk gws asset_id d = (Inr (), d')"
    and "\<forall>e \<in> set entries. \<forall>body gov test. load_and_split M (pe_toml e) = Inr (body, gov, test) \<longrightarrow> ctm_section_ok body"
    and "\<forall>h body. gws \<noteq> [] \<longrightarrow> gateway_file M (hd gws) = Inr (h, body) \<longrightarrow> (\<exists>g. parse_new_gateway E (TTable body) = Inr g)"
  shows "\<exists>a body gov test srcs c0 c1 c2 gs. read_artifact E (mx_toml_parse M) (dst_contents d') = Inr a
    \<and> load_and_split M core_toml = Inr (body, gov, test) \<and> map_res (\<lambda>e. load_and_split M (pe_toml e)) entries = Inr srcs
    \<and> source_calls E G stage0_calls (gov # map (\<lambda>s. fst (snd s)) srcs) = Inr c0
    \<and> source_calls E G stage1_calls (gov # map (\<lambda>s. fst (snd s)) srcs) = Inr c1
    \<and> source_calls E G stage2_calls (gov # map (\<lambda>s. fst (snd s)) srcs) = Inr c2
    \<and> gateway_calls E G M core_toml gws asset_id = Inr gs
    \<and> decode_calls E G (stage0_calls (artifact_governance_calls a)) = Inr (c0 @ extra_stage0)
    \<and> decode_calls E G (stage1_calls (artifact_governance_calls a)) = Inr (c1 @ rollup_da_manager_setup_calls M entries)
    \<and> decode_calls E G (stage2_calls (artifact_governance_calls a)) = Inr (c2 @ gs)
    \<and> sections_hold toml_eq E entries srcs (ctms a) \<and> zk_governance a = map_option zk_of zk
    \<and> (new_gateway a = None \<longleftrightarrow> gws = [])"
  using written_artifact_read [OF assms] unfolding artifact_holds_def calls_hold_def by (elim exE conjE) (intro exI conjI)

theorem merged_artifact_read_witness:
  "\<exists>a. read_artifact demo_ext (mx_toml_parse demo_merge_ext) (Some demo_written) = Inr a
    \<and> decode_calls demo_ext demo_calls_abi (stage0_calls (artifact_governance_calls a))
      = Inr (demo_stage0 @ [demo_call ''acceptOwnership()''])"
proof -
  have "\<forall>e \<in> set [demo_prepared]. \<forall>body gov test. load_and_split demo_merge_ext (pe_toml e) = Inr (body, gov, test) \<longrightarrow> ctm_section_ok body"
    using demo_ctm_section by (simp add: demo_prepared_def demo_loads)
  from merged_artifact_read [OF demo_calls_codec demo_address_text demo_toml_codec _ demo_merged this]
  show ?thesis
    by (auto simp: demo_prepared_def demo_loads source_calls_def decode_calls_hex [OF demo_calls_codec])
qed

text \<open>
  C27: What is prepared is what is simulated. On the written file the simulator emits the bundles of the
  manifest, then one transaction per call the verifier's artifact holds, stage by stage in order and from
  the given sender, then the test calls. The sender is funded with 1 wei at the first call before stage 2
  and topped up once at the first call of stage 2; only \<^verbatim>\<open>test_upgrade_\<close> calls assume executed batches.
\<close>

theorem prepared_calls_simulated:
  assumes "calls_codec E G" "address_text_codec E" "toml_codec M" "entries \<noteq> []"
    and "write_merged_ecosystem_toml E G M core_toml entries extra_stage0 zk gws asset_id d = (Inr (), d')"
    and "\<forall>e \<in> set entries. \<forall>body gov test. load_and_split M (pe_toml e) = Inr (body, gov, test) \<longrightarrow> ctm_section_ok body"
    and "\<forall>h body. gws \<noteq> [] \<longrightarrow> gateway_file M (hd gws) = Inr (h, body) \<longrightarrow> (\<exists>g. parse_new_gateway E (TTable body) = Inr g)"
    and "fs_read fs (ri_governance_toml ri) = dst_contents d'" "simulator_transactions E G J M S camp_a ri fs = Inr txs"
  shows "\<exists>a bundles stages tests c0 c1 c2. read_artifact E (mx_toml_parse M) (dst_contents d') = Inr a
    \<and> txs = bundles @ stages @ tests
    \<and> decode_calls E G (stage0_calls (artifact_governance_calls a)) = Inr c0
    \<and> decode_calls E G (stage1_calls (artifact_governance_calls a)) = Inr c1
    \<and> decode_calls E G (stage2_calls (artifact_governance_calls a)) = Inr c2
    \<and> map sim_row stages = map (stage_row E 0) c0 @ map (stage_row E 1) c1 @ map (stage_row E 2) c2
    \<and> map sim_value_to_mint stages = first_only ''1'' (length c0 + length c1) @ first_only STAGE2_PUH_FUND_WEI (length c2)
    \<and> (\<forall>t \<in> set stages. sim_from t = address_text E (ri_from ri)) \<and> (\<forall>t \<in> set tests. is_test_tag (sim_tag t))
    \<and> (\<forall>t \<in> set txs. sim_emulate_all_batches_executed t \<noteq> None \<longrightarrow> starts_with ''test_upgrade_'' (sim_tag t))"
proof -
  obtain a where a: "read_artifact E (mx_toml_parse M) (dst_contents d') = Inr a"
    using written_artifact_read [OF assms(1-7)] by blast
  then have "read_artifact E (mx_toml_parse M) (fs_read fs (ri_governance_toml ri)) = Inr a"
    by (simp add: assms(8))
  from simulator_transactions_run [OF assms(9) this] a show ?thesis
    by (elim exE conjE) (intro exI conjI)
qed

theorem prepared_calls_simulated_witness:
  "\<exists>bundles stages tests. simulator_transactions demo_ext demo_calls_abi demo_lines demo_merge_ext demo_sim_ext [0x66] demo_inputs demo_fs
      = Inr (bundles @ stages @ tests)
    \<and> map sim_row stages = map (stage_row demo_ext 0) (demo_stage0 @ [demo_call ''acceptOwnership()''])
    \<and> map sim_value_to_mint stages = [Some ''1'', None, None]"
proof -
  obtain txs where txs: "simulator_transactions demo_ext demo_calls_abi demo_lines demo_merge_ext demo_sim_ext [0x66] demo_inputs demo_fs = Inr txs"
    using demo_simulated by blast
  have ok: "\<forall>e \<in> set [demo_prepared]. \<forall>body gov test. load_and_split demo_merge_ext (pe_toml e) = Inr (body, gov, test) \<longrightarrow> ctm_section_ok body"
    using demo_ctm_section by (simp add: demo_prepared_def demo_loads)
  have reads: "fs_read demo_fs (ri_governance_toml demo_inputs) = dst_contents (demo_merge_dst\<lparr>dst_contents := Some demo_written\<rparr>)"
    by (simp add: demo_inputs_def demo_eco)
  from prepared_calls_simulated [OF demo_calls_codec demo_address_text demo_toml_codec _ demo_merged ok _ reads txs]
  obtain a bundles stages tests c0 c1 c2 where parts:
    "read_artifact demo_ext (mx_toml_parse demo_merge_ext) (Some demo_written) = Inr a" "txs = bundles @ stages @ tests"
    "decode_calls demo_ext demo_calls_abi (stage0_calls (artifact_governance_calls a)) = Inr c0"
    "decode_calls demo_ext demo_calls_abi (stage1_calls (artifact_governance_calls a)) = Inr c1"
    "decode_calls demo_ext demo_calls_abi (stage2_calls (artifact_governance_calls a)) = Inr c2"
    "map sim_row stages = map (stage_row demo_ext 0) c0 @ map (stage_row demo_ext 1) c1 @ map (stage_row demo_ext 2) c2"
    "map sim_value_to_mint stages = first_only ''1'' (length c0 + length c1) @ first_only STAGE2_PUH_FUND_WEI (length c2)"
    by fastforce
  have "c0 = demo_stage0 @ [demo_call ''acceptOwnership()'']" "c1 = []" "c2 = []"
    using parts(3-5) by (simp_all add: demo_written_calls [OF parts(1)] decode_calls_hex [OF demo_calls_codec])
  with parts(2,6,7) txs have "map sim_row stages = map (stage_row demo_ext 0) (demo_stage0 @ [demo_call ''acceptOwnership()''])"
    "map sim_value_to_mint stages = [Some ''1'', None, None]" "txs = bundles @ stages @ tests"
    by (simp_all add: first_only_def demo_stage0_def numeral_2_eq_2)
  with txs show ?thesis by (intro exI [of _ bundles] exI [of _ stages] exI [of _ tests]) simp
qed

text \<open>
  C28: The portable copy. Copying the bundles of the signers that stay into another directory, with a
  manifest of their entries, gives the same simulator transactions as the original manifest, for the same
  explicit signers or with the signers detected anew on the copy.
\<close>

theorem sim_inputs_reproduce:
  assumes "manifest_codec E J" "address_text_codec E"
    and "path_join (path_parent m) [] \<noteq> path_join out_dir []" "out_dir \<noteq> []" "last out_dir \<noteq> CHR ''/''"
    and "load_bundles E J fs m = Inr ls" "\<forall>l \<in> set ls. bare (sb_file (fst l))"
    and "write_sim_inputs E J m ex out_dir fs = (Inr (), fs')"
  shows "manifest_to_simulator_transactions E J S fs' (path_join out_dir MANIFEST) net ex ds tags
    = manifest_to_simulator_transactions E J S fs m net ex ds tags"
  using sim_inputs_same_transactions [OF assms] .

theorem sim_inputs_reproduce_witness:
  "\<exists>fs'. write_sim_inputs demo_ext demo_lines ''p/manifest.json'' [0x66] ''q'' demo_fs = (Inr (), fs')
    \<and> manifest_to_simulator_transactions demo_ext demo_lines demo_sim_ext fs' (path_join ''q'' MANIFEST) ''sepolia'' [0x66] [] []
      = manifest_to_simulator_transactions demo_ext demo_lines demo_sim_ext demo_fs ''p/manifest.json'' ''sepolia'' [0x66] [] []"
proof -
  obtain fs' where run: "write_sim_inputs demo_ext demo_lines ''p/manifest.json'' [0x66] ''q'' demo_fs = (Inr (), fs')"
    using demo_inputs_written by blast
  have "path_join (path_parent ''p/manifest.json'') [] \<noteq> path_join ''q'' []" "\<forall>l \<in> set demo_loaded. bare (sb_file (fst l))"
    by (simp_all add: path_parent_def path_join_def starts_with_iff demo_loaded_def bare_def MANIFEST_def)
  with sim_inputs_reproduce [OF demo_manifest_codec demo_address_text _ _ _ demo_bundles_loaded _ run] run show ?thesis
    by auto
qed

text \<open>
  The stages of an upgrade are replayed in order, each stage over all files before the next: what was run
  is a prefix of that sequence, and all of it when the replay succeeds.
\<close>

theorem replay_stage_order:
  assumes "replay_governance_stages E M (recording_runner F) bridgehub tomls kind (w, []) = (r, (w', done_calls))"
  shows "list_all2 (stage_calldata E M kind) (take (length done_calls) (List.product [0, 1, 2] tomls)) done_calls
    \<and> (\<forall>g. r = Inr g \<longrightarrow> tomls \<noteq> [] \<and> length done_calls = 3 * length tomls)"
proof (cases "tomls = []")
  case True
  with assms show ?thesis by (auto simp: replay_governance_stages_def)
next
  case False
  with assms show ?thesis
    using run_stages_recorded [where E = E and M = M and F = F and bh = bridgehub and kind = kind and xs = "List.product [0, 1, 2] tomls"
        and gov = 0 and w = "(w, [])" and r = r and w' = "(w', done_calls)"]
    by (auto simp: replay_governance_stages_def)
qed

text \<open>
  The two places that infer the flavor of the core contracts disagree when no CTM is Era, the first says
  nothing and a later one is ZKsync OS.
\<close>

theorem core_flavor_inferred:
  "infer_core_is_zk_sync_os entries = config_core_flavor entries \<longleftrightarrow>
    (\<exists>e \<in> set entries. ce_is_zk_sync_os e = Some False) \<or> (\<forall>e \<in> set entries. ce_is_zk_sync_os e = None)
    \<or> ce_is_zk_sync_os (hd entries) \<noteq> None"
  by (rule core_flavor_agree)

text \<open>
  Reordering the admin calls of a bundle keeps its transactions when no admin call stands in it twice;
  with one twice before another, a copy of the first is lost and the second is sent twice.
\<close>

theorem admin_calls_reordered:
  assumes "distinct (map fst tags)" "distinct (map tx_key (filter (\<lambda>tx. tx_key tx \<in> fst ` set tags) txs))"
  shows "mset (emitted_order tags txs) = mset txs"
  using assms by (rule emitted_order_perm)

theorem admin_calls_doubled:
  assumes "tx_key A \<noteq> tx_key B"
  shows "emitted_order [(tx_key A, s), (tx_key B, t)] [A, A, B] = [A, B, B]"
  using assms by (rule emitted_order_doubles)

text \<open>
  A description that asks for an inner call hides all descriptions after it from a call that wraps none.
\<close>

theorem description_lookup_stops:
  assumes "str_get 0 10 data_hex = Some sel" "sd_target e = t" "eq_ignore_ascii_case (sd_selector e) sel"
    and "sd_arg0_address e = None" "sd_l2_contract e = None" "sd_second_bridge_address e = None"
    and "sd_inner_target e \<noteq> None \<or> sd_inner_selector e \<noteq> None" "parse_first_inner_call E S data_hex = None"
  shows "registry_lookup E S (e # es) t data_hex = None"
  using assms by (rule lookup_stops)

section \<open>Migration to and from a gateway\<close>

text \<open>
  C29: Finalizing a migration to a gateway. Whatever the nodes answer, the run has done nothing but ask, and failed, or all it
  did comes after the questions: the gateway answered with a receipt of the priority transaction that is not a failed
  one, later with a finalized block at or above the block of that receipt, and then with the parameters of a proof. Only then is
  L1 forked, the deployer funded, and at most one script run, which makes the finalizing call with exactly these
  parameters; a successful run has made it. The transaction is the one the caller names or the one announced by the
  migration's event.
\<close>

theorem finalize_after_settlement:
  assumes "finalize_migration E (observed V) args (w, []) = Some (r, w', l)"
  shows "quiet [] l \<and> (\<forall>x. r \<noteq> Inr x) \<or>
    (\<exists>gw h. resolve_settlement_layer (fk_views (me_fork V) w (sr_l1_rpc_url (fm_shared args))) (fm_bridgehub args) (fm_chain_id args) = Inr gw
      \<and> priority_op_hash_of E args (fk_views (me_fork V) w (sr_l1_rpc_url (fm_shared args))) gw = Inr h
      \<and> finalized_run E V args gw h (\<exists>x. r = Inr x) l)"
  using assms by (rule finalize_observed)

theorem finalize_after_settlement_witness:
  "\<exists>l. finalized_run demo_ext demo_env demo_finalize_args 506 8 True l"
proof -
  obtain x w' l where run: "finalize_migration demo_ext (observed demo_env) demo_finalize_args (0, []) = Some (Inr x, w', l)"
    using demo_finalize by blast
  have hint: "priority_op_hash_of demo_ext demo_finalize_args H gw = Inr 8" for H gw
    by (simp add: priority_op_hash_of_def demo_finalize_args_def)
  show ?thesis
    using finalize_after_settlement [OF run] by (auto simp: demo_env_fields demo_layer hint)
qed

text \<open>
  C30: Finalizing a migration back to L1. Whatever the nodes answer, phase 2 has done nothing but ask, and failed, or all it did
  comes after a receipt of the priority transaction that is not a failed one, and the fork of L1 is taken in a
  state in which the gateway's contract has executed the batch of the withdrawal. On the fork at most one script is run: the
  finalizing call with the batch, index, message and proof the gateway gave; a successful phase has made it.
\<close>

theorem withdrawal_after_execution:
  assumes "from_phase2_finalize E (observed V) args (w, []) d = Some (r, (w', l), d')"
  shows "quiet [] l \<and> r \<noteq> Inr () \<or>
    (\<exists>bridgehub chain_id gw. chain_args_resolve E (me_files V) (pa_topology args) = Inr (bridgehub, chain_id)
      \<and> resolve_settlement_layer (fk_views (me_fork V) w (sr_l1_rpc_url (pa_shared args))) bridgehub chain_id = Inr gw
      \<and> withdrawn_run E V args bridgehub chain_id gw (r = Inr ()) l)"
  using assms by (rule from_phase2_observed)

theorem withdrawal_after_execution_witness:
  "\<exists>bridgehub chain_id l. withdrawn_run demo_ext demo_env demo_from_args bridgehub chain_id 506 True l"
proof -
  obtain w' l where run: "from_phase2_finalize demo_ext (observed demo_env) demo_from_args (0, []) None = Some (Inr (), (w', l), None)"
    using demo_from by blast
  show ?thesis
    using withdrawal_after_execution [OF run] by (auto simp: demo_env_fields demo_layer)
qed

text \<open>
  C31: The migration commands return. If sleeping takes at least the time asked for and no answer turns the clock back,
  every command of both directions returns, with a result or an error; the loop that waits for the
  receipt and the one that waits for finality each ask at most 152 times.
\<close>

theorem migrations_end:
  assumes "clock_moves V"
  shows "(\<exists>y. run_migrate_to E V c w d = Some y) \<and> (\<exists>y. run_migrate_from E V c' w d = Some y)
    \<and> retry_loop (l2_tx_receipt_body E V url h (me_instant V w)) (pause_of V) w
        = rounds 152 (l2_tx_receipt_body E V url h (me_instant V w)) (pause_of V) w
    \<and> retry_loop (finalized_body V url blk (me_instant V w)) (pause_of V) w = rounds 152 (finalized_body V url blk (me_instant V w)) (pause_of V) w"
  using migrations_return [OF assms] body_rounds(1) [OF assms bodies_end(1) [OF assms]] body_rounds(1) [OF assms bodies_end(2) [OF assms]]
  unfolding poll_limit_def by auto

theorem migrations_end_witness:
  "\<exists>y. run_migrate_to demo_ext demo_env (To_Phase0PauseDeposits \<lparr>pa_shared = demo_shared, pa_topology = demo_topology\<rparr>) 0 None = Some y"
  using migrations_end [OF demo_clock] by blast

text \<open>
  C32: Enabling the validators. When the stage succeeds it has funded the chain admin and then run one script for each
  distinct operator that is not the zero address, in ascending order and no other, each enabling that operator through the given
  or resolved timelock, and it reports their number.
\<close>

theorem validators_enabled:
  assumes "stage_enable_validators E (observed V) bridgehub chain_id inputs (R, w, l) = (Inr (gw, n), R', w', l')"
  shows "\<exists>sender timelock new vs. resolve_chain_admin (fk_views (me_fork V) w (rn_rpc_url R)) bridgehub chain_id = Inr sender
    \<and> (\<forall>a. ev_gateway_validator_timelock inputs = Some a \<longrightarrow> timelock = a)
    \<and> set vs = {ev_commit_operator inputs, ev_prove_operator inputs, ev_execute_operator inputs} - {0} \<and> sorted vs \<and> distinct vs \<and> n = length vs
    \<and> l' = l @ Funded (rn_rpc_url R) sender # new
    \<and> list_all2 (\<lambda>v. ran_call E V (enableValidatorViaGatewayCall bridgehub (ucast (ev_l1_gas_price inputs)) (ucast chain_id) (ucast gw) v timelock sender True)) vs new"
  using enable_validators_observed [OF assms] validators_of_props [of inputs] by blast

theorem validators_enabled_witness:
  "\<exists>R' w' l' new. stage_enable_validators demo_ext (observed demo_env) 0x55 271 demo_enable_inputs (demo_runner, 0, []) = (Inr (506, 2), R', w', l')
    \<and> l' = Funded ''anvil'' 0x58 # new \<and> length new = 2"
proof -
  obtain R' w' l' where run: "stage_enable_validators demo_ext (observed demo_env) 0x55 271 demo_enable_inputs (demo_runner, 0, []) = (Inr (506, 2), R', w', l')"
    using demo_enable by blast
  have admin: "resolve_chain_admin demo_views b c = Inr 0x58" for b c
    by (simp add: resolve_chain_admin_def resolve_zk_chain_def demo_views_def)
  have url: "rn_rpc_url demo_runner = ''anvil''" by (simp add: demo_runner_def)
  from validators_enabled [OF run] obtain new where "l' = Funded ''anvil'' 0x58 # new" "length new = 2"
    by (auto simp: demo_env_fields admin url dest!: list_all2_lengthD)
  with run show ?thesis by blast
qed

text \<open>
  C34: The cut data is never found on chain. The text that \<^verbatim>\<open>resolve_l1_diamond_cut_data\<close> hashes into the topic it asks for is the
  signature of no event \<^verbatim>\<open>IChainTypeManager\<close> declares: it has one more pair of parentheses than that of
  \<^verbatim>\<open>NewUpgradeCutData\<close>. So on a node where the logs of a chain type manager are its declared events or events of another
  name (of its base contracts and proxy), and with no collision among these hashes, phase 1 of the way back fails whenever
  \<^verbatim>\<open>--l1-diamond-cut-data\<close> is not given: no script is run and nothing is written.
\<close>

theorem cut_data_unresolvable:
  assumes "event_nodes E around V (sr_l1_rpc_url (pa_shared args))" "named_otherwise around"
    and "collision_free E (insert CUT_DATA_TOPIC (ctm_signatures \<union> around))" "f1_l1_diamond_cut_data args = None"
    and "from_phase1_submit E (observed V) args (w, []) d = (r, (w', l), d')"
  shows "CUT_DATA_TOPIC \<notin> ctm_signatures \<and> (\<exists>e. r = Inl e) \<and> d' = d \<and> (\<forall>path as. Ran path as \<notin> set l)"
  using cut_data_topic_undeclared submit_phase_without_cut_data [OF assms] by blast

theorem cut_data_unresolvable_witness:
  "\<exists>e. fst (from_phase1_submit demo_ext (observed demo_env) demo_submit_args (0, []) None) = Inl e"
proof -
  obtain r w' l d' where run: "from_phase1_submit demo_ext (observed demo_env) demo_submit_args (0, []) None = (r, (w', l), d')"
    by (metis surj_pair)
  have "f1_l1_diamond_cut_data demo_submit_args = None" by (simp add: demo_submit_args_def)
  from cut_data_unresolvable [OF demo_event_nodes demo_around_named demo_collision_free this run] run show ?thesis by auto
qed

text \<open>
  C33: What a run of a script call records. A successful run of one of the scripts with calldata either leaves the recorded runs
  as they are, which happens only when forge failed with a message, or adds one run of this script. Its file is
  \<^verbatim>\<open><foundry>/broadcast/[<subdir>/]<script>/<chain id>/<first eight hex digits of the calldata>-latest.json\<close>, when it exists after
  the run, and its payload is the contents of that file exactly if the raw time stamp in it is not before the second in which
  the run began, in seconds up to \<open>10 ^ 12\<close> and in milliseconds above; otherwise, and without a file, it is null. So a file
  left by an earlier run, of this or another call, is never taken for this one.
\<close>

theorem broadcast_file_fresh:
  assumes "hex_text_codec E" "plain_paths R" "fa_args (rn_forge_args R) = []"
    and "invocation \<in> set ALL_INVOCATIONS" "script_at (pm_script_path invocation) name" "calldata \<noteq> []"
    and "runner_run F J (script_with_calldata E R invocation calldata) R w = (Inr (), R', w')"
  shows "rn_runs R' = rn_runs R
      \<and> (\<exists>args envs err. fst (fw_exec F w (rn_foundry_path R) (pm_script_path invocation) args envs) = Inl (Some err))
    \<or> (\<exists>x. rn_runs R' = rn_runs R @ [x] \<and> fr_script x = pm_script_path invocation
        \<and> records_call E F J R name calldata (fw_now_ms F w) w' x)"
  using run_records_call [OF assms(2,5,1,6,3,4,7)] .

theorem broadcast_file_fresh_witness:
  "\<exists>R' x. runner_run (demo_forge True) demo_broadcast_io
      (script_call demo_ext demo_env demo_runner (notifyServerMigrationToGatewayCall 0x55 271 True)) demo_runner 0 = (Inr (), R', 0)
    \<and> rn_runs R' = [x] \<and> fr_payload x = demo_broadcast_file
    \<and> fr_broadcast_file x = Some (''/repo/l1-contracts/broadcast/AdminFunctions.s.sol/9/'' @ take 8 (hex_encode demo_ext [1, 2, 3, 4]) @ ''-latest.json'')"
proof -
  have script: "script_call demo_ext demo_env demo_runner (notifyServerMigrationToGatewayCall 0x55 271 True)
      = script_with_calldata demo_ext demo_runner ADMIN_FUNCTIONS_INVOCATION [1, 2, 3, 4]"
    by (simp add: script_call_def demo_env_def)
  obtain R' where both: "runner_run (demo_forge True) demo_broadcast_io
      (script_call demo_ext demo_env demo_runner (notifyServerMigrationToGatewayCall 0x55 271 True)) demo_runner 0 = (Inr (), R', 0)
    \<and> map fr_payload (rn_runs R') = [demo_broadcast_file]" using demo_recorded by (rule exE)
  note run = conjunct1 [OF both] and payload = conjunct2 [OF both]
  have runs: "rn_runs demo_runner = []" by (simp add: demo_runner_def)
  have nine: "show_nat 9 = ''9''" by code_simp
  have "ADMIN_FUNCTIONS_INVOCATION \<in> set ALL_INVOCATIONS" by (simp add: ALL_INVOCATIONS_def)
  from broadcast_file_fresh [OF demo_hex_text demo_plain_paths this demo_script_at _ run [unfolded script]] payload runs
  obtain x where x: "rn_runs R' = [x]" "fr_payload x = demo_broadcast_file"
    "records_call demo_ext (demo_forge True) demo_broadcast_io demo_runner ''AdminFunctions.s.sol'' [1, 2, 3, 4] 4000 0 x"
    by (auto simp: demo_forge_def)
  then have "fr_broadcast_file x = Some (''/repo/l1-contracts/broadcast/AdminFunctions.s.sol/9/'' @ take 8 (hex_encode demo_ext [1, 2, 3, 4]) @ ''-latest.json'')"
    by (simp add: records_call_def demo_forge_def call_file_def broadcast_dir_def broadcast_root_def demo_runner_def nine)
  with x run show ?thesis by blast
qed

text \<open>
  Of the extra arguments of the command line a subsequence reaches forge in which no argument has a forbidden
  form; a forbidden name that is an argument of its own is not recognised as one.
\<close>

theorem extra_arguments_cleaned:
  "\<exists>known rest. build_args fa = map arg_text known @ rest \<and> subseq rest (fa_additional_args fa)
    \<and> (\<forall>a \<in> set rest. \<not> prohibited_with_spacing a \<and> \<not> prohibited_with_equals a)"
proof -
  obtain known where "build_args fa = map arg_text known @ cleaned_args False (fa_additional_args fa)" using build_args_shape by blast
  then show ?thesis
    using cleaned_subseq [of False "fa_additional_args fa"] cleaned_allowed [of _ False "fa_additional_args fa"]
    by (intro exI [of _ known] exI [of _ "cleaned_args False (fa_additional_args fa)"]) blast
qed

theorem prohibited_names_pass:
  assumes "p \<in> set PROHIBITED_ARGS"
  shows "cleaned_args False [p, v] = p # cleaned_args False [v]"
  using prohibited_name_passes [OF assms] by simp

end
